(* ===== verification/Prelude.thy ===== *)
theory Prelude
  imports Complex_Main "HOL-Library.Product_Lexorder" "HOL-Library.Char_ord" "HOL-Library.List_Lexorder"
begin

text \<open>
  What every component shares: identifiers and timestamps, the operations on strings
  that the code uses, a state monad whose errors keep the state (a Python exception does
  not undo the mutations made before it), the calculus that proves state properties of
  such programs, and the operations on tables of rows.
\<close>

section \<open>Programs with a state and exceptions\<close>

text \<open>
  A program maps a state to a result, an exception or a value, and the state it leaves.
  The state of a failed run is the one the exception left behind: \<open>except\<close> blocks and
  callers that commit after a failure observe it.
\<close>

type_synonym ('s, 'e, 'a) prog = "'s \<Rightarrow> ('e + 'a) \<times> 's"

definition ret :: "'a \<Rightarrow> ('s, 'e, 'a) prog" where
  "ret x = (\<lambda>s. (Inr x, s))"

definition raise :: "'e \<Rightarrow> ('s, 'e, 'a) prog" where
  "raise e = (\<lambda>s. (Inl e, s))"

definition bindE :: "('s, 'e, 'a) prog \<Rightarrow> ('a \<Rightarrow> ('s, 'e, 'b) prog) \<Rightarrow> ('s, 'e, 'b) prog" where
  "bindE m f = (\<lambda>s. case m s of (r, s') \<Rightarrow> (case r of Inl e \<Rightarrow> (Inl e, s') | Inr x \<Rightarrow> f x s'))"

definition gets :: "('s \<Rightarrow> 'a) \<Rightarrow> ('s, 'e, 'a) prog" where
  "gets g = (\<lambda>s. (Inr (g s), s))"

definition modify :: "('s \<Rightarrow> 's) \<Rightarrow> ('s, 'e, unit) prog" where
  "modify g = (\<lambda>s. (Inr (), g s))"

text \<open>\<open>require b e\<close> is \<open>if not b: raise e\<close>; \<open>perhaps b m\<close> is \<open>if b: m\<close>.\<close>

definition require :: "bool \<Rightarrow> 'e \<Rightarrow> ('s, 'e, unit) prog" where
  "require b e = (if b then ret () else raise e)"

definition perhaps :: "bool \<Rightarrow> ('s, 'e, unit) prog \<Rightarrow> ('s, 'e, unit) prog" where
  "perhaps b m = (if b then m else ret ())"

text \<open>\<open>some_or e x\<close> is \<open>if x is None: raise e\<close>, continuing with the value.\<close>

definition some_or :: "'e \<Rightarrow> 'a option \<Rightarrow> ('s, 'e, 'a) prog" where
  "some_or e x = (case x of None \<Rightarrow> raise e | Some v \<Rightarrow> ret v)"

definition catchE :: "('s, 'e, 'a) prog \<Rightarrow> ('e \<Rightarrow> ('s, 'e, 'a) prog) \<Rightarrow> ('s, 'e, 'a) prog" where
  "catchE m h = (\<lambda>s. case m s of (r, s') \<Rightarrow> (case r of Inl e \<Rightarrow> h e s' | Inr x \<Rightarrow> (Inr x, s')))"

text \<open>A transaction or savepoint: an exception restores the state at entry.\<close>

definition atomically :: "('s, 'e, 'a) prog \<Rightarrow> ('s, 'e, 'a) prog" where
  "atomically m = (\<lambda>s. case m s of (r, s') \<Rightarrow> (case r of Inl e \<Rightarrow> (Inl e, s) | Inr x \<Rightarrow> (Inr x, s')))"

primrec mapE :: "('x \<Rightarrow> ('s, 'e, 'a) prog) \<Rightarrow> 'x list \<Rightarrow> ('s, 'e, 'a list) prog" where
  "mapE f [] = ret []"
| "mapE f (x # xs) = bindE (f x) (\<lambda>y. bindE (mapE f xs) (\<lambda>ys. ret (y # ys)))"

lemmas prog_defs = ret_def raise_def gets_def modify_def require_def perhaps_def some_or_def

lemma bindE_assoc: "bindE (bindE m f) g = bindE m (\<lambda>x. bindE (f x) g)"
  by (rule ext) (simp add: bindE_def split: prod.split sum.split)

lemma bindE_ret [simp]: "bindE (ret x) f = f x"
  by (simp add: bindE_def ret_def)

lemma bindE_ret_right: "bindE m ret = m"
  by (rule ext) (simp add: bindE_def ret_def split: prod.split sum.split)

lemma bindE_raise [simp]: "bindE (raise e) f = raise e"
  by (simp add: bindE_def raise_def)

lemma require_True [simp]: "require True e = ret ()" and require_False [simp]: "require False e = raise e"
  by (simp_all add: require_def)

lemma perhaps_True [simp]: "perhaps True m = m" and perhaps_False [simp]: "perhaps False m = ret ()"
  by (simp_all add: perhaps_def)

lemma some_or_Some [simp]: "some_or e (Some x) = ret x" and some_or_None [simp]: "some_or e None = raise e"
  by (simp_all add: some_or_def)

lemma run_ret [simp]: "ret x s = (Inr x, s)"
  by (simp add: ret_def)

lemma run_raise [simp]: "raise e s = (Inl e, s)"
  by (simp add: raise_def)

lemma run_gets [simp]: "gets g s = (Inr (g s), s)"
  by (simp add: gets_def)

lemma run_modify [simp]: "modify g s = (Inr (), g s)"
  by (simp add: modify_def)

lemma run_bindE: "bindE m f s = (case m s of (r, s') \<Rightarrow> (case r of Inl e \<Rightarrow> (Inl e, s') | Inr x \<Rightarrow> f x s'))"
  by (simp add: bindE_def)

lemma run_bind_gets [simp]: "bindE (gets g) f s = f (g s) s"
  by (simp add: bindE_def)

lemma run_bind_modify [simp]: "bindE (modify g) f s = f () (g s)"
  by (simp add: bindE_def)

lemma run_bind_require: "bindE (require b e) f s = (if b then f () s else (Inl e, s))"
  by simp

lemma run_bind_some_or: "bindE (some_or e x) f s = (case x of None \<Rightarrow> (Inl e, s) | Some v \<Rightarrow> f v s)"
  by (cases x) simp_all

lemma run_bind_perhaps_modify [simp]: "bindE (perhaps b (modify g)) f s = f () (if b then g s else s)"
  by (cases b) simp_all

lemma run_atomically:
  "atomically m s = (case m s of (r, s') \<Rightarrow> (case r of Inl e \<Rightarrow> (Inl e, s) | Inr x \<Rightarrow> (Inr x, s')))"
  by (simp add: atomically_def)

lemma run_catchE:
  "catchE m h s = (case m s of (r, s') \<Rightarrow> (case r of Inl e \<Rightarrow> h e s' | Inr x \<Rightarrow> (Inr x, s')))"
  by (simp add: catchE_def)

text \<open>Inversion of a run that returned: each step returned.\<close>

lemma bindE_InrE:
  assumes "bindE m f s = (Inr y, s')"
  obtains x s1 where "m s = (Inr x, s1)" and "f x s1 = (Inr y, s')"
  using assms by (auto simp: bindE_def split: prod.splits sum.splits)

lemma some_or_run: "some_or e x s = (Inr v, t) \<longleftrightarrow> x = Some v \<and> t = s"
  by (auto simp: some_or_def split: option.splits)

lemma require_run: "require b e s = (Inr u, t) \<longleftrightarrow> b \<and> t = s"
  by (auto simp: require_def)

lemma gets_run: "gets g s = (r, t) \<longleftrightarrow> r = Inr (g s) \<and> t = s"
  by (auto simp: gets_def)

text \<open>The value of a run, if it returned, and whether it raised a given exception.\<close>

fun value_of :: "('e + 'a) \<times> 's \<Rightarrow> 'a option" where
  "value_of (Inr x, _) = Some x"
| "value_of (Inl _, _) = None"

fun error_of :: "('e + 'a) \<times> 's \<Rightarrow> 'e option" where
  "error_of (Inl e, _) = Some e"
| "error_of (Inr _, _) = None"

lemma value_of_SomeD: "value_of r = Some x \<Longrightarrow> r = (Inr x, snd r)"
  by (cases r rule: value_of.cases) simp_all

lemma error_of_SomeD: "error_of r = Some e \<Longrightarrow> r = (Inl e, snd r)"
  by (cases r rule: error_of.cases) simp_all

section \<open>State properties of every run, failed or not\<close>

text \<open>
  \<open>evolves R m\<close>: whatever \<open>m\<close> does, returning or raising, the state it leaves is related
  by \<open>R\<close> to the state it started from.
\<close>

definition evolves :: "('s \<Rightarrow> 's \<Rightarrow> bool) \<Rightarrow> ('s, 'e, 'a) prog \<Rightarrow> bool" where
  "evolves R m \<longleftrightarrow> (\<forall>s. R s (snd (m s)))"

lemma evolvesD: "evolves R m \<Longrightarrow> R s (snd (m s))"
  by (simp add: evolves_def)

lemma evolvesI: "(\<And>s. R s (snd (m s))) \<Longrightarrow> evolves R m"
  by (simp add: evolves_def)

lemma evolves_run: "evolves R m \<Longrightarrow> m s = (r, s') \<Longrightarrow> R s s'"
  by (drule evolvesD [where s = s]) simp

lemma evolves_modify: "(\<And>s. R s (g s)) \<Longrightarrow> evolves R (modify g)"
  by (simp add: evolves_def)

lemma evolves_if: "(b \<Longrightarrow> evolves R m) \<Longrightarrow> (\<not> b \<Longrightarrow> evolves R n) \<Longrightarrow> evolves R (if b then m else n)"
  by simp

lemma evolves_case_option:
  "(x = None \<Longrightarrow> evolves R m) \<Longrightarrow> (\<And>v. x = Some v \<Longrightarrow> evolves R (f v)) \<Longrightarrow>
   evolves R (case x of None \<Rightarrow> m | Some v \<Rightarrow> f v)"
  by (cases x) simp_all

lemma evolves_case_prod: "(\<And>a b. x = (a, b) \<Longrightarrow> evolves R (f a b)) \<Longrightarrow> evolves R (case x of (a, b) \<Rightarrow> f a b)"
  by (cases x) simp

lemma evolves_case_list:
  "(x = [] \<Longrightarrow> evolves R m) \<Longrightarrow> (\<And>v vs. x = v # vs \<Longrightarrow> evolves R (f v vs)) \<Longrightarrow>
   evolves R (case x of [] \<Rightarrow> m | v # vs \<Rightarrow> f v vs)"
  by (cases x) simp_all

lemma evolves_case_sum:
  "(\<And>v. x = Inl v \<Longrightarrow> evolves R (g v)) \<Longrightarrow> (\<And>v. x = Inr v \<Longrightarrow> evolves R (f v)) \<Longrightarrow>
   evolves R (case x of Inl v \<Rightarrow> g v | Inr v \<Rightarrow> f v)"
  by (cases x) simp_all

lemma evolves_let: "evolves R (f x) \<Longrightarrow> evolves R (Let x f)"
  by (simp add: Let_def)

definition evolves_from :: "('s \<Rightarrow> 's \<Rightarrow> bool) \<Rightarrow> ('s \<Rightarrow> bool) \<Rightarrow> ('s, 'e, 'a) prog \<Rightarrow> bool" where
  "evolves_from R P m \<longleftrightarrow> (\<forall>s. P s \<longrightarrow> R s (snd (m s)))"

lemma evolves_from_case_option:
  "(x = None \<Longrightarrow> evolves_from R P m) \<Longrightarrow> (\<And>v. x = Some v \<Longrightarrow> evolves_from R P (f v)) \<Longrightarrow>
   evolves_from R P (case x of None \<Rightarrow> m | Some v \<Rightarrow> f v)"
  by (cases x) simp_all

lemma evolves_from_if:
  "(b \<Longrightarrow> evolves_from R P m) \<Longrightarrow> (\<not> b \<Longrightarrow> evolves_from R P n) \<Longrightarrow> evolves_from R P (if b then m else n)"
  by simp

lemma evolves_from_let: "evolves_from R P (f x) \<Longrightarrow> evolves_from R P (Let x f)"
  by (simp add: Let_def)

text \<open>
  The interface of a state order: reflexive and transitive. Its lemmas carry \<open>evolves\<close>
  through every construct, so that a component only proves its own updates. An invariant
  is the order \<open>\<lambda>s t. I s \<longrightarrow> I t\<close>; a frame condition is equality of a projection.
\<close>

locale state_order =
  fixes R :: "'s \<Rightarrow> 's \<Rightarrow> bool"
  assumes R_refl: "R s s"
    and R_trans: "R s t \<Longrightarrow> R t u \<Longrightarrow> R s u"
begin

lemma evolves_ret: "evolves R (ret x)"
  by (simp add: evolves_def R_refl)

lemma evolves_raise: "evolves R (raise e)"
  by (simp add: evolves_def R_refl)

lemma evolves_gets: "evolves R (gets g)"
  by (simp add: evolves_def R_refl)

lemma evolves_require: "evolves R (require b e)"
  by (simp add: require_def evolves_ret evolves_raise)

lemma evolves_some_or: "evolves R (some_or e x)"
  by (cases x) (simp_all add: evolves_ret evolves_raise)

lemma evolves_perhaps: "(b \<Longrightarrow> evolves R m) \<Longrightarrow> evolves R (perhaps b m)"
  by (cases b) (simp_all add: evolves_ret)

lemma evolves_bind:
  assumes "evolves R m" and "\<And>x. evolves R (f x)"
  shows "evolves R (bindE m f)"
proof (rule evolvesI)
  fix s
  obtain r s1 where m: "m s = (r, s1)" by (cases "m s") auto
  with assms(1) have 1: "R s s1" by (rule evolves_run)
  show "R s (snd (bindE m f s))"
  proof (cases r)
    case (Inl e)
    with m 1 show ?thesis by (simp add: bindE_def)
  next
    case (Inr x)
    from assms(2) have "R s1 (snd (f x s1))" by (rule evolvesD)
    with m 1 Inr show ?thesis by (auto simp: bindE_def intro: R_trans)
  qed
qed

lemma evolves_catch:
  assumes "evolves R m" and "\<And>e. evolves R (h e)"
  shows "evolves R (catchE m h)"
proof (rule evolvesI)
  fix s
  obtain r s1 where m: "m s = (r, s1)" by (cases "m s") auto
  with assms(1) have 1: "R s s1" by (rule evolves_run)
  show "R s (snd (catchE m h s))"
  proof (cases r)
    case (Inl e)
    from assms(2) have "R s1 (snd (h e s1))" by (rule evolvesD)
    with m 1 Inl show ?thesis by (auto simp: catchE_def intro: R_trans)
  next
    case (Inr x)
    with m 1 show ?thesis by (simp add: catchE_def)
  qed
qed

lemma evolves_atomically: "evolves R m \<Longrightarrow> evolves R (atomically m)"
  by (auto simp: evolves_def atomically_def R_refl split: prod.splits sum.splits)
     (metis snd_conv)

lemma evolves_mapE: "(\<And>x. evolves R (f x)) \<Longrightarrow> evolves R (mapE f xs)"
  by (induction xs) (simp_all add: evolves_ret evolves_bind)

text \<open>
  \<open>evolves_from R P m\<close> is the same for runs from states with \<open>P\<close>: a guard read from a
  row, for an update of that row further down.
\<close>

lemma from_evolves: "evolves R m \<Longrightarrow> evolves_from R P m"
  by (simp add: evolves_from_def evolves_def)

lemma evolves_from_top: "evolves_from R (\<lambda>_. True) m \<Longrightarrow> evolves R m"
  by (simp add: evolves_from_def evolves_def)

lemma from_gets: "(\<And>x. evolves_from R (\<lambda>s. P s \<and> g s = x) (f x)) \<Longrightarrow> evolves_from R P (bindE (gets g) f)"
  by (simp add: evolves_from_def)

lemma from_require: "(b \<Longrightarrow> evolves_from R P (f ())) \<Longrightarrow> evolves_from R P (bindE (require b e) f)"
  by (cases b) (simp_all add: evolves_from_def R_refl)

lemma from_some_or: "(\<And>v. x = Some v \<Longrightarrow> evolves_from R P (f v)) \<Longrightarrow> evolves_from R P (bindE (some_or e x) f)"
  by (cases x) (simp_all add: evolves_from_def R_refl)

lemma from_weaken: "evolves_from R Q m \<Longrightarrow> (\<And>s. P s \<Longrightarrow> Q s) \<Longrightarrow> evolves_from R P m"
  by (simp add: evolves_from_def)

lemma from_bind:
  assumes "evolves_from R P m" and "evolves_from (\<lambda>s t. P s \<longrightarrow> P t) P m"
    and "\<And>x. evolves_from R P (f x)"
  shows "evolves_from R P (bindE m f)"
  unfolding evolves_from_def
proof (intro allI impI)
  fix s
  assume P: "P s"
  obtain r s1 where m: "m s = (r, s1)" by (cases "m s") auto
  from assms(1,2) P m have 1: "R s s1" and P1: "P s1"
    by (auto simp: evolves_from_def dest!: spec [where x = s])
  show "R s (snd (bindE m f s))"
  proof (cases r)
    case (Inl e)
    with m 1 show ?thesis by (simp add: bindE_def)
  next
    case (Inr x)
    from assms(3) P1 have "R s1 (snd (f x s1))" by (simp add: evolves_from_def)
    with m 1 Inr show ?thesis by (auto simp: bindE_def intro: R_trans)
  qed
qed

lemma from_then:
  assumes "evolves_from R P m" and "\<And>x. evolves R (f x)"
  shows "evolves_from R P (bindE m f)"
  unfolding evolves_from_def
proof (intro allI impI)
  fix s
  assume P: "P s"
  obtain r s1 where m: "m s = (r, s1)" by (cases "m s") auto
  from assms(1) P m have 1: "R s s1" by (auto simp: evolves_from_def dest!: spec [where x = s])
  show "R s (snd (bindE m f s))"
  proof (cases r)
    case (Inl e)
    with m 1 show ?thesis by (simp add: bindE_def)
  next
    case (Inr x)
    from assms(2) have "R s1 (snd (f x s1))" by (rule evolvesD)
    with m 1 Inr show ?thesis by (auto simp: bindE_def intro: R_trans)
  qed
qed

lemmas evolve_rules =
  evolves_bind evolves_ret evolves_raise evolves_gets evolves_require evolves_some_or
  evolves_perhaps evolves_catch evolves_atomically evolves_mapE
  evolves_if evolves_case_option evolves_case_prod evolves_case_list evolves_case_sum evolves_let

end

locale state_invariant =
  fixes I :: "'s \<Rightarrow> bool"
begin

lemma evolves_preserves: "evolves (\<lambda>s t. I s \<longrightarrow> I t) m \<Longrightarrow> I s \<Longrightarrow> m s = (r, s') \<Longrightarrow> I s'"
  by (drule evolves_run) auto

end

sublocale state_invariant \<subseteq> state_order "\<lambda>s t. I s \<longrightarrow> I t"
  by unfold_locales auto

section \<open>Identifiers, numbers and strings\<close>

text \<open>
  A UUID is its 128-bit value; \<open>uuid4()\<close> draws the next unused one from the state's supply,
  which stands for the documented uniqueness of random UUIDs. A timestamp is an integer
  number of microseconds since the epoch, in UTC.
\<close>

type_synonym uuid = nat
type_synonym time = int

definition seconds :: "int \<Rightarrow> time" where "seconds n = n * 1000000"
definition minutes :: "int \<Rightarrow> time" where "minutes n = n * 60000000"
definition hours :: "int \<Rightarrow> time" where "hours n = n * 3600000000"
definition days :: "int \<Rightarrow> time" where "days n = n * 86400000000"

definition digit_chars :: string where
  "digit_chars = ''0123456789abcdef''"

definition digit_char :: "nat \<Rightarrow> char" where
  "digit_char d = digit_chars ! d"

definition digit_val :: "char \<Rightarrow> nat option" where
  "digit_val c =
     (let n = of_char c :: nat in
      if 48 \<le> n \<and> n \<le> 57 then Some (n - 48)
      else if 97 \<le> n \<and> n \<le> 102 then Some (n - 87)
      else if 65 \<le> n \<and> n \<le> 70 then Some (n - 55)
      else None)"

fun digits :: "nat \<Rightarrow> nat \<Rightarrow> string" where
  "digits b n = (if n < b \<or> b < 2 then [digit_char n] else digits b (n div b) @ [digit_char (n mod b)])"

declare digits.simps [simp del]

text \<open>The value of a digit string in a base, \<open>None\<close> if a character is no digit of it.\<close>

fun digits_val :: "nat \<Rightarrow> nat \<Rightarrow> string \<Rightarrow> nat option" where
  "digits_val b acc [] = Some acc"
| "digits_val b acc (c # cs) =
     (case digit_val c of
        None \<Rightarrow> None
      | Some d \<Rightarrow> if d < b then digits_val b (acc * b + d) cs else None)"

lemma digit_val_char: "d < 16 \<Longrightarrow> digit_val (digit_char d) = Some d"
proof -
  have "\<forall>d \<in> set [0..<16]. digit_val (digit_char d) = Some d" by code_simp
  then show "d < 16 \<Longrightarrow> digit_val (digit_char d) = Some d" by simp
qed

lemma digits_val_append:
  "digits_val b acc (xs @ ys) = (case digits_val b acc xs of None \<Rightarrow> None | Some v \<Rightarrow> digits_val b v ys)"
  by (induction b acc xs rule: digits_val.induct) (auto split: option.split)

lemma digits_val_digits: "2 \<le> b \<Longrightarrow> b \<le> 16 \<Longrightarrow> digits_val b 0 (digits b n) = Some n"
proof (induction b n rule: digits.induct)
  case (1 b n)
  show ?case
  proof (cases "n < b")
    case True
    with 1 show ?thesis by (simp add: digits.simps [of b n] digit_val_char)
  next
    case False
    with 1 have IH: "digits_val b 0 (digits b (n div b)) = Some (n div b)" by simp
    from 1(2,3) have d: "n mod b < b" "n mod b < 16"
      by (auto intro: less_le_trans [of _ b])
    from False 1(2) have "digits b n = digits b (n div b) @ [digit_char (n mod b)]"
      by (simp add: digits.simps [of b n])
    with IH d show ?thesis by (simp add: digits_val_append digit_val_char)
  qed
qed

lemma digits_val_zeros: "2 \<le> b \<Longrightarrow> digits_val b 0 (replicate k (CHR ''0'') @ ds) = digits_val b 0 ds"
  by (induction k) (auto simp: digit_val_def)

lemma digits_inject:
  assumes "2 \<le> b" and "b \<le> 16" and "digits b m = digits b n"
  shows "m = n"
proof -
  have "Some m = digits_val b 0 (digits b m)" using assms(1,2) by (rule digits_val_digits [symmetric])
  also have "\<dots> = digits_val b 0 (digits b n)" by (simp only: assms(3))
  also have "\<dots> = Some n" using assms(1,2) by (rule digits_val_digits)
  finally show ?thesis by simp
qed

text \<open>\<open>str(n)\<close> of an integer, and \<open>str(u)\<close> of a UUID: 32 hexadecimal digits in five groups.\<close>

definition nat_str :: "nat \<Rightarrow> string" where
  "nat_str n = digits 10 n"

definition int_str :: "int \<Rightarrow> string" where
  "int_str i = (if i < 0 then CHR ''-'' # nat_str (nat (- i)) else nat_str (nat i))"

definition uuid_hex :: "uuid \<Rightarrow> string" where
  "uuid_hex u = (let ds = digits 16 u in replicate (32 - length ds) (CHR ''0'') @ ds)"

definition uuid_str :: "uuid \<Rightarrow> string" where
  "uuid_str u =
     (let h = uuid_hex u in
      take 8 h @ ''-'' @ take 4 (drop 8 h) @ ''-'' @ take 4 (drop 12 h) @ ''-'' @
      take 4 (drop 16 h) @ ''-'' @ drop 20 h)"

text \<open>\<open>t.replace(p, "")\<close> for a non-empty \<open>p\<close>.\<close>

function without :: "string \<Rightarrow> string \<Rightarrow> string" where
  "without p [] = []"
| "without p (c # cs) = (if take (length p) (c # cs) = p then without p (drop (length p - 1) cs) else c # without p cs)"
  by pat_completeness auto

termination
  by (relation "measure (\<lambda>(p, t). length t)") auto

lemma without_none: "c \<in> set p \<Longrightarrow> c \<notin> set t \<Longrightarrow> without p t = t"
proof (induction p t rule: without.induct)
  case (2 p d cs)
  have "take (length p) (d # cs) \<noteq> p" using 2(3,4) by (metis in_set_takeD)
  with 2 show ?case by simp
qed simp

text \<open>
  \<open>UUID(text)\<close>: the marks \<open>urn:\<close> and \<open>uuid:\<close> are dropped, surrounding braces
  stripped, hyphens dropped, and 32 hexadecimal digits must remain; otherwise \<open>ValueError\<close>.
\<close>

definition uuid_of_str :: "string \<Rightarrow> uuid option" where
  "uuid_of_str t =
     (let brace = (\<lambda>c. c = CHR ''{'' \<or> c = CHR ''}'');
          bare = without ''uuid:'' (without ''urn:'' t);
          core = rev (dropWhile brace (rev (dropWhile brace bare)));
          h = filter (\<lambda>c. c \<noteq> CHR ''-'') core
      in if length h = 32 then digits_val 16 0 h else None)"

lemma nat_str_inject [simp]: "nat_str m = nat_str n \<longleftrightarrow> m = n"
proof
  assume "nat_str m = nat_str n"
  then show "m = n" unfolding nat_str_def by (rule digits_inject [of 10, rotated 2]) simp_all
qed simp

definition is_digit :: "char \<Rightarrow> bool" where
  "is_digit c \<longleftrightarrow> c \<in> set digit_chars"

lemma digit_char_is_digit: "d < 16 \<Longrightarrow> is_digit (digit_char d)"
proof -
  have "length digit_chars = 16" by (simp add: digit_chars_def)
  then show "d < 16 \<Longrightarrow> is_digit (digit_char d)"
    unfolding is_digit_def digit_char_def by (intro nth_mem) simp
qed

lemma digits_are_digits: "2 \<le> b \<Longrightarrow> b \<le> 16 \<Longrightarrow> c \<in> set (digits b n) \<Longrightarrow> is_digit c"
proof (induction b n rule: digits.induct)
  case (1 b n)
  have d: "n mod b < 16" using 1(2,3) by (meson less_le_trans mod_less_divisor less_le_trans zero_less_numeral)
  show ?case
  proof (cases "n < b")
    case True
    with 1 show ?thesis by (simp add: digits.simps [of b n] digit_char_is_digit)
  next
    case False
    with 1 d show ?thesis by (auto simp: digits.simps [of b n] digit_char_is_digit)
  qed
qed

lemma uuid_hex_digits: "c \<in> set (uuid_hex u) \<Longrightarrow> is_digit c"
  using digits_are_digits [of 16 c u]
  by (auto simp: uuid_hex_def Let_def) (simp add: is_digit_def digit_chars_def)

lemma is_digit_not [simp]:
  "\<not> is_digit (CHR ''-'')" "\<not> is_digit (CHR '':'')" "\<not> is_digit (CHR ''{'')" "\<not> is_digit (CHR ''}'')"
  by (simp_all add: is_digit_def digit_chars_def)

lemma uuid_str_chars: "c \<in> set (uuid_str u) \<Longrightarrow> is_digit c \<or> c = CHR ''-''"
  unfolding uuid_str_def Let_def
  by (auto dest!: in_set_takeD in_set_dropD intro: uuid_hex_digits)

lemma colon_not_in_uuid_str [simp]: "CHR '':'' \<notin> set (uuid_str u)"
  using uuid_str_chars [of "CHR '':''" u] by auto

lemma uuid_str_hex: "filter (\<lambda>c. c \<noteq> CHR ''-'') (uuid_str u) = uuid_hex u"
proof -
  have keep: "filter (\<lambda>c. c \<noteq> CHR ''-'') xs = xs" if "set xs \<subseteq> set (uuid_hex u)" for xs
    using that by (intro filter_True) (auto dest!: uuid_hex_digits)
  have join: "take 8 h @ take 4 (drop 8 h) @ take 4 (drop 12 h) @ take 4 (drop 16 h) @ drop 20 h = h"
    for h :: string
  proof -
    have "take 4 (drop 16 h) @ drop 20 h = drop 16 h"
      using append_take_drop_id [of 4 "drop 16 h"] by simp
    moreover have "take 4 (drop 12 h) @ drop 16 h = drop 12 h"
      using append_take_drop_id [of 4 "drop 12 h"] by simp
    moreover have "take 4 (drop 8 h) @ drop 12 h = drop 8 h"
      using append_take_drop_id [of 4 "drop 8 h"] by simp
    ultimately show ?thesis by simp
  qed
  show ?thesis
    by (simp add: uuid_str_def Let_def keep set_take_subset set_drop_subset join
        subset_trans [OF set_take_subset set_drop_subset])
qed

lemma uuid_hex_val: "digits_val 16 0 (uuid_hex u) = Some u"
proof -
  have "digits_val 16 0 (uuid_hex u) = digits_val 16 0 (digits 16 u)"
    unfolding uuid_hex_def Let_def by (rule digits_val_zeros) simp
  also have "\<dots> = Some u" by (rule digits_val_digits) simp_all
  finally show ?thesis .
qed

lemma uuid_hex_inject: "uuid_hex u = uuid_hex v \<Longrightarrow> u = v"
  by (metis uuid_hex_val option.inject)

lemma uuid_str_inject [simp]: "uuid_str u = uuid_str v \<longleftrightarrow> u = v"
  by (metis uuid_str_hex uuid_hex_inject)

text \<open>A separator that occurs in neither left part splits an f-string uniquely.\<close>

lemma split_at_sep:
  "c \<notin> set xs \<Longrightarrow> c \<notin> set ys \<Longrightarrow> xs @ c # us = ys @ c # vs \<longleftrightarrow> xs = ys \<and> us = vs"
proof (induction xs arbitrary: ys)
  case Nil
  then show ?case by (cases ys) auto
next
  case (Cons x xs)
  then show ?case by (cases ys) auto
qed

text \<open>\<open>s.strip()\<close>, \<open>s.lower()\<close>, \<open>s.upper()\<close>, on the ASCII characters.\<close>

definition is_space :: "char \<Rightarrow> bool" where
  "is_space c \<longleftrightarrow> (let n = of_char c :: nat in n = 32 \<or> (9 \<le> n \<and> n \<le> 13) \<or> (28 \<le> n \<and> n \<le> 31))"

definition strip :: "string \<Rightarrow> string" where
  "strip t = rev (dropWhile is_space (rev (dropWhile is_space t)))"

definition lower_char :: "char \<Rightarrow> char" where
  "lower_char c = (let n = of_char c :: nat in if 65 \<le> n \<and> n \<le> 90 then char_of (n + 32) else c)"

definition upper_char :: "char \<Rightarrow> char" where
  "upper_char c = (let n = of_char c :: nat in if 97 \<le> n \<and> n \<le> 122 then char_of (n - 32) else c)"

definition lower :: "string \<Rightarrow> string" where "lower t = map lower_char t"
definition upper :: "string \<Rightarrow> string" where "upper t = map upper_char t"

definition starts_with :: "string \<Rightarrow> string \<Rightarrow> bool" where
  "starts_with p t \<longleftrightarrow> take (length p) t = p"

text \<open>\<open>p in t\<close> for strings.\<close>

fun is_infix :: "string \<Rightarrow> string \<Rightarrow> bool" where
  "is_infix p [] \<longleftrightarrow> p = []"
| "is_infix p (c # cs) \<longleftrightarrow> starts_with p (c # cs) \<or> is_infix p cs"

text \<open>\<open>x or None\<close> for a string: the empty one becomes \<open>None\<close>.\<close>

definition or_none :: "string \<Rightarrow> string option" where
  "or_none t = (if t = [] then None else Some t)"

section \<open>Tables\<close>

text \<open>
  A table is the list of its rows in order of insertion. \<open>find\<close> is \<open>scalar(select ... where)\<close>;
  \<open>row_by\<close> is a lookup by primary key, \<open>upd_row\<close> the mutation of the row with that key, and
  \<open>top_by\<close> is \<open>order_by(key.desc()).limit(1)\<close>.
\<close>

definition row_by :: "('r \<Rightarrow> uuid) \<Rightarrow> uuid \<Rightarrow> 'r list \<Rightarrow> 'r option" where
  "row_by rid i rows = find (\<lambda>r. rid r = i) rows"

fun upd_row :: "('r \<Rightarrow> uuid) \<Rightarrow> uuid \<Rightarrow> ('r \<Rightarrow> 'r) \<Rightarrow> 'r list \<Rightarrow> 'r list" where
  "upd_row rid i f [] = []"
| "upd_row rid i f (r # rs) = (if rid r = i then f r # rs else r # upd_row rid i f rs)"

fun top_by :: "('r \<Rightarrow> 'k::linorder) \<Rightarrow> 'r list \<Rightarrow> 'r option" where
  "top_by key [] = None"
| "top_by key (r # rs) =
     (case top_by key rs of
        None \<Rightarrow> Some r
      | Some q \<Rightarrow> if key r < key q then Some q else Some r)"

lemma row_by_Nil [simp]: "row_by rid i [] = None"
  by (simp add: row_by_def)

lemma row_by_Cons [simp]: "row_by rid i (r # rs) = (if rid r = i then Some r else row_by rid i rs)"
  by (simp add: row_by_def)

lemma row_by_SomeD: "row_by rid i rows = Some r \<Longrightarrow> r \<in> set rows \<and> rid r = i"
  by (induction rows) (auto split: if_splits)

lemma row_by_None_iff: "row_by rid i rows = None \<longleftrightarrow> (\<forall>r\<in>set rows. rid r \<noteq> i)"
  by (induction rows) auto

lemma row_by_append: "row_by rid i (xs @ ys) = (case row_by rid i xs of None \<Rightarrow> row_by rid i ys | Some r \<Rightarrow> Some r)"
  by (induction xs) auto

lemma find_append: "find P (xs @ ys) = (case find P xs of None \<Rightarrow> find P ys | Some r \<Rightarrow> Some r)"
  by (induction xs) auto

lemma find_SomeD: "find P xs = Some r \<Longrightarrow> r \<in> set xs \<and> P r"
  by (induction xs) (auto split: if_splits)

text \<open>\<open>select(...).where(id == i, Q)\<close>, when the row with that key has \<open>Q\<close>.\<close>

lemma find_by_row: "row_by rid i rows = Some r \<Longrightarrow> Q r \<Longrightarrow> find (\<lambda>r. rid r = i \<and> Q r) rows = Some r"
  by (induction rows) (auto split: if_splits)

lemma length_upd_row [simp]: "length (upd_row rid i f rows) = length rows"
  by (induction rows) auto

lemma upd_row_missing: "row_by rid i rows = None \<Longrightarrow> upd_row rid i f rows = rows"
  by (induction rows) (auto split: if_splits)

lemma row_by_upd_row:
  assumes "\<And>r. rid (f r) = rid r"
  shows "row_by rid j (upd_row rid i f rows) =
    (if i = j then map_option f (row_by rid j rows) else row_by rid j rows)"
  using assms by (induction rows) auto

lemma set_upd_row: "r \<in> set (upd_row rid i f rows) \<Longrightarrow> r \<in> set rows \<or> (\<exists>q. row_by rid i rows = Some q \<and> r = f q)"
  by (induction rows) (auto split: if_splits)

lemma map_upd_row: "(\<And>r. g (f r) = g r) \<Longrightarrow> map g (upd_row rid i f rows) = map g rows"
  by (induction rows) auto

lemma top_by_None [simp]: "top_by key rows = None \<longleftrightarrow> rows = []"
  by (cases rows) (auto split: option.split)

lemma top_by_SomeD: "top_by key rows = Some r \<Longrightarrow> r \<in> set rows \<and> (\<forall>q\<in>set rows. key q \<le> key r)"
  by (induction rows arbitrary: r) (auto split: option.splits if_splits simp: not_less intro: order_trans)

text \<open>\<open>where(P).order_by(k).limit(n)\<close> picks each row at most once.\<close>

lemma distinct_selection:
  assumes "distinct (map f rows)"
  shows "distinct (map f (take n (sort_key k (filter P rows))))"
proof -
  have "set (take n (sort_key k (filter P rows))) \<subseteq> set rows" by (auto dest: in_set_takeD)
  with assms show ?thesis by (auto simp: distinct_map intro: inj_on_subset)
qed

subsection \<open>Tables whose rows only evolve\<close>

text \<open>
  \<open>table_evolves rid E xs ys\<close>: every row of \<open>xs\<close> is still at its place in \<open>ys\<close>, under the
  same key and moved on by \<open>E\<close>; rows may have been appended. With \<open>E\<close> equality this says that
  the table is append-only and its rows immutable.
\<close>

definition table_evolves :: "('r \<Rightarrow> uuid) \<Rightarrow> ('r \<Rightarrow> 'r \<Rightarrow> bool) \<Rightarrow> 'r list \<Rightarrow> 'r list \<Rightarrow> bool" where
  "table_evolves rid E xs ys \<longleftrightarrow>
     length xs \<le> length ys \<and> (\<forall>n < length xs. rid (ys ! n) = rid (xs ! n) \<and> E (xs ! n) (ys ! n))"

lemma table_evolves_row:
  assumes "table_evolves rid E xs ys" and "row_by rid i xs = Some r"
  shows "\<exists>q. row_by rid i ys = Some q \<and> E r q"
  using assms
proof (induction xs arbitrary: ys)
  case Nil
  then show ?case by simp
next
  case (Cons x xs)
  then obtain y ys' where ys: "ys = y # ys'"
    by (cases ys) (auto simp: table_evolves_def)
  from Cons.prems(1) have hd: "rid y = rid x" "E x y"
    by (auto simp: table_evolves_def ys dest: spec [where x = 0])
  from Cons.prems(1) have "table_evolves rid E xs ys'"
    by (auto simp: table_evolves_def ys dest: spec [where x = "Suc n" for n])
  with Cons hd ys show ?case by (auto split: if_splits)
qed

lemma table_evolves_find:
  assumes "table_evolves rid E xs ys" and "\<And>r q. rid q = rid r \<Longrightarrow> E r q \<Longrightarrow> P q = P r" and "find P xs = Some r"
  shows "\<exists>q. find P ys = Some q \<and> rid q = rid r \<and> E r q"
  using assms(1,3)
proof (induction xs arbitrary: ys)
  case Nil
  then show ?case by simp
next
  case (Cons x xs)
  then obtain y ys' where ys: "ys = y # ys'"
    by (cases ys) (auto simp: table_evolves_def)
  from Cons.prems(1) have hd: "rid y = rid x" "E x y"
    by (auto simp: table_evolves_def ys dest: spec [where x = 0])
  from Cons.prems(1) have tl: "table_evolves rid E xs ys'"
    by (auto simp: table_evolves_def ys dest: spec [where x = "Suc n" for n])
  from assms(2) [OF hd] Cons.IH [OF tl] Cons.prems(2) hd show ?case
    unfolding ys by (auto split: if_splits)
qed

lemma table_evolves_mono:
  "table_evolves rid E xs ys \<Longrightarrow> (\<And>r q. E r q \<Longrightarrow> F r q) \<Longrightarrow> table_evolves rid F xs ys"
  by (auto simp: table_evolves_def)

text \<open>
  The interface of a table in the state: its projection, and an evolution of its rows that
  is reflexive and transitive. Every instance is a state order.
\<close>

locale evolving_table =
  fixes rows :: "'s \<Rightarrow> 'r list"
    and rid :: "'r \<Rightarrow> uuid"
    and E :: "'r \<Rightarrow> 'r \<Rightarrow> bool"
  assumes E_refl: "E r r"
    and E_trans: "E r q \<Longrightarrow> E q p \<Longrightarrow> E r p"
begin

lemma table_refl: "table_evolves rid E xs xs"
  by (simp add: table_evolves_def E_refl)

lemma table_trans: "table_evolves rid E xs ys \<Longrightarrow> table_evolves rid E ys zs \<Longrightarrow> table_evolves rid E xs zs"
  by (auto simp: table_evolves_def intro: E_trans)

lemma table_append: "table_evolves rid E xs (xs @ ys)"
  by (simp add: table_evolves_def nth_append E_refl)

lemma table_upd_row:
  assumes "\<And>r. row_by rid i xs = Some r \<Longrightarrow> rid (f r) = rid r \<and> E r (f r)"
  shows "table_evolves rid E xs (upd_row rid i f xs)"
proof -
  have "n < length xs \<Longrightarrow> rid (upd_row rid i f xs ! n) = rid (xs ! n) \<and> E (xs ! n) (upd_row rid i f xs ! n)" for n
    using assms
  proof (induction xs arbitrary: n)
    case Nil
    then show ?case by simp
  next
    case (Cons x xs)
    then show ?case by (cases n) (auto simp: E_refl split: if_splits)
  qed
  then show ?thesis by (simp add: table_evolves_def)
qed

lemma table_same: "xs = ys \<Longrightarrow> table_evolves rid E xs ys"
  by (simp add: table_refl)

lemmas table_steps = table_refl table_append table_same

end

sublocale evolving_table \<subseteq> state_order "\<lambda>s t. table_evolves rid E (rows s) (rows t)"
  by unfold_locales (auto intro: table_refl table_trans)

text \<open>
  A keyed table whose rows moreover satisfy a constraint \<open>ok\<close>: from a table in order, a run
  leaves a table in order whose rows evolved.
\<close>

definition table_ok :: "('r \<Rightarrow> uuid) \<Rightarrow> ('r \<Rightarrow> bool) \<Rightarrow> 'r list \<Rightarrow> bool" where
  "table_ok rid ok rows \<longleftrightarrow> distinct (map rid rows) \<and> list_all ok rows"

definition guarded :: "('r \<Rightarrow> uuid) \<Rightarrow> ('r \<Rightarrow> bool) \<Rightarrow> ('r \<Rightarrow> 'r \<Rightarrow> bool) \<Rightarrow> 'r list \<Rightarrow> 'r list \<Rightarrow> bool" where
  "guarded rid ok E xs ys \<longleftrightarrow> (table_ok rid ok xs \<longrightarrow> table_ok rid ok ys \<and> table_evolves rid E xs ys)"

lemma guardedD:
  "guarded rid ok E xs ys \<Longrightarrow> table_ok rid ok xs \<Longrightarrow> table_ok rid ok ys \<and> table_evolves rid E xs ys"
  by (simp add: guarded_def)

lemma table_ok_row: "table_ok rid ok rows \<Longrightarrow> row_by rid i rows = Some r \<Longrightarrow> ok r"
  by (auto simp: table_ok_def list_all_iff dest: row_by_SomeD)

lemma row_by_distinct:
  "distinct (map rid rows) \<Longrightarrow> r \<in> set rows \<Longrightarrow> row_by rid (rid r) rows = Some r"
  by (induction rows) (auto simp: image_iff)

text \<open>A loop that updates the rows of a selection one by one is a map over the table.\<close>

lemma upd_row_is_map:
  "distinct (map rid rows) \<Longrightarrow> upd_row rid i f rows = map (\<lambda>r. if rid r = i then f r else r) rows"
proof (induction rows)
  case Nil
  then show ?case by simp
next
  case (Cons r rows)
  show ?case
  proof (cases "rid r = i")
    case True
    with Cons.prems have "\<forall>q\<in>set rows. rid q \<noteq> i" by (auto simp: image_iff)
    then have "map (\<lambda>r. if rid r = i then f r else r) rows = rows" by (intro map_idI) auto
    with True show ?thesis by simp
  next
    case False
    with Cons show ?thesis by simp
  qed
qed

lemma fold_upd_row:
  assumes "distinct (map rid rows)" and "\<And>r. rid (f r) = rid r" and "distinct ids"
  shows "fold (\<lambda>i. upd_row rid i f) ids rows = map (\<lambda>r. if rid r \<in> set ids then f r else r) rows"
  using assms(1,3)
proof (induction ids arbitrary: rows)
  case Nil
  then show ?case by (simp add: map_idI)
next
  case (Cons i ids)
  have d: "distinct (map rid (upd_row rid i f rows))"
    using Cons.prems(1) assms(2) by (simp add: map_upd_row)
  from Cons.prems(2) have "i \<notin> set ids" "distinct ids" by simp_all
  then show ?case
    using Cons.IH [OF d] by (auto simp: upd_row_is_map [OF Cons.prems(1)] assms(2))
qed

text \<open>The same when the update depends on the row of the selection.\<close>

lemma fold_upd_each:
  assumes "distinct (map rid rows)" and "\<And>q r. rid (F q r) = rid r"
    and "distinct (map rid picked)" and "set picked \<subseteq> set rows"
  shows "fold (\<lambda>q. upd_row rid (rid q) (F q)) picked rows = map (\<lambda>r. if r \<in> set picked then F r r else r) rows"
proof -
  have "fold (\<lambda>q. upd_row rid (rid q) (F q)) picked rows =
      map (\<lambda>r. case find (\<lambda>q. rid q = rid r) picked of None \<Rightarrow> r | Some q \<Rightarrow> F q r) rows"
    using assms(1,3)
  proof (induction picked arbitrary: rows)
    case Nil
    then show ?case by simp
  next
    case (Cons p picked)
    have d: "distinct (map rid (upd_row rid (rid p) (F p) rows))"
      using Cons.prems(1) assms(2) by (simp add: map_upd_row)
    from Cons.prems(2) have new: "find (\<lambda>q. rid q = rid p) picked = None"
      by (auto simp: find_None_iff image_iff)
    have "fold (\<lambda>q. upd_row rid (rid q) (F q)) (p # picked) rows =
        map (\<lambda>r. case find (\<lambda>q. rid q = rid r) picked of None \<Rightarrow> r | Some q \<Rightarrow> F q r)
          (map (\<lambda>r. if rid r = rid p then F p r else r) rows)"
      using Cons.IH [OF d] Cons.prems by (simp add: upd_row_is_map [OF Cons.prems(1)])
    also have "\<dots> = map (\<lambda>r. case find (\<lambda>q. rid q = rid r) (p # picked) of None \<Rightarrow> r | Some q \<Rightarrow> F q r) rows"
      using new by (auto simp: assms(2))
    finally show ?case .
  qed
  also have "\<dots> = map (\<lambda>r. if r \<in> set picked then F r r else r) rows"
  proof (rule map_cong [OF refl])
    fix r
    assume r: "r \<in> set rows"
    have inj: "q = r" if "q \<in> set picked" "rid q = rid r" for q
      using that r assms(1,4) by (auto simp: distinct_map inj_on_def)
    show "(case find (\<lambda>q. rid q = rid r) picked of None \<Rightarrow> r | Some q \<Rightarrow> F q r) = (if r \<in> set picked then F r r else r)"
    proof (cases "find (\<lambda>q. rid q = rid r) picked")
      case None
      then have "r \<notin> set picked" by (auto simp: find_None_iff)
      with None show ?thesis by simp
    next
      case (Some q)
      then have "q \<in> set picked" "rid q = rid r" by (auto dest: find_SomeD)
      with inj Some show ?thesis by auto
    qed
  qed
  finally show ?thesis .
qed

lemma upd_row_twice: "(\<And>r. rid (f r) = rid r) \<Longrightarrow> upd_row rid i g (upd_row rid i f rows) = upd_row rid i (\<lambda>r. g (f r)) rows"
  by (induction rows) auto

lemma append_only_find:
  assumes "table_evolves rid (=) xs ys" and "find P xs = Some r"
  shows "find P ys = Some r"
proof -
  from assms(1) have "take (length xs) ys = xs"
    by (auto simp: table_evolves_def intro!: nth_equalityI)
  then obtain zs where "ys = xs @ zs" by (metis append_take_drop_id)
  with assms(2) show ?thesis by (simp add: find_append)
qed

locale guarded_table = evolving_table rows rid E
  for rows :: "'s \<Rightarrow> 'r list" and rid :: "'r \<Rightarrow> uuid" and E :: "'r \<Rightarrow> 'r \<Rightarrow> bool" +
  fixes ok :: "'r \<Rightarrow> bool"
begin

lemma guarded_refl: "guarded rid ok E xs xs"
  by (simp add: guarded_def table_refl)

lemma guarded_same: "xs = ys \<Longrightarrow> guarded rid ok E xs ys"
  by (simp add: guarded_refl)

lemma guarded_trans: "guarded rid ok E xs ys \<Longrightarrow> guarded rid ok E ys zs \<Longrightarrow> guarded rid ok E xs zs"
  by (auto simp: guarded_def intro: table_trans)

lemma guarded_append: "ok r \<Longrightarrow> \<forall>q\<in>set xs. rid q \<noteq> rid r \<Longrightarrow> guarded rid ok E xs (xs @ [r])"
  by (auto simp: guarded_def table_ok_def table_append image_iff)

lemma guarded_upd_row:
  assumes "\<And>r. row_by rid i xs = Some r \<Longrightarrow> ok r \<Longrightarrow> rid (f r) = rid r \<and> E r (f r) \<and> ok (f r)"
  shows "guarded rid ok E xs (upd_row rid i f xs)"
  unfolding guarded_def
proof
  assume t: "table_ok rid ok xs"
  then have row: "rid (f r) = rid r \<and> E r (f r) \<and> ok (f r)" if "row_by rid i xs = Some r" for r
    using assms that by (auto dest: table_ok_row)
  have "map rid (upd_row rid i f xs) = map rid xs"
    using row by (induction xs) auto
  moreover have "list_all ok (upd_row rid i f xs)"
    using t row by (auto simp: list_all_iff table_ok_def dest!: set_upd_row)
  moreover have "table_evolves rid E xs (upd_row rid i f xs)"
    by (rule table_upd_row) (simp add: row)
  ultimately show "table_ok rid ok (upd_row rid i f xs) \<and> table_evolves rid E xs (upd_row rid i f xs)"
    using t by (simp add: table_ok_def)
qed

lemma guarded_map:
  assumes "\<And>r. r \<in> set xs \<Longrightarrow> ok r \<Longrightarrow> rid (f r) = rid r \<and> E r (f r) \<and> ok (f r)"
  shows "guarded rid ok E xs (map f xs)"
  using assms by (auto simp: guarded_def table_ok_def table_evolves_def list_all_iff comp_def cong: map_cong)

end

sublocale guarded_table \<subseteq> guarded: state_order "\<lambda>s t. guarded rid ok E (rows s) (rows t)"
  by unfold_locales (auto intro: guarded_refl guarded_trans)

text \<open>A frame condition: one projection of the state is untouched.\<close>

locale state_frame =
  fixes proj :: "'s \<Rightarrow> 'p"
begin

lemma frame_run: "evolves (\<lambda>s t. proj t = proj s) m \<Longrightarrow> proj (snd (m s)) = proj s"
  by (rule evolvesD)

end

sublocale state_frame \<subseteq> state_order "\<lambda>s t. proj t = proj s"
  by unfold_locales auto

end
