(* ===== verification/Domain.thy ===== *)
theory Domain
  imports Prelude
begin

text \<open>
  The vocabulary of \<open>services/domain\<close>: the exceptions of the program with the HTTP code
  and status of each, the status enums, the declared transition tables and the runs they
  admit, and the identity a request acts under (\<open>TrustedContext\<close>).
\<close>

section \<open>Exceptions\<close>

text \<open>
  The domain errors of \<open>errors.py\<close>, the errors of the durable layer, of the providers, and the
  built-in ones the code raises. Messages are not kept, except where the code stores them:
  a Razorpay error carries its text, and \<open>OtherError\<close> is any other exception, by class name.
\<close>

datatype exn =
    DomainError | AuthenticationError | AuthorizationError | ConflictError | NotFoundError
  | UnsupportedTermsError | ValidationError
  | DurableExecutionError | StaleLeaseError | CapacityExceededError
  | RazorpayProviderError string | RazorpayProviderRetryable string
  | GmailProviderRetryable | SesProviderRetryable
  | ValueError | KeyError | RuntimeError | IntegrityError | InjectedCrash
  | OtherError string

text \<open>What a SQLAlchemy session raises when it is used after a failed flush and before a rollback.\<close>

abbreviation PendingRollbackError :: exn where
  "PendingRollbackError \<equiv> OtherError ''PendingRollbackError''"

fun exn_code :: "exn \<Rightarrow> string option" where
  "exn_code DomainError = Some ''domain_error''"
| "exn_code AuthenticationError = Some ''authentication_required''"
| "exn_code AuthorizationError = Some ''resource_not_found''"
| "exn_code ConflictError = Some ''conflict''"
| "exn_code NotFoundError = Some ''resource_not_found''"
| "exn_code UnsupportedTermsError = Some ''manual_handling_required''"
| "exn_code ValidationError = Some ''validation_error''"
| "exn_code _ = None"

fun exn_status_code :: "exn \<Rightarrow> nat option" where
  "exn_status_code DomainError = Some 400"
| "exn_status_code AuthenticationError = Some 401"
| "exn_status_code AuthorizationError = Some 404"
| "exn_status_code ConflictError = Some 409"
| "exn_status_code NotFoundError = Some 404"
| "exn_status_code UnsupportedTermsError = Some 422"
| "exn_status_code ValidationError = Some 422"
| "exn_status_code _ = None"

text \<open>\<open>type(exc).__name__\<close>.\<close>

fun exn_name :: "exn \<Rightarrow> string" where
  "exn_name DomainError = ''DomainError''"
| "exn_name AuthenticationError = ''AuthenticationError''"
| "exn_name AuthorizationError = ''AuthorizationError''"
| "exn_name ConflictError = ''ConflictError''"
| "exn_name NotFoundError = ''NotFoundError''"
| "exn_name UnsupportedTermsError = ''UnsupportedTermsError''"
| "exn_name ValidationError = ''ValidationError''"
| "exn_name DurableExecutionError = ''DurableExecutionError''"
| "exn_name StaleLeaseError = ''StaleLeaseError''"
| "exn_name CapacityExceededError = ''CapacityExceededError''"
| "exn_name (RazorpayProviderError _) = ''RazorpayProviderError''"
| "exn_name (RazorpayProviderRetryable _) = ''RazorpayProviderRetryable''"
| "exn_name GmailProviderRetryable = ''GmailProviderRetryable''"
| "exn_name SesProviderRetryable = ''SesProviderRetryable''"
| "exn_name ValueError = ''ValueError''"
| "exn_name KeyError = ''KeyError''"
| "exn_name RuntimeError = ''RuntimeError''"
| "exn_name IntegrityError = ''IntegrityError''"
| "exn_name InjectedCrash = ''InjectedCrash''"
| "exn_name (OtherError n) = n"

text \<open>
  A missing resource and a foreign one answer alike: the client cannot probe for resources
  of another tenant.
\<close>

lemma authorization_looks_missing:
  "exn_code AuthorizationError = exn_code NotFoundError \<and>
   exn_status_code AuthorizationError = exn_status_code NotFoundError"
  by simp

section \<open>Enums\<close>

datatype environment = DEVELOPMENT | TEST | PRODUCTION

datatype user_status = USER_ACTIVE | USER_DISABLED | USER_DELETION_PENDING

datatype project_status =
    PROJECT_DRAFT | PAUSED_UNCONFIRMED_SCOPE | PROJECT_ACTIVE | ARCHIVED | PROJECT_DELETION_PENDING

datatype request_status =
    REQ_OPEN | CLARIFICATION_REQUIRED | COVERED | PROPOSAL_OPEN | WAIVED | DECLINED | MERGED | RESOLVED

datatype change_order_status =
    CO_DRAFT | AWAITING_FREELANCER_APPROVAL | SEND_PENDING | AWAITING_CLIENT_APPROVAL
  | REVISION_REQUESTED | CLIENT_APPROVED | REJECTED_BY_FREELANCER | REJECTED_BY_CLIENT
  | WITHDRAWN | CO_EXPIRED

datatype payment_status =
    NOT_REQUESTED | CREATION_PENDING | PENDING | PAY_REVIEW_REQUIRED | PAID | PAY_EXPIRED
  | PAY_CANCELLED | REVERSED

datatype job_state =
    QUEUED | RUNNING | JOB_RETRY_WAIT | JOB_SUCCEEDED | FAILED_REQUIRES_REVIEW | JOB_CANCELLED

datatype action_state =
    READY | DISPATCHING | RETRY_WAIT | SUCCEEDED | RECEIPT_CONFIRMED | UNKNOWN_OUTCOME
  | REVIEW_REQUIRED | CANCELLED

text \<open>The stored text of a change-order status, used in audit records.\<close>

fun change_order_value :: "change_order_status \<Rightarrow> string" where
  "change_order_value CO_DRAFT = ''DRAFT''"
| "change_order_value AWAITING_FREELANCER_APPROVAL = ''AWAITING_FREELANCER_APPROVAL''"
| "change_order_value SEND_PENDING = ''SEND_PENDING''"
| "change_order_value AWAITING_CLIENT_APPROVAL = ''AWAITING_CLIENT_APPROVAL''"
| "change_order_value REVISION_REQUESTED = ''REVISION_REQUESTED''"
| "change_order_value CLIENT_APPROVED = ''CLIENT_APPROVED''"
| "change_order_value REJECTED_BY_FREELANCER = ''REJECTED_BY_FREELANCER''"
| "change_order_value REJECTED_BY_CLIENT = ''REJECTED_BY_CLIENT''"
| "change_order_value WITHDRAWN = ''WITHDRAWN''"
| "change_order_value CO_EXPIRED = ''EXPIRED''"

section \<open>The declared transition tables\<close>

definition REQUEST_TRANSITIONS :: "((request_status \<times> string) \<times> request_status) list" where
  "REQUEST_TRANSITIONS = [
     ((REQ_OPEN, ''evidence_missing''), CLARIFICATION_REQUIRED),
     ((REQ_OPEN, ''verified_covered''), COVERED),
     ((REQ_OPEN, ''proposal_assembled''), PROPOSAL_OPEN),
     ((CLARIFICATION_REQUIRED, ''human_corrected''), REQ_OPEN),
     ((REQ_OPEN, ''waived''), WAIVED),
     ((PROPOSAL_OPEN, ''waived''), WAIVED),
     ((REQ_OPEN, ''declined''), DECLINED),
     ((PROPOSAL_OPEN, ''declined''), DECLINED),
     ((REQ_OPEN, ''merged''), MERGED),
     ((PROPOSAL_OPEN, ''merged''), MERGED),
     ((PROPOSAL_OPEN, ''client_accepted''), RESOLVED)]"

definition CHANGE_ORDER_TRANSITIONS :: "((change_order_status \<times> string) \<times> change_order_status) list" where
  "CHANGE_ORDER_TRANSITIONS = [
     ((CO_DRAFT, ''revision_ready''), AWAITING_FREELANCER_APPROVAL),
     ((AWAITING_FREELANCER_APPROVAL, ''freelancer_approved''), SEND_PENDING),
     ((SEND_PENDING, ''send_confirmed''), AWAITING_CLIENT_APPROVAL),
     ((SEND_PENDING, ''client_accepted''), CLIENT_APPROVED),
     ((AWAITING_CLIENT_APPROVAL, ''client_accepted''), CLIENT_APPROVED),
     ((AWAITING_CLIENT_APPROVAL, ''changes_requested''), REVISION_REQUESTED),
     ((REVISION_REQUESTED, ''revision_ready''), AWAITING_FREELANCER_APPROVAL),
     ((AWAITING_FREELANCER_APPROVAL, ''freelancer_rejected''), REJECTED_BY_FREELANCER),
     ((AWAITING_CLIENT_APPROVAL, ''client_rejected''), REJECTED_BY_CLIENT)]"

definition PAYMENT_TRANSITIONS :: "((payment_status \<times> string) \<times> payment_status) list" where
  "PAYMENT_TRANSITIONS = [
     ((NOT_REQUESTED, ''client_approved''), CREATION_PENDING),
     ((CREATION_PENDING, ''link_verified''), PENDING),
     ((PENDING, ''mismatch''), PAY_REVIEW_REQUIRED),
     ((CREATION_PENDING, ''mismatch''), PAY_REVIEW_REQUIRED),
     ((PENDING, ''full_capture_verified''), PAID),
     ((PAY_REVIEW_REQUIRED, ''full_capture_verified''), PAID),
     ((PAY_EXPIRED, ''full_capture_verified''), PAID),
     ((PENDING, ''provider_expired''), PAY_EXPIRED),
     ((PENDING, ''provider_cancelled''), PAY_CANCELLED),
     ((PAID, ''reversal_confirmed''), REVERSED)]"

text \<open>A run of a table from a status: every event must have an entry.\<close>

fun run_table :: "(('a \<times> string) \<times> 'a) list \<Rightarrow> 'a \<Rightarrow> string list \<Rightarrow> 'a option" where
  "run_table tab st [] = Some st"
| "run_table tab st (ev # evs) =
     (case map_of tab (st, ev) of None \<Rightarrow> None | Some st' \<Rightarrow> run_table tab st' evs)"

lemma run_table_induct:
  assumes "run_table tab st evs = Some st'" and "P st"
    and "\<And>a ev b. P a \<Longrightarrow> ev \<in> set evs \<Longrightarrow> ((a, ev), b) \<in> set tab \<Longrightarrow> P b"
  shows "P st'"
  using assms
proof (induction evs arbitrary: st)
  case Nil
  then show ?case by simp
next
  case (Cons ev evs)
  from Cons.prems(1) obtain b where b: "((st, ev), b) \<in> set tab" and run: "run_table tab b evs = Some st'"
    by (auto split: option.splits dest: map_of_SomeD)
  have "P b" by (rule Cons.prems(3) [OF Cons.prems(2) _ b]) simp
  show ?case
  proof (rule Cons.IH [OF run \<open>P b\<close>])
    fix a e c
    assume a: "P a" and e: "e \<in> set evs" and c: "((a, e), c) \<in> set tab"
    show "P c" by (rule Cons.prems(3) [OF a _ c]) (simp add: e)
  qed
qed

section \<open>The identity of a request\<close>

record trusted_context =
  ctx_tenant_id :: uuid
  ctx_subject :: string
  ctx_email :: string
  ctx_email_verified :: bool
  ctx_correlation_id :: uuid

definition require_tenant :: "trusted_context \<Rightarrow> uuid \<Rightarrow> ('s, exn, unit) prog" where
  "require_tenant ctx resource_tenant_id =
     (if resource_tenant_id \<noteq> ctx_tenant_id ctx then raise AuthorizationError else ret ())"

definition require_project :: "trusted_context \<Rightarrow> uuid \<Rightarrow> uuid \<Rightarrow> ('s, exn, uuid) prog" where
  "require_project ctx resource_tenant_id project_id =
     bindE (require_tenant ctx resource_tenant_id) (\<lambda>_. ret project_id)"

end
