(* ===== verification/Values.thy ===== *)
theory Values
  imports Domain "HOL-Library.Multiset"
begin

text \<open>
  Python values as the program passes them in dictionaries typed \<open>object\<close> (JSON columns,
  provider responses, approved payloads), the operations the code applies to them, and
  \<open>services/domain/canonical.py\<close>: the canonical JSON text whose digest identifies content.
\<close>

section \<open>Values\<close>

text \<open>
  A float carries its value and its \<open>repr\<close> text; a decimal its sign, coefficient and
  exponent; a date or datetime its ISO text. A dictionary is the list of its entries in
  insertion order; keys are strings everywhere in the code.
\<close>

datatype decimal = Dec bool nat int | DecInf bool | DecNaN

datatype pyval =
    PNone
  | PBool bool
  | PInt int
  | PFloat rat string
  | PStr string
  | PList "pyval list"
  | PTuple "pyval list"
  | PDict "(string \<times> pyval) list"
  | PData "(string \<times> pyval) list"
  | PDecimal decimal
  | PDate string
  | PUuid uuid
  | PEnum string

text \<open>\<open>d.get(k)\<close> on a value used as a dictionary, and \<open>isinstance(v, Mapping)\<close>.\<close>

definition dict_get :: "(string \<times> pyval) list \<Rightarrow> string \<Rightarrow> pyval" where
  "dict_get d k = (case map_of d k of None \<Rightarrow> PNone | Some v \<Rightarrow> v)"

definition dict_get_default :: "(string \<times> pyval) list \<Rightarrow> string \<Rightarrow> pyval \<Rightarrow> pyval" where
  "dict_get_default d k v0 = (case map_of d k of None \<Rightarrow> v0 | Some v \<Rightarrow> v)"

fun as_dict :: "pyval \<Rightarrow> (string \<times> pyval) list option" where
  "as_dict (PDict d) = Some d"
| "as_dict _ = None"

text \<open>\<open>bool(v)\<close>.\<close>

fun truthy :: "pyval \<Rightarrow> bool" where
  "truthy PNone = False"
| "truthy (PBool b) = b"
| "truthy (PInt i) = (i \<noteq> 0)"
| "truthy (PFloat q _) = (q \<noteq> 0)"
| "truthy (PStr t) = (t \<noteq> [])"
| "truthy (PList xs) = (xs \<noteq> [])"
| "truthy (PTuple xs) = (xs \<noteq> [])"
| "truthy (PDict d) = (d \<noteq> [])"
| "truthy (PDecimal (Dec _ c _)) = (c \<noteq> 0)"
| "truthy _ = True"

text \<open>\<open>a or b\<close>.\<close>

definition py_or :: "pyval \<Rightarrow> pyval \<Rightarrow> pyval" where
  "py_or a b = (if truthy a then a else b)"

text \<open>\<open>repr(text)\<close> and \<open>str(v)\<close>; a list, tuple or dictionary shows its parts by \<open>repr\<close>.\<close>

definition repr_char :: "char \<Rightarrow> char \<Rightarrow> string" where
  "repr_char q c =
     (let n = of_char c :: nat in
      if c = q \<or> n = 92 then [CHR 0x5C, c]
      else if n = 10 then [CHR 0x5C, CHR ''n'']
      else if n = 13 then [CHR 0x5C, CHR ''r'']
      else if n = 9 then [CHR 0x5C, CHR ''t'']
      else if n < 32 \<or> n = 127
      then [CHR 0x5C, CHR ''x'', digit_char (n div 16), digit_char (n mod 16)]
      else [c])"

definition repr_str :: "string \<Rightarrow> string" where
  "repr_str t =
     (let q = (if CHR 0x27 \<in> set t \<and> CHR 0x22 \<notin> set t then CHR 0x22 else CHR 0x27)
      in [q] @ concat (map (repr_char q) t) @ [q])"

fun join :: "string \<Rightarrow> string list \<Rightarrow> string" where
  "join sep [] = []"
| "join sep [t] = t"
| "join sep (t # ts) = t @ sep @ join sep ts"

definition decimal_plain :: "bool \<Rightarrow> nat \<Rightarrow> int \<Rightarrow> string" where
  "decimal_plain neg c e =
     (let ds = nat_str c;
          body = (if 0 \<le> e then (if c = 0 then ''0'' else ds @ replicate (nat e) (CHR ''0''))
                  else (let k = nat (- e);
                            padded = replicate (Suc k - length ds) (CHR ''0'') @ ds;
                            n = length padded - k
                        in take n padded @ ''.'' @ drop n padded))
      in (if neg then ''-'' else []) @ body)"

fun py_repr :: "pyval \<Rightarrow> string" where
  "py_repr PNone = ''None''"
| "py_repr (PBool b) = (if b then ''True'' else ''False'')"
| "py_repr (PInt i) = int_str i"
| "py_repr (PFloat _ t) = t"
| "py_repr (PStr t) = repr_str t"
| "py_repr (PList xs) = ''['' @ join '', '' (map py_repr xs) @ '']''"
| "py_repr (PTuple xs) =
     ''('' @ join '', '' (map py_repr xs) @ (if length xs = 1 then '','' else []) @ '')''"
| "py_repr (PDict d) = ''{'' @ join '', '' (map (\<lambda>kv. repr_str (fst kv) @ '': '' @ py_repr (snd kv)) d) @ ''}''"
| "py_repr (PData d) = ''{'' @ join '', '' (map (\<lambda>kv. repr_str (fst kv) @ '': '' @ py_repr (snd kv)) d) @ ''}''"
| "py_repr (PDecimal (Dec s c e)) = decimal_plain s c e"
| "py_repr (PDecimal (DecInf s)) = (if s then ''-Infinity'' else ''Infinity'')"
| "py_repr (PDecimal DecNaN) = ''NaN''"
| "py_repr (PDate t) = t"
| "py_repr (PUuid u) = uuid_str u"
| "py_repr (PEnum t) = t"

fun py_str :: "pyval \<Rightarrow> string" where
  "py_str (PStr t) = t"
| "py_str v = py_repr v"

text \<open>\<open>str(v or "").strip()\<close>, the code's reading of an identifier field.\<close>

definition clean_str :: "pyval \<Rightarrow> string" where
  "clean_str v = strip (py_str (py_or v (PStr [])))"

lemma clean_str_falsy: "\<not> truthy v \<Longrightarrow> clean_str v = []"
  by (simp add: clean_str_def py_or_def strip_def)

lemma clean_str_PNone [simp]: "clean_str PNone = []"
  by (simp add: clean_str_falsy)

text \<open>
  \<open>v == n\<close> for an integer \<open>n\<close>: a bool counts as 0 or 1 and a float by its value, as in Python.
\<close>

fun eq_int :: "pyval \<Rightarrow> int \<Rightarrow> bool" where
  "eq_int (PInt i) n = (i = n)"
| "eq_int (PBool b) n = (n = (if b then 1 else 0))"
| "eq_int (PFloat q _) n = (q = of_int n)"
| "eq_int _ n = False"

text \<open>\<open>int(v) if isinstance(v, int) and not isinstance(v, bool) else None\<close>.\<close>

fun strict_int :: "pyval \<Rightarrow> int option" where
  "strict_int (PInt i) = Some i"
| "strict_int _ = None"

lemma strict_int_SomeD: "strict_int v = Some n \<Longrightarrow> v = PInt n"
  by (cases v) auto

section \<open>Canonical JSON\<close>

text \<open>\<open>_normalize\<close>: floats and non-finite decimals raise, everything else becomes plain JSON data.\<close>

fun sequence :: "('e + 'a) list \<Rightarrow> 'e + 'a list" where
  "sequence [] = Inr []"
| "sequence (Inl e # _) = Inl e"
| "sequence (Inr x # rs) = (case sequence rs of Inl e \<Rightarrow> Inl e | Inr xs \<Rightarrow> Inr (x # xs))"

definition sum_map :: "('a \<Rightarrow> 'b) \<Rightarrow> 'e + 'a \<Rightarrow> 'e + 'b" where
  "sum_map f r = (case r of Inl e \<Rightarrow> Inl e | Inr x \<Rightarrow> Inr (f x))"

fun normalize_value :: "pyval \<Rightarrow> exn + pyval" where
  "normalize_value (PData d) =
     sum_map PDict (sequence (map (\<lambda>kv. sum_map (Pair (fst kv)) (normalize_value (snd kv))) d))"
| "normalize_value (PDict d) =
     sum_map PDict (sequence (map (\<lambda>kv. sum_map (Pair (fst kv)) (normalize_value (snd kv))) d))"
| "normalize_value (PList xs) = sum_map PList (sequence (map normalize_value xs))"
| "normalize_value (PTuple xs) = sum_map PList (sequence (map normalize_value xs))"
| "normalize_value (PDecimal (Dec s c e)) = Inr (PStr (decimal_plain s c e))"
| "normalize_value (PDecimal _) = Inl ValueError"
| "normalize_value (PDate t) = Inr (PStr t)"
| "normalize_value (PUuid u) = Inr (PStr (uuid_str u))"
| "normalize_value (PEnum t) = Inr (PStr t)"
| "normalize_value (PFloat _ _) = Inl ValueError"
| "normalize_value v = Inr v"

text \<open>\<open>json.dumps(..., ensure_ascii=False, sort_keys=True, separators=(",", ":"))\<close>.\<close>

definition json_char :: "char \<Rightarrow> string" where
  "json_char c =
     (let n = of_char c :: nat in
      if n = 34 \<or> n = 92 then [CHR 0x5C, c]
      else if n = 10 then [CHR 0x5C, CHR ''n'']
      else if n = 13 then [CHR 0x5C, CHR ''r'']
      else if n = 9 then [CHR 0x5C, CHR ''t'']
      else if n = 8 then [CHR 0x5C, CHR ''b'']
      else if n = 12 then [CHR 0x5C, CHR ''f'']
      else if n < 32 then [CHR 0x5C, CHR ''u'', CHR ''0'', CHR ''0'', digit_char (n div 16), digit_char (n mod 16)]
      else [c])"

definition json_str :: "string \<Rightarrow> string" where
  "json_str t = [CHR 0x22] @ concat (map json_char t) @ [CHR 0x22]"

fun dumps :: "pyval \<Rightarrow> string" where
  "dumps PNone = ''null''"
| "dumps (PBool b) = (if b then ''true'' else ''false'')"
| "dumps (PInt i) = int_str i"
| "dumps (PStr t) = json_str t"
| "dumps (PList xs) = ''['' @ join '','' (map dumps xs) @ '']''"
| "dumps (PDict d) =
     ''{'' @ join '','' (map (\<lambda>kv. json_str (fst kv) @ '':'' @ snd kv)
                      (sort_key fst (map (\<lambda>kv. (fst kv, dumps (snd kv))) d))) @ ''}''"
| "dumps v = py_repr v"

definition canonical_json :: "pyval \<Rightarrow> exn + string" where
  "canonical_json v = sum_map dumps (normalize_value v)"

text \<open>
  \<open>canonical_sha256\<close> over a digest function, which stands for \<open>hashlib.sha256(...).hexdigest()\<close>.
\<close>

definition canonical_sha256 :: "(string \<Rightarrow> string) \<Rightarrow> pyval \<Rightarrow> exn + string" where
  "canonical_sha256 sha v = sum_map sha (canonical_json v)"

subsection \<open>What normalisation does\<close>

text \<open>The plain JSON values without floats: what a canonical text can denote.\<close>

fun plain :: "pyval \<Rightarrow> bool" where
  "plain PNone = True"
| "plain (PBool _) = True"
| "plain (PInt _) = True"
| "plain (PStr _) = True"
| "plain (PList xs) = list_all plain xs"
| "plain (PDict d) = list_all (\<lambda>kv. plain (snd kv)) d"
| "plain _ = False"

lemma sum_map_Inr [simp]: "sum_map f (Inr x) = Inr (f x)" and sum_map_Inl [simp]: "sum_map f (Inl e) = Inl e"
  by (simp_all add: sum_map_def)

lemma sum_map_eq_Inr: "sum_map f r = Inr y \<longleftrightarrow> (\<exists>x. r = Inr x \<and> y = f x)"
  by (cases r) auto

lemma sequence_map_Inr: "(\<And>x. x \<in> set xs \<Longrightarrow> f x = Inr (g x)) \<Longrightarrow> sequence (map f xs) = Inr (map g xs)"
  by (induction xs) auto

lemma sequence_map_all:
  "sequence (map f xs) = Inr ys \<Longrightarrow> (\<And>x y. x \<in> set xs \<Longrightarrow> f x = Inr y \<Longrightarrow> P y) \<Longrightarrow> list_all P ys"
proof (induction xs arbitrary: ys)
  case Nil
  then show ?case by simp
next
  case (Cons x xs)
  from Cons.prems(1) obtain z zs where "f x = Inr z" "sequence (map f xs) = Inr zs" "ys = z # zs"
    by (cases "f x") (auto split: sum.splits)
  with Cons.IH [of zs] Cons.prems(2) show ?case by auto
qed

lemma normalize_plain_id: "plain v \<Longrightarrow> normalize_value v = Inr v"
proof (induction v rule: normalize_value.induct)
  case (2 d)
  then have "normalize_value (snd kv) = Inr (snd kv)" if "kv \<in> set d" for kv
    using that by (auto simp: list_all_iff)
  then have "sequence (map (\<lambda>kv. sum_map (Pair (fst kv)) (normalize_value (snd kv))) d) = Inr (map (\<lambda>kv. kv) d)"
    by (intro sequence_map_Inr) simp
  then show ?case by simp
next
  case (3 xs)
  then have "sequence (map normalize_value xs) = Inr (map (\<lambda>x. x) xs)"
    by (intro sequence_map_Inr) (simp add: list_all_iff)
  then show ?case by simp
qed auto

lemma normalize_is_plain: "normalize_value v = Inr w \<Longrightarrow> plain w"
proof (induction v arbitrary: w rule: normalize_value.induct)
  case (1 d)
  then show ?case
    by (auto simp: sum_map_eq_Inr elim!: sequence_map_all [where P = "\<lambda>kv. plain (snd kv)"])
next
  case (2 d)
  then show ?case
    by (auto simp: sum_map_eq_Inr elim!: sequence_map_all [where P = "\<lambda>kv. plain (snd kv)"])
next
  case (3 xs)
  then show ?case by (auto simp: sum_map_eq_Inr elim!: sequence_map_all)
next
  case (4 xs)
  then show ?case by (auto simp: sum_map_eq_Inr elim!: sequence_map_all)
qed auto

text \<open>The entries of a dictionary are sorted by key, so their order in memory does not matter.\<close>

lemma sort_entries_unique:
  fixes d e :: "('k::linorder \<times> 'v) list"
  assumes "mset d = mset e" and "distinct (map fst d)"
  shows "sort_key fst d = sort_key fst e"
proof (rule map_sorted_distinct_set_unique [where f = fst])
  from assms(2) have inj: "inj_on fst (set d)" by (simp add: distinct_map)
  from assms(1) have eq: "set d = set e" by (metis set_mset_mset)
  show "inj_on fst (set (sort_key fst d) \<union> set (sort_key fst e))" using inj eq by simp
  show "sorted (map fst (sort_key fst d))" and "sorted (map fst (sort_key fst e))" by simp_all
  have de: "distinct (map fst e)" using assms by (metis mset_map mset_eq_imp_distinct_iff)
  have "mset (map fst (sort_key fst d)) = mset (map fst d)" "mset (map fst (sort_key fst e)) = mset (map fst e)"
    by simp_all
  then show "distinct (map fst (sort_key fst d))" and "distinct (map fst (sort_key fst e))"
    using assms(2) de by (metis mset_eq_imp_distinct_iff)+
  show "set (sort_key fst d) = set (sort_key fst e)" using eq by simp
qed

lemma dumps_entry_order:
  assumes "mset d = mset e" and "distinct (map fst d)"
  shows "dumps (PDict d) = dumps (PDict e)"
proof -
  have "sort_key fst (map (\<lambda>kv. (fst kv, dumps (snd kv))) d) = sort_key fst (map (\<lambda>kv. (fst kv, dumps (snd kv))) e)"
    using assms by (intro sort_entries_unique) (simp_all add: comp_def)
  then show ?thesis by simp
qed

end
