(* ===== verification/Models.thy ===== *)
theory Models
  imports Values
begin

text \<open>
  The rows of \<open>services/domain/models.py\<close>: one record per table the modelled services read or
  write, with the columns in the order of the class, the status columns as datatypes of the
  values their \<open>CheckConstraint\<close> admits, and the constraints that depend on data as
  predicates. The database is one record, a list of rows per table, with the clock the code
  reads and the supplies of fresh UUIDs and random tokens. Foreign keys and string-length
  limits are not checked. Sessions run with \<open>autoflush=False\<close>; in the modelled operations no
  query depends on a write that is still unflushed, so a write is visible at once.
\<close>

section \<open>Status columns\<close>

datatype decision_status = DEC_OPEN | DEC_RESOLVED | DEC_DISMISSED | DEC_STALE
datatype decision_kind = PROPOSAL_REVIEW | CLARIFICATION | PROJECT_MAPPING | INTEGRATION_HEALTH | ACTION_UNCERTAINTY
datatype revision_status = CURRENT | SUPERSEDED | REVOKED
datatype actor_type = FREELANCER | CLIENT
datatype approval_decision = APPROVED | REJECTED | REQUEST_CHANGES | DECISION_WAIVED
datatype capability_purpose = REVIEW | RECEIPT
datatype link_status = LINK_READY | CREATED | LINK_UNKNOWN_OUTCOME | LINK_REVIEW_REQUIRED | LINK_EXPIRED | LINK_CANCELLED
datatype normalization_state = NORM_PENDING | NORMALIZED | NORM_REVIEW_REQUIRED
datatype association_state = UNMATCHED | ASSOCIATED | MANUAL_REVIEW
datatype notification_state = NTF_PENDING | SENT | NTF_UNKNOWN_OUTCOME | NTF_FAILED | NTF_CANCELLED

datatype workflow_state = WF_RUNNING | WF_SUCCEEDED | WF_FAILED | WF_REVIEW_REQUIRED | WF_CANCELLED
datatype document_status = UPLOADED | EXTRACTING | AWAITING_SCOPE_REVIEW | DOC_CONFIRMED | DOC_REJECTED | DOC_FAILED_REQUIRES_REVIEW
datatype candidate_status = CANDIDATE | CORRECTED | CAND_CONFIRMED | CAND_REJECTED
datatype routing_status = ROUTE_OPEN | ROUTE_RESOLVED | ROUTE_DISMISSED
datatype run_status = RUN_RUNNING | RUN_SUCCEEDED | REPAIRING | RUN_FAILED | RUN_REVIEW_REQUIRED
datatype reservation_status = RESERVED | RECONCILED | RELEASED
datatype connection_status = CONNECTING | CONNECTED | CONN_REAUTH_REQUIRED | DISCONNECTED | CONN_PAUSED
datatype sync_status = SYNC_IDLE | SYNC_RUNNING | SYNC_REAUTH_REQUIRED | GAP_DETECTED | SYNC_PAUSED
datatype sync_mode = INITIAL_BACKFILL | INCREMENTAL

section \<open>Rows\<close>

record preference_version =
  pref_id :: uuid
  pref_tenant_id :: uuid
  pref_version :: int
  pref_rate_minor :: int
  pref_minimum_minor :: int
  pref_increment_minor :: int
  pref_communication_style :: string
  pref_reminder_policy :: "(string \<times> pyval) list"
  pref_confirmed_at :: time
  pref_created_at :: time

record client_contact =
  contact_id :: uuid
  contact_tenant_id :: uuid
  contact_client_id :: uuid
  contact_normalized_email :: string
  contact_display_name :: string
  contact_role :: "string option"
  contact_created_at :: time

record project =
  proj_id :: uuid
  proj_tenant_id :: uuid
  proj_client_id :: uuid
  proj_name :: string
  proj_status :: project_status
  proj_currency :: string
  proj_base_contract_value_minor :: int
  proj_current_scope_version_id :: "uuid option"
  proj_preference_version_id :: uuid
  proj_timezone :: string
  proj_calendar_version_id :: "uuid option"
  proj_target_date :: "time option"
  proj_created_at :: time
  proj_updated_at :: time
  proj_row_version :: int

record calendar_version =
  cal_id :: uuid
  cal_tenant_id :: uuid
  cal_project_id :: uuid
  cal_version :: int
  cal_weekdays :: "int list"
  cal_holiday_dates :: "string list"
  cal_confirmed_daily_capacity_hours :: decimal
  cal_created_at :: time

record audit_event =
  audit_id :: uuid
  audit_tenant_id :: uuid
  audit_project_id :: "uuid option"
  audit_actor :: string
  audit_action :: string
  audit_resource_type :: string
  audit_resource_id :: string
  audit_resource_revision :: "int option"
  audit_correlation_id :: uuid
  audit_causation_id :: "uuid option"
  audit_before_state :: "((string \<times> pyval) list) option"
  audit_after_state :: "((string \<times> pyval) list) option"
  audit_content_digest :: string
  audit_safe_metadata :: "(string \<times> pyval) list"
  audit_occurred_at :: time

record job =
  job_id :: uuid
  job_tenant_id :: uuid
  job_project_id :: "uuid option"
  job_kind :: string
  job_payload_ref :: "(string \<times> pyval) list"
  job_correlation_id :: uuid
  job_causation_id :: "uuid option"
  job_state :: job_state
  job_available_at :: time
  job_lease_until :: "time option"
  job_lease_owner :: "string option"
  job_fencing_generation :: int
  job_attempt_count :: int
  job_max_attempts :: int
  job_deadline_at :: "time option"
  job_last_error :: "string option"
  job_created_at :: time
  job_updated_at :: time

record outbox_event =
  ob_id :: uuid
  ob_tenant_id :: uuid
  ob_aggregate_type :: string
  ob_aggregate_id :: string
  ob_event_type :: string
  ob_payload :: "(string \<times> pyval) list"
  ob_correlation_id :: uuid
  ob_causation_id :: "uuid option"
  ob_published_at :: "time option"
  ob_publish_attempts :: int
  ob_last_error :: "string option"
  ob_created_at :: time

record consumer_receipt =
  rcpt_id :: uuid
  rcpt_consumer_name :: string
  rcpt_event_id :: uuid
  rcpt_result_ref :: "(string \<times> pyval) list"
  rcpt_received_at :: time

record external_action =
  act_id :: uuid
  act_tenant_id :: uuid
  act_project_id :: "uuid option"
  act_action_key :: string
  act_provider :: string
  act_operation :: string
  act_state :: action_state
  act_approved_payload :: "(string \<times> pyval) list"
  act_payload_digest :: string
  act_idempotency_key :: string
  act_receipt_ref :: "((string \<times> pyval) list) option"
  act_uncertainty_reason :: "string option"
  act_created_at :: time
  act_updated_at :: time

record action_attempt =
  att_id :: uuid
  att_action_id :: uuid
  att_attempt_number :: int
  att_state :: action_state
  att_provider_request_id :: "string option"
  att_dispatched_at :: time
  att_completed_at :: "time option"
  att_outcome_ref :: "((string \<times> pyval) list) option"
  att_error_code :: "string option"
  att_error_message :: "string option"

record capacity_reservation =
  cap_res_id :: uuid
  cap_res_tenant_id :: uuid
  cap_res_reservation_key :: string
  cap_res_worker_id :: string
  cap_res_lease_until :: time
  cap_res_released_at :: "time option"
  cap_res_created_at :: time

record scope_version =
  sv_id :: uuid
  sv_tenant_id :: uuid
  sv_project_id :: uuid
  sv_version :: int
  sv_parent_version_id :: "uuid option"
  sv_source_revision_id :: "uuid option"
  sv_confirmation_actor :: string
  sv_content_hash :: string
  sv_confirmed_at :: time
  sv_created_at :: time

record scope_version_item =
  svi_id :: uuid
  svi_tenant_id :: uuid
  svi_project_id :: uuid
  svi_scope_version_id :: uuid
  svi_scope_item_id :: uuid

record scope_amendment =
  amend_id :: uuid
  amend_tenant_id :: uuid
  amend_project_id :: uuid
  amend_accepted_revision_id :: uuid
  amend_previous_scope_version_id :: uuid
  amend_resulting_scope_version_id :: uuid
  amend_operations_json :: "pyval list"
  amend_created_at :: time

record request_record =
  req_id :: uuid
  req_tenant_id :: uuid
  req_project_id :: uuid
  req_summary :: string
  req_status :: request_status
  req_request_version :: int
  req_merged_into_id :: "uuid option"
  req_rejection_reason :: "string option"
  req_row_version :: int
  req_created_at :: time
  req_updated_at :: time

record evidence_bundle =
  bundle_id :: uuid
  bundle_tenant_id :: uuid
  bundle_project_id :: uuid
  bundle_request_id :: "uuid option"
  bundle_snapshot_digest :: string
  bundle_searched_sources :: "pyval list"
  bundle_cutoff :: time
  bundle_completeness :: string
  bundle_stale_at :: "time option"
  bundle_created_at :: time

record evidence_reference =
  eref_id :: uuid
  eref_tenant_id :: uuid
  eref_project_id :: uuid
  eref_bundle_id :: uuid
  eref_source_type :: string
  eref_source_id :: string
  eref_source_version :: string
  eref_exact_excerpt_ref :: string
  eref_content_hash :: string
  eref_locator :: "(string \<times> pyval) list"
  eref_fetched_at :: time
  eref_access_scope :: string
  eref_relation :: string

record analysis_decision =
  dec_id :: uuid
  dec_tenant_id :: uuid
  dec_project_id :: uuid
  dec_request_id :: "uuid option"
  dec_workflow_id :: uuid
  dec_assessment_id :: "uuid option"
  dec_evidence_bundle_id :: "uuid option"
  dec_kind :: decision_kind
  dec_status :: decision_status
  dec_title :: string
  dec_summary :: string
  dec_safe_details :: "(string \<times> pyval) list"
  dec_terms_snapshot :: "((string \<times> pyval) list) option"
  dec_trace_summary :: "(string \<times> pyval) list"
  dec_row_version :: int
  dec_created_at :: time
  dec_updated_at :: time

record analysis_draft_revision =
  draft_id :: uuid
  draft_tenant_id :: uuid
  draft_project_id :: uuid
  draft_request_id :: "uuid option"
  draft_workflow_id :: uuid
  draft_decision_id :: uuid
  draft_revision :: int
  draft_content_hash :: string
  draft_payload :: "(string \<times> pyval) list"
  draft_status :: revision_status
  draft_created_at :: time

record change_order =
  co_id :: uuid
  co_tenant_id :: uuid
  co_project_id :: uuid
  co_request_id :: uuid
  co_number :: int
  co_current_revision_id :: "uuid option"
  co_status :: change_order_status
  co_row_version :: int
  co_created_at :: time
  co_updated_at :: time

record proposal_revision =
  rev_id :: uuid
  rev_tenant_id :: uuid
  rev_project_id :: uuid
  rev_change_order_id :: uuid
  rev_revision_number :: int
  rev_baseline_version_id :: uuid
  rev_request_version :: int
  rev_preference_version_id :: uuid
  rev_total_minor :: int
  rev_tax_minor :: int
  rev_currency :: string
  rev_title :: string
  rev_requested_change :: string
  rev_deliverables :: "pyval list"
  rev_exclusions :: "pyval list"
  rev_assumptions :: "pyval list"
  rev_client_explanation :: string
  rev_recipient_contact_id :: uuid
  rev_recipient_email :: string
  rev_subject :: string
  rev_plain_text_body :: string
  rev_html_body :: string
  rev_attachment_hashes :: "pyval list"
  rev_terms_json :: "(string \<times> pyval) list"
  rev_evidence_digest :: string
  rev_evidence_reference_ids :: "string list"
  rev_canonical_artifact_ref :: "(string \<times> pyval) list"
  rev_canonical_artifact_hash :: string
  rev_approval_url :: string
  rev_token_ciphertext :: string
  rev_status :: revision_status
  rev_created_at :: time

record approval =
  appr_id :: uuid
  appr_tenant_id :: uuid
  appr_project_id :: uuid
  appr_change_order_id :: uuid
  appr_revision_id :: uuid
  appr_actor_type :: actor_type
  appr_actor_identifier :: string
  appr_content_hash :: string
  appr_decision :: approval_decision
  appr_provenance :: "(string \<times> pyval) list"
  appr_comment :: "string option"
  appr_created_at :: time

record client_capability =
  cc_id :: uuid
  cc_tenant_id :: uuid
  cc_project_id :: uuid
  cc_change_order_id :: uuid
  cc_revision_id :: uuid
  cc_client_id :: uuid
  cc_token_hash :: string
  cc_content_hash :: string
  cc_purpose :: capability_purpose
  cc_activated_at :: "time option"
  cc_expires_at :: "time option"
  cc_consumed_at :: "time option"
  cc_revoked_at :: "time option"
  cc_created_at :: time

record client_session =
  cs_id :: uuid
  cs_capability_id :: uuid
  cs_session_hash :: string
  cs_csrf_hash :: string
  cs_purpose :: capability_purpose
  cs_expires_at :: time
  cs_revoked_at :: "time option"
  cs_created_at :: time

record payment_request =
  pr_id :: uuid
  pr_tenant_id :: uuid
  pr_project_id :: uuid
  pr_accepted_revision_id :: uuid
  pr_total_minor :: int
  pr_tax_minor :: int
  pr_currency :: string
  pr_status :: payment_status
  pr_due_at :: "time option"
  pr_expire_at :: "time option"
  pr_paid_at :: "time option"
  pr_row_version :: int
  pr_created_at :: time
  pr_updated_at :: time

record payment_link_attempt =
  pl_id :: uuid
  pl_tenant_id :: uuid
  pl_project_id :: uuid
  pl_payment_request_id :: uuid
  pl_attempt_number :: int
  pl_provider_account_id :: string
  pl_provider_environment :: string
  pl_reference_id :: string
  pl_amount_minor :: int
  pl_currency :: string
  pl_status :: link_status
  pl_provider_link_id :: "string option"
  pl_provider_order_id :: "string option"
  pl_short_url :: "string option"
  pl_provider_status :: "string option"
  pl_action_id :: "uuid option"
  pl_provider_payload :: "((string \<times> pyval) list) option"
  pl_created_at :: time
  pl_updated_at :: time

record payment_attempt =
  pa_id :: uuid
  pa_tenant_id :: "uuid option"
  pa_project_id :: "uuid option"
  pa_link_attempt_id :: "uuid option"
  pa_provider_payment_id :: string
  pa_provider_order_id :: "string option"
  pa_amount_minor :: int
  pa_currency :: string
  pa_status :: string
  pa_captured :: bool
  pa_provider_created_at :: "time option"
  pa_provider_payload :: "((string \<times> pyval) list) option"
  pa_observed_at :: time
  pa_created_at :: time

record payment_webhook_ingress =
  wh_id :: uuid
  wh_provider_account_id :: string
  wh_provider_environment :: string
  wh_provider_event_id :: string
  wh_event_type :: string
  wh_signature_verified :: bool
  wh_raw_payload :: "(string \<times> pyval) list"
  wh_normalization_state :: normalization_state
  wh_observation_id :: "uuid option"
  wh_normalized_at :: "time option"
  wh_last_error :: "string option"
  wh_received_at :: time

record payment_observation =
  po_id :: uuid
  po_tenant_id :: "uuid option"
  po_project_id :: "uuid option"
  po_payment_request_id :: "uuid option"
  po_link_attempt_id :: "uuid option"
  po_payment_attempt_id :: "uuid option"
  po_provider_account_id :: string
  po_provider_environment :: string
  po_provider_event_id :: string
  po_event_type :: string
  po_provider_link_id :: "string option"
  po_provider_payment_id :: "string option"
  po_provider_order_id :: "string option"
  po_reference_id :: "string option"
  po_amount_minor :: "int option"
  po_currency :: "string option"
  po_observed_status :: string
  po_signature_verified :: bool
  po_raw_payload :: "(string \<times> pyval) list"
  po_observed_at :: time
  po_created_at :: time
  po_association_state :: association_state
  po_next_retry_at :: "time option"
  po_associated_at :: "time option"

record approved_revenue_fact =
  rf_id :: uuid
  rf_tenant_id :: uuid
  rf_project_id :: uuid
  rf_change_order_id :: uuid
  rf_revision_id :: uuid
  rf_amount_minor :: int
  rf_tax_minor :: int
  rf_currency :: string
  rf_fact_type :: string
  rf_created_at :: time

record notification =
  ntf_id :: uuid
  ntf_tenant_id :: uuid
  ntf_change_order_id :: "uuid option"
  ntf_revision_id :: "uuid option"
  ntf_channel :: string
  ntf_verified_recipient :: string
  ntf_state :: notification_state
  ntf_action_id :: "uuid option"
  ntf_created_at :: time

record user_account =
  usr_id :: uuid
  usr_cognito_sub :: string
  usr_verified_email :: string
  usr_timezone :: string
  usr_status :: user_status
  usr_created_at :: time
  usr_updated_at :: time
  usr_row_version :: int

record client =
  cli_id :: uuid
  cli_tenant_id :: uuid
  cli_name :: string
  cli_company :: "string option"
  cli_created_at :: time
  cli_updated_at :: time
  cli_row_version :: int

record api_idempotency =
  idem_id :: uuid
  idem_actor_scope :: string
  idem_route :: string
  idem_key :: string
  idem_request_digest :: string
  idem_response_ref :: "(string \<times> pyval) list"
  idem_expires_at :: time
  idem_created_at :: time

record workflow_instance =
  wf_id :: uuid
  wf_tenant_id :: uuid
  wf_project_id :: "uuid option"
  wf_workflow_key :: string
  wf_input_digest :: string
  wf_state :: workflow_state
  wf_budget_minor :: "int option"
  wf_reserved_minor :: int
  wf_current_job_id :: "uuid option"
  wf_request_id :: "uuid option"
  wf_scope_version_id :: "uuid option"
  wf_preference_version_id :: "uuid option"
  wf_current_phase :: "string option"
  wf_policy_version :: "string option"
  wf_correlation_id :: "uuid option"
  wf_row_version :: int
  wf_created_at :: time
  wf_updated_at :: time

record contract_document =
  cdoc_id :: uuid
  cdoc_tenant_id :: uuid
  cdoc_project_id :: uuid
  cdoc_object_key :: string
  cdoc_object_version :: string
  cdoc_sha256 :: string
  cdoc_size_bytes :: int
  cdoc_mime_type :: string
  cdoc_source_type :: string
  cdoc_status :: document_status
  cdoc_extractor_version :: "string option"
  cdoc_rejection_reason :: "string option"
  cdoc_created_at :: time
  cdoc_completed_at :: "time option"

record document_upload_grant =
  grant_id :: uuid
  grant_tenant_id :: uuid
  grant_project_id :: uuid
  grant_document_id :: uuid
  grant_token_hash :: string
  grant_expected_size_bytes :: int
  grant_expected_mime_type :: string
  grant_expires_at :: time
  grant_consumed_at :: "time option"
  grant_created_at :: time

record document_chunk =
  dchunk_id :: uuid
  dchunk_tenant_id :: uuid
  dchunk_project_id :: uuid
  dchunk_document_id :: uuid
  dchunk_chunk_index :: int
  dchunk_page_number :: "int option"
  dchunk_section :: "string option"
  dchunk_start_offset :: int
  dchunk_end_offset :: int
  dchunk_source_text :: string
  dchunk_content_hash :: string
  dchunk_created_at :: time

record scope_candidate =
  cand_id :: uuid
  cand_tenant_id :: uuid
  cand_project_id :: uuid
  cand_document_id :: uuid
  cand_source_chunk_id :: uuid
  cand_item_key :: string
  cand_item_type :: string
  cand_extracted_text :: string
  cand_corrected_text :: "string option"
  cand_extractor_version :: string
  cand_status :: candidate_status
  cand_correction_reason :: "string option"
  cand_created_at :: time
  cand_updated_at :: time

record scope_item =
  sitem_id :: uuid
  sitem_tenant_id :: uuid
  sitem_project_id :: uuid
  sitem_source_document_chunk_id :: "uuid option"
  sitem_source_revision_id :: "uuid option"
  sitem_item_type :: string
  sitem_item_key :: string
  sitem_text :: string
  sitem_supersedes_item_id :: "uuid option"
  sitem_created_at :: time

record integration_binding =
  ibind_id :: uuid
  ibind_tenant_id :: uuid
  ibind_project_id :: uuid
  ibind_provider :: string
  ibind_connection_id :: "uuid option"
  ibind_resource_type :: string
  ibind_resource_id :: string
  ibind_alias :: "string option"
  ibind_priority :: int
  ibind_status :: string
  ibind_created_at :: time

record external_event =
  xev_id :: uuid
  xev_tenant_id :: uuid
  xev_connection_id :: "uuid option"
  xev_provider :: string
  xev_provider_account_id :: "string option"
  xev_environment :: string
  xev_provider_event_id :: string
  xev_payload_hash :: string
  xev_payload_object_ref :: "string option"
  xev_received_at :: time
  xev_occurred_at :: time
  xev_processing_status :: string
  xev_correlation_id :: uuid
  xev_resource_type :: "string option"
  xev_resource_id :: "string option"
  xev_source_version :: "string option"
  xev_content_ref :: "string option"

record communication_event =
  cev_id :: uuid
  cev_tenant_id :: uuid
  cev_project_id :: "uuid option"
  cev_connection_id :: "uuid option"
  cev_external_event_id :: uuid
  cev_resource_type :: string
  cev_resource_id :: string
  cev_source_version :: string
  cev_sender :: "string option"
  cev_thread_id :: "string option"
  cev_occurred_at :: time
  cev_content_ref :: string
  cev_direction :: string

record request_communication =
  rcomm_id :: uuid
  rcomm_tenant_id :: uuid
  rcomm_project_id :: uuid
  rcomm_request_id :: uuid
  rcomm_communication_id :: uuid
  rcomm_relationship_type :: string
  rcomm_created_at :: time

record routing_decision =
  rdec_id :: uuid
  rdec_tenant_id :: uuid
  rdec_external_event_id :: uuid
  rdec_status :: routing_status
  rdec_precedence :: string
  rdec_candidate_projects :: "string list"
  rdec_evidence :: "pyval list"
  rdec_selected_project_id :: "uuid option"
  rdec_resolved_by :: "string option"
  rdec_resolved_at :: "time option"
  rdec_created_at :: time

record thread_assignment =
  thr_id :: uuid
  thr_tenant_id :: uuid
  thr_project_id :: uuid
  thr_connection_id :: "uuid option"
  thr_thread_id :: string
  thr_assigned_by :: string
  thr_created_at :: time

record agent_run =
  arun_id :: uuid
  arun_tenant_id :: uuid
  arun_workflow_id :: uuid
  arun_node_name :: string
  arun_attempt :: int
  arun_model_id :: string
  arun_prompt_version :: string
  arun_schema_version :: string
  arun_tool_policy_version :: string
  arun_input_hash :: string
  arun_input_ref :: "(string \<times> pyval) list"
  arun_output_ref :: "((string \<times> pyval) list) option"
  arun_output_hash :: "string option"
  arun_usage :: "((string \<times> pyval) list) option"
  arun_status :: run_status
  arun_error_code :: "string option"
  arun_error_message :: "string option"
  arun_started_at :: time
  arun_completed_at :: "time option"
  arun_created_at :: time

record scope_assessment =
  assess_id :: uuid
  assess_tenant_id :: uuid
  assess_project_id :: uuid
  assess_request_id :: "uuid option"
  assess_workflow_id :: uuid
  assess_classification :: string
  assess_reason :: string
  assess_evidence_bundle_id :: "uuid option"
  assess_scope_version_id :: "uuid option"
  assess_request_version :: "int option"
  assess_coverage_status :: string
  assess_matched_scope_item_ids :: "string list"
  assess_matched_amendment_ids :: "string list"
  assess_pending_request_ids :: "string list"
  assess_required_evidence_queries :: "string list"
  assess_uncertainty :: "string option"
  assess_input_digest :: string
  assess_created_at :: time

record budget_window =
  bwin_id :: uuid
  bwin_tenant_id :: "uuid option"
  bwin_scope_key :: string
  bwin_window_start :: int
  bwin_token_limit :: int
  bwin_tokens_reserved :: int
  bwin_tokens_used :: int
  bwin_cost_limit_minor :: "int option"
  bwin_cost_reserved_minor :: int
  bwin_cost_used_minor :: int
  bwin_created_at :: time
  bwin_updated_at :: time

record budget_reservation =
  bres_id :: uuid
  bres_tenant_id :: uuid
  bres_workflow_id :: uuid
  bres_window_id :: uuid
  bres_reservation_key :: string
  bres_token_reserved :: int
  bres_cost_reserved_minor :: int
  bres_token_used :: int
  bres_cost_used_minor :: int
  bres_status :: reservation_status
  bres_created_at :: time
  bres_updated_at :: time

record evaluation_run =
  evrun_id :: uuid
  evrun_dataset_version :: string
  evrun_split :: string
  evrun_run_number :: int
  evrun_model_version :: string
  evrun_prompt_version :: string
  evrun_tool_policy_version :: string
  evrun_metrics :: "(string \<times> pyval) list"
  evrun_passed :: bool
  evrun_created_at :: time

record integration_connection =
  gconn_id :: uuid
  gconn_tenant_id :: uuid
  gconn_provider :: string
  gconn_provider_account_id :: string
  gconn_account_email :: string
  gconn_status :: connection_status
  gconn_credential_ciphertext :: "string option"
  gconn_credential_version :: int
  gconn_watch_id :: "string option"
  gconn_watch_expiry :: "time option"
  gconn_committed_history_id :: "string option"
  gconn_coverage_cutoff :: "time option"
  gconn_last_success_at :: "time option"
  gconn_last_error :: "string option"
  gconn_lease_until :: "time option"
  gconn_row_version :: int
  gconn_created_at :: time
  gconn_updated_at :: time

record oauth_session =
  oauth_id :: uuid
  oauth_tenant_id :: uuid
  oauth_provider :: string
  oauth_state_hash :: string
  oauth_code_verifier_ciphertext :: "string option"
  oauth_redirect_uri :: string
  oauth_expected_account_id :: "string option"
  oauth_expires_at :: time
  oauth_consumed_at :: "time option"
  oauth_created_at :: time

record mailbox_sync =
  msync_id :: uuid
  msync_tenant_id :: uuid
  msync_connection_id :: uuid
  msync_status :: sync_status
  msync_mode :: sync_mode
  msync_committed_history_id :: "string option"
  msync_coverage_start :: "time option"
  msync_coverage_end :: "time option"
  msync_gap_detected_at :: "time option"
  msync_gap_reason :: "string option"
  msync_last_success_at :: "time option"
  msync_lease_until :: "time option"
  msync_row_version :: int
  msync_created_at :: time
  msync_updated_at :: time

section \<open>The database\<close>

text \<open>The tables, the clock, the supplies of UUIDs and tokens, and the number of exchanges with Gmail and SES so far,
which indexes their answers.\<close>

record db =
  clock :: time
  next_uuid :: uuid
  next_token :: nat
  exchanges :: nat
  preference_versions :: "preference_version list"
  client_contacts :: "client_contact list"
  projects :: "project list"
  calendar_versions :: "calendar_version list"
  audit_events :: "audit_event list"
  jobs :: "job list"
  outbox_events :: "outbox_event list"
  consumer_receipts :: "consumer_receipt list"
  external_actions :: "external_action list"
  action_attempts :: "action_attempt list"
  capacity_reservations :: "capacity_reservation list"
  scope_versions :: "scope_version list"
  scope_version_items :: "scope_version_item list"
  scope_amendments :: "scope_amendment list"
  request_records :: "request_record list"
  evidence_bundles :: "evidence_bundle list"
  evidence_references :: "evidence_reference list"
  analysis_decisions :: "analysis_decision list"
  analysis_draft_revisions :: "analysis_draft_revision list"
  change_orders :: "change_order list"
  proposal_revisions :: "proposal_revision list"
  approvals :: "approval list"
  client_capabilities :: "client_capability list"
  client_sessions :: "client_session list"
  payment_requests :: "payment_request list"
  payment_link_attempts :: "payment_link_attempt list"
  payment_attempts :: "payment_attempt list"
  payment_webhook_ingress_rows :: "payment_webhook_ingress list"
  payment_observations :: "payment_observation list"
  approved_revenue_facts :: "approved_revenue_fact list"
  notifications :: "notification list"
  users :: "user_account list"
  clients :: "client list"
  api_idempotency_rows :: "api_idempotency list"
  workflow_instances :: "workflow_instance list"
  contract_documents :: "contract_document list"
  document_upload_grants :: "document_upload_grant list"
  document_chunks :: "document_chunk list"
  scope_candidates :: "scope_candidate list"
  scope_items :: "scope_item list"
  integration_bindings :: "integration_binding list"
  external_events :: "external_event list"
  communication_events :: "communication_event list"
  request_communications :: "request_communication list"
  routing_decisions :: "routing_decision list"
  thread_assignments :: "thread_assignment list"
  agent_runs :: "agent_run list"
  scope_assessments :: "scope_assessment list"
  budget_windows :: "budget_window list"
  budget_reservations :: "budget_reservation list"
  evaluation_runs :: "evaluation_run list"
  integration_connections :: "integration_connection list"
  oauth_sessions :: "oauth_session list"
  mailbox_syncs :: "mailbox_sync list"

type_synonym 'a act = "(db, exn, 'a) prog"

definition empty_db :: db where
  "empty_db = \<lparr>clock = 0, next_uuid = 1, next_token = 0, exchanges = 0,
     preference_versions = [],
     client_contacts = [],
     projects = [],
     calendar_versions = [],
     audit_events = [],
     jobs = [],
     outbox_events = [],
     consumer_receipts = [],
     external_actions = [],
     action_attempts = [],
     capacity_reservations = [],
     scope_versions = [],
     scope_version_items = [],
     scope_amendments = [],
     request_records = [],
     evidence_bundles = [],
     evidence_references = [],
     analysis_decisions = [],
     analysis_draft_revisions = [],
     change_orders = [],
     proposal_revisions = [],
     approvals = [],
     client_capabilities = [],
     client_sessions = [],
     payment_requests = [],
     payment_link_attempts = [],
     payment_attempts = [],
     payment_webhook_ingress_rows = [],
     payment_observations = [],
     approved_revenue_facts = [],
     notifications = [],
     users = [],
     clients = [],
     api_idempotency_rows = [],
     workflow_instances = [],
     contract_documents = [],
     document_upload_grants = [],
     document_chunks = [],
     scope_candidates = [],
     scope_items = [],
     integration_bindings = [],
     external_events = [],
     communication_events = [],
     request_communications = [],
     routing_decisions = [],
     thread_assignments = [],
     agent_runs = [],
     scope_assessments = [],
     budget_windows = [],
     budget_reservations = [],
     evaluation_runs = [],
     integration_connections = [],
     oauth_sessions = [],
     mailbox_syncs = []\<rparr>"

text \<open>\<open>uuid4()\<close>, \<open>datetime.now(UTC)\<close>, and \<open>now or datetime.now(UTC)\<close>.\<close>

definition fresh_uuid :: "uuid act" where
  "fresh_uuid = (\<lambda>s. (Inr (next_uuid s), s\<lparr>next_uuid := Suc (next_uuid s)\<rparr>))"

definition the_time :: "time act" where
  "the_time = gets clock"

definition time_or_now :: "time option \<Rightarrow> time act" where
  "time_or_now t = (case t of Some v \<Rightarrow> ret v | None \<Rightarrow> gets clock)"

text \<open>
  What the code takes from outside \<open>src/\<close>: the SHA-256 digest, the random tokens of
  \<open>secrets.token_urlsafe(32)\<close> (the n-th one drawn), the AES-GCM envelope with the configured
  key and its opening (\<open>ValueError\<close> stands for its subclasses too), and the settings that the services read.
\<close>

record env =
  sha256 :: "string \<Rightarrow> string"
  token_urlsafe :: "nat \<Rightarrow> string"
  aes_protect :: "string \<Rightarrow> string"
  aes_unprotect :: "string \<Rightarrow> exn + string"
  client_review_base_url :: string
  capability_key_configured :: bool
  development_environment :: bool
  razorpay_account_id :: "string option"
  razorpay_environment :: "string option"

definition fresh_token :: "env \<Rightarrow> string act" where
  "fresh_token E = (\<lambda>s. (Inr (token_urlsafe E (next_token s)), s\<lparr>next_token := Suc (next_token s)\<rparr>))"

text \<open>\<open>canonical_sha256(v)\<close> as a step of a program.\<close>

definition digest_of :: "env \<Rightarrow> pyval \<Rightarrow> string act" where
  "digest_of E v = (case canonical_sha256 (sha256 E) v of Inl e \<Rightarrow> raise e | Inr h \<Rightarrow> ret h)"

lemma run_fresh_uuid [simp]: "fresh_uuid s = (Inr (next_uuid s), s\<lparr>next_uuid := Suc (next_uuid s)\<rparr>)"
  by (simp add: fresh_uuid_def)

lemma run_fresh_token [simp]:
  "fresh_token E s = (Inr (token_urlsafe E (next_token s)), s\<lparr>next_token := Suc (next_token s)\<rparr>)"
  by (simp add: fresh_token_def)

lemma run_time_or_now [simp]: "time_or_now t s = (Inr (case t of Some v \<Rightarrow> v | None \<Rightarrow> clock s), s)"
  by (cases t) (simp_all add: time_or_now_def)

lemma run_the_time [simp]: "the_time s = (Inr (clock s), s)"
  by (simp add: the_time_def)

lemma run_digest_of:
  "digest_of E v s = (case canonical_sha256 (sha256 E) v of Inl e \<Rightarrow> (Inl e, s) | Inr h \<Rightarrow> (Inr h, s))"
  by (simp add: digest_of_def split: sum.split)

lemma run_bind_fresh_uuid [simp]: "bindE fresh_uuid f s = f (next_uuid s) (s\<lparr>next_uuid := Suc (next_uuid s)\<rparr>)"
  and run_bind_fresh_token [simp]:
    "bindE (fresh_token E) g s = g (token_urlsafe E (next_token s)) (s\<lparr>next_token := Suc (next_token s)\<rparr>)"
  and run_bind_the_time [simp]: "bindE the_time h s = h (clock s) s"
  and run_bind_time_or_now [simp]: "bindE (time_or_now t) h s = h (case t of Some v \<Rightarrow> v | None \<Rightarrow> clock s) s"
  by (simp_all add: bindE_def)

lemma from_time_or_now:
  assumes "\<And>t. evolves_from R P (f t)"
  shows "evolves_from R P (bindE (time_or_now now) f)"
  using assms by (simp add: evolves_from_def)

lemma from_the_time:
  assumes "\<And>t. evolves_from R P (f t)"
  shows "evolves_from R P (bindE the_time f)"
  using assms by (simp add: evolves_from_def)

section \<open>Constraints\<close>

text \<open>
  The \<open>CheckConstraint\<close>s that depend on data; those that list the values of a status column
  hold by the type of the column.
\<close>

definition max_minor :: int where
  "max_minor = 100000000"

definition preference_version_check :: "preference_version \<Rightarrow> bool" where
  "preference_version_check p \<longleftrightarrow>
     0 < pref_version p \<and>
     0 < pref_rate_minor p \<and> 0 < pref_minimum_minor p \<and> 0 < pref_increment_minor p \<and>
     pref_rate_minor p \<le> max_minor \<and> pref_minimum_minor p \<le> max_minor \<and> pref_increment_minor p \<le> max_minor"

definition project_check :: "project \<Rightarrow> bool" where
  "project_check p \<longleftrightarrow>
     proj_currency p = ''INR'' \<and>
     0 \<le> proj_base_contract_value_minor p \<and> proj_base_contract_value_minor p \<le> max_minor"

definition workflow_instance_check :: "workflow_instance \<Rightarrow> bool" where
  "workflow_instance_check w \<longleftrightarrow>
     (case wf_budget_minor w of None \<Rightarrow> True | Some b \<Rightarrow> 0 \<le> b) \<and> 0 \<le> wf_reserved_minor w"

definition contract_document_check :: "contract_document \<Rightarrow> bool" where
  "contract_document_check d \<longleftrightarrow> 0 \<le> cdoc_size_bytes d \<and> cdoc_size_bytes d \<le> 10485760"

definition document_chunk_check :: "document_chunk \<Rightarrow> bool" where
  "document_chunk_check c \<longleftrightarrow> 0 \<le> dchunk_start_offset c \<and> dchunk_start_offset c \<le> dchunk_end_offset c"

definition evidence_reference_check :: "evidence_reference \<Rightarrow> bool" where
  "evidence_reference_check r \<longleftrightarrow> eref_relation r \<in> {''SUPPORTS'', ''CONTRADICTS'', ''CONTEXT''}"

definition agent_run_check :: "agent_run \<Rightarrow> bool" where
  "agent_run_check r \<longleftrightarrow> 1 \<le> arun_attempt r \<and> arun_attempt r \<le> 3"

definition scope_assessment_check :: "scope_assessment \<Rightarrow> bool" where
  "scope_assessment_check a \<longleftrightarrow>
     assess_classification a \<in> {''IN_SCOPE'', ''POTENTIAL_SCOPE_CHANGE'', ''AMBIGUOUS'', ''PREVIOUSLY_APPROVED'', ''NOT_A_SCOPE_REQUEST''} \<and>
     assess_coverage_status a \<in> {''COMPLETE'', ''PARTIAL'', ''UNAVAILABLE'', ''REQUIRES_CLARIFICATION''} \<and>
     (case assess_uncertainty a of None \<Rightarrow> True | Some u \<Rightarrow> u \<in> {''LOW'', ''MEDIUM'', ''HIGH''})"

definition budget_window_check :: "budget_window \<Rightarrow> bool" where
  "budget_window_check w \<longleftrightarrow>
     0 < bwin_token_limit w \<and> 0 \<le> bwin_tokens_reserved w \<and> 0 \<le> bwin_tokens_used w \<and>
     (case bwin_cost_limit_minor w of None \<Rightarrow> True | Some l \<Rightarrow> 0 \<le> l) \<and>
     0 \<le> bwin_cost_reserved_minor w \<and> 0 \<le> bwin_cost_used_minor w"

definition budget_reservation_check :: "budget_reservation \<Rightarrow> bool" where
  "budget_reservation_check r \<longleftrightarrow>
     0 < bres_token_reserved r \<and> 0 \<le> bres_token_used r \<and>
     0 \<le> bres_cost_reserved_minor r \<and> 0 \<le> bres_cost_used_minor r"

definition draft_revision_check :: "analysis_draft_revision \<Rightarrow> bool" where
  "draft_revision_check r \<longleftrightarrow> 0 < draft_revision r"

definition evaluation_run_check :: "evaluation_run \<Rightarrow> bool" where
  "evaluation_run_check r \<longleftrightarrow>
     1 \<le> evrun_run_number r \<and> evrun_run_number r \<le> 3 \<and> evrun_split r \<in> {''development'', ''held_out''}"

definition integration_connection_check :: "integration_connection \<Rightarrow> bool" where
  "integration_connection_check c \<longleftrightarrow>
     gconn_provider c = ''gmail'' \<and> 1 \<le> gconn_credential_version c \<and> 1 \<le> gconn_row_version c"

definition mailbox_sync_check :: "mailbox_sync \<Rightarrow> bool" where
  "mailbox_sync_check m \<longleftrightarrow> 1 \<le> msync_row_version m"

definition job_check :: "job \<Rightarrow> bool" where
  "job_check j \<longleftrightarrow>
     0 \<le> job_fencing_generation j \<and>
     0 \<le> job_attempt_count j \<and> job_attempt_count j \<le> job_max_attempts j \<and>
     1 \<le> job_max_attempts j \<and> job_max_attempts j \<le> 3"

definition action_attempt_check :: "action_attempt \<Rightarrow> bool" where
  "action_attempt_check a \<longleftrightarrow> 1 \<le> att_attempt_number a \<and> att_attempt_number a \<le> 3"

definition change_order_check :: "change_order \<Rightarrow> bool" where
  "change_order_check c \<longleftrightarrow> 0 < co_number c \<and> 1 \<le> co_row_version c"

definition proposal_revision_check :: "proposal_revision \<Rightarrow> bool" where
  "proposal_revision_check r \<longleftrightarrow>
     0 < rev_revision_number r \<and>
     0 < rev_total_minor r \<and> rev_total_minor r \<le> max_minor \<and>
     0 \<le> rev_tax_minor r \<and> rev_tax_minor r \<le> rev_total_minor r \<and>
     rev_currency r = ''INR''"

definition payment_request_check :: "payment_request \<Rightarrow> bool" where
  "payment_request_check p \<longleftrightarrow>
     0 < pr_total_minor p \<and> pr_total_minor p \<le> max_minor \<and>
     0 \<le> pr_tax_minor p \<and> pr_tax_minor p \<le> pr_total_minor p \<and>
     pr_currency p = ''INR''"

definition payment_link_attempt_check :: "payment_link_attempt \<Rightarrow> bool" where
  "payment_link_attempt_check a \<longleftrightarrow>
     1 \<le> pl_attempt_number a \<and> pl_attempt_number a \<le> 3 \<and>
     0 < pl_amount_minor a \<and> pl_amount_minor a \<le> max_minor \<and>
     pl_currency a = ''INR'' \<and> pl_provider_environment a = ''test''"

definition payment_attempt_check :: "payment_attempt \<Rightarrow> bool" where
  "payment_attempt_check a \<longleftrightarrow>
     0 < pa_amount_minor a \<and> pa_amount_minor a \<le> max_minor \<and> pa_currency a = ''INR''"

definition payment_webhook_ingress_check :: "payment_webhook_ingress \<Rightarrow> bool" where
  "payment_webhook_ingress_check w \<longleftrightarrow> wh_provider_environment w = ''test''"

definition payment_observation_check :: "payment_observation \<Rightarrow> bool" where
  "payment_observation_check p \<longleftrightarrow> po_provider_environment p = ''test''"

definition approved_revenue_fact_check :: "approved_revenue_fact \<Rightarrow> bool" where
  "approved_revenue_fact_check f \<longleftrightarrow>
     0 < rf_amount_minor f \<and> rf_amount_minor f \<le> max_minor \<and>
     0 \<le> rf_tax_minor f \<and> rf_tax_minor f \<le> rf_amount_minor f \<and>
     rf_currency f = ''INR''"

text \<open>
  \<open>session.add(row); session.flush()\<close>: the database refuses a row that breaks a constraint or
  repeats a unique key with \<open>IntegrityError\<close>.
\<close>

definition add_row :: "(db \<Rightarrow> 'r list) \<Rightarrow> ('r list \<Rightarrow> db \<Rightarrow> db) \<Rightarrow> ('r \<Rightarrow> bool) \<Rightarrow> ('r \<Rightarrow> 'r \<Rightarrow> bool) \<Rightarrow> 'r \<Rightarrow> unit act" where
  "add_row get put ok clash row =
     bindE (gets get) (\<lambda>rows.
     if ok row \<and> \<not> list_ex (clash row) rows then modify (put (rows @ [row])) else raise IntegrityError)"

lemma run_add_row:
  "add_row get put ok clash row s =
     (if ok row \<and> \<not> list_ex (clash row) (get s) then (Inr (), put (get s @ [row]) s) else (Inl IntegrityError, s))"
  by (simp add: add_row_def)

end
