(* ===== verification/Jobs.thy ===== *)
theory Jobs
  imports Models
begin

text \<open>
  The job queue of \<open>services/workers/durable.py\<close>: the lock-order guard, enqueueing, claims
  under a lease with a fencing generation, heartbeats, completion, failure with back-off,
  recovery of expired leases, and the operator's retry of \<open>services/api/operations.py\<close>. The
  crash injector of \<open>faults.py\<close> is the list of points that crash. Metrics are not modelled,
  nor are row locks: the runs considered are sequences of whole operations.
\<close>

section \<open>Fault injection\<close>

datatype crash_point =
    TRANSACTION_PERSISTED | OUTBOX_ATTEMPT_COMMITTED | OUTBOX_PUBLISHING | OUTBOX_RESULT_SAVE
  | JOB_CLAIMED | ACTION_DISPATCH_PERSISTED | ACTION_PROVIDER_SUCCEEDED | ACTION_RESULT_SAVED

definition trip :: "crash_point list \<Rightarrow> crash_point \<Rightarrow> unit act" where
  "trip points point = (if point \<in> set points then raise InjectedCrash else ret ())"

lemma trip_Nil [simp]: "trip [] p = ret ()"
  by (simp add: trip_def)

section \<open>The lock-order guard\<close>

datatype lock_resource = LOCK_PROJECT | LOCK_CHANGE_ORDER | LOCK_PAYMENT | LOCK_ACTION

fun lock_rank :: "lock_resource \<Rightarrow> nat" where
  "lock_rank LOCK_PROJECT = 0"
| "lock_rank LOCK_CHANGE_ORDER = 1"
| "lock_rank LOCK_PAYMENT = 2"
| "lock_rank LOCK_ACTION = 3"

lemma lock_rank_inject [simp]: "lock_rank a = lock_rank b \<longleftrightarrow> a = b"
  by (cases a; cases b) simp_all

instantiation lock_resource :: linorder
begin

definition less_eq_lock_resource :: "lock_resource \<Rightarrow> lock_resource \<Rightarrow> bool" where
  "a \<le> b \<longleftrightarrow> lock_rank a \<le> lock_rank b"

definition less_lock_resource :: "lock_resource \<Rightarrow> lock_resource \<Rightarrow> bool" where
  "a < b \<longleftrightarrow> lock_rank a < lock_rank b"

instance
  by standard (auto simp: less_eq_lock_resource_def less_lock_resource_def)

end

definition LOCK_ORDER :: "(string \<times> lock_resource) list" where
  "LOCK_ORDER = [(''project'', LOCK_PROJECT), (''order'', LOCK_CHANGE_ORDER),
     (''payment'', LOCK_PAYMENT), (''action'', LOCK_ACTION)]"

text \<open>The guard's state is the list of resources held, the latest one last.\<close>

definition acquire :: "string \<Rightarrow> (lock_resource list, exn, unit) prog" where
  "acquire resource =
     (case map_of LOCK_ORDER resource of
        None \<Rightarrow> raise DurableExecutionError
      | Some r \<Rightarrow>
          bindE (gets (\<lambda>held. held)) (\<lambda>held.
          if held \<noteq> [] \<and> r < last held then raise DurableExecutionError
          else modify (\<lambda>held. held @ [r])))"

definition release :: "string \<Rightarrow> (lock_resource list, exn, unit) prog" where
  "release resource =
     bindE (gets (\<lambda>held. held)) (\<lambda>held.
     if held = [] \<or> Some (last held) \<noteq> map_of LOCK_ORDER resource then raise DurableExecutionError
     else modify butlast)"

interpretation ordered_locks: state_invariant "sorted :: lock_resource list \<Rightarrow> bool" .

lemma sorted_snoc_last: "sorted held \<Longrightarrow> held = [] \<or> \<not> r < last held \<Longrightarrow> sorted (held @ [r :: 'a::linorder])"
  by (cases held rule: rev_cases) (auto simp: sorted_append)

lemma acquire_sorted: "evolves (\<lambda>h h'. sorted h \<longrightarrow> sorted h') (acquire r)"
  by (auto simp: evolves_def acquire_def sorted_snoc_last split: option.split)

lemma release_sorted: "evolves (\<lambda>h h'. sorted h \<longrightarrow> sorted h') (release r)"
  by (auto simp: evolves_def release_def butlast_conv_take sorted_wrt_take)

section \<open>The operations on jobs\<close>

definition LEASE_SECONDS :: int where "LEASE_SECONDS = 60"
definition HEARTBEAT_SECONDS :: int where "HEARTBEAT_SECONDS = 20"
definition DEFAULT_MAX_ATTEMPTS :: int where "DEFAULT_MAX_ATTEMPTS = 3"

text \<open>\<open>session.get(Job, id)\<close>, and a mutation of the row, which also refreshes \<open>updated_at\<close>.\<close>

definition get_job :: "uuid \<Rightarrow> job option act" where
  "get_job i = gets (\<lambda>s. row_by job_id i (jobs s))"

definition put_job :: "uuid \<Rightarrow> (job \<Rightarrow> job) \<Rightarrow> unit act" where
  "put_job i f =
     modify (\<lambda>s. s\<lparr>jobs := upd_row job_id i (\<lambda>j. f (j\<lparr>job_updated_at := clock s\<rparr>)) (jobs s)\<rparr>)"

definition add_job :: "job \<Rightarrow> unit act" where
  "add_job = add_row jobs (\<lambda>rows s. s\<lparr>jobs := rows\<rparr>) job_check (\<lambda>r q. job_id r = job_id q)"

definition add_outbox_event :: "outbox_event \<Rightarrow> unit act" where
  "add_outbox_event =
     add_row outbox_events (\<lambda>rows s. s\<lparr>outbox_events := rows\<rparr>) (\<lambda>_. True) (\<lambda>r q. ob_id r = ob_id q)"

text \<open>The constructor \<open>OutboxEvent(...)\<close> with its column defaults.\<close>

definition new_outbox_event ::
  "uuid \<Rightarrow> string \<Rightarrow> string \<Rightarrow> string \<Rightarrow> (string \<times> pyval) list \<Rightarrow> uuid \<Rightarrow> uuid option \<Rightarrow> unit act" where
  "new_outbox_event tenant aggregate_type aggregate event_type payload correlation causation =
     bindE fresh_uuid (\<lambda>i.
     bindE the_time (\<lambda>now.
     add_outbox_event
       \<lparr>ob_id = i, ob_tenant_id = tenant, ob_aggregate_type = aggregate_type, ob_aggregate_id = aggregate,
        ob_event_type = event_type, ob_payload = payload, ob_correlation_id = correlation,
        ob_causation_id = causation, ob_published_at = None, ob_publish_attempts = 0,
        ob_last_error = None, ob_created_at = now\<rparr>))"

definition enqueue_job ::
  "uuid \<Rightarrow> string \<Rightarrow> (string \<times> pyval) list \<Rightarrow> uuid \<Rightarrow> uuid option \<Rightarrow> time option \<Rightarrow> time option \<Rightarrow> int \<Rightarrow>
   uuid option \<Rightarrow> crash_point list \<Rightarrow> job act" where
  "enqueue_job tenant kind payload correlation project available_at deadline_at max_attempts causation injector =
     bindE (require (1 \<le> max_attempts \<and> max_attempts \<le> DEFAULT_MAX_ATTEMPTS) DurableExecutionError) (\<lambda>_.
     bindE fresh_uuid (\<lambda>i.
     bindE the_time (\<lambda>now.
     bindE (ret \<lparr>job_id = i, job_tenant_id = tenant, job_project_id = project, job_kind = kind,
        job_payload_ref = payload, job_correlation_id = correlation, job_causation_id = causation,
        job_state = QUEUED, job_available_at = (case available_at of Some t \<Rightarrow> t | None \<Rightarrow> now),
        job_lease_until = None, job_lease_owner = None, job_fencing_generation = 0,
        job_attempt_count = 0, job_max_attempts = max_attempts, job_deadline_at = deadline_at,
        job_last_error = None, job_created_at = now, job_updated_at = now\<rparr>) (\<lambda>j.
     bindE (add_job j) (\<lambda>_.
     bindE (new_outbox_event tenant ''job'' (uuid_str i) ''job.queued''
        [(''job_id'', PStr (uuid_str i)), (''kind'', PStr kind)] correlation causation) (\<lambda>_.
     bindE (trip injector TRANSACTION_PERSISTED) (\<lambda>_.
     ret j)))))))"

text \<open>\<open>enqueue_job\<close> with the keyword arguments most callers leave at their defaults.\<close>

definition enqueue_now ::
  "uuid \<Rightarrow> string \<Rightarrow> (string \<times> pyval) list \<Rightarrow> uuid \<Rightarrow> uuid option \<Rightarrow> uuid option \<Rightarrow> job act" where
  "enqueue_now tenant kind payload correlation project causation =
     enqueue_job tenant kind payload correlation project None None DEFAULT_MAX_ATTEMPTS causation []"

definition require_job_owner :: "job \<Rightarrow> string \<Rightarrow> int \<Rightarrow> unit act" where
  "require_job_owner j worker generation =
     (if job_state j \<noteq> RUNNING \<or> job_lease_owner j \<noteq> Some worker \<or> job_fencing_generation j \<noteq> generation
      then raise StaleLeaseError else ret ())"

text \<open>
  A claim. The rows the query selects are visited in the order of availability; a row past its
  deadline is failed and not claimed. The flush at the end checks the constraints of the
  touched rows; when it fails, the transaction is rolled back.
\<close>

definition runnable :: "time \<Rightarrow> job \<Rightarrow> bool" where
  "runnable current j \<longleftrightarrow>
     (job_state j = QUEUED \<or> job_state j = JOB_RETRY_WAIT) \<and> job_available_at j \<le> current \<and>
     (case job_lease_until j of None \<Rightarrow> True | Some t \<Rightarrow> t \<le> current)"

definition past_deadline :: "time \<Rightarrow> job \<Rightarrow> bool" where
  "past_deadline current j \<longleftrightarrow> (case job_deadline_at j of None \<Rightarrow> False | Some t \<Rightarrow> t \<le> current)"

definition claim_order :: "job \<Rightarrow> time \<times> time \<times> uuid" where
  "claim_order j = (job_available_at j, job_created_at j, job_id j)"

definition claim_row :: "string \<Rightarrow> time \<Rightarrow> job \<Rightarrow> job" where
  "claim_row worker current j =
     (if past_deadline current j
      then j\<lparr>job_state := FAILED_REQUIRES_REVIEW, job_last_error := Some ''deadline_exceeded''\<rparr>
      else j\<lparr>job_state := RUNNING, job_lease_owner := Some worker,
             job_lease_until := Some (current + seconds LEASE_SECONDS),
             job_fencing_generation := job_fencing_generation j + 1,
             job_attempt_count := job_attempt_count j + 1, job_last_error := None\<rparr>)"

definition next_jobs :: "int \<Rightarrow> time \<Rightarrow> job list \<Rightarrow> job list" where
  "next_jobs limit current rows = take (nat limit) (sort_key claim_order (filter (runnable current) rows))"

definition flush_jobs :: "unit act" where
  "flush_jobs = bindE (gets jobs) (\<lambda>rows. require (list_all job_check rows) IntegrityError)"

definition claim_jobs :: "string \<Rightarrow> int \<Rightarrow> time option \<Rightarrow> crash_point list \<Rightarrow> job list act" where
  "claim_jobs worker limit now injector =
     bindE (require (1 \<le> limit) DurableExecutionError) (\<lambda>_.
     bindE (time_or_now now) (\<lambda>current.
     bindE (gets (\<lambda>s. next_jobs limit current (jobs s))) (\<lambda>picked.
     bindE (atomically
       (bindE (mapE (\<lambda>j. put_job (job_id j) (claim_row worker current)) picked) (\<lambda>_.
        flush_jobs))) (\<lambda>_.
     bindE (trip injector JOB_CLAIMED) (\<lambda>_.
     ret (map (claim_row worker current) (filter (\<lambda>j. \<not> past_deadline current j) picked)))))))"

definition heartbeat_job :: "uuid \<Rightarrow> string \<Rightarrow> int \<Rightarrow> time option \<Rightarrow> unit act" where
  "heartbeat_job i worker generation now =
     bindE (get_job i) (\<lambda>found.
     bindE (some_or DurableExecutionError found) (\<lambda>j.
     bindE (require_job_owner j worker generation) (\<lambda>_.
     bindE (time_or_now now) (\<lambda>current.
     bindE (require (case job_lease_until j of None \<Rightarrow> False | Some t \<Rightarrow> current \<le> t) StaleLeaseError) (\<lambda>_.
     put_job i (job_lease_until_update (\<lambda>_. Some (current + seconds LEASE_SECONDS))))))))"

definition complete_job :: "uuid \<Rightarrow> string \<Rightarrow> int \<Rightarrow> time option \<Rightarrow> unit act" where
  "complete_job i worker generation now =
     bindE (get_job i) (\<lambda>found.
     bindE (some_or DurableExecutionError found) (\<lambda>j.
     bindE (require_job_owner j worker generation) (\<lambda>_.
     bindE (time_or_now now) (\<lambda>current.
     bindE (require (case job_deadline_at j of None \<Rightarrow> True | Some t \<Rightarrow> current \<le> t) DurableExecutionError) (\<lambda>_.
     put_job i (\<lambda>j. j\<lparr>job_state := JOB_SUCCEEDED, job_lease_owner := None, job_lease_until := None,
                    job_updated_at := current\<rparr>))))))"

definition can_retry :: "bool \<Rightarrow> time \<Rightarrow> job \<Rightarrow> bool" where
  "can_retry retryable current j \<longleftrightarrow>
     retryable \<and> job_attempt_count j < job_max_attempts j \<and> \<not> past_deadline current j"

definition retry_delay :: "job \<Rightarrow> int" where
  "retry_delay j = min (2 ^ nat (max (job_attempt_count j - 1) 0)) 60"

definition fail_row :: "exn \<Rightarrow> bool \<Rightarrow> time \<Rightarrow> job \<Rightarrow> job" where
  "fail_row err retryable current j =
     (let j' = (if can_retry retryable current j
                then j\<lparr>job_state := JOB_RETRY_WAIT, job_available_at := current + seconds (retry_delay j)\<rparr>
                else j\<lparr>job_state := FAILED_REQUIRES_REVIEW\<rparr>)
      in j'\<lparr>job_last_error := Some (take 120 (exn_name err)), job_lease_owner := None, job_lease_until := None,
            job_updated_at := current\<rparr>)"

definition fail_job :: "uuid \<Rightarrow> string \<Rightarrow> int \<Rightarrow> exn \<Rightarrow> bool \<Rightarrow> time option \<Rightarrow> unit act" where
  "fail_job i worker generation err retryable now =
     bindE (get_job i) (\<lambda>found.
     bindE (some_or DurableExecutionError found) (\<lambda>j.
     bindE (require_job_owner j worker generation) (\<lambda>_.
     bindE (time_or_now now) (\<lambda>current.
     put_job i (fail_row err retryable current)))))"

definition lease_expired :: "time \<Rightarrow> job \<Rightarrow> bool" where
  "lease_expired current j \<longleftrightarrow>
     job_state j = RUNNING \<and> (case job_lease_until j of None \<Rightarrow> False | Some t \<Rightarrow> t < current)"

definition recover_row :: "time \<Rightarrow> job \<Rightarrow> job" where
  "recover_row current j =
     (let j' = j\<lparr>job_lease_owner := None, job_lease_until := None\<rparr> in
      if job_attempt_count j < job_max_attempts j \<and> \<not> past_deadline current j
      then j'\<lparr>job_state := JOB_RETRY_WAIT, job_available_at := current\<rparr>
      else j'\<lparr>job_state := FAILED_REQUIRES_REVIEW,
              job_last_error := Some ''lease_expired_attempt_budget_exhausted''\<rparr>)"

definition recover_expired_jobs :: "time option \<Rightarrow> nat act" where
  "recover_expired_jobs now =
     bindE (time_or_now now) (\<lambda>current.
     bindE (gets (\<lambda>s. filter (lease_expired current) (jobs s))) (\<lambda>expired.
     bindE (mapE (\<lambda>j. put_job (job_id j) (recover_row current)) expired) (\<lambda>_.
     ret (length expired))))"

text \<open>The operator's retry, from \<open>services/api/operations.py\<close>.\<close>

definition retry_failed_job :: "trusted_context \<Rightarrow> uuid \<Rightarrow> string \<Rightarrow> unit act" where
  "retry_failed_job ctx i reason =
     bindE (gets (\<lambda>s. find (\<lambda>j. job_id j = i \<and> job_tenant_id j = ctx_tenant_id ctx) (jobs s))) (\<lambda>found.
     bindE (some_or NotFoundError found) (\<lambda>j.
     bindE (require (job_state j = FAILED_REQUIRES_REVIEW \<or> job_state j = JOB_RETRY_WAIT) ConflictError) (\<lambda>_.
     bindE the_time (\<lambda>now.
     put_job i (\<lambda>j. j\<lparr>job_state := JOB_RETRY_WAIT, job_available_at := now,
                    job_last_error := Some (take 500 (''operator_retry:'' @ reason)),
                    job_lease_owner := None, job_lease_until := None\<rparr>)))))"

definition list_jobs :: "trusted_context \<Rightarrow> job_state option \<Rightarrow> nat \<Rightarrow> job list act" where
  "list_jobs ctx state limit =
     gets (\<lambda>s. take limit (rev (sort_key (\<lambda>j. (job_created_at j, job_id j))
       (filter (\<lambda>j. job_tenant_id j = ctx_tenant_id ctx \<and> (case state of None \<Rightarrow> True | Some st \<Rightarrow> job_state j = st))
         (jobs s)))))"

section \<open>The invariant of a job and how it moves\<close>

text \<open>
  A job is in order when its constraint holds, it has a lease exactly while it runs, and it was
  claimed as often as it was attempted.
\<close>

definition job_ok :: "job \<Rightarrow> bool" where
  "job_ok j \<longleftrightarrow> job_check j \<and> (job_state j = RUNNING \<longleftrightarrow> job_lease_owner j \<noteq> None) \<and>
     (job_state j = RUNNING \<longleftrightarrow> job_lease_until j \<noteq> None) \<and> job_fencing_generation j = job_attempt_count j"

text \<open>
  How a job may change: what it is to do is frozen, the generation grows with each claim, a
  success is final, and within one generation a job that stopped running does not run again
  and a running one keeps its owner.
\<close>

definition job_frozen :: "job \<Rightarrow> uuid \<times> uuid option \<times> string \<times> (string \<times> pyval) list \<times> uuid \<times> uuid option \<times> int \<times> time option \<times> time" where
  "job_frozen j = (job_tenant_id j, job_project_id j, job_kind j, job_payload_ref j, job_correlation_id j,
     job_causation_id j, job_max_attempts j, job_deadline_at j, job_created_at j)"

definition job_moves :: "job \<Rightarrow> job \<Rightarrow> bool" where
  "job_moves j j' \<longleftrightarrow>
     job_frozen j' = job_frozen j \<and>
     job_fencing_generation j \<le> job_fencing_generation j' \<and>
     (job_state j = JOB_SUCCEEDED \<longrightarrow> job_state j' = JOB_SUCCEEDED) \<and>
     (job_fencing_generation j' = job_fencing_generation j \<longrightarrow> job_state j' = RUNNING \<longrightarrow>
        job_state j = RUNNING \<and> job_lease_owner j' = job_lease_owner j)"

lemma job_moves_refl: "job_moves j j"
  by (simp add: job_moves_def)

lemma job_moves_trans:
  assumes 1: "job_moves j q" and 2: "job_moves q r"
  shows "job_moves j r"
  unfolding job_moves_def
proof (intro conjI impI)
  have le: "job_fencing_generation j \<le> job_fencing_generation q" "job_fencing_generation q \<le> job_fencing_generation r"
    using 1 2 unfolding job_moves_def by blast+
  then show "job_fencing_generation j \<le> job_fencing_generation r" by linarith
  show "job_frozen r = job_frozen j" using 1 2 unfolding job_moves_def by metis
  show "job_state j = JOB_SUCCEEDED \<Longrightarrow> job_state r = JOB_SUCCEEDED" using 1 2 unfolding job_moves_def by blast
  assume "job_fencing_generation r = job_fencing_generation j" and run: "job_state r = RUNNING"
  with le have "job_fencing_generation q = job_fencing_generation j" "job_fencing_generation r = job_fencing_generation q"
    by linarith+
  with 1 2 run show "job_state j = RUNNING" and "job_lease_owner r = job_lease_owner j"
    unfolding job_moves_def by metis+
qed

lemma job_moves_generation: "job_moves j q \<Longrightarrow> job_fencing_generation j \<le> job_fencing_generation q"
  unfolding job_moves_def by blast

lemma job_moves_lease:
  "job_moves j q \<Longrightarrow> job_fencing_generation q = job_fencing_generation j \<Longrightarrow> job_state q = RUNNING \<Longrightarrow>
   job_state j = RUNNING \<and> job_lease_owner q = job_lease_owner j"
  unfolding job_moves_def by blast

lemma job_moves_success: "job_moves j q \<Longrightarrow> job_state j = JOB_SUCCEEDED \<Longrightarrow> job_state q = JOB_SUCCEEDED"
  unfolding job_moves_def by blast

interpretation job_table: guarded_table jobs job_id job_moves job_ok
  by unfold_locales (fact job_moves_refl, fact job_moves_trans)

abbreviation jobs_ok :: "db \<Rightarrow> bool" where
  "jobs_ok s \<equiv> table_ok job_id job_ok (jobs s)"

abbreviation jobs_move :: "db \<Rightarrow> db \<Rightarrow> bool" where
  "jobs_move s t \<equiv> guarded job_id job_ok job_moves (jobs s) (jobs t)"

text \<open>Steps that leave the jobs alone.\<close>

lemma jobs_move_same: "jobs t = jobs s \<Longrightarrow> jobs_move s t"
  by (simp add: job_table.guarded_refl)

lemma evolves_jobs_same: "(\<And>s. jobs (snd (m s)) = jobs s) \<Longrightarrow> evolves jobs_move m"
  by (simp add: evolves_def jobs_move_same)

lemma jobs_fresh_uuid: "evolves jobs_move fresh_uuid"
  and jobs_the_time: "evolves jobs_move the_time"
  and jobs_time_or_now: "evolves jobs_move (time_or_now t)"
  and jobs_trip: "evolves jobs_move (trip ps p)"
  and jobs_fresh_token: "evolves jobs_move (fresh_token E)"
  and jobs_digest_of: "evolves jobs_move (digest_of E v)"
  by (auto intro!: evolves_jobs_same simp: trip_def run_digest_of split: sum.split)

lemma jobs_get_job: "evolves jobs_move (get_job i)"
  and jobs_require_owner: "evolves jobs_move (require_job_owner j w g)"
  and jobs_flush: "evolves jobs_move flush_jobs"
  by (auto intro!: evolves_jobs_same simp: get_job_def require_job_owner_def flush_jobs_def run_bindE require_def)

lemma jobs_add_outbox: "evolves jobs_move (add_outbox_event e)"
  by (rule evolves_jobs_same) (simp add: add_outbox_event_def run_add_row)

lemma jobs_new_outbox: "evolves jobs_move (new_outbox_event t aty a et p c cc)"
  unfolding new_outbox_event_def
  by (intro job_table.guarded.evolve_rules jobs_fresh_uuid jobs_the_time jobs_add_outbox)

lemma jobs_add_job: "job_ok j \<Longrightarrow> evolves jobs_move (add_job j)"
  by (rule evolvesI)
     (auto simp: add_job_def run_add_row job_table.guarded_refl list_ex_iff intro!: job_table.guarded_append)

text \<open>A mutation of one row, from a guard that was read from it.\<close>

lemma jobs_put_from:
  assumes "\<And>s j. P s \<Longrightarrow> row_by job_id i (jobs s) = Some j \<Longrightarrow> job_ok j \<Longrightarrow>
      job_id (f (j\<lparr>job_updated_at := clock s\<rparr>)) = i \<and> job_moves j (f (j\<lparr>job_updated_at := clock s\<rparr>)) \<and>
      job_ok (f (j\<lparr>job_updated_at := clock s\<rparr>))"
  shows "evolves_from jobs_move P (put_job i f)"
  unfolding evolves_from_def put_job_def
  using assms by (auto intro!: job_table.guarded_upd_row dest: row_by_SomeD)

lemmas job_steps =
  job_table.guarded.evolve_rules jobs_fresh_uuid jobs_the_time jobs_time_or_now jobs_trip jobs_fresh_token
  jobs_digest_of jobs_get_job jobs_require_owner jobs_flush jobs_add_outbox jobs_new_outbox

lemma enqueue_job_moves: "evolves jobs_move (enqueue_job t k p c pr av dl mx ca ps)"
proof -
  have ok: "1 \<le> mx \<and> mx \<le> DEFAULT_MAX_ATTEMPTS \<Longrightarrow> job_ok
     \<lparr>job_id = i, job_tenant_id = t, job_project_id = pr, job_kind = k,
        job_payload_ref = p, job_correlation_id = c, job_causation_id = ca,
        job_state = QUEUED, job_available_at = (case av of Some t \<Rightarrow> t | None \<Rightarrow> now),
        job_lease_until = None, job_lease_owner = None, job_fencing_generation = 0,
        job_attempt_count = 0, job_max_attempts = mx, job_deadline_at = dl,
        job_last_error = None, job_created_at = now, job_updated_at = now\<rparr>" for i now
    by (simp add: job_ok_def job_check_def DEFAULT_MAX_ATTEMPTS_def)
  show ?thesis
  proof (cases "1 \<le> mx \<and> mx \<le> DEFAULT_MAX_ATTEMPTS")
    case True
    then show ?thesis unfolding enqueue_job_def
      by (simp only: require_True bindE_ret) (intro job_steps jobs_add_job ok)
  next
    case False
    then show ?thesis unfolding enqueue_job_def
      by (simp only: require_False bindE_raise) (intro job_steps)
  qed
qed

lemma enqueue_now_moves: "evolves jobs_move (enqueue_now t k p c pr ca)"
  unfolding enqueue_now_def by (rule enqueue_job_moves)

text \<open>A guard on the row that a step has just read.\<close>

lemma from_get_job:
  assumes "\<And>x. evolves_from jobs_move (\<lambda>s. P s \<and> row_by job_id i (jobs s) = x) (f x)"
  shows "evolves_from jobs_move P (bindE (get_job i) f)"
  unfolding get_job_def by (rule job_table.guarded.from_gets) (rule assms)

lemma from_require_owner:
  assumes "job_state j = RUNNING \<Longrightarrow> job_lease_owner j = Some w \<Longrightarrow> job_fencing_generation j = g \<Longrightarrow>
    evolves_from jobs_move P (f ())"
  shows "evolves_from jobs_move P (bindE (require_job_owner j w g) f)"
  using assms by (auto simp: require_job_owner_def evolves_from_def run_bindE job_table.guarded_refl)

lemmas from_job_steps =
  from_get_job from_time_or_now from_the_time from_require_owner
  job_table.guarded.from_gets job_table.guarded.from_some_or job_table.guarded.from_require

lemmas job_row_defs = job_moves_def job_ok_def job_check_def job_frozen_def

lemma heartbeat_job_moves: "evolves jobs_move (heartbeat_job i w g now)"
  unfolding heartbeat_job_def
  by (rule job_table.guarded.evolves_from_top, (rule from_job_steps)+, rule jobs_put_from)
     (auto simp: job_row_defs dest: row_by_SomeD)

lemma complete_job_moves: "evolves jobs_move (complete_job i w g now)"
  unfolding complete_job_def
  by (rule job_table.guarded.evolves_from_top, (rule from_job_steps)+, rule jobs_put_from)
     (auto simp: job_row_defs dest: row_by_SomeD)

lemma fail_job_moves: "evolves jobs_move (fail_job i w g err retryable now)"
  unfolding fail_job_def
  by (rule job_table.guarded.evolves_from_top, (rule from_job_steps)+, rule jobs_put_from)
     (auto simp: job_row_defs fail_row_def Let_def dest: row_by_SomeD)

lemma retry_failed_job_moves:
  "evolves jobs_move (retry_failed_job ctx i reason)"
proof (rule evolvesI)
  fix s
  let ?P = "\<lambda>j. job_id j = i \<and> job_tenant_id j = ctx_tenant_id ctx"
  show "jobs_move s (snd (retry_failed_job ctx i reason s))"
  proof (cases "find ?P (jobs s)")
    case None
    then show ?thesis by (simp add: retry_failed_job_def job_table.guarded_refl)
  next
    case (Some j)
    show ?thesis
    proof (cases "job_state j = FAILED_REQUIRES_REVIEW \<or> job_state j = JOB_RETRY_WAIT")
      case False
      with Some show ?thesis by (simp add: retry_failed_job_def job_table.guarded_refl)
    next
      case True
      show ?thesis unfolding guarded_def
      proof
        assume ok: "jobs_ok s"
        from Some have j: "j \<in> set (jobs s)" "job_id j = i" by (auto dest: find_SomeD)
        with ok have row: "row_by job_id i (jobs s) = Some j"
          by (auto simp: table_ok_def dest: row_by_distinct)
        let ?f = "\<lambda>j. j\<lparr>job_state := JOB_RETRY_WAIT, job_available_at := clock s,
                    job_last_error := Some (take 500 (''operator_retry:'' @ reason)),
                    job_lease_owner := None, job_lease_until := None\<rparr>"
        have "jobs_move s (snd (put_job i ?f s))"
          unfolding put_job_def run_modify snd_conv
          using row True j(2)
          by (auto intro!: job_table.guarded_upd_row simp: job_row_defs)
        moreover from Some True have "retry_failed_job ctx i reason s = put_job i ?f s"
          by (simp only: retry_failed_job_def run_bind_gets some_or_Some bindE_ret require_True
              run_bind_the_time)
        ultimately show "jobs_ok (snd (retry_failed_job ctx i reason s)) \<and>
            table_evolves job_id job_moves (jobs s) (jobs (snd (retry_failed_job ctx i reason s)))"
          using ok by (simp only: guardedD)
      qed
    qed
  qed
qed

text \<open>The loops over a selection of rows.\<close>

lemma run_put_jobs:
  "mapE (\<lambda>j. put_job (job_id j) f) picked s =
   (Inr (replicate (length picked) ()),
    s\<lparr>jobs := fold (\<lambda>i. upd_row job_id i (\<lambda>j. f (j\<lparr>job_updated_at := clock s\<rparr>))) (map job_id picked) (jobs s)\<rparr>)"
  by (induction picked arbitrary: s) (simp_all add: put_job_def run_bindE)

lemma run_put_picked:
  assumes "jobs_ok s" and "picked = take n (sort_key k (filter P (jobs s)))" and "\<And>j. job_id (f j) = job_id j"
  shows "snd (mapE (\<lambda>j. put_job (job_id j) f) picked s) =
    s\<lparr>jobs := map (\<lambda>j. if j \<in> set picked then f (j\<lparr>job_updated_at := clock s\<rparr>) else j) (jobs s)\<rparr>"
proof -
  from assms(1) have d: "distinct (map job_id (jobs s))" by (simp add: table_ok_def)
  then have dp: "distinct (map job_id picked)" unfolding assms(2) by (rule distinct_selection)
  have sub: "set picked \<subseteq> set (jobs s)" using assms(2) by (auto dest: in_set_takeD)
  have mem: "job_id j \<in> job_id ` set picked \<longleftrightarrow> j \<in> set picked" if "j \<in> set (jobs s)" for j
    using that sub d by (auto simp: distinct_map inj_on_def)
  show ?thesis unfolding run_put_jobs snd_conv
    by (subst fold_upd_row [OF d _ dp]) (simp_all add: assms(3) mem cong: map_cong)
qed

lemma set_next_jobs: "j \<in> set (next_jobs limit current rows) \<Longrightarrow> j \<in> set rows \<and> runnable current j"
  unfolding next_jobs_def by (auto dest: in_set_takeD)

lemma job_id_claim_row [simp]: "job_id (claim_row w c j) = job_id j"
  by (simp add: claim_row_def)

lemma job_id_recover_row [simp]: "job_id (recover_row c j) = job_id j"
  by (simp add: recover_row_def Let_def)

text \<open>The table after a claim and after a recovery sweep, each row on its own.\<close>

definition claimed_table :: "string \<Rightarrow> time \<Rightarrow> time \<Rightarrow> job list \<Rightarrow> job list \<Rightarrow> job list" where
  "claimed_table worker current clk picked rows =
     map (\<lambda>j. if j \<in> set picked then claim_row worker current (j\<lparr>job_updated_at := clk\<rparr>) else j) rows"

definition recovered_table :: "time \<Rightarrow> time \<Rightarrow> job list \<Rightarrow> job list" where
  "recovered_table current clk rows =
     map (\<lambda>j. if lease_expired current j then recover_row current (j\<lparr>job_updated_at := clk\<rparr>) else j) rows"

lemma run_claim_jobs:
  assumes "jobs_ok s" and "1 \<le> limit"
    and "current = (case now of Some t \<Rightarrow> t | None \<Rightarrow> clock s)" and "picked = next_jobs limit current (jobs s)"
  shows "claim_jobs w limit now [] s =
    (let rows = claimed_table w current (clock s) picked (jobs s) in
     if list_all job_check rows
     then (Inr (map (claim_row w current) (filter (\<lambda>j. \<not> past_deadline current j) picked)), s\<lparr>jobs := rows\<rparr>)
     else (Inl IntegrityError, s))"
proof -
  have "snd (mapE (\<lambda>j. put_job (job_id j) (claim_row w current)) picked s) =
      s\<lparr>jobs := claimed_table w current (clock s) picked (jobs s)\<rparr>"
    unfolding claimed_table_def using assms(1) assms(4) [unfolded next_jobs_def]
    by (rule run_put_picked) simp
  then have run: "mapE (\<lambda>j. put_job (job_id j) (claim_row w current)) picked s =
      (Inr (replicate (length picked) ()), s\<lparr>jobs := claimed_table w current (clock s) picked (jobs s)\<rparr>)"
    by (simp add: run_put_jobs)
  show ?thesis
    unfolding claim_jobs_def using assms(2)
    by (simp add: assms(3,4) [symmetric] run_bindE [of "atomically m" for m] run_atomically
        run_bindE [of "mapE f xs" for f xs] run flush_jobs_def Let_def)
qed

lemma run_recover_expired_jobs:
  assumes "jobs_ok s" and "current = (case now of Some t \<Rightarrow> t | None \<Rightarrow> clock s)"
  shows "recover_expired_jobs now s =
    (Inr (length (filter (lease_expired current) (jobs s))), s\<lparr>jobs := recovered_table current (clock s) (jobs s)\<rparr>)"
proof -
  let ?e = "filter (lease_expired current) (jobs s)"
  have "?e = take (length ?e) (sort_key (\<lambda>_. 0 :: nat) ?e)" by (simp add: sort_key_const)
  from run_put_picked [OF assms(1) this, of "recover_row current"]
  have "snd (mapE (\<lambda>j. put_job (job_id j) (recover_row current)) ?e s) =
      s\<lparr>jobs := recovered_table current (clock s) (jobs s)\<rparr>"
    by (simp add: recovered_table_def cong: map_cong)
  then have run: "mapE (\<lambda>j. put_job (job_id j) (recover_row current)) ?e s =
      (Inr (replicate (length ?e) ()), s\<lparr>jobs := recovered_table current (clock s) (jobs s)\<rparr>)"
    by (simp add: run_put_jobs)
  show ?thesis
    unfolding recover_expired_jobs_def
    by (simp add: assms(2) [symmetric] run_bindE [of "mapE f xs" for f xs] run)
qed

lemma recover_row_ok:
  assumes "job_ok j" and "lease_expired current j"
  shows "job_moves j (recover_row current (j\<lparr>job_updated_at := c\<rparr>)) \<and> job_ok (recover_row current (j\<lparr>job_updated_at := c\<rparr>))"
  using assms by (auto simp: job_row_defs recover_row_def lease_expired_def Let_def past_deadline_def)

lemma claim_row_ok:
  assumes "job_ok j" and "runnable current j" and "job_check (claim_row w current (j\<lparr>job_updated_at := c\<rparr>))"
  shows "job_moves j (claim_row w current (j\<lparr>job_updated_at := c\<rparr>)) \<and> job_ok (claim_row w current (j\<lparr>job_updated_at := c\<rparr>))"
  using assms by (auto simp: job_row_defs claim_row_def runnable_def past_deadline_def split: if_splits)

lemma recover_expired_jobs_moves: "evolves jobs_move (recover_expired_jobs now)"
proof (rule evolvesI)
  fix s :: db
  let ?c = "case now of Some t \<Rightarrow> t | None \<Rightarrow> clock s"
  have "guarded job_id job_ok job_moves (jobs s) (recovered_table ?c (clock s) (jobs s))"
    unfolding recovered_table_def
    by (rule job_table.guarded_map) (auto simp: recover_row_ok job_moves_refl)
  moreover have "jobs_ok s \<Longrightarrow> jobs (snd (recover_expired_jobs now s)) = recovered_table ?c (clock s) (jobs s)"
    by (simp add: run_recover_expired_jobs)
  ultimately show "jobs_move s (snd (recover_expired_jobs now s))" by (simp add: guarded_def)
qed

lemma trip_claim:
  "claim_jobs w limit now ps s =
   (case claim_jobs w limit now [] s of
      (Inr js, s') \<Rightarrow> if JOB_CLAIMED \<in> set ps then (Inl InjectedCrash, s') else (Inr js, s')
    | (Inl e, s') \<Rightarrow> (Inl e, s'))"
  by (cases "1 \<le> limit") (simp_all add: claim_jobs_def run_bindE trip_def split: prod.split sum.split)

lemma claim_jobs_moves: "evolves jobs_move (claim_jobs w limit now ps)"
proof (rule evolvesI)
  fix s :: db
  let ?c = "case now of Some t \<Rightarrow> t | None \<Rightarrow> clock s"
  let ?rows = "claimed_table w ?c (clock s) (next_jobs limit ?c (jobs s)) (jobs s)"
  let ?f = "\<lambda>j. if j \<in> set (next_jobs limit ?c (jobs s)) then claim_row w ?c (j\<lparr>job_updated_at := clock s\<rparr>) else j"
  have "guarded job_id job_ok job_moves (jobs s) (map ?f (jobs s))" if checked: "list_all job_check (map ?f (jobs s))"
  proof (rule job_table.guarded_map)
    fix j
    assume j: "j \<in> set (jobs s)" "job_ok j"
    show "job_id (?f j) = job_id j \<and> job_moves j (?f j) \<and> job_ok (?f j)"
    proof (cases "j \<in> set (next_jobs limit ?c (jobs s))")
      case True
      with j checked have "job_check (claim_row w ?c (j\<lparr>job_updated_at := clock s\<rparr>))"
        by (auto simp: list_all_iff dest: bspec)
      moreover from True have "runnable ?c j" by (auto dest: set_next_jobs)
      ultimately show ?thesis using True claim_row_ok [OF j(2)] by simp
    next
      case False
      with j show ?thesis by (simp add: job_moves_refl)
    qed
  qed
  then have "guarded job_id job_ok job_moves (jobs s) ?rows" if "list_all job_check ?rows"
    using that unfolding claimed_table_def .
  moreover have "jobs (snd (claim_jobs w limit now [] s)) = (if list_all job_check ?rows then ?rows else jobs s)"
    if "jobs_ok s" "1 \<le> limit"
    using run_claim_jobs [OF that refl refl] by (simp add: Let_def)
  moreover have "snd (claim_jobs w limit now [] s) = s" if "\<not> 1 \<le> limit"
    using that by (simp add: claim_jobs_def)
  ultimately have "jobs_move s (snd (claim_jobs w limit now [] s))"
    by (cases "1 \<le> limit") (auto simp: guarded_def job_table.table_refl)
  then show "jobs_move s (snd (claim_jobs w limit now ps s))"
    by (subst trip_claim) (auto split: prod.splits sum.splits)
qed

text \<open>Queueing a job touches the queue, its outbox and the supply of identifiers, and nothing else.\<close>

definition rest_of_queue :: "db \<Rightarrow> db" where
  "rest_of_queue s = s\<lparr>jobs := [], outbox_events := [], next_uuid := 0\<rparr>"

interpretation queue_frame: state_frame rest_of_queue .

lemma queue_frame_steps:
  "evolves (\<lambda>s t. rest_of_queue t = rest_of_queue s) fresh_uuid"
  "evolves (\<lambda>s t. rest_of_queue t = rest_of_queue s) the_time"
  "evolves (\<lambda>s t. rest_of_queue t = rest_of_queue s) (trip ps cp)"
  "evolves (\<lambda>s t. rest_of_queue t = rest_of_queue s) (add_job j)"
  "evolves (\<lambda>s t. rest_of_queue t = rest_of_queue s) (add_outbox_event ob)"
  by (rule evolvesI; simp add: rest_of_queue_def trip_def add_job_def add_outbox_event_def run_add_row)+

lemma enqueue_now_rest: "rest_of_queue (snd (enqueue_now tn k p c pr ca s)) = rest_of_queue s"
proof -
  have "evolves (\<lambda>s t. rest_of_queue t = rest_of_queue s) (enqueue_now tn k p c pr ca)"
    unfolding enqueue_now_def enqueue_job_def new_outbox_event_def
    by (intro queue_frame.evolve_rules queue_frame_steps)
  then show ?thesis by (rule queue_frame.frame_run)
qed

section \<open>The life of the queue\<close>

text \<open>
  Every operation on the queue as one step, with any arguments and whether it returns or
  raises, and time passing between them.
\<close>

inductive queue_step :: "db \<Rightarrow> db \<Rightarrow> bool" where
  enqueue: "snd (enqueue_job t k p c pr av dl mx ca ps s) = s' \<Longrightarrow> queue_step s s'"
| claim: "snd (claim_jobs w limit now ps s) = s' \<Longrightarrow> queue_step s s'"
| heartbeat: "snd (heartbeat_job i w g now s) = s' \<Longrightarrow> queue_step s s'"
| complete: "snd (complete_job i w g now s) = s' \<Longrightarrow> queue_step s s'"
| fail: "snd (fail_job i w g err retryable now s) = s' \<Longrightarrow> queue_step s s'"
| recover: "snd (recover_expired_jobs now s) = s' \<Longrightarrow> queue_step s s'"
| operator_retry: "snd (retry_failed_job ctx i reason s) = s' \<Longrightarrow> queue_step s s'"
| tick: "queue_step s (s\<lparr>clock := clock s + int d\<rparr>)"

lemmas queue_moves =
  enqueue_job_moves claim_jobs_moves heartbeat_job_moves complete_job_moves fail_job_moves
  recover_expired_jobs_moves retry_failed_job_moves

lemma queue_step_moves: "queue_step s s' \<Longrightarrow> jobs_move s s'"
  by (induction rule: queue_step.induct)
     (auto intro: queue_moves [THEN evolvesD] simp: job_table.guarded_refl)

lemma queue_run_moves: "queue_step\<^sup>*\<^sup>* s t \<Longrightarrow> jobs_move s t"
proof (induction rule: rtranclp_induct)
  case base
  show ?case by (rule job_table.guarded_refl)
next
  case (step t u)
  from step.IH queue_step_moves [OF step.hyps(2)] show ?case by (rule job_table.guarded_trans)
qed

text \<open>The worker's view: a lease it holds, and one it no longer holds.\<close>

definition holds_lease :: "db \<Rightarrow> uuid \<Rightarrow> string \<Rightarrow> int \<Rightarrow> bool" where
  "holds_lease s i w g \<longleftrightarrow>
     (case row_by job_id i (jobs s) of
        None \<Rightarrow> False
      | Some j \<Rightarrow> job_state j = RUNNING \<and> job_lease_owner j = Some w \<and> job_fencing_generation j = g)"

text \<open>The worker has the generation at most from a claim: it never knows a future one.\<close>

lemma lost_lease_step:
  assumes "jobs_ok s" and "jobs_move s t"
    and row: "row_by job_id i (jobs s) = Some j" and seen: "g \<le> job_fencing_generation j"
    and "\<not> holds_lease s i w g"
  shows "\<not> holds_lease t i w g"
proof
  assume held: "holds_lease t i w g"
  from assms(1,2) have "table_evolves job_id job_moves (jobs s) (jobs t)" by (simp add: guardedD)
  from table_evolves_row [OF this row]
  obtain q where q: "row_by job_id i (jobs t) = Some q" "job_moves j q" by (elim exE conjE)
  from held q(1) have run: "job_state q = RUNNING" "job_lease_owner q = Some w" "job_fencing_generation q = g"
    by (simp_all add: holds_lease_def)
  from job_moves_generation [OF q(2)] run(3) seen have gen: "job_fencing_generation q = job_fencing_generation j"
    by linarith
  from job_moves_lease [OF q(2) gen run(1)] run(2,3) gen
  have "job_state j = RUNNING" "job_lease_owner j = Some w" "job_fencing_generation j = g" by simp_all
  with row assms(5) show False by (simp add: holds_lease_def)
qed

lemma not_owner_refused:
  assumes "row_by job_id i (jobs s) = Some j" and "\<not> holds_lease s i w g"
  shows "heartbeat_job i w g now s = (Inl StaleLeaseError, s)"
    and "complete_job i w g now s = (Inl StaleLeaseError, s)"
    and "fail_job i w g err retryable now s = (Inl StaleLeaseError, s)"
  using assms
  by (auto simp: heartbeat_job_def complete_job_def fail_job_def get_job_def require_job_owner_def holds_lease_def)

lemma claimed_jobs_run:
  assumes "claim_jobs w limit now ps s = (Inr claimed, t)" and "jobs_ok s" and "j \<in> set claimed"
  shows "\<exists>q. row_by job_id (job_id j) (jobs t) = Some q \<and> job_state q = RUNNING \<and> job_lease_owner q = Some w \<and>
     job_fencing_generation q = job_fencing_generation j"
proof -
  let ?c = "case now of Some t \<Rightarrow> t | None \<Rightarrow> clock s"
  let ?picked = "next_jobs limit ?c (jobs s)"
  let ?rows = "claimed_table w ?c (clock s) ?picked (jobs s)"
  from assms(1) have lim: "1 \<le> limit" by (cases "1 \<le> limit") (simp_all add: claim_jobs_def)
  from assms(1) have run: "claim_jobs w limit now [] s = (Inr claimed, t)"
    by (subst (asm) trip_claim) (auto split: prod.splits sum.splits if_splits)
  with run_claim_jobs [OF assms(2) lim refl refl, of w] have
    claimed: "claimed = map (claim_row w ?c) (filter (\<lambda>j. \<not> past_deadline ?c j) ?picked)" and
    t: "t = s\<lparr>jobs := ?rows\<rparr>" and ok: "list_all job_check ?rows"
    by (auto simp: Let_def split: if_splits)
  from assms(3) claimed obtain r where r: "r \<in> set ?picked" "\<not> past_deadline ?c r" "j = claim_row w ?c r" by auto
  let ?q = "claim_row w ?c (r\<lparr>job_updated_at := clock s\<rparr>)"
  from r(1) have mem: "?q \<in> set ?rows"
    by (force simp: claimed_table_def dest: set_next_jobs)
  have "jobs_ok t" using claim_jobs_moves [of w limit now "[]", THEN evolvesD, of s] run assms(2)
    by (simp add: guardedD)
  then have "row_by job_id (job_id ?q) (jobs t) = Some ?q"
    using mem t by (intro row_by_distinct) (simp_all add: table_ok_def)
  with r(2,3) show ?thesis by (auto simp: claim_row_def past_deadline_def)
qed

section \<open>What the queue guarantees\<close>

text \<open>C3: Fencing. Once a worker's lease on a job is lost (the job stopped running in that
generation, or was claimed again), then after any further operations on the queue its
heartbeat, its completion and its failure report are refused as stale, and change nothing.\<close>

theorem stale_lease_refused:
  assumes "table_ok job_id job_ok (jobs s)" and "row_by job_id i (jobs s) = Some j"
    and "g \<le> job_fencing_generation j" and "\<not> holds_lease s i w g" and "queue_step\<^sup>*\<^sup>* s t"
  shows "heartbeat_job i w g now t = (Inl StaleLeaseError, t) \<and>
     complete_job i w g now t = (Inl StaleLeaseError, t) \<and>
     fail_job i w g err retryable now t = (Inl StaleLeaseError, t)"
proof -
  from assms(5) have moves: "jobs_move s t" by (rule queue_run_moves)
  with assms(1) have "table_evolves job_id job_moves (jobs s) (jobs t)" by (simp add: guardedD)
  from table_evolves_row [OF this assms(2)] obtain q where q: "row_by job_id i (jobs t) = Some q" by blast
  have "\<not> holds_lease t i w g" by (rule lost_lease_step [OF assms(1) moves assms(2-4)])
  with q show ?thesis by (simp add: not_owner_refused)
qed

text \<open>A run for the witnesses: one job, claimed by a worker whose lease then expires.\<close>

definition demo_payload :: "(string \<times> pyval) list" where
  "demo_payload = [(''ingress_id'', PStr ''x'')]"

definition demo_enqueued :: db where
  "demo_enqueued = snd (enqueue_job 7 ''payment.reconcile'' demo_payload 9 None None None 3 None [] empty_db)"

definition demo_claimed :: db where
  "demo_claimed = snd (claim_jobs ''w1'' 5 (Some 0) [] demo_enqueued)"

definition demo_recovered :: db where
  "demo_recovered = snd (recover_expired_jobs (Some (seconds 61)) demo_claimed)"

definition demo_reclaimed :: db where
  "demo_reclaimed = snd (claim_jobs ''w2'' 5 (Some (seconds 61)) [] demo_recovered)"

lemma demo_run:
  "queue_step\<^sup>*\<^sup>* empty_db demo_enqueued" "queue_step\<^sup>*\<^sup>* empty_db demo_claimed"
  "queue_step\<^sup>*\<^sup>* demo_claimed demo_recovered" "queue_step\<^sup>*\<^sup>* demo_recovered demo_reclaimed"
proof -
  have 1: "queue_step empty_db demo_enqueued" unfolding demo_enqueued_def by (rule queue_step.enqueue) simp
  have 2: "queue_step demo_enqueued demo_claimed" unfolding demo_claimed_def by (rule queue_step.claim) simp
  show "queue_step\<^sup>*\<^sup>* empty_db demo_enqueued" using 1 by (rule r_into_rtranclp)
  with 2 show "queue_step\<^sup>*\<^sup>* empty_db demo_claimed" by (rule rtranclp.rtrancl_into_rtrancl [rotated])
  show "queue_step\<^sup>*\<^sup>* demo_claimed demo_recovered"
    unfolding demo_recovered_def by (rule r_into_rtranclp, rule queue_step.recover) simp
  show "queue_step\<^sup>*\<^sup>* demo_recovered demo_reclaimed"
    unfolding demo_reclaimed_def by (rule r_into_rtranclp, rule queue_step.claim) simp
qed

lemma jobs_ok_empty: "jobs_ok empty_db"
  by (simp add: table_ok_def empty_db_def)

lemma demo_ok: "jobs_ok demo_claimed" "jobs_ok demo_recovered" "jobs_ok demo_reclaimed"
  using demo_run [THEN queue_run_moves] jobs_ok_empty by (auto simp: guarded_def)

lemma demo_rows:
  "map_option (\<lambda>j. (job_state j, job_fencing_generation j)) (row_by job_id 1 (jobs demo_claimed)) = Some (RUNNING, 1)"
  "map_option (\<lambda>j. (job_state j, job_fencing_generation j)) (row_by job_id 1 (jobs demo_recovered)) = Some (JOB_RETRY_WAIT, 1)"
  by code_simp+

theorem stale_lease_refused_witness:
  "complete_job 1 ''w1'' 1 None demo_reclaimed = (Inl StaleLeaseError, demo_reclaimed)"
proof -
  from demo_rows(2) obtain j where j: "row_by job_id 1 (jobs demo_recovered) = Some j"
    "job_state j = JOB_RETRY_WAIT" "job_fencing_generation j = 1" by auto
  have "\<not> holds_lease demo_recovered 1 ''w1'' 1" using j by (simp add: holds_lease_def)
  from stale_lease_refused [OF demo_ok(2) j(1) _ this demo_run(4)] j(3)
  show ?thesis by simp
qed

text \<open>C6: The queue's invariant. In every database reached from the empty one by operations
on the queue, in any order and with any arguments, a job has a lease exactly while it is
running, was claimed as often as it was attempted, and never more often than its budget of at
most three attempts.\<close>

theorem queue_invariant:
  assumes "queue_step\<^sup>*\<^sup>* empty_db s" and "j \<in> set (jobs s)"
  shows "(job_state j = RUNNING \<longleftrightarrow> job_lease_owner j \<noteq> None) \<and>
     (job_state j = RUNNING \<longleftrightarrow> job_lease_until j \<noteq> None) \<and>
     job_fencing_generation j = job_attempt_count j \<and>
     0 \<le> job_attempt_count j \<and> job_attempt_count j \<le> job_max_attempts j \<and> job_max_attempts j \<le> 3 \<and>
     row_by job_id (job_id j) (jobs s) = Some j"
proof -
  from queue_run_moves [OF assms(1)] jobs_ok_empty have ok: "jobs_ok s" by (simp add: guardedD)
  with assms(2) have "job_ok j" by (simp add: table_ok_def list_all_iff)
  moreover from ok assms(2) have "row_by job_id (job_id j) (jobs s) = Some j"
    by (auto simp: table_ok_def intro: row_by_distinct)
  ultimately show ?thesis unfolding job_ok_def job_check_def by blast
qed

theorem queue_invariant_witness:
  "\<exists>j. j \<in> set (jobs demo_claimed) \<and> job_state j = RUNNING \<and> job_lease_owner j \<noteq> None \<and> job_max_attempts j \<le> 3"
proof -
  from demo_rows(1) obtain j where "row_by job_id 1 (jobs demo_claimed) = Some j" "job_state j = RUNNING" by auto
  moreover from this have "j \<in> set (jobs demo_claimed)" by (auto dest: row_by_SomeD)
  ultimately show ?thesis using queue_invariant [OF demo_run(2)] by blast
qed

lemma claimed_row:
  assumes "claim_jobs w limit now ps s = (Inr claimed, t)" and "jobs_ok s" and "j \<in> set claimed"
  shows "\<exists>r. r \<in> set (next_jobs limit (case now of Some c \<Rightarrow> c | None \<Rightarrow> clock s) (jobs s)) \<and>
     job_id r = job_id j \<and> job_fencing_generation j = job_fencing_generation r + 1"
proof -
  let ?c = "case now of Some c \<Rightarrow> c | None \<Rightarrow> clock s"
  from assms(1) have lim: "1 \<le> limit" by (cases "1 \<le> limit") (simp_all add: claim_jobs_def)
  from assms(1) have "claim_jobs w limit now [] s = (Inr claimed, t)"
    by (subst (asm) trip_claim) (auto split: prod.splits sum.splits if_splits)
  with run_claim_jobs [OF assms(2) lim refl refl, of w]
  have "claimed = map (claim_row w ?c) (filter (\<lambda>j. \<not> past_deadline ?c j) (next_jobs limit ?c (jobs s)))"
    by (auto simp: Let_def split: if_splits)
  with assms(3) obtain r where "r \<in> set (next_jobs limit ?c (jobs s))" "\<not> past_deadline ?c r" "j = claim_row w ?c r"
    by auto
  then show ?thesis by (intro exI [of _ r]) (simp add: claim_row_def)
qed

text \<open>C7: Claims do not overlap. Right after a worker's claim, no other claim returns any of its
jobs, whenever it happens; and a claim of the same job after any further operations (such as
the recovery of an expired lease) carries a strictly larger fencing generation.\<close>

theorem claims_exclude_each_other:
  assumes "table_ok job_id job_ok (jobs s)" and "claim_jobs w1 l1 n1 ps1 s = (Inr c1, t)" and "queue_step\<^sup>*\<^sup>* t u"
    and "claim_jobs w2 l2 n2 ps2 u = (Inr c2, v)" and "j1 \<in> set c1" and "j2 \<in> set c2" and "job_id j1 = job_id j2"
  shows "u \<noteq> t \<and> job_fencing_generation j1 < job_fencing_generation j2"
proof -
  let ?c = "case n2 of Some c \<Rightarrow> c | None \<Rightarrow> clock u"
  from claim_jobs_moves [of w1 l1 n1 ps1, THEN evolvesD, of s] assms(1,2) have okt: "jobs_ok t"
    by (simp add: guardedD)
  with queue_run_moves [OF assms(3)] have oku: "jobs_ok u" and ev: "table_evolves job_id job_moves (jobs t) (jobs u)"
    by (simp_all add: guardedD)
  from claimed_jobs_run [OF assms(2,1,5)] obtain q where
    q: "row_by job_id (job_id j1) (jobs t) = Some q" "job_state q = RUNNING"
       "job_fencing_generation q = job_fencing_generation j1" by blast
  from table_evolves_row [OF ev q(1)] obtain p where p: "row_by job_id (job_id j1) (jobs u) = Some p" "job_moves q p"
    by blast
  from claimed_row [OF assms(4) oku assms(6)] obtain r where
    r: "r \<in> set (next_jobs l2 ?c (jobs u))" "job_id r = job_id j2"
       "job_fencing_generation j2 = job_fencing_generation r + 1" by blast
  from r(1) have mem: "r \<in> set (jobs u)" and runnable: "runnable ?c r" by (auto dest: set_next_jobs)
  have "row_by job_id (job_id r) (jobs u) = Some r" using oku mem by (auto simp: table_ok_def intro: row_by_distinct)
  with p(1) r(2) assms(7) have "r = p" by simp
  with p(2) q(3) r(3) have "job_fencing_generation j1 < job_fencing_generation j2"
    by (auto dest: job_moves_generation)
  moreover have "u \<noteq> t"
  proof
    assume "u = t"
    with p(1) q(1) \<open>r = p\<close> have "job_state r = RUNNING" using q(2) by simp
    with runnable show False by (simp add: runnable_def)
  qed
  ultimately show ?thesis by simp
qed

lemma demo_claims:
  "map_option (map job_id) (value_of (claim_jobs ''w1'' 5 (Some 0) [] demo_enqueued)) = Some [1]"
  "map_option (map job_id) (value_of (claim_jobs ''w2'' 5 (Some (seconds 61)) [] demo_recovered)) = Some [1]"
  by code_simp+

theorem claims_exclude_each_other_witness:
  "\<exists>c1 c2 t v. claim_jobs ''w1'' 5 (Some 0) [] demo_enqueued = (Inr c1, t) \<and>
     claim_jobs ''w2'' 5 (Some (seconds 61)) [] demo_recovered = (Inr c2, v) \<and>
     job_fencing_generation (hd c1) < job_fencing_generation (hd c2)"
proof -
  from demo_claims(1) obtain c1 where 1: "claim_jobs ''w1'' 5 (Some 0) [] demo_enqueued = (Inr c1, demo_claimed)"
    "map job_id c1 = [1]" unfolding demo_claimed_def by (auto dest: value_of_SomeD)
  from demo_claims(2) obtain c2 v where 2: "claim_jobs ''w2'' 5 (Some (seconds 61)) [] demo_recovered = (Inr c2, v)"
    "map job_id c2 = [1]" by (auto dest!: value_of_SomeD)
  from 1(2) 2(2) obtain j1 j2 where j: "c1 = [j1]" "c2 = [j2]" "job_id j1 = 1" "job_id j2 = 1" by auto
  have ok: "jobs_ok demo_enqueued" using queue_run_moves [OF demo_run(1)] jobs_ok_empty by (simp add: guardedD)
  have "job_fencing_generation j1 < job_fencing_generation j2"
    using claims_exclude_each_other [OF ok 1(1) demo_run(3) 2(1), of j1 j2] j by simp
  with 1(1) 2(1) j show ?thesis by auto
qed

text \<open>The recovery sweep. It counts and releases exactly the running jobs whose lease ended
before the time of the sweep: each waits for a retry, available at once, while it has attempts
left and is before its deadline, and otherwise needs review; no such lease is left, and every
other job and the rest of the database are untouched.\<close>

theorem recovery_sweep:
  assumes "table_ok job_id job_ok (jobs s)"
  shows "\<exists>t. recover_expired_jobs (Some now) s = (Inr (length (filter (lease_expired now) (jobs s))), t) \<and>
     \<not> list_ex (lease_expired now) (jobs t) \<and> t\<lparr>jobs := jobs s\<rparr> = s \<and>
     (\<forall>i. row_by job_id i (jobs t) =
        (case row_by job_id i (jobs s) of
           None \<Rightarrow> None
         | Some j \<Rightarrow> Some (if lease_expired now j
             then (if job_attempt_count j < job_max_attempts j \<and> \<not> past_deadline now j
                   then j\<lparr>job_state := JOB_RETRY_WAIT, job_available_at := now, job_lease_owner := None,
                          job_lease_until := None, job_updated_at := clock s\<rparr>
                   else j\<lparr>job_state := FAILED_REQUIRES_REVIEW, job_lease_owner := None, job_lease_until := None,
                          job_last_error := Some ''lease_expired_attempt_budget_exhausted'',
                          job_updated_at := clock s\<rparr>)
             else j)))"
proof -
  let ?f = "\<lambda>j. if lease_expired now j then recover_row now (j\<lparr>job_updated_at := clock s\<rparr>) else j"
  have run: "recover_expired_jobs (Some now) s =
      (Inr (length (filter (lease_expired now) (jobs s))), s\<lparr>jobs := map ?f (jobs s)\<rparr>)"
    using run_recover_expired_jobs [OF assms refl, of "Some now"] by (simp add: recovered_table_def)
  have rows: "row_by job_id i (map ?f rows) = map_option ?f (row_by job_id i rows)" for i rows
    by (induction rows) simp_all
  have gone: "\<not> lease_expired now (?f j)" for j
    by (simp add: lease_expired_def recover_row_def Let_def)
  have none: "\<not> list_ex (lease_expired now) (map ?f (jobs s))"
    unfolding list_ex_iff set_map using gone by blast
  have row: "row_by job_id i (map ?f (jobs s)) = (case row_by job_id i (jobs s) of
       None \<Rightarrow> None
     | Some j \<Rightarrow> Some (if lease_expired now j
         then (if job_attempt_count j < job_max_attempts j \<and> \<not> past_deadline now j
               then j\<lparr>job_state := JOB_RETRY_WAIT, job_available_at := now, job_lease_owner := None,
                      job_lease_until := None, job_updated_at := clock s\<rparr>
               else j\<lparr>job_state := FAILED_REQUIRES_REVIEW, job_lease_owner := None, job_lease_until := None,
                      job_last_error := Some ''lease_expired_attempt_budget_exhausted'',
                      job_updated_at := clock s\<rparr>)
         else j))" for i
    unfolding rows by (cases "row_by job_id i (jobs s)") (simp_all add: recover_row_def past_deadline_def Let_def)
  define rs where "rs = map ?f (jobs s)"
  show ?thesis unfolding run using none row unfolding rs_def [symmetric]
    by (intro exI [of _ "s\<lparr>jobs := rs\<rparr>"]) simp
qed

theorem recovery_sweep_witness:
  "\<exists>t. recover_expired_jobs (Some (seconds 61)) demo_claimed = (Inr 1, t) \<and>
     \<not> list_ex (lease_expired (seconds 61)) (jobs t)"
proof -
  have "length (filter (lease_expired (seconds 61)) (jobs demo_claimed)) = 1" by code_simp
  with recovery_sweep [OF demo_ok(1), of "seconds 61"] show ?thesis by auto
qed

text \<open>The order of claims.\<close>

lemma take_sorted_prefix:
  fixes k :: "'a \<Rightarrow> 'b::linorder"
  assumes "sorted (map k xs)" and "x \<in> set xs" and "length (filter (\<lambda>y. k y < k x) xs) < n" and "distinct (map k xs)"
  shows "x \<in> set (take n xs)"
  using assms
proof (induction xs arbitrary: n)
  case Nil
  then show ?case by simp
next
  case (Cons y ys)
  then obtain m where n: "n = Suc m" by (cases n) auto
  show ?case
  proof (cases "x = y")
    case True
    with n show ?thesis by simp
  next
    case False
    with Cons.prems have x: "x \<in> set ys" by simp
    with Cons.prems(1,4) have "k y < k x" by (force simp: less_le)
    with Cons.prems(3) n have "length (filter (\<lambda>y. k y < k x) ys) < m" by simp
    with Cons.IH [of m] Cons.prems x n show ?thesis by auto
  qed
qed

lemma claim_order_distinct: "distinct (map job_id rows) \<Longrightarrow> distinct (map claim_order rows)"
  by (induction rows) (auto simp: claim_order_def)

text \<open>C11: Progress in order. When no runnable job has exhausted its attempts, a claim succeeds, and
a runnable job before its deadline is in it as soon as fewer runnable jobs than the limit come
before it in the order of availability, creation and identifier.\<close>

theorem claim_in_order:
  assumes "table_ok job_id job_ok (jobs s)" and "j \<in> set (jobs s)" and "runnable now j" and "\<not> past_deadline now j"
    and "\<forall>q\<in>set (jobs s). runnable now q \<longrightarrow> job_attempt_count q < job_max_attempts q"
    and "int (length (filter (\<lambda>q. runnable now q \<and> claim_order q < claim_order j) (jobs s))) < limit"
  shows "\<exists>claimed t. claim_jobs w limit (Some now) [] s = (Inr claimed, t) \<and> job_id j \<in> job_id ` set claimed"
proof -
  let ?rows = "claimed_table w now (clock s) (next_jobs limit now (jobs s)) (jobs s)"
  from assms(6) have lim: "1 \<le> limit" by simp
  have "job_check (if q \<in> set (next_jobs limit now (jobs s)) then claim_row w now (q\<lparr>job_updated_at := clock s\<rparr>) else q)"
    if "q \<in> set (jobs s)" for q
    using assms(1,5) that
    by (auto simp: table_ok_def list_all_iff job_ok_def job_check_def claim_row_def past_deadline_def
        dest!: set_next_jobs bspec)
  then have ok: "list_all job_check ?rows" unfolding claimed_table_def list_all_iff set_map ball_simps by blast
  let ?xs = "sort_key claim_order (filter (runnable now) (jobs s))"
  have "distinct (map claim_order (filter (runnable now) (jobs s)))"
    using assms(1) by (intro claim_order_distinct) (simp add: table_ok_def distinct_map_filter)
  then have d: "distinct (map claim_order ?xs)" by (metis mset_map mset_sort mset_eq_imp_distinct_iff)
  have "length (filter (\<lambda>q. claim_order q < claim_order j) ?xs) =
      length (filter (\<lambda>q. runnable now q \<and> claim_order q < claim_order j) (jobs s))"
    by (simp add: filter_sort)
  with assms(6) have "length (filter (\<lambda>q. claim_order q < claim_order j) ?xs) < nat limit" by linarith
  with assms(2,3) d have "j \<in> set (next_jobs limit now (jobs s))"
    unfolding next_jobs_def by (intro take_sorted_prefix [where k = claim_order]) simp_all
  with assms(4) have "claim_row w now j \<in> set (map (claim_row w now) (filter (\<lambda>j. \<not> past_deadline now j) (next_jobs limit now (jobs s))))"
    by simp
  then have "job_id j \<in> job_id ` set (map (claim_row w now) (filter (\<lambda>j. \<not> past_deadline now j) (next_jobs limit now (jobs s))))"
    by (metis image_eqI job_id_claim_row)
  with run_claim_jobs [OF assms(1) lim refl refl, where w = w and now = "Some now"] ok show ?thesis
    by (simp only: Let_def option.case if_True) blast
qed

theorem claim_in_order_witness:
  "\<exists>claimed t. claim_jobs ''w1'' 1 (Some 0) [] demo_enqueued = (Inr claimed, t) \<and> 1 \<in> job_id ` set claimed"
proof -
  have ok: "jobs_ok demo_enqueued" using queue_run_moves [OF demo_run(1)] jobs_ok_empty by (simp add: guardedD)
  have "map (\<lambda>j. (job_id j, runnable 0 j, past_deadline 0 j, job_attempt_count j, job_max_attempts j))
      (jobs demo_enqueued) = [(1, True, False, 0, 3)]" by code_simp
  then obtain j where j: "jobs demo_enqueued = [j]" "job_id j = 1" "runnable 0 j" "\<not> past_deadline 0 j"
    "job_attempt_count j = 0" "job_max_attempts j = 3" by auto
  from claim_in_order [OF ok, of j 0 1 "''w1''"] j show ?thesis by simp
qed

lemma next_jobs_all:
  "r \<in> set rows \<Longrightarrow> runnable current r \<Longrightarrow> int (length rows) \<le> limit \<Longrightarrow> r \<in> set (next_jobs limit current rows)"
proof -
  assume r: "r \<in> set rows" "runnable current r" "int (length rows) \<le> limit"
  have "length (filter (runnable current) rows) \<le> length rows" by (rule length_filter_le)
  also have "\<dots> \<le> nat limit" using r(3) by (simp add: le_nat_iff)
  finally show ?thesis using r(1,2) unfolding next_jobs_def by (subst take_all) simp_all
qed

lemma claim_refused:
  assumes "jobs_ok t" and "1 \<le> limit" and "q \<in> set (next_jobs limit current (jobs t))"
    and "current = (case now of Some c \<Rightarrow> c | None \<Rightarrow> clock t)"
    and "job_attempt_count q = job_max_attempts q" and "\<not> past_deadline current q"
  shows "claim_jobs w limit now ps t = (Inl IntegrityError, t)"
proof -
  let ?picked = "next_jobs limit current (jobs t)"
  let ?f = "\<lambda>j. if j \<in> set ?picked then claim_row w current (j\<lparr>job_updated_at := clock t\<rparr>) else j"
  from assms(3) have mem: "q \<in> set (jobs t)" by (auto dest: set_next_jobs)
  have "\<not> job_check (?f q)"
    using assms(3,5,6) by (simp add: job_check_def claim_row_def past_deadline_def)
  with mem have "\<not> list_all job_check (claimed_table w current (clock t) ?picked (jobs t))"
    unfolding claimed_table_def list_all_iff set_map ball_simps by blast
  then have "claim_jobs w limit now [] t = (Inl IntegrityError, t)"
    using run_claim_jobs [OF assms(1,2,4) refl, of w] by (simp add: Let_def)
  then show ?thesis by (subst trip_claim) simp
qed

text \<open>A job that used up its attempts never gets one back.\<close>

lemma exhausted_for_good:
  assumes "jobs_ok s" and "row_by job_id i (jobs s) = Some j" and "job_attempt_count j = job_max_attempts j"
    and "queue_step\<^sup>*\<^sup>* s u" and "q \<in> set (jobs u)" and "job_id q = i"
  shows "job_attempt_count q = job_max_attempts q"
proof -
  from assms(1) queue_run_moves [OF assms(4)] have ok: "jobs_ok u" and moves: "table_evolves job_id job_moves (jobs s) (jobs u)"
    by (simp_all add: guardedD)
  from table_evolves_row [OF moves assms(2)] obtain r where r: "row_by job_id i (jobs u) = Some r" "job_moves j r" by blast
  have "r = q" using ok r(1) assms(5,6) by (auto simp: table_ok_def dest: row_by_distinct)
  moreover have "job_ok j" "job_ok r" using table_ok_row [OF assms(1,2)] table_ok_row [OF ok r(1)] by simp_all
  ultimately show ?thesis using r(2) assms(3) by (auto simp: job_moves_def job_frozen_def job_ok_def job_check_def)
qed

text \<open>C13: An operator's retry of a job that used up its attempts stops the queue. The retry succeeds and
the job waits at once; whatever the queue does from then on, every claim that reaches the job before
its deadline breaks the constraint on attempts, so it fails and is undone for all jobs of its batch.\<close>

theorem exhausted_retry_blocks_claims:
  assumes "table_ok job_id job_ok (jobs s)" and "row_by job_id i (jobs s) = Some j"
    and "job_tenant_id j = ctx_tenant_id ctx" and "job_state j = FAILED_REQUIRES_REVIEW"
    and "job_attempt_count j = job_max_attempts j"
  shows "\<exists>t q. retry_failed_job ctx i reason s = (Inr (), t) \<and> row_by job_id i (jobs t) = Some q \<and> runnable (clock t) q \<and>
     (\<forall>u w limit now ps current. queue_step\<^sup>*\<^sup>* t u \<longrightarrow> current = (case now of Some c \<Rightarrow> c | None \<Rightarrow> clock u) \<longrightarrow>
        (\<exists>r\<in>set (next_jobs limit current (jobs u)). job_id r = i \<and> \<not> past_deadline current r) \<longrightarrow>
        claim_jobs w limit now ps u = (Inl IntegrityError, u))"
proof -
  define f where "f = (\<lambda>j :: job. j\<lparr>job_state := JOB_RETRY_WAIT, job_available_at := clock s,
     job_last_error := Some (take 500 (''operator_retry:'' @ reason)),
     job_lease_owner := None, job_lease_until := None\<rparr>)"
  define q where "q = f (j\<lparr>job_updated_at := clock s\<rparr>)"
  define t where "t = snd (put_job i f s)"
  from assms(2,3) have "find (\<lambda>j. job_id j = i \<and> job_tenant_id j = ctx_tenant_id ctx) (jobs s) = Some j"
    by (rule find_by_row)
  then have run: "retry_failed_job ctx i reason s = (Inr (), t)"
    using assms(4) by (simp add: retry_failed_job_def t_def f_def put_job_def)
  have ok: "jobs_ok t" using retry_failed_job_moves [THEN evolvesD, of s ctx i reason] run assms(1)
    by (simp add: guardedD)
  have row: "row_by job_id i (jobs t) = Some q"
    using assms(2) by (simp add: t_def q_def f_def put_job_def row_by_upd_row)
  have waits: "runnable (clock t) q" by (simp add: runnable_def q_def f_def t_def put_job_def)
  have used: "job_attempt_count q = job_max_attempts q" using assms(5) by (simp add: q_def f_def)
  have "claim_jobs w limit now ps u = (Inl IntegrityError, u)"
    if u: "queue_step\<^sup>*\<^sup>* t u" "current = (case now of Some c \<Rightarrow> c | None \<Rightarrow> clock u)"
      and r: "r \<in> set (next_jobs limit current (jobs u))" "job_id r = i" "\<not> past_deadline current r" for u w limit now ps current r
  proof (rule claim_refused [OF _ _ r(1) u(2) _ r(3)])
    show "jobs_ok u" using ok queue_run_moves [OF u(1)] by (simp add: guardedD)
    show "1 \<le> limit" using r(1) by (cases "1 \<le> limit") (simp_all add: next_jobs_def)
    show "job_attempt_count r = job_max_attempts r"
      by (rule exhausted_for_good [OF ok row used u(1) _ r(2)]) (use r(1) in \<open>auto dest: set_next_jobs\<close>)
  qed
  with run row waits show ?thesis by blast
qed

definition demo_exhausted :: db where
  "demo_exhausted = demo_enqueued\<lparr>jobs := map (\<lambda>j. j\<lparr>job_state := FAILED_REQUIRES_REVIEW,
     job_attempt_count := 3, job_fencing_generation := 3, job_last_error := Some ''SesProviderRetryable''\<rparr>)
     (jobs demo_enqueued)\<rparr>"

definition demo_ctx :: trusted_context where
  "demo_ctx = \<lparr>ctx_tenant_id = 7, ctx_subject = ''owner'', ctx_email = ''o@x'', ctx_email_verified = True,
     ctx_correlation_id = 9\<rparr>"

theorem exhausted_retry_blocks_claims_witness:
  "\<exists>t. retry_failed_job demo_ctx 1 ''again'' demo_exhausted = (Inr (), t) \<and>
     claim_jobs ''w2'' 5 None [] t = (Inl IntegrityError, t)"
proof -
  have ok: "jobs_ok demo_exhausted" by code_simp
  have "map_option (\<lambda>j. (job_tenant_id j = ctx_tenant_id demo_ctx, job_state j, job_attempt_count j, job_max_attempts j))
      (row_by job_id 1 (jobs demo_exhausted)) = Some (True, FAILED_REQUIRES_REVIEW, 3, 3)" by code_simp
  then obtain j where j: "row_by job_id 1 (jobs demo_exhausted) = Some j" "job_tenant_id j = ctx_tenant_id demo_ctx"
    "job_state j = FAILED_REQUIRES_REVIEW" "job_attempt_count j = job_max_attempts j" by auto
  obtain t where t: "retry_failed_job demo_ctx 1 ''again'' demo_exhausted = (Inr (), t)"
    and fails: "(\<exists>r\<in>set (next_jobs 5 (clock t) (jobs t)). job_id r = 1 \<and> \<not> past_deadline (clock t) r) \<longrightarrow>
      claim_jobs ''w2'' 5 None [] t = (Inl IntegrityError, t)"
    using exhausted_retry_blocks_claims [OF ok j, of "''again''"] by fastforce
  have "list_ex (\<lambda>r. job_id r = 1 \<and> \<not> past_deadline (clock (snd (retry_failed_job demo_ctx 1 ''again'' demo_exhausted))) r)
    (next_jobs 5 (clock (snd (retry_failed_job demo_ctx 1 ''again'' demo_exhausted)))
       (jobs (snd (retry_failed_job demo_ctx 1 ''again'' demo_exhausted))))" by code_simp
  with t fails show ?thesis by (auto simp: list_ex_iff)
qed

end
