(* ===== verification/Capacity.thy ===== *)
theory Capacity
  imports Jobs
begin

text \<open>
  \<open>services/workers/capacity.py\<close>: the slots that bound how many analyses run at once, for a
  tenant and for the deployment. A slot is held by an unreleased reservation whose lease has not
  expired. The file ends with the bound every history of slot operations keeps.
\<close>

section \<open>Slots\<close>

record capacity_policy =
  per_tenant :: int
  global_limit :: int
  lease_seconds :: int
  reserved_fraction :: rat

definition DEFAULT_CAPACITY_POLICY :: capacity_policy where
  "DEFAULT_CAPACITY_POLICY = \<lparr>per_tenant = 1, global_limit = 4, lease_seconds = 60, reserved_fraction = 3 / 10\<rparr>"

definition holds_slot :: "time \<Rightarrow> capacity_reservation \<Rightarrow> bool" where
  "holds_slot current r \<longleftrightarrow> cap_res_released_at r = None \<and> current < cap_res_lease_until r"

definition same_reservation :: "uuid \<Rightarrow> string \<Rightarrow> capacity_reservation \<Rightarrow> bool" where
  "same_reservation tenant key r \<longleftrightarrow> cap_res_tenant_id r = tenant \<and> cap_res_reservation_key r = key"

definition put_reservation :: "uuid \<Rightarrow> (capacity_reservation \<Rightarrow> capacity_reservation) \<Rightarrow> unit act" where
  "put_reservation i f = modify (\<lambda>s. s\<lparr>capacity_reservations := upd_row cap_res_id i f (capacity_reservations s)\<rparr>)"

definition add_reservation :: "capacity_reservation \<Rightarrow> unit act" where
  "add_reservation = add_row capacity_reservations (\<lambda>rows s. s\<lparr>capacity_reservations := rows\<rparr>) (\<lambda>_. True)
     (\<lambda>r q. cap_res_id r = cap_res_id q \<or> same_reservation (cap_res_tenant_id r) (cap_res_reservation_key r) q)"

definition renewed :: "string \<Rightarrow> time \<Rightarrow> capacity_reservation \<Rightarrow> capacity_reservation" where
  "renewed worker until r = r\<lparr>cap_res_lease_until := until, cap_res_worker_id := worker\<rparr>"

definition new_reservation :: "uuid \<Rightarrow> string \<Rightarrow> string \<Rightarrow> time \<Rightarrow> capacity_reservation act" where
  "new_reservation tenant key worker until =
     bindE fresh_uuid (\<lambda>i.
     bindE the_time (\<lambda>now.
     bindE (ret \<lparr>cap_res_id = i, cap_res_tenant_id = tenant, cap_res_reservation_key = key, cap_res_worker_id = worker,
        cap_res_lease_until = until, cap_res_released_at = None, cap_res_created_at = now\<rparr>) (\<lambda>r.
     bindE (add_reservation r) (\<lambda>_. ret r))))"

definition reserve_analysis_slot ::
  "capacity_policy \<Rightarrow> uuid \<Rightarrow> string \<Rightarrow> string \<Rightarrow> time option \<Rightarrow> capacity_reservation act" where
  "reserve_analysis_slot policy tenant key worker now =
     bindE (require (0 < per_tenant policy \<and> per_tenant policy \<le> global_limit policy) ValueError) (\<lambda>_.
     bindE (time_or_now now) (\<lambda>current.
     bindE (gets (\<lambda>s. filter (holds_slot current) (capacity_reservations s))) (\<lambda>active.
     (case find (same_reservation tenant key) active of
        Some r \<Rightarrow>
          bindE (put_reservation (cap_res_id r) (renewed worker (current + seconds (lease_seconds policy)))) (\<lambda>_.
          ret (renewed worker (current + seconds (lease_seconds policy)) r))
      | None \<Rightarrow>
          (if int (length (filter (\<lambda>r. cap_res_tenant_id r = tenant) active)) \<ge> per_tenant policy
              \<or> int (length active) \<ge> global_limit policy
           then raise CapacityExceededError
           else new_reservation tenant key worker (current + seconds (lease_seconds policy)))))))"

definition release_analysis_slot :: "uuid \<Rightarrow> string \<Rightarrow> time option \<Rightarrow> unit act" where
  "release_analysis_slot i worker now =
     bindE (gets (\<lambda>s. row_by cap_res_id i (capacity_reservations s))) (\<lambda>found.
     bindE (some_or CapacityExceededError found) (\<lambda>r.
     bindE (require (\<not> (cap_res_released_at r = None \<and> cap_res_worker_id r \<noteq> worker)) CapacityExceededError) (\<lambda>_.
     bindE (time_or_now now) (\<lambda>current.
     put_reservation i (\<lambda>q. q\<lparr>cap_res_released_at := Some current\<rparr>)))))"

definition expired_slot :: "time \<Rightarrow> capacity_reservation \<Rightarrow> bool" where
  "expired_slot current r \<longleftrightarrow> cap_res_released_at r = None \<and> cap_res_lease_until r \<le> current"

definition recover_capacity_slots :: "time option \<Rightarrow> int act" where
  "recover_capacity_slots now =
     bindE (time_or_now now) (\<lambda>current.
     bindE (gets (\<lambda>s. filter (expired_slot current) (capacity_reservations s))) (\<lambda>expired.
     bindE (mapE (\<lambda>r. put_reservation (cap_res_id r) (\<lambda>q. q\<lparr>cap_res_released_at := Some current\<rparr>)) expired) (\<lambda>_.
     ret (int (length expired)))))"

definition active_capacity :: "time option \<Rightarrow> int act" where
  "active_capacity now =
     bindE (time_or_now now) (\<lambda>current.
     gets (\<lambda>s. int (length (filter (holds_slot current) (capacity_reservations s)))))"

section \<open>Counting\<close>

lemma length_filter_mono: "(\<And>r. r \<in> set rows \<Longrightarrow> P r \<Longrightarrow> Q r) \<Longrightarrow> length (filter P rows) \<le> length (filter Q rows)"
proof (induction rows)
  case (Cons r rows)
  then have "length (filter P rows) \<le> length (filter Q rows)" "P r \<Longrightarrow> Q r" by simp_all
  then show ?case by (auto intro: le_SucI)
qed simp

lemma filter_upd_row_le:
  assumes "\<And>r. r \<in> set rows \<Longrightarrow> P r \<Longrightarrow> Q r" and "\<And>r. row_by rid i rows = Some r \<Longrightarrow> P (f r) \<Longrightarrow> Q r"
  shows "length (filter P (upd_row rid i f rows)) \<le> length (filter Q rows)"
  using assms
proof (induction rows)
  case Nil
  then show ?case by simp
next
  case (Cons r rows)
  have rest: "length (filter P rows) \<le> length (filter Q rows)"
    using Cons.prems(1) by (intro length_filter_mono) simp
  show ?case
  proof (cases "rid r = i")
    case True
    then have "P (f r) \<Longrightarrow> Q r" using Cons.prems(2) by simp
    with True rest show ?thesis by (cases "P (f r)") (auto intro: le_SucI)
  next
    case False
    have "length (filter P (upd_row rid i f rows)) \<le> length (filter Q rows)"
      by (rule Cons.IH) (use Cons.prems False in auto)
    moreover have "P r \<Longrightarrow> Q r" using Cons.prems(1) by simp
    ultimately show ?thesis using False by (cases "P r") (auto intro: le_SucI)
  qed
qed

text \<open>The slots that count: of one tenant, or of all.\<close>

definition slots :: "(capacity_reservation \<Rightarrow> bool) \<Rightarrow> time \<Rightarrow> db \<Rightarrow> nat" where
  "slots of_tenant current s = length (filter (\<lambda>r. holds_slot current r \<and> of_tenant r) (capacity_reservations s))"

definition within_capacity :: "capacity_policy \<Rightarrow> time \<Rightarrow> db \<Rightarrow> bool" where
  "within_capacity policy current s \<longleftrightarrow>
     int (slots (\<lambda>_. True) current s) \<le> global_limit policy \<and>
     (\<forall>tenant. int (slots (\<lambda>r. cap_res_tenant_id r = tenant) current s) \<le> per_tenant policy)"

lemma holds_slot_later: "holds_slot v r \<Longrightarrow> u \<le> v \<Longrightarrow> holds_slot u r"
  by (simp add: holds_slot_def)

lemma slots_mono:
  assumes "t \<le> u" and "capacity_reservations s' = capacity_reservations s"
  shows "slots P u s' \<le> slots P t s"
proof -
  show ?thesis unfolding slots_def assms(2) using assms(1) by (intro length_filter_mono) (auto dest: holds_slot_later)
qed

lemma within_capacity_mono:
  assumes "within_capacity policy t s" and "\<And>P. (\<forall>r worker until. P (renewed worker until r) = P r) \<Longrightarrow>
      (\<forall>r v. P (r\<lparr>cap_res_released_at := v\<rparr>) = P r) \<Longrightarrow> slots P u s' \<le> slots P t s"
  shows "within_capacity policy u s'"
proof -
  have "slots (\<lambda>_. True) u s' \<le> slots (\<lambda>_. True) t s" by (rule assms(2)) simp_all
  moreover have "slots (\<lambda>r. cap_res_tenant_id r = tenant) u s' \<le> slots (\<lambda>r. cap_res_tenant_id r = tenant) t s" for tenant
    by (rule assms(2)) (simp_all add: renewed_def)
  ultimately show ?thesis using assms(1) unfolding within_capacity_def
    by (meson int_ops(1) of_nat_le_iff order_trans)
qed

lemma slots_put_released:
  assumes "t \<le> u" and "\<And>r v. P (r\<lparr>cap_res_released_at := v\<rparr>) = P r"
  shows "slots P u (s\<lparr>capacity_reservations := upd_row cap_res_id i (\<lambda>q. q\<lparr>cap_res_released_at := Some v\<rparr>) (capacity_reservations s)\<rparr>)
    \<le> slots P t s"
  unfolding slots_def using assms by (auto intro!: filter_upd_row_le dest: holds_slot_later simp: holds_slot_def)

lemma slots_put_renewed:
  assumes "t \<le> u" and "row_by cap_res_id i (capacity_reservations s) = Some q" and "holds_slot t q"
    and "\<And>r worker until. P (renewed worker until r) = P r"
  shows "slots P u (s\<lparr>capacity_reservations := upd_row cap_res_id i (renewed worker until) (capacity_reservations s)\<rparr>) \<le> slots P t s"
  unfolding slots_def using assms by (auto intro!: filter_upd_row_le dest: holds_slot_later)

section \<open>Histories\<close>

text \<open>
  The slot operations of one deployment, each in its transaction, in any order and interleaved
  with anything that leaves the reservations alone; the clock of an operation is never behind
  the one before.
\<close>

definition effective :: "time option \<Rightarrow> db \<Rightarrow> time" where
  "effective now s = (case now of Some v \<Rightarrow> v | None \<Rightarrow> clock s)"

inductive capacity_run :: "capacity_policy \<Rightarrow> time \<Rightarrow> db \<Rightarrow> bool" for policy where
  start: "capacity_reservations s = [] \<Longrightarrow> capacity_run policy t s"
| reserve: "capacity_run policy t s \<Longrightarrow> t \<le> effective now s \<Longrightarrow>
    atomically (reserve_analysis_slot policy tenant key worker now) s = (r, s') \<Longrightarrow> capacity_run policy (effective now s) s'"
| release: "capacity_run policy t s \<Longrightarrow> t \<le> effective now s \<Longrightarrow>
    atomically (release_analysis_slot i worker now) s = (r', s') \<Longrightarrow> capacity_run policy (effective now s) s'"
| recover: "capacity_run policy t s \<Longrightarrow> t \<le> effective now s \<Longrightarrow>
    atomically (recover_capacity_slots now) s = (n, s') \<Longrightarrow> capacity_run policy (effective now s) s'"
| elsewhere: "capacity_run policy t s \<Longrightarrow> t \<le> t' \<Longrightarrow> capacity_reservations s' = capacity_reservations s \<Longrightarrow> capacity_run policy t' s'"

lemma run_put_reservation [simp]:
  "put_reservation i f s = (Inr (), s\<lparr>capacity_reservations := upd_row cap_res_id i f (capacity_reservations s)\<rparr>)"
  by (simp add: put_reservation_def)

lemma run_new_reservation:
  assumes "new_reservation tenant key worker until s = (r, s')"
  shows "(\<exists>new. r = Inr new \<and> capacity_reservations s' = capacity_reservations s @ [new] \<and> cap_res_tenant_id new = tenant
            \<and> (\<forall>q\<in>set (capacity_reservations s). cap_res_id new \<noteq> cap_res_id q \<and> \<not> same_reservation tenant key q))
    \<or> (r = Inl IntegrityError \<and> capacity_reservations s' = capacity_reservations s)"
proof -
  define new where "new = \<lparr>cap_res_id = next_uuid s, cap_res_tenant_id = tenant, cap_res_reservation_key = key,
    cap_res_worker_id = worker, cap_res_lease_until = until, cap_res_released_at = None, cap_res_created_at = clock s\<rparr>"
  have "new_reservation tenant key worker until s =
      (if \<not> list_ex (\<lambda>q. cap_res_id new = cap_res_id q \<or> same_reservation tenant key q) (capacity_reservations s)
       then (Inr new, s\<lparr>next_uuid := Suc (next_uuid s), capacity_reservations := capacity_reservations s @ [new]\<rparr>)
       else (Inl IntegrityError, s\<lparr>next_uuid := Suc (next_uuid s)\<rparr>))"
    by (simp add: new_reservation_def add_reservation_def run_bindE run_add_row new_def)
  with assms show ?thesis by (auto simp: list_ex_iff new_def split: if_splits)
qed

lemma run_reserve:
  assumes "reserve_analysis_slot policy tenant key worker now s = (r, s')"
  obtains (invalid) "r = Inl ValueError" "s' = s"
  | (renew) q where "q \<in> set (capacity_reservations s)" "holds_slot (effective now s) q" "same_reservation tenant key q"
      "\<exists>until. s' = s\<lparr>capacity_reservations := upd_row cap_res_id (cap_res_id q) (renewed worker until) (capacity_reservations s)\<rparr>"
  | (full) "r = Inl CapacityExceededError" "s' = s"
  | (new) until where "0 < per_tenant policy" "per_tenant policy \<le> global_limit policy"
      "int (slots (\<lambda>r. cap_res_tenant_id r = tenant) (effective now s) s) < per_tenant policy"
      "int (slots (\<lambda>_. True) (effective now s) s) < global_limit policy"
      "new_reservation tenant key worker until s = (r, s')"
      "\<And>q. q \<in> set (capacity_reservations s) \<Longrightarrow> holds_slot (effective now s) q \<Longrightarrow> \<not> same_reservation tenant key q"
proof (cases "0 < per_tenant policy \<and> per_tenant policy \<le> global_limit policy")
  case False
  with assms invalid show ?thesis by (auto simp: reserve_analysis_slot_def)
next
  case True
  define active where "active = filter (holds_slot (effective now s)) (capacity_reservations s)"
  from True assms have run: "(case find (same_reservation tenant key) active of
        Some r \<Rightarrow>
          bindE (put_reservation (cap_res_id r) (renewed worker (effective now s + seconds (lease_seconds policy)))) (\<lambda>_.
          ret (renewed worker (effective now s + seconds (lease_seconds policy)) r))
      | None \<Rightarrow>
          (if int (length (filter (\<lambda>r. cap_res_tenant_id r = tenant) active)) \<ge> per_tenant policy
              \<or> int (length active) \<ge> global_limit policy
           then raise CapacityExceededError
           else new_reservation tenant key worker (effective now s + seconds (lease_seconds policy)))) s = (r, s')"
    unfolding reserve_analysis_slot_def effective_def active_def
    by (simp only: True simp_thms require_True bindE_ret run_bind_time_or_now run_bind_gets)
  show ?thesis
  proof (cases "find (same_reservation tenant key) active")
    case (Some q)
    then have q: "q \<in> set active" "same_reservation tenant key q" by (auto dest: find_SomeD)
    from run Some have "s' = s\<lparr>capacity_reservations := upd_row cap_res_id (cap_res_id q)
        (renewed worker (effective now s + seconds (lease_seconds policy))) (capacity_reservations s)\<rparr>"
      by (auto simp: run_bindE)
    with q show ?thesis by (intro renew [of q]) (auto simp: active_def)
  next
    case None
    show ?thesis
    proof (cases "int (length (filter (\<lambda>r. cap_res_tenant_id r = tenant) active)) \<ge> per_tenant policy \<or> int (length active) \<ge> global_limit policy")
      case True
      with run None full show ?thesis by simp
    next
      case False
      with run None have created: "new_reservation tenant key worker (effective now s + seconds (lease_seconds policy)) s = (r, s')" by simp
      from None have "\<And>q. q \<in> set (capacity_reservations s) \<Longrightarrow> holds_slot (effective now s) q \<Longrightarrow> \<not> same_reservation tenant key q"
        by (auto simp: find_None_iff active_def)
      with created False True show ?thesis
        by (intro new [of "effective now s + seconds (lease_seconds policy)"]) (auto simp: slots_def active_def conj_commute)
    qed
  qed
qed

definition distinct_ids :: "db \<Rightarrow> bool" where
  "distinct_ids s \<longleftrightarrow> distinct (map cap_res_id (capacity_reservations s))"

lemma reserve_keeps:
  assumes run: "reserve_analysis_slot policy tenant key worker now s = (r, s')" and t: "t \<le> effective now s"
    and inv: "within_capacity policy t s" "distinct_ids s"
  shows "within_capacity policy (effective now s) s' \<and> distinct_ids s'"
proof -
  have now: "within_capacity policy (effective now s) s"
    by (rule within_capacity_mono [OF inv(1)]) (rule slots_mono [OF t refl])
  from run show ?thesis
  proof (cases rule: run_reserve)
    case (renew q)
    then obtain until where s': "s' = s\<lparr>capacity_reservations := upd_row cap_res_id (cap_res_id q) (renewed worker until) (capacity_reservations s)\<rparr>"
      by blast
    have row: "row_by cap_res_id (cap_res_id q) (capacity_reservations s) = Some q"
      using inv(2) renew(1) by (simp add: distinct_ids_def row_by_distinct)
    have "within_capacity policy (effective now s) s'"
      unfolding s' by (rule within_capacity_mono [OF now]) (rule slots_put_renewed [OF order_refl row renew(2)], simp)
    moreover have "distinct_ids s'" using inv(2) by (simp add: distinct_ids_def s' map_upd_row renewed_def)
    ultimately show ?thesis by simp
  next
    case (new until)
    from run_new_reservation [OF new(5)] show ?thesis
    proof (elim disjE exE conjE)
      fix row
      assume row: "capacity_reservations s' = capacity_reservations s @ [row]" "cap_res_tenant_id row = tenant"
        "\<forall>q\<in>set (capacity_reservations s). cap_res_id row \<noteq> cap_res_id q \<and> \<not> same_reservation tenant key q"
      have "within_capacity policy (effective now s) s'"
        using now new(3,4) row(2) by (auto simp: within_capacity_def slots_def row(1))
      with row inv(2) show ?thesis by (auto simp: distinct_ids_def)
    next
      assume "capacity_reservations s' = capacity_reservations s"
      with now inv(2) show ?thesis by (simp add: within_capacity_def slots_def distinct_ids_def)
    qed
  qed (use now inv(2) in simp_all)
qed

lemma put_released_keeps:
  assumes "within_capacity policy t s" and "distinct_ids s" and "t \<le> u"
  shows "within_capacity policy u (s\<lparr>capacity_reservations := upd_row cap_res_id i (\<lambda>q. q\<lparr>cap_res_released_at := Some v\<rparr>) (capacity_reservations s)\<rparr>)
    \<and> distinct_ids (s\<lparr>capacity_reservations := upd_row cap_res_id i (\<lambda>q. q\<lparr>cap_res_released_at := Some v\<rparr>) (capacity_reservations s)\<rparr>)"
  using assms by (auto intro!: within_capacity_mono [OF assms(1)] slots_put_released simp: distinct_ids_def map_upd_row)

definition capacity_kept :: "capacity_policy \<Rightarrow> time \<Rightarrow> db \<Rightarrow> bool" where
  "capacity_kept policy u s \<longleftrightarrow> within_capacity policy u s \<and> distinct_ids s"

interpretation capacity: state_invariant "capacity_kept policy u" for policy u .

lemma put_released_kept:
  "evolves (\<lambda>s t. capacity_kept policy u s \<longrightarrow> capacity_kept policy u t) (put_reservation i (\<lambda>q. q\<lparr>cap_res_released_at := Some v\<rparr>))"
  unfolding capacity_kept_def
  by (intro evolvesI impI, elim conjE, simp only: run_put_reservation snd_conv, rule put_released_keeps [OF _ _ order_refl]) simp_all

lemma recover_keeps:
  assumes "within_capacity policy t s" and "distinct_ids s" and "t \<le> effective now s"
  shows "within_capacity policy (effective now s) (snd (recover_capacity_slots now s)) \<and> distinct_ids (snd (recover_capacity_slots now s))"
proof -
  have "within_capacity policy (effective now s) s"
    by (rule within_capacity_mono [OF assms(1)]) (rule slots_mono [OF assms(3) refl])
  moreover have "evolves (\<lambda>s t. capacity_kept policy u s \<longrightarrow> capacity_kept policy u t) (recover_capacity_slots now)" for u
    unfolding recover_capacity_slots_def time_or_now_def
    by (intro capacity.evolve_rules put_released_kept)
  from evolvesD [OF this] have "capacity_kept policy (effective now s) s \<longrightarrow> capacity_kept policy (effective now s) (snd (recover_capacity_slots now s))" .
  ultimately show ?thesis using assms(2) by (simp add: capacity_kept_def)
qed

lemma release_keeps:
  assumes run: "release_analysis_slot i worker now s = (r, s')" and "t \<le> effective now s"
    and "within_capacity policy t s" "distinct_ids s"
  shows "within_capacity policy (effective now s) s' \<and> distinct_ids s'"
proof -
  have now: "within_capacity policy (effective now s) s"
    by (rule within_capacity_mono [OF assms(3)]) (rule slots_mono [OF assms(2) refl])
  from run have "s' = s \<or> (\<exists>v. s' = s\<lparr>capacity_reservations := upd_row cap_res_id i (\<lambda>q. q\<lparr>cap_res_released_at := Some v\<rparr>) (capacity_reservations s)\<rparr>)"
    by (auto simp: release_analysis_slot_def run_bind_require run_bind_some_or split: option.splits if_splits)
  then show ?thesis
  proof (elim disjE exE)
    assume "s' = s"
    with now assms(4) show ?thesis by simp
  next
    fix v
    assume s': "s' = s\<lparr>capacity_reservations := upd_row cap_res_id i (\<lambda>q. q\<lparr>cap_res_released_at := Some v\<rparr>) (capacity_reservations s)\<rparr>"
    show ?thesis unfolding s' by (rule put_released_keeps [OF now assms(4) order_refl])
  qed
qed

lemma atomically_keeps:
  assumes "atomically m s = (r, s')" and "I s" and "I (snd (m s))"
  shows "I s'"
  using assms by (auto simp: run_atomically split: prod.splits sum.splits)

lemma capacity_run_within:
  assumes "capacity_run policy t s" and "0 \<le> per_tenant policy" and "0 \<le> global_limit policy"
  shows "within_capacity policy t s \<and> distinct_ids s"
  using assms(1)
proof (induction rule: capacity_run.induct)
  case (start s t)
  then show ?case using assms(2,3) by (simp add: within_capacity_def slots_def distinct_ids_def)
next
  case (reserve t s now tenant key worker r s')
  show ?case
  proof (rule atomically_keeps [OF reserve.hyps(3)])
    show "within_capacity policy (effective now s) s \<and> distinct_ids s"
      using reserve by (auto intro: within_capacity_mono slots_mono)
    show "within_capacity policy (effective now s) (snd (reserve_analysis_slot policy tenant key worker now s))
        \<and> distinct_ids (snd (reserve_analysis_slot policy tenant key worker now s))"
      by (rule reserve_keeps [OF surjective_pairing]) (use reserve in auto)
  qed
next
  case (release t s now i worker r s')
  show ?case
  proof (rule atomically_keeps [OF release.hyps(3)])
    show "within_capacity policy (effective now s) s \<and> distinct_ids s"
      using release by (auto intro: within_capacity_mono slots_mono)
    show "within_capacity policy (effective now s) (snd (release_analysis_slot i worker now s))
        \<and> distinct_ids (snd (release_analysis_slot i worker now s))"
      by (rule release_keeps [OF surjective_pairing]) (use release in auto)
  qed
next
  case (recover t s now n s')
  show ?case
  proof (rule atomically_keeps [OF recover.hyps(3)])
    show "within_capacity policy (effective now s) s \<and> distinct_ids s"
      using recover by (auto intro: within_capacity_mono slots_mono)
    show "within_capacity policy (effective now s) (snd (recover_capacity_slots now s)) \<and> distinct_ids (snd (recover_capacity_slots now s))"
      by (rule recover_keeps) (use recover in auto)
  qed
next
  case (elsewhere t s t' s')
  then show ?case by (auto intro: within_capacity_mono slots_mono simp: distinct_ids_def)
qed

section \<open>Properties\<close>

text \<open>C23: Through any history of reserving, releasing and recovering slots in any order, interleaved
  with anything else, and at any later time, the active reservations counted by \<open>active_capacity\<close>
  stay within the global limit and those of each tenant within the limit per tenant.\<close>

theorem capacity_bounded:
  assumes "capacity_run policy t s" and "0 \<le> per_tenant policy" and "0 \<le> global_limit policy" and "t \<le> effective now s"
  shows "(\<exists>n. active_capacity now s = (Inr n, s) \<and> n \<le> global_limit policy) \<and>
    int (length (filter (\<lambda>r. holds_slot (effective now s) r \<and> cap_res_tenant_id r = tenant) (capacity_reservations s))) \<le> per_tenant policy"
proof -
  have "within_capacity policy (effective now s) s"
    by (rule within_capacity_mono [OF conjunct1 [OF capacity_run_within [OF assms(1-3)]]]) (rule slots_mono [OF assms(4) refl])
  then show ?thesis
    by (simp_all add: active_capacity_def within_capacity_def slots_def effective_def)
qed

definition demo_slots :: db where
  "demo_slots = snd (atomically (reserve_analysis_slot DEFAULT_CAPACITY_POLICY 7 ''a'' ''w1'' (Some 0)) empty_db)"

lemma demo_slots_run: "capacity_run DEFAULT_CAPACITY_POLICY 0 demo_slots"
proof -
  have "capacity_run DEFAULT_CAPACITY_POLICY (effective (Some 0) empty_db)
      (snd (atomically (reserve_analysis_slot DEFAULT_CAPACITY_POLICY 7 ''a'' ''w1'' (Some 0)) empty_db))"
    by (rule capacity_run.reserve [OF capacity_run.start [where t = 0] _ surjective_pairing])
       (simp_all add: effective_def empty_db_def)
  then show ?thesis by (simp add: demo_slots_def effective_def)
qed

lemma demo_slots_rows: "capacity_reservations demo_slots =
  [\<lparr>cap_res_id = 1, cap_res_tenant_id = 7, cap_res_reservation_key = ''a'', cap_res_worker_id = ''w1'',
    cap_res_lease_until = 60000000, cap_res_released_at = None, cap_res_created_at = 0\<rparr>]"
  by code_simp

theorem capacity_bounded_witness:
  "active_capacity (Some 5) demo_slots = (Inr 1, demo_slots)
   \<and> (\<exists>n. active_capacity (Some 5) demo_slots = (Inr n, demo_slots) \<and> n \<le> 4)
   \<and> int (length (filter (\<lambda>r. holds_slot 5 r \<and> cap_res_tenant_id r = 7) (capacity_reservations demo_slots))) \<le> 1"
proof -
  have "active_capacity (Some 5) demo_slots = (Inr 1, demo_slots)"
    by (simp add: active_capacity_def demo_slots_rows holds_slot_def)
  with capacity_bounded [OF demo_slots_run, where now = "Some 5"] show ?thesis
    by (simp add: DEFAULT_CAPACITY_POLICY_def effective_def)
qed

text \<open>A reservation key works once: after its reservation was released, every later attempt to
  reserve a slot under the same key raises, from whichever worker and at whatever time, and
  changes no reservation.\<close>

theorem released_key_used_up:
  assumes "row_by cap_res_id i (capacity_reservations s) = Some q"
    and "distinct (map cap_res_id (capacity_reservations s))"
    and "\<And>p. p \<in> set (capacity_reservations s) \<Longrightarrow> same_reservation (cap_res_tenant_id q) (cap_res_reservation_key q) p \<Longrightarrow> p = q"
    and "release_analysis_slot i worker now s = (Inr (), s1)"
    and "reserve_analysis_slot policy (cap_res_tenant_id q) (cap_res_reservation_key q) other later s1 = (r, s2)"
  shows "(\<exists>e. r = Inl e \<and> e \<in> {ValueError, CapacityExceededError, IntegrityError}) \<and> capacity_reservations s2 = capacity_reservations s1"
proof -
  from assms(1,4) obtain v where rows: "capacity_reservations s1 =
      upd_row cap_res_id i (\<lambda>q. q\<lparr>cap_res_released_at := Some v\<rparr>) (capacity_reservations s)"
    by (auto simp: release_analysis_slot_def run_bind_require split: if_splits)
  have gone: "p = q\<lparr>cap_res_released_at := Some v\<rparr>"
    if "p \<in> set (capacity_reservations s1)" "same_reservation (cap_res_tenant_id q) (cap_res_reservation_key q) p" for p
  proof -
    have "p \<in> (\<lambda>r. if cap_res_id r = i then r\<lparr>cap_res_released_at := Some v\<rparr> else r) ` set (capacity_reservations s)"
      using that(1) unfolding rows upd_row_is_map [OF assms(2)] by simp
    then obtain p0 where p0: "p0 \<in> set (capacity_reservations s)"
        "p = (if cap_res_id p0 = i then p0\<lparr>cap_res_released_at := Some v\<rparr> else p0)" by blast
    have "same_reservation (cap_res_tenant_id q) (cap_res_reservation_key q) p0"
      using that(2) p0(2) by (simp add: same_reservation_def split: if_splits)
    with assms(3) p0(1) have "p0 = q" by blast
    with p0(2) assms(1) show ?thesis by (auto dest: row_by_SomeD)
  qed
  have here: "q\<lparr>cap_res_released_at := Some v\<rparr> \<in> set (capacity_reservations s1)"
    unfolding rows upd_row_is_map [OF assms(2)] using assms(1) by (force dest: row_by_SomeD)
  from assms(5) show ?thesis
  proof (cases rule: run_reserve)
    case (renew p)
    then show ?thesis using gone [of p] by (simp add: holds_slot_def)
  next
    case (new until)
    from run_new_reservation [OF new(5)] here show ?thesis by (auto simp: same_reservation_def)
  qed simp_all
qed

theorem released_key_used_up_witness:
  "\<exists>s1 r s2. release_analysis_slot 1 ''w1'' (Some 5) demo_slots = (Inr (), s1)
     \<and> reserve_analysis_slot DEFAULT_CAPACITY_POLICY 7 ''a'' ''w2'' (Some 9) s1 = (r, s2)
     \<and> (\<exists>e. r = Inl e \<and> e \<in> {ValueError, CapacityExceededError, IntegrityError}) \<and> capacity_reservations s2 = capacity_reservations s1"
proof -
  define q where "q = \<lparr>cap_res_id = 1, cap_res_tenant_id = 7, cap_res_reservation_key = ''a'', cap_res_worker_id = ''w1'',
    cap_res_lease_until = 60000000, cap_res_released_at = None, cap_res_created_at = 0\<rparr>"
  have rows: "capacity_reservations demo_slots = [q]" by (simp add: demo_slots_rows q_def)
  obtain s1 where s1: "release_analysis_slot 1 ''w1'' (Some 5) demo_slots = (Inr (), s1)"
    by (simp add: release_analysis_slot_def rows q_def)
  obtain r s2 where s2: "reserve_analysis_slot DEFAULT_CAPACITY_POLICY 7 ''a'' ''w2'' (Some 9) s1 = (r, s2)" by fastforce
  from released_key_used_up [where q = q, OF _ _ _ s1, of DEFAULT_CAPACITY_POLICY "''w2''" "Some 9" r s2] s1 s2 show ?thesis
    by (auto simp: rows) (simp_all add: q_def)
qed

end
