(* ===== verification/Outbox.thy ===== *)
theory Outbox
  imports Jobs
begin

text \<open>
  Durable commands and their messages: the transactional outbox and its publisher, consumer
  receipts (\<open>services/workers/durable.py\<close>), the one-transaction command and the
  consume-once wrapper (\<open>transactions.py\<close>), and the discovery of lost wake-ups
  (\<open>recovery.py\<close>). A commit keeps the state reached; a rollback returns to the state at the
  last commit, which is the state at entry of the function that rolls back.
\<close>

section \<open>Idempotent intake\<close>

text \<open>
  The interface of an operation that must take effect once per key: what it recorded is found
  again, and when something is found, it is returned and nothing changes.
\<close>

locale idempotent_intake =
  fixes found :: "'s \<Rightarrow> 'r option" and step :: "('s, 'e, 'r) prog"
  assumes recorded: "step s = (Inr r, t) \<Longrightarrow> found t = Some r"
    and replayed: "found s = Some r \<Longrightarrow> step s = (Inr r, s)"
begin

lemma again: "step s = (Inr r, t) \<Longrightarrow> step t = (Inr r, t)"
  by (rule replayed) (rule recorded)

lemma again_later: "step s = (Inr r, t) \<Longrightarrow> (\<And>q. found t = Some q \<Longrightarrow> found u = Some q) \<Longrightarrow> step u = (Inr r, u)"
  by (rule replayed) (blast dest: recorded)

end

section \<open>Publishing\<close>

definition put_outbox_event :: "uuid \<Rightarrow> (outbox_event \<Rightarrow> outbox_event) \<Rightarrow> unit act" where
  "put_outbox_event i f = modify (\<lambda>s. s\<lparr>outbox_events := upd_row ob_id i f (outbox_events s)\<rparr>)"

text \<open>
  The publisher is a parameter, returning the exception it raises, if any. The attempt is
  counted before the call, and the outcome is saved after it.
\<close>

definition publish_event ::
  "(outbox_event \<Rightarrow> exn option) \<Rightarrow> time \<Rightarrow> crash_point list \<Rightarrow> outbox_event \<Rightarrow> (nat \<times> nat) act" where
  "publish_event publish current injector ev =
     bindE (put_outbox_event (ob_id ev) (\<lambda>e. e\<lparr>ob_publish_attempts := ob_publish_attempts e + 1\<rparr>)) (\<lambda>_.
     bindE (trip injector OUTBOX_ATTEMPT_COMMITTED) (\<lambda>_.
     case (if OUTBOX_PUBLISHING \<in> set injector then Some InjectedCrash
           else publish (ev\<lparr>ob_publish_attempts := ob_publish_attempts ev + 1\<rparr>)) of
       Some err \<Rightarrow>
         bindE (put_outbox_event (ob_id ev) (\<lambda>e. e\<lparr>ob_last_error := Some (take 120 (exn_name err))\<rparr>)) (\<lambda>_.
         ret (0, 1))
     | None \<Rightarrow>
         bindE (trip injector OUTBOX_RESULT_SAVE) (\<lambda>_.
         bindE (put_outbox_event (ob_id ev) (\<lambda>e. e\<lparr>ob_published_at := Some current, ob_last_error := None\<rparr>)) (\<lambda>_.
         ret (1, 0)))))"

definition unpublished :: "int \<Rightarrow> outbox_event list \<Rightarrow> outbox_event list" where
  "unpublished limit rows =
     take (nat limit) (sort_key (\<lambda>e. (ob_created_at e, ob_id e)) (filter (\<lambda>e. ob_published_at e = None) rows))"

definition publish_outbox ::
  "(outbox_event \<Rightarrow> exn option) \<Rightarrow> int \<Rightarrow> time option \<Rightarrow> crash_point list \<Rightarrow> (nat \<times> nat) act" where
  "publish_outbox publish limit now injector =
     bindE (require (1 \<le> limit) DurableExecutionError) (\<lambda>_.
     bindE (time_or_now now) (\<lambda>current.
     bindE (gets (\<lambda>s. unpublished limit (outbox_events s))) (\<lambda>entries.
     bindE (mapE (publish_event publish current injector) entries) (\<lambda>counts.
     ret (sum_list (map fst counts), sum_list (map snd counts))))))"

section \<open>Consumer receipts\<close>

definition receipt_for :: "string \<Rightarrow> uuid \<Rightarrow> consumer_receipt list \<Rightarrow> consumer_receipt option" where
  "receipt_for name event rows = find (\<lambda>r. rcpt_consumer_name r = name \<and> rcpt_event_id r = event) rows"

definition add_consumer_receipt :: "consumer_receipt \<Rightarrow> unit act" where
  "add_consumer_receipt = add_row consumer_receipts (\<lambda>rows s. s\<lparr>consumer_receipts := rows\<rparr>) (\<lambda>_. True)
     (\<lambda>r q. rcpt_id r = rcpt_id q \<or> rcpt_consumer_name r = rcpt_consumer_name q \<and> rcpt_event_id r = rcpt_event_id q)"

definition rollback_to :: "db \<Rightarrow> unit act" where
  "rollback_to saved = modify (\<lambda>_. saved)"

definition record_consumer_receipt :: "string \<Rightarrow> uuid \<Rightarrow> (string \<times> pyval) list \<Rightarrow> bool act" where
  "record_consumer_receipt name event result =
     bindE (gets (\<lambda>s. (receipt_for name event (consumer_receipts s), s))) (\<lambda>(existing, saved).
     if existing \<noteq> None then ret False
     else catchE
       (bindE fresh_uuid (\<lambda>i.
        bindE the_time (\<lambda>now.
        bindE (add_consumer_receipt
          \<lparr>rcpt_id = i, rcpt_consumer_name = name, rcpt_event_id = event, rcpt_result_ref = result,
           rcpt_received_at = now\<rparr>) (\<lambda>_.
        ret True))))
       (\<lambda>e. if e = IntegrityError then bindE (rollback_to saved) (\<lambda>_. ret False) else raise e))"

definition stored_result :: "string \<Rightarrow> uuid \<Rightarrow> db \<Rightarrow> ((string \<times> pyval) list) option" where
  "stored_result name event s = map_option rcpt_result_ref (receipt_for name event (consumer_receipts s))"

definition execute_consumer_once ::
  "string \<Rightarrow> uuid \<Rightarrow> ((string \<times> pyval) list) act \<Rightarrow> ((string \<times> pyval) list) act" where
  "execute_consumer_once name event operation =
     bindE (gets (\<lambda>s. (stored_result name event s, s))) (\<lambda>(existing, saved).
     case existing of
       Some r \<Rightarrow> ret r
     | None \<Rightarrow>
         catchE
           (bindE operation (\<lambda>result.
            bindE (record_consumer_receipt name event result) (\<lambda>recorded.
            if recorded then ret result
            else bindE (rollback_to saved) (\<lambda>_.
                 bindE (gets (stored_result name event)) (\<lambda>first.
                 some_or RuntimeError first)))))
           (\<lambda>e. if e = IntegrityError
                then bindE (rollback_to saved) (\<lambda>_.
                     bindE (gets (stored_result name event)) (\<lambda>first.
                     some_or e first))
                else raise e))"

section \<open>One-transaction commands\<close>

record audit_spec =
  as_tenant_id :: uuid
  as_actor :: string
  as_action :: string
  as_resource_type :: string
  as_resource_id :: string
  as_correlation_id :: uuid
  as_project_id :: "uuid option"
  as_before_state :: "((string \<times> pyval) list) option"
  as_after_state :: "((string \<times> pyval) list) option"
  as_resource_revision :: "int option"
  as_causation_id :: "uuid option"

record job_spec =
  js_tenant_id :: uuid
  js_kind :: string
  js_payload_ref :: "(string \<times> pyval) list"
  js_correlation_id :: uuid
  js_project_id :: "uuid option"
  js_causation_id :: "uuid option"

definition opt_dict :: "((string \<times> pyval) list) option \<Rightarrow> pyval" where
  "opt_dict d = (case d of None \<Rightarrow> PNone | Some kvs \<Rightarrow> PDict kvs)"

definition add_audit_event :: "audit_event \<Rightarrow> unit act" where
  "add_audit_event =
     add_row audit_events (\<lambda>rows s. s\<lparr>audit_events := rows\<rparr>) (\<lambda>_. True) (\<lambda>r q. audit_id r = audit_id q)"

definition audit_of_spec :: "env \<Rightarrow> audit_spec \<Rightarrow> unit act" where
  "audit_of_spec E spec =
     bindE (digest_of E (PDict [(''before'', opt_dict (as_before_state spec)), (''after'', opt_dict (as_after_state spec))]))
       (\<lambda>digest.
     bindE fresh_uuid (\<lambda>i.
     bindE the_time (\<lambda>now.
     add_audit_event
       \<lparr>audit_id = i, audit_tenant_id = as_tenant_id spec, audit_project_id = as_project_id spec,
        audit_actor = as_actor spec, audit_action = as_action spec, audit_resource_type = as_resource_type spec,
        audit_resource_id = as_resource_id spec, audit_resource_revision = as_resource_revision spec,
        audit_correlation_id = as_correlation_id spec, audit_causation_id = as_causation_id spec,
        audit_before_state = as_before_state spec, audit_after_state = as_after_state spec,
        audit_content_digest = digest, audit_safe_metadata = [], audit_occurred_at = now\<rparr>)))"

definition commit_durable_command ::
  "env \<Rightarrow> 'a act \<Rightarrow> audit_spec option \<Rightarrow> job_spec list \<Rightarrow> string list \<Rightarrow> 'a act" where
  "commit_durable_command E operation audit jobs_to_queue lock_order =
     (case fst (mapE acquire lock_order []) of
        Inl e \<Rightarrow> raise e
      | Inr _ \<Rightarrow>
          atomically
            (bindE operation (\<lambda>result.
             bindE (case audit of None \<Rightarrow> ret () | Some spec \<Rightarrow> audit_of_spec E spec) (\<lambda>_.
             bindE (mapE (\<lambda>spec. enqueue_now (js_tenant_id spec) (js_kind spec) (js_payload_ref spec)
                 (js_correlation_id spec) (js_project_id spec) (js_causation_id spec)) jobs_to_queue) (\<lambda>_.
             ret result)))))"

section \<open>Lost wake-ups\<close>

definition RECOVERY_STALE_SECONDS :: int where "RECOVERY_STALE_SECONDS = 60"

definition announces :: "job \<Rightarrow> outbox_event \<Rightarrow> bool" where
  "announces j e \<longleftrightarrow> ob_aggregate_type e = ''job'' \<and> ob_aggregate_id e = uuid_str (job_id j)"

definition wakeup_known :: "time \<Rightarrow> job \<Rightarrow> outbox_event list \<Rightarrow> bool" where
  "wakeup_known stale_before j rows \<longleftrightarrow>
     list_ex (\<lambda>e. announces j e \<and> ob_published_at e = None) rows \<or>
     list_ex (\<lambda>e. announces j e \<and> stale_before \<le> ob_created_at e) rows"

definition waits_for_worker :: "time \<Rightarrow> job \<Rightarrow> bool" where
  "waits_for_worker current j \<longleftrightarrow>
     (job_state j = QUEUED \<or> job_state j = JOB_RETRY_WAIT) \<and> job_available_at j \<le> current"

definition wake_job :: "time \<Rightarrow> job \<Rightarrow> nat act" where
  "wake_job stale_before j =
     bindE (gets (\<lambda>s. wakeup_known stale_before j (outbox_events s))) (\<lambda>known.
     if known then ret 0
     else bindE (new_outbox_event (job_tenant_id j) ''job'' (uuid_str (job_id j)) ''job.recovery_wakeup''
            [(''job_id'', PStr (uuid_str (job_id j))), (''kind'', PStr (job_kind j))]
            (job_correlation_id j) (job_causation_id j)) (\<lambda>_.
          ret 1))"

definition discover_lost_wakeups :: "time option \<Rightarrow> nat act" where
  "discover_lost_wakeups now =
     bindE (time_or_now now) (\<lambda>current.
     bindE (gets (\<lambda>s. filter (waits_for_worker current) (jobs s))) (\<lambda>waiting.
     bindE (mapE (wake_job (current - seconds RECOVERY_STALE_SECONDS)) waiting) (\<lambda>created.
     ret (sum_list created))))"

section \<open>Lemmas\<close>

text \<open>The stored messages: their content is frozen, attempts only grow, a publication is final.\<close>

definition outbox_moves :: "outbox_event \<Rightarrow> outbox_event \<Rightarrow> bool" where
  "outbox_moves e e' \<longleftrightarrow>
     (ob_tenant_id e', ob_aggregate_type e', ob_aggregate_id e', ob_event_type e', ob_payload e',
      ob_correlation_id e', ob_causation_id e', ob_created_at e') =
     (ob_tenant_id e, ob_aggregate_type e, ob_aggregate_id e, ob_event_type e, ob_payload e,
      ob_correlation_id e, ob_causation_id e, ob_created_at e) \<and>
     ob_publish_attempts e \<le> ob_publish_attempts e' \<and>
     (ob_published_at e \<noteq> None \<longrightarrow> ob_published_at e' \<noteq> None)"

interpretation outbox_table: evolving_table outbox_events ob_id outbox_moves
  by unfold_locales (auto simp: outbox_moves_def)

interpretation receipt_table: evolving_table consumer_receipts rcpt_id "(=)"
  by unfold_locales auto

lemma receipt_for_append: "receipt_for n e rows = Some r \<Longrightarrow> receipt_for n e (rows @ qs) = Some r"
  by (simp add: receipt_for_def find_append)

lemma run_record_consumer_receipt:
  "record_consumer_receipt n e r s = (Inr b, t) \<Longrightarrow>
   (if b then receipt_for n e (consumer_receipts s) = None \<and> stored_result n e t = Some r
    else t = s)"
  by (auto simp: record_consumer_receipt_def add_consumer_receipt_def run_catchE run_bindE run_add_row
      stored_result_def receipt_for_def find_append rollback_to_def split: if_splits)

interpretation once: idempotent_intake "stored_result name event" "execute_consumer_once name event operation"
  for name event operation
proof unfold_locales
  fix s t :: db and r
  show "stored_result name event s = Some r \<Longrightarrow> execute_consumer_once name event operation s = (Inr r, s)"
    by (simp add: execute_consumer_once_def)
  assume run: "execute_consumer_once name event operation s = (Inr r, t)"
  show "stored_result name event t = Some r"
  proof (cases "stored_result name event s")
    case (Some q)
    with run show ?thesis by (simp add: execute_consumer_once_def)
  next
    case None
    with run show ?thesis
      by (auto simp: execute_consumer_once_def run_catchE run_bindE some_or_def rollback_to_def
          split: prod.splits sum.splits if_splits option.splits dest: run_record_consumer_receipt)
  qed
qed

section \<open>What the messages guarantee\<close>

text \<open>Consumers act once per event. When the handling of an event returned a result, every
later delivery of the event to the same consumer, with whatever handler and after anything
that keeps the stored receipts, returns that first result and changes nothing.\<close>

theorem consumer_acts_once:
  assumes "execute_consumer_once name event operation s = (Inr r, t)"
    and "table_evolves rcpt_id (=) (consumer_receipts t) (consumer_receipts u)"
  shows "execute_consumer_once name event operation' u = (Inr r, u)"
proof (rule once.replayed)
  from once.recorded [OF assms(1)] obtain q where "receipt_for name event (consumer_receipts t) = Some q" "rcpt_result_ref q = r"
    by (auto simp: stored_result_def)
  with append_only_find [OF assms(2)] show "stored_result name event u = Some r"
    by (simp add: stored_result_def receipt_for_def)
qed

theorem consumer_acts_once_witness:
  "\<exists>t. execute_consumer_once ''mail'' 5 (ret [(''n'', PInt 1)]) empty_db = (Inr [(''n'', PInt 1)], t) \<and>
     execute_consumer_once ''mail'' 5 (raise ValueError) t = (Inr [(''n'', PInt 1)], t)"
proof -
  have "map_option (map fst) (value_of (execute_consumer_once ''mail'' 5 (ret [(''n'', PInt 1)]) empty_db)) = Some [''n'']"
    by code_simp
  then obtain r where r: "value_of (execute_consumer_once ''mail'' 5 (ret [(''n'', PInt 1)]) empty_db) = Some r" by auto
  have "value_of (execute_consumer_once ''mail'' 5 (ret [(''n'', PInt 1)]) empty_db) = Some [(''n'', PInt 1)]"
    by code_simp
  from value_of_SomeD [OF this] consumer_acts_once [OF value_of_SomeD [OF this] receipt_table.table_refl]
  show ?thesis by blast
qed

text \<open>The publisher, row by row.\<close>

definition published_row :: "(outbox_event \<Rightarrow> exn option) \<Rightarrow> time \<Rightarrow> outbox_event \<Rightarrow> outbox_event" where
  "published_row publish current e =
     (let e' = e\<lparr>ob_publish_attempts := ob_publish_attempts e + 1\<rparr> in
      case publish e' of
        Some err \<Rightarrow> e'\<lparr>ob_last_error := Some (take 120 (exn_name err))\<rparr>
      | None \<Rightarrow> e'\<lparr>ob_published_at := Some current, ob_last_error := None\<rparr>)"

definition publish_update :: "(outbox_event \<Rightarrow> exn option) \<Rightarrow> time \<Rightarrow> outbox_event \<Rightarrow> outbox_event \<Rightarrow> outbox_event" where
  "publish_update publish current ev e =
     (let e' = e\<lparr>ob_publish_attempts := ob_publish_attempts e + 1\<rparr> in
      case publish (ev\<lparr>ob_publish_attempts := ob_publish_attempts ev + 1\<rparr>) of
        Some err \<Rightarrow> e'\<lparr>ob_last_error := Some (take 120 (exn_name err))\<rparr>
      | None \<Rightarrow> e'\<lparr>ob_published_at := Some current, ob_last_error := None\<rparr>)"

lemma publish_update_self: "publish_update p c e e = published_row p c e"
  by (simp add: publish_update_def published_row_def)

lemma ob_id_publish_update [simp]: "ob_id (publish_update p c ev e) = ob_id e"
  by (simp add: publish_update_def Let_def split: option.split)

definition accepts :: "(outbox_event \<Rightarrow> exn option) \<Rightarrow> outbox_event \<Rightarrow> bool" where
  "accepts publish e \<longleftrightarrow> publish (e\<lparr>ob_publish_attempts := ob_publish_attempts e + 1\<rparr>) = None"

definition publish_count :: "(outbox_event \<Rightarrow> exn option) \<Rightarrow> outbox_event \<Rightarrow> nat \<times> nat" where
  "publish_count publish e = (if accepts publish e then (1, 0) else (0, 1))"

lemma run_publish_event:
  "publish_event p c [] ev s =
     (Inr (publish_count p ev), s\<lparr>outbox_events := upd_row ob_id (ob_id ev) (publish_update p c ev) (outbox_events s)\<rparr>)"
  by (cases "p (ev\<lparr>ob_publish_attempts := ob_publish_attempts ev + 1\<rparr>)")
     (simp_all add: publish_event_def put_outbox_event_def upd_row_twice publish_update_def [abs_def]
        publish_count_def accepts_def run_bindE)

lemma run_publish_all:
  "mapE (publish_event p c []) evs s =
     (Inr (map (publish_count p) evs),
      s\<lparr>outbox_events := fold (\<lambda>ev. upd_row ob_id (ob_id ev) (publish_update p c ev)) evs (outbox_events s)\<rparr>)"
  by (induction evs arbitrary: s) (simp_all add: run_bindE run_publish_event)

lemma publish_counts:
  "sum_list (map (fst \<circ> publish_count p) evs) = length (filter (accepts p) evs)"
  "sum_list (map (fst \<circ> publish_count p) evs) + sum_list (map (snd \<circ> publish_count p) evs) = length evs"
  by (induction evs) (simp_all add: publish_count_def)

lemma unpublished_distinct: "distinct (map ob_id rows) \<Longrightarrow> distinct (map ob_id (unpublished limit rows))"
  unfolding unpublished_def by (rule distinct_selection)

lemma unpublished_rows: "e \<in> set (unpublished limit rows) \<Longrightarrow> e \<in> set rows \<and> ob_published_at e = None"
  unfolding unpublished_def by (auto dest: in_set_takeD)

text \<open>The outbox delivers at least once. A sweep takes the oldest unpublished messages up to
the limit and counts each as published or failed; a message is marked published only when the
publisher accepted it, a refused one stays unpublished with the error noted, so that a later
sweep offers it again, and every other message is untouched.\<close>

theorem publish_outbox_sweep:
  assumes "distinct (map ob_id (outbox_events s))" and "1 \<le> limit"
  shows "\<exists>sent failed t. publish_outbox p limit (Some now) [] s = (Inr (sent, failed), t) \<and>
     sent + failed = length (unpublished limit (outbox_events s)) \<and>
     sent = length (filter (accepts p) (unpublished limit (outbox_events s))) \<and>
     outbox_events t = map (\<lambda>e. if e \<in> set (unpublished limit (outbox_events s))
         then published_row p now e else e) (outbox_events s) \<and>
     t\<lparr>outbox_events := outbox_events s\<rparr> = s"
proof -
  let ?evs = "unpublished limit (outbox_events s)"
  have "fold (\<lambda>ev. upd_row ob_id (ob_id ev) (publish_update p now ev)) ?evs (outbox_events s) =
      map (\<lambda>e. if e \<in> set ?evs then publish_update p now e e else e) (outbox_events s)"
    by (rule fold_upd_each [OF assms(1) _ unpublished_distinct [OF assms(1)]]) (auto dest: unpublished_rows)
  then have run: "publish_outbox p limit (Some now) [] s =
     (Inr (sum_list (map (fst \<circ> publish_count p) ?evs), sum_list (map (snd \<circ> publish_count p) ?evs)),
      s\<lparr>outbox_events := map (\<lambda>e. if e \<in> set ?evs then published_row p now e else e) (outbox_events s)\<rparr>)"
    using assms(2)
    by (simp add: publish_outbox_def run_bindE [of "mapE f xs" for f xs] run_publish_all publish_update_self
        cong: if_cong)
  show ?thesis unfolding run by (intro exI conjI, rule refl) (rule publish_counts | simp)+
qed

theorem publish_outbox_sweep_witness:
  "\<exists>sent failed t. publish_outbox (\<lambda>_. Some RuntimeError) 100 (Some 5) [] demo_enqueued = (Inr (sent, failed), t) \<and>
     sent + failed = 1 \<and> sent = 0"
proof -
  have "distinct (map ob_id (outbox_events demo_enqueued))" by code_simp
  moreover have "length (unpublished 100 (outbox_events demo_enqueued)) = 1" by code_simp
  moreover have "filter (accepts (\<lambda>_. Some RuntimeError)) (unpublished 100 (outbox_events demo_enqueued)) = []"
    by (simp add: accepts_def)
  ultimately show ?thesis using publish_outbox_sweep [of demo_enqueued 100 "\<lambda>_. Some RuntimeError" 5] by auto
qed

text \<open>A queued job is announced in the same transaction.\<close>

lemma enqueue_now_announced:
  "enqueue_now tn k p c pr ca s = (Inr j, t) \<Longrightarrow>
   job_tenant_id j = tn \<and> job_kind j = k \<and> job_payload_ref j = p \<and> job_state j = QUEUED \<and>
   (\<exists>e. jobs t = jobs s @ [j] \<and> outbox_events t = outbox_events s @ [e] \<and> announces j e \<and>
        ob_published_at e = None \<and> ob_event_type e = ''job.queued'' \<and> audit_events t = audit_events s)"
  by (auto simp: enqueue_now_def enqueue_job_def DEFAULT_MAX_ATTEMPTS_def run_bindE add_job_def run_add_row
      new_outbox_event_def add_outbox_event_def announces_def split: if_splits)

lemma enqueue_all_announced:
  "mapE (\<lambda>spec. enqueue_now (js_tenant_id spec) (js_kind spec) (js_payload_ref spec)
     (js_correlation_id spec) (js_project_id spec) (js_causation_id spec)) specs s = (Inr js, t) \<Longrightarrow>
   \<exists>es. jobs t = jobs s @ js \<and> outbox_events t = outbox_events s @ es \<and> audit_events t = audit_events s \<and>
     map (\<lambda>j. (job_kind j, job_payload_ref j)) js = map (\<lambda>q. (js_kind q, js_payload_ref q)) specs \<and>
     list_all2 (\<lambda>j e. announces j e \<and> ob_published_at e = None \<and> job_state j = QUEUED) js es"
proof (induction specs arbitrary: s js)
  case Nil
  then show ?case by simp
next
  case (Cons q specs)
  from Cons.prems obtain j s1 ks where
    1: "enqueue_now (js_tenant_id q) (js_kind q) (js_payload_ref q) (js_correlation_id q) (js_project_id q)
         (js_causation_id q) s = (Inr j, s1)" and
    2: "mapE (\<lambda>spec. enqueue_now (js_tenant_id spec) (js_kind spec) (js_payload_ref spec)
         (js_correlation_id spec) (js_project_id spec) (js_causation_id spec)) specs s1 = (Inr ks, t)" and
    js: "js = j # ks"
    by (auto simp: run_bindE split: prod.splits sum.splits)
  from enqueue_now_announced [OF 1] Cons.IH [OF 2] show ?case unfolding js by force
qed

lemma audit_of_spec_appends:
  "audit_of_spec E spec s = (Inr (), t) \<Longrightarrow>
   \<exists>a. audit_events t = audit_events s @ [a] \<and> audit_action a = as_action spec \<and>
     audit_resource_id a = as_resource_id spec \<and> audit_actor a = as_actor spec \<and>
     jobs t = jobs s \<and> outbox_events t = outbox_events s"
  by (auto simp: audit_of_spec_def run_bindE run_digest_of add_audit_event_def run_add_row split: sum.splits if_splits)

text \<open>Which lock orders the guard grants.\<close>

lemma acquire_returned:
  "acquire n held = (Inr u, held') \<Longrightarrow>
   \<exists>r. map_of LOCK_ORDER n = Some r \<and> (held = [] \<or> \<not> r < last held) \<and> held' = held @ [r]"
  by (auto simp: acquire_def split: option.splits if_splits)

lemma acquire_all_sorted:
  "mapE acquire names held = (Inr us, held') \<Longrightarrow> sorted held \<Longrightarrow>
   map (map_of LOCK_ORDER) names = map Some (drop (length held) held') \<and> take (length held) held' = held \<and>
   sorted held' \<and> length held' = length held + length names"
proof (induction names arbitrary: held us)
  case Nil
  then show ?case by simp
next
  case (Cons n names)
  from Cons.prems(1) obtain u h vs where first: "acquire n held = (Inr u, h)" and rest: "mapE acquire names h = (Inr vs, held')"
    by (auto elim!: bindE_InrE)
  from acquire_returned [OF first] rest obtain r where r: "map_of LOCK_ORDER n = Some r" and
    ok: "held = [] \<or> \<not> r < last held" and run: "mapE acquire names (held @ [r]) = (Inr vs, held')" by auto
  have "sorted (held @ [r])" by (rule sorted_snoc_last [OF Cons.prems(2) ok])
  from Cons.IH [OF run this] have
    IH: "map (map_of LOCK_ORDER) names = map Some (drop (Suc (length held)) held')"
        "take (Suc (length held)) held' = held @ [r]" "sorted held'" "length held' = Suc (length held + length names)"
    by simp_all
  from IH(4) have "length held < length held'" by simp
  then have "drop (length held) held' = held' ! length held # drop (Suc (length held)) held'"
    by (simp add: Cons_nth_drop_Suc)
  moreover have "held' ! length held = r"
    using IH(2) by (metis lessI nth_append_length nth_take)
  moreover have "take (length held) held' = held"
    using IH(2) by (metis append_eq_conv_conj take_take min.absorb1 le_SucI order_refl append_take_drop_id)
  ultimately show ?case using IH r by simp
qed

text \<open>C9: A durable command is all or nothing. When it raises, the database is exactly as before.
When it returns, its locks were known and taken in the canonical order project, order, payment,
action, and after the operation's own effects there are exactly one audit record (if one was
asked for) and one queued job per requested job, each with its unpublished announcement.\<close>

theorem durable_command_atomic:
  "case commit_durable_command E operation audit specs names s of
     (Inl e, t) \<Rightarrow> t = s
   | (Inr r, t) \<Rightarrow>
       \<exists>s1 locks as js es. operation s = (Inr r, s1) \<and>
         map (map_of LOCK_ORDER) names = map Some locks \<and> sorted locks \<and>
         audit_events t = audit_events s1 @ as \<and> jobs t = jobs s1 @ js \<and> outbox_events t = outbox_events s1 @ es \<and>
         length as = (if audit = None then 0 else 1) \<and>
         map (\<lambda>j. (job_kind j, job_payload_ref j)) js = map (\<lambda>q. (js_kind q, js_payload_ref q)) specs \<and>
         list_all2 (\<lambda>j e. announces j e \<and> ob_published_at e = None \<and> job_state j = QUEUED) js es"
proof (cases "mapE acquire names []")
  case (Pair g held)
  show ?thesis
  proof (cases g)
    case (Inl e)
    with Pair show ?thesis by (simp add: commit_durable_command_def)
  next
    case (Inr us)
    from acquire_all_sorted [of names "[]" us held] Pair Inr
    have locks: "map (map_of LOCK_ORDER) names = map Some held" "sorted held" by simp_all
    let ?queue = "mapE (\<lambda>spec. enqueue_now (js_tenant_id spec) (js_kind spec) (js_payload_ref spec)
                 (js_correlation_id spec) (js_project_id spec) (js_causation_id spec)) specs"
    let ?audit = "case audit of None \<Rightarrow> ret () | Some spec \<Rightarrow> audit_of_spec E spec"
    let ?body = "bindE operation (\<lambda>result. bindE ?audit (\<lambda>_. bindE ?queue (\<lambda>_. ret result)))"
    have run: "commit_durable_command E operation audit specs names s = atomically ?body s"
      by (simp add: commit_durable_command_def Pair Inr)
    show ?thesis
    proof (cases "?body s")
      case (Pair r t)
      show ?thesis
      proof (cases r)
        case (Inl e)
        with Pair run show ?thesis by (simp add: run_atomically)
      next
        case (Inr x)
        from Pair [unfolded Inr] obtain s1 s2 js u where
          1: "operation s = (Inr x, s1)" and 2: "?audit s1 = (Inr u, s2)" and 3: "?queue s2 = (Inr js, t)"
          by (auto elim!: bindE_InrE)
        from 2 obtain rs where "audit_events s2 = audit_events s1 @ rs" "length rs = (if audit = None then 0 else 1)"
            "jobs s2 = jobs s1" "outbox_events s2 = outbox_events s1"
          by (cases audit) (auto dest!: audit_of_spec_appends)
        moreover from enqueue_all_announced [OF 3] obtain es where "jobs t = jobs s2 @ js"
            "outbox_events t = outbox_events s2 @ es" "audit_events t = audit_events s2"
            "map (\<lambda>j. (job_kind j, job_payload_ref j)) js = map (\<lambda>q. (js_kind q, js_payload_ref q)) specs"
            "list_all2 (\<lambda>j e. announces j e \<and> ob_published_at e = None \<and> job_state j = QUEUED) js es"
          by blast
        moreover have "atomically ?body s = (Inr x, t)" using Pair Inr by (simp only: run_atomically prod.case sum.case)
        ultimately show ?thesis unfolding run using locks 1
          by (simp only: prod.case sum.case) (intro exI [of _ s1] exI [of _ held] exI [of _ rs] exI [of _ js] exI [of _ es], simp)
      qed
    qed
  qed
qed

text \<open>The sweep for lost wake-ups.\<close>

lemma run_wake_job:
  assumes "wake_job c j s = (Inr n, t)"
  shows "wakeup_known c j (outbox_events t) \<and> jobs t = jobs s \<and>
     (\<exists>es. outbox_events t = outbox_events s @ es \<and> length es = n \<and>
       (\<forall>e\<in>set es. announces j e \<and> ob_event_type e = ''job.recovery_wakeup'' \<and> ob_published_at e = None))"
  using assms
  by (auto simp: wake_job_def run_bindE new_outbox_event_def add_outbox_event_def run_add_row wakeup_known_def
      announces_def split: if_splits)

lemma wakeup_known_append: "wakeup_known c j rows \<Longrightarrow> wakeup_known c j (rows @ es)"
  by (auto simp: wakeup_known_def)

lemma run_wake_all:
  "mapE (wake_job c) js s = (Inr ns, t) \<Longrightarrow>
   (\<forall>j\<in>set js. wakeup_known c j (outbox_events t)) \<and> jobs t = jobs s \<and>
   (\<exists>es. outbox_events t = outbox_events s @ es \<and> length es = sum_list ns \<and>
       (\<forall>e\<in>set es. ob_event_type e = ''job.recovery_wakeup'' \<and> ob_published_at e = None))"
proof (induction js arbitrary: s ns)
  case Nil
  then show ?case by simp
next
  case (Cons j js)
  from Cons.prems obtain n s1 ms where
    1: "wake_job c j s = (Inr n, s1)" and 2: "mapE (wake_job c) js s1 = (Inr ms, t)" and ns: "ns = n # ms"
    by (auto simp: run_bindE split: prod.splits sum.splits)
  from run_wake_job [OF 1] Cons.IH [OF 2] show ?case
    unfolding ns
    using wakeup_known_append [where rows = "outbox_events s @ es" for es, unfolded append_assoc]
    by (auto simp: wakeup_known_append)
qed

lemma wake_known: "\<forall>j\<in>set js. wakeup_known c j (outbox_events s) \<Longrightarrow> mapE (wake_job c) js s = (Inr (map (\<lambda>_. 0) js), s)"
  by (induction js) (simp_all add: run_bindE wake_job_def)

text \<open>C10: No job is forgotten. After the sweep, every job that waits for a worker and is available
has an announcement that is unpublished or recent; the sweep only appends wake-ups, as many as
it reports, and an immediate second sweep finds nothing to do.\<close>

theorem no_lost_wakeup:
  assumes "discover_lost_wakeups (Some now) s = (Inr n, t)"
  shows "(\<forall>j\<in>set (jobs t). waits_for_worker now j \<longrightarrow>
            wakeup_known (now - seconds RECOVERY_STALE_SECONDS) j (outbox_events t)) \<and>
     jobs t = jobs s \<and>
     (\<exists>es. outbox_events t = outbox_events s @ es \<and> length es = n \<and>
        (\<forall>e\<in>set es. ob_event_type e = ''job.recovery_wakeup'' \<and> ob_published_at e = None)) \<and>
     discover_lost_wakeups (Some now) t = (Inr 0, t)"
proof -
  let ?c = "now - seconds RECOVERY_STALE_SECONDS"
  let ?js = "filter (waits_for_worker now) (jobs s)"
  from assms obtain ns where run: "mapE (wake_job ?c) ?js s = (Inr ns, t)" and n: "n = sum_list ns"
    by (auto simp: discover_lost_wakeups_def run_bindE split: prod.splits sum.splits)
  from run_wake_all [OF run] have
    known: "\<forall>j\<in>set ?js. wakeup_known ?c j (outbox_events t)" and jobs: "jobs t = jobs s" by blast+
  have "discover_lost_wakeups (Some now) t = (Inr 0, t)"
    using wake_known [OF known] by (simp add: discover_lost_wakeups_def run_bindE jobs)
  with run_wake_all [OF run] known n show ?thesis by auto
qed

definition demo_published :: db where
  "demo_published = snd (publish_outbox (\<lambda>_. None) 100 (Some 0) [] demo_enqueued)"

theorem no_lost_wakeup_witness:
  "\<exists>t. discover_lost_wakeups (Some (seconds 90)) demo_published = (Inr 1, t) \<and>
     discover_lost_wakeups (Some (seconds 90)) t = (Inr 0, t)"
proof -
  have "value_of (discover_lost_wakeups (Some (seconds 90)) demo_published) = Some 1" by code_simp
  from no_lost_wakeup [OF value_of_SomeD [OF this]] value_of_SomeD [OF this] show ?thesis by blast
qed

end
