(* ===== verification/Pricing.thy ===== *)
theory Pricing
  imports Values Complex_Main
begin

text \<open>
  \<open>services/domain/money.py\<close> and \<open>services/domain/terms.py\<close>: hours as decimal strings, the
  recommended total in paise, the bounds of money, calendars, due dates and working days.
  Decimal arithmetic is exact up to 28 significant digits and then rounded half to even, as in
  Python's default context; a decimal is read by its value, a rational number.
\<close>

section \<open>Decimal strings\<close>

text \<open>
  \<open>Decimal(text)\<close>: an optional sign, digits with at most one point, an optional exponent;
  surrounding white space and underscores are ignored, as Python does for ASCII text.
\<close>

definition is_decimal_digit :: "char \<Rightarrow> bool" where
  "is_decimal_digit c \<longleftrightarrow> (let n = of_char c :: nat in 48 \<le> n \<and> n \<le> 57)"

definition split_sign :: "string \<Rightarrow> bool \<times> string" where
  "split_sign t = (case t of
     c # cs \<Rightarrow> if c = CHR ''-'' then (True, cs) else if c = CHR ''+'' then (False, cs) else (False, t)
   | [] \<Rightarrow> (False, []))"

definition number_of :: "string \<Rightarrow> nat option" where
  "number_of ds = (if ds = [] then None else digits_val 10 0 ds)"

definition exponent_of :: "string \<Rightarrow> int option" where
  "exponent_of t = (case split_sign t of (neg, ds) \<Rightarrow>
     map_option (\<lambda>n. if neg then - int n else int n) (number_of ds))"

definition finite_decimal :: "bool \<Rightarrow> string \<Rightarrow> decimal option" where
  "finite_decimal neg t =
     (let whole = takeWhile is_decimal_digit t;
          rest = dropWhile is_decimal_digit t;
          frac = (case rest of c # cs \<Rightarrow> if c = CHR ''.'' then takeWhile is_decimal_digit cs else [] | [] \<Rightarrow> []);
          tail = (case rest of c # cs \<Rightarrow> if c = CHR ''.'' then dropWhile is_decimal_digit cs else rest | [] \<Rightarrow> []);
          expo = (case tail of
              [] \<Rightarrow> Some 0
            | c # cs \<Rightarrow> if lower_char c = CHR ''e'' then exponent_of cs else None)
      in Option.bind (number_of (whole @ frac)) (\<lambda>c.
         map_option (\<lambda>e. Dec neg c (e - int (length frac))) expo))"

definition nan_text :: "string \<Rightarrow> bool" where
  "nan_text t \<longleftrightarrow> (let u = (if starts_with ''s'' t then drop 1 t else t)
     in starts_with ''nan'' u \<and> list_all is_decimal_digit (drop 3 u))"

definition decimal_of_str :: "string \<Rightarrow> decimal option" where
  "decimal_of_str text =
     (case split_sign (filter (\<lambda>c. c \<noteq> CHR ''_'') (strip text)) of (neg, t) \<Rightarrow>
        if lower t = ''inf'' \<or> lower t = ''infinity'' then Some (DecInf neg)
        else if nan_text (lower t) then Some DecNaN
        else finite_decimal neg t)"

definition power10 :: "int \<Rightarrow> rat" where
  "power10 e = (if 0 \<le> e then 10 ^ nat e else 1 / 10 ^ nat (- e))"

fun decimal_value :: "decimal \<Rightarrow> rat option" where
  "decimal_value (Dec neg c e) = Some ((if neg then - 1 else 1) * of_nat c * power10 e)"
| "decimal_value _ = None"

section \<open>Rounding\<close>

definition half_even :: "rat \<Rightarrow> int" where
  "half_even x = (let f = \<lfloor>x\<rfloor>; d = x - of_int f
     in if d < 1 / 2 then f else if d > 1 / 2 then f + 1 else if even f then f else f + 1)"

text \<open>The power of ten that scales a positive number to 28 digits before the point.\<close>

definition scale28 :: "rat \<Rightarrow> int" where
  "scale28 x = (if 1 \<le> x then 28 - int (length (digits 10 (nat \<lfloor>x\<rfloor>)))
     else 27 + int (length (digits 10 (nat (\<lceil>1 / x\<rceil> - 1)))))"

definition round28 :: "rat \<Rightarrow> rat" where
  "round28 x = (if x \<le> 0 then x else of_int (half_even (x * power10 (scale28 x))) / power10 (scale28 x))"

section \<open>Hours and totals\<close>

definition MAX_CHANGE_MINOR :: int where "MAX_CHANGE_MINOR = 100000000"
definition MAX_HOURS :: rat where "MAX_HOURS = 1000"

definition parse_hours :: "string \<Rightarrow> exn + rat" where
  "parse_hours text =
     (case decimal_of_str text of
        None \<Rightarrow> Inl ValidationError
      | Some d \<Rightarrow> (case decimal_value d of
          None \<Rightarrow> Inl ValidationError
        | Some h \<Rightarrow> if 0 < h \<and> h \<le> MAX_HOURS then Inr h else Inl ValidationError))"

definition effort_range :: "rat \<Rightarrow> rat \<Rightarrow> rat \<Rightarrow> exn + rat \<times> rat \<times> rat" where
  "effort_range low recommended high =
     (if \<not> (low \<le> recommended \<and> recommended \<le> high) then Inl ValidationError
      else if round28 (low * 2) < high then Inl ValidationError
      else Inr (low, recommended, high))"

definition validate_effort_range :: "string \<Rightarrow> string \<Rightarrow> string \<Rightarrow> exn + rat \<times> rat \<times> rat" where
  "validate_effort_range low_hours recommended_hours high_hours =
     (case parse_hours low_hours of Inl e \<Rightarrow> Inl e | Inr low \<Rightarrow>
     (case parse_hours recommended_hours of Inl e \<Rightarrow> Inl e | Inr recommended \<Rightarrow>
     (case parse_hours high_hours of Inl e \<Rightarrow> Inl e | Inr high \<Rightarrow> effort_range low recommended high)))"

text \<open>The total for an effort already parsed: the price rounded up to whole increments.\<close>

definition price_of :: "rat \<Rightarrow> int \<Rightarrow> int \<Rightarrow> int \<Rightarrow> exn + int" where
  "price_of effort rate_minor minimum_minor increment_minor =
     (if rate_minor \<le> 0 \<or> minimum_minor \<le> 0 \<or> increment_minor \<le> 0 then Inl ValidationError
      else let raw = max (round28 (effort * of_int rate_minor)) (of_int minimum_minor);
               result = \<lceil>round28 (raw / of_int increment_minor)\<rceil> * increment_minor
           in if result > MAX_CHANGE_MINOR then Inl ValidationError else Inr result)"

definition recommend_total_minor :: "string \<Rightarrow> int \<Rightarrow> int \<Rightarrow> int \<Rightarrow> exn + int" where
  "recommend_total_minor text rate_minor minimum_minor increment_minor =
     (case parse_hours text of Inl e \<Rightarrow> Inl e | Inr effort \<Rightarrow> price_of effort rate_minor minimum_minor increment_minor)"

definition validate_money :: "int \<Rightarrow> int \<Rightarrow> string \<Rightarrow> bool \<Rightarrow> exn + unit" where
  "validate_money total_minor tax_minor currency allow_zero =
     (if currency \<noteq> ''INR'' then Inl ValidationError
      else if total_minor < 0 \<or> total_minor > MAX_CHANGE_MINOR then Inl ValidationError
      else if \<not> allow_zero \<and> total_minor = 0 then Inl ValidationError
      else if tax_minor < 0 \<or> tax_minor > total_minor then Inl ValidationError
      else Inr ())"

section \<open>Terms and calendars\<close>

record commercial_terms =
  ct_total_minor :: int
  ct_tax_minor :: int
  ct_currency :: string
  ct_full_payment_required :: bool
  ct_due_days :: int
  ct_due_local_time :: int
  ct_link_expiry_days :: int
  ct_pay_before_work :: bool

text \<open>A time of day is counted in microseconds since midnight; 17:00 is the due time.\<close>

definition five_pm :: int where "five_pm = hours 17"

definition supported_policy :: "commercial_terms \<Rightarrow> exn + commercial_terms" where
  "supported_policy t =
     (case validate_money (ct_total_minor t) (ct_tax_minor t) (ct_currency t) False of
        Inl e \<Rightarrow> Inl e
      | Inr _ \<Rightarrow>
          if \<not> ct_full_payment_required t \<or> \<not> ct_pay_before_work t then Inl UnsupportedTermsError
          else if ct_due_days t \<noteq> 7 \<or> ct_due_local_time t \<noteq> five_pm \<or> ct_link_expiry_days t \<noteq> 30
          then Inl UnsupportedTermsError
          else Inr t)"

text \<open>
  A date is its number of days since 1970-01-01, a Thursday. A time zone of the IANA database is a
  pair of functions between instants and local date and clock, the time of day with the fold that
  tells the second of two equal local times; which names exist and what they mean is the library's,
  a parameter.
\<close>

type_synonym day = int
type_synonym clock = "int \<times> bool"
type_synonym zone = "(time \<Rightarrow> day \<times> clock) \<times> (day \<times> clock \<Rightarrow> time)"

definition weekday :: "day \<Rightarrow> int" where
  "weekday d = (d + 3) mod 7"

definition last_day :: day where "last_day = 2932896"

record calendar_rules =
  rules_timezone_name :: string
  rules_weekdays :: "int list"
  rules_holiday_dates :: "day list"
  rules_capacity_hours :: rat

definition valid_weekdays :: "int list \<Rightarrow> exn + int list" where
  "valid_weekdays value =
     (if value = [] \<or> \<not> distinct value \<or> list_ex (\<lambda>d. d < 0 \<or> d > 6) value then Inl ValueError else Inr (sort value))"

definition calendar_rules_of :: "(string \<Rightarrow> zone option) \<Rightarrow> string \<Rightarrow> int list \<Rightarrow> day list \<Rightarrow> rat \<Rightarrow> exn + calendar_rules" where
  "calendar_rules_of zones name weekdays holidays capacity =
     (if zones name = None then Inl ValueError
      else (case valid_weekdays weekdays of Inl e \<Rightarrow> Inl e | Inr wds \<Rightarrow>
        if 0 < capacity \<and> capacity \<le> 24 then Inr \<lparr>rules_timezone_name = name, rules_weekdays = wds,
          rules_holiday_dates = holidays, rules_capacity_hours = capacity\<rparr> else Inl ValueError))"

definition due_at :: "(string \<Rightarrow> zone option) \<Rightarrow> time \<Rightarrow> string \<Rightarrow> exn + time" where
  "due_at zones client_approved_at timezone_name =
     (case zones timezone_name of
        None \<Rightarrow> Inl ValidationError
      | Some (local, instant) \<Rightarrow>
          let due_date = fst (local client_approved_at) + 7
          in if due_date > last_day then Inl (OtherError ''OverflowError'') else Inr (instant (due_date, five_pm, False)))"

definition working_day :: "calendar_rules \<Rightarrow> day \<Rightarrow> bool" where
  "working_day rules d \<longleftrightarrow> weekday d \<in> set (rules_weekdays rules) \<and> d \<notin> set (rules_holiday_dates rules)"

text \<open>The loop of \<open>add_working_days\<close>; stepping past the last date raises, so it always ends.\<close>

function after_working_days :: "calendar_rules \<Rightarrow> day \<Rightarrow> nat \<Rightarrow> exn + day" where
  "after_working_days rules current remaining =
     (if remaining = 0 then Inr current
      else if last_day \<le> current then Inl (OtherError ''OverflowError'')
      else after_working_days rules (current + 1) (if working_day rules (current + 1) then remaining - 1 else remaining))"
  by pat_completeness auto

termination
  by (relation "measure (\<lambda>(rules, current, remaining). nat (last_day - current))") auto

declare after_working_days.simps [simp del]

definition add_working_days :: "(string \<Rightarrow> zone option) \<Rightarrow> time \<Rightarrow> int \<Rightarrow> calendar_rules \<Rightarrow> exn + time" where
  "add_working_days zones started_at n rules =
     (if n < 0 then Inl ValidationError
      else if n = 0 then Inr started_at
      else (case zones (rules_timezone_name rules) of
          None \<Rightarrow> Inl (OtherError ''ZoneInfoNotFoundError'')
        | Some (local, instant) \<Rightarrow>
            (case local started_at of (date, clock) \<Rightarrow>
             (case after_working_days rules date (nat n) of
                Inl e \<Rightarrow> Inl e
              | Inr d \<Rightarrow> Inr (instant (d, clock))))))"

section \<open>Exactness of decimal prices\<close>


lemma digits_bounds: "1 \<le> n \<Longrightarrow> (10::nat) ^ (length (digits 10 n) - 1) \<le> n \<and> n < 10 ^ length (digits 10 n)"
proof (induction n rule: less_induct)
  case (less n)
  show ?case
  proof (cases "n < 10")
    case True
    with less.prems show ?thesis by (simp add: digits.simps [of 10 n])
  next
    case False
    have IH: "10 ^ (length (digits 10 (n div 10)) - 1) \<le> n div 10 \<and> n div 10 < 10 ^ length (digits 10 (n div 10))"
      by (rule less.IH) (use False in simp_all)
    have pos: "0 < length (digits 10 (n div 10))" by (simp add: digits.simps [of 10 "n div 10"])
    then obtain k where k: "length (digits 10 (n div 10)) = Suc k" using gr0_implies_Suc by blast
    have "length (digits 10 n) = Suc (Suc k)" using False k by (simp add: digits.simps [of 10 n])
    moreover from IH k have "10 * 10 ^ k \<le> 10 * (n div 10)" "10 * (n div 10 + 1) \<le> 10 * 10 ^ Suc k" by simp_all
    then have "10 ^ Suc k \<le> n" "n < 10 ^ Suc (Suc k)" by simp_all
    ultimately show ?thesis by simp
  qed
qed

lemma power10_pos [simp]: "0 < power10 e"
  by (simp add: power10_def)

lemma power10_add: "power10 (a + b) = power10 a * power10 b"
proof -
  have p: "power10 e = 10 powi e" for e
    by (simp add: power10_def power_int_def power_one_over inverse_eq_divide)
  show ?thesis unfolding p by (rule power_int_add) simp
qed

lemma power10_nat: "power10 (int k) = 10 ^ k"
  by (simp add: power10_def)

lemma half_even_error: "\<bar>of_int (half_even x) - x\<bar> \<le> 1 / 2"
proof -
  have "of_int \<lfloor>x\<rfloor> \<le> x" "x < of_int \<lfloor>x\<rfloor> + 1" by linarith+
  then show ?thesis unfolding half_even_def Let_def
    by (cases "x - of_int \<lfloor>x\<rfloor> < 1 / 2"; cases "x - of_int \<lfloor>x\<rfloor> > 1 / 2"; cases "even \<lfloor>x\<rfloor>") (simp_all add: abs_le_iff)
qed

lemma half_even_int [simp]: "half_even (of_int n) = n"
  by (simp add: half_even_def)

text \<open>Scaled to 28 digits a number lies between \<open>10 ^ 27\<close> and \<open>10 ^ 28\<close>.\<close>

lemma scale28_range:
  assumes "0 < x"
  shows "10 ^ 27 \<le> x * power10 (scale28 x)" and "x * power10 (scale28 x) < 10 ^ 28"
proof -
  have "10 ^ 27 \<le> x * power10 (scale28 x) \<and> x * power10 (scale28 x) < 10 ^ 28"
  proof (cases "1 \<le> x")
    case True
    define n where "n = nat \<lfloor>x\<rfloor>"
    define l where "l = length (digits 10 n)"
    have f: "of_nat n = (of_int \<lfloor>x\<rfloor> :: rat)" and n1: "1 \<le> n" using True by (auto simp: n_def of_nat_nat le_floor_iff le_nat_iff)
    have nx: "of_nat n \<le> x" "x < of_nat n + 1" unfolding f by linarith+
    from digits_bounds [OF n1] have d: "10 ^ (l - 1) \<le> n" "n + 1 \<le> 10 ^ l" by (auto simp: l_def)
    have l1: "1 \<le> l" by (simp add: l_def digits.simps [of 10 n])
    from d have "of_nat (10 ^ (l - 1)) \<le> (of_nat n :: rat)" "of_nat (n + 1) \<le> (of_nat (10 ^ l) :: rat)" by (simp_all only: of_nat_le_iff)
    with nx have x: "10 ^ (l - 1) \<le> x" "x < 10 ^ l" by (simp_all only: of_nat_power of_nat_numeral of_nat_add of_nat_1)
    have s: "power10 (scale28 x) = power10 (28 - int l)" using True by (simp add: scale28_def l_def n_def)
    have "10 ^ (l - 1) * power10 (28 - int l) = 10 ^ 27" "10 ^ l * power10 (28 - int l) = 10 ^ 28"
      using l1 power10_nat [of 27] power10_nat [of 28] by (simp_all add: power10_add [symmetric] flip: power10_nat)
    then show ?thesis using x unfolding s by (metis mult_le_cancel_right_pos mult_less_cancel_right_pos power10_pos)
  next
    case False
    define n where "n = nat (\<lceil>1 / x\<rceil> - 1)"
    define k where "k = length (digits 10 n)"
    have y: "1 < 1 / x" using False assms by simp
    then have "of_int 1 < 1 / x" by (simp only: of_int_1)
    then have "1 < \<lceil>1 / x\<rceil>" by (simp only: less_ceiling_iff)
    then have c: "1 \<le> \<lceil>1 / x\<rceil> - 1" by linarith
    then have n1: "1 \<le> n" unfolding n_def by (subst le_nat_iff) linarith+
    have "int n = \<lceil>1 / x\<rceil> - 1" unfolding n_def by (rule nat_0_le) (use c in linarith)
    then have "of_int (int n) = (of_int (\<lceil>1 / x\<rceil> - 1) :: rat)" by (simp only:)
    then have f: "of_nat n = (of_int \<lceil>1 / x\<rceil> - 1 :: rat)" by simp
    have nx: "of_nat n < 1 / x" "1 / x \<le> of_nat n + 1" unfolding f by linarith+
    from digits_bounds [OF n1] have d: "10 ^ (k - 1) \<le> n" "n + 1 \<le> 10 ^ k" by (auto simp: k_def)
    have k1: "1 \<le> k" by (simp add: k_def digits.simps [of 10 n])
    from d have "of_nat (10 ^ (k - 1)) \<le> (of_nat n :: rat)" "of_nat (n + 1) \<le> (of_nat (10 ^ k) :: rat)" by (simp_all only: of_nat_le_iff)
    with nx have "10 ^ (k - 1) < 1 / x" "1 / x \<le> 10 ^ k" by (simp_all only: of_nat_power of_nat_numeral of_nat_add of_nat_1)
    then have x: "x * 10 ^ (k - 1) < 1" "1 \<le> x * 10 ^ k" using assms by (simp_all add: field_simps)
    have s: "power10 (scale28 x) = 10 ^ (27 + k)" using False by (simp add: scale28_def k_def n_def power10_def nat_add_distrib)
    have e1: "(10::rat) ^ (27 + k) = 10 ^ k * 10 ^ 27" by (simp only: power_add mult.commute)
    have "27 + k = (k - 1) + 28" using k1 by simp
    then have e2: "(10::rat) ^ (27 + k) = 10 ^ (k - 1) * 10 ^ 28" by (metis power_add)
    have "x * 10 ^ (27 + k) = (x * 10 ^ k) * 10 ^ 27" by (simp only: e1 mult.assoc)
    moreover have "x * 10 ^ (27 + k) = (x * 10 ^ (k - 1)) * 10 ^ 28" by (simp only: e2 mult.assoc)
    ultimately
    show ?thesis using x unfolding s by (metis mult_le_cancel_right_pos mult_less_cancel_right_pos mult_1 zero_less_power zero_less_numeral)
  qed
  then show "10 ^ 27 \<le> x * power10 (scale28 x)" and "x * power10 (scale28 x) < 10 ^ 28" by simp_all
qed

text \<open>Rounding to 28 digits errs by less than one part in \<open>10 ^ 27\<close>.\<close>

lemma round28_error:
  assumes "0 < x"
  shows "\<bar>round28 x - x\<bar> \<le> x / 10 ^ 27"
proof -
  define p where "p = power10 (scale28 x)"
  have p: "0 < p" by (simp add: p_def)
  have r: "round28 x = of_int (half_even (x * p)) / p" using assms by (simp add: round28_def p_def)
  have "\<bar>round28 x - x\<bar> = \<bar>of_int (half_even (x * p)) - x * p\<bar> / p"
    unfolding r using p by (subst abs_of_pos [OF p, symmetric], subst abs_divide [symmetric]) (simp add: diff_divide_distrib)
  also have "\<dots> \<le> 1 / p" using half_even_error [of "x * p"] p by (intro divide_right_mono) simp_all
  also have "\<dots> \<le> x / 10 ^ 27"
    using scale28_range(1) [OF assms] p by (simp add: p_def field_simps)
  finally show ?thesis .
qed

lemma round28_exact:
  assumes "0 < x" and "x * power10 e = of_int n" and "n < 10 ^ 28"
  shows "round28 x = x"
proof -
  have "0 \<le> scale28 x - e"
  proof (rule ccontr)
    assume "\<not> ?thesis"
    then obtain k where k: "e = scale28 x + int (Suc k)" by (metis add.commute diff_add_cancel linorder_not_le minus_diff_eq neg_0_less_iff_less zero_less_imp_eq_int gr0_implies_Suc)
    have "x * power10 e = x * power10 (scale28 x) * 10 ^ Suc k" unfolding k power10_add power10_nat by simp
    moreover have "10 ^ 27 * 10 ^ Suc k \<le> x * power10 (scale28 x) * 10 ^ Suc k"
      using scale28_range(1) [OF assms(1)] by (intro mult_right_mono) simp_all
    ultimately have "10 ^ 27 * 10 ^ Suc k \<le> (of_int n :: rat)" using assms(2) by simp
    moreover have "(10::rat) ^ 28 \<le> 10 ^ 27 * 10 ^ Suc k" by simp
    ultimately have "(10::rat) ^ 28 \<le> of_int n" by linarith
    with assms(3) show False by (simp flip: of_int_power_le_of_int_cancel_iff)
  qed
  then obtain k where k: "scale28 x = e + int k" by (metis add.commute diff_add_cancel zero_le_imp_eq_int)
  have "x * power10 (scale28 x) = of_int (n * 10 ^ k)"
    unfolding k power10_add using assms(2) by (simp add: power10_nat mult.assoc [symmetric])
  then have "round28 x = of_int (n * 10 ^ k) / power10 (scale28 x)"
    using assms(1) unfolding round28_def by (simp only: half_even_int) simp
  with \<open>x * power10 (scale28 x) = of_int (n * 10 ^ k)\<close> show ?thesis
    using power10_pos [of "scale28 x"] by (metis nonzero_mult_div_cancel_right less_irrefl)
qed


lemma round28_half: "0 < x \<Longrightarrow> x / 2 \<le> round28 x \<and> round28 x \<le> 2 * x"
proof -
  assume x: "0 < x"
  then have "x / 10 ^ 27 \<le> x / 2" by (simp add: field_simps)
  with round28_error [OF x] have "\<bar>round28 x - x\<bar> \<le> x / 2" by (rule order_trans)
  then have "round28 x - x \<le> x / 2" "x - round28 x \<le> x / 2" by linarith+
  with x show ?thesis by (intro conjI) linarith+
qed

text \<open>Rounding to 28 digits does not pass a whole number of at most 28 digits.\<close>

lemma half_even_le: "y \<le> of_int m \<Longrightarrow> half_even y \<le> m"
proof -
  assume "y \<le> of_int m"
  then have "of_int (half_even y) < (of_int m + 1 :: rat)" using half_even_error [of y] by linarith
  then have "of_int (half_even y) < (of_int (m + 1) :: rat)" by simp
  then show ?thesis by (simp only: of_int_less_iff)
qed

lemma round28_le:
  assumes "0 < x" and "x \<le> of_int n" and "n < 10 ^ 28"
  shows "round28 x \<le> of_int n"
proof -
  have "0 \<le> scale28 x"
  proof (rule ccontr)
    assume "\<not> ?thesis"
    then obtain k where k: "scale28 x = - int (Suc k)" by (metis linorder_not_le zless_iff_Suc_zadd add.left_neutral minus_add_cancel add.inverse_inverse neg_less_0_iff_less zero_less_imp_eq_int gr0_implies_Suc)
    have "10 ^ 27 * 10 ^ Suc k \<le> x"
      using scale28_range(1) [OF assms(1)] unfolding k by (simp add: power10_def nat_add_distrib field_simps)
    moreover have "(10::rat) ^ 28 \<le> 10 ^ 27 * 10 ^ Suc k" by simp
    ultimately have "(10::rat) ^ 28 \<le> of_int n" using assms(2) by linarith
    with assms(3) show False by (simp flip: of_int_power_le_of_int_cancel_iff)
  qed
  then obtain k where "scale28 x = int k" by (metis zero_le_imp_eq_int)
  then have p: "power10 (scale28 x) = 10 ^ k" by (simp add: power10_nat)
  have "x * 10 ^ k \<le> of_int (n * 10 ^ k)" using assms(2) by simp
  from half_even_le [OF this] have "of_int (half_even (x * 10 ^ k)) \<le> (of_int (n * 10 ^ k) :: rat)" by (simp only: of_int_le_iff)
  with assms(1) show ?thesis by (simp add: round28_def p divide_le_eq)
qed

lemma ceiling_round28:
  assumes "0 < x" and "x * of_int b = of_int a" and "0 < b" and "b \<le> 10 ^ 10" and "x \<le> 10 ^ 16"
  shows "\<lceil>round28 x\<rceil> = \<lceil>x\<rceil>"
proof (cases "x = of_int \<lceil>x\<rceil>")
  case True
  have "x < of_int (10 ^ 28)" using assms(5) by simp
  with True have "(of_int \<lceil>x\<rceil> :: rat) < of_int (10 ^ 28)" by metis
  then have "\<lceil>x\<rceil> < 10 ^ 28" by (simp only: of_int_less_iff)
  moreover from True have "x * power10 0 = of_int \<lceil>x\<rceil>" by (simp add: power10_def)
  ultimately have "round28 x = x" by (intro round28_exact [OF assms(1)])
  then show ?thesis by simp
next
  case False
  define n where "n = \<lceil>x\<rceil>"
  have "x \<le> of_int n" "of_int n < x + 1" unfolding n_def by linarith+
  then have n: "x < of_int n" "of_int (n - 1) < x" using False by (auto simp: n_def order_less_le)
  have b: "(0::rat) < of_int b" using assms(3) by simp
  have "x * of_int b < of_int (n * b)" "of_int ((n - 1) * b) < x * of_int b"
    using n b by (simp_all only: of_int_mult mult_less_cancel_right_pos)
  then have "a < n * b" "(n - 1) * b < a" unfolding assms(2) by (simp_all only: of_int_less_iff)
  then have "a + 1 \<le> n * b" "(n - 1) * b + 1 \<le> a" by simp_all
  then have "of_int (a + 1) \<le> (of_int (n * b) :: rat)" "of_int ((n - 1) * b + 1) \<le> (of_int a :: rat)"
    by (simp_all only: of_int_le_iff)
  then have "x * of_int b + 1 \<le> of_int n * of_int b" "(of_int n - 1) * of_int b + 1 \<le> x * of_int b"
    using assms(2) by simp_all
  then have d: "x + 1 / of_int b \<le> of_int n" "of_int n - 1 + 1 / of_int b \<le> x"
    using b by (simp_all add: field_simps)
  have "(of_int b :: rat) \<le> of_int (10 ^ 10)" using assms(4) by (simp only: of_int_le_iff)
  then have "1 / 10 ^ 10 \<le> 1 / (of_int b :: rat)" using b by (simp add: field_simps)
  moreover have "x / 10 ^ 27 < 1 / 10 ^ 10" using assms(5) by (simp add: field_simps)
  ultimately have "\<bar>round28 x - x\<bar> < 1 / of_int b" using round28_error [OF assms(1)] by linarith
  then have "round28 x \<le> of_int n" "of_int n - 1 < round28 x" using d by linarith+
  then have "\<lceil>round28 x\<rceil> = n" by (simp add: ceiling_eq_iff)
  then show ?thesis by (simp add: n_def)
qed

text \<open>The price in integer arithmetic, from the effort in hundredths of an hour.\<close>

definition ceil_div :: "int \<Rightarrow> int \<Rightarrow> int" where
  "ceil_div a b = - (- a div b)"

definition exact_price :: "int \<Rightarrow> int \<Rightarrow> int \<Rightarrow> int \<Rightarrow> exn + int" where
  "exact_price hundredths rate_minor minimum_minor increment_minor =
     (if rate_minor \<le> 0 \<or> minimum_minor \<le> 0 \<or> increment_minor \<le> 0 then Inl ValidationError
      else let total = ceil_div (max (hundredths * rate_minor) (100 * minimum_minor)) (100 * increment_minor) * increment_minor
           in if total > MAX_CHANGE_MINOR then Inl ValidationError else Inr total)"

lemma ceiling_ceil_div: "\<lceil>of_int a / of_int b :: rat\<rceil> = ceil_div a b"
proof -
  have "- (of_int a / of_int b :: rat) = of_int (- a) / of_int b" by simp
  then show ?thesis unfolding ceil_div_def ceiling_def by (simp only: floor_divide_of_int_eq)
qed

lemma ceiling_times:
  assumes "of_int n < z" and "1 \<le> i" and "0 \<le> n"
  shows "(n::int) < \<lceil>z::rat\<rceil> * i"
proof -
  from assms(1) have "n < \<lceil>z\<rceil>" by (simp add: less_ceiling_iff)
  also have "\<dots> \<le> \<lceil>z\<rceil> * i" using assms calculation by (simp add: mult_le_cancel_left1)
  finally show ?thesis .
qed

lemma beyond_limit:
  assumes "10 ^ 9 \<le> y" and "1 \<le> i"
  shows "MAX_CHANGE_MINOR < \<lceil>round28 y\<rceil> * i" and "MAX_CHANGE_MINOR < \<lceil>y\<rceil> * i"
proof -
  have "0 < y" using assms(1) by (rule less_le_trans [rotated]) simp
  from round28_half [OF this] assms have "of_int MAX_CHANGE_MINOR < round28 y" "of_int MAX_CHANGE_MINOR < y"
    by (simp_all add: MAX_CHANGE_MINOR_def)
  then show "MAX_CHANGE_MINOR < \<lceil>round28 y\<rceil> * i" and "MAX_CHANGE_MINOR < \<lceil>y\<rceil> * i"
    using assms(2) by (auto intro: ceiling_times simp: MAX_CHANGE_MINOR_def)
qed

lemma large_increment:
  assumes "0 < (y::rat)" and "MAX_CHANGE_MINOR < i"
  shows "MAX_CHANGE_MINOR < \<lceil>y\<rceil> * i"
proof -
  have "1 \<le> \<lceil>y\<rceil>" using assms(1) by (simp add: le_ceiling_iff)
  then have "i \<le> \<lceil>y\<rceil> * i" using assms(2) by (simp add: mult_le_cancel_right1 MAX_CHANGE_MINOR_def)
  with assms(2) show ?thesis by simp
qed

lemma price_of_exact:
  assumes "1 \<le> k" "k \<le> 100000"
  shows "price_of (of_int k / 100) rate minimum increment = exact_price k rate minimum increment"
proof (cases "rate \<le> 0 \<or> minimum \<le> 0 \<or> increment \<le> 0")
  case True
  then show ?thesis by (simp add: price_of_def exact_price_def)
next
  case False
  define E where "E = max (of_int k / 100 * of_int rate) (of_int minimum :: rat)"
  define raw where "raw = max (round28 (of_int k / 100 * of_int rate)) (of_int minimum :: rat)"
  have kr: "0 < (of_int k / 100 * of_int rate :: rat)" using False assms by simp
  have "E * 100 = max (of_int (k * rate)) (of_int (100 * minimum))"
    by (simp add: E_def max_def)
  then have E100: "E * 100 = of_int (max (k * rate) (100 * minimum))" by (simp only: of_int_max)
  have E: "0 < E / of_int increment" using False assms by (auto simp: E_def max_def)
  have E_exact: "E / of_int increment * of_int (100 * increment) = of_int (max (k * rate) (100 * minimum))"
    unfolding E100 [symmetric] using False by simp
  then have E_div: "E / of_int increment = of_int (max (k * rate) (100 * minimum)) / of_int (100 * increment)"
    using False by (simp add: field_simps)
  have goal: ?thesis if
    "\<lceil>round28 (raw / of_int increment)\<rceil> = \<lceil>E / of_int increment\<rceil> \<or>
     MAX_CHANGE_MINOR < \<lceil>round28 (raw / of_int increment)\<rceil> * increment \<and> MAX_CHANGE_MINOR < \<lceil>E / of_int increment\<rceil> * increment"
    using that False unfolding price_of_def exact_price_def Let_def raw_def [symmetric] ceiling_ceil_div [symmetric] E_div [symmetric]
    by auto
  have raw: "0 < raw / of_int increment" using False by (simp add: raw_def max_def)
  show ?thesis
  proof (cases "MAX_CHANGE_MINOR < increment")
    case True
    have "0 < raw / of_int increment / 2" using raw by simp
    also have "\<dots> \<le> round28 (raw / of_int increment)" using round28_half [OF raw] by simp
    finally have "0 < round28 (raw / of_int increment)" .
    with True E show ?thesis by (intro goal disjI2 conjI large_increment)
  next
    case small: False
    show ?thesis
    proof (cases "k * rate < 10 ^ 28")
      case True
      have "round28 (of_int k / 100 * of_int rate) = of_int k / 100 * of_int rate"
        by (rule round28_exact [OF kr, of 2 "k * rate"]) (use True in \<open>simp_all add: power10_def\<close>)
      then have raw_E: "raw = E" by (simp add: raw_def E_def)
      show ?thesis
      proof (cases "E / of_int increment \<le> 10 ^ 16")
        case True
        have "\<lceil>round28 (E / of_int increment)\<rceil> = \<lceil>E / of_int increment\<rceil>"
          by (rule ceiling_round28 [OF E E_exact]) (use True False small in \<open>simp_all add: MAX_CHANGE_MINOR_def\<close>)
        then show ?thesis by (intro goal) (simp add: raw_E)
      next
        case big: False
        then have "10 ^ 9 \<le> E / of_int increment" by simp
        with False show ?thesis by (intro goal disjI2 conjI) (simp_all add: raw_E beyond_limit)
      qed
    next
      case huge: False
      then have "of_int (10 ^ 28) \<le> (of_int (k * rate) :: rat)" by (simp only: of_int_le_iff)
      then have "10 ^ 26 \<le> (of_int k / 100 * of_int rate :: rat)" by simp
      moreover from this have "10 ^ 25 \<le> (of_int k / 100 * of_int rate / 2 :: rat)" by simp
      then have "10 ^ 25 \<le> round28 (of_int k / 100 * of_int rate)"
        using round28_half [OF kr] by (blast intro: order_trans)
      ultimately have "10 ^ 25 \<le> raw" "10 ^ 25 \<le> E" by (auto simp: raw_def E_def max_def)
      moreover have "of_int increment \<le> (10 ^ 8 :: rat)" "(0::rat) < of_int increment"
        using small False by (simp_all add: MAX_CHANGE_MINOR_def)
      ultimately have "10 ^ 9 \<le> raw / of_int increment" "10 ^ 9 \<le> E / of_int increment"
        by (simp_all add: le_divide_eq)
      with False show ?thesis by (intro goal disjI2 conjI beyond_limit) simp_all
    qed
  qed
qed


text \<open>The price that is returned, for any effort.\<close>

lemma price_of_bounds:
  assumes "0 < effort" and run: "price_of effort rate minimum increment = Inr amount"
  shows "0 < increment" "increment dvd amount" "minimum \<le> amount" "0 < amount" "amount \<le> MAX_CHANGE_MINOR"
    and "effort * of_int rate \<le> of_int amount + 1 / 10 ^ 9"
    and "of_int amount < max (effort * of_int rate) (of_int minimum :: rat) + of_int increment"
proof -
  define raw where "raw = max (round28 (effort * of_int rate)) (of_int minimum :: rat)"
  define y where "y = raw / of_int increment"
  from run have pos: "0 < rate" "0 < minimum" and inc: "0 < increment" and amount: "amount = \<lceil>round28 y\<rceil> * increment"
    and limit: "amount \<le> MAX_CHANGE_MINOR"
    by (auto simp: price_of_def Let_def raw_def y_def split: if_splits)
  have er: "0 < effort * of_int rate" using assms(1) pos by simp
  have raw0: "0 < raw" "of_int minimum \<le> raw" "round28 (effort * of_int rate) \<le> raw" using pos by (simp_all add: raw_def)
  have y: "0 < y" and y_raw: "y * of_int increment = raw" using raw0 inc by (simp_all add: y_def)
  have "0 < round28 y" using round28_half [OF y] y by (meson half_gt_zero less_le_trans)
  then have steps: "1 \<le> \<lceil>round28 y\<rceil>" by (simp add: le_ceiling_iff)
  from inc show "0 < increment" .
  from amount show "increment dvd amount" by simp
  from limit show "amount \<le> MAX_CHANGE_MINOR" .
  from amount steps inc show "0 < amount" by simp
  have up: "round28 y * of_int increment \<le> of_int amount" and down: "of_int amount < round28 y * of_int increment + of_int increment"
  proof -
    have "round28 y \<le> of_int \<lceil>round28 y\<rceil>" "of_int \<lceil>round28 y\<rceil> < round28 y + 1" by linarith+
    then have "round28 y * of_int increment \<le> of_int \<lceil>round28 y\<rceil> * of_int increment"
      "of_int \<lceil>round28 y\<rceil> * of_int increment < (round28 y + 1) * of_int increment"
      using inc by simp_all
    then show "round28 y * of_int increment \<le> of_int amount" "of_int amount < round28 y * of_int increment + of_int increment"
      unfolding amount by (simp_all add: distrib_right)
  qed
  have cap: "(of_int amount :: rat) \<le> 10 ^ 8" using limit by (simp add: MAX_CHANGE_MINOR_def)
  have "y / 2 * of_int increment \<le> round28 y * of_int increment" using round28_half [OF y] inc by simp
  then have raw_cap: "raw \<le> 2 * 10 ^ 8" using up cap y_raw by simp
  have y_err: "\<bar>round28 y * of_int increment - raw\<bar> \<le> 1 / 10 ^ 18"
  proof -
    have "\<bar>round28 y * of_int increment - raw\<bar> = \<bar>round28 y - y\<bar> * of_int increment"
      unfolding y_raw [symmetric] using inc by (simp add: abs_mult flip: left_diff_distrib)
    also have "\<dots> \<le> y / 10 ^ 27 * of_int increment" using round28_error [OF y] inc by (intro mult_right_mono) simp_all
    also have "\<dots> = raw / 10 ^ 27" using y_raw by simp
    also have "\<dots> \<le> 1 / 10 ^ 18" using raw_cap by (simp add: field_simps)
    finally show ?thesis .
  qed
  have e_err: "\<bar>round28 (effort * of_int rate) - effort * of_int rate\<bar> \<le> 1 / 10 ^ 18"
  proof -
    have "effort * of_int rate / 2 \<le> 2 * 10 ^ 8" using round28_half [OF er] raw0 raw_cap by linarith
    then have "effort * of_int rate / 10 ^ 27 \<le> 1 / 10 ^ 18" by (simp add: field_simps)
    with round28_error [OF er] show ?thesis by (rule order_trans)
  qed
  have small: "(1::rat) / 10 ^ 18 + 1 / 10 ^ 18 \<le> 1 / 10 ^ 9" by simp
  have errs: "effort * of_int rate - round28 (effort * of_int rate) \<le> 1 / 10 ^ 18"
    "round28 (effort * of_int rate) - effort * of_int rate \<le> 1 / 10 ^ 18"
    "raw - round28 y * of_int increment \<le> 1 / 10 ^ 18" "round28 y * of_int increment - raw \<le> 1 / 10 ^ 18"
    using e_err y_err by linarith+
  with raw0 up small show "effort * of_int rate \<le> of_int amount + 1 / 10 ^ 9" by linarith
  define top where "top = max (effort * of_int rate) (of_int minimum :: rat)"
  define n where "n = \<lceil>top / of_int increment\<rceil>"
  have incr: "(0::rat) < of_int increment" using inc by simp
  have "top / of_int increment \<le> of_int n" "of_int n < top / of_int increment + 1" unfolding n_def by linarith+
  with incr have n: "top \<le> of_int (n * increment)" "of_int (n * increment) < top + of_int increment"
    by (simp_all add: field_simps)
  have top: "effort * of_int rate \<le> top" "of_int minimum \<le> top" "top \<le> 4 * 10 ^ 8"
    using round28_half [OF er] raw0 raw_cap by (auto simp: top_def)
  have n1: "1 \<le> n" using n(1) er top(1) inc by (metis int_one_le_iff_zero_less less_le_trans of_int_0_less_iff zero_less_mult_pos2)
  have inc_cap: "increment \<le> 10 ^ 8"
  proof -
    have "increment \<le> \<lceil>round28 y\<rceil> * increment" using steps inc by simp
    with limit show ?thesis unfolding amount MAX_CHANGE_MINOR_def by simp
  qed
  then have "(of_int increment :: rat) \<le> of_int (10 ^ 8)" by (simp only: of_int_le_iff)
  with n(2) top(3) have "of_int (n * increment) < (of_int (10 ^ 28) :: rat)" by simp
  then have cap28: "n * increment < 10 ^ 28" by (simp only: of_int_less_iff)
  moreover have "n \<le> n * increment" using n1 inc by simp
  ultimately have n28: "n < 10 ^ 28" by linarith
  have "raw \<le> of_int (n * increment)"
    unfolding raw_def using round28_le [OF er _ cap28] top n(1) by simp
  then have "y \<le> of_int n" unfolding y_def using incr by (simp add: divide_le_eq)
  from round28_le [OF y this n28] have "\<lceil>round28 y\<rceil> \<le> n" by (simp add: ceiling_le_iff)
  then have "amount \<le> n * increment" unfolding amount using inc by simp
  then have "(of_int amount :: rat) \<le> of_int (n * increment)" by (simp only: of_int_le_iff)
  with n(2) show "of_int amount < max (effort * of_int rate) (of_int minimum :: rat) + of_int increment"
    unfolding top_def by linarith
  have "(of_int minimum :: rat) \<le> of_int amount + 1 / 10 ^ 18" using errs raw0 up by linarith
  then have "(of_int minimum :: rat) < of_int (amount + 1)" by simp
  then show "minimum \<le> amount" by (simp only: of_int_less_iff)
qed

section \<open>Working days\<close>

definition working_days_between :: "calendar_rules \<Rightarrow> day \<Rightarrow> day \<Rightarrow> day set" where
  "working_days_between rules a b = {d. a < d \<and> d \<le> b \<and> working_day rules d}"

lemma finite_working_days: "finite (working_days_between rules a b)"
  by (rule finite_subset [of _ "{a..b}"]) (auto simp: working_days_between_def)

lemma working_days_step:
  assumes "a < b"
  shows "card (working_days_between rules a b) =
    (if working_day rules (a + 1) then 1 else 0) + card (working_days_between rules (a + 1) b)"
proof -
  have "working_days_between rules a b =
      (if working_day rules (a + 1) then insert (a + 1) (working_days_between rules (a + 1) b) else working_days_between rules (a + 1) b)"
    using assms by (auto simp: working_days_between_def less_le)
  moreover have "a + 1 \<notin> working_days_between rules (a + 1) b" by (simp add: working_days_between_def)
  ultimately show ?thesis by (simp add: finite_working_days)
qed

lemma working_days_none: "b \<le> a \<Longrightarrow> working_days_between rules a b = {}"
  by (auto simp: working_days_between_def)

text \<open>The loop returns the day that completes the count, and overflows exactly when none does.\<close>

lemma after_working_days_correct:
  "(case after_working_days rules current n of
      Inr d \<Rightarrow> current \<le> d \<and> (0 < n \<longrightarrow> current < d \<and> d \<le> last_day \<and> working_day rules d)
               \<and> card (working_days_between rules current d) = n
    | Inl e \<Rightarrow> e = OtherError ''OverflowError'' \<and> card (working_days_between rules current last_day) < n)"
proof (induction rules current n rule: after_working_days.induct)
  case (1 rules current n)
  show ?case
  proof (cases "n = 0 \<or> last_day \<le> current")
    case True
    then show ?thesis
      by (subst after_working_days.simps) (auto simp: working_days_none)
  next
    case False
    define m where "m = (if working_day rules (current + 1) then n - 1 else n)"
    have step: "after_working_days rules current n = after_working_days rules (current + 1) m"
      using False by (subst after_working_days.simps) (simp add: m_def)
    have IH: "(case after_working_days rules (current + 1) m of
        Inr d \<Rightarrow> current + 1 \<le> d \<and> (0 < m \<longrightarrow> current + 1 < d \<and> d \<le> last_day \<and> working_day rules d)
               \<and> card (working_days_between rules (current + 1) d) = m
      | Inl e \<Rightarrow> e = OtherError ''OverflowError'' \<and> card (working_days_between rules (current + 1) last_day) < m)"
      unfolding m_def by (rule 1) (use False in simp_all)
    show ?thesis
    proof (cases "after_working_days rules (current + 1) m")
      case (Inl e)
      with IH False show ?thesis
        unfolding step by (auto simp: working_days_step m_def split: if_splits)
    next
      case (Inr d)
      show ?thesis
      proof (cases "m = 0")
        case True
        with False have w: "working_day rules (current + 1)" "n = 1" by (auto simp: m_def split: if_splits)
        from Inr True have "d = current + 1" by (simp add: after_working_days.simps [of rules "current + 1" 0])
        with w False show ?thesis unfolding step Inr
          by (simp add: working_days_step working_days_none)
      next
        case m: False
        with IH Inr False show ?thesis unfolding step Inr
          by (auto simp: working_days_step m_def split: if_splits)
      qed
    qed
  qed
qed

text \<open>A calendar that passes validation has a working weekday, which every seven days contain.\<close>

lemma enough_working_days:
  assumes "calendar_rules_of zones name weekdays holidays capacity = Inr rules"
    and "a + 7 * int (n + length holidays) \<le> b"
  shows "n \<le> card (working_days_between rules a b)"
proof -
  from assms(1) have wds: "rules_weekdays rules = sort weekdays" "weekdays \<noteq> []" "\<forall>d\<in>set weekdays. 0 \<le> d \<and> d \<le> 6"
    and hol: "rules_holiday_dates rules = holidays"
    by (auto simp: calendar_rules_of_def valid_weekdays_def list_ex_iff not_less split: sum.splits if_splits)
  from wds(2) have "hd weekdays \<in> set weekdays" by simp
  with wds(1,3) obtain w where w: "w \<in> set (rules_weekdays rules)" "0 \<le> w" "w \<le> 6" by auto
  define r where "r = (w - weekday (a + 1)) mod 7"
  define nth where "nth i = a + 1 + r + 7 * int i" for i
  define k where "k = n + length holidays"
  have r: "0 \<le> r" "r \<le> 6" using pos_mod_bound [of 7 "w - weekday (a + 1)"] unfolding r_def by simp_all
  have "weekday (nth i) = w" for i
  proof -
    have "weekday (nth i) = (a + 4 + r + 7 * int i) mod 7" by (simp add: weekday_def nth_def algebra_simps)
    also have "\<dots> = (a + 4 + r) mod 7" by (rule mod_mult_self2)
    also have "\<dots> = (a + 4 + (w - (a + 4))) mod 7"
      unfolding mod_add_right_eq [of "a + 4" "w - (a + 4)" 7, symmetric]
      by (simp add: r_def weekday_def mod_diff_right_eq add.assoc)
    also have "\<dots> = w" using w(2,3) by simp
    finally show ?thesis .
  qed
  with w(1) hol have "nth ` {..<k} - set holidays \<subseteq> working_days_between rules a b"
    using r assms(2) by (auto simp: working_days_between_def working_day_def nth_def k_def)
  then have "card (nth ` {..<k} - set holidays) \<le> card (working_days_between rules a b)"
    by (rule card_mono [OF finite_working_days])
  moreover have "card (nth ` {..<k}) = k" by (subst card_image) (auto simp: inj_on_def nth_def)
  then have "k - card (set holidays) \<le> card (nth ` {..<k} - set holidays)"
    using diff_card_le_card_Diff [of "set holidays" "nth ` {..<k}"] by simp
  moreover have "card (set holidays) \<le> length holidays" by (rule card_length)
  ultimately show ?thesis unfolding k_def by linarith
qed

lemma recommend_exact:
  assumes "decimal_of_str text = Some d" and "decimal_value d = Some (of_int k / 100)"
    and "1 \<le> k" and "k \<le> 100000"
  shows "recommend_total_minor text rate minimum increment = exact_price k rate minimum increment"
proof -
  have "parse_hours text = Inr (of_int k / 100)"
    using assms by (simp add: parse_hours_def MAX_HOURS_def)
  then show ?thesis by (simp add: recommend_total_minor_def price_of_exact [OF assms(3,4)])
qed

section \<open>Properties\<close>

text \<open>C20: A recommended total is a whole number of increments, at least the minimum and at most the
  limit of a change order; it exceeds the larger of the minimum and the hours at the rate by less
  than one increment, and covers the hours at the rate but for at most a billionth of a paisa, which
  the rounding of the product to 28 digits may drop.\<close>

theorem recommended_total_bounds:
  assumes "recommend_total_minor text rate minimum increment = Inr amount"
  shows "increment dvd amount \<and> minimum \<le> amount \<and> 0 < amount \<and> amount \<le> MAX_CHANGE_MINOR \<and>
    (\<exists>effort. parse_hours text = Inr effort \<and> 0 < effort \<and> effort \<le> MAX_HOURS \<and>
       effort * of_int rate \<le> of_int amount + 1 / 10 ^ 9 \<and>
       of_int amount < max (effort * of_int rate) (of_int minimum) + of_int increment)"
proof -
  from assms obtain effort where hrs: "parse_hours text = Inr effort" and run: "price_of effort rate minimum increment = Inr amount"
    by (auto simp: recommend_total_minor_def split: sum.splits)
  from hrs have pos: "0 < effort" and "effort \<le> MAX_HOURS"
    by (auto simp: parse_hours_def split: option.splits if_splits)
  with price_of_bounds [OF pos run] hrs show ?thesis by blast
qed

theorem recommended_total_bounds_witness:
  "recommend_total_minor ''2.5'' 150000 100000 50000 = Inr 400000 \<and> (50000::int) dvd 400000"
proof -
  have d: "decimal_of_str ''2.5'' = Some (Dec False 25 (- 1))" by code_simp
  have v: "decimal_value (Dec False 25 (- 1)) = Some (of_int 250 / 100)" by (simp add: power10_def)
  have "exact_price 250 150000 100000 50000 = Inr 400000" by code_simp
  with recommend_exact [OF d v] have run: "recommend_total_minor ''2.5'' 150000 100000 50000 = Inr 400000" by simp
  with recommended_total_bounds [OF run] show ?thesis by simp
qed

text \<open>C21: For hours with at most two decimals, decimal arithmetic with 28 digits computes exactly the
  price of integer arithmetic on hundredths of an hour, refusals included, whatever the rate, the
  minimum and the increment.\<close>

theorem recommended_total_exact:
  assumes "decimal_of_str text = Some d" and "decimal_value d = Some (of_int k / 100)"
    and "1 \<le> k" and "k \<le> 100000"
  shows "recommend_total_minor text rate minimum increment = exact_price k rate minimum increment"
  using assms by (rule recommend_exact)

theorem recommended_total_exact_witness:
  "recommend_total_minor ''12.75'' 150033 100000 100 = exact_price 1275 150033 100000 100
   \<and> exact_price 1275 150033 100000 100 = Inr 1913000"
proof -
  have d: "decimal_of_str ''12.75'' = Some (Dec False 1275 (- 2))" by code_simp
  have v: "decimal_value (Dec False 1275 (- 2)) = Some (of_int 1275 / 100)" by (simp add: power10_def)
  have "exact_price 1275 150033 100000 100 = Inr 1913000" by code_simp
  with recommended_total_exact [OF d v] show ?thesis by simp
qed


definition demo_rules :: calendar_rules where
  "demo_rules = \<lparr>rules_timezone_name = ''UTC'', rules_weekdays = [0, 1, 2, 3, 4], rules_holiday_dates = [4], rules_capacity_hours = 6\<rparr>"

definition demo_zones :: "string \<Rightarrow> zone option" where
  "demo_zones name = (if name = ''UTC'' then Some (\<lambda>t. (t div 86400000000, t mod 86400000000, False), \<lambda>(d, c, f). d * 86400000000 + c) else None)"


end
