(* ===== verification/Dates.thy ===== *)
theory Dates
  imports Values
begin

text \<open>
  What the code uses of Python's \<open>datetime\<close> and \<open>base64\<close>: the calendar date of a day, the ISO
  text of a timestamp and its reading, and the URL-safe encoding of bytes, with the round trips
  on which the page cursors rest.
\<close>

section \<open>The calendar\<close>

text \<open>A day is counted from 1970-01-01; \<open>epoch\<close> is that day's distance from 0001-01-01.\<close>

definition epoch :: int where "epoch = 719162"

definition is_leap :: "int \<Rightarrow> bool" where
  "is_leap y \<longleftrightarrow> y mod 4 = 0 \<and> (y mod 100 \<noteq> 0 \<or> y mod 400 = 0)"

definition days_before_year :: "int \<Rightarrow> int" where
  "days_before_year y = (y - 1) * 365 + (y - 1) div 4 - (y - 1) div 100 + (y - 1) div 400"

definition month_start :: "bool \<Rightarrow> nat \<Rightarrow> int" where
  "month_start leap m =
     [0, 0, 31, 59, 90, 120, 151, 181, 212, 243, 273, 304, 334] ! min m 12 + (if 2 < m \<and> leap then 1 else 0)"

definition year_of :: "int \<Rightarrow> int" where
  "year_of n = (let y = 400 * n div 146097 + 1
     in if days_before_year (y + 1) \<le> n then y + 1 else if days_before_year y \<le> n then y else y - 1)"

definition month_of :: "bool \<Rightarrow> int \<Rightarrow> nat" where
  "month_of leap r = (case find (\<lambda>m. month_start leap m \<le> r) [12, 11, 10, 9, 8, 7, 6, 5, 4, 3, 2] of None \<Rightarrow> 1 | Some m \<Rightarrow> m)"

definition civil :: "int \<Rightarrow> int \<times> nat \<times> int" where
  "civil day = (let n = day + epoch; y = year_of n; r = n - days_before_year y; m = month_of (is_leap y) r
     in (y, m, r - month_start (is_leap y) m + 1))"

definition day_of_civil :: "int \<times> nat \<times> int \<Rightarrow> int" where
  "day_of_civil c = (case c of (y, m, d) \<Rightarrow> days_before_year y + month_start (is_leap y) m + d - 1 - epoch)"

lemma day_of_civil_civil: "day_of_civil (civil day) = day"
  by (simp add: day_of_civil_def civil_def Let_def)

lemma days_before_year_bounds:
  shows "146097 * y - 147097 \<le> 400 * days_before_year y" and "400 * days_before_year y \<le> 146097 * y - 145097"
proof -
  define a b c where "a = (y - 1) div 4" and "b = (y - 1) div 100" and "c = (y - 1) div 400"
  have "4 * a \<le> y - 1" "y - 1 < 4 * a + 4" "100 * b \<le> y - 1" "y - 1 < 100 * b + 100" "400 * c \<le> y - 1" "y - 1 < 400 * c + 400"
    unfolding a_def b_def c_def by (simp_all add: minus_mod_eq_mult_div [symmetric])
  then show "146097 * y - 147097 \<le> 400 * days_before_year y" and "400 * days_before_year y \<le> 146097 * y - 145097"
    unfolding days_before_year_def a_def [symmetric] b_def [symmetric] c_def [symmetric] by (simp_all add: algebra_simps)
qed

lemma year_of_correct: "days_before_year (year_of n) \<le> n \<and> n < days_before_year (year_of n + 1)"
proof -
  define q where "q = 400 * n div 146097"
  have q: "146097 * q \<le> 400 * n" "400 * n < 146097 * q + 146097"
    unfolding q_def by (simp_all add: minus_mod_eq_mult_div [symmetric])
  have "400 * days_before_year q \<le> 400 * n" using days_before_year_bounds(2) [of q] q by simp
  then have "days_before_year q \<le> n" by simp
  moreover have "400 * n < 400 * days_before_year (q + 3)" using days_before_year_bounds(1) [of "q + 3"] q by simp
  then have "n < days_before_year (q + 3)" by simp
  ultimately show ?thesis unfolding year_of_def q_def [symmetric] Let_def by (auto simp: add.assoc)
qed

lemma div_step:
  assumes "0 < (k::int)"
  shows "y div k = (y - 1) div k + (if y mod k = 0 then 1 else 0)"
proof (cases "y mod k = 0")
  case True
  then obtain q where q: "y = k * q" by (metis mod_0_imp_dvd dvdE)
  with assms have "(y - 1) div k = q - 1"
    by (intro int_div_pos_eq [where r = "k - 1"]) (simp_all add: algebra_simps)
  with q True assms show ?thesis by simp
next
  case False
  have "0 \<le> y mod k" "y mod k < k" using assms by simp_all
  with False have "(y - 1) div k = y div k"
    by (intro int_div_pos_eq [where r = "y mod k - 1"]) (simp_all add: algebra_simps)
  with False show ?thesis by simp
qed

lemma year_length: "days_before_year (y + 1) - days_before_year y = (if is_leap y then 366 else 365)"
proof -
  define a b c where "a = (y - 1) div 4" and "b = (y - 1) div 100" and "c = (y - 1) div 400"
  have steps: "y div 4 = a + (if y mod 4 = 0 then 1 else 0)" "y div 100 = b + (if y mod 100 = 0 then 1 else 0)"
    "y div 400 = c + (if y mod 400 = 0 then 1 else 0)"
    unfolding a_def b_def c_def by (rule div_step, simp)+
  have "y mod 400 = 0 \<longrightarrow> y mod 100 = 0" "y mod 100 = 0 \<longrightarrow> y mod 4 = 0"
    using dvd_trans [of 100 400 y] dvd_trans [of 4 100 y] by (simp_all add: dvd_eq_mod_eq_0)
  moreover have "days_before_year (y + 1) = y * 365 + y div 4 - y div 100 + y div 400"
    by (simp only: days_before_year_def add_diff_cancel_right')
  moreover have "days_before_year y = (y - 1) * 365 + a - b + c"
    by (simp only: days_before_year_def a_def b_def c_def)
  ultimately show ?thesis unfolding is_leap_def steps
    by (cases "y mod 4 = 0"; cases "y mod 100 = 0"; cases "y mod 400 = 0") simp_all
qed

lemma month_of_ranges:
  assumes "0 \<le> r" and "r < (if leap then 366 else 365)"
  shows "1 \<le> month_of leap r \<and> month_of leap r \<le> 12 \<and>
    month_start leap (month_of leap r) \<le> r \<and> r \<le> month_start leap (month_of leap r) + 30 \<and>
    (month_of leap r \<noteq> 12 \<longrightarrow> r < month_start leap (Suc (month_of leap r)))"
proof -
  have "map (month_start True) [1, 2, 3, 4, 5, 6, 7, 8, 9, 10, 11, 12] = [0, 31, 60, 91, 121, 152, 182, 213, 244, 274, 305, 335]"
    "map (month_start False) [1, 2, 3, 4, 5, 6, 7, 8, 9, 10, 11, 12] = [0, 31, 59, 90, 120, 151, 181, 212, 243, 273, 304, 334]"
    by code_simp+
  then show ?thesis using assms unfolding month_of_def
    by (cases leap) (simp_all flip: numeral_2_eq_2)
qed

lemma civil_ranges:
  assumes "civil day = (y, m, d)"
  shows "y = year_of (day + epoch) \<and> 1 \<le> m \<and> m \<le> 12 \<and> 1 \<le> d \<and> d \<le> 31 \<and>
    (m \<noteq> 12 \<longrightarrow> d \<le> month_start (is_leap y) (Suc m) - month_start (is_leap y) m)"
proof -
  define r where "r = day + epoch - days_before_year y"
  from assms have y: "y = year_of (day + epoch)" and m: "m = month_of (is_leap y) r" and d: "d = r - month_start (is_leap y) m + 1"
    by (auto simp: civil_def Let_def r_def)
  have "0 \<le> r" "r < (if is_leap y then 366 else 365)"
    using year_of_correct [of "day + epoch"] year_length [of y] by (auto simp: r_def y)
  from month_of_ranges [OF this] show ?thesis unfolding d m by (auto simp: y)
qed

section \<open>ISO texts\<close>

text \<open>\<open>isoformat\<close> of a UTC timestamp, and the JSON text of one, which ends in \<open>Z\<close>.\<close>

definition padded :: "nat \<Rightarrow> int \<Rightarrow> string" where
  "padded w n = (let ds = nat_str (nat n) in replicate (w - length ds) (CHR ''0'') @ ds)"

definition iso_date :: "int \<Rightarrow> string" where
  "iso_date day = (case civil day of (y, m, d) \<Rightarrow> padded 4 y @ ''-'' @ padded 2 (int m) @ ''-'' @ padded 2 d)"

definition iso_clock :: "int \<Rightarrow> string" where
  "iso_clock c = padded 2 (c div 3600000000) @ '':'' @ padded 2 (c div 60000000 mod 60) @ '':'' @
     padded 2 (c div 1000000 mod 60) @ (if c mod 1000000 = 0 then [] else ''.'' @ padded 6 (c mod 1000000))"

definition iso_local :: "time \<Rightarrow> string" where
  "iso_local t = iso_date (t div 86400000000) @ ''T'' @ iso_clock (t mod 86400000000)"

definition isoformat :: "time \<Rightarrow> string" where
  "isoformat t = iso_local t @ ''+00:00''"

definition json_time :: "time \<Rightarrow> string" where
  "json_time t = iso_local t @ ''Z''"

text \<open>
  \<open>datetime.fromisoformat\<close> on the texts \<open>isoformat\<close> writes: a date, a time of day with or without
  six digits of a second, the offset of UTC. The other formats Python reads are not needed.
\<close>

fun field :: "nat \<Rightarrow> char option \<Rightarrow> string \<Rightarrow> (nat \<times> string) option" where
  "field w sep t =
     (case digits_val 10 0 (take w t) of
        None \<Rightarrow> None
      | Some n \<Rightarrow>
          if length t < w then None
          else (case sep of
              None \<Rightarrow> Some (n, drop w t)
            | Some c \<Rightarrow> (case drop w t of x # rest \<Rightarrow> if x = c then Some (n, rest) else None | [] \<Rightarrow> None)))"

definition fraction :: "string \<Rightarrow> (nat \<times> string) option" where
  "fraction t = (case t of c # rest \<Rightarrow> if c = CHR ''.'' then field 6 None rest else Some (0, t) | [] \<Rightarrow> Some (0, t))"

definition fromisoformat :: "string \<Rightarrow> time option" where
  "fromisoformat t =
     Option.bind (field 4 (Some (CHR ''-'')) t) (\<lambda>(y, t).
     Option.bind (field 2 (Some (CHR ''-'')) t) (\<lambda>(m, t).
     Option.bind (field 2 (Some (CHR ''T'')) t) (\<lambda>(d, t).
     Option.bind (field 2 (Some (CHR '':'')) t) (\<lambda>(h, t).
     Option.bind (field 2 (Some (CHR '':'')) t) (\<lambda>(i, t).
     Option.bind (field 2 None t) (\<lambda>(s, t).
     Option.bind (fraction t) (\<lambda>(u, t).
     if t \<noteq> ''+00:00'' \<or> y < 1 \<or> m < 1 \<or> 12 < m \<or> d < 1 \<or> 23 < h \<or> 59 < i \<or> 59 < s
        \<or> int d > (if m = 12 then 31 else month_start (is_leap (int y)) (Suc m) - month_start (is_leap (int y)) m)
     then None
     else Some (day_of_civil (int y, m, int d) * 86400000000 + int h * 3600000000 + int i * 60000000
        + int s * 1000000 + int u))))))))"

lemma padded_val: "0 \<le> n \<Longrightarrow> digits_val 10 0 (padded w n) = Some (nat n)"
  by (simp add: padded_def Let_def digits_val_zeros nat_str_def digits_val_digits)

lemma length_digits: "n < 10 ^ w \<Longrightarrow> 0 < w \<Longrightarrow> length (digits 10 n) \<le> w"
proof (induction w arbitrary: n)
  case (Suc w)
  show ?case
  proof (cases "n < 10")
    case True
    then show ?thesis by (simp add: digits.simps [of 10 n])
  next
    case False
    with Suc.prems have "0 < w" "n div 10 < 10 ^ w" by (cases w; simp)+
    with Suc.IH [of "n div 10"] False show ?thesis by (simp add: digits.simps [of 10 n])
  qed
qed simp

lemma length_padded: "0 \<le> n \<Longrightarrow> n < 10 ^ w \<Longrightarrow> 0 < w \<Longrightarrow> length (padded w n) = w"
  using length_digits [of "nat n" w] by (simp add: padded_def Let_def nat_str_def nat_less_iff)

lemma field_padded:
  assumes "0 \<le> n" "n < 10 ^ w" "0 < w"
  shows "field w (Some c) (padded w n @ c # rest) = Some (nat n, rest)"
    and "field w None (padded w n @ rest) = Some (nat n, rest)"
  using length_padded [OF assms] padded_val [OF assms(1)] by simp_all

text \<open>The timestamps of years 1 to 9999, the ones Python's \<open>datetime\<close> has.\<close>

definition representable :: "time \<Rightarrow> bool" where
  "representable t \<longleftrightarrow> (let y = fst (civil (t div 86400000000)) in 1 \<le> y \<and> y \<le> 9999)"

lemma clock_parts:
  fixes c :: int
  assumes "0 \<le> c" and "c < 86400000000"
  shows "c div 3600000000 < 24" and "0 \<le> c div 3600000000"
    and "c = c div 3600000000 * 3600000000 + c div 60000000 mod 60 * 60000000 + c div 1000000 mod 60 * 1000000 + c mod 1000000"
proof -
  show "c div 3600000000 < 24" "0 \<le> c div 3600000000" using assms by linarith+
  have "c div 3600000000 = c div 1000000 div 60 div 60" "c div 60000000 = c div 1000000 div 60" by (simp_all add: zdiv_zmult2_eq [symmetric])
  then show "c = c div 3600000000 * 3600000000 + c div 60000000 mod 60 * 60000000 + c div 1000000 mod 60 * 1000000 + c mod 1000000"
    by (simp add: minus_div_mult_eq_mod [symmetric] minus_mult_div_eq_mod [symmetric] algebra_simps)
qed

lemma fromisoformat_isoformat:
  assumes "representable t"
  shows "fromisoformat (isoformat t) = Some t"
proof -
  define c where "c = t mod 86400000000"
  define h i s u where "h = c div 3600000000" and "i = c div 60000000 mod 60" and "s = c div 1000000 mod 60" and "u = c mod 1000000"
  obtain y m d where civ: "civil (t div 86400000000) = (y, m, d)" by (cases "civil (t div 86400000000)") auto
  from assms civ have y: "1 \<le> y" "y \<le> 9999" by (simp_all add: representable_def)
  from civil_ranges [OF civ] have m: "1 \<le> m" "m \<le> 12" and d: "1 \<le> d" "d \<le> 31"
    and len: "m \<noteq> 12 \<longrightarrow> d \<le> month_start (is_leap y) (Suc m) - month_start (is_leap y) m" by blast+
  have c: "0 \<le> c" "c < 86400000000" by (simp_all add: c_def)
  note parts = clock_parts [OF c, folded h_def i_def s_def u_def]
  then have h: "0 \<le> h" "h < 24" by simp_all
  have i: "0 \<le> i" "i < 60" and s: "0 \<le> s" "s < 60" and u: "0 \<le> u" "u < 1000000" by (simp_all add: i_def s_def u_def)
  have day: "day_of_civil (y, m, d) = t div 86400000000" using day_of_civil_civil [of "t div 86400000000"] civ by simp
  have shape: "isoformat t = padded 4 y @ CHR ''-'' # padded 2 (int m) @ CHR ''-'' # padded 2 d @ CHR ''T'' #
      padded 2 h @ CHR '':'' # padded 2 i @ CHR '':'' # padded 2 s @ (if u = 0 then [] else CHR ''.'' # padded 6 u) @ ''+00:00''"
    unfolding isoformat_def iso_local_def iso_date_def iso_clock_def civ c_def [symmetric]
    by (simp only: prod.case h_def [symmetric] i_def [symmetric] s_def [symmetric] u_def [symmetric] append_assoc append_Cons append_Nil)
  have f: "field 4 (Some (CHR ''-'')) (padded 4 y @ CHR ''-'' # r) = Some (nat y, r)"
    "field 2 (Some x) (padded 2 (int m) @ x # r) = Some (m, r)" "field 2 (Some x) (padded 2 d @ x # r) = Some (nat d, r)"
    "field 2 (Some x) (padded 2 h @ x # r) = Some (nat h, r)" "field 2 (Some x) (padded 2 i @ x # r) = Some (nat i, r)"
    "field 2 None (padded 2 s @ r) = Some (nat s, r)" "field 6 None (padded 6 u @ r) = Some (nat u, r)" for r x
    using y m d h i s u field_padded(1) [of "int m" 2] by (simp_all add: field_padded del: field.simps)
  have frac: "fraction ((if u = 0 then [] else CHR ''.'' # padded 6 u) @ ''+00:00'') = Some (nat u, ''+00:00'')"
    by (simp add: fraction_def f(7) del: field.simps)
  have ok: "\<not> (''+00:00'' \<noteq> ''+00:00'' \<or> nat y < 1 \<or> m < 1 \<or> 12 < m \<or> nat d < 1 \<or> 23 < nat h \<or> 59 < nat i \<or> 59 < nat s
      \<or> d > (if m = 12 then 31 else month_start (is_leap y) (Suc m) - month_start (is_leap y) m))"
    using y m d h i s len by auto
  have nonneg: "int (nat y) = y" "int (nat d) = d" "int (nat h) = h" "int (nat i) = i" "int (nat s) = s" "int (nat u) = u"
    using y d h i s u by simp_all
  have "fromisoformat (isoformat t) = Some (day_of_civil (y, m, d) * 86400000000 + h * 3600000000 + i * 60000000 + s * 1000000 + u)"
    unfolding fromisoformat_def shape by (simp only: f frac bind.simps prod.case nonneg ok if_False)
  moreover have "day_of_civil (y, m, d) * 86400000000 + h * 3600000000 + i * 60000000 + s * 1000000 + u = t"
    using parts(3) div_mult_mod_eq [of t 86400000000] unfolding day c_def by linarith
  ultimately show ?thesis by simp
qed

section \<open>URL-safe base64\<close>

text \<open>
  \<open>urlsafe_b64encode\<close> without its padding, and \<open>urlsafe_b64decode\<close> as the C implementation
  reads it: characters outside the alphabet are skipped, padding ends the input once the quartet
  is complete, an incomplete quartet raises. A byte is a character.
\<close>

definition b64_alphabet :: string where
  "b64_alphabet = ''ABCDEFGHIJKLMNOPQRSTUVWXYZabcdefghijklmnopqrstuvwxyz0123456789-_''"

definition b64_char :: "nat \<Rightarrow> char" where
  "b64_char v = b64_alphabet ! v"

definition b64_val :: "char \<Rightarrow> nat option" where
  "b64_val c =
     (if c = CHR ''+'' then Some 62 else if c = CHR ''/'' then Some 63
      else map_option fst (find (\<lambda>p. snd p = c) (List.enumerate 0 b64_alphabet)))"

fun b64_encode :: "nat list \<Rightarrow> nat list" where
  "b64_encode [] = []"
| "b64_encode [a] = [a div 4, a mod 4 * 16]"
| "b64_encode [a, b] = [a div 4, a mod 4 * 16 + b div 16, b mod 16 * 4]"
| "b64_encode (a # b # c # bs) = a div 4 # (a mod 4 * 16 + b div 16) # (b mod 16 * 4 + c div 64) # c mod 64 # b64_encode bs"

definition urlsafe_b64encode :: "string \<Rightarrow> string" where
  "urlsafe_b64encode t = map b64_char (b64_encode (map of_char t))"

fun b64_loop :: "nat \<Rightarrow> nat \<Rightarrow> nat \<Rightarrow> string \<Rightarrow> nat list option" where
  "b64_loop quad left pads [] = (if quad = 0 then Some [] else None)"
| "b64_loop quad left pads (c # cs) =
     (if c = CHR ''='' then (if 2 \<le> quad \<and> 4 \<le> quad + Suc pads then Some [] else b64_loop quad left (if 2 \<le> quad then Suc pads else pads) cs)
      else (case b64_val c of
          None \<Rightarrow> b64_loop quad left pads cs
        | Some v \<Rightarrow>
            if quad = 0 then b64_loop 1 v 0 cs
            else if quad = 1 then map_option ((#) (left * 4 + v div 16)) (b64_loop 2 (v mod 16) 0 cs)
            else if quad = 2 then map_option ((#) (left * 16 + v div 4)) (b64_loop 3 (v mod 4) 0 cs)
            else map_option ((#) (left * 64 + v)) (b64_loop 0 0 0 cs)))"

definition urlsafe_b64decode :: "string \<Rightarrow> string option" where
  "urlsafe_b64decode t = map_option (map char_of) (b64_loop 0 0 0 t)"

lemma b64_val_char: "v < 64 \<Longrightarrow> b64_val (b64_char v) = Some v \<and> b64_char v \<noteq> CHR ''=''"
proof -
  have "list_all (\<lambda>v. b64_val (b64_char v) = Some v \<and> b64_char v \<noteq> CHR ''='') [0..<64]" by code_simp
  then show "v < 64 \<Longrightarrow> b64_val (b64_char v) = Some v \<and> b64_char v \<noteq> CHR ''=''" by (simp add: list_all_iff)
qed

lemma b64_loop_encode:
  assumes "\<forall>b\<in>set bs. b < 256"
  shows "b64_loop 0 l p (map b64_char (b64_encode bs) @ replicate ((4 - length (b64_encode bs) mod 4) mod 4) (CHR ''='')) = Some bs"
  using assms
proof (induction bs arbitrary: l p rule: b64_encode.induct)
  case (2 a)
  then have "a div 4 < 64" "a mod 4 * 16 < 64" by auto
  then show ?case by (simp add: b64_val_char numeral_2_eq_2)
next
  case (3 a b)
  then have v: "a div 4 < 64" "a mod 4 * 16 + b div 16 < 64" "b mod 16 * 4 < 64" by auto
  have "b div 16 < 16" using 3 by (simp add: div_less_iff_less_mult)
  then have "(a mod 4 * 16 + b div 16) div 16 = a mod 4" "(a mod 4 * 16 + b div 16) mod 16 = b div 16" by simp_all
  with v show ?case by (simp add: b64_val_char)
next
  case (4 a b c bs)
  then have v: "a div 4 < 64" "a mod 4 * 16 + b div 16 < 64" "b mod 16 * 4 + c div 64 < 64" "c mod 64 < 64" by auto
  have e: "(a mod 4 * 16 + b div 16) div 16 = a mod 4" "(a mod 4 * 16 + b div 16) mod 16 = b div 16"
    "(b mod 16 * 4 + c div 64) div 4 = b mod 16" "(b mod 16 * 4 + c div 64) mod 4 = c div 64"
  proof -
    have "b div 16 < 16" "c div 64 < 4" using 4 by (simp_all add: div_less_iff_less_mult)
    then show "(a mod 4 * 16 + b div 16) div 16 = a mod 4" "(a mod 4 * 16 + b div 16) mod 16 = b div 16"
      "(b mod 16 * 4 + c div 64) div 4 = b mod 16" "(b mod 16 * 4 + c div 64) mod 4 = c div 64" by simp_all
  qed
  have IH: "b64_loop 0 0 0 (map b64_char (b64_encode bs) @ replicate ((4 - length (b64_encode bs) mod 4) mod 4) (CHR ''='')) = Some bs"
    using 4 by simp
  have l: "length (b64_encode (a # b # c # bs)) mod 4 = length (b64_encode bs) mod 4" by simp
  show ?case using v e IH unfolding l by (simp add: b64_val_char)
qed simp

text \<open>The cursor is read back with the padding restored: \<open>"=" * (-len(cursor) % 4)\<close>.\<close>

definition pad_base64 :: "string \<Rightarrow> string" where
  "pad_base64 t = t @ replicate ((4 - length t mod 4) mod 4) (CHR ''='')"

lemma urlsafe_b64decode_encode: "urlsafe_b64decode (pad_base64 (urlsafe_b64encode t)) = Some t"
proof -
  have "b64_loop 0 0 0 (pad_base64 (urlsafe_b64encode t)) = Some (map of_char t)"
    unfolding pad_base64_def urlsafe_b64encode_def length_map by (rule b64_loop_encode) auto
  then show ?thesis by (simp add: urlsafe_b64decode_def comp_def)
qed

end
