(* ===== verification/Accounts.thy ===== *)
theory Accounts
  imports Outbox Pricing Dates
begin

text \<open>
  \<open>services/api/service.py\<close> and the schemas it answers with: onboarding, preferences, clients,
  contacts and projects under optimistic row versions, idempotent execution of mutating requests,
  and the cursor pages of clients and projects.
\<close>

section \<open>Audit\<close>

definition audit ::
  "env \<Rightarrow> trusted_context \<Rightarrow> string \<Rightarrow> string \<Rightarrow> uuid \<Rightarrow> ((string \<times> pyval) list) option \<Rightarrow>
   ((string \<times> pyval) list) option \<Rightarrow> int option \<Rightarrow> uuid option \<Rightarrow> unit act" where
  "audit E ctx action resource_type resource before after revision project =
     audit_of_spec E \<lparr>as_tenant_id = ctx_tenant_id ctx, as_actor = ctx_subject ctx, as_action = action,
       as_resource_type = resource_type, as_resource_id = uuid_str resource, as_correlation_id = ctx_correlation_id ctx,
       as_project_id = project, as_before_state = before, as_after_state = after, as_resource_revision = revision,
       as_causation_id = None\<rparr>"

section \<open>Responses\<close>

text \<open>The response models as the JSON dictionaries they dump to, fields in the order of the class.\<close>

definition nullable_str :: "string option \<Rightarrow> pyval" where
  "nullable_str t = (case t of None \<Rightarrow> PNone | Some v \<Rightarrow> PStr v)"

definition nullable_uuid :: "uuid option \<Rightarrow> pyval" where
  "nullable_uuid u = (case u of None \<Rightarrow> PNone | Some v \<Rightarrow> PStr (uuid_str v))"

fun user_status_value :: "user_status \<Rightarrow> string" where
  "user_status_value USER_ACTIVE = ''ACTIVE''"
| "user_status_value USER_DISABLED = ''DISABLED''"
| "user_status_value USER_DELETION_PENDING = ''DELETION_PENDING''"

fun project_status_value :: "project_status \<Rightarrow> string" where
  "project_status_value PROJECT_DRAFT = ''DRAFT''"
| "project_status_value PAUSED_UNCONFIRMED_SCOPE = ''PAUSED_UNCONFIRMED_SCOPE''"
| "project_status_value PROJECT_ACTIVE = ''ACTIVE''"
| "project_status_value ARCHIVED = ''ARCHIVED''"
| "project_status_value PROJECT_DELETION_PENDING = ''DELETION_PENDING''"

definition user_read :: "user_account \<Rightarrow> (string \<times> pyval) list" where
  "user_read u = [(''id'', PStr (uuid_str (usr_id u))), (''verified_email'', PStr (usr_verified_email u)),
     (''timezone'', PStr (usr_timezone u)), (''status'', PStr (user_status_value (usr_status u))),
     (''row_version'', PInt (usr_row_version u))]"

definition preference_read :: "preference_version \<Rightarrow> (string \<times> pyval) list" where
  "preference_read p = [(''id'', PStr (uuid_str (pref_id p))), (''version'', PInt (pref_version p)),
     (''rate_minor'', PInt (pref_rate_minor p)), (''minimum_minor'', PInt (pref_minimum_minor p)),
     (''increment_minor'', PInt (pref_increment_minor p)), (''communication_style'', PStr (pref_communication_style p)),
     (''reminder_policy'', PDict (pref_reminder_policy p)), (''confirmed_at'', PStr (json_time (pref_confirmed_at p)))]"

definition onboarding_read :: "user_account \<Rightarrow> preference_version \<Rightarrow> (string \<times> pyval) list" where
  "onboarding_read u p = [(''user'', PDict (user_read u)), (''preference'', PDict (preference_read p))]"

text \<open>\<open>ClientRead\<close> as a model of its own: from the row, to JSON and back, unknown fields refused.\<close>

record client_response =
  cr_id :: uuid
  cr_name :: string
  cr_company :: "string option"
  cr_row_version :: int
  cr_created_at :: time
  cr_updated_at :: time

definition client_response_of :: "client \<Rightarrow> client_response" where
  "client_response_of c = \<lparr>cr_id = cli_id c, cr_name = cli_name c, cr_company = cli_company c,
     cr_row_version = cli_row_version c, cr_created_at = cli_created_at c, cr_updated_at = cli_updated_at c\<rparr>"

definition client_dump :: "client_response \<Rightarrow> (string \<times> pyval) list" where
  "client_dump c = [(''id'', PStr (uuid_str (cr_id c))), (''name'', PStr (cr_name c)), (''company'', nullable_str (cr_company c)),
     (''row_version'', PInt (cr_row_version c)), (''created_at'', PStr (json_time (cr_created_at c))),
     (''updated_at'', PStr (json_time (cr_updated_at c)))]"

definition read_json_time :: "string \<Rightarrow> time option" where
  "read_json_time t = (if t \<noteq> [] \<and> last t = CHR ''Z'' then fromisoformat (butlast t @ ''+00:00'') else fromisoformat t)"

fun read_str :: "pyval \<Rightarrow> string option" where
  "read_str (PStr t) = Some t"
| "read_str _ = None"

fun read_nullable_str :: "pyval \<Rightarrow> string option option" where
  "read_nullable_str PNone = Some None"
| "read_nullable_str (PStr t) = Some (Some t)"
| "read_nullable_str _ = None"

definition client_validate :: "(string \<times> pyval) list \<Rightarrow> exn + client_response" where
  "client_validate d =
     (if set (map fst d) \<noteq> {''id'', ''name'', ''company'', ''row_version'', ''created_at'', ''updated_at''} then Inl ValueError
      else (case (Option.bind (read_str (dict_get d ''id'')) uuid_of_str, read_str (dict_get d ''name''),
                  read_nullable_str (dict_get d ''company''), strict_int (dict_get d ''row_version''),
                  Option.bind (read_str (dict_get d ''created_at'')) read_json_time,
                  Option.bind (read_str (dict_get d ''updated_at'')) read_json_time) of
          (Some i, Some n, Some c, Some v, Some t, Some u) \<Rightarrow>
            Inr \<lparr>cr_id = i, cr_name = n, cr_company = c, cr_row_version = v, cr_created_at = t, cr_updated_at = u\<rparr>
        | _ \<Rightarrow> Inl ValueError))"

definition client_read :: "client \<Rightarrow> (string \<times> pyval) list" where
  "client_read c = client_dump (client_response_of c)"

definition contact_read :: "client_contact \<Rightarrow> (string \<times> pyval) list" where
  "contact_read c = [(''id'', PStr (uuid_str (contact_id c))), (''client_id'', PStr (uuid_str (contact_client_id c))),
     (''email'', PStr (contact_normalized_email c)), (''display_name'', PStr (contact_display_name c)),
     (''role'', nullable_str (contact_role c)), (''created_at'', PStr (json_time (contact_created_at c)))]"

definition project_read :: "project \<Rightarrow> (string \<times> pyval) list" where
  "project_read p = [(''id'', PStr (uuid_str (proj_id p))), (''client_id'', PStr (uuid_str (proj_client_id p))),
     (''name'', PStr (proj_name p)), (''status'', PStr (project_status_value (proj_status p))),
     (''currency'', PStr (proj_currency p)), (''base_contract_value_minor'', PInt (proj_base_contract_value_minor p)),
     (''current_scope_version_id'', nullable_uuid (proj_current_scope_version_id p)),
     (''preference_version_id'', PStr (uuid_str (proj_preference_version_id p))), (''timezone'', PStr (proj_timezone p)),
     (''calendar_version_id'', nullable_uuid (proj_calendar_version_id p)),
     (''target_date'', (case proj_target_date p of None \<Rightarrow> PNone | Some d \<Rightarrow> PStr (iso_date d))),
     (''row_version'', PInt (proj_row_version p)), (''created_at'', PStr (json_time (proj_created_at p))),
     (''updated_at'', PStr (json_time (proj_updated_at p)))]"

section \<open>Idempotent execution\<close>

definition same_request :: "string \<Rightarrow> string \<Rightarrow> string \<Rightarrow> api_idempotency \<Rightarrow> bool" where
  "same_request scope route key r \<longleftrightarrow> idem_actor_scope r = scope \<and> idem_route r = route \<and> idem_key r = key"

definition idempotency_for :: "string \<Rightarrow> string \<Rightarrow> string \<Rightarrow> db \<Rightarrow> api_idempotency option" where
  "idempotency_for scope route key s = find (same_request scope route key) (api_idempotency_rows s)"

definition add_idempotency :: "api_idempotency \<Rightarrow> unit act" where
  "add_idempotency = add_row api_idempotency_rows (\<lambda>rows s. s\<lparr>api_idempotency_rows := rows\<rparr>) (\<lambda>_. True)
     (\<lambda>r q. idem_id r = idem_id q \<or> same_request (idem_actor_scope r) (idem_route r) (idem_key r) q)"

definition record_response ::
  "string \<Rightarrow> string \<Rightarrow> string \<Rightarrow> string \<Rightarrow> (string \<times> pyval) list \<Rightarrow> unit act" where
  "record_response scope route key digest response =
     bindE fresh_uuid (\<lambda>i.
     bindE the_time (\<lambda>now.
     add_idempotency \<lparr>idem_id = i, idem_actor_scope = scope, idem_route = route, idem_key = key,
       idem_request_digest = digest, idem_response_ref = response, idem_expires_at = now + hours 24, idem_created_at = now\<rparr>))"

definition tenant_subject :: "trusted_context \<Rightarrow> string" where
  "tenant_subject ctx = ''tenant:'' @ uuid_str (ctx_tenant_id ctx) @ '':subject:'' @ ctx_subject ctx"

text \<open>
  \<open>execute_idempotent\<close>. A response model dumps to a dictionary and is validated from one: both
  are pydantic's, parameters. The rows that other sessions commit for the same key while the
  operation runs are the list \<open>rivals\<close>; the database compares the new row with them too, and
  they are what a rollback leaves visible.
\<close>

definition join_rivals :: "api_idempotency list \<Rightarrow> unit act" where
  "join_rivals rivals = modify (\<lambda>s. s\<lparr>api_idempotency_rows := api_idempotency_rows s @ rivals\<rparr>)"

definition stored_answer :: "((string \<times> pyval) list \<Rightarrow> exn + 'm) \<Rightarrow> string \<Rightarrow> api_idempotency \<Rightarrow> 'm act" where
  "stored_answer model_validate digest r =
     (if idem_request_digest r \<noteq> digest then raise ConflictError
      else (case model_validate (idem_response_ref r) of Inl e \<Rightarrow> raise e | Inr x \<Rightarrow> ret x))"

definition execute_and_record ::
  "('m \<Rightarrow> (string \<times> pyval) list) \<Rightarrow> string \<Rightarrow> string \<Rightarrow> string \<Rightarrow> string \<Rightarrow> 'm act \<Rightarrow> api_idempotency list \<Rightarrow> 'm act" where
  "execute_and_record model_dump scope route key digest operation rivals =
     bindE operation (\<lambda>result.
     bindE (join_rivals rivals) (\<lambda>_.
     bindE (record_response scope route key digest (model_dump result)) (\<lambda>_.
     ret result)))"

definition answer_after_conflict ::
  "((string \<times> pyval) list \<Rightarrow> exn + 'm) \<Rightarrow> string \<Rightarrow> string \<Rightarrow> string \<Rightarrow> string \<Rightarrow> api_idempotency list \<Rightarrow> db \<Rightarrow> 'm act" where
  "answer_after_conflict model_validate scope route key digest rivals saved =
     bindE (rollback_to saved) (\<lambda>_.
     bindE (join_rivals rivals) (\<lambda>_.
     bindE (gets (idempotency_for scope route key)) (\<lambda>concurrent.
     (case concurrent of Some r \<Rightarrow> stored_answer model_validate digest r | None \<Rightarrow> raise ConflictError))))"

definition scope_of :: "trusted_context \<Rightarrow> string option \<Rightarrow> string" where
  "scope_of ctx actor_scope = (case actor_scope of Some v \<Rightarrow> if v = [] then tenant_subject ctx else v | None \<Rightarrow> tenant_subject ctx)"

definition answer_once ::
  "('m \<Rightarrow> (string \<times> pyval) list) \<Rightarrow> ((string \<times> pyval) list \<Rightarrow> exn + 'm) \<Rightarrow> string \<Rightarrow> string \<Rightarrow> string \<Rightarrow> string \<Rightarrow>
   'm act \<Rightarrow> api_idempotency list \<Rightarrow> 'm act" where
  "answer_once model_dump model_validate scope route key digest operation rivals =
     bindE (gets (\<lambda>s. (idempotency_for scope route key s, s))) (\<lambda>(existing, saved).
     (case existing of
        Some r \<Rightarrow> stored_answer model_validate digest r
      | None \<Rightarrow>
          catchE (execute_and_record model_dump scope route key digest operation rivals)
            (\<lambda>e. if e = IntegrityError then answer_after_conflict model_validate scope route key digest rivals saved else raise e)))"

definition execute_idempotent ::
  "env \<Rightarrow> ('m \<Rightarrow> (string \<times> pyval) list) \<Rightarrow> ((string \<times> pyval) list \<Rightarrow> exn + 'm) \<Rightarrow> trusted_context \<Rightarrow> string \<Rightarrow>
   string \<Rightarrow> (string \<times> pyval) list \<Rightarrow> 'm act \<Rightarrow> string option \<Rightarrow> api_idempotency list \<Rightarrow> 'm act" where
  "execute_idempotent E model_dump model_validate ctx route key payload operation actor_scope rivals =
     bindE (require (key \<noteq> [] \<and> length key \<le> 128) ValidationError) (\<lambda>_.
     bindE (digest_of E (PDict payload)) (\<lambda>digest.
     answer_once model_dump model_validate (scope_of ctx actor_scope) route key digest operation rivals))"

section \<open>Preferences and onboarding\<close>

definition add_user :: "user_account \<Rightarrow> unit act" where
  "add_user = add_row users (\<lambda>rows s. s\<lparr>users := rows\<rparr>) (\<lambda>_. True)
     (\<lambda>r q. usr_id r = usr_id q \<or> usr_cognito_sub r = usr_cognito_sub q)"

definition put_user :: "uuid \<Rightarrow> (user_account \<Rightarrow> user_account) \<Rightarrow> unit act" where
  "put_user i f = modify (\<lambda>s. s\<lparr>users := upd_row usr_id i (\<lambda>r. f (r\<lparr>usr_updated_at := clock s\<rparr>)) (users s)\<rparr>)"

definition add_preference :: "preference_version \<Rightarrow> unit act" where
  "add_preference = add_row preference_versions (\<lambda>rows s. s\<lparr>preference_versions := rows\<rparr>) preference_version_check
     (\<lambda>r q. pref_id r = pref_id q \<or> pref_tenant_id r = pref_tenant_id q \<and> pref_version r = pref_version q)"

definition current_preference :: "uuid \<Rightarrow> preference_version act" where
  "current_preference tenant =
     bindE (gets (\<lambda>s. top_by pref_version (filter (\<lambda>p. pref_tenant_id p = tenant) (preference_versions s)))) (\<lambda>found.
     some_or ConflictError found)"

definition new_preference ::
  "uuid \<Rightarrow> int \<Rightarrow> int \<Rightarrow> int \<Rightarrow> int \<Rightarrow> string \<Rightarrow> (string \<times> pyval) list \<Rightarrow> preference_version act" where
  "new_preference tenant version rate_minor minimum_minor increment_minor style policy =
     bindE fresh_uuid (\<lambda>i.
     bindE the_time (\<lambda>now.
     bindE (ret \<lparr>pref_id = i, pref_tenant_id = tenant, pref_version = version, pref_rate_minor = rate_minor,
        pref_minimum_minor = minimum_minor, pref_increment_minor = increment_minor, pref_communication_style = style,
        pref_reminder_policy = policy, pref_confirmed_at = now, pref_created_at = now\<rparr>) (\<lambda>p.
     bindE (add_preference p) (\<lambda>_. ret p))))"

definition new_user :: "trusted_context \<Rightarrow> string \<Rightarrow> user_account act" where
  "new_user ctx timezone =
     bindE the_time (\<lambda>now.
     bindE (ret \<lparr>usr_id = ctx_tenant_id ctx, usr_cognito_sub = ctx_subject ctx,
        usr_verified_email = lower (strip (ctx_email ctx)), usr_timezone = timezone, usr_status = USER_ACTIVE,
        usr_created_at = now, usr_updated_at = now, usr_row_version = 1\<rparr>) (\<lambda>u.
     bindE (add_user u) (\<lambda>_. ret u)))"

definition onboard_owner ::
  "env \<Rightarrow> trusted_context \<Rightarrow> string \<Rightarrow> int \<Rightarrow> int \<Rightarrow> int \<Rightarrow> string \<Rightarrow> (string \<times> pyval) list \<Rightarrow> (user_account \<times> preference_version) act" where
  "onboard_owner E ctx timezone rate_minor minimum_minor increment_minor style policy =
     bindE (gets (\<lambda>s. find (\<lambda>u. usr_cognito_sub u = ctx_subject ctx) (users s))) (\<lambda>existing.
     (case existing of
        Some u \<Rightarrow> bindE (current_preference (usr_id u)) (\<lambda>p. ret (u, p))
      | None \<Rightarrow>
          bindE (new_user ctx timezone) (\<lambda>u.
          bindE (new_preference (usr_id u) 1 rate_minor minimum_minor increment_minor style policy) (\<lambda>p.
          bindE (audit E ctx ''tenant.onboarded'' ''user'' (usr_id u) None (Some (onboarding_read u p))
             (Some (usr_row_version u)) None) (\<lambda>_.
          ret (u, p))))))"

definition read_preference :: "trusted_context \<Rightarrow> preference_version act" where
  "read_preference ctx = current_preference (ctx_tenant_id ctx)"

definition update_preference ::
  "env \<Rightarrow> trusted_context \<Rightarrow> int \<Rightarrow> int \<Rightarrow> int \<Rightarrow> int \<Rightarrow> string \<Rightarrow> (string \<times> pyval) list \<Rightarrow> preference_version act" where
  "update_preference E ctx expected rate_minor minimum_minor increment_minor style policy =
     bindE (gets (\<lambda>s. row_by usr_id (ctx_tenant_id ctx) (users s))) (\<lambda>found.
     bindE (some_or NotFoundError found) (\<lambda>u.
     bindE (require (usr_row_version u = expected) ConflictError) (\<lambda>_.
     bindE (current_preference (ctx_tenant_id ctx)) (\<lambda>latest.
     bindE (put_user (usr_id u) (\<lambda>r. r\<lparr>usr_row_version := usr_row_version r + 1\<rparr>)) (\<lambda>_.
     bindE (new_preference (ctx_tenant_id ctx) (pref_version latest + 1) rate_minor minimum_minor increment_minor style policy) (\<lambda>p.
     bindE (audit E ctx ''preferences.updated'' ''preference_version'' (pref_id p) None (Some (preference_read p))
        (Some (pref_version p)) None) (\<lambda>_.
     ret p)))))))"

section \<open>Clients and contacts\<close>

definition add_client :: "client \<Rightarrow> unit act" where
  "add_client = add_row clients (\<lambda>rows s. s\<lparr>clients := rows\<rparr>) (\<lambda>_. True) (\<lambda>r q. cli_id r = cli_id q)"

definition put_client :: "uuid \<Rightarrow> (client \<Rightarrow> client) \<Rightarrow> unit act" where
  "put_client i f = modify (\<lambda>s. s\<lparr>clients := upd_row cli_id i f (clients s)\<rparr>)"

text \<open>\<open>company.strip() if company else None\<close>.\<close>

definition stripped_or_none :: "string option \<Rightarrow> string option" where
  "stripped_or_none t = (case t of None \<Rightarrow> None | Some v \<Rightarrow> if v = [] then None else Some (strip v))"

definition create_client :: "env \<Rightarrow> trusted_context \<Rightarrow> string \<Rightarrow> string option \<Rightarrow> client act" where
  "create_client E ctx name company =
     bindE fresh_uuid (\<lambda>i.
     bindE the_time (\<lambda>now.
     bindE (ret \<lparr>cli_id = i, cli_tenant_id = ctx_tenant_id ctx, cli_name = strip name, cli_company = stripped_or_none company,
        cli_created_at = now, cli_updated_at = now, cli_row_version = 1\<rparr>) (\<lambda>c.
     bindE (add_client c) (\<lambda>_.
     bindE (audit E ctx ''client.created'' ''client'' i None (Some (client_read c)) (Some (cli_row_version c)) None) (\<lambda>_.
     ret c)))))"

definition owned_client :: "trusted_context \<Rightarrow> uuid \<Rightarrow> db \<Rightarrow> client option" where
  "owned_client ctx i s = find (\<lambda>c. cli_id c = i \<and> cli_tenant_id c = ctx_tenant_id ctx) (clients s)"

definition get_client :: "trusted_context \<Rightarrow> uuid \<Rightarrow> client act" where
  "get_client ctx i = bindE (gets (owned_client ctx i)) (\<lambda>found. some_or NotFoundError found)"

definition edited_client :: "string \<Rightarrow> string option \<Rightarrow> time \<Rightarrow> client \<Rightarrow> client" where
  "edited_client name company now c = c\<lparr>cli_name := strip name, cli_company := stripped_or_none company,
     cli_row_version := cli_row_version c + 1, cli_updated_at := now\<rparr>"

definition update_client :: "env \<Rightarrow> trusted_context \<Rightarrow> uuid \<Rightarrow> int \<Rightarrow> string \<Rightarrow> string option \<Rightarrow> client act" where
  "update_client E ctx i expected name company =
     bindE (get_client ctx i) (\<lambda>c.
     bindE (require (cli_row_version c = expected) ConflictError) (\<lambda>_.
     bindE the_time (\<lambda>now.
     bindE (put_client i (edited_client name company now)) (\<lambda>_.
     bindE (audit E ctx ''client.updated'' ''client'' i (Some (client_read c)) (Some (client_read (edited_client name company now c)))
        (Some (cli_row_version (edited_client name company now c))) None) (\<lambda>_.
     ret (edited_client name company now c))))))"

definition add_contact :: "client_contact \<Rightarrow> unit act" where
  "add_contact = add_row client_contacts (\<lambda>rows s. s\<lparr>client_contacts := rows\<rparr>) (\<lambda>_. True)
     (\<lambda>r q. contact_id r = contact_id q \<or> contact_tenant_id r = contact_tenant_id q \<and>
        contact_client_id r = contact_client_id q \<and> contact_normalized_email r = contact_normalized_email q)"

definition create_contact ::
  "env \<Rightarrow> trusted_context \<Rightarrow> uuid \<Rightarrow> string \<Rightarrow> string \<Rightarrow> string option \<Rightarrow> client_contact act" where
  "create_contact E ctx client email display_name role =
     bindE (get_client ctx client) (\<lambda>_.
     bindE fresh_uuid (\<lambda>i.
     bindE the_time (\<lambda>now.
     bindE (ret \<lparr>contact_id = i, contact_tenant_id = ctx_tenant_id ctx, contact_client_id = client,
        contact_normalized_email = lower (strip email), contact_display_name = strip display_name,
        contact_role = stripped_or_none role, contact_created_at = now\<rparr>) (\<lambda>c.
     bindE (add_contact c) (\<lambda>_.
     bindE (audit E ctx ''contact.created'' ''client_contact'' i None (Some (contact_read c)) None None) (\<lambda>_.
     ret c))))))"

definition list_contacts :: "trusted_context \<Rightarrow> uuid \<Rightarrow> client_contact list act" where
  "list_contacts ctx client =
     bindE (get_client ctx client) (\<lambda>_.
     gets (\<lambda>s. sort_key (\<lambda>c. (contact_created_at c, contact_id c))
       (filter (\<lambda>c. contact_tenant_id c = ctx_tenant_id ctx \<and> contact_client_id c = client) (client_contacts s))))"

section \<open>Projects\<close>

definition add_project :: "project \<Rightarrow> unit act" where
  "add_project = add_row projects (\<lambda>rows s. s\<lparr>projects := rows\<rparr>) project_check (\<lambda>r q. proj_id r = proj_id q)"

definition add_calendar :: "calendar_version \<Rightarrow> unit act" where
  "add_calendar = add_row calendar_versions (\<lambda>rows s. s\<lparr>calendar_versions := rows\<rparr>)
     (\<lambda>c. 0 < cal_version c \<and> (case decimal_value (cal_confirmed_daily_capacity_hours c) of None \<Rightarrow> False | Some h \<Rightarrow> 0 < h \<and> h \<le> 24))
     (\<lambda>r q. cal_id r = cal_id q \<or> cal_tenant_id r = cal_tenant_id q \<and> cal_project_id r = cal_project_id q \<and>
        cal_version r = cal_version q)"

text \<open>\<open>session.project.x = v\<close>: a write to the row, with the time of its flush.\<close>

definition edit_project :: "uuid \<Rightarrow> (project \<Rightarrow> project) \<Rightarrow> unit act" where
  "edit_project i f = modify (\<lambda>s. s\<lparr>projects := upd_row proj_id i f (projects s)\<rparr>)"

definition checked_rules ::
  "(string \<Rightarrow> zone option) \<Rightarrow> string \<Rightarrow> int list \<Rightarrow> day list \<Rightarrow> decimal \<Rightarrow> calendar_rules act" where
  "checked_rules zones timezone weekdays holidays capacity =
     (case decimal_value capacity of
        None \<Rightarrow> raise ValueError
      | Some h \<Rightarrow> (case calendar_rules_of zones timezone weekdays holidays h of Inl e \<Rightarrow> raise e | Inr r \<Rightarrow> ret r))"

definition create_project ::
  "env \<Rightarrow> (string \<Rightarrow> zone option) \<Rightarrow> trusted_context \<Rightarrow> uuid \<Rightarrow> string \<Rightarrow> int \<Rightarrow> string \<Rightarrow> int list \<Rightarrow> day list \<Rightarrow>
   decimal \<Rightarrow> day option \<Rightarrow> project act" where
  "create_project E zones ctx client name base_value timezone weekdays holidays capacity target =
     bindE (get_client ctx client) (\<lambda>_.
     bindE (current_preference (ctx_tenant_id ctx)) (\<lambda>preference.
     bindE (checked_rules zones timezone weekdays holidays capacity) (\<lambda>rules.
     bindE fresh_uuid (\<lambda>i.
     bindE the_time (\<lambda>now.
     bindE (ret \<lparr>proj_id = i, proj_tenant_id = ctx_tenant_id ctx, proj_client_id = client, proj_name = strip name,
        proj_status = PAUSED_UNCONFIRMED_SCOPE, proj_currency = ''INR'', proj_base_contract_value_minor = base_value,
        proj_current_scope_version_id = None, proj_preference_version_id = pref_id preference,
        proj_timezone = rules_timezone_name rules, proj_calendar_version_id = None, proj_target_date = target,
        proj_created_at = now, proj_updated_at = now, proj_row_version = 1\<rparr>) (\<lambda>p.
     bindE (add_project p) (\<lambda>_.
     bindE fresh_uuid (\<lambda>k.
     bindE (add_calendar \<lparr>cal_id = k, cal_tenant_id = ctx_tenant_id ctx, cal_project_id = i, cal_version = 1,
        cal_weekdays = rules_weekdays rules, cal_holiday_dates = map iso_date (rules_holiday_dates rules),
        cal_confirmed_daily_capacity_hours = capacity, cal_created_at = now\<rparr>) (\<lambda>_.
     bindE (edit_project i (\<lambda>r. r\<lparr>proj_calendar_version_id := Some k\<rparr>)) (\<lambda>_.
     bindE (ret (p\<lparr>proj_calendar_version_id := Some k\<rparr>)) (\<lambda>q.
     bindE (audit E ctx ''project.created'' ''project'' i None (Some (project_read q)) (Some (proj_row_version q)) (Some i)) (\<lambda>_.
     ret q))))))))))))"

definition owned_project :: "trusted_context \<Rightarrow> uuid \<Rightarrow> db \<Rightarrow> project option" where
  "owned_project ctx i s = find (\<lambda>p. proj_id p = i \<and> proj_tenant_id p = ctx_tenant_id ctx) (projects s)"

definition get_project :: "trusted_context \<Rightarrow> uuid \<Rightarrow> project act" where
  "get_project ctx i = bindE (gets (owned_project ctx i)) (\<lambda>found. some_or NotFoundError found)"

definition edited_project :: "string \<Rightarrow> day option \<Rightarrow> time \<Rightarrow> project \<Rightarrow> project" where
  "edited_project name target now p = p\<lparr>proj_name := strip name, proj_target_date := target,
     proj_row_version := proj_row_version p + 1, proj_updated_at := now\<rparr>"

definition leaving_project :: "time \<Rightarrow> project \<Rightarrow> project" where
  "leaving_project now p = p\<lparr>proj_status := PROJECT_DELETION_PENDING,
     proj_row_version := proj_row_version p + 1, proj_updated_at := now\<rparr>"

definition change_project :: "env \<Rightarrow> trusted_context \<Rightarrow> uuid \<Rightarrow> int \<Rightarrow> string \<Rightarrow> (time \<Rightarrow> project \<Rightarrow> project) \<Rightarrow> project act" where
  "change_project E ctx i expected action change =
     bindE (get_project ctx i) (\<lambda>p.
     bindE (require (proj_row_version p = expected) ConflictError) (\<lambda>_.
     bindE the_time (\<lambda>now.
     bindE (edit_project i (change now)) (\<lambda>_.
     bindE (audit E ctx action ''project'' i (Some (project_read p)) (Some (project_read (change now p)))
        (Some (proj_row_version (change now p))) (Some i)) (\<lambda>_.
     ret (change now p))))))"

definition update_project :: "env \<Rightarrow> trusted_context \<Rightarrow> uuid \<Rightarrow> int \<Rightarrow> string \<Rightarrow> day option \<Rightarrow> project act" where
  "update_project E ctx i expected name target = change_project E ctx i expected ''project.updated'' (edited_project name target)"

definition delete_project :: "env \<Rightarrow> trusted_context \<Rightarrow> uuid \<Rightarrow> int \<Rightarrow> project act" where
  "delete_project E ctx i expected = change_project E ctx i expected ''project.deletion_requested'' leaving_project"

definition count_owned :: "(db \<Rightarrow> 'r list) \<Rightarrow> ('r \<Rightarrow> uuid) \<Rightarrow> uuid \<Rightarrow> int act" where
  "count_owned table owner tenant = gets (\<lambda>s. int (length (filter (\<lambda>r. owner r = tenant) (table s))))"

section \<open>Pages\<close>

text \<open>
  The JSON text of a cursor is an array of two strings. Reading one accepts such an array of
  strings without escapes, which is what the encoder writes; any other text is refused here
  (Python would also unpack an object with two keys).
\<close>

definition encode_cursor :: "time \<Rightarrow> uuid \<Rightarrow> string" where
  "encode_cursor created_at resource =
     urlsafe_b64encode (dumps (PList [PStr (isoformat created_at), PStr (uuid_str resource)]))"

definition plain_char :: "char \<Rightarrow> bool" where
  "plain_char c \<longleftrightarrow> c \<noteq> CHR 0x22 \<and> c \<noteq> CHR 0x5C \<and> 32 \<le> (of_char c :: nat)"

definition json_space :: "char \<Rightarrow> bool" where
  "json_space c \<longleftrightarrow> c \<in> {CHR '' '', CHR 0x09, CHR 0x0A, CHR 0x0D}"

fun json_string :: "string \<Rightarrow> (string \<times> string) option" where
  "json_string t =
     (case dropWhile json_space t of
        c # rest \<Rightarrow>
          if c = CHR 0x22
          then (case dropWhile plain_char rest of
              q # t2 \<Rightarrow> if q = CHR 0x22 then Some (takeWhile plain_char rest, dropWhile json_space t2) else None
            | [] \<Rightarrow> None)
          else None
      | [] \<Rightarrow> None)"

definition json_pair :: "string \<Rightarrow> (string \<times> string) option" where
  "json_pair t =
     (case dropWhile json_space t of
        b # t1 \<Rightarrow>
          if b = CHR ''[''
          then (case json_string t1 of
              Some (x, m # t2) \<Rightarrow>
                if m = CHR '',''
                then (case json_string t2 of
                    Some (y, e # t3) \<Rightarrow> if e = CHR '']'' \<and> list_all json_space t3 then Some (x, y) else None
                  | _ \<Rightarrow> None)
                else None
            | _ \<Rightarrow> None)
          else None
      | [] \<Rightarrow> None)"

definition decode_cursor :: "string \<Rightarrow> exn + time \<times> uuid" where
  "decode_cursor cursor =
     (case Option.bind (urlsafe_b64decode (pad_base64 cursor)) json_pair of
        None \<Rightarrow> Inl ValidationError
      | Some (timestamp, resource) \<Rightarrow>
          (case (fromisoformat timestamp, uuid_of_str resource) of
             (Some t, Some u) \<Rightarrow> Inr (t, u)
           | _ \<Rightarrow> Inl ValidationError))"

text \<open>
  \<open>_apply_cursor\<close> and a page: the rows of the tenant after the cursor in the order of creation
  and id, at most \<open>limit\<close> of them, and the cursor of the last one when there are more.
\<close>

definition after_cursor :: "('r \<Rightarrow> time \<times> uuid) \<Rightarrow> (time \<times> uuid) option \<Rightarrow> 'r list \<Rightarrow> 'r list" where
  "after_cursor key position rows =
     sort_key key (filter (\<lambda>r. case position of None \<Rightarrow> True | Some p \<Rightarrow> p < key r) rows)"

definition page :: "('r \<Rightarrow> time \<times> uuid) \<Rightarrow> nat \<Rightarrow> 'r list \<Rightarrow> 'r list \<times> string option" where
  "page key limit rows =
     (take limit rows,
      if length (take (Suc limit) rows) > limit
      then Some (encode_cursor (fst (key (rows ! (limit - 1)))) (snd (key (rows ! (limit - 1))))) else None)"

definition cursor_position :: "string option \<Rightarrow> exn + (time \<times> uuid) option" where
  "cursor_position cursor =
     (case cursor of
        None \<Rightarrow> Inr None
      | Some c \<Rightarrow> if c = [] then Inr None else (case decode_cursor c of Inl e \<Rightarrow> Inl e | Inr p \<Rightarrow> Inr (Some p)))"

definition list_page ::
  "(db \<Rightarrow> 'r list) \<Rightarrow> ('r \<Rightarrow> uuid) \<Rightarrow> ('r \<Rightarrow> time \<times> uuid) \<Rightarrow> trusted_context \<Rightarrow> nat \<Rightarrow> string option \<Rightarrow>
   ('r list \<times> string option) act" where
  "list_page table owner key ctx limit cursor =
     (case cursor_position cursor of
        Inl e \<Rightarrow> raise e
      | Inr position \<Rightarrow>
          gets (\<lambda>s. page key limit (after_cursor key position (filter (\<lambda>r. owner r = ctx_tenant_id ctx) (table s)))))"

definition list_clients :: "trusted_context \<Rightarrow> nat \<Rightarrow> string option \<Rightarrow> (client list \<times> string option) act" where
  "list_clients = list_page clients cli_tenant_id (\<lambda>c. (cli_created_at c, cli_id c))"

definition list_projects :: "trusted_context \<Rightarrow> nat \<Rightarrow> string option \<Rightarrow> (project list \<times> string option) act" where
  "list_projects = list_page projects proj_tenant_id (\<lambda>p. (proj_created_at p, proj_id p))"

end
