(* ===== verification/Actions.thy ===== *)
theory Actions
  imports Outbox
begin

text \<open>
  External actions: the record of every call to a provider, from its approval to its receipt
  (\<open>services/workers/durable.py\<close>), the sweep for orphaned dispatches (\<open>recovery.py\<close>) and the
  operator's resolution of an uncertain one (\<open>services/api/operations.py\<close>).
\<close>

section \<open>The state machine\<close>

fun ACTION_TRANSITIONS :: "action_state \<Rightarrow> action_state list" where
  "ACTION_TRANSITIONS READY = [DISPATCHING, CANCELLED]"
| "ACTION_TRANSITIONS DISPATCHING = [SUCCEEDED, RETRY_WAIT, UNKNOWN_OUTCOME, REVIEW_REQUIRED]"
| "ACTION_TRANSITIONS RETRY_WAIT = [DISPATCHING, CANCELLED]"
| "ACTION_TRANSITIONS SUCCEEDED = [RECEIPT_CONFIRMED]"
| "ACTION_TRANSITIONS UNKNOWN_OUTCOME = [RECEIPT_CONFIRMED, REVIEW_REQUIRED, RETRY_WAIT]"
| "ACTION_TRANSITIONS REVIEW_REQUIRED = [RECEIPT_CONFIRMED, RETRY_WAIT, CANCELLED]"
| "ACTION_TRANSITIONS RECEIPT_CONFIRMED = []"
| "ACTION_TRANSITIONS CANCELLED = []"

inductive action_path :: "action_state \<Rightarrow> action_state \<Rightarrow> bool" where
  stay: "action_path a a"
| move: "action_path a b \<Longrightarrow> c \<in> set (ACTION_TRANSITIONS b) \<Longrightarrow> action_path a c"

lemma action_path_trans: "action_path b c \<Longrightarrow> action_path a b \<Longrightarrow> action_path a c"
  by (induction rule: action_path.induct) (auto intro: action_path.move)

lemma action_path_step: "c \<in> set (ACTION_TRANSITIONS b) \<Longrightarrow> action_path b c"
  by (rule action_path.move [OF action_path.stay])

text \<open>After a success there is only the receipt, and two states are final.\<close>

lemma path_from_succeeded: "action_path a b \<Longrightarrow> a = SUCCEEDED \<Longrightarrow> b = SUCCEEDED \<or> b = RECEIPT_CONFIRMED"
  by (induction rule: action_path.induct) auto

lemma path_from_final: "action_path a b \<Longrightarrow> a = RECEIPT_CONFIRMED \<or> a = CANCELLED \<Longrightarrow> b = a"
  by (induction rule: action_path.induct) auto

section \<open>The operations\<close>

definition get_external_action :: "uuid \<Rightarrow> external_action option act" where
  "get_external_action i = gets (\<lambda>s. row_by act_id i (external_actions s))"

definition put_action :: "uuid \<Rightarrow> (external_action \<Rightarrow> external_action) \<Rightarrow> unit act" where
  "put_action i f =
     modify (\<lambda>s. s\<lparr>external_actions := upd_row act_id i (\<lambda>a. f (a\<lparr>act_updated_at := clock s\<rparr>)) (external_actions s)\<rparr>)"

definition add_external_action :: "external_action \<Rightarrow> unit act" where
  "add_external_action = add_row external_actions (\<lambda>rows s. s\<lparr>external_actions := rows\<rparr>) (\<lambda>_. True)
     (\<lambda>r q. act_id r = act_id q \<or> act_tenant_id r = act_tenant_id q \<and> act_action_key r = act_action_key q)"

definition add_action_attempt :: "action_attempt \<Rightarrow> unit act" where
  "add_action_attempt = add_row action_attempts (\<lambda>rows s. s\<lparr>action_attempts := rows\<rparr>) action_attempt_check
     (\<lambda>r q. att_id r = att_id q \<or> att_action_id r = att_action_id q \<and> att_attempt_number r = att_attempt_number q)"

definition put_attempt :: "uuid \<Rightarrow> (action_attempt \<Rightarrow> action_attempt) \<Rightarrow> unit act" where
  "put_attempt i f = modify (\<lambda>s. s\<lparr>action_attempts := upd_row att_id i f (action_attempts s)\<rparr>)"

definition attempts_of :: "uuid \<Rightarrow> action_attempt list \<Rightarrow> action_attempt list" where
  "attempts_of i rows = filter (\<lambda>a. att_action_id a = i) rows"

definition last_attempt :: "uuid \<Rightarrow> action_attempt option act" where
  "last_attempt i = gets (\<lambda>s. top_by att_attempt_number (attempts_of i (action_attempts s)))"

definition action_for :: "uuid \<Rightarrow> string \<Rightarrow> external_action list \<Rightarrow> external_action option" where
  "action_for tenant key rows = find (\<lambda>a. act_tenant_id a = tenant \<and> act_action_key a = key) rows"

definition prepare_external_action ::
  "env \<Rightarrow> uuid \<Rightarrow> string \<Rightarrow> string \<Rightarrow> string \<Rightarrow> (string \<times> pyval) list \<Rightarrow> uuid option \<Rightarrow> external_action act" where
  "prepare_external_action E tenant key provider operation payload project =
     bindE (digest_of E (PDict payload)) (\<lambda>digest.
     bindE (gets (\<lambda>s. action_for tenant key (external_actions s))) (\<lambda>existing.
     case existing of
       Some a \<Rightarrow>
         if act_payload_digest a \<noteq> digest then raise DurableExecutionError else ret a
     | None \<Rightarrow>
         bindE fresh_uuid (\<lambda>key_id.
         bindE fresh_uuid (\<lambda>i.
         bindE the_time (\<lambda>now.
         bindE (ret \<lparr>act_id = i, act_tenant_id = tenant, act_project_id = project, act_action_key = key,
            act_provider = provider, act_operation = operation, act_state = READY,
            act_approved_payload = payload, act_payload_digest = digest,
            act_idempotency_key = uuid_str key_id, act_receipt_ref = None, act_uncertainty_reason = None,
            act_created_at = now, act_updated_at = now\<rparr>) (\<lambda>a.
         bindE (add_external_action a) (\<lambda>_.
         ret a)))))))"

definition transition_action :: "external_action \<Rightarrow> action_state \<Rightarrow> unit act" where
  "transition_action a target =
     (if target \<notin> set (ACTION_TRANSITIONS (act_state a)) then raise DurableExecutionError
      else put_action (act_id a) (act_state_update (\<lambda>_. target)))"

definition begin_action_dispatch :: "uuid \<Rightarrow> crash_point list \<Rightarrow> action_attempt act" where
  "begin_action_dispatch i injector =
     bindE (get_external_action i) (\<lambda>found.
     bindE (some_or DurableExecutionError found) (\<lambda>a.
     bindE (transition_action a DISPATCHING) (\<lambda>_.
     bindE (last_attempt i) (\<lambda>prev.
     bindE (ret ((case prev of None \<Rightarrow> 0 | Some p \<Rightarrow> att_attempt_number p) + 1)) (\<lambda>number.
     bindE (require (number \<le> DEFAULT_MAX_ATTEMPTS) DurableExecutionError) (\<lambda>_.
     bindE fresh_uuid (\<lambda>j.
     bindE the_time (\<lambda>now.
     bindE (ret \<lparr>att_id = j, att_action_id = i, att_attempt_number = number, att_state = DISPATCHING,
        att_provider_request_id = None, att_dispatched_at = now, att_completed_at = None,
        att_outcome_ref = None, att_error_code = None, att_error_message = None\<rparr>) (\<lambda>attempt.
     bindE (add_action_attempt attempt) (\<lambda>_.
     bindE (trip injector ACTION_DISPATCH_PERSISTED) (\<lambda>_.
     ret attempt)))))))))))"

definition complete_action ::
  "uuid \<Rightarrow> (string \<times> pyval) list \<Rightarrow> string option \<Rightarrow> crash_point list \<Rightarrow> unit act" where
  "complete_action i outcome provider_request injector =
     bindE (get_external_action i) (\<lambda>found.
     bindE (some_or DurableExecutionError found) (\<lambda>a.
     bindE (trip injector ACTION_PROVIDER_SUCCEEDED) (\<lambda>_.
     bindE (transition_action a SUCCEEDED) (\<lambda>_.
     bindE (last_attempt i) (\<lambda>prev.
     bindE (some_or DurableExecutionError prev) (\<lambda>attempt.
     bindE the_time (\<lambda>now.
     bindE (put_attempt (att_id attempt) (\<lambda>p. p\<lparr>att_state := SUCCEEDED, att_provider_request_id := provider_request,
        att_completed_at := Some now, att_outcome_ref := Some outcome\<rparr>)) (\<lambda>_.
     trip injector ACTION_RESULT_SAVED))))))))"

definition mark_action_review_required :: "uuid \<Rightarrow> string \<Rightarrow> unit act" where
  "mark_action_review_required i reason =
     bindE (get_external_action i) (\<lambda>found.
     bindE (some_or DurableExecutionError found) (\<lambda>a.
     bindE (transition_action a REVIEW_REQUIRED) (\<lambda>_.
     bindE (put_action i (act_uncertainty_reason_update (\<lambda>_. Some (take 500 reason)))) (\<lambda>_.
     bindE (last_attempt i) (\<lambda>prev.
     bindE the_time (\<lambda>now.
     case prev of
       None \<Rightarrow> ret ()
     | Some attempt \<Rightarrow> put_attempt (att_id attempt) (\<lambda>p. p\<lparr>att_state := REVIEW_REQUIRED, att_completed_at := Some now,
          att_error_code := Some ''PROVIDER_REJECTED'', att_error_message := Some (take 500 reason)\<rparr>)))))))"

definition mark_action_unknown :: "uuid \<Rightarrow> string \<Rightarrow> unit act" where
  "mark_action_unknown i reason =
     bindE (get_external_action i) (\<lambda>found.
     bindE (some_or DurableExecutionError found) (\<lambda>a.
     bindE (transition_action a UNKNOWN_OUTCOME) (\<lambda>_.
     bindE (put_action i (act_uncertainty_reason_update (\<lambda>_. Some (take 500 reason)))) (\<lambda>_.
     bindE (last_attempt i) (\<lambda>prev.
     bindE the_time (\<lambda>now.
     case prev of
       None \<Rightarrow> ret ()
     | Some attempt \<Rightarrow> put_attempt (att_id attempt) (\<lambda>p. p\<lparr>att_state := UNKNOWN_OUTCOME, att_completed_at := Some now,
          att_error_code := Some ''UNKNOWN_OUTCOME''\<rparr>)))))))"

definition mark_action_retry :: "uuid \<Rightarrow> string \<Rightarrow> unit act" where
  "mark_action_retry i error_code =
     bindE (get_external_action i) (\<lambda>found.
     bindE (some_or DurableExecutionError found) (\<lambda>a.
     bindE (transition_action a RETRY_WAIT) (\<lambda>_.
     bindE (last_attempt i) (\<lambda>prev.
     bindE the_time (\<lambda>now.
     case prev of
       None \<Rightarrow> ret ()
     | Some attempt \<Rightarrow> put_attempt (att_id attempt) (\<lambda>p. p\<lparr>att_state := RETRY_WAIT, att_completed_at := Some now,
          att_error_code := Some (take 120 error_code)\<rparr>))))))"

definition retry_action :: "uuid \<Rightarrow> bool \<Rightarrow> unit act" where
  "retry_action i allow_duplicate_risk =
     bindE (get_external_action i) (\<lambda>found.
     bindE (some_or DurableExecutionError found) (\<lambda>a.
     bindE (require (act_state a = UNKNOWN_OUTCOME \<or> act_state a = REVIEW_REQUIRED) DurableExecutionError) (\<lambda>_.
     bindE (require allow_duplicate_risk DurableExecutionError) (\<lambda>_.
     transition_action a RETRY_WAIT))))"

definition confirm_action_receipt :: "uuid \<Rightarrow> (string \<times> pyval) list \<Rightarrow> unit act" where
  "confirm_action_receipt i receipt =
     bindE (get_external_action i) (\<lambda>found.
     bindE (some_or DurableExecutionError found) (\<lambda>a.
     bindE (transition_action a RECEIPT_CONFIRMED) (\<lambda>_.
     put_action i (act_receipt_ref_update (\<lambda>_. Some receipt)))))"

definition cancel_action :: "uuid \<Rightarrow> unit act" where
  "cancel_action i =
     bindE (get_external_action i) (\<lambda>found.
     bindE (some_or DurableExecutionError found) (\<lambda>a.
     transition_action a CANCELLED))"

text \<open>The sweep for dispatches whose worker is gone.\<close>

definition orphaned :: "time \<Rightarrow> external_action \<Rightarrow> bool" where
  "orphaned stale_before a \<longleftrightarrow> act_state a = DISPATCHING \<and> act_updated_at a \<le> stale_before"

definition recover_orphaned_actions :: "time option \<Rightarrow> nat act" where
  "recover_orphaned_actions now =
     bindE (time_or_now now) (\<lambda>current.
     bindE (gets (\<lambda>s. filter (orphaned (current - seconds RECOVERY_STALE_SECONDS)) (external_actions s))) (\<lambda>orphans.
     bindE (mapE (\<lambda>a. mark_action_unknown (act_id a) ''dispatch_lease_expired_requires_reconciliation'') orphans) (\<lambda>_.
     ret (length orphans))))"

text \<open>The operator's side.\<close>

definition get_action :: "trusted_context \<Rightarrow> uuid \<Rightarrow> external_action act" where
  "get_action ctx i =
     bindE (gets (\<lambda>s. find (\<lambda>a. act_id a = i \<and> act_tenant_id a = ctx_tenant_id ctx) (external_actions s))) (\<lambda>found.
     some_or NotFoundError found)"

definition resolve_action ::
  "trusted_context \<Rightarrow> uuid \<Rightarrow> string \<Rightarrow> bool \<Rightarrow> ((string \<times> pyval) list) option \<Rightarrow> unit act" where
  "resolve_action ctx i resolution duplicate_risk_acknowledged receipt_ref =
     bindE (get_action ctx i) (\<lambda>_.
     if resolution = ''retry'' then retry_action i duplicate_risk_acknowledged
     else if resolution = ''confirm_receipt''
     then bindE (some_or ConflictError receipt_ref) (\<lambda>receipt. confirm_action_receipt i receipt)
     else if resolution = ''cancel'' then cancel_action i
     else raise ConflictError)"

section \<open>How actions and attempts move\<close>

definition action_frozen ::
  "external_action \<Rightarrow> uuid \<times> uuid option \<times> string \<times> string \<times> string \<times> (string \<times> pyval) list \<times> string \<times> string" where
  "action_frozen a = (act_tenant_id a, act_project_id a, act_action_key a, act_provider a, act_operation a,
     act_approved_payload a, act_payload_digest a, act_idempotency_key a)"

definition action_moves :: "external_action \<Rightarrow> external_action \<Rightarrow> bool" where
  "action_moves a a' \<longleftrightarrow> action_frozen a' = action_frozen a \<and> action_path (act_state a) (act_state a')"

definition attempt_frozen :: "action_attempt \<Rightarrow> uuid \<times> int \<times> time" where
  "attempt_frozen a = (att_action_id a, att_attempt_number a, att_dispatched_at a)"

interpretation action_table: evolving_table external_actions act_id action_moves
  by unfold_locales (auto simp: action_moves_def intro: action_path.stay action_path_trans)

abbreviation actions_move :: "db \<Rightarrow> db \<Rightarrow> bool" where
  "actions_move s t \<equiv> table_evolves act_id action_moves (external_actions s) (external_actions t)"

lemma evolves_actions_same: "(\<And>s. external_actions (snd (m s)) = external_actions s) \<Longrightarrow> evolves actions_move m"
  by (simp add: evolves_def action_table.table_refl)

lemma actions_fresh_uuid: "evolves actions_move fresh_uuid"
  and actions_the_time: "evolves actions_move the_time"
  and actions_time_or_now: "evolves actions_move (time_or_now t)"
  and actions_trip: "evolves actions_move (trip ps p)"
  and actions_fresh_token: "evolves actions_move (fresh_token E)"
  and actions_digest_of: "evolves actions_move (digest_of E v)"
  and actions_get: "evolves actions_move (get_external_action i)"
  and actions_last: "evolves actions_move (last_attempt i)"
  and actions_add_attempt: "evolves actions_move (add_action_attempt att)"
  and actions_put_attempt: "evolves actions_move (put_attempt i f)"
  by (auto intro!: evolves_actions_same simp: trip_def run_digest_of get_external_action_def last_attempt_def
      add_action_attempt_def run_add_row put_attempt_def split: sum.split)

lemma actions_add: "evolves actions_move (add_external_action a)"
  by (rule evolvesI) (simp add: add_external_action_def run_add_row action_table.table_append action_table.table_refl)

lemma actions_put_from:
  assumes "\<And>s a. P s \<Longrightarrow> row_by act_id i (external_actions s) = Some a \<Longrightarrow>
      act_id (f (a\<lparr>act_updated_at := clock s\<rparr>)) = act_id a \<and> action_moves a (f (a\<lparr>act_updated_at := clock s\<rparr>))"
  shows "evolves_from actions_move P (put_action i f)"
  unfolding evolves_from_def put_action_def
  using assms by (auto intro!: action_table.table_upd_row)

lemma actions_note: "evolves actions_move (put_action i (act_uncertainty_reason_update g))"
  and actions_receipt: "evolves actions_move (put_action i (act_receipt_ref_update h))"
  by (rule action_table.evolves_from_top, rule actions_put_from,
      simp add: action_moves_def action_frozen_def action_path.stay)+

lemma actions_transition:
  "evolves_from actions_move (\<lambda>s. P s \<and> row_by act_id (act_id a) (external_actions s) = Some a) (transition_action a target)"
proof (cases "target \<in> set (ACTION_TRANSITIONS (act_state a))")
  case True
  then show ?thesis unfolding transition_action_def
    by (simp add: evolves_from_def put_action_def, intro allI impI, intro action_table.table_upd_row)
       (auto simp: action_moves_def action_frozen_def action_path_step)
next
  case False
  then show ?thesis by (simp add: transition_action_def evolves_from_def action_table.table_refl)
qed

text \<open>Every operation reads the row first, makes one transition from the state it read, and then
writes only the notes of the action and its attempt.\<close>

lemma actions_read_transition:
  assumes "\<And>x. evolves actions_move (g x)"
  shows "evolves_from actions_move P
    (bindE (get_external_action i) (\<lambda>found. bindE (some_or e found) (\<lambda>a. bindE (transition_action a target) g)))"
  unfolding get_external_action_def
  by (rule action_table.from_gets, rule action_table.from_some_or, rule action_table.from_then [OF _ assms],
      rule action_table.from_weaken [OF actions_transition [where P = P]]) (auto dest: row_by_SomeD)

lemmas action_steps =
  action_table.evolve_rules actions_fresh_uuid actions_the_time actions_time_or_now actions_trip
  actions_fresh_token actions_digest_of actions_get actions_last actions_add_attempt actions_put_attempt
  actions_add actions_note actions_receipt

lemma prepare_moves: "evolves actions_move (prepare_external_action E t k p oper pl pr)"
  unfolding prepare_external_action_def by (intro action_steps)

lemma begin_dispatch_moves: "evolves actions_move (begin_action_dispatch i ps)"
  unfolding begin_action_dispatch_def
  by (rule action_table.evolves_from_top, rule actions_read_transition) (intro action_steps)

lemma review_moves: "evolves actions_move (mark_action_review_required i reason)"
  unfolding mark_action_review_required_def
  by (rule action_table.evolves_from_top, rule actions_read_transition) (intro action_steps)

lemma unknown_moves: "evolves actions_move (mark_action_unknown i reason)"
  unfolding mark_action_unknown_def
  by (rule action_table.evolves_from_top, rule actions_read_transition) (intro action_steps)

lemma mark_retry_moves: "evolves actions_move (mark_action_retry i err)"
  unfolding mark_action_retry_def
  by (rule action_table.evolves_from_top, rule actions_read_transition) (intro action_steps)

lemma confirm_moves: "evolves actions_move (confirm_action_receipt i receipt)"
  unfolding confirm_action_receipt_def
  by (rule action_table.evolves_from_top, rule actions_read_transition) (intro action_steps)

lemma cancel_moves: "evolves actions_move (cancel_action i)"
  unfolding cancel_action_def get_external_action_def
  by (rule action_table.evolves_from_top, rule action_table.from_gets, rule action_table.from_some_or,
      rule action_table.from_weaken [OF actions_transition [where P = "\<lambda>_. True"]])
     (auto dest: row_by_SomeD)

lemma retry_action_moves: "evolves actions_move (retry_action i ack)"
  unfolding retry_action_def get_external_action_def
  by (rule action_table.evolves_from_top, rule action_table.from_gets, rule action_table.from_some_or,
      rule action_table.from_require, rule action_table.from_require,
      rule action_table.from_weaken [OF actions_transition [where P = "\<lambda>_. True"]])
     (auto dest: row_by_SomeD)

lemma complete_action_moves: "evolves actions_move (complete_action i outcome req ps)"
proof (cases "ACTION_PROVIDER_SUCCEEDED \<in> set ps")
  case True
  then show ?thesis unfolding complete_action_def by (simp add: trip_def) (intro action_steps)
next
  case False
  then show ?thesis unfolding complete_action_def
    by (simp add: trip_def [of ps ACTION_PROVIDER_SUCCEEDED])
       (rule action_table.evolves_from_top, rule actions_read_transition, intro action_steps)
qed

lemma recover_orphaned_moves: "evolves actions_move (recover_orphaned_actions now)"
  unfolding recover_orphaned_actions_def by (intro action_steps unknown_moves)

lemma resolve_action_moves: "evolves actions_move (resolve_action ctx i resolution ack receipt)"
  unfolding resolve_action_def get_action_def
  by (intro action_steps retry_action_moves confirm_moves cancel_moves)

lemmas action_operations =
  prepare_moves begin_dispatch_moves complete_action_moves review_moves unknown_moves mark_retry_moves
  retry_action_moves confirm_moves cancel_moves recover_orphaned_moves resolve_action_moves

text \<open>The attempts of an action: numbered without repetition from one to three.\<close>

definition attempts_ok :: "db \<Rightarrow> bool" where
  "attempts_ok s \<longleftrightarrow> distinct (map (\<lambda>r. (att_action_id r, att_attempt_number r)) (action_attempts s)) \<and>
     list_all action_attempt_check (action_attempts s)"

interpretation attempt_rows: state_invariant attempts_ok .

abbreviation attempts_kept :: "db \<Rightarrow> db \<Rightarrow> bool" where
  "attempts_kept s t \<equiv> attempts_ok s \<longrightarrow> attempts_ok t"

lemma evolves_attempts_same: "(\<And>s. action_attempts (snd (m s)) = action_attempts s) \<Longrightarrow> evolves attempts_kept m"
  by (simp add: evolves_def attempts_ok_def)

lemma attempts_fresh_uuid: "evolves attempts_kept fresh_uuid"
  and attempts_the_time: "evolves attempts_kept the_time"
  and attempts_time_or_now: "evolves attempts_kept (time_or_now t)"
  and attempts_trip: "evolves attempts_kept (trip ps p)"
  and attempts_digest_of: "evolves attempts_kept (digest_of E v)"
  and attempts_get: "evolves attempts_kept (get_external_action i)"
  and attempts_last: "evolves attempts_kept (last_attempt i)"
  and attempts_add_action: "evolves attempts_kept (add_external_action a)"
  and attempts_put_action: "evolves attempts_kept (put_action i f)"
  and attempts_transition: "evolves attempts_kept (transition_action a target)"
  by (auto intro!: evolves_attempts_same simp: trip_def run_digest_of get_external_action_def last_attempt_def
      add_external_action_def run_add_row put_action_def transition_action_def split: sum.split)

lemma attempts_add: "evolves attempts_kept (add_action_attempt a)"
  by (rule evolvesI) (auto simp: add_action_attempt_def run_add_row attempts_ok_def list_ex_iff)

lemma attempts_put:
  "(\<And>r. att_action_id (f r) = att_action_id r \<and> att_attempt_number (f r) = att_attempt_number r) \<Longrightarrow>
   evolves attempts_kept (put_attempt i f)"
  by (rule evolvesI)
     (auto simp: put_attempt_def attempts_ok_def map_upd_row list_all_iff action_attempt_check_def
        dest!: set_upd_row row_by_SomeD)

lemmas attempt_steps =
  attempt_rows.evolve_rules attempts_fresh_uuid attempts_the_time attempts_time_or_now attempts_trip attempts_digest_of
  attempts_get attempts_last attempts_add_action attempts_put_action attempts_transition attempts_add attempts_put

lemma attempt_operations:
  "evolves attempts_kept (prepare_external_action E t k p oper pl pr)"
  "evolves attempts_kept (begin_action_dispatch i ps)"
  "evolves attempts_kept (complete_action i outcome req ps)"
  "evolves attempts_kept (mark_action_review_required i reason)"
  "evolves attempts_kept (mark_action_unknown i reason)"
  "evolves attempts_kept (mark_action_retry i err)"
  "evolves attempts_kept (retry_action i ack)"
  "evolves attempts_kept (confirm_action_receipt i receipt)"
  "evolves attempts_kept (cancel_action i)"
  unfolding prepare_external_action_def begin_action_dispatch_def complete_action_def mark_action_review_required_def
    mark_action_unknown_def mark_action_retry_def retry_action_def confirm_action_receipt_def cancel_action_def
  by (intro attempt_steps; simp)+

lemma attempt_sweeps:
  "evolves attempts_kept (recover_orphaned_actions now)"
  "evolves attempts_kept (resolve_action ctx i resolution ack receipt')"
  unfolding recover_orphaned_actions_def resolve_action_def get_action_def
  by (intro attempt_steps attempt_operations)+

lemma attempts_at_most_three:
  assumes "attempts_ok s"
  shows "length (attempts_of i (action_attempts s)) \<le> 3"
proof -
  let ?rows = "attempts_of i (action_attempts s)"
  from assms have "distinct (map (\<lambda>r. (att_action_id r, att_attempt_number r)) ?rows)"
    unfolding attempts_ok_def attempts_of_def by (simp add: distinct_map_filter)
  then have "distinct (map att_attempt_number ?rows)"
    by (auto simp: attempts_of_def distinct_map inj_on_def)
  then have "length ?rows = card (set (map att_attempt_number ?rows))" by (metis distinct_card length_map)
  also have "\<dots> \<le> card {1 .. 3 :: int}"
    using assms by (intro card_mono) (auto simp: attempts_ok_def attempts_of_def list_all_iff action_attempt_check_def)
  finally show ?thesis by simp
qed

section \<open>The life of an action\<close>

inductive action_step :: "db \<Rightarrow> db \<Rightarrow> bool" where
  prepare: "snd (prepare_external_action E t k p oper pl pr s) = s' \<Longrightarrow> action_step s s'"
| dispatch: "snd (begin_action_dispatch i ps s) = s' \<Longrightarrow> action_step s s'"
| complete: "snd (complete_action i outcome req ps s) = s' \<Longrightarrow> action_step s s'"
| review: "snd (mark_action_review_required i reason s) = s' \<Longrightarrow> action_step s s'"
| unknown: "snd (mark_action_unknown i reason s) = s' \<Longrightarrow> action_step s s'"
| retry_later: "snd (mark_action_retry i err s) = s' \<Longrightarrow> action_step s s'"
| retry: "snd (retry_action i ack s) = s' \<Longrightarrow> action_step s s'"
| confirm: "snd (confirm_action_receipt i receipt s) = s' \<Longrightarrow> action_step s s'"
| cancel: "snd (cancel_action i s) = s' \<Longrightarrow> action_step s s'"
| orphans: "snd (recover_orphaned_actions now s) = s' \<Longrightarrow> action_step s s'"
| operator: "snd (resolve_action ctx i resolution ack opt_receipt s) = s' \<Longrightarrow> action_step s s'"
| tick: "action_step s (s\<lparr>clock := clock s + int d\<rparr>)"

lemma action_step_moves: "action_step s s' \<Longrightarrow> actions_move s s'"
  by (induction rule: action_step.induct)
     (auto intro: action_operations [THEN evolvesD] simp: action_table.table_refl)

lemma attempts_tick: "attempts_kept s (s\<lparr>clock := c\<rparr>)"
  by (simp add: attempts_ok_def)

lemma action_step_attempts: "action_step s s' \<Longrightarrow> attempts_kept s s'"
  by (induction rule: action_step.induct)
     (rule attempts_tick |
      (hypsubst, rule attempt_operations [THEN evolvesD] attempt_sweeps [THEN evolvesD]))+

lemma action_run_moves: "action_step\<^sup>*\<^sup>* s t \<Longrightarrow> actions_move s t"
proof (induction rule: rtranclp_induct)
  case base
  show ?case by (rule action_table.table_refl)
next
  case (step t u)
  from step.IH action_step_moves [OF step.hyps(2)] show ?case by (rule action_table.table_trans)
qed

lemma action_run_attempts: "action_step\<^sup>*\<^sup>* s t \<Longrightarrow> attempts_ok s \<Longrightarrow> attempts_ok t"
  by (induction rule: rtranclp_induct) (auto dest: action_step_attempts)

text \<open>C4: A provider call that succeeded is never made again. Once an action is recorded as
succeeded, then after any operations on actions in any order, including retries, sweeps and the
operator's resolutions, it is still the same approved content in a successful state, and
beginning its dispatch is refused without any change.\<close>

theorem succeeded_never_redispatched:
  assumes "row_by act_id i (external_actions s) = Some a" and "act_state a \<in> {SUCCEEDED, RECEIPT_CONFIRMED}"
    and "action_step\<^sup>*\<^sup>* s t"
  shows "\<exists>q. row_by act_id i (external_actions t) = Some q \<and> act_approved_payload q = act_approved_payload a \<and>
     act_state q \<in> {SUCCEEDED, RECEIPT_CONFIRMED} \<and> begin_action_dispatch i ps t = (Inl DurableExecutionError, t)"
proof -
  from table_evolves_row [OF action_run_moves [OF assms(3)] assms(1)] obtain q where
    q: "row_by act_id i (external_actions t) = Some q" "action_moves a q" by blast
  from q(2) have path: "action_path (act_state a) (act_state q)" and frozen: "action_frozen q = action_frozen a"
    by (simp_all add: action_moves_def)
  from assms(2) path have state: "act_state q \<in> {SUCCEEDED, RECEIPT_CONFIRMED}"
    by (auto dest: path_from_succeeded path_from_final)
  then have "begin_action_dispatch i ps t = (Inl DurableExecutionError, t)"
    using q(1) by (auto simp: begin_action_dispatch_def get_external_action_def transition_action_def)
  with q(1) frozen state show ?thesis by (auto simp: action_frozen_def)
qed

definition demo_env :: env where
  "demo_env = \<lparr>sha256 = (\<lambda>t. t), token_urlsafe = (\<lambda>n. replicate 43 (CHR ''t'') @ nat_str n), aes_protect = (\<lambda>t. ''sealed:'' @ t),
     aes_unprotect = (\<lambda>t. if take 7 t = ''sealed:'' then Inr (drop 7 t) else Inl ValueError), client_review_base_url = ''https://x'',
     capability_key_configured = True, development_environment = False,
     razorpay_account_id = Some ''acc_1'', razorpay_environment = Some ''test''\<rparr>"

definition demo_prepared :: db where
  "demo_prepared = snd (prepare_external_action demo_env 7 ''send:1'' ''gmail'' ''send''
     [(''to'', PStr ''client@x'')] None empty_db)"

definition demo_dispatched :: db where
  "demo_dispatched = snd (begin_action_dispatch 2 [] demo_prepared)"

definition demo_sent :: db where
  "demo_sent = snd (complete_action 2 [(''message_id'', PStr ''m1'')] (Some ''m1'') [] demo_dispatched)"

lemma demo_action_state:
  "map_option act_state (row_by act_id 2 (external_actions demo_prepared)) = Some READY"
  "map_option act_state (row_by act_id 2 (external_actions demo_dispatched)) = Some DISPATCHING"
  "map_option act_state (row_by act_id 2 (external_actions demo_sent)) = Some SUCCEEDED"
  by code_simp+

theorem succeeded_never_redispatched_witness:
  "begin_action_dispatch 2 [] (snd (resolve_action demo_ctx 2 ''retry'' True None demo_sent)) =
     (Inl DurableExecutionError, snd (resolve_action demo_ctx 2 ''retry'' True None demo_sent))"
proof -
  from demo_action_state(3) obtain a where "row_by act_id 2 (external_actions demo_sent) = Some a" "act_state a = SUCCEEDED"
    by auto
  moreover have "action_step\<^sup>*\<^sup>* demo_sent (snd (resolve_action demo_ctx 2 ''retry'' True None demo_sent))"
    by (rule r_into_rtranclp, rule action_step.operator) simp
  ultimately show ?thesis using succeeded_never_redispatched [of 2 demo_sent] by auto
qed

text \<open>C8: The protocol of actions. Through any operations on actions an action keeps its tenant,
its key, its approved content and its idempotency key, its state follows the declared
transitions, and it is dispatched at most three times, with attempts numbered without
repetition.\<close>

theorem action_protocol:
  assumes "action_step\<^sup>*\<^sup>* s t" and "row_by act_id i (external_actions s) = Some a" and "attempts_ok s"
  shows "\<exists>q. row_by act_id i (external_actions t) = Some q \<and> action_frozen q = action_frozen a \<and>
     action_path (act_state a) (act_state q) \<and>
     length (attempts_of i (action_attempts t)) \<le> 3 \<and> distinct (map att_attempt_number (attempts_of i (action_attempts t)))"
proof -
  from table_evolves_row [OF action_run_moves [OF assms(1)] assms(2)] obtain q where
    q: "row_by act_id i (external_actions t) = Some q" "action_moves a q" by blast
  from action_run_attempts [OF assms(1,3)] have ok: "attempts_ok t" .
  then have "distinct (map (\<lambda>r. (att_action_id r, att_attempt_number r)) (attempts_of i (action_attempts t)))"
    unfolding attempts_ok_def attempts_of_def by (simp add: distinct_map_filter)
  then have "distinct (map att_attempt_number (attempts_of i (action_attempts t)))"
    by (auto simp: attempts_of_def distinct_map inj_on_def)
  with q attempts_at_most_three [OF ok] show ?thesis by (simp add: action_moves_def)
qed

lemma demo_action_run: "action_step\<^sup>*\<^sup>* demo_prepared demo_sent"
proof -
  have "action_step demo_prepared demo_dispatched"
    unfolding demo_dispatched_def by (rule action_step.dispatch) simp
  moreover have "action_step demo_dispatched demo_sent"
    unfolding demo_sent_def by (rule action_step.complete) simp
  ultimately show ?thesis by (meson converse_rtranclp_into_rtranclp r_into_rtranclp)
qed

theorem action_protocol_witness:
  "\<exists>q. row_by act_id 2 (external_actions demo_sent) = Some q \<and> action_path READY (act_state q)"
proof -
  from demo_action_state(1) obtain a where a: "row_by act_id 2 (external_actions demo_prepared) = Some a" "act_state a = READY"
    by auto
  have "attempts_ok demo_prepared" by code_simp
  from action_protocol [OF demo_action_run a(1) this] a(2) show ?thesis by auto
qed

text \<open>Preparation is an idempotent intake, keyed by tenant, action key and approved content.\<close>

definition prepared :: "env \<Rightarrow> uuid \<Rightarrow> string \<Rightarrow> (string \<times> pyval) list \<Rightarrow> db \<Rightarrow> external_action option" where
  "prepared E tenant key payload s =
     (case canonical_sha256 (sha256 E) (PDict payload) of
        Inl e \<Rightarrow> None
      | Inr digest \<Rightarrow>
          (case action_for tenant key (external_actions s) of
             None \<Rightarrow> None
           | Some a \<Rightarrow> if act_payload_digest a = digest then Some a else None))"

interpretation prepare: idempotent_intake "prepared E tenant key payload"
    "prepare_external_action E tenant key provider operation payload project"
  for E tenant key provider operation payload project
proof unfold_locales
  fix s t :: db and r
  assume run: "prepare_external_action E tenant key provider operation payload project s = (Inr r, t)"
  show "prepared E tenant key payload t = Some r"
  proof (cases "canonical_sha256 (sha256 E) (PDict payload)")
    case (Inl e)
    with run show ?thesis by (simp add: prepare_external_action_def run_bindE run_digest_of)
  next
    case (Inr digest)
    show ?thesis
    proof (cases "action_for tenant key (external_actions s)")
      case (Some a)
      with run Inr show ?thesis
        by (auto simp: prepare_external_action_def run_bindE run_digest_of prepared_def split: if_splits)
    next
      case None
      with run Inr show ?thesis
        by (auto simp: prepare_external_action_def run_bindE run_digest_of prepared_def add_external_action_def
            run_add_row action_for_def find_append split: if_splits)
    qed
  qed
next
  fix s :: db and r
  assume "prepared E tenant key payload s = Some r"
  then show "prepare_external_action E tenant key provider operation payload project s = (Inr r, s)"
    by (auto simp: prepare_external_action_def run_bindE run_digest_of prepared_def
        split: sum.splits option.splits if_splits)
qed

lemma action_for_moves:
  assumes "actions_move s t" and "action_for tenant key (external_actions s) = Some a"
  shows "\<exists>q. action_for tenant key (external_actions t) = Some q \<and> act_id q = act_id a \<and> action_moves a q"
  using assms unfolding action_for_def
  by (intro table_evolves_find [where E = action_moves]) (auto simp: action_moves_def action_frozen_def)

text \<open>One action per key. Preparing an action again under the same tenant and key, after any
operations on actions, returns the action already prepared, changes nothing and creates no second
one, when the approved content is the same; any other content is refused, and changes nothing.\<close>

theorem prepare_once_per_key:
  assumes "prepare_external_action E tenant key provider operation payload project s = (Inr a, t)"
    and "action_step\<^sup>*\<^sup>* t u"
  shows "(\<exists>q. prepare_external_action E tenant key provider' operation' payload project' u = (Inr q, u) \<and>
            act_id q = act_id a \<and> act_idempotency_key q = act_idempotency_key a) \<and>
     (canonical_sha256 (sha256 E) (PDict payload') \<noteq> canonical_sha256 (sha256 E) (PDict payload) \<longrightarrow>
        (\<exists>e. prepare_external_action E tenant key provider' operation' payload' project' u = (Inl e, u)))"
proof -
  from prepare.recorded [OF assms(1)] obtain digest where
    digest: "canonical_sha256 (sha256 E) (PDict payload) = Inr digest" and
    found: "action_for tenant key (external_actions t) = Some a" and same: "act_payload_digest a = digest"
    by (auto simp: prepared_def split: sum.splits option.splits if_splits)
  from action_for_moves [OF action_run_moves [OF assms(2)] found] obtain q where
    q: "action_for tenant key (external_actions u) = Some q" "act_id q = act_id a" "action_moves a q" by blast
  then have frozen: "act_payload_digest q = digest" "act_idempotency_key q = act_idempotency_key a"
    using same by (simp_all add: action_moves_def action_frozen_def)
  then have "prepared E tenant key payload u = Some q" using digest q(1) by (simp add: prepared_def)
  from prepare.replayed [OF this] have
    "prepare_external_action E tenant key provider' operation' payload project' u = (Inr q, u)" .
  moreover have "\<exists>e. prepare_external_action E tenant key provider' operation' payload' project' u = (Inl e, u)"
    if "canonical_sha256 (sha256 E) (PDict payload') \<noteq> canonical_sha256 (sha256 E) (PDict payload)"
    using that digest q(1) frozen(1)
    by (cases "canonical_sha256 (sha256 E) (PDict payload')")
       (simp_all add: prepare_external_action_def run_bindE run_digest_of)
  ultimately show ?thesis using q(2) frozen(2) by blast
qed

theorem prepare_once_per_key_witness:
  "\<exists>q. prepare_external_action demo_env 7 ''send:1'' ''gmail'' ''send'' [(''to'', PStr ''client@x'')] None demo_sent =
     (Inr q, demo_sent)"
proof -
  let ?prep = "prepare_external_action demo_env 7 ''send:1'' ''gmail'' ''send'' [(''to'', PStr ''client@x'')] None empty_db"
  have "map_option act_id (value_of ?prep) = Some 2" by code_simp
  then obtain a where "?prep = (Inr a, demo_prepared)" unfolding demo_prepared_def by (auto dest: value_of_SomeD)
  from prepare_once_per_key [OF this] demo_action_run show ?thesis by blast
qed

text \<open>A dispatch beyond the budget leaves the action stuck. When an action waits for a retry and
already has three attempts, beginning its dispatch raises, but only after the action was moved
to DISPATCHING: the failed call leaves it marked as being dispatched, with no new attempt.\<close>

theorem exhausted_dispatch_left_dispatching:
  assumes "row_by act_id i (external_actions s) = Some a" and "act_state a = RETRY_WAIT"
    and "top_by att_attempt_number (attempts_of i (action_attempts s)) = Some p" and "att_attempt_number p = 3"
  shows "\<exists>t. begin_action_dispatch i ps s = (Inl DurableExecutionError, t) \<and>
     action_attempts t = action_attempts s \<and>
     map_option act_state (row_by act_id i (external_actions t)) = Some DISPATCHING"
proof -
  from assms(1) have "act_id a = i" by (auto dest: row_by_SomeD)
  with assms show ?thesis
    by (simp add: begin_action_dispatch_def get_external_action_def transition_action_def put_action_def
        last_attempt_def DEFAULT_MAX_ATTEMPTS_def row_by_upd_row)
qed

definition demo_three_attempts :: db where
  "demo_three_attempts = snd (bindE (mapE (\<lambda>_. bindE (begin_action_dispatch 2 []) (\<lambda>_.
     mark_action_retry 2 ''TIMEOUT'')) [0, 1, 2 :: nat]) (\<lambda>_. ret ()) demo_prepared)"

theorem exhausted_dispatch_left_dispatching_witness:
  "\<exists>t. begin_action_dispatch 2 [] demo_three_attempts = (Inl DurableExecutionError, t) \<and>
     map_option act_state (row_by act_id 2 (external_actions t)) = Some DISPATCHING"
proof -
  have "map_option act_state (row_by act_id 2 (external_actions demo_three_attempts)) = Some RETRY_WAIT"
    "map_option att_attempt_number (top_by att_attempt_number (attempts_of 2 (action_attempts demo_three_attempts))) = Some 3"
    by code_simp+
  then obtain a p where "row_by act_id 2 (external_actions demo_three_attempts) = Some a" "act_state a = RETRY_WAIT"
    "top_by att_attempt_number (attempts_of 2 (action_attempts demo_three_attempts)) = Some p" "att_attempt_number p = 3"
    by auto
  from exhausted_dispatch_left_dispatching [OF this] show ?thesis by blast
qed

text \<open>The sweep for orphaned dispatches, row by row.\<close>

definition unknown_row :: "string \<Rightarrow> time \<Rightarrow> external_action \<Rightarrow> external_action" where
  "unknown_row reason clk a = a\<lparr>act_state := UNKNOWN_OUTCOME, act_updated_at := clk,
     act_uncertainty_reason := Some (take 500 reason)\<rparr>"

lemma act_id_unknown_row [simp]: "act_id (unknown_row r c a) = act_id a"
  by (simp add: unknown_row_def)

lemma run_mark_unknown:
  assumes "row_by act_id i (external_actions s) = Some a" and "act_state a = DISPATCHING"
  shows "\<exists>t. mark_action_unknown i reason s = (Inr (), t) \<and> clock t = clock s \<and>
     external_actions t = upd_row act_id i (unknown_row reason (clock s)) (external_actions s)"
proof -
  from assms(1) have "act_id a = i" by (auto dest: row_by_SomeD)
  with assms show ?thesis
    by (auto simp: mark_action_unknown_def get_external_action_def transition_action_def put_action_def last_attempt_def
        put_attempt_def upd_row_twice unknown_row_def [abs_def] split: option.split)
qed

lemma run_mark_all:
  "distinct (map act_id as) \<Longrightarrow> (\<forall>a\<in>set as. \<exists>q. row_by act_id (act_id a) (external_actions s) = Some q \<and> act_state q = DISPATCHING) \<Longrightarrow>
   \<exists>us t. mapE (\<lambda>a. mark_action_unknown (act_id a) reason) as s = (Inr us, t) \<and>
     external_actions t = fold (\<lambda>i. upd_row act_id i (unknown_row reason (clock s))) (map act_id as) (external_actions s)"
proof (induction as arbitrary: s)
  case Nil
  then show ?case by simp
next
  case (Cons a as)
  from Cons.prems(2) obtain q where "row_by act_id (act_id a) (external_actions s) = Some q" "act_state q = DISPATCHING" by auto
  from run_mark_unknown [OF this, of reason] obtain s1 where
    1: "mark_action_unknown (act_id a) reason s = (Inr (), s1)" "clock s1 = clock s"
       "external_actions s1 = upd_row act_id (act_id a) (unknown_row reason (clock s)) (external_actions s)" by blast
  have "\<forall>b\<in>set as. \<exists>q. row_by act_id (act_id b) (external_actions s1) = Some q \<and> act_state q = DISPATCHING"
    using Cons.prems by (auto simp: 1(3) row_by_upd_row image_iff)
  with Cons.IH [of s1] Cons.prems(1) 1 show ?case by (auto simp: run_bindE)
qed

text \<open>No dispatch is orphaned. The sweep always succeeds; exactly the actions that were being
dispatched and untouched for a minute become UNKNOWN_OUTCOME, for reconciliation, and none is
left; in particular the sweep never retries a call whose outcome is not known.\<close>

theorem orphan_sweep:
  assumes "distinct (map act_id (external_actions s))"
  shows "\<exists>t. recover_orphaned_actions (Some now) s =
       (Inr (length (filter (orphaned (now - seconds 60)) (external_actions s))), t) \<and>
     external_actions t = map (\<lambda>a. if orphaned (now - seconds 60) a
       then a\<lparr>act_state := UNKNOWN_OUTCOME, act_updated_at := clock s,
              act_uncertainty_reason := Some ''dispatch_lease_expired_requires_reconciliation''\<rparr>
       else a) (external_actions s) \<and>
     \<not> list_ex (orphaned (now - seconds 60)) (external_actions t)"
proof -
  let ?c = "now - seconds RECOVERY_STALE_SECONDS"
  let ?os = "filter (orphaned ?c) (external_actions s)"
  let ?r = "''dispatch_lease_expired_requires_reconciliation''"
  from assms have d: "distinct (map act_id ?os)" by (simp add: distinct_map_filter)
  have rows: "\<forall>a\<in>set ?os. \<exists>q. row_by act_id (act_id a) (external_actions s) = Some q \<and> act_state q = DISPATCHING"
  proof
    fix a
    assume a: "a \<in> set ?os"
    with row_by_distinct [OF assms, of a] show "\<exists>q. row_by act_id (act_id a) (external_actions s) = Some q \<and> act_state q = DISPATCHING"
      by (simp add: orphaned_def)
  qed
  from run_mark_all [OF d rows, of ?r] obtain us t where
    t: "mapE (\<lambda>a. mark_action_unknown (act_id a) ?r) ?os s = (Inr us, t)"
       "external_actions t = fold (\<lambda>i. upd_row act_id i (unknown_row ?r (clock s))) (map act_id ?os) (external_actions s)"
    by (elim exE conjE)
  have "fold (\<lambda>i. upd_row act_id i (unknown_row ?r (clock s))) (map act_id ?os) (external_actions s) =
      map (\<lambda>a. if act_id a \<in> set (map act_id ?os) then unknown_row ?r (clock s) a else a) (external_actions s)"
    by (rule fold_upd_row [where rid = act_id and f = "unknown_row ?r (clock s)", OF assms _ d]) (rule act_id_unknown_row)
  also have "\<dots> = map (\<lambda>a. if orphaned ?c a then unknown_row ?r (clock s) a else a) (external_actions s)"
  proof (rule map_cong [OF refl])
    fix a
    assume a: "a \<in> set (external_actions s)"
    from assms have "inj_on act_id (set (external_actions s))" by (simp add: distinct_map)
    from inj_on_image_mem_iff [OF this a, of "set ?os"] a
    have "act_id a \<in> set (map act_id ?os) \<longleftrightarrow> orphaned ?c a" by auto
    then show "(if act_id a \<in> set (map act_id ?os) then unknown_row ?r (clock s) a else a) =
        (if orphaned ?c a then unknown_row ?r (clock s) a else a)" by (simp only:)
  qed
  finally have after: "external_actions t = map (\<lambda>a. if orphaned ?c a then unknown_row ?r (clock s) a else a) (external_actions s)"
    using t(2) by simp
  have none: "\<not> orphaned ?c (if orphaned ?c a then unknown_row ?r (clock s) a else a)" for a
    by (simp add: orphaned_def unknown_row_def)
  have "\<not> list_ex (orphaned ?c) (external_actions t)"
    unfolding after list_ex_iff set_map using none by blast
  moreover have "recover_orphaned_actions (Some now) s = (Inr (length ?os), t)"
    by (simp add: recover_orphaned_actions_def run_bindE [of "mapE f xs" for f xs] t(1))
  moreover have "unknown_row ?r (clock s) = (\<lambda>a. a\<lparr>act_state := UNKNOWN_OUTCOME, act_updated_at := clock s,
              act_uncertainty_reason := Some ''dispatch_lease_expired_requires_reconciliation''\<rparr>)"
    by (rule ext) (simp add: unknown_row_def)
  ultimately show ?thesis using after by (simp add: RECOVERY_STALE_SECONDS_def)
qed

theorem orphan_sweep_witness:
  "\<exists>t. recover_orphaned_actions (Some (seconds 60)) demo_dispatched = (Inr 1, t)"
proof -
  have "distinct (map act_id (external_actions demo_dispatched))" by code_simp
  moreover have "length (filter (orphaned (seconds 60 - seconds 60)) (external_actions demo_dispatched)) = 1" by code_simp
  ultimately show ?thesis using orphan_sweep [of demo_dispatched "seconds 60"] by auto
qed

text \<open>The three resolutions on a known row.\<close>

definition moved_action :: "uuid \<Rightarrow> action_state \<Rightarrow> db \<Rightarrow> db" where
  "moved_action i target s = s\<lparr>external_actions := upd_row act_id i
     (\<lambda>a. a\<lparr>act_updated_at := clock s, act_state := target\<rparr>) (external_actions s)\<rparr>"

lemma run_transition:
  "transition_action a target s =
     (if target \<in> set (ACTION_TRANSITIONS (act_state a)) then (Inr (), moved_action (act_id a) target s)
      else (Inl DurableExecutionError, s))"
  by (auto simp: transition_action_def put_action_def moved_action_def intro!: arg_cong [where f = "\<lambda>f. upd_row act_id _ f _"])

lemma run_retry_action:
  "row_by act_id i (external_actions s) = Some a \<Longrightarrow>
   retry_action i ack s =
     (if act_state a \<in> {UNKNOWN_OUTCOME, REVIEW_REQUIRED} \<and> ack then (Inr (), moved_action i RETRY_WAIT s)
      else (Inl DurableExecutionError, s))"
  by (cases "act_state a"; auto simp: retry_action_def get_external_action_def run_bind_require run_transition dest: row_by_SomeD)

lemma run_cancel_action:
  "row_by act_id i (external_actions s) = Some a \<Longrightarrow>
   cancel_action i s =
     (if CANCELLED \<in> set (ACTION_TRANSITIONS (act_state a)) then (Inr (), moved_action i CANCELLED s)
      else (Inl DurableExecutionError, s))"
  by (auto simp: cancel_action_def get_external_action_def run_transition dest: row_by_SomeD)

lemma run_confirm_receipt:
  "row_by act_id i (external_actions s) = Some a \<Longrightarrow>
   confirm_action_receipt i r s =
     (if RECEIPT_CONFIRMED \<in> set (ACTION_TRANSITIONS (act_state a))
      then put_action i (act_receipt_ref_update (\<lambda>_. Some r)) (moved_action i RECEIPT_CONFIRMED s)
      else (Inl DurableExecutionError, s))"
  by (auto simp: confirm_action_receipt_def get_external_action_def run_bindE run_transition dest: row_by_SomeD)

lemma moved_action_row:
  "row_by act_id i (external_actions s) = Some a \<Longrightarrow>
   row_by act_id i (external_actions (moved_action i target s)) = Some (a\<lparr>act_updated_at := clock s, act_state := target\<rparr>)"
  by (simp add: moved_action_def row_by_upd_row)

text \<open>C12: An uncertain call is repeated only at the operator's own risk. Whatever the request, an
operator cannot touch an action of another tenant, and cannot put an action back to be
dispatched without acknowledging the risk of a duplicate: then, and whenever the resolution
raises, the database is unchanged.\<close>

theorem resolution_needs_acknowledgement:
  "case resolve_action ctx i resolution acknowledged receipt s of
     (Inl e, t) \<Rightarrow> t = s
   | (Inr _, t) \<Rightarrow>
       \<exists>a q. row_by act_id i (external_actions s) = Some a \<and> row_by act_id i (external_actions t) = Some q \<and>
         (distinct (map act_id (external_actions s)) \<longrightarrow> act_tenant_id a = ctx_tenant_id ctx) \<and>
         act_state q \<in> set (ACTION_TRANSITIONS (act_state a)) \<and>
         (act_state q = RETRY_WAIT \<longrightarrow> acknowledged \<and> act_state a \<in> {UNKNOWN_OUTCOME, REVIEW_REQUIRED}) \<and>
         act_state q \<in> {RETRY_WAIT, RECEIPT_CONFIRMED, CANCELLED} \<and>
         (act_state q = RECEIPT_CONFIRMED \<longrightarrow> receipt \<noteq> None \<and> act_receipt_ref q = receipt)"
proof (cases "find (\<lambda>a. act_id a = i \<and> act_tenant_id a = ctx_tenant_id ctx) (external_actions s)")
  case None
  then show ?thesis by (simp add: resolve_action_def get_action_def run_bindE)
next
  case (Some b)
  then have b: "b \<in> set (external_actions s)" "act_id b = i" "act_tenant_id b = ctx_tenant_id ctx"
    by (auto dest: find_SomeD)
  then obtain a where a: "row_by act_id i (external_actions s) = Some a"
    by (cases "row_by act_id i (external_actions s)") (auto simp: row_by_None_iff)
  then have ai: "act_id a = i" by (auto dest: row_by_SomeD)
  have tenant: "distinct (map act_id (external_actions s)) \<longrightarrow> act_tenant_id a = ctx_tenant_id ctx"
    using b a row_by_distinct [of act_id "external_actions s" b] by auto
  from Some have got: "get_action ctx i s = (Inr b, s)" by (simp add: get_action_def)
  consider "resolution = ''retry''" | "resolution = ''confirm_receipt''" | "resolution = ''cancel''"
    | "resolution \<noteq> ''retry'' \<and> resolution \<noteq> ''confirm_receipt'' \<and> resolution \<noteq> ''cancel''" by blast
  then show ?thesis
  proof cases
    case 1
    with a tenant moved_action_row [OF a] show ?thesis
      by (auto simp: resolve_action_def run_bindE got run_retry_action)
  next
    case 2
    show ?thesis
    proof (cases receipt)
      case None
      with 2 show ?thesis by (simp add: resolve_action_def run_bindE got)
    next
      case (Some r)
      with 2 a tenant moved_action_row [OF a, of RECEIPT_CONFIRMED] show ?thesis
        by (simp add: resolve_action_def run_bindE got run_confirm_receipt put_action_def row_by_upd_row)
    qed
  next
    case 3
    with a tenant moved_action_row [OF a] show ?thesis
      by (simp add: resolve_action_def run_bindE got run_cancel_action)
  next
    case 4
    then show ?thesis by (simp add: resolve_action_def run_bindE got)
  qed
qed

theorem resolution_needs_acknowledgement_witness:
  "distinct (map act_id (external_actions demo_dispatched)) \<and>
   (case resolve_action demo_ctx 2 ''retry'' True None (snd (mark_action_unknown 2 ''timeout'' demo_dispatched)) of
      (Inl e, t) \<Rightarrow> False
    | (Inr _, t) \<Rightarrow> map_option act_state (row_by act_id 2 (external_actions t)) = Some RETRY_WAIT)"
proof -
  let ?s = "snd (mark_action_unknown 2 ''timeout'' demo_dispatched)"
  have "value_of (resolve_action demo_ctx 2 ''retry'' True None ?s) = Some ()"
    "map_option act_state (row_by act_id 2 (external_actions (snd (resolve_action demo_ctx 2 ''retry'' True None ?s)))) = Some RETRY_WAIT"
    "distinct (map act_id (external_actions demo_dispatched))"
    by code_simp+
  then show ?thesis using resolution_needs_acknowledgement [where ctx = demo_ctx and i = 2 and resolution = "''retry''" and
      acknowledged = True and receipt = None and s = ?s]
    by (auto split: prod.splits sum.splits)
qed

end
