(* ===== verification/Payments.thy ===== *)
theory Payments
  imports Actions
begin

text \<open>
  Payments (\<open>services/payments/service.py\<close>): payment requests, the links created for them at
  the provider, webhooks and observations, reconciliation and replacement; and the Razorpay
  transport boundary (\<open>services/integrations/razorpay.py\<close>). The provider is a record of
  functions, each returning a response or raising; HTTP itself and the HMAC are parameters.
  Unique columns are checked when a row is inserted.
\<close>

section \<open>The transport boundary\<close>

record payment_provider =
  pp_account_id :: string
  pp_environment :: string
  pp_create_payment_link :: "(string \<times> pyval) list \<Rightarrow> exn + (string \<times> pyval) list"
  pp_fetch_payment_link :: "string \<Rightarrow> exn + (string \<times> pyval) list"
  pp_list_payment_links :: "string \<Rightarrow> exn + ((string \<times> pyval) list) list"

text \<open>An HTTP exchange fails to connect, or has a status and a body, which is JSON or not.\<close>

datatype http_outcome = HttpRequestError | HttpResponse nat "pyval option"

definition razorpay_request :: "http_outcome \<Rightarrow> exn + (string \<times> pyval) list" where
  "razorpay_request response =
     (case response of
        HttpRequestError \<Rightarrow> Inl (RazorpayProviderRetryable ''razorpay_request_failed'')
      | HttpResponse status body \<Rightarrow>
          if status = 429 \<or> 500 \<le> status then Inl (RazorpayProviderRetryable (''razorpay_http_'' @ nat_str status))
          else if 400 \<le> status then Inl (RazorpayProviderError (''razorpay_http_'' @ nat_str status))
          else (case body of
                  None \<Rightarrow> Inl (RazorpayProviderError ''razorpay_invalid_json'')
                | Some v \<Rightarrow> (case as_dict v of
                      None \<Rightarrow> Inl (RazorpayProviderError ''razorpay_invalid_object'')
                    | Some d \<Rightarrow> Inr d)))"

fun dict_items :: "pyval list \<Rightarrow> ((string \<times> pyval) list) list" where
  "dict_items [] = []"
| "dict_items (PDict d # vs) = d # dict_items vs"
| "dict_items (_ # vs) = dict_items vs"

definition razorpay_link_items :: "(string \<times> pyval) list \<Rightarrow> ((string \<times> pyval) list) list" where
  "razorpay_link_items payload =
     (case dict_get_default payload ''items'' (PList []) of PList items \<Rightarrow> dict_items items | _ \<Rightarrow> [])"

text \<open>The settings the provider is built from; \<open>http m path body\<close> performs the exchange.\<close>

record razorpay_settings =
  set_environment :: string
  set_key_id :: string
  set_key_secret :: string
  set_account_id :: string
  set_webhook_secret :: string

definition from_settings ::
  "(string \<Rightarrow> string \<Rightarrow> (string \<times> pyval) list \<Rightarrow> http_outcome) \<Rightarrow> razorpay_settings \<Rightarrow> exn + payment_provider" where
  "from_settings http settings =
     (if lower (strip (set_environment settings)) \<noteq> ''test'' then Inl ConflictError
      else if strip (set_key_id settings) = [] \<or> strip (set_key_secret settings) = [] then Inl ConflictError
      else if strip (set_account_id settings) = [] then Inl ConflictError
      else Inr \<lparr>pp_account_id = strip (set_account_id settings), pp_environment = ''test'',
        pp_create_payment_link = (\<lambda>payload. razorpay_request (http ''POST'' ''/payment_links'' payload)),
        pp_fetch_payment_link = (\<lambda>i. razorpay_request (http ''GET'' (''/payment_links/'' @ i) [])),
        pp_list_payment_links = (\<lambda>reference.
          sum_map razorpay_link_items
            (razorpay_request (http ''GET'' ''/payment_links'' [(''reference_id'', PStr reference)])))\<rparr>)"

definition verify_webhook_signature :: "(string \<Rightarrow> string \<Rightarrow> string) \<Rightarrow> razorpay_settings \<Rightarrow> string \<Rightarrow> string \<Rightarrow> bool" where
  "verify_webhook_signature hmac_hex settings raw_body signature =
     (let secret = strip (set_webhook_secret settings) in
      secret \<noteq> [] \<and> signature \<noteq> [] \<and> hmac_hex secret raw_body = strip signature)"

section \<open>Rows\<close>

definition TEST_ENVIRONMENT :: string where "TEST_ENVIRONMENT = ''test''"
definition REFERENCE_PREFIX :: string where "REFERENCE_PREFIX = ''sg-''"

definition get_payment :: "uuid \<Rightarrow> payment_request option act" where
  "get_payment i = gets (\<lambda>s. row_by pr_id i (payment_requests s))"

definition put_payment :: "uuid \<Rightarrow> (payment_request \<Rightarrow> payment_request) \<Rightarrow> unit act" where
  "put_payment i f = modify (\<lambda>s. s\<lparr>payment_requests :=
     upd_row pr_id i (\<lambda>p. f (p\<lparr>pr_updated_at := clock s\<rparr>)) (payment_requests s)\<rparr>)"

definition put_link :: "uuid \<Rightarrow> (payment_link_attempt \<Rightarrow> payment_link_attempt) \<Rightarrow> unit act" where
  "put_link i f = modify (\<lambda>s. s\<lparr>payment_link_attempts :=
     upd_row pl_id i (\<lambda>l. f (l\<lparr>pl_updated_at := clock s\<rparr>)) (payment_link_attempts s)\<rparr>)"

definition add_link :: "payment_link_attempt \<Rightarrow> unit act" where
  "add_link = add_row payment_link_attempts (\<lambda>rows s. s\<lparr>payment_link_attempts := rows\<rparr>) payment_link_attempt_check
     (\<lambda>r q. pl_id r = pl_id q \<or>
        pl_payment_request_id r = pl_payment_request_id q \<and> pl_attempt_number r = pl_attempt_number q \<or>
        pl_provider_link_id r \<noteq> None \<and> pl_provider_link_id r = pl_provider_link_id q)"

definition add_payment_attempt :: "payment_attempt \<Rightarrow> unit act" where
  "add_payment_attempt = add_row payment_attempts (\<lambda>rows s. s\<lparr>payment_attempts := rows\<rparr>) payment_attempt_check
     (\<lambda>r q. pa_id r = pa_id q \<or> pa_provider_payment_id r = pa_provider_payment_id q)"

definition put_payment_attempt :: "uuid \<Rightarrow> (payment_attempt \<Rightarrow> payment_attempt) \<Rightarrow> unit act" where
  "put_payment_attempt i f = modify (\<lambda>s. s\<lparr>payment_attempts := upd_row pa_id i f (payment_attempts s)\<rparr>)"

definition add_ingress :: "payment_webhook_ingress \<Rightarrow> unit act" where
  "add_ingress = add_row payment_webhook_ingress_rows (\<lambda>rows s. s\<lparr>payment_webhook_ingress_rows := rows\<rparr>)
     payment_webhook_ingress_check
     (\<lambda>r q. wh_id r = wh_id q \<or> wh_provider_account_id r = wh_provider_account_id q \<and>
        wh_provider_environment r = wh_provider_environment q \<and> wh_provider_event_id r = wh_provider_event_id q)"

definition put_ingress :: "uuid \<Rightarrow> (payment_webhook_ingress \<Rightarrow> payment_webhook_ingress) \<Rightarrow> unit act" where
  "put_ingress i f =
     modify (\<lambda>s. s\<lparr>payment_webhook_ingress_rows := upd_row wh_id i f (payment_webhook_ingress_rows s)\<rparr>)"

definition add_observation :: "payment_observation \<Rightarrow> unit act" where
  "add_observation = add_row payment_observations (\<lambda>rows s. s\<lparr>payment_observations := rows\<rparr>)
     payment_observation_check
     (\<lambda>r q. po_id r = po_id q \<or> po_provider_account_id r = po_provider_account_id q \<and>
        po_provider_environment r = po_provider_environment q \<and> po_provider_event_id r = po_provider_event_id q)"

definition put_observation :: "uuid \<Rightarrow> (payment_observation \<Rightarrow> payment_observation) \<Rightarrow> unit act" where
  "put_observation i f =
     modify (\<lambda>s. s\<lparr>payment_observations := upd_row po_id i f (payment_observations s)\<rparr>)"

definition payment_reference :: "env \<Rightarrow> uuid \<Rightarrow> int \<Rightarrow> string" where
  "payment_reference E payment_request attempt_number =
     REFERENCE_PREFIX @ take 36 (sha256 E (uuid_str payment_request @ '':'' @ int_str attempt_number))"

definition find_payment :: "trusted_context \<Rightarrow> uuid \<Rightarrow> payment_request act" where
  "find_payment ctx i =
     bindE (gets (\<lambda>s. find (\<lambda>p. pr_id p = i \<and> pr_tenant_id p = ctx_tenant_id ctx) (payment_requests s))) (\<lambda>found.
     some_or NotFoundError found)"

definition accepted_revision :: "payment_request \<Rightarrow> proposal_revision act" where
  "accepted_revision p =
     bindE (gets (\<lambda>s. find (\<lambda>r. rev_id r = pr_accepted_revision_id p \<and> rev_tenant_id r = pr_tenant_id p)
       (proposal_revisions s))) (\<lambda>found.
     some_or ConflictError found)"

definition links_of :: "uuid \<Rightarrow> payment_link_attempt list \<Rightarrow> payment_link_attempt list" where
  "links_of payment rows = filter (\<lambda>l. pl_payment_request_id l = payment) rows"

definition latest_link :: "uuid \<Rightarrow> payment_link_attempt option act" where
  "latest_link payment = gets (\<lambda>s. top_by pl_attempt_number (links_of payment (payment_link_attempts s)))"

definition active_link :: "payment_request \<Rightarrow> payment_link_attempt option act" where
  "active_link p = gets (\<lambda>s. top_by pl_attempt_number
     (filter (\<lambda>l. pl_tenant_id l = pr_tenant_id p \<and> pl_status l = CREATED) (links_of (pr_id p) (payment_link_attempts s))))"

section \<open>Transitions\<close>

fun payment_transition_allowed :: "payment_status \<Rightarrow> payment_status \<Rightarrow> bool" where
  "payment_transition_allowed CREATION_PENDING PENDING = True"
| "payment_transition_allowed PENDING PAID = True"
| "payment_transition_allowed PAY_REVIEW_REQUIRED PAID = True"
| "payment_transition_allowed PENDING PAY_EXPIRED = True"
| "payment_transition_allowed PENDING PAY_CANCELLED = True"
| "payment_transition_allowed PAY_EXPIRED PENDING = True"
| "payment_transition_allowed PAY_CANCELLED PENDING = True"
| "payment_transition_allowed PAY_EXPIRED PAID = True"
| "payment_transition_allowed PAID REVERSED = True"
| "payment_transition_allowed _ _ = False"

definition payment_moved :: "payment_status \<Rightarrow> time \<Rightarrow> payment_request \<Rightarrow> payment_request" where
  "payment_moved target now p =
     p\<lparr>pr_status := target, pr_row_version := pr_row_version p + 1,
       pr_paid_at := (if target = PAID then (case pr_paid_at p of None \<Rightarrow> Some now | Some t \<Rightarrow> Some t) else pr_paid_at p)\<rparr>"

text \<open>\<open>_transition\<close> on the row with the given key, which the caller holds.\<close>

definition transition_payment :: "uuid \<Rightarrow> payment_status \<Rightarrow> unit act" where
  "transition_payment i target =
     bindE (get_payment i) (\<lambda>found.
     bindE (some_or NotFoundError found) (\<lambda>p.
     bindE the_time (\<lambda>now.
     if pr_status p = target then ret ()
     else if pr_status p = REVERSED then ret ()
     else if pr_status p = PAID \<and> target \<noteq> REVERSED then ret ()
     else if target = PAY_REVIEW_REQUIRED then
       (if pr_status p \<notin> {CREATION_PENDING, PENDING, PAY_REVIEW_REQUIRED} then raise ConflictError
        else put_payment i (payment_moved target now))
     else if \<not> payment_transition_allowed (pr_status p) target then raise ConflictError
     else put_payment i (payment_moved target now))))"

section \<open>Reading and creating links\<close>

record payment_read =
  prr_payment :: payment_request
  prr_provider_link_id :: "string option"
  prr_payment_link_url :: "string option"
  prr_payment_link_status :: "string option"
  prr_collected_minor :: int
  prr_job_id :: "uuid option"

definition read_payment_request :: "trusted_context \<Rightarrow> uuid \<Rightarrow> uuid option \<Rightarrow> payment_read act" where
  "read_payment_request ctx i job =
     bindE (find_payment ctx i) (\<lambda>p.
     bindE (active_link p) (\<lambda>link.
     bindE (gets (\<lambda>s. case link of
         None \<Rightarrow> 0
       | Some l \<Rightarrow> sum_list (map pa_amount_minor
           (filter (\<lambda>a. pa_link_attempt_id a = Some (pl_id l) \<and> pa_captured a) (payment_attempts s))))) (\<lambda>collected.
     ret \<lparr>prr_payment = p, prr_provider_link_id = Option.bind link pl_provider_link_id,
          prr_payment_link_url = Option.bind link pl_short_url,
          prr_payment_link_status = Option.bind link pl_provider_status,
          prr_collected_minor = collected, prr_job_id = job\<rparr>)))"

definition account_setting :: "env \<Rightarrow> string" where
  "account_setting E = strip (case razorpay_account_id E of
     None \<Rightarrow> ''fixture-account'' | Some a \<Rightarrow> if a = [] then ''fixture-account'' else a)"

definition environment_setting :: "env \<Rightarrow> string" where
  "environment_setting E = lower (strip (case razorpay_environment E of
     None \<Rightarrow> TEST_ENVIRONMENT | Some a \<Rightarrow> if a = [] then TEST_ENVIRONMENT else a))"

text \<open>\<open>int(t.timestamp())\<close>: whole seconds, towards zero.\<close>

definition timestamp_seconds :: "time \<Rightarrow> int" where
  "timestamp_seconds t = (if 0 \<le> t then t div 1000000 else - ((- t) div 1000000))"

definition link_payload :: "payment_request \<Rightarrow> proposal_revision \<Rightarrow> string \<Rightarrow> time \<Rightarrow> (string \<times> pyval) list" where
  "link_payload p revision reference expire_at =
     [(''amount'', PInt (pr_total_minor p)), (''currency'', PStr (pr_currency p)), (''accept_partial'', PBool False),
      (''reference_id'', PStr reference), (''description'', PStr (''ScopeGuard payment request '' @ reference)),
      (''customer'', PDict [(''email'', PStr (rev_recipient_email revision))]),
      (''notify'', PDict [(''email'', PBool False), (''sms'', PBool False)]), (''reminder_enable'', PBool False),
      (''expire_by'', PInt (timestamp_seconds expire_at))]"

definition link_action_key :: "uuid \<Rightarrow> int \<Rightarrow> string" where
  "link_action_key payment attempt_number =
     ''payment-link-create:'' @ uuid_str payment @ '':'' @ int_str attempt_number"

definition link_of_attempt :: "uuid \<Rightarrow> int \<Rightarrow> payment_link_attempt option act" where
  "link_of_attempt payment number =
     gets (\<lambda>s. find (\<lambda>l. pl_payment_request_id l = payment \<and> pl_attempt_number l = number) (payment_link_attempts s))"

text \<open>The part of \<open>prepare_payment_link\<close> after the reuse of an active link.\<close>

definition create_link_attempt :: "env \<Rightarrow> trusted_context \<Rightarrow> payment_request \<Rightarrow> (external_action \<times> job option) act" where
  "create_link_attempt E ctx p =
     bindE (latest_link (pr_id p)) (\<lambda>latest.
     bindE (ret ((case latest of None \<Rightarrow> 0 | Some l \<Rightarrow> pl_attempt_number l) + 1)) (\<lambda>number.
     bindE (require (number \<le> 3) ConflictError) (\<lambda>_.
     bindE (accepted_revision p) (\<lambda>revision.
     bindE (require (environment_setting E = TEST_ENVIRONMENT) ConflictError) (\<lambda>_.
     bindE the_time (\<lambda>now.
     bindE (ret (case pr_due_at p of None \<Rightarrow> now + days 7 | Some t \<Rightarrow> t)) (\<lambda>due_at.
     bindE (ret (case pr_expire_at p of None \<Rightarrow> due_at + days 7 | Some t \<Rightarrow> t)) (\<lambda>expire_at.
     bindE (perhaps (pr_due_at p = None \<or> pr_expire_at p = None)
        (put_payment (pr_id p) (\<lambda>q. q\<lparr>pr_due_at := Some due_at, pr_expire_at := Some expire_at\<rparr>))) (\<lambda>_.
     bindE (ret (payment_reference E (pr_id p) number)) (\<lambda>reference.
     bindE (prepare_external_action E (pr_tenant_id p) (link_action_key (pr_id p) number) ''razorpay''
        ''payment_links.create''
        (link_payload p revision reference expire_at @
         [(''provider_account_id'', PStr (account_setting E)), (''provider_environment'', PStr TEST_ENVIRONMENT)])
        (Some (pr_project_id p))) (\<lambda>action.
     bindE (link_of_attempt (pr_id p) number) (\<lambda>existing.
     bindE (case existing of
         Some _ \<Rightarrow> ret ()
       | None \<Rightarrow>
           bindE fresh_uuid (\<lambda>i.
           add_link \<lparr>pl_id = i, pl_tenant_id = pr_tenant_id p, pl_project_id = pr_project_id p,
             pl_payment_request_id = pr_id p, pl_attempt_number = number,
             pl_provider_account_id = account_setting E, pl_provider_environment = TEST_ENVIRONMENT,
             pl_reference_id = reference, pl_amount_minor = pr_total_minor p, pl_currency = pr_currency p,
             pl_status = LINK_READY, pl_provider_link_id = None, pl_provider_order_id = None,
             pl_short_url = None, pl_provider_status = None, pl_action_id = Some (act_id action),
             pl_provider_payload = None, pl_created_at = now, pl_updated_at = now\<rparr>)) (\<lambda>_.
     bindE (perhaps (pr_status p = CREATION_PENDING) (put_payment (pr_id p) (\<lambda>q. q))) (\<lambda>_.
     bindE (enqueue_now (pr_tenant_id p) ''payment.create''
        [(''payment_request_id'', PStr (uuid_str (pr_id p))), (''action_id'', PStr (uuid_str (act_id action)))]
        (ctx_correlation_id ctx) (Some (pr_project_id p)) None) (\<lambda>job.
     ret (action, Some job))))))))))))))))"

definition linked_action :: "payment_link_attempt \<Rightarrow> external_action option act" where
  "linked_action l = gets (\<lambda>s. Option.bind (pl_action_id l) (\<lambda>i. row_by act_id i (external_actions s)))"

definition prepare_payment_link :: "env \<Rightarrow> trusted_context \<Rightarrow> uuid \<Rightarrow> (external_action \<times> job option) act" where
  "prepare_payment_link E ctx i =
     bindE (find_payment ctx i) (\<lambda>p.
     bindE (require (pr_status p \<in> {CREATION_PENDING, PENDING}) ConflictError) (\<lambda>_.
     bindE (active_link p) (\<lambda>existing.
     bindE (case existing of None \<Rightarrow> ret None | Some l \<Rightarrow> linked_action l) (\<lambda>action.
     case action of
       Some a \<Rightarrow> ret (a, None)
     | None \<Rightarrow> create_link_attempt E ctx p))))"

section \<open>Dispatching a link\<close>

definition link_of_action :: "uuid \<Rightarrow> payment_link_attempt act" where
  "link_of_action action =
     bindE (gets (\<lambda>s. find (\<lambda>l. pl_action_id l = Some action) (payment_link_attempts s))) (\<lambda>found.
     some_or ConflictError found)"

definition validate_link_response ::
  "payment_link_attempt \<Rightarrow> (string \<times> pyval) list \<Rightarrow> exn + (string \<times> string \<times> string \<times> string option)" where
  "validate_link_response l response =
     (let provider_id = clean_str (dict_get response ''id'');
          short_url = clean_str (dict_get response ''short_url'');
          currency = upper (clean_str (dict_get response ''currency''));
          amount = dict_get response ''amount'';
          reference = clean_str (dict_get response ''reference_id'');
          order_id = or_none (clean_str (dict_get response ''order_id''))
      in if provider_id = [] \<or> short_url = [] then Inl (RazorpayProviderError ''razorpay_link_identity_missing'')
         else if \<not> eq_int amount (pl_amount_minor l) \<or> currency \<noteq> pl_currency l \<or> reference \<noteq> pl_reference_id l
         then Inl (RazorpayProviderError ''razorpay_link_terms_mismatch'')
         else Inr (provider_id, short_url, py_str (py_or (dict_get response ''status'') (PStr ''created'')), order_id))"

definition link_dispatch_failed :: "payment_link_attempt \<Rightarrow> payment_request \<Rightarrow> uuid \<Rightarrow> exn \<Rightarrow> 'a act" where
  "link_dispatch_failed l p action err =
     (case err of
        RazorpayProviderRetryable msg \<Rightarrow>
          bindE (put_link (pl_id l) (pl_status_update (\<lambda>_. LINK_UNKNOWN_OUTCOME))) (\<lambda>_.
          bindE (transition_payment (pr_id p) PAY_REVIEW_REQUIRED) (\<lambda>_.
          bindE (mark_action_unknown action msg) (\<lambda>_.
          raise err)))
      | RazorpayProviderError msg \<Rightarrow>
          bindE (put_link (pl_id l) (pl_status_update (\<lambda>_. LINK_REVIEW_REQUIRED))) (\<lambda>_.
          bindE (transition_payment (pr_id p) PAY_REVIEW_REQUIRED) (\<lambda>_.
          bindE (mark_action_review_required action msg) (\<lambda>_.
          raise err)))
      | _ \<Rightarrow>
          bindE (put_link (pl_id l) (pl_status_update (\<lambda>_. LINK_UNKNOWN_OUTCOME))) (\<lambda>_.
          bindE (transition_payment (pr_id p) PAY_REVIEW_REQUIRED) (\<lambda>_.
          bindE (mark_action_unknown action (exn_name err)) (\<lambda>_.
          raise err))))"

definition create_and_validate ::
  "payment_provider \<Rightarrow> payment_link_attempt \<Rightarrow> external_action \<Rightarrow>
   exn + ((string \<times> pyval) list \<times> string \<times> string \<times> string \<times> string option)" where
  "create_and_validate provider l a =
     (case pp_create_payment_link provider (act_approved_payload a) of
        Inl e \<Rightarrow> Inl e
      | Inr response \<Rightarrow> sum_map (Pair response) (validate_link_response l response))"

definition dispatch_payment_link :: "exn + payment_provider \<Rightarrow> uuid \<Rightarrow> string act" where
  "dispatch_payment_link client action =
     bindE (get_external_action action) (\<lambda>found.
     bindE (some_or NotFoundError found) (\<lambda>a.
     bindE (require (act_provider a = ''razorpay'' \<and> act_operation a = ''payment_links.create'') NotFoundError) (\<lambda>_.
     bindE (link_of_action action) (\<lambda>l.
     bindE (get_payment (pl_payment_request_id l)) (\<lambda>paid.
     bindE (some_or NotFoundError paid) (\<lambda>p.
     case (if act_state a = SUCCEEDED then Option.bind (pl_provider_link_id l) or_none else None) of
       Some link \<Rightarrow> ret link
     | None \<Rightarrow>
         bindE (require (pr_status p \<in> {CREATION_PENDING, PENDING}) ConflictError) (\<lambda>_.
         bindE (case client of Inl e \<Rightarrow> raise e | Inr c \<Rightarrow> ret c) (\<lambda>provider.
         bindE (require (pp_environment provider = TEST_ENVIRONMENT \<and>
             pp_account_id provider = pl_provider_account_id l) ConflictError) (\<lambda>_.
         bindE (begin_action_dispatch action []) (\<lambda>_.
         case create_and_validate provider l a of
           Inl err \<Rightarrow> link_dispatch_failed l p action err
         | Inr (response, provider_id, short_url, provider_status, order_id) \<Rightarrow>
             bindE (put_link (pl_id l) (\<lambda>q. q\<lparr>pl_status := CREATED, pl_provider_link_id := Some provider_id,
                pl_provider_order_id := order_id, pl_short_url := Some short_url,
                pl_provider_status := Some provider_status, pl_provider_payload := Some response\<rparr>)) (\<lambda>_.
             bindE (transition_payment (pr_id p) PENDING) (\<lambda>_.
             bindE (complete_action action [(''provider'', PStr ''razorpay''),
                (''operation'', PStr ''payment_links.create''), (''provider_link_id'', PStr provider_id)]
                (Some provider_id) []) (\<lambda>_.
             ret provider_id)))))))))))))"

section \<open>Webhooks\<close>

text \<open>\<open>_entity(payload, name)\<close>: \<open>payload["payload"][name]["entity"]\<close>, or empty at any gap.\<close>

definition entity :: "(string \<times> pyval) list \<Rightarrow> string \<Rightarrow> (string \<times> pyval) list" where
  "entity payload name =
     (case as_dict (dict_get payload ''payload'') of
        None \<Rightarrow> []
      | Some parent \<Rightarrow> (case as_dict (dict_get parent name) of
            None \<Rightarrow> []
          | Some v \<Rightarrow> (case as_dict (dict_get v ''entity'') of None \<Rightarrow> [] | Some e \<Rightarrow> e)))"

definition link_of_provider :: "string \<Rightarrow> string \<Rightarrow> string \<Rightarrow> payment_link_attempt list \<Rightarrow> payment_link_attempt option" where
  "link_of_provider link account environment rows =
     find (\<lambda>l. pl_provider_link_id l = Some link \<and> pl_provider_account_id l = account \<and>
               pl_provider_environment l = environment) rows"

definition link_of_reference :: "string \<Rightarrow> string \<Rightarrow> string \<Rightarrow> payment_link_attempt list \<Rightarrow> payment_link_attempt option" where
  "link_of_reference reference account environment rows =
     top_by pl_attempt_number
       (filter (\<lambda>l. pl_reference_id l = reference \<and> pl_provider_account_id l = account \<and>
                    pl_provider_environment l = environment) rows)"

text \<open>A link by its provider identity, or else by its reference.\<close>

definition link_for_event :: "string \<Rightarrow> string \<Rightarrow> string \<Rightarrow> string \<Rightarrow> payment_link_attempt list \<Rightarrow> payment_link_attempt option" where
  "link_for_event link reference account environment rows =
     (case (if link = [] then None else link_of_provider link account environment rows) of
        Some l \<Rightarrow> Some l
      | None \<Rightarrow> if reference = [] then None else link_of_reference reference account environment rows)"

definition ingress_for :: "string \<Rightarrow> string \<Rightarrow> string \<Rightarrow> payment_webhook_ingress list \<Rightarrow> payment_webhook_ingress option" where
  "ingress_for account environment event rows =
     find (\<lambda>w. wh_provider_account_id w = account \<and> wh_provider_environment w = environment \<and>
               wh_provider_event_id w = event) rows"

text \<open>\<open>provider_event_id.strip() or canonical_sha256(payload)\<close>.\<close>

definition webhook_event_id :: "env \<Rightarrow> string \<Rightarrow> (string \<times> pyval) list \<Rightarrow> string act" where
  "webhook_event_id E event payload =
     (if strip event \<noteq> [] then ret (strip event) else digest_of E (PDict payload))"

definition store_webhook :: "string \<Rightarrow> string \<Rightarrow> string \<Rightarrow> string \<Rightarrow> (string \<times> pyval) list \<Rightarrow> time option \<Rightarrow>
    (payment_webhook_ingress \<times> job option) act" where
  "store_webhook account environment event kind payload observed_at =
     bindE fresh_uuid (\<lambda>i.
     bindE (time_or_now observed_at) (\<lambda>received.
     bindE (ret \<lparr>wh_id = i, wh_provider_account_id = account, wh_provider_environment = environment,
        wh_provider_event_id = event, wh_event_type = kind, wh_signature_verified = True, wh_raw_payload = payload,
        wh_normalization_state = NORM_PENDING, wh_observation_id = None, wh_normalized_at = None,
        wh_last_error = None, wh_received_at = received\<rparr>) (\<lambda>w.
     bindE (add_ingress w) (\<lambda>_.
     bindE (gets (\<lambda>s. link_for_event (clean_str (dict_get (entity payload ''payment_link'') ''id''))
        (clean_str (dict_get (entity payload ''payment_link'') ''reference_id'')) account environment
        (payment_link_attempts s))) (\<lambda>target.
     case target of
       None \<Rightarrow> ret (w, None)
     | Some l \<Rightarrow>
         bindE fresh_uuid (\<lambda>correlation.
         bindE (enqueue_now (pl_tenant_id l) ''payment.webhook.normalize''
            [(''ingress_id'', PStr (uuid_str i))] correlation (Some (pl_project_id l)) None) (\<lambda>job.
         ret (w, Some job))))))))"

definition accept_payment_webhook ::
  "env \<Rightarrow> string \<Rightarrow> string \<Rightarrow> string \<Rightarrow> string \<Rightarrow> (string \<times> pyval) list \<Rightarrow> bool \<Rightarrow> time option \<Rightarrow>
   (payment_webhook_ingress \<times> job option) act" where
  "accept_payment_webhook E account_id environment provider_event_id event_type payload signature_verified observed_at =
     bindE (require (environment = TEST_ENVIRONMENT) ValidationError) (\<lambda>_.
     bindE (require signature_verified ValidationError) (\<lambda>_.
     bindE (require (strip account_id \<noteq> [] \<and> strip event_type \<noteq> []) ValidationError) (\<lambda>_.
     bindE (webhook_event_id E provider_event_id payload) (\<lambda>event.
     bindE (gets (\<lambda>s. ingress_for (strip account_id) environment event (payment_webhook_ingress_rows s))) (\<lambda>existing.
     case existing of
       Some w \<Rightarrow> ret (w, None)
     | None \<Rightarrow> store_webhook (strip account_id) environment event (strip event_type) payload observed_at)))))"

section \<open>Observations\<close>

text \<open>\<open>json.dumps(payload, sort_keys=True)\<close>, with the default separators; for ASCII text.\<close>

fun dumps_spaced :: "pyval \<Rightarrow> string" where
  "dumps_spaced (PList xs) = ''['' @ join '', '' (map dumps_spaced xs) @ '']''"
| "dumps_spaced (PDict d) =
     ''{'' @ join '', '' (map (\<lambda>kv. json_str (fst kv) @ '': '' @ snd kv)
                      (sort_key fst (map (\<lambda>kv. (fst kv, dumps_spaced (snd kv))) d))) @ ''}''"
| "dumps_spaced v = dumps v"

text \<open>What an event says, in the order the code reads it.\<close>

record payment_event =
  pe_link_id :: "string option"
  pe_payment_id :: "string option"
  pe_order_id :: "string option"
  pe_reference :: "string option"
  pe_amount :: "int option"
  pe_currency :: "string option"
  pe_status :: string
  pe_payment_entity :: "(string \<times> pyval) list"

definition read_event :: "string \<Rightarrow> (string \<times> pyval) list \<Rightarrow> payment_event" where
  "read_event event_type payload =
     (let link = entity payload ''payment_link'';
          payment = entity payload ''payment'';
          order = entity payload ''order'';
          raw_amount = dict_get_default payment ''amount''
            (dict_get_default link ''amount_paid'' (dict_get link ''amount''))
      in \<lparr>pe_link_id = or_none (clean_str (dict_get link ''id'')),
          pe_payment_id = or_none (clean_str (dict_get payment ''id'')),
          pe_order_id = or_none (clean_str (py_or (dict_get payment ''order_id'') (dict_get order ''id''))),
          pe_reference = or_none (clean_str (dict_get link ''reference_id'')),
          pe_amount = strict_int raw_amount,
          pe_currency = or_none (upper (clean_str (py_or (dict_get payment ''currency'') (dict_get link ''currency'')))),
          pe_status = strip (py_str (py_or (py_or (dict_get payment ''status'') (dict_get link ''status'')) (PStr event_type))),
          pe_payment_entity = payment\<rparr>)"

definition capture_event :: "string \<Rightarrow> bool" where
  "capture_event event_type \<longleftrightarrow>
     lower event_type \<in> {''payment_link.paid'', ''payment.captured'', ''payment.authorized''}"

definition captured_status :: "string \<Rightarrow> bool" where
  "captured_status st \<longleftrightarrow> lower st \<in> {''captured'', ''paid''}"

text \<open>The event does not confirm the frozen terms of the link.\<close>

definition event_mismatch :: "string \<Rightarrow> string \<Rightarrow> string \<Rightarrow> payment_event \<Rightarrow> payment_link_attempt option \<Rightarrow> bool" where
  "event_mismatch account environment event_type ev link =
     (case link of
        None \<Rightarrow> True
      | Some l \<Rightarrow>
          pl_provider_account_id l \<noteq> account \<or> pl_provider_environment l \<noteq> environment \<or>
          pe_reference ev \<noteq> Some (pl_reference_id l) \<or> pe_amount ev \<noteq> Some (pl_amount_minor l) \<or>
          pe_currency ev \<noteq> Some (pl_currency l) \<or> (capture_event event_type \<and> pe_order_id ev = None) \<or>
          (pl_provider_order_id l \<noteq> None \<and> pe_order_id ev \<noteq> pl_provider_order_id l))"

definition attempt_for_payment :: "string \<Rightarrow> payment_attempt list \<Rightarrow> payment_attempt option" where
  "attempt_for_payment payment rows = find (\<lambda>a. pa_provider_payment_id a = payment) rows"

text \<open>The payment attempt of an event: the stored one, or a new one when the amount is in bounds.\<close>

definition attempt_of_event :: "payment_event \<Rightarrow> payment_request option \<Rightarrow> payment_link_attempt option \<Rightarrow>
    payment_attempt option act" where
  "attempt_of_event ev request link =
     (case pe_payment_id ev of
        None \<Rightarrow> ret None
      | Some payment \<Rightarrow>
          bindE (gets (\<lambda>s. attempt_for_payment payment (payment_attempts s))) (\<lambda>existing.
          case existing of
            Some a \<Rightarrow> ret (Some a)
          | None \<Rightarrow>
              (case pe_amount ev of
                 None \<Rightarrow> ret None
               | Some amount \<Rightarrow>
                   if 0 < amount \<and> amount \<le> 100000000 then
                     bindE fresh_uuid (\<lambda>i.
                     bindE the_time (\<lambda>now.
                     bindE (ret \<lparr>pa_id = i, pa_tenant_id = map_option pr_tenant_id request,
                        pa_project_id = map_option pr_project_id request, pa_link_attempt_id = map_option pl_id link,
                        pa_provider_payment_id = payment, pa_provider_order_id = pe_order_id ev,
                        pa_amount_minor = amount,
                        pa_currency = (case pe_currency ev of None \<Rightarrow> ''INR'' | Some c \<Rightarrow> c),
                        pa_status = pe_status ev, pa_captured = captured_status (pe_status ev),
                        pa_provider_created_at = None,
                        pa_provider_payload = (if pe_payment_entity ev = [] then None else Some (pe_payment_entity ev)),
                        pa_observed_at = now, pa_created_at = now\<rparr>) (\<lambda>a.
                     bindE (add_payment_attempt a) (\<lambda>_.
                     ret (Some a)))))
                   else ret None)))"

definition observation_for :: "string \<Rightarrow> string \<Rightarrow> string \<Rightarrow> payment_observation list \<Rightarrow> payment_observation option" where
  "observation_for account environment event rows =
     find (\<lambda>p. po_provider_account_id p = account \<and> po_provider_environment p = environment \<and>
               po_provider_event_id p = event) rows"

text \<open>The effect of a matched event on its link and payment request.\<close>

definition apply_event :: "string \<Rightarrow> payment_event \<Rightarrow> bool \<Rightarrow> payment_link_attempt \<Rightarrow> payment_request \<Rightarrow>
    payment_attempt option \<Rightarrow> unit act" where
  "apply_event event_type ev mismatch l p attempt =
     (if mismatch then
        bindE (put_link (pl_id l) (pl_status_update (\<lambda>_. LINK_REVIEW_REQUIRED))) (\<lambda>_.
        transition_payment (pr_id p) PAY_REVIEW_REQUIRED)
      else
        bindE (perhaps (capture_event event_type \<and> pl_provider_order_id l = None)
          (put_link (pl_id l) (pl_provider_order_id_update (\<lambda>_. pe_order_id ev)))) (\<lambda>_.
        if capture_event event_type \<and> (case attempt of None \<Rightarrow> True | Some a \<Rightarrow> \<not> pa_captured a) then
          bindE (put_link (pl_id l) (pl_status_update (\<lambda>_. LINK_REVIEW_REQUIRED))) (\<lambda>_.
          transition_payment (pr_id p) PAY_REVIEW_REQUIRED)
        else if lower event_type \<in> {''payment_link.paid'', ''payment.captured''} then
          transition_payment (pr_id p) PAID
        else if lower event_type \<in> {''payment_link.expired'', ''payment.expired''} then
          bindE (put_link (pl_id l) (pl_status_update (\<lambda>_. LINK_EXPIRED))) (\<lambda>_.
          perhaps (pr_status p = PENDING) (transition_payment (pr_id p) PAY_EXPIRED))
        else if lower event_type \<in> {''payment_link.cancelled'', ''payment_link.canceled''} then
          bindE (put_link (pl_id l) (pl_status_update (\<lambda>_. LINK_CANCELLED))) (\<lambda>_.
          perhaps (pr_status p = PENDING) (transition_payment (pr_id p) PAY_CANCELLED))
        else ret ()))"

definition store_observation :: "string \<Rightarrow> string \<Rightarrow> string \<Rightarrow> string \<Rightarrow> (string \<times> pyval) list \<Rightarrow> time option \<Rightarrow>
    payment_event \<Rightarrow> payment_request option \<Rightarrow> payment_link_attempt option \<Rightarrow> payment_attempt option \<Rightarrow>
    payment_observation act" where
  "store_observation account environment event event_type payload observed_at ev request link attempt =
     bindE fresh_uuid (\<lambda>i.
     bindE the_time (\<lambda>now.
     bindE (time_or_now observed_at) (\<lambda>seen.
     bindE (ret (request \<noteq> None \<and> link \<noteq> None)) (\<lambda>matched.
     bindE (ret \<lparr>po_id = i, po_tenant_id = map_option pr_tenant_id request, po_project_id = map_option pr_project_id request,
        po_payment_request_id = map_option pr_id request, po_link_attempt_id = map_option pl_id link,
        po_payment_attempt_id = map_option pa_id attempt, po_provider_account_id = account,
        po_provider_environment = environment, po_provider_event_id = event, po_event_type = event_type,
        po_provider_link_id = pe_link_id ev, po_provider_payment_id = pe_payment_id ev,
        po_provider_order_id = pe_order_id ev, po_reference_id = pe_reference ev, po_amount_minor = pe_amount ev,
        po_currency = pe_currency ev, po_observed_status = pe_status ev, po_signature_verified = True,
        po_raw_payload = payload, po_observed_at = seen, po_created_at = now,
        po_association_state = (if matched then ASSOCIATED else UNMATCHED),
        po_next_retry_at = (if matched then None else Some (seen + hours 24)),
        po_associated_at = (if matched then Some seen else None)\<rparr>) (\<lambda>obs.
     bindE (add_observation obs) (\<lambda>_.
     ret obs))))))"

definition observe_payment_event ::
  "env \<Rightarrow> string \<Rightarrow> string \<Rightarrow> string \<Rightarrow> string \<Rightarrow> (string \<times> pyval) list \<Rightarrow> bool \<Rightarrow> time option \<Rightarrow> payment_observation act" where
  "observe_payment_event E account environment provider_event_id event_type payload signature_verified observed_at =
     bindE (require (environment = TEST_ENVIRONMENT) ValidationError) (\<lambda>_.
     bindE (require signature_verified ValidationError) (\<lambda>_.
     bindE (ret (if strip provider_event_id \<noteq> [] then strip provider_event_id
                 else sha256 E (dumps_spaced (PDict payload)))) (\<lambda>event.
     bindE (gets (\<lambda>s. observation_for account environment event (payment_observations s))) (\<lambda>existing.
     case existing of
       Some obs \<Rightarrow> ret obs
     | None \<Rightarrow>
         bindE (ret (read_event event_type payload)) (\<lambda>ev.
         bindE (gets (\<lambda>s. Option.bind (pe_link_id ev) (\<lambda>i.
            find (\<lambda>l. pl_provider_link_id l = Some i) (payment_link_attempts s)))) (\<lambda>link.
         bindE (gets (\<lambda>s. Option.bind link (\<lambda>l. row_by pr_id (pl_payment_request_id l) (payment_requests s)))) (\<lambda>request.
         bindE (attempt_of_event ev request link) (\<lambda>attempt.
         bindE (store_observation account environment event event_type payload observed_at ev request link attempt) (\<lambda>obs.
         bindE (case (link, request) of
             (Some l, Some p) \<Rightarrow>
               apply_event event_type ev (event_mismatch account environment event_type ev link) l p attempt
           | _ \<Rightarrow> ret ()) (\<lambda>_.
         ret obs))))))))))"

text \<open>The link an ingress names, for the tenant check of a worker job.\<close>

definition ingress_target :: "payment_webhook_ingress \<Rightarrow> payment_link_attempt option act" where
  "ingress_target w =
     (let link = clean_str (dict_get (entity (wh_raw_payload w) ''payment_link'') ''id'');
          reference = clean_str (dict_get (entity (wh_raw_payload w) ''payment_link'') ''reference_id'')
      in if link = [] \<and> reference = [] then raise NotFoundError
         else gets (\<lambda>s. top_by pl_attempt_number (filter
           (\<lambda>l. pl_provider_account_id l = wh_provider_account_id w \<and>
                pl_provider_environment l = wh_provider_environment w \<and>
                (if link \<noteq> [] then pl_provider_link_id l = Some link else pl_reference_id l = reference))
           (payment_link_attempts s))))"

definition check_ingress_tenant :: "payment_webhook_ingress \<Rightarrow> uuid option \<Rightarrow> unit act" where
  "check_ingress_tenant w expected_tenant =
     (case expected_tenant of
        None \<Rightarrow> ret ()
      | Some tenant \<Rightarrow>
          bindE (ingress_target w) (\<lambda>target.
          require (case target of None \<Rightarrow> False | Some l \<Rightarrow> pl_tenant_id l = tenant) NotFoundError))"

text \<open>
  An exception is noted on the ingress and raised again. After a failed flush the session takes no
  further statement before a rollback: the flush of the note raises in its turn.
\<close>

definition normalize_payment_webhook :: "env \<Rightarrow> uuid \<Rightarrow> uuid option \<Rightarrow> payment_observation act" where
  "normalize_payment_webhook E i expected_tenant =
     bindE (gets (\<lambda>s. row_by wh_id i (payment_webhook_ingress_rows s))) (\<lambda>found.
     bindE (some_or NotFoundError found) (\<lambda>w.
     bindE (check_ingress_tenant w expected_tenant) (\<lambda>_.
     case (if wh_normalization_state w = NORMALIZED then wh_observation_id w else None) of
       Some o_id \<Rightarrow>
         bindE (gets (\<lambda>s. row_by po_id o_id (payment_observations s))) (\<lambda>stored.
         bindE (some_or ConflictError stored) (\<lambda>obs.
         bindE (require (expected_tenant = None \<or> po_tenant_id obs = expected_tenant) NotFoundError) (\<lambda>_.
         ret obs)))
     | None \<Rightarrow>
         bindE (catchE
           (observe_payment_event E (wh_provider_account_id w) (wh_provider_environment w) (wh_provider_event_id w)
              (wh_event_type w) (wh_raw_payload w) (wh_signature_verified w) (Some (wh_received_at w)))
           (\<lambda>err. if err = IntegrityError then raise PendingRollbackError
              else bindE (put_ingress i (\<lambda>r. r\<lparr>wh_normalization_state := NORM_REVIEW_REQUIRED,
                wh_last_error := Some (take 120 (exn_name err))\<rparr>)) (\<lambda>_. raise err))) (\<lambda>obs.
         bindE the_time (\<lambda>now.
         bindE (put_ingress i (\<lambda>r. r\<lparr>wh_normalization_state := NORMALIZED, wh_observation_id := Some (po_id obs),
            wh_normalized_at := Some now, wh_last_error := None\<rparr>)) (\<lambda>_.
         ret obs))))))"

text \<open>The sweep: each pending ingress in a savepoint of its own; a failed one is skipped.\<close>

definition normalize_one :: "env \<Rightarrow> uuid \<Rightarrow> nat act" where
  "normalize_one E i =
     catchE (bindE (atomically (normalize_payment_webhook E i None)) (\<lambda>_. ret 1)) (\<lambda>_. ret 0)"

definition pending_webhooks :: "nat \<Rightarrow> payment_webhook_ingress list \<Rightarrow> uuid list" where
  "pending_webhooks limit rows =
     map wh_id (take limit (sort_key (\<lambda>w. (wh_received_at w, wh_id w))
       (filter (\<lambda>w. wh_normalization_state w = NORM_PENDING) rows)))"

definition normalize_pending_payment_webhooks :: "env \<Rightarrow> nat \<Rightarrow> nat act" where
  "normalize_pending_payment_webhooks E limit =
     bindE (gets (\<lambda>s. pending_webhooks limit (payment_webhook_ingress_rows s))) (\<lambda>ids.
     bindE (mapE (normalize_one E) ids) (\<lambda>counts.
     ret (sum_list counts)))"

section \<open>Replay of unmatched observations\<close>

definition replay_matches :: "payment_observation \<Rightarrow> payment_link_attempt \<Rightarrow> bool" where
  "replay_matches obs l \<longleftrightarrow>
     po_reference_id obs = Some (pl_reference_id l) \<and> po_amount_minor obs = Some (pl_amount_minor l) \<and>
     po_currency obs = Some (pl_currency l)"

definition replay_capture :: "payment_observation \<Rightarrow> bool" where
  "replay_capture obs \<longleftrightarrow> lower (po_event_type obs) \<in> {''payment_link.paid'', ''payment.captured''}"

definition replay_attempt :: "payment_observation \<Rightarrow> payment_request \<Rightarrow> payment_link_attempt \<Rightarrow> uuid option act" where
  "replay_attempt obs p l =
     (case Option.bind (po_provider_payment_id obs) or_none of
        None \<Rightarrow> ret (po_payment_attempt_id obs)
      | Some payment \<Rightarrow>
          bindE (gets (\<lambda>s. attempt_for_payment payment (payment_attempts s))) (\<lambda>existing.
          bindE (case (existing, po_amount_minor obs, Option.bind (po_currency obs) or_none) of
              (None, Some amount, Some currency) \<Rightarrow>
                bindE fresh_uuid (\<lambda>i.
                bindE the_time (\<lambda>now.
                bindE (ret \<lparr>pa_id = i, pa_tenant_id = Some (pr_tenant_id p), pa_project_id = Some (pr_project_id p),
                   pa_link_attempt_id = Some (pl_id l), pa_provider_payment_id = payment,
                   pa_provider_order_id = po_provider_order_id obs, pa_amount_minor = amount, pa_currency = currency,
                   pa_status = po_observed_status obs, pa_captured = captured_status (po_observed_status obs),
                   pa_provider_created_at = None, pa_provider_payload = Some (po_raw_payload obs),
                   pa_observed_at = now, pa_created_at = now\<rparr>) (\<lambda>a.
                bindE (add_payment_attempt a) (\<lambda>_.
                ret (Some a)))))
            | _ \<Rightarrow> ret existing) (\<lambda>attempt.
          case attempt of
            None \<Rightarrow> ret (po_payment_attempt_id obs)
          | Some a \<Rightarrow>
              bindE (put_payment_attempt (pa_id a) (pa_link_attempt_id_update (\<lambda>_. Some (pl_id l)))) (\<lambda>_.
              ret (Some (pa_id a))))))"

definition replay_effect :: "payment_observation \<Rightarrow> uuid option \<Rightarrow> payment_request \<Rightarrow> payment_link_attempt \<Rightarrow> unit act" where
  "replay_effect obs attempt p l =
     (if replay_capture obs \<and> attempt \<noteq> None \<and> po_amount_minor obs = Some (pr_total_minor p) then
        bindE (ret (case pl_provider_order_id l of None \<Rightarrow> po_provider_order_id obs | Some ord \<Rightarrow> Some ord)) (\<lambda>order.
        bindE (perhaps (pl_provider_order_id l = None)
          (put_link (pl_id l) (pl_provider_order_id_update (\<lambda>_. order)))) (\<lambda>_.
        perhaps (Option.bind (po_provider_order_id obs) or_none \<noteq> None \<and> order = po_provider_order_id obs)
          (bindE (put_link (pl_id l) (pl_status_update (\<lambda>_. CREATED))) (\<lambda>_.
           transition_payment (pr_id p) PAID))))
      else if replay_capture obs then
        bindE (put_link (pl_id l) (pl_status_update (\<lambda>_. LINK_REVIEW_REQUIRED))) (\<lambda>_.
        transition_payment (pr_id p) PAY_REVIEW_REQUIRED)
      else ret ())"

definition replay_one :: "time \<Rightarrow> payment_observation \<Rightarrow> nat act" where
  "replay_one current obs =
     bindE (gets (\<lambda>s. link_for_event (case po_provider_link_id obs of None \<Rightarrow> [] | Some i \<Rightarrow> i)
        (case po_reference_id obs of None \<Rightarrow> [] | Some r \<Rightarrow> r)
        (po_provider_account_id obs) (po_provider_environment obs) (payment_link_attempts s))) (\<lambda>link.
     bindE (gets (\<lambda>s. Option.bind link (\<lambda>l. row_by pr_id (pl_payment_request_id l) (payment_requests s)))) (\<lambda>request.
     case (link, request) of
       (Some l, Some p) \<Rightarrow>
         if replay_matches obs l then
           bindE (replay_attempt obs p l) (\<lambda>attempt.
           bindE (put_observation (po_id obs) (\<lambda>q. q\<lparr>po_tenant_id := Some (pr_tenant_id p),
              po_project_id := Some (pr_project_id p), po_payment_request_id := Some (pr_id p),
              po_link_attempt_id := Some (pl_id l), po_payment_attempt_id := attempt,
              po_association_state := ASSOCIATED, po_associated_at := Some current, po_next_retry_at := None\<rparr>)) (\<lambda>_.
           bindE (replay_effect obs attempt p l) (\<lambda>_.
           ret 1)))
         else bindE (perhaps (case po_next_retry_at obs of None \<Rightarrow> False | Some t \<Rightarrow> t \<le> current)
             (put_observation (po_id obs) (\<lambda>q. q\<lparr>po_association_state := MANUAL_REVIEW, po_next_retry_at := None\<rparr>))) (\<lambda>_.
           ret 0)
     | _ \<Rightarrow>
         bindE (perhaps (case po_next_retry_at obs of None \<Rightarrow> False | Some t \<Rightarrow> t \<le> current)
             (put_observation (po_id obs) (\<lambda>q. q\<lparr>po_association_state := MANUAL_REVIEW, po_next_retry_at := None\<rparr>))) (\<lambda>_.
           ret 0)))"

definition unmatched_observations :: "nat \<Rightarrow> payment_observation list \<Rightarrow> payment_observation list" where
  "unmatched_observations limit rows =
     take limit (sort_key (\<lambda>p. (po_observed_at p, po_id p)) (filter (\<lambda>p. po_association_state p = UNMATCHED) rows))"

definition replay_unmatched_payment_observations :: "time option \<Rightarrow> nat \<Rightarrow> nat act" where
  "replay_unmatched_payment_observations now limit =
     bindE (time_or_now now) (\<lambda>current.
     bindE (gets (\<lambda>s. unmatched_observations limit (payment_observations s))) (\<lambda>rows.
     bindE (mapE (replay_one current) rows) (\<lambda>counts.
     ret (sum_list counts))))"

section \<open>Reconciliation\<close>

definition link_candidates :: "payment_link_attempt \<Rightarrow> ((string \<times> pyval) list) list \<Rightarrow> ((string \<times> pyval) list) list" where
  "link_candidates l items =
     filter (\<lambda>item. clean_str (dict_get item ''reference_id'') = pl_reference_id l \<and>
        eq_int (dict_get item ''amount'') (pl_amount_minor l) \<and>
        upper (py_str (py_or (dict_get item ''currency'') (PStr []))) = pl_currency l) items"

definition adopt_link :: "payment_link_attempt \<Rightarrow> (string \<times> pyval) list \<Rightarrow> unit act" where
  "adopt_link l response =
     put_link (pl_id l) (\<lambda>q. q\<lparr>pl_provider_link_id := or_none (clean_str (dict_get response ''id'')),
        pl_short_url := or_none (clean_str (dict_get response ''short_url'')),
        pl_provider_status := Some (py_str (py_or (dict_get response ''status'') (PStr ''created''))),
        pl_provider_order_id := or_none (clean_str (dict_get response ''order_id'')),
        pl_provider_payload := Some response\<rparr>)"

text \<open>The provider identity of the attempt, looked up by reference when it was never saved.\<close>

definition known_link_id :: "payment_provider \<Rightarrow> payment_request \<Rightarrow> payment_link_attempt \<Rightarrow> string act" where
  "known_link_id provider p l =
     (case Option.bind (pl_provider_link_id l) or_none of
        Some i \<Rightarrow> ret i
      | None \<Rightarrow>
          bindE (case pp_list_payment_links provider (pl_reference_id l) of Inl e \<Rightarrow> raise e | Inr items \<Rightarrow> ret items) (\<lambda>items.
          if link_candidates l items \<noteq> [] then
            bindE (adopt_link l (last (link_candidates l items))) (\<lambda>_.
            some_or ConflictError (or_none (clean_str (dict_get (last (link_candidates l items)) ''id''))))
          else
            bindE (put_link (pl_id l) (pl_status_update (\<lambda>_. LINK_UNKNOWN_OUTCOME))) (\<lambda>_.
            bindE (transition_payment (pr_id p) PAY_REVIEW_REQUIRED) (\<lambda>_.
            raise ConflictError))))"

text \<open>The event that reconciliation makes of the provider's answer.\<close>

definition reconcile_event :: "payment_request \<Rightarrow> (string \<times> pyval) list \<Rightarrow> string" where
  "reconcile_event p response =
     (let status = lower (py_str (py_or (dict_get response ''status'') (PStr [])));
          paid = (case strict_int (dict_get response ''amount_paid'') of None \<Rightarrow> 0 | Some n \<Rightarrow> n)
      in if status = ''paid'' \<or> paid = pr_total_minor p then ''payment_link.paid''
         else if status = ''expired'' then ''payment_link.expired''
         else if status \<in> {''cancelled'', ''canceled''} then ''payment_link.cancelled''
         else ''payment_link.reconciled'')"

definition reconcile_payload :: "string \<Rightarrow> (string \<times> pyval) list \<Rightarrow> (string \<times> pyval) list" where
  "reconcile_payload event response =
     [(''event'', PStr event),
      (''payload'', PDict ((''payment_link'', PDict response) #
         (case dict_get response ''payments'' of
            PList (PDict d # _) \<Rightarrow> [(''payment'', PDict d)] | _ \<Rightarrow> []) @
         (if truthy (dict_get response ''order_id'')
          then [(''order'', PDict [(''id'', dict_get response ''order_id'')])] else [])))]"

definition reconcile_payment_request ::
  "env \<Rightarrow> exn + payment_provider \<Rightarrow> trusted_context \<Rightarrow> uuid \<Rightarrow> payment_observation act" where
  "reconcile_payment_request E client ctx i =
     bindE (find_payment ctx i) (\<lambda>p.
     bindE (latest_link (pr_id p)) (\<lambda>latest.
     bindE (case client of Inl e \<Rightarrow> raise e | Inr c \<Rightarrow> ret c) (\<lambda>provider.
     bindE (require (pp_environment provider = TEST_ENVIRONMENT) ConflictError) (\<lambda>_.
     bindE (some_or ConflictError latest) (\<lambda>l.
     bindE (require (pp_account_id provider = pl_provider_account_id l) ConflictError) (\<lambda>_.
     bindE (known_link_id provider p l) (\<lambda>link.
     bindE (case pp_fetch_payment_link provider link of Inl e \<Rightarrow> raise e | Inr r \<Rightarrow> ret r) (\<lambda>response.
     bindE (digest_of E (PDict response)) (\<lambda>digest.
     observe_payment_event E (pl_provider_account_id l) (pl_provider_environment l)
       (''reconcile:'' @ link @ '':'' @ digest) (reconcile_event p response)
       (reconcile_payload (reconcile_event p response) response) True None)))))))))"

section \<open>Maintenance and replacement\<close>

definition saved_link :: "uuid \<Rightarrow> payment_link_attempt option act" where
  "saved_link payment = gets (\<lambda>s. top_by pl_attempt_number
     (filter (\<lambda>l. pl_provider_link_id l \<noteq> None) (links_of payment (payment_link_attempts s))))"

definition last_observation :: "uuid \<Rightarrow> time option act" where
  "last_observation payment = gets (\<lambda>s. map_option po_created_at
     (top_by po_created_at (filter (\<lambda>p. po_payment_request_id p = Some payment) (payment_observations s))))"

definition reconcile_pending :: "payment_request \<Rightarrow> job list \<Rightarrow> bool" where
  "reconcile_pending p rows \<longleftrightarrow>
     list_ex (\<lambda>j. job_tenant_id j = pr_tenant_id p \<and> job_kind j = ''payment.reconcile'' \<and>
        job_state j \<in> {QUEUED, RUNNING, JOB_RETRY_WAIT} \<and>
        py_str (py_or (dict_get (job_payload_ref j) ''payment_request_id'') (PStr [])) = uuid_str (pr_id p)) rows"

definition maintain_payment :: "time \<Rightarrow> payment_request \<Rightarrow> nat act" where
  "maintain_payment current p =
     bindE (saved_link (pr_id p)) (\<lambda>link.
     bindE (last_observation (pr_id p)) (\<lambda>observed.
     bindE (gets (\<lambda>s. reconcile_pending p (jobs s))) (\<lambda>pending.
     if link = None then ret 0
     else if pr_status p = PAID \<and> (case pr_paid_at p of None \<Rightarrow> True | Some t \<Rightarrow> t < current - days 30) then ret 0
     else if (case observed of None \<Rightarrow> False | Some t \<Rightarrow> current - (if pr_status p = PAID then days 1 else minutes 15) < t)
     then ret 0
     else if pending then ret 0
     else
       bindE fresh_uuid (\<lambda>correlation.
       bindE (enqueue_now (pr_tenant_id p) ''payment.reconcile''
          [(''payment_request_id'', PStr (uuid_str (pr_id p))),
           (''mode'', PStr (if pr_status p = PAID then ''daily'' else ''pending''))]
          correlation (Some (pr_project_id p)) None) (\<lambda>_.
       ret 1)))))"

definition maintained_payments :: "nat \<Rightarrow> payment_request list \<Rightarrow> payment_request list" where
  "maintained_payments limit rows =
     take limit (sort_key (\<lambda>p. (pr_updated_at p, pr_id p))
       (filter (\<lambda>p. pr_status p \<in> {PENDING, PAY_REVIEW_REQUIRED, PAID}) rows))"

definition schedule_payment_maintenance :: "time option \<Rightarrow> nat \<Rightarrow> nat act" where
  "schedule_payment_maintenance now limit =
     bindE (time_or_now now) (\<lambda>current.
     bindE (gets (\<lambda>s. maintained_payments limit (payment_requests s))) (\<lambda>rows.
     bindE (mapE (maintain_payment current) rows) (\<lambda>counts.
     ret (sum_list counts))))"

definition replace_payment_link ::
  "env \<Rightarrow> trusted_context \<Rightarrow> uuid \<Rightarrow> int \<Rightarrow> (external_action \<times> job option) act" where
  "replace_payment_link E ctx i expected_row_version =
     bindE (find_payment ctx i) (\<lambda>p.
     bindE (require (pr_row_version p = expected_row_version) ConflictError) (\<lambda>_.
     bindE (require (pr_status p \<notin> {PAID, REVERSED}) ConflictError) (\<lambda>_.
     bindE (latest_link (pr_id p)) (\<lambda>latest.
     bindE (require (case latest of None \<Rightarrow> False | Some l \<Rightarrow> pl_status l \<in> {LINK_EXPIRED, LINK_CANCELLED})
        ConflictError) (\<lambda>_.
     bindE (perhaps (pr_status p \<in> {PAY_EXPIRED, PAY_CANCELLED}) (transition_payment (pr_id p) PENDING)) (\<lambda>_.
     prepare_payment_link E ctx (pr_id p)))))))"

end
