(* ===== verification/ChangeOrders.thy ===== *)
theory ChangeOrders
  imports Payments
begin

text \<open>
  \<open>services/change_orders/service.py\<close>: proposal revisions and their capability links, the
  freelancer's approval, sending through Gmail, the client's sessions, acceptance and
  decisions, withdrawal and expiry, and the notifications through SES. A row that the code
  leaves pending until a flush is added before the steps that follow it; \<open>casefold\<close> is read on ASCII text.
\<close>

section \<open>Rows\<close>

definition put_order :: "uuid \<Rightarrow> (change_order \<Rightarrow> change_order) \<Rightarrow> unit act" where
  "put_order i f =
     modify (\<lambda>s. s\<lparr>change_orders := upd_row co_id i (\<lambda>r. f (r\<lparr>co_updated_at := clock s\<rparr>)) (change_orders s)\<rparr>)"

definition add_order :: "change_order \<Rightarrow> unit act" where
  "add_order = add_row change_orders (\<lambda>rows s. s\<lparr>change_orders := rows\<rparr>) change_order_check
     (\<lambda>r q. co_id r = co_id q \<or> co_tenant_id r = co_tenant_id q \<and> co_project_id r = co_project_id q \<and>
        co_number r = co_number q)"

definition put_request :: "uuid \<Rightarrow> (request_record \<Rightarrow> request_record) \<Rightarrow> unit act" where
  "put_request i f =
     modify (\<lambda>s. s\<lparr>request_records := upd_row req_id i (\<lambda>r. f (r\<lparr>req_updated_at := clock s\<rparr>)) (request_records s)\<rparr>)"

definition put_project :: "uuid \<Rightarrow> (project \<Rightarrow> project) \<Rightarrow> unit act" where
  "put_project i f =
     modify (\<lambda>s. s\<lparr>projects := upd_row proj_id i (\<lambda>r. f (r\<lparr>proj_updated_at := clock s\<rparr>)) (projects s)\<rparr>)"

definition put_decision :: "uuid \<Rightarrow> (analysis_decision \<Rightarrow> analysis_decision) \<Rightarrow> unit act" where
  "put_decision i f =
     modify (\<lambda>s. s\<lparr>analysis_decisions :=
       upd_row dec_id i (\<lambda>r. f (r\<lparr>dec_updated_at := clock s\<rparr>)) (analysis_decisions s)\<rparr>)"

definition add_revision :: "proposal_revision \<Rightarrow> unit act" where
  "add_revision = add_row proposal_revisions (\<lambda>rows s. s\<lparr>proposal_revisions := rows\<rparr>) proposal_revision_check
     (\<lambda>r q. rev_id r = rev_id q \<or>
        rev_change_order_id r = rev_change_order_id q \<and> rev_revision_number r = rev_revision_number q)"

definition put_revision :: "uuid \<Rightarrow> (proposal_revision \<Rightarrow> proposal_revision) \<Rightarrow> unit act" where
  "put_revision i f = modify (\<lambda>s. s\<lparr>proposal_revisions := upd_row rev_id i f (proposal_revisions s)\<rparr>)"

definition add_approval :: "approval \<Rightarrow> unit act" where
  "add_approval = add_row approvals (\<lambda>rows s. s\<lparr>approvals := rows\<rparr>) (\<lambda>_. True)
     (\<lambda>r q. appr_id r = appr_id q \<or> appr_revision_id r = appr_revision_id q \<and>
        appr_actor_type r = appr_actor_type q \<and> appr_decision r = appr_decision q)"

definition add_capability :: "client_capability \<Rightarrow> unit act" where
  "add_capability = add_row client_capabilities (\<lambda>rows s. s\<lparr>client_capabilities := rows\<rparr>) (\<lambda>_. True)
     (\<lambda>r q. cc_id r = cc_id q \<or> cc_token_hash r = cc_token_hash q)"

definition put_capability :: "uuid \<Rightarrow> (client_capability \<Rightarrow> client_capability) \<Rightarrow> unit act" where
  "put_capability i f = modify (\<lambda>s. s\<lparr>client_capabilities := upd_row cc_id i f (client_capabilities s)\<rparr>)"

text \<open>A bulk \<open>UPDATE\<close> of the live capabilities of a change order.\<close>

definition live_capability :: "uuid \<Rightarrow> client_capability \<Rightarrow> bool" where
  "live_capability order c \<longleftrightarrow> cc_change_order_id c = order \<and> cc_revoked_at c = None"

definition update_live_capabilities :: "uuid \<Rightarrow> (client_capability \<Rightarrow> client_capability) \<Rightarrow> unit act" where
  "update_live_capabilities order f =
     modify (\<lambda>s. s\<lparr>client_capabilities := map (\<lambda>c. if live_capability order c then f c else c) (client_capabilities s)\<rparr>)"

definition add_client_session :: "client_session \<Rightarrow> unit act" where
  "add_client_session = add_row client_sessions (\<lambda>rows s. s\<lparr>client_sessions := rows\<rparr>) (\<lambda>_. True)
     (\<lambda>r q. cs_id r = cs_id q \<or> cs_session_hash r = cs_session_hash q)"

definition put_client_session :: "uuid \<Rightarrow> (client_session \<Rightarrow> client_session) \<Rightarrow> unit act" where
  "put_client_session i f = modify (\<lambda>s. s\<lparr>client_sessions := upd_row cs_id i f (client_sessions s)\<rparr>)"

definition add_scope_version :: "scope_version \<Rightarrow> unit act" where
  "add_scope_version = add_row scope_versions (\<lambda>rows s. s\<lparr>scope_versions := rows\<rparr>) (\<lambda>_. True)
     (\<lambda>r q. sv_id r = sv_id q \<or> sv_tenant_id r = sv_tenant_id q \<and> sv_project_id r = sv_project_id q \<and>
        sv_version r = sv_version q)"

definition add_scope_version_item :: "scope_version_item \<Rightarrow> unit act" where
  "add_scope_version_item = add_row scope_version_items (\<lambda>rows s. s\<lparr>scope_version_items := rows\<rparr>) (\<lambda>_. True)
     (\<lambda>r q. svi_id r = svi_id q \<or>
        svi_scope_version_id r = svi_scope_version_id q \<and> svi_scope_item_id r = svi_scope_item_id q)"

definition add_amendment :: "scope_amendment \<Rightarrow> unit act" where
  "add_amendment = add_row scope_amendments (\<lambda>rows s. s\<lparr>scope_amendments := rows\<rparr>) (\<lambda>_. True)
     (\<lambda>r q. amend_id r = amend_id q \<or> amend_accepted_revision_id r = amend_accepted_revision_id q \<or>
        amend_resulting_scope_version_id r = amend_resulting_scope_version_id q)"

definition add_payment_request :: "payment_request \<Rightarrow> unit act" where
  "add_payment_request = add_row payment_requests (\<lambda>rows s. s\<lparr>payment_requests := rows\<rparr>) payment_request_check
     (\<lambda>r q. pr_id r = pr_id q \<or> pr_accepted_revision_id r = pr_accepted_revision_id q)"

definition add_revenue_fact :: "approved_revenue_fact \<Rightarrow> unit act" where
  "add_revenue_fact = add_row approved_revenue_facts (\<lambda>rows s. s\<lparr>approved_revenue_facts := rows\<rparr>)
     approved_revenue_fact_check (\<lambda>r q. rf_id r = rf_id q \<or> rf_revision_id r = rf_revision_id q)"

definition add_notification :: "notification \<Rightarrow> unit act" where
  "add_notification = add_row notifications (\<lambda>rows s. s\<lparr>notifications := rows\<rparr>) (\<lambda>_. True)
     (\<lambda>r q. ntf_id r = ntf_id q \<or> ntf_tenant_id r = ntf_tenant_id q \<and>
        ntf_change_order_id r \<noteq> None \<and> ntf_change_order_id r = ntf_change_order_id q \<and>
        ntf_revision_id r \<noteq> None \<and> ntf_revision_id r = ntf_revision_id q \<and> ntf_channel r = ntf_channel q)"

definition put_notification :: "uuid \<Rightarrow> (notification \<Rightarrow> notification) \<Rightarrow> unit act" where
  "put_notification i f = modify (\<lambda>s. s\<lparr>notifications := upd_row ntf_id i f (notifications s)\<rparr>)"

section \<open>Tokens\<close>

definition protect :: "env \<Rightarrow> string \<Rightarrow> string act" where
  "protect E token =
     (if \<not> capability_key_configured E \<and> \<not> development_environment E then raise ConflictError
      else ret (aes_protect E token))"

definition unprotect :: "env \<Rightarrow> string \<Rightarrow> string act" where
  "unprotect E envelope =
     (case aes_unprotect E envelope of
        Inr token \<Rightarrow> ret token
      | Inl e \<Rightarrow> raise (if e = ValueError \<or> e = OtherError ''TypeError'' then ValidationError else e))"

text \<open>\<open>CapabilityCredentials\<close> and \<open>AcceptanceResult\<close>.\<close>

record capability_credentials =
  cred_capability :: client_capability
  cred_token :: string
  cred_session :: client_session
  cred_session_token :: string
  cred_csrf_token :: string

record acceptance_result =
  acc_change_order :: change_order
  acc_payment_request :: payment_request
  acc_receipt :: capability_credentials

section \<open>Reading\<close>

definition find_project :: "trusted_context \<Rightarrow> uuid \<Rightarrow> project act" where
  "find_project ctx i =
     bindE (gets (\<lambda>s. find (\<lambda>p. proj_id p = i \<and> proj_tenant_id p = ctx_tenant_id ctx) (projects s))) (\<lambda>found.
     some_or NotFoundError found)"

definition find_order :: "trusted_context \<Rightarrow> uuid \<Rightarrow> change_order act" where
  "find_order ctx i =
     bindE (gets (\<lambda>s. find (\<lambda>c. co_id c = i \<and> co_tenant_id c = ctx_tenant_id ctx) (change_orders s))) (\<lambda>found.
     some_or NotFoundError found)"

text \<open>The row of an order the code already holds, with the changes made to it since.\<close>

definition order_row :: "uuid \<Rightarrow> change_order act" where
  "order_row i = bindE (gets (\<lambda>s. row_by co_id i (change_orders s))) (\<lambda>found. some_or KeyError found)"

definition current_revision :: "change_order \<Rightarrow> proposal_revision act" where
  "current_revision c =
     bindE (some_or ConflictError (co_current_revision_id c)) (\<lambda>i.
     bindE (gets (\<lambda>s. find (\<lambda>r. rev_id r = i \<and> rev_change_order_id r = co_id c \<and>
        rev_tenant_id r = co_tenant_id c \<and> rev_status r = CURRENT) (proposal_revisions s))) (\<lambda>found.
     some_or ConflictError found))"

definition read_change_order :: "trusted_context \<Rightarrow> uuid \<Rightarrow> change_order act" where
  "read_change_order ctx i = find_order ctx i"

definition get_analysis_decision :: "trusted_context \<Rightarrow> uuid \<Rightarrow> analysis_decision act" where
  "get_analysis_decision ctx i =
     bindE (gets (\<lambda>s. find (\<lambda>d. dec_id d = i \<and> dec_tenant_id d = ctx_tenant_id ctx) (analysis_decisions s))) (\<lambda>found.
     some_or NotFoundError found)"

definition request_of :: "change_order \<Rightarrow> request_record option act" where
  "request_of c = gets (\<lambda>s. row_by req_id (co_request_id c) (request_records s))"

text \<open>\<open>action_key.like("change-order-send:<id>:%")\<close>, the latest first.\<close>

definition send_action_key :: "uuid \<Rightarrow> uuid \<Rightarrow> string" where
  "send_action_key order revision = ''change-order-send:'' @ uuid_str order @ '':'' @ uuid_str revision"

definition latest_send_action :: "change_order \<Rightarrow> external_action option act" where
  "latest_send_action c = gets (\<lambda>s. top_by act_created_at (filter
     (\<lambda>a. starts_with (''change-order-send:'' @ uuid_str (co_id c) @ '':'') (act_action_key a) \<and>
          act_tenant_id a = co_tenant_id c) (external_actions s)))"

section \<open>Revisions\<close>

text \<open>\<open>list(v)\<close>, \<open>d[k]\<close> and \<open>isinstance(v, int)\<close>, where a bool is an integer.\<close>

fun py_list :: "pyval \<Rightarrow> exn + pyval list" where
  "py_list (PList xs) = Inr xs"
| "py_list (PTuple xs) = Inr xs"
| "py_list (PStr t) = Inr (map (\<lambda>c. PStr [c]) t)"
| "py_list (PDict d) = Inr (map (\<lambda>kv. PStr (fst kv)) d)"
| "py_list _ = Inl (OtherError ''TypeError'')"

definition of_result :: "exn + 'a \<Rightarrow> 'a act" where
  "of_result r = (case r of Inl e \<Rightarrow> raise e | Inr x \<Rightarrow> ret x)"

definition dict_index :: "(string \<times> pyval) list \<Rightarrow> string \<Rightarrow> pyval act" where
  "dict_index d k = some_or KeyError (map_of d k)"

fun int_value :: "pyval \<Rightarrow> int option" where
  "int_value (PInt i) = Some i"
| "int_value (PBool b) = Some (if b then 1 else 0)"
| "int_value _ = None"

definition folded :: "string \<Rightarrow> string" where
  "folded t = lower (strip t)"

definition required_content :: "string list" where
  "required_content = [''title'', ''requested_change'', ''deliverables'', ''client_explanation'', ''subject'',
     ''plain_text_body'', ''html_body'', ''recipient_email'', ''evidence_reference_ids'']"

text \<open>What \<open>_proposal_payload\<close> returns: the canonical artifact, with its terms.\<close>

record proposal_artifact =
  art_baseline_version_id :: uuid
  art_request_version :: int
  art_recipient_contact_id :: uuid
  art_recipient_email :: string
  art_title :: string
  art_requested_change :: string
  art_deliverables :: "pyval list"
  art_exclusions :: "pyval list"
  art_assumptions :: "pyval list"
  art_client_explanation :: string
  art_subject :: string
  art_plain_text_body :: string
  art_html_body :: string
  art_attachment_hashes :: "pyval list"
  art_terms :: "(string \<times> pyval) list"
  art_evidence_reference_ids :: "string list"
  art_client_approval_url :: string

definition artifact_dict :: "proposal_artifact \<Rightarrow> (string \<times> pyval) list" where
  "artifact_dict a =
     [(''schema_version'', PInt 1), (''baseline_version_id'', PStr (uuid_str (art_baseline_version_id a))),
      (''request_version'', PInt (art_request_version a)),
      (''recipient_contact_id'', PStr (uuid_str (art_recipient_contact_id a))),
      (''recipient_email'', PStr (art_recipient_email a)), (''title'', PStr (art_title a)),
      (''requested_change'', PStr (art_requested_change a)), (''deliverables'', PList (art_deliverables a)),
      (''exclusions'', PList (art_exclusions a)), (''assumptions'', PList (art_assumptions a)),
      (''client_explanation'', PStr (art_client_explanation a)), (''subject'', PStr (art_subject a)),
      (''plain_text_body'', PStr (art_plain_text_body a)), (''html_body'', PStr (art_html_body a)),
      (''attachment_hashes'', PList (art_attachment_hashes a)), (''terms'', PDict (art_terms a)),
      (''evidence_reference_ids'', PList (map PStr (art_evidence_reference_ids a))),
      (''client_approval_url'', PStr (art_client_approval_url a))]"

definition proposal_payload :: "(string \<times> pyval) list \<Rightarrow> string \<Rightarrow> uuid \<Rightarrow> int \<Rightarrow> uuid \<Rightarrow> proposal_artifact act" where
  "proposal_payload draft approval_url baseline request_version recipient_contact =
     bindE (some_or ValidationError (as_dict (dict_get draft ''terms''))) (\<lambda>terms.
     bindE (some_or ValidationError (int_value (dict_get terms ''total_minor''))) (\<lambda>total.
     bindE (require (0 < total \<and> total \<le> max_minor) ValidationError) (\<lambda>_.
     bindE (some_or ValidationError (int_value (dict_get_default terms ''tax_minor'' (PInt 0)))) (\<lambda>tax.
     bindE (require (0 \<le> tax \<and> tax \<le> total) ValidationError) (\<lambda>_.
     bindE (require (list_all (\<lambda>k. truthy (dict_get draft k)) required_content) ValidationError) (\<lambda>_.
     bindE (of_result (py_list (dict_get draft ''deliverables''))) (\<lambda>deliverables.
     bindE (of_result (py_list (dict_get_default draft ''exclusions'' (PList [])))) (\<lambda>exclusions.
     bindE (of_result (py_list (dict_get_default draft ''assumptions'' (PList [])))) (\<lambda>assumptions.
     bindE (of_result (py_list (dict_get_default draft ''attachment_hashes'' (PList [])))) (\<lambda>attachments.
     bindE (of_result (py_list (dict_get draft ''evidence_reference_ids''))) (\<lambda>evidence.
     ret \<lparr>art_baseline_version_id = baseline, art_request_version = request_version,
        art_recipient_contact_id = recipient_contact,
        art_recipient_email = folded (py_str (dict_get draft ''recipient_email'')),
        art_title = py_str (dict_get draft ''title''),
        art_requested_change = py_str (dict_get draft ''requested_change''), art_deliverables = deliverables,
        art_exclusions = exclusions, art_assumptions = assumptions,
        art_client_explanation = py_str (dict_get draft ''client_explanation''),
        art_subject = py_str (dict_get draft ''subject''),
        art_plain_text_body = py_str (dict_get draft ''plain_text_body''),
        art_html_body = py_str (dict_get draft ''html_body''), art_attachment_hashes = attachments,
        art_terms = terms, art_evidence_reference_ids = map py_str evidence,
        art_client_approval_url = approval_url\<rparr>)))))))))))"

text \<open>The revision the new one replaces is superseded, and every live capability of the order revoked.\<close>

definition supersede :: "change_order \<Rightarrow> proposal_revision option act" where
  "supersede order =
     (if co_current_revision_id order = None then ret None
      else bindE (current_revision order) (\<lambda>previous.
           bindE the_time (\<lambda>now.
           bindE (put_revision (rev_id previous) (\<lambda>r. r\<lparr>rev_status := SUPERSEDED\<rparr>)) (\<lambda>_.
           bindE (update_live_capabilities (co_id order) (\<lambda>c. c\<lparr>cc_revoked_at := Some now, cc_consumed_at := Some now\<rparr>)) (\<lambda>_.
           ret (Some previous))))))"

definition revision_of :: "env \<Rightarrow> change_order \<Rightarrow> project \<Rightarrow> request_record \<Rightarrow> client_contact \<Rightarrow> proposal_artifact \<Rightarrow>
    string \<Rightarrow> string \<Rightarrow> proposal_revision option \<Rightarrow> proposal_revision act" where
  "revision_of E order project request contact art artifact_hash token previous =
     bindE (dict_index (art_terms art) ''preference_version_id'') (\<lambda>preference.
     bindE (some_or ValueError (uuid_of_str (py_str preference))) (\<lambda>preference_id.
     bindE (some_or ValueError (int_value (dict_get (art_terms art) ''total_minor''))) (\<lambda>total.
     bindE (some_or ValueError (int_value (dict_get_default (art_terms art) ''tax_minor'' (PInt 0)))) (\<lambda>tax.
     bindE (digest_of E (PList (map PStr (art_evidence_reference_ids art)))) (\<lambda>evidence_digest.
     bindE (protect E token) (\<lambda>sealed.
     bindE fresh_uuid (\<lambda>i.
     bindE the_time (\<lambda>now.
     ret \<lparr>rev_id = i, rev_tenant_id = co_tenant_id order, rev_project_id = proj_id project,
        rev_change_order_id = co_id order,
        rev_revision_number = (case previous of None \<Rightarrow> 1 | Some p \<Rightarrow> rev_revision_number p + 1),
        rev_baseline_version_id = art_baseline_version_id art, rev_request_version = req_request_version request,
        rev_preference_version_id = preference_id, rev_total_minor = total, rev_tax_minor = tax,
        rev_currency = py_str (dict_get_default (art_terms art) ''currency'' (PStr ''INR'')),
        rev_title = art_title art, rev_requested_change = art_requested_change art,
        rev_deliverables = art_deliverables art, rev_exclusions = art_exclusions art,
        rev_assumptions = art_assumptions art, rev_client_explanation = art_client_explanation art,
        rev_recipient_contact_id = contact_id contact, rev_recipient_email = art_recipient_email art,
        rev_subject = art_subject art, rev_plain_text_body = art_plain_text_body art,
        rev_html_body = art_html_body art, rev_attachment_hashes = art_attachment_hashes art,
        rev_terms_json = art_terms art, rev_evidence_digest = evidence_digest,
        rev_evidence_reference_ids = art_evidence_reference_ids art,
        rev_canonical_artifact_ref = [(''store'', PStr ''proposal-artifacts''), (''format'', PStr ''canonical-json''),
           (''schema_version'', PInt 1)],
        rev_canonical_artifact_hash = artifact_hash, rev_approval_url = art_client_approval_url art,
        rev_token_ciphertext = sealed, rev_status = CURRENT, rev_created_at = now\<rparr>))))))))"

definition new_revision :: "env \<Rightarrow> change_order \<Rightarrow> project \<Rightarrow> request_record \<Rightarrow> client_contact \<Rightarrow>
    (string \<times> pyval) list \<Rightarrow> (proposal_revision \<times> string) act" where
  "new_revision E order project request contact draft =
     bindE (some_or ConflictError (proj_current_scope_version_id project)) (\<lambda>baseline.
     bindE (fresh_token E) (\<lambda>token.
     bindE (proposal_payload draft ''/c'' baseline (req_request_version request) (contact_id contact)) (\<lambda>art.
     bindE (digest_of E (PDict (artifact_dict art))) (\<lambda>artifact_hash.
     bindE (supersede order) (\<lambda>previous.
     bindE (revision_of E order project request contact art artifact_hash token previous) (\<lambda>revision.
     bindE (add_revision revision) (\<lambda>_.
     bindE (put_order (co_id order) (\<lambda>c. c\<lparr>co_current_revision_id := Some (rev_id revision),
        co_status := AWAITING_FREELANCER_APPROVAL, co_row_version := co_row_version c + 1\<rparr>)) (\<lambda>_.
     bindE fresh_uuid (\<lambda>i.
     bindE the_time (\<lambda>now.
     bindE (add_capability \<lparr>cc_id = i, cc_tenant_id = co_tenant_id order, cc_project_id = proj_id project,
        cc_change_order_id = co_id order, cc_revision_id = rev_id revision, cc_client_id = proj_client_id project,
        cc_token_hash = sha256 E token, cc_content_hash = artifact_hash, cc_purpose = REVIEW,
        cc_activated_at = None, cc_expires_at = None, cc_consumed_at = None, cc_revoked_at = None,
        cc_created_at = now\<rparr>) (\<lambda>_.
     ret (revision, token))))))))))))"

section \<open>Assembling and editing\<close>

text \<open>
  A new notification has no identifier yet when the job's payload is written, so the payload
  carries the text \<open>None\<close>.
\<close>

definition notification_for :: "change_order \<Rightarrow> proposal_revision \<Rightarrow> notification option act" where
  "notification_for order revision = gets (\<lambda>s. find (\<lambda>n. ntf_tenant_id n = co_tenant_id order \<and>
     ntf_change_order_id n = Some (co_id order) \<and> ntf_revision_id n = Some (rev_id revision) \<and>
     ntf_channel n = ''SES'') (notifications s))"

definition notification_payload :: "change_order \<Rightarrow> proposal_revision \<Rightarrow> string \<Rightarrow> (string \<times> pyval) list" where
  "notification_payload order revision recipient =
     [(''change_order_id'', PStr (uuid_str (co_id order))), (''revision_id'', PStr (uuid_str (rev_id revision))),
      (''recipient'', PStr recipient), (''subject'', PStr (''Approval required: '' @ rev_title revision)),
      (''token_ciphertext'', PStr (rev_token_ciphertext revision)), (''approval_path'', PStr ''/c'')]"

definition queue_freelancer_notification :: "env \<Rightarrow> trusted_context \<Rightarrow> change_order \<Rightarrow> proposal_revision \<Rightarrow> unit act" where
  "queue_freelancer_notification E ctx order revision =
     bindE (require (folded (ctx_email ctx) \<noteq> []) ValidationError) (\<lambda>_.
     bindE (prepare_external_action E (co_tenant_id order)
        (''change-order-notification:'' @ uuid_str (co_id order) @ '':'' @ uuid_str (rev_id revision)) ''ses''
        ''send_change_order'' (notification_payload order revision (folded (ctx_email ctx)))
        (Some (co_project_id order))) (\<lambda>action.
     bindE (notification_for order revision) (\<lambda>existing.
     bindE (case existing of
         None \<Rightarrow>
           bindE fresh_uuid (\<lambda>i.
           bindE the_time (\<lambda>now.
           bindE (add_notification \<lparr>ntf_id = i, ntf_tenant_id = co_tenant_id order,
              ntf_change_order_id = Some (co_id order), ntf_revision_id = Some (rev_id revision),
              ntf_channel = ''SES'', ntf_verified_recipient = folded (ctx_email ctx), ntf_state = NTF_PENDING,
              ntf_action_id = Some (act_id action), ntf_created_at = now\<rparr>) (\<lambda>_.
           ret ''None'')))
       | Some n \<Rightarrow>
           bindE (put_notification (ntf_id n) (\<lambda>r. r\<lparr>ntf_action_id := Some (act_id action)\<rparr>)) (\<lambda>_.
           ret (uuid_str (ntf_id n)))) (\<lambda>reference.
     bindE (enqueue_now (co_tenant_id order) ''notification.send''
        [(''action_id'', PStr (uuid_str (act_id action))), (''notification_id'', PStr reference)]
        (ctx_correlation_id ctx) (Some (co_project_id order)) None) (\<lambda>_.
     ret ())))))"

definition open_order :: "uuid \<Rightarrow> uuid \<Rightarrow> uuid \<Rightarrow> change_order option act" where
  "open_order tenant project request = gets (\<lambda>s. find (\<lambda>c. co_tenant_id c = tenant \<and> co_project_id c = project \<and>
     co_request_id c = request \<and> co_status c \<notin> {CLIENT_APPROVED, WITHDRAWN, CO_EXPIRED}) (change_orders s))"

definition next_order_number :: "uuid \<Rightarrow> uuid \<Rightarrow> int act" where
  "next_order_number tenant project = gets (\<lambda>s.
     (case top_by co_number (filter (\<lambda>c. co_tenant_id c = tenant \<and> co_project_id c = project) (change_orders s)) of
        None \<Rightarrow> 1 | Some c \<Rightarrow> if co_number c + 1 = 0 then 1 else co_number c + 1))"

definition order_for_request :: "uuid \<Rightarrow> uuid \<Rightarrow> uuid \<Rightarrow> change_order act" where
  "order_for_request tenant project request =
     bindE (open_order tenant project request) (\<lambda>existing.
     case existing of
       Some c \<Rightarrow> ret c
     | None \<Rightarrow>
         bindE (next_order_number tenant project) (\<lambda>number.
         bindE fresh_uuid (\<lambda>i.
         bindE the_time (\<lambda>now.
         bindE (ret \<lparr>co_id = i, co_tenant_id = tenant, co_project_id = project, co_request_id = request,
            co_number = number, co_current_revision_id = None, co_status = CO_DRAFT, co_row_version = 1,
            co_created_at = now, co_updated_at = now\<rparr>) (\<lambda>order.
         bindE (add_order order) (\<lambda>_.
         ret order))))))"

definition current_draft :: "uuid \<Rightarrow> analysis_draft_revision option act" where
  "current_draft decision = gets (\<lambda>s. find (\<lambda>d. draft_decision_id d = decision \<and> draft_status d = CURRENT)
     (analysis_draft_revisions s))"

definition contact_for :: "uuid \<Rightarrow> uuid \<Rightarrow> string \<Rightarrow> client_contact option act" where
  "contact_for client tenant email = gets (\<lambda>s. find (\<lambda>c. contact_client_id c = client \<and> contact_tenant_id c = tenant \<and>
     contact_normalized_email c = email) (client_contacts s))"

definition request_for_proposal :: "analysis_decision \<Rightarrow> project \<Rightarrow> trusted_context \<Rightarrow> request_record option act" where
  "request_for_proposal decision project ctx = gets (\<lambda>s. find (\<lambda>r. Some (req_id r) = dec_request_id decision \<and>
     req_project_id r = proj_id project \<and> req_tenant_id r = ctx_tenant_id ctx) (request_records s))"

definition assemble_change_order :: "env \<Rightarrow> trusted_context \<Rightarrow> uuid \<Rightarrow> change_order act" where
  "assemble_change_order E ctx decision_id =
     bindE (get_analysis_decision ctx decision_id) (\<lambda>decision.
     bindE (require (dec_kind decision = PROPOSAL_REVIEW) ValidationError) (\<lambda>_.
     bindE (current_draft (dec_id decision)) (\<lambda>found_draft.
     bindE (some_or ConflictError found_draft) (\<lambda>draft.
     bindE (find_project ctx (dec_project_id decision)) (\<lambda>project.
     bindE (request_for_proposal decision project ctx) (\<lambda>found_request.
     bindE (some_or ConflictError found_request) (\<lambda>request.
     bindE (require (req_status request \<in> {REQ_OPEN, PROPOSAL_OPEN}) ConflictError) (\<lambda>_.
     bindE (require (proj_current_scope_version_id project \<noteq> None) ConflictError) (\<lambda>_.
     bindE (contact_for (proj_client_id project) (ctx_tenant_id ctx)
        (folded (py_str (dict_get_default (draft_payload draft) ''recipient_email'' (PStr []))))) (\<lambda>found_contact.
     bindE (some_or ValidationError found_contact) (\<lambda>contact.
     bindE (order_for_request (ctx_tenant_id ctx) (proj_id project) (req_id request)) (\<lambda>order.
     bindE (new_revision E order project request contact (draft_payload draft)) (\<lambda>_.
     bindE (put_request (req_id request) (\<lambda>r. r\<lparr>req_status := PROPOSAL_OPEN, req_row_version := req_row_version r + 1\<rparr>)) (\<lambda>_.
     bindE (put_decision (dec_id decision) (\<lambda>d. d\<lparr>dec_status := DEC_RESOLVED, dec_row_version := dec_row_version d + 1\<rparr>)) (\<lambda>_.
     bindE (order_row (co_id order)) (\<lambda>updated.
     bindE (current_revision updated) (\<lambda>revision.
     bindE (queue_freelancer_notification E ctx updated revision) (\<lambda>_.
     ret updated))))))))))))))))))"

definition edited_draft :: "proposal_revision \<Rightarrow> (string \<times> pyval) list \<Rightarrow> (string \<times> pyval) list" where
  "edited_draft current edits =
     [(''title'', dict_get_default edits ''title'' (PStr (rev_title current))),
      (''requested_change'', dict_get_default edits ''requested_change'' (PStr (rev_requested_change current))),
      (''deliverables'', dict_get_default edits ''deliverables'' (PList (rev_deliverables current))),
      (''exclusions'', dict_get_default edits ''exclusions'' (PList (rev_exclusions current))),
      (''assumptions'', dict_get_default edits ''assumptions'' (PList (rev_assumptions current))),
      (''client_explanation'', dict_get_default edits ''client_explanation'' (PStr (rev_client_explanation current))),
      (''subject'', dict_get_default edits ''subject'' (PStr (rev_subject current))),
      (''plain_text_body'', dict_get_default edits ''plain_text_body'' (PStr (rev_plain_text_body current))),
      (''html_body'', dict_get_default edits ''html_body'' (PStr (rev_html_body current))),
      (''recipient_email'', PStr (rev_recipient_email current)),
      (''evidence_reference_ids'', PList (map PStr (rev_evidence_reference_ids current))),
      (''terms'', PDict (rev_terms_json current))]"

definition create_revision :: "env \<Rightarrow> trusted_context \<Rightarrow> uuid \<Rightarrow> (string \<times> pyval) list \<Rightarrow> proposal_revision act" where
  "create_revision E ctx order_id edits =
     bindE (find_order ctx order_id) (\<lambda>order.
     bindE (require (co_status order \<notin> {CLIENT_APPROVED, WITHDRAWN}) ConflictError) (\<lambda>_.
     bindE (current_revision order) (\<lambda>current.
     bindE (find_project ctx (co_project_id order)) (\<lambda>project.
     bindE (gets (\<lambda>s. find (\<lambda>r. req_id r = co_request_id order \<and> req_tenant_id r = ctx_tenant_id ctx)
        (request_records s))) (\<lambda>found_request.
     bindE (gets (\<lambda>s. row_by contact_id (rev_recipient_contact_id current) (client_contacts s))) (\<lambda>found_contact.
     bindE (some_or ConflictError found_request) (\<lambda>request.
     bindE (some_or ConflictError found_contact) (\<lambda>contact.
     bindE (new_revision E order project request contact (edited_draft current edits)) (\<lambda>made.
     ret (fst made))))))))))"

section \<open>The freelancer's approval\<close>

definition evidence_stale :: "trusted_context \<Rightarrow> project \<Rightarrow> proposal_revision \<Rightarrow> db \<Rightarrow> bool" where
  "evidence_stale ctx project revision s =
     (let ids = List.map_filter uuid_of_str (rev_evidence_reference_ids revision);
          evidence = filter (\<lambda>r. eref_id r \<in> set ids \<and> eref_tenant_id r = ctx_tenant_id ctx \<and>
             eref_project_id r = proj_id project) (evidence_references s);
          bundles = map eref_bundle_id evidence
      in list_ex (\<lambda>b. bundle_id b \<in> set bundles \<and>
           (case bundle_stale_at b of None \<Rightarrow> False | Some t \<Rightarrow> t \<le> clock s)) (evidence_bundles s))"

definition send_payload :: "change_order \<Rightarrow> proposal_revision \<Rightarrow> (string \<times> pyval) list" where
  "send_payload order revision =
     [(''change_order_id'', PStr (uuid_str (co_id order))), (''revision_id'', PStr (uuid_str (rev_id revision))),
      (''recipient'', PStr (rev_recipient_email revision)), (''subject'', PStr (rev_subject revision)),
      (''plain_text_body'', PStr (rev_plain_text_body revision)), (''html_body'', PStr (rev_html_body revision)),
      (''attachment_hashes'', PList (rev_attachment_hashes revision)),
      (''content_hash'', PStr (rev_canonical_artifact_hash revision)),
      (''marker'', PStr (''ScopeGuard/'' @ uuid_str (co_id order) @ ''/'' @ uuid_str (rev_id revision)))]"

definition capability_to_activate :: "trusted_context \<Rightarrow> uuid \<Rightarrow> client_capability option act" where
  "capability_to_activate ctx revision = gets (\<lambda>s. find (\<lambda>c. cc_revision_id c = revision \<and>
     cc_tenant_id c = ctx_tenant_id ctx \<and> cc_revoked_at c = None) (client_capabilities s))"

text \<open>The checks of the approval, in the order of the code.\<close>

definition approvable :: "trusted_context \<Rightarrow> uuid \<Rightarrow> int \<Rightarrow> uuid \<Rightarrow> string \<Rightarrow>
    (change_order \<times> proposal_revision) act" where
  "approvable ctx order_id expected_row_version revision_id content_hash =
     bindE (gets (\<lambda>s. find (\<lambda>c. co_id c = order_id \<and> co_tenant_id c = ctx_tenant_id ctx) (change_orders s))) (\<lambda>known.
     bindE (find_project ctx (case known of None \<Rightarrow> 0 | Some c \<Rightarrow> co_project_id c)) (\<lambda>_.
     bindE (find_order ctx order_id) (\<lambda>order.
     bindE (find_project ctx (co_project_id order)) (\<lambda>project.
     bindE (require (co_row_version order = expected_row_version) ConflictError) (\<lambda>_.
     bindE (current_revision order) (\<lambda>revision.
     bindE (require (rev_id revision = revision_id \<and> rev_canonical_artifact_hash revision = content_hash) ConflictError) (\<lambda>_.
     bindE (require (co_status order = AWAITING_FREELANCER_APPROVAL) ConflictError) (\<lambda>_.
     bindE (gets (\<lambda>s. find (\<lambda>r. req_id r = co_request_id order \<and> req_tenant_id r = ctx_tenant_id ctx)
        (request_records s))) (\<lambda>request.
     bindE (require (case request of None \<Rightarrow> False | Some r \<Rightarrow> req_request_version r = rev_request_version revision)
        ConflictError) (\<lambda>_.
     bindE (require (proj_current_scope_version_id project = Some (rev_baseline_version_id revision)) ConflictError) (\<lambda>_.
     bindE (gets (evidence_stale ctx project revision)) (\<lambda>stale.
     bindE (require (\<not> stale) ConflictError) (\<lambda>_.
     ret (order, revision))))))))))))))"

definition approve_freelancer :: "env \<Rightarrow> trusted_context \<Rightarrow> uuid \<Rightarrow> int \<Rightarrow> uuid \<Rightarrow> string \<Rightarrow>
    (change_order \<times> external_action) act" where
  "approve_freelancer E ctx order_id expected_row_version revision_id content_hash =
     bindE (approvable ctx order_id expected_row_version revision_id content_hash) (\<lambda>(order, revision).
     bindE (capability_to_activate ctx (rev_id revision)) (\<lambda>found_capability.
     bindE (some_or ConflictError found_capability) (\<lambda>capability.
     bindE the_time (\<lambda>now.
     bindE fresh_uuid (\<lambda>i.
     bindE (add_approval \<lparr>appr_id = i, appr_tenant_id = ctx_tenant_id ctx, appr_project_id = co_project_id order,
        appr_change_order_id = co_id order, appr_revision_id = rev_id revision, appr_actor_type = FREELANCER,
        appr_actor_identifier = ctx_subject ctx, appr_content_hash = content_hash, appr_decision = APPROVED,
        appr_provenance = [(''model'', PStr ''authenticated-owner''), (''exact_revision'', PStr (uuid_str (rev_id revision)))],
        appr_comment = None, appr_created_at = now\<rparr>) (\<lambda>_.
     bindE (put_capability (cc_id capability) (\<lambda>c. c\<lparr>cc_activated_at := Some now, cc_expires_at := Some (now + days 7)\<rparr>)) (\<lambda>_.
     bindE (put_order (co_id order) (\<lambda>c. c\<lparr>co_status := SEND_PENDING, co_row_version := co_row_version c + 1\<rparr>)) (\<lambda>_.
     bindE (prepare_external_action E (ctx_tenant_id ctx) (send_action_key (co_id order) (rev_id revision)) ''gmail''
        ''send'' (send_payload order revision) (Some (co_project_id order))) (\<lambda>action.
     bindE (enqueue_now (ctx_tenant_id ctx) ''change_order.send''
        [(''action_id'', PStr (uuid_str (act_id action))), (''change_order_id'', PStr (uuid_str (co_id order))),
         (''revision_id'', PStr (uuid_str (rev_id revision)))] (ctx_correlation_id ctx) (Some (co_project_id order)) None) (\<lambda>_.
     bindE (order_row (co_id order)) (\<lambda>updated.
     ret (updated, action))))))))))))"

section \<open>The client's sessions\<close>

definition session_scope :: "env \<Rightarrow> string \<Rightarrow> string option \<Rightarrow>
    (client_session \<times> client_capability \<times> proposal_revision \<times> change_order) act" where
  "session_scope E session_token csrf_token =
     bindE (gets (\<lambda>s. find (\<lambda>r. cs_session_hash r = sha256 E session_token) (client_sessions s))) (\<lambda>found.
     bindE the_time (\<lambda>now.
     bindE (some_or ValidationError found) (\<lambda>row.
     bindE (require (cs_revoked_at row = None \<and> now < cs_expires_at row) ValidationError) (\<lambda>_.
     bindE (require (case csrf_token of None \<Rightarrow> True | Some t \<Rightarrow> sha256 E t = cs_csrf_hash row) ValidationError) (\<lambda>_.
     bindE (gets (\<lambda>s. row_by cc_id (cs_capability_id row) (client_capabilities s))) (\<lambda>found_capability.
     bindE (some_or ValidationError found_capability) (\<lambda>capability.
     bindE (require (cc_revoked_at capability = None) ValidationError) (\<lambda>_.
     bindE (gets (\<lambda>s. row_by co_id (cc_change_order_id capability) (change_orders s))) (\<lambda>found_order.
     bindE (gets (\<lambda>s. row_by rev_id (cc_revision_id capability) (proposal_revisions s))) (\<lambda>found_revision.
     bindE (some_or ValidationError found_order) (\<lambda>order.
     bindE (some_or ValidationError found_revision) (\<lambda>revision.
     ret (row, capability, revision, order)))))))))))))"

text \<open>A new session of a capability, with fresh tokens of which only the hashes are stored.\<close>

definition issue_session :: "env \<Rightarrow> client_capability \<Rightarrow> string \<Rightarrow> capability_purpose \<Rightarrow> time \<Rightarrow>
    capability_credentials act" where
  "issue_session E capability token purpose now =
     bindE (fresh_token E) (\<lambda>session_token.
     bindE (fresh_token E) (\<lambda>csrf.
     bindE fresh_uuid (\<lambda>i.
     bindE the_time (\<lambda>created.
     bindE (ret \<lparr>cs_id = i, cs_capability_id = cc_id capability, cs_session_hash = sha256 E session_token,
        cs_csrf_hash = sha256 E csrf, cs_purpose = purpose, cs_expires_at = now + hours 24, cs_revoked_at = None,
        cs_created_at = created\<rparr>) (\<lambda>row.
     bindE (add_client_session row) (\<lambda>_.
     ret \<lparr>cred_capability = capability, cred_token = token, cred_session = row,
        cred_session_token = session_token, cred_csrf_token = csrf\<rparr>))))))"

definition receipt_capability :: "client_capability \<Rightarrow> uuid \<Rightarrow> uuid \<Rightarrow> client_capability option act" where
  "receipt_capability source order revision = gets (\<lambda>s. top_by cc_created_at (filter (\<lambda>c.
     cc_change_order_id c = order \<and> cc_revision_id c = revision \<and> cc_client_id c = cc_client_id source \<and>
     cc_purpose c = RECEIPT \<and> cc_revoked_at c = None) (client_capabilities s)))"

definition live_at :: "time \<Rightarrow> time option \<Rightarrow> bool" where
  "live_at now expiry = (case expiry of None \<Rightarrow> False | Some t \<Rightarrow> now < t)"

definition exchange_capability :: "env \<Rightarrow> string \<Rightarrow> capability_credentials act" where
  "exchange_capability E token =
     bindE (require (43 \<le> length token) ValidationError) (\<lambda>_.
     bindE (gets (\<lambda>s. find (\<lambda>c. cc_token_hash c = sha256 E token) (client_capabilities s))) (\<lambda>found.
     bindE the_time (\<lambda>now.
     bindE (some_or ValidationError found) (\<lambda>capability.
     bindE (require (cc_purpose capability = REVIEW \<and> cc_activated_at capability \<noteq> None \<and>
        cc_revoked_at capability = None \<and> live_at now (cc_expires_at capability)) ValidationError) (\<lambda>_.
     if cc_consumed_at capability \<noteq> None then
       bindE (gets (\<lambda>s. row_by co_id (cc_change_order_id capability) (change_orders s))) (\<lambda>found_order.
       bindE (some_or ValidationError found_order) (\<lambda>order.
       bindE (require (co_status order = CLIENT_APPROVED) ValidationError) (\<lambda>_.
       bindE (receipt_capability capability (co_id order) (cc_revision_id capability)) (\<lambda>found_receipt.
       bindE (some_or ValidationError found_receipt) (\<lambda>receipt.
       bindE (require (live_at now (cc_expires_at receipt)) ValidationError) (\<lambda>_.
       issue_session E receipt [] RECEIPT now))))))
     else issue_session E capability token REVIEW now)))))"

definition read_client_review :: "env \<Rightarrow> string \<Rightarrow> ((string \<times> pyval) list) act" where
  "read_client_review E session_token =
     bindE (session_scope E session_token None) (\<lambda>(row, capability, revision, order).
     bindE (require (cc_purpose capability = REVIEW \<and> cc_consumed_at capability = None \<and>
        co_status order \<in> {AWAITING_CLIENT_APPROVAL, SEND_PENDING}) ConflictError) (\<lambda>_.
     ret [(''change_order_id'', PStr (uuid_str (co_id order))), (''revision_id'', PStr (uuid_str (rev_id revision))),
        (''revision_number'', PInt (rev_revision_number revision)),
        (''status'', PStr (change_order_value (co_status order))), (''row_version'', PInt (co_row_version order)),
        (''content_hash'', PStr (rev_canonical_artifact_hash revision)), (''title'', PStr (rev_title revision)),
        (''requested_change'', PStr (rev_requested_change revision)), (''deliverables'', PList (rev_deliverables revision)),
        (''exclusions'', PList (rev_exclusions revision)), (''assumptions'', PList (rev_assumptions revision)),
        (''client_explanation'', PStr (rev_client_explanation revision)),
        (''recipient_email'', PStr (rev_recipient_email revision)), (''subject'', PStr (rev_subject revision)),
        (''plain_text_body'', PStr (rev_plain_text_body revision)), (''html_body'', PStr (rev_html_body revision)),
        (''terms'', PDict (rev_terms_json revision))]))"

section \<open>Acceptance\<close>

definition receipt_credentials :: "env \<Rightarrow> client_capability \<Rightarrow> proposal_revision \<Rightarrow> time \<Rightarrow> capability_credentials act" where
  "receipt_credentials E source revision now =
     bindE (fresh_token E) (\<lambda>token.
     bindE fresh_uuid (\<lambda>i.
     bindE the_time (\<lambda>created.
     bindE (ret \<lparr>cc_id = i, cc_tenant_id = cc_tenant_id source, cc_project_id = cc_project_id source,
        cc_change_order_id = cc_change_order_id source, cc_revision_id = rev_id revision,
        cc_client_id = cc_client_id source, cc_token_hash = sha256 E token,
        cc_content_hash = rev_canonical_artifact_hash revision, cc_purpose = RECEIPT, cc_activated_at = Some now,
        cc_expires_at = Some (now + days 30), cc_consumed_at = None, cc_revoked_at = None, cc_created_at = created\<rparr>) (\<lambda>capability.
     bindE (add_capability capability) (\<lambda>_.
     issue_session E capability token RECEIPT now)))))"

definition receipt_credentials_for_existing :: "env \<Rightarrow> client_capability \<Rightarrow> proposal_revision \<Rightarrow> time \<Rightarrow>
    capability_credentials act" where
  "receipt_credentials_for_existing E source revision now =
     bindE (receipt_capability source (cc_change_order_id source) (rev_id revision)) (\<lambda>found.
     case found of
       None \<Rightarrow> receipt_credentials E source revision now
     | Some receipt \<Rightarrow> issue_session E receipt [] RECEIPT now)"

definition payment_for_revision :: "uuid \<Rightarrow> payment_request option act" where
  "payment_for_revision revision =
     gets (\<lambda>s. find (\<lambda>p. pr_accepted_revision_id p = revision) (payment_requests s))"

definition prior_acceptance :: "uuid \<Rightarrow> string \<Rightarrow> approval option act" where
  "prior_acceptance revision key = gets (\<lambda>s. find (\<lambda>a. appr_revision_id a = revision \<and> appr_actor_type a = CLIENT \<and>
     dict_get (appr_provenance a) ''idempotency_key'' = PStr key) (approvals s))"

definition client_actor :: "client_capability \<Rightarrow> string" where
  "client_actor c = ''client:'' @ uuid_str (cc_client_id c)"

definition offer_project :: "client_capability \<Rightarrow> change_order \<Rightarrow> project option act" where
  "offer_project capability order = gets (\<lambda>s. find (\<lambda>p. proj_id p = co_project_id order \<and>
     proj_tenant_id p = cc_tenant_id capability) (projects s))"

definition locked_order :: "client_capability \<Rightarrow> change_order \<Rightarrow> change_order option act" where
  "locked_order capability order = gets (\<lambda>s. find (\<lambda>c. co_id c = co_id order \<and>
     co_tenant_id c = cc_tenant_id capability) (change_orders s))"

definition send_action :: "uuid \<Rightarrow> uuid \<Rightarrow> uuid \<Rightarrow> external_action option act" where
  "send_action tenant order revision = gets (\<lambda>s. action_for tenant (send_action_key order revision) (external_actions s))"

definition in_flight :: "external_action option \<Rightarrow> bool" where
  "in_flight action = (case action of None \<Rightarrow> False | Some a \<Rightarrow> act_state a \<in> {DISPATCHING, UNKNOWN_OUTCOME})"

definition acceptable :: "change_order \<Rightarrow> external_action option \<Rightarrow> bool" where
  "acceptable order action \<longleftrightarrow>
     co_status order = AWAITING_CLIENT_APPROVAL \<or> co_status order = SEND_PENDING \<and> in_flight action"

text \<open>The new scope version: the items of the previous one, and the amendment that records it.\<close>

definition next_scope_version :: "uuid \<Rightarrow> uuid \<Rightarrow> scope_version \<Rightarrow> int act" where
  "next_scope_version project tenant previous = gets (\<lambda>s.
     (case top_by sv_version (filter (\<lambda>v. sv_project_id v = project \<and> sv_tenant_id v = tenant) (scope_versions s)) of
        None \<Rightarrow> sv_version previous
      | Some v \<Rightarrow> if sv_version v = 0 then sv_version previous else sv_version v) + 1)"

definition copy_scope_item :: "uuid \<Rightarrow> uuid \<Rightarrow> uuid \<Rightarrow> scope_version_item \<Rightarrow> unit act" where
  "copy_scope_item tenant project version link =
     bindE fresh_uuid (\<lambda>i.
     add_scope_version_item \<lparr>svi_id = i, svi_tenant_id = tenant, svi_project_id = project,
        svi_scope_version_id = version, svi_scope_item_id = svi_scope_item_id link\<rparr>)"

definition amend_scope :: "env \<Rightarrow> client_capability \<Rightarrow> change_order \<Rightarrow> proposal_revision \<Rightarrow> project \<Rightarrow> scope_version \<Rightarrow>
    unit act" where
  "amend_scope E capability order revision project previous =
     bindE (next_scope_version (proj_id project) (cc_tenant_id capability) previous) (\<lambda>version.
     bindE (digest_of E (PDict [(''parent'', PStr (sv_content_hash previous)),
        (''revision'', PStr (rev_canonical_artifact_hash revision))])) (\<lambda>digest.
     bindE fresh_uuid (\<lambda>i.
     bindE the_time (\<lambda>now.
     bindE (add_scope_version \<lparr>sv_id = i, sv_tenant_id = cc_tenant_id capability, sv_project_id = proj_id project,
        sv_version = version, sv_parent_version_id = Some (sv_id previous), sv_source_revision_id = Some (rev_id revision),
        sv_confirmation_actor = client_actor capability, sv_content_hash = digest, sv_confirmed_at = now,
        sv_created_at = now\<rparr>) (\<lambda>_.
     bindE (gets (\<lambda>s. filter (\<lambda>l. svi_scope_version_id l = sv_id previous) (scope_version_items s))) (\<lambda>links.
     bindE (mapE (copy_scope_item (cc_tenant_id capability) (proj_id project) i) links) (\<lambda>_.
     bindE (put_project (proj_id project) (\<lambda>p. p\<lparr>proj_current_scope_version_id := Some i\<rparr>)) (\<lambda>_.
     bindE fresh_uuid (\<lambda>j.
     add_amendment \<lparr>amend_id = j, amend_tenant_id = cc_tenant_id capability, amend_project_id = proj_id project,
        amend_accepted_revision_id = rev_id revision, amend_previous_scope_version_id = sv_id previous,
        amend_resulting_scope_version_id = i, amend_operations_json =
          [PDict [(''operation'', PStr ''ADD_CHANGE_ORDER''), (''change_order_id'', PStr (uuid_str (co_id order))),
                  (''revision_id'', PStr (uuid_str (rev_id revision)))]], amend_created_at = now\<rparr>)))))))))"

definition open_payment :: "client_capability \<Rightarrow> change_order \<Rightarrow> proposal_revision \<Rightarrow> project \<Rightarrow> uuid act" where
  "open_payment capability order revision project =
     bindE fresh_uuid (\<lambda>i.
     bindE the_time (\<lambda>now.
     bindE (add_payment_request \<lparr>pr_id = i, pr_tenant_id = cc_tenant_id capability, pr_project_id = proj_id project,
        pr_accepted_revision_id = rev_id revision, pr_total_minor = rev_total_minor revision,
        pr_tax_minor = rev_tax_minor revision, pr_currency = rev_currency revision, pr_status = CREATION_PENDING,
        pr_due_at = None, pr_expire_at = None, pr_paid_at = None, pr_row_version = 1, pr_created_at = now,
        pr_updated_at = now\<rparr>) (\<lambda>_.
     bindE fresh_uuid (\<lambda>j.
     bindE (add_revenue_fact \<lparr>rf_id = j, rf_tenant_id = cc_tenant_id capability, rf_project_id = proj_id project,
        rf_change_order_id = co_id order, rf_revision_id = rev_id revision, rf_amount_minor = rev_total_minor revision,
        rf_tax_minor = rev_tax_minor revision, rf_currency = rev_currency revision, rf_fact_type = ''APPROVED'',
        rf_created_at = now\<rparr>) (\<lambda>_.
     ret i)))))"

text \<open>The state changes of a first acceptance, after all its checks.\<close>

definition confirm_send :: "external_action option \<Rightarrow> uuid \<Rightarrow> unit act" where
  "confirm_send action revision =
     (case action of
        None \<Rightarrow> ret ()
      | Some a \<Rightarrow> perhaps (in_flight action) (put_action (act_id a) (\<lambda>r. r\<lparr>act_state := RECEIPT_CONFIRMED,
          act_receipt_ref := Some [(''provenance'', PStr ''client-receipt''), (''revision_id'', PStr (uuid_str revision))]\<rparr>)))"

definition record_acceptance :: "env \<Rightarrow> client_capability \<Rightarrow> proposal_revision \<Rightarrow> change_order \<Rightarrow> project \<Rightarrow>
    external_action option \<Rightarrow> string \<Rightarrow> string \<Rightarrow> acceptance_result act" where
  "record_acceptance E capability revision order project action content_hash key =
     bindE the_time (\<lambda>now.
     bindE fresh_uuid (\<lambda>i.
     bindE (add_approval \<lparr>appr_id = i, appr_tenant_id = cc_tenant_id capability, appr_project_id = co_project_id order,
        appr_change_order_id = co_id order, appr_revision_id = rev_id revision, appr_actor_type = CLIENT,
        appr_actor_identifier = client_actor capability, appr_content_hash = content_hash, appr_decision = APPROVED,
        appr_provenance = [(''model'', PStr ''bearer-capability''), (''idempotency_key'', PStr key)],
        appr_comment = None, appr_created_at = now\<rparr>) (\<lambda>_.
     bindE (put_capability (cc_id capability) (\<lambda>c. c\<lparr>cc_consumed_at := Some now, cc_expires_at := Some (now + days 30)\<rparr>)) (\<lambda>_.
     bindE (confirm_send action (rev_id revision)) (\<lambda>_.
     bindE (put_order (co_id order) (\<lambda>c. c\<lparr>co_status := CLIENT_APPROVED, co_row_version := co_row_version c + 1\<rparr>)) (\<lambda>_.
     bindE (put_request (co_request_id order) (\<lambda>r. r\<lparr>req_status := RESOLVED, req_row_version := req_row_version r + 1\<rparr>)) (\<lambda>_.
     bindE (gets (\<lambda>s. Option.bind (proj_current_scope_version_id project) (\<lambda>v. row_by sv_id v (scope_versions s)))) (\<lambda>found_scope.
     bindE (some_or ConflictError found_scope) (\<lambda>previous.
     bindE (amend_scope E capability order revision project previous) (\<lambda>_.
     bindE (open_payment capability order revision project) (\<lambda>payment.
     bindE fresh_uuid (\<lambda>correlation.
     bindE (prepare_payment_link E \<lparr>ctx_tenant_id = cc_tenant_id capability, ctx_subject = client_actor capability,
        ctx_email = rev_recipient_email revision, ctx_email_verified = True, ctx_correlation_id = correlation\<rparr> payment) (\<lambda>_.
     bindE (receipt_credentials E capability revision now) (\<lambda>receipt.
     bindE (order_row (co_id order)) (\<lambda>updated.
     bindE (get_payment payment) (\<lambda>found_payment.
     bindE (some_or KeyError found_payment) (\<lambda>p.
     ret \<lparr>acc_change_order = updated, acc_payment_request = p, acc_receipt = receipt\<rparr>)))))))))))))))))"

definition replay_acceptance :: "env \<Rightarrow> client_capability \<Rightarrow> proposal_revision \<Rightarrow> change_order \<Rightarrow> string \<Rightarrow>
    acceptance_result act" where
  "replay_acceptance E capability revision order key =
     bindE (prior_acceptance (rev_id revision) key) (\<lambda>prior.
     bindE (payment_for_revision (rev_id revision)) (\<lambda>existing.
     bindE (require (prior \<noteq> None) ConflictError) (\<lambda>_.
     bindE (some_or ConflictError existing) (\<lambda>p.
     bindE the_time (\<lambda>now.
     bindE (receipt_credentials_for_existing E capability revision now) (\<lambda>receipt.
     ret \<lparr>acc_change_order = order, acc_payment_request = p, acc_receipt = receipt\<rparr>))))))"

definition accept_client :: "env \<Rightarrow> string \<Rightarrow> string \<Rightarrow> uuid \<Rightarrow> int \<Rightarrow> uuid \<Rightarrow> string \<Rightarrow> string \<Rightarrow> acceptance_result act" where
  "accept_client E session_token csrf_token order_id expected_row_version revision_id content_hash key =
     bindE (session_scope E session_token (Some csrf_token)) (\<lambda>(row, capability, revision, scoped).
     bindE (require (co_id scoped = order_id \<and> cc_revision_id capability = revision_id \<and>
        rev_canonical_artifact_hash revision = content_hash) ConflictError) (\<lambda>_.
     bindE (require (key \<noteq> []) ValidationError) (\<lambda>_.
     bindE (offer_project capability scoped) (\<lambda>found_project.
     bindE (locked_order capability scoped) (\<lambda>found_order.
     bindE (some_or ConflictError found_order) (\<lambda>order.
     bindE (some_or ConflictError found_project) (\<lambda>project.
     if cc_consumed_at capability \<noteq> None then replay_acceptance E capability revision order key
     else
       bindE (require (co_row_version order = expected_row_version) ConflictError) (\<lambda>_.
       bindE (send_action (cc_tenant_id capability) (co_id order) (rev_id revision)) (\<lambda>action.
       bindE (require (acceptable order action) ConflictError) (\<lambda>_.
       bindE (require (proj_current_scope_version_id project = Some (rev_baseline_version_id revision)) ConflictError) (\<lambda>_.
       bindE (payment_for_revision (rev_id revision)) (\<lambda>existing.
       case existing of
         Some p \<Rightarrow>
           bindE the_time (\<lambda>now.
           bindE (receipt_credentials E capability revision now) (\<lambda>receipt.
           ret \<lparr>acc_change_order = order, acc_payment_request = p, acc_receipt = receipt\<rparr>))
       | None \<Rightarrow> record_acceptance E capability revision order project action content_hash key))))))))))))"

section \<open>Receipts\<close>

fun payment_value :: "payment_status \<Rightarrow> string" where
  "payment_value NOT_REQUESTED = ''NOT_REQUESTED''"
| "payment_value CREATION_PENDING = ''CREATION_PENDING''"
| "payment_value PENDING = ''PENDING''"
| "payment_value PAY_REVIEW_REQUIRED = ''REVIEW_REQUIRED''"
| "payment_value PAID = ''PAID''"
| "payment_value PAY_EXPIRED = ''EXPIRED''"
| "payment_value PAY_CANCELLED = ''CANCELLED''"
| "payment_value REVERSED = ''REVERSED''"

definition opt_str :: "string option \<Rightarrow> pyval" where
  "opt_str t = (case t of None \<Rightarrow> PNone | Some v \<Rightarrow> PStr v)"

definition created_link :: "uuid \<Rightarrow> payment_link_attempt option act" where
  "created_link payment = gets (\<lambda>s. top_by pl_attempt_number
     (filter (\<lambda>l. pl_status l = CREATED) (links_of payment (payment_link_attempts s))))"

definition verify_receipt_session :: "env \<Rightarrow> string \<Rightarrow> ((string \<times> pyval) list) act" where
  "verify_receipt_session E session_token =
     bindE (session_scope E session_token None) (\<lambda>(row, capability, revision, order).
     bindE (require (cc_purpose capability = RECEIPT \<and> co_status order = CLIENT_APPROVED) ValidationError) (\<lambda>_.
     bindE (payment_for_revision (rev_id revision)) (\<lambda>payment.
     bindE (case payment of None \<Rightarrow> ret None | Some p \<Rightarrow> created_link (pr_id p)) (\<lambda>link.
     ret [(''change_order_id'', PStr (uuid_str (co_id order))), (''revision_id'', PStr (uuid_str (rev_id revision))),
        (''status'', PStr (change_order_value (co_status order))),
        (''payment_status'', PStr (case payment of None \<Rightarrow> ''CREATION_PENDING'' | Some p \<Rightarrow> payment_value (pr_status p))),
        (''payment_request_id'', opt_str (map_option (\<lambda>p. uuid_str (pr_id p)) payment)),
        (''payment_link_url'', opt_str (Option.bind link pl_short_url)),
        (''payment_link_status'', opt_str (Option.bind link pl_provider_status))]))))"

definition refresh_client_session :: "env \<Rightarrow> string \<Rightarrow> capability_credentials act" where
  "refresh_client_session E session_token =
     bindE (session_scope E session_token None) (\<lambda>(row, capability, revision, order).
     bindE the_time (\<lambda>now.
     bindE (put_client_session (cs_id row) (\<lambda>r. r\<lparr>cs_revoked_at := Some now\<rparr>)) (\<lambda>_.
     issue_session E capability [] (cs_purpose row) now)))"

section \<open>Sending\<close>

definition order_of_payload :: "(string \<times> pyval) list \<Rightarrow> uuid act" where
  "order_of_payload payload =
     bindE (dict_index payload ''change_order_id'') (\<lambda>v.
     some_or ValueError (uuid_of_str (py_str v)))"

definition gmail_send :: "external_action \<Rightarrow> bool" where
  "gmail_send a \<longleftrightarrow> act_provider a = ''gmail'' \<and> act_operation a = ''send''"

definition begin_gmail_send :: "uuid \<Rightarrow> ((string \<times> pyval) list) act" where
  "begin_gmail_send i =
     bindE (get_external_action i) (\<lambda>found.
     bindE (some_or NotFoundError found) (\<lambda>action.
     bindE (require (gmail_send action) NotFoundError) (\<lambda>_.
     bindE (catchE (order_of_payload (act_approved_payload action))
        (\<lambda>e. raise (if e = ValueError then ValidationError else e))) (\<lambda>order_id.
     bindE (gets (\<lambda>s. find (\<lambda>c. co_id c = order_id \<and> co_tenant_id c = act_tenant_id action) (change_orders s))) (\<lambda>found_order.
     bindE (require (case found_order of None \<Rightarrow> False | Some c \<Rightarrow> co_status c = SEND_PENDING) ConflictError) (\<lambda>_.
     bindE (begin_action_dispatch i []) (\<lambda>_.
     ret (act_approved_payload action))))))))"

text \<open>\<open>{**d, k: v}\<close>.\<close>

fun dict_set :: "(string \<times> pyval) list \<Rightarrow> string \<Rightarrow> pyval \<Rightarrow> (string \<times> pyval) list" where
  "dict_set [] k v = [(k, v)]"
| "dict_set (e # d) k v = (if fst e = k then (k, v) # d else e # dict_set d k v)"

definition matches_artifact :: "(string \<times> pyval) list \<Rightarrow> string \<Rightarrow> string \<Rightarrow> string \<Rightarrow> bool" where
  "matches_artifact expected recipient plain_text_body content_hash \<longleftrightarrow>
     dict_get expected ''recipient'' = PStr recipient \<and>
     dict_get expected ''plain_text_body'' = PStr plain_text_body \<and>
     dict_get expected ''content_hash'' = PStr content_hash"

definition late_send_callback :: "external_action \<Rightarrow> string \<Rightarrow> unit act" where
  "late_send_callback action message =
     bindE (last_attempt (act_id action)) (\<lambda>attempt.
     bindE (case attempt of
         None \<Rightarrow> ret ()
       | Some a \<Rightarrow> put_attempt (att_id a) (\<lambda>r. r\<lparr>att_provider_request_id := Some message,
           att_outcome_ref := Some [(''provider_message_id'', PStr message), (''late_callback'', PBool True)]\<rparr>)) (\<lambda>_.
     put_action (act_id action) (\<lambda>r. r\<lparr>act_receipt_ref :=
        Some (dict_set (case act_receipt_ref action of None \<Rightarrow> [] | Some d \<Rightarrow> d) ''provider_message_id'' (PStr message))\<rparr>)))"

definition send_found :: "external_action \<Rightarrow> string \<Rightarrow> unit act" where
  "send_found action message =
     bindE (put_action (act_id action) (\<lambda>r. r\<lparr>act_state := SUCCEEDED\<rparr>)) (\<lambda>_.
     bindE (last_attempt (act_id action)) (\<lambda>attempt.
     bindE the_time (\<lambda>now.
     case attempt of
       None \<Rightarrow> ret ()
     | Some a \<Rightarrow> put_attempt (att_id a) (\<lambda>r. r\<lparr>att_state := SUCCEEDED, att_provider_request_id := Some message,
         att_completed_at := Some now, att_outcome_ref := Some [(''provider_message_id'', PStr message)]\<rparr>))))"

definition mark_sent :: "external_action \<Rightarrow> unit act" where
  "mark_sent action =
     bindE (order_of_payload (act_approved_payload action)) (\<lambda>order_id.
     bindE (gets (\<lambda>s. find (\<lambda>c. co_id c = order_id \<and> co_tenant_id c = act_tenant_id action) (change_orders s))) (\<lambda>found_order.
     case found_order of
       None \<Rightarrow> ret ()
     | Some c \<Rightarrow> perhaps (co_status c = SEND_PENDING) (put_order order_id (\<lambda>c. c\<lparr>co_status := AWAITING_CLIENT_APPROVAL,
         co_row_version := co_row_version c + 1\<rparr>))))"

definition record_gmail_send_success :: "uuid \<Rightarrow> string \<Rightarrow> string \<Rightarrow> string \<Rightarrow> string \<Rightarrow> unit act" where
  "record_gmail_send_success i message recipient plain_text_body content_hash =
     bindE (get_external_action i) (\<lambda>found.
     bindE (some_or NotFoundError found) (\<lambda>action.
     bindE (require (matches_artifact (act_approved_payload action) recipient plain_text_body content_hash) ValidationError) (\<lambda>_.
     if act_state action = RECEIPT_CONFIRMED then late_send_callback action message
     else
       bindE (require (in_flight (Some action)) ConflictError) (\<lambda>_.
       bindE (if act_state action = UNKNOWN_OUTCOME then send_found action message
       else complete_action i [(''provider_message_id'', PStr message)] (Some message) []) (\<lambda>_.
       mark_sent action)))))"

definition record_gmail_send_unknown :: "uuid \<Rightarrow> string \<Rightarrow> unit act" where
  "record_gmail_send_unknown i reason =
     bindE (get_external_action i) (\<lambda>found.
     bindE (some_or NotFoundError found) (\<lambda>action.
     if act_state action = UNKNOWN_OUTCOME then ret ()
     else
       bindE (require (act_state action = DISPATCHING) ConflictError) (\<lambda>_.
       mark_action_unknown i reason)))"

definition exact_match :: "(string \<times> pyval) list \<Rightarrow> (string \<times> pyval) list \<Rightarrow> bool" where
  "exact_match expected item \<longleftrightarrow>
     dict_get item ''recipient'' = dict_get expected ''recipient'' \<and>
     dict_get item ''plain_text_body'' = dict_get expected ''plain_text_body'' \<and>
     dict_get item ''content_hash'' = dict_get expected ''content_hash'' \<and>
     dict_get item ''marker'' = dict_get expected ''marker'' \<and> truthy (dict_get item ''provider_message_id'')"

definition adopt_match :: "external_action \<Rightarrow> (string \<times> pyval) list \<Rightarrow> unit act" where
  "adopt_match action item =
     bindE (dict_index (act_approved_payload action) ''recipient'') (\<lambda>recipient.
     bindE (dict_index (act_approved_payload action) ''plain_text_body'') (\<lambda>body.
     bindE (dict_index (act_approved_payload action) ''content_hash'') (\<lambda>content_hash.
     record_gmail_send_success (act_id action) (py_str (dict_get item ''provider_message_id'')) (py_str recipient)
        (py_str body) (py_str content_hash))))"

definition reconcile_gmail_unknown :: "uuid \<Rightarrow> ((string \<times> pyval) list) list \<Rightarrow> unit act" where
  "reconcile_gmail_unknown i found_items =
     bindE (get_external_action i) (\<lambda>found.
     bindE (some_or NotFoundError found) (\<lambda>action.
     bindE (require (gmail_send action) NotFoundError) (\<lambda>_.
     bindE (require (act_state action = UNKNOWN_OUTCOME) ConflictError) (\<lambda>_.
     case filter (exact_match (act_approved_payload action)) found_items of
       [] \<Rightarrow> ret ()
     | [item] \<Rightarrow> adopt_match action item
     | item # others \<Rightarrow>
         bindE (transition_action action REVIEW_REQUIRED) (\<lambda>_.
         put_action i (\<lambda>r. r\<lparr>act_uncertainty_reason := Some ''multiple_exact_provider_matches''\<rparr>))))))"

section \<open>Decisions\<close>

definition audit_change_order :: "env \<Rightarrow> change_order \<Rightarrow> string \<Rightarrow> string \<Rightarrow> change_order_status \<Rightarrow> change_order_status \<Rightarrow>
    uuid \<Rightarrow> (string \<times> pyval) list \<Rightarrow> unit act" where
  "audit_change_order E order actor action before after correlation metadata =
     bindE (digest_of E (PDict [(''change_order_id'', PStr (uuid_str (co_id order))),
        (''before'', PStr (change_order_value before)), (''after'', PStr (change_order_value after)),
        (''row_version'', PInt (co_row_version order))])) (\<lambda>digest.
     bindE fresh_uuid (\<lambda>i.
     bindE the_time (\<lambda>now.
     add_audit_event \<lparr>audit_id = i, audit_tenant_id = co_tenant_id order, audit_project_id = Some (co_project_id order),
        audit_actor = actor, audit_action = action, audit_resource_type = ''change_order'',
        audit_resource_id = uuid_str (co_id order), audit_resource_revision = Some (co_row_version order),
        audit_correlation_id = correlation, audit_causation_id = None,
        audit_before_state = Some [(''status'', PStr (change_order_value before))],
        audit_after_state = Some [(''status'', PStr (change_order_value after))], audit_content_digest = digest,
        audit_safe_metadata = metadata, audit_occurred_at = now\<rparr>)))"

definition revoke_capabilities :: "uuid \<Rightarrow> time \<Rightarrow> unit act" where
  "revoke_capabilities order now = update_live_capabilities order (\<lambda>c. c\<lparr>cc_revoked_at := Some now\<rparr>)"

definition cancellable :: "external_action option \<Rightarrow> bool" where
  "cancellable action = (case action of None \<Rightarrow> False | Some a \<Rightarrow> act_state a \<in> {READY, RETRY_WAIT})"

definition cancel_pending_send :: "change_order \<Rightarrow> unit act" where
  "cancel_pending_send order =
     bindE (latest_send_action order) (\<lambda>action.
     case action of None \<Rightarrow> ret () | Some a \<Rightarrow> perhaps (cancellable action) (cancel_action (act_id a)))"

text \<open>\<open>order.status = target; order.row_version += 1\<close>, and the order as it is then.\<close>

definition move_order :: "uuid \<Rightarrow> change_order_status \<Rightarrow> change_order act" where
  "move_order i target =
     bindE (put_order i (\<lambda>c. c\<lparr>co_status := target, co_row_version := co_row_version c + 1\<rparr>)) (\<lambda>_.
     order_row i)"

definition settle_request :: "change_order \<Rightarrow> request_status \<Rightarrow> string option \<Rightarrow> unit act" where
  "settle_request order target reason = put_request (co_request_id order)
     (\<lambda>r. r\<lparr>req_status := target, req_rejection_reason := reason, req_row_version := req_row_version r + 1\<rparr>)"

definition present :: "string option \<Rightarrow> pyval" where
  "present t = PBool (case t of None \<Rightarrow> False | Some v \<Rightarrow> v \<noteq> [])"

fun freelancer_decision :: "approval_decision \<Rightarrow> (change_order_status \<times> request_status \<times> string) option" where
  "freelancer_decision REJECTED = Some (REJECTED_BY_FREELANCER, DECLINED, ''freelancer_rejected'')"
| "freelancer_decision DECISION_WAIVED = Some (WITHDRAWN, WAIVED, ''freelancer_waived'')"
| "freelancer_decision _ = None"

definition freelancer_decide :: "env \<Rightarrow> trusted_context \<Rightarrow> uuid \<Rightarrow> approval_decision \<Rightarrow> string option \<Rightarrow> change_order act" where
  "freelancer_decide E ctx order_id decision comment =
     bindE (some_or ValidationError (freelancer_decision decision)) (\<lambda>(target, request_target, name).
     bindE (find_order ctx order_id) (\<lambda>order.
     bindE (require (co_status order = AWAITING_FREELANCER_APPROVAL) ConflictError) (\<lambda>_.
     bindE (current_revision order) (\<lambda>revision.
     bindE the_time (\<lambda>now.
     bindE fresh_uuid (\<lambda>i.
     bindE (add_approval \<lparr>appr_id = i, appr_tenant_id = co_tenant_id order, appr_project_id = co_project_id order,
        appr_change_order_id = co_id order, appr_revision_id = rev_id revision, appr_actor_type = FREELANCER,
        appr_actor_identifier = ctx_subject ctx, appr_content_hash = rev_canonical_artifact_hash revision,
        appr_decision = decision, appr_provenance = [(''model'', PStr ''authenticated-owner'')],
        appr_comment = comment, appr_created_at = now\<rparr>) (\<lambda>_.
     bindE (move_order (co_id order) target) (\<lambda>updated.
     bindE (settle_request order request_target comment) (\<lambda>_.
     bindE (revoke_capabilities (co_id order) now) (\<lambda>_.
     bindE (audit_change_order E updated (ctx_subject ctx) name (co_status order) target (ctx_correlation_id ctx)
        [(''comment_present'', present comment)]) (\<lambda>_.
     ret updated)))))))))))"

definition withdraw_change_order :: "env \<Rightarrow> trusted_context \<Rightarrow> uuid \<Rightarrow> string option \<Rightarrow> change_order act" where
  "withdraw_change_order E ctx order_id reason =
     bindE (find_order ctx order_id) (\<lambda>order.
     bindE (require (co_status order \<notin> {CLIENT_APPROVED, WITHDRAWN, CO_EXPIRED, REJECTED_BY_CLIENT, REJECTED_BY_FREELANCER})
        ConflictError) (\<lambda>_.
     bindE (latest_send_action order) (\<lambda>action.
     bindE (require (\<not> in_flight action) ConflictError) (\<lambda>_.
     bindE (move_order (co_id order) WITHDRAWN) (\<lambda>updated.
     bindE (settle_request order DECLINED reason) (\<lambda>_.
     bindE (cancel_pending_send order) (\<lambda>_.
     bindE the_time (\<lambda>now.
     bindE (revoke_capabilities (co_id order) now) (\<lambda>_.
     bindE (audit_change_order E updated (ctx_subject ctx) ''withdraw'' (co_status order) WITHDRAWN (ctx_correlation_id ctx)
        [(''reason_present'', present reason)]) (\<lambda>_.
     ret updated))))))))))"

fun client_decision :: "approval_decision \<Rightarrow> (change_order_status \<times> request_status \<times> string) option" where
  "client_decision REQUEST_CHANGES = Some (REVISION_REQUESTED, PROPOSAL_OPEN, ''client_request_changes'')"
| "client_decision REJECTED = Some (REJECTED_BY_CLIENT, DECLINED, ''client_reject'')"
| "client_decision _ = None"

definition queue_review :: "client_capability \<Rightarrow> change_order \<Rightarrow> proposal_revision \<Rightarrow> project \<Rightarrow> unit act" where
  "queue_review capability order revision project =
     bindE fresh_uuid (\<lambda>correlation.
     bindE (enqueue_now (cc_tenant_id capability) ''change_order.freelancer_review''
        [(''change_order_id'', PStr (uuid_str (co_id order))), (''revision_id'', PStr (uuid_str (rev_id revision)))]
        correlation (Some (proj_id project)) None) (\<lambda>_.
     ret ()))"

definition client_decide :: "env \<Rightarrow> string \<Rightarrow> string \<Rightarrow> uuid \<Rightarrow> int \<Rightarrow> uuid \<Rightarrow> string \<Rightarrow> approval_decision \<Rightarrow>
    string option \<Rightarrow> change_order act" where
  "client_decide E session_token csrf_token order_id expected_row_version revision_id content_hash decision comment =
     bindE (some_or ValidationError (client_decision decision)) (\<lambda>(target, request_target, name).
     bindE (session_scope E session_token (Some csrf_token)) (\<lambda>(row, capability, revision, scoped).
     bindE (require (cc_purpose capability = REVIEW \<and> cc_consumed_at capability = None \<and> co_id scoped = order_id \<and>
        rev_id revision = revision_id \<and> rev_canonical_artifact_hash revision = content_hash) ConflictError) (\<lambda>_.
     bindE (offer_project capability scoped) (\<lambda>found_project.
     bindE (locked_order capability scoped) (\<lambda>found_order.
     bindE (some_or ConflictError found_project) (\<lambda>project.
     bindE (some_or ConflictError found_order) (\<lambda>order.
     bindE (require (co_row_version order = expected_row_version) ConflictError) (\<lambda>_.
     bindE (require (co_status order = AWAITING_CLIENT_APPROVAL) ConflictError) (\<lambda>_.
     bindE the_time (\<lambda>now.
     bindE (put_capability (cc_id capability) (\<lambda>c. c\<lparr>cc_consumed_at := Some now\<rparr>)) (\<lambda>_.
     bindE fresh_uuid (\<lambda>i.
     bindE (add_approval \<lparr>appr_id = i, appr_tenant_id = cc_tenant_id capability, appr_project_id = co_project_id order,
        appr_change_order_id = co_id order, appr_revision_id = rev_id revision, appr_actor_type = CLIENT,
        appr_actor_identifier = client_actor capability, appr_content_hash = content_hash, appr_decision = decision,
        appr_provenance = [(''model'', PStr ''bearer-capability'')], appr_comment = comment, appr_created_at = now\<rparr>) (\<lambda>_.
     bindE (move_order (co_id order) target) (\<lambda>updated.
     bindE (request_of order) (\<lambda>request.
     bindE (settle_request order request_target comment) (\<lambda>_.
     bindE (perhaps (request \<noteq> None \<and> decision = REQUEST_CHANGES) (queue_review capability order revision project)) (\<lambda>_.
     bindE (revoke_capabilities (co_id order) now) (\<lambda>_.
     bindE fresh_uuid (\<lambda>correlation.
     bindE (audit_change_order E updated (client_actor capability) name (co_status order) target correlation
        [(''comment_present'', present comment)]) (\<lambda>_.
     ret updated))))))))))))))))))))"

section \<open>Expiry\<close>

definition review_capability :: "uuid \<Rightarrow> client_capability option act" where
  "review_capability order = gets (\<lambda>s. top_by cc_created_at
     (filter (\<lambda>c. live_capability order c \<and> cc_purpose c = REVIEW) (client_capabilities s)))"

definition expire_order :: "env \<Rightarrow> change_order \<Rightarrow> unit act \<Rightarrow> string \<Rightarrow> nat act" where
  "expire_order E order revoke name =
     bindE (move_order (co_id order) CO_EXPIRED) (\<lambda>updated.
     bindE revoke (\<lambda>_.
     bindE fresh_uuid (\<lambda>correlation.
     bindE (audit_change_order E updated ''system'' name (co_status order) CO_EXPIRED correlation []) (\<lambda>_.
     ret 1))))"

definition expire_offer :: "env \<Rightarrow> time \<Rightarrow> change_order \<Rightarrow> nat act" where
  "expire_offer E current order =
     bindE (review_capability (co_id order)) (\<lambda>capability.
     case capability of
       None \<Rightarrow> ret 0
     | Some c \<Rightarrow>
         if cc_expires_at c = None \<or> live_at current (cc_expires_at c) then ret 0
         else expire_order E order
           (bindE (put_capability (cc_id c) (\<lambda>r. r\<lparr>cc_revoked_at := Some current\<rparr>)) (\<lambda>_. cancel_pending_send order))
           ''offer_expired'')"

definition last_freelancer_approval :: "uuid \<Rightarrow> approval option act" where
  "last_freelancer_approval order = gets (\<lambda>s. top_by appr_created_at (filter (\<lambda>a. appr_change_order_id a = order \<and>
     appr_actor_type a = FREELANCER \<and> appr_decision a = APPROVED) (approvals s)))"

definition expire_unsent :: "env \<Rightarrow> time \<Rightarrow> change_order \<Rightarrow> nat act" where
  "expire_unsent E current order =
     bindE (latest_send_action order) (\<lambda>action.
     bindE (last_freelancer_approval (co_id order)) (\<lambda>approval.
     if \<not> cancellable action then ret 0
     else (case approval of
       None \<Rightarrow> ret 0
     | Some a \<Rightarrow>
         if current < appr_created_at a + hours 24 then ret 0
         else expire_order E order
           (bindE (cancel_pending_send order) (\<lambda>_. revoke_capabilities (co_id order) current)) ''unsent_offer_expired'')))"

definition orders_with :: "change_order_status set \<Rightarrow> change_order list act" where
  "orders_with states = gets (\<lambda>s. filter (\<lambda>c. co_status c \<in> states) (change_orders s))"

definition expire_stale_offers :: "env \<Rightarrow> time option \<Rightarrow> nat act" where
  "expire_stale_offers E now =
     bindE (time_or_now now) (\<lambda>current.
     bindE (orders_with {SEND_PENDING, AWAITING_CLIENT_APPROVAL}) (\<lambda>offered.
     bindE (mapE (expire_offer E current) offered) (\<lambda>expired.
     bindE (orders_with {SEND_PENDING}) (\<lambda>pending.
     bindE (mapE (expire_unsent E current) pending) (\<lambda>unsent.
     ret (sum_list expired + sum_list unsent))))))"

section \<open>Notifications\<close>

definition review_url :: "env \<Rightarrow> string \<Rightarrow> string act" where
  "review_url E envelope =
     bindE (unprotect E envelope) (\<lambda>token.
     ret (rev (dropWhile (\<lambda>c. c = CHR ''/'') (rev (if client_review_base_url E = [] then ''http://localhost:3000''
        else client_review_base_url E))) @ ''/c#t='' @ token))"

definition materialize_client_approval_url :: "env \<Rightarrow> proposal_revision \<Rightarrow> string act" where
  "materialize_client_approval_url E revision = review_url E (rev_token_ciphertext revision)"

definition materialize_ses_notification :: "env \<Rightarrow> uuid \<Rightarrow> ((string \<times> pyval) list) act" where
  "materialize_ses_notification E i =
     bindE (get_external_action i) (\<lambda>found.
     bindE (some_or NotFoundError found) (\<lambda>action.
     bindE (require (act_provider action = ''ses'' \<and> act_operation action = ''send_change_order'') NotFoundError) (\<lambda>_.
     bindE (some_or ValidationError
        (case dict_get (act_approved_payload action) ''token_ciphertext'' of PStr t \<Rightarrow> Some t | _ \<Rightarrow> None)) (\<lambda>envelope.
     bindE (review_url E envelope) (\<lambda>url.
     ret (dict_set (act_approved_payload action) ''approval_url'' (PStr url)))))))"

definition settle_notification :: "uuid \<Rightarrow> notification_state \<Rightarrow> unit act" where
  "settle_notification action target =
     bindE (gets (\<lambda>s. find (\<lambda>n. ntf_action_id n = Some action) (notifications s))) (\<lambda>found.
     bindE (some_or NotFoundError found) (\<lambda>notification.
     put_notification (ntf_id notification) (\<lambda>r. r\<lparr>ntf_state := target\<rparr>)))"

definition record_ses_notification_success :: "uuid \<Rightarrow> string \<Rightarrow> unit act" where
  "record_ses_notification_success i message =
     bindE (get_external_action i) (\<lambda>found.
     bindE (some_or NotFoundError found) (\<lambda>action.
     bindE (require (act_provider action = ''ses'') NotFoundError) (\<lambda>_.
     bindE (if act_state action = DISPATCHING
       then complete_action i [(''provider_message_id'', PStr message)] (Some message) []
       else if act_state action = UNKNOWN_OUTCOME
       then put_action i (\<lambda>r. r\<lparr>act_state := SUCCEEDED, act_receipt_ref := Some [(''provider_message_id'', PStr message)]\<rparr>)
       else require (act_state action = SUCCEEDED) ConflictError) (\<lambda>_.
     settle_notification i SENT))))"

definition record_ses_notification_unknown :: "uuid \<Rightarrow> string \<Rightarrow> unit act" where
  "record_ses_notification_unknown i reason =
     bindE (get_external_action i) (\<lambda>found.
     bindE (some_or NotFoundError found) (\<lambda>action.
     bindE (require (act_provider action = ''ses'') NotFoundError) (\<lambda>_.
     bindE (if act_state action = DISPATCHING then mark_action_unknown i reason
       else require (act_state action = UNKNOWN_OUTCOME) ConflictError) (\<lambda>_.
     settle_notification i NTF_UNKNOWN_OUTCOME))))"

end
