(* ===== verification/Offer_Safety.thy ===== *)
theory Offer_Safety
  imports ChangeOrders
begin

text \<open>
  What the change-order operations guarantee: nothing is sent or accepted without the
  freelancer's approval of exactly that content, accepted orders and the content of every
  revision are final, and a revoked offer stays unusable. Each operation runs inside the
  request's transaction (\<open>get_session\<close> of \<open>services/api/database.py\<close>), so a step that raises
  changes nothing.
\<close>

section \<open>What the operations leave alone\<close>

definition offer_rows :: "db \<Rightarrow> change_order list \<times> proposal_revision list \<times> approval list \<times> client_capability list" where
  "offer_rows s = (change_orders s, proposal_revisions s, approvals s, client_capabilities s)"

interpretation offer_frame: state_frame offer_rows .

abbreviation offers_same :: "db \<Rightarrow> db \<Rightarrow> bool" where
  "offers_same \<equiv> (\<lambda>s t. offer_rows t = offer_rows s)"

lemma offers_same_rows:
  "offer_rows t = offer_rows s \<longleftrightarrow>
   change_orders t = change_orders s \<and> proposal_revisions t = proposal_revisions s \<and> approvals t = approvals s \<and>
   client_capabilities t = client_capabilities s"
  by (auto simp: offer_rows_def)

lemma offer_frame_steps:
  "evolves offers_same fresh_uuid" "evolves offers_same (fresh_token E)" "evolves offers_same the_time"
  "evolves offers_same (time_or_now t)" "evolves offers_same (trip ps cp)" "evolves offers_same (digest_of E v)"
  "evolves offers_same (add_job j)" "evolves offers_same (add_outbox_event ob)"
  "evolves offers_same (get_external_action i)" "evolves offers_same (put_action i f)"
  "evolves offers_same (transition_action a target)" "evolves offers_same (add_external_action a)"
  "evolves offers_same (add_action_attempt att)" "evolves offers_same (put_attempt i g)"
  "evolves offers_same (last_attempt i)" "evolves offers_same (get_payment i)" "evolves offers_same (put_payment i h)"
  "evolves offers_same (add_link l)" "evolves offers_same (put_request i k)" "evolves offers_same (put_project i k1)"
  "evolves offers_same (put_decision i k2)"
  "evolves offers_same (add_client_session cs)" "evolves offers_same (put_client_session i k4)"
  "evolves offers_same (add_scope_version v2)" "evolves offers_same (add_scope_version_item item)"
  "evolves offers_same (add_amendment amend)" "evolves offers_same (add_payment_request p)"
  "evolves offers_same (add_revenue_fact rf)" "evolves offers_same (add_notification n)"
  "evolves offers_same (put_notification i k5)" "evolves offers_same (add_audit_event ae)"
  by (rule evolvesI;
      simp add: offer_rows_def trip_def run_digest_of add_job_def add_outbox_event_def run_add_row get_external_action_def
        put_action_def transition_action_def add_external_action_def add_action_attempt_def put_attempt_def
        last_attempt_def get_payment_def put_payment_def add_link_def put_request_def put_project_def put_decision_def
        add_client_session_def put_client_session_def
        add_scope_version_def add_scope_version_item_def add_amendment_def add_payment_request_def add_revenue_fact_def
        add_notification_def put_notification_def add_audit_event_def split: sum.split)+

lemmas offer_steps0 = offer_frame.evolve_rules offer_frame_steps

lemma offer_frame_durable:
  "evolves offers_same (enqueue_now tn k p c pr ca)"
  "evolves offers_same (prepare_external_action E tn key prov oper payload pj)"
  "evolves offers_same (begin_action_dispatch i ps)" "evolves offers_same (complete_action i outcome req ps)"
  "evolves offers_same (mark_action_unknown i reason)" "evolves offers_same (cancel_action i)"
  "evolves offers_same (of_result r)" "evolves offers_same (dict_index d key)"
  "evolves offers_same (order_of_payload payload)"
  unfolding enqueue_now_def enqueue_job_def new_outbox_event_def prepare_external_action_def begin_action_dispatch_def
    complete_action_def mark_action_unknown_def cancel_action_def of_result_def dict_index_def order_of_payload_def
  by (intro offer_steps0)+

lemma offer_frame_reads:
  "evolves offers_same (find_project ctx i)" "evolves offers_same (find_order ctx i)" "evolves offers_same (order_row i)"
  "evolves offers_same (current_revision c)" "evolves offers_same (get_analysis_decision ctx i)"
  "evolves offers_same (request_of c)" "evolves offers_same (latest_send_action c)"
  "evolves offers_same (proposal_payload draft url b v r)" "evolves offers_same (protect E t)"
  "evolves offers_same (notification_for c r2)" "evolves offers_same (open_order tn p q)"
  "evolves offers_same (next_order_number tn p)" "evolves offers_same (current_draft i)"
  "evolves offers_same (contact_for cl tn em)" "evolves offers_same (request_for_proposal d pj ctx)"
  "evolves offers_same (approvable ctx i n j h)" "evolves offers_same (capability_to_activate ctx j)"
  "evolves offers_same (session_scope E st ct)" "evolves offers_same (receipt_capability src i j)"
  "evolves offers_same (payment_for_revision j)" "evolves offers_same (prior_acceptance j key)"
  "evolves offers_same (offer_project cap c)" "evolves offers_same (locked_order cap c)"
  "evolves offers_same (send_action tn i j)" "evolves offers_same (next_scope_version i tn sv)"
  "evolves offers_same (review_capability i)" "evolves offers_same (last_freelancer_approval i)"
  "evolves offers_same (orders_with states)" "evolves offers_same (created_link i)"
  unfolding find_project_def find_order_def order_row_def current_revision_def get_analysis_decision_def request_of_def
    latest_send_action_def proposal_payload_def protect_def notification_for_def open_order_def next_order_number_def
    current_draft_def contact_for_def request_for_proposal_def approvable_def capability_to_activate_def
    session_scope_def receipt_capability_def payment_for_revision_def prior_acceptance_def offer_project_def
    locked_order_def send_action_def next_scope_version_def review_capability_def last_freelancer_approval_def
    orders_with_def created_link_def of_result_def
  by (intro offer_steps0)+

lemmas offer_steps = offer_steps0 offer_frame_durable offer_frame_reads

lemma offer_frame_payments:
  "evolves offers_same (find_payment ctx i)" "evolves offers_same (accepted_revision p)"
  "evolves offers_same (latest_link i)" "evolves offers_same (active_link p)"
  "evolves offers_same (link_of_attempt i n)" "evolves offers_same (linked_action l)"
  unfolding find_payment_def accepted_revision_def latest_link_def active_link_def link_of_attempt_def linked_action_def
  by (intro offer_steps)+

lemma prepare_payment_link_offers: "evolves offers_same (prepare_payment_link E ctx i)"
  unfolding prepare_payment_link_def create_link_attempt_def by (intro offer_steps offer_frame_payments)

lemma offer_frame_parts:
  "evolves offers_same (queue_freelancer_notification E ctx c r)" "evolves offers_same (issue_session E cap tok pu now)"
  "evolves offers_same (amend_scope E cap c r pj sv)" "evolves offers_same (open_payment cap c r pj)"
  "evolves offers_same (confirm_send act j)" "evolves offers_same (audit_change_order E c actor nm st1 st2 corr md)"
  "evolves offers_same (cancel_pending_send c)"
  "evolves offers_same (settle_request c rq reason)" "evolves offers_same (queue_review cap c r pj)"
  "evolves offers_same (late_send_callback a msg)" "evolves offers_same (send_found a msg)"
  "evolves offers_same (settle_notification i ns)"
  unfolding queue_freelancer_notification_def issue_session_def amend_scope_def copy_scope_item_def open_payment_def confirm_send_def audit_change_order_def
    cancel_pending_send_def settle_request_def queue_review_def late_send_callback_def send_found_def
    settle_notification_def
  by (intro offer_steps offer_frame_payments)+

section \<open>How offers move\<close>

definition order_terms :: "change_order \<Rightarrow> uuid \<times> uuid \<times> uuid \<times> int \<times> time" where
  "order_terms c = (co_tenant_id c, co_project_id c, co_request_id c, co_number c, co_created_at c)"

text \<open>The statuses no operation leaves.\<close>

definition settled :: "change_order_status set" where
  [simp]: "settled = {CLIENT_APPROVED, WITHDRAWN}"

definition order_moves :: "change_order \<Rightarrow> change_order \<Rightarrow> bool" where
  "order_moves c d \<longleftrightarrow> order_terms d = order_terms c \<and> co_row_version c \<le> co_row_version d \<and>
     (co_status c \<in> settled \<longrightarrow> co_status d = co_status c \<and> co_current_revision_id d = co_current_revision_id c)"

text \<open>The content of a revision is all of it but its status.\<close>

definition revision_content :: "proposal_revision \<Rightarrow> proposal_revision" where
  "revision_content r = r\<lparr>rev_status := CURRENT\<rparr>"

definition revision_moves :: "proposal_revision \<Rightarrow> proposal_revision \<Rightarrow> bool" where
  "revision_moves r q \<longleftrightarrow> revision_content q = revision_content r"

definition capability_terms :: "client_capability \<Rightarrow> uuid \<times> uuid \<times> uuid \<times> uuid \<times> string \<times> string \<times> capability_purpose" where
  "capability_terms c = (cc_tenant_id c, cc_change_order_id c, cc_revision_id c, cc_client_id c, cc_token_hash c,
     cc_content_hash c, cc_purpose c)"

definition capability_moves :: "client_capability \<Rightarrow> client_capability \<Rightarrow> bool" where
  "capability_moves c d \<longleftrightarrow> capability_terms d = capability_terms c \<and>
     (cc_revoked_at c \<noteq> None \<longrightarrow> cc_revoked_at d \<noteq> None)"

interpretation order_table: evolving_table change_orders co_id order_moves
  by unfold_locales (auto simp: order_moves_def)

interpretation revision_table: evolving_table proposal_revisions rev_id revision_moves
  by unfold_locales (auto simp: revision_moves_def)

interpretation capability_table: evolving_table client_capabilities cc_id capability_moves
  by unfold_locales (auto simp: capability_moves_def)

definition approved_by :: "actor_type \<Rightarrow> change_order \<Rightarrow> approval list \<Rightarrow> bool" where
  "approved_by actor c as \<longleftrightarrow> (\<exists>a\<in>set as. appr_actor_type a = actor \<and> appr_decision a = APPROVED \<and>
     co_current_revision_id c = Some (appr_revision_id a))"

definition bound_to :: "proposal_revision list \<Rightarrow> approval \<Rightarrow> bool" where
  "bound_to rs a \<longleftrightarrow>
     (\<exists>r\<in>set rs. rev_id r = appr_revision_id a \<and> rev_canonical_artifact_hash r = appr_content_hash a)"

definition offered :: "change_order_status set" where
  "offered = {SEND_PENDING, AWAITING_CLIENT_APPROVAL, CLIENT_APPROVED}"

definition offers_ok :: "db \<Rightarrow> bool" where
  "offers_ok s \<longleftrightarrow> distinct (map co_id (change_orders s)) \<and>
     (\<forall>a\<in>set (approvals s). bound_to (proposal_revisions s) a) \<and>
     (\<forall>c\<in>set (change_orders s).
        (co_status c \<in> offered \<longrightarrow> approved_by FREELANCER c (approvals s)) \<and>
        (co_status c = CLIENT_APPROVED \<longrightarrow> approved_by CLIENT c (approvals s))) \<and>
     (\<forall>k\<in>set (client_capabilities s). cc_revoked_at k = None \<longrightarrow>
        (\<exists>c. row_by co_id (cc_change_order_id k) (change_orders s) = Some c \<and>
             co_current_revision_id c = Some (cc_revision_id k)))"

definition offers_evolve :: "db \<Rightarrow> db \<Rightarrow> bool" where
  "offers_evolve s t \<longleftrightarrow>
     table_evolves co_id order_moves (change_orders s) (change_orders t) \<and>
     table_evolves rev_id revision_moves (proposal_revisions s) (proposal_revisions t) \<and>
     table_evolves appr_id (=) (approvals s) (approvals t) \<and>
     table_evolves cc_id capability_moves (client_capabilities s) (client_capabilities t)"

definition offers_move :: "db \<Rightarrow> db \<Rightarrow> bool" where
  "offers_move s t \<longleftrightarrow> (offers_ok s \<longrightarrow> offers_ok t \<and> offers_evolve s t)"

interpretation approval_table: evolving_table approvals appr_id "(=)"
  by unfold_locales auto

interpretation offer_tables: state_order offers_evolve
proof unfold_locales
  show "offers_evolve s s" for s
    by (simp add: offers_evolve_def order_table.table_refl revision_table.table_refl approval_table.table_refl
        capability_table.table_refl)
next
  fix s t u :: db
  assume "offers_evolve s t" and "offers_evolve t u"
  then show "offers_evolve s u"
    unfolding offers_evolve_def
    using order_table.table_trans revision_table.table_trans approval_table.table_trans capability_table.table_trans
    by blast
qed

interpretation offers: state_order offers_move
proof unfold_locales
  show "offers_move s s" for s by (simp add: offers_move_def offer_tables.R_refl)
next
  fix s t u :: db
  assume "offers_move s t" and "offers_move t u"
  then show "offers_move s u" unfolding offers_move_def using offer_tables.R_trans by blast
qed

lemma offers_move_same:
  assumes "offer_rows t = offer_rows s"
  shows "offers_move s t"
proof -
  have rows: "change_orders t = change_orders s" "proposal_revisions t = proposal_revisions s"
    "approvals t = approvals s" "client_capabilities t = client_capabilities s"
    using assms by (simp_all add: offers_same_rows)
  have "offers_ok t = offers_ok s" unfolding offers_ok_def rows by (rule refl)
  moreover have "offers_evolve s t"
    using offer_tables.R_refl [of s] unfolding offers_evolve_def rows .
  ultimately show ?thesis by (simp add: offers_move_def)
qed

lemma same_moves: "evolves offers_same m \<Longrightarrow> evolves offers_move m"
  by (auto simp: evolves_def intro: offers_move_same)

subsection \<open>What a run knows\<close>

text \<open>
  What the operation has read and holds on to: rows of orders, revisions, approvals made, pairs
  of an order and its current revision, and orders without a live capability.
\<close>

definition knows :: "change_order set \<Rightarrow> proposal_revision set \<Rightarrow> approval set \<Rightarrow> (uuid \<times> uuid) set \<Rightarrow> uuid set \<Rightarrow> db \<Rightarrow> bool" where
  "knows C R A L D s \<longleftrightarrow>
     (\<forall>c\<in>C. row_by co_id (co_id c) (change_orders s) = Some c) \<and>
     R \<subseteq> set (proposal_revisions s) \<and> A \<subseteq> set (approvals s) \<and>
     (\<forall>(i, r)\<in>L. \<exists>c. row_by co_id i (change_orders s) = Some c \<and> co_current_revision_id c = Some r) \<and>
     (\<forall>i\<in>D. \<forall>k\<in>set (client_capabilities s). cc_change_order_id k = i \<longrightarrow> cc_revoked_at k \<noteq> None)"

lemma knows_same: "offer_rows t = offer_rows s \<Longrightarrow> knows C R A L D t = knows C R A L D s"
  by (simp add: offers_same_rows knows_def)

lemma knows_nothing: "knows {} {} {} {} {} s"
  by (simp add: knows_def)

lemma from_nothing: "evolves_from offers_move (knows {} {} {} {} {}) m \<Longrightarrow> evolves offers_move m"
  by (simp add: evolves_from_def evolves_def knows_nothing)

lemma from_ok: "(\<And>s. offers_ok s \<Longrightarrow> P s \<Longrightarrow> offers_move s (snd (m s))) \<Longrightarrow> evolves_from offers_move P m"
  by (auto simp: evolves_from_def offers_move_def)

lemma from_same:
  assumes "evolves offers_same m" and "\<And>x. evolves_from offers_move (knows C R A L D) (f x)"
  shows "evolves_from offers_move (knows C R A L D) (bindE m f)"
proof (rule offers.from_bind [OF _ _ assms(2)])
  show "evolves_from offers_move (knows C R A L D) m"
    using assms(1) by (intro offers.from_evolves same_moves)
  show "evolves_from (\<lambda>s t. knows C R A L D s \<longrightarrow> knows C R A L D t) (knows C R A L D) m"
    unfolding evolves_from_def using evolvesD [OF assms(1)] knows_same by blast
qed

lemma find_is_row:
  assumes "distinct (map rid rows)" and "find (\<lambda>r. rid r = i \<and> Q r) rows = Some r"
  shows "row_by rid (rid r) rows = Some r"
  using assms by (intro row_by_distinct) (auto dest: find_SomeD)

subsection \<open>The updates\<close>

lemma approved_by_same:
  "co_current_revision_id d = co_current_revision_id c \<Longrightarrow> approved_by actor d as = approved_by actor c as"
  by (simp add: approved_by_def)

lemma approved_by_append: "approved_by actor c as \<Longrightarrow> approved_by actor c (as @ bs)"
  by (auto simp: approved_by_def)

lemma revision_moves_content:
  assumes "revision_moves r q"
  shows "rev_id q = rev_id r" and "rev_canonical_artifact_hash q = rev_canonical_artifact_hash r"
  using arg_cong [OF assms [unfolded revision_moves_def], of rev_id]
    arg_cong [OF assms [unfolded revision_moves_def], of rev_canonical_artifact_hash]
  by (simp_all add: revision_content_def)

lemma bound_to_evolves:
  assumes "bound_to rs a" and "\<And>r. r \<in> set rs \<Longrightarrow> \<exists>q\<in>set qs. revision_moves r q"
  shows "bound_to qs a"
proof -
  from assms(1) obtain r where r: "r \<in> set rs" "rev_id r = appr_revision_id a"
    "rev_canonical_artifact_hash r = appr_content_hash a" by (auto simp: bound_to_def)
  from assms(2) [OF r(1)] obtain q where "q \<in> set qs" "revision_moves r q" by blast
  then show ?thesis unfolding bound_to_def using r revision_moves_content [of r q] by (intro bexI [of _ q]) simp_all
qed

lemma put_order_moves:
  assumes row: "row_by co_id i (change_orders s) = Some c"
    and g: "\<And>r. co_id (g r) = co_id r" and move: "order_moves c (g c)"
    and free: "co_status (g c) \<in> offered \<Longrightarrow> approved_by FREELANCER (g c) (approvals s)"
    and client: "co_status (g c) = CLIENT_APPROVED \<Longrightarrow> approved_by CLIENT (g c) (approvals s)"
    and live: "co_current_revision_id (g c) = co_current_revision_id c \<or>
      (\<forall>k\<in>set (client_capabilities s). cc_change_order_id k = i \<longrightarrow> cc_revoked_at k \<noteq> None)"
  shows "offers_move s (s\<lparr>change_orders := upd_row co_id i g (change_orders s)\<rparr>)"
  unfolding offers_move_def
proof
  let ?t = "s\<lparr>change_orders := upd_row co_id i g (change_orders s)\<rparr>"
  assume ok: "offers_ok s"
  have ev: "offers_evolve s ?t"
    using row move g by (auto simp: offers_evolve_def revision_table.table_refl capability_table.table_refl
        approval_table.table_refl intro!: order_table.table_upd_row)
  have "co_status d \<in> offered \<longrightarrow> approved_by FREELANCER d (approvals s)"
    "co_status d = CLIENT_APPROVED \<longrightarrow> approved_by CLIENT d (approvals s)"
    if "d \<in> set (upd_row co_id i g (change_orders s))" for d
    using set_upd_row [OF that] row free client ok by (auto simp: offers_ok_def)
  moreover have "\<exists>d. row_by co_id (cc_change_order_id k) (upd_row co_id i g (change_orders s)) = Some d \<and>
      co_current_revision_id d = Some (cc_revision_id k)"
    if "k \<in> set (client_capabilities s)" "cc_revoked_at k = None" for k
  proof -
    from ok that obtain d where d: "row_by co_id (cc_change_order_id k) (change_orders s) = Some d"
      "co_current_revision_id d = Some (cc_revision_id k)" by (auto simp: offers_ok_def)
    with live row that show ?thesis by (auto simp: row_by_upd_row g)
  qed
  ultimately have "offers_ok ?t"
    using ok by (auto simp: offers_ok_def map_upd_row g)
  with ev show "offers_ok ?t \<and> offers_evolve s ?t" by blast
qed

lemma add_approval_moves:
  assumes "bound_to (proposal_revisions s) a"
  shows "offers_move s (snd (add_approval a s))"
proof (cases "list_ex (\<lambda>q. appr_id a = appr_id q \<or> appr_revision_id a = appr_revision_id q \<and>
        appr_actor_type a = appr_actor_type q \<and> appr_decision a = appr_decision q) (approvals s)")
  case True
  then show ?thesis by (simp add: add_approval_def run_add_row offers.R_refl)
next
  case False
  with assms show ?thesis
    by (auto simp: add_approval_def run_add_row offers_move_def offers_evolve_def order_table.table_refl
        revision_table.table_refl capability_table.table_refl approval_table.table_append offers_ok_def
        approved_by_append)
qed

lemma revisions_moves:
  assumes "table_evolves rev_id revision_moves (proposal_revisions s) qs"
  shows "offers_move s (s\<lparr>proposal_revisions := qs\<rparr>)"
proof -
  have "\<exists>q\<in>set qs. revision_moves r q" if "r \<in> set (proposal_revisions s)" for r
  proof -
    from that obtain n where n: "n < length (proposal_revisions s)" "r = proposal_revisions s ! n"
      by (auto simp: in_set_conv_nth)
    with assms have "revision_moves r (qs ! n)" "n < length qs" by (auto simp: table_evolves_def)
    then show ?thesis by (intro bexI [of _ "qs ! n"]) simp_all
  qed
  then have "bound_to qs a" if "bound_to (proposal_revisions s) a" for a
    using bound_to_evolves [OF that] by blast
  then have "offers_ok s \<Longrightarrow> offers_ok (s\<lparr>proposal_revisions := qs\<rparr>)"
    by (simp add: offers_ok_def)
  with assms show ?thesis
    by (simp add: offers_move_def offers_evolve_def order_table.table_refl capability_table.table_refl approval_table.table_refl)
qed

lemma capabilities_moves:
  assumes "table_evolves cc_id capability_moves (client_capabilities s) ks"
    and "\<And>k. k \<in> set ks \<Longrightarrow> cc_revoked_at k = None \<Longrightarrow>
      (\<exists>q\<in>set (client_capabilities s). cc_revoked_at q = None \<and> cc_change_order_id q = cc_change_order_id k \<and>
          cc_revision_id q = cc_revision_id k) \<or>
      (\<exists>c. row_by co_id (cc_change_order_id k) (change_orders s) = Some c \<and> co_current_revision_id c = Some (cc_revision_id k))"
  shows "offers_move s (s\<lparr>client_capabilities := ks\<rparr>)"
proof -
  have "\<exists>c. row_by co_id (cc_change_order_id k) (change_orders s) = Some c \<and> co_current_revision_id c = Some (cc_revision_id k)"
    if "offers_ok s" "k \<in> set ks" "cc_revoked_at k = None" for k
    using assms(2) [OF that(2,3)] that(1) unfolding offers_ok_def by metis
  then have "offers_ok s \<Longrightarrow> offers_ok (s\<lparr>client_capabilities := ks\<rparr>)"
    by (simp add: offers_ok_def)
  with assms(1) show ?thesis
    by (simp add: offers_move_def offers_evolve_def order_table.table_refl revision_table.table_refl approval_table.table_refl)
qed

subsection \<open>Reading and writing under what is known\<close>

text \<open>A step that keeps the offers, and what its result tells about them.\<close>

lemma from_read:
  assumes "evolves offers_same m"
    and "\<And>s x t. offers_ok s \<Longrightarrow> P s \<Longrightarrow> m s = (Inr x, t) \<Longrightarrow> offer_rows t = offer_rows s \<Longrightarrow> T x \<and> Q x t"
    and "\<And>x. T x \<Longrightarrow> evolves_from offers_move (Q x) (f x)"
  shows "evolves_from offers_move P (bindE m f)"
proof (rule from_ok)
  fix s
  assume ok: "offers_ok s" and P: "P s"
  obtain r t where m: "m s = (r, t)" by (cases "m s")
  with evolvesD [OF assms(1), of s] have same: "offer_rows t = offer_rows s" by simp
  then have move: "offers_move s t" by (rule offers_move_same)
  show "offers_move s (snd (bindE m f s))"
  proof (cases r)
    case (Inl e)
    with m move show ?thesis by (simp add: run_bindE)
  next
    case (Inr x)
    with assms(2) [OF ok P _ same, of x] m have "T x" "Q x t" by auto
    with assms(3) have "offers_move t (snd (f x t))" by (simp add: evolves_from_def)
    with m Inr move show ?thesis by (auto simp: run_bindE intro: offers.R_trans)
  qed
qed

lemma run_some_or [simp]: "some_or e x s = (Inr y, t) \<longleftrightarrow> x = Some y \<and> t = s"
  by (cases x) auto

lemma from_find_order:
  assumes "\<And>c. co_tenant_id c = ctx_tenant_id ctx \<Longrightarrow> evolves_from offers_move (knows (insert c C) R A L D) (f c)"
  shows "evolves_from offers_move (knows C R A L D) (bindE (find_order ctx i) f)"
proof (rule from_read [OF offer_frame_reads(2) _ assms])
  fix s t c
  assume ok: "offers_ok s" and k: "knows C R A L D s" and run: "find_order ctx i s = (Inr c, t)"
  from run have c: "find (\<lambda>c. co_id c = i \<and> co_tenant_id c = ctx_tenant_id ctx) (change_orders s) = Some c" "t = s"
    by (simp_all add: find_order_def)
  with ok have "row_by co_id (co_id c) (change_orders s) = Some c" by (intro find_is_row) (auto simp: offers_ok_def)
  with k c show "co_tenant_id c = ctx_tenant_id ctx \<and> knows (insert c C) R A L D t"
    by (auto simp: knows_def dest: find_SomeD)
qed

lemma run_current_revision:
  "current_revision c s = (Inr r, t) \<longleftrightarrow> t = s \<and> (\<exists>i. co_current_revision_id c = Some i \<and>
     find (\<lambda>r. rev_id r = i \<and> rev_change_order_id r = co_id c \<and> rev_tenant_id r = co_tenant_id c \<and>
       rev_status r = CURRENT) (proposal_revisions s) = Some r)"
  by (cases "co_current_revision_id c") (auto simp: current_revision_def)

lemma from_current_revision:
  assumes "\<And>r. co_current_revision_id c = Some (rev_id r) \<Longrightarrow> evolves_from offers_move (knows C (insert r R) A L D) (f r)"
  shows "evolves_from offers_move (knows C R A L D) (bindE (current_revision c) f)"
  by (rule from_read [OF offer_frame_reads(4) _ assms])
     (auto simp: run_current_revision knows_def dest: find_SomeD)

lemma knows_append:
  "knows C R A L D s \<Longrightarrow> approvals t = approvals s @ [a] \<Longrightarrow> change_orders t = change_orders s \<Longrightarrow>
   proposal_revisions t = proposal_revisions s \<Longrightarrow> client_capabilities t = client_capabilities s \<Longrightarrow>
   knows C R (insert a A) L D t"
  by (auto simp: knows_def)

lemma from_add_approval:
  assumes "r \<in> R" and "appr_revision_id a = rev_id r" and "appr_content_hash a = rev_canonical_artifact_hash r"
    and "evolves_from offers_move (knows C R (insert a A) L D) (f ())"
  shows "evolves_from offers_move (knows C R A L D) (bindE (add_approval a) f)"
  unfolding evolves_from_def
proof (intro allI impI)
  fix s
  assume k: "knows C R A L D s"
  with assms(1-3) have "bound_to (proposal_revisions s) a" by (auto simp: bound_to_def knows_def)
  then have move: "offers_move s (snd (add_approval a s))" by (rule add_approval_moves)
  show "offers_move s (snd (bindE (add_approval a) f s))"
  proof (cases "fst (add_approval a s)")
    case (Inl e)
    with move show ?thesis by (cases "add_approval a s") (simp add: run_bindE)
  next
    case (Inr x)
    then have "knows C R (insert a A) L D (snd (add_approval a s))"
      using k by (intro knows_append [OF k]) (auto simp: add_approval_def run_add_row split: if_splits)
    with assms(4) have "offers_move (snd (add_approval a s)) (snd (f () (snd (add_approval a s))))"
      by (simp add: evolves_from_def)
    with move Inr show ?thesis by (cases "add_approval a s") (auto simp: run_bindE intro: offers.R_trans)
  qed
qed

lemma knows_order_row: "knows C R A L D s \<Longrightarrow> c \<in> C \<Longrightarrow> row_by co_id (co_id c) (change_orders s) = Some c"
  by (simp add: knows_def)

text \<open>A status change of an order that is not accepted yet, with the approvals it needs.\<close>

lemma put_order_from:
  assumes "c \<in> C" and "co_status c \<notin> settled" and "\<And>r. co_id (f r) = co_id r"
    and "\<And>u. order_terms (f (c\<lparr>co_updated_at := u\<rparr>)) = order_terms c"
    and "\<And>u. co_row_version c \<le> co_row_version (f (c\<lparr>co_updated_at := u\<rparr>))"
    and "\<And>r. co_current_revision_id (f r) = co_current_revision_id r"
    and "\<And>u. co_status (f (c\<lparr>co_updated_at := u\<rparr>)) = target"
    and "target \<in> offered \<Longrightarrow> co_status c \<in> offered \<or> approved_by FREELANCER c as" and "set as \<subseteq> A"
    and "target = CLIENT_APPROVED \<Longrightarrow> approved_by CLIENT c as"
    and "\<And>x. evolves_from offers_move (knows {d \<in> C. co_id d \<noteq> co_id c} R A L {}) (g x)"
  shows "evolves_from offers_move (knows C R A L D) (bindE (put_order (co_id c) f) g)"
proof (rule from_ok)
  fix s
  assume ok: "offers_ok s" and k: "knows C R A L D s"
  let ?f = "\<lambda>r. f (r\<lparr>co_updated_at := clock s\<rparr>)"
  let ?t = "s\<lparr>change_orders := upd_row co_id (co_id c) ?f (change_orders s)\<rparr>"
  have row: "row_by co_id (co_id c) (change_orders s) = Some c" using k assms(1) by (rule knows_order_row)
  have cur: "co_current_revision_id (?f c) = co_current_revision_id c" by (simp add: assms(6))
  have "set as \<subseteq> set (approvals s)" using assms(9) k by (auto simp: knows_def)
  then have appr: "approved_by actor c as \<Longrightarrow> approved_by actor (?f c) (approvals s)" for actor
    using cur unfolding approved_by_def by auto
  have "co_status c \<in> offered \<Longrightarrow> approved_by FREELANCER (?f c) (approvals s)"
    using ok row cur by (auto simp: offers_ok_def approved_by_def dest: row_by_SomeD)
  then have "offers_move s ?t"
    using row assms(2,3,4,5,7,8,10) cur appr
    by (intro put_order_moves [OF row]) (auto simp: order_moves_def)
  moreover have "knows {d \<in> C. co_id d \<noteq> co_id c} R A L {} ?t"
    using k by (auto simp: knows_def row_by_upd_row assms(3,6) split: option.splits if_splits)
  ultimately show "offers_move s (snd (bindE (put_order (co_id c) f) g s))"
    using assms(11) by (auto simp: put_order_def evolves_from_def intro: offers.R_trans)
qed

text \<open>A new current revision of an order without live capabilities.\<close>

lemma put_order_new:
  assumes "c \<in> C" and "co_status c \<notin> settled" and "co_id c \<in> D" and "\<And>r. co_id (f r) = co_id r"
    and "\<And>u. order_terms (f (c\<lparr>co_updated_at := u\<rparr>)) = order_terms c"
    and "\<And>u. co_row_version c \<le> co_row_version (f (c\<lparr>co_updated_at := u\<rparr>))"
    and "\<And>r. co_current_revision_id (f r) = Some i" and "\<And>r. co_status (f r) \<notin> offered"
    and "\<And>x. evolves_from offers_move (knows {} R A {(co_id c, i)} {}) (g x)"
  shows "evolves_from offers_move (knows C R A L D) (bindE (put_order (co_id c) f) g)"
proof (rule from_ok)
  fix s
  assume ok: "offers_ok s" and k: "knows C R A L D s"
  let ?f = "\<lambda>r. f (r\<lparr>co_updated_at := clock s\<rparr>)"
  let ?t = "s\<lparr>change_orders := upd_row co_id (co_id c) ?f (change_orders s)\<rparr>"
  have row: "row_by co_id (co_id c) (change_orders s) = Some c" using k assms(1) by (rule knows_order_row)
  have "offers_move s ?t"
    using row assms(2-8) k
    by (intro put_order_moves [OF row]) (auto simp: order_moves_def knows_def offered_def)
  moreover have "knows {} R A {(co_id c, i)} {} ?t"
    using k row by (auto simp: knows_def row_by_upd_row assms(4,7))
  ultimately show "offers_move s (snd (bindE (put_order (co_id c) f) g s))"
    using assms(9) by (auto simp: put_order_def evolves_from_def intro: offers.R_trans)
qed

lemma from_update:
  assumes "\<And>s. P s \<Longrightarrow> offers_move s (snd (m s))" and "\<And>s x t. P s \<Longrightarrow> m s = (Inr x, t) \<Longrightarrow> Q t"
    and "\<And>x. evolves_from offers_move Q (f x)"
  shows "evolves_from offers_move P (bindE m f)"
  unfolding evolves_from_def
proof (intro allI impI)
  fix s
  assume P: "P s"
  obtain r t where m: "m s = (r, t)" by (cases "m s")
  with assms(1) [OF P] have move: "offers_move s t" by simp
  show "offers_move s (snd (bindE m f s))"
  proof (cases r)
    case (Inl e)
    with m move show ?thesis by (simp add: run_bindE)
  next
    case (Inr x)
    with m assms(2) [OF P] have "Q t" by blast
    with assms(3) have "offers_move t (snd (f x t))" by (simp add: evolves_from_def)
    with m Inr move show ?thesis by (auto simp: run_bindE intro: offers.R_trans)
  qed
qed

lemma put_revision_moves: "evolves offers_move (put_revision i (\<lambda>r. r\<lparr>rev_status := st\<rparr>))"
  by (rule evolvesI)
     (auto simp: put_revision_def revision_moves_def revision_content_def
        intro!: revisions_moves revision_table.table_upd_row)

lemma from_put_revision:
  assumes "\<And>x. evolves_from offers_move (knows C {} A L D) (f x)"
  shows "evolves_from offers_move (knows C {} A L D) (bindE (put_revision i (\<lambda>r. r\<lparr>rev_status := st\<rparr>)) f)"
  by (rule from_update [OF _ _ assms])
     (rule evolvesD [OF put_revision_moves], auto simp: put_revision_def knows_def)

lemma add_revision_moves: "evolves offers_move (add_revision r)"
  by (rule evolvesI) (auto simp: add_revision_def run_add_row offers.R_refl intro!: revisions_moves revision_table.table_append)

lemma from_add_revision:
  assumes "\<And>x. evolves_from offers_move (knows C R A L D) (f x)"
  shows "evolves_from offers_move (knows C R A L D) (bindE (add_revision r) f)"
  by (rule from_update [OF _ _ assms])
     (rule evolvesD [OF add_revision_moves], auto simp: add_revision_def run_add_row knows_def split: if_splits)

definition kept_capability :: "(client_capability \<Rightarrow> client_capability) \<Rightarrow> bool" where
  "kept_capability f \<longleftrightarrow> (\<forall>k. cc_id (f k) = cc_id k \<and> capability_moves k (f k))"

lemma kept_capabilityI:
  "(\<And>k. cc_id (f k) = cc_id k \<and> capability_terms (f k) = capability_terms k \<and>
     (cc_revoked_at k \<noteq> None \<longrightarrow> cc_revoked_at (f k) \<noteq> None)) \<Longrightarrow> kept_capability f"
  by (simp add: kept_capability_def capability_moves_def)

lemma kept_capabilityD:
  assumes "kept_capability f"
  shows "cc_id (f k) = cc_id k" and "capability_moves k (f k)" and "cc_change_order_id (f k) = cc_change_order_id k"
    and "cc_revision_id (f k) = cc_revision_id k" and "cc_revoked_at (f k) = None \<Longrightarrow> cc_revoked_at k = None"
  using assms by (auto simp: kept_capability_def capability_moves_def capability_terms_def)

lemma put_capability_row:
  assumes "kept_capability f" and "k \<in> set (upd_row cc_id i f rows)"
  shows "\<exists>q\<in>set rows. cc_change_order_id q = cc_change_order_id k \<and> cc_revision_id q = cc_revision_id k \<and>
    (cc_revoked_at k = None \<longrightarrow> cc_revoked_at q = None)"
  using set_upd_row [OF assms(2)]
proof
  assume "\<exists>q. row_by cc_id i rows = Some q \<and> k = f q"
  then obtain q where q: "q \<in> set rows" "k = f q" by (auto dest: row_by_SomeD)
  show ?thesis
    by (intro bexI [of _ q]) (use q kept_capabilityD(3-5) [OF assms(1), of q] in auto)
qed blast

lemma put_capability_moves: "kept_capability f \<Longrightarrow> evolves offers_move (put_capability i f)"
proof (rule evolvesI)
  fix s :: db
  assume f: "kept_capability f"
  have "table_evolves cc_id capability_moves (client_capabilities s) (upd_row cc_id i f (client_capabilities s))"
    by (rule capability_table.table_upd_row) (simp add: kept_capabilityD [OF f])
  moreover have "(\<exists>q\<in>set (client_capabilities s). cc_revoked_at q = None \<and> cc_change_order_id q = cc_change_order_id k \<and>
          cc_revision_id q = cc_revision_id k)"
    if "k \<in> set (upd_row cc_id i f (client_capabilities s))" "cc_revoked_at k = None" for k
    using put_capability_row [OF f that(1)] that(2) by blast
  ultimately show "offers_move s (snd (put_capability i f s))"
    by (simp add: put_capability_def capabilities_moves)
qed

lemma from_put_capability:
  assumes "kept_capability g" and "\<And>x. evolves_from offers_move (knows C R A L D) (f x)"
  shows "evolves_from offers_move (knows C R A L D) (bindE (put_capability i g) f)"
proof (rule from_update [OF _ _ assms(2)])
  show "offers_move s (snd (put_capability i g s))" for s
    by (rule evolvesD [OF put_capability_moves [OF assms(1)]])
next
  fix s x t
  assume k: "knows C R A L D s" and "put_capability i g s = (Inr x, t)"
  then have t: "t = s\<lparr>client_capabilities := upd_row cc_id i g (client_capabilities s)\<rparr>"
    by (simp add: put_capability_def)
  have "cc_revoked_at q \<noteq> None"
    if q: "q \<in> set (upd_row cc_id i g (client_capabilities s))" "cc_change_order_id q \<in> D" for q
  proof -
    from put_capability_row [OF assms(1) q(1)] obtain p where "p \<in> set (client_capabilities s)"
      "cc_change_order_id p \<in> D" "cc_revoked_at q = None \<longrightarrow> cc_revoked_at p = None" using q(2) by auto
    with k show ?thesis unfolding knows_def by blast
  qed
  with k show "knows C R A L D t" by (auto simp: t knows_def)
qed

lemma update_live_moves:
  assumes "kept_capability g"
  shows "evolves offers_move (update_live_capabilities i g)"
proof (rule evolvesI)
  fix s :: db
  let ?h = "\<lambda>c. if live_capability i c then g c else c"
  have "table_evolves cc_id capability_moves (client_capabilities s) (map ?h (client_capabilities s))"
    using kept_capabilityD [OF assms] by (auto simp: table_evolves_def capability_moves_def)
  moreover have "\<exists>q\<in>set (client_capabilities s). cc_revoked_at q = None \<and> cc_change_order_id q = cc_change_order_id k \<and>
          cc_revision_id q = cc_revision_id k"
    if k: "k \<in> set (map ?h (client_capabilities s))" "cc_revoked_at k = None" for k
  proof -
    from k(1) obtain q where q: "q \<in> set (client_capabilities s)" "k = ?h q" by auto
    with k(2) show ?thesis
      using kept_capabilityD [OF assms, of q] by (intro bexI [of _ q]) (auto split: if_splits)
  qed
  ultimately have "offers_move s (s\<lparr>client_capabilities := map ?h (client_capabilities s)\<rparr>)"
    by (intro capabilities_moves) blast+
  then show "offers_move s (snd (update_live_capabilities i g s))"
    by (simp add: update_live_capabilities_def)
qed

lemma from_update_live:
  assumes "kept_capability g" and "\<And>k. cc_revoked_at (g k) \<noteq> None"
    and "\<And>x. evolves_from offers_move (knows C R A L (insert i D)) (f x)"
  shows "evolves_from offers_move (knows C R A L D) (bindE (update_live_capabilities i g) f)"
proof (rule from_update [OF _ _ assms(3)])
  show "offers_move s (snd (update_live_capabilities i g s))" for s
    by (rule evolvesD [OF update_live_moves [OF assms(1)]])
next
  fix s x t
  assume k: "knows C R A L D s" and "update_live_capabilities i g s = (Inr x, t)"
  then have t: "t = s\<lparr>client_capabilities := map (\<lambda>c. if live_capability i c then g c else c) (client_capabilities s)\<rparr>"
    by (simp add: update_live_capabilities_def)
  have "cc_revoked_at q \<noteq> None"
    if q: "q \<in> set (client_capabilities t)" "cc_change_order_id q \<in> insert i D" for q
  proof -
    from q(1) obtain p where p: "p \<in> set (client_capabilities s)" "q = (if live_capability i p then g p else p)"
      by (auto simp: t)
    with q(2) k assms(2) [of p] kept_capabilityD(3) [OF assms(1), of p] show ?thesis
      unfolding knows_def live_capability_def by (cases "live_capability i p") auto
  qed
  then show "knows C R A L (insert i D) t"
    using k unfolding knows_def by (auto simp: t)
qed

lemma from_add_capability:
  assumes "(cc_change_order_id k, cc_revision_id k) \<in> L" and "\<And>x. evolves offers_move (f x)"
  shows "evolves_from offers_move (knows C R A L D) (bindE (add_capability k) f)"
proof (rule offers.from_then [OF _ assms(2)])
  have "offers_move s (snd (add_capability k s))" if "knows C R A L D s" for s
  proof -
    from that assms(1) have "\<exists>c. row_by co_id (cc_change_order_id k) (change_orders s) = Some c \<and>
        co_current_revision_id c = Some (cc_revision_id k)" by (auto simp: knows_def)
    then show ?thesis
      by (auto simp: add_capability_def run_add_row offers.R_refl intro!: capabilities_moves capability_table.table_append)
  qed
  then show "evolves_from offers_move (knows C R A L D) (add_capability k)" by (simp add: evolves_from_def)
qed

section \<open>Every operation moves the offers\<close>

lemmas offer_moves_same = same_moves [OF offer_frame_durable(1)] same_moves [OF offer_frame_durable(2)]

lemma supersede_from:
  assumes "c \<in> C" and "\<And>x. evolves_from offers_move (knows C {} A L {co_id c}) (f x)"
  shows "evolves_from offers_move (knows C {} A L {}) (bindE (supersede c) f)"
proof (cases "co_current_revision_id c = None")
  case True
  have "evolves_from offers_move (knows C {} A L {}) (f None)"
  proof (rule from_ok)
    fix s
    assume ok: "offers_ok s" and k: "knows C {} A L {} s"
    with assms(1) True have "knows C {} A L {co_id c} s" unfolding offers_ok_def knows_def by fastforce
    with assms(2) show "offers_move s (snd (f None s))" by (simp add: evolves_from_def)
  qed
  with True show ?thesis by (simp add: supersede_def)
next
  case False
  have "evolves_from offers_move (knows C {} A L {}) (bindE (current_revision c) (\<lambda>previous.
     bindE the_time (\<lambda>now.
     bindE (put_revision (rev_id previous) (\<lambda>r. r\<lparr>rev_status := SUPERSEDED\<rparr>)) (\<lambda>_.
     bindE (update_live_capabilities (co_id c) (\<lambda>c. c\<lparr>cc_revoked_at := Some now, cc_consumed_at := Some now\<rparr>)) (\<lambda>_.
     bindE (ret (Some previous)) f)))))"
    by (intro from_same [OF offer_frame_reads(4)] from_same [OF offer_frame_steps(3)] from_put_revision from_update_live
        kept_capabilityI)
       (simp_all add: capability_terms_def assms(2))
  with False show ?thesis by (simp only: supersede_def if_False bindE_assoc)
qed

lemma revision_of_offers: "evolves offers_same (revision_of E c pj rq ct art h tok prev)"
  unfolding revision_of_def by (intro offer_steps)

lemma new_revision_from:
  assumes "c \<in> C" and "co_status c \<notin> settled" and "\<And>x. evolves offers_move (f x)"
  shows "evolves_from offers_move (knows C {} {} {} {}) (bindE (new_revision E c pj rq ct draft) f)"
  unfolding new_revision_def bindE_assoc
  by (intro from_same [OF offer_frame.evolves_some_or] from_same [OF offer_frame_steps(2)] from_same [OF offer_frame_steps(1)]
       from_same [OF offer_frame_steps(3)] from_same [OF offer_frame_steps(6)] from_same [OF offer_frame_reads(8)]
       supersede_from from_same [OF revision_of_offers] from_add_revision put_order_new from_add_capability
       offers.evolves_bind offers.evolves_ret)
     (use assms in \<open>simp_all add: order_terms_def offered_def\<close>)

subsection \<open>Assembling, editing and approving\<close>

lemma from_open_order:
  assumes "\<And>c. co_status c \<notin> settled \<Longrightarrow> evolves_from offers_move (knows {c} {} {} {} {}) (f (Some c))"
    and "evolves_from offers_move (knows {} {} {} {} {}) (f None)"
  shows "evolves_from offers_move (knows {} {} {} {} {}) (bindE (open_order tn p q) f)"
proof (rule from_ok)
  fix s
  assume ok: "offers_ok s" and k: "knows {} {} {} {} {} s"
  show "offers_move s (snd (bindE (open_order tn p q) f s))"
  proof (cases "fst (open_order tn p q s)")
    case (Inl e)
    then show ?thesis by (simp add: open_order_def)
  next
    case (Inr found)
    show ?thesis
    proof (cases found)
      case None
      with Inr assms(2) k show ?thesis by (simp add: open_order_def evolves_from_def)
    next
      case (Some c)
      with Inr have c: "c \<in> set (change_orders s)" "co_status c \<notin> settled"
        by (auto simp: open_order_def dest: find_SomeD)
      with ok have "knows {c} {} {} {} {} s" by (simp add: offers_ok_def knows_def row_by_distinct)
      with assms(1) [OF c(2)] Inr Some show ?thesis by (simp add: open_order_def evolves_from_def)
    qed
  qed
qed

lemma add_order_cases:
  obtains (refused) "snd (add_order c s) = s" "\<And>x t. add_order c s \<noteq> (Inr x, t)"
  | (added) "add_order c s = (Inr (), s\<lparr>change_orders := change_orders s @ [c]\<rparr>)"
      "row_by co_id (co_id c) (change_orders s) = None" "\<forall>q\<in>set (change_orders s). co_id q \<noteq> co_id c"
proof (cases "fst (add_order c s)")
  case (Inl e)
  then show thesis by (intro refused) (auto simp: add_order_def run_add_row split: if_splits)
next
  case (Inr x)
  then show thesis
    by (intro added) (auto simp: add_order_def run_add_row list_ex_iff row_by_None_iff split: if_splits)
qed

lemma add_order_moves:
  assumes "co_status c \<notin> offered"
  shows "offers_move s (snd (add_order c s))"
proof (cases rule: add_order_cases [of c s])
  case refused
  then show ?thesis by (simp add: offers.R_refl)
next
  case added
  have "co_status c \<noteq> CLIENT_APPROVED" using assms by (auto simp: offered_def)
  with assms added(3) have "offers_ok (s\<lparr>change_orders := change_orders s @ [c]\<rparr>)" if "offers_ok s"
    using that unfolding offers_ok_def by (fastforce simp: row_by_append split: option.splits)
  then show ?thesis
    by (simp add: added(1) offers_move_def offers_evolve_def order_table.table_append revision_table.table_refl
        approval_table.table_refl capability_table.table_refl)
qed

lemma from_add_order:
  assumes "co_status c \<notin> offered" and "\<And>x. evolves_from offers_move (knows {c} {} {} {} {}) (f x)"
  shows "evolves_from offers_move (knows {} {} {} {} {}) (bindE (add_order c) f)"
proof (rule from_update [OF add_order_moves [OF assms(1)] _ assms(2)])
  fix s x t
  assume run: "add_order c s = (Inr x, t)"
  show "knows {c} {} {} {} {} t"
  proof (cases rule: add_order_cases [of c s])
    case refused
    with run show ?thesis by blast
  next
    case added
    with run show ?thesis by (auto simp: knows_def row_by_append)
  qed
qed

lemma from_order_for_request:
  assumes "\<And>c. co_status c \<notin> settled \<Longrightarrow> evolves_from offers_move (knows {c} {} {} {} {}) (f c)"
  shows "evolves_from offers_move (knows {} {} {} {} {}) (bindE (order_for_request tn p q) f)"
  unfolding order_for_request_def bindE_assoc
proof (rule from_open_order, goal_cases)
  case (1 c)
  with assms show ?case by simp
next
  case 2
  show ?case
    by (simp add: bindE_assoc)
       (intro from_same [OF offer_frame_reads(12)] from_same [OF offer_frame_steps(1)] from_same [OF offer_frame_steps(3)]
         from_add_order; simp add: offered_def assms)
qed

lemma assemble_moves: "evolves offers_move (assemble_change_order E ctx i)"
  unfolding assemble_change_order_def
  by (intro from_nothing from_same [OF offer_frame_reads(5)] offers.from_require from_same [OF offer_frame_reads(13)]
       from_same [OF offer_frame.evolves_some_or] from_same [OF offer_frame_reads(1)] from_same [OF offer_frame_reads(15)]
       from_same [OF offer_frame_reads(14)] from_order_for_request new_revision_from [OF singletonI]
       offers.evolves_bind offers.evolves_ret same_moves [OF offer_frame_steps(19)] same_moves [OF offer_frame_steps(21)]
       same_moves [OF offer_frame_reads(3)] same_moves [OF offer_frame_reads(4)] same_moves [OF offer_frame_parts(1)])

lemma create_revision_moves: "evolves offers_move (create_revision E ctx i edits)"
  unfolding create_revision_def
  by (intro from_nothing from_find_order offers.from_require from_current_revision from_same [OF offer_frame_reads(1)]
       from_same [OF offer_frame.evolves_gets] from_same [OF offer_frame.evolves_some_or])
     (rule offers.from_weaken [OF new_revision_from [OF singletonI]], auto simp: knows_def offers.evolves_ret)

lemma activated_kept:
  "kept_capability (\<lambda>c. c\<lparr>cc_activated_at := a, cc_expires_at := b\<rparr>)"
  "kept_capability (\<lambda>c. c\<lparr>cc_consumed_at := a\<rparr>)"
  "kept_capability (\<lambda>c. c\<lparr>cc_consumed_at := a, cc_expires_at := b\<rparr>)"
  "kept_capability (\<lambda>c. c\<lparr>cc_revoked_at := Some now\<rparr>)"
  by (rule kept_capabilityI; simp add: capability_terms_def)+

lemma approve_freelancer_moves: "evolves offers_move (approve_freelancer E ctx i n j h)"
proof -
  have "evolves_from offers_move (knows {} {} {} {} {}) (approve_freelancer E ctx i n j h)"
    unfolding approve_freelancer_def approvable_def bindE_assoc bindE_ret prod.case
  proof (intro from_same [OF offer_frame.evolves_gets] from_same [OF offer_frame_reads(1)] from_find_order
      offers.from_require from_current_revision from_same [OF offer_frame_reads(17)]
      from_same [OF offer_frame.evolves_some_or] from_same [OF offer_frame_steps(3)] from_same [OF offer_frame_steps(1)],
      goal_cases)
    case (1 u1 u2 c u3 r u4 u5 u6 k now a)
    then show ?case
      by (intro from_add_approval [OF singletonI] from_put_capability activated_kept
           put_order_from [OF singletonI, where target = SEND_PENDING and as =
             "[\<lparr>appr_id = a, appr_tenant_id = ctx_tenant_id ctx, appr_project_id = co_project_id c,
        appr_change_order_id = co_id c, appr_revision_id = rev_id r, appr_actor_type = FREELANCER,
        appr_actor_identifier = ctx_subject ctx, appr_content_hash = h, appr_decision = APPROVED,
        appr_provenance = [(''model'', PStr ''authenticated-owner''), (''exact_revision'', PStr (uuid_str (rev_id r)))],
        appr_comment = None, appr_created_at = now\<rparr>]"]
           offers.from_evolves offers.evolves_bind offers.evolves_ret same_moves [OF offer_frame_durable(1)]
           same_moves [OF offer_frame_durable(2)] same_moves [OF offer_frame_reads(3)])
         (simp_all add: order_terms_def approved_by_def)
  qed
  then show ?thesis by (rule from_nothing)
qed

subsection \<open>The client's side\<close>

lemma run_session_scope:
  assumes "session_scope E st ct s = (Inr (row, cap, rv, ord), t)"
  shows "t = s" and "cap \<in> set (client_capabilities s)" and "cc_revoked_at cap = None"
    and "row_by co_id (cc_change_order_id cap) (change_orders s) = Some ord"
    and "rv \<in> set (proposal_revisions s)" and "rev_id rv = cc_revision_id cap"
  using assms
  by (auto simp: session_scope_def run_bind_require run_bind_some_or split: option.splits if_splits dest: row_by_SomeD)

lemma from_session_scope:
  assumes "\<And>row cap rv ord. cc_change_order_id cap = co_id ord \<Longrightarrow> rev_id rv = cc_revision_id cap \<Longrightarrow>
      evolves_from offers_move (knows {ord} {rv} {} {(co_id ord, rev_id rv)} {}) (f (row, cap, rv, ord))"
  shows "evolves_from offers_move (knows {} {} {} {} {}) (bindE (session_scope E st ct) f)"
proof (rule from_read [OF offer_frame_reads(18), where
      T = "\<lambda>(row, cap, rv, ord). cc_change_order_id cap = co_id ord \<and> rev_id rv = cc_revision_id cap" and
      Q = "\<lambda>(row, cap, rv, ord). knows {ord} {rv} {} {(co_id ord, rev_id rv)} {}"])
  fix s x t
  assume ok: "offers_ok s" and run: "session_scope E st ct s = (Inr x, t)"
  obtain row cap rv ord where x: "x = (row, cap, rv, ord)" by (cases x)
  note scope = run_session_scope [OF run [unfolded x]]
  from scope(4) have id: "co_id ord = cc_change_order_id cap" by (auto dest: row_by_SomeD)
  from ok scope(2,3,4) have "co_current_revision_id ord = Some (cc_revision_id cap)" by (auto simp: offers_ok_def)
  with scope id show "(case x of (row, cap, rv, ord) \<Rightarrow> cc_change_order_id cap = co_id ord \<and> rev_id rv = cc_revision_id cap) \<and>
      (case x of (row, cap, rv, ord) \<Rightarrow> knows {ord} {rv} {} {(co_id ord, rev_id rv)} {}) t"
    by (simp add: x knows_def)
next
  fix x :: "client_session \<times> client_capability \<times> proposal_revision \<times> change_order"
  assume "case x of (row, cap, rv, ord) \<Rightarrow> cc_change_order_id cap = co_id ord \<and> rev_id rv = cc_revision_id cap"
  then show "evolves_from offers_move ((case x of (row, cap, rv, ord) \<Rightarrow> knows {ord} {rv} {} {(co_id ord, rev_id rv)} {})) (f x)"
    using assms by (cases x) simp
qed

text \<open>Locking the order of a session reads the same row again, with its current revision.\<close>

lemma from_locked_order:
  assumes "(co_id ord, r) \<in> L"
    and "\<And>c. co_id c = co_id ord \<Longrightarrow> co_current_revision_id c = Some r \<Longrightarrow>
        evolves_from offers_move (knows {c} R A L D) (f (Some c))"
    and "evolves_from offers_move (knows {} R A L D) (f None)"
  shows "evolves_from offers_move (knows C R A L D) (bindE (locked_order cap ord) f)"
proof (rule from_ok)
  fix s
  assume ok: "offers_ok s" and k: "knows C R A L D s"
  show "offers_move s (snd (bindE (locked_order cap ord) f s))"
  proof (cases "find (\<lambda>c. co_id c = co_id ord \<and> co_tenant_id c = cc_tenant_id cap) (change_orders s)")
    case None
    have "knows {} R A L D s" using k by (auto simp: knows_def)
    with None assms(3) show ?thesis by (simp add: locked_order_def evolves_from_def)
  next
    case (Some c)
    with ok have row: "row_by co_id (co_id c) (change_orders s) = Some c"
      by (intro find_is_row) (auto simp: offers_ok_def)
    from Some have id: "co_id c = co_id ord" by (auto dest: find_SomeD)
    from k assms(1) row id have "co_current_revision_id c = Some r" by (auto simp: knows_def)
    moreover from k row have "knows {c} R A L D s" by (simp add: knows_def)
    ultimately show ?thesis using assms(2) [OF id] Some by (simp add: locked_order_def evolves_from_def)
  qed
qed

lemma receipt_credentials_from:
  assumes "(cc_change_order_id cap, rev_id r) \<in> L" and "\<And>x. evolves offers_move (f x)"
  shows "evolves_from offers_move (knows C R A L D) (bindE (receipt_credentials E cap r now) f)"
  unfolding receipt_credentials_def bindE_assoc bindE_ret
  by (intro from_same [OF offer_frame_steps(1)] from_same [OF offer_frame_steps(2)] from_same [OF offer_frame_steps(3)]
       from_add_capability offers.evolves_bind assms(2) same_moves [OF offer_frame_parts(2)])
     (simp add: assms(1))

lemma replay_from:
  assumes "(cc_change_order_id cap, rev_id r) \<in> L"
  shows "evolves_from offers_move (knows C R A L D) (replay_acceptance E cap r ord key)"
  unfolding replay_acceptance_def receipt_credentials_for_existing_def bindE_assoc
proof (intro from_same [OF offer_frame_reads(21)] from_same [OF offer_frame_reads(20)] offers.from_require
    from_same [OF offer_frame.evolves_some_or] from_same [OF offer_frame_steps(3)] from_same [OF offer_frame_reads(19)],
    goal_cases)
  case (1 u1 u2 p now found)
  show ?case
  proof (cases found)
    case None
    with assms show ?thesis by (simp add: receipt_credentials_from offers.evolves_ret)
  next
    case (Some receipt)
    then show ?thesis
      by (simp, intro offers.from_evolves offers.evolves_bind offers.evolves_ret same_moves [OF offer_frame_parts(2)])
  qed
qed

lemma record_acceptance_from:
  assumes "c \<in> C" and "co_status c \<in> offered" and "co_status c \<notin> settled" and "r \<in> R"
    and "co_current_revision_id c = Some (rev_id r)" and "rev_canonical_artifact_hash r = h"
    and "(cc_change_order_id cap, rev_id r) \<in> L"
  shows "evolves_from offers_move (knows C R A L D) (record_acceptance E cap r c pj act h key)"
  unfolding record_acceptance_def
proof (intro from_same [OF offer_frame_steps(3)] from_same [OF offer_frame_steps(1)] from_add_approval [OF assms(4)],
    goal_cases)
  case (3 now a)
  show ?case
    by (intro from_put_capability activated_kept from_same [OF offer_frame_parts(5)] from_same [OF offer_frame_steps(19)]
         put_order_from [OF assms(1,3), where target = CLIENT_APPROVED and as =
           "[\<lparr>appr_id = a, appr_tenant_id = cc_tenant_id cap, appr_project_id = co_project_id c,
        appr_change_order_id = co_id c, appr_revision_id = rev_id r, appr_actor_type = CLIENT,
        appr_actor_identifier = client_actor cap, appr_content_hash = h, appr_decision = APPROVED,
        appr_provenance = [(''model'', PStr ''bearer-capability''), (''idempotency_key'', PStr key)],
        appr_comment = None, appr_created_at = now\<rparr>]"]
         from_same [OF offer_frame.evolves_gets] from_same [OF offer_frame.evolves_some_or] from_same [OF offer_frame_parts(3)]
         from_same [OF offer_frame_parts(4)] from_same [OF offer_frame_steps(1)] from_same [OF prepare_payment_link_offers]
         receipt_credentials_from offers.evolves_bind offers.evolves_ret offers.evolves_some_or
         same_moves [OF offer_frame_reads(3)] same_moves [OF offer_frame_steps(16)])
       (use assms in \<open>simp_all add: order_terms_def approved_by_def\<close>)
qed (use assms in simp_all)

lemma accept_client_moves: "evolves offers_move (accept_client E st ct i n j h key)"
proof -
  have "evolves_from offers_move (knows {} {} {} {} {}) (accept_client E st ct i n j h key)"
    unfolding accept_client_def
  proof (intro from_session_scope, goal_cases)
    case (1 row cap rv ord)
    then have pair: "(cc_change_order_id cap, rev_id rv) \<in> {(co_id ord, rev_id rv)}" by simp
    show ?case
      unfolding prod.case
      apply (intro offers.from_require from_same [OF offer_frame_reads(22)] from_locked_order [OF singletonI])
      subgoal for u1 c
        by (intro offers.from_some_or evolves_from_if replay_from [OF pair] offers.from_require
             from_same [OF offer_frame_reads(24)] from_same [OF offer_frame_reads(20)] evolves_from_case_option)
           (use pair in \<open>auto simp: acceptable_def offered_def intro!: receipt_credentials_from record_acceptance_from
             offers.evolves_ret from_same [OF offer_frame_steps(3)]\<close>)
      subgoal by (simp add: offers.from_evolves offers.evolves_raise)
      done
  qed
  then show ?thesis by (rule from_nothing)
qed

subsection \<open>Decisions, sending and expiry\<close>

lemma revoke_moves: "evolves offers_move (revoke_capabilities i now)"
  unfolding revoke_capabilities_def by (rule update_live_moves [OF activated_kept(4)])

lemmas evolves_parts = offers.evolves_bind offers.evolves_ret offers.evolves_perhaps revoke_moves
  same_moves [OF offer_frame_reads(3)] same_moves [OF offer_frame_reads(6)] same_moves [OF offer_frame_steps(1)]
  same_moves [OF offer_frame_steps(3)] same_moves [OF offer_frame_parts(6)] same_moves [OF offer_frame_parts(7)]
  same_moves [OF offer_frame_parts(8)] same_moves [OF offer_frame_parts(9)]

text \<open>An order moved to a status outside the offer, whatever it was before unless it is accepted.\<close>

lemma from_move_order:
  assumes "c \<in> C" and "co_status c \<notin> settled" and "target \<notin> offered"
    and "\<And>x. evolves_from offers_move (knows {d \<in> C. co_id d \<noteq> co_id c} R A L {}) (f x)"
  shows "evolves_from offers_move (knows C R A L D) (bindE (move_order (co_id c) target) f)"
proof -
  have "target \<noteq> CLIENT_APPROVED" using assms(3) by (auto simp: offered_def)
  with assms show ?thesis
    unfolding move_order_def bindE_assoc
    by (intro put_order_from [OF assms(1,2), where target = target and as = "[]"] from_same [OF offer_frame_reads(3)])
       (simp_all add: order_terms_def)
qed

lemma freelancer_decide_moves: "evolves offers_move (freelancer_decide E ctx i decision comment)"
proof -
  have target: "target \<notin> offered \<and> decision \<noteq> APPROVED" if "freelancer_decision decision = Some (target, rq, nm)" for target rq nm
    using that by (cases decision) (auto simp: offered_def)
  have "evolves_from offers_move (knows {} {} {} {} {}) (freelancer_decide E ctx i decision comment)"
    unfolding freelancer_decide_def
  proof (intro offers.from_some_or, goal_cases)
    case (1 v)
    obtain target rq nm where v: "v = (target, rq, nm)" by (cases v)
    with 1 target have "target \<notin> offered" by blast
    then show ?case
      unfolding v prod.case
      by (intro from_find_order offers.from_require from_current_revision from_same [OF offer_frame_steps(3)]
           from_same [OF offer_frame_steps(1)] from_add_approval [OF insertI1] from_move_order [OF insertI1]
           offers.from_evolves evolves_parts) simp_all
  qed
  then show ?thesis by (rule from_nothing)
qed

lemma withdraw_moves: "evolves offers_move (withdraw_change_order E ctx i reason)"
  unfolding withdraw_change_order_def
  by (rule from_nothing,
      intro from_find_order offers.from_require from_same [OF offer_frame_reads(7)]
        from_move_order [OF insertI1] offers.from_evolves evolves_parts) (auto simp: offered_def)

lemma client_decide_moves: "evolves offers_move (client_decide E st ct i n j h decision comment)"
proof -
  have target: "target \<notin> offered" if "client_decision decision = Some (target, rq, nm)" for target rq nm
    using that by (cases decision) (auto simp: offered_def)
  have "evolves_from offers_move (knows {} {} {} {} {}) (client_decide E st ct i n j h decision comment)"
    unfolding client_decide_def
  proof (intro offers.from_some_or, goal_cases)
    case (1 v)
    obtain target rq nm where v: "v = (target, rq, nm)" by (cases v)
    with 1 target have out: "target \<notin> offered" by blast
    show ?case
      unfolding v prod.case
    proof (intro from_session_scope, goal_cases)
      case (1 row cap rv ord)
      show ?case
        unfolding prod.case
        apply (intro offers.from_require from_same [OF offer_frame_reads(22)] from_locked_order [OF singletonI])
        subgoal for u1 c
          unfolding some_or_Some bindE_ret
          by (intro offers.from_some_or offers.from_require from_same [OF offer_frame_steps(3)] from_put_capability
               activated_kept from_same [OF offer_frame_steps(1)] from_add_approval [OF insertI1]
               from_move_order [OF singletonI] offers.from_evolves evolves_parts)
             (simp_all add: out)
        subgoal by (intro offers.from_some_or) simp
        done
    qed
  qed
  then show ?thesis by (rule from_nothing)
qed

lemma from_perhaps:
  assumes "b \<Longrightarrow> evolves_from offers_move P m"
  shows "evolves_from offers_move P (perhaps b m)"
  using assms by (cases b) (simp_all add: offers.from_evolves offers.evolves_ret)

lemma mark_sent_moves: "evolves offers_move (mark_sent a)"
proof -
  have "evolves_from offers_move (knows {} {} {} {} {}) (mark_sent a)"
    unfolding mark_sent_def
  proof (intro from_same [OF offer_frame_durable(9)], goal_cases)
    case (1 i)
    let ?is = "\<lambda>c. co_id c = i \<and> co_tenant_id c = act_tenant_id a"
    show ?case
    proof (rule from_read [OF offer_frame.evolves_gets, where T = "\<lambda>found. (\<forall>c. found = Some c \<longrightarrow> co_id c = i)" and
          Q = "\<lambda>found. knows (set_option found) {} {} {} {}"])
      fix s :: db and found t
      assume "offers_ok s" and run: "gets (\<lambda>s. find ?is (change_orders s)) s = (Inr found, t)"
      then have "distinct (map co_id (change_orders s))" and found: "found = find ?is (change_orders s)" "t = s"
        by (auto simp: offers_ok_def)
      moreover have "row_by co_id (co_id c) (change_orders s) = Some c" if "found = Some c" for c
        using that calculation by (intro find_is_row) auto
      ultimately show "(\<forall>c. found = Some c \<longrightarrow> co_id c = i) \<and> knows (set_option found) {} {} {} {} t"
        by (auto simp: knows_def dest: find_SomeD)
    next
      fix found :: "change_order option"
      assume id: "\<forall>c. found = Some c \<longrightarrow> co_id c = i"
      show "evolves_from offers_move (knows (set_option found) {} {} {} {}) (case found of None \<Rightarrow> ret ()
          | Some c \<Rightarrow> perhaps (co_status c = SEND_PENDING) (put_order i (\<lambda>c. c\<lparr>co_status := AWAITING_CLIENT_APPROVAL,
              co_row_version := co_row_version c + 1\<rparr>)))"
      proof (cases found)
        case None
        then show ?thesis by (simp add: offers.from_evolves offers.evolves_ret)
      next
        case (Some c)
        have "evolves_from offers_move (knows {c} {} {} {} {}) (bindE (put_order (co_id c) (\<lambda>c. c\<lparr>co_status :=
            AWAITING_CLIENT_APPROVAL, co_row_version := co_row_version c + 1\<rparr>)) ret)" if "co_status c = SEND_PENDING"
          using that by (intro put_order_from [where target = AWAITING_CLIENT_APPROVAL and as = "[]"] offers.from_evolves
              offers.evolves_ret) (simp_all add: order_terms_def offered_def)
        with id Some show ?thesis by (simp add: from_perhaps bindE_ret_right)
      qed
    qed
  qed
  then show ?thesis by (rule from_nothing)
qed

lemma record_gmail_send_success_moves: "evolves offers_move (record_gmail_send_success i message recipient body h)"
  unfolding record_gmail_send_success_def
  by (intro offers.evolve_rules evolves_if mark_sent_moves same_moves [OF offer_frame_parts(10)] same_moves [OF offer_frame_parts(11)]
       same_moves [OF offer_frame_steps(9)] same_moves [OF offer_frame_durable(4)])

lemma reconcile_gmail_unknown_moves: "evolves offers_move (reconcile_gmail_unknown i items)"
  unfolding reconcile_gmail_unknown_def adopt_match_def
  by (intro offers.evolve_rules evolves_case_list record_gmail_send_success_moves same_moves [OF offer_frame_steps(9)]
       same_moves [OF offer_frame_steps(10)] same_moves [OF offer_frame_steps(11)] same_moves [OF offer_frame_durable(8)])

text \<open>The sweep expires each order of a list of distinct rows; the rows of the others stay as read.\<close>

lemma from_evolves_then:
  assumes "evolves offers_move m" and "\<And>s. knows C R A L D s \<Longrightarrow> knows C' R' A' L' D' (snd (m s))"
    and "\<And>x. evolves_from offers_move (knows C' R' A' L' D') (f x)"
  shows "evolves_from offers_move (knows C R A L D) (bindE m f)"
proof (rule from_update [OF evolvesD [OF assms(1)] _ assms(3)])
  fix s x t
  assume "knows C R A L D s" and "m s = (Inr x, t)"
  with assms(2) [of s] show "knows C' R' A' L' D' t" by simp
qed

lemma kept_orders:
  assumes "evolves (\<lambda>s t. change_orders t = change_orders s) m" and "evolves offers_move m"
    and "\<And>x. evolves_from offers_move (knows C {} {} {} {}) (f x)"
  shows "evolves_from offers_move (knows C {} {} {} {}) (bindE m f)"
  using assms(2) _ assms(3)
proof (rule from_evolves_then)
  show "knows C {} {} {} {} (snd (m s))" if "knows C {} {} {} {} s" for s
    using that evolvesD [OF assms(1), of s] by (simp add: knows_def)
qed

interpretation order_rows: state_frame change_orders .

lemma same_orders: "evolves offers_same m \<Longrightarrow> evolves (\<lambda>s t. change_orders t = change_orders s) m"
  by (auto simp: evolves_def offers_same_rows)

lemma expire_order_from:
  assumes "c \<in> C" and "co_status c \<notin> settled" and "evolves offers_move revoke"
    and "evolves (\<lambda>s t. change_orders t = change_orders s) revoke"
    and "\<And>x. evolves_from offers_move (knows {d \<in> C. co_id d \<noteq> co_id c} {} {} {} {}) (f x)"
  shows "evolves_from offers_move (knows C {} {} {} {}) (bindE (expire_order E c revoke nm) f)"
  unfolding expire_order_def bindE_assoc
  by (intro from_move_order [OF assms(1,2)] kept_orders [OF assms(4,3)] from_same [OF offer_frame_steps(1)]
       from_same [OF offer_frame_parts(6)])
     (simp_all add: assms(5) offered_def)

lemma knows_fewer: "knows C R A L D s \<Longrightarrow> C' \<subseteq> C \<Longrightarrow> knows C' R A L D s"
  by (auto simp: knows_def)

lemma skipped_order:
  assumes "\<And>x. evolves_from offers_move (knows {d \<in> C. co_id d \<noteq> i} {} {} {} {}) (f x)"
  shows "evolves_from offers_move (knows C {} {} {} {}) (f y)"
  using assms by (auto intro: offers.from_weaken knows_fewer)

lemma expire_offer_from:
  assumes "c \<in> C" and "co_status c \<notin> settled"
    and "\<And>x. evolves_from offers_move (knows {d \<in> C. co_id d \<noteq> co_id c} {} {} {} {}) (f x)"
  shows "evolves_from offers_move (knows C {} {} {} {}) (bindE (expire_offer E now c) f)"
  unfolding expire_offer_def bindE_assoc
proof (rule from_same [OF offer_frame_reads(26)], goal_cases)
  case (1 found)
  have skip: "evolves_from offers_move (knows C {} {} {} {}) (f y)" for y by (rule skipped_order [OF assms(3)])
  show ?case
  proof (cases found)
    case None
    with skip show ?thesis by simp
  next
    case (Some k)
    let ?revoke = "bindE (put_capability (cc_id k) (\<lambda>r. r\<lparr>cc_revoked_at := Some now\<rparr>)) (\<lambda>_. cancel_pending_send c)"
    have "evolves offers_move ?revoke"
      by (intro offers.evolves_bind put_capability_moves activated_kept same_moves [OF offer_frame_parts(7)])
    moreover have "evolves (\<lambda>s t. change_orders t = change_orders s) ?revoke"
      by (intro order_rows.evolves_bind same_orders [OF offer_frame_parts(7)]) (simp add: put_capability_def evolvesI)
    ultimately have "evolves_from offers_move (knows C {} {} {} {}) (bindE (expire_order E c ?revoke nm) f)" for nm
      by (intro expire_order_from [OF assms(1,2)] assms(3))
    with Some skip show ?thesis by simp
  qed
qed

lemma expire_unsent_from:
  assumes "c \<in> C" and "co_status c \<notin> settled"
    and "\<And>x. evolves_from offers_move (knows {d \<in> C. co_id d \<noteq> co_id c} {} {} {} {}) (f x)"
  shows "evolves_from offers_move (knows C {} {} {} {}) (bindE (expire_unsent E now c) f)"
  unfolding expire_unsent_def bindE_assoc
proof (intro from_same [OF offer_frame_reads(7)] from_same [OF offer_frame_reads(27)], goal_cases)
  case (1 action found)
  let ?revoke = "bindE (cancel_pending_send c) (\<lambda>_. revoke_capabilities (co_id c) now)"
  have "evolves offers_move ?revoke"
    by (intro offers.evolves_bind revoke_moves same_moves [OF offer_frame_parts(7)])
  moreover have "evolves (\<lambda>s t. change_orders t = change_orders s) ?revoke"
    by (intro order_rows.evolves_bind same_orders [OF offer_frame_parts(7)])
       (simp add: revoke_capabilities_def update_live_capabilities_def evolvesI)
  ultimately have "evolves_from offers_move (knows C {} {} {} {}) (bindE (expire_order E c ?revoke nm) f)" for nm
    by (intro expire_order_from [OF assms(1,2)] assms(3))
  moreover have "evolves_from offers_move (knows C {} {} {} {}) (f y)" for y by (rule skipped_order [OF assms(3)])
  ultimately show ?case by (cases found) simp_all
qed

lemma each_order:
  fixes g :: "change_order \<Rightarrow> nat act"
  assumes step: "\<And>C c (f :: nat \<Rightarrow> nat list act). c \<in> C \<Longrightarrow> co_status c \<notin> settled \<Longrightarrow>
      (\<And>x. evolves_from offers_move (knows {d \<in> C. co_id d \<noteq> co_id c} {} {} {} {}) (f x)) \<Longrightarrow>
      evolves_from offers_move (knows C {} {} {} {}) (bindE (g c) f)"
    and "distinct (map co_id cs)" and "\<forall>c\<in>set cs. co_status c \<notin> settled"
  shows "evolves_from offers_move (knows (set cs) {} {} {} {}) (mapE g cs)"
  using assms(2,3)
proof (induction cs)
  case Nil
  show ?case unfolding mapE.simps by (intro offers.from_evolves offers.evolves_ret)
next
  case (Cons c cs)
  from Cons.prems(1) have "{d \<in> set (c # cs). co_id d \<noteq> co_id c} = set cs" by (force simp: image_iff)
  with Cons have rest: "evolves_from offers_move (knows {d \<in> set (c # cs). co_id d \<noteq> co_id c} {} {} {} {}) (mapE g cs)" by simp
  have "evolves_from offers_move (knows {d \<in> set (c # cs). co_id d \<noteq> co_id c} {} {} {} {})
      (bindE (mapE g cs) (\<lambda>ys. ret (y # ys)))" for y
    by (rule offers.from_then [OF rest offers.evolves_ret])
  with Cons.prems(2) show ?case unfolding mapE.simps by (intro step) simp_all
qed

lemma sweep_orders:
  assumes "\<And>cs. distinct (map co_id cs) \<Longrightarrow> \<forall>c\<in>set cs. co_status c \<notin> settled \<Longrightarrow>
      evolves_from offers_move (knows (set cs) {} {} {} {}) (m cs)"
    and "states \<inter> settled = {}"
  shows "evolves offers_move (bindE (orders_with states) m)"
proof -
  have "evolves_from offers_move (knows {} {} {} {} {}) (bindE (orders_with states) m)"
  proof (rule from_read [OF offer_frame_reads(28), where T = "\<lambda>cs. distinct (map co_id cs) \<and>
        (\<forall>c\<in>set cs. co_status c \<notin> settled)" and Q = "\<lambda>cs. knows (set cs) {} {} {} {}"])
    fix s cs t
    assume "offers_ok s" and "orders_with states s = (Inr cs, t)"
    then have "distinct (map co_id (change_orders s))" "cs = filter (\<lambda>c. co_status c \<in> states) (change_orders s)" "t = s"
      by (auto simp: orders_with_def offers_ok_def)
    with assms(2) show "(distinct (map co_id cs) \<and> (\<forall>c\<in>set cs. co_status c \<notin> settled)) \<and>
        knows (set cs) {} {} {} {} t"
      by (auto simp: knows_def row_by_distinct distinct_map_filter)
  qed (use assms(1) in blast)
  then show ?thesis by (rule from_nothing)
qed

lemma expire_stale_offers_moves: "evolves offers_move (expire_stale_offers E now)"
proof -
  have pending: "evolves offers_move (bindE (orders_with {SEND_PENDING}) (\<lambda>pending.
      bindE (mapE (expire_unsent E current) pending) (\<lambda>unsent. ret (n + sum_list unsent))))" for current n
    by (rule sweep_orders, rule offers.from_then [OF each_order [OF expire_unsent_from] offers.evolves_ret]) simp_all
  show ?thesis
    unfolding expire_stale_offers_def
    by (rule offers.evolves_bind [OF same_moves [OF offer_frame_steps(4)]], rule sweep_orders,
        rule offers.from_then [OF each_order [OF expire_offer_from]]) (simp_all add: pending)
qed

section \<open>Histories\<close>

text \<open>
  The operations on offers, each in its transaction, in any order; \<open>elsewhere\<close> is any step of the
  rest of the system, which leaves the four tables alone.
\<close>

inductive offer_step :: "env \<Rightarrow> db \<Rightarrow> db \<Rightarrow> bool" for E :: env where
  assembled: "offer_step E s (snd (atomically (assemble_change_order E ctx decision) s))"
| edited: "offer_step E s (snd (atomically (create_revision E ctx order edits) s))"
| approved: "offer_step E s (snd (atomically (approve_freelancer E ctx order n r h) s))"
| exchanged: "offer_step E s (snd (atomically (exchange_capability E token) s))"
| accepted: "offer_step E s (snd (atomically (accept_client E st csrf order n r h key) s))"
| refreshed: "offer_step E s (snd (atomically (refresh_client_session E st) s))"
| send_begun: "offer_step E s (snd (atomically (begin_gmail_send action) s))"
| sent: "offer_step E s (snd (atomically (record_gmail_send_success action message recipient body h) s))"
| send_lost: "offer_step E s (snd (atomically (record_gmail_send_unknown action reason) s))"
| send_reconciled: "offer_step E s (snd (atomically (reconcile_gmail_unknown action items) s))"
| notified: "offer_step E s (snd (atomically (record_ses_notification_success action message) s))"
| notification_lost: "offer_step E s (snd (atomically (record_ses_notification_unknown action reason) s))"
| freelancer_decided: "offer_step E s (snd (atomically (freelancer_decide E ctx order decision comment) s))"
| withdrawn: "offer_step E s (snd (atomically (withdraw_change_order E ctx order reason_given) s))"
| client_decided: "offer_step E s (snd (atomically (client_decide E st csrf order n r h decision comment) s))"
| swept: "offer_step E s (snd (atomically (expire_stale_offers E now) s))"
| elsewhere: "offer_rows t = offer_rows s \<Longrightarrow> offer_step E s t"

lemma other_offer_moves:
  "evolves offers_move (exchange_capability E token)" "evolves offers_move (refresh_client_session E st)"
  "evolves offers_move (begin_gmail_send a)" "evolves offers_move (record_gmail_send_unknown a reason)"
  "evolves offers_move (record_ses_notification_success a message)"
  "evolves offers_move (record_ses_notification_unknown a reason)"
  unfolding exchange_capability_def refresh_client_session_def begin_gmail_send_def record_gmail_send_unknown_def
    record_ses_notification_success_def record_ses_notification_unknown_def
  by (rule same_moves, intro offer_steps offer_frame_parts)+

lemmas operations_move = assemble_moves create_revision_moves approve_freelancer_moves accept_client_moves
  record_gmail_send_success_moves reconcile_gmail_unknown_moves freelancer_decide_moves withdraw_moves
  client_decide_moves expire_stale_offers_moves other_offer_moves

lemma offer_step_moves: "offer_step E s t \<Longrightarrow> offers_move s t"
  by (erule offer_step.cases; hypsubst?)
     (rule evolvesD [OF offers.evolves_atomically], rule operations_move | rule offers_move_same, assumption)+

lemma offer_steps_move: "(offer_step E)\<^sup>*\<^sup>* s t \<Longrightarrow> offers_move s t"
proof (induction rule: rtranclp_induct)
  case base
  show ?case by (rule offers.R_refl)
next
  case (step t u)
  with offer_step_moves show ?case using offers.R_trans by blast
qed

end
