(* ===== verification/Payment_Safety.thy ===== *)
theory Payment_Safety
  imports Payments
begin

text \<open>
  What the payment operations guarantee: frozen terms, final payments, verified captures, one
  effect per provider event, and the limits of the model's code where it falls short of them.
\<close>

section \<open>How payment rows move\<close>

definition payment_frozen :: "payment_request \<Rightarrow> uuid \<times> uuid \<times> uuid \<times> int \<times> int \<times> string \<times> time" where
  "payment_frozen p = (pr_tenant_id p, pr_project_id p, pr_accepted_revision_id p, pr_total_minor p, pr_tax_minor p,
     pr_currency p, pr_created_at p)"

definition payment_moves :: "payment_request \<Rightarrow> payment_request \<Rightarrow> bool" where
  "payment_moves p q \<longleftrightarrow> payment_frozen q = payment_frozen p \<and> pr_row_version p \<le> pr_row_version q \<and>
     (pr_status p \<in> {PAID, REVERSED} \<longrightarrow> pr_status q = pr_status p \<and> pr_paid_at q = pr_paid_at p)"

definition link_terms :: "payment_link_attempt \<Rightarrow> uuid \<times> uuid \<times> uuid \<times> int \<times> string \<times> string \<times> string \<times> int \<times> string \<times> uuid option" where
  "link_terms l = (pl_tenant_id l, pl_project_id l, pl_payment_request_id l, pl_attempt_number l, pl_provider_account_id l,
     pl_provider_environment l, pl_reference_id l, pl_amount_minor l, pl_currency l, pl_action_id l)"

interpretation payment_table: evolving_table payment_requests pr_id payment_moves
  by unfold_locales (auto simp: payment_moves_def)

interpretation link_table: evolving_table payment_link_attempts pl_id "\<lambda>l q. link_terms q = link_terms l"
  by unfold_locales auto

text \<open>The invariant of the links: numbered without repetition and within the constraint.\<close>

definition links_ok :: "db \<Rightarrow> bool" where
  "links_ok s \<longleftrightarrow>
     distinct (map (\<lambda>l. (pl_payment_request_id l, pl_attempt_number l)) (payment_link_attempts s)) \<and>
     list_all payment_link_attempt_check (payment_link_attempts s)"

definition payments_evolve :: "db \<Rightarrow> db \<Rightarrow> bool" where
  "payments_evolve s t \<longleftrightarrow>
     table_evolves pr_id payment_moves (payment_requests s) (payment_requests t) \<and>
     table_evolves pl_id (\<lambda>l q. link_terms q = link_terms l) (payment_link_attempts s) (payment_link_attempts t) \<and>
     (links_ok s \<longrightarrow> links_ok t)"

interpretation payment_rows: state_order payments_evolve
  by unfold_locales
     (auto simp: payments_evolve_def payment_table.table_refl link_table.table_refl
        intro: payment_table.table_trans link_table.table_trans)

lemma evolves_payments_same:
  "(\<And>s. payment_requests (snd (m s)) = payment_requests s \<and> payment_link_attempts (snd (m s)) = payment_link_attempts s) \<Longrightarrow>
   evolves payments_evolve m"
  by (simp add: evolves_def payments_evolve_def payment_table.table_refl link_table.table_refl links_ok_def)

text \<open>Steps that leave payment requests and links alone.\<close>

lemma payments_frame:
  "evolves payments_evolve fresh_uuid" "evolves payments_evolve the_time" "evolves payments_evolve (time_or_now t)"
  "evolves payments_evolve (trip ps cp)" "evolves payments_evolve (fresh_token E)" "evolves payments_evolve (digest_of E v)"
  "evolves payments_evolve (add_job j)" "evolves payments_evolve (add_outbox_event ob)"
  "evolves payments_evolve (get_external_action i)" "evolves payments_evolve (put_action i f)"
  "evolves payments_evolve (transition_action a target)" "evolves payments_evolve (add_external_action a)"
  "evolves payments_evolve (add_action_attempt att)" "evolves payments_evolve (put_attempt i g)"
  "evolves payments_evolve (last_attempt i)" "evolves payments_evolve (get_payment i)"
  "evolves payments_evolve (add_payment_attempt pa)" "evolves payments_evolve (put_payment_attempt i h)"
  "evolves payments_evolve (add_ingress w)" "evolves payments_evolve (put_ingress i k)"
  "evolves payments_evolve (add_observation obs)" "evolves payments_evolve (put_observation i l)"
  by (rule evolves_payments_same;
      simp add: trip_def run_digest_of add_job_def add_outbox_event_def run_add_row get_external_action_def
        put_action_def transition_action_def add_external_action_def add_action_attempt_def put_attempt_def
        last_attempt_def get_payment_def add_payment_attempt_def put_payment_attempt_def add_ingress_def
        put_ingress_def add_observation_def put_observation_def split: sum.split)+

lemma payments_put_from:
  assumes "\<And>s p. P s \<Longrightarrow> row_by pr_id i (payment_requests s) = Some p \<Longrightarrow>
      pr_id (f (p\<lparr>pr_updated_at := clock s\<rparr>)) = pr_id p \<and> payment_moves p (f (p\<lparr>pr_updated_at := clock s\<rparr>))"
  shows "evolves_from payments_evolve P (put_payment i f)"
  unfolding evolves_from_def put_payment_def
  using assms by (auto simp: payments_evolve_def link_table.table_refl links_ok_def intro!: payment_table.table_upd_row)

lemma payments_touch: "evolves payments_evolve (put_payment i (\<lambda>q. q))"
  and payments_due: "evolves payments_evolve (put_payment i (\<lambda>q. q\<lparr>pr_due_at := d, pr_expire_at := e\<rparr>))"
  by (rule payment_rows.evolves_from_top, rule payments_put_from,
      simp add: payment_moves_def payment_frozen_def)+

lemma payments_put_link:
  assumes "\<And>l. pl_id (f l) = pl_id l \<and> link_terms (f l) = link_terms l"
  shows "evolves payments_evolve (put_link i f)"
proof (rule evolvesI)
  fix s :: db
  let ?g = "\<lambda>l. f (l\<lparr>pl_updated_at := clock s\<rparr>)"
  have g: "pl_id (?g l) = pl_id l" "link_terms (?g l) = link_terms l" for l
    using assms [of "l\<lparr>pl_updated_at := clock s\<rparr>"] by (simp_all add: link_terms_def)
  then have num: "pl_payment_request_id (?g l) = pl_payment_request_id l" "pl_attempt_number (?g l) = pl_attempt_number l"
    "payment_link_attempt_check (?g l) = payment_link_attempt_check l" for l
    using g(2) [of l] by (simp_all add: link_terms_def payment_link_attempt_check_def)
  have "links_ok s \<Longrightarrow> links_ok (s\<lparr>payment_link_attempts := upd_row pl_id i ?g (payment_link_attempts s)\<rparr>)"
    by (auto simp: links_ok_def map_upd_row num list_all_iff dest!: set_upd_row row_by_SomeD)
  then show "payments_evolve s (snd (put_link i f s))"
    by (auto simp: put_link_def payments_evolve_def payment_table.table_refl g intro!: link_table.table_upd_row)
qed

lemma payments_add_link: "evolves payments_evolve (add_link l)"
  by (rule evolvesI)
     (auto simp: add_link_def run_add_row payments_evolve_def payment_table.table_refl link_table.table_refl
        link_table.table_append links_ok_def list_ex_iff)

lemma payments_transition:
  assumes "target \<noteq> REVERSED"
  shows "evolves payments_evolve (transition_payment i target)"
  unfolding transition_payment_def get_payment_def
  by (rule payment_rows.evolves_from_top, rule payment_rows.from_gets, rule payment_rows.from_some_or, rule from_the_time,
      (rule evolves_from_if)+)
     (use assms in \<open>auto intro!: payment_rows.from_evolves [OF payment_rows.evolves_ret] payment_rows.from_evolves [OF payment_rows.evolves_raise]
        evolves_from_if payments_put_from simp: payment_moves_def payment_frozen_def payment_moved_def\<close>)

lemmas payment_steps0 = payment_rows.evolve_rules payments_frame payments_touch payments_due payments_add_link

lemma payments_durable:
  "evolves payments_evolve (enqueue_now tn k p c pr ca)"
  "evolves payments_evolve (prepare_external_action E tn key prov oper payload pj)"
  "evolves payments_evolve (begin_action_dispatch i ps)"
  "evolves payments_evolve (complete_action i outcome req ps)"
  "evolves payments_evolve (mark_action_review_required i reason)"
  "evolves payments_evolve (mark_action_unknown i reason)"
  unfolding enqueue_now_def enqueue_job_def new_outbox_event_def prepare_external_action_def begin_action_dispatch_def
    complete_action_def mark_action_review_required_def mark_action_unknown_def
  by (intro payment_steps0)+

lemmas payment_steps =
  payment_steps0 payments_durable payments_put_link payments_transition [of PENDING] payments_transition [of PAID]
  payments_transition [of PAY_REVIEW_REQUIRED] payments_transition [of PAY_EXPIRED] payments_transition [of PAY_CANCELLED]

lemma payments_reads:
  "evolves payments_evolve (find_payment ctx i)" "evolves payments_evolve (accepted_revision p)"
  "evolves payments_evolve (latest_link i)" "evolves payments_evolve (active_link p)"
  "evolves payments_evolve (link_of_attempt i n)" "evolves payments_evolve (linked_action l)"
  "evolves payments_evolve (link_of_action i)" "evolves payments_evolve (ingress_target w)"
  "evolves payments_evolve (saved_link i)" "evolves payments_evolve (last_observation i)"
  unfolding find_payment_def accepted_revision_def latest_link_def active_link_def link_of_attempt_def linked_action_def
    link_of_action_def ingress_target_def saved_link_def last_observation_def Let_def
  by (intro payment_steps)+

lemma create_link_attempt_evolves: "evolves payments_evolve (create_link_attempt E ctx p)"
  unfolding create_link_attempt_def by (intro payment_steps payments_reads)

lemma prepare_payment_link_evolves: "evolves payments_evolve (prepare_payment_link E ctx i)"
  unfolding prepare_payment_link_def by (intro payment_steps payments_reads create_link_attempt_evolves)

lemma link_dispatch_failed_evolves: "evolves payments_evolve (link_dispatch_failed l p action err)"
  unfolding link_dispatch_failed_def
  by (cases err; simp only: exn.case; intro payment_steps; simp add: link_terms_def)

lemma dispatch_payment_link_evolves: "evolves payments_evolve (dispatch_payment_link client action)"
  unfolding dispatch_payment_link_def
  by (intro payment_steps payments_reads link_dispatch_failed_evolves; simp add: link_terms_def)

lemma store_webhook_evolves: "evolves payments_evolve (store_webhook account environment event kind payload seen)"
  unfolding store_webhook_def by (intro payment_steps)

lemma accept_payment_webhook_evolves: "evolves payments_evolve (accept_payment_webhook E account environment event kind payload v seen)"
  unfolding accept_payment_webhook_def webhook_event_id_def by (intro payment_steps store_webhook_evolves)

lemma attempt_of_event_evolves: "evolves payments_evolve (attempt_of_event ev request link)"
  unfolding attempt_of_event_def by (intro payment_steps)

lemma store_observation_evolves:
  "evolves payments_evolve (store_observation account environment event kind payload seen ev request link attempt)"
  unfolding store_observation_def by (intro payment_steps)

lemma apply_event_evolves: "evolves payments_evolve (apply_event kind ev mismatch l p attempt)"
  unfolding apply_event_def by (intro payment_steps; simp add: link_terms_def)

lemma observe_payment_event_evolves:
  "evolves payments_evolve (observe_payment_event E account environment event kind payload v seen)"
  unfolding observe_payment_event_def
  by (intro payment_steps attempt_of_event_evolves store_observation_evolves apply_event_evolves)

lemma normalize_payment_webhook_evolves: "evolves payments_evolve (normalize_payment_webhook E i tenant)"
  unfolding normalize_payment_webhook_def check_ingress_tenant_def
  by (intro payment_steps payments_reads observe_payment_event_evolves)

lemma normalize_pending_evolves: "evolves payments_evolve (normalize_pending_payment_webhooks E limit)"
  unfolding normalize_pending_payment_webhooks_def normalize_one_def
  by (intro payment_steps normalize_payment_webhook_evolves)

lemma replay_attempt_evolves: "evolves payments_evolve (replay_attempt obs p l)"
  unfolding replay_attempt_def by (intro payment_steps)

lemma replay_effect_evolves: "evolves payments_evolve (replay_effect obs attempt p l)"
  unfolding replay_effect_def by (intro payment_steps; simp add: link_terms_def)

lemma replay_evolves: "evolves payments_evolve (replay_unmatched_payment_observations now limit)"
  unfolding replay_unmatched_payment_observations_def replay_one_def
  by (intro payment_steps replay_attempt_evolves replay_effect_evolves)

lemma adopt_link_evolves: "evolves payments_evolve (adopt_link l response)"
  unfolding adopt_link_def by (intro payment_steps; simp add: link_terms_def)

lemma known_link_id_evolves: "evolves payments_evolve (known_link_id provider p l)"
  unfolding known_link_id_def by (intro payment_steps adopt_link_evolves; simp add: link_terms_def)

lemma reconcile_evolves: "evolves payments_evolve (reconcile_payment_request E client ctx i)"
  unfolding reconcile_payment_request_def
  by (intro payment_steps payments_reads known_link_id_evolves observe_payment_event_evolves)

lemma schedule_maintenance_evolves: "evolves payments_evolve (schedule_payment_maintenance now limit)"
  unfolding schedule_payment_maintenance_def maintain_payment_def by (intro payment_steps payments_reads)

lemma replace_payment_link_evolves: "evolves payments_evolve (replace_payment_link E ctx i version)"
  unfolding replace_payment_link_def
  by (intro payment_steps payments_reads prepare_payment_link_evolves; simp)

section \<open>Which runs can pay\<close>

definition paid_ids :: "db \<Rightarrow> uuid set" where
  "paid_ids s = pr_id ` {p \<in> set (payment_requests s). pr_status p = PAID}"

abbreviation pays_none :: "db \<Rightarrow> db \<Rightarrow> bool" where
  "pays_none s t \<equiv> paid_ids t \<subseteq> paid_ids s"

interpretation unpaid: state_order pays_none
  by unfold_locales auto

lemma evolves_unpaid_same: "(\<And>s. payment_requests (snd (m s)) = payment_requests s) \<Longrightarrow> evolves pays_none m"
  by (simp add: evolves_def paid_ids_def)

lemma unpaid_frame:
  "evolves pays_none fresh_uuid" "evolves pays_none the_time" "evolves pays_none (time_or_now t)"
  "evolves pays_none (trip ps cp)" "evolves pays_none (digest_of E v)"
  "evolves pays_none (add_job j)" "evolves pays_none (add_outbox_event ob)"
  "evolves pays_none (get_external_action i)" "evolves pays_none (put_action i f)"
  "evolves pays_none (transition_action a target)" "evolves pays_none (add_external_action a)"
  "evolves pays_none (add_action_attempt att)" "evolves pays_none (put_attempt i g)"
  "evolves pays_none (last_attempt i)" "evolves pays_none (get_payment i)"
  "evolves pays_none (add_payment_attempt pa)" "evolves pays_none (put_payment_attempt i h)"
  "evolves pays_none (add_ingress w)" "evolves pays_none (put_ingress i k)"
  "evolves pays_none (add_observation obs)" "evolves pays_none (put_observation i l)"
  "evolves pays_none (put_link i m)" "evolves pays_none (add_link nl)"
  by (rule evolves_unpaid_same;
      simp add: trip_def run_digest_of add_job_def add_outbox_event_def run_add_row get_external_action_def
        put_action_def transition_action_def add_external_action_def add_action_attempt_def put_attempt_def
        last_attempt_def get_payment_def add_payment_attempt_def put_payment_attempt_def add_ingress_def
        put_ingress_def add_observation_def put_observation_def put_link_def add_link_def split: sum.split)+

lemma paid_after_put:
  assumes "\<And>p. pr_id (f p) = pr_id p"
  shows "paid_ids (snd (put_payment i f s)) \<subseteq> insert i (paid_ids s)"
  using assms by (auto simp: put_payment_def paid_ids_def dest!: set_upd_row row_by_SomeD)

lemma unpaid_put:
  assumes "\<And>p. pr_id (f p) = pr_id p \<and> (pr_status (f p) = PAID \<longrightarrow> pr_status p = PAID)"
  shows "evolves pays_none (put_payment i f)"
proof (rule evolvesI, rule subsetI)
  fix s :: db and j
  let ?g = "\<lambda>p. f (p\<lparr>pr_updated_at := clock s\<rparr>)"
  assume "j \<in> paid_ids (snd (put_payment i f s))"
  then obtain q where q: "q \<in> set (upd_row pr_id i ?g (payment_requests s))" "pr_status q = PAID" "pr_id q = j"
    by (auto simp: put_payment_def paid_ids_def)
  from set_upd_row [OF q(1)] show "j \<in> paid_ids s"
  proof
    assume "q \<in> set (payment_requests s)"
    with q(2,3) show ?thesis by (auto simp: paid_ids_def)
  next
    assume "\<exists>p. row_by pr_id i (payment_requests s) = Some p \<and> q = ?g p"
    then obtain p where p: "row_by pr_id i (payment_requests s) = Some p" "q = ?g p" by blast
    with assms [of "p\<lparr>pr_updated_at := clock s\<rparr>"] q(2,3) have "pr_status p = PAID" "pr_id p = j" by auto
    with p(1) show ?thesis by (auto simp: paid_ids_def dest: row_by_SomeD)
  qed
qed

lemma unpaid_transition:
  assumes "target \<noteq> PAID"
  shows "evolves pays_none (transition_payment i target)"
  unfolding transition_payment_def
  by (intro unpaid.evolve_rules unpaid_frame unpaid_put) (use assms in \<open>simp_all add: payment_moved_def\<close>)

lemma paid_by_transition: "paid_ids (snd (transition_payment i target s)) \<subseteq> insert i (paid_ids s)"
proof -
  have "paid_ids (snd (put_payment i (payment_moved target (clock s)) s)) \<subseteq> insert i (paid_ids s)"
    by (rule paid_after_put) (simp add: payment_moved_def)
  then show ?thesis
    by (auto simp: transition_payment_def get_payment_def run_bind_some_or split: option.splits)
qed

lemmas unpaid_steps0 = unpaid.evolve_rules unpaid_frame

lemma unpaid_durable:
  "evolves pays_none (enqueue_now tn k p c pr ca)"
  "evolves pays_none (prepare_external_action E tn key prov oper payload pj)"
  "evolves pays_none (begin_action_dispatch i ps)"
  "evolves pays_none (complete_action i outcome req ps)"
  "evolves pays_none (mark_action_review_required i reason)"
  "evolves pays_none (mark_action_unknown i reason)"
  unfolding enqueue_now_def enqueue_job_def new_outbox_event_def prepare_external_action_def begin_action_dispatch_def
    complete_action_def mark_action_review_required_def mark_action_unknown_def
  by (intro unpaid_steps0)+

lemma unpaid_reads:
  "evolves pays_none (find_payment ctx i)" "evolves pays_none (accepted_revision p)"
  "evolves pays_none (latest_link i)" "evolves pays_none (active_link p)"
  "evolves pays_none (link_of_attempt i n)" "evolves pays_none (linked_action l)"
  "evolves pays_none (link_of_action i)" "evolves pays_none (saved_link i)" "evolves pays_none (last_observation i)"
  unfolding find_payment_def accepted_revision_def latest_link_def active_link_def link_of_attempt_def linked_action_def
    link_of_action_def saved_link_def last_observation_def
  by (intro unpaid_steps0)+

lemmas unpaid_steps =
  unpaid_steps0 unpaid_durable unpaid_reads unpaid_put unpaid_transition [of PENDING]
  unpaid_transition [of PAY_REVIEW_REQUIRED] unpaid_transition [of PAY_EXPIRED] unpaid_transition [of PAY_CANCELLED]

lemma prepare_payment_link_unpaid: "evolves pays_none (prepare_payment_link E ctx i)"
  unfolding prepare_payment_link_def create_link_attempt_def by (intro unpaid_steps; simp)

lemma dispatch_payment_link_unpaid: "evolves pays_none (dispatch_payment_link client action)"
proof -
  have "evolves pays_none (link_dispatch_failed l p action err)" for l p err
    unfolding link_dispatch_failed_def by (cases err; simp only: exn.case; intro unpaid_steps; simp)
  then show ?thesis unfolding dispatch_payment_link_def by (intro unpaid_steps; simp)
qed

lemma accept_payment_webhook_unpaid: "evolves pays_none (accept_payment_webhook E account environment event kind payload v seen)"
  unfolding accept_payment_webhook_def webhook_event_id_def store_webhook_def by (intro unpaid_steps)

lemma schedule_maintenance_unpaid: "evolves pays_none (schedule_payment_maintenance now limit)"
  unfolding schedule_payment_maintenance_def maintain_payment_def by (intro unpaid_steps)

lemma replace_payment_link_unpaid: "evolves pays_none (replace_payment_link E ctx i version)"
  unfolding replace_payment_link_def by (intro unpaid_steps prepare_payment_link_unpaid; simp)

text \<open>The one branch of an event that pays.\<close>

lemma apply_event_pays:
  assumes "i \<in> paid_ids (snd (apply_event kind ev mismatch l p attempt s))" and "i \<notin> paid_ids s"
  shows "\<not> mismatch \<and> i = pr_id p \<and> lower kind \<in> {''payment_link.paid'', ''payment.captured''} \<and>
     (\<exists>a. attempt = Some a \<and> pa_captured a)"
proof -
  let ?capture = "lower kind \<in> {''payment_link.paid'', ''payment.captured''}"
  let ?verified = "\<exists>a. attempt = Some a \<and> pa_captured a"
  let ?order = "perhaps (capture_event kind \<and> pl_provider_order_id l = None)
      (put_link (pl_id l) (pl_provider_order_id_update (\<lambda>_. pe_order_id ev))) :: unit act"
  have cap: "?capture \<Longrightarrow> capture_event kind" by (auto simp: capture_event_def)
  show ?thesis
  proof (cases "\<not> mismatch \<and> ?capture \<and> ?verified")
    case True
    have "evolves pays_none ?order" by (intro unpaid_steps)
    from evolvesD [OF this, of s] have order: "paid_ids (snd (?order s)) \<subseteq> paid_ids s" .
    from True have "apply_event kind ev mismatch l p attempt s = bindE ?order (\<lambda>_. transition_payment (pr_id p) PAID) s"
      unfolding apply_event_def by auto
    also have "snd \<dots> = snd (transition_payment (pr_id p) PAID (snd (?order s)))"
      unfolding perhaps_def by (simp add: put_link_def run_bindE)
    finally have "snd (apply_event kind ev mismatch l p attempt s) = snd (transition_payment (pr_id p) PAID (snd (?order s)))" .
    with assms(1) have "i \<in> paid_ids (snd (transition_payment (pr_id p) PAID (snd (?order s))))" by (simp only:)
    with paid_by_transition [of "pr_id p" PAID "snd (?order s)"]
    have "i \<in> insert (pr_id p) (paid_ids (snd (?order s)))" by (rule subsetD)
    with order assms(2) True show ?thesis by blast
  next
    case False
    have "evolves pays_none (apply_event kind ev mismatch l p attempt)"
    proof (cases mismatch)
      case True
      then show ?thesis unfolding apply_event_def by (simp only: if_True) (intro unpaid_steps; simp)
    next
      case nm: False
      show ?thesis
      proof (cases ?capture)
        case True
        with False nm cap have "capture_event kind \<and> (case attempt of None \<Rightarrow> True | Some a \<Rightarrow> \<not> pa_captured a)"
          by (auto split: option.split)
        with nm show ?thesis unfolding apply_event_def by (simp only: if_False if_True) (intro unpaid_steps; simp)
      next
        case False
        with nm show ?thesis unfolding apply_event_def
          by (simp only: if_False) (intro unpaid_steps; simp)
      qed
    qed
    from evolvesD [OF this, of s] assms show ?thesis by blast
  qed
qed

text \<open>The attempts table is not touched while an event is applied.\<close>

interpretation attempts_frame: state_frame payment_attempts .

lemma attempts_same: "(\<And>s. payment_attempts (snd (m s)) = payment_attempts s) \<Longrightarrow> evolves (\<lambda>s t. payment_attempts t = payment_attempts s) m"
  by (simp add: evolves_def)

lemma attempts_frame_steps:
  "evolves (\<lambda>s t. payment_attempts t = payment_attempts s) fresh_uuid"
  "evolves (\<lambda>s t. payment_attempts t = payment_attempts s) the_time"
  "evolves (\<lambda>s t. payment_attempts t = payment_attempts s) (time_or_now tm)"
  "evolves (\<lambda>s t. payment_attempts t = payment_attempts s) (get_payment i)"
  "evolves (\<lambda>s t. payment_attempts t = payment_attempts s) (put_payment i f)"
  "evolves (\<lambda>s t. payment_attempts t = payment_attempts s) (put_link i g)"
  "evolves (\<lambda>s t. payment_attempts t = payment_attempts s) (add_observation obs)"
  by (rule attempts_same; simp add: get_payment_def put_payment_def put_link_def add_observation_def run_add_row)+

lemma apply_event_attempts: "evolves (\<lambda>s t. payment_attempts t = payment_attempts s) (apply_event kind ev mm l p attempt)"
  unfolding apply_event_def transition_payment_def by (intro attempts_frame.evolve_rules attempts_frame_steps)

lemma store_observation_attempts:
  "evolves (\<lambda>s t. payment_attempts t = payment_attempts s)
     (store_observation account environment event kind payload seen ev request link attempt)"
  unfolding store_observation_def by (intro attempts_frame.evolve_rules attempts_frame_steps)

lemma attempt_of_event_found:
  "attempt_of_event ev request link s = (Inr (Some a), t) \<Longrightarrow>
   a \<in> set (payment_attempts t) \<and> pe_payment_id ev = Some (pa_provider_payment_id a)"
  by (auto simp: attempt_of_event_def attempt_for_payment_def run_bindE add_payment_attempt_def run_add_row
      split: option.splits if_splits dest: find_SomeD)

lemma attempt_of_event_unpaid: "evolves pays_none (attempt_of_event ev request link)"
  unfolding attempt_of_event_def by (intro unpaid_steps)

lemma store_observation_unpaid:
  "evolves pays_none (store_observation account environment event kind payload seen ev request link attempt)"
  unfolding store_observation_def by (intro unpaid_steps)

text \<open>The link an event names, and the request of that link.\<close>

definition event_link :: "payment_event \<Rightarrow> db \<Rightarrow> payment_link_attempt option" where
  "event_link ev s = Option.bind (pe_link_id ev) (\<lambda>i. find (\<lambda>l. pl_provider_link_id l = Some i) (payment_link_attempts s))"

definition event_request :: "payment_event \<Rightarrow> db \<Rightarrow> payment_request option" where
  "event_request ev s = Option.bind (event_link ev s) (\<lambda>l. row_by pr_id (pl_payment_request_id l) (payment_requests s))"

lemma run_observe:
  assumes "observe_payment_event E account environment event kind payload verified seen s = (r, t)" and "t \<noteq> s"
  shows "\<exists>ev_id. environment = TEST_ENVIRONMENT \<and> verified \<and>
    (let ev = read_event kind payload; link = event_link ev s; request = event_request ev s in
     bindE (attempt_of_event ev request link) (\<lambda>attempt.
     bindE (store_observation account environment ev_id kind payload seen ev request link attempt) (\<lambda>obs.
     bindE (case (link, request) of
         (Some l, Some p) \<Rightarrow> apply_event kind ev (event_mismatch account environment kind ev link) l p attempt
       | _ \<Rightarrow> ret ()) (\<lambda>_.
     ret obs))) s = (r, t))"
  using assms
  by (auto simp: observe_payment_event_def event_link_def event_request_def run_bind_require Let_def
      split: if_splits option.splits)

section \<open>The life of a payment\<close>

inductive payment_step :: "db \<Rightarrow> db \<Rightarrow> bool" where
  prepare_link: "snd (prepare_payment_link E ctx i s) = s' \<Longrightarrow> payment_step s s'"
| dispatch_link: "snd (dispatch_payment_link client i s) = s' \<Longrightarrow> payment_step s s'"
| accept: "snd (accept_payment_webhook E account environment event kind payload v seen s) = s' \<Longrightarrow> payment_step s s'"
| normalize: "snd (normalize_payment_webhook E i tenant s) = s' \<Longrightarrow> payment_step s s'"
| normalize_pending: "snd (normalize_pending_payment_webhooks E limit s) = s' \<Longrightarrow> payment_step s s'"
| observe: "snd (observe_payment_event E account environment event kind payload v seen s) = s' \<Longrightarrow> payment_step s s'"
| replay: "snd (replay_unmatched_payment_observations now limit s) = s' \<Longrightarrow> payment_step s s'"
| reconcile: "snd (reconcile_payment_request E client ctx i s) = s' \<Longrightarrow> payment_step s s'"
| maintain: "snd (schedule_payment_maintenance now limit s) = s' \<Longrightarrow> payment_step s s'"
| replace: "snd (replace_payment_link E ctx i version s) = s' \<Longrightarrow> payment_step s s'"
| tick: "payment_step s (s\<lparr>clock := clock s + int d\<rparr>)"

lemmas payment_operations =
  prepare_payment_link_evolves dispatch_payment_link_evolves accept_payment_webhook_evolves
  normalize_payment_webhook_evolves normalize_pending_evolves observe_payment_event_evolves replay_evolves
  reconcile_evolves schedule_maintenance_evolves replace_payment_link_evolves

lemma payments_tick: "payments_evolve s (s\<lparr>clock := c\<rparr>)"
  by (simp add: payments_evolve_def payment_table.table_refl link_table.table_refl links_ok_def)

lemma payment_step_evolves: "payment_step s s' \<Longrightarrow> payments_evolve s s'"
  by (induction rule: payment_step.induct)
     (rule payments_tick | (hypsubst, rule payment_operations [THEN evolvesD]))+

lemma payment_run_evolves: "payment_step\<^sup>*\<^sup>* s t \<Longrightarrow> payments_evolve s t"
proof (induction rule: rtranclp_induct)
  case base
  show ?case by (rule payment_rows.R_refl)
next
  case (step t u)
  from step.IH payment_step_evolves [OF step.hyps(2)] show ?case by (rule payment_rows.R_trans)
qed

text \<open>A database for the witnesses: a payment request of 50000 paise whose link was created.\<close>

definition demo_request :: payment_request where
  "demo_request = \<lparr>pr_id = 20, pr_tenant_id = 7, pr_project_id = 3, pr_accepted_revision_id = 11,
     pr_total_minor = 50000, pr_tax_minor = 0, pr_currency = ''INR'', pr_status = PENDING,
     pr_due_at = Some 0, pr_expire_at = Some 0, pr_paid_at = None, pr_row_version = 2, pr_created_at = 0, pr_updated_at = 0\<rparr>"

definition demo_link :: payment_link_attempt where
  "demo_link = \<lparr>pl_id = 21, pl_tenant_id = 7, pl_project_id = 3, pl_payment_request_id = 20, pl_attempt_number = 1,
     pl_provider_account_id = ''acc_1'', pl_provider_environment = ''test'', pl_reference_id = ''sg-1'',
     pl_amount_minor = 50000, pl_currency = ''INR'', pl_status = CREATED, pl_provider_link_id = Some ''plink_1'',
     pl_provider_order_id = Some ''order_1'', pl_short_url = Some ''u'', pl_provider_status = Some ''created'',
     pl_action_id = Some 22, pl_provider_payload = None, pl_created_at = 0, pl_updated_at = 0\<rparr>"

definition demo_link_created :: db where
  "demo_link_created = empty_db\<lparr>next_uuid := 100, payment_requests := [demo_request], payment_link_attempts := [demo_link]\<rparr>"

definition demo_event :: "string \<Rightarrow> string \<Rightarrow> (string \<times> pyval) list" where
  "demo_event payment_status reference =
     [(''payload'', PDict [
        (''payment_link'', PDict [(''entity'', PDict [(''id'', PStr ''plink_1''), (''reference_id'', PStr reference)])]),
        (''payment'', PDict [(''entity'', PDict [(''id'', PStr ''pay_1''), (''order_id'', PStr ''order_1''),
           (''amount'', PInt 50000), (''currency'', PStr ''INR''), (''status'', PStr payment_status)])])])]"

definition demo_paid :: db where
  "demo_paid = snd (observe_payment_event demo_env ''acc_1'' ''test'' ''evt_1'' ''payment_link.paid''
     (demo_event ''captured'' ''sg-1'') True None demo_link_created)"

lemma demo_payment_status:
  "map_option pr_status (row_by pr_id 20 (payment_requests demo_paid)) = Some PAID"
  by code_simp



text \<open>C2: Only an exact, verified capture pays. When an observed event turns a payment request into
a paid one, the event was authenticated and for the test environment, names the link of that
request by its identity and reference at the link's account, and states exactly the link's
amount and currency and an order that agrees with the link's; it is a capture event, and the
captured payment is recorded.\<close>

theorem paid_only_by_verified_capture:
  assumes "observe_payment_event E account environment event kind payload verified seen s = (r, t)"
    and "i \<in> paid_ids t" and "i \<notin> paid_ids s"
  shows "environment = ''test'' \<and> verified \<and> lower kind \<in> {''payment_link.paid'', ''payment.captured''} \<and>
    (\<exists>l a. l \<in> set (payment_link_attempts s) \<and> pl_payment_request_id l = i \<and>
       pl_provider_link_id l \<noteq> None \<and> pe_link_id (read_event kind payload) = pl_provider_link_id l \<and>
       pl_provider_account_id l = account \<and> pl_provider_environment l = environment \<and>
       pe_reference (read_event kind payload) = Some (pl_reference_id l) \<and>
       pe_amount (read_event kind payload) = Some (pl_amount_minor l) \<and>
       pe_currency (read_event kind payload) = Some (pl_currency l) \<and>
       pe_order_id (read_event kind payload) \<noteq> None \<and>
       (pl_provider_order_id l \<noteq> None \<longrightarrow> pe_order_id (read_event kind payload) = pl_provider_order_id l) \<and>
       a \<in> set (payment_attempts t) \<and> pa_captured a \<and>
       pe_payment_id (read_event kind payload) = Some (pa_provider_payment_id a))"
proof -
  let ?ev = "read_event kind payload"
  from assms(2,3) have "t \<noteq> s" by auto
  from run_observe [OF assms(1) this] obtain ev_id where env: "environment = TEST_ENVIRONMENT" "verified" and
    run: "bindE (attempt_of_event ?ev (event_request ?ev s) (event_link ?ev s)) (\<lambda>attempt.
     bindE (store_observation account environment ev_id kind payload seen ?ev (event_request ?ev s) (event_link ?ev s) attempt) (\<lambda>obs.
     bindE (case (event_link ?ev s, event_request ?ev s) of
         (Some l, Some p) \<Rightarrow> apply_event kind ?ev (event_mismatch account environment kind ?ev (event_link ?ev s)) l p attempt
       | _ \<Rightarrow> ret ()) (\<lambda>_.
     ret obs))) s = (r, t)" by (auto simp: Let_def)
  obtain r1 s1 where 1: "attempt_of_event ?ev (event_request ?ev s) (event_link ?ev s) s = (r1, s1)" by fastforce
  from evolves_run [OF attempt_of_event_unpaid 1] have u1: "paid_ids s1 \<subseteq> paid_ids s" .
  show ?thesis
  proof (cases r1)
    case (Inl e)
    with run 1 u1 assms(2,3) show ?thesis by (auto simp: run_bindE)
  next
    case (Inr attempt)
    obtain r2 s2 where 2: "store_observation account environment ev_id kind payload seen ?ev (event_request ?ev s)
        (event_link ?ev s) attempt s1 = (r2, s2)" by fastforce
    from evolves_run [OF store_observation_unpaid 2] u1 have u2: "paid_ids s2 \<subseteq> paid_ids s" by blast
    show ?thesis
    proof (cases r2)
      case e2: (Inl e)
      with run 1 2 Inr u2 assms(2,3) show ?thesis by (auto simp: run_bindE)
    next
      case o2: (Inr obs)
      show ?thesis
      proof (cases "event_link ?ev s = None \<or> event_request ?ev s = None")
        case True
        with run 1 2 Inr o2 u2 assms(2,3) show ?thesis by (auto simp: run_bindE split: option.splits)
      next
        case False
        then obtain l p where l: "event_link ?ev s = Some l" and p: "event_request ?ev s = Some p" by auto
        let ?mm = "event_mismatch account environment kind ?ev (Some l)"
        from run 1 2 Inr o2 l p have t: "t = snd (apply_event kind ?ev ?mm l p attempt s2)"
          by (auto simp: run_bindE split: prod.splits sum.splits)
        with assms(2,3) u2 have "i \<in> paid_ids (snd (apply_event kind ?ev ?mm l p attempt s2))" "i \<notin> paid_ids s2" by auto
        from apply_event_pays [OF this] obtain a where
          a: "\<not> ?mm" "i = pr_id p" "lower kind \<in> {''payment_link.paid'', ''payment.captured''}" "attempt = Some a" "pa_captured a"
          by blast
        from l have mem: "l \<in> set (payment_link_attempts s)" "pe_link_id ?ev = pl_provider_link_id l" "pl_provider_link_id l \<noteq> None"
          by (auto simp: event_link_def bind_eq_Some_conv dest: find_SomeD)
        from p l have "pl_payment_request_id l = pr_id p"
          by (auto simp: event_request_def dest: row_by_SomeD)
        moreover from attempt_of_event_found [OF 1 [unfolded Inr a(4)]]
        have "a \<in> set (payment_attempts s1)" "pe_payment_id ?ev = Some (pa_provider_payment_id a)" by simp_all
        moreover have "payment_attempts t = payment_attempts s1"
          using evolves_run [OF store_observation_attempts 2] evolvesD [OF apply_event_attempts, where s = s2] t by simp
        moreover from a(3) have "capture_event kind" by (auto simp: capture_event_def)
        ultimately show ?thesis using a mem env by (auto simp: event_mismatch_def TEST_ENVIRONMENT_def)
      qed
    qed
  qed
qed

theorem paid_only_by_verified_capture_witness:
  "\<exists>l. l \<in> set (payment_link_attempts demo_link_created) \<and> pl_payment_request_id l = 20 \<and>
     pe_amount (read_event ''payment_link.paid'' (demo_event ''captured'' ''sg-1'')) = Some (pl_amount_minor l)"
proof -
  from demo_payment_status obtain p where "row_by pr_id 20 (payment_requests demo_paid) = Some p" "pr_status p = PAID"
    by auto
  then have "20 \<in> paid_ids demo_paid" by (auto simp: paid_ids_def dest: row_by_SomeD)
  moreover have "20 \<notin> paid_ids demo_link_created"
    by (auto simp: paid_ids_def demo_link_created_def demo_request_def empty_db_def)
  moreover obtain r where "observe_payment_event demo_env ''acc_1'' ''test'' ''evt_1'' ''payment_link.paid''
     (demo_event ''captured'' ''sg-1'') True None demo_link_created = (r, demo_paid)"
    unfolding demo_paid_def by (metis prod.collapse)
  ultimately show ?thesis using paid_only_by_verified_capture by blast
qed

section \<open>What providers reported is kept\<close>

text \<open>Webhooks, observations and payment attempts keep what the provider said; only how they were
associated changes.\<close>

definition ingress_frozen :: "payment_webhook_ingress \<Rightarrow> string \<times> string \<times> string \<times> string \<times> (string \<times> pyval) list \<times> bool \<times> time" where
  "ingress_frozen w = (wh_provider_account_id w, wh_provider_environment w, wh_provider_event_id w, wh_event_type w,
     wh_raw_payload w, wh_signature_verified w, wh_received_at w)"

definition observation_frozen :: "payment_observation \<Rightarrow>
    string \<times> string \<times> string \<times> string \<times> string option \<times> string option \<times> string option \<times> int option \<times> string option \<times> string \<times> (string \<times> pyval) list" where
  "observation_frozen p = (po_provider_account_id p, po_provider_environment p, po_provider_event_id p, po_event_type p,
     po_provider_link_id p, po_provider_payment_id p, po_reference_id p, po_amount_minor p, po_currency p,
     po_observed_status p, po_raw_payload p)"

definition attempt_report :: "payment_attempt \<Rightarrow> string \<times> string option \<times> int \<times> string \<times> string \<times> bool" where
  "attempt_report a = (pa_provider_payment_id a, pa_provider_order_id a, pa_amount_minor a, pa_currency a, pa_status a, pa_captured a)"

interpretation ingress_table: evolving_table payment_webhook_ingress_rows wh_id "\<lambda>w q. ingress_frozen q = ingress_frozen w"
  by unfold_locales auto

interpretation observation_table: evolving_table payment_observations po_id "\<lambda>p q. observation_frozen q = observation_frozen p"
  by unfold_locales auto

interpretation report_table: evolving_table payment_attempts pa_id "\<lambda>a q. attempt_report q = attempt_report a"
  by unfold_locales auto

definition reports_kept :: "db \<Rightarrow> db \<Rightarrow> bool" where
  "reports_kept s t \<longleftrightarrow>
     table_evolves wh_id (\<lambda>w q. ingress_frozen q = ingress_frozen w) (payment_webhook_ingress_rows s) (payment_webhook_ingress_rows t) \<and>
     table_evolves po_id (\<lambda>p q. observation_frozen q = observation_frozen p) (payment_observations s) (payment_observations t) \<and>
     table_evolves pa_id (\<lambda>a q. attempt_report q = attempt_report a) (payment_attempts s) (payment_attempts t)"

lemmas report_refl = ingress_table.table_refl observation_table.table_refl report_table.table_refl

interpretation reports: state_order reports_kept
proof
  show "reports_kept s s" for s by (simp add: reports_kept_def report_refl)
  show "reports_kept s t \<Longrightarrow> reports_kept t u \<Longrightarrow> reports_kept s u" for s t u
    unfolding reports_kept_def
    by (blast intro: ingress_table.table_trans observation_table.table_trans report_table.table_trans)
qed

lemma evolves_reports_same:
  "(\<And>s. payment_webhook_ingress_rows (snd (m s)) = payment_webhook_ingress_rows s \<and>
        payment_observations (snd (m s)) = payment_observations s \<and> payment_attempts (snd (m s)) = payment_attempts s) \<Longrightarrow>
   evolves reports_kept m"
  by (simp add: evolves_def reports_kept_def report_refl)

lemma reports_frame:
  "evolves reports_kept fresh_uuid" "evolves reports_kept the_time" "evolves reports_kept (time_or_now t)"
  "evolves reports_kept (trip ps cp)" "evolves reports_kept (digest_of E v)"
  "evolves reports_kept (add_job j)" "evolves reports_kept (add_outbox_event ob)"
  "evolves reports_kept (get_external_action i)" "evolves reports_kept (put_action i f)"
  "evolves reports_kept (transition_action a target)" "evolves reports_kept (add_external_action a)"
  "evolves reports_kept (add_action_attempt att)" "evolves reports_kept (put_attempt i g)"
  "evolves reports_kept (last_attempt i)" "evolves reports_kept (get_payment i)"
  "evolves reports_kept (put_payment i h)" "evolves reports_kept (put_link i m)" "evolves reports_kept (add_link nl)"
  by (rule evolves_reports_same;
      simp add: trip_def run_digest_of add_job_def add_outbox_event_def run_add_row get_external_action_def
        put_action_def transition_action_def add_external_action_def add_action_attempt_def put_attempt_def
        last_attempt_def get_payment_def put_payment_def put_link_def add_link_def split: sum.split)+

lemma reports_add:
  "evolves reports_kept (add_payment_attempt pa)" "evolves reports_kept (add_ingress w)"
  "evolves reports_kept (add_observation obs)"
  by (rule evolvesI; simp add: add_payment_attempt_def add_ingress_def add_observation_def run_add_row reports_kept_def
      report_refl ingress_table.table_append observation_table.table_append report_table.table_append)+

lemma reports_put_ingress:
  "(\<And>w. wh_id (f w) = wh_id w \<and> ingress_frozen (f w) = ingress_frozen w) \<Longrightarrow> evolves reports_kept (put_ingress i f)"
  by (rule evolvesI) (auto simp: put_ingress_def reports_kept_def report_refl intro!: ingress_table.table_upd_row)

lemma reports_put_observation:
  "(\<And>p. po_id (f p) = po_id p \<and> observation_frozen (f p) = observation_frozen p) \<Longrightarrow> evolves reports_kept (put_observation i f)"
  by (rule evolvesI) (auto simp: put_observation_def reports_kept_def report_refl intro!: observation_table.table_upd_row)

lemma reports_put_attempt:
  "(\<And>a. pa_id (f a) = pa_id a \<and> attempt_report (f a) = attempt_report a) \<Longrightarrow> evolves reports_kept (put_payment_attempt i f)"
  by (rule evolvesI) (auto simp: put_payment_attempt_def reports_kept_def report_refl intro!: report_table.table_upd_row)

lemmas report_steps0 = reports.evolve_rules reports_frame reports_add

lemma reports_durable:
  "evolves reports_kept (enqueue_now tn k p c pr ca)"
  "evolves reports_kept (prepare_external_action E tn key prov oper payload pj)"
  "evolves reports_kept (begin_action_dispatch i ps)"
  "evolves reports_kept (complete_action i outcome req ps)"
  "evolves reports_kept (mark_action_review_required i reason)"
  "evolves reports_kept (mark_action_unknown i reason)"
  "evolves reports_kept (transition_payment i target)"
  unfolding enqueue_now_def enqueue_job_def new_outbox_event_def prepare_external_action_def begin_action_dispatch_def
    complete_action_def mark_action_review_required_def mark_action_unknown_def transition_payment_def
  by (intro report_steps0)+

lemma reports_reads:
  "evolves reports_kept (find_payment ctx i)" "evolves reports_kept (accepted_revision p)"
  "evolves reports_kept (latest_link i)" "evolves reports_kept (active_link p)"
  "evolves reports_kept (link_of_attempt i n)" "evolves reports_kept (linked_action l)"
  "evolves reports_kept (link_of_action i)" "evolves reports_kept (ingress_target w)"
  "evolves reports_kept (saved_link i)" "evolves reports_kept (last_observation i)"
  unfolding find_payment_def accepted_revision_def latest_link_def active_link_def link_of_attempt_def linked_action_def
    link_of_action_def ingress_target_def saved_link_def last_observation_def Let_def
  by (intro report_steps0)+

lemmas report_steps =
  report_steps0 reports_durable reports_reads reports_put_ingress reports_put_observation reports_put_attempt

lemma prepare_payment_link_reports: "evolves reports_kept (prepare_payment_link E ctx i)"
  unfolding prepare_payment_link_def create_link_attempt_def by (intro report_steps)

lemma dispatch_payment_link_reports: "evolves reports_kept (dispatch_payment_link client action)"
proof -
  have "evolves reports_kept (link_dispatch_failed l p action err)" for l p err
    unfolding link_dispatch_failed_def by (cases err; simp only: exn.case; intro report_steps)
  then show ?thesis unfolding dispatch_payment_link_def by (intro report_steps)
qed

lemma accept_payment_webhook_reports: "evolves reports_kept (accept_payment_webhook E account environment event kind payload v seen)"
  unfolding accept_payment_webhook_def webhook_event_id_def store_webhook_def by (intro report_steps)

lemma observe_reports: "evolves reports_kept (observe_payment_event E account environment event kind payload v seen)"
  unfolding observe_payment_event_def attempt_of_event_def store_observation_def apply_event_def by (intro report_steps)

lemma normalize_reports: "evolves reports_kept (normalize_payment_webhook E i tenant)"
  unfolding normalize_payment_webhook_def check_ingress_tenant_def
  by (intro report_steps observe_reports; simp add: ingress_frozen_def)

lemma normalize_pending_reports: "evolves reports_kept (normalize_pending_payment_webhooks E limit)"
  unfolding normalize_pending_payment_webhooks_def normalize_one_def by (intro report_steps normalize_reports)

lemma replay_reports: "evolves reports_kept (replay_unmatched_payment_observations now limit)"
  unfolding replay_unmatched_payment_observations_def replay_one_def replay_attempt_def replay_effect_def
  by (intro report_steps; simp add: observation_frozen_def attempt_report_def)

lemma reconcile_reports: "evolves reports_kept (reconcile_payment_request E client ctx i)"
  unfolding reconcile_payment_request_def known_link_id_def adopt_link_def by (intro report_steps observe_reports)

lemma schedule_maintenance_reports: "evolves reports_kept (schedule_payment_maintenance now limit)"
  unfolding schedule_payment_maintenance_def maintain_payment_def by (intro report_steps)

lemma replace_payment_link_reports: "evolves reports_kept (replace_payment_link E ctx i version)"
  unfolding replace_payment_link_def by (intro report_steps prepare_payment_link_reports)

lemmas report_operations =
  prepare_payment_link_reports dispatch_payment_link_reports accept_payment_webhook_reports normalize_reports
  normalize_pending_reports observe_reports replay_reports reconcile_reports schedule_maintenance_reports
  replace_payment_link_reports

lemma reports_tick: "reports_kept s (s\<lparr>clock := c\<rparr>)"
  by (simp add: reports_kept_def report_refl)

lemma payment_step_reports: "payment_step s s' \<Longrightarrow> reports_kept s s'"
  by (induction rule: payment_step.induct)
     (rule reports_tick | (hypsubst, rule report_operations [THEN evolvesD]))+

lemma payment_run_reports: "payment_step\<^sup>*\<^sup>* s t \<Longrightarrow> reports_kept s t"
proof (induction rule: rtranclp_induct)
  case base
  show ?case by (rule reports.R_refl)
next
  case (step t u)
  from step.IH payment_step_reports [OF step.hyps(2)] show ?case by (rule reports.R_trans)
qed

text \<open>Both intakes are idempotent: a webhook by its provider event, an observation likewise.\<close>

text \<open>The identity of an event: its identifier, or the digest of its payload where it comes without one.\<close>

definition event_identity :: "env \<Rightarrow> string \<Rightarrow> (string \<times> pyval) list \<Rightarrow> exn + string" where
  "event_identity E event payload = (if strip event \<noteq> [] then Inr (strip event) else canonical_sha256 (sha256 E) (PDict payload))"

lemma run_webhook_event_id:
  "webhook_event_id E event payload s = (case event_identity E event payload of Inl e \<Rightarrow> (Inl e, s) | Inr i \<Rightarrow> (Inr i, s))"
  by (simp add: webhook_event_id_def event_identity_def run_digest_of)

definition accepted_webhook :: "string \<Rightarrow> string \<Rightarrow> exn + string \<Rightarrow> string \<Rightarrow> bool \<Rightarrow> db \<Rightarrow> payment_webhook_ingress option" where
  "accepted_webhook account environment identity kind verified s =
     (case identity of
        Inl e \<Rightarrow> None
      | Inr i \<Rightarrow>
          if environment = TEST_ENVIRONMENT \<and> verified \<and> strip account \<noteq> [] \<and> strip kind \<noteq> []
          then ingress_for (strip account) environment i (payment_webhook_ingress_rows s) else None)"

interpretation webhook: idempotent_intake "accepted_webhook account environment (event_identity E event payload) kind verified"
    "bindE (accept_payment_webhook E account environment event kind payload verified seen) (\<lambda>r. ret (fst r))"
  for E account environment event kind payload verified seen
proof unfold_locales
  fix s t :: db and w
  assume run: "bindE (accept_payment_webhook E account environment event kind payload verified seen) (\<lambda>r. ret (fst r)) s = (Inr w, t)"
  then obtain r where acc: "accept_payment_webhook E account environment event kind payload verified seen s = (Inr r, t)"
    and w: "w = fst r" by (auto elim!: bindE_InrE)
  then obtain i where ok: "environment = TEST_ENVIRONMENT" "verified" "strip account \<noteq> []" "strip kind \<noteq> []"
    and i: "event_identity E event payload = Inr i"
    by (auto simp: accept_payment_webhook_def run_bind_require run_bindE [of "webhook_event_id E event payload"] run_webhook_event_id
        split: if_splits sum.splits)
  show "accepted_webhook account environment (event_identity E event payload) kind verified t = Some w"
  proof (cases "ingress_for (strip account) environment i (payment_webhook_ingress_rows s)")
    case (Some q)
    with acc ok i w show ?thesis
      by (auto simp: accept_payment_webhook_def run_bindE [of "webhook_event_id E event payload"] run_webhook_event_id accepted_webhook_def)
  next
    case None
    with acc ok i have st: "store_webhook (strip account) environment i (strip kind) payload seen s = (Inr r, t)"
      by (simp add: accept_payment_webhook_def run_bindE [of "webhook_event_id E event payload"] run_webhook_event_id)
    have keep: "enqueue_now tn k p c pr ca s1 = (Inr j, s2) \<Longrightarrow>
        payment_webhook_ingress_rows s2 = payment_webhook_ingress_rows s1" for tn k p c pr ca s1 s2 j
      using enqueue_now_rest [of tn k p c pr ca s1, THEN arg_cong [where f = payment_webhook_ingress_rows]]
      by (simp add: rest_of_queue_def)
    from st None ok i show ?thesis unfolding w
      by (auto simp: store_webhook_def add_ingress_def run_add_row accepted_webhook_def ingress_for_def find_append run_bindE
          split: option.splits if_splits prod.splits sum.splits dest!: keep)
  qed
next
  fix s :: db and w
  assume "accepted_webhook account environment (event_identity E event payload) kind verified s = Some w"
  then show "bindE (accept_payment_webhook E account environment event kind payload verified seen) (\<lambda>r. ret (fst r)) s = (Inr w, s)"
    by (auto simp: accepted_webhook_def accept_payment_webhook_def run_bindE run_webhook_event_id split: if_splits sum.splits)
qed

lemma ingress_for_kept:
  assumes "reports_kept s t" and "ingress_for a e v (payment_webhook_ingress_rows s) = Some w"
  shows "\<exists>q. ingress_for a e v (payment_webhook_ingress_rows t) = Some q \<and> wh_id q = wh_id w \<and> ingress_frozen q = ingress_frozen w"
  using assms unfolding ingress_for_def reports_kept_def
  by (intro table_evolves_find [where rid = wh_id]) (auto simp: ingress_frozen_def)

text \<open>C5: A webhook is accepted once. When an authenticated webhook was accepted, then after any payment
operations every redelivery of that event returns the webhook already stored, queues no job and
changes nothing. The event is recognised by its identifier, whatever payload comes with it, and
by the digest of its payload when it comes with a blank identifier.\<close>

theorem webhook_accepted_once:
  assumes "accept_payment_webhook E account environment event kind payload True seen s = (Inr (w, job), t)"
    and "payment_step\<^sup>*\<^sup>* t u" and "strip kind' \<noteq> []"
    and "event_identity E event' payload' = event_identity E event payload"
  shows "\<exists>q. accept_payment_webhook E account environment event' kind' payload' True seen' u = (Inr (q, None), u) \<and>
     wh_id q = wh_id w \<and> wh_raw_payload q = wh_raw_payload w"
proof -
  have "bindE (accept_payment_webhook E account environment event kind payload True seen) (\<lambda>r. ret (fst r)) s = (Inr w, t)"
    using assms(1) by (simp add: run_bindE)
  from webhook.recorded [OF this] obtain i where i: "event_identity E event payload = Inr i" and
    ok: "environment = TEST_ENVIRONMENT" "strip account \<noteq> []" and
    found: "ingress_for (strip account) environment i (payment_webhook_ingress_rows t) = Some w"
    by (auto simp: accepted_webhook_def split: if_splits sum.splits)
  from ingress_for_kept [OF payment_run_reports [OF assms(2)] found] obtain q where
    q: "ingress_for (strip account) environment i (payment_webhook_ingress_rows u) = Some q"
       "wh_id q = wh_id w" "ingress_frozen q = ingress_frozen w" by blast
  with ok i assms(3,4) have "accept_payment_webhook E account environment event' kind' payload' True seen' u = (Inr (q, None), u)"
    by (simp add: accept_payment_webhook_def run_bindE [of "webhook_event_id E event' payload'"] run_webhook_event_id)
  with q(2,3) show ?thesis by (auto simp: ingress_frozen_def)
qed

theorem webhook_accepted_once_witness:
  "\<exists>w job t q. accept_payment_webhook demo_env ''acc_1'' ''test'' [] ''payment_link.paid'' [(''id'', PInt 1)] True None demo_link_created =
     (Inr (w, job), t) \<and>
   accept_payment_webhook demo_env ''acc_1'' ''test'' [] ''other'' [(''id'', PInt 1)] True None t = (Inr (q, None), t) \<and> wh_id q = wh_id w"
proof -
  let ?run = "accept_payment_webhook demo_env ''acc_1'' ''test'' [] ''payment_link.paid'' [(''id'', PInt 1)] True None demo_link_created"
  have "value_of ?run \<noteq> None" by code_simp
  then obtain w job where "value_of ?run = Some (w, job)" by auto
  then have run: "?run = (Inr (w, job), snd ?run)" by (rule value_of_SomeD)
  have "strip ''other'' \<noteq> []" by code_simp
  from webhook_accepted_once [OF run rtranclp.rtrancl_refl this refl, of None] run show ?thesis by blast
qed

lemma run_observe_new:
  assumes "environment = TEST_ENVIRONMENT" and "strip event \<noteq> []"
    and "observation_for account environment (strip event) (payment_observations s) = None"
  shows "observe_payment_event E account environment event kind payload True seen s =
    bindE (attempt_of_event (read_event kind payload) (event_request (read_event kind payload) s) (event_link (read_event kind payload) s))
      (\<lambda>attempt.
    bindE (store_observation account environment (strip event) kind payload seen (read_event kind payload)
      (event_request (read_event kind payload) s) (event_link (read_event kind payload) s) attempt) (\<lambda>obs.
    bindE (case (event_link (read_event kind payload) s, event_request (read_event kind payload) s) of
         (Some l, Some p) \<Rightarrow> apply_event kind (read_event kind payload)
            (event_mismatch account environment kind (read_event kind payload) (event_link (read_event kind payload) s)) l p attempt
       | _ \<Rightarrow> ret ()) (\<lambda>_.
    ret obs))) s"
  using assms by (simp add: observe_payment_event_def event_link_def event_request_def cong: option.case_cong)

text \<open>An event takes effect once. When an event was observed, then after any payment operations
observing the same provider event again, with whatever content, returns the first observation
and changes nothing.\<close>

theorem event_observed_once:
  assumes "observe_payment_event E account environment event kind payload True seen s = (Inr obs, t)"
    and "strip event \<noteq> []" and "payment_step\<^sup>*\<^sup>* t u"
  shows "\<exists>q. observe_payment_event E account environment event kind' payload' True seen' u = (Inr q, u) \<and>
     po_id q = po_id obs \<and> po_raw_payload q = po_raw_payload obs"
proof -
  from assms(1) have env: "environment = TEST_ENVIRONMENT"
    by (auto simp: observe_payment_event_def run_bind_require split: if_splits)
  have found: "\<exists>p. observation_for account environment (strip event) (payment_observations t) = Some p \<and> po_id p = po_id obs \<and>
      observation_frozen p = observation_frozen obs"
  proof (cases "observation_for account environment (strip event) (payment_observations s)")
    case (Some p)
    with assms(1,2) env show ?thesis by (auto simp: observe_payment_event_def)
  next
    case None
    let ?ev = "read_event kind payload"
    from assms(1) [unfolded run_observe_new [OF env assms(2) None]] obtain attempt s1 s2 where
      2: "store_observation account environment (strip event) kind payload seen ?ev (event_request ?ev s) (event_link ?ev s) attempt s1 = (Inr obs, s2)" and
      3: "(case (event_link ?ev s, event_request ?ev s) of
         (Some l, Some p) \<Rightarrow> apply_event kind ?ev (event_mismatch account environment kind ?ev (event_link ?ev s)) l p attempt
       | _ \<Rightarrow> ret ()) s2 = (Inr (), t)"
      by (elim bindE_InrE) simp
    from 2 have mem: "payment_observations s2 = payment_observations s1 @ [obs]"
      "po_provider_account_id obs = account" "po_provider_environment obs = environment" "po_provider_event_id obs = strip event"
      "observation_for account environment (strip event) (payment_observations s1) = None"
      by (auto simp: store_observation_def add_observation_def run_bindE run_add_row observation_for_def find_None_iff
          list_ex_iff split: if_splits)
    then have "observation_for account environment (strip event) (payment_observations s2) = Some obs"
      by (simp add: observation_for_def find_append)
    moreover have "evolves reports_kept (apply_event kind ?ev m l p attempt)" for m l p
      unfolding apply_event_def by (intro report_steps)
    then have "reports_kept s2 t"
      using 3 by (auto split: option.splits dest: evolves_run simp: reports.R_refl)
    ultimately show ?thesis
      unfolding observation_for_def reports_kept_def
      by (intro table_evolves_find [where rid = po_id]) (auto simp: observation_frozen_def)
  qed
  then obtain p where p: "observation_for account environment (strip event) (payment_observations t) = Some p" "po_id p = po_id obs"
      "observation_frozen p = observation_frozen obs" by blast
  from payment_run_reports [OF assms(3)] p(1) have
    "\<exists>q. observation_for account environment (strip event) (payment_observations u) = Some q \<and> po_id q = po_id p \<and>
       observation_frozen q = observation_frozen p"
    unfolding observation_for_def reports_kept_def
    by (intro table_evolves_find [where rid = po_id]) (auto simp: observation_frozen_def)
  then obtain q where q: "observation_for account environment (strip event) (payment_observations u) = Some q" "po_id q = po_id p"
      "observation_frozen q = observation_frozen p" by blast
  with env assms(2) have "observe_payment_event E account environment event kind' payload' True seen' u = (Inr q, u)"
    by (simp add: observe_payment_event_def)
  with q(2,3) p(2,3) show ?thesis by (auto simp: observation_frozen_def)
qed


theorem event_observed_once_witness:
  "\<exists>obs t q. observe_payment_event demo_env ''acc_1'' ''test'' ''evt_1'' ''payment_link.paid'' (demo_event ''captured'' ''sg-1'')
     True None demo_link_created = (Inr obs, t) \<and>
   observe_payment_event demo_env ''acc_1'' ''test'' ''evt_1'' ''other'' [] True None t = (Inr q, t) \<and> po_id q = po_id obs"
proof -
  let ?run = "observe_payment_event demo_env ''acc_1'' ''test'' ''evt_1'' ''payment_link.paid'' (demo_event ''captured'' ''sg-1'')
     True None demo_link_created"
  have "map_option (\<lambda>r. True) (value_of ?run) = Some True" by code_simp
  then obtain obs where "value_of ?run = Some obs" by auto
  then have run: "?run = (Inr obs, snd ?run)" by (rule value_of_SomeD)
  have "strip ''evt_1'' \<noteq> []" by code_simp
  from event_observed_once [OF run this rtranclp.rtrancl_refl, of "''other''" "[]" None] run
  show ?thesis by blast
qed

end
