(* ===== verification/Acceptance.thy ===== *)
theory Acceptance
  imports Offer_Safety Payment_Safety
begin

text \<open>
  What an acceptance does, stated over a ledger of approvals, scope versions, payment requests
  and revenue: the first acceptance makes exactly one entry in each, a repeated one makes none.
  The file ends with the properties of offers over whole histories.
\<close>

section \<open>The ledger\<close>

record ledger =
  led_approvals :: "(uuid \<times> actor_type \<times> approval_decision \<times> string) list"
  led_scope :: "(uuid \<times> int \<times> uuid option \<times> uuid option) list"
  led_amendments :: "(uuid \<times> uuid) list"
  led_payments :: "(uuid \<times> int \<times> int \<times> string \<times> payment_status) list"
  led_revenue :: "(uuid \<times> int \<times> int \<times> string) list"

definition payment_entry :: "payment_request \<Rightarrow> uuid \<times> int \<times> int \<times> string \<times> payment_status" where
  "payment_entry p = (pr_accepted_revision_id p, pr_total_minor p, pr_tax_minor p, pr_currency p, pr_status p)"

definition ledger_of :: "db \<Rightarrow> ledger" where
  "ledger_of s = \<lparr>
     led_approvals = map (\<lambda>a. (appr_revision_id a, appr_actor_type a, appr_decision a, appr_content_hash a)) (approvals s),
     led_scope = map (\<lambda>v. (sv_project_id v, sv_version v, sv_parent_version_id v, sv_source_revision_id v)) (scope_versions s),
     led_amendments = map (\<lambda>a. (amend_accepted_revision_id a, amend_previous_scope_version_id a)) (scope_amendments s),
     led_payments = map payment_entry (payment_requests s),
     led_revenue = map (\<lambda>f. (rf_revision_id f, rf_amount_minor f, rf_tax_minor f, rf_currency f)) (approved_revenue_facts s)\<rparr>"

text \<open>One acceptance in the ledger: the client's approval, the new scope, the money.\<close>

definition enter_acceptance :: "proposal_revision \<Rightarrow> project \<Rightarrow> int \<Rightarrow> ledger \<Rightarrow> ledger" where
  "enter_acceptance r pj version l = \<lparr>
     led_approvals = led_approvals l @ [(rev_id r, CLIENT, APPROVED, rev_canonical_artifact_hash r)],
     led_scope = led_scope l @ [(proj_id pj, version, proj_current_scope_version_id pj, Some (rev_id r))],
     led_amendments = led_amendments l @ [(rev_id r, rev_baseline_version_id r)],
     led_payments = led_payments l @ [(rev_id r, rev_total_minor r, rev_tax_minor r, rev_currency r, CREATION_PENDING)],
     led_revenue = led_revenue l @ [(rev_id r, rev_total_minor r, rev_tax_minor r, rev_currency r)]\<rparr>"

interpretation ledger_frame: state_frame ledger_of .

abbreviation ledger_same :: "db \<Rightarrow> db \<Rightarrow> bool" where
  "ledger_same \<equiv> (\<lambda>s t. ledger_of t = ledger_of s)"

lemma ledger_frame_steps:
  "evolves ledger_same fresh_uuid" "evolves ledger_same (fresh_token E)" "evolves ledger_same the_time"
  "evolves ledger_same (trip ps cp)" "evolves ledger_same (digest_of E v)" "evolves ledger_same (add_job j)"
  "evolves ledger_same (add_outbox_event ob)" "evolves ledger_same (put_action i f)"
  "evolves ledger_same (add_external_action a)" "evolves ledger_same (get_payment i)" "evolves ledger_same (add_link l)"
  "evolves ledger_same (put_request i k)" "evolves ledger_same (put_project i k1)" "evolves ledger_same (put_order i k2)"
  "evolves ledger_same (put_capability i k3)" "evolves ledger_same (add_client_session cs)"
  "evolves ledger_same (add_capability k4)" "evolves ledger_same (add_scope_version_item item)"
  by (rule evolvesI;
      simp add: ledger_of_def trip_def run_digest_of add_job_def add_outbox_event_def run_add_row put_action_def
        add_external_action_def get_payment_def add_link_def put_request_def put_project_def put_order_def
        put_capability_def add_client_session_def add_capability_def add_scope_version_item_def
        split: sum.split)+

lemma put_payment_ledger:
  assumes "\<And>p. pr_id (f p) = pr_id p \<and> payment_entry (f p) = payment_entry p"
  shows "evolves ledger_same (put_payment i f)"
proof (rule evolvesI)
  fix s :: db
  have "map payment_entry (upd_row pr_id i (\<lambda>r. f (r\<lparr>pr_updated_at := clock s\<rparr>)) (payment_requests s)) =
      map payment_entry (payment_requests s)"
    by (rule map_upd_row) (simp add: assms, simp add: payment_entry_def)
  then show "ledger_of (snd (put_payment i f s)) = ledger_of s" by (simp add: put_payment_def ledger_of_def)
qed

lemmas ledger_steps0 = ledger_frame.evolve_rules ledger_frame_steps

lemma ledger_frame_durable:
  "evolves ledger_same (enqueue_now tn k p c pr ca)" "evolves ledger_same (prepare_external_action E tn key prov oper payload pj)"
  "evolves ledger_same (issue_session E cap tok pu now)" "evolves ledger_same (confirm_send act j)"
  "evolves ledger_same (receipt_capability src i j)"
  unfolding enqueue_now_def enqueue_job_def new_outbox_event_def prepare_external_action_def issue_session_def
    confirm_send_def receipt_capability_def
  by (intro ledger_steps0)+

lemma receipt_ledger:
  "evolves ledger_same (receipt_credentials E cap r now)"
  "evolves ledger_same (receipt_credentials_for_existing E cap r now)"
  unfolding receipt_credentials_for_existing_def receipt_credentials_def
  by (intro ledger_steps0 ledger_frame_durable)+

lemma prepare_payment_link_ledger: "evolves ledger_same (prepare_payment_link E ctx i)"
  unfolding prepare_payment_link_def create_link_attempt_def find_payment_def accepted_revision_def latest_link_def
    active_link_def link_of_attempt_def linked_action_def
  by (intro ledger_steps0 ledger_frame_durable put_payment_ledger) (simp_all add: payment_entry_def)

text \<open>A step whose return has a given effect on the ledger.\<close>

definition enters :: "(ledger \<Rightarrow> ledger) \<Rightarrow> 'a act \<Rightarrow> bool" where
  "enters f m \<longleftrightarrow> (\<forall>s x t. m s = (Inr x, t) \<longrightarrow> ledger_of t = f (ledger_of s))"

lemma entersD: "enters f m \<Longrightarrow> m s = (Inr x, t) \<Longrightarrow> ledger_of t = f (ledger_of s)"
  by (auto simp: enters_def)

lemma enters_eq: "enters f m \<Longrightarrow> f = g \<Longrightarrow> enters g m"
  by simp

lemma enters_same: "evolves ledger_same m \<Longrightarrow> enters (\<lambda>l. l) m"
  by (auto simp: enters_def dest: evolves_run)

lemma enters_then:
  assumes "enters f m" and "\<And>x. enters g (k x)"
  shows "enters (\<lambda>l. g (f l)) (bindE m k)"
  unfolding enters_def
proof (intro allI impI)
  fix s x t
  assume "bindE m k s = (Inr x, t)"
  then obtain y u where "m s = (Inr y, u)" "k y u = (Inr x, t)" by (rule bindE_InrE)
  with entersD [OF assms(1)] entersD [OF assms(2)] show "ledger_of t = g (f (ledger_of s))" by metis
qed

lemma enters_skip: "evolves ledger_same m \<Longrightarrow> (\<And>x. enters f (k x)) \<Longrightarrow> enters f (bindE m k)"
  using enters_then [OF enters_same] by blast

lemma enters_last: "enters f m \<Longrightarrow> (\<And>x. evolves ledger_same (k x)) \<Longrightarrow> enters f (bindE m k)"
  using enters_then [OF _ enters_same] by blast

lemma enters_rows:
  "enters (led_approvals_update (\<lambda>rows. rows @ [(appr_revision_id a, appr_actor_type a, appr_decision a, appr_content_hash a)]))
     (add_approval a)"
  "enters (led_scope_update (\<lambda>rows. rows @ [(sv_project_id v, sv_version v, sv_parent_version_id v, sv_source_revision_id v)]))
     (add_scope_version v)"
  "enters (led_amendments_update (\<lambda>rows. rows @ [(amend_accepted_revision_id m, amend_previous_scope_version_id m)])) (add_amendment m)"
  "enters (led_payments_update (\<lambda>rows. rows @ [payment_entry p])) (add_payment_request p)"
  "enters (led_revenue_update (\<lambda>rows. rows @ [(rf_revision_id f, rf_amount_minor f, rf_tax_minor f, rf_currency f)])) (add_revenue_fact f)"
  by (auto simp: enters_def add_approval_def add_scope_version_def add_amendment_def add_payment_request_def
      add_revenue_fact_def run_add_row ledger_of_def split: if_splits)

lemma copy_items_ledger: "evolves ledger_same (mapE (copy_scope_item tn pj v) links)"
  unfolding copy_scope_item_def by (intro ledger_steps0)

lemma amend_scope_ledger:
  assumes "amend_scope E cap c r pj prev s = (Inr x, t)"
  shows "\<exists>version. next_scope_version (proj_id pj) (cc_tenant_id cap) prev s = (Inr version, s) \<and>
    ledger_of t = ledger_of s\<lparr>led_scope := led_scope (ledger_of s) @ [(proj_id pj, version, Some (sv_id prev), Some (rev_id r))],
      led_amendments := led_amendments (ledger_of s) @ [(rev_id r, sv_id prev)]\<rparr>"
  using assms unfolding amend_scope_def
proof (elim bindE_InrE, goal_cases)
  case (1 version s1 digest s2 i s3 now s4 u5 s5 links s6 u7 s7 u8 s8 j s9)
  then have s1: "s1 = s" and s6: "s6 = s5" by (simp_all add: next_scope_version_def)
  have "ledger_of s4 = ledger_of s"
    using s1 evolves_run [OF ledger_frame_steps(5) 1(2)] evolves_run [OF ledger_frame_steps(1) 1(3)]
      evolves_run [OF ledger_frame_steps(3) 1(4)] by simp
  moreover have "ledger_of s9 = ledger_of s5"
    using s6 evolves_run [OF copy_items_ledger 1(7)] evolves_run [OF ledger_frame_steps(13) 1(8)]
      evolves_run [OF ledger_frame_steps(1) 1(9)] by simp
  moreover note entersD [OF enters_rows(2) 1(5)] entersD [OF enters_rows(3) 1(10)]
  ultimately have "ledger_of t = ledger_of s\<lparr>led_scope := led_scope (ledger_of s) @
      [(proj_id pj, version, Some (sv_id prev), Some (rev_id r))],
      led_amendments := led_amendments (ledger_of s) @ [(rev_id r, sv_id prev)]\<rparr>" by simp
  with 1(1) s1 show ?case by blast
qed

lemma open_payment_ledger:
  "enters (\<lambda>l. led_revenue_update (\<lambda>rows. rows @ [(rev_id r, rev_total_minor r, rev_tax_minor r, rev_currency r)])
     (led_payments_update (\<lambda>rows. rows @ [(rev_id r, rev_total_minor r, rev_tax_minor r, rev_currency r, CREATION_PENDING)]) l))
     (open_payment cap c r pj)"
  unfolding open_payment_def
  by (intro enters_skip [OF ledger_frame_steps(1)] enters_skip [OF ledger_frame_steps(3)],
      rule enters_then, rule enters_eq [OF enters_rows(4)], simp add: payment_entry_def,
      intro enters_skip [OF ledger_frame_steps(1)] enters_last ledger_frame.evolves_ret,
      rule enters_eq [OF enters_rows(5)], simp)

section \<open>The first acceptance\<close>

text \<open>The scope version an acceptance reads is the project's current one.\<close>

definition current_scope :: "project \<Rightarrow> db \<Rightarrow> scope_version option" where
  "current_scope pj s = Option.bind (proj_current_scope_version_id pj) (\<lambda>v. row_by sv_id v (scope_versions s))"

interpretation scopes: state_frame scope_versions .

lemma scopes_frame:
  "evolves (\<lambda>s t. scope_versions t = scope_versions s) fresh_uuid"
  "evolves (\<lambda>s t. scope_versions t = scope_versions s) the_time"
  "evolves (\<lambda>s t. scope_versions t = scope_versions s) (add_approval a)"
  "evolves (\<lambda>s t. scope_versions t = scope_versions s) (put_capability i f)"
  "evolves (\<lambda>s t. scope_versions t = scope_versions s) (confirm_send act j)"
  "evolves (\<lambda>s t. scope_versions t = scope_versions s) (put_order i g)"
  "evolves (\<lambda>s t. scope_versions t = scope_versions s) (put_request i h)"
  unfolding confirm_send_def
  by (intro scopes.evolve_rules evolvesI;
      simp add: add_approval_def run_add_row put_capability_def put_order_def put_request_def put_action_def)+

lemma next_scope_version_scopes:
  "scope_versions t = scope_versions s \<Longrightarrow> next_scope_version p tn prev t = (Inr v, t) \<Longrightarrow> next_scope_version p tn prev s = (Inr v, s)"
  by (simp add: next_scope_version_def)

lemma record_acceptance_ledger:
  assumes run: "record_acceptance E cap r c pj act h key s = (Inr a, t)" and "h = rev_canonical_artifact_hash r"
    and base: "proj_current_scope_version_id pj = Some (rev_baseline_version_id r)"
  shows "\<exists>prev version. current_scope pj s = Some prev \<and>
    next_scope_version (proj_id pj) (cc_tenant_id cap) prev s = (Inr version, s) \<and>
    ledger_of t = enter_acceptance r pj version (ledger_of s)"
  using run unfolding record_acceptance_def
proof (elim bindE_InrE, goal_cases)
  case (1 now s1 i s2 u3 s3 u4 s4 u5 s5 u6 s6 u7 s7 found s8 prev s9 u10 s10 payment s11 corr s12 u13 s13 rc s14 ord s15 fp s16 p s17)
  have s2: "ledger_of s2 = ledger_of s" "scope_versions s2 = scope_versions s"
    using 1(1,2) by (auto simp: ledger_of_def)
  have read: "s9 = s7" "Option.bind (proj_current_scope_version_id pj) (\<lambda>v. row_by sv_id v (scope_versions s7)) = Some prev"
    using 1(8,9) by auto
  have scopes: "scope_versions s9 = scope_versions s"
    using s2 read evolves_run [OF scopes_frame(3) 1(3)] evolves_run [OF scopes_frame(4) 1(4)]
      evolves_run [OF scopes_frame(5) 1(5)] evolves_run [OF scopes_frame(6) 1(6)] evolves_run [OF scopes_frame(7) 1(7)]
    by simp
  with read have prev: "current_scope pj s = Some prev" by (simp add: current_scope_def)
  with base have "sv_id prev = rev_baseline_version_id r" by (auto simp: current_scope_def dest: row_by_SomeD)
  moreover have "ledger_of s9 = led_approvals_update (\<lambda>rows. rows @ [(rev_id r, CLIENT, APPROVED, h)]) (ledger_of s)"
    using s2 read entersD [OF enters_rows(1) 1(3)] evolves_run [OF ledger_frame_steps(15) 1(4)]
      evolves_run [OF ledger_frame_durable(4) 1(5)] evolves_run [OF ledger_frame_steps(14) 1(6)]
      evolves_run [OF ledger_frame_steps(12) 1(7)]
    by simp
  moreover have "ledger_of t = ledger_of s11"
    using evolves_run [OF ledger_frame_steps(1) 1(12)] evolves_run [OF prepare_payment_link_ledger 1(13)]
      evolves_run [OF receipt_ledger(1) 1(14)] 1(15-18) evolves_run [OF ledger_frame_steps(10) 1(16)]
    by (auto simp: order_row_def)
  moreover obtain version where "next_scope_version (proj_id pj) (cc_tenant_id cap) prev s9 = (Inr version, s9)"
    "ledger_of s10 = ledger_of s9\<lparr>led_scope := led_scope (ledger_of s9) @ [(proj_id pj, version, Some (sv_id prev), Some (rev_id r))],
      led_amendments := led_amendments (ledger_of s9) @ [(rev_id r, sv_id prev)]\<rparr>"
    using amend_scope_ledger [OF 1(10)] by blast
  moreover from this(1) have "next_scope_version (proj_id pj) (cc_tenant_id cap) prev s = (Inr version, s)"
    by (rule next_scope_version_scopes [OF scopes])
  ultimately show ?case
    using prev base assms(2) entersD [OF open_payment_ledger 1(11)]
    by (intro exI [of _ prev] exI [of _ version]) (simp add: enter_acceptance_def)
qed

lemma order_frame_receipts: "evolves (\<lambda>s t. change_orders t = change_orders s) (receipt_credentials E cap r now)"
  unfolding receipt_credentials_def
  by (intro order_rows.evolves_bind order_rows.evolves_ret same_orders [OF offer_frame_steps(1)]
       same_orders [OF offer_frame_steps(2)] same_orders [OF offer_frame_steps(3)] same_orders [OF offer_frame_parts(2)])
     (simp add: add_capability_def run_add_row evolvesI)

lemma record_acceptance_order:
  assumes "record_acceptance E cap r c pj act h key s = (Inr a, t)" and "row_by co_id (co_id c) (change_orders s) = Some c"
  shows "row_by co_id (co_id c) (change_orders t) = Some (acc_change_order a) \<and>
    co_status (acc_change_order a) = CLIENT_APPROVED \<and> co_row_version (acc_change_order a) = co_row_version c + 1 \<and>
    co_current_revision_id (acc_change_order a) = co_current_revision_id c"
  using assms(1) unfolding record_acceptance_def
proof (elim bindE_InrE, goal_cases)
  case (1 now s1 i s2 u3 s3 u4 s4 u5 s5 u6 s6 u7 s7 found s8 prev s9 u10 s10 payment s11 corr s12 u13 s13 rc s14 ord s15 fp s16 p s17)
  have "change_orders s2 = change_orders s" using 1(1,2) by auto
  moreover have "change_orders s3 = change_orders s2" using 1(3) by (auto simp: add_approval_def run_add_row split: if_splits)
  moreover have "change_orders s4 = change_orders s3" using 1(4) by (auto simp: put_capability_def)
  moreover note evolves_run [OF same_orders [OF offer_frame_parts(5)] 1(5)]
  ultimately have row5: "row_by co_id (co_id c) (change_orders s5) = Some c" using assms(2) by simp
  with 1(6) obtain u where row6: "row_by co_id (co_id c) (change_orders s6) =
      Some (c\<lparr>co_updated_at := u, co_status := CLIENT_APPROVED, co_row_version := co_row_version c + 1\<rparr>)"
    by (auto simp: put_order_def row_by_upd_row)
  have "change_orders s9 = change_orders s7" using 1(8,9) by auto
  moreover note evolves_run [OF same_orders [OF offer_frame_steps(19)] 1(7)]
    evolves_run [OF same_orders [OF offer_frame_parts(3)] 1(10)] evolves_run [OF same_orders [OF offer_frame_parts(4)] 1(11)]
    evolves_run [OF same_orders [OF offer_frame_steps(1)] 1(12)]
    evolves_run [OF same_orders [OF prepare_payment_link_offers] 1(13)] evolves_run [OF order_frame_receipts 1(14)]
  ultimately have "change_orders s14 = change_orders s6" by simp
  with 1(15) row6 have "ord = c\<lparr>co_updated_at := u, co_status := CLIENT_APPROVED, co_row_version := co_row_version c + 1\<rparr>"
    "s15 = s14" by (auto simp: order_row_def)
  moreover have "t = s15" "acc_change_order a = ord" using 1(16-18) by (auto simp: get_payment_def)
  ultimately show ?case using row6 \<open>change_orders s14 = change_orders s6\<close> by simp
qed

lemma payment_for_revision_run:
  "payment_for_revision j s = (Inr found, t) \<longleftrightarrow> t = s \<and> found = find (\<lambda>p. pr_accepted_revision_id p = j) (payment_requests s)"
  by (auto simp: payment_for_revision_def)

lemma order_frame_receipts_existing:
  "evolves (\<lambda>s t. change_orders t = change_orders s) (receipt_credentials_for_existing E cap r now)"
  unfolding receipt_credentials_for_existing_def
  by (intro order_rows.evolves_bind evolves_case_option order_frame_receipts same_orders [OF offer_frame_reads(19)]
       same_orders [OF offer_frame_parts(2)])

lemma replay_acceptance_run:
  assumes "replay_acceptance E cap r ord key s = (Inr a, t)"
  shows "ledger_of t = ledger_of s \<and> change_orders t = change_orders s \<and>
    pr_accepted_revision_id (acc_payment_request a) = rev_id r \<and> acc_payment_request a \<in> set (payment_requests s) \<and>
    (\<exists>p\<in>set (approvals s). appr_revision_id p = rev_id r \<and> appr_actor_type p = CLIENT \<and>
       dict_get (appr_provenance p) ''idempotency_key'' = PStr key)"
  using assms unfolding replay_acceptance_def
proof (elim bindE_InrE, goal_cases)
  case (1 prior s1 existing s2 u s3 p s4 now s5 receipt s6)
  then have st: "s1 = s" "s2 = s" "s3 = s" "s4 = s" "s5 = s" "t = s6" "acc_payment_request a = p"
    by (auto simp: prior_acceptance_def payment_for_revision_run require_def split: if_splits)
  with 1(1-4) have "find (\<lambda>p. pr_accepted_revision_id p = rev_id r) (payment_requests s) = Some p"
    "\<exists>q. find (\<lambda>a. appr_revision_id a = rev_id r \<and> appr_actor_type a = CLIENT \<and>
     dict_get (appr_provenance a) ''idempotency_key'' = PStr key) (approvals s) = Some q"
    by (auto simp: payment_for_revision_run prior_acceptance_def require_def split: if_splits)
  then show ?case
    using st evolves_run [OF receipt_ledger(2) 1(6)] evolves_run [OF order_frame_receipts_existing 1(6)]
    by (auto dest!: find_SomeD)
qed

definition already_accepted :: "client_capability \<Rightarrow> uuid \<Rightarrow> db \<Rightarrow> bool" where
  "already_accepted cap r s \<longleftrightarrow> cc_consumed_at cap \<noteq> None \<or> (\<exists>p\<in>set (payment_requests s). pr_accepted_revision_id p = r)"

lemma accept_client_cases:
  assumes ok: "offers_ok s" and scope: "session_scope E st (Some ct) s = (Inr (row, cap, r, ord), s)"
    and run: "accept_client E st ct i n j h key s = (Inr a, t)"
  obtains (again) "already_accepted cap j s" "ledger_of t = ledger_of s" "change_orders t = change_orders s"
      "pr_accepted_revision_id (acc_payment_request a) = j" "cc_consumed_at cap \<noteq> None \<longrightarrow> (\<exists>p\<in>set (approvals s).
      appr_revision_id p = j \<and> appr_actor_type p = CLIENT \<and> dict_get (appr_provenance p) ''idempotency_key'' = PStr key)"
  | (first) c pj act where "\<not> already_accepted cap j s" "record_acceptance E cap r c pj act h key s = (Inr a, t)"
      "row_by co_id i (change_orders s) = Some c" "co_id c = i" "co_row_version c = n" "rev_id r = j" "acceptable c act"
      "rev_canonical_artifact_hash r = h" "proj_current_scope_version_id pj = Some (rev_baseline_version_id r)"
      "pj \<in> set (projects s)" "proj_id pj = co_project_id ord" "key \<noteq> []"
proof -
  note sc = run_session_scope [OF scope]
  have step: "accept_client E st ct i n j h key s =
    (if \<not> (co_id ord = i \<and> cc_revision_id cap = j \<and> rev_canonical_artifact_hash r = h) then (Inl ConflictError, s)
     else if key = [] then (Inl ValidationError, s)
     else (case locked_order cap ord s of (Inr (Some c), _) \<Rightarrow> (case offer_project cap ord s of (Inr (Some pj), _) \<Rightarrow>
         if cc_consumed_at cap \<noteq> None then replay_acceptance E cap r c key s
         else if co_row_version c \<noteq> n then (Inl ConflictError, s)
         else (case send_action (cc_tenant_id cap) (co_id c) (rev_id r) s of (Inr act, _) \<Rightarrow>
           if \<not> acceptable c act \<or> proj_current_scope_version_id pj \<noteq> Some (rev_baseline_version_id r) then (Inl ConflictError, s)
           else (case payment_for_revision (rev_id r) s of
               (Inr (Some p), _) \<Rightarrow> bindE (receipt_credentials E cap r (clock s)) (\<lambda>receipt.
                  ret \<lparr>acc_change_order = c, acc_payment_request = p, acc_receipt = receipt\<rparr>) s
             | (Inr None, _) \<Rightarrow> record_acceptance E cap r c pj act h key s
             | (Inl e, t) \<Rightarrow> (Inl e, t)) | (Inl e, t) \<Rightarrow> (Inl e, t))
         | _ \<Rightarrow> (Inl ConflictError, s)) | _ \<Rightarrow> (Inl ConflictError, s)))"
    by (simp add: accept_client_def run_bindE [of "session_scope E st (Some ct)"] scope run_bind_require run_bind_some_or
        locked_order_def offer_project_def send_action_def payment_for_revision_def run_bindE [of the_time] split: option.split)
  from run have ids: "co_id ord = i" "rev_id r = j" "rev_canonical_artifact_hash r = h" "key \<noteq> []"
    using sc(6) by (auto simp: step split: if_splits)
  from run ids obtain c pj where c: "find (\<lambda>c. co_id c = co_id ord \<and> co_tenant_id c = cc_tenant_id cap) (change_orders s) = Some c"
    and pj: "find (\<lambda>p. proj_id p = co_project_id ord \<and> proj_tenant_id p = cc_tenant_id cap) (projects s) = Some pj"
    by (auto simp: step locked_order_def offer_project_def split: if_splits option.splits)
  from c ids have id: "co_id c = i" by (auto dest: find_SomeD)
  with find_is_row [OF _ c] ok have row: "row_by co_id i (change_orders s) = Some c" "co_id c = i"
    by (simp_all add: offers_ok_def)
  from pj have proj: "pj \<in> set (projects s)" "proj_id pj = co_project_id ord" by (auto dest: find_SomeD)
  let ?found = "find (\<lambda>p. pr_accepted_revision_id p = rev_id r) (payment_requests s)"
  show thesis
  proof (cases "cc_consumed_at cap = None")
    case False
    with run step ids c pj sc(6) have "replay_acceptance E cap r c key s = (Inr a, t)"
      by (simp add: locked_order_def offer_project_def)
    from replay_acceptance_run [OF this] False ids show thesis by (intro again) (simp_all add: already_accepted_def)
  next
    case unused: True
    show thesis
    proof (cases ?found)
      case (Some p)
      with run step ids c pj sc(6) unused have "bindE (receipt_credentials E cap r (clock s)) (\<lambda>receipt.
                  ret \<lparr>acc_change_order = c, acc_payment_request = p, acc_receipt = receipt\<rparr>) s = (Inr a, t)"
        by (auto simp: locked_order_def offer_project_def payment_for_revision_def send_action_def split: if_splits)
      then obtain receipt where rc: "receipt_credentials E cap r (clock s) s = (Inr receipt, t)"
        and a: "acc_payment_request a = p" by (elim bindE_InrE) auto
      from Some have "p \<in> set (payment_requests s)" "pr_accepted_revision_id p = rev_id r" by (auto dest: find_SomeD)
      with a ids unused evolves_run [OF receipt_ledger(1) rc] evolves_run [OF order_frame_receipts rc] show thesis
        by (intro again) (auto simp: already_accepted_def)
    next
      case None
      then have "\<not> already_accepted cap j s" using ids unused by (auto simp: already_accepted_def find_None_iff)
      moreover obtain act where "acceptable c act" "co_row_version c = n"
        "proj_current_scope_version_id pj = Some (rev_baseline_version_id r)" "record_acceptance E cap r c pj act h key s = (Inr a, t)"
        using run step ids c pj sc(6) unused None
        by (auto simp: locked_order_def offer_project_def payment_for_revision_def send_action_def split: if_splits)
      ultimately show thesis using row ids proj by (intro first)
    qed
  qed
qed

section \<open>Properties of the acceptance\<close>

text \<open>C15: The first acceptance refines the ledger. When an acceptance over a valid session returns and
the offer was not accepted before, then the order of the session was at the expected version,
carried exactly the accepted content, and is now CLIENT_APPROVED one version later; and the
ledger grew by exactly one entry per book: the client's approval of that content, a scope
version on top of the project's current one, the amendment, a payment request and a revenue fact
over the revision's own amounts.\<close>

theorem acceptance_refines_ledger:
  assumes "offers_ok s" and "session_scope E st (Some ct) s = (Inr (row, cap, r, ord), s)"
    and "\<not> already_accepted cap j s" and "accept_client E st ct i n j h key s = (Inr a, t)"
  shows "\<exists>c pj prev version.
    row_by co_id i (change_orders s) = Some c \<and> co_row_version c = n \<and>
    co_status c \<in> {AWAITING_CLIENT_APPROVAL, SEND_PENDING} \<and> rev_id r = j \<and> rev_canonical_artifact_hash r = h \<and>
    row_by co_id i (change_orders t) = Some (acc_change_order a) \<and>
    co_status (acc_change_order a) = CLIENT_APPROVED \<and> co_row_version (acc_change_order a) = n + 1 \<and>
    pj \<in> set (projects s) \<and> current_scope pj s = Some prev \<and>
    next_scope_version (proj_id pj) (cc_tenant_id cap) prev s = (Inr version, s) \<and>
    ledger_of t = enter_acceptance r pj version (ledger_of s)"
  using assms(1,2,4)
proof (cases rule: accept_client_cases)
  case again
  with assms(3) show ?thesis by blast
next
  case (first c pj act)
  note record_acceptance_ledger [OF first(2) first(8) [symmetric] first(9)]
  moreover note record_acceptance_order [OF first(2)]
  moreover have "co_status c \<in> {AWAITING_CLIENT_APPROVAL, SEND_PENDING}" using first(7) by (auto simp: acceptable_def)
  ultimately show ?thesis using first by (intro exI [of _ c] exI [of _ pj]) auto
qed

text \<open>A database for the witnesses: one offer, approved by the freelancer and sent, that the client has opened.\<close>

definition offer_env :: env where
  "offer_env = demo_env\<lparr>token_urlsafe := (\<lambda>n. ''new'' @ replicate n (CHR ''x''))\<rparr>"

definition demo_revision :: proposal_revision where
  "demo_revision = \<lparr>rev_id = 41, rev_tenant_id = 7, rev_project_id = 3, rev_change_order_id = 40, rev_revision_number = 1,
     rev_baseline_version_id = 4, rev_request_version = 1, rev_preference_version_id = 6, rev_total_minor = 50000,
     rev_tax_minor = 9000, rev_currency = ''INR'', rev_title = ''T'', rev_requested_change = ''R'', rev_deliverables = [PStr ''D''],
     rev_exclusions = [], rev_assumptions = [], rev_client_explanation = ''E'', rev_recipient_contact_id = 9,
     rev_recipient_email = ''c@x'', rev_subject = ''S'', rev_plain_text_body = ''B'', rev_html_body = ''H'',
     rev_attachment_hashes = [], rev_terms_json = [(''total_minor'', PInt 50000)], rev_evidence_digest = ''e'',
     rev_evidence_reference_ids = [], rev_canonical_artifact_ref = [], rev_canonical_artifact_hash = ''hash'',
     rev_approval_url = ''/c'', rev_token_ciphertext = ''sealed:tok'', rev_status = CURRENT, rev_created_at = 0\<rparr>"

definition demo_order :: change_order where
  "demo_order = \<lparr>co_id = 40, co_tenant_id = 7, co_project_id = 3, co_request_id = 8, co_number = 1,
     co_current_revision_id = Some 41, co_status = AWAITING_CLIENT_APPROVAL, co_row_version = 4, co_created_at = 0,
     co_updated_at = 0\<rparr>"

definition demo_capability :: client_capability where
  "demo_capability = \<lparr>cc_id = 42, cc_tenant_id = 7, cc_project_id = 3, cc_change_order_id = 40, cc_revision_id = 41,
     cc_client_id = 5, cc_token_hash = ''t42'', cc_content_hash = ''hash'', cc_purpose = REVIEW, cc_activated_at = Some 0,
     cc_expires_at = Some (days 7), cc_consumed_at = None, cc_revoked_at = None, cc_created_at = 0\<rparr>"

definition demo_approval :: approval where
  "demo_approval = \<lparr>appr_id = 43, appr_tenant_id = 7, appr_project_id = 3, appr_change_order_id = 40, appr_revision_id = 41,
     appr_actor_type = FREELANCER, appr_actor_identifier = ''owner'', appr_content_hash = ''hash'', appr_decision = APPROVED,
     appr_provenance = [], appr_comment = None, appr_created_at = 0\<rparr>"

definition demo_offer :: db where
  "demo_offer = empty_db\<lparr>next_uuid := 60,
     projects := [\<lparr>proj_id = 3, proj_tenant_id = 7, proj_client_id = 5, proj_name = ''P'', proj_status = PROJECT_ACTIVE,
       proj_currency = ''INR'', proj_base_contract_value_minor = 0, proj_current_scope_version_id = Some 4,
       proj_preference_version_id = 6, proj_timezone = ''UTC'', proj_calendar_version_id = None, proj_target_date = None,
       proj_created_at = 0, proj_updated_at = 0, proj_row_version = 1\<rparr>],
     scope_versions := [\<lparr>sv_id = 4, sv_tenant_id = 7, sv_project_id = 3, sv_version = 1, sv_parent_version_id = None,
       sv_source_revision_id = None, sv_confirmation_actor = ''owner'', sv_content_hash = ''h4'', sv_confirmed_at = 0,
       sv_created_at = 0\<rparr>],
     request_records := [\<lparr>req_id = 8, req_tenant_id = 7, req_project_id = 3, req_summary = ''r'', req_status = PROPOSAL_OPEN,
       req_request_version = 1, req_merged_into_id = None, req_rejection_reason = None, req_row_version = 1,
       req_created_at = 0, req_updated_at = 0\<rparr>],
     change_orders := [demo_order], proposal_revisions := [demo_revision], approvals := [demo_approval],
     client_capabilities := [demo_capability],
     client_sessions := [\<lparr>cs_id = 44, cs_capability_id = 42, cs_session_hash = ''ses'', cs_csrf_hash = ''csr'',
       cs_purpose = REVIEW, cs_expires_at = hours 24, cs_revoked_at = None, cs_created_at = 0\<rparr>]\<rparr>"

text \<open>The client accepts the offer.\<close>

definition demo_accept :: "string \<Rightarrow> acceptance_result act" where
  "demo_accept key = accept_client offer_env ''ses'' ''csr'' 40 4 41 ''hash'' key"


text \<open>Running the model on the demo database: each step is evaluated before the rest of the program.\<close>

lemma bindE_weak: "s = t \<Longrightarrow> bindE m f s = bindE m f t"
  by simp

lemma canonical_plain: "plain v \<Longrightarrow> canonical_sha256 h v = Inr (h (dumps v))"
  by (simp add: canonical_sha256_def canonical_json_def normalize_plain_id)

lemmas demo_offer_rows = demo_offer_def empty_db_def demo_order_def demo_revision_def demo_capability_def demo_approval_def
  offer_env_def demo_env_def hours_def days_def

lemmas row_updates = put_order_def put_request_def put_capability_def put_project_def put_payment_def put_client_session_def
  put_action_def update_live_capabilities_def live_capability_def

lemmas row_inserts = run_add_row add_approval_def add_capability_def add_client_session_def add_scope_version_def
  add_scope_version_item_def add_amendment_def add_payment_request_def add_revenue_fact_def add_link_def
  add_external_action_def add_job_def add_outbox_event_def add_audit_event_def
  payment_request_check_def approved_revenue_fact_check_def payment_link_attempt_check_def job_check_def max_minor_def

lemma demo_settings: "lower (strip ''test'') = ''test''" "strip ''acc_1'' = ''acc_1''"
  by code_simp+

lemmas program_runs = run_bindE run_digest_of canonical_plain row_updates row_inserts

lemmas link_parts = prepare_payment_link_def find_payment_def active_link_def links_of_def create_link_attempt_def
  latest_link_def accepted_revision_def environment_setting_def account_setting_def TEST_ENVIRONMENT_def
  prepare_external_action_def link_of_attempt_def link_payload_def enqueue_now_def enqueue_job_def DEFAULT_MAX_ATTEMPTS_def
  new_outbox_event_def get_payment_def action_for_def demo_settings

lemmas accept_parts = accept_client_def session_scope_def offer_project_def locked_order_def send_action_def acceptable_def
  payment_for_revision_def record_acceptance_def confirm_send_def amend_scope_def next_scope_version_def
  copy_scope_item_def open_payment_def receipt_credentials_def issue_session_def order_row_def

lemma demo_accept_returns: "\<exists>a t. demo_accept ''k'' demo_offer = (Inr a, t)"
  by (simp add: demo_accept_def demo_offer_rows program_runs accept_parts link_parts del: dumps.simps cong: bindE_weak if_weak_cong)

lemma demo_offer_ok: "offers_ok demo_offer"
  by (simp add: offers_ok_def demo_offer_rows bound_to_def approved_by_def offered_def)

lemma demo_session:
  "session_scope offer_env ''ses'' (Some ''csr'') demo_offer = (Inr (hd (client_sessions demo_offer), demo_capability,
     demo_revision, demo_order), demo_offer)"
  by (simp add: session_scope_def demo_offer_rows program_runs cong: bindE_weak)

theorem acceptance_refines_ledger_witness:
  "\<exists>a t pj version. demo_accept ''k'' demo_offer = (Inr a, t) \<and> co_status (acc_change_order a) = CLIENT_APPROVED \<and>
     ledger_of t = enter_acceptance demo_revision pj version (ledger_of demo_offer)"
proof -
  obtain a t where run: "accept_client offer_env ''ses'' ''csr'' 40 4 41 ''hash'' ''k'' demo_offer = (Inr a, t)"
    using demo_accept_returns by (auto simp: demo_accept_def)
  have "\<not> already_accepted demo_capability 41 demo_offer" by (simp add: already_accepted_def demo_offer_rows)
  from acceptance_refines_ledger [OF demo_offer_ok demo_session this run] run show ?thesis
    unfolding demo_accept_def by blast
qed

text \<open>C16: An offer is accepted once. Accepting again over a valid session, once the capability was
consumed or the revision has its payment request, never changes the ledger or an order: if it
returns, it returns the payment request of that revision, and a consumed capability only answers
the idempotency key its acceptance was recorded with.\<close>

theorem acceptance_once:
  assumes "offers_ok s" and "session_scope E st (Some ct) s = (Inr (row, cap, r, ord), s)"
    and "already_accepted cap j s" and "accept_client E st ct i n j h key s = (Inr a, t)"
  shows "ledger_of t = ledger_of s \<and> change_orders t = change_orders s \<and>
    pr_accepted_revision_id (acc_payment_request a) = j \<and> (cc_consumed_at cap \<noteq> None \<longrightarrow> (\<exists>p\<in>set (approvals s).
      appr_revision_id p = j \<and> appr_actor_type p = CLIENT \<and> dict_get (appr_provenance p) ''idempotency_key'' = PStr key))"
  using assms(1,2,4)
proof (cases rule: accept_client_cases)
  case again
  then show ?thesis by simp
next
  case first
  with assms(3) show ?thesis by blast
qed

section \<open>Properties of whole histories\<close>

text \<open>C14: Nothing is offered without approval. After any operations on offers, in any order and each in
its transaction, an order that is waiting to be sent, with the client, or accepted carries an
approval by the freelancer of exactly the content of its current revision (the artifact hash the
approval recorded is the hash of that revision), and an accepted order one by the client too.\<close>

theorem offers_need_approval:
  assumes "offers_ok s" and "(offer_step E)\<^sup>*\<^sup>* s t" and "c \<in> set (change_orders t)"
    and "co_status c \<in> {SEND_PENDING, AWAITING_CLIENT_APPROVAL, CLIENT_APPROVED}"
    and "actor = FREELANCER \<or> actor = CLIENT \<and> co_status c = CLIENT_APPROVED"
  shows "\<exists>a\<in>set (approvals t). \<exists>r\<in>set (proposal_revisions t).
    appr_actor_type a = actor \<and> appr_decision a = APPROVED \<and> co_current_revision_id c = Some (rev_id r) \<and>
    appr_revision_id a = rev_id r \<and> appr_content_hash a = rev_canonical_artifact_hash r"
proof -
  from offer_steps_move [OF assms(2)] assms(1) have ok: "offers_ok t" by (simp add: offers_move_def)
  with assms(3-5) have "approved_by actor c (approvals t)" by (auto simp: offers_ok_def offered_def)
  then obtain a where a: "a \<in> set (approvals t)" "appr_actor_type a = actor" "appr_decision a = APPROVED"
    "co_current_revision_id c = Some (appr_revision_id a)" by (auto simp: approved_by_def)
  with ok have "bound_to (proposal_revisions t) a" by (auto simp: offers_ok_def)
  then obtain r where "r \<in> set (proposal_revisions t)" "rev_id r = appr_revision_id a"
    "rev_canonical_artifact_hash r = appr_content_hash a" by (auto simp: bound_to_def)
  with a show ?thesis by (intro bexI [of _ a] bexI [of _ r]) simp_all
qed

text \<open>C17: Acceptance and withdrawal are final. Whatever operations on offers follow, an accepted order
stays accepted and a withdrawn one withdrawn, with the same current revision, number, request and
tenant, and every revision keeps its content: only the status of a revision ever changes.\<close>

theorem settled_order_final:
  assumes "offers_ok s" and "(offer_step E)\<^sup>*\<^sup>* s t" and "row_by co_id i (change_orders s) = Some c"
    and "co_status c \<in> {CLIENT_APPROVED, WITHDRAWN}" and "row_by rev_id j (proposal_revisions s) = Some r"
  shows "\<exists>d q. row_by co_id i (change_orders t) = Some d \<and> co_status d = co_status c \<and>
    co_current_revision_id d = co_current_revision_id c \<and> order_terms d = order_terms c \<and>
    row_by rev_id j (proposal_revisions t) = Some q \<and> q\<lparr>rev_status := rev_status r\<rparr> = r"
proof -
  from offer_steps_move [OF assms(2)] assms(1) have ev: "offers_evolve s t" by (simp add: offers_move_def)
  then obtain d q where "row_by co_id i (change_orders t) = Some d" "order_moves c d"
    "row_by rev_id j (proposal_revisions t) = Some q" "revision_moves r q"
    using table_evolves_row assms(3,5) unfolding offers_evolve_def by metis
  moreover have "q\<lparr>rev_status := rev_status r\<rparr> = r" if "revision_moves r q"
    using arg_cong [OF that [unfolded revision_moves_def revision_content_def], of "rev_status_update (\<lambda>_. rev_status r)"] by simp
  ultimately show ?thesis using assms(4) by (auto simp: order_moves_def)
qed

text \<open>C18: A revoked link is dead. Once a capability was revoked (by a newer revision, a decision, a
withdrawal or its expiry), then after any operations on offers its token is refused and
changes nothing, and so is every acceptance, decision and reading over a session opened with it.\<close>

theorem revoked_link_dead:
  assumes "offers_ok s" and "(offer_step E)\<^sup>*\<^sup>* s t"
    and "find (\<lambda>c. cc_token_hash c = sha256 E token) (client_capabilities s) = Some k"
    and "row_by cc_id (cc_id k) (client_capabilities s) = Some k" and "cc_revoked_at k \<noteq> None"
    and "find (\<lambda>r. cs_session_hash r = sha256 E st) (client_sessions t) = Some row" and "cs_capability_id row = cc_id k"
  shows "exchange_capability E token t = (Inl ValidationError, t) \<and>
    accept_client E st ct i n j h key t = (Inl ValidationError, t) \<and>
    client_decide E st ct i n j h decision comment t = (Inl ValidationError, t) \<and>
    read_client_review E st t = (Inl ValidationError, t)"
proof -
  from offer_steps_move [OF assms(2)] assms(1) have "offers_evolve s t" by (simp add: offers_move_def)
  then have ev: "table_evolves cc_id capability_moves (client_capabilities s) (client_capabilities t)"
    by (simp add: offers_evolve_def)
  from table_evolves_find [OF ev _ assms(3)] obtain q where q: "find (\<lambda>c. cc_token_hash c = sha256 E token) (client_capabilities t) = Some q"
    "capability_moves k q" by (auto simp: capability_moves_def capability_terms_def)
  with assms(5) obtain u where "cc_revoked_at q = Some u" by (auto simp: capability_moves_def)
  with q(1) have exchange: "exchange_capability E token t = (Inl ValidationError, t)"
    by (simp add: exchange_capability_def run_bind_require run_bindE [of the_time])
  from table_evolves_row [OF ev assms(4)] obtain p where p: "row_by cc_id (cc_id k) (client_capabilities t) = Some p"
    "capability_moves k p" by blast
  with assms(5) obtain u where "cc_revoked_at p = Some u" by (auto simp: capability_moves_def)
  with p(1) assms(6,7) have dead: "session_scope E st csrf t = (Inl ValidationError, t)" for csrf
    by (simp add: session_scope_def run_bind_require run_bindE [of the_time])
  have "accept_client E st ct i n j h key t = (Inl ValidationError, t)"
    by (simp add: accept_client_def run_bindE dead)
  moreover have "client_decide E st ct i n j h decision comment t = (Inl ValidationError, t)"
    by (cases "client_decision decision") (simp_all add: client_decide_def run_bindE dead split: prod.split)
  moreover have "read_client_review E st t = (Inl ValidationError, t)"
    by (simp add: read_client_review_def run_bindE dead)
  ultimately show ?thesis using exchange by blast
qed

lemma move_order_run:
  assumes "move_order i target s = (Inr d, t)"
  shows "row_by co_id i (change_orders t) = Some d \<and> co_status d = target"
  using assms
  by (auto simp: move_order_def put_order_def order_row_def row_by_upd_row split: option.splits)

lemma withdraw_run:
  assumes "withdraw_change_order E ctx i reason s = (Inr c, t)"
  shows "row_by co_id i (change_orders t) = Some c \<and> co_status c = WITHDRAWN"
  using assms unfolding withdraw_change_order_def
proof (elim bindE_InrE, goal_cases)
  case (1 order s1 u1 s2 action s3 u2 s4 updated s5 u3 s6 u4 s7 now s8 u5 s9 u6 s10)
  have id: "co_id order = i" using 1(1) by (auto simp: find_order_def dest: find_SomeD)
  have "change_orders s9 = change_orders s8"
    using 1(9) by (auto simp: revoke_capabilities_def update_live_capabilities_def)
  then have "change_orders s10 = change_orders s5"
    using evolves_run [OF same_orders [OF offer_frame_parts(8)] 1(6)] evolves_run [OF same_orders [OF offer_frame_parts(7)] 1(7)]
      evolves_run [OF same_orders [OF offer_frame_steps(3)] 1(8)] evolves_run [OF same_orders [OF offer_frame_parts(6)] 1(10)]
    by simp
  with move_order_run [OF 1(5)] 1(11) id show ?case by simp
qed

text \<open>C19: A withdrawn order is never sent. Once a withdrawal returned, and after any operations on offers
that follow, beginning the Gmail send of an action of that order is refused with ConflictError
and changes nothing.\<close>

theorem withdrawn_never_sent:
  assumes "offers_ok s" and "withdraw_change_order E ctx i reason s = (Inr c, s1)" and "(offer_step E)\<^sup>*\<^sup>* s1 t"
    and "row_by act_id a (external_actions t) = Some action" and "gmail_send action"
    and "order_of_payload (act_approved_payload action) t = (Inr i, t)"
  shows "begin_gmail_send a t = (Inl ConflictError, t)"
proof -
  from evolvesD [OF withdraw_moves, of s E ctx i reason] assms(1,2) have "offers_ok s1" by (simp add: offers_move_def)
  with offer_steps_move [OF assms(3)] have ok: "offers_ok t" and ev: "offers_evolve s1 t" by (simp_all add: offers_move_def)
  from withdraw_run [OF assms(2)] table_evolves_row ev obtain d where d: "row_by co_id i (change_orders t) = Some d"
    "co_status d = WITHDRAWN" unfolding offers_evolve_def order_moves_def by fastforce
  have "co_status e = WITHDRAWN"
    if e: "find (\<lambda>c. co_id c = i \<and> co_tenant_id c = act_tenant_id action) (change_orders t) = Some e" for e
  proof -
    from e have "co_id e = i" by (auto dest: find_SomeD)
    with find_is_row [OF _ e] ok d show ?thesis by (simp add: offers_ok_def)
  qed
  then have "\<not> (case find (\<lambda>c. co_id c = i \<and> co_tenant_id c = act_tenant_id action) (change_orders t) of
      None \<Rightarrow> False | Some c \<Rightarrow> co_status c = SEND_PENDING)" by (auto split: option.splits)
  with assms(4-6) show ?thesis
    by (simp add: begin_gmail_send_def get_external_action_def run_bindE [of "catchE _ _"] run_catchE run_bind_require)
qed

section \<open>The review link\<close>

lemma revision_of_run:
  assumes "revision_of E c pj rq ct art h token prev s = (Inr r, t)"
  shows "rev_token_ciphertext r = aes_protect E token \<and> rev_canonical_artifact_hash r = h \<and> rev_change_order_id r = co_id c"
  using assms unfolding revision_of_def
  by (elim bindE_InrE) (auto simp: protect_def split: if_splits)

lemma new_revision_run:
  assumes "new_revision E c pj rq ct draft s = (Inr (r, token), t)"
  shows "rev_token_ciphertext r = aes_protect E token \<and> (\<exists>k. client_capabilities t \<noteq> [] \<and> last (client_capabilities t) = k \<and>
    cc_token_hash k = sha256 E token \<and> cc_revision_id k = rev_id r \<and> cc_change_order_id k = co_id c \<and>
    cc_content_hash k = rev_canonical_artifact_hash r \<and> cc_purpose k = REVIEW \<and> cc_activated_at k = None \<and>
    cc_revoked_at k = None)"
  using assms unfolding new_revision_def
proof (elim bindE_InrE, goal_cases)
  case (1 base s1 tok s2 art s3 h s4 prev s5 rv s6 u1 s7 u2 s8 i s9 now s10 u3 s11)
  then have "token = tok" "r = rv" "t = s11" by auto
  with 1(11) revision_of_run [OF 1(6)] show ?case
    by (auto simp: add_capability_def run_add_row split: if_splits)
qed

text \<open>\<open>str(url).rstrip("/")\<close> with the default of the settings.\<close>

definition review_base :: "env \<Rightarrow> string" where
  "review_base E = rev (dropWhile (\<lambda>c. c = CHR ''/'') (rev (if client_review_base_url E = [] then ''http://localhost:3000''
     else client_review_base_url E)))"

text \<open>The review link opens its offer. When the sealing of tokens can be undone, the link of a new
revision carries the very token whose hash the database holds: the link is the base address,
\<open>/c#t=\<close> and the token, and the newest capability is the unrevoked, not yet active REVIEW
capability of that revision with that hash and the revision's content.\<close>

theorem review_link_roundtrip:
  assumes "new_revision E c pj rq ct draft s = (Inr (r, token), t)"
    and "aes_unprotect E (aes_protect E token) = Inr token"
  shows "materialize_client_approval_url E r t = (Inr (review_base E @ ''/c#t='' @ token), t) \<and>
    (\<exists>k. client_capabilities t \<noteq> [] \<and> last (client_capabilities t) = k \<and> cc_token_hash k = sha256 E token \<and>
       cc_revision_id k = rev_id r \<and> cc_content_hash k = rev_canonical_artifact_hash r \<and> cc_purpose k = REVIEW \<and>
       cc_activated_at k = None \<and> cc_revoked_at k = None)"
proof -
  from new_revision_run [OF assms(1)] have "rev_token_ciphertext r = aes_protect E token" by blast
  with assms(2) have "materialize_client_approval_url E r t = (Inr (review_base E @ ''/c#t='' @ token), t)"
    by (simp add: materialize_client_approval_url_def review_url_def unprotect_def review_base_def)
  with new_revision_run [OF assms(1)] show ?thesis by blast
qed

section \<open>Runs of the demo offer\<close>

text \<open>The offer after its acceptance, and after its link was revoked.\<close>

definition demo_consumed :: db where
  "demo_consumed = demo_offer\<lparr>
     change_orders := [demo_order\<lparr>co_status := CLIENT_APPROVED, co_row_version := 5\<rparr>],
     approvals := [demo_approval, demo_approval\<lparr>appr_id := 45, appr_actor_type := CLIENT,
        appr_provenance := [(''idempotency_key'', PStr ''k'')]\<rparr>],
     client_capabilities := [demo_capability\<lparr>cc_consumed_at := Some 0\<rparr>],
     payment_requests := [demo_request\<lparr>pr_accepted_revision_id := 41\<rparr>]\<rparr>"

definition demo_revoked :: db where
  "demo_revoked = demo_offer\<lparr>client_capabilities := [demo_capability\<lparr>cc_revoked_at := Some 0\<rparr>]\<rparr>"

lemma demo_states_ok: "offers_ok demo_consumed" "offers_ok demo_revoked"
  by (simp_all add: offers_ok_def demo_consumed_def demo_revoked_def demo_offer_rows demo_request_def bound_to_def approved_by_def offered_def)

lemma demo_consumed_session:
  "session_scope offer_env ''ses'' (Some ''csr'') demo_consumed = (Inr (hd (client_sessions demo_offer),
     demo_capability\<lparr>cc_consumed_at := Some 0\<rparr>, demo_revision, demo_order\<lparr>co_status := CLIENT_APPROVED, co_row_version := 5\<rparr>),
     demo_consumed)"
  by (simp add: session_scope_def demo_consumed_def demo_offer_rows program_runs cong: bindE_weak)

lemma demo_replay: "\<exists>a t. demo_accept ''k'' demo_consumed = (Inr a, t)"
  by (simp add: demo_accept_def demo_consumed_def demo_request_def demo_offer_rows program_runs accept_parts replay_acceptance_def prior_acceptance_def
      receipt_credentials_for_existing_def receipt_capability_def dict_get_def cong: bindE_weak if_weak_cong)

theorem acceptance_once_witness:
  "\<exists>a t. demo_accept ''k'' demo_consumed = (Inr a, t) \<and> ledger_of t = ledger_of demo_consumed \<and>
     pr_accepted_revision_id (acc_payment_request a) = 41"
proof -
  obtain a t where run: "accept_client offer_env ''ses'' ''csr'' 40 4 41 ''hash'' ''k'' demo_consumed = (Inr a, t)"
    using demo_replay by (auto simp: demo_accept_def)
  have "already_accepted (demo_capability\<lparr>cc_consumed_at := Some 0\<rparr>) 41 demo_consumed" by (simp add: already_accepted_def)
  from acceptance_once [OF demo_states_ok(1) demo_consumed_session this run] run show ?thesis
    unfolding demo_accept_def by blast
qed

text \<open>A withdrawal that is refused leaves the database as it was; a session refresh changes no offer.\<close>

lemma demo_refresh: "(offer_step E)\<^sup>*\<^sup>* s (snd (atomically (refresh_client_session E st) s))"
  by (rule r_into_rtranclp) (rule offer_step.refreshed)

lemma refresh_same: "change_orders (snd (atomically (refresh_client_session E st) s)) = change_orders s"
proof -
  have "evolves offers_same (refresh_client_session E st)"
    unfolding refresh_client_session_def by (intro offer_steps offer_frame_parts)
  from evolvesD [OF offer_frame.evolves_atomically [OF this], of s] show ?thesis
    by (simp add: offers_same_rows)
qed

theorem offers_need_approval_witness:
  "\<exists>a\<in>set (approvals (snd (atomically (refresh_client_session offer_env ''ses'') demo_offer))).
     appr_actor_type a = FREELANCER \<and> appr_decision a = APPROVED \<and> appr_content_hash a = ''hash''"
proof -
  let ?t = "snd (atomically (refresh_client_session offer_env ''ses'') demo_offer)"
  have order: "demo_order \<in> set (change_orders ?t)" by (simp add: refresh_same demo_offer_def)
  have status: "co_status demo_order \<in> {SEND_PENDING, AWAITING_CLIENT_APPROVAL, CLIENT_APPROVED}"
    by (simp add: demo_order_def)
  from offers_need_approval [OF demo_offer_ok demo_refresh order status, of FREELANCER] obtain a r where
    "a \<in> set (approvals ?t)" "r \<in> set (proposal_revisions ?t)" "appr_actor_type a = FREELANCER" "appr_decision a = APPROVED"
    "appr_content_hash a = rev_canonical_artifact_hash r" by blast
  moreover have "proposal_revisions ?t = [demo_revision]"
  proof -
    have "evolves offers_same (refresh_client_session offer_env ''ses'')"
      unfolding refresh_client_session_def by (intro offer_steps offer_frame_parts)
    from evolvesD [OF offer_frame.evolves_atomically [OF this], of demo_offer] show ?thesis
      by (simp add: offers_same_rows demo_offer_def)
  qed
  ultimately show ?thesis by (auto simp: demo_revision_def)
qed

theorem settled_order_final_witness:
  "\<exists>d. row_by co_id 40 (change_orders (snd (atomically (withdraw_change_order offer_env demo_ctx 40 None) demo_consumed))) = Some d \<and>
     co_status d = CLIENT_APPROVED"
proof -
  let ?t = "snd (atomically (withdraw_change_order offer_env demo_ctx 40 None) demo_consumed)"
  have steps: "(offer_step offer_env)\<^sup>*\<^sup>* demo_consumed ?t" by (rule r_into_rtranclp) (rule offer_step.withdrawn)
  have rows: "row_by co_id 40 (change_orders demo_consumed) = Some (demo_order\<lparr>co_status := CLIENT_APPROVED, co_row_version := 5\<rparr>)"
    "row_by rev_id 41 (proposal_revisions demo_consumed) = Some demo_revision"
    by (simp_all add: demo_consumed_def demo_offer_rows)
  from settled_order_final [OF demo_states_ok(1) steps rows(1) _ rows(2)] show ?thesis by auto
qed

theorem revoked_link_dead_witness:
  "accept_client offer_env ''ses'' ''csr'' 40 4 41 ''hash'' ''k'' demo_revoked = (Inl ValidationError, demo_revoked) \<and>
   exchange_capability offer_env ''t42'' demo_revoked = (Inl ValidationError, demo_revoked)"
proof -
  let ?k = "demo_capability\<lparr>cc_revoked_at := Some 0\<rparr>"
  have "find (\<lambda>c. cc_token_hash c = sha256 offer_env ''t42'') (client_capabilities demo_revoked) = Some ?k"
    "row_by cc_id (cc_id ?k) (client_capabilities demo_revoked) = Some ?k" "cc_revoked_at ?k \<noteq> None"
    "find (\<lambda>r. cs_session_hash r = sha256 offer_env ''ses'') (client_sessions demo_revoked) = Some (hd (client_sessions demo_offer))"
    "cs_capability_id (hd (client_sessions demo_offer)) = cc_id ?k"
    by (simp_all add: demo_revoked_def demo_offer_rows)
  from revoked_link_dead [OF demo_states_ok(2) rtranclp.rtrancl_refl this] show ?thesis by blast
qed

lemma demo_withdraw: "\<exists>c t. withdraw_change_order offer_env demo_ctx 40 None demo_offer = (Inr c, t)"
  by (simp add: withdraw_change_order_def find_order_def latest_send_action_def in_flight_def move_order_def settle_request_def
      cancel_pending_send_def revoke_capabilities_def audit_change_order_def order_row_def demo_ctx_def demo_offer_rows program_runs
      cong: bindE_weak if_weak_cong)

definition demo_send :: external_action where
  "demo_send = \<lparr>act_id = 50, act_tenant_id = 7, act_project_id = Some 3, act_action_key = send_action_key 40 41,
     act_provider = ''gmail'', act_operation = ''send'', act_state = READY,
     act_approved_payload = send_payload demo_order demo_revision, act_payload_digest = ''d'', act_idempotency_key = ''i'',
     act_receipt_ref = None, act_uncertainty_reason = None, act_created_at = 0, act_updated_at = 0\<rparr>"

lemma demo_uuid: "uuid_of_str (uuid_str 40) = Some 40"
  by code_simp

theorem withdrawn_never_sent_witness:
  "\<exists>c s t. withdraw_change_order offer_env demo_ctx 40 None demo_offer = (Inr c, s) \<and>
     t = s\<lparr>external_actions := [demo_send]\<rparr> \<and> begin_gmail_send 50 t = (Inl ConflictError, t)"
proof -
  obtain c s where run: "withdraw_change_order offer_env demo_ctx 40 None demo_offer = (Inr c, s)" using demo_withdraw by blast
  let ?t = "s\<lparr>external_actions := [demo_send]\<rparr>"
  have "(offer_step offer_env)\<^sup>*\<^sup>* s ?t"
    by (rule r_into_rtranclp) (rule offer_step.elsewhere, simp add: offer_rows_def)
  moreover have "row_by act_id 50 (external_actions ?t) = Some demo_send" "gmail_send demo_send"
    by (simp_all add: demo_send_def gmail_send_def)
  moreover have "order_of_payload (act_approved_payload demo_send) ?t = (Inr 40, ?t)"
    by (simp add: order_of_payload_def dict_index_def demo_send_def send_payload_def demo_order_def demo_uuid)
  ultimately show ?thesis using withdrawn_never_sent [OF demo_offer_ok run] run by blast
qed

definition demo_draft :: "(string \<times> pyval) list" where
  "demo_draft = [(''title'', PStr ''T''), (''requested_change'', PStr ''R''), (''deliverables'', PList [PStr ''D'']),
     (''client_explanation'', PStr ''E''), (''subject'', PStr ''S''), (''plain_text_body'', PStr ''B''),
     (''html_body'', PStr ''H''), (''recipient_email'', PStr ''c@x''), (''evidence_reference_ids'', PList [PStr ''e'']),
     (''terms'', PDict [(''total_minor'', PInt 50000), (''preference_version_id'', PStr (uuid_str 40))])]"

definition demo_revise :: "(proposal_revision \<times> string) act" where
  "demo_revise = new_revision offer_env demo_order (hd (projects demo_offer)) (hd (request_records demo_offer))
     \<lparr>contact_id = 9, contact_tenant_id = 7, contact_client_id = 5, contact_normalized_email = ''c@x'',
      contact_display_name = ''C'', contact_role = None, contact_created_at = 0\<rparr> demo_draft"

lemmas revision_parts = new_revision_def proposal_payload_def artifact_dict_def supersede_def current_revision_def revision_of_def
  dict_index_def of_result_def protect_def add_revision_def put_revision_def proposal_revision_check_def required_content_def
  dict_get_def dict_get_default_def

lemma demo_revise_returns: "\<exists>r t. demo_revise demo_offer = (Inr (r, ''new''), t)"
  by (simp add: demo_revise_def demo_draft_def demo_offer_rows demo_uuid program_runs revision_parts del: dumps.simps
      cong: bindE_weak if_weak_cong)

theorem review_link_roundtrip_witness:
  "\<exists>r t. demo_revise demo_offer = (Inr (r, ''new''), t) \<and>
     materialize_client_approval_url offer_env r t = (Inr (review_base offer_env @ ''/c#t=new''), t)"
proof -
  obtain r t where run: "demo_revise demo_offer = (Inr (r, ''new''), t)" using demo_revise_returns by blast
  have "aes_unprotect offer_env (aes_protect offer_env ''new'') = Inr ''new''" by (simp add: offer_env_def demo_env_def)
  from review_link_roundtrip [OF run [unfolded demo_revise_def] this] run show ?thesis by auto
qed

section \<open>A superseded revision can be sent\<close>

lemma first_dispatch:
  assumes "row_by act_id i (external_actions s) = Some a" and "act_state a = READY"
    and "attempts_of i (action_attempts s) = []" and "\<forall>q\<in>set (action_attempts s). att_id q \<noteq> next_uuid s"
  shows "\<exists>x t. begin_action_dispatch i [] s = (Inr x, t) \<and>
    map_option act_state (row_by act_id i (external_actions t)) = Some DISPATCHING"
proof -
  have id: "act_id a = i" using assms(1) by (auto dest: row_by_SomeD)
  have none: "\<forall>q\<in>set (action_attempts s). att_action_id q \<noteq> i"
    using assms(3) by (simp add: attempts_of_def filter_empty_conv)
  show ?thesis
    using assms id none
    by (simp add: begin_action_dispatch_def get_external_action_def transition_action_def last_attempt_def run_bindE put_action_def
        add_action_attempt_def run_add_row action_attempt_check_def list_ex_iff row_by_upd_row DEFAULT_MAX_ATTEMPTS_def
        cong: bindE_weak)
       (use assms(4) none in fastforce)
qed

text \<open>C33: The send does not look at the revision. An action that carries a superseded revision of an order
waiting to be sent is dispatched all the same: beginning its send succeeds and returns the old
content, although the order's current revision is another one (the freelancer edited the offer
and approved the edit before the first send ran).\<close>

theorem superseded_revision_sent:
  assumes "row_by act_id i (external_actions s) = Some a" and "gmail_send a" and "act_state a = READY"
    and "attempts_of i (action_attempts s) = []" and "\<forall>q\<in>set (action_attempts s). att_id q \<noteq> next_uuid s"
    and "order_of_payload (act_approved_payload a) s = (Inr (co_id c), s)"
    and "find (\<lambda>d. co_id d = co_id c \<and> co_tenant_id d = act_tenant_id a) (change_orders s) = Some c"
    and "co_status c = SEND_PENDING" and "dict_get (act_approved_payload a) ''revision_id'' = PStr (uuid_str old)"
    and "co_current_revision_id c \<noteq> Some old"
  shows "\<exists>t. begin_gmail_send i s = (Inr (act_approved_payload a), t) \<and>
    map_option act_state (row_by act_id i (external_actions t)) = Some DISPATCHING \<and>
    co_current_revision_id c \<noteq> Some old"
proof -
  from first_dispatch [OF assms(1,3-5)] obtain x t where "begin_action_dispatch i [] s = (Inr x, t)"
    "map_option act_state (row_by act_id i (external_actions t)) = Some DISPATCHING" by blast
  with assms(1,2,6-8,10) show ?thesis
    by (simp add: begin_gmail_send_def get_external_action_def run_bindE [of "catchE _ _"] run_catchE
        run_bindE [of "begin_action_dispatch i []"])
qed

definition demo_superseded :: db where
  "demo_superseded = demo_offer\<lparr>external_actions := [demo_send],
     change_orders := [demo_order\<lparr>co_status := SEND_PENDING, co_current_revision_id := Some 51\<rparr>]\<rparr>"

theorem superseded_revision_sent_witness:
  "\<exists>t. begin_gmail_send 50 demo_superseded = (Inr (send_payload demo_order demo_revision), t)"
proof -
  let ?c = "demo_order\<lparr>co_status := SEND_PENDING, co_current_revision_id := Some 51\<rparr>"
  have "row_by act_id 50 (external_actions demo_superseded) = Some demo_send" "gmail_send demo_send" "act_state demo_send = READY"
    "attempts_of 50 (action_attempts demo_superseded) = []" "\<forall>q\<in>set (action_attempts demo_superseded). att_id q \<noteq> next_uuid demo_superseded"
    "order_of_payload (act_approved_payload demo_send) demo_superseded = (Inr (co_id ?c), demo_superseded)"
    "find (\<lambda>d. co_id d = co_id ?c \<and> co_tenant_id d = act_tenant_id demo_send) (change_orders demo_superseded) = Some ?c"
    "co_status ?c = SEND_PENDING" "dict_get (act_approved_payload demo_send) ''revision_id'' = PStr (uuid_str 41)"
    "co_current_revision_id ?c \<noteq> Some 41"
    by (simp_all add: demo_superseded_def demo_send_def gmail_send_def attempts_of_def demo_offer_def empty_db_def demo_order_def
        demo_revision_def order_of_payload_def dict_index_def send_payload_def demo_uuid dict_get_def)
  from superseded_revision_sent [OF this] show ?thesis by (auto simp: demo_send_def)
qed

end
