(* ===== verification/Accounts_Safety.thy ===== *)
theory Accounts_Safety
  imports Accounts Acceptance
begin

text \<open>
  What the account operations guarantee: a request key takes effect once, an editor with a stale
  row version is refused, and the cursor pages of a list are the whole list in order.
\<close>


section \<open>Cursors\<close>

lemma plain_digit: "is_digit c \<Longrightarrow> plain_char c"
proof -
  have "list_all plain_char digit_chars" by code_simp
  then show "is_digit c \<Longrightarrow> plain_char c" by (simp add: is_digit_def list_all_iff)
qed

lemma plain_padded: "list_all plain_char (padded w n)"
proof -
  have "plain_char (CHR ''0'')" by code_simp
  moreover have "list_all plain_char (nat_str m)" for m
    using digits_are_digits [of 10] by (auto simp: list_all_iff nat_str_def intro: plain_digit)
  ultimately show ?thesis by (auto simp: padded_def Let_def list_all_iff)
qed

lemma plain_isoformat: "list_all plain_char (isoformat t)"
proof -
  have "list_all plain_char ''-T:.+0''" by code_simp
  then show ?thesis unfolding isoformat_def iso_local_def iso_date_def iso_clock_def
    by (simp add: plain_padded split: prod.split)
qed

lemma plain_uuid_str: "list_all plain_char (uuid_str u)"
proof -
  have "plain_char (CHR ''-'')" by code_simp
  then show ?thesis by (auto simp: list_all_iff dest!: uuid_str_chars intro: plain_digit)
qed

lemma json_str_plain: "list_all plain_char t \<Longrightarrow> json_str t = [CHR 0x22] @ t @ [CHR 0x22]"
proof -
  assume "list_all plain_char t"
  then have "concat (map json_char t) = t"
  proof (induction t)
    case (Cons c t)
    then have "(of_char c :: nat) \<noteq> 34" "(of_char c :: nat) \<noteq> 92" "32 \<le> (of_char c :: nat)"
      by (auto simp: plain_char_def of_char_eq_iff [of c "CHR 0x22", simplified] of_char_eq_iff [of c "CHR 0x5C", simplified])
    with Cons show ?case by (simp add: json_char_def Let_def)
  qed simp
  then show ?thesis by (simp add: json_str_def)
qed

lemma plain_span: "list_all plain_char t \<Longrightarrow> takeWhile plain_char (t @ CHR 0x22 # r) = t \<and> dropWhile plain_char (t @ CHR 0x22 # r) = CHR 0x22 # r"
  by (induction t) (auto simp: plain_char_def)

lemma json_pair_dumps:
  assumes "list_all plain_char a" and "list_all plain_char b"
  shows "json_pair (dumps (PList [PStr a, PStr b])) = Some (a, b)"
  using plain_span [OF assms(1), of "CHR '','' # CHR 0x22 # b @ CHR 0x22 # '']''"] plain_span [OF assms(2), of "'']''"]
  by (simp add: json_pair_def json_str_plain assms json_space_def)

lemma length_hex: "u < 16 ^ w \<Longrightarrow> 0 < w \<Longrightarrow> length (digits 16 u) \<le> w"
proof (induction w arbitrary: u)
  case (Suc w)
  show ?case
  proof (cases "u < 16")
    case True
    then show ?thesis by (simp add: digits.simps [of 16 u])
  next
    case False
    with Suc.prems have "0 < w" "u div 16 < 16 ^ w" by (cases w; simp)+
    with Suc.IH [of "u div 16"] False show ?thesis by (simp add: digits.simps [of 16 u])
  qed
qed simp

lemma uuid_of_str_uuid_str:
  assumes "u < 2 ^ 128"
  shows "uuid_of_str (uuid_str u) = Some u"
proof -
  let ?brace = "\<lambda>c. c = CHR ''{'' \<or> c = CHR ''}''"
  have no_brace: "dropWhile ?brace t = t" if "\<And>c. c \<in> set t \<Longrightarrow> \<not> ?brace c" for t
    using that by (cases t) auto
  have chars: "\<And>c. c \<in> set (uuid_str u) \<Longrightarrow> \<not> ?brace c" by (auto dest!: uuid_str_chars)
  then have "dropWhile ?brace (uuid_str u) = uuid_str u" "dropWhile ?brace (rev (uuid_str u)) = rev (uuid_str u)"
    by (rule no_brace, simp)+ (rule no_brace, simp)?
  moreover have "length (uuid_hex u) = 32"
    using length_hex [of u 32] assms by (simp add: uuid_hex_def Let_def)
  moreover have "without ''urn:'' (uuid_str u) = uuid_str u" "without ''uuid:'' (uuid_str u) = uuid_str u"
    by (rule without_none [of "CHR '':''"]; simp)+
  ultimately show ?thesis by (simp add: uuid_of_str_def Let_def uuid_str_hex uuid_hex_val)
qed

definition cursor_ok :: "time \<times> uuid \<Rightarrow> bool" where
  "cursor_ok p \<longleftrightarrow> representable (fst p) \<and> snd p < 2 ^ 128"

lemma decode_encode_cursor: "cursor_ok (t, u) \<Longrightarrow> decode_cursor (encode_cursor t u) = Inr (t, u)"
  by (simp add: cursor_ok_def decode_cursor_def encode_cursor_def urlsafe_b64decode_encode json_pair_dumps
      plain_isoformat plain_uuid_str fromisoformat_isoformat uuid_of_str_uuid_str del: dumps.simps)

section \<open>Following the pages\<close>

lemma sort_key_unique_drop:
  assumes "sorted (map key xs)" and "distinct (map key xs)" and "0 < k" and "k \<le> length xs"
  shows "filter (\<lambda>r. key (xs ! (k - 1)) < key r) xs = drop k (xs :: 'r list)"
proof -
  have split: "xs = take k xs @ drop k xs" by simp
  have strict: "key (xs ! i) < key (xs ! j)" if "i < j" "j < length xs" for i j
  proof -
    have "key (xs ! i) \<le> key (xs ! j)" using sorted_nth_mono [OF assms(1), of i j] that by simp
    moreover have "key (xs ! i) \<noteq> key (xs ! j)" using nth_eq_iff_index_eq [OF assms(2), of i j] that by simp
    ultimately show ?thesis by simp
  qed
  have "filter (\<lambda>r. key (xs ! (k - 1)) < key r) (take k xs) = []"
  proof (intro filter_False ballI)
    fix r
    assume "r \<in> set (take k xs)"
    then obtain i where i: "i < k" "i < length xs" "r = xs ! i" by (auto simp: in_set_conv_nth)
    then have "key r \<le> key (xs ! (k - 1))" using sorted_nth_mono [OF assms(1), of i "k - 1"] assms(4) by simp
    then show "\<not> key (xs ! (k - 1)) < key r" by simp
  qed
  moreover have "filter (\<lambda>r. key (xs ! (k - 1)) < key r) (drop k xs) = drop k xs"
  proof (intro filter_True ballI)
    fix r
    assume "r \<in> set (drop k xs)"
    then obtain i where "i < length xs - k" "r = xs ! (k + i)" by (auto simp: in_set_conv_nth)
    then show "key (xs ! (k - 1)) < key r" using strict [of "k - 1" "k + i"] assms(3) by simp
  qed
  ultimately show ?thesis by (metis append_Nil filter_append split)
qed

lemma after_cursor_drop:
  assumes "distinct (map key rows)" and "0 < k" and "k \<le> length rows"
  shows "after_cursor key (Some (key (sort_key key rows ! (k - 1)))) rows = drop k (sort_key key rows)"
proof -
  have "distinct (map key (sort_key key rows))"
    using assms(1) by (metis distinct_map mset_sort set_sort sort_key_simps(1) distinct_sort)
  then have "filter (\<lambda>r. key (sort_key key rows ! (k - 1)) < key r) (sort_key key rows) = drop k (sort_key key rows)"
    by (intro sort_key_unique_drop) (simp_all add: assms)
  then show ?thesis by (simp add: after_cursor_def filter_sort)
qed

text \<open>A client that reads page after page until no cursor is returned; \<open>n\<close> bounds the requests.\<close>

fun read_pages :: "(string option \<Rightarrow> exn + 'r list \<times> string option) \<Rightarrow> nat \<Rightarrow> string option \<Rightarrow> 'r list option" where
  "read_pages request 0 cursor = None"
| "read_pages request (Suc n) cursor =
     (case request cursor of
        Inl e \<Rightarrow> None
      | Inr (items, next) \<Rightarrow> (case next of None \<Rightarrow> Some items | Some c \<Rightarrow> map_option ((@) items) (read_pages request n (Some c))))"

lemma read_pages_from:
  assumes rows: "distinct (map key rows)" "\<And>r. r \<in> set rows \<Longrightarrow> cursor_ok (key r)"
    and "0 < limit" and "k \<le> length rows" and "length rows - k < n"
    and request: "\<And>c. request c = (case cursor_position c of Inl e \<Rightarrow> Inl e | Inr p \<Rightarrow> Inr (page key limit (after_cursor key p rows)))"
    and cursor: "cursor_position cursor = Inr (if k = 0 then None else Some (key (sort_key key rows ! (k - 1))))"
  shows "read_pages request n cursor = Some (drop k (sort_key key rows))"
  using assms(4,5,7)
proof (induction n arbitrary: k cursor)
  case (Suc n)
  define xs where "xs = sort_key key rows"
  have rest: "after_cursor key (if k = 0 then None else Some (key (xs ! (k - 1)))) rows = drop k xs"
    using after_cursor_drop [OF rows(1), of k] Suc.prems(1) by (auto simp: xs_def after_cursor_def)
  have req: "request cursor = Inr (page key limit (drop k xs))"
    using Suc.prems(3) rest by (cases "k = 0") (simp_all add: request xs_def)
  show ?case
  proof (cases "length (drop k xs) \<le> limit")
    case True
    then have "page key limit (drop k xs) = (drop k xs, None)" by (simp add: page_def)
    with req show ?thesis by (simp add: xs_def)
  next
    case False
    define j where "j = k + limit"
    have j: "j < length xs" "0 < j" using False assms(3) by (simp_all add: j_def)
    have last: "drop k xs ! (limit - 1) = xs ! (j - 1)" using False assms(3) by (simp add: j_def)
    have "xs ! (j - 1) \<in> set rows" using j by (metis less_imp_diff_less nth_mem set_sort xs_def)
    then have dec: "decode_cursor (encode_cursor (fst (key (xs ! (j - 1)))) (snd (key (xs ! (j - 1))))) = Inr (key (xs ! (j - 1)))"
      using decode_encode_cursor [of "fst (key (xs ! (j - 1)))" "snd (key (xs ! (j - 1)))"] rows(2) by simp
    define c where "c = encode_cursor (fst (key (xs ! (j - 1)))) (snd (key (xs ! (j - 1))))"
    have "decode_cursor [] = Inl ValidationError" by code_simp
    with dec have "c \<noteq> []" by (auto simp: c_def)
    then have pos: "cursor_position (Some c) = Inr (Some (key (xs ! (j - 1))))"
      using dec by (simp add: cursor_position_def c_def)
    have "read_pages request n (Some c) = Some (drop j xs)"
      unfolding xs_def by (rule Suc.IH) (use j Suc.prems(2) pos assms(3) in \<open>simp_all add: xs_def j_def\<close>)
    moreover have "page key limit (drop k xs) = (take limit (drop k xs), Some c)"
      using False last by (simp add: page_def c_def)
    ultimately show ?thesis using req by (simp add: xs_def [symmetric] j_def add.commute [of k limit] flip: drop_drop)
  qed
qed simp

section \<open>Request keys\<close>

text \<open>
  The interface between \<open>execute_idempotent\<close> and a response model: validating a dump gives the
  model back, for the values the program builds.
\<close>

locale response_model =
  fixes model_dump :: "'m \<Rightarrow> (string \<times> pyval) list"
    and model_validate :: "(string \<times> pyval) list \<Rightarrow> exn + 'm"
    and ok :: "'m \<Rightarrow> bool"
  assumes round_trip: "ok x \<Longrightarrow> model_validate (model_dump x) = Inr x"
begin

lemma stored_answer_recorded:
  assumes "stored_answer model_validate digest r s = (Inr x, s1)"
  shows "idem_request_digest r = digest \<and> model_validate (idem_response_ref r) = Inr x \<and> s1 = s"
  using assms by (auto simp: stored_answer_def split: if_splits sum.splits)

lemma answered:
  assumes run: "answer_once model_dump model_validate who route key digest operation rivals s = (Inr x, s1)" and ok: "ok x"
  shows "\<exists>r. idempotency_for who route key s1 = Some r \<and> idem_request_digest r = digest \<and> model_validate (idem_response_ref r) = Inr x"
proof (cases "idempotency_for who route key s")
  case (Some r)
  with run have "stored_answer model_validate digest r s = (Inr x, s1)" by (simp add: answer_once_def)
  from stored_answer_recorded [OF this] Some show ?thesis by auto
next
  case None
  obtain res s2 where first: "execute_and_record model_dump who route key digest operation rivals s = (res, s2)"
    by (cases "execute_and_record model_dump who route key digest operation rivals s") auto
  show ?thesis
  proof (cases res)
    case (Inr y)
    with run None first have xy: "y = x" "s2 = s1" by (simp_all add: answer_once_def run_catchE)
    from first Inr xy obtain s3 where rec: "record_response who route key digest (model_dump x) s3 = (Inr (), s1)"
      by (auto simp: execute_and_record_def elim!: bindE_InrE)
    then have "find (same_request who route key) (api_idempotency_rows s3) = None"
      by (auto simp: record_response_def add_idempotency_def run_add_row find_None_iff list_ex_iff split: if_splits)
    with rec ok show ?thesis
      by (auto simp: record_response_def add_idempotency_def run_add_row idempotency_for_def find_append same_request_def round_trip
          split: if_splits)
  next
    case (Inl e)
    with run None first have "e = IntegrityError"
      "answer_after_conflict model_validate who route key digest rivals s s2 = (Inr x, s1)"
      by (auto simp: answer_once_def run_catchE split: if_splits)
    then have "answer_after_conflict model_validate who route key digest rivals s s2 = (Inr x, s1)" by simp
    then obtain r where r: "idempotency_for who route key (s\<lparr>api_idempotency_rows := api_idempotency_rows s @ rivals\<rparr>) = Some r"
      "stored_answer model_validate digest r (s\<lparr>api_idempotency_rows := api_idempotency_rows s @ rivals\<rparr>) = (Inr x, s1)"
      by (auto simp: answer_after_conflict_def rollback_to_def join_rivals_def split: option.splits)
    from stored_answer_recorded [OF r(2)] r(1) show ?thesis by auto
  qed
qed

lemma execute_run:
  assumes "key \<noteq> []" and "length key \<le> 128" and "canonical_sha256 (sha256 E) (PDict payload) = Inr digest"
  shows "execute_idempotent E model_dump model_validate ctx route key payload operation scope rivals s =
    answer_once model_dump model_validate (scope_of ctx scope) route key digest operation rivals s"
  using assms by (simp add: execute_idempotent_def run_bindE [of "digest_of E v" for v] run_digest_of)

lemma execute_request:
  assumes "execute_idempotent E model_dump model_validate ctx route key payload operation scope rivals s = (Inr x, s1)"
  obtains digest where "key \<noteq> []" "length key \<le> 128" "canonical_sha256 (sha256 E) (PDict payload) = Inr digest"
    "answer_once model_dump model_validate (scope_of ctx scope) route key digest operation rivals s = (Inr x, s1)"
  using assms unfolding execute_idempotent_def
  by (elim bindE_InrE) (auto simp: require_def run_digest_of split: if_splits sum.splits)

text \<open>A key that was answered answers the same again, and refuses other content.\<close>

lemma replay:
  assumes first: "execute_idempotent E model_dump model_validate ctx route key payload operation scope rivals s = (Inr x, s1)"
    and ok: "ok x" and later: "table_evolves idem_id (=) (api_idempotency_rows s1) (api_idempotency_rows s2)"
    and digest: "canonical_sha256 (sha256 E) (PDict payload') = Inr digest'"
  shows "execute_idempotent E model_dump model_validate ctx route key payload' operation' scope rivals' s2 =
    (if Inr digest' = canonical_sha256 (sha256 E) (PDict payload) then Inr x else Inl ConflictError, s2)"
proof -
  from execute_request [OF first] obtain digest where key: "key \<noteq> []" "length key \<le> 128"
    and d: "canonical_sha256 (sha256 E) (PDict payload) = Inr digest"
    and run: "answer_once model_dump model_validate (scope_of ctx scope) route key digest operation rivals s = (Inr x, s1)" by blast
  from answered [OF run ok] obtain r where r: "idempotency_for (scope_of ctx scope) route key s1 = Some r"
    "idem_request_digest r = digest" "model_validate (idem_response_ref r) = Inr x" by blast
  from append_only_find [OF later] r(1) have "idempotency_for (scope_of ctx scope) route key s2 = Some r"
    by (simp add: idempotency_for_def)
  with r show ?thesis
    by (simp add: execute_run [OF key digest] answer_once_def stored_answer_def d)
qed

end

definition client_ok :: "client_response \<Rightarrow> bool" where
  "client_ok c \<longleftrightarrow> cr_id c < 2 ^ 128 \<and> representable (cr_created_at c) \<and> representable (cr_updated_at c)"

lemma read_json_time_json_time: "representable t \<Longrightarrow> read_json_time (json_time t) = Some t"
  using fromisoformat_isoformat [of t] by (simp add: read_json_time_def json_time_def isoformat_def)

interpretation client_model: response_model client_dump client_validate client_ok
proof
  fix c
  assume "client_ok c"
  then show "client_validate (client_dump c) = Inr c"
    by (cases "cr_company c")
       (simp_all add: client_validate_def client_dump_def client_ok_def dict_get_def nullable_str_def uuid_of_str_uuid_str
          read_json_time_json_time)
qed

section \<open>Row versions\<close>

text \<open>A row of clients or projects keeps its tenant, and changes only under a larger row version.\<close>

definition versioned :: "('r \<Rightarrow> uuid) \<Rightarrow> ('r \<Rightarrow> int) \<Rightarrow> 'r \<Rightarrow> 'r \<Rightarrow> bool" where
  "versioned owner version r q \<longleftrightarrow> q = r \<or> owner q = owner r \<and> version r < version q"

abbreviation client_moves :: "client \<Rightarrow> client \<Rightarrow> bool" where
  "client_moves \<equiv> versioned cli_tenant_id cli_row_version"

abbreviation project_moves :: "project \<Rightarrow> project \<Rightarrow> bool" where
  "project_moves \<equiv> versioned proj_tenant_id proj_row_version"

lemma versioned_find:
  assumes "table_evolves rid (versioned owner version) xs ys" and "find (\<lambda>r. rid r = i \<and> owner r = t) xs = Some r"
  shows "\<exists>q. find (\<lambda>r. rid r = i \<and> owner r = t) ys = Some q \<and> (q = r \<or> version q \<noteq> version r)"
proof -
  have "\<exists>q. find (\<lambda>r. rid r = i \<and> owner r = t) ys = Some q \<and> rid q = rid r \<and> versioned owner version r q"
    by (rule table_evolves_find [OF assms(1) _ assms(2)]) (auto simp: versioned_def)
  then obtain q where "find (\<lambda>r. rid r = i \<and> owner r = t) ys = Some q" "versioned owner version r q" by blast
  then show ?thesis by (intro exI [of _ q]) (auto simp: versioned_def)
qed

interpretation client_table: evolving_table clients cli_id client_moves
  by unfold_locales (auto simp: versioned_def)

interpretation project_table: evolving_table projects proj_id project_moves
  by unfold_locales (auto simp: versioned_def)

definition accounts_move :: "db \<Rightarrow> db \<Rightarrow> bool" where
  "accounts_move s t \<longleftrightarrow> table_evolves cli_id client_moves (clients s) (clients t) \<and>
     table_evolves proj_id project_moves (projects s) (projects t)"

interpretation accounts: state_order accounts_move
  by unfold_locales
     (auto simp: accounts_move_def client_table.table_refl project_table.table_refl
       intro: client_table.table_trans project_table.table_trans)

definition account_rows :: "db \<Rightarrow> client list \<times> project list" where
  "account_rows s = (clients s, projects s)"

interpretation account_frame: state_frame account_rows .

abbreviation accounts_same :: "db \<Rightarrow> db \<Rightarrow> bool" where
  "accounts_same \<equiv> (\<lambda>s t. account_rows t = account_rows s)"

lemma accounts_move_same: "account_rows t = account_rows s \<Longrightarrow> accounts_move s t"
  by (simp add: account_rows_def accounts_move_def client_table.table_refl project_table.table_refl)

lemma same_accounts_move: "evolves accounts_same m \<Longrightarrow> evolves accounts_move m"
  by (auto simp: evolves_def intro: accounts_move_same)

lemma account_frame_steps:
  "evolves accounts_same fresh_uuid" "evolves accounts_same the_time" "evolves accounts_same (digest_of E v)"
  "evolves accounts_same (add_user u)" "evolves accounts_same (put_user i f)" "evolves accounts_same (add_preference p)"
  "evolves accounts_same (add_contact c)" "evolves accounts_same (add_calendar k)"
  "evolves accounts_same (add_audit_event ae)" "evolves accounts_same (add_idempotency r)" "evolves accounts_same (join_rivals rs)"
  by (rule evolvesI;
      simp add: account_rows_def run_digest_of run_add_row add_user_def put_user_def add_preference_def add_contact_def
        add_calendar_def add_audit_event_def add_idempotency_def join_rivals_def split: sum.split)+

lemma account_frame_audit: "evolves accounts_same (audit E ctx action kind i before after revision project)"
  unfolding audit_def audit_of_spec_def by (intro account_frame.evolve_rules account_frame_steps)

lemma account_frame_operations:
  "evolves accounts_same (onboard_owner E ctx timezone r m k style policy)"
  "evolves accounts_same (update_preference E ctx v r m k style policy)"
  "evolves accounts_same (create_contact E ctx i email nm role)"
  unfolding onboard_owner_def update_preference_def create_contact_def new_user_def new_preference_def current_preference_def
    get_client_def
  by (intro account_frame.evolve_rules account_frame_steps account_frame_audit)+

lemma put_client_moves: "evolves accounts_move (put_client i (edited_client name company now))"
  by (rule evolvesI)
     (auto simp: put_client_def accounts_move_def project_table.table_refl edited_client_def versioned_def
       intro!: client_table.table_upd_row)

lemma edit_project_moves:
  "evolves accounts_move (edit_project i (edited_project name target now))"
  "evolves accounts_move (edit_project i (leaving_project now))"
  by (rule evolvesI;
      auto simp: edit_project_def accounts_move_def client_table.table_refl edited_project_def leaving_project_def
        versioned_def intro!: project_table.table_upd_row)+

lemma add_client_moves: "evolves accounts_move (add_client c)"
  by (rule evolvesI)
     (auto simp: add_client_def run_add_row accounts_move_def project_table.table_refl client_table.table_steps)

lemmas account_steps0 = accounts.evolve_rules add_client_moves put_client_moves edit_project_moves
  account_frame_steps [THEN same_accounts_move] account_frame_audit [THEN same_accounts_move]

lemma account_moves:
  "evolves accounts_move (create_client E ctx name company)"
  "evolves accounts_move (update_client E ctx i v name company)"
  "evolves accounts_move (update_project E ctx i v name target)"
  "evolves accounts_move (delete_project E ctx i v)"
  unfolding create_client_def update_client_def update_project_def delete_project_def change_project_def get_client_def
    get_project_def
  by (intro account_steps0)+

lemma upd_row_last: "\<forall>q\<in>set rows. rid q \<noteq> rid r \<Longrightarrow> upd_row rid (rid r) f (rows @ [r]) = rows @ [f r]"
  by (induction rows) auto

lemma account_frame_checks:
  "evolves accounts_same (get_client ctx i)" "evolves accounts_same (current_preference i)"
  "evolves accounts_same (checked_rules zones timezone weekdays holidays capacity)"
  unfolding get_client_def current_preference_def checked_rules_def
  by (intro account_frame.evolve_rules)+

lemma create_project_moves:
  assumes "create_project E zones ctx client name base timezone weekdays holidays capacity target s = (Inr p, t)"
  shows "accounts_move s t"
proof -
  note same = evolves_run [where R = accounts_same]
  from assms obtain q where "account_rows t = (clients s, projects s @ [q])"
    unfolding create_project_def
  proof (elim bindE_InrE, goal_cases)
    case prems: (1 c s1 pr s2 rules s3 i s4 now s5 q s6 u s7 k s8 v s9 w s10 q' s11 x s12)
    have 1: "account_rows s5 = account_rows s"
      using same [OF account_frame_checks(1) prems(2)] same [OF account_frame_checks(2) prems(3)]
        same [OF account_frame_checks(3) prems(4)] same [OF account_frame_steps(1) prems(5)]
        same [OF account_frame_steps(2) prems(6)] by simp
    from prems(7) have q: "proj_id q = i" "s6 = s5" by auto
    from prems(8) have fresh: "\<forall>r\<in>set (projects s6). proj_id r \<noteq> i" and 2: "account_rows s7 = (clients s6, projects s6 @ [q])"
      using q(1) by (auto simp: add_project_def run_add_row list_ex_iff account_rows_def split: if_splits)
    have 3: "account_rows s9 = account_rows s7"
      using same [OF account_frame_steps(1) prems(9)] same [OF account_frame_steps(8) prems(10)] by simp
    have "account_rows s10 = (clients s9, upd_row proj_id i (\<lambda>r. r\<lparr>proj_calendar_version_id := Some k\<rparr>) (projects s9))"
      using prems(11) by (auto simp: edit_project_def account_rows_def)
    moreover have "account_rows t = account_rows s10"
      using same [OF account_frame_audit prems(13)] prems(12,14) by simp
    ultimately have "account_rows t = (clients s, projects s @ [q\<lparr>proj_calendar_version_id := Some k\<rparr>])"
      using 1 2 3 fresh upd_row_last [of "projects s6" proj_id q "\<lambda>r. r\<lparr>proj_calendar_version_id := Some k\<rparr>"]
      by (simp add: account_rows_def q)
    then show thesis by (rule prems(1))
  qed
  then show ?thesis by (simp add: account_rows_def accounts_move_def client_table.table_refl project_table.table_append)
qed

subsection \<open>Steps\<close>

text \<open>
  The account requests, each a transaction of its route; a client is created under a request key.
\<close>

definition keyed_create_client ::
  "env \<Rightarrow> trusted_context \<Rightarrow> string \<Rightarrow> (string \<times> pyval) list \<Rightarrow> string \<Rightarrow> string option \<Rightarrow> api_idempotency list \<Rightarrow> client_response act" where
  "keyed_create_client E ctx key payload name company rivals =
     execute_idempotent E client_dump client_validate ctx ''POST /clients'' key payload
       (bindE (create_client E ctx name company) (\<lambda>c. ret (client_response_of c))) None rivals"

inductive account_steps :: "db \<Rightarrow> db \<Rightarrow> bool" where
  start: "account_steps s s"
| onboarding: "account_steps s t \<Longrightarrow> account_steps s (snd (atomically (onboard_owner E ctx zone r m k style policy) t))"
| preferences: "account_steps s t \<Longrightarrow> account_steps s (snd (atomically (update_preference E ctx v r m k style policy) t))"
| new_client: "account_steps s t \<Longrightarrow> account_steps s (snd (atomically (create_client E ctx name company) t))"
| keyed_client: "account_steps s t \<Longrightarrow> account_steps s (snd (atomically (keyed_create_client E ctx key payload name company rivals) t))"
| client_edit: "account_steps s t \<Longrightarrow> account_steps s (snd (atomically (update_client E ctx i v name company) t))"
| new_contact: "account_steps s t \<Longrightarrow> account_steps s (snd (atomically (create_contact E ctx i mail name role) t))"
| new_project: "account_steps s t \<Longrightarrow>
    account_steps s (snd (atomically (create_project E zones ctx i name base zone weekdays holidays capacity target) t))"
| project_edit: "account_steps s t \<Longrightarrow> account_steps s (snd (atomically (update_project E ctx i v name target) t))"
| project_end: "account_steps s t \<Longrightarrow> account_steps s (snd (atomically (delete_project E ctx i v) t))"

lemma atomically_moves:
  assumes "\<And>x t. m s = (Inr x, t) \<Longrightarrow> accounts_move s t"
  shows "accounts_move s (snd (atomically m s))"
  using assms by (auto simp: run_atomically accounts.R_refl split: prod.split sum.split)

lemma keyed_client_moves:
  assumes "keyed_create_client E ctx key payload name company rivals s = (Inr x, t)"
  shows "accounts_move s t"
proof -
  let ?create = "bindE (create_client E ctx name company) (\<lambda>c. ret (client_response_of c))"
  from client_model.execute_request [OF assms [unfolded keyed_create_client_def]] obtain digest who where
    run: "answer_once client_dump client_validate who ''POST /clients'' key digest ?create rivals s = (Inr x, t)" by metis
  have body: "evolves accounts_move (execute_and_record client_dump who ''POST /clients'' key digest ?create rivals)"
    unfolding execute_and_record_def record_response_def by (intro account_steps0 account_moves)
  show ?thesis
  proof (cases "idempotency_for who ''POST /clients'' key s")
    case (Some r)
    with run have "stored_answer client_validate digest r s = (Inr x, t)" by (simp add: answer_once_def)
    then show ?thesis by (auto dest: client_model.stored_answer_recorded intro: accounts.R_refl)
  next
    case None
    obtain res s1 where first: "execute_and_record client_dump who ''POST /clients'' key digest ?create rivals s = (res, s1)"
      by (cases "execute_and_record client_dump who ''POST /clients'' key digest ?create rivals s") auto
    show ?thesis
    proof (cases res)
      case (Inr y)
      with run None first have "t = s1" by (simp add: answer_once_def run_catchE)
      with evolvesD [OF body, of s] first show ?thesis by simp
    next
      case (Inl e)
      with run None first have "answer_after_conflict client_validate who ''POST /clients'' key digest rivals s s1 = (Inr x, t)"
        by (auto simp: answer_once_def run_catchE split: if_splits)
      then have "account_rows t = account_rows s"
        by (auto simp: answer_after_conflict_def rollback_to_def join_rivals_def account_rows_def split: option.splits
            dest!: client_model.stored_answer_recorded)
      then show ?thesis by (rule accounts_move_same)
    qed
  qed
qed

lemmas account_runs = account_moves [THEN evolves_run] account_frame_operations [THEN same_accounts_move, THEN evolves_run]
  create_project_moves keyed_client_moves

lemma account_steps_move: "account_steps s t \<Longrightarrow> accounts_move s t"
proof (induction rule: account_steps.induct)
  case (start s)
  show ?case by (rule accounts.R_refl)
qed (erule accounts.R_trans, rule atomically_moves, erule account_runs)+

subsection \<open>Editing under a row version\<close>

lemma update_client_run:
  assumes "update_client E ctx i v name company t = (Inr d, u)"
  shows "\<exists>c. owned_client ctx i t = Some c \<and> v = cli_row_version c \<and> d = edited_client name company (clock t) c \<and>
    clients u = upd_row cli_id i (edited_client name company (clock t)) (clients t)"
  using assms unfolding update_client_def get_client_def
proof (elim bindE_InrE, goal_cases)
  case (1 found s1 c s2 x s3 now s4 x' s5 x'' s6)
  from evolves_run [OF account_frame_audit 1(6)] have "clients s6 = clients s5" by (simp add: account_rows_def)
  with 1 show ?case by (auto simp: the_time_def require_def some_or_def put_client_def split: if_splits option.splits)
qed

lemma update_client_stale:
  "owned_client ctx i t = Some d \<Longrightarrow> cli_row_version d \<noteq> v \<Longrightarrow> update_client E ctx i v name company t = (Inl ConflictError, t)"
  by (simp add: update_client_def get_client_def run_bindE require_def)

lemma change_project_run:
  assumes "change_project E ctx i v action change t = (Inr q, u)"
  shows "\<exists>p. owned_project ctx i t = Some p \<and> v = proj_row_version p \<and> q = change (clock t) p \<and>
    projects u = upd_row proj_id i (change (clock t)) (projects t)"
  using assms unfolding change_project_def get_project_def
proof (elim bindE_InrE, goal_cases)
  case (1 found s1 p s2 x s3 now s4 x' s5 x'' s6)
  from evolves_run [OF account_frame_audit 1(6)] have "projects s6 = projects s5" by (simp add: account_rows_def)
  with 1 show ?case by (auto simp: the_time_def require_def some_or_def edit_project_def split: if_splits option.splits)
qed

lemma change_project_stale:
  "owned_project ctx i t = Some q \<Longrightarrow> proj_row_version q \<noteq> v \<Longrightarrow> change_project E ctx i v action change t = (Inl ConflictError, t)"
  by (simp add: change_project_def get_project_def run_bindE require_def)

lemma client_after_steps:
  "account_steps s t \<Longrightarrow> owned_client ctx i s = Some c \<Longrightarrow>
   \<exists>d. owned_client ctx i t = Some d \<and> (d = c \<or> cli_row_version d \<noteq> cli_row_version c)"
  unfolding owned_client_def by (rule versioned_find) (auto simp: accounts_move_def dest: account_steps_move)

lemma project_after_steps:
  "account_steps s t \<Longrightarrow> owned_project ctx i s = Some p \<Longrightarrow>
   \<exists>q. owned_project ctx i t = Some q \<and> (q = p \<or> proj_row_version q \<noteq> proj_row_version p)"
  unfolding owned_project_def by (rule versioned_find) (auto simp: accounts_move_def dest: account_steps_move)

text \<open>C25: No lost update. Whatever account requests follow a read of a client or a project, an edit or
a deletion that names the version read is refused with ConflictError and changes nothing when the
row is no longer exactly the row read; when it succeeds, the row was still the one read, the edited
row is returned, and the table afterwards is the table before with that one row so edited.\<close>

theorem no_lost_update:
  assumes "account_steps s t"
  shows "(\<forall>c. owned_client ctx i s = Some c \<longrightarrow>
      (owned_client ctx i t \<noteq> Some c \<longrightarrow> update_client E ctx i (cli_row_version c) name company t = (Inl ConflictError, t)) \<and>
      (\<forall>d u. update_client E ctx i (cli_row_version c) name company t = (Inr d, u) \<longrightarrow>
         owned_client ctx i t = Some c \<and> d = edited_client name company (clock t) c \<and>
         clients u = upd_row cli_id i (edited_client name company (clock t)) (clients t))) \<and>
    (\<forall>p. owned_project ctx i s = Some p \<longrightarrow>
      (owned_project ctx i t \<noteq> Some p \<longrightarrow>
         update_project E ctx i (proj_row_version p) name target t = (Inl ConflictError, t) \<and>
         delete_project E ctx i (proj_row_version p) t = (Inl ConflictError, t)) \<and>
      (\<forall>q u. update_project E ctx i (proj_row_version p) name target t = (Inr q, u) \<longrightarrow>
         owned_project ctx i t = Some p \<and> q = edited_project name target (clock t) p \<and>
         projects u = upd_row proj_id i (edited_project name target (clock t)) (projects t)) \<and>
      (\<forall>q u. delete_project E ctx i (proj_row_version p) t = (Inr q, u) \<longrightarrow>
         owned_project ctx i t = Some p \<and> q = leaving_project (clock t) p \<and>
         projects u = upd_row proj_id i (leaving_project (clock t)) (projects t)))"
proof (intro conjI allI impI)
  fix c
  assume c: "owned_client ctx i s = Some c"
  obtain d where d: "owned_client ctx i t = Some d" "d = c \<or> cli_row_version d \<noteq> cli_row_version c"
    using client_after_steps [OF assms c] by blast
  show "update_client E ctx i (cli_row_version c) name company t = (Inl ConflictError, t)" if "owned_client ctx i t \<noteq> Some c"
    using that d by (intro update_client_stale [of _ _ _ d]) auto
  fix x u
  assume "update_client E ctx i (cli_row_version c) name company t = (Inr x, u)"
  from update_client_run [OF this] d show "owned_client ctx i t = Some c" "x = edited_client name company (clock t) c"
    "clients u = upd_row cli_id i (edited_client name company (clock t)) (clients t)" by auto
next
  fix p
  assume p: "owned_project ctx i s = Some p"
  obtain q where q: "owned_project ctx i t = Some q" "q = p \<or> proj_row_version q \<noteq> proj_row_version p"
    using project_after_steps [OF assms p] by blast
  show "update_project E ctx i (proj_row_version p) name target t = (Inl ConflictError, t)"
    "delete_project E ctx i (proj_row_version p) t = (Inl ConflictError, t)" if "owned_project ctx i t \<noteq> Some p"
    using that q unfolding update_project_def delete_project_def by (auto intro!: change_project_stale [of _ _ _ q])
  fix x u
  show "owned_project ctx i t = Some p" "x = edited_project name target (clock t) p"
    "projects u = upd_row proj_id i (edited_project name target (clock t)) (projects t)"
    if "update_project E ctx i (proj_row_version p) name target t = (Inr x, u)"
    using change_project_run [OF that [unfolded update_project_def]] q by auto
  show "owned_project ctx i t = Some p" "x = leaving_project (clock t) p"
    "projects u = upd_row proj_id i (leaving_project (clock t)) (projects t)"
    if "delete_project E ctx i (proj_row_version p) t = (Inr x, u)"
    using change_project_run [OF that [unfolded delete_project_def]] q by auto
qed

definition owner_ctx :: trusted_context where
  "owner_ctx = \<lparr>ctx_tenant_id = 5, ctx_subject = ''s1'', ctx_email = ''o@x'', ctx_email_verified = True, ctx_correlation_id = 9\<rparr>"

definition demo_client :: client where
  "demo_client = \<lparr>cli_id = 30, cli_tenant_id = 5, cli_name = ''Acme'', cli_company = None, cli_created_at = 0,
     cli_updated_at = 0, cli_row_version = 1\<rparr>"

definition demo_clients :: db where
  "demo_clients = empty_db\<lparr>clients := [demo_client, demo_client\<lparr>cli_id := 31\<rparr>, demo_client\<lparr>cli_id := 32, cli_tenant_id := 6\<rparr>]\<rparr>"

lemmas demo_account_rows = demo_clients_def empty_db_def demo_client_def owner_ctx_def demo_env_def

lemmas account_parts = program_runs audit_def audit_of_spec_def add_audit_event_def put_client_def add_client_def run_add_row
  owned_client_def the_time_def client_read_def client_dump_def nullable_str_def client_response_of_def
  edited_client_def stripped_or_none_def opt_dict_def

theorem no_lost_update_witness:
  "\<exists>d t. update_client demo_env owner_ctx 30 1 ''A'' None demo_clients = (Inr d, t) \<and>
     clients t = upd_row cli_id 30 (edited_client ''A'' None 0) (clients demo_clients) \<and>
     account_steps demo_clients t \<and> update_client demo_env owner_ctx 30 1 ''B'' None t = (Inl ConflictError, t)"
proof -
  have "\<exists>d u. update_client demo_env owner_ctx 30 1 ''A'' None demo_clients = (Inr d, u) \<and>
      clients u = [edited_client ''A'' None 0 demo_client, demo_client\<lparr>cli_id := 31\<rparr>, demo_client\<lparr>cli_id := 32, cli_tenant_id := 6\<rparr>]"
    by (simp add: update_client_def get_client_def account_parts demo_account_rows del: dumps.simps cong: bindE_weak)
  then obtain d t where run: "update_client demo_env owner_ctx 30 1 ''A'' None demo_clients = (Inr d, t)"
    and rows: "clients t = [edited_client ''A'' None 0 demo_client, demo_client\<lparr>cli_id := 31\<rparr>, demo_client\<lparr>cli_id := 32, cli_tenant_id := 6\<rparr>]"
    by blast
  have steps: "account_steps demo_clients t"
    using account_steps.client_edit [OF account_steps.start, where E = demo_env and ctx = owner_ctx and i = 30 and v = 1
        and name = "''A''" and company = None and s = demo_clients] run by (simp add: run_atomically)
  have old: "owned_client owner_ctx 30 demo_clients = Some demo_client" and "cli_row_version demo_client = 1"
    and "owned_client owner_ctx 30 t \<noteq> Some demo_client"
    by (simp_all add: owned_client_def demo_account_rows rows edited_client_def)
  then have "update_client demo_env owner_ctx 30 1 ''B'' None t = (Inl ConflictError, t)"
    using no_lost_update [OF steps, of owner_ctx 30 demo_env "''B''" None] by auto
  moreover have "clients t = upd_row cli_id 30 (edited_client ''A'' None 0) (clients demo_clients)"
    using no_lost_update [OF account_steps.start, of owner_ctx 30 demo_clients demo_env "''A''" None] old(1) run
    by (auto simp: demo_client_def demo_clients_def empty_db_def)
  ultimately show ?thesis using run steps by blast
qed

text \<open>A request key takes effect once. After a client was created under a key, any later request
of the same caller with that key (whatever requests were answered in between) changes nothing: it
returns the recorded response when its body is the same, and is refused with ConflictError otherwise.\<close>

theorem idempotent_replay:
  assumes "execute_idempotent E client_dump client_validate ctx route key payload operation scope rivals s = (Inr x, s1)"
    and "client_ok x" and "table_evolves idem_id (=) (api_idempotency_rows s1) (api_idempotency_rows s2)"
    and "canonical_sha256 (sha256 E) (PDict payload') = Inr digest'"
  shows "execute_idempotent E client_dump client_validate ctx route key payload' operation' scope rivals' s2 =
    (if Inr digest' = canonical_sha256 (sha256 E) (PDict payload) then Inr x else Inl ConflictError, s2)"
  by (rule client_model.replay [OF assms])

theorem idempotent_replay_witness:
  "\<exists>x t. keyed_create_client demo_env owner_ctx ''k1'' [(''name'', PStr ''Acme'')] ''Acme'' None [] demo_clients = (Inr x, t) \<and>
     keyed_create_client demo_env owner_ctx ''k1'' [(''name'', PStr ''Acme'')] ''Acme'' None [] t = (Inr x, t) \<and>
     keyed_create_client demo_env owner_ctx ''k1'' [(''name'', PStr ''Other'')] ''Other'' None [] t = (Inl ConflictError, t)"
proof -
  let ?run = "keyed_create_client demo_env owner_ctx ''k1'' [(''name'', PStr ''Acme'')] ''Acme'' None [] demo_clients"
  have "\<exists>x t. ?run = (Inr x, t) \<and> cr_id x < 2 ^ 128 \<and> cr_created_at x = 0 \<and> cr_updated_at x = 0"
    by (simp add: keyed_create_client_def execute_idempotent_def create_client_def answer_once_def execute_and_record_def
        run_catchE join_rivals_def record_response_def add_idempotency_def idempotency_for_def account_parts demo_account_rows
        del: dumps.simps cong: bindE_weak)
  then obtain x t where run: "?run = (Inr x, t)" and x: "cr_id x < 2 ^ 128" "cr_created_at x = 0" "cr_updated_at x = 0" by blast
  have "representable 0" by code_simp
  with x have ok: "client_ok x" by (simp add: client_ok_def)
  let ?digest = "\<lambda>n. canonical_sha256 (sha256 demo_env) (PDict [(''name'', PStr n)])"
  have "\<not> isl (?digest ''Acme'') \<and> \<not> isl (?digest ''Other'') \<and> ?digest ''Acme'' \<noteq> ?digest ''Other''" by code_simp
  moreover obtain d e where "?digest ''Acme'' = Inr d" "?digest ''Other'' = Inr e"
    using calculation by (cases "?digest ''Acme''"; cases "?digest ''Other''") (simp_all del: canonical_sha256_def)
  ultimately have digests: "?digest ''Acme'' = Inr d" "?digest ''Other'' = Inr e" "d \<noteq> e" by simp_all
  have kept: "table_evolves idem_id (=) (api_idempotency_rows t) (api_idempotency_rows t)" by (simp add: table_evolves_def)
  note replay = idempotent_replay [OF run [unfolded keyed_create_client_def] ok kept]
  from replay [OF digests(1)] replay [OF digests(2)] run digests show ?thesis unfolding keyed_create_client_def by auto
qed

lemma list_page_request:
  "fst (list_page table owner key ctx limit c s) =
   (case cursor_position c of Inl e \<Rightarrow> Inl e
    | Inr p \<Rightarrow> Inr (page key limit (after_cursor key p (filter (\<lambda>r. owner r = ctx_tenant_id ctx) (table s)))))"
  by (simp add: list_page_def split: sum.split)

text \<open>C26: Reading the list of clients page by page, each time with the cursor returned, gives every client
of the tenant exactly once, in the order of creation and id, whatever the page size; the same holds
for projects. The requests needed are bounded by the number of rows.\<close>

theorem pages_complete:
  assumes "distinct (map cli_id (clients s))" and "list_all (\<lambda>c. cursor_ok (cli_created_at c, cli_id c)) (clients s)"
    and "distinct (map proj_id (projects s))" and "list_all (\<lambda>p. cursor_ok (proj_created_at p, proj_id p)) (projects s)"
    and "0 < limit"
  shows "read_pages (\<lambda>c. fst (list_clients ctx limit c s)) (Suc (length (clients s))) None =
      Some (sort_key (\<lambda>c. (cli_created_at c, cli_id c)) (filter (\<lambda>c. cli_tenant_id c = ctx_tenant_id ctx) (clients s))) \<and>
    read_pages (\<lambda>c. fst (list_projects ctx limit c s)) (Suc (length (projects s))) None =
      Some (sort_key (\<lambda>p. (proj_created_at p, proj_id p)) (filter (\<lambda>p. proj_tenant_id p = ctx_tenant_id ctx) (projects s)))"
proof
  let ?cs = "filter (\<lambda>c. cli_tenant_id c = ctx_tenant_id ctx) (clients s)"
  let ?ps = "filter (\<lambda>p. proj_tenant_id p = ctx_tenant_id ctx) (projects s)"
  have key: "distinct (map (\<lambda>r. (f r, i r)) xs)" if "distinct (map i xs)" for f :: "'r \<Rightarrow> time" and i :: "'r \<Rightarrow> uuid" and xs
    using that by (auto simp: distinct_map inj_on_def)
  show "read_pages (\<lambda>c. fst (list_clients ctx limit c s)) (Suc (length (clients s))) None =
      Some (sort_key (\<lambda>c. (cli_created_at c, cli_id c)) ?cs)"
    using read_pages_from [of "\<lambda>c. (cli_created_at c, cli_id c)" ?cs limit 0 "Suc (length (clients s))" _ None]
      assms distinct_map_filter [OF assms(1)]
    by (simp add: list_clients_def list_page_request key list_all_iff le_imp_less_Suc cursor_position_def)
  show "read_pages (\<lambda>c. fst (list_projects ctx limit c s)) (Suc (length (projects s))) None =
      Some (sort_key (\<lambda>p. (proj_created_at p, proj_id p)) ?ps)"
    using read_pages_from [of "\<lambda>p. (proj_created_at p, proj_id p)" ?ps limit 0 "Suc (length (projects s))" _ None]
      assms distinct_map_filter [OF assms(3)]
    by (simp add: list_projects_def list_page_request key list_all_iff le_imp_less_Suc cursor_position_def)
qed

theorem pages_complete_witness:
  "read_pages (\<lambda>c. fst (list_clients owner_ctx 1 c demo_clients)) 4 None = Some [demo_client, demo_client\<lparr>cli_id := 31\<rparr>]"
proof -
  have rows: "clients demo_clients = [demo_client, demo_client\<lparr>cli_id := 31\<rparr>, demo_client\<lparr>cli_id := 32, cli_tenant_id := 6\<rparr>]"
    "projects demo_clients = []" by (simp_all add: demo_clients_def empty_db_def)
  have "representable 0" by code_simp
  then have 1: "list_all (\<lambda>c. cursor_ok (cli_created_at c, cli_id c)) (clients demo_clients)"
    by (simp add: rows demo_client_def cursor_ok_def)
  have 2: "distinct (map cli_id (clients demo_clients))" by (simp add: rows demo_client_def)
  have 3: "distinct (map proj_id (projects demo_clients))"
    "list_all (\<lambda>p. cursor_ok (proj_created_at p, proj_id p)) (projects demo_clients)" by (simp_all add: rows)
  have "sort_key (\<lambda>c. (cli_created_at c, cli_id c)) (filter (\<lambda>c. cli_tenant_id c = ctx_tenant_id owner_ctx) (clients demo_clients)) =
      [demo_client, demo_client\<lparr>cli_id := 31\<rparr>]"
    by (simp add: rows demo_client_def owner_ctx_def)
  moreover have "Suc (length (clients demo_clients)) = 4" by (simp add: rows)
  ultimately show ?thesis using conjunct1 [OF pages_complete [OF 2 1 3 zero_less_one, of owner_ctx]] by (simp only:)
qed

end
