(* ===== verification/Analysis.thy ===== *)
theory Analysis
  imports ChangeOrders Accounts
begin

text \<open>
  \<open>services/agents/persistence.py\<close>, \<open>limits.py\<close> and \<open>costs.py\<close>: workflows and the runs of their
  roles, assessments, decisions and drafts, the ledger of token and cost budgets, the limits of
  one preparation, and reviewed model prices.
\<close>

section \<open>Workflows\<close>

definition check_project :: "trusted_context \<Rightarrow> uuid option \<Rightarrow> unit act" where
  "check_project ctx project = (case project of None \<Rightarrow> ret () | Some i \<Rightarrow> bindE (get_project ctx i) (\<lambda>_. ret ()))"

definition add_workflow :: "workflow_instance \<Rightarrow> unit act" where
  "add_workflow = add_row workflow_instances (\<lambda>rows s. s\<lparr>workflow_instances := rows\<rparr>) workflow_instance_check
     (\<lambda>r q. wf_id r = wf_id q \<or> wf_tenant_id r = wf_tenant_id q \<and> wf_workflow_key r = wf_workflow_key q)"

text \<open>A write sets \<open>updated_at\<close> to the time of its flush.\<close>

definition put_workflow :: "uuid \<Rightarrow> (workflow_instance \<Rightarrow> workflow_instance) \<Rightarrow> unit act" where
  "put_workflow i f =
     modify (\<lambda>s. s\<lparr>workflow_instances := upd_row wf_id i (\<lambda>r. f (r\<lparr>wf_updated_at := clock s\<rparr>)) (workflow_instances s)\<rparr>)"

record workflow_spec =
  ws_workflow_key :: string
  ws_input_snapshot :: "(string \<times> pyval) list"
  ws_project_id :: "uuid option"
  ws_request_id :: "uuid option"
  ws_scope_version_id :: "uuid option"
  ws_preference_version_id :: "uuid option"
  ws_policy_version :: string
  ws_current_phase :: string

definition new_workflow :: "trusted_context \<Rightarrow> workflow_spec \<Rightarrow> string \<Rightarrow> workflow_instance act" where
  "new_workflow ctx w digest =
     bindE fresh_uuid (\<lambda>i.
     bindE the_time (\<lambda>now.
     bindE (ret \<lparr>wf_id = i, wf_tenant_id = ctx_tenant_id ctx, wf_project_id = ws_project_id w,
        wf_workflow_key = ws_workflow_key w, wf_input_digest = digest, wf_state = WF_RUNNING, wf_budget_minor = None,
        wf_reserved_minor = 0, wf_current_job_id = None, wf_request_id = ws_request_id w,
        wf_scope_version_id = ws_scope_version_id w, wf_preference_version_id = ws_preference_version_id w,
        wf_current_phase = Some (ws_current_phase w), wf_policy_version = Some (ws_policy_version w),
        wf_correlation_id = Some (ctx_correlation_id ctx), wf_row_version = 1, wf_created_at = now, wf_updated_at = now\<rparr>) (\<lambda>wf.
     bindE (add_workflow wf) (\<lambda>_. ret wf))))"

definition create_workflow :: "env \<Rightarrow> trusted_context \<Rightarrow> workflow_spec \<Rightarrow> workflow_instance act" where
  "create_workflow E ctx w =
     bindE (require (ws_workflow_key w \<noteq> [] \<and> length (ws_workflow_key w) \<le> 160) ValidationError) (\<lambda>_.
     bindE (check_project ctx (ws_project_id w)) (\<lambda>_.
     bindE (digest_of E (PDict (ws_input_snapshot w))) (\<lambda>digest.
     bindE (gets (\<lambda>s. find (\<lambda>r. wf_tenant_id r = ctx_tenant_id ctx \<and> wf_workflow_key r = ws_workflow_key w)
        (workflow_instances s))) (\<lambda>existing.
     (case existing of
        Some r \<Rightarrow> bindE (require (wf_input_digest r = digest) ConflictError) (\<lambda>_. ret r)
      | None \<Rightarrow> new_workflow ctx w digest)))))"

definition get_workflow :: "trusted_context \<Rightarrow> uuid \<Rightarrow> workflow_instance act" where
  "get_workflow ctx i =
     bindE (gets (\<lambda>s. find (\<lambda>r. wf_id r = i \<and> wf_tenant_id r = ctx_tenant_id ctx) (workflow_instances s))) (\<lambda>found.
     some_or NotFoundError found)"

section \<open>Agent runs\<close>

definition run_of_node :: "uuid \<Rightarrow> string \<Rightarrow> int \<Rightarrow> db \<Rightarrow> agent_run option" where
  "run_of_node workflow node attempt s =
     find (\<lambda>r. arun_workflow_id r = workflow \<and> arun_node_name r = node \<and> arun_attempt r = attempt) (agent_runs s)"

definition add_agent_run :: "agent_run \<Rightarrow> unit act" where
  "add_agent_run = add_row agent_runs (\<lambda>rows s. s\<lparr>agent_runs := rows\<rparr>) agent_run_check
     (\<lambda>r q. arun_id r = arun_id q \<or> arun_workflow_id r = arun_workflow_id q \<and> arun_node_name r = arun_node_name q \<and>
        arun_attempt r = arun_attempt q)"

definition put_agent_run :: "uuid \<Rightarrow> (agent_run \<Rightarrow> agent_run) \<Rightarrow> unit act" where
  "put_agent_run i f = modify (\<lambda>s. s\<lparr>agent_runs := upd_row arun_id i f (agent_runs s)\<rparr>)"

text \<open>Model, prompt, schema and tool policy versions of a run.\<close>

record run_versions =
  rv_model_id :: string
  rv_prompt_version :: string
  rv_schema_version :: string
  rv_tool_policy_version :: string

definition new_agent_run ::
  "trusted_context \<Rightarrow> uuid \<Rightarrow> string \<Rightarrow> int \<Rightarrow> run_versions \<Rightarrow> string \<Rightarrow> (string \<times> pyval) list \<Rightarrow> agent_run act" where
  "new_agent_run ctx workflow node attempt v input_hash snapshot =
     bindE fresh_uuid (\<lambda>i.
     bindE the_time (\<lambda>now.
     bindE (ret \<lparr>arun_id = i, arun_tenant_id = ctx_tenant_id ctx, arun_workflow_id = workflow, arun_node_name = node,
        arun_attempt = attempt, arun_model_id = rv_model_id v, arun_prompt_version = rv_prompt_version v,
        arun_schema_version = rv_schema_version v, arun_tool_policy_version = rv_tool_policy_version v,
        arun_input_hash = input_hash, arun_input_ref = snapshot, arun_output_ref = None, arun_output_hash = None,
        arun_usage = None, arun_status = RUN_RUNNING, arun_error_code = None, arun_error_message = None,
        arun_started_at = now, arun_completed_at = None, arun_created_at = now\<rparr>) (\<lambda>r.
     bindE (add_agent_run r) (\<lambda>_. ret r))))"

definition start_agent_run ::
  "env \<Rightarrow> trusted_context \<Rightarrow> uuid \<Rightarrow> string \<Rightarrow> int \<Rightarrow> run_versions \<Rightarrow> (string \<times> pyval) list \<Rightarrow> agent_run act" where
  "start_agent_run E ctx workflow node attempt v snapshot =
     bindE (require (1 \<le> attempt \<and> attempt \<le> 3) ValidationError) (\<lambda>_.
     bindE (get_workflow ctx workflow) (\<lambda>_.
     bindE (digest_of E (PDict snapshot)) (\<lambda>input_hash.
     bindE (gets (run_of_node workflow node attempt)) (\<lambda>existing.
     (case existing of
        Some r \<Rightarrow> bindE (require (arun_input_hash r = input_hash) ConflictError) (\<lambda>_. ret r)
      | None \<Rightarrow> new_agent_run ctx workflow node attempt v input_hash snapshot)))))"

definition get_agent_run :: "trusted_context \<Rightarrow> uuid \<Rightarrow> agent_run act" where
  "get_agent_run ctx i =
     bindE (gets (\<lambda>s. find (\<lambda>r. arun_id r = i \<and> arun_tenant_id r = ctx_tenant_id ctx) (agent_runs s))) (\<lambda>found.
     some_or NotFoundError found)"

definition open_run :: "agent_run \<Rightarrow> bool" where
  "open_run r \<longleftrightarrow> arun_status r \<in> {RUN_RUNNING, REPAIRING}"

definition finish_agent_run ::
  "env \<Rightarrow> trusted_context \<Rightarrow> uuid \<Rightarrow> (string \<times> pyval) list \<Rightarrow> ((string \<times> pyval) list) option \<Rightarrow> unit act" where
  "finish_agent_run E ctx i output usage =
     bindE (get_agent_run ctx i) (\<lambda>r.
     bindE (require (open_run r) ConflictError) (\<lambda>_.
     bindE (digest_of E (PDict output)) (\<lambda>digest.
     bindE the_time (\<lambda>now.
     put_agent_run i (\<lambda>r. r\<lparr>arun_output_ref := Some output, arun_output_hash := Some digest, arun_usage := usage,
        arun_status := RUN_SUCCEEDED, arun_completed_at := Some now\<rparr>)))))"

definition fail_agent_run :: "trusted_context \<Rightarrow> uuid \<Rightarrow> string \<Rightarrow> string \<Rightarrow> bool \<Rightarrow> unit act" where
  "fail_agent_run ctx i error_code error_message review_required =
     bindE (get_agent_run ctx i) (\<lambda>_.
     bindE the_time (\<lambda>now.
     put_agent_run i (\<lambda>r. r\<lparr>arun_status := (if review_required then RUN_REVIEW_REQUIRED else RUN_FAILED),
        arun_error_code := Some (take 120 error_code), arun_error_message := Some (take 500 error_message),
        arun_completed_at := Some now\<rparr>)))"

section \<open>Assessments, decisions and drafts\<close>

definition CLASSIFICATIONS :: "string list" where
  "CLASSIFICATIONS = [''IN_SCOPE'', ''POTENTIAL_SCOPE_CHANGE'', ''AMBIGUOUS'', ''PREVIOUSLY_APPROVED'', ''NOT_A_SCOPE_REQUEST'']"

definition COVERAGES :: "string list" where
  "COVERAGES = [''COMPLETE'', ''PARTIAL'', ''UNAVAILABLE'', ''REQUIRES_CLARIFICATION'']"

definition add_assessment :: "scope_assessment \<Rightarrow> unit act" where
  "add_assessment = add_row scope_assessments (\<lambda>rows s. s\<lparr>scope_assessments := rows\<rparr>) scope_assessment_check
     (\<lambda>r q. assess_id r = assess_id q)"

record assessment_spec =
  asp_project_id :: uuid
  asp_workflow_id :: uuid
  asp_classification :: string
  asp_reason :: string
  asp_coverage_status :: string
  asp_input_snapshot :: "(string \<times> pyval) list"
  asp_request_id :: "uuid option"
  asp_evidence_bundle_id :: "uuid option"
  asp_scope_version_id :: "uuid option"
  asp_request_version :: "int option"
  asp_matched_scope_item_ids :: "string list"
  asp_matched_amendment_ids :: "string list"
  asp_pending_request_ids :: "string list"
  asp_required_evidence_queries :: "string list"
  asp_uncertainty :: "string option"

definition record_scope_assessment :: "env \<Rightarrow> trusted_context \<Rightarrow> assessment_spec \<Rightarrow> scope_assessment act" where
  "record_scope_assessment E ctx a =
     bindE (get_project ctx (asp_project_id a)) (\<lambda>_.
     bindE (get_workflow ctx (asp_workflow_id a)) (\<lambda>_.
     bindE (require (asp_classification a \<in> set CLASSIFICATIONS) ValidationError) (\<lambda>_.
     bindE (require (asp_coverage_status a \<in> set COVERAGES) ValidationError) (\<lambda>_.
     bindE fresh_uuid (\<lambda>i.
     bindE the_time (\<lambda>now.
     bindE (digest_of E (PDict (asp_input_snapshot a))) (\<lambda>digest.
     bindE (ret \<lparr>assess_id = i, assess_tenant_id = ctx_tenant_id ctx, assess_project_id = asp_project_id a,
        assess_request_id = asp_request_id a, assess_workflow_id = asp_workflow_id a,
        assess_classification = asp_classification a, assess_reason = asp_reason a,
        assess_evidence_bundle_id = asp_evidence_bundle_id a, assess_scope_version_id = asp_scope_version_id a,
        assess_request_version = asp_request_version a, assess_coverage_status = asp_coverage_status a,
        assess_matched_scope_item_ids = asp_matched_scope_item_ids a,
        assess_matched_amendment_ids = asp_matched_amendment_ids a, assess_pending_request_ids = asp_pending_request_ids a,
        assess_required_evidence_queries = asp_required_evidence_queries a, assess_uncertainty = asp_uncertainty a,
        assess_input_digest = digest, assess_created_at = now\<rparr>) (\<lambda>r.
     bindE (add_assessment r) (\<lambda>_. ret r)))))))))"

fun decision_kind_of :: "string \<Rightarrow> decision_kind option" where
  "decision_kind_of t =
     (if t = ''PROPOSAL_REVIEW'' then Some PROPOSAL_REVIEW
      else if t = ''CLARIFICATION'' then Some CLARIFICATION
      else if t = ''PROJECT_MAPPING'' then Some PROJECT_MAPPING
      else if t = ''INTEGRATION_HEALTH'' then Some INTEGRATION_HEALTH
      else if t = ''ACTION_UNCERTAINTY'' then Some ACTION_UNCERTAINTY else None)"

definition add_decision :: "analysis_decision \<Rightarrow> unit act" where
  "add_decision = add_row analysis_decisions (\<lambda>rows s. s\<lparr>analysis_decisions := rows\<rparr>) (\<lambda>_. True) (\<lambda>r q. dec_id r = dec_id q)"

record decision_spec =
  ds_project_id :: uuid
  ds_workflow_id :: uuid
  ds_kind :: string
  ds_title :: string
  ds_summary :: string
  ds_safe_details :: "(string \<times> pyval) list"
  ds_assessment_id :: "uuid option"
  ds_evidence_bundle_id :: "uuid option"
  ds_request_id :: "uuid option"
  ds_terms_snapshot :: "((string \<times> pyval) list) option"
  ds_trace_summary :: "(string \<times> pyval) list"

definition create_analysis_decision :: "trusted_context \<Rightarrow> decision_spec \<Rightarrow> analysis_decision act" where
  "create_analysis_decision ctx d =
     bindE (get_project ctx (ds_project_id d)) (\<lambda>_.
     bindE (get_workflow ctx (ds_workflow_id d)) (\<lambda>_.
     bindE (some_or ValidationError (decision_kind_of (ds_kind d))) (\<lambda>kind.
     bindE (require (strip (ds_title d) \<noteq> [] \<and> strip (ds_summary d) \<noteq> []) ValidationError) (\<lambda>_.
     bindE fresh_uuid (\<lambda>i.
     bindE the_time (\<lambda>now.
     bindE (ret \<lparr>dec_id = i, dec_tenant_id = ctx_tenant_id ctx, dec_project_id = ds_project_id d,
        dec_request_id = ds_request_id d, dec_workflow_id = ds_workflow_id d, dec_assessment_id = ds_assessment_id d,
        dec_evidence_bundle_id = ds_evidence_bundle_id d, dec_kind = kind, dec_status = DEC_OPEN,
        dec_title = take 240 (ds_title d), dec_summary = take 4000 (ds_summary d), dec_safe_details = ds_safe_details d,
        dec_terms_snapshot = ds_terms_snapshot d, dec_trace_summary = ds_trace_summary d, dec_row_version = 1,
        dec_created_at = now, dec_updated_at = now\<rparr>) (\<lambda>r.
     bindE (add_decision r) (\<lambda>_. ret r))))))))"

definition add_draft :: "analysis_draft_revision \<Rightarrow> unit act" where
  "add_draft = add_row analysis_draft_revisions (\<lambda>rows s. s\<lparr>analysis_draft_revisions := rows\<rparr>) draft_revision_check
     (\<lambda>r q. draft_id r = draft_id q \<or> draft_decision_id r = draft_decision_id q \<and> draft_revision r = draft_revision q)"

definition put_draft :: "uuid \<Rightarrow> (analysis_draft_revision \<Rightarrow> analysis_draft_revision) \<Rightarrow> unit act" where
  "put_draft i f = modify (\<lambda>s. s\<lparr>analysis_draft_revisions := upd_row draft_id i f (analysis_draft_revisions s)\<rparr>)"

definition create_draft_revision ::
  "env \<Rightarrow> trusted_context \<Rightarrow> uuid \<Rightarrow> (string \<times> pyval) list \<Rightarrow> analysis_draft_revision act" where
  "create_draft_revision E ctx decision_id payload =
     bindE (get_analysis_decision ctx decision_id) (\<lambda>decision.
     bindE (gets (\<lambda>s. find (\<lambda>r. draft_decision_id r = decision_id \<and> draft_status r = CURRENT) (analysis_draft_revisions s))) (\<lambda>previous.
     bindE (case previous of None \<Rightarrow> ret () | Some p \<Rightarrow> put_draft (draft_id p) (\<lambda>r. r\<lparr>draft_status := SUPERSEDED\<rparr>)) (\<lambda>_.
     bindE fresh_uuid (\<lambda>i.
     bindE the_time (\<lambda>now.
     bindE (digest_of E (PDict payload)) (\<lambda>digest.
     bindE (ret \<lparr>draft_id = i, draft_tenant_id = ctx_tenant_id ctx, draft_project_id = dec_project_id decision,
        draft_request_id = dec_request_id decision, draft_workflow_id = dec_workflow_id decision, draft_decision_id = decision_id,
        draft_revision = (case previous of None \<Rightarrow> 1 | Some p \<Rightarrow> draft_revision p + 1), draft_content_hash = digest,
        draft_payload = payload, draft_status = CURRENT, draft_created_at = now\<rparr>) (\<lambda>r.
     bindE (add_draft r) (\<lambda>_. ret r))))))))"

section \<open>The budget ledger\<close>

definition DEFAULT_TENANT_TOKEN_LIMIT :: int where "DEFAULT_TENANT_TOKEN_LIMIT = 250000"

definition add_window :: "budget_window \<Rightarrow> unit act" where
  "add_window = add_row budget_windows (\<lambda>rows s. s\<lparr>budget_windows := rows\<rparr>) budget_window_check
     (\<lambda>r q. bwin_id r = bwin_id q \<or> bwin_scope_key r = bwin_scope_key q \<and> bwin_window_start r = bwin_window_start q)"

definition put_window :: "uuid \<Rightarrow> (budget_window \<Rightarrow> budget_window) \<Rightarrow> unit act" where
  "put_window i f =
     modify (\<lambda>s. s\<lparr>budget_windows := upd_row bwin_id i (\<lambda>r. f (r\<lparr>bwin_updated_at := clock s\<rparr>)) (budget_windows s)\<rparr>)"

definition add_reservation :: "budget_reservation \<Rightarrow> unit act" where
  "add_reservation = add_row budget_reservations (\<lambda>rows s. s\<lparr>budget_reservations := rows\<rparr>) budget_reservation_check
     (\<lambda>r q. bres_id r = bres_id q \<or> bres_tenant_id r = bres_tenant_id q \<and> bres_reservation_key r = bres_reservation_key q)"

definition put_reservation :: "uuid \<Rightarrow> (budget_reservation \<Rightarrow> budget_reservation) \<Rightarrow> unit act" where
  "put_reservation i f =
     modify (\<lambda>s. s\<lparr>budget_reservations :=
       upd_row bres_id i (\<lambda>r. f (r\<lparr>bres_updated_at := clock s\<rparr>)) (budget_reservations s)\<rparr>)"

record reservation_request =
  rr_workflow_id :: uuid
  rr_reservation_key :: string
  rr_token_amount :: int
  rr_cost_amount_minor :: int
  rr_window_start :: "int option"
  rr_token_limit :: int
  rr_cost_limit_minor :: "int option"
  rr_scope_key :: "string option"

definition exceeds :: "int \<Rightarrow> int option \<Rightarrow> bool" where
  "exceeds amount limit = (case limit of None \<Rightarrow> False | Some l \<Rightarrow> l < amount)"

text \<open>The ledger row of a scope and a day, opened at the first reservation.\<close>

definition open_window :: "trusted_context \<Rightarrow> string \<Rightarrow> int \<Rightarrow> int \<Rightarrow> int option \<Rightarrow> budget_window act" where
  "open_window ctx scope day token_limit cost_limit =
     bindE fresh_uuid (\<lambda>i.
     bindE the_time (\<lambda>now.
     bindE (ret \<lparr>bwin_id = i, bwin_tenant_id = (if scope = ''deployment'' then None else Some (ctx_tenant_id ctx)),
        bwin_scope_key = scope, bwin_window_start = day, bwin_token_limit = token_limit, bwin_tokens_reserved = 0,
        bwin_tokens_used = 0, bwin_cost_limit_minor = cost_limit, bwin_cost_reserved_minor = 0, bwin_cost_used_minor = 0,
        bwin_created_at = now, bwin_updated_at = now\<rparr>) (\<lambda>w.
     bindE (add_window w) (\<lambda>_. ret w))))"

definition current_window :: "trusted_context \<Rightarrow> string \<Rightarrow> int \<Rightarrow> int \<Rightarrow> int option \<Rightarrow> budget_window act" where
  "current_window ctx scope day token_limit cost_limit =
     bindE (gets (\<lambda>s. find (\<lambda>w. bwin_scope_key w = scope \<and> bwin_window_start w = day) (budget_windows s))) (\<lambda>found.
     (case found of
        None \<Rightarrow> open_window ctx scope day token_limit cost_limit
      | Some w \<Rightarrow>
          bindE (require (bwin_token_limit w = token_limit \<and> bwin_cost_limit_minor w = cost_limit) ConflictError) (\<lambda>_. ret w)))"

definition charge_window :: "trusted_context \<Rightarrow> reservation_request \<Rightarrow> budget_window \<Rightarrow> budget_reservation act" where
  "charge_window ctx q w =
     bindE (require (bwin_tokens_reserved w + bwin_tokens_used w + rr_token_amount q \<le> bwin_token_limit w) ConflictError) (\<lambda>_.
     bindE (require (\<not> exceeds (bwin_cost_reserved_minor w + bwin_cost_used_minor w + rr_cost_amount_minor q)
        (bwin_cost_limit_minor w)) ConflictError) (\<lambda>_.
     bindE (put_window (bwin_id w) (\<lambda>r. r\<lparr>bwin_tokens_reserved := bwin_tokens_reserved r + rr_token_amount q,
        bwin_cost_reserved_minor := bwin_cost_reserved_minor r + rr_cost_amount_minor q\<rparr>)) (\<lambda>_.
     bindE fresh_uuid (\<lambda>i.
     bindE the_time (\<lambda>now.
     bindE (ret \<lparr>bres_id = i, bres_tenant_id = ctx_tenant_id ctx, bres_workflow_id = rr_workflow_id q,
        bres_window_id = bwin_id w, bres_reservation_key = rr_reservation_key q, bres_token_reserved = rr_token_amount q,
        bres_cost_reserved_minor = rr_cost_amount_minor q, bres_token_used = 0, bres_cost_used_minor = 0,
        bres_status = RESERVED, bres_created_at = now, bres_updated_at = now\<rparr>) (\<lambda>r.
     bindE (add_reservation r) (\<lambda>_. ret r)))))))"

definition tenant_scope :: "trusted_context \<Rightarrow> string option \<Rightarrow> string" where
  "tenant_scope ctx scope = (case scope of
      Some v \<Rightarrow> if v = [] then ''tenant:'' @ uuid_str (ctx_tenant_id ctx) else v
    | None \<Rightarrow> ''tenant:'' @ uuid_str (ctx_tenant_id ctx))"

definition reserve_analysis_budget :: "trusted_context \<Rightarrow> reservation_request \<Rightarrow> budget_reservation act" where
  "reserve_analysis_budget ctx q =
     bindE (require (0 < rr_token_amount q \<and> rr_token_amount q \<le> rr_token_limit q) ValidationError) (\<lambda>_.
     bindE (require (0 \<le> rr_cost_amount_minor q \<and> \<not> exceeds (rr_cost_amount_minor q) (rr_cost_limit_minor q)) ValidationError) (\<lambda>_.
     bindE (get_workflow ctx (rr_workflow_id q)) (\<lambda>_.
     bindE the_time (\<lambda>now.
     bindE (current_window ctx (tenant_scope ctx (rr_scope_key q))
        (case rr_window_start q of Some d \<Rightarrow> d | None \<Rightarrow> now div days 1) (rr_token_limit q) (rr_cost_limit_minor q)) (\<lambda>w.
     bindE (gets (\<lambda>s. find (\<lambda>r. bres_tenant_id r = ctx_tenant_id ctx \<and> bres_reservation_key r = rr_reservation_key q)
        (budget_reservations s))) (\<lambda>existing.
     (case existing of
        Some r \<Rightarrow>
          bindE (require (bres_workflow_id r = rr_workflow_id q \<and> bres_token_reserved r = rr_token_amount q \<and>
             bres_cost_reserved_minor r = rr_cost_amount_minor q) ConflictError) (\<lambda>_. ret r)
      | None \<Rightarrow> charge_window ctx q w)))))))"

definition reserve_deployment_budget :: "trusted_context \<Rightarrow> reservation_request \<Rightarrow> budget_reservation act" where
  "reserve_deployment_budget ctx q = reserve_analysis_budget ctx (q\<lparr>rr_scope_key := Some ''deployment''\<rparr>)"

definition reconcile_analysis_budget :: "trusted_context \<Rightarrow> uuid \<Rightarrow> int \<Rightarrow> int \<Rightarrow> unit act" where
  "reconcile_analysis_budget ctx i token_used cost_used =
     bindE (require (0 \<le> token_used \<and> 0 \<le> cost_used) ValidationError) (\<lambda>_.
     bindE (gets (\<lambda>s. find (\<lambda>r. bres_id r = i \<and> bres_tenant_id r = ctx_tenant_id ctx) (budget_reservations s))) (\<lambda>found.
     bindE (some_or NotFoundError found) (\<lambda>r.
     bindE (require (bres_status r = RESERVED) ConflictError) (\<lambda>_.
     bindE (require (token_used \<le> bres_token_reserved r \<and> cost_used \<le> bres_cost_reserved_minor r) ConflictError) (\<lambda>_.
     bindE (gets (\<lambda>s. row_by bwin_id (bres_window_id r) (budget_windows s))) (\<lambda>found_window.
     bindE (some_or NotFoundError found_window) (\<lambda>w.
     bindE (put_window (bwin_id w) (\<lambda>w. w\<lparr>bwin_tokens_reserved := bwin_tokens_reserved w - bres_token_reserved r,
        bwin_cost_reserved_minor := bwin_cost_reserved_minor w - bres_cost_reserved_minor r,
        bwin_tokens_used := bwin_tokens_used w + token_used,
        bwin_cost_used_minor := bwin_cost_used_minor w + cost_used\<rparr>)) (\<lambda>_.
     put_reservation i (\<lambda>r. r\<lparr>bres_token_used := token_used, bres_cost_used_minor := cost_used,
        bres_status := RECONCILED\<rparr>)))))))))"

section \<open>Reading decisions and traces\<close>

fun decision_status_of :: "string \<Rightarrow> decision_status option" where
  "decision_status_of t =
     (if t = ''OPEN'' then Some DEC_OPEN else if t = ''RESOLVED'' then Some DEC_RESOLVED
      else if t = ''DISMISSED'' then Some DEC_DISMISSED else if t = ''STALE'' then Some DEC_STALE else None)"

definition list_analysis_decisions ::
  "trusted_context \<Rightarrow> string option \<Rightarrow> uuid option \<Rightarrow> nat \<Rightarrow> analysis_decision list act" where
  "list_analysis_decisions ctx status project limit =
     bindE (require (1 \<le> limit \<and> limit \<le> 100) ValidationError) (\<lambda>_.
     bindE (case status of None \<Rightarrow> ret None | Some t \<Rightarrow> bindE (some_or ValidationError (decision_status_of t)) (\<lambda>v. ret (Some v))) (\<lambda>st.
     bindE (check_project ctx project) (\<lambda>_.
     gets (\<lambda>s. take limit (sort_key (\<lambda>d. - dec_created_at d)
       (filter (\<lambda>d. dec_tenant_id d = ctx_tenant_id ctx \<and> (case st of None \<Rightarrow> True | Some v \<Rightarrow> dec_status d = v) \<and>
          (case project of None \<Rightarrow> True | Some p \<Rightarrow> dec_project_id d = p)) (analysis_decisions s)))))))"

definition get_decision_evidence :: "trusted_context \<Rightarrow> uuid \<Rightarrow> evidence_reference list act" where
  "get_decision_evidence ctx i =
     bindE (get_analysis_decision ctx i) (\<lambda>d.
     (case dec_evidence_bundle_id d of
        None \<Rightarrow> ret []
      | Some b \<Rightarrow> gets (\<lambda>s. sort_key eref_fetched_at
          (filter (\<lambda>r. eref_tenant_id r = ctx_tenant_id ctx \<and> eref_project_id r = dec_project_id d \<and> eref_bundle_id r = b)
             (evidence_references s)))))"

fun workflow_state_value :: "workflow_state \<Rightarrow> string" where
  "workflow_state_value WF_RUNNING = ''RUNNING''"
| "workflow_state_value WF_SUCCEEDED = ''SUCCEEDED''"
| "workflow_state_value WF_FAILED = ''FAILED''"
| "workflow_state_value WF_REVIEW_REQUIRED = ''REVIEW_REQUIRED''"
| "workflow_state_value WF_CANCELLED = ''CANCELLED''"

fun run_status_value :: "run_status \<Rightarrow> string" where
  "run_status_value RUN_RUNNING = ''RUNNING''"
| "run_status_value RUN_SUCCEEDED = ''SUCCEEDED''"
| "run_status_value REPAIRING = ''REPAIRING''"
| "run_status_value RUN_FAILED = ''FAILED''"
| "run_status_value RUN_REVIEW_REQUIRED = ''REVIEW_REQUIRED''"

definition trace_stage :: "agent_run \<Rightarrow> pyval" where
  "trace_stage r = PDict [(''role'', PStr (arun_node_name r)), (''status'', PStr (run_status_value (arun_status r))),
     (''attempt'', PInt (arun_attempt r)), (''usage'', PDict (case arun_usage r of None \<Rightarrow> [] | Some u \<Rightarrow> u)),
     (''error_code'', nullable_str (arun_error_code r)), (''started_at'', PStr (isoformat (arun_started_at r))),
     (''completed_at'', nullable_str (map_option isoformat (arun_completed_at r)))]"

definition get_workflow_trace :: "trusted_context \<Rightarrow> uuid \<Rightarrow> (string \<times> pyval) list act" where
  "get_workflow_trace ctx i =
     bindE (get_workflow ctx i) (\<lambda>w.
     gets (\<lambda>s. [(''workflow_id'', PStr (uuid_str (wf_id w))), (''state'', PStr (workflow_state_value (wf_state w))),
       (''current_phase'', nullable_str (wf_current_phase w)), (''policy_version'', nullable_str (wf_policy_version w)),
       (''stages'', PList (map trace_stage (sort_key (\<lambda>r. (arun_created_at r, arun_node_name r, arun_attempt r))
          (filter (\<lambda>r. arun_tenant_id r = ctx_tenant_id ctx \<and> arun_workflow_id r = i) (agent_runs s)))))]))"

section \<open>Evaluation runs\<close>

definition evaluation_key :: "evaluation_run \<Rightarrow> string \<times> string \<times> int \<times> string \<times> string \<times> string" where
  "evaluation_key r = (evrun_dataset_version r, evrun_split r, evrun_run_number r, evrun_model_version r,
     evrun_prompt_version r, evrun_tool_policy_version r)"

definition add_evaluation :: "evaluation_run \<Rightarrow> unit act" where
  "add_evaluation = add_row evaluation_runs (\<lambda>rows s. s\<lparr>evaluation_runs := rows\<rparr>) evaluation_run_check
     (\<lambda>r q. evrun_id r = evrun_id q \<or> evaluation_key r = evaluation_key q)"

definition record_evaluation_run ::
  "string \<Rightarrow> string \<Rightarrow> int \<Rightarrow> string \<Rightarrow> string \<Rightarrow> string \<Rightarrow> (string \<times> pyval) list \<Rightarrow> evaluation_run act" where
  "record_evaluation_run dataset_version split_name run_number model_version prompt_version tool_policy_version metrics =
     bindE (require (split_name \<in> {''development'', ''held_out''} \<and> 1 \<le> run_number \<and> run_number \<le> 3) ValidationError) (\<lambda>_.
     bindE (require (dataset_version \<noteq> [] \<and> model_version \<noteq> [] \<and> prompt_version \<noteq> [] \<and> tool_policy_version \<noteq> []) ValidationError) (\<lambda>_.
     bindE (gets (\<lambda>s. find (\<lambda>r. evaluation_key r =
        (dataset_version, split_name, run_number, model_version, prompt_version, tool_policy_version)) (evaluation_runs s))) (\<lambda>existing.
     (case existing of
        Some q \<Rightarrow> bindE (require (set (evrun_metrics q) = set metrics) ConflictError) (\<lambda>_. ret q)
      | None \<Rightarrow>
          bindE fresh_uuid (\<lambda>i.
          bindE the_time (\<lambda>now.
          bindE (ret \<lparr>evrun_id = i, evrun_dataset_version = dataset_version, evrun_split = split_name, evrun_run_number = run_number,
             evrun_model_version = model_version, evrun_prompt_version = prompt_version,
             evrun_tool_policy_version = tool_policy_version, evrun_metrics = metrics,
             evrun_passed = truthy (dict_get_default metrics ''passed'' (PBool False)), evrun_created_at = now\<rparr>) (\<lambda>r.
          bindE (add_evaluation r) (\<lambda>_. ret r))))))))"

section \<open>Limits of one preparation\<close>

text \<open>Seconds of the monotonic clock are read as rational numbers.\<close>

definition MAX_PREPARATION_SECONDS :: rat where "MAX_PREPARATION_SECONDS = 180"
definition MAX_NODE_SECONDS :: rat where "MAX_NODE_SECONDS = 60"
definition MAX_TOOL_SECONDS :: rat where "MAX_TOOL_SECONDS = 15"
definition MAX_READ_CALLS :: int where "MAX_READ_CALLS = 20"
definition MAX_INPUT_TOKENS :: int where "MAX_INPUT_TOKENS = 40000"
definition MAX_OUTPUT_TOKENS :: int where "MAX_OUTPUT_TOKENS = 8000"
definition MAX_JOB_ATTEMPTS :: int where "MAX_JOB_ATTEMPTS = 3"
definition MAX_REPAIRS :: int where "MAX_REPAIRS = 1"

record analysis_limits =
  lim_deadline_seconds :: rat
  lim_max_read_calls :: int
  lim_max_input_tokens :: int
  lim_max_output_tokens :: int
  lim_max_attempts :: int
  lim_max_repairs :: int
  lim_started_at :: rat
  lim_read_calls :: int
  lim_input_tokens :: int
  lim_output_tokens :: int
  lim_attempts :: int
  lim_repairs :: int

definition default_limits :: analysis_limits where
  "default_limits = \<lparr>lim_deadline_seconds = MAX_PREPARATION_SECONDS, lim_max_read_calls = MAX_READ_CALLS,
     lim_max_input_tokens = MAX_INPUT_TOKENS, lim_max_output_tokens = MAX_OUTPUT_TOKENS, lim_max_attempts = MAX_JOB_ATTEMPTS,
     lim_max_repairs = MAX_REPAIRS, lim_started_at = 0, lim_read_calls = 0, lim_input_tokens = 0, lim_output_tokens = 0, lim_attempts = 0, lim_repairs = 0\<rparr>"

text \<open>
  The methods of \<open>AnalysisLimits\<close> mutate the object and may raise after the update: programs
  over the object, with the clock \<open>now\<close> where one reads it.
\<close>

type_synonym 'a limited = "(analysis_limits, exn, 'a) prog"

definition limits_of :: "rat \<Rightarrow> analysis_limits \<Rightarrow> exn + analysis_limits" where
  "limits_of now l =
     (let l' = (if lim_started_at l = 0 then l\<lparr>lim_started_at := now\<rparr> else l)
      in if lim_deadline_seconds l' \<le> 0 \<or> lim_deadline_seconds l' > MAX_PREPARATION_SECONDS then Inl ValidationError else Inr l')"

definition check_deadline :: "rat \<Rightarrow> unit limited" where
  "check_deadline now =
     bindE (gets (\<lambda>l. now - lim_started_at l > lim_deadline_seconds l)) (\<lambda>late. require (\<not> late) ConflictError)"

definition start_attempt :: "rat \<Rightarrow> unit limited" where
  "start_attempt now =
     bindE (check_deadline now) (\<lambda>_.
     bindE (modify (\<lambda>l. l\<lparr>lim_attempts := lim_attempts l + 1\<rparr>)) (\<lambda>_.
     bindE (gets (\<lambda>l. lim_attempts l > lim_max_attempts l)) (\<lambda>over. require (\<not> over) ConflictError)))"

definition record_read :: "int \<Rightarrow> unit limited" where
  "record_read reads =
     bindE (require (0 \<le> reads) ValidationError) (\<lambda>_.
     bindE (modify (\<lambda>l. l\<lparr>lim_read_calls := lim_read_calls l + reads\<rparr>)) (\<lambda>_.
     bindE (gets (\<lambda>l. lim_read_calls l > lim_max_read_calls l)) (\<lambda>over. require (\<not> over) ConflictError)))"

definition record_usage :: "int \<Rightarrow> int \<Rightarrow> unit limited" where
  "record_usage new_input new_output =
     bindE (require (0 \<le> new_input \<and> 0 \<le> new_output) ValidationError) (\<lambda>_.
     bindE (modify (\<lambda>l. l\<lparr>lim_input_tokens := lim_input_tokens l + new_input, lim_output_tokens := lim_output_tokens l + new_output\<rparr>)) (\<lambda>_.
     bindE (gets (\<lambda>l. lim_input_tokens l > lim_max_input_tokens l)) (\<lambda>over.
     bindE (require (\<not> over) ConflictError) (\<lambda>_.
     bindE (gets (\<lambda>l. lim_output_tokens l > lim_max_output_tokens l)) (\<lambda>over. require (\<not> over) ConflictError)))))"

definition record_repair :: "unit limited" where
  "record_repair =
     bindE (modify (\<lambda>l. l\<lparr>lim_repairs := lim_repairs l + 1\<rparr>)) (\<lambda>_.
     bindE (gets (\<lambda>l. lim_repairs l > lim_max_repairs l)) (\<lambda>over. require (\<not> over) ConflictError))"

record analysis_usage =
  used_read_calls :: int
  used_input_tokens :: int
  used_output_tokens :: int
  used_attempts :: int
  used_repairs :: int

definition usage_snapshot :: "analysis_limits \<Rightarrow> analysis_usage" where
  "usage_snapshot l = \<lparr>used_read_calls = lim_read_calls l, used_input_tokens = lim_input_tokens l, used_output_tokens = lim_output_tokens l,
     used_attempts = lim_attempts l, used_repairs = lim_repairs l\<rparr>"

definition total_tokens :: "analysis_usage \<Rightarrow> int" where
  "total_tokens u = used_input_tokens u + used_output_tokens u"

definition validate_tool_timeout :: "rat \<Rightarrow> exn + unit" where
  "validate_tool_timeout t = (if t \<le> 0 \<or> t > MAX_TOOL_SECONDS then Inl ValidationError else Inr ())"

definition validate_node_timeout :: "rat \<Rightarrow> exn + unit" where
  "validate_node_timeout t = (if t \<le> 0 \<or> t > MAX_NODE_SECONDS then Inl ValidationError else Inr ())"

section \<open>Reviewed model prices\<close>

record model_price =
  input_minor_per_1k :: int
  output_minor_per_1k :: int

definition model_price_of :: "int \<Rightarrow> int \<Rightarrow> exn + model_price" where
  "model_price_of i j = (if i < 0 \<or> j < 0 then Inl ValidationError
     else Inr \<lparr>input_minor_per_1k = i, output_minor_per_1k = j\<rparr>)"

record reviewed_prices =
  prices_version :: string
  reviewed_at :: time
  model_prices :: "(string \<times> model_price) list"
  max_age_days :: int

text \<open>\<open>aware\<close>: the timestamp given carries a time zone.\<close>

definition reviewed_prices_of ::
  "string \<Rightarrow> time \<Rightarrow> bool \<Rightarrow> (string \<times> model_price) list \<Rightarrow> int \<Rightarrow> exn + reviewed_prices" where
  "reviewed_prices_of version at_time aware prices age =
     (if version = [] \<or> age \<le> 0 then Inl ValidationError
      else if \<not> aware then Inl ValidationError
      else Inr \<lparr>prices_version = version, reviewed_at = at_time, model_prices = prices, max_age_days = age\<rparr>)"

definition for_model :: "reviewed_prices \<Rightarrow> string \<Rightarrow> time \<Rightarrow> exn + model_price" where
  "for_model r model observed =
     (if observed - reviewed_at r > days (max_age_days r) then Inl ConflictError
      else (case map_of (model_prices r) model of None \<Rightarrow> Inl ConflictError | Some p \<Rightarrow> Inr p))"

definition cost_minor :: "reviewed_prices \<Rightarrow> string \<Rightarrow> int \<Rightarrow> int \<Rightarrow> time \<Rightarrow> exn + int" where
  "cost_minor r model new_input new_output observed =
     (if new_input < 0 \<or> new_output < 0 then Inl ValidationError
      else (case for_model r model observed of
          Inl e \<Rightarrow> Inl e
        | Inr p \<Rightarrow> Inr \<lceil>round28 (round28 (round28 (of_int (new_input * input_minor_per_1k p)) +
            round28 (of_int (new_output * output_minor_per_1k p))) / 1000)\<rceil>))"

end
