(* ===== verification/Budgets.thy ===== *)
theory Budgets
  imports Analysis
begin

text \<open>
  The ledger of analysis budgets balances: what a window has reserved is what its open
  reservations hold, and reserved and used amounts stay within its limits, whatever reservations
  and reconciliations follow each other.
\<close>

section \<open>The balance\<close>

definition outstanding :: "(budget_reservation \<Rightarrow> int) \<Rightarrow> uuid \<Rightarrow> budget_reservation list \<Rightarrow> int" where
  "outstanding amount w rs = sum_list (map amount (filter (\<lambda>r. bres_window_id r = w \<and> bres_status r = RESERVED) rs))"

definition balanced :: "budget_reservation list \<Rightarrow> budget_window \<Rightarrow> bool" where
  "balanced rs w \<longleftrightarrow>
     bwin_tokens_reserved w = outstanding bres_token_reserved (bwin_id w) rs \<and>
     bwin_cost_reserved_minor w = outstanding bres_cost_reserved_minor (bwin_id w) rs \<and>
     0 \<le> bwin_tokens_used w \<and> 0 \<le> bwin_cost_used_minor w \<and>
     bwin_tokens_reserved w + bwin_tokens_used w \<le> bwin_token_limit w \<and>
     \<not> exceeds (bwin_cost_reserved_minor w + bwin_cost_used_minor w) (bwin_cost_limit_minor w)"

definition ledger_ok :: "db \<Rightarrow> bool" where
  "ledger_ok s \<longleftrightarrow>
     distinct (map bwin_id (budget_windows s)) \<and> distinct (map bres_id (budget_reservations s)) \<and>
     list_all (balanced (budget_reservations s)) (budget_windows s) \<and>
     list_all (\<lambda>r. 0 < bres_token_reserved r \<and> 0 \<le> bres_cost_reserved_minor r \<and>
        bres_window_id r \<in> bwin_id ` set (budget_windows s)) (budget_reservations s)"

lemma outstanding_append: "outstanding f w (rs @ qs) = outstanding f w rs + outstanding f w qs"
  by (simp add: outstanding_def)

lemma outstanding_none: "\<forall>r\<in>set rs. bres_window_id r \<noteq> w \<Longrightarrow> outstanding f w rs = 0"
  by (simp add: outstanding_def filter_False)

lemma outstanding_closed:
  assumes "row_by bres_id i rs = Some r" and "bres_status r = RESERVED" and "bres_status (g r) \<noteq> RESERVED"
  shows "outstanding f w (upd_row bres_id i g rs) = outstanding f w rs - (if bres_window_id r = w then f r else 0)"
  using assms by (induction rs) (auto simp: outstanding_def split: if_splits)

lemma balanced_open:
  assumes "ledger_ok s" and "row_by bwin_id i (budget_windows s) = Some w"
  shows "balanced (budget_reservations s) w"
  using assms by (auto simp: ledger_ok_def list_all_iff dest: row_by_SomeD)

section \<open>The operations\<close>

lemma ledger_same:
  "budget_windows t = budget_windows s \<Longrightarrow> budget_reservations t = budget_reservations s \<Longrightarrow> ledger_ok t = ledger_ok s"
  by (simp add: ledger_ok_def)

lemma current_window_ok:
  assumes "current_window ctx scope day token_limit cost_limit s = (Inr w, t)" and "ledger_ok s"
  shows "ledger_ok t \<and> row_by bwin_id (bwin_id w) (budget_windows t) = Some w \<and> budget_reservations t = budget_reservations s"
proof (cases "find (\<lambda>w. bwin_scope_key w = scope \<and> bwin_window_start w = day) (budget_windows s)")
  case (Some q)
  then have "w = q" "t = s" "q \<in> set (budget_windows s)"
    using assms(1) find_SomeD [OF Some] by (auto simp: current_window_def run_bindE require_def split: if_splits)
  then show ?thesis using assms(2) by (auto simp: ledger_ok_def intro: row_by_distinct)
next
  case None
  then have t: "budget_windows t = budget_windows s @ [w]" "budget_reservations t = budget_reservations s"
    and fresh: "\<forall>q\<in>set (budget_windows s). bwin_id q \<noteq> bwin_id w" and check: "budget_window_check w"
    and zero: "bwin_tokens_reserved w = 0" "bwin_tokens_used w = 0" "bwin_cost_reserved_minor w = 0" "bwin_cost_used_minor w = 0"
    using assms(1) by (auto simp: current_window_def open_window_def add_window_def run_bindE run_add_row list_ex_iff split: if_splits)
  have "\<forall>r\<in>set (budget_reservations s). bres_window_id r \<noteq> bwin_id w"
    using assms(2) fresh by (auto simp: ledger_ok_def list_all_iff)
  then have "balanced (budget_reservations s) w"
    using check by (auto simp: balanced_def zero outstanding_none budget_window_check_def exceeds_def split: option.splits)
  moreover have "row_by bwin_id (bwin_id w) (budget_windows s) = None" using fresh by (simp add: row_by_None_iff)
  ultimately show ?thesis using assms(2) fresh by (auto simp: ledger_ok_def t list_all_iff row_by_append)
qed

lemma charge_window_ok:
  assumes run: "charge_window ctx q w s = (Inr r, t)" and ok: "ledger_ok s"
    and row: "row_by bwin_id (bwin_id w) (budget_windows s) = Some w"
    and amount: "0 < rr_token_amount q" "0 \<le> rr_cost_amount_minor q"
  shows "ledger_ok t"
proof -
  let ?f = "\<lambda>r. r\<lparr>bwin_updated_at := clock s, bwin_tokens_reserved := bwin_tokens_reserved r + rr_token_amount q,
      bwin_cost_reserved_minor := bwin_cost_reserved_minor r + rr_cost_amount_minor q\<rparr>"
  from run have t: "budget_windows t = upd_row bwin_id (bwin_id w) ?f (budget_windows s)"
      "budget_reservations t = budget_reservations s @ [r]"
    and fresh: "\<forall>p\<in>set (budget_reservations s). bres_id p \<noteq> bres_id r"
    and r: "bres_window_id r = bwin_id w" "bres_token_reserved r = rr_token_amount q"
      "bres_cost_reserved_minor r = rr_cost_amount_minor q" "bres_status r = RESERVED"
    and fits: "bwin_tokens_reserved w + bwin_tokens_used w + rr_token_amount q \<le> bwin_token_limit w"
      "\<not> exceeds (bwin_cost_reserved_minor w + bwin_cost_used_minor w + rr_cost_amount_minor q) (bwin_cost_limit_minor w)"
    by (auto simp: charge_window_def put_window_def add_reservation_def run_bindE run_add_row require_def list_ex_iff
        split: if_splits)
  have distinct: "distinct (map bwin_id (budget_windows s))" using ok by (simp add: ledger_ok_def)
  have one: "outstanding f i (budget_reservations s @ [r]) =
      outstanding f i (budget_reservations s) + (if i = bwin_id w then f r else 0)" for f i
    by (simp add: outstanding_append) (simp add: outstanding_def r)
  have "balanced (budget_reservations s @ [r]) p" if "p \<in> set (budget_windows t)" for p
  proof -
    from that distinct obtain p0 where p0: "p0 \<in> set (budget_windows s)" "p = (if bwin_id p0 = bwin_id w then ?f p0 else p0)"
      by (auto simp: t upd_row_is_map)
    moreover have "balanced (budget_reservations s) p0" using ok p0(1) by (simp add: ledger_ok_def list_all_iff)
    moreover have "p0 = w" if "bwin_id p0 = bwin_id w"
      using that p0(1) row distinct by (metis option.inject row_by_distinct)
    ultimately show ?thesis using fits by (auto simp: balanced_def one r add.assoc algebra_simps)
  qed
  moreover have "bwin_id ` set (budget_windows t) = bwin_id ` set (budget_windows s)"
    unfolding t by (simp add: map_upd_row flip: set_map)
  ultimately show ?thesis
    using ok fresh amount row_by_SomeD [OF row] unfolding ledger_ok_def
    by (auto simp: t map_upd_row list_all_iff r)
qed

lemma reserve_ok:
  assumes run: "reserve_analysis_budget ctx q s = (Inr r, t)" and ok: "ledger_ok s"
  shows "ledger_ok t"
  using run unfolding reserve_analysis_budget_def get_workflow_def
proof (elim bindE_InrE, goal_cases)
  case prems: (1 _ s1 _ s2 wf s3 w0 s4 now s5 w s6 existing s7)
  then have same: "s5 = s" and amount: "0 < rr_token_amount q" "0 \<le> rr_cost_amount_minor q"
    by (auto simp: require_def some_or_def split: if_splits option.splits)
  from prems same obtain d where "current_window ctx (tenant_scope ctx (rr_scope_key q)) d (rr_token_limit q) (rr_cost_limit_minor q) s = (Inr w, s6)"
    by blast
  from current_window_ok [OF this ok] have w: "ledger_ok s6" "row_by bwin_id (bwin_id w) (budget_windows s6) = Some w" by simp_all
  from prems(7) have "s7 = s6" by simp
  with prems(8) w amount show ?case
    by (cases existing) (auto simp: run_bindE require_def intro: charge_window_ok split: if_splits)
qed

lemma reconcile_ok:
  assumes run: "reconcile_analysis_budget ctx i tokens costs s = (Inr u, t)" and ok: "ledger_ok s"
  shows "ledger_ok t"
proof -
  from run obtain r w where r: "find (\<lambda>r. bres_id r = i \<and> bres_tenant_id r = ctx_tenant_id ctx) (budget_reservations s) = Some r"
    and reserved: "bres_status r = RESERVED"
    and used: "0 \<le> tokens" "0 \<le> costs" "tokens \<le> bres_token_reserved r" "costs \<le> bres_cost_reserved_minor r"
    and w: "row_by bwin_id (bres_window_id r) (budget_windows s) = Some w"
    and t: "t = s\<lparr>budget_windows := upd_row bwin_id (bwin_id w) (\<lambda>p. p\<lparr>bwin_updated_at := clock s,
          bwin_tokens_reserved := bwin_tokens_reserved p - bres_token_reserved r,
          bwin_cost_reserved_minor := bwin_cost_reserved_minor p - bres_cost_reserved_minor r,
          bwin_tokens_used := bwin_tokens_used p + tokens, bwin_cost_used_minor := bwin_cost_used_minor p + costs\<rparr>) (budget_windows s),
        budget_reservations := upd_row bres_id i (\<lambda>p. p\<lparr>bres_updated_at := clock s, bres_token_used := tokens,
          bres_cost_used_minor := costs, bres_status := RECONCILED\<rparr>) (budget_reservations s)\<rparr>"
    by (auto simp: reconcile_analysis_budget_def put_window_def put_reservation_def run_bindE require_def some_or_def
        split: if_splits option.splits)
  let ?f = "\<lambda>p. p\<lparr>bwin_updated_at := clock s,
          bwin_tokens_reserved := bwin_tokens_reserved p - bres_token_reserved r,
          bwin_cost_reserved_minor := bwin_cost_reserved_minor p - bres_cost_reserved_minor r,
          bwin_tokens_used := bwin_tokens_used p + tokens, bwin_cost_used_minor := bwin_cost_used_minor p + costs\<rparr>"
  let ?g = "\<lambda>p. p\<lparr>bres_updated_at := clock s, bres_token_used := tokens, bres_cost_used_minor := costs, bres_status := RECONCILED\<rparr>"
  have row: "row_by bres_id i (budget_reservations s) = Some r"
    using ok find_SomeD [OF r] row_by_distinct [of bres_id "budget_reservations s" r] by (simp add: ledger_ok_def)
  have wid: "bwin_id w = bres_window_id r" using row_by_SomeD [OF w] by simp
  have closed_sum: "outstanding f k (upd_row bres_id i ?g (budget_reservations s)) =
      outstanding f k (budget_reservations s) - (if bres_window_id r = k then f r else 0)" for f k
    by (rule outstanding_closed [OF row reserved]) simp
  have distinct: "distinct (map bwin_id (budget_windows s))" using ok by (simp add: ledger_ok_def)
  have "balanced (budget_reservations t) p" if "p \<in> set (budget_windows t)" for p
  proof -
    from that distinct obtain p0 where p0: "p0 \<in> set (budget_windows s)" "p = (if bwin_id p0 = bwin_id w then ?f p0 else p0)"
      by (auto simp: t upd_row_is_map)
    moreover have "balanced (budget_reservations s) p0" using ok p0(1) by (simp add: ledger_ok_def list_all_iff)
    ultimately show ?thesis using used
      by (auto simp: balanced_def t closed_sum wid exceeds_def split: option.splits)
  qed
  moreover have "bwin_id ` set (budget_windows t) = bwin_id ` set (budget_windows s)"
    unfolding t by (simp add: map_upd_row flip: set_map)
  ultimately show ?thesis
    using ok unfolding ledger_ok_def by (auto simp: t map_upd_row list_all_iff dest!: set_upd_row row_by_SomeD)
qed

section \<open>Runs\<close>

text \<open>Budget requests of any tenants, each a transaction.\<close>

inductive budget_steps :: "db \<Rightarrow> db \<Rightarrow> bool" where
  start: "budget_steps s s"
| reserve: "budget_steps s t \<Longrightarrow> budget_steps s (snd (atomically (reserve_analysis_budget ctx q) t))"
| deployment: "budget_steps s t \<Longrightarrow> budget_steps s (snd (atomically (reserve_deployment_budget ctx q) t))"
| reconcile: "budget_steps s t \<Longrightarrow> budget_steps s (snd (atomically (reconcile_analysis_budget ctx i tokens costs) t))"

lemma atomically_ledger:
  assumes "\<And>x t. m s = (Inr x, t) \<Longrightarrow> ledger_ok t" and "ledger_ok s"
  shows "ledger_ok (snd (atomically m s))"
  using assms by (auto simp: run_atomically split: prod.split sum.split)

lemma budget_steps_ok: "budget_steps s t \<Longrightarrow> ledger_ok s \<Longrightarrow> ledger_ok t"
  by (induction rule: budget_steps.induct)
     (auto intro!: atomically_ledger intro: reserve_ok reconcile_ok simp: reserve_deployment_budget_def)

text \<open>C28: Budgets are never overdrawn. Starting from an empty ledger, whatever reservations and
reconciliations follow, of any tenants and in any order, every window holds in reserve exactly what
its open reservations ask for, and reserved and used tokens and costs together stay within its limits.\<close>

theorem budget_within_limits:
  assumes "budget_steps s t" and "budget_windows s = []" and "budget_reservations s = []"
  shows "\<forall>w\<in>set (budget_windows t).
     bwin_tokens_reserved w = outstanding bres_token_reserved (bwin_id w) (budget_reservations t) \<and>
     bwin_cost_reserved_minor w = outstanding bres_cost_reserved_minor (bwin_id w) (budget_reservations t) \<and>
     0 \<le> bwin_tokens_reserved w \<and> 0 \<le> bwin_tokens_used w \<and>
     bwin_tokens_reserved w + bwin_tokens_used w \<le> bwin_token_limit w \<and>
     0 \<le> bwin_cost_reserved_minor w \<and> 0 \<le> bwin_cost_used_minor w \<and>
     \<not> exceeds (bwin_cost_reserved_minor w + bwin_cost_used_minor w) (bwin_cost_limit_minor w)"
proof -
  have "ledger_ok s" using assms(2,3) by (simp add: ledger_ok_def)
  then have ok: "ledger_ok t" by (rule budget_steps_ok [OF assms(1)])
  then have "0 \<le> outstanding bres_token_reserved i (budget_reservations t)"
    "0 \<le> outstanding bres_cost_reserved_minor i (budget_reservations t)" for i
    by (auto simp: outstanding_def ledger_ok_def list_all_iff intro!: sum_list_nonneg) force+
  with ok show ?thesis by (auto simp: ledger_ok_def balanced_def list_all_iff)
qed

definition budget_demo :: db where
  "budget_demo = empty_db\<lparr>workflow_instances := [\<lparr>wf_id = 50, wf_tenant_id = 5, wf_project_id = None, wf_workflow_key = ''w'',
     wf_input_digest = [], wf_state = WF_RUNNING, wf_budget_minor = None, wf_reserved_minor = 0, wf_current_job_id = None,
     wf_request_id = None, wf_scope_version_id = None, wf_preference_version_id = None, wf_current_phase = None,
     wf_policy_version = None, wf_correlation_id = None, wf_row_version = 1, wf_created_at = 0, wf_updated_at = 0\<rparr>]\<rparr>"

definition budget_owner :: trusted_context where
  "budget_owner = \<lparr>ctx_tenant_id = 5, ctx_subject = ''s1'', ctx_email = ''o@x'', ctx_email_verified = True, ctx_correlation_id = 9\<rparr>"

definition budget_request :: reservation_request where
  "budget_request = \<lparr>rr_workflow_id = 50, rr_reservation_key = ''k'', rr_token_amount = 1000, rr_cost_amount_minor = 20,
     rr_window_start = None, rr_token_limit = 1500, rr_cost_limit_minor = Some 30, rr_scope_key = None\<rparr>"

text \<open>A reservation that is reconciled with 600 tokens leaves 600 used, and a second one of 1000 does not fit.\<close>

theorem budget_within_limits_witness:
  "\<exists>t. budget_steps budget_demo t \<and> map bwin_tokens_used (budget_windows t) = [600] \<and>
     fst (reserve_analysis_budget budget_owner (budget_request\<lparr>rr_reservation_key := ''k2''\<rparr>) t) = Inl ConflictError \<and>
     (\<forall>w\<in>set (budget_windows t). bwin_tokens_reserved w + bwin_tokens_used w \<le> bwin_token_limit w)"
proof -
  let ?s1 = "snd (atomically (reserve_analysis_budget budget_owner budget_request) budget_demo)"
  let ?t = "snd (atomically (reconcile_analysis_budget budget_owner 2 600 5) ?s1)"
  have steps: "budget_steps budget_demo ?t" by (intro budget_steps.intros)
  have empty: "budget_windows budget_demo = []" "budget_reservations budget_demo = []"
    by (simp_all add: budget_demo_def empty_db_def)
  have "map bwin_tokens_used (budget_windows ?t) = [600]" by code_simp
  moreover have "error_of (reserve_analysis_budget budget_owner (budget_request\<lparr>rr_reservation_key := ''k2''\<rparr>) ?t) = Some ConflictError"
    by code_simp
  then have "fst (reserve_analysis_budget budget_owner (budget_request\<lparr>rr_reservation_key := ''k2''\<rparr>) ?t) = Inl ConflictError"
    by (auto elim: error_of.elims)
  moreover have "\<forall>w\<in>set (budget_windows ?t). bwin_tokens_reserved w + bwin_tokens_used w \<le> bwin_token_limit w"
    using budget_within_limits [OF steps empty] by blast
  ultimately show ?thesis using steps by (intro exI [of _ ?t]) simp
qed

end
