(* ===== verification/Preparation.thy ===== *)
theory Preparation
  imports Analysis
begin

text \<open>
  The preparation of one analysis: the validated outputs of the reasoning roles
  (\<open>services/agents/schemas.py\<close>), the checks of what they cite (\<open>validation.py\<close>), the evidence gate
  and the frozen terms (\<open>gates.py\<close>), and the workflow that stores a decision and, for a proposal, a
  draft (\<open>workflow.py\<close>). The roles themselves are calls to a model; their outputs are inputs here.
\<close>

section \<open>Role outputs\<close>

datatype classification = IN_SCOPE | POTENTIAL_SCOPE_CHANGE | AMBIGUOUS | PREVIOUSLY_APPROVED | NOT_A_SCOPE_REQUEST
datatype coverage = COMPLETE | PARTIAL | UNAVAILABLE | REQUIRES_CLARIFICATION
datatype uncertainty = LOW | MEDIUM | HIGH
datatype relation = SUPPORTS | CONTRADICTS | CONTEXT
datatype route = TO_PROPOSAL | COVERED | TO_CLARIFICATION | NO_ACTION

fun classification_value :: "classification \<Rightarrow> string" where
  "classification_value IN_SCOPE = ''IN_SCOPE''"
| "classification_value POTENTIAL_SCOPE_CHANGE = ''POTENTIAL_SCOPE_CHANGE''"
| "classification_value AMBIGUOUS = ''AMBIGUOUS''"
| "classification_value PREVIOUSLY_APPROVED = ''PREVIOUSLY_APPROVED''"
| "classification_value NOT_A_SCOPE_REQUEST = ''NOT_A_SCOPE_REQUEST''"

fun coverage_value :: "coverage \<Rightarrow> string" where
  "coverage_value COMPLETE = ''COMPLETE''"
| "coverage_value PARTIAL = ''PARTIAL''"
| "coverage_value UNAVAILABLE = ''UNAVAILABLE''"
| "coverage_value REQUIRES_CLARIFICATION = ''REQUIRES_CLARIFICATION''"

fun uncertainty_value :: "uncertainty \<Rightarrow> string" where
  "uncertainty_value LOW = ''LOW''"
| "uncertainty_value MEDIUM = ''MEDIUM''"
| "uncertainty_value HIGH = ''HIGH''"

fun relation_value :: "relation \<Rightarrow> string" where
  "relation_value SUPPORTS = ''SUPPORTS''"
| "relation_value CONTRADICTS = ''CONTRADICTS''"
| "relation_value CONTEXT = ''CONTEXT''"

text \<open>
  Each class as a record, its field constraints and validators as a predicate, and its JSON dump
  with the fields in the order of the class.
\<close>

definition sized :: "nat \<Rightarrow> nat \<Rightarrow> 'a list \<Rightarrow> bool" where
  "sized low high xs \<longleftrightarrow> low \<le> length xs \<and> length xs \<le> high"

definition str_list :: "string list \<Rightarrow> pyval" where
  "str_list ts = PList (map PStr ts)"

definition uuid_list :: "uuid list \<Rightarrow> pyval" where
  "uuid_list us = PList (map (\<lambda>u. PStr (uuid_str u)) us)"

record scope_output =
  so_classification :: classification
  so_request_summary :: string
  so_reason :: string
  so_matched_scope_item_ids :: "uuid list"
  so_matched_amendment_ids :: "uuid list"
  so_pending_request_ids :: "uuid list"
  so_required_evidence_queries :: "string list"
  so_uncertainty :: uncertainty

definition scope_output_ok :: "scope_output \<Rightarrow> bool" where
  "scope_output_ok o1 \<longleftrightarrow> sized 1 4000 (so_request_summary o1) \<and> sized 1 4000 (so_reason o1) \<and>
     sized 0 100 (so_matched_scope_item_ids o1) \<and> sized 0 100 (so_matched_amendment_ids o1) \<and>
     sized 0 100 (so_pending_request_ids o1) \<and> sized 0 20 (so_required_evidence_queries o1)"

definition scope_dump :: "scope_output \<Rightarrow> (string \<times> pyval) list" where
  "scope_dump o1 = [(''classification'', PStr (classification_value (so_classification o1))),
     (''request_summary'', PStr (so_request_summary o1)), (''reason'', PStr (so_reason o1)),
     (''matched_scope_item_ids'', uuid_list (so_matched_scope_item_ids o1)),
     (''matched_amendment_ids'', uuid_list (so_matched_amendment_ids o1)),
     (''pending_request_ids'', uuid_list (so_pending_request_ids o1)),
     (''required_evidence_queries'', str_list (so_required_evidence_queries o1)),
     (''uncertainty'', PStr (uncertainty_value (so_uncertainty o1)))]"

record evidence_citation =
  ci_reference_id :: uuid
  ci_relation :: relation
  ci_claim :: string

definition citation_ok :: "evidence_citation \<Rightarrow> bool" where
  "citation_ok c \<longleftrightarrow> sized 1 1000 (ci_claim c)"

definition citation_dump :: "evidence_citation \<Rightarrow> pyval" where
  "citation_dump c = PDict [(''reference_id'', PStr (uuid_str (ci_reference_id c))),
     (''relation'', PStr (relation_value (ci_relation c))), (''claim'', PStr (ci_claim c))]"

record evidence_output =
  eo_final_classification :: classification
  eo_supporting_references :: "evidence_citation list"
  eo_contradictory_references :: "evidence_citation list"
  eo_searched_sources :: "(string \<times> pyval) list list"
  eo_completeness :: coverage
  eo_unavailable_sources :: "string list"
  eo_unresolved_questions :: "string list"
  eo_temporal_coverage :: string

definition evidence_output_ok :: "evidence_output \<Rightarrow> bool" where
  "evidence_output_ok e \<longleftrightarrow> sized 0 100 (eo_supporting_references e) \<and> sized 0 100 (eo_contradictory_references e) \<and>
     list_all citation_ok (eo_supporting_references e @ eo_contradictory_references e) \<and>
     sized 0 100 (eo_searched_sources e) \<and> sized 0 50 (eo_unavailable_sources e) \<and>
     sized 0 50 (eo_unresolved_questions e) \<and> sized 1 500 (eo_temporal_coverage e)"

definition evidence_dump :: "evidence_output \<Rightarrow> (string \<times> pyval) list" where
  "evidence_dump e = [(''final_classification'', PStr (classification_value (eo_final_classification e))),
     (''supporting_references'', PList (map citation_dump (eo_supporting_references e))),
     (''contradictory_references'', PList (map citation_dump (eo_contradictory_references e))),
     (''searched_sources'', PList (map PDict (eo_searched_sources e))),
     (''completeness'', PStr (coverage_value (eo_completeness e))),
     (''unavailable_sources'', str_list (eo_unavailable_sources e)),
     (''unresolved_questions'', str_list (eo_unresolved_questions e)),
     (''temporal_coverage'', PStr (eo_temporal_coverage e))]"

record impact_task =
  it_task_key :: string
  it_description :: string
  it_low_hours :: string
  it_recommended_hours :: string
  it_high_hours :: string
  it_assumptions :: "string list"
  it_dependencies :: "string list"

definition impact_task_ok :: "impact_task \<Rightarrow> bool" where
  "impact_task_ok t \<longleftrightarrow> sized 1 160 (it_task_key t) \<and> sized 1 1000 (it_description t) \<and>
     sized 0 20 (it_assumptions t) \<and> sized 0 20 (it_dependencies t) \<and>
     \<not> isl (validate_effort_range (it_low_hours t) (it_recommended_hours t) (it_high_hours t))"

definition impact_task_dump :: "impact_task \<Rightarrow> pyval" where
  "impact_task_dump t = PDict [(''task_key'', PStr (it_task_key t)), (''description'', PStr (it_description t)),
     (''low_hours'', PStr (it_low_hours t)), (''recommended_hours'', PStr (it_recommended_hours t)),
     (''high_hours'', PStr (it_high_hours t)), (''assumptions'', str_list (it_assumptions t)),
     (''dependencies'', str_list (it_dependencies t))]"

record impact_output =
  io_tasks :: "impact_task list"
  io_low_hours :: string
  io_recommended_hours :: string
  io_high_hours :: string
  io_assumptions :: "string list"
  io_dependencies :: "string list"
  io_missing_information :: "string list"
  io_uncertainty :: uncertainty
  io_cold_start :: bool

definition impact_output_ok :: "impact_output \<Rightarrow> bool" where
  "impact_output_ok i \<longleftrightarrow> sized 1 100 (io_tasks i) \<and> list_all impact_task_ok (io_tasks i) \<and>
     sized 0 50 (io_assumptions i) \<and> sized 0 50 (io_dependencies i) \<and> sized 0 50 (io_missing_information i) \<and>
     \<not> isl (validate_effort_range (io_low_hours i) (io_recommended_hours i) (io_high_hours i)) \<and>
     (io_cold_start i \<longrightarrow> list_ex (\<lambda>t. is_infix ''history'' (lower t)) (io_assumptions i))"

definition impact_dump :: "impact_output \<Rightarrow> (string \<times> pyval) list" where
  "impact_dump i = [(''tasks'', PList (map impact_task_dump (io_tasks i))), (''low_hours'', PStr (io_low_hours i)),
     (''recommended_hours'', PStr (io_recommended_hours i)), (''high_hours'', PStr (io_high_hours i)),
     (''assumptions'', str_list (io_assumptions i)), (''dependencies'', str_list (io_dependencies i)),
     (''missing_information'', str_list (io_missing_information i)),
     (''uncertainty'', PStr (uncertainty_value (io_uncertainty i))), (''cold_start'', PBool (io_cold_start i))]"

record change_output =
  cho_title :: string
  cho_requested_change :: string
  cho_deliverables :: "string list"
  cho_exclusions :: "string list"
  cho_assumptions :: "string list"
  cho_client_explanation :: string

definition change_output_ok :: "change_output \<Rightarrow> bool" where
  "change_output_ok c \<longleftrightarrow> sized 1 240 (cho_title c) \<and> sized 1 4000 (cho_requested_change c) \<and>
     sized 1 50 (cho_deliverables c) \<and> sized 0 50 (cho_exclusions c) \<and> sized 0 50 (cho_assumptions c) \<and>
     sized 1 5000 (cho_client_explanation c)"

definition change_dump :: "change_output \<Rightarrow> (string \<times> pyval) list" where
  "change_dump c = [(''title'', PStr (cho_title c)), (''requested_change'', PStr (cho_requested_change c)),
     (''deliverables'', str_list (cho_deliverables c)), (''exclusions'', str_list (cho_exclusions c)),
     (''assumptions'', str_list (cho_assumptions c)), (''client_explanation'', PStr (cho_client_explanation c))]"

record communication_output =
  mo_subject :: string
  mo_plain_text_body :: string
  mo_html_body :: string
  mo_recipient_email :: string

definition ACTIVE_HTML :: "string list" where
  "ACTIVE_HTML = [''<script'', ''javascript:'', ''<iframe'', ''onerror='']"

definition communication_output_ok :: "communication_output \<Rightarrow> bool" where
  "communication_output_ok m \<longleftrightarrow> sized 1 240 (mo_subject m) \<and> sized 1 12000 (mo_plain_text_body m) \<and>
     sized 1 24000 (mo_html_body m) \<and> sized 3 320 (mo_recipient_email m) \<and>
     \<not> list_ex (\<lambda>t. is_infix t (lower (mo_html_body m))) ACTIVE_HTML"

definition communication_dump :: "communication_output \<Rightarrow> (string \<times> pyval) list" where
  "communication_dump m = [(''subject'', PStr (mo_subject m)), (''plain_text_body'', PStr (mo_plain_text_body m)),
     (''html_body'', PStr (mo_html_body m)), (''recipient_email'', PStr (mo_recipient_email m))]"

record terms_snapshot =
  ts_total_minor :: int
  ts_tax_minor :: int
  ts_preference_version_id :: uuid
  ts_calendar_version_id :: "uuid option"
  ts_recommended_hours :: string
  ts_schedule_impact_days :: int
  ts_conditions :: "string list"

definition terms_ok :: "terms_snapshot \<Rightarrow> bool" where
  "terms_ok t \<longleftrightarrow> 0 < ts_total_minor t \<and> ts_total_minor t \<le> 100000000 \<and> 0 \<le> ts_tax_minor t \<and>
     ts_tax_minor t \<le> ts_total_minor t \<and> 0 \<le> ts_schedule_impact_days t \<and> ts_schedule_impact_days t \<le> 1000 \<and>
     sized 1 50 (ts_conditions t)"

text \<open>The other fields of \<open>TermsSnapshot\<close> are literals.\<close>

definition terms_dump :: "terms_snapshot \<Rightarrow> (string \<times> pyval) list" where
  "terms_dump t = [(''total_minor'', PInt (ts_total_minor t)), (''tax_minor'', PInt (ts_tax_minor t)), (''currency'', PStr ''INR''),
     (''preference_version_id'', PStr (uuid_str (ts_preference_version_id t))),
     (''calendar_version_id'', nullable_uuid (ts_calendar_version_id t)),
     (''recommended_hours'', PStr (ts_recommended_hours t)), (''schedule_impact_days'', PInt (ts_schedule_impact_days t)),
     (''full_payment_required'', PBool True), (''due_days'', PInt 7), (''link_expiry_days'', PInt 30),
     (''pay_before_work'', PBool True), (''conditions'', str_list (ts_conditions t))]"

record proposal_draft =
  pp_title :: string
  pp_requested_change :: string
  pp_deliverables :: "string list"
  pp_exclusions :: "string list"
  pp_assumptions :: "string list"
  pp_client_explanation :: string
  pp_subject :: string
  pp_plain_text_body :: string
  pp_html_body :: string
  pp_recipient_email :: string
  pp_evidence_reference_ids :: "uuid list"
  pp_terms :: terms_snapshot

definition proposal_ok :: "proposal_draft \<Rightarrow> bool" where
  "proposal_ok p \<longleftrightarrow> sized 1 240 (pp_title p) \<and> sized 1 4000 (pp_requested_change p) \<and> sized 1 50 (pp_deliverables p) \<and>
     sized 0 50 (pp_exclusions p) \<and> sized 0 50 (pp_assumptions p) \<and> sized 1 5000 (pp_client_explanation p) \<and>
     sized 1 240 (pp_subject p) \<and> sized 1 12000 (pp_plain_text_body p) \<and> sized 1 24000 (pp_html_body p) \<and>
     sized 3 320 (pp_recipient_email p) \<and> sized 1 100 (pp_evidence_reference_ids p)"

definition proposal_dump :: "proposal_draft \<Rightarrow> (string \<times> pyval) list" where
  "proposal_dump p = [(''title'', PStr (pp_title p)), (''requested_change'', PStr (pp_requested_change p)),
     (''deliverables'', str_list (pp_deliverables p)), (''exclusions'', str_list (pp_exclusions p)),
     (''assumptions'', str_list (pp_assumptions p)), (''client_explanation'', PStr (pp_client_explanation p)),
     (''subject'', PStr (pp_subject p)), (''plain_text_body'', PStr (pp_plain_text_body p)),
     (''html_body'', PStr (pp_html_body p)), (''recipient_email'', PStr (pp_recipient_email p)),
     (''evidence_reference_ids'', uuid_list (pp_evidence_reference_ids p)), (''terms'', PDict (terms_dump (pp_terms p)))]"

record gate_decision =
  gate_route :: route
  gate_classification :: classification
  gate_reason :: string
  gate_questions :: "string list"
  gate_evidence_ids :: "uuid list"

definition gate_ok :: "gate_decision \<Rightarrow> bool" where
  "gate_ok g \<longleftrightarrow> sized 1 4000 (gate_reason g) \<and> sized 0 50 (gate_questions g) \<and> sized 0 100 (gate_evidence_ids g)"

section \<open>Checks of what an output cites\<close>

text \<open>
  \<open>parse_with_one_repair\<close>: validation is a parameter that gives the value or its error messages; the
  repair is made, and may fail, before the first payload is tried.
\<close>

definition parse_with_one_repair ::
  "('p \<Rightarrow> string list + 'm) \<Rightarrow> 'p \<Rightarrow> ('p \<Rightarrow> exn + 'p) option \<Rightarrow> exn + 'm \<times> string list \<times> bool" where
  "parse_with_one_repair validate payload repair =
     (case (case repair of None \<Rightarrow> Inr [] | Some f \<Rightarrow> (case f payload of Inl _ \<Rightarrow> Inl ValidationError | Inr p \<Rightarrow> Inr [p])) of
        Inl e \<Rightarrow> Inl e
      | Inr repaired \<Rightarrow>
          (case validate payload of
             Inr m \<Rightarrow> Inr (m, [], False)
           | Inl errors \<Rightarrow>
               (case repaired of
                  [] \<Rightarrow> Inl ValidationError
                | p # _ \<Rightarrow> (case validate p of Inr m \<Rightarrow> Inr (m, errors, True) | Inl _ \<Rightarrow> Inl ValidationError))))"

definition require_project_context :: "trusted_context \<Rightarrow> uuid \<Rightarrow> project act" where
  "require_project_context ctx i = bindE (gets (owned_project ctx i)) (\<lambda>found. some_or AuthorizationError found)"

definition own_reference :: "trusted_context \<Rightarrow> uuid \<Rightarrow> uuid \<Rightarrow> db \<Rightarrow> evidence_reference option" where
  "own_reference ctx project i s =
     find (\<lambda>r. eref_id r = i \<and> eref_tenant_id r = ctx_tenant_id ctx \<and> eref_project_id r = project) (evidence_references s)"

definition validate_reference_ids ::
  "trusted_context \<Rightarrow> uuid \<Rightarrow> uuid list \<Rightarrow> uuid option \<Rightarrow> evidence_reference list act" where
  "validate_reference_ids ctx project ids bundle =
     bindE (require_project_context ctx project) (\<lambda>_.
     bindE (require (distinct ids) ValidationError) (\<lambda>_.
     bindE (require (ids \<noteq> []) ValidationError) (\<lambda>_.
     bindE (gets (\<lambda>s. map (\<lambda>i. own_reference ctx project i s) ids)) (\<lambda>found.
     bindE (require (None \<notin> set found) AuthorizationError) (\<lambda>_.
     bindE (require (case bundle of None \<Rightarrow> True | Some b \<Rightarrow> list_all (\<lambda>r. eref_bundle_id (the r) = b) found) AuthorizationError) (\<lambda>_.
     ret (map the found)))))))"

definition SECRET_MARKS :: "string list" where
  "SECRET_MARKS = [''authorization:'', ''bearer '', ''access_key'', ''refresh_token'', ''private_key'']"

definition validate_safe_summary :: "string \<Rightarrow> nat \<Rightarrow> exn + string" where
  "validate_safe_summary value limit =
     (if strip value = [] \<or> length value > limit then Inl ValidationError
      else if list_ex (\<lambda>t. is_infix t (lower value)) SECRET_MARKS then Inl ValidationError
      else Inr (strip value))"

section \<open>The evidence gate\<close>

definition gate :: "route \<Rightarrow> classification \<Rightarrow> string \<Rightarrow> string list \<Rightarrow> uuid list \<Rightarrow> exn + gate_decision" where
  "gate r c reason questions ids =
     (let g = \<lparr>gate_route = r, gate_classification = c, gate_reason = reason, gate_questions = questions, gate_evidence_ids = ids\<rparr>
      in if gate_ok g then Inr g else Inl ValueError)"

definition or_else :: "'a list \<Rightarrow> 'a list \<Rightarrow> 'a list" where
  "or_else xs ys = (if xs = [] then ys else xs)"

definition apply_evidence_gate ::
  "scope_output \<Rightarrow> evidence_output option \<Rightarrow> uuid set \<Rightarrow> bool \<Rightarrow> exn + gate_decision" where
  "apply_evidence_gate preliminary evidence accepted baseline_complete =
     (if so_classification preliminary = NOT_A_SCOPE_REQUEST
      then gate NO_ACTION (so_classification preliminary) (so_reason preliminary) [] []
      else (case evidence of
          None \<Rightarrow> gate TO_CLARIFICATION AMBIGUOUS ''Evidence verification was not completed''
            [''Provide the governing scope and request evidence''] []
        | Some e \<Rightarrow>
            let refs = map ci_reference_id (eo_supporting_references e @ eo_contradictory_references e);
                amended = accepted \<inter> set (so_matched_amendment_ids preliminary) \<noteq> {}
            in
            if \<not> baseline_complete \<or> eo_completeness e \<in> {PARTIAL, UNAVAILABLE, REQUIRES_CLARIFICATION}
            then gate TO_CLARIFICATION AMBIGUOUS ''Required evidence coverage is incomplete''
              (or_else (eo_unresolved_questions e) [''Provide the missing baseline or request evidence'']) refs
            else if eo_contradictory_references e \<noteq> []
            then gate TO_CLARIFICATION AMBIGUOUS ''Evidence contains conflicting promises or scope statements''
              (or_else (eo_unresolved_questions e) [''Resolve the conflicting commitments'']) refs
            else if eo_final_classification e = PREVIOUSLY_APPROVED \<and> \<not> amended
            then gate TO_CLARIFICATION AMBIGUOUS ''Prior approval was not linked to an accepted amendment''
              [''Provide the accepted amendment reference''] refs
            else if amended
            then gate COVERED PREVIOUSLY_APPROVED ''An accepted amendment covers the requested work'' [] refs
            else if eo_final_classification e = IN_SCOPE \<or> so_classification preliminary = IN_SCOPE
            then gate COVERED IN_SCOPE ''The confirmed baseline covers the request'' [] refs
            else if eo_final_classification e \<in> {AMBIGUOUS, NOT_A_SCOPE_REQUEST}
            then gate (if eo_final_classification e = AMBIGUOUS then TO_CLARIFICATION else NO_ACTION)
              (eo_final_classification e) ''Evidence does not support a billable additional-work proposal''
              (eo_unresolved_questions e) refs
            else if eo_final_classification e = POTENTIAL_SCOPE_CHANGE \<and> eo_supporting_references e \<noteq> []
            then gate TO_PROPOSAL POTENTIAL_SCOPE_CHANGE ''Authorized evidence supports additional work'' [] refs
            else gate TO_CLARIFICATION AMBIGUOUS ''Evidence did not establish a supported route''
              [''Clarify the request against the confirmed scope''] refs))"

section \<open>Frozen terms\<close>

text \<open>\<open>str\<close> of a finite decimal: scientific only for a positive exponent or a very small value.\<close>

definition decimal_str :: "decimal \<Rightarrow> string" where
  "decimal_str d = (case d of
      Dec neg c e \<Rightarrow>
        (let ds = nat_str c; adjusted = e + int (length ds) - 1 in
         if e \<le> 0 \<and> - 6 \<le> adjusted then decimal_plain neg c e
         else (if neg then ''-'' else []) @ take 1 ds @ (if length ds = 1 then [] else ''.'' @ drop 1 ds) @ ''E'' @
           (if 0 \<le> adjusted then ''+'' else []) @ int_str adjusted)
    | other \<Rightarrow> py_repr (PDecimal other))"

text \<open>\<open>date.fromisoformat\<close> on the texts \<open>date.isoformat\<close> writes.\<close>

definition date_of_iso :: "string \<Rightarrow> day option" where
  "date_of_iso t =
     Option.bind (field 4 (Some (CHR ''-'')) t) (\<lambda>(y, t).
     Option.bind (field 2 (Some (CHR ''-'')) t) (\<lambda>(m, t).
     Option.bind (field 2 None t) (\<lambda>(d, t).
     if t \<noteq> [] \<or> y < 1 \<or> m < 1 \<or> 12 < m \<or> d < 1
        \<or> int d > (if m = 12 then 31 else month_start (is_leap (int y)) (Suc m) - month_start (is_leap (int y)) m)
     then None else Some (day_of_civil (int y, m, int d)))))"

definition project_calendar ::
  "(string \<Rightarrow> zone option) \<Rightarrow> trusted_context \<Rightarrow> project \<Rightarrow> ((calendar_rules \<times> decimal) option) act" where
  "project_calendar zones ctx p =
     (case proj_calendar_version_id p of
        None \<Rightarrow> ret None
      | Some c \<Rightarrow>
          bindE (gets (\<lambda>s. find (\<lambda>r. cal_id r = c \<and> cal_tenant_id r = ctx_tenant_id ctx \<and> cal_project_id r = proj_id p)
             (calendar_versions s))) (\<lambda>found.
          bindE (some_or NotFoundError found) (\<lambda>row.
          bindE (ret (map date_of_iso (cal_holiday_dates row))) (\<lambda>holidays.
          bindE (require (None \<notin> set holidays) ValueError) (\<lambda>_.
          bindE (checked_rules zones (proj_timezone p) (cal_weekdays row) (map the holidays)
             (cal_confirmed_daily_capacity_hours row)) (\<lambda>rules.
          ret (Some (rules, cal_confirmed_daily_capacity_hours row))))))))"

definition schedule_effort :: "rat \<Rightarrow> (calendar_rules \<times> decimal) option \<Rightarrow> int option \<times> string list" where
  "schedule_effort effort calendar =
     (case calendar of
        None \<Rightarrow> (None, [''Schedule is conditional because no confirmed calendar capacity is available''])
      | Some (rules, shown) \<Rightarrow>
          (Some (max \<lceil>round28 (effort / rules_capacity_hours rules)\<rceil> 1),
           [''Uses confirmed capacity of '' @ decimal_str shown @ '' hours per working day'']))"

definition recommended_decimal :: "impact_output \<Rightarrow> decimal act" where
  "recommended_decimal impact = some_or ValidationError (decimal_of_str (io_recommended_hours impact))"

definition freeze_terms ::
  "(string \<Rightarrow> zone option) \<Rightarrow> trusted_context \<Rightarrow> uuid \<Rightarrow> impact_output \<Rightarrow> int \<Rightarrow> terms_snapshot act" where
  "freeze_terms zones ctx project impact tax =
     bindE (require_project_context ctx project) (\<lambda>p.
     bindE (gets (\<lambda>s. find (\<lambda>r. pref_id r = proj_preference_version_id p \<and> pref_tenant_id r = ctx_tenant_id ctx)
        (preference_versions s))) (\<lambda>found.
     bindE (some_or NotFoundError found) (\<lambda>preference.
     bindE (of_result (validate_effort_range (io_low_hours impact) (io_recommended_hours impact) (io_high_hours impact)))
       (\<lambda>(low, recommended, high).
     bindE (require (high \<le> round28 (low * 2)) ValidationError) (\<lambda>_.
     bindE (recommended_decimal impact) (\<lambda>shown.
     bindE (of_result (recommend_total_minor (decimal_str shown) (pref_rate_minor preference) (pref_minimum_minor preference)
        (pref_increment_minor preference))) (\<lambda>total.
     bindE (require (0 \<le> tax \<and> tax \<le> total) ValidationError) (\<lambda>_.
     bindE (project_calendar zones ctx p) (\<lambda>calendar.
     bindE (ret (schedule_effort recommended calendar)) (\<lambda>(impact_days, notes).
     bindE (ret \<lparr>ts_total_minor = total, ts_tax_minor = tax, ts_preference_version_id = pref_id preference,
        ts_calendar_version_id = proj_calendar_version_id p, ts_recommended_hours = decimal_str shown,
        ts_schedule_impact_days = (case impact_days of None \<Rightarrow> 0 | Some n \<Rightarrow> n),
        ts_conditions = [''Full payment is required before work begins'', ''Client prerequisites must be satisfied''] @ notes @
          (if io_cold_start impact then [''Cold-start estimate: no verified historical task duration was supplied''] else [])\<rparr>) (\<lambda>t.
     bindE (require (terms_ok t) ValueError) (\<lambda>_. ret t))))))))))))"

section \<open>The workflow\<close>

definition authorized_recipient :: "trusted_context \<Rightarrow> uuid \<Rightarrow> string \<Rightarrow> unit act" where
  "authorized_recipient ctx project email =
     bindE (require (CHR ''@'' \<in> set email \<and> length email \<le> 320) ValidationError) (\<lambda>_.
     bindE (get_project ctx project) (\<lambda>p.
     bindE (gets (\<lambda>s. list_ex (\<lambda>c. contact_tenant_id c = ctx_tenant_id ctx \<and> contact_client_id c = proj_client_id p \<and>
        contact_normalized_email c = lower (strip email)) (client_contacts s))) (\<lambda>known.
     require known AuthorizationError)))"

definition ROLE_VERSIONS :: run_versions where
  "ROLE_VERSIONS = \<lparr>rv_model_id = ''validated-role-output'', rv_prompt_version = ''phase4-role-prompt-v1'',
     rv_schema_version = ''phase4-schemas-v1'', rv_tool_policy_version = ''read-only-manifest-v1''\<rparr>"

definition persist_role_output ::
  "env \<Rightarrow> trusted_context \<Rightarrow> uuid \<Rightarrow> string \<Rightarrow> (string \<times> pyval) list \<Rightarrow> (string \<times> pyval) list \<Rightarrow> unit act" where
  "persist_role_output E ctx workflow role payload snapshot =
     bindE (gets (run_of_node workflow role 1)) (\<lambda>existing.
     if (case existing of None \<Rightarrow> False | Some r \<Rightarrow> arun_status r \<in> {RUN_SUCCEEDED, RUN_REVIEW_REQUIRED, RUN_FAILED})
     then ret ()
     else
       bindE (start_agent_run E ctx workflow role 1 ROLE_VERSIONS snapshot) (\<lambda>r.
       perhaps (open_run r) (finish_agent_run E ctx (arun_id r) payload
         (Some [(''input_tokens'', PInt 0), (''output_tokens'', PInt 0)]))))"

text \<open>The ids cited all name rows of the tenant and the project.\<close>

definition require_cited :: "(db \<Rightarrow> 'r list) \<Rightarrow> ('r \<Rightarrow> uuid) \<Rightarrow> ('r \<Rightarrow> uuid) \<Rightarrow> ('r \<Rightarrow> uuid) \<Rightarrow> trusted_context \<Rightarrow> uuid \<Rightarrow> uuid list \<Rightarrow> unit act" where
  "require_cited table rid tenant_of project_of ctx project ids =
     perhaps (ids \<noteq> [])
       (bindE (gets (\<lambda>s. rid ` set (filter (\<lambda>r. rid r \<in> set ids \<and> tenant_of r = ctx_tenant_id ctx \<and> project_of r = project) (table s))))
          (\<lambda>found. require (found = set ids) AuthorizationError))"

definition validate_scope_references :: "trusted_context \<Rightarrow> uuid \<Rightarrow> scope_output \<Rightarrow> unit act" where
  "validate_scope_references ctx project preliminary =
     bindE (require_cited scope_items sitem_id sitem_tenant_id sitem_project_id ctx project (so_matched_scope_item_ids preliminary)) (\<lambda>_.
     bindE (require_cited scope_amendments amend_id amend_tenant_id amend_project_id ctx project (so_matched_amendment_ids preliminary)) (\<lambda>_.
     require_cited request_records req_id req_tenant_id req_project_id ctx project (so_pending_request_ids preliminary)))"

record analysis_input =
  ai_project_id :: uuid
  ai_request_id :: uuid
  ai_input_snapshot :: "(string \<times> pyval) list"
  ai_preliminary :: scope_output
  ai_evidence :: "evidence_output option"
  ai_impact :: "impact_output option"
  ai_change_order :: "change_output option"
  ai_communication :: "communication_output option"
  ai_workflow_key :: "string option"
  ai_policy_version :: string

record analysis_result =
  ar_workflow_id :: uuid
  ar_decision_id :: uuid
  ar_assessment_id :: uuid
  ar_gate :: gate_decision
  ar_draft_revision_id :: "uuid option"

text \<open>The bundle of the evidence a gate decision cites; a proposal must cite some.\<close>

definition cited_bundle :: "trusted_context \<Rightarrow> analysis_input \<Rightarrow> gate_decision \<Rightarrow> uuid option act" where
  "cited_bundle ctx a g =
     (if ai_evidence a \<noteq> None \<and> gate_evidence_ids g \<noteq> []
      then bindE (validate_reference_ids ctx (ai_project_id a) (gate_evidence_ids g) None) (\<lambda>refs. ret (Some (eref_bundle_id (hd refs))))
      else if gate_route g = TO_PROPOSAL then raise ValidationError
      else ret None)"

definition coverage_of :: "analysis_input \<Rightarrow> string" where
  "coverage_of a = (case ai_evidence a of None \<Rightarrow> ''REQUIRES_CLARIFICATION'' | Some e \<Rightarrow> coverage_value (eo_completeness e))"

definition assessment_of :: "analysis_input \<Rightarrow> request_record \<Rightarrow> uuid \<Rightarrow> gate_decision \<Rightarrow> uuid option \<Rightarrow> assessment_spec" where
  "assessment_of a request workflow g bundle =
     (let p = ai_preliminary a in
      \<lparr>asp_project_id = ai_project_id a, asp_workflow_id = workflow,
        asp_classification = classification_value (gate_classification g), asp_reason = gate_reason g,
        asp_coverage_status = coverage_of a, asp_input_snapshot = ai_input_snapshot a, asp_request_id = Some (req_id request),
        asp_evidence_bundle_id = bundle, asp_scope_version_id = None, asp_request_version = Some (req_request_version request),
        asp_matched_scope_item_ids = map uuid_str (so_matched_scope_item_ids p),
        asp_matched_amendment_ids = map uuid_str (so_matched_amendment_ids p),
        asp_pending_request_ids = map uuid_str (so_pending_request_ids p),
        asp_required_evidence_queries = so_required_evidence_queries p,
        asp_uncertainty = Some (uncertainty_value (so_uncertainty p))\<rparr>)"

definition decision_details :: "analysis_input \<Rightarrow> gate_decision \<Rightarrow> (string \<times> pyval) list" where
  "decision_details a g = [(''classification'', PStr (classification_value (gate_classification g))),
     (''coverage'', PStr (coverage_of a)), (''evidence_reference_ids'', uuid_list (gate_evidence_ids g)),
     (''required_questions'', str_list (gate_questions g)),
     (''uncertainty'', PStr (uncertainty_value (so_uncertainty (ai_preliminary a))))]"

definition effort_details :: "impact_output \<Rightarrow> pyval" where
  "effort_details i = PDict [(''low_hours'', PStr (io_low_hours i)), (''recommended_hours'', PStr (io_recommended_hours i)),
     (''high_hours'', PStr (io_high_hours i)), (''cold_start'', PBool (io_cold_start i)),
     (''dependencies'', str_list (io_dependencies i))]"

definition trace_of_roles :: "string list \<Rightarrow> (string \<times> pyval) list" where
  "trace_of_roles roles = [(''roles'', str_list roles), (''private_reasoning'', PBool False)]"

definition proposal_of :: "analysis_input \<Rightarrow> impact_output \<Rightarrow> change_output \<Rightarrow> communication_output \<Rightarrow> uuid list \<Rightarrow> terms_snapshot \<Rightarrow> proposal_draft" where
  "proposal_of a i c m ids terms = \<lparr>pp_title = cho_title c, pp_requested_change = cho_requested_change c,
     pp_deliverables = cho_deliverables c, pp_exclusions = cho_exclusions c, pp_assumptions = cho_assumptions c @ io_assumptions i,
     pp_client_explanation = cho_client_explanation c, pp_subject = mo_subject m, pp_plain_text_body = mo_plain_text_body m,
     pp_html_body = mo_html_body m, pp_recipient_email = mo_recipient_email m, pp_evidence_reference_ids = ids, pp_terms = terms\<rparr>"

definition proposal_roles :: "env \<Rightarrow> trusted_context \<Rightarrow> analysis_input \<Rightarrow> uuid \<Rightarrow> impact_output \<Rightarrow> change_output \<Rightarrow> communication_output \<Rightarrow> unit act" where
  "proposal_roles E ctx a workflow i c m =
     bindE (authorized_recipient ctx (ai_project_id a) (mo_recipient_email m)) (\<lambda>_.
     bindE (persist_role_output E ctx workflow ''impact'' (impact_dump i) (ai_input_snapshot a)) (\<lambda>_.
     bindE (persist_role_output E ctx workflow ''change_order'' (change_dump c) (ai_input_snapshot a)) (\<lambda>_.
     persist_role_output E ctx workflow ''communication'' (communication_dump m) (ai_input_snapshot a))))"

definition open_proposal ::
  "env \<Rightarrow> (string \<Rightarrow> zone option) \<Rightarrow> trusted_context \<Rightarrow> analysis_input \<Rightarrow> request_record \<Rightarrow> uuid \<Rightarrow> uuid \<Rightarrow> gate_decision \<Rightarrow>
   uuid option \<Rightarrow> (uuid \<times> uuid option) act" where
  "open_proposal E zones ctx a request workflow assessment g bundle =
     (case (ai_impact a, ai_change_order a, ai_communication a) of
        (Some i, Some c, Some m) \<Rightarrow>
          bindE (proposal_roles E ctx a workflow i c m) (\<lambda>_.
          bindE (freeze_terms zones ctx (ai_project_id a) i 0) (\<lambda>terms.
          bindE (ret (proposal_of a i c m (gate_evidence_ids g) terms)) (\<lambda>p.
          bindE (require (proposal_ok p) ValueError) (\<lambda>_.
          bindE (create_analysis_decision ctx \<lparr>ds_project_id = ai_project_id a, ds_workflow_id = workflow,
             ds_kind = ''PROPOSAL_REVIEW'', ds_title = pp_title p, ds_summary = pp_client_explanation p,
             ds_safe_details = decision_details a g @ [(''effort'', effort_details i)], ds_assessment_id = Some assessment,
             ds_evidence_bundle_id = bundle, ds_request_id = Some (req_id request), ds_terms_snapshot = Some (terms_dump terms),
             ds_trace_summary = trace_of_roles [''scope'', ''evidence'', ''impact'', ''change_order'', ''communication'']\<rparr>) (\<lambda>d.
          bindE (create_draft_revision E ctx (dec_id d) (proposal_dump p)) (\<lambda>draft.
          ret (dec_id d, Some (draft_id draft))))))))
      | _ \<Rightarrow> raise ConflictError)"

definition open_decision ::
  "trusted_context \<Rightarrow> analysis_input \<Rightarrow> request_record \<Rightarrow> uuid \<Rightarrow> uuid \<Rightarrow> gate_decision \<Rightarrow> uuid option \<Rightarrow> (uuid \<times> uuid option) act" where
  "open_decision ctx a request workflow assessment g bundle =
     bindE (create_analysis_decision ctx \<lparr>ds_project_id = ai_project_id a, ds_workflow_id = workflow,
        ds_kind = (if gate_route g = TO_CLARIFICATION then ''CLARIFICATION'' else ''INTEGRATION_HEALTH''),
        ds_title = (if gate_route g = TO_CLARIFICATION then ''Clarification required'' else ''Request covered''),
        ds_summary = gate_reason g, ds_safe_details = decision_details a g, ds_assessment_id = Some assessment,
        ds_evidence_bundle_id = bundle, ds_request_id = Some (req_id request), ds_terms_snapshot = None,
        ds_trace_summary = trace_of_roles [''scope'', ''evidence'']\<rparr>) (\<lambda>d.
     ret (dec_id d, None))"

definition workflow_key_of :: "analysis_input \<Rightarrow> request_record \<Rightarrow> string" where
  "workflow_key_of a request =
     (case ai_workflow_key a of
        Some k \<Rightarrow> if k = [] then ''request:'' @ uuid_str (ai_request_id a) @ '':v'' @ int_str (req_request_version request) else k
      | None \<Rightarrow> ''request:'' @ uuid_str (ai_request_id a) @ '':v'' @ int_str (req_request_version request))"

definition prepare_workflow :: "env \<Rightarrow> trusted_context \<Rightarrow> analysis_input \<Rightarrow> request_record \<Rightarrow> workflow_instance act" where
  "prepare_workflow E ctx a request =
     create_workflow E ctx \<lparr>ws_workflow_key = workflow_key_of a request,
       ws_input_snapshot = filter (\<lambda>kv. fst kv \<noteq> ''evidence_reference_ids'') (ai_input_snapshot a),
       ws_project_id = Some (ai_project_id a), ws_request_id = Some (req_id request), ws_scope_version_id = None,
       ws_preference_version_id = None, ws_policy_version = ai_policy_version a, ws_current_phase = ''PREPARATION''\<rparr>"

definition persist_findings :: "env \<Rightarrow> trusted_context \<Rightarrow> analysis_input \<Rightarrow> uuid \<Rightarrow> unit act" where
  "persist_findings E ctx a workflow =
     bindE (persist_role_output E ctx workflow ''scope'' (scope_dump (ai_preliminary a)) (ai_input_snapshot a)) (\<lambda>_.
     (case ai_evidence a of
        None \<Rightarrow> ret ()
      | Some e \<Rightarrow> persist_role_output E ctx workflow ''evidence'' (evidence_dump e) (ai_input_snapshot a)))"

definition accepted_amendments :: "trusted_context \<Rightarrow> uuid \<Rightarrow> db \<Rightarrow> uuid set" where
  "accepted_amendments ctx project s =
     amend_id ` set (filter (\<lambda>r. amend_tenant_id r = ctx_tenant_id ctx \<and> amend_project_id r = project) (scope_amendments s))"

definition request_in :: "trusted_context \<Rightarrow> uuid \<Rightarrow> uuid \<Rightarrow> db \<Rightarrow> request_record option" where
  "request_in ctx project i s =
     find (\<lambda>r. req_id r = i \<and> req_tenant_id r = ctx_tenant_id ctx \<and> req_project_id r = project) (request_records s)"

definition prepare_analysis ::
  "env \<Rightarrow> (string \<Rightarrow> zone option) \<Rightarrow> trusted_context \<Rightarrow> analysis_input \<Rightarrow> analysis_result act" where
  "prepare_analysis E zones ctx a =
     bindE (gets (request_in ctx (ai_project_id a) (ai_request_id a))) (\<lambda>found.
     bindE (some_or NotFoundError found) (\<lambda>request.
     bindE (prepare_workflow E ctx a request) (\<lambda>wf.
     bindE (validate_scope_references ctx (ai_project_id a) (ai_preliminary a)) (\<lambda>_.
     bindE (gets (accepted_amendments ctx (ai_project_id a))) (\<lambda>accepted.
     bindE (persist_findings E ctx a (wf_id wf)) (\<lambda>_.
     bindE (of_result (apply_evidence_gate (ai_preliminary a) (ai_evidence a) accepted (ai_evidence a \<noteq> None))) (\<lambda>g.
     bindE (cited_bundle ctx a g) (\<lambda>bundle.
     bindE (record_scope_assessment E ctx (assessment_of a request (wf_id wf) g bundle)) (\<lambda>assessment.
     bindE (if gate_route g = TO_PROPOSAL
            then open_proposal E zones ctx a request (wf_id wf) (assess_id assessment) g bundle
            else open_decision ctx a request (wf_id wf) (assess_id assessment) g bundle) (\<lambda>(decision, draft).
     bindE (put_workflow (wf_id wf) (\<lambda>r. r\<lparr>
        wf_state := (if gate_route g = TO_CLARIFICATION then WF_REVIEW_REQUIRED else WF_SUCCEEDED),
        wf_current_phase := Some ''DECISION_READY'', wf_row_version := wf_row_version r + 1\<rparr>)) (\<lambda>_.
     ret \<lparr>ar_workflow_id = wf_id wf, ar_decision_id = decision, ar_assessment_id = assess_id assessment, ar_gate = g,
       ar_draft_revision_id = draft\<rparr>)))))))))))"

end
