(* ===== verification/Analysis_Safety.thy ===== *)
theory Analysis_Safety
  imports Preparation Acceptance
begin

text \<open>
  A prepared analysis proposes additional work only on evidence: what the gate demands, what the
  workflow checks before it stores a draft, and what the draft then holds.
\<close>

section \<open>Runs that return\<close>

lemma of_result_run: "of_result r s = (Inr x, t) \<longleftrightarrow> r = Inr x \<and> t = s"
  by (auto simp: of_result_def split: sum.splits)

lemmas returning = some_or_run require_run of_result_run gets_run

section \<open>The gate\<close>

lemma gate_Inr: "gate r c reason questions ids = Inr g \<longleftrightarrow>
    g = \<lparr>gate_route = r, gate_classification = c, gate_reason = reason, gate_questions = questions, gate_evidence_ids = ids\<rparr> \<and> gate_ok g"
  by (auto simp: gate_def Let_def)

lemma gate_proposal:
  assumes "apply_evidence_gate p ev accepted baseline = Inr g" and "gate_route g = TO_PROPOSAL"
  obtains e where "ev = Some e" "eo_completeness e = COMPLETE" "eo_contradictory_references e = []"
    "eo_supporting_references e \<noteq> []" "eo_final_classification e = POTENTIAL_SCOPE_CHANGE"
    "so_classification p \<notin> {IN_SCOPE, NOT_A_SCOPE_REQUEST}" "accepted \<inter> set (so_matched_amendment_ids p) = {}"
    "gate_evidence_ids g = map ci_reference_id (eo_supporting_references e)" "gate_classification g = POTENTIAL_SCOPE_CHANGE"
proof -
  obtain e where e: "ev = Some e"
    using assms by (cases ev) (auto simp: apply_evidence_gate_def gate_Inr split: if_splits)
  have "eo_completeness e = COMPLETE"
    using assms e by (cases "eo_completeness e") (auto simp: apply_evidence_gate_def gate_Inr Let_def split: if_splits)
  moreover have "eo_contradictory_references e = [] \<and> eo_supporting_references e \<noteq> [] \<and> eo_final_classification e = POTENTIAL_SCOPE_CHANGE \<and>
      so_classification p \<notin> {IN_SCOPE, NOT_A_SCOPE_REQUEST} \<and> accepted \<inter> set (so_matched_amendment_ids p) = {} \<and>
      gate_evidence_ids g = map ci_reference_id (eo_supporting_references e) \<and> gate_classification g = POTENTIAL_SCOPE_CHANGE"
    using assms e by (simp add: apply_evidence_gate_def gate_Inr Let_def split: if_splits)
  ultimately show ?thesis using e by (intro that [of e]) simp_all
qed

section \<open>What the workflow leaves alone\<close>

definition analysis_context :: "db \<Rightarrow> project list \<times> client_contact list \<times> preference_version list \<times> calendar_version list \<times>
    evidence_reference list \<times> scope_amendment list" where
  "analysis_context s = (projects s, client_contacts s, preference_versions s, calendar_versions s, evidence_references s, scope_amendments s)"

interpretation analysis_frame: state_frame analysis_context .

abbreviation context_same :: "db \<Rightarrow> db \<Rightarrow> bool" where
  "context_same \<equiv> (\<lambda>s t. analysis_context t = analysis_context s)"

lemma context_rows:
  assumes "analysis_context t = analysis_context s"
  shows "projects t = projects s" and "client_contacts t = client_contacts s" and "preference_versions t = preference_versions s"
    and "calendar_versions t = calendar_versions s" and "evidence_references t = evidence_references s"
    and "scope_amendments t = scope_amendments s"
  using assms by (simp_all add: analysis_context_def)

lemma analysis_frame_steps:
  "evolves context_same fresh_uuid" "evolves context_same the_time" "evolves context_same (digest_of E v)"
  "evolves context_same (add_workflow w)" "evolves context_same (put_workflow i fw)" "evolves context_same (add_agent_run r)"
  "evolves context_same (put_agent_run i fr)" "evolves context_same (add_assessment x)" "evolves context_same (add_decision d)"
  "evolves context_same (add_draft q)" "evolves context_same (put_draft i fd)"
  by (rule evolvesI;
      simp add: analysis_context_def run_digest_of run_add_row add_workflow_def put_workflow_def add_agent_run_def
        put_agent_run_def add_assessment_def add_decision_def add_draft_def put_draft_def split: sum.split)+

lemmas analysis_steps0 = analysis_frame.evolve_rules analysis_frame_steps

lemma analysis_frame_reads:
  "evolves context_same (get_project ctx i)" "evolves context_same (check_project ctx pj)"
  "evolves context_same (get_workflow ctx i)" "evolves context_same (get_agent_run ctx i)"
  "evolves context_same (get_analysis_decision ctx i)" "evolves context_same (of_result x)"
  "evolves context_same (require_project_context ctx i)" "evolves context_same (recommended_decimal impact)"
  "evolves context_same (checked_rules zones tz wds hds cap)"
  unfolding get_project_def check_project_def get_workflow_def get_agent_run_def get_analysis_decision_def of_result_def
    require_project_context_def recommended_decimal_def checked_rules_def
  by (intro analysis_steps0)+

lemma analysis_frame_operations:
  "evolves context_same (create_workflow E ctx spec)" "evolves context_same (start_agent_run E ctx w node n v snap)"
  "evolves context_same (finish_agent_run E ctx i out usage)" "evolves context_same (record_scope_assessment E ctx asp)"
  "evolves context_same (create_analysis_decision ctx ds)" "evolves context_same (create_draft_revision E ctx i payload)"
  "evolves context_same (authorized_recipient ctx pj email)" "evolves context_same (validate_reference_ids ctx pj ids b)"
  "evolves context_same (validate_scope_references ctx pj sc)" "evolves context_same (project_calendar zones ctx p)"
  unfolding create_workflow_def new_workflow_def start_agent_run_def new_agent_run_def finish_agent_run_def
    record_scope_assessment_def create_analysis_decision_def create_draft_revision_def authorized_recipient_def
    validate_reference_ids_def validate_scope_references_def require_cited_def project_calendar_def
  by (intro analysis_steps0 analysis_frame_reads)+

lemma analysis_frame_parts:
  "evolves context_same (persist_role_output E ctx w role payload snap)" "evolves context_same (cited_bundle ctx a g)"
  "evolves context_same (freeze_terms zones ctx pj i tax)"
  unfolding persist_role_output_def cited_bundle_def freeze_terms_def
  by (intro analysis_steps0 analysis_frame_reads analysis_frame_operations)+

lemma analysis_frame_workflow:
  "evolves context_same (prepare_workflow E ctx a rq)" "evolves context_same (persist_findings E ctx a w)"
  "evolves context_same (proposal_roles E ctx a w i c m)"
  unfolding prepare_workflow_def persist_findings_def proposal_roles_def
  by (intro analysis_steps0 analysis_frame_reads analysis_frame_operations analysis_frame_parts)+

lemmas same_context = evolves_run [where R = context_same]

section \<open>Proposals\<close>

lemma own_reference_SomeD:
  "own_reference ctx project i s = Some r \<Longrightarrow>
   r \<in> set (evidence_references s) \<and> eref_id r = i \<and> eref_tenant_id r = ctx_tenant_id ctx \<and> eref_project_id r = project"
  unfolding own_reference_def by (drule find_SomeD) simp

lemma reference_ids_run:
  assumes "validate_reference_ids ctx project ids b s = (Inr refs, t)"
  shows "distinct ids \<and> (\<forall>i\<in>set ids. \<exists>r\<in>set (evidence_references s). eref_id r = i \<and>
     eref_tenant_id r = ctx_tenant_id ctx \<and> eref_project_id r = project)"
proof -
  from assms have d: "distinct ids" and found: "None \<notin> set (map (\<lambda>i. own_reference ctx project i s) ids)"
    unfolding validate_reference_ids_def require_project_context_def by (elim bindE_InrE; simp add: returning)+
  have "\<exists>r\<in>set (evidence_references s). eref_id r = i \<and> eref_tenant_id r = ctx_tenant_id ctx \<and> eref_project_id r = project"
    if "i \<in> set ids" for i
  proof -
    from found that have "own_reference ctx project i s \<noteq> None" by force
    then show ?thesis using own_reference_SomeD by blast
  qed
  with d show ?thesis by blast
qed

lemma authorized_recipient_run:
  assumes "authorized_recipient ctx project email s = (Inr u, t)"
  shows "\<exists>p c. owned_project ctx project s = Some p \<and> c \<in> set (client_contacts s) \<and> contact_tenant_id c = ctx_tenant_id ctx \<and>
     contact_client_id c = proj_client_id p \<and> contact_normalized_email c = lower (strip email)"
  using assms unfolding authorized_recipient_def get_project_def
  by (elim bindE_InrE) (auto simp: returning list_ex_iff)

text \<open>The terms frozen for an effort: priced from the preference version that the project pins.\<close>

definition priced_by :: "trusted_context \<Rightarrow> project \<Rightarrow> impact_output \<Rightarrow> terms_snapshot \<Rightarrow> db \<Rightarrow> bool" where
  "priced_by ctx p i terms s \<longleftrightarrow>
     (\<exists>pref shown. find (\<lambda>r. pref_id r = proj_preference_version_id p \<and> pref_tenant_id r = ctx_tenant_id ctx) (preference_versions s) = Some pref \<and>
        ts_preference_version_id terms = pref_id pref \<and> decimal_of_str (io_recommended_hours i) = Some shown \<and>
        recommend_total_minor (decimal_str shown) (pref_rate_minor pref) (pref_minimum_minor pref) (pref_increment_minor pref) =
          Inr (ts_total_minor terms))"

lemma freeze_terms_run:
  assumes "freeze_terms zones ctx project i tax s = (Inr terms, t)"
  shows "\<exists>p. owned_project ctx project s = Some p \<and> priced_by ctx p i terms s \<and> terms_ok terms"
  using assms unfolding freeze_terms_def require_project_context_def recommended_decimal_def
proof (elim bindE_InrE, goal_cases)
  case prems: (1 p s1 found1 s2 found s3 pref s4 range s5)
  obtain low recommended high where range: "range = (low, recommended, high)" by (cases range)
  from prems(1-5) have pref: "owned_project ctx project s = Some p"
    "find (\<lambda>r. pref_id r = proj_preference_version_id p \<and> pref_tenant_id r = ctx_tenant_id ctx) (preference_versions s) = Some pref"
    by (auto simp: returning)
  from prems(6) [unfolded range prod.case] show ?case
  proof (elim bindE_InrE, goal_cases)
    case 1
    with pref show ?case by (auto simp: returning priced_by_def split: prod.splits elim!: bindE_InrE)
  qed
qed

text \<open>What an open proposal stores: a decision for review and its draft, with frozen terms.\<close>

lemma add_draft_row: "add_draft r s = (Inr u, t) \<Longrightarrow> t = s\<lparr>analysis_draft_revisions := analysis_draft_revisions s @ [r]\<rparr>"
  by (auto simp: add_draft_def run_add_row split: if_splits)

lemma add_decision_row: "add_decision r s = (Inr u, t) \<Longrightarrow> t = s\<lparr>analysis_decisions := analysis_decisions s @ [r]\<rparr>"
  by (auto simp: add_decision_def run_add_row split: if_splits)

lemma create_decision_run:
  assumes "create_analysis_decision ctx d s = (Inr r, t)"
  shows "r \<in> set (analysis_decisions t) \<and> decision_kind_of (ds_kind d) = Some (dec_kind r) \<and> dec_status r = DEC_OPEN \<and>
    dec_terms_snapshot r = ds_terms_snapshot d \<and> dec_project_id r = ds_project_id d \<and> dec_tenant_id r = ctx_tenant_id ctx \<and>
    analysis_draft_revisions t = analysis_draft_revisions s"
proof -
  have drafts: "evolves (\<lambda>s t. analysis_draft_revisions t = analysis_draft_revisions s) (get_project ctx i)"
    "evolves (\<lambda>s t. analysis_draft_revisions t = analysis_draft_revisions s) (get_workflow ctx i)" for i
    by (auto intro!: evolvesI simp: get_project_def get_workflow_def run_bindE some_or_def split: option.splits)
  from assms show ?thesis unfolding create_analysis_decision_def
    by (elim bindE_InrE) (auto simp: returning dest!: add_decision_row drafts [THEN evolves_run])
qed

lemma create_draft_run:
  assumes "create_draft_revision E ctx i payload s = (Inr r, t)"
  shows "r \<in> set (analysis_draft_revisions t) \<and> draft_payload r = payload \<and> draft_status r = CURRENT \<and> draft_decision_id r = i \<and>
    analysis_decisions t = analysis_decisions s"
proof -
  have same: "evolves (\<lambda>s t. analysis_decisions t = analysis_decisions s) (get_analysis_decision ctx i)"
    "evolves (\<lambda>s t. analysis_decisions t = analysis_decisions s) (digest_of E v)"
    "evolves (\<lambda>s t. analysis_decisions t = analysis_decisions s) (case prev of None \<Rightarrow> ret () | Some p \<Rightarrow> put_draft (draft_id p) f)" for v prev f
    by (auto intro!: evolvesI simp: get_analysis_decision_def run_bindE some_or_def run_digest_of put_draft_def split: option.splits sum.splits)
  from assms show ?thesis unfolding create_draft_revision_def
    by (elim bindE_InrE) (auto simp: returning dest!: add_draft_row same [THEN evolves_run])
qed

lemma context_reads:
  assumes "analysis_context t = analysis_context s"
  shows "owned_project ctx i t = owned_project ctx i s" and "priced_by ctx p im terms t = priced_by ctx p im terms s"
    and "accepted_amendments ctx i t = accepted_amendments ctx i s"
  by (simp_all add: owned_project_def priced_by_def accepted_amendments_def context_rows [OF assms])

text \<open>The draft of a proposal, over the context it was prepared in.\<close>

definition proposal_stored :: "trusted_context \<Rightarrow> analysis_input \<Rightarrow> db \<Rightarrow> uuid \<Rightarrow> uuid \<Rightarrow> db \<Rightarrow> bool" where
  "proposal_stored ctx a s decision draft t \<longleftrightarrow>
     (\<exists>i m p c terms q d.
        ai_impact a = Some i \<and> ai_communication a = Some m \<and> owned_project ctx (ai_project_id a) s = Some p \<and>
        c \<in> set (client_contacts s) \<and> contact_tenant_id c = ctx_tenant_id ctx \<and> contact_client_id c = proj_client_id p \<and>
        contact_normalized_email c = lower (strip (mo_recipient_email m)) \<and>
        priced_by ctx p i terms s \<and> terms_ok terms \<and>
        q \<in> set (analysis_draft_revisions t) \<and> draft_id q = draft \<and> draft_decision_id q = decision \<and> draft_status q = CURRENT \<and>
        dict_get (draft_payload q) ''terms'' = PDict (terms_dump terms) \<and>
        dict_get (draft_payload q) ''recipient_email'' = PStr (mo_recipient_email m) \<and>
        d \<in> set (analysis_decisions t) \<and> dec_id d = decision \<and> dec_kind d = PROPOSAL_REVIEW \<and> dec_status d = DEC_OPEN \<and>
        dec_terms_snapshot d = Some (terms_dump terms))"

lemma open_proposal_run:
  assumes run: "open_proposal E zones ctx a request w x g bundle s = (Inr (decision, draft), t)"
  shows "\<exists>d. draft = Some d \<and> proposal_stored ctx a s decision d t"
proof -
  from run obtain i c m where inputs: "ai_impact a = Some i" "ai_change_order a = Some c" "ai_communication a = Some m"
    by (auto simp: open_proposal_def split: option.splits)
  from run show ?thesis
    unfolding open_proposal_def inputs prod.case option.case
  proof (elim bindE_InrE, goal_cases)
    case prems: (1 u s1 terms s2 payload s3 v s4 d s5 q s6)
    from prems(1) obtain u' s0 where "authorized_recipient ctx (ai_project_id a) (mo_recipient_email m) s = (Inr u', s0)"
      unfolding proposal_roles_def by (elim bindE_InrE)
    from authorized_recipient_run [OF this] obtain p k where p: "owned_project ctx (ai_project_id a) s = Some p"
      "k \<in> set (client_contacts s)" "contact_tenant_id k = ctx_tenant_id ctx" "contact_client_id k = proj_client_id p"
      "contact_normalized_email k = lower (strip (mo_recipient_email m))" by blast
    have same: "analysis_context s1 = analysis_context s" using prems(1) by (rule same_context [OF analysis_frame_workflow(3)])
    from freeze_terms_run [OF prems(2)] p(1) have terms: "priced_by ctx p i terms s" "terms_ok terms"
      by (auto simp: context_reads [OF same])
    have payload: "payload = proposal_of a i c m (gate_evidence_ids g) terms" using prems(3) by simp
    note draft = create_draft_run [OF prems(6)]
    have "dec_id d = decision" "draft = Some (draft_id q)" "t = s6" using prems(7) by auto
    moreover have "dict_get (proposal_dump payload) ''terms'' = PDict (terms_dump terms)"
      "dict_get (proposal_dump payload) ''recipient_email'' = PStr (mo_recipient_email m)"
      by (simp_all add: payload dict_get_def proposal_dump_def proposal_of_def)
    ultimately show ?case
      using create_decision_run [OF prems(5)] draft p terms inputs unfolding proposal_stored_def
      by (intro exI [of _ "draft_id q"] conjI exI [of _ i] exI [of _ m] exI [of _ p] exI [of _ k] exI [of _ terms] exI [of _ q] exI [of _ d]) auto
  qed
qed

lemma proposal_stored_context:
  assumes "analysis_context s1 = analysis_context s"
  shows "proposal_stored ctx a s1 i d t = proposal_stored ctx a s i d t"
  by (simp add: proposal_stored_def context_reads [OF assms] context_rows [OF assms])

lemma proposal_stored_workflow:
  assumes "put_workflow w f t = (Inr u, t')"
  shows "proposal_stored ctx a s i d t' = proposal_stored ctx a s i d t"
proof -
  have "analysis_draft_revisions t' = analysis_draft_revisions t" "analysis_decisions t' = analysis_decisions t"
    using assms by (auto simp: put_workflow_def)
  then show ?thesis by (simp add: proposal_stored_def)
qed

lemma open_decision_run: "open_decision ctx a request w x g bundle s = (Inr (i, draft), t) \<Longrightarrow> draft = None"
  by (auto simp: open_decision_def elim!: bindE_InrE)

text \<open>C27: No proposal without evidence. When the preparation of an analysis leaves a draft proposal, the
evidence output was complete, without contradictions and with support, and found a potential scope
change that no accepted amendment and no baseline item covers; every supporting reference is stored
evidence of this project; the recipient is a contact of the project's client; and the draft stored for
review carries terms priced from the preference version the project pins.\<close>

theorem proposal_needs_evidence:
  assumes "prepare_analysis E zones ctx a s = (Inr r, t)" and "ar_draft_revision_id r = Some draft"
  shows "\<exists>e. ai_evidence a = Some e \<and> eo_completeness e = COMPLETE \<and> eo_contradictory_references e = [] \<and>
     eo_supporting_references e \<noteq> [] \<and> eo_final_classification e = POTENTIAL_SCOPE_CHANGE \<and>
     so_classification (ai_preliminary a) \<notin> {IN_SCOPE, NOT_A_SCOPE_REQUEST} \<and>
     accepted_amendments ctx (ai_project_id a) s \<inter> set (so_matched_amendment_ids (ai_preliminary a)) = {} \<and>
     (\<forall>x\<in>set (eo_supporting_references e). \<exists>row\<in>set (evidence_references s). eref_id row = ci_reference_id x \<and>
        eref_tenant_id row = ctx_tenant_id ctx \<and> eref_project_id row = ai_project_id a) \<and>
     proposal_stored ctx a s (ar_decision_id r) draft t"
  using assms unfolding prepare_analysis_def
proof (elim bindE_InrE, goal_cases)
  case prems: (1 found s1 request s2 w s3 u s4 accepted s5 v s6 g s7 cited s8 x s9 opened s10)
  have 1: "s2 = s" using prems(2,3) by (simp add: returning)
  have 4: "analysis_context s4 = analysis_context s"
    using same_context [OF analysis_frame_workflow(1) prems(4)] same_context [OF analysis_frame_operations(9) prems(5)] by (simp add: 1)
  have 7: "analysis_context s7 = analysis_context s"
    using 4 prems(6) same_context [OF analysis_frame_workflow(2) prems(7)] same_context [OF analysis_frame_reads(6) prems(8)]
    by (simp add: returning)
  have 9: "analysis_context s9 = analysis_context s"
    using 7 same_context [OF analysis_frame_parts(2) prems(9)] same_context [OF analysis_frame_operations(4) prems(10)] by simp
  obtain decision d where opened: "opened = (decision, d)" by (cases opened)
  from prems(12) have "ar_draft_revision_id r = d \<and> ar_decision_id r = decision"
    unfolding opened prod.case by (auto elim!: bindE_InrE)
  then have result: "ar_draft_revision_id r = d" "ar_decision_id r = decision" by simp_all
  have route: "gate_route g = TO_PROPOSAL"
  proof (rule ccontr)
    assume "gate_route g \<noteq> TO_PROPOSAL"
    with prems(11) have "d = None" by (auto simp: opened dest: open_decision_run)
    with result prems(1) show False by simp
  qed
  from prems(8) have gate: "apply_evidence_gate (ai_preliminary a) (ai_evidence a) accepted (ai_evidence a \<noteq> None) = Inr g"
    by (simp add: returning)
  from gate_proposal [OF gate route] obtain e where e: "ai_evidence a = Some e" "eo_completeness e = COMPLETE"
    "eo_contradictory_references e = []" "eo_supporting_references e \<noteq> []" "eo_final_classification e = POTENTIAL_SCOPE_CHANGE"
    "so_classification (ai_preliminary a) \<notin> {IN_SCOPE, NOT_A_SCOPE_REQUEST}"
    "accepted \<inter> set (so_matched_amendment_ids (ai_preliminary a)) = {}"
    "gate_evidence_ids g = map ci_reference_id (eo_supporting_references e)" by metis
  have accepted: "accepted = accepted_amendments ctx (ai_project_id a) s"
    using prems(6) context_reads(3) [OF 4] by (simp add: returning)
  from prems(9) e obtain refs s8' where "validate_reference_ids ctx (ai_project_id a) (gate_evidence_ids g) None s7 = (Inr refs, s8')"
    by (auto simp: cited_bundle_def elim!: bindE_InrE)
  from reference_ids_run [OF this] have refs: "\<forall>x\<in>set (eo_supporting_references e). \<exists>row\<in>set (evidence_references s).
      eref_id row = ci_reference_id x \<and> eref_tenant_id row = ctx_tenant_id ctx \<and> eref_project_id row = ai_project_id a"
    by (simp add: e context_rows(5) [OF 7])
  from prems(11) route opened have "open_proposal E zones ctx a request (wf_id w) (assess_id x) g cited s9 = (Inr (decision, d), s10)" by simp
  from open_proposal_run [OF this] result prems(1) have "proposal_stored ctx a s decision draft s10"
    by (auto simp: proposal_stored_context [OF 9])
  moreover from prems(12) obtain u' where "put_workflow (wf_id w) (\<lambda>r. r\<lparr>wf_state := (if gate_route g = TO_CLARIFICATION then WF_REVIEW_REQUIRED else WF_SUCCEEDED),
        wf_current_phase := Some ''DECISION_READY'', wf_row_version := wf_row_version r + 1\<rparr>) s10 = (Inr u', t)"
    unfolding opened prod.case by (auto elim!: bindE_InrE)
  ultimately have "proposal_stored ctx a s (ar_decision_id r) draft t" using result by (simp add: proposal_stored_workflow)
  with e accepted refs show ?case by blast
qed

text \<open>A database and an input for the witness: a request with one supporting reference.\<close>

definition analysis_demo :: db where
  "analysis_demo = empty_db\<lparr>next_uuid := 100,
     projects := [\<lparr>proj_id = 3, proj_tenant_id = 7, proj_client_id = 5, proj_name = ''P'', proj_status = PROJECT_ACTIVE,
       proj_currency = ''INR'', proj_base_contract_value_minor = 0, proj_current_scope_version_id = None,
       proj_preference_version_id = 6, proj_timezone = ''UTC'', proj_calendar_version_id = None, proj_target_date = None,
       proj_created_at = 0, proj_updated_at = 0, proj_row_version = 1\<rparr>],
     preference_versions := [\<lparr>pref_id = 6, pref_tenant_id = 7, pref_version = 1, pref_rate_minor = 150000,
       pref_minimum_minor = 100000, pref_increment_minor = 50000, pref_communication_style = [], pref_reminder_policy = [],
       pref_confirmed_at = 0, pref_created_at = 0\<rparr>],
     client_contacts := [\<lparr>contact_id = 11, contact_tenant_id = 7, contact_client_id = 5, contact_normalized_email = ''c@x'',
       contact_display_name = ''C'', contact_role = None, contact_created_at = 0\<rparr>],
     request_records := [\<lparr>req_id = 8, req_tenant_id = 7, req_project_id = 3, req_summary = ''r'', req_status = PROPOSAL_OPEN,
       req_request_version = 1, req_merged_into_id = None, req_rejection_reason = None, req_row_version = 1,
       req_created_at = 0, req_updated_at = 0\<rparr>],
     evidence_references := [\<lparr>eref_id = 90, eref_tenant_id = 7, eref_project_id = 3, eref_bundle_id = 80, eref_source_type = ''mail'',
       eref_source_id = ''m'', eref_source_version = ''1'', eref_exact_excerpt_ref = ''x'', eref_content_hash = ''h'',
       eref_locator = [], eref_fetched_at = 0, eref_access_scope = ''a'', eref_relation = ''SUPPORTS''\<rparr>]\<rparr>"

definition demo_impact :: impact_output where
  "demo_impact = \<lparr>io_tasks = [\<lparr>it_task_key = ''k'', it_description = ''d'', it_low_hours = ''2'', it_recommended_hours = ''2.5'',
       it_high_hours = ''3'', it_assumptions = [], it_dependencies = []\<rparr>], io_low_hours = ''2'', io_recommended_hours = ''2.5'', io_high_hours = ''3'',
     io_assumptions = [''No history''], io_dependencies = [], io_missing_information = [], io_uncertainty = LOW, io_cold_start = True\<rparr>"

definition demo_input :: analysis_input where
  "demo_input = \<lparr>ai_project_id = 3, ai_request_id = 8, ai_input_snapshot = [],
     ai_preliminary = \<lparr>so_classification = POTENTIAL_SCOPE_CHANGE, so_request_summary = ''r'', so_reason = ''new page'',
       so_matched_scope_item_ids = [], so_matched_amendment_ids = [], so_pending_request_ids = [],
       so_required_evidence_queries = [], so_uncertainty = LOW\<rparr>,
     ai_evidence = Some \<lparr>eo_final_classification = POTENTIAL_SCOPE_CHANGE,
       eo_supporting_references = [\<lparr>ci_reference_id = 90, ci_relation = SUPPORTS, ci_claim = ''c''\<rparr>],
       eo_contradictory_references = [], eo_searched_sources = [], eo_completeness = COMPLETE, eo_unavailable_sources = [],
       eo_unresolved_questions = [], eo_temporal_coverage = ''all''\<rparr>,
     ai_impact = Some demo_impact,
     ai_change_order = Some \<lparr>cho_title = ''T'', cho_requested_change = ''R'', cho_deliverables = [''D''], cho_exclusions = [],
       cho_assumptions = [], cho_client_explanation = ''E''\<rparr>,
     ai_communication = Some \<lparr>mo_subject = ''S'', mo_plain_text_body = ''B'', mo_html_body = ''H'', mo_recipient_email = ''c@x''\<rparr>,
     ai_workflow_key = Some ''w'', ai_policy_version = ''v1''\<rparr>"

lemma demo_price: "recommend_total_minor ''2.5'' 150000 100000 50000 = Inr 400000"
proof -
  have d: "decimal_of_str ''2.5'' = Some (Dec False 25 (- 1))" by code_simp
  have v: "decimal_value (Dec False 25 (- 1)) = Some (of_int 250 / 100)" by (simp add: power10_def)
  have "exact_price 250 150000 100000 50000 = Inr 400000" by code_simp
  with recommend_exact [OF d v] show ?thesis by simp
qed

lemma demo_effort: "validate_effort_range ''2'' ''2.5'' ''3'' = Inr (2, 5 / 2, 3)" "round28 4 = 4"
  by code_simp+

lemma demo_texts: "decimal_of_str ''2.5'' = Some (Dec False 25 (- 1))" "decimal_str (Dec False 25 (- 1)) = ''2.5''"
  by code_simp+

lemma demo_gate:
  "apply_evidence_gate (ai_preliminary demo_input) (ai_evidence demo_input) {} (ai_evidence demo_input \<noteq> None) =
     Inr \<lparr>gate_route = TO_PROPOSAL, gate_classification = POTENTIAL_SCOPE_CHANGE,
       gate_reason = ''Authorized evidence supports additional work'', gate_questions = [], gate_evidence_ids = [90]\<rparr>"
  by (simp add: apply_evidence_gate_def demo_input_def gate_def gate_ok_def sized_def)

lemmas demo_analysis = analysis_demo_def demo_input_def demo_impact_def empty_db_def demo_ctx_def demo_env_def

lemmas preparing = prepare_analysis_def request_in_def prepare_workflow_def create_workflow_def new_workflow_def
  add_workflow_def workflow_instance_check_def check_project_def get_project_def owned_project_def workflow_key_of_def
  validate_scope_references_def require_cited_def accepted_amendments_def persist_findings_def persist_role_output_def
  start_agent_run_def get_workflow_def run_of_node_def new_agent_run_def add_agent_run_def agent_run_check_def finish_agent_run_def
  get_agent_run_def put_agent_run_def open_run_def of_result_def cited_bundle_def validate_reference_ids_def
  require_project_context_def own_reference_def record_scope_assessment_def add_assessment_def scope_assessment_check_def
  assessment_of_def coverage_of_def CLASSIFICATIONS_def COVERAGES_def

lemmas proposing = open_proposal_def proposal_roles_def authorized_recipient_def freeze_terms_def recommended_decimal_def
  project_calendar_def schedule_effort_def create_analysis_decision_def add_decision_def create_draft_revision_def
  get_analysis_decision_def add_draft_def draft_revision_check_def put_workflow_def proposal_of_def proposal_ok_def sized_def
  terms_ok_def decision_details_def effort_details_def trace_of_roles_def

lemmas dumping = scope_dump_def evidence_dump_def citation_dump_def impact_dump_def impact_task_dump_def change_dump_def communication_dump_def
  proposal_dump_def terms_dump_def str_list_def uuid_list_def nullable_uuid_def

lemma demo_recipient: "lower (strip ''c@x'') = ''c@x''" "strip ''T'' = ''T''" "strip ''E'' = ''E''"
  by code_simp+

lemma demo_prepared:
  "\<exists>r t. prepare_analysis demo_env (\<lambda>_. None) demo_ctx demo_input analysis_demo = (Inr r, t) \<and>
     ar_draft_revision_id r = Some 108"
  by (simp add: preparing proposing dumping program_runs demo_gate [unfolded demo_input_def demo_impact_def, simplified]
      demo_analysis demo_price demo_effort demo_texts demo_recipient del: dumps.simps cong: bindE_weak if_weak_cong)

theorem proposal_needs_evidence_witness:
  "\<exists>r t draft. prepare_analysis demo_env (\<lambda>_. None) demo_ctx demo_input analysis_demo = (Inr r, t) \<and>
     ar_draft_revision_id r = Some draft \<and> proposal_stored demo_ctx demo_input analysis_demo (ar_decision_id r) draft t"
proof -
  obtain r t where run: "prepare_analysis demo_env (\<lambda>_. None) demo_ctx demo_input analysis_demo = (Inr r, t)"
    and draft: "ar_draft_revision_id r = Some 108"
    using demo_prepared by blast
  from proposal_needs_evidence [OF run draft] run draft show ?thesis by blast
qed

end
