(* ===== verification/Documents.thy ===== *)
theory Documents
  imports Models
begin

text \<open>
  Contract documents: the text of an upload cut into chunks (\<open>services/contracts/extraction.py\<close>), and
  the scope candidates a model service proposes, checked against those chunks
  (\<open>structure.py\<close>). The bytes of a document are a string. Decoding bytes beyond ASCII, opening a zip
  archive and parsing its XML are a record of functions; strings are read on their ASCII characters, as elsewhere.
\<close>

section \<open>Limits\<close>

definition MAX_BYTES :: int where "MAX_BYTES = 10 * 1024 * 1024"
definition MAX_PAGES :: nat where "MAX_PAGES = 100"
definition MAX_CHARS :: int where "MAX_CHARS = 250000"
definition MAX_DOCX_EXPANDED_BYTES :: int where "MAX_DOCX_EXPANDED_BYTES = 50 * 1024 * 1024"

definition DOCX_MIME_TYPE :: string where
  "DOCX_MIME_TYPE = ''application/vnd.openxmlformats-officedocument.wordprocessingml.document''"

definition SUPPORTED_MIME_TYPES :: "string list" where
  "SUPPORTED_MIME_TYPES = [''application/pdf'', DOCX_MIME_TYPE, ''text/plain'', ''text/markdown'']"

text \<open>An \<open>ExtractionError\<close> is its code and message.\<close>

type_synonym extraction_error = "string \<times> string"

record extracted_chunk =
  xc_index :: nat
  xc_text :: string
  xc_start_offset :: nat
  xc_end_offset :: nat
  xc_page_number :: "nat option"
  xc_section :: "string option"

record extraction_result =
  xr_mime_type :: string
  xr_sha256 :: string
  xr_size_bytes :: nat
  xr_text :: string
  xr_chunks :: "extracted_chunk list"
  xr_page_count :: "nat option"
  xr_extractor_version :: string

definition check_limits :: "string \<Rightarrow> int option \<Rightarrow> extraction_error + unit" where
  "check_limits content declared =
     (if declared \<noteq> None \<and> declared \<noteq> Some (int (length content))
      then Inl (''size_mismatch'', ''Uploaded size does not match the declared size'')
      else if MAX_BYTES < int (length content) then Inl (''size_limit'', ''Documents are limited to 10 MiB'')
      else Inr ())"

section \<open>Chunks\<close>

text \<open>
  The match of the separator (a line feed, white space, and line feeds) at the head of a text: after the
  first line feed the white space is taken as far as its last line feed. Zero stands for no match.
\<close>

definition newline :: char where "newline = CHR 0x0A"

fun separator_length :: "string \<Rightarrow> nat" where
  "separator_length [] = 0"
| "separator_length (c # cs) =
     (if c \<noteq> newline then 0
      else (case length (dropWhile (\<lambda>d. d \<noteq> newline) (rev (takeWhile is_space cs))) of 0 \<Rightarrow> 0 | Suc k \<Rightarrow> Suc (Suc k)))"

text \<open>\<open>re.split\<close> at the separators, with the part read so far.\<close>

fun split_paragraphs :: "string \<Rightarrow> string \<Rightarrow> string list" where
  "split_paragraphs part [] = [part]"
| "split_paragraphs part (c # cs) =
     (case separator_length (c # cs) of
        0 \<Rightarrow> split_paragraphs (part @ [c]) cs
      | Suc k \<Rightarrow> part # split_paragraphs [] (drop k cs))"

text \<open>\<open>t.find(p, start)\<close>; \<open>None\<close> stands for -1.\<close>

fun str_find :: "string \<Rightarrow> string \<Rightarrow> nat option" where
  "str_find p [] = (if p = [] then Some 0 else None)"
| "str_find p (c # cs) = (if starts_with p (c # cs) then Some 0 else map_option Suc (str_find p cs))"

definition find_from :: "string \<Rightarrow> string \<Rightarrow> nat \<Rightarrow> nat option" where
  "find_from p t start = map_option (\<lambda>i. start + i) (str_find p (drop start t))"

definition paragraphs_of :: "string \<Rightarrow> string list" where
  "paragraphs_of text =
     (let ps = filter (\<lambda>p. p \<noteq> []) (map strip (split_paragraphs [] text)) in if ps = [] then [strip text] else ps)"

fun place_chunks :: "string \<Rightarrow> nat option \<Rightarrow> nat \<Rightarrow> nat \<Rightarrow> string list \<Rightarrow> extracted_chunk list" where
  "place_chunks text pages cursor index [] = []"
| "place_chunks text pages cursor index (p # ps) =
     (let start = (case find_from p text cursor of None \<Rightarrow> cursor | Some i \<Rightarrow> i) in
      \<lparr>xc_index = index, xc_text = p, xc_start_offset = start, xc_end_offset = start + length p,
        xc_page_number = (case pages of None \<Rightarrow> None | Some n \<Rightarrow> if n = 0 then None else Some (min (index + 1) n)),
        xc_section = None\<rparr> # place_chunks text pages (start + length p) (Suc index) ps)"

definition chunk_text :: "string \<Rightarrow> nat option \<Rightarrow> extraction_error + extracted_chunk list" where
  "chunk_text text pages =
     (if strip text = [] then Inl (''no_extractable_text'', ''The document contains no extractable text'')
      else if MAX_CHARS < int (length text) then Inl (''character_limit'', ''Extracted text is limited to 250,000 characters'')
      else Inr (place_chunks text pages 0 0 (paragraphs_of text)))"

section \<open>Extraction\<close>

text \<open>
  What extraction takes from the standard library: strict and lenient decoding of bytes, the member
  sizes and the document part of a zip archive (\<open>None\<close> for \<open>BadZipFile\<close>, \<open>Some None\<close> for a missing part),
  and the text runs of each paragraph of its XML with the number of page breaks.
\<close>

record document_reader =
  utf8 :: "string \<Rightarrow> string option"
  utf8_replace :: "string \<Rightarrow> string"
  zip_sizes :: "string \<Rightarrow> int list option"
  zip_document :: "string \<Rightarrow> string option option"
  docx_xml :: "string \<Rightarrow> (string list list \<times> nat) option"

text \<open>The classes \<open>\s\<close> and \<open>\w\<close> on bytes.\<close>

definition byte_space :: "char \<Rightarrow> bool" where
  "byte_space c \<longleftrightarrow> (let n = of_char c :: nat in n = 32 \<or> (9 \<le> n \<and> n \<le> 13))"

definition byte_word :: "char \<Rightarrow> bool" where
  "byte_word c \<longleftrightarrow> (let n = of_char c :: nat in (48 \<le> n \<and> n \<le> 57) \<or> (65 \<le> n \<and> n \<le> 90) \<or> n = 95 \<or> (97 \<le> n \<and> n \<le> 122))"

text \<open>The marks of pages: \<open>/Type\<close>, white space, \<open>/Page\<close> at a word boundary.\<close>

definition page_mark :: "string \<Rightarrow> bool" where
  "page_mark t \<longleftrightarrow> starts_with ''/Type'' t \<and>
     (let u = dropWhile byte_space (drop 5 t) in
      starts_with ''/Page'' u \<and> (case drop 5 u of [] \<Rightarrow> True | c # _ \<Rightarrow> \<not> byte_word c))"

fun count_pages :: "string \<Rightarrow> nat" where
  "count_pages [] = 0"
| "count_pages (c # cs) = (if page_mark (c # cs) then 1 else 0) + count_pages cs"

text \<open>
  The operands of the text operators: an opening parenthesis, the shortest run of bytes, a closing
  parenthesis, white space and \<open>TJ\<close> or \<open>Tj\<close>.
\<close>

definition after_operator :: "string \<Rightarrow> string option" where
  "after_operator t = (case dropWhile byte_space t of
      a # b # r \<Rightarrow> if a = CHR ''T'' \<and> (b = CHR ''J'' \<or> b = CHR ''j'') then Some r else None
    | _ \<Rightarrow> None)"

fun shown_body :: "string \<Rightarrow> (string \<times> string) option" where
  "shown_body [] = None"
| "shown_body (c # cs) =
     (case (if c = CHR 0x29 then after_operator cs else None) of
        Some r \<Rightarrow> Some ([], r)
      | None \<Rightarrow> map_option (\<lambda>(body, r). (c # body, r)) (shown_body cs))"

lemma after_operator_shorter: "after_operator t = Some r \<Longrightarrow> length r < length t"
proof -
  assume "after_operator t = Some r"
  then have "length r < length (dropWhile byte_space t)"
    by (auto simp: after_operator_def split: list.splits if_splits)
  also have "\<dots> \<le> length t" by (rule length_dropWhile_le)
  finally show ?thesis .
qed

lemma shown_body_shorter: "shown_body t = Some (body, r) \<Longrightarrow> length r < length t"
  by (induction t arbitrary: body r)
    (auto split: option.splits if_splits dest: after_operator_shorter intro: less_SucI)

function shown_texts :: "string \<Rightarrow> string list" where
  "shown_texts [] = []"
| "shown_texts (c # cs) =
     (case (if c = CHR 0x28 then shown_body cs else None) of
        Some (body, r) \<Rightarrow> body # shown_texts r
      | None \<Rightarrow> shown_texts cs)"
  by pat_completeness auto
termination
  by (relation "measure length") (auto split: if_splits dest: shown_body_shorter)

text \<open>\<open>b.replace(old, new)\<close> for a non-empty \<open>old\<close>.\<close>

fun replace_bytes :: "string \<Rightarrow> string \<Rightarrow> string \<Rightarrow> string" where
  "replace_bytes old new [] = []"
| "replace_bytes old new (c # cs) =
     (if starts_with old (c # cs) then new @ replace_bytes old new (drop (length old - 1) cs)
      else c # replace_bytes old new cs)"

text \<open>The three patterns are raw literals: two backslashes and a parenthesis, or the letter n.\<close>

definition unescaped :: "string \<Rightarrow> string" where
  "unescaped raw =
     replace_bytes [CHR 0x5C, CHR 0x5C, CHR ''n''] [newline]
       (replace_bytes [CHR 0x5C, CHR 0x5C, CHR 0x29] [CHR 0x29]
          (replace_bytes [CHR 0x5C, CHR 0x5C, CHR 0x28] [CHR 0x28] raw))"

definition blank_line :: string where "blank_line = [newline, newline]"

definition extract_pdf :: "document_reader \<Rightarrow> string \<Rightarrow> extraction_error + string \<times> nat" where
  "extract_pdf R content =
     (if \<not> starts_with ''%PDF-'' content then Inl (''magic_mismatch'', ''The PDF signature is invalid'')
      else if is_infix ''/Encrypt'' (take 2000000 content)
      then Inl (''encrypted_pdf'', ''Encrypted PDFs require a decrypted re-upload'')
      else if MAX_PAGES < count_pages content then Inl (''page_limit'', ''Documents are limited to 100 pages'')
      else
        let text = join blank_line (map (\<lambda>raw. utf8_replace R (unescaped raw)) (shown_texts content)) in
        if strip text = []
        then Inl (''scanned_pdf'', ''Scanned-only PDFs require manual handling; OCR is not enabled'')
        else Inr (text, max (count_pages content) 1))"

definition extract_docx :: "document_reader \<Rightarrow> string \<Rightarrow> extraction_error + string \<times> nat" where
  "extract_docx R content =
     (if \<not> starts_with ''PK'' content then Inl (''magic_mismatch'', ''The DOCX archive signature is invalid'')
      else (case zip_sizes R content of
          None \<Rightarrow> Inl (''corrupt_document'', ''The DOCX archive is corrupt'')
        | Some sizes \<Rightarrow>
            if MAX_DOCX_EXPANDED_BYTES < sum_list sizes
            then Inl (''expansion_limit'', ''DOCX expanded content exceeds 50 MiB'')
            else (case zip_document R content of
                None \<Rightarrow> Inl (''corrupt_document'', ''The DOCX archive is corrupt'')
              | Some None \<Rightarrow> Inl (''corrupt_document'', ''DOCX document.xml is missing'')
              | Some (Some xml) \<Rightarrow>
                  (case docx_xml R xml of
                     None \<Rightarrow> Inl (''corrupt_document'', ''The DOCX XML is invalid'')
                   | Some (paragraphs, breaks) \<Rightarrow>
                       if MAX_PAGES < 1 + breaks then Inl (''page_limit'', ''Documents are limited to 100 pages'')
                       else Inr (join blank_line (filter (\<lambda>p. p \<noteq> []) (map (\<lambda>runs. strip (concat runs)) paragraphs)), 1 + breaks)))))"

definition text_of_document :: "document_reader \<Rightarrow> string \<Rightarrow> string \<Rightarrow> extraction_error + string \<times> nat option" where
  "text_of_document R content mime_type =
     (if mime_type = ''text/plain'' \<or> mime_type = ''text/markdown''
      then (if CHR 0x00 \<in> set content then Inl (''binary_text'', ''Text files must not contain binary content'')
            else (case utf8 R content of
                None \<Rightarrow> Inl (''invalid_encoding'', ''Text files must use UTF-8'')
              | Some text \<Rightarrow> Inr (text, None)))
      else (case (if mime_type = ''application/pdf'' then extract_pdf R content else extract_docx R content) of
          Inl e \<Rightarrow> Inl e
        | Inr (text, pages) \<Rightarrow> Inr (text, Some pages)))"

definition extract_document ::
  "env \<Rightarrow> document_reader \<Rightarrow> string \<Rightarrow> string \<Rightarrow> int option \<Rightarrow> extraction_error + extraction_result" where
  "extract_document E R content mime_type declared =
     (case check_limits content declared of
        Inl e \<Rightarrow> Inl e
      | Inr _ \<Rightarrow>
          if mime_type \<notin> set SUPPORTED_MIME_TYPES
          then Inl (''unsupported_type'', ''Unsupported document type; only PDF, DOCX, TXT, and Markdown files are supported'')
          else (case text_of_document R content mime_type of
              Inl e \<Rightarrow> Inl e
            | Inr (text, pages) \<Rightarrow>
                (case chunk_text text pages of
                   Inl e \<Rightarrow> Inl e
                 | Inr chunks \<Rightarrow>
                     Inr \<lparr>xr_mime_type = mime_type, xr_sha256 = sha256 E content, xr_size_bytes = length content,
                       xr_text = text, xr_chunks = chunks, xr_page_count = pages,
                       xr_extractor_version = ''scopeguard-extractor-1''\<rparr>)))"

text \<open>The worker may not finish in time; whether it does is an input.\<close>

definition extract_document_bounded ::
  "env \<Rightarrow> document_reader \<Rightarrow> bool \<Rightarrow> string \<Rightarrow> string \<Rightarrow> int option \<Rightarrow> extraction_error + extraction_result" where
  "extract_document_bounded E R late content mime_type declared =
     (if late then Inl (''timeout'', ''Document extraction exceeded its time limit'')
      else extract_document E R content mime_type declared)"

section \<open>Nothing is lost\<close>

text \<open>
  The pieces \<open>ps\<close> follow each other in a text with only white space before, between and after them.
\<close>

fun spaced :: "string list \<Rightarrow> string \<Rightarrow> bool" where
  "spaced [] t \<longleftrightarrow> list_all is_space t"
| "spaced (p # ps) t \<longleftrightarrow>
     (\<exists>u v. t = u @ p @ v \<and> list_all is_space u \<and> p \<noteq> [] \<and> \<not> is_space (hd p) \<and> spaced ps v)"

lemma spaced_before: "list_all is_space w \<Longrightarrow> spaced ps t \<Longrightarrow> spaced ps (w @ t)"
proof (cases ps)
  case (Cons p qs)
  assume w: "list_all is_space w" and "spaced ps t"
  then obtain u v where "t = u @ p @ v" "list_all is_space u" "p \<noteq> []" "\<not> is_space (hd p)" "spaced qs v"
    unfolding Cons by auto
  then show ?thesis unfolding Cons spaced.simps using w by (intro exI [of _ "w @ u"] exI [of _ v]) simp
qed simp

lemma strip_parts:
  obtains a b where "t = a @ strip t @ b" "list_all is_space a" "list_all is_space b"
    "strip t \<noteq> [] \<longrightarrow> \<not> is_space (hd (strip t))"
proof -
  let ?m = "dropWhile is_space t"
  have front: "t = takeWhile is_space t @ ?m" by simp
  have "rev ?m = takeWhile is_space (rev ?m) @ dropWhile is_space (rev ?m)" by simp
  then have "rev (rev ?m) = rev (dropWhile is_space (rev ?m)) @ rev (takeWhile is_space (rev ?m))"
    by (metis rev_append)
  then have behind: "?m = strip t @ rev (takeWhile is_space (rev ?m))" by (simp add: strip_def)
  have "\<not> is_space (hd (strip t))" if "strip t \<noteq> []"
  proof -
    have "hd ?m = hd (strip t)" using behind that by (metis hd_append2)
    moreover have "?m \<noteq> []" using behind that by (cases "?m") (auto simp: strip_def)
    ultimately show ?thesis by (metis hd_dropWhile)
  qed
  then show ?thesis
    using front behind
    by (intro that [of "takeWhile is_space t" "rev (takeWhile is_space (rev ?m))"])
      (auto simp: list_all_iff dest: set_takeWhileD)
qed

lemma newline_space [simp]: "is_space newline"
  by (simp add: newline_def is_space_def)

lemma separator_space:
  assumes "separator_length (c # cs) = Suc k"
  shows "is_space c" and "list_all is_space (take k cs)" and "k \<le> length cs"
proof -
  have c: "c = newline" using assms by (auto split: if_splits)
  then show "is_space c" by simp
  let ?run = "takeWhile is_space cs"
  have "length (dropWhile (\<lambda>d. d \<noteq> newline) (rev ?run)) \<le> length ?run"
    by (metis length_dropWhile_le length_rev)
  then have k: "k \<le> length ?run" using assms c by (auto split: nat.splits)
  then show "k \<le> length cs" using length_takeWhile_le [of is_space cs] by simp
  have "take k cs = take k ?run" using k by (metis append_eq_conv_conj take_append takeWhile_dropWhile_id diff_is_0_eq take0 append_Nil2)
  then show "list_all is_space (take k cs)" by (auto simp: list_all_iff dest!: in_set_takeD set_takeWhileD)
qed

lemma paragraphs_spaced: "spaced (filter (\<lambda>p. p \<noteq> []) (map strip (split_paragraphs part t))) (part @ t)"
proof (induction part t rule: split_paragraphs.induct)
  case (1 part)
  obtain a b where part: "part = a @ strip part @ b" "list_all is_space a" "list_all is_space b"
    "strip part \<noteq> [] \<longrightarrow> \<not> is_space (hd (strip part))" by (rule strip_parts)
  show ?case
  proof (cases "strip part = []")
    case True
    with part have "list_all is_space part" by (metis append_Nil list_all_append)
    with True show ?thesis by simp
  next
    case False
    with part(2-4) part(1) [symmetric] show ?thesis
      by (simp del: append_assoc) (intro exI [of _ a] exI [of _ b]; simp)
  qed
next
  case (2 part c cs)
  show ?case
  proof (cases "separator_length (c # cs)")
    case 0
    then show ?thesis using 2(1) [OF 0] by (simp del: separator_length.simps)
  next
    case (Suc k)
    note rest = 2(2) [OF Suc] and gap = separator_space [OF Suc]
    have "cs = take k cs @ drop k cs" by simp
    then have after: "spaced (filter (\<lambda>p. p \<noteq> []) (map strip (split_paragraphs [] (drop k cs)))) (b @ c # cs)"
      if "list_all is_space b" for b
      using spaced_before [of "b @ c # take k cs", OF _ rest] gap that by simp
    obtain a b where part: "part = a @ strip part @ b" "list_all is_space a" "list_all is_space b"
      "strip part \<noteq> [] \<longrightarrow> \<not> is_space (hd (strip part))" by (rule strip_parts)
    show ?thesis
    proof (cases "strip part = []")
      case True
      with part have "list_all is_space part" by (metis append_Nil list_all_append)
      with True Suc after show ?thesis by (simp del: separator_length.simps)
    next
      case False
      have whole: "part @ c # cs = a @ strip part @ (b @ c # cs)" using part(1) by (metis append.assoc)
      have "spaced (strip part # filter (\<lambda>p. p \<noteq> []) (map strip (split_paragraphs [] (drop k cs)))) (part @ c # cs)"
        unfolding spaced.simps using False part(2-4) after [OF part(3)]
        by (intro exI [of _ a] exI [of _ "b @ c # cs"] conjI whole) simp_all
      with False Suc show ?thesis by (simp del: separator_length.simps spaced.simps)
    qed
  qed
qed

lemma str_find_after_space:
  assumes "list_all is_space u" and "p \<noteq> []" and "\<not> is_space (hd p)"
  shows "str_find p (u @ p @ v) = Some (length u)"
  using assms(1)
proof (induction u)
  case Nil
  from assms(2) obtain d ds where p: "p = d # ds" by (cases p) auto
  then show ?case by (simp add: starts_with_def)
next
  case (Cons c u)
  from assms(2,3) Cons.prems have "\<not> starts_with p ((c # u) @ p @ v)"
    by (cases p) (auto simp: starts_with_def)
  with Cons show ?case by simp
qed

text \<open>The placed chunks quote the text at their offsets, in order.\<close>

definition quotes :: "string \<Rightarrow> extracted_chunk \<Rightarrow> bool" where
  "quotes text c \<longleftrightarrow> xc_text c \<noteq> [] \<and> xc_end_offset c = xc_start_offset c + length (xc_text c) \<and> xc_end_offset c \<le> length text \<and>
     take (length (xc_text c)) (drop (xc_start_offset c) text) = xc_text c"

lemma placed_quotes:
  assumes "spaced ps (drop cursor text)" and "cursor \<le> length text"
  shows "list_all (quotes text) (place_chunks text pages cursor index ps)"
  using assms
proof (induction ps arbitrary: cursor index)
  case (Cons p ps)
  then obtain u v where parts: "drop cursor text = u @ p @ v" "list_all is_space u" "p \<noteq> []" "\<not> is_space (hd p)" "spaced ps v"
    by auto
  have found: "find_from p text cursor = Some (cursor + length u)"
    using str_find_after_space [OF parts(2-4), of v] by (simp add: find_from_def parts(1))
  have whole: "text = take cursor text @ u @ p @ v" using parts(1) by (metis append_take_drop_id)
  have start: "drop (cursor + length u) text = p @ v"
    by (metis parts(1) add.commute append_eq_conv_conj drop_drop)
  then have v: "v = drop (cursor + length u + length p) text"
    by (metis add.commute append_eq_conv_conj drop_drop)
  have "length text = cursor + length u + length p + length v"
    using arg_cong [OF whole, of length] Cons.prems(2) by simp
  then have bound: "cursor + length u + length p \<le> length text" by simp
  have "list_all (quotes text) (place_chunks text pages (cursor + length u + length p) (Suc index) ps)"
    using Cons.IH [of "cursor + length u + length p" "Suc index"] parts(5) bound v by simp
  then show ?case using start bound parts(3) by (simp add: found Let_def) (simp add: quotes_def)
qed simp

lemma placed_texts: "map xc_text (place_chunks text pages cursor index ps) = ps"
  by (induction ps arbitrary: cursor index) (simp_all add: Let_def)

lemma spaced_letters: "spaced ps t \<Longrightarrow> filter (\<lambda>c. \<not> is_space c) t = concat (map (filter (\<lambda>c. \<not> is_space c)) ps)"
proof (induction ps arbitrary: t)
  case (Cons p ps)
  then show ?case by (fastforce simp: list_all_iff filter_empty_conv)
qed (simp add: list_all_iff filter_empty_conv)

lemma strip_empty: "strip t = [] \<Longrightarrow> list_all is_space t"
  by (metis append_Nil list_all_append strip_parts)

lemma paragraphs_of_spaced:
  assumes "strip text \<noteq> []"
  shows "spaced (paragraphs_of text) text"
proof -
  have spaced: "spaced (filter (\<lambda>p. p \<noteq> []) (map strip (split_paragraphs [] text))) text"
    using paragraphs_spaced [of "[]" "text"] by simp
  show ?thesis
  proof (cases "filter (\<lambda>p. p \<noteq> []) (map strip (split_paragraphs [] text)) = []")
    case True
    obtain a b where "text = a @ strip text @ b" "list_all is_space a" "list_all is_space b"
      "strip text \<noteq> [] \<longrightarrow> \<not> is_space (hd (strip text))" by (rule strip_parts)
    with True assms show ?thesis by (auto simp: paragraphs_of_def Let_def)
  next
    case False
    with spaced show ?thesis by (simp only: paragraphs_of_def Let_def if_False)
  qed
qed

lemma chunks_quote:
  assumes "chunk_text text pages = Inr chunks"
  shows "list_all (quotes text) chunks"
    and "filter (\<lambda>c. \<not> is_space c) text = concat (map (filter (\<lambda>c. \<not> is_space c) \<circ> xc_text) chunks)"
proof -
  from assms have ok: "strip text \<noteq> []" "chunks = place_chunks text pages 0 0 (paragraphs_of text)"
    by (auto simp: chunk_text_def split: if_splits)
  note spaced = paragraphs_of_spaced [OF ok(1)]
  show "list_all (quotes text) chunks"
    using placed_quotes [of "paragraphs_of text" 0 "text"] spaced ok(2) by simp
  have "map (filter (\<lambda>c. \<not> is_space c) \<circ> xc_text) chunks = map (filter (\<lambda>c. \<not> is_space c)) (paragraphs_of text)"
    by (simp only: ok(2) map_map [symmetric] placed_texts)
  then show "filter (\<lambda>c. \<not> is_space c) text = concat (map (filter (\<lambda>c. \<not> is_space c) \<circ> xc_text) chunks)"
    using spaced_letters [OF spaced] by simp
qed

section \<open>Validated candidates\<close>

record scope_span =
  span_item_key :: string
  span_item_type :: string
  span_text :: string
  span_source_chunk_id :: uuid
  span_start_offset :: int
  span_end_offset :: int

text \<open>\<open>isinstance(v, str)\<close>, \<open>isinstance(v, UUID)\<close> and \<open>isinstance(v, int)\<close>, which a bool is too.\<close>

fun str_of :: "pyval \<Rightarrow> string option" where
  "str_of (PStr t) = Some t"
| "str_of _ = None"

fun uuid_of :: "pyval \<Rightarrow> uuid option" where
  "uuid_of (PUuid u) = Some u"
| "uuid_of _ = None"

fun int_of_value :: "pyval \<Rightarrow> int option" where
  "int_of_value (PInt i) = Some i"
| "int_of_value (PBool b) = Some (if b then 1 else 0)"
| "int_of_value _ = None"

text \<open>\<open>{chunk.id: chunk for chunk in chunks}\<close>: a later chunk of the same id replaces an earlier one.\<close>

definition chunk_by_id :: "document_chunk list \<Rightarrow> uuid \<Rightarrow> document_chunk option" where
  "chunk_by_id chunks i = find (\<lambda>c. dchunk_id c = i) (rev chunks)"

text \<open>\<open>t[a:b]\<close> for offsets that are not negative.\<close>

definition slice :: "string \<Rightarrow> int \<Rightarrow> int \<Rightarrow> string" where
  "slice t a b = take (nat (b - a)) (drop (nat a) t)"

definition validate_item :: "document_chunk list \<Rightarrow> string list \<Rightarrow> (string \<times> pyval) list \<Rightarrow> exn + scope_span" where
  "validate_item chunks keys raw =
     (case str_of (dict_get raw ''item_key'') of
        None \<Rightarrow> Inl ValidationError
      | Some key \<Rightarrow>
     if key = [] \<or> key \<in> set keys then Inl ValidationError else
     (case (str_of (dict_get raw ''item_type''), str_of (dict_get raw ''text'')) of
        (Some kind, Some quoted) \<Rightarrow>
     if kind = [] \<or> strip quoted = [] then Inl ValidationError else
     (case Option.bind (uuid_of (dict_get raw ''source_chunk_id'')) (chunk_by_id chunks) of
        None \<Rightarrow> Inl ValidationError
      | Some chunk \<Rightarrow>
     (case (int_of_value (dict_get raw ''start_offset''), int_of_value (dict_get raw ''end_offset'')) of
        (Some start, Some stop) \<Rightarrow>
          if start < 0 \<or> stop \<le> start then Inl ValidationError
          else if start < dchunk_start_offset chunk \<or> dchunk_end_offset chunk < stop then Inl ValidationError
          else if strip (slice (dchunk_source_text chunk) (start - dchunk_start_offset chunk) (stop - dchunk_start_offset chunk)) \<noteq> strip quoted
          then Inl ValidationError
          else Inr \<lparr>span_item_key = key, span_item_type = kind, span_text = quoted,
            span_source_chunk_id = dchunk_id chunk, span_start_offset = start, span_end_offset = stop\<rparr>
      | _ \<Rightarrow> Inl ValidationError))
      | _ \<Rightarrow> Inl ValidationError))"

fun validate_items :: "document_chunk list \<Rightarrow> string list \<Rightarrow> (string \<times> pyval) list list \<Rightarrow> exn + scope_span list" where
  "validate_items chunks keys [] = Inr []"
| "validate_items chunks keys (raw # raws) =
     (case validate_item chunks keys raw of
        Inl e \<Rightarrow> Inl e
      | Inr v \<Rightarrow>
          (case validate_items chunks (span_item_key v # keys) raws of Inl e \<Rightarrow> Inl e | Inr vs \<Rightarrow> Inr (v # vs)))"

definition validate_structure_output :: "(string \<times> pyval) list list \<Rightarrow> document_chunk list \<Rightarrow> exn + scope_span list" where
  "validate_structure_output payload chunks =
     (if 500 < length payload then Inl ValidationError else validate_items chunks [] payload)"

datatype structure_status = STRUCTURE_PENDING | STRUCTURE_READY

record structure_result =
  sr_status :: structure_status
  sr_candidates :: "scope_span list"
  sr_reason :: "string option"

definition validate_or_pending ::
  "((string \<times> pyval) list list) option \<Rightarrow> document_chunk list \<Rightarrow> string \<Rightarrow> exn + structure_result" where
  "validate_or_pending payload chunks pending_reason =
     (case payload of
        None \<Rightarrow> Inr \<lparr>sr_status = STRUCTURE_PENDING, sr_candidates = [], sr_reason = Some pending_reason\<rparr>
      | Some items \<Rightarrow>
          (case validate_structure_output items chunks of
             Inl e \<Rightarrow> Inl e
           | Inr spans \<Rightarrow> Inr \<lparr>sr_status = STRUCTURE_READY, sr_candidates = spans, sr_reason = None\<rparr>))"

section \<open>The fallback: bullet lines\<close>

text \<open>\<open>t.splitlines(keepends=True)\<close> on ASCII text, with the line read so far.\<close>

definition line_break :: "char \<Rightarrow> bool" where
  "line_break c \<longleftrightarrow> (let n = of_char c :: nat in (10 \<le> n \<and> n \<le> 13) \<or> (28 \<le> n \<and> n \<le> 30))"

fun split_lines :: "string \<Rightarrow> string \<Rightarrow> string list" where
  "split_lines line [] = (if line = [] then [] else [line])"
| "split_lines line (c # cs) =
     (if c = CHR 0x0D \<and> starts_with [newline] cs then (line @ [c, newline]) # split_lines [] (drop 1 cs)
      else if line_break c then (line @ [c]) # split_lines [] cs
      else split_lines (line @ [c]) cs)"

definition slug_char :: "char \<Rightarrow> bool" where
  "slug_char c \<longleftrightarrow> (let n = of_char c :: nat in (48 \<le> n \<and> n \<le> 57) \<or> (97 \<le> n \<and> n \<le> 122))"

text \<open>\<open>re.sub(r"[^a-z0-9]+", "-", t)\<close>\<close>

function dashed :: "string \<Rightarrow> string" where
  "dashed [] = []"
| "dashed (c # cs) = (if slug_char c then c # dashed cs else CHR ''-'' # dashed (dropWhile (\<lambda>d. \<not> slug_char d) cs))"
  by pat_completeness auto
termination by (relation "measure length") (auto simp: less_Suc_eq_le length_dropWhile_le)

definition strip_dashes :: "string \<Rightarrow> string" where
  "strip_dashes t = rev (dropWhile (\<lambda>c. c = CHR ''-'') (rev (dropWhile (\<lambda>c. c = CHR ''-'') t)))"

definition slug_of :: "string \<Rightarrow> string" where
  "slug_of exact = (let slug = take 120 (strip_dashes (dashed (lower exact))) in if slug = [] then ''scope'' else slug)"

text \<open>The first of the key, the key with suffix 2, 3, ... that no earlier candidate has.\<close>

function free_key :: "string \<Rightarrow> string list \<Rightarrow> string \<Rightarrow> nat \<Rightarrow> string" where
  "free_key base seen key suffix =
     (if key \<in> set seen then free_key base seen (base @ ''-'' @ nat_str suffix) (Suc suffix) else key)"
  by pat_completeness auto

lemma finite_suffixes: "finite {m. base @ ''-'' @ nat_str m \<in> set seen}"
proof -
  have "inj_on (\<lambda>m. base @ ''-'' @ nat_str m) {m. base @ ''-'' @ nat_str m \<in> set seen}"
    by (auto intro: inj_onI)
  moreover have "finite ((\<lambda>m. base @ ''-'' @ nat_str m) ` {m. base @ ''-'' @ nat_str m \<in> set seen})"
    by (rule finite_subset [of _ "set seen"]) auto
  ultimately show ?thesis by (rule finite_imageD [rotated])
qed

termination free_key
proof (relation "measure (\<lambda>(base, seen, key, suffix).
    card {m. suffix \<le> m \<and> base @ ''-'' @ nat_str m \<in> set seen} + (if key \<in> set seen then 1 else 0))", goal_cases)
  case (2 base seen key suffix)
  let ?from = "\<lambda>n. {m. n \<le> m \<and> base @ ''-'' @ nat_str m \<in> set seen}"
  have finite: "finite (?from n)" for n
    by (rule finite_subset [OF _ finite_suffixes [of base seen]]) auto
  have "card (?from (Suc suffix)) + (if base @ ''-'' @ nat_str suffix \<in> set seen then 1 else 0) \<le> card (?from suffix)"
  proof (cases "base @ ''-'' @ nat_str suffix \<in> set seen")
    case True
    then have "?from suffix = insert suffix (?from (Suc suffix))" by (auto simp: not_less_eq_eq le_less_Suc_eq)
    then show ?thesis using True finite by simp
  next
    case False
    have "?from (Suc suffix) \<subseteq> ?from suffix" by auto
    from card_mono [OF finite this] False show ?thesis by simp
  qed
  with 2 show ?case by simp
qed simp

definition section_after :: "string \<Rightarrow> string \<Rightarrow> string" where
  "section_after heading section_name =
     (if is_infix ''included'' heading then ''included''
      else if is_infix ''excluded'' heading then ''excluded''
      else if is_infix ''commercial'' heading then ''commercial''
      else section_name)"

text \<open>The candidates of the lines from offset \<open>cursor\<close> of a chunk, and the keys used.\<close>

fun line_candidates ::
  "document_chunk \<Rightarrow> string \<Rightarrow> nat \<Rightarrow> string list \<Rightarrow> string list \<Rightarrow> scope_span list \<times> string list" where
  "line_candidates chunk section_name cursor seen [] = ([], seen)"
| "line_candidates chunk section_name cursor seen (raw # lines) =
     (let stripped = strip raw in
      if starts_with ''#'' stripped
      then line_candidates chunk (section_after (lower (strip (dropWhile (\<lambda>c. c = CHR ''#'') stripped))) section_name)
        (cursor + length raw) seen lines
      else if (starts_with ''- '' stripped \<or> starts_with ''* '' stripped) \<and> 2 < length stripped
      then (let exact = strip (drop 2 stripped) in
        (case str_find exact raw of
           None \<Rightarrow> line_candidates chunk section_name (cursor + length raw) seen lines
         | Some relative \<Rightarrow>
             (let start = dchunk_start_offset chunk + int cursor + int relative;
                  base = section_name @ ''-'' @ slug_of exact;
                  key = free_key base seen base 2;
                  (found, after) = line_candidates chunk section_name (cursor + length raw) (key # seen) lines
              in (\<lparr>span_item_key = key, span_item_type = section_name, span_text = exact,
                    span_source_chunk_id = dchunk_id chunk, span_start_offset = start,
                    span_end_offset = start + int (length exact)\<rparr> # found, after))))
      else line_candidates chunk section_name (cursor + length raw) seen lines)"

fun chunk_candidates :: "string list \<Rightarrow> document_chunk list \<Rightarrow> scope_span list" where
  "chunk_candidates seen [] = []"
| "chunk_candidates seen (chunk # chunks) =
     (let (found, after) = line_candidates chunk ''assumption'' 0 seen (split_lines [] (dchunk_source_text chunk))
      in found @ chunk_candidates after chunks)"

definition source_grounded_line_candidates :: "document_chunk list \<Rightarrow> scope_span list" where
  "source_grounded_line_candidates chunks = chunk_candidates [] chunks"

text \<open>
  A provider has a version and answers for the chunks with items, or with the message of
  \<open>StructureProviderUnavailable\<close>.
\<close>

record structure_provider =
  sp_extractor_version :: string
  sp_extract :: "document_chunk list \<Rightarrow> string + ((string \<times> pyval) list list) option"

definition extract_scope_candidates :: "structure_provider \<Rightarrow> document_chunk list \<Rightarrow> structure_result" where
  "extract_scope_candidates provider chunks =
     (case sp_extract provider chunks of
        Inl message \<Rightarrow> \<lparr>sr_status = STRUCTURE_PENDING, sr_candidates = [], sr_reason = Some message\<rparr>
      | Inr payload \<Rightarrow>
          (case validate_or_pending payload chunks ''provider_returned_no_items'' of
             Inl _ \<Rightarrow>
               (case source_grounded_line_candidates chunks of
                  [] \<Rightarrow> \<lparr>sr_status = STRUCTURE_PENDING, sr_candidates = [], sr_reason = Some ''provider_output_not_source_grounded''\<rparr>
                | found \<Rightarrow> \<lparr>sr_status = STRUCTURE_READY, sr_candidates = found,
                    sr_reason = Some (sp_extractor_version provider @ '':source-span-fallback'')\<rparr>)
           | Inr validated \<Rightarrow>
               if sr_status validated = STRUCTURE_PENDING then validated
               else \<lparr>sr_status = STRUCTURE_READY, sr_candidates = sr_candidates validated,
                 sr_reason = Some (sp_extractor_version provider)\<rparr>))"

section \<open>Candidates quote their chunks\<close>

lemma strip_nonempty: "c \<in> set t \<Longrightarrow> \<not> is_space c \<Longrightarrow> strip t \<noteq> []"
  using strip_empty [of t] by (auto simp: list_all_iff)

lemma strip_last: "strip t \<noteq> [] \<Longrightarrow> \<not> is_space (last (strip t))"
  using hd_dropWhile [of is_space "rev (dropWhile is_space t)"] by (simp add: strip_def last_rev)

lemma str_find_SomeD: "str_find p t = Some i \<Longrightarrow> i + length p \<le> length t \<and> take (length p) (drop i t) = p"
proof (induction t arbitrary: i)
  case (Cons c cs)
  then show ?case by (auto simp: starts_with_def split: if_splits dest: arg_cong [of _ _ length])
qed (auto split: if_splits)

lemma split_lines_text: "concat (split_lines line t) = line @ t"
proof (induction line t rule: split_lines.induct)
  case (2 line c cs)
  show ?case
  proof (cases "c = CHR 0x0D \<and> starts_with [newline] cs")
    case True
    then obtain ds where "cs = newline # ds" by (cases cs) (auto simp: starts_with_def)
    with True 2(1) show ?thesis by (simp add: starts_with_def)
  next
    case False
    with 2(2,3) show ?thesis by auto
  qed
qed simp

definition grounded_in :: "document_chunk \<Rightarrow> scope_span \<Rightarrow> bool" where
  "grounded_in c v \<longleftrightarrow> dchunk_id c = span_source_chunk_id v \<and> dchunk_start_offset c \<le> span_start_offset v \<and>
     span_start_offset v < span_end_offset v \<and> span_end_offset v \<le> dchunk_end_offset c \<and> strip (span_text v) \<noteq> [] \<and>
     strip (slice (dchunk_source_text c) (span_start_offset v - dchunk_start_offset c) (span_end_offset v - dchunk_start_offset c)) =
       strip (span_text v)"

lemma validated_item:
  assumes "validate_item chunks keys raw = Inr v"
  shows "span_item_key v \<notin> set keys \<and> (\<exists>c\<in>set chunks. grounded_in c v)"
proof -
  from assms obtain chunk i where found: "find (\<lambda>c. dchunk_id c = i) (rev chunks) = Some chunk"
    and v: "span_item_key v \<notin> set keys" "dchunk_start_offset chunk \<le> span_start_offset v" "span_start_offset v < span_end_offset v"
      "span_end_offset v \<le> dchunk_end_offset chunk" "strip (span_text v) \<noteq> []" "dchunk_id chunk = span_source_chunk_id v"
      "strip (slice (dchunk_source_text chunk) (span_start_offset v - dchunk_start_offset chunk) (span_end_offset v - dchunk_start_offset chunk)) =
       strip (span_text v)"
    unfolding validate_item_def chunk_by_id_def
    by (auto split: option.splits if_splits prod.splits simp: bind_eq_Some_conv)
  from find_SomeD [OF found] v show ?thesis by (auto simp: grounded_in_def)
qed

text \<open>A list of candidates over some chunks, with keys distinct and new.\<close>

definition grounded :: "document_chunk list \<Rightarrow> string list \<Rightarrow> scope_span list \<Rightarrow> bool" where
  "grounded chunks keys vs \<longleftrightarrow> distinct (map span_item_key vs) \<and> set (map span_item_key vs) \<inter> set keys = {} \<and>
     (\<forall>v\<in>set vs. \<exists>c\<in>set chunks. grounded_in c v)"

lemma validated_items: "validate_items chunks keys raws = Inr vs \<Longrightarrow> grounded chunks keys vs"
proof (induction chunks keys raws arbitrary: vs rule: validate_items.induct)
  case (2 chunks keys raw raws)
  then obtain v ws where v: "validate_item chunks keys raw = Inr v"
    and ws: "validate_items chunks (span_item_key v # keys) raws = Inr ws" "vs = v # ws"
    by (auto split: sum.splits)
  show ?case using 2(1) [OF v ws(1)] validated_item [OF v] ws(2) by (auto simp: grounded_def)
qed (simp add: grounded_def)

lemma free_key_new: "free_key base seen key suffix \<notin> set seen"
  by (induction base seen key suffix rule: free_key.induct) (subst free_key.simps, simp)

declare free_key.simps [simp del]

text \<open>A chunk as extraction stores it: its offsets span its text.\<close>

definition chunk_spans :: "document_chunk \<Rightarrow> bool" where
  "chunk_spans c \<longleftrightarrow> dchunk_end_offset c = dchunk_start_offset c + int (length (dchunk_source_text c))"

lemma bullet_text:
  assumes "2 < length (strip raw)"
  shows "strip (drop 2 (strip raw)) \<noteq> []" and "strip (strip (drop 2 (strip raw))) \<noteq> []"
proof -
  let ?t = "strip raw"
  have full: "?t \<noteq> []" using assms by auto
  have "drop 2 ?t \<noteq> []" using assms by simp
  then have "last (drop 2 ?t) \<in> set (drop 2 ?t)" by (rule last_in_set)
  moreover have "last (drop 2 ?t) = last ?t" using assms by simp
  moreover have "\<not> is_space (last ?t)" by (rule strip_last [OF full])
  ultimately show nonempty: "strip (drop 2 ?t) \<noteq> []" using strip_nonempty by metis
  from strip_nonempty [OF last_in_set [OF nonempty] strip_last [OF nonempty]] show "strip (strip (drop 2 ?t)) \<noteq> []" .
qed

lemma line_grounded:
  assumes "chunk_spans chunk" and "drop cursor (dchunk_source_text chunk) = raw @ t" and "str_find exact raw = Some relative"
    and "strip exact \<noteq> []" and "cursor \<le> length (dchunk_source_text chunk)"
  shows "grounded_in chunk \<lparr>span_item_key = key, span_item_type = kind, span_text = exact, span_source_chunk_id = dchunk_id chunk,
     span_start_offset = dchunk_start_offset chunk + int cursor + int relative,
     span_end_offset = dchunk_start_offset chunk + int cursor + int relative + int (length exact)\<rparr>"
proof -
  from str_find_SomeD [OF assms(3)] have found: "relative + length exact \<le> length raw" "take (length exact) (drop relative raw) = exact"
    by simp_all
  have "drop (cursor + relative) (dchunk_source_text chunk) = drop relative (drop cursor (dchunk_source_text chunk))"
    by (simp add: add.commute)
  also have "\<dots> = drop relative raw @ t" using found(1) by (simp add: assms(2))
  finally have "take (length exact) (drop (cursor + relative) (dchunk_source_text chunk)) = exact"
    using found by simp
  moreover have "nat (int cursor + int relative) = cursor + relative" by linarith
  ultimately have quoted: "slice (dchunk_source_text chunk) (int cursor + int relative) (int cursor + int relative + int (length exact)) = exact"
    by (simp add: slice_def)
  have "length (dchunk_source_text chunk) = cursor + length raw + length t"
    using arg_cong [OF assms(2), of length] assms(5) by simp
  moreover have "exact \<noteq> []" using assms(4) by (auto simp: strip_def)
  ultimately show ?thesis
    using assms(1,4) found(1) quoted by (simp add: grounded_in_def chunk_spans_def add.assoc)
qed

lemma line_candidates_grounded:
  assumes "chunk_spans chunk" and "drop cursor (dchunk_source_text chunk) = concat lines"
    and "cursor \<le> length (dchunk_source_text chunk)" and "line_candidates chunk section_name cursor seen lines = (found, after)"
  shows "grounded [chunk] seen found \<and> set after = set seen \<union> set (map span_item_key found)"
  using assms(2-4)
proof (induction lines arbitrary: section_name cursor seen found after)
  case (Cons raw lines)
  let ?s = "strip raw"
  have next_lines: "drop (cursor + length raw) (dchunk_source_text chunk) = concat lines" "cursor + length raw \<le> length (dchunk_source_text chunk)"
  proof -
    show "drop (cursor + length raw) (dchunk_source_text chunk) = concat lines"
      using Cons.prems(1) by (simp add: drop_drop [symmetric] add.commute [of cursor])
    have "length (dchunk_source_text chunk) - cursor = length raw + length (concat lines)"
      using arg_cong [OF Cons.prems(1), of length] by simp
    with Cons.prems(2) show "cursor + length raw \<le> length (dchunk_source_text chunk)" by linarith
  qed
  note step = Cons.IH [OF next_lines]
  consider (skip) other where "line_candidates chunk other (cursor + length raw) seen lines = (found, after)"
    | (item) relative exact rest_found key where "str_find exact raw = Some relative" "exact = strip (drop 2 ?s)" "2 < length ?s"
      "key \<notin> set seen" "line_candidates chunk section_name (cursor + length raw) (key # seen) lines = (rest_found, after)"
      "found = \<lparr>span_item_key = key, span_item_type = section_name, span_text = exact, span_source_chunk_id = dchunk_id chunk,
         span_start_offset = dchunk_start_offset chunk + int cursor + int relative,
         span_end_offset = dchunk_start_offset chunk + int cursor + int relative + int (length exact)\<rparr> # rest_found"
  proof (cases "(starts_with ''- '' ?s \<or> starts_with ''* '' ?s) \<and> 2 < length ?s \<and> \<not> starts_with ''#'' ?s \<and>
      str_find (strip (drop 2 ?s)) raw \<noteq> None")
    case False
    then have "\<exists>other. line_candidates chunk other (cursor + length raw) seen lines = (found, after)"
      using Cons.prems(3) by (auto simp: Let_def split: if_splits option.splits)
    with skip show thesis by blast
  next
    case True
    then obtain relative where relative: "str_find (strip (drop 2 ?s)) raw = Some relative" by auto
    let ?base = "section_name @ ''-'' @ slug_of (strip (drop 2 ?s))"
    obtain r a where "line_candidates chunk section_name (cursor + length raw) (free_key ?base seen ?base 2 # seen) lines = (r, a)"
      by (metis surj_pair)
    with True Cons.prems(3) relative free_key_new [of ?base seen ?base 2] show thesis
      by (intro item [of _ relative "free_key ?base seen ?base 2" r]) (auto simp: Let_def)
  qed
  then show ?case
  proof cases
    case skip
    from step [OF this] show ?thesis .
  next
    case item
    have "grounded_in chunk (hd found)"
      unfolding item(6) list.sel
      by (rule line_grounded [OF assms(1) _ item(1)]) (use Cons.prems(1,2) bullet_text(2) [OF item(3)] item(2) in auto)
    with step [OF item(5)] item(4,6) show ?thesis by (auto simp: grounded_def)
  qed
qed (simp add: grounded_def)

lemma chunk_candidates_grounded:
  "list_all chunk_spans chunks \<Longrightarrow> grounded chunks seen (chunk_candidates seen chunks)"
proof (induction chunks arbitrary: seen)
  case (Cons chunk chunks)
  obtain found after where run: "line_candidates chunk ''assumption'' 0 seen (split_lines [] (dchunk_source_text chunk)) = (found, after)"
    by (metis surj_pair)
  from Cons.prems have "grounded [chunk] seen found \<and> set after = set seen \<union> set (map span_item_key found)"
    by (intro line_candidates_grounded [OF _ _ _ run]) (simp_all add: split_lines_text)
  moreover have "grounded chunks after (chunk_candidates after chunks)" using Cons by simp
  ultimately show ?case by (auto simp: run grounded_def)
qed (simp add: grounded_def)

lemma extracted_grounded:
  assumes "list_all chunk_spans chunks"
  shows "grounded chunks [] (sr_candidates (extract_scope_candidates provider chunks))"
proof (cases "sp_extract provider chunks")
  case (Inr payload)
  have fallback: "grounded chunks [] (source_grounded_line_candidates chunks)"
    using chunk_candidates_grounded [OF assms] by (simp add: source_grounded_line_candidates_def)
  show ?thesis
  proof (cases "validate_or_pending payload chunks ''provider_returned_no_items''")
    case Inl
    with Inr fallback show ?thesis by (auto simp: extract_scope_candidates_def split: list.splits)
  next
    case (Inr r)
    then have "grounded chunks [] (sr_candidates r)"
      by (auto simp: validate_or_pending_def validate_structure_output_def grounded_def split: option.splits sum.splits if_splits
          dest!: validated_items)
    with Inr \<open>sp_extract provider chunks = Inr payload\<close> show ?thesis by (auto simp: extract_scope_candidates_def)
  qed
qed (simp add: extract_scope_candidates_def grounded_def)

text \<open>A chunk of a text, and a candidate that quotes the text at its offsets.\<close>

definition chunk_of :: "string \<Rightarrow> document_chunk \<Rightarrow> bool" where
  "chunk_of text c \<longleftrightarrow> chunk_spans c \<and> 0 \<le> dchunk_start_offset c \<and> dchunk_end_offset c \<le> int (length text) \<and>
     slice text (dchunk_start_offset c) (dchunk_end_offset c) = dchunk_source_text c"

definition quoted_from :: "string \<Rightarrow> scope_span \<Rightarrow> bool" where
  "quoted_from text v \<longleftrightarrow> 0 \<le> span_start_offset v \<and> span_start_offset v < span_end_offset v \<and>
     span_end_offset v \<le> int (length text) \<and> strip (span_text v) \<noteq> [] \<and>
     strip (slice text (span_start_offset v) (span_end_offset v)) = strip (span_text v)"

lemma grounded_quotes:
  assumes "chunk_of text c" and "grounded_in c v"
  shows "quoted_from text v"
proof -
  let ?a = "nat (span_start_offset v)" and ?b = "nat (span_end_offset v)" and ?s = "nat (dchunk_start_offset c)" and ?e = "nat (dchunk_end_offset c)"
  from assms have order: "?s \<le> ?a" "?a < ?b" "?b \<le> ?e" "0 \<le> dchunk_start_offset c"
    by (auto simp: chunk_of_def grounded_in_def)
  have "0 \<le> dchunk_end_offset c" using assms(1) by (simp add: chunk_of_def chunk_spans_def)
  then have source: "dchunk_source_text c = take (?e - ?s) (drop ?s text)"
    using assms(1) nat_diff_distrib' [of "dchunk_end_offset c" "dchunk_start_offset c"] by (simp add: chunk_of_def slice_def)
  have "slice text (span_start_offset v) (span_end_offset v) = take (?b - ?a) (drop ?a text)"
    using assms order by (simp add: slice_def nat_diff_distrib' grounded_in_def)
  also have "drop ?a text = drop (?a - ?s) (drop ?s text)" using order by simp
  also have "take (?b - ?a) (drop (?a - ?s) (drop ?s text)) = take (?b - ?a) (drop (?a - ?s) (take (?e - ?s) (drop ?s text)))"
    using order(1) diff_le_mono [OF order(3), of ?a] by (simp add: drop_take min_absorb1)
  also have "\<dots> = slice (dchunk_source_text c) (span_start_offset v - dchunk_start_offset c) (span_end_offset v - dchunk_start_offset c)"
    using assms order by (simp add: slice_def source nat_diff_distrib' grounded_in_def)
  finally show ?thesis using assms by (auto simp: quoted_from_def grounded_in_def chunk_of_def)
qed

end
