(* ===== verification/Contracts.thy ===== *)
theory Contracts
  imports Documents ChangeOrders Accounts
begin

text \<open>
  The contracts package: private object storage (\<open>services/contracts/storage.py\<close>), uploads, scope
  candidates and confirmed scope versions, external events and their routing (\<open>service.py\<close>), client
  requests (\<open>requests.py\<close>) and evidence (\<open>evidence.py\<close>). A row that is added without a flush is inserted at
  the flush that follows.
\<close>

section \<open>Object storage\<close>

text \<open>
  The settings read by \<open>storage.py\<close> and the object store's client: presigning, the stored headers and the
  stored body of an object. Any failure of the client but a \<open>BotoCoreError\<close> is \<open>OtherError\<close>.
\<close>

record object_head =
  head_content_length :: int
  head_content_type :: string
  head_metadata :: "(string \<times> string) list"

record object_store =
  os_bucket :: "string option"
  os_url_expiry :: int
  os_kms_key_arn :: "string option"
  os_presign_post :: "string \<Rightarrow> string \<Rightarrow> (string \<times> string) list \<Rightarrow> pyval list \<Rightarrow> int \<Rightarrow> exn + (string \<times> (string \<times> string) list)"
  os_presign_get :: "string \<Rightarrow> string \<Rightarrow> int \<Rightarrow> exn + string"
  os_head :: "string \<Rightarrow> string \<Rightarrow> exn + object_head"
  os_get :: "string \<Rightarrow> string \<Rightarrow> exn + (string \<times> string option)"

abbreviation BotoCoreError :: exn where "BotoCoreError \<equiv> OtherError ''BotoCoreError''"
abbreviation ObjectStoreUnavailable :: exn where "ObjectStoreUnavailable \<equiv> OtherError ''ObjectStoreUnavailable''"
abbreviation ObjectStoreVerificationError :: exn where
  "ObjectStoreVerificationError \<equiv> OtherError ''ObjectStoreVerificationError''"

text \<open>A setting counts as missing when it is empty; \<open>expires_in or ...\<close> likewise for zero.\<close>

definition configured :: "string option \<Rightarrow> string option" where
  "configured v = (case v of Some t \<Rightarrow> or_none t | None \<Rightarrow> None)"

definition expiry_or :: "int option \<Rightarrow> int \<Rightarrow> int" where
  "expiry_or v d = (case v of Some n \<Rightarrow> if n = 0 then d else n | None \<Rightarrow> d)"

definition upload_fields :: "object_store \<Rightarrow> string \<Rightarrow> string option \<Rightarrow> (string \<times> string) list" where
  "upload_fields S mime_type digest =
     [(''Content-Type'', mime_type)] @
     (case configured digest of None \<Rightarrow> [] | Some h \<Rightarrow> [(''x-amz-meta-sha256'', h)]) @
     (case configured (os_kms_key_arn S) of None \<Rightarrow> []
      | Some k \<Rightarrow> [(''x-amz-server-side-encryption'', ''aws:kms''), (''x-amz-server-side-encryption-aws-kms-key-id'', k)])"

text \<open>The conditions repeat the fields, with the exact length after the content type.\<close>

definition upload_conditions :: "object_store \<Rightarrow> string \<Rightarrow> int \<Rightarrow> string option \<Rightarrow> pyval list" where
  "upload_conditions S mime_type bytes digest =
     (case map (\<lambda>kv. PDict [(fst kv, PStr (snd kv))]) (upload_fields S mime_type digest) of
        [] \<Rightarrow> []
      | first # others \<Rightarrow> first # PList [PStr ''content-length-range'', PInt bytes, PInt bytes] # others)"

definition create_private_upload ::
  "env \<Rightarrow> object_store \<Rightarrow> string \<Rightarrow> string \<Rightarrow> int \<Rightarrow> string option \<Rightarrow> int option \<Rightarrow> exn + (string \<times> (string \<times> string) list)" where
  "create_private_upload E S key mime_type bytes digest expires =
     (case configured (os_bucket S) of
        None \<Rightarrow> Inl ObjectStoreUnavailable
      | Some bucket \<Rightarrow>
          (case os_presign_post S bucket key (upload_fields S mime_type digest) (upload_conditions S mime_type bytes digest)
              (expiry_or expires (os_url_expiry S)) of
             Inl e \<Rightarrow> if e = BotoCoreError \<and> development_environment E then Inl ObjectStoreUnavailable else Inl e
           | Inr presigned \<Rightarrow> Inr presigned))"

definition create_private_download :: "object_store \<Rightarrow> string \<Rightarrow> int option \<Rightarrow> exn + string" where
  "create_private_download S key expires =
     (case configured (os_bucket S) of
        None \<Rightarrow> Inl ObjectStoreUnavailable
      | Some bucket \<Rightarrow> os_presign_get S bucket key (expiry_or expires (os_url_expiry S)))"

definition fetch_private_object :: "object_store \<Rightarrow> string \<Rightarrow> int \<Rightarrow> string \<Rightarrow> string option \<Rightarrow> exn + string" where
  "fetch_private_object S key bytes mime_type digest =
     (case configured (os_bucket S) of
        None \<Rightarrow> Inl ObjectStoreUnavailable
      | Some bucket \<Rightarrow>
          (case os_head S bucket key of
             Inl _ \<Rightarrow> Inl ObjectStoreVerificationError
           | Inr head \<Rightarrow>
          (let stored = configured (map_of (rev (map (\<lambda>kv. (lower (fst kv), snd kv)) (head_metadata head))) ''sha256'') in
           if head_content_length head \<noteq> bytes then Inl ObjectStoreVerificationError
           else if head_content_type head \<noteq> [] \<and> head_content_type head \<noteq> mime_type then Inl ObjectStoreVerificationError
           else if configured digest \<noteq> None \<and> stored \<noteq> None \<and> stored \<noteq> configured digest then Inl ObjectStoreVerificationError
           else (case os_get S bucket key of
               Inl _ \<Rightarrow> Inl ObjectStoreVerificationError
             | Inr (body, content_type) \<Rightarrow>
                 if int (length (take (nat (bytes + 1)) body)) \<noteq> bytes then Inl ObjectStoreVerificationError
                 else if configured content_type \<noteq> None \<and> configured content_type \<noteq> Some mime_type
                 then Inl ObjectStoreVerificationError
                 else Inr (take (nat (bytes + 1)) body)))))"

section \<open>Uploads\<close>

definition add_document :: "contract_document \<Rightarrow> unit act" where
  "add_document = add_row contract_documents (\<lambda>rows s. s\<lparr>contract_documents := rows\<rparr>) contract_document_check
     (\<lambda>r q. cdoc_id r = cdoc_id q \<or> cdoc_tenant_id r = cdoc_tenant_id q \<and> cdoc_project_id r = cdoc_project_id q \<and>
        cdoc_object_key r = cdoc_object_key q \<and> cdoc_object_version r = cdoc_object_version q)"

text \<open>The change of a document's row, and the row after it.\<close>

definition change_document :: "contract_document \<Rightarrow> (contract_document \<Rightarrow> contract_document) \<Rightarrow> contract_document act" where
  "change_document d f =
     bindE (modify (\<lambda>s. s\<lparr>contract_documents := upd_row cdoc_id (cdoc_id d) f (contract_documents s)\<rparr>)) (\<lambda>_. ret (f d))"

definition add_grant :: "document_upload_grant \<Rightarrow> unit act" where
  "add_grant = add_row document_upload_grants (\<lambda>rows s. s\<lparr>document_upload_grants := rows\<rparr>) (\<lambda>_. True)
     (\<lambda>r q. grant_id r = grant_id q \<or> grant_token_hash r = grant_token_hash q)"

definition put_grant :: "uuid \<Rightarrow> (document_upload_grant \<Rightarrow> document_upload_grant) \<Rightarrow> unit act" where
  "put_grant i f = modify (\<lambda>s. s\<lparr>document_upload_grants := upd_row grant_id i f (document_upload_grants s)\<rparr>)"

definition add_chunk :: "document_chunk \<Rightarrow> unit act" where
  "add_chunk = add_row document_chunks (\<lambda>rows s. s\<lparr>document_chunks := rows\<rparr>) document_chunk_check
     (\<lambda>r q. dchunk_id r = dchunk_id q \<or>
        dchunk_document_id r = dchunk_document_id q \<and> dchunk_chunk_index r = dchunk_chunk_index q)"

record upload_grant_result =
  ug_document :: contract_document
  ug_token :: string
  ug_expires_at :: time
  ug_upload_url :: "string option"
  ug_upload_fields :: "((string \<times> string) list) option"

text \<open>\<open>t.split("/")\<close>, with the part read so far.\<close>

fun path_parts :: "string \<Rightarrow> string \<Rightarrow> string list" where
  "path_parts part [] = [part]"
| "path_parts part (c # cs) = (if c = CHR ''/'' then part # path_parts [] cs else path_parts (part @ [c]) cs)"

definition filename_of :: "string \<Rightarrow> string" where
  "filename_of key = last (path_parts [] key)"

definition MAX_UPLOAD_BYTES :: int where "MAX_UPLOAD_BYTES = 10 * 1024 * 1024"

definition presigned_or_none :: "exn + 'a \<Rightarrow> 'a option act" where
  "presigned_or_none r = (case r of Inr p \<Rightarrow> ret (Some p) | Inl e \<Rightarrow> if e = ObjectStoreUnavailable then ret None else raise e)"

definition create_upload_grant ::
  "env \<Rightarrow> object_store \<Rightarrow> trusted_context \<Rightarrow> uuid \<Rightarrow> string \<Rightarrow> string \<Rightarrow> int \<Rightarrow> int \<Rightarrow> upload_grant_result act" where
  "create_upload_grant E S ctx project object_key mime_type bytes expires_in =
     bindE (get_project ctx project) (\<lambda>_.
     bindE (require (object_key \<noteq> [] \<and> \<not> starts_with ''/'' object_key \<and> ''..'' \<notin> set (path_parts [] object_key)) ValidationError) (\<lambda>_.
     bindE (require (filename_of object_key \<noteq> [] \<and> filename_of object_key \<notin> {''.'', ''..''}) ValidationError) (\<lambda>_.
     bindE (require (1 \<le> bytes \<and> bytes \<le> MAX_UPLOAD_BYTES) ValidationError) (\<lambda>_.
     bindE (require (60 \<le> expires_in \<and> expires_in \<le> 3600) ValidationError) (\<lambda>_.
     bindE (fresh_token E) (\<lambda>token.
     bindE the_time (\<lambda>now.
     bindE fresh_uuid (\<lambda>storage.
     bindE fresh_uuid (\<lambda>version.
     bindE fresh_uuid (\<lambda>i.
     bindE (ret \<lparr>cdoc_id = i, cdoc_tenant_id = ctx_tenant_id ctx, cdoc_project_id = project,
        cdoc_object_key = ''contracts/'' @ uuid_str (ctx_tenant_id ctx) @ ''/'' @ uuid_str project @ ''/'' @ uuid_str storage @
          ''/'' @ filename_of object_key,
        cdoc_object_version = uuid_str version, cdoc_sha256 = ''pending'', cdoc_size_bytes = bytes, cdoc_mime_type = mime_type,
        cdoc_source_type = ''UPLOAD'', cdoc_status = UPLOADED, cdoc_extractor_version = None, cdoc_rejection_reason = None,
        cdoc_created_at = now, cdoc_completed_at = None\<rparr>) (\<lambda>document.
     bindE (add_document document) (\<lambda>_.
     bindE fresh_uuid (\<lambda>g.
     bindE (add_grant \<lparr>grant_id = g, grant_tenant_id = ctx_tenant_id ctx, grant_project_id = project, grant_document_id = i,
        grant_token_hash = sha256 E token, grant_expected_size_bytes = bytes, grant_expected_mime_type = mime_type,
        grant_expires_at = now + seconds expires_in, grant_consumed_at = None, grant_created_at = now\<rparr>) (\<lambda>_.
     bindE (presigned_or_none (create_private_upload E S (cdoc_object_key document) mime_type bytes None None)) (\<lambda>presigned.
     ret \<lparr>ug_document = document, ug_token = token, ug_expires_at = now + seconds expires_in,
        ug_upload_url = map_option fst presigned, ug_upload_fields = map_option snd presigned\<rparr>)))))))))))))))"

definition own_document :: "trusted_context \<Rightarrow> uuid \<Rightarrow> db \<Rightarrow> contract_document option" where
  "own_document ctx i s = find (\<lambda>d. cdoc_id d = i \<and> cdoc_tenant_id d = ctx_tenant_id ctx) (contract_documents s)"

definition grant_for :: "env \<Rightarrow> trusted_context \<Rightarrow> uuid \<Rightarrow> string \<Rightarrow> db \<Rightarrow> document_upload_grant option" where
  "grant_for E ctx document token s =
     find (\<lambda>g. grant_document_id g = document \<and> grant_tenant_id g = ctx_tenant_id ctx \<and> grant_token_hash g = sha256 E token)
       (document_upload_grants s)"

text \<open>The document and the open grant that a token names.\<close>

definition open_upload :: "env \<Rightarrow> trusted_context \<Rightarrow> uuid \<Rightarrow> string \<Rightarrow> (contract_document \<times> document_upload_grant) act" where
  "open_upload E ctx i token =
     bindE (gets (own_document ctx i)) (\<lambda>found_document.
     bindE (gets (grant_for E ctx i token)) (\<lambda>found_grant.
     bindE (some_or NotFoundError found_document) (\<lambda>document.
     bindE (some_or NotFoundError found_grant) (\<lambda>grant.
     bindE the_time (\<lambda>now.
     bindE (require (grant_consumed_at grant = None \<and> now < grant_expires_at grant) ConflictError) (\<lambda>_.
     bindE (require (cdoc_project_id document = grant_project_id grant) AuthorizationError) (\<lambda>_.
     ret (document, grant))))))))"

record upload_source =
  us_object_key :: string
  us_expected_size_bytes :: int
  us_expected_mime_type :: string

definition get_upload_source :: "env \<Rightarrow> trusted_context \<Rightarrow> uuid \<Rightarrow> string \<Rightarrow> upload_source act" where
  "get_upload_source E ctx i token =
     bindE (open_upload E ctx i token) (\<lambda>(document, grant).
     ret \<lparr>us_object_key = cdoc_object_key document, us_expected_size_bytes = grant_expected_size_bytes grant,
       us_expected_mime_type = grant_expected_mime_type grant\<rparr>)"

definition reject_document :: "contract_document \<Rightarrow> string \<Rightarrow> contract_document act" where
  "reject_document d reason =
     change_document d (\<lambda>r. r\<lparr>cdoc_status := DOC_REJECTED, cdoc_rejection_reason := Some reason\<rparr>)"

definition store_chunk :: "env \<Rightarrow> trusted_context \<Rightarrow> contract_document \<Rightarrow> extracted_chunk \<Rightarrow> unit act" where
  "store_chunk E ctx d c =
     bindE fresh_uuid (\<lambda>i.
     bindE the_time (\<lambda>now.
     add_chunk \<lparr>dchunk_id = i, dchunk_tenant_id = ctx_tenant_id ctx, dchunk_project_id = cdoc_project_id d,
        dchunk_document_id = cdoc_id d, dchunk_chunk_index = int (xc_index c),
        dchunk_page_number = map_option int (xc_page_number c), dchunk_section = xc_section c,
        dchunk_start_offset = int (xc_start_offset c), dchunk_end_offset = int (xc_end_offset c),
        dchunk_source_text = xc_text c, dchunk_content_hash = sha256 E (xc_text c), dchunk_created_at = now\<rparr>))"

definition accept_extraction ::
  "env \<Rightarrow> trusted_context \<Rightarrow> contract_document \<Rightarrow> document_upload_grant \<Rightarrow> extraction_result \<Rightarrow> contract_document act" where
  "accept_extraction E ctx document grant x =
     bindE the_time (\<lambda>now.
     bindE (change_document document (\<lambda>r. r\<lparr>cdoc_sha256 := xr_sha256 x, cdoc_size_bytes := int (xr_size_bytes x),
        cdoc_extractor_version := Some (xr_extractor_version x), cdoc_status := AWAITING_SCOPE_REVIEW,
        cdoc_completed_at := Some now\<rparr>)) (\<lambda>stored.
     bindE (put_grant (grant_id grant) (\<lambda>g. g\<lparr>grant_consumed_at := Some now\<rparr>)) (\<lambda>_.
     bindE (mapE (store_chunk E ctx document) (xr_chunks x)) (\<lambda>_.
     ret stored))))"

definition extract_upload ::
  "env \<Rightarrow> document_reader \<Rightarrow> bool \<Rightarrow> trusted_context \<Rightarrow> contract_document \<Rightarrow> document_upload_grant \<Rightarrow> string \<Rightarrow> string \<Rightarrow>
   contract_document act" where
  "extract_upload E R late ctx document grant content mime_type =
     bindE (change_document document (\<lambda>r. r\<lparr>cdoc_status := EXTRACTING\<rparr>)) (\<lambda>extracting.
     (case extract_document_bounded E R late content mime_type (Some (int (length content))) of
        Inl (code, message) \<Rightarrow>
          bindE (reject_document extracting (take 500 (code @ '':'' @ message))) (\<lambda>rejected.
          bindE the_time (\<lambda>now.
          bindE (put_grant (grant_id grant) (\<lambda>g. g\<lparr>grant_consumed_at := Some now\<rparr>)) (\<lambda>_.
          ret rejected)))
      | Inr x \<Rightarrow> accept_extraction E ctx extracting grant x))"

definition complete_upload ::
  "env \<Rightarrow> document_reader \<Rightarrow> bool \<Rightarrow> trusted_context \<Rightarrow> uuid \<Rightarrow> string \<Rightarrow> string \<Rightarrow> string \<Rightarrow> string \<Rightarrow> contract_document act" where
  "complete_upload E R late ctx i token content declared_sha256 declared_mime_type =
     bindE (open_upload E ctx i token) (\<lambda>(document, grant).
     if int (length content) \<noteq> grant_expected_size_bytes grant \<or> declared_mime_type \<noteq> grant_expected_mime_type grant
     then reject_document document ''upload_metadata_mismatch''
     else if sha256 E content \<noteq> declared_sha256 then reject_document document ''checksum_mismatch''
     else extract_upload E R late ctx document grant content declared_mime_type)"

definition get_document :: "trusted_context \<Rightarrow> uuid \<Rightarrow> contract_document act" where
  "get_document ctx i = bindE (gets (own_document ctx i)) (\<lambda>found. some_or NotFoundError found)"

definition list_documents :: "trusted_context \<Rightarrow> uuid \<Rightarrow> contract_document list act" where
  "list_documents ctx project =
     bindE (get_project ctx project) (\<lambda>_.
     gets (\<lambda>s. sort_key (\<lambda>d. - cdoc_created_at d)
       (filter (\<lambda>d. cdoc_tenant_id d = ctx_tenant_id ctx \<and> cdoc_project_id d = project) (contract_documents s))))"

section \<open>Scope candidates\<close>

definition add_candidate :: "scope_candidate \<Rightarrow> unit act" where
  "add_candidate = add_row scope_candidates (\<lambda>rows s. s\<lparr>scope_candidates := rows\<rparr>) (\<lambda>_. True)
     (\<lambda>r q. cand_id r = cand_id q \<or> cand_tenant_id r = cand_tenant_id q \<and> cand_document_id r = cand_document_id q \<and>
        cand_item_key r = cand_item_key q)"

definition new_candidate ::
  "trusted_context \<Rightarrow> contract_document \<Rightarrow> uuid \<Rightarrow> string \<Rightarrow> string \<Rightarrow> string \<Rightarrow> string \<Rightarrow> scope_candidate act" where
  "new_candidate ctx document chunk key kind extracted version =
     bindE fresh_uuid (\<lambda>i.
     bindE the_time (\<lambda>now.
     bindE (ret \<lparr>cand_id = i, cand_tenant_id = ctx_tenant_id ctx, cand_project_id = cdoc_project_id document,
        cand_document_id = cdoc_id document, cand_source_chunk_id = chunk, cand_item_key = key, cand_item_type = kind,
        cand_extracted_text = extracted, cand_corrected_text = None, cand_extractor_version = version,
        cand_status = CANDIDATE, cand_correction_reason = None, cand_created_at = now, cand_updated_at = now\<rparr>) (\<lambda>c.
     bindE (add_candidate c) (\<lambda>_. ret c))))"

fun persist_candidates ::
  "trusted_context \<Rightarrow> contract_document \<Rightarrow> string \<Rightarrow> scope_candidate list \<Rightarrow> scope_span list \<Rightarrow> scope_candidate list act" where
  "persist_candidates ctx document version existing [] = ret []"
| "persist_candidates ctx document version existing (v # vs) =
     (case find (\<lambda>c. cand_item_key c = span_item_key v) (rev existing) of
        Some current \<Rightarrow>
          bindE (require (cand_source_chunk_id current = span_source_chunk_id v \<and> cand_extracted_text current = span_text v)
            ConflictError) (\<lambda>_.
          bindE (persist_candidates ctx document version existing vs) (\<lambda>cs. ret (current # cs)))
      | None \<Rightarrow>
          bindE (new_candidate ctx document (span_source_chunk_id v) (span_item_key v) (span_item_type v) (span_text v) version) (\<lambda>c.
          bindE (persist_candidates ctx document version (existing @ [c]) vs) (\<lambda>cs. ret (c # cs))))"

definition persist_structure_candidates ::
  "trusted_context \<Rightarrow> uuid \<Rightarrow> scope_span list \<Rightarrow> string \<Rightarrow> scope_candidate list act" where
  "persist_structure_candidates ctx i candidates version =
     bindE (get_document ctx i) (\<lambda>document.
     bindE (require (cdoc_status document \<in> {AWAITING_SCOPE_REVIEW, DOC_CONFIRMED}) ConflictError) (\<lambda>_.
     bindE (gets (\<lambda>s. filter (\<lambda>c. cand_document_id c = i \<and> cand_tenant_id c = ctx_tenant_id ctx) (scope_candidates s))) (\<lambda>existing.
     persist_candidates ctx document version existing candidates)))"

definition add_scope_candidate ::
  "trusted_context \<Rightarrow> uuid \<Rightarrow> uuid \<Rightarrow> string \<Rightarrow> string \<Rightarrow> string \<Rightarrow> string \<Rightarrow> scope_candidate act" where
  "add_scope_candidate ctx i chunk key kind extracted version =
     bindE (gets (own_document ctx i)) (\<lambda>found_document.
     bindE (gets (\<lambda>s. find (\<lambda>c. dchunk_id c = chunk \<and> dchunk_tenant_id c = ctx_tenant_id ctx \<and> dchunk_document_id c = i)
        (document_chunks s))) (\<lambda>found_chunk.
     bindE (some_or NotFoundError found_document) (\<lambda>document.
     bindE (some_or NotFoundError found_chunk) (\<lambda>_.
     bindE (require (key \<noteq> [] \<and> strip extracted \<noteq> []) ValidationError) (\<lambda>_.
     new_candidate ctx document chunk key kind extracted version)))))"

definition put_candidate :: "uuid \<Rightarrow> (scope_candidate \<Rightarrow> scope_candidate) \<Rightarrow> unit act" where
  "put_candidate i f =
     modify (\<lambda>s. s\<lparr>scope_candidates := upd_row cand_id i (\<lambda>r. f (r\<lparr>cand_updated_at := clock s\<rparr>)) (scope_candidates s)\<rparr>)"

definition candidate_row :: "trusted_context \<Rightarrow> uuid \<Rightarrow> db \<Rightarrow> scope_candidate option" where
  "candidate_row ctx i s = find (\<lambda>c. cand_id c = i \<and> cand_tenant_id c = ctx_tenant_id ctx) (scope_candidates s)"

definition correct_scope_candidate :: "trusted_context \<Rightarrow> uuid \<Rightarrow> string \<Rightarrow> string \<Rightarrow> scope_candidate act" where
  "correct_scope_candidate ctx i corrected reason =
     bindE (gets (candidate_row ctx i)) (\<lambda>found.
     bindE (some_or NotFoundError found) (\<lambda>_.
     bindE (require (strip corrected \<noteq> [] \<and> strip reason \<noteq> []) ValidationError) (\<lambda>_.
     bindE (put_candidate i (\<lambda>c. c\<lparr>cand_corrected_text := Some corrected, cand_correction_reason := Some (take 500 reason),
        cand_status := CORRECTED\<rparr>)) (\<lambda>_.
     bindE (gets (candidate_row ctx i)) (\<lambda>after.
     some_or NotFoundError after)))))"

definition list_candidates :: "trusted_context \<Rightarrow> uuid \<Rightarrow> scope_candidate list act" where
  "list_candidates ctx i =
     bindE (get_document ctx i) (\<lambda>document.
     gets (\<lambda>s. sort_key (\<lambda>c. (cand_created_at c, cand_item_key c))
       (filter (\<lambda>c. cand_document_id c = cdoc_id document \<and> cand_tenant_id c = ctx_tenant_id ctx) (scope_candidates s))))"

section \<open>Confirmed scope\<close>

definition add_scope_item :: "scope_item \<Rightarrow> unit act" where
  "add_scope_item = add_row scope_items (\<lambda>rows s. s\<lparr>scope_items := rows\<rparr>) (\<lambda>_. True)
     (\<lambda>r q. sitem_id r = sitem_id q \<or> sitem_tenant_id r = sitem_tenant_id q \<and> sitem_project_id r = sitem_project_id q \<and>
        sitem_item_key r = sitem_item_key q \<and> sitem_created_at r = sitem_created_at q)"

definition confirmed_text :: "scope_candidate \<Rightarrow> string" where
  "confirmed_text c = (case configured (cand_corrected_text c) of Some t \<Rightarrow> t | None \<Rightarrow> cand_extracted_text c)"

definition scope_payload :: "scope_candidate \<Rightarrow> pyval" where
  "scope_payload c = PDict [(''key'', PStr (cand_item_key c)), (''type'', PStr (cand_item_type c)),
     (''text'', PStr (confirmed_text c)), (''source'', PStr (uuid_str (cand_source_chunk_id c)))]"

text \<open>Each item row is stamped by its own reading of the clock, here a microsecond apart.\<close>

definition store_scope_item :: "trusted_context \<Rightarrow> uuid \<Rightarrow> nat \<times> scope_candidate \<Rightarrow> uuid act" where
  "store_scope_item ctx project nc =
     bindE fresh_uuid (\<lambda>i.
     bindE the_time (\<lambda>now.
     bindE (add_scope_item \<lparr>sitem_id = i, sitem_tenant_id = ctx_tenant_id ctx, sitem_project_id = project,
        sitem_source_document_chunk_id = Some (cand_source_chunk_id (snd nc)), sitem_source_revision_id = Some (cand_id (snd nc)),
        sitem_item_type = cand_item_type (snd nc), sitem_item_key = cand_item_key (snd nc),
        sitem_text = confirmed_text (snd nc), sitem_supersedes_item_id = None,
        sitem_created_at = now + int (fst nc)\<rparr>) (\<lambda>_.
     ret i)))"

definition link_scope_item :: "trusted_context \<Rightarrow> uuid \<Rightarrow> uuid \<Rightarrow> uuid \<Rightarrow> unit act" where
  "link_scope_item ctx project version item =
     bindE fresh_uuid (\<lambda>i.
     add_scope_version_item \<lparr>svi_id = i, svi_tenant_id = ctx_tenant_id ctx, svi_project_id = project,
        svi_scope_version_id = version, svi_scope_item_id = item\<rparr>)"

definition latest_scope_version :: "trusted_context \<Rightarrow> uuid \<Rightarrow> db \<Rightarrow> int" where
  "latest_scope_version ctx project s =
     (case top_by sv_version (filter (\<lambda>v. sv_tenant_id v = ctx_tenant_id ctx \<and> sv_project_id v = project) (scope_versions s)) of
        None \<Rightarrow> 0 | Some v \<Rightarrow> sv_version v)"

definition new_scope_version :: "env \<Rightarrow> trusted_context \<Rightarrow> project \<Rightarrow> int \<Rightarrow> scope_candidate list \<Rightarrow> scope_version act" where
  "new_scope_version E ctx p version chosen =
     bindE (digest_of E (PList (map scope_payload chosen))) (\<lambda>digest.
     bindE fresh_uuid (\<lambda>i.
     bindE the_time (\<lambda>now.
     bindE (ret \<lparr>sv_id = i, sv_tenant_id = ctx_tenant_id ctx, sv_project_id = proj_id p, sv_version = version,
        sv_parent_version_id = proj_current_scope_version_id p, sv_source_revision_id = None,
        sv_confirmation_actor = ctx_subject ctx, sv_content_hash = digest, sv_confirmed_at = now, sv_created_at = now\<rparr>) (\<lambda>v.
     bindE (add_scope_version v) (\<lambda>_. ret v)))))"

definition mark_confirmed :: "scope_candidate list \<Rightarrow> unit act" where
  "mark_confirmed chosen =
     modify (\<lambda>s. s\<lparr>scope_candidates := map (\<lambda>c. if cand_id c \<in> cand_id ` set chosen \<and> cand_status c \<noteq> CAND_CONFIRMED
          then c\<lparr>cand_status := CAND_CONFIRMED, cand_updated_at := clock s\<rparr> else c) (scope_candidates s),
        contract_documents := map (\<lambda>d. if cdoc_id d \<in> cand_document_id ` set chosen
          then d\<lparr>cdoc_status := DOC_CONFIRMED\<rparr> else d) (contract_documents s)\<rparr>)"

definition confirm_scope :: "env \<Rightarrow> trusted_context \<Rightarrow> uuid \<Rightarrow> uuid list \<Rightarrow> scope_version act" where
  "confirm_scope E ctx project ids =
     bindE (get_project ctx project) (\<lambda>p.
     bindE (require (ids \<noteq> []) ValidationError) (\<lambda>_.
     bindE (gets (\<lambda>s. filter (\<lambda>c. cand_tenant_id c = ctx_tenant_id ctx \<and> cand_project_id c = project \<and> cand_id c \<in> set ids)
        (scope_candidates s))) (\<lambda>candidates.
     bindE (require (length candidates = card (set ids)) AuthorizationError) (\<lambda>_.
     bindE (require (\<not> list_ex (\<lambda>c. cand_status c = CAND_REJECTED) candidates) ConflictError) (\<lambda>_.
     bindE (gets (latest_scope_version ctx project)) (\<lambda>latest.
     bindE (ret (sort_key cand_item_key candidates)) (\<lambda>chosen.
     bindE (new_scope_version E ctx p (latest + 1) chosen) (\<lambda>version.
     bindE (mapE (store_scope_item ctx project) (enumerate 0 chosen)) (\<lambda>items.
     bindE (mapE (link_scope_item ctx project (sv_id version)) items) (\<lambda>_.
     bindE (mark_confirmed candidates) (\<lambda>_.
     bindE (put_project project (\<lambda>r. r\<lparr>proj_current_scope_version_id := Some (sv_id version), proj_status := PROJECT_ACTIVE\<rparr>)) (\<lambda>_.
     ret version))))))))))))"

definition read_confirmed_scope :: "trusted_context \<Rightarrow> uuid \<Rightarrow> scope_version act" where
  "read_confirmed_scope ctx project =
     bindE (get_project ctx project) (\<lambda>p.
     bindE (some_or NotFoundError (proj_current_scope_version_id p)) (\<lambda>i.
     bindE (gets (\<lambda>s. row_by sv_id i (scope_versions s))) (\<lambda>found.
     bindE (some_or NotFoundError found) (\<lambda>v.
     bindE (require (sv_tenant_id v = ctx_tenant_id ctx \<and> sv_project_id v = project) NotFoundError) (\<lambda>_.
     ret v)))))"

section \<open>External events and their routing\<close>

definition add_external_event :: "external_event \<Rightarrow> unit act" where
  "add_external_event = add_row external_events (\<lambda>rows s. s\<lparr>external_events := rows\<rparr>) (\<lambda>_. True)
     (\<lambda>r q. xev_id r = xev_id q \<or> xev_tenant_id r = xev_tenant_id q \<and> xev_connection_id r \<noteq> None \<and>
        xev_connection_id r = xev_connection_id q \<and> xev_provider_event_id r = xev_provider_event_id q)"

definition put_event :: "uuid \<Rightarrow> (external_event \<Rightarrow> external_event) \<Rightarrow> unit act" where
  "put_event i f = modify (\<lambda>s. s\<lparr>external_events := upd_row xev_id i f (external_events s)\<rparr>)"

definition delivered :: "uuid \<Rightarrow> uuid option \<Rightarrow> string \<Rightarrow> external_event \<Rightarrow> bool" where
  "delivered tenant connection event e \<longleftrightarrow> xev_tenant_id e = tenant \<and> xev_connection_id e = connection \<and> xev_provider_event_id e = event"

definition ingest_external_event ::
  "trusted_context \<Rightarrow> string \<Rightarrow> string \<Rightarrow> string \<Rightarrow> string \<Rightarrow> time \<Rightarrow> uuid option \<Rightarrow> external_event act" where
  "ingest_external_event ctx provider environment event payload_hash occurred_at connection =
     bindE (gets (\<lambda>s. find (delivered (ctx_tenant_id ctx) connection event) (external_events s))) (\<lambda>existing.
     (case existing of
        Some e \<Rightarrow> bindE (require (xev_payload_hash e = payload_hash) ConflictError) (\<lambda>_. ret e)
      | None \<Rightarrow>
          bindE fresh_uuid (\<lambda>i.
          bindE the_time (\<lambda>now.
          bindE (ret \<lparr>xev_id = i, xev_tenant_id = ctx_tenant_id ctx, xev_connection_id = connection, xev_provider = provider,
             xev_provider_account_id = None, xev_environment = environment, xev_provider_event_id = event,
             xev_payload_hash = payload_hash, xev_payload_object_ref = None, xev_received_at = now, xev_occurred_at = occurred_at,
             xev_processing_status = ''RECEIVED'', xev_correlation_id = ctx_correlation_id ctx, xev_resource_type = None,
             xev_resource_id = None, xev_source_version = None, xev_content_ref = None\<rparr>) (\<lambda>e.
          bindE (add_external_event e) (\<lambda>_. ret e))))))"

definition add_communication :: "communication_event \<Rightarrow> unit act" where
  "add_communication = add_row communication_events (\<lambda>rows s. s\<lparr>communication_events := rows\<rparr>) (\<lambda>_. True)
     (\<lambda>r q. cev_id r = cev_id q \<or> cev_tenant_id r = cev_tenant_id q \<and> cev_connection_id r \<noteq> None \<and>
        cev_connection_id r = cev_connection_id q \<and> cev_resource_type r = cev_resource_type q \<and>
        cev_resource_id r = cev_resource_id q \<and> cev_source_version r = cev_source_version q)"

definition add_routing_decision :: "routing_decision \<Rightarrow> unit act" where
  "add_routing_decision = add_row routing_decisions (\<lambda>rows s. s\<lparr>routing_decisions := rows\<rparr>) (\<lambda>_. True)
     (\<lambda>r q. rdec_id r = rdec_id q)"

datatype routed = Communication communication_event | Routing routing_decision

record event_source =
  es_resource_type :: string
  es_resource_id :: string
  es_source_version :: string
  es_content_ref :: string
  es_occurred_at :: time
  es_explicit_project_id :: "uuid option"
  es_alias :: "string option"
  es_sender :: "string option"
  es_thread_id :: "string option"
  es_request_summary :: "string option"

text \<open>The projects an event may belong to, by the first of the four rules that applies.\<close>

definition thread_projects :: "trusted_context \<Rightarrow> uuid option \<Rightarrow> string \<Rightarrow> db \<Rightarrow> uuid list" where
  "thread_projects ctx connection thread s =
     map thr_project_id (filter (\<lambda>r. thr_tenant_id r = ctx_tenant_id ctx \<and> thr_connection_id r = connection \<and> thr_thread_id r = thread)
       (thread_assignments s))"

definition alias_projects :: "trusted_context \<Rightarrow> string \<Rightarrow> db \<Rightarrow> uuid list" where
  "alias_projects ctx name s =
     remdups (map ibind_project_id (filter (\<lambda>b. ibind_tenant_id b = ctx_tenant_id ctx \<and> ibind_alias b = Some name \<and>
       ibind_status b = ''ACTIVE'') (integration_bindings s)))"

definition bound_projects :: "trusted_context \<Rightarrow> string \<Rightarrow> string \<Rightarrow> string \<Rightarrow> db \<Rightarrow> uuid list" where
  "bound_projects ctx provider kind resource s =
     remdups (map ibind_project_id (filter (\<lambda>b. ibind_tenant_id b = ctx_tenant_id ctx \<and> ibind_provider b = provider \<and>
       ibind_resource_type b = kind \<and> ibind_resource_id b = resource \<and> ibind_status b = ''ACTIVE'') (integration_bindings s)))"

definition route_candidates :: "trusted_context \<Rightarrow> external_event \<Rightarrow> event_source \<Rightarrow> (uuid list \<times> string) act" where
  "route_candidates ctx e q =
     (case es_explicit_project_id q of
        Some i \<Rightarrow> bindE (get_project ctx i) (\<lambda>_. ret ([i], ''EXPLICIT''))
      | None \<Rightarrow>
          (case (configured (es_thread_id q), configured (es_alias q)) of
             (Some thread, _) \<Rightarrow> gets (\<lambda>s. (thread_projects ctx (xev_connection_id e) thread s, ''THREAD_ASSIGNMENT''))
           | (None, Some name) \<Rightarrow> gets (\<lambda>s. (alias_projects ctx name s, ''ALIAS''))
           | (None, None) \<Rightarrow>
               gets (\<lambda>s. (bound_projects ctx (xev_provider e) (es_resource_type q) (es_resource_id q) s, ''BINDING''))))"

definition routing_evidence :: "event_source \<Rightarrow> pyval list" where
  "routing_evidence q = [PDict [(''resource_type'', PStr (es_resource_type q)), (''resource_id'', PStr (es_resource_id q)),
     (''source_version'', PStr (es_source_version q)), (''sender'', nullable_str (es_sender q)),
     (''thread_id'', nullable_str (es_thread_id q)), (''request_summary'', nullable_str (es_request_summary q))]]"

definition open_routing :: "trusted_context \<Rightarrow> uuid \<Rightarrow> event_source \<Rightarrow> string \<Rightarrow> uuid list \<Rightarrow> routed act" where
  "open_routing ctx event q precedence ids =
     bindE fresh_uuid (\<lambda>i.
     bindE the_time (\<lambda>now.
     bindE (ret \<lparr>rdec_id = i, rdec_tenant_id = ctx_tenant_id ctx, rdec_external_event_id = event, rdec_status = ROUTE_OPEN,
        rdec_precedence = precedence, rdec_candidate_projects = map uuid_str ids, rdec_evidence = routing_evidence q,
        rdec_selected_project_id = None, rdec_resolved_by = None, rdec_resolved_at = None, rdec_created_at = now\<rparr>) (\<lambda>d.
     bindE (add_routing_decision d) (\<lambda>_. ret (Routing d)))))"

definition map_event :: "trusted_context \<Rightarrow> external_event \<Rightarrow> event_source \<Rightarrow> uuid \<Rightarrow> routed act" where
  "map_event ctx e q project =
     bindE (gets (\<lambda>s. row_by proj_id project (projects s))) (\<lambda>found.
     bindE (some_or NotFoundError found) (\<lambda>p.
     bindE (ret (xev_processing_status e = ''BLOCKED_BY_SCOPE'' \<or> proj_status p = PAUSED_UNCONFIRMED_SCOPE)) (\<lambda>blocked.
     bindE fresh_uuid (\<lambda>i.
     bindE (ret \<lparr>cev_id = i, cev_tenant_id = ctx_tenant_id ctx, cev_project_id = Some project,
        cev_connection_id = xev_connection_id e, cev_external_event_id = xev_id e, cev_resource_type = es_resource_type q,
        cev_resource_id = es_resource_id q, cev_source_version = es_source_version q, cev_sender = es_sender q,
        cev_thread_id = es_thread_id q, cev_occurred_at = es_occurred_at q, cev_content_ref = es_content_ref q,
        cev_direction = ''INBOUND''\<rparr>) (\<lambda>c.
     bindE (add_communication c) (\<lambda>_.
     bindE (put_event (xev_id e) (\<lambda>r. r\<lparr>xev_processing_status := (if blocked then ''BLOCKED_BY_SCOPE'' else ''MAPPED'')\<rparr>)) (\<lambda>_.
     ret (Communication c))))))))"

definition own_event :: "trusted_context \<Rightarrow> uuid \<Rightarrow> external_event act" where
  "own_event ctx i =
     bindE (gets (\<lambda>s. find (\<lambda>e. xev_id e = i \<and> xev_tenant_id e = ctx_tenant_id ctx) (external_events s))) (\<lambda>found.
     some_or NotFoundError found)"

definition routed_before :: "trusted_context \<Rightarrow> external_event \<Rightarrow> event_source \<Rightarrow> db \<Rightarrow> communication_event option" where
  "routed_before ctx e q s =
     find (\<lambda>c. cev_tenant_id c = ctx_tenant_id ctx \<and> cev_connection_id c = xev_connection_id e \<and>
       cev_resource_type c = es_resource_type q \<and> cev_resource_id c = es_resource_id q \<and> cev_source_version c = es_source_version q)
       (communication_events s)"

definition route_external_event :: "trusted_context \<Rightarrow> uuid \<Rightarrow> event_source \<Rightarrow> routed act" where
  "route_external_event ctx i q =
     bindE (own_event ctx i) (\<lambda>e.
     bindE (put_event i (\<lambda>r. r\<lparr>xev_resource_type := Some (es_resource_type q), xev_resource_id := Some (es_resource_id q),
        xev_source_version := Some (es_source_version q), xev_content_ref := Some (es_content_ref q)\<rparr>)) (\<lambda>_.
     bindE (gets (routed_before ctx e q)) (\<lambda>existing.
     (case existing of
        Some c \<Rightarrow> ret (Communication c)
      | None \<Rightarrow>
          bindE (route_candidates ctx e q) (\<lambda>(ids, precedence).
          (case ids of
             [project] \<Rightarrow> map_event ctx e q project
           | _ \<Rightarrow> open_routing ctx i q precedence ids))))))"

section \<open>Requests\<close>

definition add_request :: "request_record \<Rightarrow> unit act" where
  "add_request = add_row request_records (\<lambda>rows s. s\<lparr>request_records := rows\<rparr>) (\<lambda>_. True) (\<lambda>r q. req_id r = req_id q)"

definition add_request_communication :: "request_communication \<Rightarrow> unit act" where
  "add_request_communication = add_row request_communications (\<lambda>rows s. s\<lparr>request_communications := rows\<rparr>) (\<lambda>_. True)
     (\<lambda>r q. rcomm_id r = rcomm_id q \<or>
        rcomm_request_id r = rcomm_request_id q \<and> rcomm_communication_id r = rcomm_communication_id q)"

definition new_request :: "trusted_context \<Rightarrow> uuid \<Rightarrow> string \<Rightarrow> request_record act" where
  "new_request ctx project summary =
     bindE fresh_uuid (\<lambda>i.
     bindE the_time (\<lambda>now.
     bindE (ret \<lparr>req_id = i, req_tenant_id = ctx_tenant_id ctx, req_project_id = project, req_summary = take 4000 summary,
        req_status = REQ_OPEN, req_request_version = 1, req_merged_into_id = None, req_rejection_reason = None,
        req_row_version = 1, req_created_at = now, req_updated_at = now\<rparr>) (\<lambda>r.
     bindE (add_request r) (\<lambda>_. ret r))))"

definition link_communication :: "trusted_context \<Rightarrow> uuid \<Rightarrow> uuid \<Rightarrow> string \<Rightarrow> uuid \<Rightarrow> request_communication act" where
  "link_communication ctx project request kind communication =
     bindE fresh_uuid (\<lambda>i.
     bindE the_time (\<lambda>now.
     bindE (ret \<lparr>rcomm_id = i, rcomm_tenant_id = ctx_tenant_id ctx, rcomm_project_id = project, rcomm_request_id = request,
        rcomm_communication_id = communication, rcomm_relationship_type = kind, rcomm_created_at = now\<rparr>) (\<lambda>r.
     bindE (add_request_communication r) (\<lambda>_. ret r))))"

definition own_communication :: "trusted_context \<Rightarrow> uuid \<Rightarrow> db \<Rightarrow> communication_event option" where
  "own_communication ctx i s = find (\<lambda>c. cev_id c = i \<and> cev_tenant_id c = ctx_tenant_id ctx) (communication_events s)"

text \<open>The checks of all communications precede the flush that inserts their links.\<close>

definition create_request :: "trusted_context \<Rightarrow> uuid \<Rightarrow> string \<Rightarrow> uuid list \<Rightarrow> request_record act" where
  "create_request ctx project summary communications =
     bindE (get_project ctx project) (\<lambda>p.
     bindE (require (strip summary \<noteq> []) ValidationError) (\<lambda>_.
     bindE (new_request ctx (proj_id p) summary) (\<lambda>r.
     bindE (gets (\<lambda>s. list_all (\<lambda>i. case own_communication ctx i s of None \<Rightarrow> False | Some c \<Rightarrow> cev_project_id c = Some project)
        communications)) (\<lambda>known.
     bindE (require known AuthorizationError) (\<lambda>_.
     bindE (mapE (link_communication ctx project (req_id r) ''SUPPORTS'') communications) (\<lambda>_.
     ret r))))))"

definition get_request :: "trusted_context \<Rightarrow> uuid \<Rightarrow> request_record act" where
  "get_request ctx i =
     bindE (gets (\<lambda>s. find (\<lambda>r. req_id r = i \<and> req_tenant_id r = ctx_tenant_id ctx) (request_records s))) (\<lambda>found.
     some_or NotFoundError found)"

definition clarify_request :: "trusted_context \<Rightarrow> uuid \<Rightarrow> string \<Rightarrow> request_record act" where
  "clarify_request ctx i correction =
     bindE (get_request ctx i) (\<lambda>r.
     bindE (require (req_status r \<in> {REQ_OPEN, CLARIFICATION_REQUIRED, PROPOSAL_OPEN}) ConflictError) (\<lambda>_.
     bindE (require (strip correction \<noteq> []) ValidationError) (\<lambda>_.
     bindE (put_request i (\<lambda>r. r\<lparr>req_summary := take 4000 correction, req_status := REQ_OPEN,
        req_request_version := req_request_version r + 1, req_row_version := req_row_version r + 1\<rparr>)) (\<lambda>_.
     get_request ctx i))))"

text \<open>The links of a merged request that its target lacks.\<close>

definition merge_links :: "uuid \<Rightarrow> uuid \<Rightarrow> db \<Rightarrow> uuid list" where
  "merge_links source target s =
     filter (\<lambda>c. \<not> list_ex (\<lambda>l. rcomm_request_id l = target \<and> rcomm_communication_id l = c) (request_communications s))
       (map rcomm_communication_id (filter (\<lambda>l. rcomm_request_id l = source) (request_communications s)))"

definition merge_requests :: "trusted_context \<Rightarrow> uuid \<Rightarrow> uuid \<Rightarrow> string \<Rightarrow> request_record act" where
  "merge_requests ctx target_id source_id reason =
     bindE (get_request ctx target_id) (\<lambda>target.
     bindE (get_request ctx source_id) (\<lambda>source.
     bindE (require (req_id target \<noteq> req_id source \<and> req_project_id target = req_project_id source) ConflictError) (\<lambda>_.
     bindE (require (strip reason \<noteq> [] \<and> req_status source \<notin> {RESOLVED, MERGED}) ConflictError) (\<lambda>_.
     bindE (gets (merge_links source_id target_id)) (\<lambda>links.
     bindE (mapE (link_communication ctx (req_project_id target) target_id ''MERGED_PROVENANCE'') links) (\<lambda>_.
     bindE (put_request source_id (\<lambda>r. r\<lparr>req_status := MERGED, req_merged_into_id := Some target_id,
        req_rejection_reason := Some (take 500 reason), req_row_version := req_row_version r + 1\<rparr>)) (\<lambda>_.
     bindE (put_request target_id (\<lambda>r. r\<lparr>req_request_version := req_request_version r + 1,
        req_row_version := req_row_version r + 1\<rparr>)) (\<lambda>_.
     get_request ctx target_id))))))))"

text \<open>
  The parts of a split in order: the links of a part are inserted at the next flush, which is that of
  the next part's request or the final one.
\<close>

definition flush_part :: "trusted_context \<Rightarrow> uuid \<Rightarrow> (uuid \<times> uuid list) option \<Rightarrow> unit act" where
  "flush_part ctx project pending =
     (case pending of
        None \<Rightarrow> ret ()
      | Some (request, communications) \<Rightarrow>
          bindE (mapE (link_communication ctx project request ''SPLIT_PROVENANCE'') communications) (\<lambda>_. ret ()))"

fun split_parts ::
  "trusted_context \<Rightarrow> uuid \<Rightarrow> uuid set \<Rightarrow> uuid set \<Rightarrow> (uuid \<times> uuid list) option \<Rightarrow> (string \<times> uuid list) list \<Rightarrow>
   (request_record list \<times> (uuid \<times> uuid list) option) act" where
  "split_parts ctx project communications assigned pending [] = ret ([], pending)"
| "split_parts ctx project communications assigned pending ((summary, ids) # others) =
     bindE (require (strip summary \<noteq> [] \<and> set ids \<subseteq> communications \<and> assigned \<inter> set ids = {}) AuthorizationError) (\<lambda>_.
     bindE (new_request ctx project summary) (\<lambda>r.
     bindE (flush_part ctx project pending) (\<lambda>_.
     bindE (split_parts ctx project communications (assigned \<union> set ids) (Some (req_id r, ids)) others) (\<lambda>(created, last_part).
     ret (r # created, last_part)))))"

definition split_request :: "trusted_context \<Rightarrow> uuid \<Rightarrow> (string \<times> uuid list) list \<Rightarrow> string \<Rightarrow> request_record list act" where
  "split_request ctx i part_list reason =
     bindE (get_request ctx i) (\<lambda>source.
     bindE (require (req_status source \<notin> {RESOLVED, MERGED}) ConflictError) (\<lambda>_.
     bindE (require (strip reason \<noteq> [] \<and> 2 \<le> length part_list) ValidationError) (\<lambda>_.
     bindE (gets (\<lambda>s. rcomm_communication_id ` set (filter (\<lambda>l. rcomm_request_id l = i) (request_communications s)))) (\<lambda>known.
     bindE (split_parts ctx (req_project_id source) known {} None part_list) (\<lambda>(created, last_part).
     bindE (put_request i (\<lambda>r. r\<lparr>req_status := MERGED, req_rejection_reason := Some (take 500 reason),
        req_row_version := req_row_version r + 1\<rparr>)) (\<lambda>_.
     bindE (flush_part ctx (req_project_id source) last_part) (\<lambda>_.
     ret created)))))))"

definition request_of_communication :: "trusted_context \<Rightarrow> uuid \<Rightarrow> db \<Rightarrow> request_record option" where
  "request_of_communication ctx communication s =
     find (\<lambda>r. list_ex (\<lambda>l. rcomm_request_id l = req_id r \<and> rcomm_tenant_id l = ctx_tenant_id ctx \<and>
       rcomm_communication_id l = communication) (request_communications s)) (request_records s)"

definition create_request_from_communication ::
  "trusted_context \<Rightarrow> communication_event \<Rightarrow> string \<Rightarrow> request_record option act" where
  "create_request_from_communication ctx communication summary =
     (case cev_project_id communication of
        None \<Rightarrow> ret None
      | Some project \<Rightarrow>
          if strip summary = [] then ret None else
          bindE (gets (request_of_communication ctx (cev_id communication))) (\<lambda>existing.
          if existing \<noteq> None then ret existing else
          bindE (gets (owned_project ctx project)) (\<lambda>found.
          (case found of
             None \<Rightarrow> ret None
           | Some p \<Rightarrow>
               if proj_status p \<noteq> PROJECT_ACTIVE \<or> proj_current_scope_version_id p = None then ret None else
               bindE (create_request ctx (proj_id p) summary [cev_id communication]) (\<lambda>r.
               bindE the_time (\<lambda>now.
               bindE (enqueue_job (ctx_tenant_id ctx) ''analysis.prepare''
                 [(''request_id'', PStr (uuid_str (req_id r))), (''request_version'', PInt (req_request_version r))]
                 (ctx_correlation_id ctx) (Some (proj_id p)) None (Some (now + minutes 8)) DEFAULT_MAX_ATTEMPTS None []) (\<lambda>_.
               ret (Some r))))))))"

definition associate_request :: "trusted_context \<Rightarrow> uuid \<Rightarrow> uuid \<Rightarrow> string \<Rightarrow> request_communication act" where
  "associate_request ctx request communication kind =
     bindE (gets (\<lambda>s. find (\<lambda>r. req_id r = request \<and> req_tenant_id r = ctx_tenant_id ctx) (request_records s))) (\<lambda>found_request.
     bindE (gets (own_communication ctx communication)) (\<lambda>found.
     bindE (some_or AuthorizationError found_request) (\<lambda>r.
     bindE (some_or AuthorizationError found) (\<lambda>c.
     bindE (require (cev_project_id c = Some (req_project_id r)) AuthorizationError) (\<lambda>_.
     link_communication ctx (req_project_id r) request kind communication)))))"

section \<open>Resolving and replaying\<close>

definition put_routing :: "uuid \<Rightarrow> (routing_decision \<Rightarrow> routing_decision) \<Rightarrow> unit act" where
  "put_routing i f = modify (\<lambda>s. s\<lparr>routing_decisions := upd_row rdec_id i f (routing_decisions s)\<rparr>)"

definition add_assignment :: "thread_assignment \<Rightarrow> unit act" where
  "add_assignment = add_row thread_assignments (\<lambda>rows s. s\<lparr>thread_assignments := rows\<rparr>) (\<lambda>_. True)
     (\<lambda>r q. thr_id r = thr_id q \<or> thr_tenant_id r = thr_tenant_id q \<and> thr_connection_id r \<noteq> None \<and>
        thr_connection_id r = thr_connection_id q \<and> thr_thread_id r = thr_thread_id q)"

text \<open>\<open>str(evidence.get(k) or "") or None\<close>\<close>

definition evidence_text :: "routing_decision \<Rightarrow> string \<Rightarrow> string option" where
  "evidence_text d k =
     (let first = (case rdec_evidence d of PDict e # _ \<Rightarrow> e | _ \<Rightarrow> []) in or_none (py_str (py_or (dict_get first k) (PStr []))))"

definition assign_thread :: "trusted_context \<Rightarrow> external_event \<Rightarrow> uuid \<Rightarrow> string \<Rightarrow> string \<Rightarrow> unit act" where
  "assign_thread ctx e project actor thread =
     bindE (gets (\<lambda>s. find (\<lambda>r. thr_tenant_id r = ctx_tenant_id ctx \<and> thr_connection_id r = xev_connection_id e \<and> thr_thread_id r = thread)
        (thread_assignments s))) (\<lambda>existing.
     (case existing of
        Some r \<Rightarrow> require (thr_project_id r = project) ConflictError
      | None \<Rightarrow>
          bindE fresh_uuid (\<lambda>i.
          bindE the_time (\<lambda>now.
          add_assignment \<lparr>thr_id = i, thr_tenant_id = ctx_tenant_id ctx, thr_project_id = project,
             thr_connection_id = xev_connection_id e, thr_thread_id = thread, thr_assigned_by = actor, thr_created_at = now\<rparr>))))"

text \<open>The identity an event was routed with, when complete.\<close>

definition event_identity :: "external_event \<Rightarrow> event_source option" where
  "event_identity e =
     (case (configured (xev_resource_type e), configured (xev_resource_id e), configured (xev_source_version e),
            configured (xev_content_ref e)) of
        (Some kind, Some i, Some version, Some content) \<Rightarrow>
          Some \<lparr>es_resource_type = kind, es_resource_id = i, es_source_version = version, es_content_ref = content,
            es_occurred_at = xev_occurred_at e, es_explicit_project_id = None, es_alias = None, es_sender = None,
            es_thread_id = None, es_request_summary = None\<rparr>
      | _ \<Rightarrow> None)"

definition resolve_routing_decision :: "trusted_context \<Rightarrow> uuid \<Rightarrow> uuid \<Rightarrow> string \<Rightarrow> routed act" where
  "resolve_routing_decision ctx i project actor =
     bindE (gets (\<lambda>s. find (\<lambda>d. rdec_id d = i \<and> rdec_tenant_id d = ctx_tenant_id ctx) (routing_decisions s))) (\<lambda>found.
     bindE (some_or NotFoundError found) (\<lambda>d.
     bindE (require (rdec_status d = ROUTE_OPEN) ConflictError) (\<lambda>_.
     bindE (get_project ctx project) (\<lambda>_.
     bindE (require (rdec_candidate_projects d = [] \<or> uuid_str project \<in> set (rdec_candidate_projects d)) ConflictError) (\<lambda>_.
     bindE the_time (\<lambda>now.
     bindE (put_routing i (\<lambda>r. r\<lparr>rdec_status := ROUTE_RESOLVED, rdec_selected_project_id := Some project,
        rdec_resolved_by := Some actor, rdec_resolved_at := Some now\<rparr>)) (\<lambda>_.
     bindE (gets (\<lambda>s. row_by xev_id (rdec_external_event_id d) (external_events s))) (\<lambda>found_event.
     bindE (some_or ConflictError found_event) (\<lambda>e.
     bindE (some_or ConflictError (event_identity e)) (\<lambda>q.
     bindE (case evidence_text d ''thread_id'' of None \<Rightarrow> ret () | Some thread \<Rightarrow> assign_thread ctx e project actor thread) (\<lambda>_.
     bindE (route_external_event ctx (xev_id e) (q\<lparr>es_explicit_project_id := Some project, es_sender := evidence_text d ''sender'',
        es_thread_id := evidence_text d ''thread_id'', es_request_summary := evidence_text d ''request_summary''\<rparr>)) (\<lambda>result.
     bindE (case (result, evidence_text d ''request_summary'') of
        (Communication c, Some summary) \<Rightarrow> bindE (create_request_from_communication ctx c summary) (\<lambda>_. ret ())
      | _ \<Rightarrow> ret ()) (\<lambda>_.
     ret result)))))))))))))"

definition replay_external_event :: "trusted_context \<Rightarrow> uuid \<Rightarrow> uuid \<Rightarrow> routed act" where
  "replay_external_event ctx i project =
     bindE (own_event ctx i) (\<lambda>e.
     bindE (some_or ConflictError (event_identity e)) (\<lambda>q.
     route_external_event ctx (xev_id e) (q\<lparr>es_explicit_project_id := Some project\<rparr>)))"

definition list_routing_decisions :: "trusted_context \<Rightarrow> routing_decision list act" where
  "list_routing_decisions ctx =
     gets (\<lambda>s. sort_key (\<lambda>d. - rdec_created_at d) (filter (\<lambda>d. rdec_tenant_id d = ctx_tenant_id ctx) (routing_decisions s)))"

section \<open>Evidence\<close>

record chunk_search_result =
  csr_chunk_id :: uuid
  csr_document_id :: uuid
  csr_source_version :: string
  csr_excerpt :: string
  csr_locator :: "(string \<times> pyval) list"
  csr_content_hash :: string

text \<open>\<open>t.split()\<close>, with the word read so far.\<close>

fun words_of :: "string \<Rightarrow> string \<Rightarrow> string list" where
  "words_of word [] = (if word = [] then [] else [word])"
| "words_of word (c # cs) =
     (if is_space c then (if word = [] then words_of [] cs else word # words_of [] cs) else words_of (word @ [c]) cs)"

definition search_hit :: "document_chunk \<Rightarrow> chunk_search_result" where
  "search_hit c = \<lparr>csr_chunk_id = dchunk_id c, csr_document_id = dchunk_document_id c,
     csr_source_version = uuid_str (dchunk_document_id c), csr_excerpt = take 2000 (dchunk_source_text c),
     csr_locator = [(''page'', (case dchunk_page_number c of None \<Rightarrow> PNone | Some n \<Rightarrow> PInt n)),
       (''section'', nullable_str (dchunk_section c)), (''start'', PInt (dchunk_start_offset c)), (''end'', PInt (dchunk_end_offset c))],
     csr_content_hash = dchunk_content_hash c\<rparr>"

definition search_contract_chunks :: "trusted_context \<Rightarrow> uuid \<Rightarrow> string \<Rightarrow> int \<Rightarrow> chunk_search_result list act" where
  "search_contract_chunks ctx project query limit =
     bindE (get_project ctx project) (\<lambda>_.
     bindE (require (strip query \<noteq> []) ValidationError) (\<lambda>_.
     bindE (require (1 \<le> limit \<and> limit \<le> 100) ValidationError) (\<lambda>_.
     bindE (gets (\<lambda>s. sort_key (\<lambda>c. (dchunk_created_at c, dchunk_chunk_index c))
        (filter (\<lambda>c. dchunk_tenant_id c = ctx_tenant_id ctx \<and> dchunk_project_id c = project) (document_chunks s)))) (\<lambda>rows.
     ret (map search_hit (take (nat limit)
        (filter (\<lambda>c. list_all (\<lambda>term. is_infix (lower term) (lower (dchunk_source_text c))) (words_of [] query)) rows)))))))"

definition add_bundle :: "evidence_bundle \<Rightarrow> unit act" where
  "add_bundle = add_row evidence_bundles (\<lambda>rows s. s\<lparr>evidence_bundles := rows\<rparr>) (\<lambda>_. True) (\<lambda>r q. bundle_id r = bundle_id q)"

definition create_evidence_bundle ::
  "env \<Rightarrow> trusted_context \<Rightarrow> uuid \<Rightarrow> uuid option \<Rightarrow> pyval list \<Rightarrow> string \<Rightarrow> time option \<Rightarrow> evidence_bundle act" where
  "create_evidence_bundle E ctx project request sources completeness cutoff =
     bindE (require (completeness \<in> {''COMPLETE'', ''PARTIAL'', ''UNAVAILABLE''}) ValidationError) (\<lambda>_.
     bindE (get_project ctx project) (\<lambda>_.
     bindE (time_or_now cutoff) (\<lambda>cut.
     bindE (digest_of E (PList sources)) (\<lambda>digest.
     bindE fresh_uuid (\<lambda>i.
     bindE the_time (\<lambda>now.
     bindE (ret \<lparr>bundle_id = i, bundle_tenant_id = ctx_tenant_id ctx, bundle_project_id = project, bundle_request_id = request,
        bundle_snapshot_digest = digest, bundle_searched_sources = sources, bundle_cutoff = cut,
        bundle_completeness = completeness, bundle_stale_at = None, bundle_created_at = now\<rparr>) (\<lambda>b.
     bindE (add_bundle b) (\<lambda>_. ret b))))))))"

record reference_spec =
  rs_source_type :: string
  rs_source_id :: string
  rs_source_version :: string
  rs_exact_excerpt_ref :: string
  rs_content_hash :: string
  rs_locator :: "(string \<times> pyval) list"
  rs_access_scope :: string
  rs_relation :: string
  rs_fetched_at :: "time option"

definition add_reference :: "evidence_reference \<Rightarrow> unit act" where
  "add_reference = add_row evidence_references (\<lambda>rows s. s\<lparr>evidence_references := rows\<rparr>) evidence_reference_check
     (\<lambda>r q. eref_id r = eref_id q)"

definition add_evidence_reference :: "trusted_context \<Rightarrow> uuid \<Rightarrow> reference_spec \<Rightarrow> evidence_reference act" where
  "add_evidence_reference ctx i q =
     bindE (gets (\<lambda>s. find (\<lambda>b. bundle_id b = i \<and> bundle_tenant_id b = ctx_tenant_id ctx) (evidence_bundles s))) (\<lambda>found.
     bindE (some_or NotFoundError found) (\<lambda>b.
     bindE (require (rs_relation q \<in> {''SUPPORTS'', ''CONTRADICTS'', ''CONTEXT''}) ValidationError) (\<lambda>_.
     bindE (time_or_now (rs_fetched_at q)) (\<lambda>fetched.
     bindE fresh_uuid (\<lambda>j.
     bindE (ret \<lparr>eref_id = j, eref_tenant_id = ctx_tenant_id ctx, eref_project_id = bundle_project_id b, eref_bundle_id = bundle_id b,
        eref_source_type = rs_source_type q, eref_source_id = rs_source_id q, eref_source_version = rs_source_version q,
        eref_exact_excerpt_ref = rs_exact_excerpt_ref q, eref_content_hash = rs_content_hash q, eref_locator = rs_locator q,
        eref_fetched_at = fetched, eref_access_scope = rs_access_scope q, eref_relation = rs_relation q\<rparr>) (\<lambda>r.
     bindE (add_reference r) (\<lambda>_. ret r)))))))"

end
