(* ===== verification/Contracts_Safety.thy ===== *)
theory Contracts_Safety
  imports Contracts Acceptance
begin

text \<open>
  What the contracts package guarantees: candidates quote the uploaded document, and a confirmed scope
  version stays what the freelancer confirmed, through later confirmations and accepted change orders.
\<close>

section \<open>Chunks of an upload\<close>

text \<open>The stored chunks of a document are those of its extraction.\<close>

definition stores :: "uuid \<Rightarrow> extracted_chunk \<Rightarrow> document_chunk \<Rightarrow> bool" where
  "stores i x c \<longleftrightarrow> dchunk_document_id c = i \<and> dchunk_chunk_index c = int (xc_index x) \<and>
     dchunk_start_offset c = int (xc_start_offset x) \<and> dchunk_end_offset c = int (xc_end_offset x) \<and> dchunk_source_text c = xc_text x"

lemma store_chunk_run:
  assumes "store_chunk E ctx d x s = (Inr u, t)"
  shows "\<exists>c. document_chunks t = document_chunks s @ [c] \<and> stores (cdoc_id d) x c \<and> dchunk_tenant_id c = ctx_tenant_id ctx"
  using assms by (auto simp: store_chunk_def add_chunk_def run_add_row stores_def split: if_splits)

lemma store_chunks_run:
  "mapE (store_chunk E ctx d) xs s = (Inr us, t) \<Longrightarrow>
   \<exists>cs. document_chunks t = document_chunks s @ cs \<and> list_all2 (stores (cdoc_id d)) xs cs \<and>
     (\<forall>c\<in>set cs. dchunk_tenant_id c = ctx_tenant_id ctx)"
proof (induction xs arbitrary: s us)
  case Nil
  then show ?case by (auto intro: exI [of _ "[]"])
next
  case (Cons x xs)
  from Cons.prems obtain u s1 us' where x: "store_chunk E ctx d x s = (Inr u, s1)" and xs: "mapE (store_chunk E ctx d) xs s1 = (Inr us', t)"
    by (auto elim!: bindE_InrE)
  from store_chunk_run [OF x] Cons.IH [OF xs] obtain c cs where
    "document_chunks t = document_chunks s @ c # cs" "list_all2 (stores (cdoc_id d)) (x # xs) (c # cs)"
    "\<forall>c'\<in>set (c # cs). dchunk_tenant_id c' = ctx_tenant_id ctx" by auto
  then show ?case by blast
qed

lemma open_upload_run:
  "open_upload E ctx i token s = (Inr (d, g), t) \<Longrightarrow> t = s \<and> cdoc_id d = i \<and> cdoc_tenant_id d = ctx_tenant_id ctx"
  by (auto simp: open_upload_def own_document_def some_or_run require_run elim!: bindE_InrE dest: find_SomeD)

lemma completed_upload_run:
  assumes "complete_upload E R late ctx i token content digest kind s = (Inr d, t)" and "cdoc_status d = AWAITING_SCOPE_REVIEW"
  shows "\<exists>x cs. extract_document E R content kind (Some (int (length content))) = Inr x \<and>
     document_chunks t = document_chunks s @ cs \<and> list_all2 (stores i) (xr_chunks x) cs \<and>
     (\<forall>c\<in>set cs. dchunk_tenant_id c = ctx_tenant_id ctx)"
proof -
  have rejected: "False" if "reject_document doc reason s2 = (Inr d, t2)" for doc reason s2 t2
    using that assms(2) by (auto simp: reject_document_def change_document_def)
  from assms(1) obtain document grant s1 where opened: "open_upload E ctx i token s = (Inr (document, grant), s1)"
    and run: "extract_upload E R late ctx document grant content kind s1 = (Inr d, t)"
    unfolding complete_upload_def by (auto elim!: bindE_InrE split: if_splits dest: rejected)
  from open_upload_run [OF opened] have doc: "s1 = s" "cdoc_id document = i" by simp_all
  let ?s2 = "s\<lparr>contract_documents := upd_row cdoc_id i (\<lambda>r. r\<lparr>cdoc_status := EXTRACTING\<rparr>) (contract_documents s)\<rparr>"
  obtain x where x: "extract_document_bounded E R late content kind (Some (int (length content))) = Inr x"
    and accepted: "accept_extraction E ctx (document\<lparr>cdoc_status := EXTRACTING\<rparr>) grant x ?s2 = (Inr d, t)"
  proof (cases "extract_document_bounded E R late content kind (Some (int (length content)))")
    case (Inl e)
    with run show thesis by (cases e) (auto simp: extract_upload_def change_document_def elim!: bindE_InrE dest: rejected)
  next
    case (Inr x)
    with run that doc show thesis by (auto simp: extract_upload_def change_document_def bindE_assoc)
  qed
  have "\<exists>us s3. document_chunks s3 = document_chunks s \<and>
      mapE (store_chunk E ctx (document\<lparr>cdoc_status := EXTRACTING\<rparr>)) (xr_chunks x) s3 = (Inr us, t)"
    using accepted unfolding accept_extraction_def
  proof (elim bindE_InrE, goal_cases)
    case prems: (1 now s1 stored s2 u s3 us s4)
    then have "document_chunks s3 = document_chunks s" "s4 = t"
      by (auto simp: change_document_def put_grant_def elim!: bindE_InrE)
    with prems(4) show ?case by blast
  qed
  then obtain us s3 where "document_chunks s3 = document_chunks s"
    and stored: "mapE (store_chunk E ctx (document\<lparr>cdoc_status := EXTRACTING\<rparr>)) (xr_chunks x) s3 = (Inr us, t)" by blast
  with store_chunks_run [OF stored] doc(2) obtain cs where
    "document_chunks t = document_chunks s @ cs" "list_all2 (stores i) (xr_chunks x) cs" "\<forall>c\<in>set cs. dchunk_tenant_id c = ctx_tenant_id ctx"
    by auto
  moreover from x have "extract_document E R content kind (Some (int (length content))) = Inr x"
    by (simp add: extract_document_bounded_def split: if_splits)
  ultimately show ?thesis by blast
qed

text \<open>The chunks of a document as the extraction of its scope reads them.\<close>

definition chunks_of_document :: "trusted_context \<Rightarrow> uuid \<Rightarrow> db \<Rightarrow> document_chunk list" where
  "chunks_of_document ctx i s =
     sort_key dchunk_chunk_index (filter (\<lambda>c. dchunk_document_id c = i \<and> dchunk_tenant_id c = ctx_tenant_id ctx) (document_chunks s))"

lemma extracted_chunks:
  assumes "extract_document E R content kind declared = Inr x"
  shows "chunk_text (xr_text x) (xr_page_count x) = Inr (xr_chunks x)"
  using assms by (auto simp: extract_document_def split: sum.splits if_splits prod.splits)

lemma stored_chunk: "quotes text x \<Longrightarrow> stores i x c \<Longrightarrow> chunk_of text c"
  by (auto simp: quotes_def stores_def chunk_of_def chunk_spans_def slice_def)

lemma placed_indexes: "map xc_index (place_chunks text pages cursor index ps) = [index..<index + length ps]"
  by (induction ps arbitrary: cursor index) (simp_all add: Let_def upt_conv_Cons del: upt_Suc)

lemma stored_texts: "list_all2 (stores i) xs cs \<Longrightarrow> map dchunk_source_text cs = map xc_text xs"
  by (induction rule: list_all2_induct) (simp_all add: stores_def)

lemma stored_indexes: "list_all2 (stores i) xs cs \<Longrightarrow> map dchunk_chunk_index cs = map (int \<circ> xc_index) xs"
  by (induction rule: list_all2_induct) (simp_all add: stores_def)

lemma chunk_indexes_sorted:
  assumes "chunk_text text pages = Inr xs" and "list_all2 (stores i) xs cs"
  shows "sorted (map dchunk_chunk_index cs)"
proof -
  from assms(1) have "map xc_index xs = [0..<length (paragraphs_of text)]"
    using placed_indexes [of "text" pages 0 0] by (auto simp: chunk_text_def split: if_splits)
  then have "map dchunk_chunk_index cs = map int [0..<length (paragraphs_of text)]"
    by (metis stored_indexes [OF assms(2)] map_map)
  then show ?thesis by (simp add: sorted_wrt_map sorted_iff_nth_mono)
qed

text \<open>C29: Scope candidates quote the contract. When an upload has been completed for a document
without earlier chunks, the chunks stored for it hold all of the document's text but white space, in
order; and whatever the model provider answers for them, every scope candidate of a finished
extraction (validated, or from the fallback over bullet lines) lies within one stored chunk, the one
it names as its source, and quotes its text and the document's text at its offsets, and no two
candidates have the same key.\<close>

theorem scope_candidates_quote_document:
  assumes "complete_upload E R late ctx i token content digest kind s = (Inr d, t)" and "cdoc_status d = AWAITING_SCOPE_REVIEW"
    and "\<forall>c\<in>set (document_chunks s). dchunk_document_id c \<noteq> i"
  shows "\<exists>body pages. text_of_document R content kind = Inr (body, pages) \<and>
     concat (map (filter (\<lambda>c. \<not> is_space c) \<circ> dchunk_source_text) (chunks_of_document ctx i t)) = filter (\<lambda>c. \<not> is_space c) body \<and>
     (\<forall>provider. \<forall>v\<in>set (sr_candidates (extract_scope_candidates provider (chunks_of_document ctx i t))). quoted_from body v \<and>
       (\<exists>c\<in>set (chunks_of_document ctx i t). dchunk_id c = span_source_chunk_id v \<and>
          dchunk_start_offset c \<le> span_start_offset v \<and> span_end_offset v \<le> dchunk_end_offset c \<and>
          strip (slice (dchunk_source_text c) (span_start_offset v - dchunk_start_offset c) (span_end_offset v - dchunk_start_offset c)) =
            strip (span_text v))) \<and>
     (\<forall>provider. distinct (map span_item_key (sr_candidates (extract_scope_candidates provider (chunks_of_document ctx i t)))))"
proof -
  from completed_upload_run [OF assms(1,2)] obtain x cs where x: "extract_document E R content kind (Some (int (length content))) = Inr x"
    and rows: "document_chunks t = document_chunks s @ cs" "list_all2 (stores i) (xr_chunks x) cs"
      "\<forall>c\<in>set cs. dchunk_tenant_id c = ctx_tenant_id ctx" by blast
  note chunks = chunks_quote [OF extracted_chunks [OF x]]
  have document: "\<forall>c\<in>set cs. dchunk_document_id c = i"
    using rows(2) by (auto simp: list_all2_conv_all_nth set_conv_nth stores_def)
  have "filter (\<lambda>c. dchunk_document_id c = i \<and> dchunk_tenant_id c = ctx_tenant_id ctx) (document_chunks t) = cs"
    using assms(3) rows(1,3) document by (auto simp: filter_empty_conv filter_id_conv)
  then have read: "chunks_of_document ctx i t = cs"
    using chunk_indexes_sorted [OF extracted_chunks [OF x] rows(2)] by (simp add: chunks_of_document_def sort_key_id_if_sorted)
  have of_text: "chunk_of (xr_text x) c" if "c \<in> set cs" for c
    using rows(2) chunks(1) that stored_chunk by (fastforce simp: list_all2_conv_all_nth in_set_conv_nth list_all_length)
  then have spans: "list_all chunk_spans cs" by (auto simp: list_all_iff chunk_of_def)
  have "quoted_from (xr_text x) v \<and> (\<exists>c\<in>set cs. dchunk_id c = span_source_chunk_id v \<and>
          dchunk_start_offset c \<le> span_start_offset v \<and> span_end_offset v \<le> dchunk_end_offset c \<and>
          strip (slice (dchunk_source_text c) (span_start_offset v - dchunk_start_offset c) (span_end_offset v - dchunk_start_offset c)) =
            strip (span_text v))"
    if "v \<in> set (sr_candidates (extract_scope_candidates provider cs))" for provider v
  proof -
    from extracted_grounded [OF spans] that obtain c where c: "c \<in> set cs" "grounded_in c v" unfolding grounded_def by blast
    with grounded_quotes [OF of_text] show ?thesis by (auto simp: grounded_in_def)
  qed
  moreover have "distinct (map span_item_key (sr_candidates (extract_scope_candidates provider cs)))" for provider
    using extracted_grounded [OF spans] by (simp add: grounded_def)
  moreover have "concat (map (filter (\<lambda>c. \<not> is_space c) \<circ> dchunk_source_text) cs) = filter (\<lambda>c. \<not> is_space c) (xr_text x)"
    using chunks(2) stored_texts [OF rows(2)] by (metis map_map)
  moreover have "text_of_document R content kind = Inr (xr_text x, xr_page_count x)"
    using x by (auto simp: extract_document_def split: sum.splits if_splits prod.splits)
  ultimately show ?thesis unfolding read by blast
qed

text \<open>An upload of two paragraphs, for the witness.\<close>

definition upload_reader :: document_reader where
  "upload_reader = \<lparr>utf8 = Some, utf8_replace = (\<lambda>t. t), zip_sizes = (\<lambda>_. None), zip_document = (\<lambda>_. None), docx_xml = (\<lambda>_. None)\<rparr>"

definition upload_text :: string where
  "upload_text = ''# Included'' @ [newline, newline] @ ''- a page'' @ [newline]"

definition upload_env :: env where
  "upload_env = demo_env\<lparr>sha256 := (\<lambda>t. t)\<rparr>"

definition upload_demo :: db where
  "upload_demo = empty_db\<lparr>next_uuid := 50,
     contract_documents := [\<lparr>cdoc_id = 9, cdoc_tenant_id = 7, cdoc_project_id = 3, cdoc_object_key = ''k'', cdoc_object_version = ''v'',
       cdoc_sha256 = ''pending'', cdoc_size_bytes = 21, cdoc_mime_type = ''text/plain'', cdoc_source_type = ''UPLOAD'',
       cdoc_status = UPLOADED, cdoc_extractor_version = None, cdoc_rejection_reason = None, cdoc_created_at = 0,
       cdoc_completed_at = None\<rparr>],
     document_upload_grants := [\<lparr>grant_id = 10, grant_tenant_id = 7, grant_project_id = 3, grant_document_id = 9,
       grant_token_hash = ''tok'', grant_expected_size_bytes = 21, grant_expected_mime_type = ''text/plain'',
       grant_expires_at = 900, grant_consumed_at = None, grant_created_at = 0\<rparr>]\<rparr>"

definition upload_run :: "(exn + contract_document) \<times> db" where
  "upload_run = complete_upload upload_env upload_reader False demo_ctx 9 ''tok'' upload_text upload_text ''text/plain'' upload_demo"

lemma upload_returns: "map_option cdoc_status (value_of upload_run) = Some AWAITING_SCOPE_REVIEW"
  by code_simp

lemma upload_chunks: "map dchunk_source_text (chunks_of_document demo_ctx 9 (snd upload_run)) = [''# Included'', ''- a page'']"
  by code_simp

theorem scope_candidates_quote_document_witness:
  "\<forall>provider. list_all (quoted_from upload_text)
     (sr_candidates (extract_scope_candidates provider (chunks_of_document demo_ctx 9 (snd upload_run))))"
proof -
  from upload_returns obtain d where "value_of upload_run = Some d" and status: "cdoc_status d = AWAITING_SCOPE_REVIEW" by auto
  then have run: "upload_run = (Inr d, snd upload_run)" by (simp add: value_of_SomeD)
  have fresh: "\<forall>c\<in>set (document_chunks upload_demo). dchunk_document_id c \<noteq> 9" by (simp add: upload_demo_def empty_db_def)
  have "text_of_document upload_reader upload_text ''text/plain'' = Inr (upload_text, None)" by code_simp
  with scope_candidates_quote_document [OF run [unfolded upload_run_def] status fresh] show ?thesis by (auto simp: upload_run_def list_all_iff)
qed

end
