(* ===== verification/Scope_Safety.thy ===== *)
theory Scope_Safety
  imports Contracts Acceptance
begin

text \<open>
  A confirmed scope version stays what the freelancer confirmed, whatever confirmations, corrections and
  accepted change orders follow.
\<close>

section \<open>The rows of the confirmed scope\<close>

definition scope_rows :: "db \<Rightarrow> scope_version list \<times> scope_item list \<times> scope_version_item list" where
  "scope_rows s = (scope_versions s, scope_items s, scope_version_items s)"

interpretation scope_frame: state_frame scope_rows .

abbreviation scope_same :: "db \<Rightarrow> db \<Rightarrow> bool" where
  "scope_same \<equiv> (\<lambda>s t. scope_rows t = scope_rows s)"

lemma scope_frame_steps:
  "evolves scope_same fresh_uuid" "evolves scope_same (fresh_token E)" "evolves scope_same the_time"
  "evolves scope_same (trip ps cp)" "evolves scope_same (digest_of E v)" "evolves scope_same (add_job j)"
  "evolves scope_same (add_outbox_event ob)" "evolves scope_same (put_action i f)"
  "evolves scope_same (add_external_action a)" "evolves scope_same (get_payment i)" "evolves scope_same (put_payment i f1)"
  "evolves scope_same (add_link l)" "evolves scope_same (put_request i k)" "evolves scope_same (put_project i k1)"
  "evolves scope_same (put_order i k2)" "evolves scope_same (put_capability i k3)" "evolves scope_same (add_client_session cs)"
  "evolves scope_same (add_capability k4)" "evolves scope_same (add_approval ap)" "evolves scope_same (add_amendment am)"
  "evolves scope_same (add_payment_request p)" "evolves scope_same (add_revenue_fact rf)"
  "evolves scope_same (add_candidate c)" "evolves scope_same (put_candidate i k5)" "evolves scope_same (mark_confirmed cs1)"
  "evolves scope_same (add_document d)" "evolves scope_same (change_document d k6)" "evolves scope_same (add_grant g)"
  "evolves scope_same (put_grant i k7)" "evolves scope_same (add_chunk ch)"
  by (rule evolvesI;
      simp add: scope_rows_def trip_def run_digest_of add_job_def add_outbox_event_def run_add_row put_action_def
        add_external_action_def get_payment_def put_payment_def add_link_def put_request_def put_project_def put_order_def
        put_capability_def add_client_session_def add_capability_def add_approval_def add_amendment_def add_payment_request_def
        add_revenue_fact_def add_candidate_def put_candidate_def mark_confirmed_def add_document_def change_document_def
        add_grant_def put_grant_def add_chunk_def split: sum.split)+

lemmas scope_steps0 = scope_frame.evolve_rules scope_frame_steps

lemma scope_frame_reads:
  "evolves scope_same (session_scope E st ct)" "evolves scope_same (offer_project cap c)" "evolves scope_same (locked_order cap c)"
  "evolves scope_same (send_action tn i j)" "evolves scope_same (payment_for_revision j)" "evolves scope_same (prior_acceptance j key)"
  "evolves scope_same (next_scope_version i tn sv)" "evolves scope_same (order_row i)" "evolves scope_same (get_project ctx i)"
  "evolves scope_same (get_document ctx i)" "evolves scope_same (protect E tok)"
  unfolding session_scope_def offer_project_def locked_order_def send_action_def payment_for_revision_def prior_acceptance_def
    next_scope_version_def order_row_def get_project_def get_document_def protect_def of_result_def
  by (intro scope_steps0)+

lemma scope_frame_durable:
  "evolves scope_same (enqueue_now tn k p c pr ca)" "evolves scope_same (prepare_external_action E tn key prov oper payload pj)"
  "evolves scope_same (issue_session E cap tok pu now)" "evolves scope_same (confirm_send act j)"
  "evolves scope_same (receipt_capability src i j)" "evolves scope_same (open_payment cap co r pjx)"
  unfolding enqueue_now_def enqueue_job_def new_outbox_event_def prepare_external_action_def issue_session_def
    confirm_send_def receipt_capability_def open_payment_def
  by (intro scope_steps0)+

lemma scope_frame_parts:
  "evolves scope_same (receipt_credentials E cap r now)" "evolves scope_same (receipt_credentials_for_existing E cap r now)"
  "evolves scope_same (prepare_payment_link E ctx i)"
  unfolding receipt_credentials_for_existing_def receipt_credentials_def prepare_payment_link_def create_link_attempt_def
    find_payment_def accepted_revision_def latest_link_def active_link_def link_of_attempt_def linked_action_def
  by (intro scope_steps0 scope_frame_reads scope_frame_durable)+

lemmas scope_steps = scope_steps0 scope_frame_reads scope_frame_durable scope_frame_parts

section \<open>Versions are kept\<close>

definition version_links :: "uuid \<Rightarrow> db \<Rightarrow> scope_version_item list" where
  "version_links v s = filter (\<lambda>l. svi_scope_version_id l = v) (scope_version_items s)"

text \<open>Once stored, a version keeps its row and its links, and every stored item its row.\<close>

definition version_kept :: "uuid \<Rightarrow> db \<Rightarrow> db \<Rightarrow> bool" where
  "version_kept v s t \<longleftrightarrow>
     (row_by sv_id v (scope_versions s) \<noteq> None \<longrightarrow>
        row_by sv_id v (scope_versions t) = row_by sv_id v (scope_versions s) \<and> version_links v t = version_links v s \<and>
        (\<forall>i x. row_by sitem_id i (scope_items s) = Some x \<longrightarrow> row_by sitem_id i (scope_items t) = Some x))"

interpretation version: state_order "version_kept v" for v
  by unfold_locales (auto simp: version_kept_def)

lemma scope_same_kept: "evolves scope_same m \<Longrightarrow> evolves (version_kept v) m"
  by (auto simp: evolves_def version_kept_def version_links_def scope_rows_def)

lemma add_scope_item_kept: "evolves (version_kept v) (add_scope_item x)"
  by (rule evolvesI) (auto simp: add_scope_item_def run_add_row version_kept_def version_links_def row_by_append)

text \<open>A new version is another one, so that its links leave the stored ones alone.\<close>

lemma version_added:
  assumes "sv_id x \<noteq> v \<Longrightarrow> evolves (version_kept v) (f ())"
  shows "evolves (version_kept v) (bindE (add_scope_version x) f)"
proof (rule evolvesI)
  fix s
  show "version_kept v s (snd (bindE (add_scope_version x) f s))"
  proof (cases "row_by sv_id v (scope_versions s) = None \<or> list_ex (\<lambda>q. sv_id x = sv_id q \<or> sv_tenant_id x = sv_tenant_id q \<and>
      sv_project_id x = sv_project_id q \<and> sv_version x = sv_version q) (scope_versions s)")
    case True
    then show ?thesis by (auto simp: version_kept_def add_scope_version_def run_add_row bindE_def)
  next
    case False
    let ?s = "s\<lparr>scope_versions := scope_versions s @ [x]\<rparr>"
    from False have "sv_id x \<noteq> v" by (auto simp: list_ex_iff dest!: row_by_SomeD)
    with assms have "version_kept v ?s (snd (f () ?s))" by (auto intro: evolvesD)
    moreover have "version_kept v s ?s" using False by (auto simp: version_kept_def version_links_def row_by_append)
    ultimately have "version_kept v s (snd (f () ?s))" by (rule version.R_trans [rotated])
    with False show ?thesis by (simp add: add_scope_version_def run_add_row bindE_def)
  qed
qed

lemma link_kept:
  "i \<noteq> v \<Longrightarrow> evolves (version_kept v) (link_scope_item ctx project i item)"
  "i \<noteq> v \<Longrightarrow> evolves (version_kept v) (copy_scope_item tenant project i link)"
  unfolding link_scope_item_def copy_scope_item_def
  by (rule version.evolves_bind, rule scope_same_kept, rule scope_frame_steps, rule evolvesI,
      simp add: add_scope_version_item_def run_add_row version_kept_def version_links_def)+

lemmas kept_steps = version.evolve_rules scope_steps [THEN scope_same_kept] add_scope_item_kept

lemma amend_scope_kept: "evolves (version_kept v) (amend_scope E cap c r pj prev)"
  unfolding amend_scope_def
  by (intro kept_steps version_added link_kept) simp_all

lemma accept_client_kept: "evolves (version_kept v) (accept_client E st csrf order n r h key)"
  unfolding accept_client_def record_acceptance_def replay_acceptance_def
  by (intro kept_steps amend_scope_kept)

lemma confirm_scope_kept: "evolves (version_kept v) (confirm_scope E ctx project ids)"
  unfolding confirm_scope_def new_scope_version_def store_scope_item_def bindE_assoc bindE_ret
  by (intro kept_steps version_added link_kept) simp_all

lemma document_steps_same:
  "evolves scope_same (complete_upload E R late ctx i token content digest kind)"
  "evolves scope_same (persist_structure_candidates ctx i spans version)"
  "evolves scope_same (add_scope_candidate ctx i chunk key kind extracted version)"
  "evolves scope_same (correct_scope_candidate ctx i corrected reason)"
proof -
  show "evolves scope_same (complete_upload E R late ctx i token content digest kind)"
    unfolding complete_upload_def open_upload_def extract_upload_def reject_document_def accept_extraction_def store_chunk_def
    by (intro scope_steps)
  have new: "evolves scope_same (new_candidate ctx d chunk key kind extracted version)" for d chunk key kind extracted
    unfolding new_candidate_def by (intro scope_steps)
  have "evolves scope_same (persist_candidates ctx d version existing spans)" for d existing
    by (induction spans arbitrary: existing) (auto intro!: scope_steps new)
  then show "evolves scope_same (persist_structure_candidates ctx i spans version)"
    unfolding persist_structure_candidates_def by (intro scope_steps)
  show "evolves scope_same (add_scope_candidate ctx i chunk key kind extracted version)"
    unfolding add_scope_candidate_def by (intro scope_steps new)
  show "evolves scope_same (correct_scope_candidate ctx i corrected reason)"
    unfolding correct_scope_candidate_def by (intro scope_steps)
qed

text \<open>
  The operations on documents and scope, each in its transaction, in any order; \<open>elsewhere\<close> is any step
  of the rest of the system, which leaves the three tables alone.
\<close>

inductive scope_step :: "env \<Rightarrow> db \<Rightarrow> db \<Rightarrow> bool" for E :: env where
  confirmed: "scope_step E s (snd (atomically (confirm_scope E ctx project ids) s))"
| amended: "scope_step E s (snd (atomically (accept_client E st csrf order n r h key) s))"
| uploaded: "scope_step E s (snd (atomically (complete_upload E R late ctx i token content digest kind) s))"
| proposed: "scope_step E s (snd (atomically (persist_structure_candidates ctx i spans version) s))"
| added: "scope_step E s (snd (atomically (add_scope_candidate ctx i chunk key kind extracted version) s))"
| corrected: "scope_step E s (snd (atomically (correct_scope_candidate ctx i corrected_text reason) s))"
| elsewhere: "scope_rows t = scope_rows s \<Longrightarrow> scope_step E s t"

lemma scope_step_keeps: "scope_step E s t \<Longrightarrow> version_kept v s t"
proof (induction rule: scope_step.induct)
  case elsewhere
  then show ?case by (simp add: version_kept_def version_links_def scope_rows_def)
qed (rule evolvesD [OF version.evolves_atomically], rule confirm_scope_kept accept_client_kept document_steps_same [THEN scope_same_kept])+

lemma scope_steps_keep: "(scope_step E)\<^sup>*\<^sup>* s t \<Longrightarrow> version_kept v s t"
proof (induction rule: rtranclp_induct)
  case base
  show ?case by (rule version.R_refl)
next
  case (step t u)
  with scope_step_keeps show ?case using version.R_trans by blast
qed

section \<open>What a confirmation stores\<close>

definition item_content :: "scope_item \<Rightarrow> string \<times> string \<times> string \<times> uuid option" where
  "item_content x = (sitem_item_key x, sitem_item_type x, sitem_text x, sitem_source_document_chunk_id x)"

definition candidate_content :: "scope_candidate \<Rightarrow> string \<times> string \<times> string \<times> uuid option" where
  "candidate_content c = (cand_item_key c, cand_item_type c, confirmed_text c, Some (cand_source_chunk_id c))"

text \<open>The content of a version: that of its items, in the order of its links.\<close>

definition stored_item :: "db \<Rightarrow> uuid \<Rightarrow> (string \<times> string \<times> string \<times> uuid option) option" where
  "stored_item s i = map_option item_content (row_by sitem_id i (scope_items s))"

definition version_content :: "uuid \<Rightarrow> db \<Rightarrow> (string \<times> string \<times> string \<times> uuid option) option list" where
  "version_content v s = map (stored_item s \<circ> svi_scope_item_id) (version_links v s)"

text \<open>The candidates a confirmation takes, in the order of their keys.\<close>

definition chosen_candidates :: "trusted_context \<Rightarrow> uuid \<Rightarrow> uuid list \<Rightarrow> db \<Rightarrow> scope_candidate list" where
  "chosen_candidates ctx project ids s = sort_key cand_item_key
     (filter (\<lambda>c. cand_tenant_id c = ctx_tenant_id ctx \<and> cand_project_id c = project \<and> cand_id c \<in> set ids) (scope_candidates s))"

definition items_kept :: "db \<Rightarrow> db \<Rightarrow> bool" where
  "items_kept s t \<longleftrightarrow> scope_versions t = scope_versions s \<and> scope_version_items t = scope_version_items s \<and>
     (\<forall>i x. row_by sitem_id i (scope_items s) = Some x \<longrightarrow> row_by sitem_id i (scope_items t) = Some x)"

lemma store_item_run:
  assumes "store_scope_item ctx project nc s = (Inr i, t)"
  shows "items_kept s t \<and> stored_item t i = Some (candidate_content (snd nc))"
proof -
  from assms obtain x where x: "scope_items t = scope_items s @ [x]" "sitem_id x = i" "item_content x = candidate_content (snd nc)"
    and rows: "scope_versions t = scope_versions s" "scope_version_items t = scope_version_items s"
    and new: "\<not> list_ex (\<lambda>q. i = sitem_id q) (scope_items s)"
    unfolding store_scope_item_def add_scope_item_def
    by (elim bindE_InrE) (auto simp: run_add_row item_content_def candidate_content_def list_ex_iff split: if_splits)
  from new have "row_by sitem_id i (scope_items s) = None" by (auto simp: row_by_None_iff list_ex_iff)
  with x rows show ?thesis by (auto simp: items_kept_def stored_item_def row_by_append split: option.splits)
qed

lemma store_items_run:
  "mapE (store_scope_item ctx project) ncs s = (Inr is, t) \<Longrightarrow>
   items_kept s t \<and> map (stored_item t) is = map (Some \<circ> candidate_content \<circ> snd) ncs"
proof (induction ncs arbitrary: s "is")
  case (Cons nc ncs)
  from Cons.prems obtain i s1 js where one: "store_scope_item ctx project nc s = (Inr i, s1)"
    and others: "mapE (store_scope_item ctx project) ncs s1 = (Inr js, t)" and list: "is = i # js" by (auto elim!: bindE_InrE)
  from store_item_run [OF one] Cons.IH [OF others] list show ?case
    by (auto simp: items_kept_def stored_item_def)
qed (simp add: items_kept_def)

lemma link_items_run:
  "mapE (link_scope_item ctx project v) is s = (Inr us, t) \<Longrightarrow>
   \<exists>rows. scope_version_items t = scope_version_items s @ rows \<and> map svi_scope_item_id rows = is \<and>
     (\<forall>l\<in>set rows. svi_scope_version_id l = v) \<and> scope_versions t = scope_versions s \<and> scope_items t = scope_items s"
proof (induction "is" arbitrary: s us)
  case (Cons i "is")
  from Cons.prems obtain u s1 us' where one: "link_scope_item ctx project v i s = (Inr u, s1)"
    and others: "mapE (link_scope_item ctx project v) is s1 = (Inr us', t)" by (auto elim!: bindE_InrE)
  from one obtain l where "scope_version_items s1 = scope_version_items s @ [l]" "svi_scope_item_id l = i" "svi_scope_version_id l = v"
    "scope_versions s1 = scope_versions s" "scope_items s1 = scope_items s"
    by (auto simp: link_scope_item_def add_scope_version_item_def run_add_row split: if_splits)
  with Cons.IH [OF others] show ?case by fastforce
qed auto

lemma new_version_run:
  assumes "new_scope_version E ctx p n chosen s = (Inr v, t)"
  shows "scope_versions t = scope_versions s @ [v] \<and> sv_id v \<notin> sv_id ` set (scope_versions s) \<and> sv_version v = n \<and>
    sv_parent_version_id v = proj_current_scope_version_id p \<and> sv_project_id v = proj_id p \<and>
    canonical_sha256 (sha256 E) (PList (map scope_payload chosen)) = Inr (sv_content_hash v) \<and>
    scope_items t = scope_items s \<and> scope_version_items t = scope_version_items s"
  using assms
  by (auto simp: new_scope_version_def run_bindE run_digest_of add_scope_version_def run_add_row list_ex_iff split: sum.splits if_splits)

text \<open>The foreign key of the links.\<close>

definition links_resolve :: "db \<Rightarrow> bool" where
  "links_resolve s \<longleftrightarrow> (\<forall>l\<in>set (scope_version_items s). svi_scope_version_id l \<in> sv_id ` set (scope_versions s))"

lemma scope_same_run:
  "evolves scope_same m \<Longrightarrow> m s = (r, t) \<Longrightarrow>
   scope_versions t = scope_versions s \<and> scope_items t = scope_items s \<and> scope_version_items t = scope_version_items s"
  by (drule evolves_run, assumption) (simp add: scope_rows_def)

lemma confirmation_run:
  assumes "confirm_scope E ctx project ids s = (Inr v, t)" and "links_resolve s"
  shows "row_by sv_id (sv_id v) (scope_versions t) = Some v \<and>
    version_content (sv_id v) t = map (Some \<circ> candidate_content) (chosen_candidates ctx project ids s) \<and>
    canonical_sha256 (sha256 E) (PList (map scope_payload (chosen_candidates ctx project ids s))) = Inr (sv_content_hash v) \<and>
    sv_version v = latest_scope_version ctx project s + 1 \<and>
    (\<exists>p. owned_project ctx project s = Some p \<and> sv_parent_version_id v = proj_current_scope_version_id p)"
  using assms(1) unfolding confirm_scope_def
proof (elim bindE_InrE, goal_cases)
  case prems: (1 p s1 u1 s2 found s3 u2 s4 u3 s5 latest s6 chosen s7 version s8 items s9 us s10 u4 s11 u5 s12)
  from prems(1) have p: "owned_project ctx project s = Some p" "s1 = s"
    by (auto simp: get_project_def some_or_def split: option.splits elim!: bindE_InrE)
  from prems(2-7) p(2) have read: "s7 = s" "chosen = chosen_candidates ctx project ids s" "latest = latest_scope_version ctx project s"
    by (auto simp: require_def chosen_candidates_def split: if_splits)
  from prems(13) have v: "version = v" "s12 = t" by simp_all
  note added = new_version_run [OF prems(8)] and stored = store_items_run [OF prems(9)]
  obtain rows where linked: "scope_version_items s10 = scope_version_items s9 @ rows" "map svi_scope_item_id rows = items"
    "\<forall>l\<in>set rows. svi_scope_version_id l = sv_id version" "scope_versions s10 = scope_versions s9" "scope_items s10 = scope_items s9"
    using link_items_run [OF prems(10)] by blast
  have last_steps: "scope_versions t = scope_versions s10" "scope_items t = scope_items s10" "scope_version_items t = scope_version_items s10"
    using scope_same_run [OF scope_frame_steps(25) prems(11)] scope_same_run [OF scope_frame_steps(14) prems(12)] v by simp_all
  have old: "filter (\<lambda>l. svi_scope_version_id l = sv_id v) (scope_version_items s) = []"
  proof -
    have "sv_id v \<notin> sv_id ` set (scope_versions s)" using added read(1) v(1) by simp
    with assms(2) show ?thesis unfolding links_resolve_def filter_empty_conv by metis
  qed
  have links: "version_links (sv_id v) t = rows"
    using linked stored added old last_steps v(1) read(1) by (simp add: version_links_def items_kept_def filter_id_conv)
  have "stored_item t = stored_item s9" using last_steps(2) linked(5) by (simp add: stored_item_def fun_eq_iff)
  then have "version_content (sv_id v) t = map (stored_item s9) items"
    using linked(2) by (simp add: version_content_def links flip: map_map)
  also have "\<dots> = map (Some \<circ> candidate_content \<circ> snd) (enumerate 0 chosen)" using stored by simp
  also have "\<dots> = map (Some \<circ> candidate_content) chosen" by (simp add: map_map [symmetric] del: map_map)
  finally have content: "version_content (sv_id v) t = map (Some \<circ> candidate_content) (chosen_candidates ctx project ids s)"
    by (simp add: read(2))
  have "scope_versions t = scope_versions s @ [v]" using added stored linked(4) last_steps(1) v(1) read(1) by (simp add: items_kept_def)
  moreover have "sv_id v \<notin> sv_id ` set (scope_versions s)" using added v(1) read(1) by simp
  then have "row_by sv_id (sv_id v) (scope_versions s) = None" by (metis row_by_None_iff image_eqI)
  ultimately have "row_by sv_id (sv_id v) (scope_versions t) = Some v" by (simp add: row_by_append)
  with content added read p v(1) show ?case by auto
qed

text \<open>C32: A confirmed scope is final. After a confirmation and any further confirmations, corrections,
uploads and client acceptances, the version it made is stored as it was: one above the latest of the
project, with the project's then current version as its parent; its items are exactly the confirmed
candidates in the order of their keys, with the corrected text where there was one; and its content
hash is the digest of that list.\<close>

theorem confirmed_scope_final:
  assumes "confirm_scope E ctx project ids s = (Inr v, s')" and "links_resolve s" and "(scope_step E)\<^sup>*\<^sup>* s' t"
  shows "row_by sv_id (sv_id v) (scope_versions t) = Some v \<and>
    version_content (sv_id v) t = map (Some \<circ> candidate_content) (chosen_candidates ctx project ids s) \<and>
    canonical_sha256 (sha256 E) (PList (map scope_payload (chosen_candidates ctx project ids s))) = Inr (sv_content_hash v) \<and>
    sv_version v = latest_scope_version ctx project s + 1 \<and>
    (\<exists>p. owned_project ctx project s = Some p \<and> sv_parent_version_id v = proj_current_scope_version_id p)"
proof -
  note made = confirmation_run [OF assms(1,2)]
  from made scope_steps_keep [OF assms(3), of "sv_id v"] have kept: "row_by sv_id (sv_id v) (scope_versions t) = Some v"
    "version_links (sv_id v) t = version_links (sv_id v) s'"
    "\<And>i x. row_by sitem_id i (scope_items s') = Some x \<Longrightarrow> row_by sitem_id i (scope_items t) = Some x"
    by (auto simp: version_kept_def)
  have "stored_item t i = stored_item s' i" if "stored_item s' i \<noteq> None" for i
    using that kept(3) by (auto simp: stored_item_def)
  moreover have "stored_item s' (svi_scope_item_id l) \<noteq> None" if "l \<in> set (version_links (sv_id v) s')" for l
  proof -
    have "stored_item s' (svi_scope_item_id l) \<in> set (version_content (sv_id v) s')"
      using that by (auto simp: version_content_def)
    with made show ?thesis by (metis (no_types, lifting) comp_apply imageE list.set_map option.distinct(1))
  qed
  ultimately have "version_content (sv_id v) t = version_content (sv_id v) s'"
    by (simp add: version_content_def kept(2))
  with made kept(1) show ?thesis by simp
qed

text \<open>A project with one corrected candidate, for the witness.\<close>

definition scope_demo :: db where
  "scope_demo = empty_db\<lparr>next_uuid := 50,
     projects := [\<lparr>proj_id = 3, proj_tenant_id = 7, proj_client_id = 5, proj_name = ''P'', proj_status = PAUSED_UNCONFIRMED_SCOPE,
       proj_currency = ''INR'', proj_base_contract_value_minor = 0, proj_current_scope_version_id = None,
       proj_preference_version_id = 6, proj_timezone = ''UTC'', proj_calendar_version_id = None, proj_target_date = None,
       proj_created_at = 0, proj_updated_at = 0, proj_row_version = 1\<rparr>],
     scope_candidates := [\<lparr>cand_id = 20, cand_tenant_id = 7, cand_project_id = 3, cand_document_id = 9, cand_source_chunk_id = 12,
       cand_item_key = ''k'', cand_item_type = ''included'', cand_extracted_text = ''a page'', cand_corrected_text = Some ''two pages'',
       cand_extractor_version = ''x'', cand_status = CORRECTED, cand_correction_reason = Some ''r'', cand_created_at = 0,
       cand_updated_at = 0\<rparr>]\<rparr>"

lemma scope_demo_confirmed:
  "\<exists>v t. confirm_scope demo_env demo_ctx 3 [20] scope_demo = (Inr v, t) \<and> sv_id v = 50"
  by (simp add: confirm_scope_def get_project_def owned_project_def scope_demo_def demo_ctx_def empty_db_def latest_scope_version_def
      new_scope_version_def add_scope_version_def store_scope_item_def add_scope_item_def link_scope_item_def
      add_scope_version_item_def mark_confirmed_def put_project_def scope_payload_def confirmed_text_def configured_def or_none_def
      program_runs demo_env_def del: dumps.simps cong: bindE_weak)

text \<open>After the confirmation the candidate is corrected and confirmed again: the first version keeps its text.\<close>

theorem confirmed_scope_final_witness:
  "\<exists>v s'. confirm_scope demo_env demo_ctx 3 [20] scope_demo = (Inr v, s') \<and>
     version_content 50 (snd (atomically (confirm_scope demo_env demo_ctx 3 [20])
       (snd (atomically (correct_scope_candidate demo_ctx 20 ''nine pages'' ''late'') s')))) =
     [Some (''k'', ''included'', ''two pages'', Some 12)]"
proof -
  obtain v s' where run: "confirm_scope demo_env demo_ctx 3 [20] scope_demo = (Inr v, s')" and v: "sv_id v = 50"
    using scope_demo_confirmed by blast
  have links: "links_resolve scope_demo" by (simp add: links_resolve_def scope_demo_def empty_db_def)
  let ?s1 = "snd (atomically (correct_scope_candidate demo_ctx 20 ''nine pages'' ''late'') s')"
  have "scope_step demo_env s' ?s1" by (rule scope_step.corrected)
  moreover have "scope_step demo_env ?s1 (snd (atomically (confirm_scope demo_env demo_ctx 3 [20]) ?s1))" by (rule scope_step.confirmed)
  ultimately have later: "(scope_step demo_env)\<^sup>*\<^sup>* s' (snd (atomically (confirm_scope demo_env demo_ctx 3 [20]) ?s1))" by simp
  have "map (Some \<circ> candidate_content) (chosen_candidates demo_ctx 3 [20] scope_demo) =
      [Some (''k'', ''included'', ''two pages'', Some 12)]"
    by (simp add: chosen_candidates_def scope_demo_def demo_ctx_def candidate_content_def confirmed_text_def configured_def or_none_def)
  with confirmed_scope_final [OF run links later] v run show ?thesis by auto
qed

end
