(* ===== verification/Gmail.thy ===== *)
theory Gmail
  imports Contracts
begin

text \<open>
  The Gmail connection (\<open>services/integrations/gmail.py\<close>): the OAuth sessions, the sealed credentials, the
  requests to the provider and their errors, the mailbox checkpoint and its scheduling.

  The provider is a parameter: \<open>gm_http n r\<close> is its answer to the n-th exchange, the request \<open>r\<close>. So are the
  authenticated cipher, the keyed hash and the serialisation of an email (headers, plain text, HTML).
\<close>

section \<open>Settings and the provider\<close>

record http_request =
  hr_method :: string
  hr_url :: string
  hr_token :: string
  hr_params :: "(string \<times> string) list"
  hr_json :: "(string \<times> pyval) list"

record gmail_config =
  gm_environment :: string
  gm_encryption_key :: string
  gm_client_id :: string
  gm_client_secret :: string
  gm_authorization_url :: string
  gm_token_url :: string
  gm_userinfo_url :: string
  gm_redirect_uri :: string
  gm_push_secret :: string
  gm_topic :: string
  gm_api_base_url :: string
  gm_encrypt :: "string \<Rightarrow> string \<Rightarrow> string"
  gm_decrypt :: "string \<Rightarrow> string \<Rightarrow> exn + string"
  gm_hmac :: "string \<Rightarrow> string \<Rightarrow> string"
  gm_mime :: "(string \<times> string) list \<Rightarrow> string \<Rightarrow> string \<Rightarrow> exn + string"
  gm_http :: "nat \<Rightarrow> http_request \<Rightarrow> http_outcome"

abbreviation GmailHistoryGap :: exn where "GmailHistoryGap \<equiv> OtherError ''GmailHistoryGap''"

definition MAX_PUSH_ID_LENGTH :: nat where "MAX_PUSH_ID_LENGTH = 255"
definition MAX_HISTORY_PAGE :: nat where "MAX_HISTORY_PAGE = 100"
definition HISTORY_RETENTION_DAYS :: int where "HISTORY_RETENTION_DAYS = 90"

section \<open>Texts\<close>

text \<open>\<open>bytes.fromhex\<close>: the digest behind its hexadecimal text.\<close>

fun bytes_of_hex :: "string \<Rightarrow> string" where
  "bytes_of_hex (a # b # cs) =
     char_of ((case digit_val a of Some d \<Rightarrow> d | None \<Rightarrow> 0) * 16 + (case digit_val b of Some d \<Rightarrow> d | None \<Rightarrow> 0) :: nat) # bytes_of_hex cs"
| "bytes_of_hex _ = []"

definition rstrip_of :: "char \<Rightarrow> string \<Rightarrow> string" where
  "rstrip_of c t = rev (dropWhile (\<lambda>d. d = c) (rev t))"

definition pkce_challenge :: "env \<Rightarrow> string \<Rightarrow> string" where
  "pkce_challenge E verifier = rstrip_of (CHR ''='') (pad_base64 (urlsafe_b64encode (bytes_of_hex (sha256 E verifier))))"

text \<open>\<open>urlencode\<close>\<close>

definition quote_char :: "char \<Rightarrow> string" where
  "quote_char c =
     (let n = of_char c :: nat in
      if 48 \<le> n \<and> n \<le> 57 \<or> 65 \<le> n \<and> n \<le> 90 \<or> 97 \<le> n \<and> n \<le> 122 \<or> c \<in> set ''_.-~'' then [c]
      else if n = 32 then ''+''
      else [CHR 0x25, upper_char (digit_char (n div 16)), upper_char (digit_char (n mod 16))])"

definition urlencode :: "(string \<times> string) list \<Rightarrow> string" where
  "urlencode ps = join ''&'' (map (\<lambda>kv. concat (map quote_char (fst kv)) @ ''='' @ concat (map quote_char (snd kv))) ps)"

text \<open>\<open>int(text)\<close>: blanks around, a sign, digits with single underscores between them.\<close>

fun int_digits :: "nat \<Rightarrow> bool \<Rightarrow> string \<Rightarrow> nat option" where
  "int_digits n digit_before [] = (if digit_before then Some n else None)"
| "int_digits n digit_before (c # cs) =
     (if c = CHR ''_'' then (if digit_before \<and> cs \<noteq> [] then int_digits n False cs else None)
      else (case digits_val 10 0 [c] of None \<Rightarrow> None | Some d \<Rightarrow> int_digits (10 * n + d) True cs))"

definition int_of_text :: "string \<Rightarrow> int option" where
  "int_of_text t =
     (case strip t of
        [] \<Rightarrow> None
      | c # cs \<Rightarrow>
          if c = CHR ''-'' then map_option (\<lambda>n. - int n) (int_digits 0 False cs)
          else if c = CHR ''+'' then map_option int (int_digits 0 False cs)
          else map_option int (int_digits 0 False (c # cs)))"

text \<open>
  \<open>json.dumps\<close> of a dictionary of texts, non-ASCII characters escaped, and \<open>json.loads\<close> of one.
  Other JSON texts are never sealed by the service and are not read here.
\<close>

definition ascii_char :: "char \<Rightarrow> string" where
  "ascii_char c =
     (let n = of_char c :: nat in
      if n < 127 then json_char c else [CHR 0x5C, CHR ''u'', CHR ''0'', CHR ''0'', digit_char (n div 16), digit_char (n mod 16)])"

definition json_text :: "string \<Rightarrow> string" where
  "json_text t = [CHR 0x22] @ concat (map ascii_char t) @ [CHR 0x22]"

definition json_object :: "(string \<times> string) list \<Rightarrow> string" where
  "json_object d = ''{'' @ join '', '' (map (\<lambda>kv. json_text (fst kv) @ '': '' @ json_text (snd kv)) d) @ ''}''"

definition json_escape :: "char \<Rightarrow> char option" where
  "json_escape c =
     (if c \<in> {CHR 0x22, CHR 0x5C, CHR ''/''} then Some c
      else if c = CHR ''n'' then Some (CHR 0x0A)
      else if c = CHR ''r'' then Some (CHR 0x0D)
      else if c = CHR ''t'' then Some (CHR 0x09)
      else if c = CHR ''b'' then Some (CHR 0x08)
      else if c = CHR ''f'' then Some (CHR 0x0C)
      else None)"

fun json_chars :: "string \<Rightarrow> (string \<times> string) option" where
  "json_chars [] = None"
| "json_chars (c # cs) =
     (if c = CHR 0x22 then Some ([], cs)
      else if of_char c < (32::nat) then None
      else if c \<noteq> CHR 0x5C then map_option (apfst ((#) c)) (json_chars cs)
      else (case cs of
          [] \<Rightarrow> None
        | e # ds \<Rightarrow>
            if e \<noteq> CHR ''u'' then (case json_escape e of None \<Rightarrow> None | Some x \<Rightarrow> map_option (apfst ((#) x)) (json_chars ds))
            else (case ds of
                a1 # a2 # a3 # a4 # rest' \<Rightarrow>
                  (case digits_val 16 0 [a1, a2, a3, a4] of
                     Some n \<Rightarrow> if n < 256 then map_option (apfst ((#) (char_of n))) (json_chars rest') else None
                   | None \<Rightarrow> None)
              | _ \<Rightarrow> None)))"

text \<open>A member \<open>"key": "value"\<close>, and the members of an object after its opening brace.\<close>

definition after_char :: "char \<Rightarrow> string \<Rightarrow> string option" where
  "after_char c t = (case dropWhile is_space t of [] \<Rightarrow> None | d # ds \<Rightarrow> if d = c then Some ds else None)"

definition json_member :: "string \<Rightarrow> ((string \<times> string) \<times> string) option" where
  "json_member t =
     (case Option.bind (after_char (CHR 0x22) t) json_chars of
        None \<Rightarrow> None
      | Some (key, after_key) \<Rightarrow>
          (case Option.bind (Option.bind (after_char (CHR '':'') after_key) (after_char (CHR 0x22))) json_chars of
             None \<Rightarrow> None
           | Some (v, after_value) \<Rightarrow> Some ((key, v), after_value)))"

fun json_members :: "nat \<Rightarrow> string \<Rightarrow> (string \<times> string) list option" where
  "json_members 0 t = None"
| "json_members (Suc fuel) t =
     (case json_member t of
        None \<Rightarrow> None
      | Some (kv, others) \<Rightarrow>
          (case after_char (CHR '','') others of
             Some next_member \<Rightarrow> map_option ((#) kv) (json_members fuel next_member)
           | None \<Rightarrow>
               (case after_char (CHR ''}'') others of
                  Some tail \<Rightarrow> if list_all is_space tail then Some [kv] else None
                | None \<Rightarrow> None)))"

definition json_strings :: "string \<Rightarrow> (string \<times> string) list option" where
  "json_strings t =
     (case after_char (CHR ''{'') t of
        None \<Rightarrow> None
      | Some body \<Rightarrow>
          (case after_char (CHR ''}'') body of
             Some tail \<Rightarrow> if list_all is_space tail then Some [] else None
           | None \<Rightarrow> json_members (length body) body))"

section \<open>Sealed credentials\<close>

definition seal_key :: "env \<Rightarrow> gmail_config \<Rightarrow> string act" where
  "seal_key E G =
     (if gm_encryption_key G = [] \<and> gm_environment G \<noteq> ''development'' then raise ConflictError
      else ret (sha256 E (if gm_encryption_key G = [] then ''scopeguard-development-only'' else gm_encryption_key G)))"

definition seal :: "env \<Rightarrow> gmail_config \<Rightarrow> string \<Rightarrow> string act" where
  "seal E G v = bindE (seal_key E G) (\<lambda>key. ret (pad_base64 (urlsafe_b64encode (gm_encrypt G key v))))"

text \<open>\<open>ValueError\<close> stands for its subclasses, the encoding errors, too.\<close>

definition unseal :: "env \<Rightarrow> gmail_config \<Rightarrow> string \<Rightarrow> string act" where
  "unseal E G v =
     (case urlsafe_b64decode v of
        None \<Rightarrow> raise ValidationError
      | Some envelope \<Rightarrow>
          bindE (seal_key E G) (\<lambda>key.
          (case gm_decrypt G key envelope of
             Inr t \<Rightarrow> ret t
           | Inl e \<Rightarrow> raise (if e = ValueError \<or> e = OtherError ''TypeError'' then ValidationError else e))))"

definition sealed_tokens :: "env \<Rightarrow> gmail_config \<Rightarrow> string \<Rightarrow> string \<Rightarrow> string act" where
  "sealed_tokens E G access refresh = seal E G (json_object [(''access_token'', access), (''refresh_token'', refresh)])"

section \<open>Connections and checkpoints\<close>

definition add_connection :: "integration_connection \<Rightarrow> unit act" where
  "add_connection = add_row integration_connections (\<lambda>rows s. s\<lparr>integration_connections := rows\<rparr>) integration_connection_check
     (\<lambda>r q. gconn_id r = gconn_id q \<or> gconn_tenant_id r = gconn_tenant_id q \<and> gconn_provider r = gconn_provider q \<and>
        gconn_provider_account_id r = gconn_provider_account_id q)"

definition put_connection :: "uuid \<Rightarrow> (integration_connection \<Rightarrow> integration_connection) \<Rightarrow> unit act" where
  "put_connection i f = modify (\<lambda>s. s\<lparr>integration_connections :=
     upd_row gconn_id i (\<lambda>r. f (r\<lparr>gconn_updated_at := clock s\<rparr>)) (integration_connections s)\<rparr>)"

definition add_sync :: "mailbox_sync \<Rightarrow> unit act" where
  "add_sync = add_row mailbox_syncs (\<lambda>rows s. s\<lparr>mailbox_syncs := rows\<rparr>) (\<lambda>_. True)
     (\<lambda>r q. msync_id r = msync_id q \<or> msync_connection_id r = msync_connection_id q)"

definition put_sync :: "uuid \<Rightarrow> (mailbox_sync \<Rightarrow> mailbox_sync) \<Rightarrow> unit act" where
  "put_sync i f = modify (\<lambda>s. s\<lparr>mailbox_syncs :=
     upd_row msync_id i (\<lambda>r. f (r\<lparr>msync_updated_at := clock s\<rparr>)) (mailbox_syncs s)\<rparr>)"

definition add_oauth :: "oauth_session \<Rightarrow> unit act" where
  "add_oauth = add_row oauth_sessions (\<lambda>rows s. s\<lparr>oauth_sessions := rows\<rparr>) (\<lambda>_. True)
     (\<lambda>r q. oauth_id r = oauth_id q \<or> oauth_state_hash r = oauth_state_hash q)"

definition put_oauth :: "uuid \<Rightarrow> (oauth_session \<Rightarrow> oauth_session) \<Rightarrow> unit act" where
  "put_oauth i f = modify (\<lambda>s. s\<lparr>oauth_sessions := upd_row oauth_id i f (oauth_sessions s)\<rparr>)"

definition own_connection :: "trusted_context \<Rightarrow> uuid \<Rightarrow> db \<Rightarrow> integration_connection option" where
  "own_connection ctx i s =
     find (\<lambda>c. gconn_id c = i \<and> gconn_tenant_id c = ctx_tenant_id ctx) (integration_connections s)"

definition sync_of :: "uuid \<Rightarrow> db \<Rightarrow> mailbox_sync option" where
  "sync_of connection s = find (\<lambda>m. msync_connection_id m = connection) (mailbox_syncs s)"

text \<open>The row of a connection as it is now; the session hands out one object per row.\<close>

definition connection_now :: "integration_connection \<Rightarrow> integration_connection act" where
  "connection_now c = bindE (gets (\<lambda>s. row_by gconn_id (gconn_id c) (integration_connections s))) (\<lambda>found. some_or NotFoundError found)"

definition sync_now :: "mailbox_sync \<Rightarrow> mailbox_sync act" where
  "sync_now m = bindE (gets (\<lambda>s. row_by msync_id (msync_id m) (mailbox_syncs s))) (\<lambda>found. some_or NotFoundError found)"

definition connection_context :: "integration_connection \<Rightarrow> uuid \<Rightarrow> trusted_context" where
  "connection_context c correlation =
     \<lparr>ctx_tenant_id = gconn_tenant_id c, ctx_subject = ''gmail:'' @ gconn_provider_account_id c,
      ctx_email = gconn_account_email c, ctx_email_verified = True, ctx_correlation_id = correlation\<rparr>"

definition gmail_context :: "integration_connection \<Rightarrow> trusted_context act" where
  "gmail_context c = bindE fresh_uuid (\<lambda>i. ret (connection_context c i))"

definition get_connection :: "trusted_context \<Rightarrow> uuid \<Rightarrow> integration_connection act" where
  "get_connection ctx i = bindE (gets (own_connection ctx i)) (\<lambda>found. some_or NotFoundError found)"

definition gmail_job :: "trusted_context \<Rightarrow> uuid \<Rightarrow> string \<Rightarrow> (string \<times> pyval) list \<Rightarrow> job act" where
  "gmail_job ctx connection kind details =
     enqueue_now (ctx_tenant_id ctx) kind ((''connection_id'', PStr (uuid_str connection)) # details) (ctx_correlation_id ctx) None None"

definition sync_mode_value :: "sync_mode \<Rightarrow> string" where
  "sync_mode_value m = (case m of INITIAL_BACKFILL \<Rightarrow> ''INITIAL_BACKFILL'' | INCREMENTAL \<Rightarrow> ''INCREMENTAL'')"

definition schedule_gmail_sync :: "trusted_context \<Rightarrow> uuid \<Rightarrow> bool \<Rightarrow> mailbox_sync act" where
  "schedule_gmail_sync ctx i initial =
     bindE (gets (own_connection ctx i)) (\<lambda>found.
     bindE (some_or ConflictError found) (\<lambda>c.
     bindE (require (gconn_status c = CONNECTED) ConflictError) (\<lambda>_.
     bindE (gets (sync_of (gconn_id c))) (\<lambda>found_sync.
     bindE (some_or ConflictError found_sync) (\<lambda>m.
     bindE the_time (\<lambda>now.
     bindE (ret (if initial then INITIAL_BACKFILL else INCREMENTAL)) (\<lambda>mode.
     bindE (put_sync (msync_id m) (\<lambda>r. (if initial then r\<lparr>msync_coverage_start := Some (now - days HISTORY_RETENTION_DAYS),
        msync_coverage_end := Some now\<rparr> else r)\<lparr>msync_status := SYNC_RUNNING, msync_mode := mode,
        msync_row_version := msync_row_version r + 1\<rparr>)) (\<lambda>_.
     bindE (perhaps initial (put_connection (gconn_id c)
        (\<lambda>r. r\<lparr>gconn_coverage_cutoff := Some (now - days HISTORY_RETENTION_DAYS)\<rparr>))) (\<lambda>_.
     bindE (gmail_job ctx (gconn_id c) (if initial then ''gmail.initial_backfill'' else ''gmail.history_sync'')
        [(''mode'', PStr (sync_mode_value mode))]) (\<lambda>_.
     sync_now m))))))))))"

section \<open>OAuth\<close>

record gmail_oauth_start =
  gos_state :: string
  gos_code_verifier :: string
  gos_authorization_url :: string

definition gmail_scopes :: string where
  "gmail_scopes = ''openid https://www.googleapis.com/auth/userinfo.email '' @
     ''https://www.googleapis.com/auth/gmail.readonly '' @ ''https://www.googleapis.com/auth/gmail.send''"

definition authorization_url :: "env \<Rightarrow> gmail_config \<Rightarrow> string \<Rightarrow> string \<Rightarrow> string \<Rightarrow> string \<Rightarrow> string" where
  "authorization_url E G client callback state verifier =
     gm_authorization_url G @ ''?'' @ urlencode
       [(''client_id'', client), (''redirect_uri'', callback), (''response_type'', ''code''), (''scope'', gmail_scopes),
        (''access_type'', ''offline''), (''prompt'', ''consent''), (''state'', state),
        (''code_challenge'', pkce_challenge E verifier), (''code_challenge_method'', ''S256'')]"

definition oauth_client_id :: "gmail_config \<Rightarrow> exn + string" where
  "oauth_client_id G =
     (case strip (gm_client_id G) of
        [] \<Rightarrow> if gm_environment G = ''development'' then Inr ''scopeguard-development-gmail-client'' else Inl ConflictError
      | client \<Rightarrow> Inr client)"

definition start_gmail_oauth ::
  "env \<Rightarrow> gmail_config \<Rightarrow> trusted_context \<Rightarrow> string option \<Rightarrow> string option \<Rightarrow> gmail_oauth_start act" where
  "start_gmail_oauth E G ctx redirect expected =
     bindE (require (ctx_email_verified ctx) ValidationError) (\<lambda>_.
     bindE (of_result (oauth_client_id G)) (\<lambda>client.
     bindE (ret (strip (case configured redirect of Some r \<Rightarrow> r | None \<Rightarrow> gm_redirect_uri G))) (\<lambda>callback.
     bindE (require (callback \<noteq> []) ConflictError) (\<lambda>_.
     bindE (fresh_token E) (\<lambda>state.
     bindE (fresh_token E) (\<lambda>verifier.
     bindE (seal E G verifier) (\<lambda>sealed_verifier.
     bindE fresh_uuid (\<lambda>i.
     bindE the_time (\<lambda>now.
     bindE (add_oauth \<lparr>oauth_id = i, oauth_tenant_id = ctx_tenant_id ctx, oauth_provider = ''gmail'',
        oauth_state_hash = sha256 E state, oauth_code_verifier_ciphertext = Some sealed_verifier, oauth_redirect_uri = callback,
        oauth_expected_account_id = expected, oauth_expires_at = now + minutes 10, oauth_consumed_at = None,
        oauth_created_at = now\<rparr>) (\<lambda>_.
     ret \<lparr>gos_state = state, gos_code_verifier = verifier,
        gos_authorization_url = authorization_url E G client callback state verifier\<rparr>))))))))))"

definition oauth_by_state :: "env \<Rightarrow> string \<Rightarrow> uuid option \<Rightarrow> db \<Rightarrow> oauth_session option" where
  "oauth_by_state E state tenant s =
     find (\<lambda>r. oauth_provider r = ''gmail'' \<and> oauth_state_hash r = sha256 E state \<and>
       (case tenant of None \<Rightarrow> True | Some t \<Rightarrow> oauth_tenant_id r = t)) (oauth_sessions s)"

definition load_oauth_session :: "env \<Rightarrow> string \<Rightarrow> uuid option \<Rightarrow> oauth_session act" where
  "load_oauth_session E state tenant =
     bindE (gets (oauth_by_state E state tenant)) (\<lambda>found.
     bindE (some_or ValidationError found) (\<lambda>r.
     bindE the_time (\<lambda>now.
     bindE (require (oauth_consumed_at r = None \<and> now < oauth_expires_at r) ValidationError) (\<lambda>_.
     ret r))))"

text \<open>What the connection row of an account is before the callback's credentials are stored.\<close>

definition account_connection :: "uuid \<Rightarrow> string \<Rightarrow> string \<Rightarrow> integration_connection act" where
  "account_connection tenant account email =
     bindE (gets (\<lambda>s. find (\<lambda>c. gconn_tenant_id c = tenant \<and> gconn_provider c = ''gmail'' \<and> gconn_provider_account_id c = account)
        (integration_connections s))) (\<lambda>found.
     (case found of
        Some c \<Rightarrow>
          bindE (require (gconn_account_email c = email \<or> gconn_status c \<noteq> CONNECTED) ConflictError) (\<lambda>_. ret c)
      | None \<Rightarrow>
          bindE fresh_uuid (\<lambda>i.
          bindE the_time (\<lambda>now.
          bindE (ret \<lparr>gconn_id = i, gconn_tenant_id = tenant, gconn_provider = ''gmail'', gconn_provider_account_id = account,
             gconn_account_email = email, gconn_status = CONNECTING, gconn_credential_ciphertext = None, gconn_credential_version = 1,
             gconn_watch_id = None, gconn_watch_expiry = None, gconn_committed_history_id = None, gconn_coverage_cutoff = None,
             gconn_last_success_at = None, gconn_last_error = None, gconn_lease_until = None, gconn_row_version = 1,
             gconn_created_at = now, gconn_updated_at = now\<rparr>) (\<lambda>c.
          bindE (add_connection c) (\<lambda>_. ret c))))))"

text \<open>A callback without a refresh token keeps the stored one, when that can be read.\<close>

definition kept_refresh_token :: "env \<Rightarrow> gmail_config \<Rightarrow> integration_connection \<Rightarrow> string option \<Rightarrow> string act" where
  "kept_refresh_token E G c refresh =
     (case (Option.bind refresh or_none, configured (gconn_credential_ciphertext c)) of
        (None, Some sealed) \<Rightarrow>
          catchE (bindE (unseal E G sealed) (\<lambda>t. bindE (some_or ValueError (json_strings t)) (\<lambda>d.
             ret (case map_of (rev d) ''refresh_token'' of Some r \<Rightarrow> r | None \<Rightarrow> []))))
            (\<lambda>e. if e = ValueError \<or> e = ValidationError then ret [] else raise e)
      | (None, None) \<Rightarrow> ret []
      | (Some r, _) \<Rightarrow> ret r)"

definition resumed_sync :: "uuid \<Rightarrow> uuid \<Rightarrow> unit act" where
  "resumed_sync tenant connection =
     bindE (gets (sync_of connection)) (\<lambda>found.
     (case found of
        Some m \<Rightarrow> put_sync (msync_id m) (\<lambda>r. r\<lparr>msync_status := SYNC_IDLE, msync_row_version := msync_row_version r + 1\<rparr>)
      | None \<Rightarrow>
          bindE fresh_uuid (\<lambda>i.
          bindE the_time (\<lambda>now.
          add_sync \<lparr>msync_id = i, msync_tenant_id = tenant, msync_connection_id = connection, msync_status = SYNC_IDLE,
            msync_mode = INITIAL_BACKFILL, msync_committed_history_id = None, msync_coverage_start = None,
            msync_coverage_end = None, msync_gap_detected_at = None, msync_gap_reason = None, msync_last_success_at = None,
            msync_lease_until = None, msync_row_version = 1, msync_created_at = now, msync_updated_at = now\<rparr>))))"

record gmail_identity =
  gid_account_id :: string
  gid_email :: string
  gid_access_token :: string
  gid_refresh_token :: "string option"

definition finish_gmail_oauth :: "env \<Rightarrow> gmail_config \<Rightarrow> uuid \<Rightarrow> oauth_session \<Rightarrow> gmail_identity \<Rightarrow> integration_connection act" where
  "finish_gmail_oauth E G tenant oauth q =
     bindE (ret (strip (gid_account_id q), folded (gid_email q))) (\<lambda>(account, email).
     bindE (require (account \<noteq> [] \<and> email \<noteq> [] \<and> gid_access_token q \<noteq> []) ValidationError) (\<lambda>_.
     bindE (require (configured (oauth_expected_account_id oauth) \<in> {None, Some account}) ConflictError) (\<lambda>_.
     bindE the_time (\<lambda>now.
     bindE (put_oauth (oauth_id oauth) (\<lambda>r. r\<lparr>oauth_consumed_at := Some now\<rparr>)) (\<lambda>_.
     bindE (account_connection tenant account email) (\<lambda>c.
     bindE (kept_refresh_token E G c (gid_refresh_token q)) (\<lambda>refresh.
     bindE (sealed_tokens E G (gid_access_token q) refresh) (\<lambda>sealed.
     bindE (put_connection (gconn_id c) (\<lambda>r. r\<lparr>gconn_account_email := email, gconn_status := CONNECTED,
        gconn_credential_ciphertext := Some sealed, gconn_credential_version := gconn_credential_version r + 1,
        gconn_last_error := None, gconn_row_version := gconn_row_version r + 1\<rparr>)) (\<lambda>_.
     bindE (gets (sync_of (gconn_id c))) (\<lambda>found_sync.
     bindE (resumed_sync tenant (gconn_id c)) (\<lambda>_.
     bindE (connection_now c) (\<lambda>connected.
     bindE (gmail_context connected) (\<lambda>ctx.
     bindE (schedule_gmail_sync ctx (gconn_id c) (found_sync = None \<or> gconn_committed_history_id c = None)) (\<lambda>_.
     connection_now c))))))))))))))"

definition complete_gmail_oauth ::
  "env \<Rightarrow> gmail_config \<Rightarrow> trusted_context \<Rightarrow> string \<Rightarrow> string \<Rightarrow> string \<Rightarrow> gmail_identity \<Rightarrow> integration_connection act" where
  "complete_gmail_oauth E G ctx state code verifier q =
     bindE (require (state \<noteq> [] \<and> code \<noteq> [] \<and> gid_account_id q \<noteq> [] \<and> gid_email q \<noteq> []) ValidationError) (\<lambda>_.
     bindE (load_oauth_session E state (Some (ctx_tenant_id ctx))) (\<lambda>oauth.
     bindE (some_or ValidationError (oauth_code_verifier_ciphertext oauth)) (\<lambda>sealed_verifier.
     bindE (unseal E G sealed_verifier) (\<lambda>kept_verifier.
     bindE (require (kept_verifier = verifier) ValidationError) (\<lambda>_.
     finish_gmail_oauth E G (ctx_tenant_id ctx) oauth q)))))"

section \<open>Requests to Google\<close>

definition exchange :: "gmail_config \<Rightarrow> http_request \<Rightarrow> http_outcome act" where
  "exchange G r = (\<lambda>s. (Inr (gm_http G (exchanges s) r), s\<lparr>exchanges := Suc (exchanges s)\<rparr>))"

text \<open>A JSON object of a successful answer, or the error \<open>e\<close>.\<close>

definition object_or :: "exn \<Rightarrow> http_outcome \<Rightarrow> exn + (string \<times> pyval) list" where
  "object_or e answer =
     (case answer of
        HttpRequestError \<Rightarrow> Inl e
      | HttpResponse status body \<Rightarrow>
          if 400 \<le> status then Inl e
          else (case Option.bind body as_dict of None \<Rightarrow> Inl e | Some d \<Rightarrow> Inr d))"

definition text_member :: "(string \<times> pyval) list \<Rightarrow> string \<Rightarrow> string" where
  "text_member d k = py_str (py_or (dict_get d k) (PStr []))"

definition google_setting :: "string \<Rightarrow> string act" where
  "google_setting v = (if strip v = [] then raise ConflictError else ret (strip v))"

definition google_token_exchange :: "gmail_config \<Rightarrow> string \<Rightarrow> string \<Rightarrow> string \<Rightarrow> (string \<times> string option) act" where
  "google_token_exchange G code verifier redirect =
     bindE (google_setting (gm_client_id G)) (\<lambda>client.
     bindE (google_setting (gm_client_secret G)) (\<lambda>secret.
     bindE (exchange G \<lparr>hr_method = ''POST'', hr_url = gm_token_url G, hr_token = [],
        hr_params = [(''code'', code), (''client_id'', client), (''client_secret'', secret), (''redirect_uri'', redirect),
          (''grant_type'', ''authorization_code''), (''code_verifier'', verifier)], hr_json = []\<rparr>) (\<lambda>answer.
     bindE (of_result (object_or ValidationError answer)) (\<lambda>body.
     bindE (require (text_member body ''access_token'' \<noteq> []) ValidationError) (\<lambda>_.
     ret (text_member body ''access_token'', or_none (text_member body ''refresh_token'')))))))"

definition google_identity :: "gmail_config \<Rightarrow> string \<Rightarrow> (string \<times> string) act" where
  "google_identity G access =
     bindE (exchange G \<lparr>hr_method = ''GET'', hr_url = gm_userinfo_url G, hr_token = access, hr_params = [], hr_json = []\<rparr>) (\<lambda>answer.
     bindE (of_result (object_or ValidationError answer)) (\<lambda>body.
     bindE (require (dict_get body ''email_verified'' \<noteq> PBool False) ValidationError) (\<lambda>_.
     bindE (ret (clean_str (dict_get body ''sub''), folded (text_member body ''email''))) (\<lambda>(account, email).
     bindE (require (account \<noteq> [] \<and> email \<noteq> []) ValidationError) (\<lambda>_.
     ret (account, email))))))"

definition complete_gmail_oauth_callback :: "env \<Rightarrow> gmail_config \<Rightarrow> string \<Rightarrow> string \<Rightarrow> integration_connection act" where
  "complete_gmail_oauth_callback E G state code =
     bindE (require (state \<noteq> [] \<and> code \<noteq> []) ValidationError) (\<lambda>_.
     bindE (load_oauth_session E state None) (\<lambda>oauth.
     bindE (some_or ValidationError (oauth_code_verifier_ciphertext oauth)) (\<lambda>sealed_verifier.
     bindE (unseal E G sealed_verifier) (\<lambda>verifier.
     bindE (google_token_exchange G code verifier (oauth_redirect_uri oauth)) (\<lambda>(access, refresh).
     bindE (google_identity G access) (\<lambda>(account, email).
     finish_gmail_oauth E G (oauth_tenant_id oauth) oauth
       \<lparr>gid_account_id = account, gid_email = email, gid_access_token = access, gid_refresh_token = refresh\<rparr>))))))"

text \<open>The stored tokens; a later member of a name wins.\<close>

definition credential_values :: "env \<Rightarrow> gmail_config \<Rightarrow> integration_connection \<Rightarrow> (string \<Rightarrow> string option) act" where
  "credential_values E G c =
     bindE (some_or ConflictError (configured (gconn_credential_ciphertext c))) (\<lambda>sealed.
     bindE (unseal E G sealed) (\<lambda>t.
     bindE (some_or ValidationError (json_strings t)) (\<lambda>d.
     bindE (require (configured (map_of (rev d) ''access_token'') \<noteq> None) ConflictError) (\<lambda>_.
     ret (map_of (rev d))))))"

definition token_of :: "(string \<Rightarrow> string option) \<Rightarrow> string \<Rightarrow> string" where
  "token_of credentials k = (case credentials k of Some t \<Rightarrow> t | None \<Rightarrow> [])"

definition mark_gmail_reauth :: "uuid \<Rightarrow> string \<Rightarrow> unit act" where
  "mark_gmail_reauth i reason = put_connection i (\<lambda>r. r\<lparr>gconn_status := CONN_REAUTH_REQUIRED,
     gconn_last_error := Some (take 500 reason), gconn_row_version := gconn_row_version r + 1\<rparr>)"

definition reauth_required :: "uuid \<Rightarrow> string \<Rightarrow> 'a act" where
  "reauth_required i reason = bindE (mark_gmail_reauth i reason) (\<lambda>_. raise ConflictError)"

text \<open>The body of a token answer: refused for good, throttled, or an object with a token.\<close>

definition refreshed_token :: "uuid \<Rightarrow> http_outcome \<Rightarrow> string act" where
  "refreshed_token i answer =
     (case answer of
        HttpRequestError \<Rightarrow> raise GmailProviderRetryable
      | HttpResponse status None \<Rightarrow> raise GmailProviderRetryable
      | HttpResponse status (Some body) \<Rightarrow>
          if status \<in> {400, 401, 403} then reauth_required i ''refresh_token_rejected''
          else if 400 \<le> status then raise GmailProviderRetryable
          else (case as_dict body of
              None \<Rightarrow> raise GmailProviderRetryable
            | Some d \<Rightarrow>
                bindE (require (text_member d ''access_token'' \<noteq> []) GmailProviderRetryable) (\<lambda>_. ret (text_member d ''access_token''))))"

definition refresh_gmail_access_token :: "env \<Rightarrow> gmail_config \<Rightarrow> trusted_context \<Rightarrow> uuid \<Rightarrow> integration_connection act" where
  "refresh_gmail_access_token E G ctx i =
     bindE (get_connection ctx i) (\<lambda>c.
     bindE (credential_values E G c) (\<lambda>credentials.
     bindE (if token_of credentials ''refresh_token'' = [] then reauth_required i ''refresh_token_missing'' else ret ()) (\<lambda>_.
     bindE (google_setting (gm_client_id G)) (\<lambda>client.
     bindE (google_setting (gm_client_secret G)) (\<lambda>secret.
     bindE (exchange G \<lparr>hr_method = ''POST'', hr_url = gm_token_url G, hr_token = [],
        hr_params = [(''client_id'', client), (''client_secret'', secret), (''refresh_token'', token_of credentials ''refresh_token''),
          (''grant_type'', ''refresh_token'')], hr_json = []\<rparr>) (\<lambda>answer.
     bindE (refreshed_token i answer) (\<lambda>access.
     bindE (sealed_tokens E G access (token_of credentials ''refresh_token'')) (\<lambda>sealed.
     bindE (put_connection i (\<lambda>r. r\<lparr>gconn_credential_ciphertext := Some sealed,
        gconn_credential_version := gconn_credential_version r + 1, gconn_last_error := None,
        gconn_row_version := gconn_row_version r + 1\<rparr>)) (\<lambda>_.
     connection_now c)))))))))"

definition gmail_api_url :: "gmail_config \<Rightarrow> string \<Rightarrow> string" where
  "gmail_api_url G path = rstrip_of (CHR ''/'') (gm_api_base_url G) @ ''/'' @ dropWhile (\<lambda>c. c = CHR ''/'') path"

definition gmail_request ::
  "gmail_config \<Rightarrow> string \<Rightarrow> string \<Rightarrow> string \<Rightarrow> (string \<times> string) list \<Rightarrow> (string \<times> pyval) list \<Rightarrow> (nat \<times> pyval option) act" where
  "gmail_request G method path access params body =
     bindE (exchange G \<lparr>hr_method = method, hr_url = gmail_api_url G path, hr_token = access, hr_params = params, hr_json = body\<rparr>) (\<lambda>answer.
     (case answer of HttpRequestError \<Rightarrow> raise GmailProviderRetryable | HttpResponse status found \<Rightarrow> ret (status, found)))"

definition connection_for_provider :: "trusted_context \<Rightarrow> uuid \<Rightarrow> integration_connection act" where
  "connection_for_provider ctx i =
     bindE (get_connection ctx i) (\<lambda>c.
     bindE (require (gconn_provider c = ''gmail'') NotFoundError) (\<lambda>_.
     bindE (require (gconn_status c = CONNECTED) ConflictError) (\<lambda>_.
     ret c)))"

definition provider_response :: "string \<Rightarrow> nat \<times> pyval option \<Rightarrow> exn + (string \<times> pyval) list" where
  "provider_response operation answer =
     (case answer of
        (status, None) \<Rightarrow> Inl GmailProviderRetryable
      | (status, Some body) \<Rightarrow>
          if status = 404 \<and> operation = ''history'' then Inl GmailHistoryGap
          else if status = 429 \<or> 500 \<le> status then Inl GmailProviderRetryable
          else if 400 \<le> status then Inl ConflictError
          else (case as_dict body of None \<Rightarrow> Inl ConflictError | Some d \<Rightarrow> Inr d))"

text \<open>A request with the stored access token, repeated once with a refreshed one after a 401.\<close>

definition authorized_request ::
  "env \<Rightarrow> gmail_config \<Rightarrow> trusted_context \<Rightarrow> integration_connection \<Rightarrow> string \<Rightarrow> string \<Rightarrow> (string \<times> string) list \<Rightarrow>
   (string \<times> pyval) list \<Rightarrow> (string \<times> (nat \<times> pyval option)) act" where
  "authorized_request E G ctx c method path params body =
     bindE (credential_values E G c) (\<lambda>credentials.
     bindE (gmail_request G method path (token_of credentials ''access_token'') params body) (\<lambda>answer.
     if fst answer \<noteq> 401 then ret (token_of credentials ''access_token'', answer)
     else
       bindE (refresh_gmail_access_token E G ctx (gconn_id c)) (\<lambda>refreshed.
       bindE (credential_values E G refreshed) (\<lambda>renewed.
       bindE (gmail_request G method path (token_of renewed ''access_token'') params body) (\<lambda>second.
       ret (token_of renewed ''access_token'', second))))))"

end
