(* ===== verification/Mailbox.thy ===== *)
theory Mailbox
  imports Gmail
begin

text \<open>
  The mailbox (\<open>services/integrations/gmail.py\<close>): messages and their routing, history pages, gaps and
  backfills, the watch, push notifications, disconnection, maintenance, and the sending of an offer.
\<close>

section \<open>Messages\<close>

record gmail_message =
  nm_message_id :: string
  nm_thread_id :: string
  nm_source_version :: string
  nm_sender :: "string option"
  nm_occurred_at :: time
  nm_content_ref :: string
  nm_labels :: "string list"
  nm_subject :: "string option"
  nm_snippet :: string

text \<open>Iteration over a value, and \<open>int(v)\<close>; floats are truncated.\<close>

fun py_iter :: "pyval \<Rightarrow> pyval list option" where
  "py_iter (PList xs) = Some xs"
| "py_iter (PTuple xs) = Some xs"
| "py_iter (PStr t) = Some (map (\<lambda>c. PStr [c]) t)"
| "py_iter (PDict d) = Some (map (PStr \<circ> fst) d)"
| "py_iter _ = None"

fun to_int :: "pyval \<Rightarrow> int option" where
  "to_int (PInt n) = Some n"
| "to_int (PBool b) = Some (if b then 1 else 0)"
| "to_int (PFloat q _) = Some (if 0 \<le> q then \<lfloor>q\<rfloor> else \<lceil>q\<rceil>)"
| "to_int (PStr t) = int_of_text t"
| "to_int _ = None"

text \<open>\<open>datetime.fromtimestamp(n / 1000)\<close> for milliseconds \<open>n\<close>.\<close>

definition time_of_millis :: "int \<Rightarrow> time option" where
  "time_of_millis n = (if representable (n * 1000) then Some (n * 1000) else None)"

definition message_labels :: "(string \<times> pyval) list \<Rightarrow> exn + string list" where
  "message_labels d =
     (case py_iter (dict_get_default d ''labelIds'' (PList [])) of
        None \<Rightarrow> Inl (OtherError ''TypeError'')
      | Some vs \<Rightarrow> Inr (sort (remdups (map (upper \<circ> py_str) vs))))"

text \<open>The headers by lower-case name; the last one of a name counts.\<close>

definition message_headers :: "(string \<times> pyval) list \<Rightarrow> exn + (string \<Rightarrow> string option)" where
  "message_headers d =
     (case py_iter (dict_get_default d ''headers'' (PList [])) of
        None \<Rightarrow> Inl (OtherError ''TypeError'')
      | Some vs \<Rightarrow> Inr (map_of (rev (concat (map (\<lambda>v. case as_dict v of None \<Rightarrow> []
          | Some h \<Rightarrow> [(lower (py_str (dict_get_default h ''name'' (PStr []))), py_str (dict_get_default h ''value'' (PStr [])))]) vs)))))"

definition occurred_time :: "time \<Rightarrow> pyval \<Rightarrow> exn + time" where
  "occurred_time now v =
     (if \<not> truthy v then Inr now
      else (case Option.bind (to_int v) time_of_millis of None \<Rightarrow> Inl ValidationError | Some t \<Rightarrow> Inr t))"

definition snippet_of :: "(string \<times> pyval) list \<Rightarrow> string" where
  "snippet_of d = take 2000 (join '' '' (words_of [] (text_member d ''snippet'')))"

text \<open>Drafts, sent mail and automatic replies are no client messages.\<close>

definition ignored_message :: "string list \<Rightarrow> (string \<Rightarrow> string option) \<Rightarrow> bool" where
  "ignored_message labels headers \<longleftrightarrow> ''DRAFT'' \<in> set labels \<or> ''SENT'' \<in> set labels \<or>
     lower (case headers ''auto-submitted'' of Some v \<Rightarrow> v | None \<Rightarrow> []) \<notin> {[], ''no''}"

definition normalize_gmail_message :: "time \<Rightarrow> (string \<times> pyval) list \<Rightarrow> exn + gmail_message option" where
  "normalize_gmail_message now d =
     (let i = strip (py_str (dict_get_default d ''id'' (PStr []))); thread = strip (py_str (dict_get_default d ''threadId'' (PStr []))) in
      if i = [] \<or> thread = [] then Inl ValidationError else
      (case (message_labels d, message_headers d) of
         (Inl e, _) \<Rightarrow> Inl e
       | (_, Inl e) \<Rightarrow> Inl e
       | (Inr labels, Inr headers) \<Rightarrow>
           if ignored_message labels headers then Inr None else
           (case occurred_time now (dict_get d ''internalDate'') of
              Inl e \<Rightarrow> Inl e
            | Inr t \<Rightarrow> Inr (Some \<lparr>nm_message_id = i, nm_thread_id = thread,
                nm_source_version = py_str (py_or (dict_get d ''historyId'') (py_or (dict_get d ''etag'') (PStr ''unknown''))),
                nm_sender = headers ''from'', nm_occurred_at = t,
                nm_content_ref = py_str (py_or (dict_get d ''contentRef'') (PStr (''gmail://messages/'' @ i))),
                nm_labels = labels, nm_subject = configured (headers ''subject''), nm_snippet = snippet_of d\<rparr>))))"

section \<open>Pages of the history\<close>

definition blank_lines :: string where "blank_lines = [CHR 0x0A, CHR 0x0A]"

definition message_summary :: "gmail_message \<Rightarrow> string" where
  "message_summary m =
     (case take 4000 (join blank_lines (filter (\<lambda>t. t \<noteq> []) ((case nm_subject m of None \<Rightarrow> [] | Some t \<Rightarrow> [t]) @ [nm_snippet m]))) of
        [] \<Rightarrow> ''Gmail message '' @ nm_message_id m
      | t \<Rightarrow> t)"

definition message_source :: "gmail_message \<Rightarrow> event_source" where
  "message_source m = \<lparr>es_resource_type = ''message'', es_resource_id = nm_message_id m, es_source_version = nm_source_version m,
     es_content_ref = nm_content_ref m, es_occurred_at = nm_occurred_at m, es_explicit_project_id = None, es_alias = None,
     es_sender = nm_sender m, es_thread_id = Some (nm_thread_id m), es_request_summary = Some (message_summary m)\<rparr>"

definition message_digest :: "env \<Rightarrow> (string \<times> pyval) list \<Rightarrow> string" where
  "message_digest E raw = sha256 E (py_str (PDict raw))"

definition process_message ::
  "env \<Rightarrow> gmail_config \<Rightarrow> trusted_context \<Rightarrow> uuid \<Rightarrow> sync_mode \<Rightarrow> (string \<times> pyval) list \<Rightarrow> unit act" where
  "process_message E G ctx connection mode raw =
     bindE the_time (\<lambda>now.
     bindE (of_result (normalize_gmail_message now raw)) (\<lambda>found.
     (case found of
        None \<Rightarrow> ret ()
      | Some m \<Rightarrow>
          bindE (ingest_external_event ctx ''gmail'' (gm_environment G) (nm_message_id m) (message_digest E raw) (nm_occurred_at m)
             (Some connection)) (\<lambda>event.
          bindE (route_external_event ctx (xev_id event) (message_source m)) (\<lambda>result.
          (case result of
             Communication c \<Rightarrow>
               perhaps (mode = INCREMENTAL) (bindE (create_request_from_communication ctx c (message_summary m)) (\<lambda>_. ret ()))
           | Routing _ \<Rightarrow> ret ()))))))"

definition history_newer :: "string \<Rightarrow> string option \<Rightarrow> bool" where
  "history_newer candidate current =
     (case current of
        None \<Rightarrow> True
      | Some h \<Rightarrow> (case (int_of_text candidate, int_of_text h) of (Some a, Some b) \<Rightarrow> b < a | _ \<Rightarrow> candidate \<noteq> h))"

text \<open>The history cursor moves forward only, in the connection and in its checkpoint.\<close>

definition advance_cursor :: "integration_connection \<Rightarrow> mailbox_sync \<Rightarrow> string option \<Rightarrow> unit act" where
  "advance_cursor c m next_id =
     (case next_id of
        None \<Rightarrow> ret ()
      | Some h \<Rightarrow> perhaps (history_newer h (gconn_committed_history_id c))
          (bindE (put_connection (gconn_id c) (\<lambda>r. r\<lparr>gconn_committed_history_id := Some h\<rparr>)) (\<lambda>_.
           put_sync (msync_id m) (\<lambda>r. r\<lparr>msync_committed_history_id := Some h\<rparr>))))"

definition process_history_page ::
  "env \<Rightarrow> gmail_config \<Rightarrow> trusted_context \<Rightarrow> uuid \<Rightarrow> string option \<Rightarrow> ((string \<times> pyval) list) list \<Rightarrow> sync_mode \<Rightarrow> time option \<Rightarrow>
   mailbox_sync act" where
  "process_history_page E G ctx i next_id messages mode now =
     bindE (gets (own_connection ctx i)) (\<lambda>found.
     bindE (some_or ConflictError found) (\<lambda>c.
     bindE (require (gconn_status c = CONNECTED) ConflictError) (\<lambda>_.
     bindE (require (length messages \<le> MAX_HISTORY_PAGE) ValidationError) (\<lambda>_.
     bindE (gets (sync_of (gconn_id c))) (\<lambda>found_sync.
     bindE (some_or ConflictError found_sync) (\<lambda>m.
     bindE (put_sync (msync_id m) (\<lambda>r. r\<lparr>msync_status := SYNC_RUNNING\<rparr>)) (\<lambda>_.
     bindE (mapE (process_message E G ctx (gconn_id c) mode) messages) (\<lambda>_.
     bindE (time_or_now now) (\<lambda>current.
     bindE (advance_cursor c m next_id) (\<lambda>_.
     bindE (put_sync (msync_id m) (\<lambda>r. r\<lparr>msync_status := SYNC_IDLE, msync_mode := mode, msync_last_success_at := Some current,
        msync_row_version := msync_row_version r + 1\<rparr>)) (\<lambda>_.
     bindE (put_connection (gconn_id c) (\<lambda>r. r\<lparr>gconn_last_success_at := Some current, gconn_last_error := None,
        gconn_row_version := gconn_row_version r + 1\<rparr>)) (\<lambda>_.
     sync_now m))))))))))))"

definition mark_history_gap :: "trusted_context \<Rightarrow> uuid \<Rightarrow> string \<Rightarrow> time option \<Rightarrow> mailbox_sync act" where
  "mark_history_gap ctx i reason now =
     bindE (gets (own_connection ctx i)) (\<lambda>found.
     bindE (gets (\<lambda>s. find (\<lambda>m. msync_connection_id m = i \<and> msync_tenant_id m = ctx_tenant_id ctx) (mailbox_syncs s))) (\<lambda>found_sync.
     bindE (some_or NotFoundError found) (\<lambda>c.
     bindE (some_or NotFoundError found_sync) (\<lambda>m.
     bindE (time_or_now now) (\<lambda>current.
     bindE (put_sync (msync_id m) (\<lambda>r. r\<lparr>msync_status := GAP_DETECTED, msync_gap_detected_at := Some current,
        msync_gap_reason := Some (take 500 reason), msync_row_version := msync_row_version r + 1\<rparr>)) (\<lambda>_.
     bindE (put_connection (gconn_id c) (\<lambda>r. r\<lparr>gconn_status := CONN_PAUSED, gconn_last_error := Some (take 500 reason),
        gconn_row_version := gconn_row_version r + 1\<rparr>)) (\<lambda>_.
     bindE (gmail_job ctx (gconn_id c) ''gmail.initial_backfill'' [(''reason'', PStr reason)]) (\<lambda>_.
     sync_now m))))))))"

definition renew_gmail_watch :: "trusted_context \<Rightarrow> uuid \<Rightarrow> string \<Rightarrow> time \<Rightarrow> integration_connection act" where
  "renew_gmail_watch ctx i watch expires_at =
     bindE (gets (own_connection ctx i)) (\<lambda>found.
     bindE (some_or ConflictError found) (\<lambda>c.
     bindE (require (gconn_status c = CONNECTED) ConflictError) (\<lambda>_.
     bindE the_time (\<lambda>now.
     bindE (require (now < expires_at) ValidationError) (\<lambda>_.
     bindE (put_connection i (\<lambda>r. r\<lparr>gconn_watch_id := Some watch, gconn_watch_expiry := Some expires_at,
        gconn_row_version := gconn_row_version r + 1\<rparr>)) (\<lambda>_.
     connection_now c))))))"

section \<open>Reading pages from Gmail\<close>

record history_page =
  hp_messages :: "((string \<times> pyval) list) list"
  hp_history_id :: "string option"
  hp_next_page_token :: "string option"

definition fetch_message_metadata :: "gmail_config \<Rightarrow> string \<Rightarrow> string \<Rightarrow> string \<Rightarrow> ((string \<times> pyval) list) act" where
  "fetch_message_metadata G access history_id i =
     bindE (gmail_request G ''GET'' (''users/me/messages/'' @ i) access [(''format'', ''full'')] []) (\<lambda>answer.
     bindE (of_result (provider_response ''message'' answer)) (\<lambda>body.
     bindE (ret (dict_set body ''historyId'' (PStr (py_str (py_or (dict_get body ''historyId'') (PStr history_id)))))) (\<lambda>detail.
     ret (case (map_of detail ''headers'', as_dict (dict_get detail ''payload'')) of
            (None, Some payload) \<Rightarrow> dict_set detail ''headers'' (dict_get_default payload ''headers'' (PList []))
          | _ \<Rightarrow> detail))))"

text \<open>The ids of the messages a history adds, each once, in order; a value that cannot be iterated raises.\<close>

definition message_refs :: "pyval \<Rightarrow> (exn + string) list" where
  "message_refs v =
     (case as_dict v of
        None \<Rightarrow> []
      | Some d \<Rightarrow> (case as_dict (dict_get d ''message'') of
            None \<Rightarrow> []
          | Some m \<Rightarrow> (case text_member m ''id'' of [] \<Rightarrow> [] | i \<Rightarrow> [Inr i])))"

definition iterated :: "(pyval \<Rightarrow> (exn + 'a) list) \<Rightarrow> pyval \<Rightarrow> (exn + 'a) list" where
  "iterated f v = (case py_iter v of None \<Rightarrow> [Inl (OtherError ''TypeError'')] | Some vs \<Rightarrow> concat (map f vs))"

definition history_refs :: "(string \<times> pyval) list \<Rightarrow> (exn + string) list" where
  "history_refs body =
     iterated (\<lambda>h. case as_dict h of None \<Rightarrow> []
       | Some d \<Rightarrow> iterated message_refs (dict_get_default d ''messagesAdded'' (PList []))) (dict_get_default body ''history'' (PList []))"

fun first_seen :: "'a list \<Rightarrow> (exn + 'a) list \<Rightarrow> (exn + 'a) list" where
  "first_seen seen [] = []"
| "first_seen seen (Inl e # rs) = [Inl e]"
| "first_seen seen (Inr x # rs) = (if x \<in> set seen then first_seen seen rs else Inr x # first_seen (x # seen) rs)"

definition fetch_refs :: "gmail_config \<Rightarrow> string \<Rightarrow> string \<Rightarrow> (exn + string) list \<Rightarrow> (((string \<times> pyval) list) list) act" where
  "fetch_refs G access history_id refs =
     mapE (\<lambda>r. bindE (of_result r) (fetch_message_metadata G access history_id)) refs"

definition page_token :: "(string \<times> pyval) list \<Rightarrow> string option" where
  "page_token body = (if truthy (dict_get body ''nextPageToken'') then Some (py_str (dict_get body ''nextPageToken'')) else None)"

definition page_params :: "string option \<Rightarrow> (string \<times> string) list" where
  "page_params token = (case configured token of None \<Rightarrow> [] | Some t \<Rightarrow> [(''pageToken'', t)])"

definition fetch_gmail_history_page ::
  "env \<Rightarrow> gmail_config \<Rightarrow> trusted_context \<Rightarrow> uuid \<Rightarrow> string \<Rightarrow> string option \<Rightarrow> history_page act" where
  "fetch_gmail_history_page E G ctx i history_id token =
     bindE (connection_for_provider ctx i) (\<lambda>c.
     bindE (authorized_request E G ctx c ''GET'' ''users/me/history''
        ([(''startHistoryId'', history_id), (''historyTypes'', ''messageAdded''), (''maxResults'', nat_str MAX_HISTORY_PAGE)] @
         page_params token) []) (\<lambda>(access, answer).
     bindE (of_result (provider_response ''history'' answer)) (\<lambda>body.
     bindE (ret (py_str (py_or (dict_get body ''historyId'') (PStr history_id)))) (\<lambda>newest.
     bindE (fetch_refs G access newest (first_seen [] (history_refs body))) (\<lambda>messages.
     ret \<lparr>hp_messages = messages, hp_history_id = Some newest, hp_next_page_token = page_token body\<rparr>)))))"

definition sync_gmail_history_page ::
  "env \<Rightarrow> gmail_config \<Rightarrow> trusted_context \<Rightarrow> uuid \<Rightarrow> string \<Rightarrow> string option \<Rightarrow> time option \<Rightarrow> history_page act" where
  "sync_gmail_history_page E G ctx i history_id token now =
     bindE (catchE (fetch_gmail_history_page E G ctx i history_id token)
        (\<lambda>e. if e = GmailHistoryGap then bindE (mark_history_gap ctx i ''gmail_history_404'' now) (\<lambda>_. raise e) else raise e)) (\<lambda>page.
     bindE (process_history_page E G ctx i (if hp_next_page_token page = None then hp_history_id page else None)
        (hp_messages page) INCREMENTAL now) (\<lambda>_.
     ret page))"

section \<open>The watch\<close>

definition watch_body :: "string \<Rightarrow> (string \<times> pyval) list" where
  "watch_body topic = [(''topicName'', PStr topic), (''labelIds'', PList [PStr ''INBOX'']), (''labelFilterBehavior'', PStr ''INCLUDE'')]"

definition start_gmail_watch :: "env \<Rightarrow> gmail_config \<Rightarrow> trusted_context \<Rightarrow> uuid \<Rightarrow> integration_connection act" where
  "start_gmail_watch E G ctx i =
     bindE (connection_for_provider ctx i) (\<lambda>c.
     bindE (google_setting (gm_topic G)) (\<lambda>topic.
     bindE (authorized_request E G ctx c ''POST'' ''users/me/watch'' [] (watch_body topic)) (\<lambda>(access, answer).
     bindE (of_result (provider_response ''watch'' answer)) (\<lambda>body.
     bindE (ret (text_member body ''historyId'', text_member body ''expiration'')) (\<lambda>(history_id, expiration).
     bindE (require (history_id \<noteq> [] \<and> expiration \<noteq> []) GmailProviderRetryable) (\<lambda>_.
     bindE (some_or GmailProviderRetryable (Option.bind (int_of_text expiration) time_of_millis)) (\<lambda>expires_at.
     bindE (perhaps (gconn_committed_history_id c = None)
        (put_connection i (\<lambda>r. r\<lparr>gconn_committed_history_id := Some history_id\<rparr>))) (\<lambda>_.
     renew_gmail_watch ctx i
       (py_str (py_or (dict_get body ''watchId'')
          (PStr (take 64 (sha256 E (uuid_str i @ '':'' @ history_id @ '':'' @ expiration)))))) expires_at))))))))"

definition clear_watch :: "uuid \<Rightarrow> unit act" where
  "clear_watch i = put_connection i (\<lambda>r. r\<lparr>gconn_watch_id := None, gconn_watch_expiry := None, gconn_credential_ciphertext := None,
     gconn_credential_version := gconn_credential_version r + 1, gconn_row_version := gconn_row_version r + 1\<rparr>)"

definition stop_gmail_watch :: "env \<Rightarrow> gmail_config \<Rightarrow> trusted_context \<Rightarrow> uuid \<Rightarrow> integration_connection act" where
  "stop_gmail_watch E G ctx i =
     bindE (get_connection ctx i) (\<lambda>c.
     bindE (require (gconn_provider c = ''gmail'') NotFoundError) (\<lambda>_.
     bindE (require (gconn_status c \<in> {CONNECTED, DISCONNECTED}) ConflictError) (\<lambda>_.
     bindE (if configured (gconn_watch_id c) = None \<or> configured (gconn_credential_ciphertext c) = None then ret ()
        else
          bindE (credential_values E G c) (\<lambda>credentials.
          bindE (gmail_request G ''POST'' ''users/me/stop'' (token_of credentials ''access_token'') [] []) (\<lambda>answer.
          if fst answer \<in> {200, 204, 404, 401, 403} then ret ()
          else bindE (of_result (provider_response ''watch_stop'' answer)) (\<lambda>_. ret ())))) (\<lambda>_.
     bindE (clear_watch i) (\<lambda>_.
     connection_now c)))))"

section \<open>Backfill\<close>

definition strftime_date :: "time \<Rightarrow> string" where
  "strftime_date t = (case civil (t div 86400000000) of (y, m, d) \<Rightarrow> padded 4 y @ ''/'' @ padded 2 (int m) @ ''/'' @ padded 2 d)"

definition listed_refs :: "(string \<times> pyval) list \<Rightarrow> (exn + string) list" where
  "listed_refs body =
     iterated (\<lambda>v. case as_dict v of None \<Rightarrow> [] | Some m \<Rightarrow> (case text_member m ''id'' of [] \<Rightarrow> [] | i \<Rightarrow> [Inr i]))
       (dict_get_default body ''messages'' (PList []))"

definition fetch_gmail_backfill_page ::
  "env \<Rightarrow> gmail_config \<Rightarrow> trusted_context \<Rightarrow> uuid \<Rightarrow> string option \<Rightarrow> history_page act" where
  "fetch_gmail_backfill_page E G ctx i token =
     bindE (connection_for_provider ctx i) (\<lambda>c.
     bindE (gets (sync_of (gconn_id c))) (\<lambda>found_sync.
     bindE (some_or ConflictError (Option.bind found_sync msync_coverage_start)) (\<lambda>start.
     bindE (authorized_request E G ctx c ''GET'' ''users/me/messages''
        ([(''q'', ''after:'' @ strftime_date start), (''maxResults'', nat_str MAX_HISTORY_PAGE), (''includeSpamTrash'', ''false'')] @
         page_params token) []) (\<lambda>(access, answer).
     bindE (of_result (provider_response ''backfill'' answer)) (\<lambda>body.
     bindE (fetch_refs G access (case configured (gconn_committed_history_id c) of Some h \<Rightarrow> h | None \<Rightarrow> ''0'') (listed_refs body)) (\<lambda>messages.
     ret \<lparr>hp_messages = messages, hp_history_id = gconn_committed_history_id c, hp_next_page_token = page_token body\<rparr>))))))"

text \<open>A connection paused by a gap is connected again for its backfill.\<close>

definition resume_after_gap :: "integration_connection \<Rightarrow> mailbox_sync option \<Rightarrow> unit act" where
  "resume_after_gap c found_sync =
     perhaps (gconn_status c = CONN_PAUSED \<and> map_option msync_status found_sync = Some GAP_DETECTED)
       (put_connection (gconn_id c) (\<lambda>r. r\<lparr>gconn_status := CONNECTED, gconn_last_error := None,
          gconn_row_version := gconn_row_version r + 1\<rparr>))"

definition finish_backfill_page :: "trusted_context \<Rightarrow> integration_connection \<Rightarrow> string option \<Rightarrow> unit act" where
  "finish_backfill_page ctx c token =
     (case configured token of
        Some t \<Rightarrow> bindE (gmail_job ctx (gconn_id c) ''gmail.initial_backfill'' [(''page_token'', PStr t)]) (\<lambda>_. ret ())
      | None \<Rightarrow>
          bindE (gets (sync_of (gconn_id c))) (\<lambda>found_sync.
          (case found_sync of
             None \<Rightarrow> ret ()
           | Some m \<Rightarrow> put_sync (msync_id m) (\<lambda>r. r\<lparr>msync_mode := INCREMENTAL, msync_status := SYNC_IDLE,
               msync_row_version := msync_row_version r + 1\<rparr>))))"

definition run_gmail_initial_backfill_page ::
  "env \<Rightarrow> gmail_config \<Rightarrow> trusted_context \<Rightarrow> uuid \<Rightarrow> string option \<Rightarrow> time option \<Rightarrow> history_page act" where
  "run_gmail_initial_backfill_page E G ctx i token now =
     bindE (gets (sync_of i)) (\<lambda>found_sync.
     bindE (get_connection ctx i) (\<lambda>c.
     bindE (require (gconn_provider c = ''gmail'') NotFoundError) (\<lambda>_.
     bindE (resume_after_gap c found_sync) (\<lambda>_.
     bindE (connection_now c) (\<lambda>resumed.
     bindE (require (gconn_status resumed = CONNECTED) ConflictError) (\<lambda>_.
     bindE (if configured token = None \<and> configured (gconn_watch_id resumed) = None
        then bindE (start_gmail_watch E G ctx i) (\<lambda>_. ret ()) else ret ()) (\<lambda>_.
     bindE (fetch_gmail_backfill_page E G ctx i token) (\<lambda>page.
     bindE (process_history_page E G ctx i None (hp_messages page) INITIAL_BACKFILL now) (\<lambda>_.
     bindE (finish_backfill_page ctx c (hp_next_page_token page)) (\<lambda>_.
     ret page))))))))))"


section \<open>Push notifications\<close>

text \<open>The secret of the signature; in development the encryption key stands in.\<close>

definition push_secret :: "gmail_config \<Rightarrow> string" where
  "push_secret G =
     (if gm_push_secret G \<noteq> [] then gm_push_secret G else if gm_environment G = ''development'' then gm_encryption_key G else [])"

definition push_verified :: "gmail_config \<Rightarrow> string \<Rightarrow> string \<Rightarrow> string \<Rightarrow> bool" where
  "push_verified G account watch token \<longleftrightarrow>
     push_secret G \<noteq> [] \<and> gm_hmac G (push_secret G) (account @ '':'' @ watch) = token"

definition history_job :: "integration_connection \<Rightarrow> external_event \<Rightarrow> string \<Rightarrow> unit act" where
  "history_job c event history_id =
     bindE (enqueue_now (gconn_tenant_id c) ''gmail.history_sync'' [(''connection_id'', PStr (uuid_str (gconn_id c))),
        (''history_id'', PStr history_id), (''external_event_id'', PStr (uuid_str (xev_id event)))]
        (xev_correlation_id event) None None) (\<lambda>_. ret ())"

definition accept_gmail_push ::
  "gmail_config \<Rightarrow> string \<Rightarrow> string \<Rightarrow> string \<Rightarrow> string \<Rightarrow> string \<Rightarrow> time \<Rightarrow> string \<Rightarrow> external_event act" where
  "accept_gmail_push G account watch history_id delivery payload_hash occurred_at token =
     bindE (require (list_all (\<lambda>v. v \<noteq> [] \<and> length v \<le> MAX_PUSH_ID_LENGTH) [account, watch, history_id, delivery]) ValidationError) (\<lambda>_.
     bindE (require (push_verified G account watch token) ValidationError) (\<lambda>_.
     bindE (gets (\<lambda>s. find (\<lambda>c. gconn_provider c = ''gmail'' \<and> gconn_provider_account_id c = account \<and>
        gconn_watch_id c = Some watch \<and> gconn_status c = CONNECTED) (integration_connections s))) (\<lambda>found.
     bindE (some_or NotFoundError found) (\<lambda>c.
     bindE (gmail_context c) (\<lambda>ctx.
     bindE (ingest_external_event ctx ''gmail'' (gm_environment G) delivery payload_hash occurred_at (Some (gconn_id c))) (\<lambda>event.
     bindE (history_job c event history_id) (\<lambda>_.
     ret event)))))))"

definition accept_gmail_pubsub_push ::
  "gmail_config \<Rightarrow> string \<Rightarrow> string \<Rightarrow> string \<Rightarrow> string \<Rightarrow> time \<Rightarrow> string option \<Rightarrow> external_event act" where
  "accept_gmail_pubsub_push G account_email history_id delivery payload_hash occurred_at topic =
     bindE (ret (folded account_email)) (\<lambda>email.
     bindE (require (list_all (\<lambda>v. v \<noteq> [] \<and> length v \<le> MAX_PUSH_ID_LENGTH) [email, history_id, delivery, payload_hash]) ValidationError) (\<lambda>_.
     bindE (require (length payload_hash = 64 \<and> list_all (\<lambda>c. c \<in> set ''0123456789abcdef'') payload_hash) ValidationError) (\<lambda>_.
     bindE (require (strip (gm_topic G) = [] \<or> topic = Some (strip (gm_topic G))) ValidationError) (\<lambda>_.
     bindE (gets (\<lambda>s. find (\<lambda>c. gconn_provider c = ''gmail'' \<and> gconn_account_email c = email \<and> gconn_status c = CONNECTED)
        (integration_connections s))) (\<lambda>found.
     bindE (some_or NotFoundError found) (\<lambda>c.
     bindE (gmail_context c) (\<lambda>ctx.
     bindE (ingest_external_event ctx ''gmail'' (gm_environment G) delivery payload_hash occurred_at (Some (gconn_id c))) (\<lambda>event.
     bindE (history_job c event (case configured (gconn_committed_history_id c) of Some h \<Rightarrow> h | None \<Rightarrow> history_id)) (\<lambda>_.
     ret event)))))))))"

section \<open>Disconnection and health\<close>

definition names_connection :: "uuid \<Rightarrow> job \<Rightarrow> bool" where
  "names_connection connection j \<longleftrightarrow> text_member (job_payload_ref j) ''connection_id'' = uuid_str connection"

definition waiting_gmail_job :: "uuid \<Rightarrow> job \<Rightarrow> bool" where
  "waiting_gmail_job tenant j \<longleftrightarrow> job_tenant_id j = tenant \<and> starts_with ''gmail.'' (job_kind j) \<and>
     (job_state j = QUEUED \<or> job_state j = JOB_RETRY_WAIT)"

text \<open>The waiting synchronisation jobs of a connection are cancelled, and returned as they were found.\<close>

definition cancel_gmail_jobs :: "uuid \<Rightarrow> uuid \<Rightarrow> job list act" where
  "cancel_gmail_jobs tenant connection =
     bindE (gets (\<lambda>s. filter (waiting_gmail_job tenant) (jobs s))) (\<lambda>waiting.
     bindE (mapE (\<lambda>j. put_job (job_id j) (\<lambda>r. r\<lparr>job_state := JOB_CANCELLED, job_last_error := Some ''gmail_connection_disconnected''\<rparr>))
        (filter (names_connection connection) waiting)) (\<lambda>_.
     gets (\<lambda>s. filter (\<lambda>j. job_id j \<in> job_id ` set waiting) (jobs s))))"

definition bound_project_ids :: "uuid \<Rightarrow> uuid \<Rightarrow> db \<Rightarrow> uuid set" where
  "bound_project_ids tenant connection s =
     ibind_project_id ` set (filter (\<lambda>b. ibind_connection_id b = Some connection \<and> ibind_tenant_id b = tenant) (integration_bindings s))"

definition undispatched_sends :: "uuid \<Rightarrow> db \<Rightarrow> external_action list" where
  "undispatched_sends tenant s = filter (\<lambda>a. act_tenant_id a = tenant \<and> act_provider a = ''gmail'' \<and>
     (act_state a = READY \<or> act_state a = RETRY_WAIT)) (external_actions s)"

definition cancel_sends :: "uuid \<Rightarrow> uuid \<Rightarrow> unit act" where
  "cancel_sends tenant connection =
     bindE (gets (bound_project_ids tenant connection)) (\<lambda>bound.
     bindE (gets (undispatched_sends tenant)) (\<lambda>actions.
     bindE (mapE (\<lambda>a. cancel_action (act_id a))
        (filter (\<lambda>a. case act_project_id a of None \<Rightarrow> False | Some p \<Rightarrow> p \<in> bound) actions)) (\<lambda>_.
     ret ())))"

definition stop_job_queued :: "uuid \<Rightarrow> job \<Rightarrow> bool" where
  "stop_job_queued connection j \<longleftrightarrow> job_kind j = ''gmail.watch_stop'' \<and>
     job_state j \<in> {QUEUED, RUNNING, JOB_RETRY_WAIT} \<and> names_connection connection j"

definition disconnect_gmail :: "trusted_context \<Rightarrow> uuid \<Rightarrow> integration_connection act" where
  "disconnect_gmail ctx i =
     bindE (get_connection ctx i) (\<lambda>c.
     bindE (ret (configured (gconn_watch_id c) \<noteq> None \<and> configured (gconn_credential_ciphertext c) \<noteq> None)) (\<lambda>watched.
     bindE (put_connection i (\<lambda>r. (if watched then r else r\<lparr>gconn_credential_ciphertext := None,
        gconn_credential_version := gconn_credential_version r + 1\<rparr>)\<lparr>gconn_status := DISCONNECTED,
        gconn_row_version := gconn_row_version r + 1\<rparr>)) (\<lambda>_.
     bindE (gets (sync_of i)) (\<lambda>found_sync.
     bindE (case found_sync of
        None \<Rightarrow> ret ()
      | Some m \<Rightarrow> put_sync (msync_id m) (\<lambda>r. r\<lparr>msync_status := SYNC_PAUSED, msync_row_version := msync_row_version r + 1\<rparr>)) (\<lambda>_.
     bindE (cancel_sends (ctx_tenant_id ctx) i) (\<lambda>_.
     bindE (cancel_gmail_jobs (ctx_tenant_id ctx) i) (\<lambda>waiting.
     bindE (perhaps (watched \<and> \<not> list_ex (stop_job_queued i) waiting)
        (bindE (gmail_job ctx i ''gmail.watch_stop'' []) (\<lambda>_. ret ()))) (\<lambda>_.
     connection_now c))))))))"

record gmail_health =
  gh_connection :: integration_connection
  gh_sync_status :: sync_status
  gh_gap_detected_at :: "time option"
  gh_gap_reason :: "string option"
  gh_watch_expiry_warning :: bool
  gh_stale_sync_warning :: bool

definition health_of :: "time \<Rightarrow> db \<Rightarrow> integration_connection \<Rightarrow> gmail_health" where
  "health_of now s c =
     \<lparr>gh_connection = c, gh_sync_status = (case sync_of (gconn_id c) s of Some m \<Rightarrow> msync_status m | None \<Rightarrow> SYNC_IDLE),
      gh_gap_detected_at = Option.bind (sync_of (gconn_id c) s) msync_gap_detected_at,
      gh_gap_reason = Option.bind (sync_of (gconn_id c) s) msync_gap_reason,
      gh_watch_expiry_warning = (case gconn_watch_expiry c of None \<Rightarrow> False | Some t \<Rightarrow> t \<le> now + hours 24),
      gh_stale_sync_warning = (case gconn_last_success_at c of None \<Rightarrow> True | Some t \<Rightarrow> t \<le> now - minutes 30)\<rparr>"

definition read_gmail_health :: "trusted_context \<Rightarrow> gmail_health list act" where
  "read_gmail_health ctx =
     bindE the_time (\<lambda>now.
     gets (\<lambda>s. map (health_of now s) (sort_key (\<lambda>c. - gconn_created_at c)
       (filter (\<lambda>c. gconn_tenant_id c = ctx_tenant_id ctx \<and> gconn_provider c = ''gmail'') (integration_connections s)))))"

section \<open>Maintenance\<close>

definition pending_kinds :: "integration_connection \<Rightarrow> db \<Rightarrow> string set" where
  "pending_kinds c s = job_kind ` set (filter (\<lambda>j. job_tenant_id j = gconn_tenant_id c \<and>
     job_kind j \<in> {''gmail.initial_backfill'', ''gmail.watch_renew'', ''gmail.history_sync''} \<and>
     job_state j \<in> {QUEUED, RUNNING, JOB_RETRY_WAIT} \<and> names_connection (gconn_id c) j) (jobs s))"

text \<open>A job unless one of its kind is pending: 1 when it was created.\<close>

definition maintenance_job :: "string set \<Rightarrow> integration_connection \<Rightarrow> string \<Rightarrow> (string \<times> pyval) list \<Rightarrow> nat act" where
  "maintenance_job pending c kind details =
     (if kind \<in> pending then ret 0
      else bindE (gmail_context c) (\<lambda>ctx. bindE (gmail_job ctx (gconn_id c) kind details) (\<lambda>_. ret 1)))"

definition watch_due :: "time \<Rightarrow> integration_connection \<Rightarrow> bool" where
  "watch_due current c \<longleftrightarrow> (case gconn_watch_expiry c of None \<Rightarrow> True | Some t \<Rightarrow> t \<le> current + days 1)"

definition maintain_connection :: "time \<Rightarrow> integration_connection \<Rightarrow> nat act" where
  "maintain_connection current c =
     bindE (gets (pending_kinds c)) (\<lambda>pending.
     bindE (gets (sync_of (gconn_id c))) (\<lambda>found_sync.
     if map_option (\<lambda>m. (msync_mode m, msync_coverage_start m)) found_sync = Some (INITIAL_BACKFILL, None)
     then (if ''gmail.initial_backfill'' \<in> pending then ret 0
       else bindE (gmail_context c) (\<lambda>ctx. bindE (schedule_gmail_sync ctx (gconn_id c) True) (\<lambda>_. ret 1)))
     else
       bindE (if watch_due current c then maintenance_job pending c ''gmail.watch_renew'' [] else ret 0) (\<lambda>renewed.
       bindE (case configured (gconn_committed_history_id c) of
          None \<Rightarrow> ret 0
        | Some h \<Rightarrow> maintenance_job pending c ''gmail.history_sync'' [(''history_id'', PStr h)]) (\<lambda>synced.
       ret (renewed + synced)))))"

definition schedule_gmail_maintenance :: "time option \<Rightarrow> nat act" where
  "schedule_gmail_maintenance now =
     bindE (time_or_now now) (\<lambda>current.
     bindE (gets (\<lambda>s. filter (\<lambda>c. gconn_provider c = ''gmail'' \<and> gconn_status c = CONNECTED) (integration_connections s))) (\<lambda>connected.
     bindE (mapE (maintain_connection current) connected) (\<lambda>counts.
     ret (sum_list counts))))"

section \<open>Sending an offer\<close>

definition connected_send_connection :: "external_action \<Rightarrow> integration_connection act" where
  "connected_send_connection a =
     bindE (ret (clean_str (dict_get (act_approved_payload a) ''provider_account_id''))) (\<lambda>account.
     bindE (gets (\<lambda>s. filter (\<lambda>c. gconn_tenant_id c = act_tenant_id a \<and> gconn_provider c = ''gmail'' \<and> gconn_status c = CONNECTED \<and>
        (account = [] \<or> gconn_provider_account_id c = account)) (integration_connections s))) (\<lambda>found.
     (case found of [c] \<Rightarrow> ret c | _ \<Rightarrow> raise ConflictError)))"

definition gmail_raw_message :: "gmail_config \<Rightarrow> (string \<times> pyval) list \<Rightarrow> string \<Rightarrow> exn + string" where
  "gmail_raw_message G payload sender =
     (let recipient = clean_str (dict_get payload ''recipient''); subject = clean_str (dict_get payload ''subject'');
          plain = text_member payload ''plain_text_body''; html = text_member payload ''html_body'';
          marker = clean_str (dict_get payload ''marker'') in
      if recipient = [] \<or> subject = [] \<or> plain = [] \<or> marker = [] then Inl ValidationError
      else if truthy (dict_get payload ''attachment_hashes'') then Inl ConflictError
      else sum_map (\<lambda>bytes. rstrip_of (CHR ''='') (pad_base64 (urlsafe_b64encode bytes)))
        (gm_mime G [(''To'', recipient), (''From'', sender), (''Subject'', subject), (''X-ScopeGuard-Marker'', marker)] plain html))"

definition send_request :: "gmail_config \<Rightarrow> string \<Rightarrow> string \<Rightarrow> (nat \<times> pyval option) act" where
  "send_request G access raw = gmail_request G ''POST'' ''users/me/messages/send'' access [] [(''raw'', PStr raw)]"

definition unknown_send :: "uuid \<Rightarrow> string \<Rightarrow> 'a act" where
  "unknown_send i reason = bindE (record_gmail_send_unknown i reason) (\<lambda>_. raise ConflictError)"

definition first_send :: "gmail_config \<Rightarrow> uuid \<Rightarrow> string \<Rightarrow> string \<Rightarrow> (nat \<times> pyval option) act" where
  "first_send G i access raw =
     catchE (send_request G access raw)
       (\<lambda>e. if e = GmailProviderRetryable then unknown_send i ''provider_request_ambiguous'' else raise e)"

text \<open>After a 401 the token is refreshed and the message sent again; every retryable failure of that is a retry.\<close>

definition second_send :: "env \<Rightarrow> gmail_config \<Rightarrow> uuid \<Rightarrow> integration_connection \<Rightarrow> string \<Rightarrow> (nat \<times> pyval option) act" where
  "second_send E G i c raw =
     catchE (bindE (gmail_context c) (\<lambda>ctx.
         bindE (refresh_gmail_access_token E G ctx (gconn_id c)) (\<lambda>refreshed.
         bindE (credential_values E G refreshed) (\<lambda>renewed.
         send_request G (token_of renewed ''access_token'') raw))))
       (\<lambda>e. if e = GmailProviderRetryable then bindE (mark_action_retry i ''gmail_refresh_retry'') (\<lambda>_. raise e) else raise e)"

definition confirmed_send :: "uuid \<Rightarrow> (string \<times> pyval) list \<Rightarrow> string \<Rightarrow> string act" where
  "confirmed_send i payload message =
     bindE (dict_index payload ''recipient'') (\<lambda>recipient.
     bindE (dict_index payload ''plain_text_body'') (\<lambda>body.
     bindE (dict_index payload ''content_hash'') (\<lambda>content_hash.
     bindE (record_gmail_send_success i message (py_str recipient) (py_str body) (py_str content_hash)) (\<lambda>_.
     ret message))))"

definition settle_send :: "uuid \<Rightarrow> (string \<times> pyval) list \<Rightarrow> nat \<times> pyval option \<Rightarrow> string act" where
  "settle_send i payload answer =
     (if fst answer = 429 then bindE (mark_action_retry i ''gmail_429'') (\<lambda>_. raise GmailProviderRetryable)
      else if 500 \<le> fst answer then unknown_send i (''gmail_'' @ nat_str (fst answer))
      else if 400 \<le> fst answer then bindE (mark_action_review_required i ''gmail_provider_rejected'') (\<lambda>_. raise ConflictError)
      else (case snd answer of
          None \<Rightarrow> unknown_send i ''invalid_provider_response''
        | Some body \<Rightarrow>
            (case (case as_dict body of Some d \<Rightarrow> text_member d ''id'' | None \<Rightarrow> []) of
               [] \<Rightarrow> unknown_send i ''missing_provider_message_id''
             | message \<Rightarrow> confirmed_send i payload message)))"

definition dispatch_gmail_send :: "env \<Rightarrow> gmail_config \<Rightarrow> uuid \<Rightarrow> string act" where
  "dispatch_gmail_send E G i =
     bindE (get_external_action i) (\<lambda>found.
     bindE (some_or NotFoundError found) (\<lambda>a.
     bindE (require (gmail_send a) NotFoundError) (\<lambda>_.
     bindE (connected_send_connection a) (\<lambda>c.
     bindE (credential_values E G c) (\<lambda>credentials.
     bindE (of_result (gmail_raw_message G (act_approved_payload a) (gconn_account_email c))) (\<lambda>raw.
     bindE (begin_gmail_send i) (\<lambda>payload.
     bindE (first_send G i (token_of credentials ''access_token'') raw) (\<lambda>answer.
     bindE (if fst answer = 401 then second_send E G i c raw else ret answer) (\<lambda>final.
     settle_send i payload final)))))))))"

end
