(* ===== verification/Delivery.thy ===== *)
theory Delivery
  imports ChangeOrders
begin

text \<open>
  Sending a notification through Amazon SES (\<open>services/integrations/ses.py\<close>), and the connectors
  (\<open>services/connectors/contracts.py\<close>, \<open>guards.py\<close>, \<open>policy.py\<close>): the outcome of a call to a provider, and
  the manifest of what may be called by whom. The SES client is a parameter.
\<close>

section \<open>SES\<close>

text \<open>An answer, an error of the service with its code, or a failure of the transport with its class.\<close>

datatype ses_outcome = SesAnswer "(string \<times> pyval) list" | SesClientError string | SesTransportError string

record ses_config =
  ses_from_email :: string
  ses_configuration_set :: string
  ses_send_email :: "nat \<Rightarrow> (string \<times> pyval) list \<Rightarrow> ses_outcome"

text \<open>\<open>html.escape(t, quote=True)\<close>\<close>

definition escape_char :: "char \<Rightarrow> string" where
  "escape_char c =
     (if c = CHR ''&'' then ''&amp;'' else if c = CHR ''<'' then ''&lt;'' else if c = CHR ''>'' then ''&gt;''
      else if c = CHR 0x22 then ''&quot;'' else if c = CHR 0x27 then ''&#x27;'' else [c])"

definition quoted_attribute :: "string \<Rightarrow> string" where
  "quoted_attribute t = [CHR 0x22] @ concat (map escape_char t) @ [CHR 0x22]"

record ses_message =
  sm_recipient :: string
  sm_subject :: string
  sm_text :: string
  sm_html :: string

definition line_feed :: string where "line_feed = [CHR 0x0A]"

definition ses_message_of :: "(string \<times> pyval) list \<Rightarrow> exn + ses_message" where
  "ses_message_of payload =
     (let recipient = lower (clean_str (dict_get payload ''recipient'')); subject = clean_str (dict_get payload ''subject'');
          url = clean_str (dict_get payload ''approval_url'') in
      if recipient = [] \<or> subject = [] \<or> url = [] then Inl ValidationError
      else Inr \<lparr>sm_recipient = recipient, sm_subject = subject,
        sm_text = ''A ScopeGuard change-order review is ready.'' @ line_feed @ line_feed @ ''Review it here: '' @ url @ line_feed,
        sm_html = ''<p>A ScopeGuard change-order review is ready.</p><p><a href='' @ quoted_attribute url @
          ''>Review change order</a></p>''\<rparr>)"

definition charset_utf8 :: "string \<Rightarrow> pyval" where
  "charset_utf8 t = PDict [(''Data'', PStr t), (''Charset'', PStr ''UTF-8'')]"

definition ses_request :: "ses_config \<Rightarrow> string \<Rightarrow> ses_message \<Rightarrow> (string \<times> pyval) list" where
  "ses_request S sender m =
     [(''FromEmailAddress'', PStr sender), (''Destination'', PDict [(''ToAddresses'', PList [PStr (sm_recipient m)])]),
      (''Content'', PDict [(''Simple'', PDict [(''Subject'', charset_utf8 (sm_subject m)),
         (''Body'', PDict [(''Text'', charset_utf8 (sm_text m)), (''Html'', charset_utf8 (sm_html m))])])])] @
     (if ses_configuration_set S = [] then [] else [(''ConfigurationSetName'', PStr (ses_configuration_set S))])"

definition ses_exchange :: "ses_config \<Rightarrow> (string \<times> pyval) list \<Rightarrow> ses_outcome act" where
  "ses_exchange S r = (\<lambda>s. (Inr (ses_send_email S (exchanges s) r), s\<lparr>exchanges := Suc (exchanges s)\<rparr>))"

definition SES_THROTTLED :: "string list" where
  "SES_THROTTLED = [''Throttling'', ''TooManyRequestsException'', ''ServiceUnavailableException'', ''RequestTimeout'']"

definition settle_ses :: "uuid \<Rightarrow> ses_outcome \<Rightarrow> string act" where
  "settle_ses i outcome =
     (case outcome of
        SesClientError code \<Rightarrow>
          if code \<in> set SES_THROTTLED
          then bindE (mark_action_retry i (''ses_'' @ lower code)) (\<lambda>_. raise SesProviderRetryable)
          else bindE (mark_action_review_required i ''ses_provider_rejected'') (\<lambda>_. raise ConflictError)
      | SesTransportError name \<Rightarrow> bindE (record_ses_notification_unknown i name) (\<lambda>_. raise (OtherError name))
      | SesAnswer answer \<Rightarrow>
          (case py_str (py_or (dict_get answer ''MessageId'') (PStr [])) of
             [] \<Rightarrow> bindE (record_ses_notification_unknown i ''RuntimeError'') (\<lambda>_. raise RuntimeError)
           | message \<Rightarrow> bindE (record_ses_notification_success i message) (\<lambda>_. ret message)))"

definition dispatch_ses_notification :: "env \<Rightarrow> ses_config \<Rightarrow> uuid \<Rightarrow> string act" where
  "dispatch_ses_notification E S i =
     bindE (get_external_action i) (\<lambda>found.
     bindE (some_or NotFoundError found) (\<lambda>a.
     bindE (require (act_provider a = ''ses'' \<and> act_operation a = ''send_change_order'') NotFoundError) (\<lambda>_.
     bindE (require (strip (ses_from_email S) \<noteq> []) ConflictError) (\<lambda>_.
     bindE (require (act_state a = READY \<or> act_state a = RETRY_WAIT) ConflictError) (\<lambda>_.
     bindE (materialize_ses_notification E i) (\<lambda>payload.
     bindE (of_result (ses_message_of payload)) (\<lambda>m.
     bindE (begin_action_dispatch i []) (\<lambda>_.
     bindE (ses_exchange S (ses_request S (strip (ses_from_email S)) m)) (\<lambda>outcome.
     settle_ses i outcome)))))))))"

section \<open>Outcomes of a provider\<close>

datatype provider_outcome_kind = PRE_DISPATCH_FAILURE | SUCCESS | UNCERTAIN

record provider_outcome =
  out_kind :: provider_outcome_kind
  out_provider :: string
  out_operation :: string
  out_provider_reference :: "string option"
  out_evidence_ref :: "((string \<times> pyval) list) option"
  out_error_code :: "string option"

text \<open>\<open>__post_init__\<close>: what each kind must carry.\<close>

definition checked_outcome :: "provider_outcome \<Rightarrow> exn + provider_outcome" where
  "checked_outcome r =
     (if (case out_kind r of
            SUCCESS \<Rightarrow> Option.bind (out_provider_reference r) or_none \<noteq> None
          | PRE_DISPATCH_FAILURE \<Rightarrow> Option.bind (out_error_code r) or_none \<noteq> None
          | UNCERTAIN \<Rightarrow> out_evidence_ref r \<notin> {None, Some []})
      then Inr r else Inl ValueError)"

definition pre_dispatch_failure :: "string \<Rightarrow> string \<Rightarrow> string \<Rightarrow> exn + provider_outcome" where
  "pre_dispatch_failure provider operation code =
     checked_outcome \<lparr>out_kind = PRE_DISPATCH_FAILURE, out_provider = provider, out_operation = operation,
       out_provider_reference = None, out_evidence_ref = None, out_error_code = Some code\<rparr>"

definition provider_success ::
  "string \<Rightarrow> string \<Rightarrow> string \<Rightarrow> ((string \<times> pyval) list) option \<Rightarrow> exn + provider_outcome" where
  "provider_success provider operation reference evidence =
     checked_outcome \<lparr>out_kind = SUCCESS, out_provider = provider, out_operation = operation,
       out_provider_reference = Some reference, out_evidence_ref = evidence, out_error_code = None\<rparr>"

definition uncertain_outcome :: "string \<Rightarrow> string \<Rightarrow> (string \<times> pyval) list \<Rightarrow> exn + provider_outcome" where
  "uncertain_outcome provider operation evidence =
     checked_outcome \<lparr>out_kind = UNCERTAIN, out_provider = provider, out_operation = operation,
       out_provider_reference = None, out_evidence_ref = Some evidence, out_error_code = None\<rparr>"

definition reconcile_action :: "uuid \<Rightarrow> provider_outcome \<Rightarrow> unit act" where
  "reconcile_action i r =
     (case out_kind r of
        PRE_DISPATCH_FAILURE \<Rightarrow>
          mark_action_retry i (case Option.bind (out_error_code r) or_none of Some c \<Rightarrow> c | None \<Rightarrow> ''provider_failure'')
      | SUCCESS \<Rightarrow>
          complete_action i [(''provider'', PStr (out_provider r)), (''operation'', PStr (out_operation r)),
            (''provider_reference'', opt_str (out_provider_reference r)),
            (''evidence'', PDict (case out_evidence_ref r of Some d \<Rightarrow> d | None \<Rightarrow> []))] (out_provider_reference r) []
      | UNCERTAIN \<Rightarrow> mark_action_unknown i ''provider_response_uncertain_requires_reconciliation'')"

section \<open>The manifest\<close>

definition words_value :: "string list \<Rightarrow> pyval" where
  "words_value ws = PList (map PStr ws)"

definition connector_entry :: "string list \<Rightarrow> string list \<Rightarrow> pyval" where
  "connector_entry reads actions =
     PDict [(''read'', words_value reads), (''deterministic_actions'', words_value actions), (''agent_actions'', words_value [])]"

text \<open>\<open>capabilities.json\<close>\<close>

definition load_manifest :: "(string \<times> pyval) list" where
  "load_manifest =
     [(''schema_version'', PInt 1), (''default_policy'', PStr ''deny''),
      (''providers'', PDict
        [(''gmail'', connector_entry [''messages.get'', ''messages.list'', ''threads.get'', ''history.list'', ''watch.start'', ''watch.stop'']
            [''messages.send'']),
         (''razorpay'', connector_entry [''payment_links.fetch'', ''payments.fetch''] [''payment_links.create'']),
         (''ses'', connector_entry [] [''email.send_verified_notification''])])]"

definition connector_config :: "string \<Rightarrow> (string \<times> pyval) list option" where
  "connector_config provider =
     Option.bind (as_dict (dict_get_default load_manifest ''providers'' (PDict []))) (\<lambda>d. as_dict (dict_get d provider))"

fun list_items :: "pyval \<Rightarrow> pyval list" where
  "list_items (PList xs) = xs"
| "list_items _ = []"

definition actor_key :: "string \<Rightarrow> string option" where
  "actor_key actor =
     (if actor = ''agent'' then Some ''agent_actions'' else if actor = ''reader'' then Some ''read''
      else if actor = ''deterministic'' then Some ''deterministic_actions'' else None)"

definition require_capability :: "string \<Rightarrow> string \<Rightarrow> string \<Rightarrow> unit act" where
  "require_capability provider capability actor =
     bindE (some_or AuthorizationError (connector_config provider)) (\<lambda>config.
     bindE (some_or AuthorizationError (actor_key actor)) (\<lambda>key.
     require (PStr capability \<in> set (list_items (dict_get_default config key (PList [])))) AuthorizationError))"

definition guard_deterministic_action :: "env \<Rightarrow> external_action \<Rightarrow> string \<Rightarrow> (string \<times> pyval) list \<Rightarrow> unit act" where
  "guard_deterministic_action E a capability payload =
     bindE (require_capability (act_provider a) capability ''deterministic'') (\<lambda>_.
     bindE (digest_of E (PDict payload)) (\<lambda>digest.
     bindE (require (digest = act_payload_digest a) AuthorizationError) (\<lambda>_.
     require (act_state a = READY \<or> act_state a = RETRY_WAIT) AuthorizationError)))"

definition read_only_agent_manifest :: "(string \<times> pyval) list" where
  "read_only_agent_manifest =
     (case as_dict (dict_get_default load_manifest ''providers'' (PDict [])) of
        None \<Rightarrow> [(''schema_version'', dict_get_default load_manifest ''schema_version'' (PInt 1)), (''providers'', PDict [])]
      | Some providers \<Rightarrow>
          [(''schema_version'', dict_get_default load_manifest ''schema_version'' (PInt 1)), (''default_policy'', PStr ''deny''),
           (''providers'', PDict (concat (map (\<lambda>pc. case as_dict (snd pc) of
               None \<Rightarrow> []
             | Some config \<Rightarrow> [(fst pc, PDict [(''read'', PList (list_items (dict_get_default config ''read'' (PList []))))])]) providers)))])"

text \<open>No agent may act, and an agent is shown readings only.\<close>

lemma agents_only_read:
  "fst (require_capability provider capability ''agent'' s) = Inl AuthorizationError"
proof -
  consider "provider = ''gmail''" | "provider = ''razorpay''" | "provider = ''ses''" | "provider \<notin> {''gmail'', ''razorpay'', ''ses''}" by auto
  then show ?thesis
    by cases (simp_all add: require_capability_def connector_config_def load_manifest_def connector_entry_def words_value_def
        dict_get_default_def dict_get_def actor_key_def)
qed

lemma manifest_reads_only: "read_only_agent_manifest =
  [(''schema_version'', PInt 1), (''default_policy'', PStr ''deny''),
   (''providers'', PDict
     [(''gmail'', PDict [(''read'', words_value [''messages.get'', ''messages.list'', ''threads.get'', ''history.list'', ''watch.start'', ''watch.stop''])]),
      (''razorpay'', PDict [(''read'', words_value [''payment_links.fetch'', ''payments.fetch''])]),
      (''ses'', PDict [(''read'', words_value [])])])]"
  by (simp add: read_only_agent_manifest_def load_manifest_def connector_entry_def words_value_def dict_get_default_def)

end
