(* ===== verification/Roles.thy ===== *)
theory Roles
  imports Preparation Delivery
begin

text \<open>
  The reasoning roles (\<open>services/agents/roles.py\<close>, \<open>strands_roles.py\<close>): their definitions and read-only
  tools, the deterministic pipeline around them, and the calls of one role with its retry in plain text and
  its single repair. What the model service answers is a parameter; prompts are not modelled.
\<close>

section \<open>Definitions\<close>

record tool_definition =
  tool_name :: string
  tool_provider :: string
  tool_operation :: string
  tool_read_only :: bool
  tool_timeout_seconds :: rat

definition checked_tool :: "tool_definition \<Rightarrow> exn + tool_definition" where
  "checked_tool t =
     (case validate_tool_timeout (tool_timeout_seconds t) of
        Inl e \<Rightarrow> Inl e
      | Inr _ \<Rightarrow> if tool_read_only t then Inr t else Inl AuthorizationError)"

definition reading_tool :: "string \<Rightarrow> string \<Rightarrow> string \<Rightarrow> tool_definition" where
  "reading_tool name provider operation = \<lparr>tool_name = name, tool_provider = provider, tool_operation = operation,
     tool_read_only = True, tool_timeout_seconds = 15\<rparr>"

record role_definition =
  role_name :: string
  role_responsibility :: string
  role_tools :: "tool_definition list"
  role_output_schema :: string

definition checked_role :: "role_definition \<Rightarrow> exn + role_definition" where
  "checked_role r =
     (if role_name r = [] \<or> role_responsibility r = [] then Inl ValidationError
      else if list_ex (\<lambda>t. \<not> tool_read_only t) (role_tools r) then Inl AuthorizationError
      else Inr r)"

definition role_of :: "string \<Rightarrow> string \<Rightarrow> tool_definition list \<Rightarrow> string \<Rightarrow> role_definition" where
  "role_of name responsibility tools schema = \<lparr>role_name = name, role_responsibility = responsibility, role_tools = tools,
     role_output_schema = schema\<rparr>"

definition ROLE_DEFINITIONS :: "role_definition list" where
  "ROLE_DEFINITIONS =
     [role_of ''contract_structure''
        ''Extract candidate scope items from authorized contract chunks; never confirm scope or price work.'' [] ''ValidatedScopeCandidate'',
      role_of ''scope'' ''Classify the request against the confirmed baseline and accepted amendments.'' [] ''ScopeRoleOutput'',
      role_of ''evidence'' ''Retrieve authorized immutable evidence and report coverage or contradictions.''
        [reading_tool ''contract.search'' ''internal'' ''contract.search'', reading_tool ''gmail.read'' ''gmail'' ''messages.get'']
        ''EvidenceRoleOutput'',
      role_of ''impact'' ''Break supported additional work into bounded effort ranges and dependencies.'' [] ''ImpactRoleOutput'',
      role_of ''change_order'' ''Draft the proposal content from validated evidence and impact only.'' [] ''ChangeOrderRoleOutput'',
      role_of ''communication'' ''Draft a factual client message without send credentials or provider tools.'' [] ''CommunicationRoleOutput'']"

text \<open>Every definition passes its own checks, so importing the module does not raise.\<close>

lemma role_definitions_checked:
  "\<forall>r \<in> set ROLE_DEFINITIONS. checked_role r = Inr r \<and> list_all (\<lambda>t. checked_tool t = Inr t) (role_tools r)"
  by (simp add: ROLE_DEFINITIONS_def role_of_def reading_tool_def checked_role_def checked_tool_def validate_tool_timeout_def
      MAX_TOOL_SECONDS_def)

section \<open>Reading under a context\<close>

record scoped_read_context =
  src_context :: trusted_context
  src_project_id :: uuid
  src_workflow_id :: uuid
  src_allowed_resource_ids :: "string set"

definition authorize_result :: "scoped_read_context \<Rightarrow> uuid \<Rightarrow> uuid \<Rightarrow> string option \<Rightarrow> exn + unit" where
  "authorize_result r tenant project resource =
     (if tenant \<noteq> ctx_tenant_id (src_context r) \<or> project \<noteq> src_project_id r then Inl AuthorizationError
      else (case resource of
          None \<Rightarrow> Inr ()
        | Some i \<Rightarrow> if src_allowed_resource_ids r \<noteq> {} \<and> i \<notin> src_allowed_resource_ids r then Inl AuthorizationError else Inr ()))"

section \<open>The pipeline\<close>

datatype stage_status = STAGE_SUCCEEDED | STAGE_CLARIFICATION | STAGE_FAILED

record 'o role_stage =
  stage_role :: string
  stage_status :: stage_status
  stage_output :: "'o option"
  stage_duration_ms :: int
  stage_safe_summary :: string

text \<open>
  One role: \<open>now\<close> and \<open>done_at\<close> are the clock before and after it, \<open>said\<close> is the text of an exception it
  raises. Only the check of the deadline escapes; what the role raises is a result.
\<close>

definition run_role ::
  "role_definition list \<Rightarrow> string \<Rightarrow> rat \<Rightarrow> rat \<Rightarrow> (exn \<Rightarrow> string) \<Rightarrow> 'o limited \<Rightarrow> 'o role_stage limited" where
  "run_role definitions role now done_at said call =
     bindE (require (role \<in> role_name ` set definitions) ValidationError) (\<lambda>_.
     bindE (check_deadline now) (\<lambda>_.
     bindE (case validate_node_timeout 60 of Inl e \<Rightarrow> raise e | Inr _ \<Rightarrow> ret ()) (\<lambda>_.
     bindE (ret \<lfloor>(done_at - now) * 1000\<rfloor>) (\<lambda>duration.
     catchE
       (bindE call (\<lambda>out.
        bindE (case validate_safe_summary (role @ '' role completed'') 1000 of Inl e \<Rightarrow> raise e | Inr t \<Rightarrow> ret t) (\<lambda>summary.
        ret \<lparr>stage_role = role, stage_status = STAGE_SUCCEEDED, stage_output = Some out, stage_duration_ms = duration,
          stage_safe_summary = summary\<rparr>)))
       (\<lambda>e. ret (if e = ConflictError
          then \<lparr>stage_role = role, stage_status = STAGE_CLARIFICATION, stage_output = None, stage_duration_ms = duration,
            stage_safe_summary = take 1000 (said e)\<rparr>
          else \<lparr>stage_role = role, stage_status = STAGE_FAILED, stage_output = None, stage_duration_ms = duration,
            stage_safe_summary = role @ '' role failed: '' @ exn_name e\<rparr>))))))"

text \<open>The roles with an invocation run in the order of the definitions, up to the first that does not succeed.\<close>

fun run_pipeline ::
  "role_definition list \<Rightarrow> (string \<Rightarrow> rat \<times> rat) \<Rightarrow> (exn \<Rightarrow> string) \<Rightarrow> (string \<Rightarrow> 'o limited option) \<Rightarrow> role_definition list \<Rightarrow>
   'o role_stage list limited" where
  "run_pipeline definitions clocks said calls [] = ret []"
| "run_pipeline definitions clocks said calls (r # rs) =
     (case calls (role_name r) of
        None \<Rightarrow> run_pipeline definitions clocks said calls rs
      | Some call \<Rightarrow>
          bindE (run_role definitions (role_name r) (fst (clocks (role_name r))) (snd (clocks (role_name r))) said call) (\<lambda>stage.
          if stage_status stage \<noteq> STAGE_SUCCEEDED then ret [stage]
          else bindE (run_pipeline definitions clocks said calls rs) (\<lambda>stages. ret (stage # stages))))"

section \<open>Read-only manifests\<close>

definition read_entry :: "string \<times> pyval \<Rightarrow> exn + string \<times> pyval" where
  "read_entry pc =
     (case as_dict (snd pc) of
        None \<Rightarrow> Inl AuthorizationError
      | Some config \<Rightarrow>
          (case (dict_get_default config ''read'' (PList []), dict_get_default config ''agent_actions'' (PList [])) of
             (PList reads, PList actions) \<Rightarrow>
               if actions \<noteq> [] then Inl AuthorizationError else Inr (fst pc, PList (map (PStr \<circ> py_str) reads))
           | _ \<Rightarrow> Inl AuthorizationError))"

definition read_only_role_manifest :: "exn + (string \<times> pyval) list" where
  "read_only_role_manifest =
     (case as_dict (dict_get_default load_manifest ''providers'' (PDict [])) of
        None \<Rightarrow> Inl AuthorizationError
      | Some providers \<Rightarrow>
          sum_map (\<lambda>safe. [(''schema_version'', dict_get_default load_manifest ''schema_version'' (PInt 1)),
             (''default_policy'', PStr ''deny''), (''read'', PDict safe)]) (sequence (map read_entry providers)))"

lemma read_only_role_manifest_returns: "\<not> isl read_only_role_manifest"
  by (simp add: read_only_role_manifest_def load_manifest_def dict_get_default_def connector_entry_def words_value_def read_entry_def)

definition validate_tool_inventory :: "string \<Rightarrow> (string \<times> pyval) list \<Rightarrow> exn + unit" where
  "validate_tool_inventory provider inventory =
     (case (case connector_config provider of None \<Rightarrow> PList [] | Some config \<Rightarrow> dict_get_default config ''read'' (PList [])) of
        PList allowed \<Rightarrow>
          if list_all (\<lambda>(name, schema). PStr name \<in> set allowed \<and>
             (case as_dict schema of None \<Rightarrow> False | Some d \<Rightarrow> dict_get d ''read_only'' = PBool True)) inventory
          then Inr () else Inl AuthorizationError
      | _ \<Rightarrow> Inl AuthorizationError)"

section \<open>Calls of one role\<close>

text \<open>
  An answer of the model service: the output that passed its schema, natively or parsed from the text, and
  the tokens it reports; or an exception. The first call's exception is of the validation kind or not.
\<close>

record 'o role_answer =
  ans_output :: "'o option"
  ans_input_tokens :: int
  ans_output_tokens :: int

record 'o role_service =
  srv_structured :: "(exn \<times> bool) + 'o role_answer"
  srv_plain :: "exn + 'o role_answer"
  srv_repair :: "exn + 'o role_answer"

definition unread_answer :: "'o role_answer" where
  "unread_answer = \<lparr>ans_output = None, ans_input_tokens = 0, ans_output_tokens = 0\<rparr>"

definition answer_or :: "exn + 'o role_answer \<Rightarrow> 'o role_answer limited" where
  "answer_or r = (case r of Inl e \<Rightarrow> raise e | Inr a \<Rightarrow> ret a)"

definition structured_answer :: "'o role_service \<Rightarrow> 'o role_answer limited" where
  "structured_answer m =
     (case srv_structured m of Inr a \<Rightarrow> ret a | Inl (e, rejected) \<Rightarrow> if rejected then ret unread_answer else raise e)"

text \<open>\<open>unless_output a m\<close>: the next call, if the answer so far has no output.\<close>

definition unless_output :: "'o role_answer \<Rightarrow> 'o role_answer limited \<Rightarrow> 'o role_answer limited" where
  "unless_output a m = (if ans_output a = None then m else ret a)"

definition invoke_role :: "rat \<Rightarrow> bool \<Rightarrow> 'o role_service \<Rightarrow> 'o limited" where
  "invoke_role now repairable m =
     bindE (check_deadline now) (\<lambda>_.
     bindE (structured_answer m) (\<lambda>first.
     bindE (unless_output first (answer_or (srv_plain m))) (\<lambda>second.
     bindE (unless_output second
        (bindE (require repairable ConflictError) (\<lambda>_. bindE record_repair (\<lambda>_. answer_or (srv_repair m))))) (\<lambda>final.
     bindE (some_or ConflictError (ans_output final)) (\<lambda>out.
     bindE (record_usage (ans_input_tokens final) (ans_output_tokens final)) (\<lambda>_.
     ret out))))))"

end
