(* ===== verification/Live.thy ===== *)
theory Live
  imports Roles Contracts
begin

text \<open>
  The live analysis of a request (\<open>services/agents/live.py\<close>): the estimates of the model made valid, the
  evidence of the confirmed scope, the budgets reserved and settled, and the job that runs the roles between
  two transactions.
\<close>

section \<open>Estimates\<close>

record live_task =
  lt_task_key :: string
  lt_description :: string
  lt_low_hours :: string
  lt_recommended_hours :: string
  lt_high_hours :: string
  lt_assumptions :: "string list"
  lt_dependencies :: "string list"

record live_impact =
  li_tasks :: "live_task list"
  li_low_hours :: string
  li_recommended_hours :: string
  li_high_hours :: string
  li_assumptions :: "string list"
  li_dependencies :: "string list"
  li_missing_information :: "string list"
  li_uncertainty :: string
  li_cold_start :: bool

definition live_task_ok :: "live_task \<Rightarrow> bool" where
  "live_task_ok t \<longleftrightarrow> sized 1 160 (lt_task_key t) \<and> sized 1 1000 (lt_description t) \<and>
     sized 0 20 (lt_assumptions t) \<and> sized 0 20 (lt_dependencies t)"

definition live_impact_ok :: "live_impact \<Rightarrow> bool" where
  "live_impact_ok i \<longleftrightarrow> sized 1 100 (li_tasks i) \<and> list_all live_task_ok (li_tasks i) \<and> sized 0 50 (li_assumptions i) \<and>
     sized 0 50 (li_dependencies i) \<and> sized 0 50 (li_missing_information i)"

text \<open>A positive finite decimal as coefficient and exponent; its product with two and its normal form have 28 digits.\<close>

type_synonym positive_decimal = "nat \<times> int"

definition pd_value :: "positive_decimal \<Rightarrow> rat" where
  "pd_value d = of_nat (fst d) * power10 (snd d)"

fun positive_decimal_of :: "decimal \<Rightarrow> positive_decimal option" where
  "positive_decimal_of (Dec neg c e) = (if neg \<or> c = 0 then None else Some (c, e))"
| "positive_decimal_of _ = None"

definition fit28 :: "positive_decimal \<Rightarrow> positive_decimal" where
  "fit28 d =
     (let n = length (digits 10 (fst d)) in
      if n \<le> 28 then d else (nat (half_even (of_nat (fst d) / 10 ^ (n - 28))), snd d + int (n - 28)))"

fun strip_zeros :: "nat \<Rightarrow> positive_decimal \<Rightarrow> positive_decimal" where
  "strip_zeros 0 d = d"
| "strip_zeros (Suc k) (c, e) = (if c \<noteq> 0 \<and> c mod 10 = 0 then strip_zeros k (c div 10, e + 1) else (c, e))"

text \<open>\<open>format(d.normalize(), "f")\<close>; a coefficient has at most as many trailing zeros as digits.\<close>

definition fixed_text :: "positive_decimal \<Rightarrow> string" where
  "fixed_text d = (case strip_zeros (length (digits 10 (fst (fit28 d)))) (fit28 d) of (c, e) \<Rightarrow> decimal_plain False c e)"

definition pd_min :: "positive_decimal \<Rightarrow> positive_decimal \<Rightarrow> positive_decimal" where
  "pd_min a b = (if pd_value b < pd_value a then b else a)"

definition pd_max :: "positive_decimal \<Rightarrow> positive_decimal \<Rightarrow> positive_decimal" where
  "pd_max a b = (if pd_value a < pd_value b then b else a)"

definition twice :: "positive_decimal \<Rightarrow> positive_decimal" where
  "twice d = fit28 (2 * fst d, snd d)"

text \<open>The three estimates in order: an unusable one falls back to the one before, unreadable texts to one hour.\<close>

definition hours_read :: "string \<Rightarrow> string \<Rightarrow> string \<Rightarrow> positive_decimal \<times> positive_decimal \<times> positive_decimal" where
  "hours_read low recommended high =
     (case (decimal_of_str low, decimal_of_str recommended, decimal_of_str high) of
        (Some l, Some r, Some h) \<Rightarrow>
          (case positive_decimal_of l of
             None \<Rightarrow> ((1, 0), (1, 0), (1, 0))
           | Some low_value \<Rightarrow>
               (let recommended_value = (case positive_decimal_of r of Some v \<Rightarrow> v | None \<Rightarrow> low_value)
                in (low_value, recommended_value, case positive_decimal_of h of Some v \<Rightarrow> v | None \<Rightarrow> recommended_value)))
      | _ \<Rightarrow> ((1, 0), (1, 0), (1, 0)))"

definition clamped_hours ::
  "positive_decimal \<times> positive_decimal \<times> positive_decimal \<Rightarrow> positive_decimal \<times> positive_decimal \<times> positive_decimal" where
  "clamped_hours v =
     (case v of (low, recommended, high) \<Rightarrow>
        let high_value = pd_min high (twice low) in (low, pd_min (pd_max recommended low) high_value, high_value))"

definition bounded_hours :: "string \<Rightarrow> string \<Rightarrow> string \<Rightarrow> string \<times> string \<times> string" where
  "bounded_hours low recommended high =
     (case clamped_hours (hours_read low recommended high) of (l, r, h) \<Rightarrow> (fixed_text l, fixed_text r, fixed_text h))"

text \<open>Repeated citations count once; a contradicted reference does not support.\<close>

fun first_citations :: "uuid list \<Rightarrow> evidence_citation list \<Rightarrow> evidence_citation list" where
  "first_citations seen [] = []"
| "first_citations seen (c # cs) =
     (if ci_reference_id c \<in> set seen then first_citations seen cs else c # first_citations (ci_reference_id c # seen) cs)"

definition dedupe_evidence :: "evidence_output \<Rightarrow> evidence_output" where
  "dedupe_evidence e =
     (let contradictory = first_citations [] (eo_contradictory_references e);
          supporting = filter (\<lambda>c. ci_reference_id c \<notin> ci_reference_id ` set contradictory) (first_citations [] (eo_supporting_references e))
      in e\<lparr>eo_supporting_references := supporting, eo_contradictory_references := contradictory\<rparr>)"

definition normalized_task :: "live_task \<Rightarrow> impact_task" where
  "normalized_task t =
     (case bounded_hours (lt_low_hours t) (lt_recommended_hours t) (lt_high_hours t) of (low, recommended, high) \<Rightarrow>
        \<lparr>it_task_key = lt_task_key t, it_description = lt_description t, it_low_hours = low, it_recommended_hours = recommended,
         it_high_hours = high, it_assumptions = lt_assumptions t, it_dependencies = lt_dependencies t\<rparr>)"

definition uncertainty_of :: "string \<Rightarrow> uncertainty" where
  "uncertainty_of t = (if upper t = ''LOW'' then LOW else if upper t = ''HIGH'' then HIGH else MEDIUM)"

definition cold_start_assumptions :: "live_impact \<Rightarrow> string list" where
  "cold_start_assumptions i = li_assumptions i @
     (if li_cold_start i \<and> \<not> list_ex (\<lambda>t. is_infix ''history'' (lower t)) (li_assumptions i)
      then [''No verified history of historical duration is available.''] else [])"

definition normalize_impact :: "live_impact \<Rightarrow> exn + impact_output" where
  "normalize_impact i =
     (case bounded_hours (li_low_hours i) (li_recommended_hours i) (li_high_hours i) of (low, recommended, high) \<Rightarrow>
        let out = \<lparr>io_tasks = map normalized_task (li_tasks i), io_low_hours = low, io_recommended_hours = recommended,
              io_high_hours = high, io_assumptions = cold_start_assumptions i, io_dependencies = li_dependencies i,
              io_missing_information = li_missing_information i, io_uncertainty = uncertainty_of (li_uncertainty i),
              io_cold_start = li_cold_start i\<rparr>
        in if impact_output_ok out then Inr out else Inl ValueError)"

section \<open>The input of a live analysis\<close>

record live_input =
  lv_context :: trusted_context
  lv_project_id :: uuid
  lv_request_id :: uuid
  lv_request_version :: int
  lv_input_snapshot :: "(string \<times> pyval) list"
  lv_scope_items :: "((string \<times> string) list) list"
  lv_evidence_references :: "((string \<times> string) list) list"
  lv_recipient_email :: string

definition payload_uuid :: "(string \<times> pyval) list \<Rightarrow> string \<Rightarrow> uuid act" where
  "payload_uuid payload k = bindE (dict_index payload k) (\<lambda>v. some_or ValueError (uuid_of_str (py_str v)))"

definition confirmed_items :: "uuid \<Rightarrow> uuid \<Rightarrow> uuid \<Rightarrow> db \<Rightarrow> scope_item list" where
  "confirmed_items tenant project version s =
     sort_key (\<lambda>r. (sitem_item_key r, sitem_id r))
       (filter (\<lambda>r. sitem_tenant_id r = tenant \<and> sitem_project_id r = project \<and>
          list_ex (\<lambda>l. svi_scope_item_id l = sitem_id r \<and> svi_scope_version_id l = version) (scope_version_items s)) (scope_items s))"

definition first_contact :: "uuid \<Rightarrow> uuid \<Rightarrow> db \<Rightarrow> client_contact option" where
  "first_contact tenant client s =
     (case sort_key (\<lambda>c. (contact_created_at c, contact_id c))
        (filter (\<lambda>c. contact_tenant_id c = tenant \<and> contact_client_id c = client) (client_contacts s)) of
        [] \<Rightarrow> None | c # _ \<Rightarrow> Some c)"

definition item_chunk :: "uuid \<Rightarrow> uuid \<Rightarrow> scope_item \<Rightarrow> db \<Rightarrow> document_chunk option" where
  "item_chunk tenant project item s =
     (case sitem_source_document_chunk_id item of
        None \<Rightarrow> None
      | Some i \<Rightarrow> find (\<lambda>c. dchunk_id c = i \<and> dchunk_tenant_id c = tenant \<and> dchunk_project_id c = project) (document_chunks s))"

definition live_scope_item :: "scope_item \<Rightarrow> (string \<times> string) list" where
  "live_scope_item r = [(''id'', uuid_str (sitem_id r)), (''type'', sitem_item_type r), (''key'', sitem_item_key r), (''text'', sitem_text r)]"

definition chunk_reference :: "uuid \<Rightarrow> uuid \<Rightarrow> document_chunk \<Rightarrow> reference_spec" where
  "chunk_reference tenant project c =
     \<lparr>rs_source_type = ''document_chunk'', rs_source_id = uuid_str (dchunk_id c), rs_source_version = uuid_str (dchunk_document_id c),
      rs_exact_excerpt_ref = ''document-chunk:'' @ uuid_str (dchunk_id c), rs_content_hash = dchunk_content_hash c,
      rs_locator = [(''document_id'', PStr (uuid_str (dchunk_document_id c))), (''chunk_index'', PInt (dchunk_chunk_index c)),
        (''page'', (case dchunk_page_number c of None \<Rightarrow> PNone | Some n \<Rightarrow> PInt n)), (''section'', nullable_str (dchunk_section c))],
      rs_access_scope = ''tenant:'' @ uuid_str tenant @ '':project:'' @ uuid_str project, rs_relation = ''SUPPORTS'', rs_fetched_at = None\<rparr>"

text \<open>The evidence of one item, when its source chunk is still there.\<close>

definition item_evidence :: "trusted_context \<Rightarrow> uuid \<Rightarrow> uuid \<Rightarrow> scope_item \<Rightarrow> (((string \<times> string) list) list) act" where
  "item_evidence ctx project bundle item =
     bindE (gets (item_chunk (ctx_tenant_id ctx) project item)) (\<lambda>found.
     (case found of
        None \<Rightarrow> ret []
      | Some c \<Rightarrow>
          bindE (add_evidence_reference ctx bundle (chunk_reference (ctx_tenant_id ctx) project c)) (\<lambda>r.
          ret [[(''reference_id'', uuid_str (eref_id r)), (''scope_item_id'', uuid_str (sitem_id item)),
            (''excerpt'', take 800 (dchunk_source_text c))]])))"

definition text_dict :: "(string \<times> string) list \<Rightarrow> pyval" where
  "text_dict d = PDict (map (\<lambda>kv. (fst kv, PStr (snd kv))) d)"

definition evidence_ids :: "((string \<times> string) list) list \<Rightarrow> pyval" where
  "evidence_ids evidence = PList (map (\<lambda>d. case map_of d ''reference_id'' of Some i \<Rightarrow> PStr i | None \<Rightarrow> PNone) evidence)"

definition input_snapshot_of ::
  "request_record \<Rightarrow> uuid \<Rightarrow> uuid \<Rightarrow> ((string \<times> string) list) list \<Rightarrow> ((string \<times> string) list) list \<Rightarrow> string \<Rightarrow> (string \<times> pyval) list" where
  "input_snapshot_of request project version items evidence recipient =
     [(''request_id'', PStr (uuid_str (req_id request))), (''request_version'', PInt (req_request_version request)),
      (''request_summary'', PStr (req_summary request)), (''project_id'', PStr (uuid_str project)),
      (''scope_version_id'', PStr (uuid_str version)), (''scope_items'', PList (map text_dict items)),
      (''evidence_reference_ids'', evidence_ids evidence), (''recipient_email'', PStr recipient)]"

definition active_scope :: "project \<Rightarrow> uuid option" where
  "active_scope p = (if proj_status p = PROJECT_ACTIVE then proj_current_scope_version_id p else None)"

definition worker_context :: "job \<Rightarrow> string \<Rightarrow> trusted_context" where
  "worker_context j email = \<lparr>ctx_tenant_id = job_tenant_id j, ctx_subject = ''worker:'' @ uuid_str (job_id j), ctx_email = email,
     ctx_email_verified = True, ctx_correlation_id = job_correlation_id j\<rparr>"

definition collect_evidence ::
  "env \<Rightarrow> trusted_context \<Rightarrow> uuid \<Rightarrow> uuid \<Rightarrow> uuid \<Rightarrow> scope_item list \<Rightarrow> (((string \<times> string) list) list) act" where
  "collect_evidence E ctx project request version items =
     bindE (create_evidence_bundle E ctx project (Some request)
        [PDict [(''source'', PStr ''confirmed_contract_scope''), (''scope_version_id'', PStr (uuid_str version)),
           (''scope_item_ids'', PList (map (\<lambda>r. PStr (uuid_str (sitem_id r))) items))]] ''COMPLETE'' None) (\<lambda>bundle.
     bindE (mapE (item_evidence ctx project (bundle_id bundle)) items) (\<lambda>found.
     bindE (require (concat found \<noteq> []) ConflictError) (\<lambda>_.
     ret (concat found))))"

definition prepare_live_analysis_input :: "env \<Rightarrow> job \<Rightarrow> live_input act" where
  "prepare_live_analysis_input E j =
     bindE (payload_uuid (job_payload_ref j) ''request_id'') (\<lambda>i.
     bindE (gets (\<lambda>s. find (\<lambda>r. req_id r = i \<and> req_tenant_id r = job_tenant_id j) (request_records s))) (\<lambda>found_request.
     bindE (some_or NotFoundError found_request) (\<lambda>request.
     bindE (gets (\<lambda>s. find (\<lambda>p. proj_id p = req_project_id request \<and> proj_tenant_id p = job_tenant_id j) (projects s))) (\<lambda>found_project.
     bindE (some_or ConflictError found_project) (\<lambda>p.
     bindE (some_or ConflictError (active_scope p)) (\<lambda>version.
     bindE (gets (\<lambda>s. row_by usr_id (job_tenant_id j) (users s))) (\<lambda>found_owner.
     bindE (some_or NotFoundError found_owner) (\<lambda>owner.
     bindE (gets (first_contact (job_tenant_id j) (proj_client_id p))) (\<lambda>found_contact.
     bindE (some_or ConflictError found_contact) (\<lambda>contact.
     bindE (gets (confirmed_items (job_tenant_id j) (proj_id p) version)) (\<lambda>items.
     bindE (require (items \<noteq> []) ConflictError) (\<lambda>_.
     bindE (ret (worker_context j (usr_verified_email owner))) (\<lambda>ctx.
     bindE (collect_evidence E ctx (proj_id p) (req_id request) version items) (\<lambda>evidence.
     ret \<lparr>lv_context = ctx, lv_project_id = proj_id p, lv_request_id = req_id request,
        lv_request_version = req_request_version request,
        lv_input_snapshot = input_snapshot_of request (proj_id p) version (map live_scope_item items) evidence
          (contact_normalized_email contact),
        lv_scope_items = map live_scope_item items, lv_evidence_references = evidence,
        lv_recipient_email = contact_normalized_email contact\<rparr>))))))))))))))"

section \<open>The roles of a live analysis\<close>

text \<open>
  The model service: for each role its answers, given what the prompt of the role is built from, and the
  monotonic clock at the start, at the attempt and at the calls of the five roles.
\<close>

record live_model =
  lm_started :: rat
  lm_attempt :: rat
  lm_clock :: "string \<Rightarrow> rat"
  lm_scope :: "live_input \<Rightarrow> scope_output role_service"
  lm_evidence :: "live_input \<Rightarrow> scope_output \<Rightarrow> evidence_output role_service"
  lm_impact :: "live_input \<Rightarrow> evidence_output \<Rightarrow> live_impact role_service"
  lm_change_order :: "live_input \<Rightarrow> impact_output \<Rightarrow> evidence_output \<Rightarrow> change_output role_service"
  lm_communication :: "live_input \<Rightarrow> change_output \<Rightarrow> impact_output \<Rightarrow> communication_output role_service"

record live_outputs =
  lo_preliminary :: scope_output
  lo_evidence :: evidence_output
  lo_impact :: impact_output
  lo_change_order :: change_output
  lo_communication :: communication_output

definition lifted :: "exn + 'a \<Rightarrow> 'a limited" where
  "lifted r = (case r of Inl e \<Rightarrow> raise e | Inr x \<Rightarrow> ret x)"

text \<open>An answer of the impact role counts as its output only if the schema of the role accepts it.\<close>

definition invoke_live_strands_analysis :: "live_model \<Rightarrow> live_input \<Rightarrow> live_outputs limited" where
  "invoke_live_strands_analysis M v =
     bindE (start_attempt (lm_attempt M)) (\<lambda>_.
     bindE (lifted read_only_role_manifest) (\<lambda>_.
     bindE (invoke_role (lm_clock M ''scope'') True (lm_scope M v)) (\<lambda>preliminary.
     bindE (invoke_role (lm_clock M ''evidence'') True (lm_evidence M v preliminary)) (\<lambda>cited.
     bindE (ret (dedupe_evidence cited)) (\<lambda>evidence.
     bindE (invoke_role (lm_clock M ''impact'') True (lm_impact M v evidence)) (\<lambda>estimated.
     bindE (lifted (normalize_impact estimated)) (\<lambda>impact.
     bindE (invoke_role (lm_clock M ''change_order'') True (lm_change_order M v impact evidence)) (\<lambda>change.
     bindE (invoke_role (lm_clock M ''communication'') True (lm_communication M v change impact)) (\<lambda>communication.
     ret \<lparr>lo_preliminary = preliminary, lo_evidence = evidence, lo_impact = impact, lo_change_order = change,
        lo_communication = communication\<rparr>)))))))))"

section \<open>Budgets and persistence\<close>

text \<open>The settings of \<open>api/config.py\<close> that a live analysis reads; the review time comes with its awareness of a zone.\<close>

record live_settings =
  set_max_cost_minor_per_day :: int
  set_price_version :: string
  set_price_reviewed_at :: "(time \<times> bool) option"
  set_price_max_age_days :: int
  set_input_price_minor_per_1k :: int
  set_output_price_minor_per_1k :: int
  set_bedrock_model_id :: string
  set_tenant_token_limit :: int
  set_deployment_token_limit :: int

record live_budget =
  lb_tenant_reservation_id :: uuid
  lb_deployment_reservation_id :: uuid
  lb_prices :: reviewed_prices
  lb_model_id :: string
  lb_reserved_tokens :: int
  lb_reserved_cost_minor :: int

definition LIVE_POLICY :: string where
  "LIVE_POLICY = ''analysis-policy-v1-live-strands''"

definition live_workflow_key :: "live_input \<Rightarrow> string" where
  "live_workflow_key v = ''request:'' @ uuid_str (lv_request_id v) @ '':v'' @ int_str (lv_request_version v)"

text \<open>The prices of the configured model, reviewed and with a positive ceiling; and the cost of one bounded analysis.\<close>

definition live_prices :: "live_settings \<Rightarrow> exn + reviewed_prices" where
  "live_prices S =
     (case set_price_reviewed_at S of
        None \<Rightarrow> Inl ConflictError
      | Some (reviewed, aware) \<Rightarrow>
          if set_max_cost_minor_per_day S \<le> 0 \<or> set_price_version S = [] \<or> set_input_price_minor_per_1k S \<le> 0 \<or>
             set_output_price_minor_per_1k S \<le> 0 then Inl ConflictError
          else (case model_price_of (set_input_price_minor_per_1k S) (set_output_price_minor_per_1k S) of
              Inl e \<Rightarrow> Inl e
            | Inr price \<Rightarrow> reviewed_prices_of (set_price_version S) reviewed aware [(set_bedrock_model_id S, price)]
                (set_price_max_age_days S)))"

definition live_workflow :: "live_input \<Rightarrow> uuid option \<Rightarrow> workflow_spec" where
  "live_workflow v version =
     \<lparr>ws_workflow_key = live_workflow_key v, ws_input_snapshot = lv_input_snapshot v, ws_project_id = Some (lv_project_id v),
      ws_request_id = Some (lv_request_id v), ws_scope_version_id = version, ws_preference_version_id = None,
      ws_policy_version = LIVE_POLICY, ws_current_phase = ''PREPARATION''\<rparr>"

definition live_reservation :: "live_settings \<Rightarrow> job \<Rightarrow> uuid \<Rightarrow> int \<Rightarrow> string \<Rightarrow> int \<Rightarrow> reservation_request" where
  "live_reservation S j workflow cost suffix token_limit =
     \<lparr>rr_workflow_id = workflow,
      rr_reservation_key = ''analysis:'' @ uuid_str (job_id j) @ '':attempt:'' @ int_str (job_attempt_count j) @ suffix,
      rr_token_amount = 48000, rr_cost_amount_minor = cost, rr_window_start = None, rr_token_limit = token_limit,
      rr_cost_limit_minor = Some (set_max_cost_minor_per_day S), rr_scope_key = None\<rparr>"

definition snapshot_scope :: "(string \<times> pyval) list \<Rightarrow> uuid act" where
  "snapshot_scope d = payload_uuid d ''scope_version_id''"

definition reserve_live_budgets :: "env \<Rightarrow> live_settings \<Rightarrow> live_input \<Rightarrow> job \<Rightarrow> live_budget act" where
  "reserve_live_budgets E S v j =
     bindE (of_result (live_prices S)) (\<lambda>prices.
     bindE the_time (\<lambda>now.
     bindE (of_result (cost_minor prices (set_bedrock_model_id S) 40000 8000 now)) (\<lambda>cost.
     bindE (require (cost \<le> set_max_cost_minor_per_day S) ConflictError) (\<lambda>_.
     bindE (snapshot_scope (lv_input_snapshot v)) (\<lambda>version.
     bindE (create_workflow E (lv_context v) (live_workflow v (Some version))) (\<lambda>w.
     bindE (reserve_analysis_budget (lv_context v)
        (live_reservation S j (wf_id w) cost '':tenant'' (set_tenant_token_limit S))) (\<lambda>tenant.
     bindE (reserve_deployment_budget (lv_context v)
        (live_reservation S j (wf_id w) cost '':deployment'' (set_deployment_token_limit S))) (\<lambda>deployment.
     ret \<lparr>lb_tenant_reservation_id = bres_id tenant, lb_deployment_reservation_id = bres_id deployment, lb_prices = prices,
        lb_model_id = set_bedrock_model_id S, lb_reserved_tokens = 48000, lb_reserved_cost_minor = cost\<rparr>))))))))"

definition settle_one :: "trusted_context \<Rightarrow> int \<Rightarrow> int \<Rightarrow> uuid \<Rightarrow> unit act" where
  "settle_one ctx tokens cost i =
     bindE (gets (\<lambda>s. row_by bres_id i (budget_reservations s))) (\<lambda>found.
     (case found of
        None \<Rightarrow> ret ()
      | Some r \<Rightarrow> perhaps (bres_status r = RESERVED) (reconcile_analysis_budget ctx (bres_id r) tokens cost)))"

definition settled_cost :: "live_budget \<Rightarrow> analysis_usage \<Rightarrow> bool \<Rightarrow> int act" where
  "settled_cost b usage conservative =
     (if conservative then ret (lb_reserved_cost_minor b)
      else bindE the_time (\<lambda>now.
        of_result (cost_minor (lb_prices b) (lb_model_id b) (used_input_tokens usage) (used_output_tokens usage) now)))"

definition settle_live_budgets :: "live_input \<Rightarrow> live_budget \<Rightarrow> analysis_limits \<Rightarrow> bool \<Rightarrow> unit act" where
  "settle_live_budgets v b limits conservative =
     (let usage = usage_snapshot limits; tokens = (if conservative then lb_reserved_tokens b else total_tokens usage) in
      bindE (settled_cost b usage conservative) (\<lambda>cost.
      bindE (settle_one (lv_context v) tokens cost (lb_tenant_reservation_id b)) (\<lambda>_.
      settle_one (lv_context v) tokens cost (lb_deployment_reservation_id b))))"

definition live_analysis :: "live_input \<Rightarrow> live_outputs \<Rightarrow> analysis_input" where
  "live_analysis v out =
     \<lparr>ai_project_id = lv_project_id v, ai_request_id = lv_request_id v, ai_input_snapshot = lv_input_snapshot v,
      ai_preliminary = lo_preliminary out, ai_evidence = Some (lo_evidence out), ai_impact = Some (lo_impact out),
      ai_change_order = Some (lo_change_order out), ai_communication = Some (lo_communication out),
      ai_workflow_key = Some (live_workflow_key v), ai_policy_version = LIVE_POLICY\<rparr>"

definition persist_live_analysis :: "env \<Rightarrow> (string \<Rightarrow> zone option) \<Rightarrow> live_input \<Rightarrow> live_outputs \<Rightarrow> analysis_result act" where
  "persist_live_analysis E zones v out = prepare_analysis E zones (lv_context v) (live_analysis v out)"

section \<open>The job of a live analysis\<close>

definition owned_job :: "string \<Rightarrow> int \<Rightarrow> job \<Rightarrow> bool" where
  "owned_job worker generation j \<longleftrightarrow>
     job_state j = RUNNING \<and> job_lease_owner j = Some worker \<and> job_fencing_generation j = generation"

definition LIVE_LEASE :: int where
  "LIVE_LEASE = seconds (4 * 60)"

text \<open>The first transaction: a lease long enough for the roles, the input and the budgets.\<close>

definition open_live_analysis ::
  "env \<Rightarrow> live_settings \<Rightarrow> uuid \<Rightarrow> string \<Rightarrow> int \<Rightarrow> (live_input \<times> live_budget) act" where
  "open_live_analysis E S i worker generation =
     atomically
       (bindE (get_job i) (\<lambda>found.
        bindE (some_or ConflictError found) (\<lambda>j.
        bindE (require (job_kind j = ''analysis.prepare'' \<and> job_state j = RUNNING) ConflictError) (\<lambda>_.
        bindE (require (owned_job worker generation j) ConflictError) (\<lambda>_.
        bindE the_time (\<lambda>now.
        bindE (put_job i (\<lambda>j. j\<lparr>job_lease_until := Some (now + LIVE_LEASE)\<rparr>)) (\<lambda>_.
        bindE (prepare_live_analysis_input E j) (\<lambda>v.
        bindE (reserve_live_budgets E S v j) (\<lambda>b.
        ret (v, b))))))))))"

text \<open>The last transaction: what was used, the analysis, and the job done.\<close>

definition close_live_analysis ::
  "env \<Rightarrow> (string \<Rightarrow> zone option) \<Rightarrow> uuid \<Rightarrow> string \<Rightarrow> int \<Rightarrow> live_input \<Rightarrow> live_budget \<Rightarrow> analysis_limits \<Rightarrow> live_outputs \<Rightarrow> analysis_result act" where
  "close_live_analysis E zones i worker generation v b limits outputs =
     atomically
       (bindE (get_job i) (\<lambda>found.
        bindE (some_or ConflictError found) (\<lambda>j.
        bindE (require (owned_job worker generation j) ConflictError) (\<lambda>_.
        bindE (settle_live_budgets v b limits False) (\<lambda>_.
        bindE (persist_live_analysis E zones v outputs) (\<lambda>result.
        bindE (complete_job i worker generation None) (\<lambda>_.
        ret result)))))))"

text \<open>
  After an exception: the reservations are settled at their full amount and the job fails, in one transaction
  that commits only when the worker still owns the job.
\<close>

definition abandon_live_analysis ::
  "uuid \<Rightarrow> string \<Rightarrow> int \<Rightarrow> (live_input \<times> live_budget) option \<Rightarrow> analysis_limits \<Rightarrow> exn \<Rightarrow> unit act" where
  "abandon_live_analysis i worker generation opened limits err s =
     (case bindE (case opened of None \<Rightarrow> ret () | Some (v, b) \<Rightarrow> settle_live_budgets v b limits True) (\<lambda>_.
           bindE (get_job i) (\<lambda>found.
           (case found of
              None \<Rightarrow> ret False
            | Some j \<Rightarrow>
                if owned_job worker generation j
                then bindE (fail_job i worker generation err (job_attempt_count j < job_max_attempts j) None) (\<lambda>_. ret True)
                else ret False))) s of
        (Inl e, _) \<Rightarrow> (Inl e, s)
      | (Inr committed, s') \<Rightarrow> (Inr (), if committed then s' else s))"

definition fail_live_analysis ::
  "uuid \<Rightarrow> string \<Rightarrow> int \<Rightarrow> (live_input \<times> live_budget) option \<Rightarrow> analysis_limits \<Rightarrow> exn \<Rightarrow> 'a act" where
  "fail_live_analysis i worker generation opened limits err =
     bindE (abandon_live_analysis i worker generation opened limits err) (\<lambda>_. raise err)"

text \<open>\<open>meanwhile\<close>: what other sessions commit while the roles run.\<close>

definition execute_live_analysis_job ::
  "env \<Rightarrow> (string \<Rightarrow> zone option) \<Rightarrow> live_settings \<Rightarrow> live_model \<Rightarrow> (db \<Rightarrow> db) \<Rightarrow> uuid \<Rightarrow> string \<Rightarrow> int \<Rightarrow> analysis_result act" where
  "execute_live_analysis_job E zones S M meanwhile i worker generation =
     bindE (of_result (limits_of (lm_started M) default_limits)) (\<lambda>limits s.
     (case open_live_analysis E S i worker generation s of
        (Inl e, s1) \<Rightarrow> fail_live_analysis i worker generation None limits e s1
      | (Inr (v, b), s1) \<Rightarrow>
          (case invoke_live_strands_analysis M v limits of
             (Inl e, used) \<Rightarrow> fail_live_analysis i worker generation (Some (v, b)) used e (meanwhile s1)
           | (Inr outputs, used) \<Rightarrow>
               (case close_live_analysis E zones i worker generation v b used outputs (meanwhile s1) of
                  (Inl e, s3) \<Rightarrow> fail_live_analysis i worker generation (Some (v, b)) used e s3
                | (Inr result, s3) \<Rightarrow> (Inr result, s3)))))"

end
