(* ===== verification/Workers.thy ===== *)
theory Workers
  imports Mailbox Live Delivery Payments
begin

text \<open>
  The worker processes: the handlers that execute a claimed job (\<open>services/workers/handlers.py\<close>), the recovery
  sweep (\<open>services/workers/recovery.py\<close>) and the scheduled entry point that runs both
  (\<open>services/workers/lambda_handler.py\<close>).
\<close>

section \<open>Executing a claimed job\<close>

text \<open>What the handlers reach outside the database while one job runs.\<close>

record worker_services =
  wk_env :: env
  wk_zones :: "string \<Rightarrow> zone option"
  wk_payments :: "exn + payment_provider"
  wk_gmail :: gmail_config
  wk_ses :: ses_config
  wk_live_settings :: live_settings
  wk_model :: live_model
  wk_meanwhile :: "db \<Rightarrow> db"

definition job_connection :: "uuid \<Rightarrow> uuid \<Rightarrow> db \<Rightarrow> integration_connection option" where
  "job_connection i tenant s = find (\<lambda>c. gconn_id c = i \<and> gconn_tenant_id c = tenant) (integration_connections s)"

definition job_gmail_context :: "uuid \<Rightarrow> uuid \<Rightarrow> trusted_context act" where
  "job_gmail_context i tenant =
     bindE (gets (job_connection i tenant)) (\<lambda>found. bindE (some_or ValueError found) gmail_context)"

definition action_of_job :: "job \<Rightarrow> uuid \<Rightarrow> string \<Rightarrow> string \<Rightarrow> db \<Rightarrow> external_action option" where
  "action_of_job j i provider operation s =
     find (\<lambda>a. act_id a = i \<and> act_tenant_id a = job_tenant_id j \<and> act_provider a = provider \<and> act_operation a = operation)
       (external_actions s)"

definition action_for_job :: "job \<Rightarrow> string \<Rightarrow> string \<Rightarrow> external_action act" where
  "action_for_job j provider operation =
     bindE (payload_uuid (job_payload_ref j) ''action_id'') (\<lambda>i.
     bindE (gets (action_of_job j i provider operation)) (\<lambda>found.
     bindE (some_or ValueError found) (\<lambda>a.
     bindE (require (job_project_id j = None \<or> act_project_id a = job_project_id j) ValueError) (\<lambda>_.
     ret a))))"

text \<open>\<open>str(payload[k]) if payload.get(k) else None\<close>.\<close>

definition optional_text :: "(string \<times> pyval) list \<Rightarrow> string \<Rightarrow> string option" where
  "optional_text d k = (if truthy (dict_get d k) then Some (py_str (dict_get d k)) else None)"

definition starting_cursor :: "(string \<times> pyval) list \<Rightarrow> integration_connection option \<Rightarrow> string" where
  "starting_cursor payload c =
     (case optional_text payload ''history_id'' of
        Some h \<Rightarrow> h
      | None \<Rightarrow> (case c of None \<Rightarrow> [] | Some r \<Rightarrow> (case gconn_committed_history_id r of None \<Rightarrow> [] | Some h \<Rightarrow> h)))"

definition run_history_sync :: "worker_services \<Rightarrow> job \<Rightarrow> unit act" where
  "run_history_sync W j =
     bindE (payload_uuid (job_payload_ref j) ''connection_id'') (\<lambda>i.
     bindE (job_gmail_context i (job_tenant_id j)) (\<lambda>ctx.
     bindE (gets (\<lambda>s. row_by gconn_id i (integration_connections s))) (\<lambda>c.
     bindE (require (starting_cursor (job_payload_ref j) c \<noteq> []) ValueError) (\<lambda>_.
     bindE (sync_gmail_history_page (wk_env W) (wk_gmail W) ctx i (starting_cursor (job_payload_ref j) c)
        (optional_text (job_payload_ref j) ''page_token'') None) (\<lambda>page.
     (case hp_next_page_token page of
        None \<Rightarrow> ret ()
      | Some token \<Rightarrow>
          bindE (enqueue_job (job_tenant_id j) (job_kind j) (dict_set (job_payload_ref j) ''page_token'' (PStr token))
             (job_correlation_id j) (job_project_id j) None None DEFAULT_MAX_ATTEMPTS (Some (job_id j)) []) (\<lambda>_. ret ())))))))"

definition run_connection_job ::
  "job \<Rightarrow> (trusted_context \<Rightarrow> uuid \<Rightarrow> 'a act) \<Rightarrow> unit act" where
  "run_connection_job j step =
     bindE (payload_uuid (job_payload_ref j) ''connection_id'') (\<lambda>i.
     bindE (job_gmail_context i (job_tenant_id j)) (\<lambda>ctx.
     bindE (step ctx i) (\<lambda>_. ret ())))"

definition payment_context :: "job \<Rightarrow> trusted_context" where
  "payment_context j = \<lparr>ctx_tenant_id = job_tenant_id j, ctx_subject = ''worker'', ctx_email = [], ctx_email_verified = True,
     ctx_correlation_id = job_correlation_id j\<rparr>"

definition run_payload_job :: "worker_services \<Rightarrow> job \<Rightarrow> unit act" where
  "run_payload_job W j =
     (let E = wk_env W; G = wk_gmail W; payload = job_payload_ref j in
      if job_kind j = ''payment.webhook.normalize'' then
        bindE (payload_uuid payload ''ingress_id'') (\<lambda>i.
        bindE (normalize_payment_webhook E i (Some (job_tenant_id j))) (\<lambda>_. ret ()))
      else if job_kind j = ''payment.create'' then
        bindE (action_for_job j ''razorpay'' ''create_payment_link'') (\<lambda>a.
        bindE (dispatch_payment_link (wk_payments W) (act_id a)) (\<lambda>_. ret ()))
      else if job_kind j = ''payment.reconcile'' then
        bindE (payload_uuid payload ''payment_request_id'') (\<lambda>i.
        bindE (reconcile_payment_request E (wk_payments W) (payment_context j) i) (\<lambda>_. ret ()))
      else if job_kind j = ''change_order.send'' then
        bindE (action_for_job j ''gmail'' ''send'') (\<lambda>a. bindE (dispatch_gmail_send E G (act_id a)) (\<lambda>_. ret ()))
      else if job_kind j = ''notification.send'' then
        bindE (action_for_job j ''ses'' ''send_change_order'') (\<lambda>a.
        bindE (dispatch_ses_notification E (wk_ses W) (act_id a)) (\<lambda>_. ret ()))
      else if job_kind j = ''gmail.history_sync'' then run_history_sync W j
      else if job_kind j = ''gmail.initial_backfill'' then
        run_connection_job j (\<lambda>ctx i. run_gmail_initial_backfill_page E G ctx i (optional_text payload ''page_token'') None)
      else if job_kind j = ''gmail.watch_stop'' then run_connection_job j (stop_gmail_watch E G)
      else if job_kind j = ''gmail.watch_renew'' then run_connection_job j (start_gmail_watch E G)
      else raise ValueError)"

definition retryable_failure :: "exn \<Rightarrow> bool" where
  "retryable_failure e \<longleftrightarrow> e = GmailProviderRetryable \<or> e = SesProviderRetryable"

text \<open>
  A rollback restores the tables; the clock, the identifiers and tokens drawn and the calls made to
  providers are not undone.
\<close>

definition rolled_back :: "db \<Rightarrow> db \<Rightarrow> db" where
  "rolled_back s t = s\<lparr>clock := clock t, next_uuid := next_uuid t, next_token := next_token t, exchanges := exchanges t\<rparr>"

text \<open>
  The handler may have changed rows before it raised; nothing undoes them here. A flush that fails is different: the
  database rolls back what the session has done since it was opened, just before this function, and every further
  statement of the session raises \<open>PendingRollbackError\<close>, the first one of \<open>fail_job\<close> included.
\<close>

definition flush_failed :: "exn \<Rightarrow> bool" where
  "flush_failed e \<longleftrightarrow> e = IntegrityError \<or> e = PendingRollbackError"

definition execute_claimed_job :: "worker_services \<Rightarrow> uuid \<Rightarrow> string \<Rightarrow> int \<Rightarrow> unit act" where
  "execute_claimed_job W i worker generation =
     bindE (gets (\<lambda>s. s)) (\<lambda>opened.
     bindE (get_job i) (\<lambda>found.
     bindE (some_or ValueError found) (\<lambda>j.
     bindE (require (owned_job worker generation j) ValueError) (\<lambda>_.
     bindE (catchE (run_payload_job W j)
        (\<lambda>e. if flush_failed e then bindE (modify (rolled_back opened)) (\<lambda>_. raise PendingRollbackError)
           else bindE (fail_job (job_id j) worker generation e (retryable_failure e) None) (\<lambda>_. raise e))) (\<lambda>_.
     complete_job (job_id j) worker generation None)))))"

section \<open>The recovery sweep\<close>

record recovery_sweep_result =
  rsw_recovered_jobs :: nat
  rsw_recovery_wakeups :: nat
  rsw_orphaned_actions :: nat
  rsw_published_events :: nat
  rsw_failed_publications :: nat
  rsw_gmail_maintenance_jobs :: nat
  rsw_payment_maintenance_jobs :: nat
  rsw_payment_webhooks_normalized :: nat

text \<open>The sweep up to its commit: recovered jobs, wake-ups, orphaned actions, and the maintenance counts.\<close>

definition sweep_work :: "env \<Rightarrow> time option \<Rightarrow> recovery_sweep_result act" where
  "sweep_work E now =
     bindE (recover_expired_jobs now) (\<lambda>recovered.
     bindE (schedule_gmail_maintenance now) (\<lambda>maintenance.
     bindE (schedule_payment_maintenance now 100) (\<lambda>payment_maintenance.
     bindE (normalize_pending_payment_webhooks E 100) (\<lambda>normalized.
     bindE (replay_unmatched_payment_observations now 100) (\<lambda>_.
     bindE (discover_lost_wakeups now) (\<lambda>wakeups.
     bindE (recover_orphaned_actions now) (\<lambda>orphaned.
     ret \<lparr>rsw_recovered_jobs = recovered, rsw_recovery_wakeups = wakeups, rsw_orphaned_actions = orphaned,
        rsw_published_events = 0, rsw_failed_publications = 0, rsw_gmail_maintenance_jobs = maintenance,
        rsw_payment_maintenance_jobs = payment_maintenance, rsw_payment_webhooks_normalized = normalized\<rparr>)))))))"

text \<open>The session of the sweep is its own: what a step that raises leaves is never committed.\<close>

definition run_recovery_sweep ::
  "env \<Rightarrow> (outbox_event \<Rightarrow> exn option) \<Rightarrow> time option \<Rightarrow> recovery_sweep_result act" where
  "run_recovery_sweep E publish now =
     bindE (atomically (sweep_work E now)) (\<lambda>r.
     bindE (publish_outbox publish 100 now []) (\<lambda>(published, failures).
     ret (r\<lparr>rsw_published_events := published, rsw_failed_publications := failures\<rparr>)))"

section \<open>The scheduled entry point\<close>

definition MAX_JOBS_PER_INVOCATION :: nat where
  "MAX_JOBS_PER_INVOCATION = 25"

definition CLAIM_BATCH_SIZE :: nat where
  "CLAIM_BATCH_SIZE = 5"

text \<open>An entry of the event bus; \<open>put_events\<close> is the client, which answers with the number of refused entries.\<close>

record bus_entry =
  bus_source :: string
  bus_detail_type :: string
  bus_detail :: "(string \<times> pyval) list"
  bus_name :: string

definition bus_entry_of :: "string \<Rightarrow> outbox_event \<Rightarrow> bus_entry" where
  "bus_entry_of name e =
     \<lparr>bus_source = ''scopeguard'', bus_detail_type = ob_event_type e,
      bus_detail = [(''event_id'', PStr (uuid_str (ob_id e))), (''tenant_id'', PStr (uuid_str (ob_tenant_id e))),
        (''aggregate_type'', PStr (ob_aggregate_type e)), (''aggregate_id'', PStr (ob_aggregate_id e)),
        (''payload'', PDict (ob_payload e))],
      bus_name = name\<rparr>"

definition publish_outbox_event :: "string \<Rightarrow> (bus_entry \<Rightarrow> exn + int) \<Rightarrow> outbox_event \<Rightarrow> exn option" where
  "publish_outbox_event setting put_events e =
     (if strip setting = [] then None
      else (case put_events (bus_entry_of (strip setting) e) of
          Inl x \<Rightarrow> Some x
        | Inr refused \<Rightarrow> if refused \<noteq> 0 then Some RuntimeError else None))"

type_synonym lease = "uuid \<times> int \<times> string"

text \<open>
  One leased job, in its own session; a failure is counted and what the handler left is committed. The commit that
  follows a failed flush raises too, out of the \<open>except\<close> branch and so out of the whole invocation.
\<close>

definition work_lease :: "worker_services \<Rightarrow> string \<Rightarrow> lease \<Rightarrow> bool act" where
  "work_lease W worker l =
     (case l of (i, generation, kind) \<Rightarrow>
        if kind = ''analysis.prepare''
        then catchE (bindE (execute_live_analysis_job (wk_env W) (wk_zones W) (wk_live_settings W) (wk_model W) (wk_meanwhile W)
               i worker generation) (\<lambda>_. ret True)) (\<lambda>_. ret False)
        else catchE (bindE (execute_claimed_job W i worker generation) (\<lambda>_. ret True))
          (\<lambda>e. if e = PendingRollbackError then raise e else ret False))"

definition claim_leases :: "string \<Rightarrow> nat \<Rightarrow> (lease list) act" where
  "claim_leases worker limit =
     atomically (bindE (claim_jobs worker (int limit) None []) (\<lambda>claimed.
       ret (map (\<lambda>j. (job_id j, job_fencing_generation j, job_kind j)) claimed)))"

definition counted :: "bool list \<Rightarrow> nat \<times> nat \<Rightarrow> nat \<times> nat" where
  "counted outcomes n = (fst n + length (filter id outcomes), snd n + length (filter Not outcomes))"

text \<open>Batches until none is left or the invocation has had its 25 jobs; every batch counts at least one.\<close>

primrec work_batches :: "nat \<Rightarrow> (lease \<Rightarrow> worker_services) \<Rightarrow> string \<Rightarrow> nat \<times> nat \<Rightarrow> (nat \<times> nat) act" where
  "work_batches 0 services worker n = ret n"
| "work_batches (Suc fuel) services worker n =
     (if fst n + snd n < MAX_JOBS_PER_INVOCATION
      then bindE (claim_leases worker (min CLAIM_BATCH_SIZE (MAX_JOBS_PER_INVOCATION - fst n - snd n))) (\<lambda>leases.
        if leases = [] then ret n
        else bindE (mapE (\<lambda>l. work_lease (services l) worker l) leases) (\<lambda>outcomes.
          work_batches fuel services worker (counted outcomes n)))
      else ret n)"

record invocation_result =
  inv_processed_jobs :: nat
  inv_failed_jobs :: nat
  inv_sweep :: recovery_sweep_result

definition lambda_handler ::
  "env \<Rightarrow> string \<Rightarrow> (bus_entry \<Rightarrow> exn + int) \<Rightarrow> (lease \<Rightarrow> worker_services) \<Rightarrow> string \<Rightarrow> invocation_result act" where
  "lambda_handler E setting put_events services request_id =
     (let worker = ''lambda:'' @ request_id in
      bindE (run_recovery_sweep E (publish_outbox_event setting put_events) None) (\<lambda>sweep.
      bindE (work_batches MAX_JOBS_PER_INVOCATION services worker (0, 0)) (\<lambda>(processed, failures).
      ret \<lparr>inv_processed_jobs = processed, inv_failed_jobs = failures, inv_sweep = sweep\<rparr>)))"

end
