(* ===== verification/Live_Safety.thy ===== *)
theory Live_Safety
  imports Live Analysis_Safety Budgets
begin

text \<open>
  What a live analysis does to its workflow and its budgets: the workflow is registered under the digest of the
  whole snapshot, and looked up again under the digest of the snapshot without its evidence.
\<close>

section \<open>Canonical texts of dictionaries\<close>

definition entry_length :: "string \<times> string \<Rightarrow> nat" where
  "entry_length kv = length (json_str (fst kv)) + 1 + length (snd kv)"

lemma join_length: "length (join sep ts) = sum_list (map length ts) + length sep * (length ts - 1)"
  by (induction sep ts rule: join.induct) simp_all

lemma sum_list_sort_key: "sum_list (map f (sort_key k xs)) = (sum_list (map f xs) :: nat)"
  by (metis mset_map mset_sort sum_mset_sum_list)

lemma dumps_length: "length (dumps (PDict d)) =
    2 + sum_list (map (\<lambda>kv. entry_length (fst kv, dumps (snd kv))) d) + (length d - 1)"
proof -
  let ?es = "map (\<lambda>kv. (fst kv, dumps (snd kv))) d"
  have "length (dumps (PDict d)) = 2 + sum_list (map entry_length (sort_key fst ?es)) + (length d - 1)"
    by (simp add: join_length entry_length_def [abs_def] comp_def)
  then show ?thesis by (simp add: sum_list_sort_key comp_def)
qed

lemma dumps_filter_shorter:
  assumes "\<exists>kv\<in>set d. \<not> P (fst kv)"
  shows "length (dumps (PDict (filter (\<lambda>kv. P (fst kv)) d))) < length (dumps (PDict d))"
proof -
  let ?f = "\<lambda>kv. entry_length (fst kv, dumps (snd kv))"
  have "sum_list (map ?f (filter (\<lambda>kv. P (fst kv)) d)) + sum_list (map ?f (filter (\<lambda>kv. \<not> P (fst kv)) d)) = sum_list (map ?f d)"
    by (induction d) auto
  moreover have "length (filter (\<lambda>kv. \<not> P (fst kv)) d) > 0" using assms by (auto simp: filter_empty_conv)
  then obtain x xs where "filter (\<lambda>kv. \<not> P (fst kv)) d = x # xs" by (cases "filter (\<lambda>kv. \<not> P (fst kv)) d") auto
  then have "0 < sum_list (map ?f (filter (\<lambda>kv. \<not> P (fst kv)) d))" by (simp add: entry_length_def json_str_def)
  moreover have "length (filter (\<lambda>kv. P (fst kv)) d) \<le> length d" by simp
  ultimately show ?thesis unfolding dumps_length by linarith
qed

lemma sequence_keys:
  assumes "sequence (map (\<lambda>kv. sum_map (Pair (fst kv)) (f (snd kv))) d) = Inr d'"
  shows "sequence (map (\<lambda>kv. sum_map (Pair (fst kv)) (f (snd kv))) (filter (\<lambda>kv. P (fst kv)) d)) = Inr (filter (\<lambda>kv. P (fst kv)) d')
    \<and> map fst d' = map fst d"
  using assms
proof (induction d arbitrary: d')
  case Nil
  then show ?case by simp
next
  case (Cons kv d)
  then obtain y ys where "f (snd kv) = Inr y" "sequence (map (\<lambda>kv. sum_map (Pair (fst kv)) (f (snd kv))) d) = Inr ys"
    "d' = (fst kv, y) # ys"
    by (cases "f (snd kv)") (auto split: sum.splits)
  with Cons.IH [of ys] show ?case by simp
qed

text \<open>Leaving a key out of a dictionary changes its digest.\<close>

lemma digest_without_key:
  assumes inj: "inj h" and full: "canonical_sha256 h (PDict d) = Inr x" and key: "k \<in> fst ` set d"
  shows "\<exists>y. canonical_sha256 h (PDict (filter (\<lambda>kv. fst kv \<noteq> k) d)) = Inr y \<and> y \<noteq> x"
proof -
  from full obtain d' where d': "sequence (map (\<lambda>kv. sum_map (Pair (fst kv)) (normalize_value (snd kv))) d) = Inr d'"
    and x: "x = h (dumps (PDict d'))"
    by (auto simp: canonical_sha256_def canonical_json_def sum_map_eq_Inr)
  let ?e = "filter (\<lambda>kv. fst kv \<noteq> k) d'"
  from sequence_keys [OF d', of "\<lambda>a. a \<noteq> k"]
  have "canonical_sha256 h (PDict (filter (\<lambda>kv. fst kv \<noteq> k) d)) = Inr (h (dumps (PDict ?e)))" and keys: "map fst d' = map fst d"
    by (simp_all add: canonical_sha256_def canonical_json_def)
  moreover have "k \<in> fst ` set d'" using key keys by (metis list.set_map)
  then have "length (dumps (PDict ?e)) < length (dumps (PDict d'))"
    by (intro dumps_filter_shorter [where P = "\<lambda>a. a \<noteq> k"]) auto
  then have "dumps (PDict ?e) \<noteq> dumps (PDict d')" by (auto simp del: dumps.simps)
  then have "h (dumps (PDict ?e)) \<noteq> x" unfolding x using inj by (auto dest: injD simp del: dumps.simps)
  ultimately show ?thesis by blast
qed

section \<open>The workflow of an analysis\<close>

text \<open>The tenant's workflow under a key, with the digest it was registered with.\<close>

definition registered :: "uuid \<Rightarrow> string \<Rightarrow> db \<Rightarrow> string option" where
  "registered tenant key s =
     map_option wf_input_digest (find (\<lambda>r. wf_tenant_id r = tenant \<and> wf_workflow_key r = key) (workflow_instances s))"

interpretation workflow_frame: state_frame workflow_instances .

abbreviation workflows_same :: "db \<Rightarrow> db \<Rightarrow> bool" where
  "workflows_same \<equiv> (\<lambda>s t. workflow_instances t = workflow_instances s)"

lemma workflow_frame_steps:
  "evolves workflows_same fresh_uuid" "evolves workflows_same the_time" "evolves workflows_same (digest_of E v)"
  "evolves workflows_same (put_window i fw)" "evolves workflows_same (add_window w)" "evolves workflows_same (add_reservation r)"
  "evolves workflows_same (put_reservation i fr)" "evolves workflows_same (put_job i fj)" "evolves workflows_same (get_job i)"
  by (rule evolvesI;
      simp add: run_digest_of run_add_row put_window_def add_window_def add_reservation_def put_reservation_def put_job_def get_job_def split: sum.split)+

lemmas workflow_steps0 = workflow_frame.evolve_rules workflow_frame_steps

lemma workflow_frame_open: "evolves workflows_same (open_window ctx scope day tokens cost)"
  unfolding open_window_def by (intro workflow_steps0)

lemma workflow_frame_budgets:
  "evolves workflows_same (get_workflow ctx i)" "evolves workflows_same (of_result x)"
  "evolves workflows_same (reserve_analysis_budget ctx q)" "evolves workflows_same (reconcile_analysis_budget ctx i t c)"
  unfolding get_workflow_def of_result_def reserve_analysis_budget_def reconcile_analysis_budget_def charge_window_def current_window_def
  by (intro workflow_steps0 workflow_frame_open)+

lemma workflow_frame_live:
  "evolves workflows_same (reserve_deployment_budget ctx q)" "evolves workflows_same (settle_live_budgets v b limits c)"
  unfolding reserve_deployment_budget_def settle_live_budgets_def settled_cost_def settle_one_def Let_def
  by (intro workflow_steps0 workflow_frame_budgets)+

lemmas workflows_kept = evolves_run [where R = workflows_same]

lemma create_workflow_registers:
  assumes "create_workflow E ctx w s = (Inr r, t)"
  shows "\<exists>digest. canonical_sha256 (sha256 E) (PDict (ws_input_snapshot w)) = Inr digest \<and>
     registered (ctx_tenant_id ctx) (ws_workflow_key w) t = Some digest"
proof -
  let ?P = "\<lambda>r. wf_tenant_id r = ctx_tenant_id ctx \<and> wf_workflow_key r = ws_workflow_key w"
  from assms obtain digest s1 where d: "canonical_sha256 (sha256 E) (PDict (ws_input_snapshot w)) = Inr digest"
    and rest: "(case find ?P (workflow_instances s1) of
        Some q \<Rightarrow> bindE (require (wf_input_digest q = digest) ConflictError) (\<lambda>_. ret q)
      | None \<Rightarrow> new_workflow ctx w digest) s1 = (Inr r, t)"
    unfolding create_workflow_def by (elim bindE_InrE) (auto simp: run_digest_of returning split: sum.splits)
  show ?thesis
  proof (cases "find ?P (workflow_instances s1)")
    case (Some q)
    with rest have "wf_input_digest q = digest" "t = s1" by (auto simp: run_bindE require_def split: if_splits)
    with d Some show ?thesis by (simp add: registered_def)
  next
    case None
    with rest have new: "new_workflow ctx w digest s1 = (Inr r, t)" by simp
    then obtain q where "workflow_instances t = workflow_instances s1 @ [q]" "?P q" "wf_input_digest q = digest"
      unfolding new_workflow_def by (auto simp: run_bindE add_workflow_def run_add_row split: if_splits)
    moreover from this None have "find ?P (workflow_instances t) = Some q" by (simp add: find_append)
    ultimately show ?thesis using d by (simp add: registered_def)
  qed
qed

lemma create_workflow_refused:
  assumes "registered (ctx_tenant_id ctx) (ws_workflow_key w) s = Some old"
    and "canonical_sha256 (sha256 E) (PDict (ws_input_snapshot w)) = Inr digest" and "digest \<noteq> old"
  shows "\<exists>e. create_workflow E ctx w s = (Inl e, s)"
proof -
  obtain q where "find (\<lambda>r. wf_tenant_id r = ctx_tenant_id ctx \<and> wf_workflow_key r = ws_workflow_key w) (workflow_instances s) = Some q"
    "wf_input_digest q = old"
    using assms(1) by (auto simp: registered_def)
  with assms(2,3) show ?thesis
    by (auto simp: create_workflow_def check_project_def run_bindE run_digest_of require_def get_project_def some_or_def
        split: option.split)
qed

lemma prepared_snapshot:
  assumes "prepare_live_analysis_input E j s = (Inr v, t)"
  shows "''evidence_reference_ids'' \<in> fst ` set (lv_input_snapshot v)"
  using assms unfolding prepare_live_analysis_input_def by (elim bindE_InrE) (auto simp: input_snapshot_of_def)

lemma reserve_live_registers:
  assumes "reserve_live_budgets E S v j s = (Inr b, t)"
  shows "\<exists>digest. canonical_sha256 (sha256 E) (PDict (lv_input_snapshot v)) = Inr digest \<and>
     registered (ctx_tenant_id (lv_context v)) (live_workflow_key v) t = Some digest"
  using assms unfolding reserve_live_budgets_def
proof (elim bindE_InrE, goal_cases)
  case prems: (1 prices s1 now s2 cost s3 u s4 version s5 w s6 tenant s7 deployment s8)
  from create_workflow_registers [OF prems(6)]
  have "\<exists>digest. canonical_sha256 (sha256 E) (PDict (lv_input_snapshot v)) = Inr digest \<and>
     registered (ctx_tenant_id (lv_context v)) (live_workflow_key v) s6 = Some digest"
    by (simp add: live_workflow_def)
  moreover have "workflow_instances t = workflow_instances s6"
    using prems(7-9) workflows_kept [OF workflow_frame_budgets(3)] workflows_kept [OF workflow_frame_live(1)] by (auto simp: gets_run)
  ultimately show ?case by (simp add: registered_def)
qed

text \<open>What the first transaction of a live analysis leaves for the last one.\<close>

definition opened :: "env \<Rightarrow> live_input \<Rightarrow> db \<Rightarrow> bool" where
  "opened E v s \<longleftrightarrow> ''evidence_reference_ids'' \<in> fst ` set (lv_input_snapshot v) \<and>
     (\<exists>digest. canonical_sha256 (sha256 E) (PDict (lv_input_snapshot v)) = Inr digest \<and>
        registered (ctx_tenant_id (lv_context v)) (live_workflow_key v) s = Some digest)"

lemma opened_same: "workflow_instances t = workflow_instances s \<Longrightarrow> opened E v t = opened E v s"
  by (simp add: opened_def registered_def)

lemma open_live_opened:
  assumes "open_live_analysis E S i worker generation s = (Inr (v, b), t)"
  shows "opened E v t"
proof -
  from assms obtain j s1 s2 where p: "prepare_live_analysis_input E j s1 = (Inr v, s2)" and r: "reserve_live_budgets E S v j s2 = (Inr b, t)"
    unfolding open_live_analysis_def
    by (auto simp: run_atomically elim!: bindE_InrE split: prod.splits sum.splits)
  from prepared_snapshot [OF p] reserve_live_registers [OF r] show ?thesis by (simp add: opened_def)
qed

lemma persist_refused:
  assumes "opened E v s" and "inj (sha256 E)"
  shows "\<exists>e t. persist_live_analysis E zones v out s = (Inl e, t)"
proof -
  from assms(1) obtain old where full: "canonical_sha256 (sha256 E) (PDict (lv_input_snapshot v)) = Inr old"
    and reg: "registered (ctx_tenant_id (lv_context v)) (live_workflow_key v) s = Some old"
    and key: "''evidence_reference_ids'' \<in> fst ` set (lv_input_snapshot v)"
    by (auto simp: opened_def)
  from digest_without_key [OF assms(2) full key] obtain digest where
    d: "canonical_sha256 (sha256 E) (PDict (filter (\<lambda>kv. fst kv \<noteq> ''evidence_reference_ids'') (lv_input_snapshot v))) = Inr digest"
    and "digest \<noteq> old" by auto
  then have "\<exists>e. prepare_workflow E (lv_context v) (live_analysis v out) request s = (Inl e, s)" for request
    unfolding prepare_workflow_def
    using reg by (intro create_workflow_refused) (auto simp: live_analysis_def workflow_key_of_def live_workflow_key_def)
  then show ?thesis
    unfolding persist_live_analysis_def prepare_analysis_def
    by (auto simp: run_bindE some_or_def split: option.split) (metis prod.case sum.case(1))
qed

lemma close_refused:
  assumes "opened E v s" and "inj (sha256 E)"
  shows "\<exists>e t. close_live_analysis E zones i worker generation v b limits out s = (Inl e, t)"
proof (rule ccontr)
  assume "\<nexists>e t. close_live_analysis E zones i worker generation v b limits out s = (Inl e, t)"
  then obtain result t where "close_live_analysis E zones i worker generation v b limits out s = (Inr result, t)"
    by (metis (no_types) old.prod.exhaust old.sum.exhaust)
  then obtain j s1 s2 s3 u s4 r where got: "get_job i s = (Inr j, s1)" and settled: "settle_live_budgets v b limits False s1 = (Inr u, s3)"
    and persisted: "persist_live_analysis E zones v out s3 = (Inr r, s4)"
    unfolding close_live_analysis_def
    by (auto simp: run_atomically returning elim!: bindE_InrE split: prod.splits sum.splits)
  have "workflow_instances s3 = workflow_instances s1"
    by (rule workflows_kept [OF workflow_frame_live(2) settled])
  moreover have "workflow_instances s1 = workflow_instances s"
    by (rule workflows_kept [OF workflow_frame_steps(9) got])
  ultimately have "workflow_instances s3 = workflow_instances s" by simp
  then have "opened E v s3 = opened E v s" by (rule opened_same)
  with assms(1) have "opened E v s3" by simp
  from persist_refused [OF this assms(2), of zones out] persisted show False by auto
qed

lemma fail_live_raises: "\<exists>e t. fail_live_analysis i worker generation found limits err s = (Inl e, t)"
  by (cases "abandon_live_analysis i worker generation found limits err s"; cases "fst (abandon_live_analysis i worker generation found limits err s)")
    (auto simp: fail_live_analysis_def run_bindE)

text \<open>C34: No live analysis ever returns a result. The first transaction registers the workflow of the request under
the digest of the whole input snapshot; the last one looks the same key up under the digest of the snapshot without
\<open>evidence_reference_ids\<close> and raises \<open>ConflictError\<close>. So, whatever the model service answers and whatever other
sessions commit while it answers, as long as they keep the registered workflows, every run of the job raises.\<close>

theorem live_analysis_never_returns:
  assumes "inj (sha256 E)"
    and "\<And>s tenant key digest. registered tenant key s = Some digest \<Longrightarrow> registered tenant key (meanwhile s) = Some digest"
  shows "\<exists>e t. execute_live_analysis_job E zones S M meanwhile i worker generation s = (Inl e, t)"
proof -
  have kept: "opened E v (meanwhile s1)" if "opened E v s1" for v s1
    using that assms(2) by (auto simp: opened_def)
  have "\<exists>e t. bindE (ret limits) (\<lambda>limits s. case open_live_analysis E S i worker generation s of
        (Inl e, s1) \<Rightarrow> fail_live_analysis i worker generation None limits e s1
      | (Inr (v, b), s1) \<Rightarrow>
          (case invoke_live_strands_analysis M v limits of
             (Inl e, used) \<Rightarrow> fail_live_analysis i worker generation (Some (v, b)) used e (meanwhile s1)
           | (Inr outputs, used) \<Rightarrow>
               (case close_live_analysis E zones i worker generation v b used outputs (meanwhile s1) of
                  (Inl e, s3) \<Rightarrow> fail_live_analysis i worker generation (Some (v, b)) used e s3
                | (Inr result, s3) \<Rightarrow> (Inr result, s3)))) s = (Inl e, t :: db)" for limits
  proof (cases "open_live_analysis E S i worker generation s")
    case (Pair r s1)
    show ?thesis
    proof (cases r)
      case (Inl e)
      with Pair show ?thesis by (simp add: fail_live_raises)
    next
      case (Inr vb)
      obtain v b where vb: "vb = (v, b)" by (cases vb)
      with Pair Inr have "opened E v (meanwhile s1)" by (auto intro: kept open_live_opened)
      from close_refused [OF this assms(1)]
      have "\<exists>e t. close_live_analysis E zones i worker generation v b used out (meanwhile s1) = (Inl e, t)" for used out .
      with Pair Inr vb show ?thesis
        by (cases "invoke_live_strands_analysis M v limits"; cases "fst (invoke_live_strands_analysis M v limits)")
          (auto simp: fail_live_raises split: sum.split prod.split, metis Inl_Inr_False prod.inject)
    qed
  qed
  then show ?thesis
    unfolding execute_live_analysis_job_def of_result_def by (cases "limits_of (lm_started M) default_limits") simp_all
qed

text \<open>A request with a confirmed scope of one item, and the settings of a reviewed model.\<close>

definition live_demo :: db where
  "live_demo = analysis_demo\<lparr>
     projects := map (\<lambda>p. p\<lparr>proj_current_scope_version_id := Some 20\<rparr>) (projects analysis_demo),
     users := [\<lparr>usr_id = 7, usr_cognito_sub = ''u'', usr_verified_email = ''o@x'', usr_timezone = ''UTC'', usr_status = USER_ACTIVE,
       usr_created_at = 0, usr_updated_at = 0, usr_row_version = 1\<rparr>],
     scope_items := [\<lparr>sitem_id = 21, sitem_tenant_id = 7, sitem_project_id = 3, sitem_source_document_chunk_id = Some 23,
       sitem_source_revision_id = None, sitem_item_type = ''DELIVERABLE'', sitem_item_key = ''a'', sitem_text = ''one page'',
       sitem_supersedes_item_id = None, sitem_created_at = 0\<rparr>],
     scope_version_items := [\<lparr>svi_id = 22, svi_tenant_id = 7, svi_project_id = 3, svi_scope_version_id = 20, svi_scope_item_id = 21\<rparr>],
     document_chunks := [\<lparr>dchunk_id = 23, dchunk_tenant_id = 7, dchunk_project_id = 3, dchunk_document_id = 24, dchunk_chunk_index = 0,
       dchunk_page_number = None, dchunk_section = None, dchunk_start_offset = 0, dchunk_end_offset = 8,
       dchunk_source_text = ''one page'', dchunk_content_hash = ''h'', dchunk_created_at = 0\<rparr>],
     jobs := [\<lparr>job_id = 30, job_tenant_id = 7, job_project_id = Some 3, job_kind = ''analysis.prepare'',
       job_payload_ref = [(''request_id'', PStr (uuid_str 8))], job_correlation_id = 31, job_causation_id = None, job_state = RUNNING,
       job_available_at = 0, job_lease_until = Some 1, job_lease_owner = Some ''w'', job_fencing_generation = 1,
       job_attempt_count = 1, job_max_attempts = 3, job_deadline_at = None, job_last_error = None, job_created_at = 0,
       job_updated_at = 0\<rparr>]\<rparr>"

definition live_demo_settings :: live_settings where
  "live_demo_settings = \<lparr>set_max_cost_minor_per_day = 1000, set_price_version = ''p1'', set_price_reviewed_at = Some (0, True),
     set_price_max_age_days = 30, set_input_price_minor_per_1k = 1, set_output_price_minor_per_1k = 2, set_bedrock_model_id = ''m'',
     set_tenant_token_limit = 250000, set_deployment_token_limit = 1000000\<rparr>"


text \<open>A model that answers with the outputs of the analysis witness.\<close>

definition answering :: "'o \<Rightarrow> 'o role_service" where
  "answering x = \<lparr>srv_structured = Inr \<lparr>ans_output = Some x, ans_input_tokens = 100, ans_output_tokens = 10\<rparr>,
     srv_plain = Inl ConflictError, srv_repair = Inl ConflictError\<rparr>"

definition live_demo_impact :: live_impact where
  "live_demo_impact = \<lparr>li_tasks = [\<lparr>lt_task_key = ''k'', lt_description = ''d'', lt_low_hours = ''2'', lt_recommended_hours = ''2.5'',
       lt_high_hours = ''3'', lt_assumptions = [], lt_dependencies = []\<rparr>], li_low_hours = ''2'', li_recommended_hours = ''2.5'',
     li_high_hours = ''3'', li_assumptions = [], li_dependencies = [], li_missing_information = [], li_uncertainty = ''low'',
     li_cold_start = True\<rparr>"

definition live_demo_model :: live_model where
  "live_demo_model = \<lparr>lm_started = 0, lm_attempt = 0, lm_clock = (\<lambda>_. 1),
     lm_scope = (\<lambda>_. answering (ai_preliminary demo_input)),
     lm_evidence = (\<lambda>_ _. answering (the (ai_evidence demo_input))), lm_impact = (\<lambda>_ _. answering live_demo_impact),
     lm_change_order = (\<lambda>_ _ _. answering (the (ai_change_order demo_input))),
     lm_communication = (\<lambda>_ _ _. answering (the (ai_communication demo_input)))\<rparr>"

lemma round28_of_int: "0 < n \<Longrightarrow> n < 10 ^ 28 \<Longrightarrow> round28 (of_int n) = of_int n"
  by (rule round28_exact [where e = 0]) (simp_all add: power10_def)

lemma demo_cost:
  "cost_minor \<lparr>prices_version = v, reviewed_at = 0, model_prices = [(''m'', \<lparr>input_minor_per_1k = 1, output_minor_per_1k = 2\<rparr>)],
     max_age_days = 30\<rparr> ''m'' 40000 8000 0 = Inr 56"
  using round28_of_int [of 40000] round28_of_int [of 16000] round28_of_int [of 56000] round28_of_int [of 56]
  by (simp add: cost_minor_def for_model_def days_def)

lemma demo_uuids: "uuid_of_str (uuid_str 8) = Some 8" "uuid_of_str (uuid_str 20) = Some 20" "length (uuid_str 8) = 36"
  "length (int_str 1) = 1"
  by code_simp+

lemmas live_opening = open_live_analysis_def get_job_def owned_job_def put_job_def prepare_live_analysis_input_def payload_uuid_def
  dict_index_def active_scope_def first_contact_def confirmed_items_def worker_context_def collect_evidence_def
  create_evidence_bundle_def add_bundle_def item_evidence_def item_chunk_def add_evidence_reference_def add_reference_def
  evidence_reference_check_def chunk_reference_def input_snapshot_of_def live_scope_item_def evidence_ids_def text_dict_def
  reserve_live_budgets_def live_prices_def model_price_of_def reviewed_prices_of_def snapshot_scope_def live_workflow_def
  live_workflow_key_def live_reservation_def reserve_analysis_budget_def reserve_deployment_budget_def current_window_def
  open_window_def add_window_def charge_window_def put_window_def add_reservation_def budget_window_check_def
  budget_reservation_check_def tenant_scope_def LIVE_LEASE_def LIVE_POLICY_def exceeds_def

lemma live_demo_opens: "\<not> isl (fst (open_live_analysis demo_env live_demo_settings 30 ''w'' 1 live_demo))"
  by (simp add: live_opening preparing run_atomically program_runs live_demo_def live_demo_settings_def demo_analysis demo_uuids
      demo_cost del: dumps.simps cong: bindE_weak if_weak_cong)

theorem live_analysis_never_returns_witness:
  "\<exists>v b s1 e t. open_live_analysis demo_env live_demo_settings 30 ''w'' 1 live_demo = (Inr (v, b), s1) \<and>
     execute_live_analysis_job demo_env (\<lambda>_. None) live_demo_settings live_demo_model (\<lambda>s. s) 30 ''w'' 1 live_demo = (Inl e, t)"
proof -
  obtain v b s1 where "open_live_analysis demo_env live_demo_settings 30 ''w'' 1 live_demo = (Inr (v, b), s1)"
    using live_demo_opens
    by (cases "open_live_analysis demo_env live_demo_settings 30 ''w'' 1 live_demo"; cases "fst (open_live_analysis demo_env live_demo_settings 30 ''w'' 1 live_demo)")
      auto
  moreover have "\<exists>e t. execute_live_analysis_job demo_env (\<lambda>_. None) live_demo_settings live_demo_model (\<lambda>s. s) 30 ''w'' 1 live_demo = (Inl e, t)"
    by (rule live_analysis_never_returns) (simp_all add: demo_env_def)
  ultimately show ?thesis by blast
qed

end
