(* ===== verification/Mailbox_Safety.thy ===== *)
theory Mailbox_Safety
  imports Mailbox Acceptance
begin

text \<open>
  What the Gmail operations keep: a used OAuth state stays used, a disconnected connection stays disconnected, and
  the sealed tokens of a connection are the ones that were stored.
\<close>

section \<open>Operations outside the connections and the OAuth sessions\<close>

named_theorems mail "operations that leave the connections and the OAuth sessions alone"

definition mailbox_rows :: "db \<Rightarrow> integration_connection list \<times> oauth_session list" where
  "mailbox_rows s = (integration_connections s, oauth_sessions s)"

interpretation mail_frame: state_frame mailbox_rows .

abbreviation mail_same :: "db \<Rightarrow> db \<Rightarrow> bool" where
  "mail_same \<equiv> (\<lambda>s t. mailbox_rows t = mailbox_rows s)"

lemma evolves_case_http:
  "evolves R f \<Longrightarrow> (\<And>status body. evolves R (g status body)) \<Longrightarrow>
   evolves R (case x of HttpRequestError \<Rightarrow> f | HttpResponse status body \<Rightarrow> g status body)"
  by (cases x) simp_all

lemma evolves_case_routed:
  "(\<And>c. evolves R (f c)) \<Longrightarrow> (\<And>r. evolves R (g r)) \<Longrightarrow> evolves R (case x of Communication c \<Rightarrow> f c | Routing r \<Rightarrow> g r)"
  by (cases x) simp_all

lemmas mail_steps = mail_frame.evolve_rules evolves_case_http evolves_case_routed

lemma mail_rows [mail]:
  "evolves mail_same fresh_uuid" "evolves mail_same (fresh_token b1)" "evolves mail_same (put_job c1 c2)"
  "evolves mail_same (add_job d1)" "evolves mail_same (add_outbox_event e1)" "evolves mail_same (put_action f1 f2)"
  "evolves mail_same (add_action_attempt g1)" "evolves mail_same (put_attempt h1 h2)" "evolves mail_same (put_order i1 i2)"
  "evolves mail_same (add_external_event j1)" "evolves mail_same (put_event k1 k2)" "evolves mail_same (add_communication l1)"
  "evolves mail_same (add_routing_decision m1)" "evolves mail_same (add_request n1)" "evolves mail_same (add_request_communication o1)"
  "evolves mail_same (add_sync p1)" "evolves mail_same (put_sync q1 q2)" "evolves mail_same (exchange r1 r2)"
  by (rule evolvesI;
      simp add: mailbox_rows_def run_add_row put_job_def add_job_def add_outbox_event_def put_action_def add_action_attempt_def put_attempt_def put_order_def
        add_external_event_def put_event_def add_communication_def add_routing_decision_def add_request_def
        add_request_communication_def add_sync_def put_sync_def exchange_def)+

lemma mail_project [mail]: "evolves mail_same (get_project ctx i)"
  unfolding get_project_def by (intro mail_steps mail)

lemma mail_ops_0 [mail]:
  "evolves mail_same the_time" "evolves mail_same (time_or_now b1)" "evolves mail_same (trip c1 c2)"
  unfolding the_time_def time_or_now_def trip_def
  by (intro mail_steps mail)+

lemma mail_ops_1 [mail]:
  "evolves mail_same (new_outbox_event a1 a2 a3 a4 a5 a6 a7)"
  unfolding new_outbox_event_def
  by (intro mail_steps mail)+

lemma mail_ops_2 [mail]:
  "evolves mail_same (enqueue_job a1 a2 a3 a4 a5 a6 a7 a8 a9 a10)"
  unfolding enqueue_job_def
  by (intro mail_steps mail)+

lemma mail_ops_3 [mail]:
  "evolves mail_same (enqueue_now a1 a2 a3 a4 a5 a6)" "evolves mail_same (get_external_action b1)"
  "evolves mail_same (last_attempt c1)" "evolves mail_same (transition_action d1 d2)"
  unfolding enqueue_now_def get_external_action_def last_attempt_def transition_action_def
  by (intro mail_steps mail)+

lemma mail_ops_4 [mail]:
  "evolves mail_same (begin_action_dispatch a1 a2)" "evolves mail_same (complete_action b1 b2 b3 b4)"
  "evolves mail_same (mark_action_review_required c1 c2)" "evolves mail_same (mark_action_unknown d1 d2)"
  "evolves mail_same (mark_action_retry e1 e2)" "evolves mail_same (cancel_action f1)" "evolves mail_same (of_result g1)"
  "evolves mail_same (dict_index h1 h2)"
  unfolding begin_action_dispatch_def complete_action_def mark_action_review_required_def mark_action_unknown_def mark_action_retry_def
    cancel_action_def of_result_def dict_index_def
  by (intro mail_steps mail)+

lemma mail_ops_5 [mail]:
  "evolves mail_same (order_of_payload a1)"
  unfolding order_of_payload_def
  by (intro mail_steps mail)+

lemma mail_ops_6 [mail]:
  "evolves mail_same (begin_gmail_send a1)" "evolves mail_same (late_send_callback b1 b2)" "evolves mail_same (send_found c1 c2)"
  "evolves mail_same (mark_sent d1)"
  unfolding begin_gmail_send_def late_send_callback_def send_found_def mark_sent_def
  by (intro mail_steps mail)+

lemma mail_ops_7 [mail]:
  "evolves mail_same (record_gmail_send_success a1 a2 a3 a4 a5)" "evolves mail_same (record_gmail_send_unknown b1 b2)"
  "evolves mail_same (ingest_external_event c1 c2 c3 c4 c5 c6 c7)" "evolves mail_same (route_candidates d1 d2 d3)"
  "evolves mail_same (open_routing e1 e2 e3 e4 e5)" "evolves mail_same (map_event f1 f2 f3 f4)" "evolves mail_same (own_event g1 g2)"
  unfolding record_gmail_send_success_def record_gmail_send_unknown_def ingest_external_event_def route_candidates_def open_routing_def
    map_event_def own_event_def
  by (intro mail_steps mail)+

lemma mail_ops_8 [mail]:
  "evolves mail_same (route_external_event a1 a2 a3)" "evolves mail_same (new_request b1 b2 b3)"
  "evolves mail_same (link_communication c1 c2 c3 c4 c5)"
  unfolding route_external_event_def new_request_def link_communication_def
  by (intro mail_steps mail)+

lemma mail_ops_9 [mail]:
  "evolves mail_same (create_request a1 a2 a3 a4)"
  unfolding create_request_def
  by (intro mail_steps mail)+

lemma mail_ops_10 [mail]:
  "evolves mail_same (create_request_from_communication a1 a2 a3)" "evolves mail_same (seal_key b1 b2)"
  unfolding create_request_from_communication_def seal_key_def
  by (intro mail_steps mail)+

lemma mail_ops_11 [mail]:
  "evolves mail_same (seal a1 a2 a3)" "evolves mail_same (unseal b1 b2 b3)"
  unfolding seal_def unseal_def
  by (intro mail_steps mail)+

lemma mail_ops_12 [mail]:
  "evolves mail_same (sealed_tokens a1 a2 a3 a4)" "evolves mail_same (connection_now b1)" "evolves mail_same (sync_now c1)"
  "evolves mail_same (gmail_context d1)" "evolves mail_same (get_connection e1 e2)" "evolves mail_same (gmail_job f1 f2 f3 f4)"
  "evolves mail_same (load_oauth_session g1 g2 g3)" "evolves mail_same (kept_refresh_token h1 h2 h3 h4)"
  "evolves mail_same (resumed_sync i1 i2)" "evolves mail_same (google_setting j1)"
  unfolding sealed_tokens_def connection_now_def sync_now_def gmail_context_def get_connection_def gmail_job_def load_oauth_session_def
    kept_refresh_token_def resumed_sync_def google_setting_def
  by (intro mail_steps mail)+

lemma mail_ops_13 [mail]:
  "evolves mail_same (google_token_exchange a1 a2 a3 a4)" "evolves mail_same (google_identity b1 b2)"
  "evolves mail_same (credential_values c1 c2 c3)" "evolves mail_same (gmail_request d1 d2 d3 d4 d5 d6)"
  "evolves mail_same (connection_for_provider e1 e2)" "evolves mail_same (process_message f1 f2 f3 f4 f5 f6)"
  unfolding google_token_exchange_def google_identity_def credential_values_def gmail_request_def connection_for_provider_def
    process_message_def
  by (intro mail_steps mail)+

lemma mail_ops_14 [mail]:
  "evolves mail_same (fetch_message_metadata a1 a2 a3 a4)"
  unfolding fetch_message_metadata_def
  by (intro mail_steps mail)+

lemma mail_ops_15 [mail]:
  "evolves mail_same (fetch_refs a1 a2 a3 a4)" "evolves mail_same (finish_backfill_page b1 b2 b3)"
  "evolves mail_same (history_job c1 c2 c3)"
  unfolding fetch_refs_def finish_backfill_page_def history_job_def
  by (intro mail_steps mail)+

lemma mail_ops_16 [mail]:
  "evolves mail_same (accept_gmail_push a1 a2 a3 a4 a5 a6 a7 a8)" "evolves mail_same (accept_gmail_pubsub_push b1 b2 b3 b4 b5 b6 b7)"
  "evolves mail_same (cancel_gmail_jobs c1 c2)" "evolves mail_same (cancel_sends d1 d2)"
  "evolves mail_same (maintenance_job e1 e2 e3 e4)" "evolves mail_same (connected_send_connection f1)"
  "evolves mail_same (send_request g1 g2 g3)" "evolves mail_same (unknown_send h1 h2)"
  unfolding accept_gmail_push_def accept_gmail_pubsub_push_def cancel_gmail_jobs_def cancel_sends_def maintenance_job_def
    connected_send_connection_def send_request_def unknown_send_def
  by (intro mail_steps mail)+

lemma mail_ops_17 [mail]:
  "evolves mail_same (first_send a1 a2 a3 a4)" "evolves mail_same (confirmed_send b1 b2 b3)"
  unfolding first_send_def confirmed_send_def
  by (intro mail_steps mail)+

lemma mail_ops_18 [mail]:
  "evolves mail_same (settle_send a1 a2 a3)"
  unfolding settle_send_def
  by (intro mail_steps mail)+

section \<open>A used OAuth state\<close>

definition used :: "string \<Rightarrow> db \<Rightarrow> bool" where
  "used h s \<longleftrightarrow> (\<exists>r\<in>set (oauth_sessions s). oauth_state_hash r = h) \<and>
     (\<forall>r\<in>set (oauth_sessions s). oauth_state_hash r = h \<longrightarrow> oauth_consumed_at r \<noteq> None)"

abbreviation stays_used :: "string \<Rightarrow> db \<Rightarrow> db \<Rightarrow> bool" where
  "stays_used h \<equiv> (\<lambda>s t. used h s \<longrightarrow> used h t)"

interpretation use: state_order "stays_used h" for h
  by unfold_locales auto

named_theorems kept "operations after which a used OAuth state is still used"

lemma mail_used: "evolves mail_same m \<Longrightarrow> evolves (stays_used h) m"
  by (simp add: evolves_def mailbox_rows_def used_def)

lemmas [kept] = mail [THEN mail_used]

lemmas use_steps = use.evolve_rules evolves_case_http evolves_case_routed

lemma used_cong:
  assumes "map oauth_state_hash rows = map oauth_state_hash (oauth_sessions s)"
    and "\<And>r. r \<in> set rows \<Longrightarrow> r \<in> set (oauth_sessions s) \<or> oauth_consumed_at r \<noteq> None"
  shows "used h s \<longrightarrow> used h (s\<lparr>oauth_sessions := rows\<rparr>)"
proof -
  from assms(1) have "oauth_state_hash ` set rows = oauth_state_hash ` set (oauth_sessions s)" by (metis list.set_map)
  then have same: "(\<exists>r\<in>set rows. oauth_state_hash r = h) \<longleftrightarrow> (\<exists>r\<in>set (oauth_sessions s). oauth_state_hash r = h)"
    by (metis imageE imageI)
  show ?thesis
  proof
    assume u: "used h s"
    then have "oauth_consumed_at r \<noteq> None" if "r \<in> set rows" "oauth_state_hash r = h" for r
      using assms(2) [OF that(1)] that(2) by (auto simp: used_def)
    moreover have "\<exists>r\<in>set rows. oauth_state_hash r = h" using u same by (simp add: used_def)
    ultimately show "used h (s\<lparr>oauth_sessions := rows\<rparr>)" by (simp add: used_def)
  qed
qed

lemma used_rows [kept]:
  "evolves (stays_used h) (put_connection j f)" "evolves (stays_used h) (add_connection c)"
  "evolves (stays_used h) (add_oauth r)"
  by (rule evolvesI; force simp: used_def run_add_row put_connection_def add_connection_def add_oauth_def list_ex_iff)+

lemma used_consumed [kept]: "evolves (stays_used h) (put_oauth k (\<lambda>r. r\<lparr>oauth_consumed_at := Some now\<rparr>))"
  by (rule evolvesI, simp add: put_oauth_def, rule used_cong) (auto simp: map_upd_row dest: set_upd_row)

lemma used_sync [kept]:
  "evolves (stays_used h) (schedule_gmail_sync ctx i initial)" "evolves (stays_used h) (mark_gmail_reauth i reason)"
  "evolves (stays_used h) (advance_cursor c m next_id)" "evolves (stays_used h) (mark_history_gap ctx i reason now)"
  "evolves (stays_used h) (renew_gmail_watch ctx i watch t)" "evolves (stays_used h) (clear_watch i)"
  "evolves (stays_used h) (resume_after_gap c found)" "evolves (stays_used h) (account_connection tenant account email)"
  unfolding schedule_gmail_sync_def mark_gmail_reauth_def advance_cursor_def mark_history_gap_def renew_gmail_watch_def clear_watch_def
    resume_after_gap_def account_connection_def
  by (intro use_steps kept)+

lemma used_reauth [kept]: "evolves (stays_used h) (reauth_required i reason)"
  unfolding reauth_required_def by (intro use_steps kept)

lemma used_refreshed [kept]: "evolves (stays_used h) (refreshed_token i answer)"
  unfolding refreshed_token_def by (intro use_steps kept)

lemma used_refresh [kept]: "evolves (stays_used h) (refresh_gmail_access_token E G ctx i)"
  unfolding refresh_gmail_access_token_def by (intro use_steps kept)

lemma used_request [kept]: "evolves (stays_used h) (authorized_request E G ctx c method path params body)"
  unfolding authorized_request_def by (intro use_steps kept)

lemma used_pages [kept]:
  "evolves (stays_used h) (process_history_page E G ctx i next_id messages mode now)"
  "evolves (stays_used h) (fetch_gmail_history_page E G ctx i history_id token)"
  "evolves (stays_used h) (fetch_gmail_backfill_page E G ctx i token)"
  "evolves (stays_used h) (start_gmail_watch E G ctx i)" "evolves (stays_used h) (stop_gmail_watch E G ctx i)"
  "evolves (stays_used h) (maintain_connection current c)" "evolves (stays_used h) (disconnect_gmail ctx i)"
  "evolves (stays_used h) (second_send E G i c raw)"
  unfolding process_history_page_def fetch_gmail_history_page_def fetch_gmail_backfill_page_def start_gmail_watch_def
    stop_gmail_watch_def maintain_connection_def disconnect_gmail_def second_send_def
  by (intro use_steps kept)+

lemma used_jobs [kept]:
  "evolves (stays_used h) (sync_gmail_history_page E G ctx i history_id token now)"
  "evolves (stays_used h) (run_gmail_initial_backfill_page E G ctx i token now)"
  "evolves (stays_used h) (schedule_gmail_maintenance now)" "evolves (stays_used h) (dispatch_gmail_send E G i)"
  unfolding sync_gmail_history_page_def run_gmail_initial_backfill_page_def schedule_gmail_maintenance_def dispatch_gmail_send_def
  by (intro use_steps kept)+

lemma used_finish [kept]: "evolves (stays_used h) (finish_gmail_oauth E G tenant oauth q)"
  unfolding finish_gmail_oauth_def by (intro use_steps kept)

lemma used_oauth [kept]:
  "evolves (stays_used h) (start_gmail_oauth E G ctx redirect expected)"
  "evolves (stays_used h) (complete_gmail_oauth E G ctx state code verifier q)"
  "evolves (stays_used h) (complete_gmail_oauth_callback E G state code)"
  unfolding start_gmail_oauth_def complete_gmail_oauth_def complete_gmail_oauth_callback_def
  by (intro use_steps kept)+

section \<open>A disconnected connection\<close>

definition disconnected :: "uuid \<Rightarrow> db \<Rightarrow> bool" where
  "disconnected i s \<longleftrightarrow> list_all (\<lambda>c. gconn_id c = i \<longrightarrow> gconn_status c = DISCONNECTED) (integration_connections s)"

abbreviation stays_off :: "uuid \<Rightarrow> db \<Rightarrow> db \<Rightarrow> bool" where
  "stays_off i \<equiv> (\<lambda>s t. disconnected i s \<longrightarrow> disconnected i t)"

interpretation off: state_order "stays_off i" for i
  by unfold_locales auto

named_theorems silent "operations after which a disconnected connection is still disconnected"

lemma mail_off: "evolves mail_same m \<Longrightarrow> evolves (stays_off i) m"
  by (simp add: evolves_def mailbox_rows_def disconnected_def)

lemmas [silent] = mail [THEN mail_off]

lemmas off_steps = off.evolve_rules evolves_case_http evolves_case_routed

lemma put_connection_off:
  "(\<And>r. gconn_id (f r) = gconn_id r) \<Longrightarrow> (\<And>r. gconn_status r = DISCONNECTED \<Longrightarrow> gconn_status (f r) = DISCONNECTED) \<Longrightarrow>
   evolves (stays_off i) (put_connection j f)"
  by (rule evolvesI) (auto simp: put_connection_def disconnected_def list_all_iff dest!: set_upd_row dest: row_by_SomeD)

lemma put_other_off:
  "j \<noteq> i \<Longrightarrow> (\<And>r. gconn_id (f r) = gconn_id r) \<Longrightarrow> evolves (stays_off i) (put_connection j f)"
  by (rule evolvesI) (auto simp: put_connection_def disconnected_def list_all_iff dest!: set_upd_row dest: row_by_SomeD)

lemma get_connection_run:
  "get_connection ctx i s = (case own_connection ctx i s of None \<Rightarrow> (Inl NotFoundError, s) | Some c \<Rightarrow> (Inr c, s))"
  by (simp add: get_connection_def split: option.split)

lemma own_connection_off:
  "disconnected i s \<Longrightarrow> own_connection ctx i s = Some c \<Longrightarrow> gconn_status c = DISCONNECTED \<and> gconn_id c = i"
  unfolding own_connection_def by (drule find_SomeD) (auto simp: disconnected_def list_all_iff)

lemma connection_for_provider_run:
  assumes "connection_for_provider ctx j s = (Inr c, t)"
  shows "t = s \<and> c \<in> set (integration_connections s) \<and> gconn_id c = j \<and> gconn_status c = CONNECTED"
  using assms unfolding connection_for_provider_def get_connection_run run_bindE
  by (auto simp: own_connection_def require_def dest: find_SomeD split: option.splits if_splits)

lemma connected_send_run:
  assumes "connected_send_connection a s = (Inr c, t)"
  shows "t = s \<and> c \<in> set (integration_connections s) \<and> gconn_status c = CONNECTED"
proof -
  obtain account where "t = s \<and> filter (\<lambda>c. gconn_tenant_id c = act_tenant_id a \<and> gconn_provider c = ''gmail'' \<and>
      gconn_status c = CONNECTED \<and> (account = [] \<or> gconn_provider_account_id c = account)) (integration_connections s) = [c]"
    using assms unfolding connected_send_connection_def
    by (auto simp: run_bindE split: list.splits)
  then have "t = s \<and> c \<in> set (filter (\<lambda>c. gconn_tenant_id c = act_tenant_id a \<and> gconn_provider c = ''gmail'' \<and>
      gconn_status c = CONNECTED \<and> (account = [] \<or> gconn_provider_account_id c = account)) (integration_connections s))"
    by simp
  then show ?thesis by simp
qed

lemma connected_elsewhere:
  assumes "\<And>c s t. m s = (Inr c, t) \<Longrightarrow> t = s \<and> c \<in> set (integration_connections s) \<and> gconn_status c = CONNECTED"
    and "evolves (stays_off i) m" and "\<And>c. gconn_id c \<noteq> i \<Longrightarrow> evolves (stays_off i) (f c)"
  shows "evolves (stays_off i) (bindE m f)"
proof (rule evolvesI, intro impI)
  fix s assume off: "disconnected i s"
  show "disconnected i (snd (bindE m f s))"
  proof (cases "m s")
    case (Pair r t)
    show ?thesis
    proof (cases r)
      case (Inl e)
      with Pair evolvesD [OF assms(2), of s] off show ?thesis by (simp add: run_bindE)
    next
      case (Inr c)
      with Pair assms(1) have c: "t = s" "c \<in> set (integration_connections s)" "gconn_status c = CONNECTED" by auto
      with off have "gconn_id c \<noteq> i" by (auto simp: disconnected_def list_all_iff)
      from evolvesD [OF assms(3) [OF this], of s] off Pair Inr c(1) show ?thesis by (simp add: run_bindE)
    qed
  qed
qed

lemma for_provider_off:
  "(\<And>c. gconn_id c \<noteq> i \<Longrightarrow> evolves (stays_off i) (f c)) \<Longrightarrow> evolves (stays_off i) (bindE (connection_for_provider ctx j) f)"
  by (rule connected_elsewhere) (auto dest: connection_for_provider_run intro: silent)

lemma send_connection_off:
  "(\<And>c. gconn_id c \<noteq> i \<Longrightarrow> evolves (stays_off i) (f c)) \<Longrightarrow> evolves (stays_off i) (bindE (connected_send_connection a) f)"
  by (rule connected_elsewhere) (auto dest: connected_send_run intro: silent)


lemma off_updates [silent]:
  "evolves (stays_off i) (schedule_gmail_sync ctx j initial)" "evolves (stays_off i) (advance_cursor c m next_id)"
  "evolves (stays_off i) (renew_gmail_watch ctx j watch t)" "evolves (stays_off i) (clear_watch j)"
  "evolves (stays_off i) (disconnect_gmail ctx j)"
  unfolding schedule_gmail_sync_def advance_cursor_def renew_gmail_watch_def clear_watch_def disconnect_gmail_def
  by (intro off_steps put_connection_off silent; simp)+

lemma off_page [silent]: "evolves (stays_off i) (process_history_page E G ctx j next_id messages mode now)"
  unfolding process_history_page_def by (intro off_steps put_connection_off silent; simp)

lemma off_stop [silent]: "evolves (stays_off i) (stop_gmail_watch E G ctx j)" "evolves (stays_off i) (maintain_connection current c)"
  unfolding stop_gmail_watch_def maintain_connection_def by (intro off_steps silent)+

lemma off_reauth: "j \<noteq> i \<Longrightarrow> evolves (stays_off i) (reauth_required j reason)"
  unfolding reauth_required_def mark_gmail_reauth_def by (intro off_steps put_other_off) simp_all

lemma off_refreshed: "j \<noteq> i \<Longrightarrow> evolves (stays_off i) (refreshed_token j answer)"
  unfolding refreshed_token_def by (intro off_steps off_reauth)

lemma off_refresh: "j \<noteq> i \<Longrightarrow> evolves (stays_off i) (refresh_gmail_access_token E G ctx j)"
  unfolding refresh_gmail_access_token_def by (intro off_steps put_other_off off_reauth off_refreshed silent) simp_all

lemma off_request: "gconn_id c \<noteq> i \<Longrightarrow> evolves (stays_off i) (authorized_request E G ctx c method path params body)"
  unfolding authorized_request_def by (intro off_steps off_refresh silent)

lemma off_fetch [silent]:
  "evolves (stays_off i) (fetch_gmail_history_page E G ctx j history_id token)"
  "evolves (stays_off i) (fetch_gmail_backfill_page E G ctx j token)"
  unfolding fetch_gmail_history_page_def fetch_gmail_backfill_page_def
  by (rule for_provider_off, intro off_steps off_request silent, assumption)+

lemma off_watch [silent]: "evolves (stays_off i) (start_gmail_watch E G ctx j)"
  unfolding start_gmail_watch_def
  by (rule for_provider_off, intro off_steps off_request put_connection_off silent) simp_all

lemma from_fact: "(\<And>s. P s \<Longrightarrow> Q) \<Longrightarrow> (Q \<Longrightarrow> evolves R m) \<Longrightarrow> evolves_from R P m"
  by (auto simp: evolves_from_def evolves_def)

lemma own_connection_id: "own_connection ctx j s = Some c \<Longrightarrow> gconn_id c = j"
  unfolding own_connection_def by (auto dest: find_SomeD)

lemma off_gap: "j \<noteq> i \<Longrightarrow> evolves (stays_off i) (mark_history_gap ctx j reason now)"
  unfolding mark_history_gap_def
  by (rule off.evolves_from_top, rule off.from_gets, rule off.from_gets, rule off.from_some_or, rule off.from_some_or,
      rule from_fact [where Q = "gconn_id v = j" for v])
    (auto dest: own_connection_id intro!: off_steps put_other_off silent)

lemma for_provider_refused:
  assumes "disconnected i s"
  shows "\<exists>e. connection_for_provider ctx i s = (Inl e, s) \<and> e \<noteq> GmailHistoryGap"
  using own_connection_off [OF assms, of ctx]
  by (auto simp: connection_for_provider_def run_bindE get_connection_run require_def split: option.split)

lemma disconnected_refusals:
  assumes "disconnected i s"
  shows "\<exists>e. fetch_gmail_history_page E G ctx i history_id token s = (Inl e, s) \<and> e \<noteq> GmailHistoryGap"
    and "\<exists>e. fetch_gmail_backfill_page E G ctx i token s = (Inl e, s)"
    and "\<exists>e. start_gmail_watch E G ctx i s = (Inl e, s)"
    and "\<exists>e. process_history_page E G ctx i next_id messages mode now s = (Inl e, s)"
    and "\<exists>e. schedule_gmail_sync ctx i initial s = (Inl e, s)"
    and "\<exists>e. run_gmail_initial_backfill_page E G ctx i token now s = (Inl e, s)"
proof -
  obtain e where e: "connection_for_provider ctx i s = (Inl e, s)" "e \<noteq> GmailHistoryGap"
    using for_provider_refused [OF assms] by blast
  note own = own_connection_off [OF assms, of ctx]
  show "\<exists>e. fetch_gmail_history_page E G ctx i history_id token s = (Inl e, s) \<and> e \<noteq> GmailHistoryGap"
    and "\<exists>e. fetch_gmail_backfill_page E G ctx i token s = (Inl e, s)"
    and "\<exists>e. start_gmail_watch E G ctx i s = (Inl e, s)"
    using e by (simp_all add: fetch_gmail_history_page_def fetch_gmail_backfill_page_def start_gmail_watch_def run_bindE)
  show "\<exists>e. process_history_page E G ctx i next_id messages mode now s = (Inl e, s)"
    and "\<exists>e. schedule_gmail_sync ctx i initial s = (Inl e, s)"
    using own by (cases "own_connection ctx i s"; simp add: process_history_page_def schedule_gmail_sync_def run_bindE require_def)+
  show "\<exists>e. run_gmail_initial_backfill_page E G ctx i token now s = (Inl e, s)"
  proof (cases "own_connection ctx i s")
    case None
    then show ?thesis by (simp add: run_gmail_initial_backfill_page_def run_bindE get_connection_run)
  next
    case (Some c)
    with own have c: "gconn_status c = DISCONNECTED" "gconn_id c = i" by auto
    obtain r where r: "connection_now c s = (r, s)" "\<And>x. r = Inr x \<Longrightarrow> gconn_status x = DISCONNECTED"
    proof (cases "row_by gconn_id i (integration_connections s)")
      case None
      with c(2) show ?thesis by (intro that [of "Inl NotFoundError"]) (simp_all add: connection_now_def)
    next
      case row: (Some x)
      with assms have "gconn_status x = DISCONNECTED" by (auto simp: disconnected_def list_all_iff dest: row_by_SomeD)
      with c(2) row show ?thesis by (intro that [of "Inr x"]) (simp_all add: connection_now_def)
    qed
    with Some c show ?thesis
      by (cases r) (auto simp: run_gmail_initial_backfill_page_def run_bindE get_connection_run require_def resume_after_gap_def perhaps_def)
  qed
qed


lemma sync_refused:
  assumes "disconnected i s"
  shows "\<exists>e. sync_gmail_history_page E G ctx i history_id token now s = (Inl e, s)"
proof -
  obtain e where "fetch_gmail_history_page E G ctx i history_id token s = (Inl e, s)" "e \<noteq> GmailHistoryGap"
    using disconnected_refusals(1) [OF assms] by blast
  then show ?thesis by (simp add: sync_gmail_history_page_def run_bindE run_catchE)
qed

text \<open>An operation that a disconnected connection refuses keeps it disconnected.\<close>

lemma refused_off:
  assumes "\<And>s. disconnected i s \<Longrightarrow> \<exists>e. m s = (Inl e, s)"
  shows "evolves (stays_off i) m"
proof (rule evolvesI, intro impI)
  fix s assume "disconnected i s"
  with assms [OF this] show "disconnected i (snd (m s))" by auto
qed

lemma off_sync [silent]: "evolves (stays_off i) (sync_gmail_history_page E G ctx j history_id token now)"
proof (cases "j = i")
  case True
  then show ?thesis by (auto intro: refused_off sync_refused)
next
  case False
  then show ?thesis
    unfolding sync_gmail_history_page_def by (intro off_steps off_gap silent)
qed

lemma off_found:
  assumes "\<And>c. gconn_id c = j \<Longrightarrow> evolves (stays_off i) (f c)"
  shows "evolves (stays_off i) (bindE (get_connection ctx j) f)"
proof (rule evolvesI)
  fix s
  show "disconnected i s \<longrightarrow> disconnected i (snd (bindE (get_connection ctx j) f s))"
  proof (cases "own_connection ctx j s")
    case None
    then show ?thesis by (simp add: run_bindE get_connection_run)
  next
    case (Some c)
    from evolvesD [OF assms [OF own_connection_id [OF Some]], of s] Some show ?thesis by (simp add: run_bindE get_connection_run)
  qed
qed

lemma off_resume: "gconn_id c \<noteq> i \<Longrightarrow> evolves (stays_off i) (resume_after_gap c found)"
  unfolding resume_after_gap_def by (intro off_steps put_other_off) simp_all

lemma off_backfill [silent]: "evolves (stays_off i) (run_gmail_initial_backfill_page E G ctx j token now)"
proof (cases "j = i")
  case True
  then show ?thesis by (auto intro: refused_off disconnected_refusals(6))
next
  case False
  then show ?thesis
    unfolding run_gmail_initial_backfill_page_def
    by (intro off.evolves_bind [OF off.evolves_gets] off_found) (intro off_steps off_resume silent, simp)
qed

lemma off_second: "gconn_id c \<noteq> i \<Longrightarrow> evolves (stays_off i) (second_send E G k c raw)"
  unfolding second_send_def by (intro off_steps off_refresh silent)

lemma off_dispatch [silent]: "evolves (stays_off i) (dispatch_gmail_send E G k)"
  unfolding dispatch_gmail_send_def
  by (rule off.evolves_bind, rule silent, rule off.evolves_bind, rule off_steps, rule off.evolves_bind, rule off_steps,
      rule send_connection_off, intro off_steps off_second silent)

lemma off_maintenance [silent]: "evolves (stays_off i) (schedule_gmail_maintenance now)"
  unfolding schedule_gmail_maintenance_def by (intro off_steps silent)


section \<open>Steps of the mailbox\<close>

text \<open>
  What the workers and the API do with a mailbox once it is connected, in any order and as often as they like; a step
  that raises leaves what it left. \<open>elsewhere\<close> is any commit of another component: it has neither of the two tables.
\<close>

inductive mailbox_step :: "env \<Rightarrow> gmail_config \<Rightarrow> db \<Rightarrow> db \<Rightarrow> bool" for E G where
  sync_page: "sync_gmail_history_page E G ctx i history_id token now s = (r, t) \<Longrightarrow> mailbox_step E G s t"
| backfill_page: "run_gmail_initial_backfill_page E G ctx i token now s = (r, t) \<Longrightarrow> mailbox_step E G s t"
| watch_started: "start_gmail_watch E G ctx i s = (r, t) \<Longrightarrow> mailbox_step E G s t"
| watch_stopped: "stop_gmail_watch E G ctx i s = (r, t) \<Longrightarrow> mailbox_step E G s t"
| pushed: "accept_gmail_push G account watch history_id delivery payload_hash occurred_at token s = (p, t) \<Longrightarrow> mailbox_step E G s t"
| published: "accept_gmail_pubsub_push G email history_id delivery payload_hash occurred_at topic s = (p, t) \<Longrightarrow> mailbox_step E G s t"
| disconnection: "disconnect_gmail ctx i s = (c, t) \<Longrightarrow> mailbox_step E G s t"
| maintenance: "schedule_gmail_maintenance now s = (n, t) \<Longrightarrow> mailbox_step E G s t"
| sending: "dispatch_gmail_send E G k s = (m, t) \<Longrightarrow> mailbox_step E G s t"
| elsewhere: "mailbox_rows t = mailbox_rows s \<Longrightarrow> mailbox_step E G s t"

text \<open>And the OAuth sessions that connect one.\<close>

inductive gmail_step :: "env \<Rightarrow> gmail_config \<Rightarrow> db \<Rightarrow> db \<Rightarrow> bool" for E G where
  connected_work: "mailbox_step E G s t \<Longrightarrow> gmail_step E G s t"
| oauth_started: "start_gmail_oauth E G ctx redirect expected s = (a, t) \<Longrightarrow> gmail_step E G s t"
| oauth_completed: "complete_gmail_oauth E G ctx state code verifier q s = (c, t) \<Longrightarrow> gmail_step E G s t"
| oauth_callback: "complete_gmail_oauth_callback E G state code s = (c, t) \<Longrightarrow> gmail_step E G s t"

lemmas used_run = evolves_run [where R = "stays_used h" for h]
lemmas off_run = evolves_run [where R = "stays_off i" for i]

lemma mailbox_step_used: "mailbox_step E G s t \<Longrightarrow> stays_used h s t"
  by (induction rule: mailbox_step.induct) (erule used_run [rotated], rule kept | simp add: mailbox_rows_def used_def)+

lemma mailbox_step_off: "mailbox_step E G s t \<Longrightarrow> stays_off i s t"
  by (induction rule: mailbox_step.induct) (erule off_run [rotated], rule silent | simp add: mailbox_rows_def disconnected_def)+

lemma gmail_step_used: "gmail_step E G s t \<Longrightarrow> stays_used h s t"
  by (induction rule: gmail_step.induct) (erule mailbox_step_used | erule used_run [rotated], rule kept)+

lemma gmail_steps_used: "(gmail_step E G)\<^sup>*\<^sup>* s t \<Longrightarrow> used h s \<Longrightarrow> used h t"
  by (induction rule: rtranclp_induct) (auto dest: gmail_step_used)

lemma mailbox_steps_off: "(mailbox_step E G)\<^sup>*\<^sup>* s t \<Longrightarrow> disconnected i s \<Longrightarrow> disconnected i t"
  by (induction rule: rtranclp_induct) (auto dest: mailbox_step_off)

section \<open>Every state once\<close>

lemma used_after:
  assumes "bindE m f s = (Inr x, t)" and "\<And>y s1. m s = (Inr y, s1) \<Longrightarrow> used h s1" and "\<And>y. evolves (stays_used h) (f y)"
  shows "used h t"
proof -
  from assms(1) obtain y s1 where "m s = (Inr y, s1)" "f y s1 = (Inr x, t)" by (elim bindE_InrE) auto
  with assms(2) evolves_run [OF assms(3)] show ?thesis by blast
qed

lemma finish_uses:
  assumes "finish_gmail_oauth E G tenant r q s = (Inr c, t)" and "r \<in> set (oauth_sessions s)"
    and "distinct (map oauth_id (oauth_sessions s))" and "distinct (map oauth_state_hash (oauth_sessions s))"
  shows "used (oauth_state_hash r) t"
proof -
  have "used (oauth_state_hash r) s1" if "put_oauth (oauth_id r) (\<lambda>x. x\<lparr>oauth_consumed_at := Some now\<rparr>) s = (Inr u, s1)" for now u s1
  proof -
    let ?f = "\<lambda>x. if oauth_id x = oauth_id r then x\<lparr>oauth_consumed_at := Some now\<rparr> else x"
    from that assms(3) have rows: "oauth_sessions s1 = map ?f (oauth_sessions s)"
      by (auto simp: put_oauth_def upd_row_is_map)
    have "x = r" if "x \<in> set (oauth_sessions s)" "oauth_state_hash x = oauth_state_hash r" for x
      using assms(2,4) that by (auto simp: distinct_map inj_on_def)
    then have "oauth_consumed_at x \<noteq> None" if "x \<in> set (oauth_sessions s1)" "oauth_state_hash x = oauth_state_hash r" for x
      using that unfolding rows by (auto split: if_splits)
    moreover have "r\<lparr>oauth_consumed_at := Some now\<rparr> \<in> set (oauth_sessions s1)"
      unfolding rows set_map using assms(2) by (intro rev_image_eqI [where x = r]) simp_all
    then have "\<exists>x\<in>set (oauth_sessions s1). oauth_state_hash x = oauth_state_hash r" by (rule rev_bexI) simp
    ultimately show ?thesis unfolding used_def by blast
  qed
  with assms(1) show ?thesis
    by (auto simp: finish_gmail_oauth_def run_bind_require the_time_def split: if_splits elim!: used_after intro!: use_steps kept)
qed

lemma load_oauth_run:
  assumes "load_oauth_session E state tenant s = (Inr r, t)"
  shows "t = s \<and> r \<in> set (oauth_sessions s) \<and> oauth_state_hash r = sha256 E state"
  using assms by (auto simp: load_oauth_session_def oauth_by_state_def run_bind_require run_bind_some_or the_time_def
      split: option.splits if_splits dest!: find_SomeD)

lemma load_used:
  assumes "used (sha256 E state) s"
  shows "load_oauth_session E state tenant s = (Inl ValidationError, s)"
  using assms by (auto simp: load_oauth_session_def oauth_by_state_def used_def run_bind_require run_bind_some_or the_time_def
      split: option.split dest!: find_SomeD)

lemma used_refused:
  assumes "used (sha256 E state) s"
  shows "complete_gmail_oauth E G ctx state code verifier q s = (Inl ValidationError, s)"
    and "complete_gmail_oauth_callback E G state code s = (Inl ValidationError, s)"
  using load_used [OF assms]
  by (auto simp: complete_gmail_oauth_def complete_gmail_oauth_callback_def run_bind_require, simp_all add: run_bindE)


lemma finish_uses_from:
  assumes "finish_gmail_oauth E G tenant r q s1 = (Inr c, t)" and "load_oauth_session E state owner s = (Inr r, s)"
    and "mailbox_rows s1 = mailbox_rows s"
    and "distinct (map oauth_id (oauth_sessions s))" and "distinct (map oauth_state_hash (oauth_sessions s))"
  shows "used (sha256 E state) t"
  using finish_uses [OF assms(1)] load_oauth_run [OF assms(2)] assms(3-5) by (auto simp: mailbox_rows_def)

lemmas mail_run = evolves_run [where R = mail_same]

lemma callback_uses:
  assumes "complete_gmail_oauth_callback E G state code s = (Inr c, t)"
    and "distinct (map oauth_id (oauth_sessions s))" and "distinct (map oauth_state_hash (oauth_sessions s))"
  shows "used (sha256 E state) t"
  using assms(1) unfolding complete_gmail_oauth_callback_def
proof (elim bindE_InrE, goal_cases)
  case prems: (1 u s1 r s2 sealed s3 verifier s4 tokens s5)
  have s: "s1 = s" "s2 = s1" using prems(1) load_oauth_run [OF prems(2)] by (auto simp: require_run)
  obtain access refresh where tokens: "tokens = (access, refresh)" by (cases tokens)
  with prems obtain identity s6 where id: "google_identity G access s5 = (Inr identity, s6)"
    and fin: "(case identity of (account, email) \<Rightarrow> finish_gmail_oauth E G (oauth_tenant_id r) r
       \<lparr>gid_account_id = account, gid_email = email, gid_access_token = access, gid_refresh_token = refresh\<rparr>) s6 = (Inr c, t)"
    by (auto elim!: bindE_InrE)
  have "mailbox_rows s4 = mailbox_rows s3" using prems(4) by (rule mail_run [rotated]) (rule mail)
  moreover have "mailbox_rows s5 = mailbox_rows s4" using prems(5) by (rule mail_run [rotated]) (rule mail)
  moreover have "mailbox_rows s6 = mailbox_rows s5" using id by (rule mail_run [rotated]) (rule mail)
  ultimately have "mailbox_rows s6 = mailbox_rows s" using prems(3) s by (simp add: some_or_run)
  moreover have "load_oauth_session E state None s = (Inr r, s)" using prems(2) s by simp
  ultimately show ?case using fin assms(2,3) by (cases identity) (auto intro: finish_uses_from)
qed

lemma complete_uses:
  assumes "complete_gmail_oauth E G ctx state code verifier q s = (Inr c, t)"
    and "distinct (map oauth_id (oauth_sessions s))" and "distinct (map oauth_state_hash (oauth_sessions s))"
  shows "used (sha256 E state) t"
  using assms(1) unfolding complete_gmail_oauth_def
proof (elim bindE_InrE, goal_cases)
  case prems: (1 u s1 r s2 sealed s3 kept_verifier s4 u' s5)
  have s: "s1 = s" "s2 = s1" using prems(1) load_oauth_run [OF prems(2)] by (auto simp: require_run)
  have "mailbox_rows s4 = mailbox_rows s3" using prems(4) by (rule mail_run [rotated]) (rule mail)
  then have "mailbox_rows s5 = mailbox_rows s" using prems(3,5) s by (simp add: some_or_run require_run)
  moreover have "load_oauth_session E state (Some (ctx_tenant_id ctx)) s = (Inr r, s)" using prems(2) s by simp
  ultimately show ?case using prems(6) assms(2,3) by (blast intro: finish_uses_from)
qed

text \<open>C35: An OAuth state is used at most once. After an authorisation was completed, by the callback or by the API, no
later work of the service completes it again, whatever happens to mailboxes and sessions in between: both ways raise
\<open>ValidationError\<close>, before anything is asked from Google and without changing a row.\<close>

theorem oauth_state_used_once:
  assumes "distinct (map oauth_id (oauth_sessions s))" and "distinct (map oauth_state_hash (oauth_sessions s))"
    and "complete_gmail_oauth_callback E G state code s = (Inr c, s1) \<or>
         complete_gmail_oauth E G ctx state code verifier q s = (Inr c, s1)"
    and "(gmail_step E G)\<^sup>*\<^sup>* s1 t"
  shows "complete_gmail_oauth_callback E G state code' t = (Inl ValidationError, t) \<and>
     complete_gmail_oauth E G ctx' state code' verifier' q' t = (Inl ValidationError, t)"
proof -
  have "used (sha256 E state) s1"
    using assms(3) callback_uses [OF _ assms(1,2)] complete_uses [OF _ assms(1,2)] by blast
  with assms(4) have "used (sha256 E state) t" by (rule gmail_steps_used)
  then show ?thesis by (simp add: used_refused)
qed

section \<open>Silence after a disconnection\<close>

lemma disconnected_after:
  assumes "distinct (map gconn_id (integration_connections s))" and "disconnect_gmail ctx i s = (Inr c, t)"
  shows "disconnected i t"
proof -
  have put: "disconnected i s1" if "put_connection i f s = (Inr u, s1)" and "\<And>r. gconn_status (f r) = DISCONNECTED" for f u s1
    using that assms(1) by (auto simp: put_connection_def disconnected_def list_all_iff upd_row_is_map)
  moreover have "disconnected i t" if "bindE (put_connection i f) g s = (Inr c, t)"
    and "\<And>r. gconn_status (f r) = DISCONNECTED" and "\<And>u. evolves (stays_off i) (g u)" for f g
    using that(1)
  proof (elim bindE_InrE, goal_cases)
    case (1 u s1)
    from put [OF 1(1) that(2)] off_run [OF that(3) 1(2)] show ?case by blast
  qed
  moreover have "\<exists>f g. bindE (put_connection i f) g s = (Inr c, t) \<and> (\<forall>r. gconn_status (f r) = DISCONNECTED) \<and> (\<forall>u. evolves (stays_off i) (g u))"
    using assms(2) unfolding disconnect_gmail_def
    by (cases "own_connection ctx i s")
      (simp_all add: run_bindE [of "get_connection ctx i"] get_connection_run, intro exI conjI, assumption, simp, intro allI off_steps put_connection_off silent)
  ultimately show ?thesis by blast
qed

text \<open>C36: A disconnected mailbox is left alone. From the moment its owner disconnects it, and until an authorisation
connects it again, whatever the workers and the other components do, no page of its history is read, no backfill runs,
no watch is started and no synchronisation is scheduled for it: each of these raises, without a call to Google and
without changing a row.\<close>

theorem disconnected_mailbox_silent:
  assumes "distinct (map gconn_id (integration_connections s))" and "disconnect_gmail ctx i s = (Inr c, s1)"
    and "(mailbox_step E G)\<^sup>*\<^sup>* s1 t"
  shows "(\<exists>e. sync_gmail_history_page E G ctx' i history_id token now t = (Inl e, t)) \<and>
     (\<exists>e. run_gmail_initial_backfill_page E G ctx' i token now t = (Inl e, t)) \<and>
     (\<exists>e. start_gmail_watch E G ctx' i t = (Inl e, t)) \<and>
     (\<exists>e. schedule_gmail_sync ctx' i initial t = (Inl e, t))"
proof -
  have off: "disconnected i t"
    by (rule mailbox_steps_off [OF assms(3) disconnected_after [OF assms(1,2)]])
  show ?thesis
    by (intro conjI sync_refused [OF off] disconnected_refusals(3,5,6) [OF off])
qed

section \<open>Witnesses and credentials\<close>


definition demo_gmail :: gmail_config where
  "demo_gmail = \<lparr>gm_environment = ''development'', gm_encryption_key = ''k'', gm_client_id = ''c'', gm_client_secret = ''s'',
     gm_authorization_url = ''https://a'', gm_token_url = ''https://t'', gm_userinfo_url = ''https://u'', gm_redirect_uri = ''https://r'',
     gm_push_secret = ''p'', gm_topic = [], gm_api_base_url = ''https://g'', gm_encrypt = (\<lambda>_ t. CHR ''!'' # t), gm_decrypt = (\<lambda>_ t. Inr (tl t)),
     gm_hmac = (\<lambda>k t. k @ t), gm_mime = (\<lambda>_ plain _. Inr plain), gm_http = (\<lambda>_ _. HttpRequestError)\<rparr>"

text \<open>A tenant who has asked for an authorisation under the state \<open>st\<close> and the verifier \<open>v\<close>.\<close>

definition oauth_demo :: db where
  "oauth_demo = empty_db\<lparr>next_uuid := 100,
     oauth_sessions := [\<lparr>oauth_id = 50, oauth_tenant_id = 7, oauth_provider = ''gmail'', oauth_state_hash = ''st'',
       oauth_code_verifier_ciphertext = Some (pad_base64 (urlsafe_b64encode ''!v'')), oauth_redirect_uri = ''https://r'', oauth_expected_account_id = None,
       oauth_expires_at = 1, oauth_consumed_at = None, oauth_created_at = 0\<rparr>]\<rparr>"

definition demo_identity :: gmail_identity where
  "demo_identity = \<lparr>gid_account_id = ''acct'', gid_email = ''o@x'', gid_access_token = ''a'', gid_refresh_token = Some ''r''\<rparr>"

lemmas completing = complete_gmail_oauth_def load_oauth_session_def oauth_by_state_def unseal_def seal_key_def finish_gmail_oauth_def
  account_connection_def kept_refresh_token_def sealed_tokens_def seal_def resumed_sync_def connection_now_def gmail_context_def
  schedule_gmail_sync_def own_connection_def sync_of_def sync_now_def gmail_job_def put_oauth_def put_connection_def add_connection_def
  add_sync_def put_sync_def connection_context_def configured_def or_none_def enqueue_now_def enqueue_job_def add_job_def DEFAULT_MAX_ATTEMPTS_def new_outbox_event_def add_outbox_event_def trip_def integration_connection_check_def

lemma demo_account_texts: "strip ''acct'' = ''acct''" "folded ''o@x'' = ''o@x''"
  by code_simp+

lemma oauth_demo_completes:
  "\<exists>c s1. complete_gmail_oauth demo_env demo_gmail demo_ctx ''st'' ''code'' ''v'' demo_identity oauth_demo = (Inr c, s1)"
  by (simp add: completing oauth_demo_def demo_gmail_def demo_env_def demo_ctx_def demo_identity_def empty_db_def program_runs
     urlsafe_b64decode_encode demo_account_texts cong: bindE_weak if_weak_cong)


definition off_demo :: db where
  "off_demo = empty_db\<lparr>next_uuid := 100,
     integration_connections := [\<lparr>gconn_id = 40, gconn_tenant_id = 7, gconn_provider = ''gmail'', gconn_provider_account_id = ''acct'',
       gconn_account_email = ''o@x'', gconn_status = CONNECTED, gconn_credential_ciphertext = Some ''sealed'', gconn_credential_version = 1,
       gconn_watch_id = None, gconn_watch_expiry = None, gconn_committed_history_id = Some ''5'', gconn_coverage_cutoff = None,
       gconn_last_success_at = None, gconn_last_error = None, gconn_lease_until = None, gconn_row_version = 1,
       gconn_created_at = 0, gconn_updated_at = 0\<rparr>]\<rparr>"

lemma off_demo_disconnects: "\<exists>c s1. disconnect_gmail demo_ctx 40 off_demo = (Inr c, s1)"
  by (simp add: disconnect_gmail_def off_demo_def demo_ctx_def empty_db_def get_connection_def own_connection_def configured_def
    put_connection_def sync_of_def cancel_sends_def undispatched_sends_def cancel_gmail_jobs_def connection_now_def program_runs bound_project_ids_def)

section \<open>Credentials\<close>

text \<open>How a character is written in a JSON text: itself, with a one-letter escape, or with its code point.\<close>

lemma code_point: "n < 256 \<Longrightarrow> digits_val 16 0 [CHR ''0'', CHR ''0'', digit_char (n div 16), digit_char (n mod 16)] = Some n"
proof -
  assume "n < 256"
  then have "n div 16 < 16" by simp
  moreover have "digit_val (CHR ''0'') = Some 0" by (simp add: digit_val_def)
  ultimately show "digits_val 16 0 [CHR ''0'', CHR ''0'', digit_char (n div 16), digit_char (n mod 16)] = Some n"
    by (simp add: digit_val_char)
qed

lemma of_char_is: "of_char c = (n :: nat) \<Longrightarrow> c = char_of n"
  by auto

lemma ascii_char_forms:
  obtains (itself) "ascii_char c = [c]" "c \<noteq> CHR 0x22" "c \<noteq> CHR 0x5C" "\<not> of_char c < (32 :: nat)"
    | (escape) e where "ascii_char c = [CHR 0x5C, e]" "e \<noteq> CHR ''u''" "json_escape e = Some c"
    | (point) "ascii_char c = [CHR 0x5C, CHR ''u'', CHR ''0'', CHR ''0'', digit_char (of_char c div 16), digit_char (of_char c mod 16)]"
proof -
  show thesis
  proof (cases "of_char c \<in> {34, 92, 10, 13, 9, 8, 12 :: nat}")
    case True
    then have "c \<in> {CHR 0x22, CHR 0x5C, CHR 0x0A, CHR 0x0D, CHR 0x09, CHR 0x08, CHR 0x0C}"
      by (auto dest!: of_char_is simp: char_of_def bit_0)
    then have "\<exists>e\<in>{CHR 0x22, CHR 0x5C, CHR ''n'', CHR ''r'', CHR ''t'', CHR ''b'', CHR ''f''}.
        ascii_char c = [CHR 0x5C, e] \<and> e \<noteq> CHR ''u'' \<and> json_escape e = Some c"
      by (elim insertE) (simp_all add: ascii_char_def json_char_def json_escape_def)
    then show thesis by (auto intro: escape)
  next
    case False
    then have "c \<noteq> CHR 0x22" "c \<noteq> CHR 0x5C" by auto
    with False point itself show thesis
      by (cases "of_char c < (32 :: nat)"; cases "127 \<le> (of_char c :: nat)") (simp_all add: ascii_char_def json_char_def Let_def)
  qed
qed

lemma json_chars_escaped: "json_chars (ascii_char c @ u) = map_option (apfst ((#) c)) (json_chars u)"
proof (cases rule: ascii_char_forms [of c])
  case point
  have "(of_char c :: nat) < 256" by simp
  with point code_point [of "of_char c"] show ?thesis by (simp del: digits_val.simps)
qed simp_all

lemma json_chars_text: "json_chars (concat (map ascii_char t) @ CHR 0x22 # u) = Some (t, u)"
  by (induction t) (simp_all add: json_chars_escaped)


lemma after_char_here: "\<not> is_space c \<Longrightarrow> after_char c (c # t) = Some t"
  by (simp add: after_char_def)

lemma after_char_blank: "after_char c (CHR '' '' # t) = after_char c t"
  by (simp add: after_char_def is_space_def)

lemma marks: "\<not> is_space CHR 0x22" "\<not> is_space (CHR '':'')" "\<not> is_space (CHR '','')" "\<not> is_space (CHR ''{'')" "\<not> is_space (CHR ''}'')"
  by code_simp+

lemma json_member_text: "json_member (json_text k @ '': '' @ json_text v @ u) = Some ((k, v), u)"
  by (simp add: json_member_def json_text_def after_char_here after_char_blank marks json_chars_text)

lemma json_member_blank: "json_member (CHR '' '' # t) = json_member t"
  by (simp add: json_member_def after_char_blank)

lemma json_members_object:
  assumes "d \<noteq> []" and "length d \<le> fuel"
  shows "json_members fuel (join '', '' (map (\<lambda>kv. json_text (fst kv) @ '': '' @ json_text (snd kv)) d) @ ''}'') = Some d \<and>
     json_members fuel (CHR '' '' # join '', '' (map (\<lambda>kv. json_text (fst kv) @ '': '' @ json_text (snd kv)) d) @ ''}'') = Some d"
  using assms
proof (induction d arbitrary: fuel)
  case (Cons kv d)
  then obtain n where n: "fuel = Suc n" by (cases fuel) auto
  show ?case
  proof (cases d)
    case Nil
    with n show ?thesis
      using json_member_text [of "fst kv" "snd kv" "''}''"]
      by (simp add: json_member_blank after_char_def marks)
  next
    case (Cons kv' d')
    let ?others = "join '', '' (map (\<lambda>kv. json_text (fst kv) @ '': '' @ json_text (snd kv)) d) @ ''}''"
    from Cons.IH [of n] Cons Cons.prems n have "json_members n (CHR '' '' # ?others) = Some d" by simp
    with n Cons show ?thesis
      using json_member_text [of "fst kv" "snd kv" "'', '' @ ?others"]
      by (simp add: json_member_blank after_char_here marks)
  qed
qed simp

lemma join_at_least: "(\<And>x. f x \<noteq> []) \<Longrightarrow> length xs \<le> length (join sep (map f xs))"
proof (induction xs)
  case (Cons x xs)
  then have "0 < length (f x)" "length xs \<le> length (join sep (map f xs))" by simp_all
  then have "Suc (length xs) \<le> length (f x) + length (join sep (map f xs))" by linarith
  then show ?case by (cases xs) simp_all
qed simp

lemma json_strings_object: "d \<noteq> [] \<Longrightarrow> json_strings (json_object d) = Some d"
proof -
  let ?body = "join '', '' (map (\<lambda>kv. json_text (fst kv) @ '': '' @ json_text (snd kv)) d) @ ''}''"
  assume d: "d \<noteq> []"
  have "length d \<le> length ?body"
    using join_at_least [of "\<lambda>kv. json_text (fst kv) @ '': '' @ json_text (snd kv)" d "'', ''"] by simp
  moreover obtain t where "?body = CHR 0x22 # t" using d by (cases d; cases "tl d") (auto simp: json_text_def)
  then have "after_char (CHR ''}'') ?body = None" by (simp add: after_char_def is_space_def)
  ultimately show ?thesis
    using json_members_object [OF d, of "length ?body"] by (simp add: json_strings_def json_object_def after_char_here marks)
qed

text \<open>C37: Stored Gmail credentials are read back as they were stored, whatever characters the tokens have: for a cipher
that decrypts what it encrypted under the same key, the connection that holds the sealed tokens yields exactly the
access token and the refresh token that were sealed.\<close>

theorem credentials_round_trip:
  assumes "\<And>k t. gm_decrypt G k (gm_encrypt G k t) = Inr t \<and> gm_encrypt G k t \<noteq> []" and "access \<noteq> []"
    and "sealed_tokens E G access refresh s = (Inr sealed, s1)" and "gconn_credential_ciphertext c = Some sealed"
  shows "\<exists>credentials. credential_values E G c t = (Inr credentials, t) \<and>
     token_of credentials ''access_token'' = access \<and> token_of credentials ''refresh_token'' = refresh"
proof -
  obtain key where key: "\<And>s. seal_key E G s = (Inr key, s)"
    and sealed: "sealed = pad_base64 (urlsafe_b64encode (gm_encrypt G key (json_object [(''access_token'', access), (''refresh_token'', refresh)])))"
    using assms(3) by (auto simp: sealed_tokens_def seal_def seal_key_def run_bindE split: if_splits)
  have "urlsafe_b64decode [] = Some []" by (simp add: urlsafe_b64decode_def)
  with sealed assms(1) urlsafe_b64decode_encode have "sealed \<noteq> []" by (metis option.inject)
  with key sealed assms show ?thesis
    by (simp add: credential_values_def unseal_def configured_def or_none_def run_bindE urlsafe_b64decode_encode json_strings_object token_of_def)
qed


theorem oauth_state_used_once_witness:
  "\<exists>c s1. complete_gmail_oauth demo_env demo_gmail demo_ctx ''st'' ''code'' ''v'' demo_identity oauth_demo = (Inr c, s1) \<and>
     complete_gmail_oauth_callback demo_env demo_gmail ''st'' ''code'' s1 = (Inl ValidationError, s1)"
proof -
  obtain c s1 where done_once: "complete_gmail_oauth demo_env demo_gmail demo_ctx ''st'' ''code'' ''v'' demo_identity oauth_demo = (Inr c, s1)"
    using oauth_demo_completes by blast
  have "complete_gmail_oauth_callback demo_env demo_gmail ''st'' ''code'' s1 = (Inl ValidationError, s1)"
    using oauth_state_used_once [of oauth_demo demo_env demo_gmail "''st''" "''code''" c s1 demo_ctx "''v''" demo_identity s1] done_once
    by (simp add: oauth_demo_def)
  with done_once show ?thesis by blast
qed

theorem disconnected_mailbox_silent_witness:
  "\<exists>c s1 e. disconnect_gmail demo_ctx 40 off_demo = (Inr c, s1) \<and>
     sync_gmail_history_page demo_env demo_gmail demo_ctx 40 ''5'' None None s1 = (Inl e, s1)"
proof -
  obtain c s1 where off: "disconnect_gmail demo_ctx 40 off_demo = (Inr c, s1)" using off_demo_disconnects by blast
  have "\<exists>e. sync_gmail_history_page demo_env demo_gmail demo_ctx 40 ''5'' None None s1 = (Inl e, s1)"
    using disconnected_mailbox_silent [OF _ off rtranclp.rtrancl_refl [of "mailbox_step demo_env demo_gmail"]]
    by (simp add: off_demo_def)
  with off show ?thesis by blast
qed

theorem credentials_round_trip_witness:
  "\<exists>sealed credentials. sealed_tokens demo_env demo_gmail [CHR ''a'', CHR 0x22, CHR 0xE9] ''r'' empty_db = (Inr sealed, empty_db) \<and>
     credential_values demo_env demo_gmail (hd (integration_connections off_demo)\<lparr>gconn_credential_ciphertext := Some sealed\<rparr>) empty_db =
       (Inr credentials, empty_db) \<and> token_of credentials ''access_token'' = [CHR ''a'', CHR 0x22, CHR 0xE9]"
proof -
  have "\<exists>sealed. sealed_tokens demo_env demo_gmail [CHR ''a'', CHR 0x22, CHR 0xE9] ''r'' empty_db = (Inr sealed, empty_db)"
    by (simp add: sealed_tokens_def seal_def seal_key_def run_bindE demo_gmail_def)
  then obtain sealed where sealed: "sealed_tokens demo_env demo_gmail [CHR ''a'', CHR 0x22, CHR 0xE9] ''r'' empty_db = (Inr sealed, empty_db)" by blast
  moreover have "\<exists>credentials. credential_values demo_env demo_gmail (hd (integration_connections off_demo)\<lparr>gconn_credential_ciphertext := Some sealed\<rparr>) empty_db =
       (Inr credentials, empty_db) \<and> token_of credentials ''access_token'' = [CHR ''a'', CHR 0x22, CHR 0xE9] \<and>
       token_of credentials ''refresh_token'' = ''r''"
    by (rule credentials_round_trip [OF _ _ sealed]) (simp_all add: demo_gmail_def)
  ultimately show ?thesis by blast
qed

end
