(* ===== verification/Workers_Safety.thy ===== *)
theory Workers_Safety
  imports Workers Live_Safety Mailbox_Safety
begin

text \<open>
  What executing a claimed job leaves of its row, why no job creates a payment link, and the bound of one invocation.
\<close>

named_theorems quiet "operations that only append jobs and leave the OAuth sessions alone"

definition quiet :: "db \<Rightarrow> db \<Rightarrow> bool" where
  "quiet s t \<longleftrightarrow> (\<exists>queued. jobs t = jobs s @ queued) \<and> oauth_sessions t = oauth_sessions s"

interpretation quiet: state_order quiet
proof unfold_locales
  show "quiet s s" for s by (simp add: quiet_def)
  show "quiet s t \<Longrightarrow> quiet t u \<Longrightarrow> quiet s u" for s t u by (auto simp: quiet_def)
qed

lemma evolves_case_ses:
  "(\<And>a. evolves R (f a)) \<Longrightarrow> (\<And>c. evolves R (g c)) \<Longrightarrow> (\<And>n. evolves R (h n)) \<Longrightarrow>
   evolves R (case x of SesAnswer a \<Rightarrow> f a | SesClientError c \<Rightarrow> g c | SesTransportError n \<Rightarrow> h n)"
  by (cases x) simp_all

lemmas quiet_steps = quiet.evolve_rules evolves_case_http evolves_case_routed evolves_case_ses

lemma quiet_rows [quiet]:
  "evolves quiet fresh_uuid" "evolves quiet (add_job b1)" "evolves quiet (add_outbox_event c1)" "evolves quiet (put_action d1 d2)"
  "evolves quiet (add_action_attempt e1)" "evolves quiet (put_attempt f1 f2)" "evolves quiet (put_payment g1 g2)"
  "evolves quiet (put_link h1 h2)" "evolves quiet (add_payment_attempt i1)" "evolves quiet (put_ingress j1 j2)"
  "evolves quiet (add_observation k1)" "evolves quiet (put_order l1 l2)" "evolves quiet (put_notification m1 m2)"
  "evolves quiet (add_external_event n1)" "evolves quiet (put_event o1 o2)" "evolves quiet (add_communication p1)"
  "evolves quiet (add_routing_decision q1)" "evolves quiet (add_request r1)" "evolves quiet (add_request_communication s1)"
  "evolves quiet (put_connection t1 t2)" "evolves quiet (put_sync u1 u2)" "evolves quiet (exchange v1 v2)"
  "evolves quiet (ses_exchange w1 w2)"
  by (rule evolvesI;
      simp add: quiet_def run_add_row add_job_def add_outbox_event_def put_action_def add_action_attempt_def put_attempt_def put_payment_def put_link_def
        add_payment_attempt_def put_ingress_def add_observation_def put_order_def put_notification_def add_external_event_def
        put_event_def add_communication_def add_routing_decision_def add_request_def add_request_communication_def put_connection_def
        put_sync_def exchange_def ses_exchange_def)+

lemma quiet_project [quiet]: "evolves quiet (get_project ctx i)"
  unfolding get_project_def by (intro quiet_steps)

lemma quiet_ops_0 [quiet]:
  "evolves quiet the_time" "evolves quiet (time_or_now b1)" "evolves quiet (digest_of c1 c2)" "evolves quiet (trip d1 d2)"
  unfolding the_time_def time_or_now_def digest_of_def trip_def
  by (intro quiet_steps quiet)+

lemma quiet_ops_1 [quiet]:
  "evolves quiet (new_outbox_event a1 a2 a3 a4 a5 a6 a7)"
  unfolding new_outbox_event_def
  by (intro quiet_steps quiet)+

lemma quiet_ops_2 [quiet]:
  "evolves quiet (enqueue_job a1 a2 a3 a4 a5 a6 a7 a8 a9 a10)"
  unfolding enqueue_job_def
  by (intro quiet_steps quiet)+

lemma quiet_ops_3 [quiet]:
  "evolves quiet (enqueue_now a1 a2 a3 a4 a5 a6)" "evolves quiet (get_external_action b1)" "evolves quiet (last_attempt c1)"
  "evolves quiet (transition_action d1 d2)"
  unfolding enqueue_now_def get_external_action_def last_attempt_def transition_action_def
  by (intro quiet_steps quiet)+

lemma quiet_ops_4 [quiet]:
  "evolves quiet (begin_action_dispatch a1 a2)" "evolves quiet (complete_action b1 b2 b3 b4)"
  "evolves quiet (mark_action_review_required c1 c2)" "evolves quiet (mark_action_unknown d1 d2)"
  "evolves quiet (mark_action_retry e1 e2)" "evolves quiet (get_payment f1)" "evolves quiet (find_payment g1 g2)"
  "evolves quiet (latest_link h1)"
  unfolding begin_action_dispatch_def complete_action_def mark_action_review_required_def mark_action_unknown_def mark_action_retry_def
    get_payment_def find_payment_def latest_link_def
  by (intro quiet_steps quiet)+

lemma quiet_ops_5 [quiet]:
  "evolves quiet (transition_payment a1 a2)" "evolves quiet (link_of_action b1)"
  unfolding transition_payment_def link_of_action_def
  by (intro quiet_steps quiet)+

lemma quiet_link_failed [quiet]: "evolves quiet (link_dispatch_failed l p action err)"
  unfolding link_dispatch_failed_def by (cases err; simp only: exn.case; intro quiet_steps quiet)

lemma quiet_ops_7 [quiet]:
  "evolves quiet (dispatch_payment_link a1 a2)" "evolves quiet (attempt_of_event b1 b2 b3)"
  "evolves quiet (apply_event c1 c2 c3 c4 c5 c6)" "evolves quiet (store_observation d1 d2 d3 d4 d5 d6 d7 d8 d9 d10)"
  unfolding dispatch_payment_link_def attempt_of_event_def apply_event_def store_observation_def
  by (intro quiet_steps quiet)+

lemma quiet_ops_8 [quiet]:
  "evolves quiet (observe_payment_event a1 a2 a3 a4 a5 a6 a7 a8)" "evolves quiet (ingress_target b1)"
  unfolding observe_payment_event_def ingress_target_def
  by (intro quiet_steps quiet)+

lemma quiet_ops_9 [quiet]:
  "evolves quiet (check_ingress_tenant a1 a2)"
  unfolding check_ingress_tenant_def
  by (intro quiet_steps quiet)+

lemma quiet_ops_10 [quiet]:
  "evolves quiet (normalize_payment_webhook a1 a2 a3)" "evolves quiet (adopt_link b1 b2)"
  unfolding normalize_payment_webhook_def adopt_link_def
  by (intro quiet_steps quiet)+

lemma quiet_ops_11 [quiet]:
  "evolves quiet (known_link_id a1 a2 a3)"
  unfolding known_link_id_def
  by (intro quiet_steps quiet)+

lemma quiet_ops_12 [quiet]:
  "evolves quiet (reconcile_payment_request a1 a2 a3 a4)" "evolves quiet (unprotect b1 b2)" "evolves quiet (of_result c1)"
  "evolves quiet (dict_index d1 d2)"
  unfolding reconcile_payment_request_def unprotect_def of_result_def dict_index_def
  by (intro quiet_steps quiet)+

lemma quiet_ops_13 [quiet]:
  "evolves quiet (order_of_payload a1)"
  unfolding order_of_payload_def
  by (intro quiet_steps quiet)+

lemma quiet_ops_14 [quiet]:
  "evolves quiet (begin_gmail_send a1)" "evolves quiet (late_send_callback b1 b2)" "evolves quiet (send_found c1 c2)"
  "evolves quiet (mark_sent d1)"
  unfolding begin_gmail_send_def late_send_callback_def send_found_def mark_sent_def
  by (intro quiet_steps quiet)+

lemma quiet_ops_15 [quiet]:
  "evolves quiet (record_gmail_send_success a1 a2 a3 a4 a5)" "evolves quiet (record_gmail_send_unknown b1 b2)"
  "evolves quiet (review_url c1 c2)"
  unfolding record_gmail_send_success_def record_gmail_send_unknown_def review_url_def
  by (intro quiet_steps quiet)+

lemma quiet_ops_16 [quiet]:
  "evolves quiet (materialize_ses_notification a1 a2)" "evolves quiet (settle_notification b1 b2)"
  unfolding materialize_ses_notification_def settle_notification_def
  by (intro quiet_steps quiet)+

lemma quiet_ops_17 [quiet]:
  "evolves quiet (record_ses_notification_success a1 a2)" "evolves quiet (record_ses_notification_unknown b1 b2)"
  "evolves quiet (ingest_external_event c1 c2 c3 c4 c5 c6 c7)" "evolves quiet (route_candidates d1 d2 d3)"
  "evolves quiet (open_routing e1 e2 e3 e4 e5)" "evolves quiet (map_event f1 f2 f3 f4)" "evolves quiet (own_event g1 g2)"
  unfolding record_ses_notification_success_def record_ses_notification_unknown_def ingest_external_event_def route_candidates_def
    open_routing_def map_event_def own_event_def
  by (intro quiet_steps quiet)+

lemma quiet_ops_18 [quiet]:
  "evolves quiet (route_external_event a1 a2 a3)" "evolves quiet (new_request b1 b2 b3)"
  "evolves quiet (link_communication c1 c2 c3 c4 c5)"
  unfolding route_external_event_def new_request_def link_communication_def
  by (intro quiet_steps quiet)+

lemma quiet_ops_19 [quiet]:
  "evolves quiet (create_request a1 a2 a3 a4)"
  unfolding create_request_def
  by (intro quiet_steps quiet)+

lemma quiet_ops_20 [quiet]:
  "evolves quiet (create_request_from_communication a1 a2 a3)" "evolves quiet (seal_key b1 b2)"
  unfolding create_request_from_communication_def seal_key_def
  by (intro quiet_steps quiet)+

lemma quiet_ops_21 [quiet]:
  "evolves quiet (seal a1 a2 a3)" "evolves quiet (unseal b1 b2 b3)"
  unfolding seal_def unseal_def
  by (intro quiet_steps quiet)+

lemma quiet_ops_22 [quiet]:
  "evolves quiet (sealed_tokens a1 a2 a3 a4)" "evolves quiet (connection_now b1)" "evolves quiet (sync_now c1)"
  "evolves quiet (gmail_context d1)" "evolves quiet (get_connection e1 e2)" "evolves quiet (gmail_job f1 f2 f3 f4)"
  "evolves quiet (google_setting g1)" "evolves quiet (credential_values h1 h2 h3)" "evolves quiet (mark_gmail_reauth i1 i2)"
  unfolding sealed_tokens_def connection_now_def sync_now_def gmail_context_def get_connection_def gmail_job_def google_setting_def
    credential_values_def mark_gmail_reauth_def
  by (intro quiet_steps quiet)+

lemma quiet_ops_23 [quiet]:
  "evolves quiet (reauth_required a1 a2)"
  unfolding reauth_required_def
  by (intro quiet_steps quiet)+

lemma quiet_ops_24 [quiet]:
  "evolves quiet (refreshed_token a1 a2)"
  unfolding refreshed_token_def
  by (intro quiet_steps quiet)+

lemma quiet_ops_25 [quiet]:
  "evolves quiet (refresh_gmail_access_token a1 a2 a3 a4)" "evolves quiet (gmail_request b1 b2 b3 b4 b5 b6)"
  "evolves quiet (connection_for_provider c1 c2)"
  unfolding refresh_gmail_access_token_def gmail_request_def connection_for_provider_def
  by (intro quiet_steps quiet)+

lemma quiet_ops_26 [quiet]:
  "evolves quiet (authorized_request a1 a2 a3 a4 a5 a6 a7 a8)" "evolves quiet (process_message b1 b2 b3 b4 b5 b6)"
  "evolves quiet (advance_cursor c1 c2 c3)"
  unfolding authorized_request_def process_message_def advance_cursor_def
  by (intro quiet_steps quiet)+

lemma quiet_ops_27 [quiet]:
  "evolves quiet (process_history_page a1 a2 a3 a4 a5 a6 a7 a8)" "evolves quiet (mark_history_gap b1 b2 b3 b4)"
  "evolves quiet (renew_gmail_watch c1 c2 c3 c4)" "evolves quiet (fetch_message_metadata d1 d2 d3 d4)"
  unfolding process_history_page_def mark_history_gap_def renew_gmail_watch_def fetch_message_metadata_def
  by (intro quiet_steps quiet)+

lemma quiet_ops_28 [quiet]:
  "evolves quiet (fetch_refs a1 a2 a3 a4)"
  unfolding fetch_refs_def
  by (intro quiet_steps quiet)+

lemma quiet_ops_29 [quiet]:
  "evolves quiet (fetch_gmail_history_page a1 a2 a3 a4 a5 a6)"
  unfolding fetch_gmail_history_page_def
  by (intro quiet_steps quiet)+

lemma quiet_ops_30 [quiet]:
  "evolves quiet (sync_gmail_history_page a1 a2 a3 a4 a5 a6 a7)" "evolves quiet (start_gmail_watch b1 b2 b3 b4)"
  "evolves quiet (clear_watch c1)"
  unfolding sync_gmail_history_page_def start_gmail_watch_def clear_watch_def
  by (intro quiet_steps quiet)+

lemma quiet_ops_31 [quiet]:
  "evolves quiet (stop_gmail_watch a1 a2 a3 a4)" "evolves quiet (fetch_gmail_backfill_page b1 b2 b3 b4 b5)"
  "evolves quiet (resume_after_gap c1 c2)" "evolves quiet (finish_backfill_page d1 d2 d3)"
  unfolding stop_gmail_watch_def fetch_gmail_backfill_page_def resume_after_gap_def finish_backfill_page_def
  by (intro quiet_steps quiet)+

lemma quiet_ops_32 [quiet]:
  "evolves quiet (run_gmail_initial_backfill_page a1 a2 a3 a4 a5 a6)" "evolves quiet (connected_send_connection b1)"
  "evolves quiet (send_request c1 c2 c3)" "evolves quiet (unknown_send d1 d2)"
  unfolding run_gmail_initial_backfill_page_def connected_send_connection_def send_request_def unknown_send_def
  by (intro quiet_steps quiet)+

lemma quiet_ops_33 [quiet]:
  "evolves quiet (first_send a1 a2 a3 a4)" "evolves quiet (second_send b1 b2 b3 b4 b5)" "evolves quiet (confirmed_send c1 c2 c3)"
  unfolding first_send_def second_send_def confirmed_send_def
  by (intro quiet_steps quiet)+

lemma quiet_ops_34 [quiet]:
  "evolves quiet (settle_send a1 a2 a3)"
  unfolding settle_send_def
  by (intro quiet_steps quiet)+

lemma quiet_ops_35 [quiet]:
  "evolves quiet (dispatch_gmail_send a1 a2 a3)" "evolves quiet (settle_ses b1 b2)"
  unfolding dispatch_gmail_send_def settle_ses_def
  by (intro quiet_steps quiet)+

lemma quiet_ops_36 [quiet]:
  "evolves quiet (dispatch_ses_notification a1 a2 a3)"
  unfolding dispatch_ses_notification_def
  by (intro quiet_steps quiet)+

lemma quiet_ops_37 [quiet]:
  "evolves quiet (payload_uuid a1 a2)" "evolves quiet (job_gmail_context b1 b2)"
  unfolding payload_uuid_def job_gmail_context_def
  by (intro quiet_steps quiet)+

lemma quiet_ops_38 [quiet]:
  "evolves quiet (action_for_job a1 a2 a3)" "evolves quiet (run_history_sync b1 b2)" 
  unfolding action_for_job_def run_history_sync_def
  by (intro quiet_steps quiet)+

lemma quiet_connection_job [quiet]:
  "(\<And>ctx i. evolves quiet (step ctx i)) \<Longrightarrow> evolves quiet (run_connection_job j step)"
  unfolding run_connection_job_def by (intro quiet_steps quiet)

lemma quiet_ops_39 [quiet]:
  "evolves quiet (run_payload_job a1 a2)"
  unfolding run_payload_job_def
  by (intro quiet_steps quiet)+

section \<open>A claimed job is settled\<close>

lemma payload_job_keeps_row:
  assumes "run_payload_job W j s = (r, t)" and "row_by job_id i (jobs s) = Some q"
  shows "row_by job_id i (jobs t) = Some q"
proof -
  have "evolves quiet (run_payload_job W j)" by (rule quiet)
  from evolves_run [OF this assms(1)] have "quiet s t" .
  with assms(2) show ?thesis by (auto simp: quiet_def row_by_append)
qed

text \<open>C38: Executing a claimed job settles it. If the handler returned, the job has succeeded, unless its deadline
passed: then \<open>DurableExecutionError\<close> is raised and the row is the one that was claimed, still running. If the
handler raised, the exception is raised again and the job waits for a retry exactly when the failure is retryable and
attempts and time are left; otherwise it awaits review. In both settled cases the lease is released. The exception is
a failed flush: then the tables are as they were before the execution, the job still runs under its lease, and
\<open>PendingRollbackError\<close> is raised instead.\<close>

theorem claimed_job_settled:
  assumes "row_by job_id i (jobs s) = Some j" and "owned_job worker generation j"
    and "run_payload_job W j s = (r, s1)" and "execute_claimed_job W i worker generation s = (outcome, t)"
  shows "\<exists>q. row_by job_id i (jobs t) = Some q \<and>
    (case r of
       Inl e \<Rightarrow>
         if flush_failed e then outcome = Inl PendingRollbackError \<and> q = j \<and> t = rolled_back s s1
         else outcome = Inl e \<and> job_lease_owner q = None \<and>
         job_state q = (if can_retry (retryable_failure e) (clock s1) j then JOB_RETRY_WAIT else FAILED_REQUIRES_REVIEW)
     | Inr _ \<Rightarrow>
         if (case job_deadline_at j of None \<Rightarrow> False | Some d \<Rightarrow> d < clock s1) then outcome = Inl DurableExecutionError \<and> q = j
         else outcome = Inr () \<and> job_lease_owner q = None \<and> job_state q = JOB_SUCCEEDED)"
proof -
  have row: "row_by job_id i (jobs s1) = Some j" by (rule payload_job_keeps_row [OF assms(3,1)])
  have i: "job_id j = i" using assms(1) by (auto dest: row_by_SomeD)
  from assms(2) have owner: "require_job_owner j worker generation = ret ()"
    by (simp add: owned_job_def require_job_owner_def)
  have retry: "can_retry b (clock s1) (j\<lparr>job_updated_at := u\<rparr>) = can_retry b (clock s1) j" for b u
    by (simp add: can_retry_def past_deadline_def)
  show ?thesis
  proof (cases r)
    case (Inl e)
    show ?thesis
    proof (cases "flush_failed e")
      case True
      with assms Inl i show ?thesis
        by (auto simp: execute_claimed_job_def get_job_def run_bindE run_catchE rolled_back_def)
    next
      case False
      with assms Inl row i owner retry show ?thesis
        by (auto simp: execute_claimed_job_def get_job_def run_bindE run_catchE fail_job_def put_job_def fail_row_def Let_def
            row_by_upd_row)
    qed
  next
    case (Inr u)
    with assms row i owner show ?thesis
      by (auto simp: execute_claimed_job_def get_job_def run_bindE run_catchE complete_job_def put_job_def
          row_by_upd_row require_def split: option.splits if_splits)
  qed
qed

text \<open>A failed flush of one handler ends the whole invocation: the commit after the caught exception raises again.\<close>

lemma failed_flush_ends_invocation:
  assumes "row_by job_id i (jobs s) = Some j" and "owned_job worker generation j" and "kind \<noteq> ''analysis.prepare''"
    and "run_payload_job (services (i, generation, kind)) j s = (Inl e, s1)" and "flush_failed e"
  shows "mapE (\<lambda>l. work_lease (services l) worker l) ((i, generation, kind) # leases) s = (Inl PendingRollbackError, rolled_back s s1)"
  using assms by (simp add: work_lease_def execute_claimed_job_def get_job_def run_bindE run_catchE)

section \<open>Payment jobs\<close>

lemma payment_job_raises:
  assumes "job_kind j = ''payment.create''" and "distinct (map act_id (external_actions s))"
  shows "\<exists>e. run_payload_job W j s = (Inl e, s) \<and> \<not> retryable_failure e \<and> \<not> flush_failed e"
proof (cases "map_of (job_payload_ref j) ''action_id''")
  case None
  with assms(1) show ?thesis
    by (simp add: run_payload_job_def Let_def action_for_job_def payload_uuid_def dict_index_def run_bindE retryable_failure_def flush_failed_def)
next
  case (Some v)
  show ?thesis
  proof (cases "Option.bind (uuid_of_str (py_str v)) (\<lambda>i. action_of_job j i ''razorpay'' ''create_payment_link'' s)")
    case None
    with assms(1) Some show ?thesis
      by (cases "uuid_of_str (py_str v)")
        (simp_all add: run_payload_job_def Let_def action_for_job_def payload_uuid_def dict_index_def run_bindE retryable_failure_def flush_failed_def)
  next
    case found: (Some a)
    then obtain i where i: "uuid_of_str (py_str v) = Some i" and act: "action_of_job j i ''razorpay'' ''create_payment_link'' s = Some a"
      by (auto simp: bind_eq_Some_conv)
    then have a: "a \<in> set (external_actions s)" "act_operation a = ''create_payment_link''"
      unfolding action_of_job_def by (auto dest: find_SomeD)
    then have "row_by act_id (act_id a) (external_actions s) = Some a" using assms(2) by (intro row_by_distinct) simp_all
    with assms(1) Some i act a(2) show ?thesis
      by (auto simp: run_payload_job_def Let_def action_for_job_def payload_uuid_def dict_index_def run_bindE require_def
          dispatch_payment_link_def get_external_action_def retryable_failure_def flush_failed_def)
  qed
qed

text \<open>C39: No worker ever creates a payment link. The handler of \<open>payment.create\<close> looks for an action with the
operation \<open>create_payment_link\<close>, while the actions prepared by the payment service, and the only ones its dispatch
accepts, carry \<open>payment_links.create\<close>. So in every state and for every such job the execution raises without a call
to the provider, and changes nothing but the job, which is put aside for review.\<close>

theorem payment_jobs_never_dispatch:
  assumes "row_by job_id i (jobs s) = Some j" and "owned_job worker generation j" and "job_kind j = ''payment.create''"
    and "distinct (map act_id (external_actions s))"
  shows "\<exists>e t q. execute_claimed_job W i worker generation s = (Inl e, t) \<and> t = s\<lparr>jobs := jobs t\<rparr> \<and>
     row_by job_id i (jobs t) = Some q \<and> job_state q = FAILED_REQUIRES_REVIEW"
proof -
  obtain e where e: "run_payload_job W j s = (Inl e, s)" "\<not> retryable_failure e" "\<not> flush_failed e"
    using payment_job_raises [OF assms(3,4)] by blast
  have i: "job_id j = i" using assms(1) by (auto dest: row_by_SomeD)
  from assms(2) have owner: "require_job_owner j worker generation = ret ()"
    by (simp add: owned_job_def require_job_owner_def)
  from assms(1,2) e i owner show ?thesis
    by (auto simp: execute_claimed_job_def get_job_def run_bindE run_catchE fail_job_def put_job_def fail_row_def Let_def
        row_by_upd_row can_retry_def)
qed

section \<open>One invocation\<close>

lemma claimed_at_most:
  assumes "claim_leases worker limit s = (Inr leases, t)"
  shows "length leases \<le> limit"
proof -
  from assms obtain claimed s1 where "claim_jobs worker (int limit) None [] s = (Inr claimed, s1)" and "length leases = length claimed"
    unfolding claim_leases_def run_atomically by (auto simp: run_bindE split: prod.splits sum.splits)
  moreover from this(1) have "length claimed \<le> limit"
    unfolding claim_jobs_def
  proof (elim bindE_InrE, goal_cases)
    case (1 u1 s2 now s3 picked s4 u2 s5 u3 s6)
    then have c: "claimed = map (claim_row worker now) (filter (\<lambda>j. \<not> past_deadline now j) picked)" by simp
    from 1 have "length picked \<le> limit" by (auto simp: gets_run next_jobs_def)
    moreover have "length claimed \<le> length picked" unfolding c length_map by (rule length_filter_le)
    ultimately show ?case by simp
  qed
  ultimately show ?thesis by simp
qed

lemma mapE_length: "mapE f xs s = (Inr ys, t) \<Longrightarrow> length ys = length xs"
  by (induction xs arbitrary: s ys) (auto elim!: bindE_InrE)

lemma counted_total: "fst (counted outcomes n) + snd (counted outcomes n) = fst n + snd n + length outcomes"
  by (simp add: counted_def) (metis filter_id_conv filter_cong id_apply sum_length_filter_compl)

text \<open>A batch leaves the count within the bound and, unless there was nothing to do, larger.\<close>

lemma batch_counts:
  assumes "claim_leases worker (min CLAIM_BATCH_SIZE (MAX_JOBS_PER_INVOCATION - fst n - snd n)) s = (Inr leases, s1)"
    and "mapE f leases s1 = (Inr outcomes, s2)" and "leases \<noteq> []" and "fst n + snd n < MAX_JOBS_PER_INVOCATION"
  shows "fst n + snd n < fst (counted outcomes n) + snd (counted outcomes n)"
    and "fst (counted outcomes n) + snd (counted outcomes n) \<le> MAX_JOBS_PER_INVOCATION"
proof -
  have "length outcomes = length leases" by (rule mapE_length [OF assms(2)])
  moreover have "0 < length leases" using assms(3) by simp
  moreover have "length leases \<le> MAX_JOBS_PER_INVOCATION - fst n - snd n"
    using claimed_at_most [OF assms(1)] by simp
  ultimately show "fst n + snd n < fst (counted outcomes n) + snd (counted outcomes n)"
    and "fst (counted outcomes n) + snd (counted outcomes n) \<le> MAX_JOBS_PER_INVOCATION"
    using assms(4) by (simp_all add: counted_total)
qed

lemma batches_bounded:
  assumes "work_batches fuel services worker n s = (Inr m, t)" and "fst n + snd n \<le> MAX_JOBS_PER_INVOCATION"
  shows "fst m + snd m \<le> MAX_JOBS_PER_INVOCATION"
  using assms
proof (induction fuel arbitrary: n s)
  case 0
  then show ?case by simp
next
  case (Suc fuel)
  show ?case
  proof (cases "fst n + snd n < MAX_JOBS_PER_INVOCATION")
    case True
    with Suc.prems(1) obtain leases s1 where claim:
      "claim_leases worker (min CLAIM_BATCH_SIZE (MAX_JOBS_PER_INVOCATION - fst n - snd n)) s = (Inr leases, s1)"
      and rest: "(if leases = [] then ret n else bindE (mapE (\<lambda>l. work_lease (services l) worker l) leases) (\<lambda>outcomes.
          work_batches fuel services worker (counted outcomes n))) s1 = (Inr m, t)"
      by (auto elim!: bindE_InrE)
    show ?thesis
    proof (cases "leases = []")
      case False
      with rest obtain outcomes s2 where "mapE (\<lambda>l. work_lease (services l) worker l) leases s1 = (Inr outcomes, s2)"
        and "work_batches fuel services worker (counted outcomes n) s2 = (Inr m, t)"
        by (auto elim!: bindE_InrE)
      with Suc.IH batch_counts(2) [OF claim _ False True] show ?thesis by blast
    qed (use rest Suc.prems(2) in simp)
  qed (use Suc.prems in simp)
qed

lemma batches_enough:
  assumes "MAX_JOBS_PER_INVOCATION - (fst n + snd n) \<le> fuel"
  shows "work_batches (fuel + k) services worker n s = work_batches fuel services worker n s"
  using assms
proof (induction fuel arbitrary: n s)
  case 0
  then show ?case by (cases k) simp_all
next
  case (Suc fuel)
  show ?case
  proof (cases "fst n + snd n < MAX_JOBS_PER_INVOCATION")
    case True
    have step: "work_batches (fuel + k) services worker (counted outcomes n) s2 = work_batches fuel services worker (counted outcomes n) s2"
      if "claim_leases worker (min CLAIM_BATCH_SIZE (MAX_JOBS_PER_INVOCATION - fst n - snd n)) s = (Inr leases, s1)"
        "mapE (\<lambda>l. work_lease (services l) worker l) leases s1 = (Inr outcomes, s2)" "leases \<noteq> []" for leases s1 outcomes s2
      using batch_counts [OF that True] Suc.prems by (intro Suc.IH) linarith
    show ?thesis using True step
      by (auto simp: run_bindE split: prod.split sum.split)
  qed simp
qed

text \<open>C40: One invocation handles at most 25 jobs, in batches that end: running the loop longer changes nothing, since
every batch that claimed something counts at least one job, and the claim of a batch never exceeds what is left of the
25.\<close>

theorem invocation_bounded:
  "work_batches (MAX_JOBS_PER_INVOCATION + k) services worker (0, 0) s = work_batches MAX_JOBS_PER_INVOCATION services worker (0, 0) s \<and>
   (case fst (lambda_handler E setting put_events services request_id s) of
      Inl _ \<Rightarrow> True
    | Inr r \<Rightarrow> inv_processed_jobs r + inv_failed_jobs r \<le> 25)"
proof -
  have "inv_processed_jobs r + inv_failed_jobs r \<le> 25"
    if "lambda_handler E setting put_events services request_id s = (Inr r, t)" for r t
    using that unfolding lambda_handler_def Let_def
    by (auto elim!: bindE_InrE dest!: batches_bounded simp: MAX_JOBS_PER_INVOCATION_def split: prod.splits)
  moreover have "work_batches (MAX_JOBS_PER_INVOCATION + k) services worker (0, 0) s = work_batches MAX_JOBS_PER_INVOCATION services worker (0, 0) s"
    by (rule batches_enough) simp
  ultimately show ?thesis
    by (cases "lambda_handler E setting put_events services request_id s") (auto split: sum.split)
qed


section \<open>Witnesses\<close>

definition demo_services :: worker_services where
  "demo_services = \<lparr>wk_env = demo_env, wk_zones = (\<lambda>_. None), wk_payments = Inl ConflictError, wk_gmail = demo_gmail,
     wk_ses = \<lparr>ses_from_email = ''a@x'', ses_configuration_set = ''s'', ses_send_email = (\<lambda>_ _. SesTransportError ''ReadTimeout'')\<rparr>,
     wk_live_settings = live_demo_settings, wk_model = live_demo_model, wk_meanwhile = (\<lambda>s. s)\<rparr>"

definition job_demo :: "string \<Rightarrow> (string \<times> pyval) list \<Rightarrow> job" where
  "job_demo kind payload = \<lparr>job_id = 30, job_tenant_id = 7, job_project_id = None, job_kind = kind, job_payload_ref = payload,
     job_correlation_id = 31, job_causation_id = None, job_state = RUNNING, job_available_at = 0, job_lease_until = Some 1,
     job_lease_owner = Some ''w'', job_fencing_generation = 1, job_attempt_count = 1, job_max_attempts = 3, job_deadline_at = None,
     job_last_error = None, job_created_at = 0, job_updated_at = 0\<rparr>"

lemma demo_connection_id: "uuid_of_str (uuid_str 40) = Some 40"
  by code_simp

lemma stop_job_runs:
  "\<exists>s1. run_payload_job demo_services (job_demo ''gmail.watch_stop'' [(''connection_id'', PStr (uuid_str 40))])
     (off_demo\<lparr>jobs := [job_demo ''gmail.watch_stop'' [(''connection_id'', PStr (uuid_str 40))]]\<rparr>) = (Inr (), s1) \<and> clock s1 = 0"
  by (simp add: run_payload_job_def job_demo_def demo_services_def run_connection_job_def payload_uuid_def dict_index_def
      demo_connection_id job_gmail_context_def job_connection_def off_demo_def empty_db_def stop_gmail_watch_def gmail_context_def
      connection_context_def get_connection_def own_connection_def clear_watch_def put_connection_def connection_now_def
      configured_def run_bindE)

theorem claimed_job_settled_witness:
  "\<exists>t q. execute_claimed_job demo_services 30 ''w'' 1
       (off_demo\<lparr>jobs := [job_demo ''gmail.watch_stop'' [(''connection_id'', PStr (uuid_str 40))]]\<rparr>) = (Inr (), t) \<and>
     row_by job_id 30 (jobs t) = Some q \<and> job_state q = JOB_SUCCEEDED \<and> job_lease_owner q = None"
proof -
  let ?j = "job_demo ''gmail.watch_stop'' [(''connection_id'', PStr (uuid_str 40))]"
  let ?s = "off_demo\<lparr>jobs := [?j]\<rparr>"
  obtain s1 where run: "run_payload_job demo_services ?j ?s = (Inr (), s1)" "clock s1 = 0" using stop_job_runs by blast
  obtain outcome t where result: "execute_claimed_job demo_services 30 ''w'' 1 ?s = (outcome, t)" by fastforce
  have "row_by job_id 30 (jobs ?s) = Some ?j" "owned_job ''w'' 1 ?j" by (simp_all add: job_demo_def owned_job_def)
  from claimed_job_settled [OF this run(1) result] result show ?thesis by (auto simp: job_demo_def)
qed

theorem payment_jobs_never_dispatch_witness:
  "\<exists>e t q. execute_claimed_job demo_services 30 ''w'' 1 (empty_db\<lparr>jobs := [job_demo ''payment.create'' []]\<rparr>) = (Inl e, t) \<and>
     row_by job_id 30 (jobs t) = Some q \<and> job_state q = FAILED_REQUIRES_REVIEW"
  using payment_jobs_never_dispatch [of 30 "empty_db\<lparr>jobs := [job_demo ''payment.create'' []]\<rparr>" "job_demo ''payment.create'' []"
      "''w''" 1 demo_services]
  by (auto simp: job_demo_def owned_job_def empty_db_def)

end
