(* ===== verification/Schemas.thy ===== *)
theory Schemas
  imports Workers Accounts_Safety
begin

text \<open>
  \<open>services/api/schemas.py\<close>: the request and response models of the HTTP interface. A model is a schema,
  the list of its fields with their types, constraints and defaults, in the order of the class; an instance
  is the JSON dictionary it dumps to. \<open>model_validate\<close> reads a dictionary by a schema, \<open>X_read\<close> gives the
  fields of a row that a response model reads by attribute.
\<close>

section \<open>Schemas\<close>

datatype field_type =
    FText nat "nat option"
  | FEmail
  | FDigest
  | FUuid
  | FInt "int option" "int option"
  | FBool
  | FTime
  | FDate
  | FHours
  | FZone
  | FWeekdays
  | FOneOf "string list"
  | FAny
  | FDict
  | FMap field_type
  | FList nat "nat option" field_type
  | FOptional field_type
  | FModel "(string \<times> field_type \<times> pyval option) list"

type_synonym schema = "(string \<times> field_type \<times> pyval option) list"

text \<open>
  What pydantic takes from elsewhere: the checked and normalised form of an email address
  (\<open>email_validator\<close>) and the names of the time zone database.
\<close>

record formats =
  fm_email :: "string \<Rightarrow> string option"
  fm_zone :: "string \<Rightarrow> bool"

definition size_between :: "nat \<Rightarrow> nat option \<Rightarrow> nat \<Rightarrow> bool" where
  "size_between lo hi n \<longleftrightarrow> lo \<le> n \<and> (case hi of None \<Rightarrow> True | Some m \<Rightarrow> n \<le> m)"

definition between :: "int option \<Rightarrow> int option \<Rightarrow> int \<Rightarrow> bool" where
  "between lo hi n \<longleftrightarrow> (case lo of None \<Rightarrow> True | Some m \<Rightarrow> m \<le> n) \<and> (case hi of None \<Rightarrow> True | Some m \<Rightarrow> n \<le> m)"

text \<open>An integer field also takes a boolean, an integral number and the text of an integer.\<close>

fun read_int :: "pyval \<Rightarrow> int option" where
  "read_int (PInt i) = Some i"
| "read_int (PBool b) = Some (if b then 1 else 0)"
| "read_int (PFloat q _) = (if of_int \<lfloor>q\<rfloor> = q then Some \<lfloor>q\<rfloor> else None)"
| "read_int (PStr t) = int_of_text t"
| "read_int _ = None"

definition true_texts :: "string list" where
  "true_texts = [''1'', ''on'', ''t'', ''true'', ''y'', ''yes'']"

definition false_texts :: "string list" where
  "false_texts = [''0'', ''off'', ''f'', ''false'', ''n'', ''no'']"

fun read_bool :: "pyval \<Rightarrow> bool option" where
  "read_bool (PBool b) = Some b"
| "read_bool (PInt i) = (if i = 0 then Some False else if i = 1 then Some True else None)"
| "read_bool (PFloat q _) = (if q = 0 then Some False else if q = 1 then Some True else None)"
| "read_bool (PStr t) = (if lower t \<in> set true_texts then Some True else if lower t \<in> set false_texts then Some False else None)"
| "read_bool _ = None"

fun read_uuid :: "pyval \<Rightarrow> uuid option" where
  "read_uuid (PStr t) = uuid_of_str t"
| "read_uuid _ = None"

text \<open>A timestamp is read from its ISO text; Python's have a year from 1 to 9999.\<close>

fun read_time :: "pyval \<Rightarrow> time option" where
  "read_time (PStr t) = (case read_json_time t of None \<Rightarrow> None | Some v \<Rightarrow> if representable v then Some v else None)"
| "read_time _ = None"

fun read_date :: "pyval \<Rightarrow> day option" where
  "read_date (PStr t) = (case date_of_iso t of None \<Rightarrow> None | Some d \<Rightarrow> if representable (d * 86400000000) then Some d else None)"
| "read_date _ = None"

fun read_decimal :: "pyval \<Rightarrow> decimal option" where
  "read_decimal (PInt i) = Some (Dec (i < 0) (nat \<bar>i\<bar>) 0)"
| "read_decimal (PFloat _ t) = decimal_of_str t"
| "read_decimal (PStr t) = decimal_of_str t"
| "read_decimal _ = None"

fun read_ints :: "pyval \<Rightarrow> int list option" where
  "read_ints (PList vs) = those (map read_int vs)"
| "read_ints _ = None"

definition weekdays_ok :: "int list \<Rightarrow> bool" where
  "weekdays_ok ds \<longleftrightarrow> distinct ds \<and> list_all (\<lambda>d. 0 \<le> d \<and> d \<le> 6) ds"

definition digest_text :: "string \<Rightarrow> bool" where
  "digest_text t \<longleftrightarrow> length t = 64 \<and> list_all (\<lambda>c. c \<in> set ''0123456789abcdef'') t"

definition capacity_hours :: "decimal \<Rightarrow> bool" where
  "capacity_hours d \<longleftrightarrow> (case decimal_value d of None \<Rightarrow> False | Some h \<Rightarrow> 0 < h \<and> h \<le> 24)"

definition checked :: "('a \<Rightarrow> bool) \<Rightarrow> 'a option \<Rightarrow> 'a option" where
  "checked p v = (case v of None \<Rightarrow> None | Some x \<Rightarrow> if p x then Some x else None)"

text \<open>
  The value of a field, as the model dumps it, or \<open>None\<close> where pydantic raises. An absent field takes its
  default, which is not validated; a field the class does not have is refused (\<open>extra="forbid"\<close>). Numbers of seconds for timestamps and numbers with a
  fraction of zeros written as text are not read.
\<close>

fun field_value :: "formats \<Rightarrow> field_type \<Rightarrow> pyval \<Rightarrow> pyval option" where
  "field_value M (FText lo hi) v = map_option PStr (checked (\<lambda>t. size_between lo hi (length t)) (read_str v))"
| "field_value M FEmail v = map_option PStr (Option.bind (read_str v) (fm_email M))"
| "field_value M FDigest v = map_option PStr (checked digest_text (read_str v))"
| "field_value M FUuid v = map_option (\<lambda>u. PStr (uuid_str u)) (read_uuid v)"
| "field_value M (FInt lo hi) v = map_option PInt (checked (between lo hi) (read_int v))"
| "field_value M FBool v = map_option PBool (read_bool v)"
| "field_value M FTime v = map_option (\<lambda>t. PStr (json_time t)) (read_time v)"
| "field_value M FDate v = map_option (\<lambda>d. PStr (iso_date d)) (read_date v)"
| "field_value M FHours v = map_option (\<lambda>d. PStr (decimal_str d)) (checked capacity_hours (read_decimal v))"
| "field_value M FZone v = map_option PStr (checked (\<lambda>t. size_between 1 (Some 64) (length t) \<and> fm_zone M t) (read_str v))"
| "field_value M FWeekdays v = map_option (\<lambda>ds. PList (map PInt (sort ds)))
     (checked (\<lambda>ds. size_between 1 (Some 7) (length ds) \<and> weekdays_ok ds) (read_ints v))"
| "field_value M (FOneOf options) v = map_option PStr (checked (\<lambda>t. t \<in> set options) (read_str v))"
| "field_value M FAny v = Some v"
| "field_value M FDict v = map_option PDict (as_dict v)"
| "field_value M (FMap t) v = (case v of
     PDict d \<Rightarrow> map_option PDict (those (map (\<lambda>kv. map_option (Pair (fst kv)) (field_value M t (snd kv))) d))
   | _ \<Rightarrow> None)"
| "field_value M (FList lo hi t) v = (case v of
     PList vs \<Rightarrow> if size_between lo hi (length vs) then map_option PList (those (map (field_value M t) vs)) else None
   | _ \<Rightarrow> None)"
| "field_value M (FOptional t) v = (if v = PNone then Some PNone else field_value M t v)"
| "field_value M (FModel cols) v = (case v of
     PDict d \<Rightarrow>
       if set (map fst d) \<subseteq> set (map fst cols)
       then map_option PDict (those (map (\<lambda>f. map_option (Pair (fst f))
         (case map_of d (fst f) of Some w \<Rightarrow> field_value M (fst (snd f)) w | None \<Rightarrow> snd (snd f))) cols))
       else None
   | _ \<Rightarrow> None)"

definition model_validate :: "formats \<Rightarrow> schema \<Rightarrow> (string \<times> pyval) list \<Rightarrow> exn + (string \<times> pyval) list" where
  "model_validate M cols d =
     (case field_value M (FModel cols) (PDict d) of Some (PDict x) \<Rightarrow> Inr x | _ \<Rightarrow> Inl ValueError)"

section \<open>A dumped answer is read back\<close>

text \<open>
  A stable field type: what its value dumps to is read back as the same value. Only decimals are left out
  (no response has one); a model needs distinct field names and defaults that are values of their fields.
\<close>

fun stable :: "formats \<Rightarrow> field_type \<Rightarrow> bool" where
  "stable M FHours = False"
| "stable M (FMap t) = stable M t"
| "stable M (FList lo hi t) = stable M t"
| "stable M (FOptional t) = stable M t"
| "stable M (FModel cols) = (distinct (map fst cols) \<and>
     list_all (\<lambda>f. stable M (fst (snd f)) \<and> (case snd (snd f) of None \<Rightarrow> True | Some v \<Rightarrow> field_value M (fst (snd f)) v = Some v)) cols)"
| "stable M _ = True"

lemma checked_Some [simp]: "checked p v = Some x \<longleftrightarrow> v = Some x \<and> p x"
  by (auto simp: checked_def split: option.splits)

lemma those_map_nth: "those (map f xs) = Some ys \<longleftrightarrow> length ys = length xs \<and> (\<forall>i<length xs. f (xs ! i) = Some (ys ! i))"
proof (induction xs arbitrary: ys)
  case (Cons x xs)
  show ?case
  proof (cases ys)
    case (Cons y zs)
    with Cons.IH [of zs] show ?thesis
      by (auto simp: All_less_Suc2 split: option.splits)
  qed (auto split: option.splits)
qed auto

lemma those_map_again:
  assumes "those (map f xs) = Some ys" and "\<And>x y. x \<in> set xs \<Longrightarrow> f x = Some y \<Longrightarrow> g y = Some y"
  shows "those (map g ys) = Some ys"
  using assms by (auto simp: those_map_nth) (metis nth_mem)

lemma digits_val_bound: "digits_val b acc t = Some n \<Longrightarrow> n < (acc + 1) * b ^ length t"
proof (induction b acc t rule: digits_val.induct)
  case (2 b acc c cs)
  then obtain d where d: "digit_val c = Some d" "d < b" "digits_val b (acc * b + d) cs = Some n" by (auto split: option.splits if_splits)
  with 2 have "n < (acc * b + d + 1) * b ^ length cs" by simp
  also have "\<dots> \<le> ((acc + 1) * b) * b ^ length cs" using d(2) by (intro mult_right_mono) (simp_all add: algebra_simps)
  finally show ?case by (simp add: algebra_simps)
qed simp

lemma uuid_of_str_bound: "uuid_of_str t = Some u \<Longrightarrow> u < 2 ^ 128"
  by (auto simp: uuid_of_str_def Let_def split: if_splits dest!: digits_val_bound)

lemma date_of_iso_date:
  assumes "representable (d * 86400000000)"
  shows "date_of_iso (iso_date d) = Some d"
proof -
  obtain y m k where civ: "civil d = (y, m, k)" by (cases "civil d") auto
  from assms civ have y: "1 \<le> y" "y \<le> 9999" by (simp_all add: representable_def)
  from civil_ranges [OF civ] have m: "1 \<le> m" "m \<le> 12" and k: "1 \<le> k" "k \<le> 31"
    and len: "m \<noteq> 12 \<longrightarrow> k \<le> month_start (is_leap y) (Suc m) - month_start (is_leap y) m" by blast+
  have day: "day_of_civil (y, m, k) = d" using day_of_civil_civil [of d] civ by simp
  have f: "field 4 (Some (CHR ''-'')) (padded 4 y @ CHR ''-'' # r) = Some (nat y, r)"
    "field 2 (Some (CHR ''-'')) (padded 2 (int m) @ CHR ''-'' # r) = Some (m, r)" "field 2 None (padded 2 k) = Some (nat k, [])" for r
    using y m k field_padded(1) [of "int m" 2] field_padded(2) [of k 2 "[]"] by (simp_all add: field_padded del: field.simps)
  show ?thesis using y m k len day by (simp add: date_of_iso_def iso_date_def civ f del: field.simps) auto
qed

lemma read_again:
  shows "read_uuid v = Some u \<Longrightarrow> read_uuid (PStr (uuid_str u)) = Some u"
    and "read_time v = Some n \<Longrightarrow> read_time (PStr (json_time n)) = Some n"
    and "read_date v = Some k \<Longrightarrow> read_date (PStr (iso_date k)) = Some k"
  by (cases v; auto simp: read_json_time_json_time date_of_iso_date intro!: uuid_of_str_uuid_str uuid_of_str_bound split: option.splits if_splits)+

definition email_stable :: "formats \<Rightarrow> bool" where
  "email_stable M \<longleftrightarrow> (\<forall>t u. fm_email M t = Some u \<longrightarrow> fm_email M u = Some u)"

lemma field_value_again: "email_stable M \<Longrightarrow> stable M t \<Longrightarrow> field_value M t v = Some w \<Longrightarrow> field_value M t w = Some w"
proof (induction M t v arbitrary: w rule: field_value.induct)
  case (11 M v)
  then obtain ds where ds: "w = PList (map PInt (sort ds))" "size_between 1 (Some 7) (length ds)" "weekdays_ok ds" by auto
  have "those (map read_int (map PInt es)) = Some es" for es by (induction es) auto
  then have "read_ints w = Some (sort ds)" by (simp only: ds(1) read_ints.simps)
  moreover have "weekdays_ok (sort ds)" "sort (sort ds) = sort ds"
    using ds(3) by (simp_all add: weekdays_ok_def list_all_iff sorted_sort_id)
  ultimately show ?case using ds(1,2) by (simp only: field_value.simps length_sort checked_def option.case simp_thms if_True option.map)
next
  case (15 M t v)
  then obtain d d' where d: "v = PDict d" "w = PDict d'"
    "those (map (\<lambda>kv. map_option (Pair (fst kv)) (field_value M t (snd kv))) d) = Some d'" by (auto split: pyval.splits)
  have "those (map (\<lambda>kv. map_option (Pair (fst kv)) (field_value M t (snd kv))) d') = Some d'"
  proof (rule those_map_again [OF d(3)])
    fix kv y
    assume "kv \<in> set d" "map_option (Pair (fst kv)) (field_value M t (snd kv)) = Some y"
    then show "map_option (Pair (fst y)) (field_value M t (snd y)) = Some y"
      using "15.IH" [OF d(1) \<open>kv \<in> set d\<close>] "15.prems"(1,2) by auto
  qed
  with d show ?case by simp
next
  case (16 M lo hi t v)
  then obtain vs ws where d: "v = PList vs" "w = PList ws" "size_between lo hi (length vs)"
    "those (map (field_value M t) vs) = Some ws" by (auto split: pyval.splits if_splits)
  have "those (map (field_value M t) ws) = Some ws" 
  proof (rule those_map_again [OF d(4)])
    show "field_value M t y = Some y" if "x \<in> set vs" "field_value M t x = Some y" for x y
      using "16.IH" [OF d(1) d(3) that(1)] "16.prems"(1,2) that(2) by simp
  qed
  with d show ?case by (simp add: those_map_nth)
next
  case (18 M cols v)
  let ?take = "\<lambda>d f. map_option (Pair (fst f)) (case map_of d (fst f) of Some w \<Rightarrow> field_value M (fst (snd f)) w | None \<Rightarrow> snd (snd f))"
  from 18 obtain d e where d: "v = PDict d" "w = PDict e" "set (map fst d) \<subseteq> set (map fst cols)"
    "those (map (?take d) cols) = Some e" by (auto split: pyval.splits if_splits)
  from 18(3) have cols: "distinct (map fst cols)" "\<forall>f\<in>set cols. stable M (fst (snd f))"
    "\<forall>f\<in>set cols. \<forall>x. snd (snd f) = Some x \<longrightarrow> field_value M (fst (snd f)) x = Some x" by (auto simp: list_all_iff)
  from d(4) have len: "length e = length cols" and nth: "\<And>i. i < length cols \<Longrightarrow> ?take d (cols ! i) = Some (e ! i)"
    by (auto simp: those_map_nth)
  have parts: "fst (e ! i) = fst (cols ! i)"
    "(case map_of d (fst (cols ! i)) of Some w \<Rightarrow> field_value M (fst (snd (cols ! i))) w | None \<Rightarrow> snd (snd (cols ! i))) = Some (snd (e ! i))"
    if "i < length cols" for i
    using nth [OF that] by (cases "e ! i"; auto)+
  have names: "map fst e = map fst cols"
    by (rule nth_equalityI) (simp_all add: len parts(1))
  have again: "field_value M (fst (snd (cols ! i))) (snd (e ! i)) = Some (snd (e ! i))" if i: "i < length cols" for i
  proof (cases "map_of d (fst (cols ! i))")
    case None
    with parts(2) [OF i] cols(3) i show ?thesis by simp
  next
    case (Some x)
    with parts(2) [OF i] have "field_value M (fst (snd (cols ! i))) x = Some (snd (e ! i))" by simp
    with 18(1) [OF d(1) d(3) nth_mem [OF i] Some] 18(2) cols(2) i show ?thesis by simp
  qed
  have "map_of e (fst (cols ! i)) = Some (snd (e ! i))" if i: "i < length cols" for i
  proof -
    have "fst (cols ! i) = fst (e ! i)" using names i len by (metis nth_map)
    moreover have "distinct (map fst e)" using names cols(1) by simp
    ultimately show ?thesis using i len by (metis map_of_eq_Some_iff nth_mem prod.collapse)
  qed
  with again have "those (map (?take e) cols) = Some e"
    using len names by (auto simp: those_map_nth) (metis fst_conv nth_map prod.collapse)
  with d names show ?case by simp
qed (auto simp: email_stable_def dest: read_again simp del: read_uuid.simps read_time.simps read_date.simps split: if_splits bind_splits)

lemma model_validate_Inr: "model_validate M cols d = Inr x \<longleftrightarrow> field_value M (FModel cols) (PDict d) = Some (PDict x)"
  by (auto simp: model_validate_def split: option.splits pyval.splits)

lemma model_validate_again:
  "email_stable M \<Longrightarrow> stable M (FModel cols) \<Longrightarrow> model_validate M cols d = Inr x \<Longrightarrow> model_validate M cols x = Inr x"
  unfolding model_validate_Inr by (rule field_value_again)

section \<open>The models\<close>

abbreviation str :: field_type where "str \<equiv> FText 0 None"
abbreviation number :: field_type where "number \<equiv> FInt None None"
abbreviation needs :: "string \<Rightarrow> field_type \<Rightarrow> string \<times> field_type \<times> pyval option" where "needs n t \<equiv> (n, t, None)"

definition page_read :: "schema \<Rightarrow> schema" where
  "page_read item = [needs ''items'' (FList 0 None (FModel item)), (''next_cursor'', FOptional str, Some PNone)]"

definition USER_READ :: schema where
  "USER_READ = [needs ''id'' FUuid, needs ''verified_email'' FEmail, needs ''timezone'' str, needs ''status'' str,
     needs ''row_version'' number]"

definition ONBOARDING_CREATE :: schema where
  "ONBOARDING_CREATE = [needs ''timezone'' FZone, needs ''rate_minor'' (FInt (Some 1) (Some 100000000)),
     needs ''minimum_minor'' (FInt (Some 1) (Some 100000000)),
     needs ''increment_minor'' (FInt (Some 1) (Some 100000000)), needs ''communication_style'' (FText 1 (Some 32)),
     (''reminder_policy'', FDict, Some (PDict []))]"

definition PREFERENCE_READ :: schema where
  "PREFERENCE_READ = [needs ''id'' FUuid, needs ''version'' number, needs ''rate_minor'' number, needs ''minimum_minor'' number,
     needs ''increment_minor'' number, needs ''communication_style'' str, needs ''reminder_policy'' FDict,
     needs ''confirmed_at'' FTime]"

definition ONBOARDING_READ :: schema where
  "ONBOARDING_READ = [needs ''user'' (FModel USER_READ), needs ''preference'' (FModel PREFERENCE_READ)]"

definition PREFERENCE_UPDATE :: schema where
  "PREFERENCE_UPDATE = [needs ''expected_row_version'' (FInt (Some 1) None), needs ''rate_minor'' (FInt (Some 1) (Some 100000000)),
     needs ''minimum_minor'' (FInt (Some 1) (Some 100000000)),
     needs ''increment_minor'' (FInt (Some 1) (Some 100000000)), needs ''communication_style'' (FText 1 (Some 32)),
     (''reminder_policy'', FDict, Some (PDict []))]"

definition CLIENT_CREATE :: schema where
  "CLIENT_CREATE = [needs ''name'' (FText 1 (Some 200)), (''company'', FOptional (FText 0 (Some 200)), Some PNone)]"

definition CLIENT_UPDATE :: schema where
  "CLIENT_UPDATE = [needs ''expected_row_version'' (FInt (Some 1) None), needs ''name'' (FText 1 (Some 200)),
     (''company'', FOptional (FText 0 (Some 200)), Some PNone)]"

definition CLIENT_READ :: schema where
  "CLIENT_READ = [needs ''id'' FUuid, needs ''name'' str, needs ''company'' (FOptional str), needs ''row_version'' number,
     needs ''created_at'' FTime, needs ''updated_at'' FTime]"

definition CONTACT_CREATE :: schema where
  "CONTACT_CREATE = [needs ''email'' FEmail, needs ''display_name'' (FText 1 (Some 200)),
     (''role'', FOptional (FText 0 (Some 100)), Some PNone)]"

definition CONTACT_READ :: schema where
  "CONTACT_READ = [needs ''id'' FUuid, needs ''client_id'' FUuid, needs ''email'' FEmail, needs ''display_name'' str,
     needs ''role'' (FOptional str), needs ''created_at'' FTime]"

definition PROJECT_CREATE :: schema where
  "PROJECT_CREATE = [needs ''client_id'' FUuid, needs ''name'' (FText 1 (Some 200)),
     (''base_contract_value_minor'', FInt (Some 0) (Some 100000000), Some (PInt 0)),
     (''timezone'', str, Some (PStr ''Asia/Kolkata'')),
     (''weekdays'', FWeekdays, Some (PList [PInt 0, PInt 1, PInt 2, PInt 3, PInt 4])),
     (''holiday_dates'', FList 0 None FDate, Some (PList [])),
     (''confirmed_daily_capacity_hours'', FHours, Some (PStr ''7'')), (''target_date'', FOptional FDate, Some PNone)]"

definition PROJECT_UPDATE :: schema where
  "PROJECT_UPDATE = [needs ''expected_row_version'' (FInt (Some 1) None), needs ''name'' (FText 1 (Some 200)),
     (''target_date'', FOptional FDate, Some PNone)]"

definition PROJECT_READ :: schema where
  "PROJECT_READ = [needs ''id'' FUuid, needs ''client_id'' FUuid, needs ''name'' str,
     needs ''status'' (FOneOf [''DRAFT'', ''PAUSED_UNCONFIRMED_SCOPE'', ''ACTIVE'', ''ARCHIVED'', ''DELETION_PENDING'']),
     needs ''currency'' str, needs ''base_contract_value_minor'' number,
     needs ''current_scope_version_id'' (FOptional FUuid), needs ''preference_version_id'' FUuid,
     needs ''timezone'' str, needs ''calendar_version_id'' (FOptional FUuid), needs ''target_date'' (FOptional FDate),
     needs ''row_version'' number, needs ''created_at'' FTime, needs ''updated_at'' FTime]"

definition JOB_READ :: schema where
  "JOB_READ = [needs ''id'' FUuid, needs ''kind'' str, needs ''state'' str, needs ''payload_ref'' FDict,
     needs ''correlation_id'' FUuid, needs ''available_at'' FTime, needs ''lease_until'' (FOptional FTime),
     needs ''lease_owner'' (FOptional str), needs ''fencing_generation'' number, needs ''attempt_count'' number,
     needs ''max_attempts'' number, needs ''deadline_at'' (FOptional FTime), needs ''last_error'' (FOptional str),
     needs ''created_at'' FTime, needs ''updated_at'' FTime]"

definition ACTION_READ :: schema where
  "ACTION_READ = [needs ''id'' FUuid, needs ''action_key'' str, needs ''provider'' str, needs ''operation'' str,
     needs ''state'' str, needs ''payload_digest'' str, needs ''receipt_ref'' (FOptional FDict),
     needs ''uncertainty_reason'' (FOptional str), needs ''created_at'' FTime, needs ''updated_at'' FTime]"

definition JOB_RETRY_REQUEST :: schema where
  "JOB_RETRY_REQUEST = [needs ''reason'' (FText 1 (Some 200))]"

definition ACTION_RESOLVE_REQUEST :: schema where
  "ACTION_RESOLVE_REQUEST = [needs ''resolution'' (FOneOf [''retry'', ''confirm_receipt'', ''cancel'']),
     (''duplicate_risk_acknowledged'', FBool, Some (PBool False)), (''receipt_ref'', FOptional FDict, Some PNone)]"

definition OPERATIONS_HEALTH_READ :: schema where
  "OPERATIONS_HEALTH_READ = [needs ''status'' (FOneOf [''ok'', ''degraded'']), needs ''counters'' (FMap number),
     needs ''gauges'' (FMap number)]"

definition DOCUMENT_UPLOAD_REQUEST :: schema where
  "DOCUMENT_UPLOAD_REQUEST = [needs ''object_key'' (FText 1 (Some 512)), needs ''mime_type'' (FText 1 (Some 120)),
     needs ''expected_size_bytes'' (FInt (Some 1) (Some 10485760))]"

definition UPLOAD_GRANT_READ :: schema where
  "UPLOAD_GRANT_READ = [needs ''document_id'' FUuid, needs ''object_key'' str, needs ''object_version'' str, needs ''upload_token'' str,
     needs ''expires_at'' FTime, needs ''expected_size_bytes'' number, needs ''expected_mime_type'' str,
     (''upload_url'', FOptional str, Some PNone), (''upload_fields'', FOptional (FMap str), Some PNone)]"

definition COMPLETE_UPLOAD_REQUEST :: schema where
  "COMPLETE_UPLOAD_REQUEST = [needs ''upload_token'' (FText 20 (Some 256)),
     (''content_base64'', FOptional (FText 1 (Some 14000000)), Some PNone), needs ''sha256'' FDigest,
     needs ''mime_type'' (FText 1 (Some 120))]"

definition DOCUMENT_READ :: schema where
  "DOCUMENT_READ = [needs ''id'' FUuid, needs ''project_id'' FUuid, needs ''object_key'' str, needs ''object_version'' str,
     needs ''sha256'' str, needs ''size_bytes'' number, needs ''mime_type'' str, needs ''status'' str,
     needs ''extractor_version'' (FOptional str), needs ''rejection_reason'' (FOptional str),
     needs ''created_at'' FTime, needs ''completed_at'' (FOptional FTime)]"

definition SCOPE_CANDIDATE_CORRECTION :: schema where
  "SCOPE_CANDIDATE_CORRECTION = [needs ''candidate_id'' FUuid, needs ''corrected_text'' (FText 1 (Some 4000)),
     needs ''reason'' (FText 1 (Some 500))]"

definition SCOPE_CONFIRM_REQUEST :: schema where
  "SCOPE_CONFIRM_REQUEST = [needs ''candidate_ids'' (FList 1 (Some 500) FUuid)]"

definition SCOPE_ITEM_READ :: schema where
  "SCOPE_ITEM_READ = [needs ''id'' FUuid, needs ''item_type'' str, needs ''item_key'' str, needs ''text'' str,
     needs ''source_document_chunk_id'' (FOptional FUuid)]"

definition SCOPE_READ :: schema where
  "SCOPE_READ = [needs ''version'' number, needs ''content_hash'' str, needs ''confirmed_at'' FTime,
     needs ''items'' (FList 0 None (FModel SCOPE_ITEM_READ))]"

definition GMAIL_OAUTH_START_READ :: schema where
  "GMAIL_OAUTH_START_READ = [needs ''authorization_url'' str, needs ''state'' str]"

definition GMAIL_PUSH_REQUEST :: schema where
  "GMAIL_PUSH_REQUEST = [needs ''provider_account_id'' (FText 1 (Some 255)), needs ''watch_id'' (FText 1 (Some 255)),
     needs ''history_id'' (FText 1 (Some 255)), needs ''delivery_id'' (FText 1 (Some 255)),
     needs ''payload_hash'' FDigest, needs ''occurred_at'' FTime, needs ''verification_token'' (FText 1 (Some 256))]"

definition INTEGRATION_CONNECTION_READ :: schema where
  "INTEGRATION_CONNECTION_READ = [needs ''id'' FUuid, needs ''provider'' str, needs ''provider_account_id'' str, needs ''account_email'' FEmail,
     needs ''status'' str, needs ''committed_history_id'' (FOptional str), needs ''watch_expiry'' (FOptional FTime),
     needs ''last_success_at'' (FOptional FTime), needs ''coverage_cutoff'' (FOptional FTime),
     needs ''last_error'' (FOptional str), needs ''sync_status'' str, needs ''gap_detected_at'' (FOptional FTime),
     needs ''gap_reason'' (FOptional str), needs ''watch_expiry_warning'' FBool, needs ''stale_sync_warning'' FBool]"

definition ROUTING_EVENT_REQUEST :: schema where
  "ROUTING_EVENT_REQUEST = [needs ''provider'' (FText 1 (Some 80)), needs ''environment'' (FText 1 (Some 32)),
     needs ''provider_event_id'' (FText 1 (Some 255)), needs ''payload_hash'' FDigest, needs ''occurred_at'' FTime,
     needs ''resource_type'' (FText 1 (Some 80)), needs ''resource_id'' (FText 1 (Some 255)),
     needs ''source_version'' (FText 1 (Some 255)), needs ''content_ref'' (FText 1 (Some 512)),
     (''explicit_project_id'', FOptional FUuid, Some PNone),
     (''alias'', FOptional (FText 0 (Some 160)), Some PNone),
     (''sender'', FOptional (FText 0 (Some 320)), Some PNone),
     (''thread_id'', FOptional (FText 0 (Some 255)), Some PNone)]"

definition ROUTING_DECISION_READ :: schema where
  "ROUTING_DECISION_READ = [needs ''id'' FUuid, needs ''external_event_id'' FUuid, needs ''status'' str, needs ''precedence'' str,
     needs ''candidate_projects'' (FList 0 None str), needs ''evidence'' (FList 0 None FDict),
     needs ''selected_project_id'' (FOptional FUuid)]"

definition SCOPE_CANDIDATE_READ :: schema where
  "SCOPE_CANDIDATE_READ = [needs ''candidate_id'' FUuid, needs ''status'' str, needs ''corrected_text'' (FOptional str)]"

definition ROUTING_RESULT_READ :: schema where
  "ROUTING_RESULT_READ = [needs ''kind'' (FOneOf [''communication'', ''decision'']), needs ''id'' FUuid, needs ''status'' str,
     (''project_id'', FOptional FUuid, Some PNone), (''candidate_projects'', FList 0 None str, Some (PList [])),
     (''resource_type'', FOptional str, Some PNone), (''resource_id'', FOptional str, Some PNone),
     (''source_version'', FOptional str, Some PNone)]"

definition REQUEST_CREATE :: schema where
  "REQUEST_CREATE = [needs ''project_id'' FUuid, needs ''summary'' (FText 1 (Some 4000)),
     (''communication_ids'', FList 0 (Some 100) FUuid, Some (PList []))]"

definition REQUEST_READ :: schema where
  "REQUEST_READ = [needs ''id'' FUuid, needs ''project_id'' FUuid, needs ''summary'' str, needs ''status'' str,
     needs ''request_version'' number, needs ''merged_into_id'' (FOptional FUuid),
     needs ''rejection_reason'' (FOptional str), needs ''row_version'' number, needs ''created_at'' FTime,
     needs ''updated_at'' FTime]"

definition REQUEST_CLARIFY :: schema where
  "REQUEST_CLARIFY = [needs ''correction'' (FText 1 (Some 4000))]"

definition REQUEST_MERGE :: schema where
  "REQUEST_MERGE = [needs ''source_request_id'' FUuid, needs ''reason'' (FText 1 (Some 500))]"

definition ROUTING_RESOLVE_REQUEST :: schema where
  "ROUTING_RESOLVE_REQUEST = [needs ''project_id'' FUuid]"

definition DOCUMENT_DOWNLOAD_READ :: schema where
  "DOCUMENT_DOWNLOAD_READ = [needs ''document_id'' FUuid, needs ''object_key'' str, needs ''object_version'' str, needs ''sha256'' str,
     needs ''access_scope'' str, (''download_url'', FOptional str, Some PNone)]"

definition DOCUMENT_CANDIDATE_READ :: schema where
  "DOCUMENT_CANDIDATE_READ = [needs ''id'' FUuid, needs ''item_key'' str, needs ''item_type'' str, needs ''extracted_text'' str,
     needs ''corrected_text'' (FOptional str), needs ''status'' str, needs ''source_chunk_id'' FUuid,
     needs ''correction_reason'' (FOptional str)]"

definition STRUCTURE_EXTRACTION_READ :: schema where
  "STRUCTURE_EXTRACTION_READ = [needs ''status'' (FOneOf [''PENDING'', ''READY'']), needs ''reason'' (FOptional str),
     needs ''candidates'' (FList 0 None (FModel DOCUMENT_CANDIDATE_READ))]"

definition ANALYSIS_DECISION_READ :: schema where
  "ANALYSIS_DECISION_READ = [needs ''id'' FUuid, needs ''project_id'' FUuid, needs ''request_id'' (FOptional FUuid),
     needs ''workflow_id'' FUuid, needs ''kind'' str, needs ''status'' str, needs ''title'' str,
     needs ''summary'' str, needs ''safe_details'' FDict, needs ''terms_snapshot'' (FOptional FDict),
     needs ''trace_summary'' FDict, needs ''row_version'' number, needs ''created_at'' FTime,
     needs ''updated_at'' FTime]"

definition ANALYSIS_DECISION_DETAIL_READ :: schema where
  "ANALYSIS_DECISION_DETAIL_READ = ANALYSIS_DECISION_READ @
     [(''draft_revision_id'', FOptional FUuid, Some PNone), (''draft_revision'', FOptional FDict, Some PNone)]"

definition ANALYSIS_EVIDENCE_READ :: schema where
  "ANALYSIS_EVIDENCE_READ = [needs ''id'' FUuid, needs ''bundle_id'' FUuid, needs ''source_type'' str, needs ''source_id'' str,
     needs ''source_version'' str, needs ''exact_excerpt_ref'' str, needs ''content_hash'' str,
     needs ''locator'' FDict, needs ''fetched_at'' FTime, needs ''access_scope'' str, needs ''relation'' str]"

definition WORKFLOW_TRACE_READ :: schema where
  "WORKFLOW_TRACE_READ = [needs ''workflow_id'' FUuid, needs ''state'' str, needs ''current_phase'' (FOptional str),
     needs ''policy_version'' (FOptional str), needs ''stages'' (FList 0 None FDict)]"

definition PROPOSAL_REVISION_READ :: schema where
  "PROPOSAL_REVISION_READ = [needs ''id'' FUuid, needs ''change_order_id'' FUuid, needs ''revision_number'' number,
     needs ''baseline_version_id'' FUuid, needs ''request_version'' number, needs ''total_minor'' number,
     needs ''tax_minor'' number, needs ''currency'' str, needs ''title'' str, needs ''requested_change'' str,
     needs ''deliverables'' (FList 0 None str), needs ''exclusions'' (FList 0 None str),
     needs ''assumptions'' (FList 0 None str), needs ''client_explanation'' str, needs ''recipient_email'' FEmail,
     needs ''subject'' str, needs ''plain_text_body'' str, needs ''html_body'' str,
     needs ''attachment_hashes'' (FList 0 None str), needs ''terms_json'' FDict, needs ''evidence_digest'' str,
     needs ''evidence_reference_ids'' (FList 0 None str), needs ''canonical_artifact_hash'' str,
     needs ''approval_url'' str, needs ''status'' str, needs ''created_at'' FTime]"

definition CHANGE_ORDER_READ :: schema where
  "CHANGE_ORDER_READ = [needs ''id'' FUuid, needs ''project_id'' FUuid, needs ''request_id'' FUuid, needs ''number'' number,
     needs ''current_revision_id'' (FOptional FUuid), needs ''status'' str, needs ''row_version'' number,
     needs ''created_at'' FTime, needs ''updated_at'' FTime,
     (''revision'', FOptional (FModel PROPOSAL_REVISION_READ), Some PNone)]"

definition PROPOSAL_REVISION_EDIT :: schema where
  "PROPOSAL_REVISION_EDIT = [(''title'', FOptional (FText 1 (Some 240)), Some PNone),
     (''requested_change'', FOptional (FText 1 (Some 4000)), Some PNone),
     (''deliverables'', FOptional (FList 1 (Some 50) str), Some PNone),
     (''exclusions'', FOptional (FList 0 (Some 50) str), Some PNone),
     (''assumptions'', FOptional (FList 0 (Some 50) str), Some PNone),
     (''client_explanation'', FOptional (FText 1 (Some 5000)), Some PNone),
     (''subject'', FOptional (FText 1 (Some 240)), Some PNone),
     (''plain_text_body'', FOptional (FText 1 (Some 12000)), Some PNone),
     (''html_body'', FOptional (FText 1 (Some 24000)), Some PNone)]"

definition FREELANCER_APPROVAL_REQUEST :: schema where
  "FREELANCER_APPROVAL_REQUEST = [needs ''expected_row_version'' (FInt (Some 1) None), needs ''revision_id'' FUuid, needs ''content_hash'' FDigest]"

definition FREELANCER_DECISION_REQUEST :: schema where
  "FREELANCER_DECISION_REQUEST = [(''comment'', FOptional (FText 0 (Some 2000)), Some PNone)]"

definition WITHDRAWAL_REQUEST :: schema where
  "WITHDRAWAL_REQUEST = [(''reason'', FOptional (FText 0 (Some 500)), Some PNone)]"

definition CLIENT_DECISION_REQUEST :: schema where
  "CLIENT_DECISION_REQUEST = [needs ''expected_row_version'' (FInt (Some 1) None), needs ''revision_id'' FUuid, needs ''content_hash'' FDigest,
     (''comment'', FOptional (FText 0 (Some 2000)), Some PNone)]"

definition CAPABILITY_EXCHANGE_REQUEST :: schema where
  "CAPABILITY_EXCHANGE_REQUEST = [needs ''token'' (FText 43 (Some 256))]"

definition CLIENT_REVIEW_READ :: schema where
  "CLIENT_REVIEW_READ = [needs ''row_version'' (FInt (Some 1) None), needs ''content_hash'' FDigest, needs ''change_order_id'' FUuid,
     needs ''revision_id'' FUuid, needs ''revision_number'' number, needs ''status'' str, needs ''title'' str,
     needs ''requested_change'' str, needs ''deliverables'' (FList 0 None str),
     needs ''exclusions'' (FList 0 None str), needs ''assumptions'' (FList 0 None str),
     needs ''client_explanation'' str, needs ''recipient_email'' FEmail, needs ''subject'' str,
     needs ''plain_text_body'' str, needs ''html_body'' str, needs ''terms'' FDict]"

definition CLIENT_ACCEPTANCE_REQUEST :: schema where
  "CLIENT_ACCEPTANCE_REQUEST = [needs ''expected_row_version'' (FInt (Some 1) None), needs ''revision_id'' FUuid, needs ''content_hash'' FDigest]"

definition PAYMENT_LINK_REPLACE_REQUEST :: schema where
  "PAYMENT_LINK_REPLACE_REQUEST = [needs ''expected_row_version'' (FInt (Some 1) None)]"

definition PAYMENT_REQUEST_READ :: schema where
  "PAYMENT_REQUEST_READ = [needs ''id'' FUuid, needs ''project_id'' FUuid, needs ''accepted_revision_id'' FUuid,
     needs ''total_minor'' number, needs ''tax_minor'' number, needs ''currency'' str, needs ''status'' str,
     needs ''due_at'' (FOptional FTime), needs ''expire_at'' (FOptional FTime), needs ''paid_at'' (FOptional FTime),
     needs ''row_version'' number, (''provider_link_id'', FOptional str, Some PNone),
     (''payment_link_url'', FOptional str, Some PNone), (''payment_link_status'', FOptional str, Some PNone),
     (''collected_minor'', number, Some (PInt 0)), (''job_id'', FOptional FUuid, Some PNone)]"

definition CLIENT_RECEIPT_READ :: schema where
  "CLIENT_RECEIPT_READ = [needs ''change_order_id'' FUuid, needs ''revision_id'' FUuid, needs ''status'' str, needs ''payment_status'' str,
     needs ''payment_request_id'' (FOptional FUuid), (''payment_link_url'', FOptional str, Some PNone),
     (''payment_link_status'', FOptional str, Some PNone), (''receipt_session_token'', FOptional str, Some PNone),
     (''receipt_csrf_token'', FOptional str, Some PNone)]"

section \<open>Rows as response models\<close>

text \<open>The stored text of the status columns.\<close>

fun request_status_value :: "request_status \<Rightarrow> string" where
  "request_status_value REQ_OPEN = ''OPEN''"
| "request_status_value request_status.CLARIFICATION_REQUIRED = ''CLARIFICATION_REQUIRED''"
| "request_status_value request_status.COVERED = ''COVERED''"
| "request_status_value PROPOSAL_OPEN = ''PROPOSAL_OPEN''"
| "request_status_value WAIVED = ''WAIVED''"
| "request_status_value DECLINED = ''DECLINED''"
| "request_status_value MERGED = ''MERGED''"
| "request_status_value RESOLVED = ''RESOLVED''"

fun job_state_value :: "job_state \<Rightarrow> string" where
  "job_state_value QUEUED = ''QUEUED''"
| "job_state_value RUNNING = ''RUNNING''"
| "job_state_value JOB_RETRY_WAIT = ''RETRY_WAIT''"
| "job_state_value JOB_SUCCEEDED = ''SUCCEEDED''"
| "job_state_value FAILED_REQUIRES_REVIEW = ''FAILED_REQUIRES_REVIEW''"
| "job_state_value JOB_CANCELLED = ''CANCELLED''"

fun action_state_value :: "action_state \<Rightarrow> string" where
  "action_state_value READY = ''READY''"
| "action_state_value DISPATCHING = ''DISPATCHING''"
| "action_state_value RETRY_WAIT = ''RETRY_WAIT''"
| "action_state_value SUCCEEDED = ''SUCCEEDED''"
| "action_state_value RECEIPT_CONFIRMED = ''RECEIPT_CONFIRMED''"
| "action_state_value UNKNOWN_OUTCOME = ''UNKNOWN_OUTCOME''"
| "action_state_value REVIEW_REQUIRED = ''REVIEW_REQUIRED''"
| "action_state_value CANCELLED = ''CANCELLED''"

fun document_status_value :: "document_status \<Rightarrow> string" where
  "document_status_value UPLOADED = ''UPLOADED''"
| "document_status_value EXTRACTING = ''EXTRACTING''"
| "document_status_value AWAITING_SCOPE_REVIEW = ''AWAITING_SCOPE_REVIEW''"
| "document_status_value DOC_CONFIRMED = ''CONFIRMED''"
| "document_status_value DOC_REJECTED = ''REJECTED''"
| "document_status_value DOC_FAILED_REQUIRES_REVIEW = ''FAILED_REQUIRES_REVIEW''"

fun candidate_status_value :: "candidate_status \<Rightarrow> string" where
  "candidate_status_value CANDIDATE = ''CANDIDATE''"
| "candidate_status_value CORRECTED = ''CORRECTED''"
| "candidate_status_value CAND_CONFIRMED = ''CONFIRMED''"
| "candidate_status_value CAND_REJECTED = ''REJECTED''"

fun routing_status_value :: "routing_status \<Rightarrow> string" where
  "routing_status_value ROUTE_OPEN = ''OPEN''"
| "routing_status_value ROUTE_RESOLVED = ''RESOLVED''"
| "routing_status_value ROUTE_DISMISSED = ''DISMISSED''"

fun decision_kind_value :: "decision_kind \<Rightarrow> string" where
  "decision_kind_value PROPOSAL_REVIEW = ''PROPOSAL_REVIEW''"
| "decision_kind_value CLARIFICATION = ''CLARIFICATION''"
| "decision_kind_value PROJECT_MAPPING = ''PROJECT_MAPPING''"
| "decision_kind_value INTEGRATION_HEALTH = ''INTEGRATION_HEALTH''"
| "decision_kind_value ACTION_UNCERTAINTY = ''ACTION_UNCERTAINTY''"

fun decision_status_value :: "decision_status \<Rightarrow> string" where
  "decision_status_value DEC_OPEN = ''OPEN''"
| "decision_status_value DEC_RESOLVED = ''RESOLVED''"
| "decision_status_value DEC_DISMISSED = ''DISMISSED''"
| "decision_status_value DEC_STALE = ''STALE''"

fun revision_status_value :: "revision_status \<Rightarrow> string" where
  "revision_status_value CURRENT = ''CURRENT''"
| "revision_status_value SUPERSEDED = ''SUPERSEDED''"
| "revision_status_value REVOKED = ''REVOKED''"

fun connection_status_value :: "connection_status \<Rightarrow> string" where
  "connection_status_value CONNECTING = ''CONNECTING''"
| "connection_status_value CONNECTED = ''CONNECTED''"
| "connection_status_value CONN_REAUTH_REQUIRED = ''REAUTH_REQUIRED''"
| "connection_status_value DISCONNECTED = ''DISCONNECTED''"
| "connection_status_value CONN_PAUSED = ''PAUSED''"

fun sync_status_value :: "sync_status \<Rightarrow> string" where
  "sync_status_value SYNC_IDLE = ''IDLE''"
| "sync_status_value SYNC_RUNNING = ''RUNNING''"
| "sync_status_value SYNC_REAUTH_REQUIRED = ''REAUTH_REQUIRED''"
| "sync_status_value GAP_DETECTED = ''GAP_DETECTED''"
| "sync_status_value SYNC_PAUSED = ''PAUSED''"

text \<open>The values of columns that may be null.\<close>

definition nullable_time :: "time option \<Rightarrow> pyval" where
  "nullable_time t = (case t of None \<Rightarrow> PNone | Some v \<Rightarrow> PStr (json_time v))"

definition nullable_dict :: "((string \<times> pyval) list) option \<Rightarrow> pyval" where
  "nullable_dict d = (case d of None \<Rightarrow> PNone | Some v \<Rightarrow> PDict v)"

definition uuid_value :: "uuid \<Rightarrow> pyval" where
  "uuid_value u = PStr (uuid_str u)"

definition time_value :: "time \<Rightarrow> pyval" where
  "time_value t = PStr (json_time t)"

definition job_fields :: "job \<Rightarrow> (string \<times> pyval) list" where
  "job_fields j = [(''id'', uuid_value (job_id j)), (''kind'', PStr (job_kind j)), (''state'', PStr (job_state_value (job_state j))),
     (''payload_ref'', PDict (job_payload_ref j)), (''correlation_id'', uuid_value (job_correlation_id j)),
     (''available_at'', time_value (job_available_at j)), (''lease_until'', nullable_time (job_lease_until j)),
     (''lease_owner'', nullable_str (job_lease_owner j)), (''fencing_generation'', PInt (job_fencing_generation j)),
     (''attempt_count'', PInt (job_attempt_count j)), (''max_attempts'', PInt (job_max_attempts j)),
     (''deadline_at'', nullable_time (job_deadline_at j)), (''last_error'', nullable_str (job_last_error j)),
     (''created_at'', time_value (job_created_at j)), (''updated_at'', time_value (job_updated_at j))]"

definition action_fields :: "external_action \<Rightarrow> (string \<times> pyval) list" where
  "action_fields a = [(''id'', uuid_value (act_id a)), (''action_key'', PStr (act_action_key a)), (''provider'', PStr (act_provider a)),
     (''operation'', PStr (act_operation a)), (''state'', PStr (action_state_value (act_state a))),
     (''payload_digest'', PStr (act_payload_digest a)), (''receipt_ref'', nullable_dict (act_receipt_ref a)),
     (''uncertainty_reason'', nullable_str (act_uncertainty_reason a)), (''created_at'', time_value (act_created_at a)),
     (''updated_at'', time_value (act_updated_at a))]"

definition document_fields :: "contract_document \<Rightarrow> (string \<times> pyval) list" where
  "document_fields d = [(''id'', uuid_value (cdoc_id d)), (''project_id'', uuid_value (cdoc_project_id d)),
     (''object_key'', PStr (cdoc_object_key d)), (''object_version'', PStr (cdoc_object_version d)), (''sha256'', PStr (cdoc_sha256 d)),
     (''size_bytes'', PInt (cdoc_size_bytes d)), (''mime_type'', PStr (cdoc_mime_type d)),
     (''status'', PStr (document_status_value (cdoc_status d))), (''extractor_version'', nullable_str (cdoc_extractor_version d)),
     (''rejection_reason'', nullable_str (cdoc_rejection_reason d)), (''created_at'', time_value (cdoc_created_at d)),
     (''completed_at'', nullable_time (cdoc_completed_at d))]"

definition scope_item_fields :: "scope_item \<Rightarrow> (string \<times> pyval) list" where
  "scope_item_fields i = [(''id'', uuid_value (sitem_id i)), (''item_type'', PStr (sitem_item_type i)),
     (''item_key'', PStr (sitem_item_key i)), (''text'', PStr (sitem_text i)),
     (''source_document_chunk_id'', nullable_uuid (sitem_source_document_chunk_id i))]"

definition candidate_fields :: "scope_candidate \<Rightarrow> (string \<times> pyval) list" where
  "candidate_fields c = [(''id'', uuid_value (cand_id c)), (''item_key'', PStr (cand_item_key c)),
     (''item_type'', PStr (cand_item_type c)), (''extracted_text'', PStr (cand_extracted_text c)),
     (''corrected_text'', nullable_str (cand_corrected_text c)), (''status'', PStr (candidate_status_value (cand_status c))),
     (''source_chunk_id'', uuid_value (cand_source_chunk_id c)), (''correction_reason'', nullable_str (cand_correction_reason c))]"

definition health_fields :: "gmail_health \<Rightarrow> (string \<times> pyval) list" where
  "health_fields h =
     (let c = gh_connection h in
      [(''id'', uuid_value (gconn_id c)), (''provider'', PStr (gconn_provider c)),
       (''provider_account_id'', PStr (gconn_provider_account_id c)), (''account_email'', PStr (gconn_account_email c)),
       (''status'', PStr (connection_status_value (gconn_status c))),
       (''committed_history_id'', nullable_str (gconn_committed_history_id c)),
       (''watch_expiry'', nullable_time (gconn_watch_expiry c)), (''last_success_at'', nullable_time (gconn_last_success_at c)),
       (''coverage_cutoff'', nullable_time (gconn_coverage_cutoff c)), (''last_error'', nullable_str (gconn_last_error c)),
       (''sync_status'', PStr (sync_status_value (gh_sync_status h))), (''gap_detected_at'', nullable_time (gh_gap_detected_at h)),
       (''gap_reason'', nullable_str (gh_gap_reason h)), (''watch_expiry_warning'', PBool (gh_watch_expiry_warning h)),
       (''stale_sync_warning'', PBool (gh_stale_sync_warning h))])"

definition routing_decision_fields :: "routing_decision \<Rightarrow> (string \<times> pyval) list" where
  "routing_decision_fields d = [(''id'', uuid_value (rdec_id d)), (''external_event_id'', uuid_value (rdec_external_event_id d)),
     (''status'', PStr (routing_status_value (rdec_status d))), (''precedence'', PStr (rdec_precedence d)),
     (''candidate_projects'', words_value (rdec_candidate_projects d)), (''evidence'', PList (rdec_evidence d)),
     (''selected_project_id'', nullable_uuid (rdec_selected_project_id d))]"

definition request_fields :: "request_record \<Rightarrow> (string \<times> pyval) list" where
  "request_fields r = [(''id'', uuid_value (req_id r)), (''project_id'', uuid_value (req_project_id r)),
     (''summary'', PStr (req_summary r)), (''status'', PStr (request_status_value (req_status r))),
     (''request_version'', PInt (req_request_version r)), (''merged_into_id'', nullable_uuid (req_merged_into_id r)),
     (''rejection_reason'', nullable_str (req_rejection_reason r)), (''row_version'', PInt (req_row_version r)),
     (''created_at'', time_value (req_created_at r)), (''updated_at'', time_value (req_updated_at r))]"

definition decision_fields :: "analysis_decision \<Rightarrow> (string \<times> pyval) list" where
  "decision_fields d = [(''id'', uuid_value (dec_id d)), (''project_id'', uuid_value (dec_project_id d)),
     (''request_id'', nullable_uuid (dec_request_id d)), (''workflow_id'', uuid_value (dec_workflow_id d)),
     (''kind'', PStr (decision_kind_value (dec_kind d))), (''status'', PStr (decision_status_value (dec_status d))),
     (''title'', PStr (dec_title d)), (''summary'', PStr (dec_summary d)), (''safe_details'', PDict (dec_safe_details d)),
     (''terms_snapshot'', nullable_dict (dec_terms_snapshot d)), (''trace_summary'', PDict (dec_trace_summary d)),
     (''row_version'', PInt (dec_row_version d)), (''created_at'', time_value (dec_created_at d)),
     (''updated_at'', time_value (dec_updated_at d))]"

definition evidence_fields :: "evidence_reference \<Rightarrow> (string \<times> pyval) list" where
  "evidence_fields r = [(''id'', uuid_value (eref_id r)), (''bundle_id'', uuid_value (eref_bundle_id r)),
     (''source_type'', PStr (eref_source_type r)), (''source_id'', PStr (eref_source_id r)),
     (''source_version'', PStr (eref_source_version r)), (''exact_excerpt_ref'', PStr (eref_exact_excerpt_ref r)),
     (''content_hash'', PStr (eref_content_hash r)), (''locator'', PDict (eref_locator r)),
     (''fetched_at'', time_value (eref_fetched_at r)), (''access_scope'', PStr (eref_access_scope r)),
     (''relation'', PStr (eref_relation r))]"

definition revision_fields :: "proposal_revision \<Rightarrow> (string \<times> pyval) list" where
  "revision_fields r = [(''id'', uuid_value (rev_id r)), (''change_order_id'', uuid_value (rev_change_order_id r)),
     (''revision_number'', PInt (rev_revision_number r)), (''baseline_version_id'', uuid_value (rev_baseline_version_id r)),
     (''request_version'', PInt (rev_request_version r)), (''total_minor'', PInt (rev_total_minor r)),
     (''tax_minor'', PInt (rev_tax_minor r)), (''currency'', PStr (rev_currency r)), (''title'', PStr (rev_title r)),
     (''requested_change'', PStr (rev_requested_change r)), (''deliverables'', PList (rev_deliverables r)),
     (''exclusions'', PList (rev_exclusions r)), (''assumptions'', PList (rev_assumptions r)),
     (''client_explanation'', PStr (rev_client_explanation r)), (''recipient_email'', PStr (rev_recipient_email r)),
     (''subject'', PStr (rev_subject r)), (''plain_text_body'', PStr (rev_plain_text_body r)), (''html_body'', PStr (rev_html_body r)),
     (''attachment_hashes'', PList (rev_attachment_hashes r)), (''terms_json'', PDict (rev_terms_json r)),
     (''evidence_digest'', PStr (rev_evidence_digest r)), (''evidence_reference_ids'', words_value (rev_evidence_reference_ids r)),
     (''canonical_artifact_hash'', PStr (rev_canonical_artifact_hash r)), (''approval_url'', PStr (rev_approval_url r)),
     (''status'', PStr (revision_status_value (rev_status r))), (''created_at'', time_value (rev_created_at r))]"

definition order_fields :: "change_order \<Rightarrow> (string \<times> pyval) list" where
  "order_fields c = [(''id'', uuid_value (co_id c)), (''project_id'', uuid_value (co_project_id c)),
     (''request_id'', uuid_value (co_request_id c)), (''number'', PInt (co_number c)),
     (''current_revision_id'', nullable_uuid (co_current_revision_id c)), (''status'', PStr (change_order_value (co_status c))),
     (''row_version'', PInt (co_row_version c)), (''created_at'', time_value (co_created_at c)),
     (''updated_at'', time_value (co_updated_at c))]"

definition payment_fields :: "payment_read \<Rightarrow> (string \<times> pyval) list" where
  "payment_fields r =
     (let p = prr_payment r in
      [(''id'', uuid_value (pr_id p)), (''project_id'', uuid_value (pr_project_id p)),
       (''accepted_revision_id'', uuid_value (pr_accepted_revision_id p)), (''total_minor'', PInt (pr_total_minor p)),
       (''tax_minor'', PInt (pr_tax_minor p)), (''currency'', PStr (pr_currency p)), (''status'', PStr (payment_value (pr_status p))),
       (''due_at'', nullable_time (pr_due_at p)), (''expire_at'', nullable_time (pr_expire_at p)),
       (''paid_at'', nullable_time (pr_paid_at p)), (''row_version'', PInt (pr_row_version p)),
       (''provider_link_id'', nullable_str (prr_provider_link_id r)), (''payment_link_url'', nullable_str (prr_payment_link_url r)),
       (''payment_link_status'', nullable_str (prr_payment_link_status r)), (''collected_minor'', PInt (prr_collected_minor r)),
       (''job_id'', nullable_uuid (prr_job_id r))])"

section \<open>The fields of an instance\<close>

definition text_at :: "(string \<times> pyval) list \<Rightarrow> string \<Rightarrow> string" where
  "text_at d k = (case dict_get d k of PStr t \<Rightarrow> t | _ \<Rightarrow> [])"

definition opt_text_at :: "(string \<times> pyval) list \<Rightarrow> string \<Rightarrow> string option" where
  "opt_text_at d k = (case dict_get d k of PStr t \<Rightarrow> Some t | _ \<Rightarrow> None)"

definition int_at :: "(string \<times> pyval) list \<Rightarrow> string \<Rightarrow> int" where
  "int_at d k = (case dict_get d k of PInt i \<Rightarrow> i | _ \<Rightarrow> 0)"

definition bool_at :: "(string \<times> pyval) list \<Rightarrow> string \<Rightarrow> bool" where
  "bool_at d k = (case dict_get d k of PBool b \<Rightarrow> b | _ \<Rightarrow> False)"

definition uuid_at :: "(string \<times> pyval) list \<Rightarrow> string \<Rightarrow> uuid" where
  "uuid_at d k = (case read_uuid (dict_get d k) of Some u \<Rightarrow> u | None \<Rightarrow> 0)"

definition opt_uuid_at :: "(string \<times> pyval) list \<Rightarrow> string \<Rightarrow> uuid option" where
  "opt_uuid_at d k = read_uuid (dict_get d k)"

definition time_at :: "(string \<times> pyval) list \<Rightarrow> string \<Rightarrow> time" where
  "time_at d k = (case read_time (dict_get d k) of Some t \<Rightarrow> t | None \<Rightarrow> 0)"

definition opt_date_at :: "(string \<times> pyval) list \<Rightarrow> string \<Rightarrow> day option" where
  "opt_date_at d k = read_date (dict_get d k)"

definition hours_at :: "(string \<times> pyval) list \<Rightarrow> string \<Rightarrow> decimal" where
  "hours_at d k = (case read_decimal (dict_get d k) of Some h \<Rightarrow> h | None \<Rightarrow> DecNaN)"

definition dict_at :: "(string \<times> pyval) list \<Rightarrow> string \<Rightarrow> (string \<times> pyval) list" where
  "dict_at d k = (case dict_get d k of PDict x \<Rightarrow> x | _ \<Rightarrow> [])"

definition opt_dict_at :: "(string \<times> pyval) list \<Rightarrow> string \<Rightarrow> ((string \<times> pyval) list) option" where
  "opt_dict_at d k = as_dict (dict_get d k)"

definition list_at :: "(string \<times> pyval) list \<Rightarrow> string \<Rightarrow> (pyval \<Rightarrow> 'a option) \<Rightarrow> 'a list" where
  "list_at d k f = (case dict_get d k of PList vs \<Rightarrow> List.map_filter f vs | _ \<Rightarrow> [])"

end
