(* ===== verification/Access.thy ===== *)
theory Access
  imports Schemas
begin

text \<open>
  The frame of every HTTP request: the settings of \<open>services/api/config.py\<close> that authentication reads, the
  token verification of \<open>auth.py\<close>, the session of \<open>database.py\<close>, the request identifier and the error
  replies of \<open>app.py\<close>, and the process-local metrics of \<open>services/workers/observability.py\<close>. The token
  library is a parameter: the signing key of a token, its claims without verification, and its claims
  verified under a key, an audience (or none) and an issuer.
\<close>

section \<open>Settings\<close>

record auth_settings =
  conf_environment :: string
  conf_cognito_region :: string
  conf_cognito_user_pool_id :: string
  conf_cognito_client_id :: string
  conf_allow_dev_auth :: bool
  conf_dev_auth_sub :: string
  conf_dev_auth_email :: string

definition safe_development_auth :: "auth_settings \<Rightarrow> exn + auth_settings" where
  "safe_development_auth C = (if conf_allow_dev_auth C \<and> conf_environment C \<noteq> ''development'' then Inl ValueError else Inr C)"

definition cognito_issuer :: "auth_settings \<Rightarrow> string" where
  "cognito_issuer C = ''https://cognito-idp.'' @ conf_cognito_region C @ ''.amazonaws.com/'' @ conf_cognito_user_pool_id C"

definition cognito_jwks_url :: "auth_settings \<Rightarrow> string" where
  "cognito_jwks_url C = cognito_issuer C @ ''/.well-known/jwks.json''"

section \<open>Tokens\<close>

record verified_principal =
  vp_subject :: string
  vp_email :: "string option"
  vp_email_verified :: bool

record token_library =
  tl_signing_key :: "string \<Rightarrow> string \<Rightarrow> exn + string"
  tl_unverified :: "string \<Rightarrow> exn + (string \<times> pyval) list"
  tl_verified :: "string \<Rightarrow> string \<Rightarrow> string option \<Rightarrow> string \<Rightarrow> exn + (string \<times> pyval) list"

definition dev_token :: "string \<Rightarrow> bool" where
  "dev_token token \<longleftrightarrow> starts_with ''dev:'' token"

definition verify_dev_token :: "auth_settings \<Rightarrow> string \<Rightarrow> exn + verified_principal" where
  "verify_dev_token C token =
     (if \<not> conf_allow_dev_auth C \<or> conf_environment C \<noteq> ''development'' then Inl AuthenticationError
      else if token \<noteq> ''dev:'' @ conf_dev_auth_sub C then Inl AuthenticationError
      else Inr \<lparr>vp_subject = conf_dev_auth_sub C, vp_email = Some (conf_dev_auth_email C), vp_email_verified = True\<rparr>)"

text \<open>Whatever the library raises becomes \<open>AuthenticationError\<close>.\<close>

definition accepted_claims :: "token_library \<Rightarrow> auth_settings \<Rightarrow> string \<Rightarrow> exn + (string \<times> pyval) list" where
  "accepted_claims L C token =
     (case tl_signing_key L (cognito_jwks_url C) token of
        Inl _ \<Rightarrow> Inl AuthenticationError
      | Inr key \<Rightarrow>
     (case tl_unverified L token of
        Inl _ \<Rightarrow> Inl AuthenticationError
      | Inr unverified \<Rightarrow>
          if dict_get unverified ''token_use'' = PStr ''id''
          then (case tl_verified L token key (Some (conf_cognito_client_id C)) (cognito_issuer C) of
                  Inl _ \<Rightarrow> Inl AuthenticationError | Inr claims \<Rightarrow> Inr claims)
          else if dict_get unverified ''token_use'' = PStr ''access''
          then (case tl_verified L token key None (cognito_issuer C) of
                  Inl _ \<Rightarrow> Inl AuthenticationError
                | Inr claims \<Rightarrow>
                    if dict_get claims ''client_id'' = PStr (conf_cognito_client_id C) then Inr claims else Inl AuthenticationError)
          else Inl AuthenticationError))"

definition principal_of_claims :: "(string \<times> pyval) list \<Rightarrow> exn + verified_principal" where
  "principal_of_claims claims =
     (let verified = eq_int (dict_get claims ''email_verified'') 1 \<or> dict_get claims ''email_verified'' = PStr ''true'' in
      case dict_get claims ''sub'' of
        PStr subject \<Rightarrow> Inr \<lparr>vp_subject = subject, vp_email = read_str (dict_get claims ''email''), vp_email_verified = verified\<rparr>
      | _ \<Rightarrow> Inl AuthenticationError)"

definition verify_token :: "token_library \<Rightarrow> auth_settings \<Rightarrow> string \<Rightarrow> exn + verified_principal" where
  "verify_token L C token =
     (if dev_token token then verify_dev_token C token
      else (case accepted_claims L C token of Inl e \<Rightarrow> Inl e | Inr claims \<Rightarrow> principal_of_claims claims))"

definition get_verified_principal :: "token_library \<Rightarrow> auth_settings \<Rightarrow> string option \<Rightarrow> exn + verified_principal" where
  "get_verified_principal L C authorization =
     (case authorization of
        None \<Rightarrow> Inl AuthenticationError
      | Some header \<Rightarrow>
          if \<not> starts_with ''Bearer '' header then Inl AuthenticationError else verify_token L C (drop 7 header))"

section \<open>The context of a request\<close>

text \<open>\<open>_request_uuid\<close>: the identifier of the header, or a new one where there is none or none that parses.\<close>

definition request_uuid :: "string option \<Rightarrow> uuid act" where
  "request_uuid header =
     (case configured header of
        None \<Rightarrow> fresh_uuid
      | Some t \<Rightarrow> (case uuid_of_str t of Some u \<Rightarrow> ret u | None \<Rightarrow> fresh_uuid))"

definition active_user :: "string \<Rightarrow> db \<Rightarrow> user_account option" where
  "active_user subject s = find (\<lambda>u. usr_cognito_sub u = subject \<and> usr_status u = USER_ACTIVE) (users s)"

definition get_current_context ::
  "token_library \<Rightarrow> auth_settings \<Rightarrow> string option \<Rightarrow> string option \<Rightarrow> trusted_context act" where
  "get_current_context L C authorization request_header =
     bindE (of_result (get_verified_principal L C authorization)) (\<lambda>principal.
     bindE (gets (active_user (vp_subject principal))) (\<lambda>found.
     bindE (some_or AuthenticationError found) (\<lambda>u.
     bindE (request_uuid request_header) (\<lambda>correlation.
     ret \<lparr>ctx_tenant_id = usr_id u, ctx_subject = vp_subject principal, ctx_email = usr_verified_email u,
       ctx_email_verified = True, ctx_correlation_id = correlation\<rparr>))))"

section \<open>The session\<close>

text \<open>
  \<open>get_session\<close>: the request runs in one session, committed when it returns and rolled back when it
  raises.
\<close>

definition in_session :: "'a act \<Rightarrow> 'a act" where
  "in_session m = (\<lambda>s. case m s of (Inl e, t) \<Rightarrow> (Inl e, rolled_back s t) | (Inr x, t) \<Rightarrow> (Inr x, t))"

section \<open>Replies\<close>

record cookie =
  ck_name :: string
  ck_value :: string
  ck_max_age :: int
  ck_httponly :: bool
  ck_secure :: bool
  ck_samesite :: string
  ck_path :: string

record answer =
  ans_body :: pyval
  ans_headers :: "(string \<times> string) list"
  ans_cookie :: "cookie option"

record reply =
  reply_status :: nat
  reply_body :: pyval
  reply_headers :: "(string \<times> string) list"
  reply_cookie :: "cookie option"

text \<open>
  The error bodies without their messages and details, which the exceptions of the model do not keep. An
  exception no handler knows becomes the server's bare 500, outside the middleware that adds the header.
\<close>

definition error_reply :: "uuid \<Rightarrow> exn \<Rightarrow> reply" where
  "error_reply request_id e =
     (case (exn_status_code e, exn_code e) of
        (Some status, Some code) \<Rightarrow>
          \<lparr>reply_status = status, reply_body = PDict [(''code'', PStr code), (''request_id'', PStr (uuid_str request_id))],
           reply_headers = [(''X-Request-ID'', uuid_str request_id)], reply_cookie = None\<rparr>
      | _ \<Rightarrow> \<lparr>reply_status = 500, reply_body = PStr ''Internal Server Error'', reply_headers = [], reply_cookie = None\<rparr>)"

definition success_reply :: "uuid \<Rightarrow> nat \<Rightarrow> answer \<Rightarrow> reply" where
  "success_reply request_id status a =
     \<lparr>reply_status = status, reply_body = ans_body a,
      reply_headers = ans_headers a @ [(''X-Request-ID'', uuid_str request_id)], reply_cookie = ans_cookie a\<rparr>"

text \<open>One request: the middleware draws its identifier, the route runs in a session.\<close>

definition serve :: "string option \<Rightarrow> nat \<Rightarrow> answer act \<Rightarrow> db \<Rightarrow> reply \<times> db" where
  "serve request_header status route s =
     (case request_uuid request_header s of
        (Inl e, t) \<Rightarrow> (error_reply 0 e, t)
      | (Inr request_id, t) \<Rightarrow>
          (case in_session route t of
             (Inr a, u) \<Rightarrow> (success_reply request_id status a, u)
           | (Inl e, u) \<Rightarrow> (error_reply request_id e, u)))"

definition body_answer :: "pyval \<Rightarrow> answer" where
  "body_answer v = \<lparr>ans_body = v, ans_headers = [], ans_cookie = None\<rparr>"

definition health_live :: answer where
  "health_live = body_answer (PDict [(''status'', PStr ''ok'')])"

definition health_ready :: "bool \<Rightarrow> nat \<times> pyval" where
  "health_ready database_answers =
     (if database_answers then (200, PDict [(''status'', PStr ''ready'')])
      else (503, PDict [(''status'', PStr ''not_ready''), (''dependency'', PStr ''database'')]))"

section \<open>Metrics\<close>

text \<open>The counters and gauges of the process, by name cut to 120 characters.\<close>

record durable_metrics =
  met_counters :: "(string \<times> int) list"
  met_gauges :: "(string \<times> int) list"

definition metric_value :: "(string \<times> int) list \<Rightarrow> string \<Rightarrow> int" where
  "metric_value ms name = (case map_of ms name of Some v \<Rightarrow> v | None \<Rightarrow> 0)"

fun set_metric :: "string \<Rightarrow> int \<Rightarrow> (string \<times> int) list \<Rightarrow> (string \<times> int) list" where
  "set_metric name v [] = [(name, v)]"
| "set_metric name v (kv # ms) = (if fst kv = name then (name, v) # ms else kv # set_metric name v ms)"

definition increment_metric :: "string \<Rightarrow> int \<Rightarrow> durable_metrics \<Rightarrow> exn + durable_metrics" where
  "increment_metric name amount M =
     (if amount < 0 then Inl ValueError
      else Inr (M\<lparr>met_counters := set_metric (take 120 name) (metric_value (met_counters M) (take 120 name) + amount) (met_counters M)\<rparr>))"

definition gauge_metric :: "string \<Rightarrow> int \<Rightarrow> durable_metrics \<Rightarrow> durable_metrics" where
  "gauge_metric name v M = M\<lparr>met_gauges := set_metric (take 120 name) v (met_gauges M)\<rparr>"

definition metrics_health :: "durable_metrics \<Rightarrow> (string \<times> pyval) list" where
  "metrics_health M =
     [(''status'', PStr (if 0 < metric_value (met_gauges M) ''jobs_failed_requires_review'' \<or>
         0 < metric_value (met_gauges M) ''actions_unknown_outcome'' then ''degraded'' else ''ok'')),
      (''counters'', PDict (map (\<lambda>kv. (fst kv, PInt (snd kv))) (met_counters M))),
      (''gauges'', PDict (map (\<lambda>kv. (fst kv, PInt (snd kv))) (met_gauges M)))]"

text \<open>The fields of a correlation context that may be logged.\<close>

record correlation_context =
  corr_request_id :: uuid
  corr_workflow_id :: "uuid option"
  corr_job_id :: "uuid option"
  corr_action_id :: "uuid option"
  corr_provider_observation_id :: "string option"

definition safe_field :: "string \<Rightarrow> uuid option \<Rightarrow> (string \<times> string) list" where
  "safe_field name u = (case u of None \<Rightarrow> [] | Some v \<Rightarrow> [(name, uuid_str v)])"

definition safe_fields :: "correlation_context \<Rightarrow> (string \<times> string) list" where
  "safe_fields c =
     [(''request_id'', uuid_str (corr_request_id c))] @ safe_field ''workflow_id'' (corr_workflow_id c) @
     safe_field ''job_id'' (corr_job_id c) @ safe_field ''action_id'' (corr_action_id c) @
     (case corr_provider_observation_id c of None \<Rightarrow> [] | Some t \<Rightarrow> [(''provider_observation_id'', take 120 t)])"

end
