(* ===== verification/Routes.thy ===== *)
theory Routes
  imports Access
begin

text \<open>
  The operator's routes of \<open>services/api/routes.py\<close>, one definition per route: its guards, the service
  operations it calls and the response it builds from their rows. A route takes the context that
  authentication produced; \<open>operate\<close> dispatches the calls of the interface.
\<close>

section \<open>The deployment\<close>

text \<open>
  What the routes reach outside the database. \<open>dp_rivals\<close> are the request keys other sessions commit while
  a request runs; \<open>dp_bedrock_answer\<close> is the structured output of the model for the chunks of a document,
  \<open>None\<close> when the call fails and \<open>Some None\<close> when it answers with something else; \<open>dp_loads\<close> is \<open>json.loads\<close>
  of the bytes of a body, \<open>ValueError\<close> for a text that is not JSON, another error for bytes that are not UTF-8.
\<close>

record deployment =
  dp_env :: env
  dp_formats :: formats
  dp_zones :: "string \<Rightarrow> zone option"
  dp_store :: object_store
  dp_reader :: document_reader
  dp_late :: bool
  dp_gmail :: gmail_config
  dp_payments :: "exn + payment_provider"
  dp_razorpay :: razorpay_settings
  dp_hmac :: "string \<Rightarrow> string \<Rightarrow> string"
  dp_bedrock_model_id :: string
  dp_bedrock_answer :: "document_chunk list \<Rightarrow> (((string \<times> pyval) list list) option) option"
  dp_loads :: "string \<Rightarrow> exn + pyval"
  dp_metrics :: durable_metrics
  dp_rivals :: "api_idempotency list"

text \<open>\<open>BedrockStructureProvider\<close>: its constructor refuses an unverified model.\<close>

definition bedrock_provider :: "deployment \<Rightarrow> string + structure_provider" where
  "bedrock_provider D =
     (if dp_bedrock_model_id D = [] \<or> starts_with ''replace-after-'' (dp_bedrock_model_id D)
      then Inl ''A verified Bedrock model ID is required''
      else Inr \<lparr>sp_extractor_version = ''bedrock:'' @ dp_bedrock_model_id D @ '':scope-structure-v1'',
        sp_extract = (\<lambda>chunks.
          if chunks = [] then Inr (Some [])
          else (case dp_bedrock_answer D chunks of
              None \<Rightarrow> Inl ''Bedrock structured extraction failed''
            | Some None \<Rightarrow> Inl ''Bedrock returned no validated structured output''
            | Some (Some items) \<Rightarrow> Inr (Some items)))\<rparr>)"

section \<open>Requests and responses\<close>

text \<open>A request body that does not fit its model is answered by the validation handler, as 422.\<close>

definition body_of :: "deployment \<Rightarrow> schema \<Rightarrow> pyval \<Rightarrow> ((string \<times> pyval) list) act" where
  "body_of D model body =
     (case as_dict body of
        None \<Rightarrow> raise ValidationError
      | Some d \<Rightarrow> (case model_validate (dp_formats D) model d of Inl _ \<Rightarrow> raise ValidationError | Inr x \<Rightarrow> ret x))"

text \<open>\<open>Idempotency-Key\<close>, a required header of 1 to 128 characters.\<close>

definition key_header :: "string option \<Rightarrow> string act" where
  "key_header header =
     bindE (some_or ValidationError header) (\<lambda>key.
     bindE (require (1 \<le> length key \<and> length key \<le> 128) ValidationError) (\<lambda>_. ret key))"

text \<open>A response model that refuses a row raises pydantic's error, a \<open>ValueError\<close>.\<close>

definition reads :: "deployment \<Rightarrow> schema \<Rightarrow> (string \<times> pyval) list \<Rightarrow> ((string \<times> pyval) list) act" where
  "reads D model d = of_result (model_validate (dp_formats D) model d)"

definition read_all :: "deployment \<Rightarrow> schema \<Rightarrow> (string \<times> pyval) list list \<Rightarrow> pyval act" where
  "read_all D model ds = bindE (mapE (reads D model) ds) (\<lambda>xs. ret (PList (map PDict xs)))"

definition read_one :: "deployment \<Rightarrow> schema \<Rightarrow> (string \<times> pyval) list \<Rightarrow> pyval act" where
  "read_one D model d = bindE (reads D model d) (\<lambda>x. ret (PDict x))"

definition keyed ::
  "deployment \<Rightarrow> trusted_context \<Rightarrow> string option \<Rightarrow> schema \<Rightarrow> string \<Rightarrow> (string \<times> pyval) list \<Rightarrow>
   ((string \<times> pyval) list) act \<Rightarrow> pyval act" where
  "keyed D ctx header model route request operation =
     bindE (key_header header) (\<lambda>key.
     bindE (execute_idempotent (dp_env D) (\<lambda>d. d) (model_validate (dp_formats D) model) ctx route key request operation None
        (dp_rivals D)) (\<lambda>d.
     ret (PDict d)))"

definition page_limit :: "int \<Rightarrow> nat act" where
  "page_limit limit = bindE (require (1 \<le> limit \<and> limit \<le> 100) ValidationError) (\<lambda>_. ret (nat limit))"

definition short_query :: "nat \<Rightarrow> string option \<Rightarrow> unit act" where
  "short_query longest text = require (case text of None \<Rightarrow> True | Some t \<Rightarrow> length t \<le> longest) ValidationError"

definition row_of :: "'r option \<Rightarrow> 'r act" where
  "row_of found = some_or KeyError found"

section \<open>Accounts\<close>

definition me :: "deployment \<Rightarrow> trusted_context \<Rightarrow> pyval act" where
  "me D ctx =
     bindE (gets (\<lambda>s. row_by usr_id (ctx_tenant_id ctx) (users s))) (\<lambda>found.
     bindE (some_or ValueError found) (\<lambda>u. read_one D USER_READ (user_read u)))"

definition preferences :: "deployment \<Rightarrow> trusted_context \<Rightarrow> pyval act" where
  "preferences D ctx = bindE (read_preference ctx) (\<lambda>p. read_one D PREFERENCE_READ (preference_read p))"

definition patch_preferences :: "deployment \<Rightarrow> trusted_context \<Rightarrow> string option \<Rightarrow> pyval \<Rightarrow> pyval act" where
  "patch_preferences D ctx key body =
     bindE (body_of D PREFERENCE_UPDATE body) (\<lambda>request.
     keyed D ctx key PREFERENCE_READ ''PATCH /api/v1/preferences'' request
       (bindE (update_preference (dp_env D) ctx (int_at request ''expected_row_version'') (int_at request ''rate_minor'')
          (int_at request ''minimum_minor'') (int_at request ''increment_minor'') (text_at request ''communication_style'')
          (dict_at request ''reminder_policy'')) (\<lambda>p. reads D PREFERENCE_READ (preference_read p))))"

definition post_client :: "deployment \<Rightarrow> trusted_context \<Rightarrow> string option \<Rightarrow> pyval \<Rightarrow> pyval act" where
  "post_client D ctx key body =
     bindE (body_of D CLIENT_CREATE body) (\<lambda>request.
     keyed D ctx key CLIENT_READ ''POST /api/v1/clients'' request
       (bindE (create_client (dp_env D) ctx (text_at request ''name'') (opt_text_at request ''company'')) (\<lambda>c.
        reads D CLIENT_READ (client_read c))))"

definition clients_route :: "deployment \<Rightarrow> trusted_context \<Rightarrow> int \<Rightarrow> string option \<Rightarrow> pyval act" where
  "clients_route D ctx limit cursor =
     bindE (page_limit limit) (\<lambda>n.
     bindE (list_clients ctx n cursor) (\<lambda>(rows, next_cursor).
     read_one D (page_read CLIENT_READ)
       [(''items'', PList (map (\<lambda>c. PDict (client_read c)) rows)), (''next_cursor'', nullable_str next_cursor)]))"

definition client_route :: "deployment \<Rightarrow> trusted_context \<Rightarrow> uuid \<Rightarrow> pyval act" where
  "client_route D ctx i = bindE (get_client ctx i) (\<lambda>c. read_one D CLIENT_READ (client_read c))"

definition patch_client :: "deployment \<Rightarrow> trusted_context \<Rightarrow> string option \<Rightarrow> uuid \<Rightarrow> pyval \<Rightarrow> pyval act" where
  "patch_client D ctx key i body =
     bindE (body_of D CLIENT_UPDATE body) (\<lambda>request.
     keyed D ctx key CLIENT_READ (''PATCH /api/v1/clients/'' @ uuid_str i) request
       (bindE (update_client (dp_env D) ctx i (int_at request ''expected_row_version'') (text_at request ''name'')
          (opt_text_at request ''company'')) (\<lambda>c. reads D CLIENT_READ (client_read c))))"

definition post_contact :: "deployment \<Rightarrow> trusted_context \<Rightarrow> string option \<Rightarrow> uuid \<Rightarrow> pyval \<Rightarrow> pyval act" where
  "post_contact D ctx key i body =
     bindE (body_of D CONTACT_CREATE body) (\<lambda>request.
     keyed D ctx key CONTACT_READ (''POST /api/v1/clients/'' @ uuid_str i @ ''/contacts'') request
       (bindE (create_contact (dp_env D) ctx i (text_at request ''email'') (text_at request ''display_name'')
          (opt_text_at request ''role'')) (\<lambda>c. reads D CONTACT_READ (contact_read c))))"

definition contacts_route :: "deployment \<Rightarrow> trusted_context \<Rightarrow> uuid \<Rightarrow> pyval act" where
  "contacts_route D ctx i = bindE (list_contacts ctx i) (\<lambda>rows. read_all D CONTACT_READ (map contact_read rows))"

definition post_project :: "deployment \<Rightarrow> trusted_context \<Rightarrow> string option \<Rightarrow> pyval \<Rightarrow> pyval act" where
  "post_project D ctx key body =
     bindE (body_of D PROJECT_CREATE body) (\<lambda>request.
     keyed D ctx key PROJECT_READ ''POST /api/v1/projects'' request
       (bindE (create_project (dp_env D) (dp_zones D) ctx (uuid_at request ''client_id'') (text_at request ''name'')
          (int_at request ''base_contract_value_minor'') (text_at request ''timezone'') (list_at request ''weekdays'' read_int)
          (list_at request ''holiday_dates'' read_date) (hours_at request ''confirmed_daily_capacity_hours'')
          (opt_date_at request ''target_date'')) (\<lambda>p. reads D PROJECT_READ (project_read p))))"

definition projects_route :: "deployment \<Rightarrow> trusted_context \<Rightarrow> int \<Rightarrow> string option \<Rightarrow> pyval act" where
  "projects_route D ctx limit cursor =
     bindE (page_limit limit) (\<lambda>n.
     bindE (list_projects ctx n cursor) (\<lambda>(rows, next_cursor).
     read_one D (page_read PROJECT_READ)
       [(''items'', PList (map (\<lambda>p. PDict (project_read p)) rows)), (''next_cursor'', nullable_str next_cursor)]))"

definition project_route :: "deployment \<Rightarrow> trusted_context \<Rightarrow> uuid \<Rightarrow> pyval act" where
  "project_route D ctx i = bindE (get_project ctx i) (\<lambda>p. read_one D PROJECT_READ (project_read p))"

definition patch_project :: "deployment \<Rightarrow> trusted_context \<Rightarrow> string option \<Rightarrow> uuid \<Rightarrow> pyval \<Rightarrow> pyval act" where
  "patch_project D ctx key i body =
     bindE (body_of D PROJECT_UPDATE body) (\<lambda>request.
     keyed D ctx key PROJECT_READ (''PATCH /api/v1/projects/'' @ uuid_str i) request
       (bindE (update_project (dp_env D) ctx i (int_at request ''expected_row_version'') (text_at request ''name'')
          (opt_date_at request ''target_date'')) (\<lambda>p. reads D PROJECT_READ (project_read p))))"

definition remove_project :: "deployment \<Rightarrow> trusted_context \<Rightarrow> string option \<Rightarrow> uuid \<Rightarrow> int \<Rightarrow> pyval act" where
  "remove_project D ctx key i expected_row_version =
     bindE (require (0 < expected_row_version) ValidationError) (\<lambda>_.
     keyed D ctx key PROJECT_READ (''DELETE /api/v1/projects/'' @ uuid_str i) [(''expected_row_version'', PInt expected_row_version)]
       (bindE (delete_project (dp_env D) ctx i expected_row_version) (\<lambda>p. reads D PROJECT_READ (project_read p))))"

section \<open>Operations\<close>

text \<open>A state no job can have finds no job.\<close>

definition job_state_of :: "string \<Rightarrow> job_state option" where
  "job_state_of t = find (\<lambda>st. job_state_value st = t)
     [QUEUED, RUNNING, JOB_RETRY_WAIT, JOB_SUCCEEDED, FAILED_REQUIRES_REVIEW, JOB_CANCELLED]"

definition operation_jobs :: "deployment \<Rightarrow> trusted_context \<Rightarrow> string option \<Rightarrow> int \<Rightarrow> pyval act" where
  "operation_jobs D ctx state limit =
     bindE (short_query 32 state) (\<lambda>_.
     bindE (page_limit limit) (\<lambda>n.
     bindE (case state of
              None \<Rightarrow> list_jobs ctx None n
            | Some t \<Rightarrow> (case job_state_of t of None \<Rightarrow> ret [] | Some st \<Rightarrow> list_jobs ctx (Some st) n)) (\<lambda>rows.
     read_all D JOB_READ (map job_fields rows))))"

definition retry_operation_job :: "deployment \<Rightarrow> trusted_context \<Rightarrow> string option \<Rightarrow> uuid \<Rightarrow> pyval \<Rightarrow> pyval act" where
  "retry_operation_job D ctx key i body =
     bindE (body_of D JOB_RETRY_REQUEST body) (\<lambda>request.
     keyed D ctx key JOB_READ (''POST /api/v1/operations/jobs/'' @ uuid_str i @ ''/retry'') request
       (bindE (retry_failed_job ctx i (text_at request ''reason'')) (\<lambda>_.
        bindE (gets (\<lambda>s. row_by job_id i (jobs s))) (\<lambda>found.
        bindE (row_of found) (\<lambda>j. reads D JOB_READ (job_fields j))))))"

definition resolve_operation_action :: "deployment \<Rightarrow> trusted_context \<Rightarrow> string option \<Rightarrow> uuid \<Rightarrow> pyval \<Rightarrow> pyval act" where
  "resolve_operation_action D ctx key i body =
     bindE (body_of D ACTION_RESOLVE_REQUEST body) (\<lambda>request.
     keyed D ctx key ACTION_READ (''POST /api/v1/operations/actions/'' @ uuid_str i @ ''/resolve'') request
       (bindE (resolve_action ctx i (text_at request ''resolution'') (bool_at request ''duplicate_risk_acknowledged'')
          (opt_dict_at request ''receipt_ref'')) (\<lambda>_.
        bindE (gets (\<lambda>s. row_by act_id i (external_actions s))) (\<lambda>found.
        bindE (row_of found) (\<lambda>a. reads D ACTION_READ (action_fields a))))))"

definition operation_health :: "deployment \<Rightarrow> pyval act" where
  "operation_health D = read_one D OPERATIONS_HEALTH_READ (metrics_health (dp_metrics D))"

section \<open>Contracts\<close>

definition upload_grant_fields :: "upload_grant_result \<Rightarrow> int \<Rightarrow> string \<Rightarrow> (string \<times> pyval) list" where
  "upload_grant_fields g bytes mime_type =
     [(''document_id'', uuid_value (cdoc_id (ug_document g))), (''object_key'', PStr (cdoc_object_key (ug_document g))),
      (''object_version'', PStr (cdoc_object_version (ug_document g))), (''upload_token'', PStr (ug_token g)),
      (''expires_at'', time_value (ug_expires_at g)), (''expected_size_bytes'', PInt bytes), (''expected_mime_type'', PStr mime_type),
      (''upload_url'', nullable_str (ug_upload_url g)),
      (''upload_fields'', nullable_dict (map_option (map (\<lambda>kv. (fst kv, PStr (snd kv)))) (ug_upload_fields g)))]"

definition post_contract_document :: "deployment \<Rightarrow> trusted_context \<Rightarrow> string option \<Rightarrow> uuid \<Rightarrow> pyval \<Rightarrow> pyval act" where
  "post_contract_document D ctx key project body =
     bindE (body_of D DOCUMENT_UPLOAD_REQUEST body) (\<lambda>request.
     keyed D ctx key UPLOAD_GRANT_READ (''POST /api/v1/projects/'' @ uuid_str project @ ''/documents'') request
       (bindE (create_upload_grant (dp_env D) (dp_store D) ctx project (text_at request ''object_key'') (text_at request ''mime_type'')
          (int_at request ''expected_size_bytes'') 900) (\<lambda>g.
        reads D UPLOAD_GRANT_READ (upload_grant_fields g (int_at request ''expected_size_bytes'') (text_at request ''mime_type'')))))"

definition contract_document_route :: "deployment \<Rightarrow> trusted_context \<Rightarrow> uuid \<Rightarrow> pyval act" where
  "contract_document_route D ctx i = bindE (get_document ctx i) (\<lambda>d. read_one D DOCUMENT_READ (document_fields d))"

text \<open>
  \<open>base64.b64decode(text, validate=True)\<close>: only the standard alphabet, with at most two characters of
  padding at the end that complete the last quartet.
\<close>

definition b64_strict :: "string \<Rightarrow> string option" where
  "b64_strict t =
     (let core = rstrip_of (CHR ''='') t in
      if length t mod 4 = 0 \<and> length t \<le> length core + 2 \<and>
         list_all (\<lambda>c. b64_val c \<noteq> None \<and> c \<noteq> CHR ''-'' \<and> c \<noteq> CHR ''_'') core
      then urlsafe_b64decode t else None)"

definition upload_content ::
  "deployment \<Rightarrow> trusted_context \<Rightarrow> uuid \<Rightarrow> (string \<times> pyval) list \<Rightarrow> string act" where
  "upload_content D ctx i request =
     (case opt_text_at request ''content_base64'' of
        Some encoded \<Rightarrow> some_or ValidationError (b64_strict encoded)
      | None \<Rightarrow>
          bindE (get_upload_source (dp_env D) ctx i (text_at request ''upload_token'')) (\<lambda>source.
          (case fetch_private_object (dp_store D) (us_object_key source) (us_expected_size_bytes source)
              (us_expected_mime_type source) (Some (text_at request ''sha256'')) of
             Inr content \<Rightarrow> ret content
           | Inl e \<Rightarrow> raise (if e = ObjectStoreUnavailable \<or> e = ObjectStoreVerificationError then ValidationError else e))))"

definition complete_contract_upload :: "deployment \<Rightarrow> trusted_context \<Rightarrow> string option \<Rightarrow> uuid \<Rightarrow> pyval \<Rightarrow> pyval act" where
  "complete_contract_upload D ctx key i body =
     bindE (body_of D COMPLETE_UPLOAD_REQUEST body) (\<lambda>request.
     bindE (key_header key) (\<lambda>_.
     bindE (upload_content D ctx i request) (\<lambda>content.
     keyed D ctx key DOCUMENT_READ (''POST /api/v1/documents/'' @ uuid_str i @ ''/complete-upload'') request
       (bindE (complete_upload (dp_env D) (dp_reader D) (dp_late D) ctx i (text_at request ''upload_token'') content
          (text_at request ''sha256'') (text_at request ''mime_type'')) (\<lambda>d. reads D DOCUMENT_READ (document_fields d))))))"

definition patch_candidate_scope :: "deployment \<Rightarrow> trusted_context \<Rightarrow> string option \<Rightarrow> uuid \<Rightarrow> pyval \<Rightarrow> pyval act" where
  "patch_candidate_scope D ctx key document body =
     bindE (body_of D SCOPE_CANDIDATE_CORRECTION body) (\<lambda>request.
     keyed D ctx key SCOPE_CANDIDATE_READ (''PATCH /api/v1/documents/'' @ uuid_str document @ ''/candidate-scope'') request
       (bindE (correct_scope_candidate ctx (uuid_at request ''candidate_id'') (text_at request ''corrected_text'')
          (text_at request ''reason'')) (\<lambda>c.
        bindE (require (cand_document_id c = document) ValueError) (\<lambda>_.
        reads D SCOPE_CANDIDATE_READ [(''candidate_id'', uuid_value (cand_id c)),
          (''status'', PStr (candidate_status_value (cand_status c))), (''corrected_text'', nullable_str (cand_corrected_text c))]))))"

definition items_of_version :: "trusted_context \<Rightarrow> uuid \<Rightarrow> db \<Rightarrow> scope_item list" where
  "items_of_version ctx version s =
     filter (\<lambda>i. sitem_tenant_id i = ctx_tenant_id ctx \<and>
       list_ex (\<lambda>l. svi_scope_item_id l = sitem_id i \<and> svi_scope_version_id l = version) (scope_version_items s)) (scope_items s)"

definition scope_read :: "deployment \<Rightarrow> trusted_context \<Rightarrow> scope_version \<Rightarrow> ((string \<times> pyval) list) act" where
  "scope_read D ctx version =
     bindE (gets (items_of_version ctx (sv_id version))) (\<lambda>items.
     reads D SCOPE_READ [(''version'', PInt (sv_version version)), (''content_hash'', PStr (sv_content_hash version)),
       (''confirmed_at'', time_value (sv_confirmed_at version)),
       (''items'', PList (map (\<lambda>i. PDict (scope_item_fields i)) items))])"

definition confirm_project_scope :: "deployment \<Rightarrow> trusted_context \<Rightarrow> string option \<Rightarrow> uuid \<Rightarrow> pyval \<Rightarrow> pyval act" where
  "confirm_project_scope D ctx key project body =
     bindE (body_of D SCOPE_CONFIRM_REQUEST body) (\<lambda>request.
     keyed D ctx key SCOPE_READ (''POST /api/v1/projects/'' @ uuid_str project @ ''/scope/confirm'') request
       (bindE (confirm_scope (dp_env D) ctx project (list_at request ''candidate_ids'' read_uuid)) (scope_read D ctx)))"

definition project_scope :: "deployment \<Rightarrow> trusted_context \<Rightarrow> uuid \<Rightarrow> pyval act" where
  "project_scope D ctx project =
     bindE (read_confirmed_scope ctx project) (\<lambda>version. bindE (scope_read D ctx version) (\<lambda>d. ret (PDict d)))"

definition download_contract_document :: "deployment \<Rightarrow> trusted_context \<Rightarrow> uuid \<Rightarrow> pyval act" where
  "download_contract_document D ctx i =
     bindE (get_document ctx i) (\<lambda>d.
     bindE (presigned_or_none (create_private_download (dp_store D) (cdoc_object_key d) None)) (\<lambda>url.
     read_one D DOCUMENT_DOWNLOAD_READ [(''document_id'', uuid_value (cdoc_id d)), (''object_key'', PStr (cdoc_object_key d)),
       (''object_version'', PStr (cdoc_object_version d)), (''sha256'', PStr (cdoc_sha256 d)),
       (''access_scope'', PStr (''tenant:'' @ uuid_str (ctx_tenant_id ctx) @ '':project:'' @ uuid_str (cdoc_project_id d))),
       (''download_url'', nullable_str url)]))"

definition project_documents :: "deployment \<Rightarrow> trusted_context \<Rightarrow> uuid \<Rightarrow> pyval act" where
  "project_documents D ctx project = bindE (list_documents ctx project) (\<lambda>rows. read_all D DOCUMENT_READ (map document_fields rows))"

definition document_candidates :: "deployment \<Rightarrow> trusted_context \<Rightarrow> uuid \<Rightarrow> pyval act" where
  "document_candidates D ctx i = bindE (list_candidates ctx i) (\<lambda>rows. read_all D DOCUMENT_CANDIDATE_READ (map candidate_fields rows))"

definition structure_status_value :: "structure_status \<Rightarrow> string" where
  "structure_status_value st = (case st of STRUCTURE_PENDING \<Rightarrow> ''PENDING'' | STRUCTURE_READY \<Rightarrow> ''READY'')"

definition extraction_of :: "deployment \<Rightarrow> document_chunk list \<Rightarrow> structure_result" where
  "extraction_of D chunks =
     (if chunks = [] then \<lparr>sr_status = STRUCTURE_PENDING, sr_candidates = [], sr_reason = Some ''no_extracted_chunks''\<rparr>
      else (case bedrock_provider D of
          Inl message \<Rightarrow> \<lparr>sr_status = STRUCTURE_PENDING, sr_candidates = [], sr_reason = Some message\<rparr>
        | Inr provider \<Rightarrow> extract_scope_candidates provider chunks))"

definition extract_document_scope :: "deployment \<Rightarrow> trusted_context \<Rightarrow> string option \<Rightarrow> uuid \<Rightarrow> pyval act" where
  "extract_document_scope D ctx key i =
     bindE (key_header key) (\<lambda>_.
     bindE (get_document ctx i) (\<lambda>document.
     bindE (gets (\<lambda>s. sort_key dchunk_chunk_index (filter (\<lambda>c. dchunk_document_id c = cdoc_id document \<and>
        dchunk_tenant_id c = ctx_tenant_id ctx) (document_chunks s)))) (\<lambda>chunks.
     bindE (ret (extraction_of D chunks)) (\<lambda>extraction.
     keyed D ctx key STRUCTURE_EXTRACTION_READ (''POST /api/v1/documents/'' @ uuid_str i @ ''/extract-scope'') []
       (bindE (if sr_status extraction = STRUCTURE_READY
               then persist_structure_candidates ctx i (sr_candidates extraction)
                 (case configured (sr_reason extraction) of Some r \<Rightarrow> r | None \<Rightarrow> ''scope-structure-v1'')
               else ret []) (\<lambda>persisted.
        reads D STRUCTURE_EXTRACTION_READ [(''status'', PStr (structure_status_value (sr_status extraction))),
          (''reason'', nullable_str (sr_reason extraction)),
          (''candidates'', PList (map (\<lambda>c. PDict (candidate_fields c)) persisted))]))))))"

section \<open>Mailboxes\<close>

definition integration_read :: "deployment \<Rightarrow> trusted_context \<Rightarrow> uuid \<Rightarrow> pyval act" where
  "integration_read D ctx i =
     bindE (read_gmail_health ctx) (\<lambda>rows.
     bindE (some_or ValidationError (find (\<lambda>h. gconn_id (gh_connection h) = i) rows)) (\<lambda>h.
     read_one D INTEGRATION_CONNECTION_READ (health_fields h)))"

definition oauth_start_fields :: "gmail_oauth_start \<Rightarrow> (string \<times> pyval) list" where
  "oauth_start_fields r = [(''authorization_url'', PStr (gos_authorization_url r)), (''state'', PStr (gos_state r))]"

definition connect_gmail_route :: "deployment \<Rightarrow> trusted_context \<Rightarrow> pyval act" where
  "connect_gmail_route D ctx =
     bindE (start_gmail_oauth (dp_env D) (dp_gmail D) ctx None None) (\<lambda>r. read_one D GMAIL_OAUTH_START_READ (oauth_start_fields r))"

definition reconnect_gmail_route :: "deployment \<Rightarrow> trusted_context \<Rightarrow> uuid \<Rightarrow> pyval act" where
  "reconnect_gmail_route D ctx i =
     bindE (get_connection ctx i) (\<lambda>c.
     bindE (start_gmail_oauth (dp_env D) (dp_gmail D) ctx None (Some (gconn_provider_account_id c))) (\<lambda>r.
     read_one D GMAIL_OAUTH_START_READ (oauth_start_fields r)))"

definition gmail_connections_route :: "deployment \<Rightarrow> trusted_context \<Rightarrow> pyval act" where
  "gmail_connections_route D ctx =
     bindE (read_gmail_health ctx) (\<lambda>rows. read_all D INTEGRATION_CONNECTION_READ (map health_fields rows))"

definition integrations_health_route :: "deployment \<Rightarrow> trusted_context \<Rightarrow> pyval act" where
  "integrations_health_route D ctx = gmail_connections_route D ctx"

definition disconnect_gmail_route :: "deployment \<Rightarrow> trusted_context \<Rightarrow> uuid \<Rightarrow> pyval act" where
  "disconnect_gmail_route D ctx i = bindE (disconnect_gmail ctx i) (\<lambda>_. integration_read D ctx i)"

section \<open>Events and client requests\<close>

definition routed_fields :: "routed \<Rightarrow> (string \<times> pyval) list" where
  "routed_fields r =
     (case r of
        Communication e \<Rightarrow> [(''kind'', PStr ''communication''), (''id'', uuid_value (cev_id e)), (''status'', PStr ''MAPPED''),
          (''project_id'', nullable_uuid (cev_project_id e)), (''resource_type'', PStr (cev_resource_type e)),
          (''resource_id'', PStr (cev_resource_id e)), (''source_version'', PStr (cev_source_version e))]
      | Routing d \<Rightarrow> [(''kind'', PStr ''decision''), (''id'', uuid_value (rdec_id d)),
          (''status'', PStr (routing_status_value (rdec_status d))), (''candidate_projects'', words_value (rdec_candidate_projects d))])"

definition source_of :: "(string \<times> pyval) list \<Rightarrow> event_source" where
  "source_of request = \<lparr>es_resource_type = text_at request ''resource_type'', es_resource_id = text_at request ''resource_id'',
     es_source_version = text_at request ''source_version'', es_content_ref = text_at request ''content_ref'',
     es_occurred_at = time_at request ''occurred_at'', es_explicit_project_id = opt_uuid_at request ''explicit_project_id'',
     es_alias = opt_text_at request ''alias'', es_sender = opt_text_at request ''sender'',
     es_thread_id = opt_text_at request ''thread_id'', es_request_summary = None\<rparr>"

definition route_integration_event :: "deployment \<Rightarrow> trusted_context \<Rightarrow> string option \<Rightarrow> pyval \<Rightarrow> pyval act" where
  "route_integration_event D ctx key body =
     bindE (body_of D ROUTING_EVENT_REQUEST body) (\<lambda>request.
     keyed D ctx key ROUTING_RESULT_READ ''POST /api/v1/integration-events/route'' request
       (bindE (ingest_external_event ctx (text_at request ''provider'') (text_at request ''environment'')
          (text_at request ''provider_event_id'') (text_at request ''payload_hash'') (time_at request ''occurred_at'') None) (\<lambda>event.
        bindE (route_external_event ctx (xev_id event) (source_of request)) (\<lambda>result.
        reads D ROUTING_RESULT_READ (routed_fields result)))))"

definition routing_decisions_route :: "deployment \<Rightarrow> trusted_context \<Rightarrow> pyval act" where
  "routing_decisions_route D ctx =
     bindE (list_routing_decisions ctx) (\<lambda>rows. read_all D ROUTING_DECISION_READ (map routing_decision_fields rows))"

definition assign_integration_event :: "deployment \<Rightarrow> trusted_context \<Rightarrow> string option \<Rightarrow> uuid \<Rightarrow> pyval \<Rightarrow> pyval act" where
  "assign_integration_event D ctx key i body =
     bindE (body_of D ROUTING_RESOLVE_REQUEST body) (\<lambda>request.
     keyed D ctx key ROUTING_RESULT_READ (''POST /api/v1/integration-events/'' @ uuid_str i @ ''/assign'') request
       (bindE (resolve_routing_decision ctx i (uuid_at request ''project_id'') (ctx_subject ctx)) (\<lambda>result.
        reads D ROUTING_RESULT_READ (routed_fields result))))"

definition replay_integration_event :: "deployment \<Rightarrow> trusted_context \<Rightarrow> string option \<Rightarrow> uuid \<Rightarrow> pyval \<Rightarrow> pyval act" where
  "replay_integration_event D ctx key i body =
     bindE (body_of D ROUTING_RESOLVE_REQUEST body) (\<lambda>request.
     keyed D ctx key ROUTING_RESULT_READ (''POST /api/v1/integration-events/'' @ uuid_str i @ ''/replay'') request
       (bindE (replay_external_event ctx i (uuid_at request ''project_id'')) (\<lambda>result.
        reads D ROUTING_RESULT_READ (routed_fields result))))"

definition post_request :: "deployment \<Rightarrow> trusted_context \<Rightarrow> string option \<Rightarrow> pyval \<Rightarrow> pyval act" where
  "post_request D ctx key body =
     bindE (body_of D REQUEST_CREATE body) (\<lambda>request.
     keyed D ctx key REQUEST_READ ''POST /api/v1/requests'' request
       (bindE (create_request ctx (uuid_at request ''project_id'') (text_at request ''summary'')
          (list_at request ''communication_ids'' read_uuid)) (\<lambda>r. reads D REQUEST_READ (request_fields r))))"

definition analyze_request_route :: "deployment \<Rightarrow> trusted_context \<Rightarrow> string option \<Rightarrow> uuid \<Rightarrow> pyval act" where
  "analyze_request_route D ctx key i =
     bindE (key_header key) (\<lambda>_.
     bindE (get_request ctx i) (\<lambda>r.
     keyed D ctx key JOB_READ (''POST /api/v1/requests/'' @ uuid_str i @ ''/analyze'') []
       (bindE the_time (\<lambda>now.
        bindE (enqueue_job (ctx_tenant_id ctx) ''analysis.prepare'' [(''request_id'', PStr (uuid_str (req_id r))),
           (''request_version'', PInt (req_request_version r))] (ctx_correlation_id ctx) (Some (req_project_id r)) None
           (Some (now + minutes 8)) DEFAULT_MAX_ATTEMPTS None []) (\<lambda>j.
        reads D JOB_READ (job_fields j))))))"

definition get_request_route :: "deployment \<Rightarrow> trusted_context \<Rightarrow> uuid \<Rightarrow> pyval act" where
  "get_request_route D ctx i = bindE (get_request ctx i) (\<lambda>r. read_one D REQUEST_READ (request_fields r))"

definition clarify_request_route :: "deployment \<Rightarrow> trusted_context \<Rightarrow> string option \<Rightarrow> uuid \<Rightarrow> pyval \<Rightarrow> pyval act" where
  "clarify_request_route D ctx key i body =
     bindE (body_of D REQUEST_CLARIFY body) (\<lambda>request.
     keyed D ctx key REQUEST_READ (''POST /api/v1/requests/'' @ uuid_str i @ ''/clarify'') request
       (bindE (clarify_request ctx i (text_at request ''correction'')) (\<lambda>r. reads D REQUEST_READ (request_fields r))))"

definition merge_request_route :: "deployment \<Rightarrow> trusted_context \<Rightarrow> string option \<Rightarrow> uuid \<Rightarrow> pyval \<Rightarrow> pyval act" where
  "merge_request_route D ctx key i body =
     bindE (body_of D REQUEST_MERGE body) (\<lambda>request.
     keyed D ctx key REQUEST_READ (''POST /api/v1/requests/'' @ uuid_str i @ ''/merge'') request
       (bindE (merge_requests ctx i (uuid_at request ''source_request_id'') (text_at request ''reason'')) (\<lambda>r.
        reads D REQUEST_READ (request_fields r))))"

section \<open>Decisions\<close>

definition analysis_decisions_route ::
  "deployment \<Rightarrow> trusted_context \<Rightarrow> string option \<Rightarrow> uuid option \<Rightarrow> int \<Rightarrow> pyval act" where
  "analysis_decisions_route D ctx status project limit =
     bindE (short_query 40 status) (\<lambda>_.
     bindE (page_limit limit) (\<lambda>n.
     bindE (list_analysis_decisions ctx status project n) (\<lambda>rows.
     read_all D ANALYSIS_DECISION_READ (map decision_fields rows))))"

text \<open>\<open>model_copy(update=...)\<close> replaces fields without validating them.\<close>

definition with_field :: "string \<Rightarrow> pyval \<Rightarrow> (string \<times> pyval) list \<Rightarrow> (string \<times> pyval) list" where
  "with_field name v d = map (\<lambda>kv. if fst kv = name then (name, v) else kv) d"

definition analysis_decision_route :: "deployment \<Rightarrow> trusted_context \<Rightarrow> uuid \<Rightarrow> pyval act" where
  "analysis_decision_route D ctx i =
     bindE (get_analysis_decision ctx i) (\<lambda>decision.
     bindE (gets (\<lambda>s. find (\<lambda>r. draft_decision_id r = dec_id decision \<and> draft_status r = CURRENT)
        (analysis_draft_revisions s))) (\<lambda>revision.
     bindE (reads D ANALYSIS_DECISION_DETAIL_READ (decision_fields decision)) (\<lambda>d.
     ret (PDict (with_field ''draft_revision_id'' (nullable_uuid (map_option draft_id revision))
       (with_field ''draft_revision'' (nullable_dict (map_option draft_payload revision)) d))))))"

definition analysis_decision_evidence :: "deployment \<Rightarrow> trusted_context \<Rightarrow> uuid \<Rightarrow> pyval act" where
  "analysis_decision_evidence D ctx i =
     bindE (get_decision_evidence ctx i) (\<lambda>rows. read_all D ANALYSIS_EVIDENCE_READ (map evidence_fields rows))"

definition analysis_workflow_trace :: "deployment \<Rightarrow> trusted_context \<Rightarrow> uuid \<Rightarrow> pyval act" where
  "analysis_workflow_trace D ctx i = bindE (get_workflow_trace ctx i) (\<lambda>trace. read_one D WORKFLOW_TRACE_READ trace)"

section \<open>Change orders\<close>

definition change_order_read :: "deployment \<Rightarrow> change_order \<Rightarrow> ((string \<times> pyval) list) act" where
  "change_order_read D order =
     bindE (case co_current_revision_id order of
              None \<Rightarrow> ret None
            | Some i \<Rightarrow> gets (\<lambda>s. find (\<lambda>r. rev_id r = i \<and> rev_tenant_id r = co_tenant_id order) (proposal_revisions s))) (\<lambda>revision.
     (case revision of
        None \<Rightarrow> bindE (reads D CHANGE_ORDER_READ (order_fields order)) (\<lambda>d. ret (with_field ''revision'' PNone d))
      | Some r \<Rightarrow>
          bindE (reads D PROPOSAL_REVISION_READ (revision_fields r)) (\<lambda>revision_read.
          bindE (materialize_client_approval_url (dp_env D) r) (\<lambda>url.
          bindE (reads D CHANGE_ORDER_READ (order_fields order)) (\<lambda>d.
          ret (with_field ''revision'' (PDict (with_field ''approval_url'' (PStr url) revision_read)) d))))))"

definition assemble_change_order_route :: "deployment \<Rightarrow> trusted_context \<Rightarrow> string option \<Rightarrow> uuid \<Rightarrow> pyval act" where
  "assemble_change_order_route D ctx key i =
     keyed D ctx key CHANGE_ORDER_READ (''POST /api/v1/decisions/'' @ uuid_str i @ ''/change-order'') []
       (bindE (assemble_change_order (dp_env D) ctx i) (change_order_read D))"

definition get_change_order_route :: "deployment \<Rightarrow> trusted_context \<Rightarrow> uuid \<Rightarrow> pyval act" where
  "get_change_order_route D ctx i =
     bindE (read_change_order ctx i) (\<lambda>order. bindE (change_order_read D order) (\<lambda>d. ret (PDict d)))"

text \<open>A command on an order answers with the order as it is then read.\<close>

definition then_read_order :: "deployment \<Rightarrow> trusted_context \<Rightarrow> uuid \<Rightarrow> 'a act \<Rightarrow> ((string \<times> pyval) list) act" where
  "then_read_order D ctx i command =
     bindE command (\<lambda>_. bindE (read_change_order ctx i) (change_order_read D))"

definition order_route :: "uuid \<Rightarrow> string \<Rightarrow> string" where
  "order_route i verb = ''/api/v1/change-orders/'' @ uuid_str i @ ''/'' @ verb"

definition create_change_order_revision_route :: "deployment \<Rightarrow> trusted_context \<Rightarrow> string option \<Rightarrow> uuid \<Rightarrow> pyval \<Rightarrow> pyval act" where
  "create_change_order_revision_route D ctx key i body =
     bindE (body_of D PROPOSAL_REVISION_EDIT body) (\<lambda>request.
     keyed D ctx key CHANGE_ORDER_READ (order_route i ''revisions'') request
       (then_read_order D ctx i (create_revision (dp_env D) ctx i (filter (\<lambda>kv. snd kv \<noteq> PNone) request))))"

definition approve_change_order_route :: "deployment \<Rightarrow> trusted_context \<Rightarrow> string option \<Rightarrow> uuid \<Rightarrow> pyval \<Rightarrow> pyval act" where
  "approve_change_order_route D ctx key i body =
     bindE (body_of D FREELANCER_APPROVAL_REQUEST body) (\<lambda>request.
     keyed D ctx key CHANGE_ORDER_READ (order_route i ''approve'') request
       (then_read_order D ctx i (approve_freelancer (dp_env D) ctx i (int_at request ''expected_row_version'')
          (uuid_at request ''revision_id'') (text_at request ''content_hash''))))"

definition reject_change_order_route :: "deployment \<Rightarrow> trusted_context \<Rightarrow> string option \<Rightarrow> uuid \<Rightarrow> pyval \<Rightarrow> pyval act" where
  "reject_change_order_route D ctx key i body =
     bindE (body_of D FREELANCER_DECISION_REQUEST body) (\<lambda>request.
     keyed D ctx key CHANGE_ORDER_READ (order_route i ''reject'') request
       (then_read_order D ctx i (freelancer_decide (dp_env D) ctx i REJECTED (opt_text_at request ''comment''))))"

definition waive_change_order_route :: "deployment \<Rightarrow> trusted_context \<Rightarrow> string option \<Rightarrow> uuid \<Rightarrow> pyval \<Rightarrow> pyval act" where
  "waive_change_order_route D ctx key i body =
     bindE (body_of D FREELANCER_DECISION_REQUEST body) (\<lambda>request.
     keyed D ctx key CHANGE_ORDER_READ (order_route i ''waive'') request
       (then_read_order D ctx i (freelancer_decide (dp_env D) ctx i DECISION_WAIVED (opt_text_at request ''comment''))))"

definition withdraw_change_order_route :: "deployment \<Rightarrow> trusted_context \<Rightarrow> string option \<Rightarrow> uuid \<Rightarrow> pyval \<Rightarrow> pyval act" where
  "withdraw_change_order_route D ctx key i body =
     bindE (body_of D WITHDRAWAL_REQUEST body) (\<lambda>request.
     keyed D ctx key CHANGE_ORDER_READ (order_route i ''withdraw'') request
       (then_read_order D ctx i (withdraw_change_order (dp_env D) ctx i (opt_text_at request ''reason''))))"

section \<open>Payments\<close>

definition payment_requests_route :: "deployment \<Rightarrow> trusted_context \<Rightarrow> uuid \<Rightarrow> pyval act" where
  "payment_requests_route D ctx i =
     bindE (read_payment_request ctx i None) (\<lambda>r. read_one D PAYMENT_REQUEST_READ (payment_fields r))"

definition payment_route :: "uuid \<Rightarrow> string \<Rightarrow> string" where
  "payment_route i verb = ''POST /api/v1/payment-requests/'' @ uuid_str i @ ''/'' @ verb"

definition create_payment_link_route :: "deployment \<Rightarrow> trusted_context \<Rightarrow> string option \<Rightarrow> uuid \<Rightarrow> pyval act" where
  "create_payment_link_route D ctx key i =
     keyed D ctx key PAYMENT_REQUEST_READ (payment_route i ''create-link'') []
       (bindE (prepare_payment_link (dp_env D) ctx i) (\<lambda>(action, j).
        bindE (read_payment_request ctx i (map_option job_id j)) (\<lambda>r. reads D PAYMENT_REQUEST_READ (payment_fields r))))"

definition replace_payment_link_route :: "deployment \<Rightarrow> trusted_context \<Rightarrow> string option \<Rightarrow> uuid \<Rightarrow> pyval \<Rightarrow> pyval act" where
  "replace_payment_link_route D ctx key i body =
     bindE (body_of D PAYMENT_LINK_REPLACE_REQUEST body) (\<lambda>request.
     keyed D ctx key PAYMENT_REQUEST_READ (payment_route i ''replace-link'') request
       (bindE (replace_payment_link (dp_env D) ctx i (int_at request ''expected_row_version'')) (\<lambda>(action, j).
        bindE (read_payment_request ctx i (map_option job_id j)) (\<lambda>r. reads D PAYMENT_REQUEST_READ (payment_fields r)))))"

definition reconcile_payment_route :: "deployment \<Rightarrow> trusted_context \<Rightarrow> string option \<Rightarrow> uuid \<Rightarrow> pyval act" where
  "reconcile_payment_route D ctx key i =
     keyed D ctx key PAYMENT_REQUEST_READ (payment_route i ''reconcile'') []
       (bindE (reconcile_payment_request (dp_env D) (dp_payments D) ctx i) (\<lambda>_.
        bindE (read_payment_request ctx i None) (\<lambda>r. reads D PAYMENT_REQUEST_READ (payment_fields r))))"

section \<open>The calls of the operator interface\<close>

text \<open>
  A call with its path and query parameters and its body, by area; \<open>operate\<close> runs its route. \<open>reading_call\<close>
  holds for the calls with the method GET, all of which only read.
\<close>

datatype account_call =
    GetMe | GetPreferences | PatchPreferences pyval | PostClient pyval | GetClients int "string option"
  | GetClient uuid | PatchClient uuid pyval | PostContact uuid pyval | GetContacts uuid | PostProject pyval
  | GetProjects int "string option" | GetProject uuid | PatchProject uuid pyval | DeleteProject uuid int

datatype work_call =
    GetJobs "string option" int | RetryJob uuid pyval | ResolveAction uuid pyval | ConnectGmail | ReconnectGmail uuid
  | GetConnections | GetIntegrationsHealth | DisconnectGmail uuid

datatype contract_call =
    PostDocument uuid pyval | GetDocument uuid | CompleteUpload uuid pyval | PatchCandidate uuid pyval
  | ConfirmScope uuid pyval | GetScope uuid | DownloadDocument uuid | GetDocuments uuid | GetCandidates uuid
  | ExtractScope uuid

datatype request_call =
    RouteEvent pyval | GetRoutingDecisions | AssignEvent uuid pyval | ReplayEvent uuid pyval | PostRequest pyval
  | AnalyzeRequest uuid | GetRequest uuid | ClarifyRequest uuid pyval | MergeRequest uuid pyval

datatype offer_call =
    GetDecisions "string option" "uuid option" int | GetDecision uuid | GetEvidence uuid | GetTrace uuid
  | AssembleOrder uuid | GetOrder uuid | ReviseOrder uuid pyval | ApproveOrder uuid pyval | RejectOrder uuid pyval
  | WaiveOrder uuid pyval | WithdrawOrder uuid pyval

datatype payment_call =
    GetPayment uuid | CreateLink uuid | ReplaceLink uuid pyval | ReconcilePayment uuid

primrec operate_account :: "deployment \<Rightarrow> trusted_context \<Rightarrow> string option \<Rightarrow> account_call \<Rightarrow> pyval act" where
  "operate_account D ctx key GetMe = me D ctx"
| "operate_account D ctx key GetPreferences = preferences D ctx"
| "operate_account D ctx key (PatchPreferences body) = patch_preferences D ctx key body"
| "operate_account D ctx key (PostClient body) = post_client D ctx key body"
| "operate_account D ctx key (GetClients limit cursor) = clients_route D ctx limit cursor"
| "operate_account D ctx key (GetClient i) = client_route D ctx i"
| "operate_account D ctx key (PatchClient i body) = patch_client D ctx key i body"
| "operate_account D ctx key (PostContact i body) = post_contact D ctx key i body"
| "operate_account D ctx key (GetContacts i) = contacts_route D ctx i"
| "operate_account D ctx key (PostProject body) = post_project D ctx key body"
| "operate_account D ctx key (GetProjects limit cursor) = projects_route D ctx limit cursor"
| "operate_account D ctx key (GetProject i) = project_route D ctx i"
| "operate_account D ctx key (PatchProject i body) = patch_project D ctx key i body"
| "operate_account D ctx key (DeleteProject i version) = remove_project D ctx key i version"

primrec operate_work :: "deployment \<Rightarrow> trusted_context \<Rightarrow> string option \<Rightarrow> work_call \<Rightarrow> pyval act" where
  "operate_work D ctx key (GetJobs state limit) = operation_jobs D ctx state limit"
| "operate_work D ctx key (RetryJob i body) = retry_operation_job D ctx key i body"
| "operate_work D ctx key (ResolveAction i body) = resolve_operation_action D ctx key i body"
| "operate_work D ctx key ConnectGmail = connect_gmail_route D ctx"
| "operate_work D ctx key (ReconnectGmail i) = reconnect_gmail_route D ctx i"
| "operate_work D ctx key GetConnections = gmail_connections_route D ctx"
| "operate_work D ctx key GetIntegrationsHealth = integrations_health_route D ctx"
| "operate_work D ctx key (DisconnectGmail i) = disconnect_gmail_route D ctx i"

primrec operate_contract :: "deployment \<Rightarrow> trusted_context \<Rightarrow> string option \<Rightarrow> contract_call \<Rightarrow> pyval act" where
  "operate_contract D ctx key (PostDocument i body) = post_contract_document D ctx key i body"
| "operate_contract D ctx key (GetDocument i) = contract_document_route D ctx i"
| "operate_contract D ctx key (CompleteUpload i body) = complete_contract_upload D ctx key i body"
| "operate_contract D ctx key (PatchCandidate i body) = patch_candidate_scope D ctx key i body"
| "operate_contract D ctx key (ConfirmScope i body) = confirm_project_scope D ctx key i body"
| "operate_contract D ctx key (GetScope i) = project_scope D ctx i"
| "operate_contract D ctx key (DownloadDocument i) = download_contract_document D ctx i"
| "operate_contract D ctx key (GetDocuments i) = project_documents D ctx i"
| "operate_contract D ctx key (GetCandidates i) = document_candidates D ctx i"
| "operate_contract D ctx key (ExtractScope i) = extract_document_scope D ctx key i"

primrec operate_request :: "deployment \<Rightarrow> trusted_context \<Rightarrow> string option \<Rightarrow> request_call \<Rightarrow> pyval act" where
  "operate_request D ctx key (RouteEvent body) = route_integration_event D ctx key body"
| "operate_request D ctx key GetRoutingDecisions = routing_decisions_route D ctx"
| "operate_request D ctx key (AssignEvent i body) = assign_integration_event D ctx key i body"
| "operate_request D ctx key (ReplayEvent i body) = replay_integration_event D ctx key i body"
| "operate_request D ctx key (PostRequest body) = post_request D ctx key body"
| "operate_request D ctx key (AnalyzeRequest i) = analyze_request_route D ctx key i"
| "operate_request D ctx key (GetRequest i) = get_request_route D ctx i"
| "operate_request D ctx key (ClarifyRequest i body) = clarify_request_route D ctx key i body"
| "operate_request D ctx key (MergeRequest i body) = merge_request_route D ctx key i body"

primrec operate_offer :: "deployment \<Rightarrow> trusted_context \<Rightarrow> string option \<Rightarrow> offer_call \<Rightarrow> pyval act" where
  "operate_offer D ctx key (GetDecisions status project limit) = analysis_decisions_route D ctx status project limit"
| "operate_offer D ctx key (GetDecision i) = analysis_decision_route D ctx i"
| "operate_offer D ctx key (GetEvidence i) = analysis_decision_evidence D ctx i"
| "operate_offer D ctx key (GetTrace i) = analysis_workflow_trace D ctx i"
| "operate_offer D ctx key (AssembleOrder i) = assemble_change_order_route D ctx key i"
| "operate_offer D ctx key (GetOrder i) = get_change_order_route D ctx i"
| "operate_offer D ctx key (ReviseOrder i body) = create_change_order_revision_route D ctx key i body"
| "operate_offer D ctx key (ApproveOrder i body) = approve_change_order_route D ctx key i body"
| "operate_offer D ctx key (RejectOrder i body) = reject_change_order_route D ctx key i body"
| "operate_offer D ctx key (WaiveOrder i body) = waive_change_order_route D ctx key i body"
| "operate_offer D ctx key (WithdrawOrder i body) = withdraw_change_order_route D ctx key i body"

primrec operate_payment :: "deployment \<Rightarrow> trusted_context \<Rightarrow> string option \<Rightarrow> payment_call \<Rightarrow> pyval act" where
  "operate_payment D ctx key (GetPayment i) = payment_requests_route D ctx i"
| "operate_payment D ctx key (CreateLink i) = create_payment_link_route D ctx key i"
| "operate_payment D ctx key (ReplaceLink i body) = replace_payment_link_route D ctx key i body"
| "operate_payment D ctx key (ReconcilePayment i) = reconcile_payment_route D ctx key i"

datatype operator_call =
    AccountCall account_call | WorkCall work_call | ContractCall contract_call | RequestCall request_call
  | OfferCall offer_call | PaymentCall payment_call

primrec operate :: "deployment \<Rightarrow> trusted_context \<Rightarrow> string option \<Rightarrow> operator_call \<Rightarrow> pyval act" where
  "operate D ctx key (AccountCall c) = operate_account D ctx key c"
| "operate D ctx key (WorkCall c) = operate_work D ctx key c"
| "operate D ctx key (ContractCall c) = operate_contract D ctx key c"
| "operate D ctx key (RequestCall c) = operate_request D ctx key c"
| "operate D ctx key (OfferCall c) = operate_offer D ctx key c"
| "operate D ctx key (PaymentCall c) = operate_payment D ctx key c"

definition call_status :: "operator_call \<Rightarrow> nat" where
  "call_status call = (case call of
     AccountCall (PostClient _) \<Rightarrow> 201 | AccountCall (PostContact _ _) \<Rightarrow> 201
   | AccountCall (PostProject _) \<Rightarrow> 201 | ContractCall (PostDocument _ _) \<Rightarrow> 201
   | RequestCall (PostRequest _) \<Rightarrow> 201 | RequestCall (AnalyzeRequest _) \<Rightarrow> 202
   | OfferCall (AssembleOrder _) \<Rightarrow> 201 | PaymentCall (CreateLink _) \<Rightarrow> 202
   | PaymentCall (ReplaceLink _ _) \<Rightarrow> 202 | _ \<Rightarrow> 200)"

definition reading_call :: "operator_call \<Rightarrow> bool" where
  "reading_call call = (case call of
     AccountCall GetMe \<Rightarrow> True | AccountCall GetPreferences \<Rightarrow> True
   | AccountCall (GetClients _ _) \<Rightarrow> True | AccountCall (GetClient _) \<Rightarrow> True
   | AccountCall (GetContacts _) \<Rightarrow> True | AccountCall (GetProjects _ _) \<Rightarrow> True
   | AccountCall (GetProject _) \<Rightarrow> True | WorkCall (GetJobs _ _) \<Rightarrow> True
   | WorkCall GetConnections \<Rightarrow> True | WorkCall GetIntegrationsHealth \<Rightarrow> True
   | ContractCall (GetDocument _) \<Rightarrow> True | ContractCall (GetScope _) \<Rightarrow> True
   | ContractCall (DownloadDocument _) \<Rightarrow> True | ContractCall (GetDocuments _) \<Rightarrow> True
   | ContractCall (GetCandidates _) \<Rightarrow> True | RequestCall GetRoutingDecisions \<Rightarrow> True
   | RequestCall (GetRequest _) \<Rightarrow> True | OfferCall (GetDecisions _ _ _) \<Rightarrow> True
   | OfferCall (GetDecision _) \<Rightarrow> True | OfferCall (GetEvidence _) \<Rightarrow> True
   | OfferCall (GetTrace _) \<Rightarrow> True | OfferCall (GetOrder _) \<Rightarrow> True
   | PaymentCall (GetPayment _) \<Rightarrow> True | _ \<Rightarrow> False)"

text \<open>The headers of a call, and the whole handling of one: authentication, then the route, in one session.\<close>

record call_headers =
  ch_authorization :: "string option"
  ch_request_id :: "string option"
  ch_idempotency_key :: "string option"

definition operator_reply ::
  "token_library \<Rightarrow> auth_settings \<Rightarrow> deployment \<Rightarrow> call_headers \<Rightarrow> operator_call \<Rightarrow> db \<Rightarrow> reply \<times> db" where
  "operator_reply L C D h call =
     serve (ch_request_id h) (call_status call)
       (bindE (get_current_context L C (ch_authorization h) (ch_request_id h)) (\<lambda>ctx.
        bindE (operate D ctx (ch_idempotency_key h) call) (\<lambda>v. ret (body_answer v))))"

end
