(* ===== verification/Entry_Routes.thy ===== *)
theory Entry_Routes
  imports Routes
begin

text \<open>
  The routes of \<open>services/api/routes.py\<close> that act without an operator's context: onboarding under a verified
  principal, the callback and the push webhook of Gmail, the webhook of Razorpay, and the client's routes
  under a capability session kept in a cookie.
\<close>

section \<open>Onboarding\<close>

definition onboarding :: "deployment \<Rightarrow> verified_principal \<Rightarrow> string option \<Rightarrow> pyval \<Rightarrow> pyval act" where
  "onboarding D who header body =
     bindE (body_of D ONBOARDING_CREATE body) (\<lambda>request.
     bindE (key_header header) (\<lambda>key.
     bindE (some_or AuthenticationError (if vp_email_verified who then configured (vp_email who) else None)) (\<lambda>email.
     bindE (gets (\<lambda>s. find (\<lambda>u. usr_cognito_sub u = vp_subject who) (users s))) (\<lambda>existing.
     bindE (case existing of Some u \<Rightarrow> ret (usr_id u) | None \<Rightarrow> fresh_uuid) (\<lambda>tenant.
     bindE fresh_uuid (\<lambda>correlation.
     bindE (ret \<lparr>ctx_tenant_id = tenant, ctx_subject = vp_subject who, ctx_email = email, ctx_email_verified = True,
        ctx_correlation_id = correlation\<rparr>) (\<lambda>ctx.
     bindE (execute_idempotent (dp_env D) (\<lambda>d. d) (model_validate (dp_formats D) ONBOARDING_READ) ctx ''POST /api/v1/onboarding'' key
        request
        (bindE (onboard_owner (dp_env D) ctx (text_at request ''timezone'') (int_at request ''rate_minor'')
           (int_at request ''minimum_minor'') (int_at request ''increment_minor'') (text_at request ''communication_style'')
           (dict_at request ''reminder_policy'')) (\<lambda>(u, p). reads D ONBOARDING_READ (onboarding_read u p)))
        (Some (''identity:'' @ vp_subject who)) (dp_rivals D)) (\<lambda>d.
     ret (PDict d)))))))))"

section \<open>Gmail\<close>

definition callback_context :: "integration_connection \<Rightarrow> trusted_context act" where
  "callback_context c =
     bindE fresh_uuid (\<lambda>correlation.
     ret \<lparr>ctx_tenant_id = gconn_tenant_id c, ctx_subject = ''gmail:'' @ gconn_provider_account_id c,
       ctx_email = gconn_account_email c, ctx_email_verified = True, ctx_correlation_id = correlation\<rparr>)"

definition gmail_callback_route ::
  "deployment \<Rightarrow> string \<Rightarrow> string option \<Rightarrow> string option \<Rightarrow> pyval act" where
  "gmail_callback_route D state code error =
     bindE (require (state \<noteq> [] \<and> code \<noteq> Some []) ValidationError) (\<lambda>_.
     bindE (short_query 128 error) (\<lambda>_.
     bindE (require (configured error = None) ValidationError) (\<lambda>_.
     bindE (some_or ValidationError code) (\<lambda>granted.
     bindE (complete_gmail_oauth_callback (dp_env D) (dp_gmail D) state granted) (\<lambda>c.
     bindE (callback_context c) (\<lambda>ctx.
     integration_read D ctx (gconn_id c)))))))"

text \<open>\<open>str(d.get(k) or "")\<close>.\<close>

definition text_or_empty :: "(string \<times> pyval) list \<Rightarrow> string \<Rightarrow> string" where
  "text_or_empty d k = py_str (py_or (dict_get d k) (PStr []))"

text \<open>
  The publish time with \<open>Z\<close> read as the offset of UTC and its fraction as six digits, as
  \<open>datetime.fromisoformat\<close> reads any number of them; times in other zones or formats are not read.
\<close>

definition zulu_offset :: "string \<Rightarrow> string" where
  "zulu_offset t = concat (map (\<lambda>c. if c = CHR ''Z'' then ''+00:00'' else [c]) t)"

definition six_digits :: "string \<Rightarrow> string" where
  "six_digits t =
     (case dropWhile (\<lambda>c. c \<noteq> CHR ''.'') t of
        [] \<Rightarrow> t
      | dot # cs \<Rightarrow>
          (case takeWhile is_decimal_digit cs of
             [] \<Rightarrow> t
           | ds \<Rightarrow> takeWhile (\<lambda>c. c \<noteq> CHR ''.'') t @ [dot] @ take 6 (ds @ ''00000'') @ dropWhile is_decimal_digit cs))"

definition publish_time :: "string \<Rightarrow> time act" where
  "publish_time t = (if t = [] then the_time else some_or ValidationError (fromisoformat (six_digits (zulu_offset t))))"

definition pubsub_push :: "deployment \<Rightarrow> (string \<times> pyval) list \<Rightarrow> string option \<Rightarrow> external_event act" where
  "pubsub_push D message topic =
     bindE (some_or ValidationError (b64_strict (pad_base64 (text_or_empty message ''data'')))) (\<lambda>decoded.
     bindE (case dp_loads D decoded of Inl _ \<Rightarrow> raise ValidationError | Inr v \<Rightarrow> ret v) (\<lambda>payload.
     bindE (some_or ValidationError (as_dict payload)) (\<lambda>notification.
     bindE (publish_time (text_or_empty message ''publishTime'')) (\<lambda>occurred_at.
     accept_gmail_pubsub_push (dp_gmail D) (text_or_empty notification ''emailAddress'') (text_or_empty notification ''historyId'')
       (text_or_empty message ''messageId'') (sha256 (dp_env D) decoded) occurred_at topic))))"

definition direct_push :: "deployment \<Rightarrow> (string \<times> pyval) list \<Rightarrow> external_event act" where
  "direct_push D body =
     bindE (reads D GMAIL_PUSH_REQUEST body) (\<lambda>request.
     accept_gmail_push (dp_gmail D) (text_at request ''provider_account_id'') (text_at request ''watch_id'')
       (text_at request ''history_id'') (text_at request ''delivery_id'') (text_at request ''payload_hash'')
       (time_at request ''occurred_at'') (text_at request ''verification_token''))"

definition pubsub_message :: "(string \<times> pyval) list \<Rightarrow> ((string \<times> pyval) list) option" where
  "pubsub_message body =
     (case dict_get body ''message'' of
        PDict message \<Rightarrow> if map_of message ''data'' = None then None else Some message
      | _ \<Rightarrow> None)"

definition gmail_push_webhook :: "deployment \<Rightarrow> pyval \<Rightarrow> string option \<Rightarrow> pyval act" where
  "gmail_push_webhook D body topic =
     bindE (some_or ValidationError (as_dict body)) (\<lambda>d.
     bindE (case pubsub_message d of Some message \<Rightarrow> pubsub_push D message topic | None \<Rightarrow> direct_push D d) (\<lambda>event.
     ret (PDict [(''event_id'', PStr (uuid_str (xev_id event))), (''status'', PStr ''accepted'')])))"

section \<open>Razorpay\<close>

definition MAX_WEBHOOK_BYTES :: nat where "MAX_WEBHOOK_BYTES = 262144"

definition razorpay_webhook :: "deployment \<Rightarrow> string \<Rightarrow> string option \<Rightarrow> string option \<Rightarrow> pyval act" where
  "razorpay_webhook D raw_body signature event_header =
     bindE (require (length raw_body \<le> MAX_WEBHOOK_BYTES) ValidationError) (\<lambda>_.
     bindE (ret (strip (set_account_id (dp_razorpay D)))) (\<lambda>account.
     bindE (require (account \<noteq> [] \<and> verify_webhook_signature (dp_hmac D) (dp_razorpay D) raw_body
        (case signature of Some t \<Rightarrow> t | None \<Rightarrow> [])) ValidationError) (\<lambda>_.
     bindE (case dp_loads D raw_body of Inl e \<Rightarrow> raise (if e = ValueError then ValidationError else e) | Inr v \<Rightarrow> ret v) (\<lambda>v.
     bindE (some_or ValidationError (as_dict v)) (\<lambda>payload.
     bindE (ret (clean_str (dict_get payload ''event''))) (\<lambda>event_type.
     bindE (require (event_type \<noteq> []) ValidationError) (\<lambda>_.
     bindE (accept_payment_webhook (dp_env D) account ''test'' (case event_header of Some t \<Rightarrow> t | None \<Rightarrow> []) event_type payload
        True None) (\<lambda>(ingress, j).
     ret (PDict [(''ingress_id'', PStr (uuid_str (wh_id ingress))), (''job_id'', nullable_uuid (map_option job_id j)),
       (''status'', PStr ''accepted'')])))))))))"

section \<open>The client\<close>

definition public_headers :: "(string \<times> string) list" where
  "public_headers = [(''Cache-Control'', ''no-store''), (''Referrer-Policy'', ''no-referrer''),
     (''Content-Security-Policy'', ''default-src '' @ [CHR 0x27] @ ''none'' @ [CHR 0x27] @ ''; frame-ancestors '' @ [CHR 0x27] @ ''none'' @ [CHR 0x27])]"

definition session_cookie :: "string \<Rightarrow> cookie" where
  "session_cookie token = \<lparr>ck_name = ''scopeguard_client_session'', ck_value = token, ck_max_age = 86400, ck_httponly = True,
     ck_secure = True, ck_samesite = ''none'', ck_path = ''/public/v1''\<rparr>"

definition public_answer :: "pyval \<Rightarrow> cookie option \<Rightarrow> answer" where
  "public_answer body c = \<lparr>ans_body = body, ans_headers = public_headers, ans_cookie = c\<rparr>"

definition credentials_answer :: "capability_credentials \<Rightarrow> answer" where
  "credentials_answer c =
     public_answer (PDict [(''change_order_id'', PStr (uuid_str (cc_change_order_id (cred_capability c)))),
       (''csrf_token'', PStr (cred_csrf_token c))]) (Some (session_cookie (cred_session_token c)))"

text \<open>\<open>if not cookie: raise\<close>\<close>

definition cookie_token :: "string option \<Rightarrow> string act" where
  "cookie_token value = some_or ValidationError (configured value)"

definition exchange_capability_route :: "deployment \<Rightarrow> pyval \<Rightarrow> answer act" where
  "exchange_capability_route D body =
     bindE (body_of D CAPABILITY_EXCHANGE_REQUEST body) (\<lambda>request.
     bindE (exchange_capability (dp_env D) (text_at request ''token'')) (\<lambda>c. ret (credentials_answer c)))"

definition client_review_route :: "deployment \<Rightarrow> uuid \<Rightarrow> string option \<Rightarrow> answer act" where
  "client_review_route D i value =
     bindE (cookie_token value) (\<lambda>token.
     bindE (read_client_review (dp_env D) token) (\<lambda>payload.
     bindE (require (dict_get payload ''change_order_id'' = PStr (uuid_str i)) ValidationError) (\<lambda>_.
     bindE (reads D CLIENT_REVIEW_READ payload) (\<lambda>d. ret (public_answer (PDict d) None)))))"

definition client_receipt_route :: "deployment \<Rightarrow> uuid \<Rightarrow> string option \<Rightarrow> answer act" where
  "client_receipt_route D i value =
     bindE (cookie_token value) (\<lambda>token.
     bindE (verify_receipt_session (dp_env D) token) (\<lambda>payload.
     bindE (require (dict_get payload ''change_order_id'' = PStr (uuid_str i)) ValidationError) (\<lambda>_.
     bindE (reads D CLIENT_RECEIPT_READ payload) (\<lambda>d. ret (public_answer (PDict d) None)))))"

definition refresh_client_session_route :: "deployment \<Rightarrow> string option \<Rightarrow> answer act" where
  "refresh_client_session_route D value =
     bindE (cookie_token value) (\<lambda>token.
     bindE (refresh_client_session (dp_env D) token) (\<lambda>c. ret (credentials_answer c)))"

text \<open>Both the cookie and the CSRF header must be there.\<close>

definition client_tokens :: "string option \<Rightarrow> string option \<Rightarrow> (string \<times> string) act" where
  "client_tokens value csrf =
     bindE (some_or ValidationError (configured value)) (\<lambda>token.
     bindE (some_or ValidationError (configured csrf)) (\<lambda>csrf_token. ret (token, csrf_token)))"

definition client_decision_route ::
  "deployment \<Rightarrow> approval_decision \<Rightarrow> uuid \<Rightarrow> pyval \<Rightarrow> string option \<Rightarrow> string option \<Rightarrow> answer act" where
  "client_decision_route D decision i body csrf value =
     bindE (body_of D CLIENT_DECISION_REQUEST body) (\<lambda>request.
     bindE (client_tokens value csrf) (\<lambda>(token, csrf_token).
     bindE (client_decide (dp_env D) token csrf_token i (int_at request ''expected_row_version'') (uuid_at request ''revision_id'')
        (text_at request ''content_hash'') decision (opt_text_at request ''comment'')) (\<lambda>order.
     ret (public_answer (PDict [(''change_order_id'', PStr (uuid_str (co_id order))),
        (''revision_id'', PStr (uuid_str (uuid_at request ''revision_id''))),
        (''status'', PStr (change_order_value (co_status order)))]) None))))"

definition client_request_changes_route ::
  "deployment \<Rightarrow> uuid \<Rightarrow> pyval \<Rightarrow> string option \<Rightarrow> string option \<Rightarrow> answer act" where
  "client_request_changes_route D = client_decision_route D REQUEST_CHANGES"

definition client_reject_route ::
  "deployment \<Rightarrow> uuid \<Rightarrow> pyval \<Rightarrow> string option \<Rightarrow> string option \<Rightarrow> answer act" where
  "client_reject_route D = client_decision_route D REJECTED"

definition client_accept_route ::
  "deployment \<Rightarrow> string option \<Rightarrow> uuid \<Rightarrow> pyval \<Rightarrow> string option \<Rightarrow> string option \<Rightarrow> answer act" where
  "client_accept_route D header i body csrf value =
     bindE (body_of D CLIENT_ACCEPTANCE_REQUEST body) (\<lambda>request.
     bindE (key_header header) (\<lambda>key.
     bindE (client_tokens value csrf) (\<lambda>(token, csrf_token).
     bindE (accept_client (dp_env D) token csrf_token i (int_at request ''expected_row_version'') (uuid_at request ''revision_id'')
        (text_at request ''content_hash'') key) (\<lambda>result.
     bindE (reads D CLIENT_RECEIPT_READ [(''change_order_id'', uuid_value (co_id (acc_change_order result))),
        (''revision_id'', uuid_value (cc_revision_id (cred_capability (acc_receipt result)))),
        (''status'', PStr (change_order_value (co_status (acc_change_order result)))),
        (''payment_status'', PStr (payment_value (pr_status (acc_payment_request result)))),
        (''payment_request_id'', uuid_value (pr_id (acc_payment_request result)))]) (\<lambda>d.
     ret (public_answer (PDict d) (Some (session_cookie (cred_session_token (acc_receipt result))))))))))"

section \<open>The calls of the entry interface\<close>

datatype entry_call =
    PostOnboarding pyval
  | GetOperationsHealth
  | GmailCallback string "string option" "string option"
  | GmailPush pyval "string option"
  | RazorpayPush string "string option" "string option"
  | ExchangeCapability pyval
  | ClientReview uuid
  | ClientReceipt uuid
  | RefreshSession
  | ClientRequestChanges uuid pyval
  | ClientReject uuid pyval
  | ClientAccept uuid pyval

record entry_headers =
  eh_authorization :: "string option"
  eh_request_id :: "string option"
  eh_idempotency_key :: "string option"
  eh_csrf :: "string option"
  eh_cookie :: "string option"

definition plain_answer :: "pyval act \<Rightarrow> answer act" where
  "plain_answer m = bindE m (\<lambda>v. ret (body_answer v))"

primrec enter :: "token_library \<Rightarrow> auth_settings \<Rightarrow> deployment \<Rightarrow> entry_headers \<Rightarrow> entry_call \<Rightarrow> answer act" where
  "enter L C D h (PostOnboarding body) =
     bindE (of_result (get_verified_principal L C (eh_authorization h))) (\<lambda>principal.
     plain_answer (onboarding D principal (eh_idempotency_key h) body))"
| "enter L C D h GetOperationsHealth = plain_answer (operation_health D)"
| "enter L C D h (GmailCallback state code error) = plain_answer (gmail_callback_route D state code error)"
| "enter L C D h (GmailPush body topic) = plain_answer (gmail_push_webhook D body topic)"
| "enter L C D h (RazorpayPush raw signature event) = plain_answer (razorpay_webhook D raw signature event)"
| "enter L C D h (ExchangeCapability body) = exchange_capability_route D body"
| "enter L C D h (ClientReview i) = client_review_route D i (eh_cookie h)"
| "enter L C D h (ClientReceipt i) = client_receipt_route D i (eh_cookie h)"
| "enter L C D h RefreshSession = refresh_client_session_route D (eh_cookie h)"
| "enter L C D h (ClientRequestChanges i body) = client_request_changes_route D i body (eh_csrf h) (eh_cookie h)"
| "enter L C D h (ClientReject i body) = client_reject_route D i body (eh_csrf h) (eh_cookie h)"
| "enter L C D h (ClientAccept i body) = client_accept_route D (eh_idempotency_key h) i body (eh_csrf h) (eh_cookie h)"

fun entry_status :: "entry_call \<Rightarrow> nat" where
  "entry_status (PostOnboarding _) = 201"
| "entry_status (GmailPush _ _) = 202"
| "entry_status _ = 200"

definition entry_reply ::
  "token_library \<Rightarrow> auth_settings \<Rightarrow> deployment \<Rightarrow> entry_headers \<Rightarrow> entry_call \<Rightarrow> db \<Rightarrow> reply \<times> db" where
  "entry_reply L C D h call = serve (eh_request_id h) (entry_status call) (enter L C D h call)"

end
