(* ===== verification/Interface_Safety.thy ===== *)
theory Interface_Safety
  imports Entry_Routes Mailbox_Safety
begin

text \<open>
  What the HTTP interface guarantees beyond the services behind it. A calculus of observing programs
  (\<open>observes\<close>): programs that leave the state as it is and whose result is the same on two states an
  observer cannot tell apart. It gives the confinement of the reading calls to the rows of their tenant.
  Then the effect of a request key on the routes, and the replies of requests that are refused.
\<close>

section \<open>Observing programs\<close>

text \<open>\<open>E\<close> relates the states an observer cannot tell apart; \<open>P\<close> is what is known of the first of them.\<close>

definition observes :: "('s \<Rightarrow> 's \<Rightarrow> bool) \<Rightarrow> ('s \<Rightarrow> bool) \<Rightarrow> ('s, 'e, 'a) prog \<Rightarrow> bool" where
  "observes E P m \<longleftrightarrow> (\<forall>s v. E s v \<longrightarrow> P s \<longrightarrow> m v = (fst (m s), v) \<and> snd (m s) = s)"

named_theorems observe_rules

lemma observesD: "observes E P m \<Longrightarrow> E s v \<Longrightarrow> P s \<Longrightarrow> m v = (fst (m s), v) \<and> m s = (fst (m s), s)"
  unfolding observes_def by (metis prod.collapse)

lemma observes_ret [observe_rules]: "observes E P (ret x)"
  and observes_raise [observe_rules]: "observes E P (raise e)"
  and observes_require [observe_rules]: "observes E P (require b e)"
  and observes_some_or [observe_rules]: "observes E P (some_or e found)"
  by (auto simp: observes_def require_def some_or_def split: option.split)

lemma observes_of_result [observe_rules]: "observes E P (of_result r)"
  by (cases r) (simp_all add: of_result_def observes_ret observes_raise)

lemma observes_gets: "(\<And>s v. E s v \<Longrightarrow> P s \<Longrightarrow> g v = g s) \<Longrightarrow> observes E P (gets g)"
  by (simp add: observes_def)

lemma observes_bind [observe_rules]:
  assumes m: "observes E P m" and f: "\<And>x. observes E (\<lambda>s. P s \<and> fst (m s) = Inr x) (f x)"
  shows "observes E P (bindE m f)"
  unfolding observes_def
proof (intro allI impI)
  fix s v assume sv: "E s v" "P s"
  obtain r where run: "m s = (r, s)" "m v = (r, v)" using observesD [OF m sv] by blast
  show "bindE m f v = (fst (bindE m f s), v) \<and> snd (bindE m f s) = s"
  proof (cases r)
    case (Inl e) then show ?thesis using run by (simp add: run_bindE)
  next
    case (Inr x)
    from observesD [OF f sv(1), of x] sv(2) run Inr have "f x v = (fst (f x s), v)" "snd (f x s) = s" by (simp, metis fst_conv snd_conv)
    then show ?thesis using run Inr by (simp add: run_bindE)
  qed
qed

lemma observes_weaken: "observes E Q m \<Longrightarrow> (\<And>s. P s \<Longrightarrow> Q s) \<Longrightarrow> observes E P m"
  by (simp add: observes_def)

lemma observes_any: "observes E (\<lambda>_. True) m \<Longrightarrow> observes E P m"
  by (erule observes_weaken) simp

lemma observes_if [observe_rules]: "observes E P m \<Longrightarrow> observes E P n \<Longrightarrow> observes E P (if b then m else n)"
  by simp

lemma observes_option [observe_rules]:
  "(x = None \<Longrightarrow> observes E P m) \<Longrightarrow> (\<And>y. x = Some y \<Longrightarrow> observes E P (f y)) \<Longrightarrow> observes E P (case x of None \<Rightarrow> m | Some y \<Rightarrow> f y)"
  by (cases x) auto

lemma observes_prod [observe_rules]: "(\<And>a b. x = (a, b) \<Longrightarrow> observes E P (f a b)) \<Longrightarrow> observes E P (case x of (a, b) \<Rightarrow> f a b)"
  by (cases x) auto

lemma observes_sum [observe_rules]:
  "(\<And>a. x = Inl a \<Longrightarrow> observes E P (f a)) \<Longrightarrow> (\<And>b. x = Inr b \<Longrightarrow> observes E P (g b)) \<Longrightarrow> observes E P (case x of Inl a \<Rightarrow> f a | Inr b \<Rightarrow> g b)"
  by (cases x) auto

lemma observes_mapE [observe_rules]: "(\<And>x. observes E (\<lambda>_. True) (f x)) \<Longrightarrow> observes E P (mapE f xs)"
proof (induction xs arbitrary: P)
  case (Cons x xs)
  show ?case unfolding mapE.simps
    by (intro observes_bind [OF observes_any [OF Cons.prems]] observes_bind [OF Cons.IH [OF Cons.prems]] observes_ret)
qed (simp add: observes_ret)

section \<open>The rows of a tenant\<close>

text \<open>
  A row belongs to a tenant when it names the tenant; the rows that are looked up by the row they hang on
  (the drafts of a decision, the links of a scope version to its items, the captures of a payment link,
  the synchronisation of a mailbox) belong to the tenant of that row.
\<close>

definition hangs_on :: "('p \<Rightarrow> uuid) \<Rightarrow> ('p \<Rightarrow> uuid) \<Rightarrow> uuid \<Rightarrow> 'p list \<Rightarrow> uuid option \<Rightarrow> bool" where
  "hangs_on pid owner T parents i = list_ex (\<lambda>p. i = Some (pid p) \<and> owner p = T) parents"

definition tenant_view :: "uuid \<Rightarrow> db \<Rightarrow> db" where
  "tenant_view T s = empty_db\<lparr>clock := clock s,
     users := filter (\<lambda>r. usr_id r = T) (users s),
     preference_versions := filter (\<lambda>r. pref_tenant_id r = T) (preference_versions s),
     clients := filter (\<lambda>r. cli_tenant_id r = T) (clients s),
     client_contacts := filter (\<lambda>r. contact_tenant_id r = T) (client_contacts s),
     projects := filter (\<lambda>r. proj_tenant_id r = T) (projects s),
     jobs := filter (\<lambda>r. job_tenant_id r = T) (jobs s),
     scope_versions := filter (\<lambda>r. sv_tenant_id r = T) (scope_versions s),
     scope_version_items := filter (\<lambda>r. hangs_on sv_id sv_tenant_id T (scope_versions s) (Some (svi_scope_version_id r))) (scope_version_items s),
     scope_items := filter (\<lambda>r. sitem_tenant_id r = T) (scope_items s),
     scope_candidates := filter (\<lambda>r. cand_tenant_id r = T) (scope_candidates s),
     contract_documents := filter (\<lambda>r. cdoc_tenant_id r = T) (contract_documents s),
     routing_decisions := filter (\<lambda>r. rdec_tenant_id r = T) (routing_decisions s),
     request_records := filter (\<lambda>r. req_tenant_id r = T) (request_records s),
     analysis_decisions := filter (\<lambda>r. dec_tenant_id r = T) (analysis_decisions s),
     analysis_draft_revisions := filter (\<lambda>r. hangs_on dec_id dec_tenant_id T (analysis_decisions s) (Some (draft_decision_id r))) (analysis_draft_revisions s),
     evidence_references := filter (\<lambda>r. eref_tenant_id r = T) (evidence_references s),
     workflow_instances := filter (\<lambda>r. wf_tenant_id r = T) (workflow_instances s),
     agent_runs := filter (\<lambda>r. arun_tenant_id r = T) (agent_runs s),
     change_orders := filter (\<lambda>r. co_tenant_id r = T) (change_orders s),
     proposal_revisions := filter (\<lambda>r. rev_tenant_id r = T) (proposal_revisions s),
     payment_requests := filter (\<lambda>r. pr_tenant_id r = T) (payment_requests s),
     payment_link_attempts := filter (\<lambda>r. pl_tenant_id r = T) (payment_link_attempts s),
     payment_attempts := filter (\<lambda>r. hangs_on pl_id pl_tenant_id T (payment_link_attempts s) (pa_link_attempt_id r)) (payment_attempts s),
     integration_connections := filter (\<lambda>r. gconn_tenant_id r = T) (integration_connections s),
     mailbox_syncs := filter (\<lambda>r. hangs_on gconn_id gconn_tenant_id T (integration_connections s) (Some (msync_connection_id r))) (mailbox_syncs s)\<rparr>"

lemma tenant_view_rows:
  "clock (tenant_view T s) = clock s"
  "users (tenant_view T s) = filter (\<lambda>r. usr_id r = T) (users s)"
  "preference_versions (tenant_view T s) = filter (\<lambda>r. pref_tenant_id r = T) (preference_versions s)"
  "clients (tenant_view T s) = filter (\<lambda>r. cli_tenant_id r = T) (clients s)"
  "client_contacts (tenant_view T s) = filter (\<lambda>r. contact_tenant_id r = T) (client_contacts s)"
  "projects (tenant_view T s) = filter (\<lambda>r. proj_tenant_id r = T) (projects s)"
  "jobs (tenant_view T s) = filter (\<lambda>r. job_tenant_id r = T) (jobs s)"
  "scope_versions (tenant_view T s) = filter (\<lambda>r. sv_tenant_id r = T) (scope_versions s)"
  "scope_version_items (tenant_view T s) =
     filter (\<lambda>r. hangs_on sv_id sv_tenant_id T (scope_versions s) (Some (svi_scope_version_id r))) (scope_version_items s)"
  "scope_items (tenant_view T s) = filter (\<lambda>r. sitem_tenant_id r = T) (scope_items s)"
  "scope_candidates (tenant_view T s) = filter (\<lambda>r. cand_tenant_id r = T) (scope_candidates s)"
  "contract_documents (tenant_view T s) = filter (\<lambda>r. cdoc_tenant_id r = T) (contract_documents s)"
  "routing_decisions (tenant_view T s) = filter (\<lambda>r. rdec_tenant_id r = T) (routing_decisions s)"
  "request_records (tenant_view T s) = filter (\<lambda>r. req_tenant_id r = T) (request_records s)"
  by (simp_all add: tenant_view_def)

lemma tenant_view_more_rows:
  "analysis_decisions (tenant_view T s) = filter (\<lambda>r. dec_tenant_id r = T) (analysis_decisions s)"
  "analysis_draft_revisions (tenant_view T s) =
     filter (\<lambda>r. hangs_on dec_id dec_tenant_id T (analysis_decisions s) (Some (draft_decision_id r))) (analysis_draft_revisions s)"
  "evidence_references (tenant_view T s) = filter (\<lambda>r. eref_tenant_id r = T) (evidence_references s)"
  "workflow_instances (tenant_view T s) = filter (\<lambda>r. wf_tenant_id r = T) (workflow_instances s)"
  "agent_runs (tenant_view T s) = filter (\<lambda>r. arun_tenant_id r = T) (agent_runs s)"
  "change_orders (tenant_view T s) = filter (\<lambda>r. co_tenant_id r = T) (change_orders s)"
  "proposal_revisions (tenant_view T s) = filter (\<lambda>r. rev_tenant_id r = T) (proposal_revisions s)"
  "payment_requests (tenant_view T s) = filter (\<lambda>r. pr_tenant_id r = T) (payment_requests s)"
  "payment_link_attempts (tenant_view T s) = filter (\<lambda>r. pl_tenant_id r = T) (payment_link_attempts s)"
  "payment_attempts (tenant_view T s) =
     filter (\<lambda>r. hangs_on pl_id pl_tenant_id T (payment_link_attempts s) (pa_link_attempt_id r)) (payment_attempts s)"
  "integration_connections (tenant_view T s) = filter (\<lambda>r. gconn_tenant_id r = T) (integration_connections s)"
  "mailbox_syncs (tenant_view T s) =
     filter (\<lambda>r. hangs_on gconn_id gconn_tenant_id T (integration_connections s) (Some (msync_connection_id r))) (mailbox_syncs s)"
  by (simp_all add: tenant_view_def)

definition sees :: "uuid \<Rightarrow> db \<Rightarrow> db \<Rightarrow> bool" where
  "sees T s v \<longleftrightarrow> v = tenant_view T s \<and> distinct (map sv_id (scope_versions s))"

lemma find_filter: "find P (filter Q xs) = find (\<lambda>x. P x \<and> Q x) xs"
  by (induction xs) auto

lemma filtered_same:
  assumes "\<And>x. P x \<Longrightarrow> Q x"
  shows "find P (filter Q xs) = find P xs" and "filter P (filter Q xs) = filter P xs" and "list_ex P (filter Q xs) = list_ex P xs"
  using assms by (induction xs) auto

lemmas own_rows = sees_def tenant_view_rows tenant_view_more_rows find_filter conj_commute conj_left_commute conj_assoc

lemma row_by_filter:
  "distinct (map rid rows) \<Longrightarrow> row_by rid i (filter Q rows) =
     (case row_by rid i rows of None \<Rightarrow> None | Some r \<Rightarrow> if Q r then Some r else None)"
proof (induction rows)
  case (Cons r rows)
  have "row_by rid (rid r) rows = None" using Cons.prems by (auto simp: row_by_None_iff image_iff)
  then show ?case using Cons by auto
qed simp

lemma sees_row:
  assumes "sees T s v"
  shows "row_by sv_id i (scope_versions v) =
     (case row_by sv_id i (scope_versions s) of None \<Rightarrow> None | Some r \<Rightarrow> if sv_tenant_id r = T then Some r else None)"
  using assms row_by_filter [of sv_id "scope_versions s" i "\<lambda>r. sv_tenant_id r = T"] by (simp add: sees_def tenant_view_rows)

section \<open>What the reading operations see\<close>

lemma observes_reads [observe_rules]: "observes E P (reads D model d)"
  and observes_page_limit [observe_rules]: "observes E P (page_limit n)"
  and observes_short_query [observe_rules]: "observes E P (short_query k t)"
  and observes_presigned [observe_rules]: "observes E P (presigned_or_none url)"
  and observes_unprotect [observe_rules]: "observes E P (unprotect env envelope)"
  by (auto simp: reads_def page_limit_def short_query_def presigned_or_none_def unprotect_def intro!: observe_rules split: sum.split)

lemma observes_read_one [observe_rules]: "observes E P (read_one D model d)"
  unfolding read_one_def by (intro observe_rules)

lemma observes_read_all [observe_rules]: "observes E P (read_all D model ds)"
  unfolding read_all_def by (intro observe_rules)

text \<open>A lookup of an owned row by its identifier, and the reading of all owned rows.\<close>

lemma observes_owned [observe_rules]:
  "observes (sees (ctx_tenant_id ctx)) P (get_client ctx i)"
  "observes (sees (ctx_tenant_id ctx)) P (get_project ctx i)"
  "observes (sees (ctx_tenant_id ctx)) P (get_document ctx i)"
  "observes (sees (ctx_tenant_id ctx)) P (get_request ctx i)"
  "observes (sees (ctx_tenant_id ctx)) P (get_analysis_decision ctx i)"
  "observes (sees (ctx_tenant_id ctx)) P (get_workflow ctx i)"
  "observes (sees (ctx_tenant_id ctx)) P (find_order ctx i)"
  "observes (sees (ctx_tenant_id ctx)) P (find_payment ctx i)"
  unfolding get_client_def get_project_def get_document_def get_request_def get_analysis_decision_def get_workflow_def
    find_order_def find_payment_def owned_client_def owned_project_def own_document_def
  by (intro observe_rules observes_gets; simp add: own_rows)+

lemma observes_list_page [observe_rules]:
  "(\<And>s v. sees (ctx_tenant_id ctx) s v \<Longrightarrow> filter (\<lambda>r. owner r = ctx_tenant_id ctx) (tab v) = filter (\<lambda>r. owner r = ctx_tenant_id ctx) (tab s)) \<Longrightarrow>
   observes (sees (ctx_tenant_id ctx)) P (list_page tab owner key ctx limit cursor)"
  unfolding list_page_def by (intro observe_rules observes_gets) simp

lemma observes_lists [observe_rules]:
  "observes (sees (ctx_tenant_id ctx)) P (list_clients ctx limit cursor)"
  "observes (sees (ctx_tenant_id ctx)) P (list_projects ctx limit cursor)"
  "observes (sees (ctx_tenant_id ctx)) P (list_jobs ctx state limit)"
  "observes (sees (ctx_tenant_id ctx)) P (list_routing_decisions ctx)"
  "observes (sees (ctx_tenant_id ctx)) P (read_preference ctx)"
  unfolding list_clients_def list_projects_def list_jobs_def list_routing_decisions_def read_preference_def current_preference_def
  by (intro observe_rules observes_gets; simp add: own_rows)+

lemma observes_owned_lists [observe_rules]:
  "observes (sees (ctx_tenant_id ctx)) P (list_contacts ctx i)"
  "observes (sees (ctx_tenant_id ctx)) P (list_documents ctx i)"
  "observes (sees (ctx_tenant_id ctx)) P (list_candidates ctx i)"
  "observes (sees (ctx_tenant_id ctx)) P (check_project ctx p)"
  "observes (sees (ctx_tenant_id ctx)) P (list_analysis_decisions ctx status p n)"
  "observes (sees (ctx_tenant_id ctx)) P (get_decision_evidence ctx i)"
  "observes (sees (ctx_tenant_id ctx)) P (get_workflow_trace ctx i)"
  unfolding list_contacts_def list_documents_def list_candidates_def check_project_def list_analysis_decisions_def
    get_decision_evidence_def get_workflow_trace_def
  by (intro observe_rules observes_gets; simp add: own_rows)+


lemma hangs_on_member: "p \<in> set parents \<Longrightarrow> owner p = T \<Longrightarrow> hangs_on pid owner T parents (Some (pid p))"
  by (auto simp: hangs_on_def list_ex_iff)

lemma found_owned: "get_analysis_decision ctx i s = (Inr d, t) \<Longrightarrow> d \<in> set (analysis_decisions s) \<and> dec_tenant_id d = ctx_tenant_id ctx"
  by (auto simp: get_analysis_decision_def some_or_def split: option.splits dest: find_SomeD)

lemma observes_decision [observe_rules]: "observes (sees (ctx_tenant_id ctx)) P (analysis_decision_route D ctx i)"
  unfolding analysis_decision_route_def
proof (intro observe_rules observes_gets)
  fix d s v assume sv: "sees (ctx_tenant_id ctx) s v" and d: "P s \<and> fst (get_analysis_decision ctx i s) = Inr d"
  from d have "get_analysis_decision ctx i s = (Inr d, snd (get_analysis_decision ctx i s))" by (metis prod.collapse)
  then have "hangs_on dec_id dec_tenant_id (ctx_tenant_id ctx) (analysis_decisions s) (Some (dec_id d))"
    using hangs_on_member [where pid = dec_id] found_owned by metis
  then show "find (\<lambda>r. draft_decision_id r = dec_id d \<and> draft_status r = CURRENT) (analysis_draft_revisions v) =
      find (\<lambda>r. draft_decision_id r = dec_id d \<and> draft_status r = CURRENT) (analysis_draft_revisions s)"
    using sv by (simp add: sees_def tenant_view_more_rows) (rule filtered_same, simp)
qed

text \<open>A row that is looked up by its identifier first and checked afterwards.\<close>

lemma checked_lookup:
  "bindE (gets g) (\<lambda>found. bindE (some_or e found) (\<lambda>r. bindE (require (Q r) e) (\<lambda>_. ret r))) =
   bindE (gets (\<lambda>s. case g s of None \<Rightarrow> None | Some r \<Rightarrow> if Q r then Some r else None)) (some_or e)"
  by (rule ext) (simp add: run_bind_some_or run_bind_require some_or_def split: option.split)

lemma observes_scope [observe_rules]: "observes (sees (ctx_tenant_id ctx)) P (project_scope D ctx project)"
  unfolding project_scope_def scope_read_def read_confirmed_scope_def checked_lookup bindE_assoc
proof (intro observe_rules observes_gets, goal_cases)
  case (1 p i s v)
  then show ?case using sees_row [OF 1(1)] by (simp split: option.split)
next
  case (2 p i found version s v)
  have "version \<in> set (scope_versions s)" "sv_tenant_id version = ctx_tenant_id ctx"
    using 2(2) by (auto simp: some_or_def split: option.splits if_splits dest: row_by_SomeD)
  then have "hangs_on sv_id sv_tenant_id (ctx_tenant_id ctx) (scope_versions s) (Some (sv_id version))" by (simp add: hangs_on_member)
  then have "list_ex (\<lambda>l. svi_scope_item_id l = i \<and> svi_scope_version_id l = sv_id version) (scope_version_items v) =
      list_ex (\<lambda>l. svi_scope_item_id l = i \<and> svi_scope_version_id l = sv_id version) (scope_version_items s)" for i
    using 2(1) by (simp add: sees_def tenant_view_rows) (rule filtered_same, simp)
  then show ?case using 2(1) by (simp add: items_of_version_def) (simp add: own_rows)
qed

lemma observes_connections [observe_rules]: "observes (sees (ctx_tenant_id ctx)) P (gmail_connections_route D ctx)"
  unfolding gmail_connections_route_def read_gmail_health_def the_time_def
proof (intro observe_rules observes_gets, goal_cases)
  case (1 s v) then show ?case by (simp add: own_rows)
next
  case (2 now s v)
  have "sync_of (gconn_id c) v = sync_of (gconn_id c) s"
    if "c \<in> set (integration_connections s)" "gconn_tenant_id c = ctx_tenant_id ctx" for c
  proof -
    have "hangs_on gconn_id gconn_tenant_id (ctx_tenant_id ctx) (integration_connections s) (Some (gconn_id c))"
      using that by (simp add: hangs_on_member)
    then show ?thesis using 2(1) by (simp add: sync_of_def sees_def tenant_view_more_rows) (rule filtered_same, simp)
  qed
  then have "health_of now v c = health_of now s c"
    if "c \<in> set (filter (\<lambda>c. gconn_tenant_id c = ctx_tenant_id ctx \<and> gconn_provider c = ''gmail'') (integration_connections s))" for c
    using that by (simp add: health_of_def)
  moreover have "filter (\<lambda>c. gconn_tenant_id c = ctx_tenant_id ctx \<and> gconn_provider c = ''gmail'') (integration_connections v) =
      filter (\<lambda>c. gconn_tenant_id c = ctx_tenant_id ctx \<and> gconn_provider c = ''gmail'') (integration_connections s)"
    using 2(1) by (simp add: own_rows)
  ultimately show ?case by (intro map_cong) simp_all
qed

lemma observes_order [observe_rules]: "observes (sees (ctx_tenant_id ctx)) P (get_change_order_route D ctx i)"
  unfolding get_change_order_route_def read_change_order_def change_order_read_def materialize_client_approval_url_def review_url_def
proof (intro observe_rules observes_gets, goal_cases)
  case (1 order j s v)
  have "co_tenant_id order = ctx_tenant_id ctx" using 1(3) by (auto simp: find_order_def some_or_def split: option.splits dest: find_SomeD)
  then show ?case using 1(2) by (simp add: own_rows)
qed

lemma observes_payment [observe_rules]: "observes (sees (ctx_tenant_id ctx)) P (payment_requests_route D ctx i)"
  unfolding payment_requests_route_def read_payment_request_def active_link_def
proof (intro observe_rules observes_gets, goal_cases)
  case (1 p s v)
  have "pr_tenant_id p = ctx_tenant_id ctx" using 1(2) by (auto simp: find_payment_def some_or_def split: option.splits dest: find_SomeD)
  then show ?case using 1(1) by (simp add: own_rows links_of_def)
next
  case (2 p link s v)
  have p: "pr_tenant_id p = ctx_tenant_id ctx" using 2(2) by (auto simp: find_payment_def some_or_def split: option.splits dest: find_SomeD)
  show ?case
  proof (cases link)
    case (Some l)
    have "l \<in> set (payment_link_attempts s) \<and> pl_tenant_id l = ctx_tenant_id ctx"
      using 2(2) Some p by (auto simp: links_of_def dest!: top_by_SomeD)
    then have "hangs_on pl_id pl_tenant_id (ctx_tenant_id ctx) (payment_link_attempts s) (Some (pl_id l))" by (simp add: hangs_on_member)
    then have "filter (\<lambda>a. pa_link_attempt_id a = Some (pl_id l) \<and> pa_captured a) (payment_attempts v) =
        filter (\<lambda>a. pa_link_attempt_id a = Some (pl_id l) \<and> pa_captured a) (payment_attempts s)"
      using 2(1) by (simp add: sees_def tenant_view_more_rows del: filter_filter) (rule filtered_same, simp)
    then show ?thesis using Some by (simp del: filter_filter)
  qed simp
qed

lemma observes_me [observe_rules]: "observes (sees (ctx_tenant_id ctx)) P (me D ctx)"
  unfolding me_def row_of_def by (intro observe_rules observes_gets; simp add: own_rows row_by_def)

text \<open>The simple routes are sequences of observing operations.\<close>

lemmas simple_reading_routes = preferences_def clients_route_def client_route_def contacts_route_def projects_route_def
  project_route_def operation_jobs_def contract_document_route_def download_contract_document_def project_documents_def
  document_candidates_def routing_decisions_route_def get_request_route_def analysis_decisions_route_def
  analysis_decision_evidence_def analysis_workflow_trace_def integrations_health_route_def

lemma observes_simple [observe_rules]:
  "observes (sees (ctx_tenant_id ctx)) P (preferences D ctx)"
  "observes (sees (ctx_tenant_id ctx)) P (clients_route D ctx limit cursor)"
  "observes (sees (ctx_tenant_id ctx)) P (client_route D ctx i)"
  "observes (sees (ctx_tenant_id ctx)) P (contacts_route D ctx i)"
  "observes (sees (ctx_tenant_id ctx)) P (projects_route D ctx limit cursor)"
  "observes (sees (ctx_tenant_id ctx)) P (project_route D ctx i)"
  "observes (sees (ctx_tenant_id ctx)) P (operation_jobs D ctx state limit)"
  "observes (sees (ctx_tenant_id ctx)) P (contract_document_route D ctx i)"
  "observes (sees (ctx_tenant_id ctx)) P (download_contract_document D ctx i)"
  "observes (sees (ctx_tenant_id ctx)) P (project_documents D ctx i)"
  "observes (sees (ctx_tenant_id ctx)) P (document_candidates D ctx i)"
  "observes (sees (ctx_tenant_id ctx)) P (routing_decisions_route D ctx)"
  "observes (sees (ctx_tenant_id ctx)) P (get_request_route D ctx i)"
  "observes (sees (ctx_tenant_id ctx)) P (analysis_decisions_route D ctx status project limit)"
  "observes (sees (ctx_tenant_id ctx)) P (analysis_decision_evidence D ctx i)"
  "observes (sees (ctx_tenant_id ctx)) P (analysis_workflow_trace D ctx i)"
  "observes (sees (ctx_tenant_id ctx)) P (integrations_health_route D ctx)"
  unfolding simple_reading_routes by (intro observe_rules)+

lemma observes_operate:
  assumes "reading_call call"
  shows "observes (sees (ctx_tenant_id ctx)) (\<lambda>_. True) (operate D ctx key call)"
proof (cases call)
  case (AccountCall c) then show ?thesis using assms by (cases c) (simp_all add: reading_call_def observe_rules)
next
  case (WorkCall c) then show ?thesis using assms by (cases c) (simp_all add: reading_call_def observe_rules)
next
  case (ContractCall c) then show ?thesis using assms by (cases c) (simp_all add: reading_call_def observe_rules)
next
  case (RequestCall c) then show ?thesis using assms by (cases c) (simp_all add: reading_call_def observe_rules)
next
  case (OfferCall c) then show ?thesis using assms by (cases c) (simp_all add: reading_call_def observe_rules)
next
  case (PaymentCall c) then show ?thesis using assms by (cases c) (simp_all add: reading_call_def observe_rules)
qed

text \<open>C30: A tenant's reading calls are confined to the tenant's own rows. On two databases that hold the same
rows of the caller's tenant, whatever they hold of others, every GET call of the operator interface gives
the same answer or the same error, and it changes neither database.\<close>

theorem reading_calls_confined:
  assumes "reading_call call" and "tenant_view (ctx_tenant_id ctx) s = tenant_view (ctx_tenant_id ctx) t"
    and "distinct (map sv_id (scope_versions s))" and "distinct (map sv_id (scope_versions t))"
  shows "fst (operate D ctx key call s) = fst (operate D ctx key call t) \<and>
    snd (operate D ctx key call s) = s \<and> snd (operate D ctx key call t) = t"
proof -
  let ?T = "ctx_tenant_id ctx" and ?m = "operate D ctx key call"
  have "?m (tenant_view ?T r) = (fst (?m r), tenant_view ?T r) \<and> snd (?m r) = r" if "distinct (map sv_id (scope_versions r))" for r
    using observesD [OF observes_operate [OF assms(1)], of ctx r "tenant_view ?T r" D key] that by (simp add: sees_def) (metis snd_conv)
  from this [OF assms(3)] this [OF assms(4)] assms(2) show ?thesis by (metis fst_conv)
qed


section \<open>Request keys\<close>

text \<open>
  A dictionary a model reads as itself: its fields in the order of the model, each a value its type keeps.
\<close>

definition as_read :: "formats \<Rightarrow> schema \<Rightarrow> (string \<times> pyval) list \<Rightarrow> bool" where
  "as_read M model x \<longleftrightarrow> model_validate M model x = Inr x"

interpretation route_model: response_model "\<lambda>d. d" "model_validate M model" "as_read M model" for M model
  by unfold_locales (simp add: as_read_def)

lemma those_pairs:
  "those (map (\<lambda>f. map_option (Pair (fst f)) (g f)) cols) = Some x \<longleftrightarrow>
   map fst x = map fst cols \<and> list_all2 (\<lambda>f kv. g f = Some (snd kv)) cols x"
  by (induction cols arbitrary: x) (auto split: option.splits simp: list_all2_Cons1 Cons_eq_map_conv)

lemma as_read_fields:
  assumes "distinct (map fst cols)"
  shows "as_read M cols x \<longleftrightarrow>
    map fst x = map fst cols \<and> list_all2 (\<lambda>f kv. field_value M (fst (snd f)) (snd kv) = Some (snd kv)) cols x"
    (is "_ \<longleftrightarrow> ?names \<and> ?fields")
proof -
  have lookup: "list_all2 (\<lambda>f kv. map_of x (fst f) = Some (snd kv)) cols x" if ?names
    using that assms by (auto simp: list_all2_conv_all_nth intro!: map_of_is_SomeI simp del: nth_map)
      (metis length_map nth_map, metis length_map nth_map nth_mem prod.collapse)
  have "as_read M cols x \<longleftrightarrow> ?names \<and>
      list_all2 (\<lambda>f kv. (case map_of x (fst f) of Some w \<Rightarrow> field_value M (fst (snd f)) w | None \<Rightarrow> snd (snd f)) = Some (snd kv)) cols x"
    by (auto simp: as_read_def model_validate_Inr those_pairs simp del: set_map)
  also have "\<dots> \<longleftrightarrow> ?names \<and> ?fields"
    using lookup by (auto simp: list_all2_conv_all_nth)
  finally show ?thesis .
qed


lemma as_read_with_field:
  assumes "distinct (map fst cols)" and "as_read M cols x" and "(name, t, d) \<in> set cols" and "field_value M t v = Some v"
  shows "as_read M cols (with_field name v x)"
proof -
  have t: "u = t" if "(name, u, e) \<in> set cols" for u e using assms(1,3) that by (auto dest: eq_key_imp_eq_value)
  have "map fst (with_field name v x) = map fst x" by (simp add: with_field_def comp_def)
  moreover have "list_all2 (\<lambda>f kv. field_value M (fst (snd f)) (snd kv) = Some (snd kv)) cols (with_field name v x)"
    if x: "map fst x = map fst cols" "list_all2 (\<lambda>f kv. field_value M (fst (snd f)) (snd kv) = Some (snd kv)) cols x"
    unfolding with_field_def list_all2_map2
  proof (rule list_all2_all_nthI)
    show "length cols = length x" using x(2) by (rule list_all2_lengthD)
    fix i assume i: "i < length cols"
    obtain n u e where f: "cols ! i = (n, u, e)" by (cases "cols ! i") auto
    have "fst (x ! i) = n" using i f x(1) by (metis fst_conv length_map nth_map)
    moreover have "n = name \<Longrightarrow> u = t" using t i f by (metis nth_mem)
    ultimately show "field_value M (fst (snd (cols ! i))) (snd (if fst (x ! i) = name then (name, v) else x ! i)) =
        Some (snd (if fst (x ! i) = name then (name, v) else x ! i))"
      using list_all2_nthD [OF x(2) i] f assms(4) by simp
  qed
  ultimately show ?thesis using assms(2) unfolding as_read_fields [OF assms(1)] by simp
qed

text \<open>The answers of an operation that reads rows are as their model reads them.\<close>

definition answers :: "deployment \<Rightarrow> schema \<Rightarrow> ((string \<times> pyval) list) act \<Rightarrow> bool" where
  "answers D model m \<longleftrightarrow> (\<forall>s x t. m s = (Inr x, t) \<longrightarrow> as_read (dp_formats D) model x)"

named_theorems answer_rules

lemma answers_reads [answer_rules]:
  assumes "email_stable (dp_formats D)" and "stable (dp_formats D) (FModel model)"
  shows "answers D model (reads D model d)"
  using model_validate_again [OF assms] by (auto simp: answers_def reads_def of_result_def as_read_def split: sum.splits)

lemma answers_bind [answer_rules]: "(\<And>x. answers D model (f x)) \<Longrightarrow> answers D model (bindE m f)"
  by (auto simp: answers_def elim!: bindE_InrE)

lemma answers_prod [answer_rules]: "(\<And>a b. answers D model (f a b)) \<Longrightarrow> answers D model (case x of (a, b) \<Rightarrow> f a b)"
  by (cases x) simp

lemma answered_as_read:
  assumes op: "answers D model operation" and emails: "email_stable (dp_formats D)" and model: "stable (dp_formats D) (FModel model)"
    and first: "execute_idempotent (dp_env D) (\<lambda>d. d) (model_validate (dp_formats D) model) ctx route key request operation who rivals s = (Inr x, s1)"
  shows "as_read (dp_formats D) model x"
proof -
  let ?validate = "model_validate (dp_formats D) model"
  have stored: "as_read (dp_formats D) model x" if "stored_answer ?validate digest r t = (Inr x, u)" for digest r t u
    using route_model.stored_answer_recorded [OF that] model_validate_again [OF emails model] by (auto simp: as_read_def)
  from first obtain digest where
    run: "answer_once (\<lambda>d. d) ?validate (scope_of ctx who) route key digest operation rivals s = (Inr x, s1)"
    by (rule route_model.execute_request)
  show ?thesis
  proof (cases "idempotency_for (scope_of ctx who) route key s")
    case (Some r) then show ?thesis using run stored by (simp add: answer_once_def)
  next
    case None
    then show ?thesis using run op
      by (auto simp: answer_once_def run_catchE execute_and_record_def answers_def answer_after_conflict_def
          elim!: bindE_InrE split: prod.splits sum.splits if_splits option.splits dest: stored) blast
  qed
qed

lemma keyed_again:
  assumes op: "answers D model operation" and emails: "email_stable (dp_formats D)" and model: "stable (dp_formats D) (FModel model)"
    and run: "keyed D ctx header model route request operation s = (Inr v, s1)"
    and later: "table_evolves idem_id (=) (api_idempotency_rows s1) (api_idempotency_rows s2)"
  shows "keyed D ctx header model route request operation' s2 = (Inr v, s2)"
proof -
  let ?validate = "model_validate (dp_formats D) model"
  from run obtain key x where key: "key_header header s = (Inr key, s)" and v: "v = PDict x"
    and first: "execute_idempotent (dp_env D) (\<lambda>d. d) ?validate ctx route key request operation None (dp_rivals D) s = (Inr x, s1)"
    by (auto simp: keyed_def key_header_def some_or_def require_def elim!: bindE_InrE split: option.splits if_splits)
  have "as_read (dp_formats D) model x" by (rule answered_as_read [OF op emails model first])
  moreover obtain digest where "canonical_sha256 (sha256 (dp_env D)) (PDict request) = Inr digest"
    using first by (rule route_model.execute_request)
  moreover have "key_header header s2 = (Inr key, s2)" using key
    by (auto simp: key_header_def some_or_def require_def run_bindE split: option.splits if_splits)
  ultimately show ?thesis using route_model.replay [OF first _ later, where payload' = request and digest' = digest] v
    by (auto simp: keyed_def run_bindE)
qed


lemma models_stable:
  "stable M (FModel PREFERENCE_READ)" "stable M (FModel CLIENT_READ)" "stable M (FModel CONTACT_READ)"
  "stable M (FModel PROJECT_READ)" "stable M (FModel JOB_READ)" "stable M (FModel ACTION_READ)"
  "stable M (FModel UPLOAD_GRANT_READ)" "stable M (FModel SCOPE_CANDIDATE_READ)" "stable M (FModel SCOPE_READ)"
  "stable M (FModel ROUTING_RESULT_READ)" "stable M (FModel REQUEST_READ)" "stable M (FModel PAYMENT_REQUEST_READ)"
  "stable M (FModel PROPOSAL_REVISION_READ)" "stable M (FModel CHANGE_ORDER_READ)" "stable M (FModel STRUCTURE_EXTRACTION_READ)"
  by (simp_all add: STRUCTURE_EXTRACTION_READ_def DOCUMENT_CANDIDATE_READ_def PREFERENCE_READ_def CLIENT_READ_def CONTACT_READ_def PROJECT_READ_def JOB_READ_def ACTION_READ_def
      UPLOAD_GRANT_READ_def SCOPE_CANDIDATE_READ_def SCOPE_READ_def SCOPE_ITEM_READ_def ROUTING_RESULT_READ_def REQUEST_READ_def
      PAYMENT_REQUEST_READ_def PROPOSAL_REVISION_READ_def CHANGE_ORDER_READ_def size_between_def between_def)

text \<open>A program that, once it has answered, answers the same for ever and changes nothing.\<close>

definition answers_for_ever :: "'a act \<Rightarrow> bool" where
  "answers_for_ever m \<longleftrightarrow> (\<forall>s v s1 s2. m s = (Inr v, s1) \<longrightarrow>
     table_evolves idem_id (=) (api_idempotency_rows s1) (api_idempotency_rows s2) \<longrightarrow> m s2 = (Inr v, s2))"

lemma keyed_for_ever [answer_rules]:
  "answers D model operation \<Longrightarrow> email_stable (dp_formats D) \<Longrightarrow> stable (dp_formats D) (FModel model) \<Longrightarrow>
   answers_for_ever (keyed D ctx header model route request operation)"
  unfolding answers_for_ever_def using keyed_again by blast

lemma body_for_ever [answer_rules]:
  "(\<And>request. answers_for_ever (f request)) \<Longrightarrow> answers_for_ever (bindE (body_of D model body) f)"
  by (auto simp: answers_for_ever_def body_of_def run_bindE split: option.splits sum.splits)

lemma require_for_ever [answer_rules]: "answers_for_ever (f ()) \<Longrightarrow> answers_for_ever (bindE (require b e) f)"
  by (cases b) (auto simp: answers_for_ever_def)


lemma answers_with_field:
  assumes emails: "email_stable (dp_formats D)" and model: "stable (dp_formats D) (FModel cols)"
    and f: "(name, t, d) \<in> set cols" "field_value (dp_formats D) t v = Some v" and x: "as_read (dp_formats D) cols x"
  shows "as_read (dp_formats D) cols (with_field name v x)"
  using as_read_with_field [OF _ x f] model by simp

lemma read_as_read:
  assumes "email_stable (dp_formats D)" and "stable (dp_formats D) (FModel model)" and "reads D model d s = (Inr x, t)"
  shows "as_read (dp_formats D) model x"
  using answers_reads [OF assms(1,2)] assms(3) unfolding answers_def by blast

lemma answers_order [answer_rules]:
  assumes emails: "email_stable (dp_formats D)"
  shows "answers D CHANGE_ORDER_READ (change_order_read D order)"
  unfolding answers_def
proof (intro allI impI)
  fix s x t assume run: "change_order_read D order s = (Inr x, t)"
  let ?M = "dp_formats D"
  have fields: "(''revision'', FOptional (FModel PROPOSAL_REVISION_READ), Some PNone) \<in> set CHANGE_ORDER_READ"
    "(''approval_url'', FText 0 None, None) \<in> set PROPOSAL_REVISION_READ"
    by (simp_all add: CHANGE_ORDER_READ_def PROPOSAL_REVISION_READ_def)
  note read = read_as_read [OF emails models_stable(14)] and revision_read = read_as_read [OF emails models_stable(13)]
  note put = answers_with_field [OF emails models_stable(14) fields(1)] and put_url = answers_with_field [OF emails models_stable(13) fields(2)]
  from run consider d u w where "reads D CHANGE_ORDER_READ (order_fields order) u = (Inr d, w)" "x = with_field ''revision'' PNone d"
    | r rv url d u w u' w' where "reads D PROPOSAL_REVISION_READ (revision_fields r) u = (Inr rv, w)"
        "reads D CHANGE_ORDER_READ (order_fields order) u' = (Inr d, w')"
        "x = with_field ''revision'' (PDict (with_field ''approval_url'' (PStr url) rv)) d"
    by (auto simp: change_order_read_def elim!: bindE_InrE split: option.splits)
  then show "as_read ?M CHANGE_ORDER_READ x"
  proof cases
    case 1 then show ?thesis using put [of PNone] read by (simp del: field_value.simps add: field_value.simps(17))
  next
    case 2
    have "as_read ?M PROPOSAL_REVISION_READ (with_field ''approval_url'' (PStr url) rv)"
      by (rule put_url [OF _ revision_read [OF 2(1)]]) (simp add: size_between_def)
    then have "field_value ?M (FModel PROPOSAL_REVISION_READ) (PDict (with_field ''approval_url'' (PStr url) rv)) =
        Some (PDict (with_field ''approval_url'' (PStr url) rv))" by (simp only: as_read_def model_validate_Inr)
    then show ?thesis unfolding 2(3)
      by (intro put read [OF 2(2)]) (simp only: field_value.simps(17) pyval.simps if_False)
  qed
qed

text \<open>
  The calls that run under a request key and look at nothing else before it. \<open>CompleteUpload\<close>, \<open>ExtractScope\<close> and
  \<open>AnalyzeRequest\<close> also run under a key, but read the database first; the mailbox calls take no key.
\<close>

definition keyed_call :: "operator_call \<Rightarrow> bool" where
  "keyed_call call = (case call of
     AccountCall (PatchPreferences _) \<Rightarrow> True | AccountCall (PostClient _) \<Rightarrow> True
   | AccountCall (PatchClient _ _) \<Rightarrow> True | AccountCall (PostContact _ _) \<Rightarrow> True
   | AccountCall (PostProject _) \<Rightarrow> True | AccountCall (PatchProject _ _) \<Rightarrow> True
   | AccountCall (DeleteProject _ _) \<Rightarrow> True | WorkCall (RetryJob _ _) \<Rightarrow> True
   | WorkCall (ResolveAction _ _) \<Rightarrow> True | ContractCall (PostDocument _ _) \<Rightarrow> True
   | ContractCall (PatchCandidate _ _) \<Rightarrow> True | ContractCall (ConfirmScope _ _) \<Rightarrow> True
   | RequestCall (RouteEvent _) \<Rightarrow> True | RequestCall (AssignEvent _ _) \<Rightarrow> True
   | RequestCall (ReplayEvent _ _) \<Rightarrow> True | RequestCall (PostRequest _) \<Rightarrow> True
   | RequestCall (ClarifyRequest _ _) \<Rightarrow> True | RequestCall (MergeRequest _ _) \<Rightarrow> True
   | OfferCall (AssembleOrder _) \<Rightarrow> True | OfferCall (ReviseOrder _ _) \<Rightarrow> True
   | OfferCall (ApproveOrder _ _) \<Rightarrow> True | OfferCall (RejectOrder _ _) \<Rightarrow> True
   | OfferCall (WaiveOrder _ _) \<Rightarrow> True | OfferCall (WithdrawOrder _ _) \<Rightarrow> True
   | PaymentCall (CreateLink _) \<Rightarrow> True | PaymentCall (ReplaceLink _ _) \<Rightarrow> True
   | PaymentCall (ReconcilePayment _) \<Rightarrow> True | _ \<Rightarrow> False)"

lemmas keyed_routes = patch_preferences_def post_client_def patch_client_def post_contact_def post_project_def patch_project_def
  remove_project_def retry_operation_job_def resolve_operation_action_def post_contract_document_def patch_candidate_scope_def
  confirm_project_scope_def route_integration_event_def assign_integration_event_def replay_integration_event_def
  post_request_def clarify_request_route_def merge_request_route_def

lemmas keyed_offer_routes = assemble_change_order_route_def create_change_order_revision_route_def approve_change_order_route_def
  reject_change_order_route_def waive_change_order_route_def withdraw_change_order_route_def
  create_payment_link_route_def replace_payment_link_route_def reconcile_payment_route_def

lemma answers_scope [answer_rules]: "email_stable (dp_formats D) \<Longrightarrow> answers D SCOPE_READ (scope_read D ctx version)"
  unfolding scope_read_def by (intro answer_rules models_stable)

lemma answers_then_read [answer_rules]:
  "email_stable (dp_formats D) \<Longrightarrow> answers D CHANGE_ORDER_READ (then_read_order D ctx i command)"
  unfolding then_read_order_def by (intro answer_rules)

lemma operate_for_ever:
  assumes emails: "email_stable (dp_formats D)" and call: "keyed_call call"
  shows "answers_for_ever (operate D ctx key call)"
proof (cases call)
  case (AccountCall c) then show ?thesis using call
    by (cases c; simp add: keyed_call_def keyed_routes; intro answer_rules models_stable emails)
next
  case (WorkCall c) then show ?thesis using call
    by (cases c; simp add: keyed_call_def keyed_routes; intro answer_rules models_stable emails)
next
  case (ContractCall c) then show ?thesis using call
    by (cases c; simp add: keyed_call_def keyed_routes; intro answer_rules models_stable emails)
next
  case (RequestCall c) then show ?thesis using call
    by (cases c; simp add: keyed_call_def keyed_routes; intro answer_rules models_stable emails)
next
  case (OfferCall c) then show ?thesis using call
    by (cases c; simp add: keyed_call_def keyed_offer_routes; intro answer_rules models_stable emails)
next
  case (PaymentCall c) then show ?thesis using call
    by (cases c; simp add: keyed_call_def keyed_offer_routes; intro answer_rules models_stable emails)
qed


text \<open>
  A call gets as far as its key when nothing is read before it, or what is read is found: the document whose
  scope is extracted, the request that is analyzed. A completed upload does not get that far a second time,
  since its consumed grant is refused first.
\<close>

definition reaches_key :: "trusted_context \<Rightarrow> operator_call \<Rightarrow> db \<Rightarrow> bool" where
  "reaches_key ctx call s \<longleftrightarrow> keyed_call call \<or>
     (case call of
        ContractCall (ExtractScope i) \<Rightarrow> (case fst (get_document ctx i s) of Inl _ \<Rightarrow> False | Inr _ \<Rightarrow> True)
      | RequestCall (AnalyzeRequest i) \<Rightarrow> (case fst (get_request ctx i s) of Inl _ \<Rightarrow> False | Inr _ \<Rightarrow> True)
      | _ \<Rightarrow> False)"

lemma key_header_kept: "key_header header s = (Inr x, t) \<Longrightarrow> t = s \<and> key_header header u = (Inr x, u)"
  by (auto simp: key_header_def some_or_def require_def run_bindE split: option.splits if_splits)

lemma extraction_again:
  assumes emails: "email_stable (dp_formats D)" and run: "extract_document_scope D ctx key i s = (Inr v, s1)"
    and later: "table_evolves idem_id (=) (api_idempotency_rows s1) (api_idempotency_rows s2)"
    and found: "get_document ctx i s2 = (Inr d, s2)"
  shows "extract_document_scope D ctx key i s2 = (Inr v, s2)"
  using run unfolding extract_document_scope_def
proof (elim bindE_InrE, goal_cases)
  case (1 h t1 d0 t2 chunks t3 extraction t4)
  have header: "key_header key s2 = (Inr h, s2)" using key_header_kept [OF 1(1)] by blast
  have "keyed D ctx key STRUCTURE_EXTRACTION_READ (''POST /api/v1/documents/'' @ uuid_str i @ ''/extract-scope'') [] operation s2 = (Inr v, s2)"
    for operation
    by (rule keyed_again [OF _ emails models_stable(15) 1(5) later]) (intro answer_rules models_stable emails)
  then show ?case by (simp add: run_bindE header found)
qed

lemma analysis_again:
  assumes emails: "email_stable (dp_formats D)" and run: "analyze_request_route D ctx key i s = (Inr v, s1)"
    and later: "table_evolves idem_id (=) (api_idempotency_rows s1) (api_idempotency_rows s2)"
    and found: "get_request ctx i s2 = (Inr r, s2)"
  shows "analyze_request_route D ctx key i s2 = (Inr v, s2)"
  using run unfolding analyze_request_route_def
proof (elim bindE_InrE, goal_cases)
  case (1 h t1 r0 t2)
  have header: "key_header key s2 = (Inr h, s2)" using key_header_kept [OF 1(1)] by blast
  have "keyed D ctx key JOB_READ (''POST /api/v1/requests/'' @ uuid_str i @ ''/analyze'') [] operation s2 = (Inr v, s2)" for operation
    by (rule keyed_again [OF _ emails models_stable(5) 1(3) later]) (intro answer_rules models_stable emails)
  then show ?case by (simp add: run_bindE header found)
qed

lemma reads_found:
  "(case fst (get_document ctx i s) of Inl _ \<Rightarrow> False | Inr _ \<Rightarrow> True) \<Longrightarrow> \<exists>d. get_document ctx i s = (Inr d, s)"
  "(case fst (get_request ctx j s) of Inl _ \<Rightarrow> False | Inr _ \<Rightarrow> True) \<Longrightarrow> \<exists>r. get_request ctx j s = (Inr r, s)"
  by (auto simp: get_document_def get_request_def own_document_def some_or_def some_or_run run_bindE split: option.splits if_splits)

text \<open>C24: A request key makes a call take effect once. After a call was answered under a request key, the same
call under the same key is answered with the same body and changes nothing, whatever calls, workers and
other clients did in between, as long as recorded answers are kept and the call gets as far as its key:
always for the calls that read nothing first, for the extraction of a scope and the analysis of a request
while the document or the request is found, never for the completion of an upload. The library that
normalises e-mail addresses is taken to leave an address alone that it has normalised.\<close>

theorem answered_call_replayed:
  assumes "email_stable (dp_formats D)" and "operate D ctx key call s = (Inr v, s1)"
    and "table_evolves idem_id (=) (api_idempotency_rows s1) (api_idempotency_rows s2)" and "reaches_key ctx call s2"
  shows "operate D ctx key call s2 = (Inr v, s2)"
proof (cases "keyed_call call")
  case True
  from operate_for_ever [OF assms(1) this] assms(2,3) show ?thesis unfolding answers_for_ever_def by blast
next
  case False
  with assms(4) consider i d where "call = ContractCall (ExtractScope i)" "get_document ctx i s2 = (Inr d, s2)"
    | i r where "call = RequestCall (AnalyzeRequest i)" "get_request ctx i s2 = (Inr r, s2)"
    by (auto simp: reaches_key_def dest!: reads_found split: operator_call.splits contract_call.splits request_call.splits)
  then show ?thesis
    using assms(2) extraction_again [OF assms(1) _ assms(3)] analysis_again [OF assms(1) _ assms(3)] by cases auto
qed

section \<open>Accounts and replies\<close>

lemma request_uuid_run: "\<exists>u n. request_uuid header s = (Inr u, s\<lparr>next_uuid := n\<rparr>)"
  by (auto simp: request_uuid_def fresh_uuid_def split: option.split) (metis db.surjective db.update_convs(2))

lemma unverified_is_authentication_error:
  "get_verified_principal L C authorization = Inl e \<Longrightarrow> e = AuthenticationError"
  by (auto simp: get_verified_principal_def verify_token_def verify_dev_token_def accepted_claims_def principal_of_claims_def Let_def
      split: option.splits if_splits sum.splits pyval.splits)

definition error_status :: "exn \<Rightarrow> nat" where
  "error_status e = (case exn_status_code e of Some n \<Rightarrow> n | None \<Rightarrow> 500)"

lemma error_reply_status: "reply_status (error_reply u e) = error_status e"
  by (cases e) (simp_all add: error_reply_def error_status_def)

lemma rolled_back_again: "rolled_back s (rolled_back (s\<lparr>next_uuid := n\<rparr>) t) = rolled_back (s\<lparr>next_uuid := n\<rparr>) t"
  by (simp add: rolled_back_def)

text \<open>What becomes of a call once its context is known, or is not.\<close>

definition context_of :: "token_library \<Rightarrow> auth_settings \<Rightarrow> call_headers \<Rightarrow> db \<Rightarrow> user_account option" where
  "context_of L C h s =
     (case get_verified_principal L C (ch_authorization h) of Inl _ \<Rightarrow> None | Inr p \<Rightarrow> active_user (vp_subject p) s)"

lemma no_context:
  assumes "context_of L C h s = None"
  shows "get_current_context L C (ch_authorization h) rid (s\<lparr>next_uuid := n\<rparr>) = (Inl AuthenticationError, s\<lparr>next_uuid := n\<rparr>)"
proof (cases "get_verified_principal L C (ch_authorization h)")
  case (Inl e) then show ?thesis using unverified_is_authentication_error [OF Inl] by (simp add: get_current_context_def of_result_def)
next
  case (Inr p)
  with assms have "active_user (vp_subject p) (s\<lparr>next_uuid := n\<rparr>) = None" by (simp add: context_of_def active_user_def)
  then show ?thesis using Inr by (simp add: get_current_context_def of_result_def)
qed

lemma some_context:
  assumes "context_of L C h s = Some u"
  obtains ctx k where "ctx_tenant_id ctx = usr_id u" and "ctx_subject ctx = usr_cognito_sub u"
    and "get_current_context L C (ch_authorization h) rid (s\<lparr>next_uuid := n\<rparr>) = (Inr ctx, s\<lparr>next_uuid := k\<rparr>)"
proof -
  from assms obtain p where p: "get_verified_principal L C (ch_authorization h) = Inr p" and u: "active_user (vp_subject p) s = Some u"
    by (auto simp: context_of_def split: sum.splits)
  from u have subject: "usr_cognito_sub u = vp_subject p" by (auto simp: active_user_def dest: find_SomeD)
  obtain c k where c: "request_uuid rid (s\<lparr>next_uuid := n\<rparr>) = (Inr c, s\<lparr>next_uuid := n\<rparr>\<lparr>next_uuid := k\<rparr>)" using request_uuid_run by blast
  have "get_current_context L C (ch_authorization h) rid (s\<lparr>next_uuid := n\<rparr>) =
      (Inr \<lparr>ctx_tenant_id = usr_id u, ctx_subject = vp_subject p, ctx_email = usr_verified_email u,
         ctx_email_verified = True, ctx_correlation_id = c\<rparr>, s\<lparr>next_uuid := k\<rparr>)"
    using p u c by (simp add: get_current_context_def of_result_def active_user_def run_bindE)
  then show thesis using that subject by force
qed

text \<open>C31: The operator interface acts only for an active account. A call without a verified identity, or whose
subject has no active account, is answered 401. Otherwise the route runs for the tenant of that account;
its value is the body of the success reply, and an exception becomes its status, 500 where the domain gives
none. Every reply but the success reply leaves all tables as they were.\<close>

theorem call_runs_for_active_account:
  "case operator_reply L C D h call s of (r, t) \<Rightarrow>
     (case context_of L C h s of
        None \<Rightarrow> reply_status r = 401 \<and> rolled_back s t = t
      | Some u \<Rightarrow> usr_status u = USER_ACTIVE \<and> (\<exists>ctx s1. ctx_tenant_id ctx = usr_id u \<and> ctx_subject ctx = usr_cognito_sub u \<and> rolled_back s s1 = s1 \<and>
          (case operate D ctx (ch_idempotency_key h) call s1 of
             (Inr v, s2) \<Rightarrow> reply_status r = call_status call \<and> reply_body r = v \<and> t = s2
           | (Inl e, s2) \<Rightarrow> reply_status r = error_status e \<and> rolled_back s t = t)))"
proof -
  obtain i n where i: "request_uuid (ch_request_id h) s = (Inr i, s\<lparr>next_uuid := n\<rparr>)" using request_uuid_run by blast
  show ?thesis
  proof (cases "context_of L C h s")
    case None
    then show ?thesis using i no_context [OF None, of "ch_request_id h" n]
      by (simp add: operator_reply_def serve_def in_session_def run_bindE error_reply_status error_status_def rolled_back_again)
  next
    case (Some u)
    obtain ctx k where ctx: "ctx_tenant_id ctx = usr_id u" "ctx_subject ctx = usr_cognito_sub u"
      and run: "get_current_context L C (ch_authorization h) (ch_request_id h) (s\<lparr>next_uuid := n\<rparr>) = (Inr ctx, s\<lparr>next_uuid := k\<rparr>)"
      using some_context [OF Some] by metis
    obtain w s2 where w: "operate D ctx (ch_idempotency_key h) call (s\<lparr>next_uuid := k\<rparr>) = (w, s2)" by (metis surj_pair)
    have active: "usr_status u = USER_ACTIVE"
      using Some by (auto simp: context_of_def active_user_def dest: find_SomeD split: sum.splits)
    have kept: "rolled_back s (s\<lparr>next_uuid := k\<rparr>) = s\<lparr>next_uuid := k\<rparr>" by (simp add: rolled_back_def)
    show ?thesis
    proof (cases w)
      case (Inl e)
      then have "operator_reply L C D h call s = (error_reply i e, rolled_back (s\<lparr>next_uuid := n\<rparr>) s2)"
        using i run w by (simp add: operator_reply_def serve_def in_session_def run_bindE)
      then show ?thesis using Some active
        by simp (intro exI [of _ ctx] exI [of _ "s\<lparr>next_uuid := k\<rparr>"] conjI ctx kept, simp add: w Inl error_reply_status rolled_back_again)
    next
      case (Inr v)
      then have "operator_reply L C D h call s = (success_reply i (call_status call) (body_answer v), s2)"
        using i run w by (simp add: operator_reply_def serve_def in_session_def run_bindE)
      then show ?thesis using Some active
        by simp (intro exI [of _ ctx] exI [of _ "s\<lparr>next_uuid := k\<rparr>"] conjI ctx kept, simp add: w Inr success_reply_def body_answer_def)
    qed
  qed
qed


section \<open>Witnesses\<close>

definition demo_deployment :: deployment where
  "demo_deployment = \<lparr>dp_env = demo_env, dp_formats = \<lparr>fm_email = Some, fm_zone = (\<lambda>_. True)\<rparr>, dp_zones = (\<lambda>_. None),
     dp_store = \<lparr>os_bucket = None, os_url_expiry = 900, os_kms_key_arn = None, os_presign_post = (\<lambda>_ _ _ _ _. Inl BotoCoreError),
       os_presign_get = (\<lambda>_ _ _. Inl BotoCoreError), os_head = (\<lambda>_ _. Inl BotoCoreError), os_get = (\<lambda>_ _. Inl BotoCoreError)\<rparr>,
     dp_reader = \<lparr>utf8 = Some, utf8_replace = (\<lambda>t. t), zip_sizes = (\<lambda>_. None), zip_document = (\<lambda>_. None), docx_xml = (\<lambda>_. None)\<rparr>,
     dp_late = False, dp_gmail = demo_gmail, dp_payments = Inl ValueError,
     dp_razorpay = \<lparr>set_environment = ''test'', set_key_id = ''k'', set_key_secret = ''s'', set_account_id = ''a'', set_webhook_secret = ''w''\<rparr>,
     dp_hmac = (\<lambda>k t. k @ t), dp_bedrock_model_id = [], dp_bedrock_answer = (\<lambda>_. None), dp_loads = (\<lambda>_. Inl ValueError),
     dp_metrics = \<lparr>met_counters = [], met_gauges = []\<rparr>, dp_rivals = []\<rparr>"

text \<open>The demonstration clients without the client of another tenant.\<close>

definition own_clients :: db where
  "own_clients = demo_clients\<lparr>clients := [demo_client, demo_client\<lparr>cli_id := 31\<rparr>]\<rparr>"

theorem reading_calls_confined_witness:
  "length (clients own_clients) \<noteq> length (clients demo_clients) \<and>
   fst (operate demo_deployment owner_ctx None (AccountCall (GetClient 32)) demo_clients) = Inl NotFoundError \<and>
   fst (operate demo_deployment owner_ctx None (AccountCall (GetClient 32)) own_clients) = Inl NotFoundError"
proof -
  have "tenant_view (ctx_tenant_id owner_ctx) demo_clients = tenant_view (ctx_tenant_id owner_ctx) own_clients"
    by (simp add: tenant_view_def own_clients_def demo_account_rows)
  moreover have "scope_versions demo_clients = []" "scope_versions own_clients = []" by (simp_all add: own_clients_def demo_account_rows)
  moreover have "reading_call (AccountCall (GetClient 32))" by (simp add: reading_call_def)
  ultimately have "fst (operate demo_deployment owner_ctx None (AccountCall (GetClient 32)) demo_clients) =
      fst (operate demo_deployment owner_ctx None (AccountCall (GetClient 32)) own_clients)"
    using reading_calls_confined [of "AccountCall (GetClient 32)" owner_ctx demo_clients own_clients demo_deployment None] by simp
  moreover have "fst (operate demo_deployment owner_ctx None (AccountCall (GetClient 32)) own_clients) = Inl NotFoundError"
    by (simp add: client_route_def get_client_def owned_client_def own_clients_def demo_account_rows run_bindE)
  moreover have "length (clients own_clients) \<noteq> length (clients demo_clients)" by (simp add: own_clients_def demo_account_rows)
  ultimately show ?thesis by simp
qed

lemma demo_body: "body_of demo_deployment CLIENT_CREATE (PDict [(''name'', PStr ''Acme'')]) = ret [(''name'', PStr ''Acme''), (''company'', PNone)]"
  by (simp add: body_of_def demo_deployment_def CLIENT_CREATE_def model_validate_def size_between_def checked_def)

lemma demo_client_read:
  assumes "u < 2 ^ 128"
  shows "reads D CLIENT_READ [(''id'', PStr (uuid_str u)), (''name'', PStr n), (''company'', PNone), (''row_version'', PInt k),
      (''created_at'', PStr (json_time 0)), (''updated_at'', PStr (json_time 0))] =
    ret [(''id'', PStr (uuid_str u)), (''name'', PStr n), (''company'', PNone), (''row_version'', PInt k),
      (''created_at'', PStr (json_time 0)), (''updated_at'', PStr (json_time 0))]"
proof -
  have "representable 0" by code_simp
  then show ?thesis using assms
    by (simp add: reads_def CLIENT_READ_def model_validate_def size_between_def between_def checked_def
        uuid_of_str_uuid_str read_json_time_json_time of_result_def)
qed

lemma demo_fields: "text_at [(''name'', PStr ''Acme''), (''company'', PNone)] ''name'' = ''Acme''"
  "opt_text_at [(''name'', PStr ''Acme''), (''company'', PNone)] ''company'' = None"
  by (simp_all add: text_at_def opt_text_at_def dict_get_def)

lemma demo_deployment_parts: "dp_env demo_deployment = demo_env" "dp_rivals demo_deployment = []"
  by (simp_all add: demo_deployment_def)

lemma posted_client:
  "\<exists>v t. operate demo_deployment owner_ctx (Some ''k1'') (AccountCall (PostClient (PDict [(''name'', PStr ''Acme'')]))) demo_clients = (Inr v, t)"
  by (simp add: post_client_def demo_body demo_client_read keyed_def key_header_def demo_deployment_parts demo_fields
     execute_idempotent_def create_client_def answer_once_def execute_and_record_def
        run_catchE join_rivals_def record_response_def add_idempotency_def idempotency_for_def account_parts demo_account_rows
        del: dumps.simps cong: bindE_weak)

theorem answered_call_replayed_witness:
  "\<exists>v t. operate demo_deployment owner_ctx (Some ''k1'') (AccountCall (PostClient (PDict [(''name'', PStr ''Acme'')]))) demo_clients = (Inr v, t) \<and>
     operate demo_deployment owner_ctx (Some ''k1'') (AccountCall (PostClient (PDict [(''name'', PStr ''Acme'')])))
       (t\<lparr>clock := 60000000\<rparr>) = (Inr v, t\<lparr>clock := 60000000\<rparr>)"
proof -
  obtain v t where run: "operate demo_deployment owner_ctx (Some ''k1'') (AccountCall (PostClient (PDict [(''name'', PStr ''Acme'')]))) demo_clients = (Inr v, t)"
    using posted_client by blast
  have "email_stable (dp_formats demo_deployment)" by (simp add: email_stable_def demo_deployment_def)
  moreover have "reaches_key owner_ctx (AccountCall (PostClient b)) u" for b u by (simp add: reaches_key_def keyed_call_def)
  moreover have "table_evolves idem_id (=) (api_idempotency_rows t) (api_idempotency_rows (t\<lparr>clock := 60000000\<rparr>))"
    by (simp add: table_evolves_def)
  ultimately show ?thesis using answered_call_replayed [OF _ run] run by blast
qed

end
