(* ===== verification/Evaluation.thy ===== *)
theory Evaluation
  imports Preparation
begin

text \<open>
  \<open>services/agents/evaluation.py\<close>: the synthetic dataset of 120 labelled requests, its split into a
  development and a held-out half, and the scoring of a classifier. The classifier is an argument; it is given
  the input of a case, which does not hold the label. \<open>uuid5\<close> under the module's namespace is a parameter, as
  SHA-256 is. The ratios are exact rationals: of counts this small, the floats Python compares with 0.95 and
  0.80 are on the same side of them.
\<close>

section \<open>Cases and predictions\<close>

record evaluation_input =
  ein_case_id :: string
  ein_project_id :: uuid
  ein_contract_id :: string
  ein_text :: string
  ein_evidence_complete :: bool
  ein_contradictory :: bool
  ein_allowed_reference_ids :: "string list"

record evaluation_case =
  ecase_case_id :: string
  ecase_project_id :: uuid
  ecase_contract_id :: string
  ecase_text :: string
  ecase_label :: classification
  ecase_evidence_complete :: bool
  ecase_contradictory :: bool
  ecase_allowed_reference_ids :: "string list"

definition model_input :: "evaluation_case \<Rightarrow> evaluation_input" where
  "model_input c = \<lparr>ein_case_id = ecase_case_id c, ein_project_id = ecase_project_id c, ein_contract_id = ecase_contract_id c,
     ein_text = ecase_text c, ein_evidence_complete = ecase_evidence_complete c, ein_contradictory = ecase_contradictory c,
     ein_allowed_reference_ids = ecase_allowed_reference_ids c\<rparr>"

record evaluation_prediction =
  epred_classification :: "classification option"
  epred_reference_ids :: "string list"

text \<open>A classifier returns a prediction or only a classification, or none.\<close>

definition prediction_of :: "evaluation_prediction + classification option \<Rightarrow> evaluation_prediction" where
  "prediction_of v = (case v of Inl p \<Rightarrow> p | Inr c \<Rightarrow> \<lparr>epred_classification = c, epred_reference_ids = []\<rparr>)"

section \<open>The dataset\<close>

definition SCENARIOS :: "classification \<Rightarrow> (string \<Rightarrow> nat \<Rightarrow> string) list" where
  "SCENARIOS label = (case label of
     IN_SCOPE \<Rightarrow>
       [\<lambda>c n. ''Fix the documented baseline login redirect for '' @ c @ ''.'',
        \<lambda>c n. ''Complete the already-contracted responsive layout for '' @ c @ ''.'',
        \<lambda>c n. ''Correct the acceptance-tested validation defect in '' @ c @ ''.'',
        \<lambda>c n. ''Please deliver the contracted CSV field mapping for '' @ c @ ''.'']
   | PREVIOUSLY_APPROVED \<Rightarrow>
       [\<lambda>c n. ''Continue amendment AM-'' @ nat_str n @ '' for the approved SSO work in '' @ c @ ''.'',
        \<lambda>c n. ''Finish the accepted change order covering audit export in '' @ c @ ''.'',
        \<lambda>c n. ''The signed amendment already adds webhooks to '' @ c @ ''; proceed.'',
        \<lambda>c n. ''Resume the previously approved accessibility extension for '' @ c @ ''.'']
   | AMBIGUOUS \<Rightarrow>
       [\<lambda>c n. ''Can you make '' @ c @ '' better soon? Acceptance criteria are missing.'',
        \<lambda>c n. ''Please improve the experience around '' @ c @ ''; scope is not specified.'',
        \<lambda>c n. ''Something feels off in '' @ c @ ''. Can you handle it?'',
        \<lambda>c n. ''We may need changes to '' @ c @ '', but requirements are still undecided.'']
   | NOT_A_SCOPE_REQUEST \<Rightarrow>
       [\<lambda>c n. ''Status update for '' @ c @ '': stakeholders approved the current demo.'',
        \<lambda>c n. ''Thanks for the work on '' @ c @ ''; no implementation is requested.'',
        \<lambda>c n. ''For information only, the '' @ c @ '' launch meeting moved to Friday.'',
        \<lambda>c n. ''Sharing feedback about '' @ c @ ''; please do not make changes yet.'']
   | POTENTIAL_SCOPE_CHANGE \<Rightarrow>
       [\<lambda>c n. ''Add a new Entra OIDC integration and tests to '' @ c @ ''.'',
        \<lambda>c n. ''Build a new PDF export workflow for '' @ c @ ''; it is absent from contract.'',
        \<lambda>c n. ''Add multi-currency invoicing to '' @ c @ '' as a new deliverable.'',
        \<lambda>c n. ''Create a native mobile offline mode for '' @ c @ '', beyond baseline scope.''])"

definition case_label :: "nat \<Rightarrow> classification" where
  "case_label index =
     (if 60 \<le> index \<and> index < 80 then POTENTIAL_SCOPE_CHANGE
      else if index mod 5 = 0 then IN_SCOPE
      else if index mod 5 = 1 then PREVIOUSLY_APPROVED
      else if index mod 5 = 2 then AMBIGUOUS
      else if index mod 5 = 3 then NOT_A_SCOPE_REQUEST
      else POTENTIAL_SCOPE_CHANGE)"

definition case_components :: "string list" where
  "case_components = [''account settings'', ''billing dashboard'', ''project timeline'', ''client portal'', ''notification center'',
     ''reporting screen'']"

definition numbered :: "string \<Rightarrow> nat \<Rightarrow> string" where
  "numbered prefix index = prefix @ padded 3 (int index)"

definition evaluation_case_at :: "(string \<Rightarrow> uuid) \<Rightarrow> nat \<Rightarrow> evaluation_case" where
  "evaluation_case_at uuid5 index =
     (let label = case_label index;
          template = SCENARIOS label ! (index div 5 mod length (SCENARIOS label));
          txt = template (case_components ! (index mod length case_components)) (100 + index)
      in \<lparr>ecase_case_id = numbered ''case-'' index, ecase_project_id = uuid5 (''project-'' @ nat_str index),
          ecase_contract_id = numbered ''contract-'' index, ecase_text = txt @ numbered '' [request '' index @ '']'',
          ecase_label = label, ecase_evidence_complete = (label \<noteq> AMBIGUOUS),
          ecase_contradictory = (label = AMBIGUOUS \<and> index mod 2 = 0),
          ecase_allowed_reference_ids = [numbered ''reference-'' index]\<rparr>)"

definition build_evaluation_dataset :: "(string \<Rightarrow> uuid) \<Rightarrow> evaluation_case list" where
  "build_evaluation_dataset uuid5 = map (evaluation_case_at uuid5) [0..<120]"

definition split_evaluation_dataset ::
  "(string \<Rightarrow> uuid) \<Rightarrow> evaluation_case list option \<Rightarrow> exn + evaluation_case list \<times> evaluation_case list" where
  "split_evaluation_dataset uuid5 cases =
     (let dataset = (case cases of None \<Rightarrow> build_evaluation_dataset uuid5
                      | Some cs \<Rightarrow> if cs = [] then build_evaluation_dataset uuid5 else cs)
      in if length dataset \<noteq> 120 \<or> length (remdups (map ecase_project_id dataset)) \<noteq> 120 then Inl ValueError
         else Inr (take 60 dataset, drop 60 dataset))"

definition case_asdict :: "evaluation_case \<Rightarrow> pyval" where
  "case_asdict c = PDict [(''case_id'', PStr (ecase_case_id c)), (''project_id'', PUuid (ecase_project_id c)),
     (''contract_id'', PStr (ecase_contract_id c)), (''text'', PStr (ecase_text c)),
     (''label'', PStr (classification_value (ecase_label c))), (''evidence_complete'', PBool (ecase_evidence_complete c)),
     (''contradictory'', PBool (ecase_contradictory c)),
     (''allowed_reference_ids'', PTuple (map PStr (ecase_allowed_reference_ids c)))]"

definition dataset_digest :: "(string \<Rightarrow> string) \<Rightarrow> evaluation_case list \<Rightarrow> exn + string" where
  "dataset_digest sha cases = canonical_sha256 sha (PList (map case_asdict cases))"

section \<open>Scoring\<close>

type_synonym confusion = "(string \<times> (string \<times> nat) list) list"

record evaluation_metrics =
  em_count :: nat
  em_confusion_matrix :: confusion
  em_proposals :: nat
  em_correct_proposals :: nat
  em_positive_cases :: nat
  em_positive_recalled :: nat
  em_abstentions :: nat
  em_invalid_references :: nat
  em_proposal_precision :: rat
  em_positive_recall :: rat
  em_reference_validity :: rat
  em_latency_ms :: int
  em_cost_minor :: int

definition evaluation_passed :: "evaluation_metrics \<Rightarrow> bool" where
  "evaluation_passed m \<longleftrightarrow> 95 / 100 \<le> em_proposal_precision m \<and> 80 / 100 \<le> em_positive_recall m \<and> em_invalid_references m = 0"

text \<open>The counters of the loop.\<close>

record tally =
  tl_matrix :: confusion
  tl_proposals :: nat
  tl_correct :: nat
  tl_positives :: nat
  tl_recalled :: nat
  tl_abstentions :: nat
  tl_invalid :: nat

definition matrix_add :: "string \<Rightarrow> string \<Rightarrow> confusion \<Rightarrow> confusion" where
  "matrix_add l k m =
     map (\<lambda>(r, row). (r, if r = l then map (\<lambda>(c, n). (c, if c = k then n + 1 else n)) row else row)) m"

definition matrix_key :: "string list \<Rightarrow> classification option \<Rightarrow> string" where
  "matrix_key labels predicted =
     (case predicted of None \<Rightarrow> ''ABSTAIN''
      | Some c \<Rightarrow> if classification_value c \<in> set labels then classification_value c else ''ABSTAIN'')"

definition tally_case ::
  "string list \<Rightarrow> (evaluation_input \<Rightarrow> evaluation_prediction + classification option) \<Rightarrow> tally \<Rightarrow> evaluation_case \<Rightarrow> tally" where
  "tally_case labels predict t c =
     (let prediction = prediction_of (predict (model_input c));
          predicted = epred_classification prediction;
          positive = (ecase_label c = POTENTIAL_SCOPE_CHANGE);
          proposed = (predicted = Some POTENTIAL_SCOPE_CHANGE)
      in \<lparr>tl_matrix = matrix_add (classification_value (ecase_label c)) (matrix_key labels predicted) (tl_matrix t),
          tl_proposals = tl_proposals t + (if proposed then 1 else 0),
          tl_correct = tl_correct t + (if proposed \<and> positive then 1 else 0),
          tl_positives = tl_positives t + (if positive then 1 else 0),
          tl_recalled = tl_recalled t + (if positive \<and> proposed then 1 else 0),
          tl_abstentions = tl_abstentions t + (if predicted = None then 1 else 0),
          tl_invalid = tl_invalid t + length (filter (\<lambda>r. r \<notin> set (ecase_allowed_reference_ids c)) (epred_reference_ids prediction))\<rparr>)"

definition case_labels :: "evaluation_case list \<Rightarrow> string list" where
  "case_labels cases = sort (remdups (map (\<lambda>c. classification_value (ecase_label c)) cases))"

definition matrix_of :: "string list \<Rightarrow> string list \<Rightarrow> (string \<Rightarrow> string \<Rightarrow> nat) \<Rightarrow> confusion" where
  "matrix_of rows columns f = map (\<lambda>r. (r, map (\<lambda>c. (c, f r c)) columns)) rows"

definition no_tally :: "string list \<Rightarrow> tally" where
  "no_tally labels = \<lparr>tl_matrix = matrix_of labels (labels @ [''ABSTAIN'']) (\<lambda>_ _. 0), tl_proposals = 0, tl_correct = 0,
     tl_positives = 0, tl_recalled = 0, tl_abstentions = 0, tl_invalid = 0\<rparr>"

definition ratio :: "nat \<Rightarrow> nat \<Rightarrow> rat" where
  "ratio a b = (if b = 0 then 0 else of_nat a / of_nat b)"

text \<open>\<open>measured\<close> is the time the loop took, in milliseconds; no case at all divides by zero.\<close>

definition evaluate_predictions ::
  "evaluation_case list \<Rightarrow> (evaluation_input \<Rightarrow> evaluation_prediction + classification option) \<Rightarrow> int \<Rightarrow> int option \<Rightarrow> int \<Rightarrow>
   exn + evaluation_metrics" where
  "evaluate_predictions cases predict measured latency_ms cost =
     (let labels = case_labels cases;
          t = foldl (tally_case labels predict) (no_tally labels) cases
      in if cases = [] then Inl (OtherError ''ZeroDivisionError'')
         else Inr \<lparr>em_count = length cases, em_confusion_matrix = tl_matrix t, em_proposals = tl_proposals t,
           em_correct_proposals = tl_correct t, em_positive_cases = tl_positives t, em_positive_recalled = tl_recalled t,
           em_abstentions = tl_abstentions t, em_invalid_references = tl_invalid t,
           em_proposal_precision = ratio (tl_correct t) (tl_proposals t), em_positive_recall = ratio (tl_recalled t) (tl_positives t),
           em_reference_validity = 1 - of_nat (tl_invalid t) / of_nat (length cases),
           em_latency_ms = (case latency_ms of None \<Rightarrow> measured | Some l \<Rightarrow> l), em_cost_minor = cost\<rparr>)"

text \<open>Three runs on the held-out half; \<open>predict i\<close> is the classifier as it answers in run \<open>i\<close>.\<close>

definition run_three_held_out_evaluations ::
  "(string \<Rightarrow> uuid) \<Rightarrow> (nat \<Rightarrow> evaluation_input \<Rightarrow> evaluation_prediction + classification option) \<Rightarrow> (nat \<Rightarrow> int) \<Rightarrow> int \<Rightarrow>
   exn + evaluation_metrics list" where
  "run_three_held_out_evaluations uuid5 predict measured cost =
     (case split_evaluation_dataset uuid5 None of
        Inl e \<Rightarrow> Inl e
      | Inr (_, held_out) \<Rightarrow>
     (case evaluate_predictions held_out (predict 0) (measured 0) None cost of Inl e \<Rightarrow> Inl e | Inr a \<Rightarrow>
     (case evaluate_predictions held_out (predict 1) (measured 1) None cost of Inl e \<Rightarrow> Inl e | Inr b \<Rightarrow>
     (case evaluate_predictions held_out (predict 2) (measured 2) None cost of Inl e \<Rightarrow> Inl e | Inr c \<Rightarrow> Inr [a, b, c]))))"

section \<open>What the scores count\<close>

lemma matrix_add_of:
  "matrix_add l k (matrix_of rows columns f) = matrix_of rows columns (\<lambda>r c. f r c + (if r = l \<and> c = k then 1 else 0))"
  by (auto simp: matrix_add_def matrix_of_def)

definition predicted_class :: "(evaluation_input \<Rightarrow> evaluation_prediction + classification option) \<Rightarrow> evaluation_case \<Rightarrow> classification option" where
  "predicted_class predict c = epred_classification (prediction_of (predict (model_input c)))"

definition invented :: "(evaluation_input \<Rightarrow> evaluation_prediction + classification option) \<Rightarrow> evaluation_case \<Rightarrow> string list" where
  "invented predict c =
     filter (\<lambda>r. r \<notin> set (ecase_allowed_reference_ids c)) (epred_reference_ids (prediction_of (predict (model_input c))))"

abbreviation counting :: "('a \<Rightarrow> bool) \<Rightarrow> 'a list \<Rightarrow> nat" where
  "counting p xs \<equiv> length (filter p xs)"

lemma tally_counts:
  "tl_matrix t = matrix_of rows columns f \<Longrightarrow> foldl (tally_case labels predict) t cases =
   \<lparr>tl_matrix = matrix_of rows columns (\<lambda>r k. f r k +
        counting (\<lambda>c. classification_value (ecase_label c) = r \<and> matrix_key labels (predicted_class predict c) = k) cases),
    tl_proposals = tl_proposals t + counting (\<lambda>c. predicted_class predict c = Some POTENTIAL_SCOPE_CHANGE) cases,
    tl_correct = tl_correct t +
      counting (\<lambda>c. predicted_class predict c = Some POTENTIAL_SCOPE_CHANGE \<and> ecase_label c = POTENTIAL_SCOPE_CHANGE) cases,
    tl_positives = tl_positives t + counting (\<lambda>c. ecase_label c = POTENTIAL_SCOPE_CHANGE) cases,
    tl_recalled = tl_recalled t +
      counting (\<lambda>c. predicted_class predict c = Some POTENTIAL_SCOPE_CHANGE \<and> ecase_label c = POTENTIAL_SCOPE_CHANGE) cases,
    tl_abstentions = tl_abstentions t + counting (\<lambda>c. predicted_class predict c = None) cases,
    tl_invalid = tl_invalid t + sum_list (map (\<lambda>c. length (invented predict c)) cases)\<rparr>"
proof (induction cases arbitrary: t f)
  case (Cons c cases)
  have "tl_matrix (tally_case labels predict t c) = matrix_of rows columns
      (\<lambda>r k. f r k + (if r = classification_value (ecase_label c) \<and> k = matrix_key labels (predicted_class predict c) then 1 else 0))"
    using Cons.prems by (simp add: tally_case_def Let_def matrix_add_of predicted_class_def)
  note step = Cons.IH [OF this]
  show ?case unfolding foldl.simps step
    by (simp add: tally_case_def Let_def predicted_class_def invented_def matrix_of_def)
qed simp


lemma ratio_at_least: "0 < b \<Longrightarrow> 0 < q \<Longrightarrow> of_nat p / of_nat q \<le> ratio a b \<longleftrightarrow> p * b \<le> a * q"
proof -
  assume bq: "0 < b" "0 < q"
  have "(of_nat p / of_nat q \<le> (of_nat a / of_nat b :: rat)) \<longleftrightarrow> (of_nat (p * b) :: rat) \<le> of_nat (a * q)"
    using bq by (simp add: field_simps)
  then show ?thesis using bq by (simp only: ratio_def of_nat_le_iff) simp
qed

text \<open>
  The scores are the counts they are named after, the matrix counts the cases of each label by what was
  predicted, and a run passes exactly when at most one proposal in twenty is wrong, four positive cases
  in five are recalled, and no reference is invented; a run without proposals or positive cases fails.
\<close>

lemma evaluation_scores:
  assumes "evaluate_predictions cases predict measured latency cost = Inr m"
  shows "em_count m = length cases"
    and "em_confusion_matrix m = matrix_of (case_labels cases) (case_labels cases @ [''ABSTAIN''])
      (\<lambda>r k. counting (\<lambda>c. classification_value (ecase_label c) = r \<and> matrix_key (case_labels cases) (predicted_class predict c) = k) cases)"
    and "em_proposals m = counting (\<lambda>c. predicted_class predict c = Some POTENTIAL_SCOPE_CHANGE) cases"
    and "em_correct_proposals m =
      counting (\<lambda>c. predicted_class predict c = Some POTENTIAL_SCOPE_CHANGE \<and> ecase_label c = POTENTIAL_SCOPE_CHANGE) cases"
    and "em_positive_recalled m = em_correct_proposals m"
    and "em_positive_cases m = counting (\<lambda>c. ecase_label c = POTENTIAL_SCOPE_CHANGE) cases"
    and "em_abstentions m = counting (\<lambda>c. predicted_class predict c = None) cases"
    and "em_invalid_references m = sum_list (map (\<lambda>c. length (invented predict c)) cases)"
    and "em_proposal_precision m = ratio (em_correct_proposals m) (em_proposals m)"
    and "em_positive_recall m = ratio (em_positive_recalled m) (em_positive_cases m)"
  using assms tally_counts [of "no_tally (case_labels cases)" "case_labels cases" "case_labels cases @ [''ABSTAIN'']" "\<lambda>_ _. 0"
      "case_labels cases" predict cases]
  by (auto simp: evaluate_predictions_def Let_def no_tally_def split: if_splits)

lemma evaluation_passes:
  assumes "evaluate_predictions cases predict measured latency cost = Inr m"
  shows "evaluation_passed m \<longleftrightarrow>
    0 < em_proposals m \<and> 19 * em_proposals m \<le> 20 * em_correct_proposals m \<and>
    0 < em_positive_cases m \<and> 4 * em_positive_cases m \<le> 5 * em_correct_proposals m \<and> em_invalid_references m = 0"
proof -
  have precision: "95 / 100 \<le> em_proposal_precision m \<longleftrightarrow> 0 < em_proposals m \<and> 19 * em_proposals m \<le> 20 * em_correct_proposals m"
  proof (cases "em_proposals m")
    case (Suc n) then show ?thesis
      using ratio_at_least [of "em_proposals m" 100 95 "em_correct_proposals m"] by (simp add: evaluation_scores(9) [OF assms]) linarith
  qed (simp add: evaluation_scores(9) [OF assms] ratio_def)
  have recall: "80 / 100 \<le> em_positive_recall m \<longleftrightarrow> 0 < em_positive_cases m \<and> 4 * em_positive_cases m \<le> 5 * em_correct_proposals m"
  proof (cases "em_positive_cases m")
    case (Suc n) then show ?thesis
      using ratio_at_least [of "em_positive_cases m" 100 80 "em_correct_proposals m"]
      by (simp add: evaluation_scores(5,10) [OF assms]) linarith
  qed (simp add: evaluation_scores(10) [OF assms] ratio_def)
  show ?thesis unfolding evaluation_passed_def precision recall by blast
qed

text \<open>The held-out half has 28 positive cases, and the same cases in every build.\<close>

lemma held_out_positives: "counting (\<lambda>c. ecase_label c = POTENTIAL_SCOPE_CHANGE) (drop 60 (build_evaluation_dataset uuid5)) = 28"
proof -
  have "counting (\<lambda>c. ecase_label c = POTENTIAL_SCOPE_CHANGE) (map (evaluation_case_at uuid5) js) =
      counting (\<lambda>l. l = POTENTIAL_SCOPE_CHANGE) (map case_label js)" for js
    by (induction js) (simp_all add: evaluation_case_at_def Let_def)
  then have "counting (\<lambda>c. ecase_label c = POTENTIAL_SCOPE_CHANGE) (drop 60 (build_evaluation_dataset uuid5)) =
      counting (\<lambda>l. l = POTENTIAL_SCOPE_CHANGE) (map case_label (drop 60 [0..<120]))"
    by (simp only: build_evaluation_dataset_def drop_map)
  also have "\<dots> = 28" by code_simp
  finally show ?thesis .
qed

end
