(* ===== verification/Spec2Isabelle.thy ===== *)
theory Spec2Isabelle
  imports Capacity Accounts_Safety Budgets Analysis_Safety Contracts_Safety Scope_Safety Workers_Safety Interface_Safety Evaluation
begin

text \<open>
  ScopeGuard, a service for freelancers: it watches what clients ask for, compares each request with
  the confirmed contract, prepares change orders from evidence, lets the freelancer approve the exact
  offer, sends it, takes the client's acceptance and collects the payment. The program is a set of
  Python services over one PostgreSQL database, called by the HTTP routes and by the workers of a
  durable job queue. The theories below model those services; each names its source files.

  The program's state is one record \<open>db\<close>: a list of rows per table of \<open>services/domain/models.py\<close>, the
  clock, and the supplies of fresh UUIDs and tokens. An operation is a value of \<open>'a act\<close>, a function from
  a database to a result or an exception and the database it leaves: Python keeps the mutations made
  before an exception, and so does the model. A request or a worker's transaction is rolled back by its
  caller, which is modelled where the caller is (\<open>Outbox\<close>, the histories of \<open>Offer_Safety\<close>). A constraint that
  fails is \<open>IntegrityError\<close> where the row is added. A session whose flush failed takes no statement before a rollback
  and raises \<open>PendingRollbackError\<close>: a savepoint (\<open>rollback_to\<close>, \<open>atomically\<close>) or the end of the request ends that
  state; a claimed job has neither, so \<open>Workers\<close> restores the tables, leaves the job running and ends the
  invocation.

  \<^item> \<open>Prelude\<close>: the state monad with exceptions, a calculus of state properties of its programs
    (\<open>evolves\<close>, the locales \<open>state_order\<close>, \<open>state_invariant\<close>, \<open>state_frame\<close>), tables of rows and how they
    may move (\<open>evolving_table\<close>, \<open>guarded_table\<close>), string operations.
  \<^item> \<open>Domain\<close>: \<open>services/domain/errors.py\<close>, \<open>enums.py\<close>, \<open>auth.py\<close>. \<open>Values\<close>: Python values and
    \<open>canonical.py\<close>. \<open>Models\<close>: the tables, their check and unique constraints. \<open>Dates\<close>: ISO timestamps and
    URL-safe base64.
  \<^item> \<open>Jobs\<close>, \<open>Outbox\<close>, \<open>Actions\<close>: \<open>services/workers/durable.py\<close>, \<open>transactions.py\<close>, \<open>faults.py\<close>, the
    sweeps of \<open>recovery.py\<close> and the operator interface \<open>services/api/operations.py\<close>. A job is claimed
    under a lease with a fencing generation; a command writes its effect, its audit event and its message
    in one transaction; every call to a provider is an external action with at most three attempts.
  \<^item> \<open>Capacity\<close>: \<open>services/workers/capacity.py\<close>, the slots of running analyses.
  \<^item> \<open>Payments\<close>, \<open>Payment_Safety\<close>: \<open>services/payments/service.py\<close> and \<open>services/integrations/razorpay.py\<close>:
    payment requests, their links at the provider, webhooks, observations, reconciliation.
  \<^item> \<open>ChangeOrders\<close>, \<open>Offer_Safety\<close>, \<open>Acceptance\<close>: \<open>services/change_orders/service.py\<close>: revisions, the
    freelancer's approval, sending, capability links and sessions, acceptance, decisions, withdrawal.
  \<^item> \<open>Pricing\<close>: \<open>services/domain/money.py\<close> and \<open>terms.py\<close>. \<open>Accounts\<close>, \<open>Accounts_Safety\<close>:
    \<open>services/api/service.py\<close> with the response models of \<open>schemas.py\<close> it returns.
  \<^item> \<open>Analysis\<close>, \<open>Budgets\<close>: \<open>services/agents/persistence.py\<close>, \<open>limits.py\<close>, \<open>costs.py\<close>.
    \<open>Preparation\<close>, \<open>Analysis_Safety\<close>: the role outputs, \<open>validation.py\<close>, \<open>gates.py\<close>, \<open>workflow.py\<close>.
  \<^item> \<open>Documents\<close>: \<open>services/contracts/extraction.py\<close> and \<open>structure.py\<close>: the text of an upload, its chunks, and
    the candidate spans proposed for them. \<open>Contracts\<close>: \<open>storage.py\<close>, \<open>service.py\<close>, \<open>requests.py\<close> and
    \<open>evidence.py\<close>: uploads, scope candidates and versions, the routing of external events to projects, client
    requests, evidence. \<open>_require_project\<close> is \<open>get_project\<close> of \<open>Accounts\<close>. \<open>Contracts_Safety\<close>, \<open>Scope_Safety\<close>:
    what they guarantee.
  \<^item> \<open>Gmail\<close>, \<open>Mailbox\<close>: \<open>services/integrations/gmail.py\<close>. \<open>Gmail\<close> has the OAuth sessions, the sealed
    credentials and the requests to the provider, \<open>Mailbox\<close> the messages, history pages, gaps, backfills, the
    watch, pushes, disconnection, maintenance and the sending of an offer. \<open>Mailbox_Safety\<close>: what every
    sequence of them keeps. \<open>Delivery\<close>: \<open>ses.py\<close> and the connector contracts, policy and guards.
  \<^item> \<open>Roles\<close>: \<open>services/agents/roles.py\<close> and \<open>strands_roles.py\<close>. \<open>Live\<close>, \<open>Live_Safety\<close>: \<open>live.py\<close>, the analysis
    of a request between its two transactions. \<open>Evaluation\<close>: \<open>evaluation.py\<close>, with what its scores count.
  \<^item> \<open>Workers\<close>, \<open>Workers_Safety\<close>: \<open>services/workers/handlers.py\<close>, the sweep of \<open>recovery.py\<close> and the entry point
    \<open>lambda_handler.py\<close>. They call all the services above; a claimed job runs with \<open>worker_services\<close>.
  \<^item> \<open>Schemas\<close>, \<open>Access\<close>, \<open>Routes\<close>, \<open>Entry_Routes\<close>: the HTTP interface \<open>services/api\<close>. \<open>Schemas\<close> has the
    pydantic models of \<open>schemas.py\<close> as data, read by one \<open>model_validate\<close>. \<open>Access\<close> is the frame of a request:
    \<open>config.py\<close>, the verified identity and the context of \<open>auth.py\<close>, the session of \<open>database.py\<close>, the replies of
    \<open>app.py\<close>, and \<open>observability.py\<close>. \<open>Routes\<close> has one definition per operator's route of \<open>routes.py\<close> and
    dispatches them in \<open>operate\<close>, \<open>Entry_Routes\<close> those without an operator's context, in \<open>enter\<close>. Each route
    calls the operations above, the commands among them under the request's key.

  What the lemmas show. Properties over histories quantify over any sequence of the component's
  operations with any arguments: an operation that evolves its tables by the allowed row moves composes
  with any other (\<open>evolve_rules\<close>), so an invariant is proved once per operation. \<open>Payment_Safety\<close>: frozen
  terms, verified captures, one effect per event. \<open>Jobs\<close>, \<open>Outbox\<close>, \<open>Actions\<close>: fencing, exclusion of
  claims, bounded attempts, atomic commands, no lost wake-up. \<open>Offer_Safety\<close> and \<open>Acceptance\<close>: no offer
  without an approval of exactly its content, and a refinement of the first acceptance to one step of an
  abstract ledger. \<open>Pricing\<close>: bounds of the price, equality with exact arithmetic, termination of the
  working-day search. \<open>Capacity\<close>, \<open>Budgets\<close>: bounds kept by every history. \<open>Accounts_Safety\<close>: replay of
  request keys, refusal of stale versions, complete pages. \<open>Analysis_Safety\<close>: no proposal without evidence.
  \<open>Contracts_Safety\<close>: candidates quote the uploaded text. \<open>Scope_Safety\<close>: a confirmed scope is final.
  \<open>Mailbox_Safety\<close>: OAuth states used once, silence of a disconnected mailbox, sealed tokens read back.
  \<open>Live_Safety\<close>: the conflict of the two digests of a live analysis. \<open>Workers_Safety\<close>: the row a job leaves,
  the jobs that cannot succeed, the bound of an invocation.
  \<open>Interface_Safety\<close>: a tenant's reading calls see only the tenant's rows, a request key makes a call take effect
  once, and a call runs only for an active account and leaves no trace when it is refused.
  Some properties record a flaw of the code and are stated as the code behaves.

  Bounds. \<open>add_working_days\<close> steps day by day to the last date of the calendar at most, which is its measure, and
  \<open>Pricing\<close> proves when the days suffice;
  the scans of \<open>Documents\<close> terminate by the length of the text left or the number of keys taken;
  \<open>json_members\<close> has the length of the text as its fuel, more than it has members; \<open>work_batches\<close> has the 25
  jobs of an invocation as its fuel, and \<open>Workers_Safety\<close> proves that more changes nothing; every other loop is structural recursion over the rows selected. Integers are Python's, unbounded, with
  the bounds the code checks written out; decimals carry 28 digits; times count microseconds.

  Parameters of the model, never defined here: SHA-256 and HMAC, AES-GCM, the random tokens, time zones,
  the providers' answers (Razorpay, the object store, the model service, the proposals of the structure provider;
  those of Gmail and SES are functions of the number of the exchange, so each call has its own), the event bus, the
  serialisation of an email, the token library of the identity provider, the validation of email addresses and of
  zone names, \<open>json.loads\<close> of a webhook body, what other sessions commit while the model service answers (\<open>meanwhile\<close>), the decoding of UTF-8, zip archives and XML (\<open>document_reader\<close>), and the rows that other sessions
  commit between a read and a write where the code handles that race.

  Not modelled: row locks (operations run one after the other, and interleavings are sequences of whole
  operations), foreign keys and column lengths, log lines, the messages and details of
  error answers, CORS and the OpenAPI document, the prompts of the roles and the parsing of their answers (pydantic), the
  HTTP wrapper of the agents, migrations and scripts; of the JSON texts inside sealed credentials only objects of
  texts, which are all that is ever sealed. Sessions run with \<open>autoflush=False\<close>
  (\<open>services/api/database.py\<close>); a query that depended on an unflushed write would be modelled so, and none
  of the modelled ones does. \<open>casefold\<close> is read on ASCII text, and the monotonic clock as a rational. One
  operation reads one clock, except that the items of a scope version are stamped a microsecond apart.
\<close>

end
